(* ===== verification/Ncn_Prelude.thy ===== *)
theory Ncn_Prelude
  imports Main "HOL-Library.Word"
begin

text \<open>
  Shared vocabulary of the development: the machine integers of the Rust sources, the
  \<open>Result\<close> type with its \<open>?\<close> operator, the checked arithmetic of \<open>core::num\<close>, and the
  iterator idioms (\<open>iter().find\<close>, \<open>iter_mut().find\<close> followed by an assignment,
  \<open>max_by_key\<close>, \<open>filter(..).count()\<close>) that the account types of \<open>core/src\<close> are written
  with.  Every arithmetic fact is stated through \<open>unat\<close>, so that the component proofs are
  linear arithmetic on \<open>nat\<close>.
\<close>

section \<open>Machine integers and keys\<close>

type_synonym u8 = "8 word"
type_synonym u16 = "16 word"
type_synonym u32 = "32 word"
type_synonym u64 = "64 word"
type_synonym u128 = "128 word"

text \<open>A \<open>Pubkey\<close> is 32 bytes; \<open>Pubkey::default()\<close> is the all-zero key.\<close>

type_synonym pubkey = "256 word"

abbreviation Pubkey_default :: pubkey where
  "Pubkey_default \<equiv> 0"

abbreviation u16_MAX :: u16 where
  "u16_MAX \<equiv> - 1"

abbreviation u64_MAX :: u64 where
  "u64_MAX \<equiv> - 1"

section \<open>Proof collections\<close>

named_theorems result_simps \<open>inversion of the \<open>Result\<close> combinators\<close>
named_theorems checked_simps \<open>checked machine arithmetic read through unat\<close>

section \<open>Results\<close>

text \<open>
  \<open>Result<T, E>\<close>, with one more value for a Rust panic (an index out of bounds), which
  aborts the instruction just as an error does but is not an error value.
\<close>

datatype ('a, 'e) result = Ok (the_ok: 'a) | Err 'e | Panic

fun is_ok :: "('a, 'e) result \<Rightarrow> bool" where
  "is_ok (Ok _) = True"
| "is_ok _ = False"

text \<open>The \<open>?\<close> operator.\<close>

fun and_then :: "('a, 'e) result \<Rightarrow> ('a \<Rightarrow> ('b, 'e) result) \<Rightarrow> ('b, 'e) result" where
  "and_then (Ok x) k = k x"
| "and_then (Err e) k = Err e"
| "and_then Panic k = Panic"

text \<open>\<open>Option::ok_or\<close>, and the conversion of an error that \<open>?\<close> applies (\<open>From\<close>).\<close>

fun ok_or :: "'a option \<Rightarrow> 'e \<Rightarrow> ('a, 'e) result" where
  "ok_or None e = Err e"
| "ok_or (Some x) e = Ok x"

fun map_err :: "('e \<Rightarrow> 'f) \<Rightarrow> ('a, 'e) result \<Rightarrow> ('a, 'f) result" where
  "map_err g (Ok x) = Ok x"
| "map_err g (Err e) = Err (g e)"
| "map_err g Panic = Panic"

text \<open>An early return: \<open>if c { return Err(e) }\<close>.\<close>

definition ensure :: "bool \<Rightarrow> 'e \<Rightarrow> (unit, 'e) result" where
  "ensure c e = (if c then Ok () else Err e)"

lemma and_then_eq_Ok [result_simps]: "and_then m k = Ok y \<longleftrightarrow> (\<exists>x. m = Ok x \<and> k x = Ok y)"
  by (cases m) auto

lemma and_then_eq_Err [result_simps]:
  "and_then m k = Err e \<longleftrightarrow> m = Err e \<or> (\<exists>x. m = Ok x \<and> k x = Err e)"
  by (cases m) auto

lemma and_then_eq_Panic [result_simps]:
  "and_then m k = Panic \<longleftrightarrow> m = Panic \<or> (\<exists>x. m = Ok x \<and> k x = Panic)"
  by (cases m) auto

lemma ok_or_eq_Ok [result_simps]: "ok_or v e = Ok y \<longleftrightarrow> v = Some y"
  by (cases v) auto

lemma ok_or_eq_Err [result_simps]: "ok_or v e = Err d \<longleftrightarrow> v = None \<and> d = e"
  by (cases v) auto

lemma ok_or_neq_Panic [result_simps, simp]: "ok_or v e \<noteq> Panic"
  by (cases v) auto

lemma ensure_eq_Ok [result_simps]: "ensure c e = Ok u \<longleftrightarrow> c"
  by (auto simp: ensure_def)

lemma ensure_eq_Err [result_simps]: "ensure c e = Err d \<longleftrightarrow> \<not> c \<and> d = e"
  by (auto simp: ensure_def)

lemma ensure_neq_Panic [result_simps, simp]: "ensure c e \<noteq> Panic"
  by (simp add: ensure_def)

lemma ensure_True [simp]: "c \<Longrightarrow> ensure c e = Ok ()"
  by (simp add: ensure_def)

lemma ensure_False [simp]: "\<not> c \<Longrightarrow> ensure c e = Err e"
  by (simp add: ensure_def)

lemma map_err_eq_Ok [result_simps]: "map_err g r = Ok y \<longleftrightarrow> r = Ok y"
  by (cases r) auto

lemma map_err_eq_Err [result_simps]: "map_err g r = Err d \<longleftrightarrow> (\<exists>e. r = Err e \<and> d = g e)"
  by (cases r) auto

lemma map_err_eq_Panic [result_simps]: "map_err g r = Panic \<longleftrightarrow> r = Panic"
  by (cases r) auto

lemma is_ok_iff: "is_ok r \<longleftrightarrow> (\<exists>x. r = Ok x)"
  by (cases r) auto

section \<open>Checked arithmetic\<close>

definition checked_add :: "'a::len word \<Rightarrow> 'a word \<Rightarrow> 'a word option" where
  "checked_add a b = (if unat a + unat b < 2 ^ LENGTH('a) then Some (a + b) else None)"

definition checked_sub :: "'a::len word \<Rightarrow> 'a word \<Rightarrow> 'a word option" where
  "checked_sub a b = (if b \<le> a then Some (a - b) else None)"

definition checked_div :: "'a::len word \<Rightarrow> 'a word \<Rightarrow> 'a word option" where
  "checked_div a b = (if b = 0 then None else Some (a div b))"

definition saturating_sub :: "'a::len word \<Rightarrow> 'a word \<Rightarrow> 'a word" where
  "saturating_sub a b = (if b \<le> a then a - b else 0)"

text \<open>\<open>u64::try_from(u128)\<close>.\<close>

definition try_into_u64 :: "u128 \<Rightarrow> u64 option" where
  "try_into_u64 x = (if unat x < 2 ^ 64 then Some (ucast x) else None)"

lemma unat_add_small:
  fixes a b :: "'a::len word"
  shows "unat a + unat b < 2 ^ LENGTH('a) \<Longrightarrow> unat (a + b) = unat a + unat b"
  by (simp add: unat_word_ariths)

lemma checked_add_eq_Some [checked_simps]:
  fixes a b c :: "'a::len word"
  shows "checked_add a b = Some c \<longleftrightarrow> unat a + unat b = unat c"
proof
  assume "checked_add a b = Some c"
  then show "unat a + unat b = unat c"
    by (auto simp: checked_add_def unat_add_small split: if_splits)
next
  assume c: "unat a + unat b = unat c"
  then have lt: "unat a + unat b < 2 ^ LENGTH('a)" by simp
  with c have "a + b = c" by (simp add: word_unat_eq_iff unat_add_small)
  with lt show "checked_add a b = Some c" by (simp add: checked_add_def)
qed

lemma checked_add_eq_None [checked_simps]:
  fixes a b :: "'a::len word"
  shows "checked_add a b = None \<longleftrightarrow> 2 ^ LENGTH('a) \<le> unat a + unat b"
  by (simp add: checked_add_def not_less)

lemma checked_sub_eq_Some [checked_simps]:
  fixes a b c :: "'a::len word"
  shows "checked_sub a b = Some c \<longleftrightarrow> unat a = unat b + unat c"
proof
  assume "checked_sub a b = Some c"
  then show "unat a = unat b + unat c"
    by (auto simp: checked_sub_def unat_sub word_le_nat_alt split: if_splits)
next
  assume a: "unat a = unat b + unat c"
  then have le: "b \<le> a" by (simp add: word_le_nat_alt)
  with a have "a - b = c" by (simp add: word_unat_eq_iff unat_sub)
  with le show "checked_sub a b = Some c" by (simp add: checked_sub_def)
qed

lemma checked_sub_eq_None [checked_simps]: "checked_sub a b = None \<longleftrightarrow> unat a < unat b"
  by (simp add: checked_sub_def word_le_nat_alt not_le)

lemma checked_sub_self [simp]: "checked_sub a a = Some 0"
  by (simp add: checked_sub_def)

lemma unat_ucast_up [simp]: "unat (ucast (x :: u64) :: u128) = unat x"
  by transfer (simp add: take_bit_eq_mod)

lemma unat_ucast_u64_u128: "unat x < 2 ^ 64 \<Longrightarrow> unat (ucast (x :: u128) :: u64) = unat x"
  by transfer (simp add: take_bit_eq_mod)

lemma try_into_u64_eq_Some [checked_simps]: "try_into_u64 x = Some y \<longleftrightarrow> unat x = unat y"
proof
  assume "unat x = unat y"
  moreover have "unat y < 2 ^ 64" using unsigned_less [of y, where ?'a = nat] by simp
  ultimately show "try_into_u64 x = Some y"
    by (simp add: try_into_u64_def word_unat_eq_iff unat_ucast_u64_u128)
qed (auto simp: try_into_u64_def unat_ucast_u64_u128 split: if_splits)

lemma unat_u64_less: "unat (x :: u64) < 18446744073709551616"
  using unsigned_less [of x, where ?'a = nat] by simp

lemma unat_u128_less: "unat (x :: u128) < 340282366920938463463374607431768211456"
  using unsigned_less [of x, where ?'a = nat] by simp

lemma unat_u64_MAX [simp]: "unat u64_MAX = 18446744073709551615"
  by (simp add: unsigned_minus_1_eq_mask mask_eq_exp_minus_1)

text \<open>The next epoch or slot exists for every value but the last.\<close>

lemma checked_add_one: "checked_add (e :: u64) 1 = (if e = u64_MAX then None else Some (e + 1))"
proof (cases "e = u64_MAX")
  case False
  then have "unat e \<noteq> unat u64_MAX" by (metis word_unat_eq_iff)
  then have "unat e + 1 < 2 ^ 64" using unat_u64_less [of e] by simp
  with False show ?thesis by (simp add: checked_add_def)
qed (simp add: checked_add_def)

lemma word_next_less:
  fixes e :: u64
  assumes "unat (e + 1) = Suc (unat e)"
  shows "e < e + 1" and "e < e' \<longleftrightarrow> e + 1 \<le> e'"
  using assms by (simp_all add: word_less_nat_alt word_le_nat_alt Suc_le_eq)

section \<open>Iterator idioms\<close>

text \<open>\<open>iter().enumerate().find(p)\<close> and \<open>iter().position(p)\<close>: the first index satisfying p.\<close>

fun position :: "('a \<Rightarrow> bool) \<Rightarrow> 'a list \<Rightarrow> nat option" where
  "position p [] = None"
| "position p (x # xs) = (if p x then Some 0 else map_option Suc (position p xs))"

text \<open>\<open>iter().filter(p).count()\<close>.\<close>

definition count_where :: "('a \<Rightarrow> bool) \<Rightarrow> 'a list \<Rightarrow> nat" where
  "count_where p xs = length (filter p xs)"

text \<open>\<open>Iterator::max_by_key\<close>: the last of the elements with the greatest key.\<close>

fun max_by_key :: "('a \<Rightarrow> 'k::linorder) \<Rightarrow> 'a list \<Rightarrow> 'a option" where
  "max_by_key f [] = None"
| "max_by_key f (x # xs) =
     (case max_by_key f xs of
        None \<Rightarrow> Some x
      | Some y \<Rightarrow> if f y < f x then Some x else Some y)"

lemma position_Some:
  "position p xs = Some i \<Longrightarrow> i < length xs \<and> p (xs ! i) \<and> (\<forall>j < i. \<not> p (xs ! j))"
proof (induction xs arbitrary: i)
  case (Cons x xs)
  show ?case
  proof (cases "p x")
    case False
    with Cons.prems obtain k where k: "position p xs = Some k" "i = Suc k" by auto
    with Cons.IH [OF k(1)] False show ?thesis
      by (auto simp: less_Suc_eq_0_disj)
  qed (use Cons.prems in auto)
qed simp

lemma position_None: "position p xs = None \<longleftrightarrow> (\<forall>x \<in> set xs. \<not> p x)"
  by (induction xs) auto

lemma position_first:
  "i < length xs \<Longrightarrow> p (xs ! i) \<Longrightarrow> \<forall>j < i. \<not> p (xs ! j) \<Longrightarrow> position p xs = Some i"
proof (induction xs arbitrary: i)
  case (Cons x xs)
  show ?case
  proof (cases i)
    case (Suc k)
    with Cons.prems have "position p xs = Some k" by (intro Cons.IH) auto
    moreover have "\<not> p x" using Cons.prems(3) Suc by (metis nth_Cons_0 zero_less_Suc)
    ultimately show ?thesis using Suc by simp
  qed (use Cons.prems in auto)
qed simp

lemma position_replicate [simp]:
  "position p (replicate n x) = (if 0 < n \<and> p x then Some 0 else None)"
  by (cases n) (auto simp: position_None)

lemma position_append:
  "position p (xs @ ys) =
     (case position p xs of
        Some i \<Rightarrow> Some i
      | None \<Rightarrow> (case position p ys of None \<Rightarrow> None | Some i \<Rightarrow> Some (length xs + i)))"
  by (induction xs) (auto split: option.splits)

lemma count_where_le: "count_where p xs \<le> length xs"
  by (simp add: count_where_def)

lemma count_where_append [simp]: "count_where p (xs @ ys) = count_where p xs + count_where p ys"
  by (simp add: count_where_def)

lemma count_where_Nil [simp]: "count_where p [] = 0"
  by (simp add: count_where_def)

lemma count_where_Cons [simp]:
  "count_where p (x # xs) = (if p x then Suc (count_where p xs) else count_where p xs)"
  by (simp add: count_where_def)

lemma count_where_replicate [simp]: "count_where p (replicate n x) = (if p x then n else 0)"
  by (simp add: count_where_def)

lemma count_where_all: "count_where p xs = length xs \<longleftrightarrow> (\<forall>x \<in> set xs. p x)"
proof (induction xs)
  case (Cons x xs)
  then show ?case using count_where_le [of p xs] by auto
qed simp

lemma max_by_key_None [simp]: "max_by_key f xs = None \<longleftrightarrow> xs = []"
  by (cases xs) (auto split: option.splits)

lemma max_by_key_Some:
  "max_by_key f xs = Some y \<Longrightarrow> y \<in> set xs \<and> (\<forall>x \<in> set xs. f x \<le> f y)"
proof (induction xs arbitrary: y)
  case (Cons x xs)
  show ?case
  proof (cases "max_by_key f xs")
    case None
    with Cons.prems show ?thesis by simp
  next
    case (Some z)
    with Cons.IH [OF Some] Cons.prems show ?thesis
      by (fastforce split: if_splits)
  qed
qed simp

lemma map_update_same:
  "i < length xs \<Longrightarrow> f y = f (xs ! i) \<Longrightarrow> map f (xs[i := y]) = map f xs"
  by (metis list_update_id map_update)

section \<open>Sums over lists of records\<close>

definition sum_where :: "('a \<Rightarrow> bool) \<Rightarrow> ('a \<Rightarrow> nat) \<Rightarrow> 'a list \<Rightarrow> nat" where
  "sum_where p f xs = sum_list (map f (filter p xs))"

lemma sum_where_Nil [simp]: "sum_where p f [] = 0"
  by (simp add: sum_where_def)

lemma sum_where_Cons [simp]:
  "sum_where p f (x # xs) = (if p x then f x else 0) + sum_where p f xs"
  by (simp add: sum_where_def)

lemma sum_where_append [simp]: "sum_where p f (xs @ ys) = sum_where p f xs + sum_where p f ys"
  by (simp add: sum_where_def)

lemma sum_where_cong:
  "(\<And>x. x \<in> set xs \<Longrightarrow> p x = q x) \<Longrightarrow> sum_where p f xs = sum_where q f xs"
  by (induction xs) auto

lemma sum_where_map: "sum_where p f (map g xs) = sum_where (p \<circ> g) (f \<circ> g) xs"
  by (induction xs) auto

lemma count_where_map: "count_where p (map g xs) = count_where (p \<circ> g) xs"
  by (induction xs) auto

lemma count_where_cong:
  "(\<And>x. x \<in> set xs \<Longrightarrow> p x = q x) \<Longrightarrow> count_where p xs = count_where q xs"
  by (induction xs) auto

lemma sum_list_update:
  fixes f :: "'a \<Rightarrow> nat"
  assumes "i < length xs"
  shows "sum_list (map f (xs[i := y])) + f (xs ! i) = sum_list (map f xs) + f y"
  using assms
proof (induction xs arbitrary: i)
  case (Cons x xs)
  then show ?case by (cases i) (auto simp: algebra_simps)
qed simp

lemma sum_list_nth_le:
  fixes f :: "'a \<Rightarrow> nat"
  shows "i < length xs \<Longrightarrow> f (xs ! i) \<le> sum_list (map f xs)"
proof (induction xs arbitrary: i)
  case (Cons x xs)
  then show ?case by (cases i) (auto intro: trans_le_add2)
qed simp

end
