(* ===== verification/Ncn_Errors.thy ===== *)
theory Ncn_Errors
  imports Ncn_Prelude
begin

text \<open>
  \<open>core/src/error.rs\<close>: every variant of \<open>NCNProgramError\<close>, the numeric code each is cast to
  (the discriminants 0, 0x2100 and 0x2200 restart the numbering), and the conversion into
  the runtime's \<open>ProgramError\<close>.  Of \<open>ProgramError\<close>, an enum of the Solana SDK, only the
  variants the sources name are listed.
\<close>

section \<open>The error type of the program\<close>

datatype (plugins only:) ncn_error =
    NoValidBallots
  | DenominatorIsZero
  | ArithmeticOverflow
  | ArithmeticUnderflowError
  | ArithmeticFloorError
  | ModuloOverflow
  | NewPreciseNumberError
  | CastToImpreciseNumberError
  | CastToU64Error
  | CastToU128Error
  | IncorrectWeightTableAdmin
  | DuplicateMintsInTable
  | NoMintsInTable
  | TableNotInitialized
  | RegistryNotInitialized
  | NoVaultsInRegistry
  | VaultNotInRegistry
  | MintInTable
  | TooManyMintsForTable
  | TooManyVaultsForRegistry
  | WeightTableAlreadyInitialized
  | CannotCreateFutureWeightTables
  | WeightMintsDoNotMatchLength
  | WeightMintsDoNotMatchMintHash
  | InvalidMintForWeightTable
  | ConfigMintsNotUpdated
  | ConfigMintListFull
  | VaultRegistryListFull
  | VaultRegistryVaultLocked
  | VaultIndexAlreadyInUse
  | MintEntryNotFound
  | FeeCapExceeded
  | TotalFeesCannotBeZero
  | DefaultProtocolWallet
  | DefaultNcnWallet
  | IncorrectNcnAdmin
  | IncorrectNcn
  | IncorrectFeeAdmin
  | WeightTableNotFinalized
  | WeightNotFound
  | NoOperators
  | VaultOperatorDelegationFinalized
  | OperatorFinalized
  | TooManyVaultOperatorDelegations
  | DuplicateVaultOperatorDelegation
  | DuplicateVoteCast
  | CannotVoteWithZeroStake
  | OperatorAlreadyVoted
  | OperatorVotesFull
  | BallotTallyFull
  | BallotTallyNotFoundFull
  | BallotTallyNotEmpty
  | ConsensusAlreadyReached
  | ConsensusNotReached
  | EpochSnapshotNotFinalized
  | VotingNotValid
  | TieBreakerAdminInvalid
  | VotingNotFinalized
  | TieBreakerNotInPriorVotes
  | InvalidMerkleProof
  | InvalidOperatorVoter
  | InvalidNcnFeeGroup
  | InvalidBaseFeeGroup
  | OperatorRewardListFull
  | OperatorRewardNotFound
  | VaultRewardNotFound
  | DestinationMismatch
  | NcnRewardRouteNotFound
  | FeeNotActive
  | NoRewards
  | WeightNotSet
  | RouterStillRouting
  | InvalidEpochsBeforeStall
  | InvalidEpochsBeforeClose
  | InvalidSlotsAfterConsensus
  | VaultNeedsUpdate
  | InvalidAccountStatus
  | AccountAlreadyInitialized
  | BadBallot
  | VotingIsNotOver
  | OperatorIsNotInSnapshot
  | InvalidAccountToCloseDiscriminator
  | CannotCloseAccount
  | CannotCloseAccountAlreadyClosed
  | CannotCloseAccountNotEnoughEpochs
  | CannotCloseAccountNoReceiverProvided
  | CannotCloseAccountNoEnoughAccounts
  | CannotCloseEpochStateAccount
  | InvalidNCNFeeWallet
  | EpochIsClosingDown
  | MarkerExists

section \<open>Conversions\<close>

text \<open>\<open>e as u32\<close>.\<close>

primrec ncn_error_code :: "ncn_error \<Rightarrow> u32" where
  "ncn_error_code NoValidBallots = 0"
| "ncn_error_code DenominatorIsZero = 8448"
| "ncn_error_code ArithmeticOverflow = 8449"
| "ncn_error_code ArithmeticUnderflowError = 8450"
| "ncn_error_code ArithmeticFloorError = 8451"
| "ncn_error_code ModuloOverflow = 8452"
| "ncn_error_code NewPreciseNumberError = 8453"
| "ncn_error_code CastToImpreciseNumberError = 8454"
| "ncn_error_code CastToU64Error = 8455"
| "ncn_error_code CastToU128Error = 8456"
| "ncn_error_code IncorrectWeightTableAdmin = 8704"
| "ncn_error_code DuplicateMintsInTable = 8705"
| "ncn_error_code NoMintsInTable = 8706"
| "ncn_error_code TableNotInitialized = 8707"
| "ncn_error_code RegistryNotInitialized = 8708"
| "ncn_error_code NoVaultsInRegistry = 8709"
| "ncn_error_code VaultNotInRegistry = 8710"
| "ncn_error_code MintInTable = 8711"
| "ncn_error_code TooManyMintsForTable = 8712"
| "ncn_error_code TooManyVaultsForRegistry = 8713"
| "ncn_error_code WeightTableAlreadyInitialized = 8714"
| "ncn_error_code CannotCreateFutureWeightTables = 8715"
| "ncn_error_code WeightMintsDoNotMatchLength = 8716"
| "ncn_error_code WeightMintsDoNotMatchMintHash = 8717"
| "ncn_error_code InvalidMintForWeightTable = 8718"
| "ncn_error_code ConfigMintsNotUpdated = 8719"
| "ncn_error_code ConfigMintListFull = 8720"
| "ncn_error_code VaultRegistryListFull = 8721"
| "ncn_error_code VaultRegistryVaultLocked = 8722"
| "ncn_error_code VaultIndexAlreadyInUse = 8723"
| "ncn_error_code MintEntryNotFound = 8724"
| "ncn_error_code FeeCapExceeded = 8725"
| "ncn_error_code TotalFeesCannotBeZero = 8726"
| "ncn_error_code DefaultProtocolWallet = 8727"
| "ncn_error_code DefaultNcnWallet = 8728"
| "ncn_error_code IncorrectNcnAdmin = 8729"
| "ncn_error_code IncorrectNcn = 8730"
| "ncn_error_code IncorrectFeeAdmin = 8731"
| "ncn_error_code WeightTableNotFinalized = 8732"
| "ncn_error_code WeightNotFound = 8733"
| "ncn_error_code NoOperators = 8734"
| "ncn_error_code VaultOperatorDelegationFinalized = 8735"
| "ncn_error_code OperatorFinalized = 8736"
| "ncn_error_code TooManyVaultOperatorDelegations = 8737"
| "ncn_error_code DuplicateVaultOperatorDelegation = 8738"
| "ncn_error_code DuplicateVoteCast = 8739"
| "ncn_error_code CannotVoteWithZeroStake = 8740"
| "ncn_error_code OperatorAlreadyVoted = 8741"
| "ncn_error_code OperatorVotesFull = 8742"
| "ncn_error_code BallotTallyFull = 8743"
| "ncn_error_code BallotTallyNotFoundFull = 8744"
| "ncn_error_code BallotTallyNotEmpty = 8745"
| "ncn_error_code ConsensusAlreadyReached = 8746"
| "ncn_error_code ConsensusNotReached = 8747"
| "ncn_error_code EpochSnapshotNotFinalized = 8748"
| "ncn_error_code VotingNotValid = 8749"
| "ncn_error_code TieBreakerAdminInvalid = 8750"
| "ncn_error_code VotingNotFinalized = 8751"
| "ncn_error_code TieBreakerNotInPriorVotes = 8752"
| "ncn_error_code InvalidMerkleProof = 8753"
| "ncn_error_code InvalidOperatorVoter = 8754"
| "ncn_error_code InvalidNcnFeeGroup = 8755"
| "ncn_error_code InvalidBaseFeeGroup = 8756"
| "ncn_error_code OperatorRewardListFull = 8757"
| "ncn_error_code OperatorRewardNotFound = 8758"
| "ncn_error_code VaultRewardNotFound = 8759"
| "ncn_error_code DestinationMismatch = 8760"
| "ncn_error_code NcnRewardRouteNotFound = 8761"
| "ncn_error_code FeeNotActive = 8762"
| "ncn_error_code NoRewards = 8763"
| "ncn_error_code WeightNotSet = 8764"
| "ncn_error_code RouterStillRouting = 8765"
| "ncn_error_code InvalidEpochsBeforeStall = 8766"
| "ncn_error_code InvalidEpochsBeforeClose = 8767"
| "ncn_error_code InvalidSlotsAfterConsensus = 8768"
| "ncn_error_code VaultNeedsUpdate = 8769"
| "ncn_error_code InvalidAccountStatus = 8770"
| "ncn_error_code AccountAlreadyInitialized = 8771"
| "ncn_error_code BadBallot = 8772"
| "ncn_error_code VotingIsNotOver = 8773"
| "ncn_error_code OperatorIsNotInSnapshot = 8774"
| "ncn_error_code InvalidAccountToCloseDiscriminator = 8775"
| "ncn_error_code CannotCloseAccount = 8776"
| "ncn_error_code CannotCloseAccountAlreadyClosed = 8777"
| "ncn_error_code CannotCloseAccountNotEnoughEpochs = 8778"
| "ncn_error_code CannotCloseAccountNoReceiverProvided = 8779"
| "ncn_error_code CannotCloseAccountNoEnoughAccounts = 8780"
| "ncn_error_code CannotCloseEpochStateAccount = 8781"
| "ncn_error_code InvalidNCNFeeWallet = 8782"
| "ncn_error_code EpochIsClosingDown = 8783"
| "ncn_error_code MarkerExists = 8784"

datatype program_error =
    Custom u32
  | InvalidArgument
  | InvalidAccountData
  | InvalidAccountOwner
  | NotEnoughAccountKeys
  | InvalidSeeds
  | IllegalOwner
  | ProgramArithmeticOverflow
  | IncorrectProgramId
  | ExternalError u32

text \<open>\<open>impl From<NCNProgramError> for ProgramError\<close>; \<open>?\<close> applies it in the handlers.\<close>

definition program_error_of :: "ncn_error \<Rightarrow> program_error" where
  "program_error_of e = Custom (ncn_error_code e)"

abbreviation into_program :: "('a, ncn_error) result \<Rightarrow> ('a, program_error) result" where
  "into_program r \<equiv> map_err program_error_of r"

end
