(* ===== verification/Precise_Number.thy ===== *)
theory Precise_Number
  imports Ncn_Errors
begin

text \<open>
  The interface to \<open>spl_math::precise_number::PreciseNumber\<close>, a package the sources only
  call.  Its operations are a record of functions that every definition using them takes as
  its first argument; what the program relies on is the locale \<open>precise_number\<close>: a precise
  number is a 256-bit integer in units of \<open>10^-12\<close>, products and quotients add half a unit
  of \<open>ONE\<close> before the integer division, and \<open>floor\<close> clears the fraction.  The theory also
  holds \<open>core/src/constants.rs\<close>, whose \<open>precise_consensus\<close> is the first client, and the
  multiply-divide-floor computation that the two reward routers share.
\<close>

section \<open>The operations the sources call\<close>

record 'p precise_ops =
  pn_new :: "u128 \<Rightarrow> 'p option"
  pn_checked_mul :: "'p \<Rightarrow> 'p \<Rightarrow> 'p option"
  pn_checked_div :: "'p \<Rightarrow> 'p \<Rightarrow> 'p option"
  pn_floor :: "'p \<Rightarrow> 'p option"
  pn_to_imprecise :: "'p \<Rightarrow> u128 option"
  pn_greater_than_or_equal :: "'p \<Rightarrow> 'p \<Rightarrow> bool"

section \<open>Constants\<close>

definition MAX_FEE_BPS :: u64 where "MAX_FEE_BPS = 10000"
definition MAX_ST_MINTS :: nat where "MAX_ST_MINTS = 64"
definition MAX_VAULTS :: nat where "MAX_VAULTS = 64"
definition MAX_OPERATORS :: nat where "MAX_OPERATORS = 256"
definition MIN_EPOCHS_BEFORE_STALL :: u64 where "MIN_EPOCHS_BEFORE_STALL = 1"
definition MAX_EPOCHS_BEFORE_STALL :: u64 where "MAX_EPOCHS_BEFORE_STALL = 50"

definition MIN_EPOCHS_AFTER_CONSENSUS_BEFORE_CLOSE :: u64 where
  "MIN_EPOCHS_AFTER_CONSENSUS_BEFORE_CLOSE = 10"

definition MAX_EPOCHS_AFTER_CONSENSUS_BEFORE_CLOSE :: u64 where
  "MAX_EPOCHS_AFTER_CONSENSUS_BEFORE_CLOSE = 100"

definition MIN_VALID_SLOTS_AFTER_CONSENSUS :: u64 where
  "MIN_VALID_SLOTS_AFTER_CONSENSUS = 1000"

text \<open>\<open>DEFAULT_SLOTS_PER_EPOCH\<close> is 432000 in the Solana SDK.\<close>

definition MAX_VALID_SLOTS_AFTER_CONSENSUS :: u64 where
  "MAX_VALID_SLOTS_AFTER_CONSENSUS = 50 * 432000"

definition PRECISE_CONSENSUS_NUMERATOR :: u128 where "PRECISE_CONSENSUS_NUMERATOR = 2"
definition PRECISE_CONSENSUS_DENOMINATOR :: u128 where "PRECISE_CONSENSUS_DENOMINATOR = 3"

definition DEFAULT_CONSENSUS_REACHED_SLOT :: u64 where
  "DEFAULT_CONSENSUS_REACHED_SLOT = u64_MAX"

text \<open>\<open>MAX_PERMITTED_DATA_INCREASE\<close> is 10240 bytes in the Solana SDK.\<close>

definition MAX_REALLOC_BYTES :: u64 where "MAX_REALLOC_BYTES = 10240"

definition precise_consensus :: "'p precise_ops \<Rightarrow> ('p, ncn_error) result" where
  "precise_consensus P =
     and_then (ok_or (pn_new P PRECISE_CONSENSUS_NUMERATOR) NewPreciseNumberError) (\<lambda>n.
     and_then (ok_or (pn_new P PRECISE_CONSENSUS_DENOMINATOR) NewPreciseNumberError) (\<lambda>d.
     ok_or (pn_checked_div P n d) DenominatorIsZero))"

section \<open>Proportional shares\<close>

text \<open>
  The common body of \<open>calculate_reward_split\<close>, \<open>calculate_operator_vault_route_reward\<close>,
  \<open>calculate_operator_reward\<close> and \<open>calculate_vault_reward\<close>: \<open>(amount * share) / whole\<close>,
  floored and cast down to \<open>u64\<close>, each failing step with its own error.
\<close>

definition precise_share ::
  "'p precise_ops \<Rightarrow> u64 \<Rightarrow> u128 \<Rightarrow> u128 \<Rightarrow> (u64, ncn_error) result" where
  "precise_share P amount share whole =
     and_then (ok_or (pn_new P (ucast amount)) NewPreciseNumberError) (\<lambda>t.
     and_then (ok_or (pn_new P share) NewPreciseNumberError) (\<lambda>s.
     and_then (ok_or (pn_new P whole) NewPreciseNumberError) (\<lambda>w.
     and_then (ok_or (Option.bind (pn_checked_mul P t s) (\<lambda>x. pn_checked_div P x w))
                     ArithmeticOverflow) (\<lambda>a.
     and_then (ok_or (pn_floor P a) ArithmeticFloorError) (\<lambda>f.
     and_then (ok_or (pn_to_imprecise P f) CastToImpreciseNumberError) (\<lambda>u.
     ok_or (try_into_u64 u) CastToU64Error))))))"

section \<open>What the program relies on\<close>

definition pn_ONE :: nat where "pn_ONE = 10 ^ 12"
definition pn_HALF :: nat where "pn_HALF = 5 * 10 ^ 11"

locale precise_number =
  fixes P :: "'p precise_ops"
    and raw :: "'p \<Rightarrow> nat"
  assumes pn_new_law: "\<exists>p. pn_new P v = Some p \<and> raw p = unat v * pn_ONE"
    and pn_mul_law: "raw p * raw q + pn_HALF < 2 ^ 256 \<Longrightarrow>
      \<exists>r. pn_checked_mul P p q = Some r \<and> raw r = (raw p * raw q + pn_HALF) div pn_ONE"
    and pn_div_zero_law: "raw q = 0 \<Longrightarrow> pn_checked_div P p q = None"
    and pn_div_law: "raw q \<noteq> 0 \<Longrightarrow> raw p * pn_ONE + pn_HALF < 2 ^ 256 \<Longrightarrow>
      \<exists>r. pn_checked_div P p q = Some r \<and> raw r = (raw p * pn_ONE + pn_HALF) div raw q"
    and pn_floor_law: "\<exists>r. pn_floor P p = Some r \<and> raw r = (raw p div pn_ONE) * pn_ONE"
    and pn_imprecise_law: "(raw p + pn_HALF) div pn_ONE < 2 ^ 128 \<Longrightarrow>
      pn_to_imprecise P p = Some (word_of_nat ((raw p + pn_HALF) div pn_ONE))"
    and pn_ge_law: "pn_greater_than_or_equal P p q \<longleftrightarrow> raw q \<le> raw p"

lemma div_unit:
  fixes n m k c :: nat
  assumes "c < k"
  shows "(n * k + c) div (m * k) = n div m"
proof -
  have "(n * k + c) div (m * k) = (n * k + c) div k div m"
    by (simp add: div_mult2_eq mult.commute [of m])
  with assms show ?thesis by simp
qed

lemma pn_HALF_less: "pn_HALF < pn_ONE"
  by (simp add: pn_HALF_def pn_ONE_def)

lemma pn_ONE_pos [simp]: "0 < pn_ONE"
  by (simp add: pn_ONE_def)

lemma scaled_bound:
  fixes x :: nat
  assumes "x < 2 ^ 176"
  shows "x * pn_ONE * pn_ONE + pn_HALF < 2 ^ 256"
proof -
  have "x * (10 ^ 24) \<le> 2 ^ 176 * 10 ^ 24"
    using assms by (intro mult_right_mono) simp_all
  then have "x * 10 ^ 24 + pn_HALF \<le> 2 ^ 176 * 10 ^ 24 + pn_HALF" by simp
  also have "\<dots> < 2 ^ 256" by (simp add: pn_HALF_def)
  finally show ?thesis by (simp add: pn_ONE_def)
qed

context precise_number
begin

text \<open>The quotient of two whole numbers is truncated to twelve decimals.\<close>

lemma whole_ratio:
  assumes "pn_new P a = Some p" and "pn_new P b = Some q" and "b \<noteq> 0"
  shows "\<exists>r. pn_checked_div P p q = Some r \<and> raw r = unat a * pn_ONE div unat b"
proof -
  from assms(1,2) pn_new_law have p: "raw p = unat a * pn_ONE" and q: "raw q = unat b * pn_ONE"
    by (metis option.inject)+
  have "unat b \<noteq> 0" using assms(3) by (simp add: unat_eq_0)
  then have "raw q \<noteq> 0" by (simp add: q)
  moreover have "raw p * pn_ONE + pn_HALF < 2 ^ 256"
    unfolding p by (intro scaled_bound less_trans [OF unat_u128_less]) simp
  ultimately obtain r where r: "pn_checked_div P p q = Some r"
      "raw r = (raw p * pn_ONE + pn_HALF) div raw q"
    using pn_div_law by blast
  have "raw r = unat a * pn_ONE div unat b"
    unfolding r(2) p q by (rule div_unit [OF pn_HALF_less])
  with r(1) show ?thesis by blast
qed

text \<open>The consensus threshold is \<open>2/3\<close> truncated to twelve decimals.\<close>

lemma precise_consensus_raw:
  "\<exists>c. precise_consensus P = Ok c \<and> raw c = 666666666666"
proof -
  obtain n where n: "pn_new P PRECISE_CONSENSUS_NUMERATOR = Some n" using pn_new_law by blast
  obtain d where d: "pn_new P PRECISE_CONSENSUS_DENOMINATOR = Some d" using pn_new_law by blast
  have "PRECISE_CONSENSUS_DENOMINATOR \<noteq> 0" by (simp add: PRECISE_CONSENSUS_DENOMINATOR_def)
  from whole_ratio [OF n d this] obtain c where c: "pn_checked_div P n d = Some c"
      "raw c = unat PRECISE_CONSENSUS_NUMERATOR * pn_ONE div unat PRECISE_CONSENSUS_DENOMINATOR"
    by blast
  then have "raw c = 666666666666"
    by (simp add: PRECISE_CONSENSUS_NUMERATOR_def PRECISE_CONSENSUS_DENOMINATOR_def pn_ONE_def)
  with c(1) n d show ?thesis by (simp add: precise_consensus_def)
qed

text \<open>A share is the exact floor of the rational share, as long as the share is below \<open>2^112\<close>.\<close>

lemma precise_share_floor:
  assumes whole: "whole \<noteq> 0" and small: "unat share < 2 ^ 112"
    and fits: "unat amount * unat share div unat whole < 2 ^ 64"
  shows "precise_share P amount share whole
           = Ok (word_of_nat (unat amount * unat share div unat whole))"
proof -
  let ?x = "unat amount * unat share"
  obtain t where t: "pn_new P (ucast amount) = Some t" "raw t = unat amount * pn_ONE"
    using pn_new_law [of "ucast amount"] by auto
  obtain s where s: "pn_new P share = Some s" "raw s = unat share * pn_ONE"
    using pn_new_law [of share] by auto
  obtain w where w: "pn_new P whole = Some w" "raw w = unat whole * pn_ONE"
    using pn_new_law [of whole] by auto
  have x: "?x < 2 ^ 176"
  proof -
    have "?x < 2 ^ 64 * 2 ^ 112"
      using unat_u64_less [of amount] small by (intro mult_strict_mono) simp_all
    then show ?thesis by simp
  qed
  have b1: "raw t * raw s + pn_HALF < 2 ^ 256"
    using scaled_bound [OF x] by (simp add: t s mult.assoc mult.left_commute)
  obtain m where m: "pn_checked_mul P t s = Some m" "raw m = (raw t * raw s + pn_HALF) div pn_ONE"
    using pn_mul_law [OF b1] by blast
  have m': "raw m = ?x * pn_ONE"
  proof -
    have "raw t * raw s + pn_HALF = (?x * pn_ONE) * pn_ONE + pn_HALF" by (simp add: t s)
    then show ?thesis unfolding m(2) using div_unit [OF pn_HALF_less, of "?x * pn_ONE" 1] by simp
  qed
  have w0: "raw w \<noteq> 0" using whole by (simp add: w unat_eq_0)
  have b2: "raw m * pn_ONE + pn_HALF < 2 ^ 256"
    unfolding m' by (rule scaled_bound [OF x])
  obtain a where a: "pn_checked_div P m w = Some a" "raw a = (raw m * pn_ONE + pn_HALF) div raw w"
    using pn_div_law [OF w0 b2] by blast
  have a': "raw a = ?x * pn_ONE div unat whole"
    unfolding a(2) m' w(2) by (rule div_unit [OF pn_HALF_less])
  obtain f where f: "pn_floor P a = Some f" "raw f = (raw a div pn_ONE) * pn_ONE"
    using pn_floor_law by blast
  have "raw a div pn_ONE = ?x div unat whole"
    unfolding a' using div_unit [of 0 pn_ONE ?x "unat whole"]
    by (simp flip: div_mult2_eq)
  then have f': "(raw f + pn_HALF) div pn_ONE = ?x div unat whole"
    unfolding f(2) using div_unit [OF pn_HALF_less, of "?x div unat whole" 1] by simp
  then have "pn_to_imprecise P f = Some (word_of_nat (?x div unat whole))"
    using pn_imprecise_law [of f] fits by simp
  moreover have "try_into_u64 (word_of_nat (?x div unat whole))
      = Some (word_of_nat (?x div unat whole))"
    using fits by (simp add: try_into_u64_eq_Some unat_of_nat)
  ultimately show ?thesis
    by (simp add: precise_share_def t s w m a f)
qed

end

section \<open>The operations of the package, as a model of the interface\<close>

definition spl_ops :: "nat precise_ops" where
  "spl_ops = \<lparr>
     pn_new = (\<lambda>v. Some (unat v * pn_ONE)),
     pn_checked_mul = (\<lambda>p q. if p * q + pn_HALF < 2 ^ 256
        then Some ((p * q + pn_HALF) div pn_ONE) else None),
     pn_checked_div = (\<lambda>p q. if q = 0 then None
        else if p * pn_ONE + pn_HALF < 2 ^ 256
        then Some ((p * pn_ONE + pn_HALF) div q) else None),
     pn_floor = (\<lambda>p. Some ((p div pn_ONE) * pn_ONE)),
     pn_to_imprecise = (\<lambda>p. if (p + pn_HALF) div pn_ONE < 2 ^ 128
        then Some (word_of_nat ((p + pn_HALF) div pn_ONE)) else None),
     pn_greater_than_or_equal = (\<lambda>p q. q \<le> p)\<rparr>"

interpretation spl: precise_number spl_ops "\<lambda>p. p"
  by unfold_locales (simp_all add: spl_ops_def)

end
