(* ===== verification/Fees.thy ===== *)
theory Fees
  imports Precise_Number
begin

text \<open>
  \<open>core/src/fees.rs\<close> and \<open>core/src/config.rs\<close>: the fee configuration with its two slots, one
  of which is active while the other is prepared for the next epoch, and the \<open>Config\<close>
  account that holds it.  A mutable reference to one of the slots (\<open>updatable_fees\<close>) is the
  choice of the slot together with a read and a write through that choice.
\<close>

section \<open>Fees of one epoch\<close>

record fee_t =
  fee :: u16

record fees =
  activation_epoch :: u64
  protocol_fee_bps :: fee_t
  ncn_fee_bps :: fee_t

definition Fee_default :: fee_t where "Fee_default = \<lparr>fee = 0\<rparr>"
definition Fee_new :: "u16 \<Rightarrow> fee_t" where "Fee_new v = \<lparr>fee = v\<rparr>"

definition PROTOCOL_FEE_BPS :: u16 where "PROTOCOL_FEE_BPS = 400"

definition Fees_set_ncn_fee_bps :: "fees \<Rightarrow> u16 \<Rightarrow> (fees, ncn_error) result" where
  "Fees_set_ncn_fee_bps self v =
     and_then (ensure (\<not> MAX_FEE_BPS < ucast v) FeeCapExceeded) (\<lambda>_.
     Ok (self\<lparr>ncn_fee_bps := Fee_new v\<rparr>))"

definition Fees_new :: "u16 \<Rightarrow> u64 \<Rightarrow> (fees, ncn_error) result" where
  "Fees_new default_ncn_fee_bps epoch =
     (let fs = \<lparr>activation_epoch = epoch, protocol_fee_bps = Fee_default,
                ncn_fee_bps = Fee_default\<rparr>;
          fs = fs\<lparr>protocol_fee_bps := Fee_new PROTOCOL_FEE_BPS\<rparr>
      in Fees_set_ncn_fee_bps fs default_ncn_fee_bps)"

definition Fees_precise_protocol_fee_bps :: "'p precise_ops \<Rightarrow> fees \<Rightarrow> ('p, ncn_error) result" where
  "Fees_precise_protocol_fee_bps P self =
     ok_or (pn_new P (ucast (fee (protocol_fee_bps self)))) NewPreciseNumberError"

definition Fees_precise_ncn_fee_bps :: "'p precise_ops \<Rightarrow> fees \<Rightarrow> ('p, ncn_error) result" where
  "Fees_precise_ncn_fee_bps P self =
     ok_or (pn_new P (ucast (fee (ncn_fee_bps self)))) NewPreciseNumberError"

definition Fees_total_fees_bps :: "fees \<Rightarrow> (u64, ncn_error) result" where
  "Fees_total_fees_bps self =
     and_then (ok_or (checked_add 0 (ucast (fee (protocol_fee_bps self)))) ArithmeticOverflow) (\<lambda>t.
     ok_or (checked_add t (ucast (fee (ncn_fee_bps self)))) ArithmeticOverflow)"

definition Fees_precise_total_fee_bps :: "'p precise_ops \<Rightarrow> fees \<Rightarrow> ('p, ncn_error) result" where
  "Fees_precise_total_fee_bps P self =
     and_then (Fees_total_fees_bps self) (\<lambda>t. ok_or (pn_new P (ucast t)) NewPreciseNumberError)"

section \<open>The two-slot configuration\<close>

record fee_config =
  protocol_fee_wallet :: pubkey
  ncn_fee_wallets :: pubkey
  fee_1 :: fees
  fee_2 :: fees

text \<open>The base-58 key of \<open>FeeConfig::PROTOCOL_FEE_WALLET\<close>, as a number.\<close>

definition PROTOCOL_FEE_WALLET :: pubkey where
  "PROTOCOL_FEE_WALLET =
     31263018714578056128594375396779487118000055771166805701627897974759679051710"

definition current_fees :: "fee_config \<Rightarrow> u64 \<Rightarrow> fees" where
  "current_fees self current_epoch =
     (if current_epoch < activation_epoch (fee_1 self) then fee_2 self
      else if current_epoch < activation_epoch (fee_2 self) then fee_1 self
      else if activation_epoch (fee_2 self) \<le> activation_epoch (fee_1 self) then fee_1 self
      else fee_2 self)"

definition updatable_is_fee_1 :: "fee_config \<Rightarrow> u64 \<Rightarrow> bool" where
  "updatable_is_fee_1 self current_epoch =
     (if current_epoch < activation_epoch (fee_1 self) then True
      else if current_epoch < activation_epoch (fee_2 self) then False
      else activation_epoch (fee_1 self) \<le> activation_epoch (fee_2 self))"

definition updatable_fees :: "fee_config \<Rightarrow> u64 \<Rightarrow> fees" where
  "updatable_fees self current_epoch =
     (if updatable_is_fee_1 self current_epoch then fee_1 self else fee_2 self)"

definition write_updatable_fees :: "fee_config \<Rightarrow> u64 \<Rightarrow> fees \<Rightarrow> fee_config" where
  "write_updatable_fees self current_epoch fs =
     (if updatable_is_fee_1 self current_epoch then self\<lparr>fee_1 := fs\<rparr> else self\<lparr>fee_2 := fs\<rparr>)"

definition update_updatable_epoch :: "fee_config \<Rightarrow> u64 \<Rightarrow> (fee_config, ncn_error) result" where
  "update_updatable_epoch self current_epoch =
     and_then (ok_or (checked_add current_epoch 1) ArithmeticOverflow) (\<lambda>next_epoch.
     Ok (write_updatable_fees self current_epoch
           ((updatable_fees self current_epoch)\<lparr>activation_epoch := next_epoch\<rparr>)))"

definition FeeConfig_total_fees_bps :: "fee_config \<Rightarrow> u64 \<Rightarrow> (u64, ncn_error) result" where
  "FeeConfig_total_fees_bps self current_epoch = Fees_total_fees_bps (current_fees self current_epoch)"

definition FeeConfig_precise_total_fee_bps ::
  "'p precise_ops \<Rightarrow> fee_config \<Rightarrow> u64 \<Rightarrow> ('p, ncn_error) result" where
  "FeeConfig_precise_total_fee_bps P self current_epoch =
     Fees_precise_total_fee_bps P (current_fees self current_epoch)"

definition FeeConfig_protocol_fee_bps :: "fee_config \<Rightarrow> u64 \<Rightarrow> (u16, ncn_error) result" where
  "FeeConfig_protocol_fee_bps self current_epoch =
     Ok (fee (protocol_fee_bps (current_fees self current_epoch)))"

definition FeeConfig_precise_protocol_fee_bps ::
  "'p precise_ops \<Rightarrow> fee_config \<Rightarrow> u64 \<Rightarrow> ('p, ncn_error) result" where
  "FeeConfig_precise_protocol_fee_bps P self current_epoch =
     Fees_precise_protocol_fee_bps P (current_fees self current_epoch)"

definition FeeConfig_ncn_fee_bps :: "fee_config \<Rightarrow> u64 \<Rightarrow> (u16, ncn_error) result" where
  "FeeConfig_ncn_fee_bps self current_epoch =
     Ok (fee (ncn_fee_bps (current_fees self current_epoch)))"

definition FeeConfig_precise_ncn_fee_bps ::
  "'p precise_ops \<Rightarrow> fee_config \<Rightarrow> u64 \<Rightarrow> ('p, ncn_error) result" where
  "FeeConfig_precise_ncn_fee_bps P self current_epoch =
     Fees_precise_ncn_fee_bps P (current_fees self current_epoch)"

definition FeeConfig_set_ncn_fee_bps ::
  "fee_config \<Rightarrow> u16 \<Rightarrow> u64 \<Rightarrow> (fee_config, ncn_error) result" where
  "FeeConfig_set_ncn_fee_bps self v current_epoch =
     and_then (Fees_set_ncn_fee_bps (updatable_fees self current_epoch) v) (\<lambda>fs.
     Ok (write_updatable_fees self current_epoch fs))"

definition set_ncn_fee_wallet :: "fee_config \<Rightarrow> pubkey \<Rightarrow> fee_config" where
  "set_ncn_fee_wallet self wallet = self\<lparr>ncn_fee_wallets := wallet\<rparr>"

definition set_protocol_fee_wallet :: "fee_config \<Rightarrow> pubkey \<Rightarrow> fee_config" where
  "set_protocol_fee_wallet self wallet = self\<lparr>protocol_fee_wallet := wallet\<rparr>"

definition set_fees_to_current :: "fee_config \<Rightarrow> u64 \<Rightarrow> (fee_config, ncn_error) result" where
  "set_fees_to_current self current_epoch =
     and_then (ensure (\<not> (current_epoch < activation_epoch (fee_1 self) \<or>
                          current_epoch < activation_epoch (fee_2 self))) FeeNotActive) (\<lambda>_.
     Ok (write_updatable_fees self current_epoch (current_fees self current_epoch)))"

definition check_fees_okay ::
  "'p precise_ops \<Rightarrow> fee_config \<Rightarrow> u64 \<Rightarrow> (unit, ncn_error) result" where
  "check_fees_okay P self current_epoch =
     and_then (FeeConfig_precise_protocol_fee_bps P self current_epoch) (\<lambda>_.
     and_then (FeeConfig_precise_ncn_fee_bps P self current_epoch) (\<lambda>_.
     and_then (FeeConfig_total_fees_bps self current_epoch) (\<lambda>total.
     and_then (ensure (\<not> MAX_FEE_BPS < total) FeeCapExceeded) (\<lambda>_.
     ensure (total \<noteq> 0) TotalFeesCannotBeZero))))"

definition FeeConfig_new ::
  "'p precise_ops \<Rightarrow> pubkey \<Rightarrow> u16 \<Rightarrow> u64 \<Rightarrow> (fee_config, ncn_error) result" where
  "FeeConfig_new P ncn_fee_wallet default_ncn_fee_bps current_epoch =
     and_then (ensure (ncn_fee_wallet \<noteq> Pubkey_default) DefaultNcnWallet) (\<lambda>_.
     and_then (ensure (\<not> MAX_FEE_BPS < ucast default_ncn_fee_bps) FeeCapExceeded) (\<lambda>_.
     and_then (Fees_new default_ncn_fee_bps current_epoch) (\<lambda>f.
     let c = \<lparr>protocol_fee_wallet = PROTOCOL_FEE_WALLET, ncn_fee_wallets = ncn_fee_wallet,
              fee_1 = f, fee_2 = f\<rparr> in
     and_then (check_fees_okay P c current_epoch) (\<lambda>_. Ok c))))"

definition update_fee_config ::
  "'p precise_ops \<Rightarrow> fee_config \<Rightarrow> u16 option \<Rightarrow> pubkey option \<Rightarrow> u64 \<Rightarrow>
   (fee_config, ncn_error) result" where
  "update_fee_config P self new_ncn_fee_bps new_ncn_fee_wallet current_epoch =
     and_then (if activation_epoch (updatable_fees self current_epoch) \<le> current_epoch
               then set_fees_to_current self current_epoch else Ok self) (\<lambda>self.
     and_then (case new_ncn_fee_bps of
                 Some v \<Rightarrow> FeeConfig_set_ncn_fee_bps self v current_epoch
               | None \<Rightarrow> Ok self) (\<lambda>self.
     let self = (case new_ncn_fee_wallet of
                   Some w \<Rightarrow> set_ncn_fee_wallet self w | None \<Rightarrow> self) in
     and_then (update_updatable_epoch self current_epoch) (\<lambda>self.
     and_then (check_fees_okay P self current_epoch) (\<lambda>_.
     and_then (ok_or (checked_add current_epoch 1) ArithmeticOverflow) (\<lambda>next_epoch.
     and_then (check_fees_okay P self next_epoch) (\<lambda>_. Ok self))))))"

section \<open>The configuration account\<close>

datatype ConfigAdminRole = TieBreakerAdmin

record config =
  config_ncn :: pubkey
  tie_breaker_admin :: pubkey
  valid_slots_after_consensus :: u64
  epochs_before_stall :: u64
  epochs_after_consensus_before_close :: u64
  starting_valid_epoch :: u64
  fee_config_of :: fee_config
  config_bump :: u8

definition Config_new ::
  "pubkey \<Rightarrow> pubkey \<Rightarrow> u64 \<Rightarrow> u64 \<Rightarrow> u64 \<Rightarrow> u64 \<Rightarrow> fee_config \<Rightarrow> u8 \<Rightarrow> config" where
  "Config_new ncn tie_admin start_epoch slots_after stall_epochs close_epochs fc bump =
     \<lparr>config_ncn = ncn, tie_breaker_admin = tie_admin, valid_slots_after_consensus = slots_after,
      epochs_before_stall = stall_epochs, epochs_after_consensus_before_close = close_epochs,
      starting_valid_epoch = start_epoch, fee_config_of = fc, config_bump = bump\<rparr>"

section \<open>Well-formed configurations\<close>

text \<open>
  At epoch \<open>e\<close> at most one slot is pending, it is pending for the next epoch exactly, slots
  with the same activation epoch agree, and every slot's total lies in \<open>(0, MAX_FEE_BPS]\<close>.
\<close>

definition fees_total :: "fees \<Rightarrow> nat" where
  "fees_total f = unat (fee (protocol_fee_bps f)) + unat (fee (ncn_fee_bps f))"

definition fees_ok :: "fees \<Rightarrow> bool" where
  "fees_ok f \<longleftrightarrow> 0 < fees_total f \<and> fees_total f \<le> 10000"

definition fee_config_wf :: "fee_config \<Rightarrow> u64 \<Rightarrow> bool" where
  "fee_config_wf c e \<longleftrightarrow>
     unat (activation_epoch (fee_1 c)) \<le> Suc (unat e) \<and>
     unat (activation_epoch (fee_2 c)) \<le> Suc (unat e) \<and>
     (activation_epoch (fee_1 c) \<le> e \<or> activation_epoch (fee_2 c) \<le> e) \<and>
     (activation_epoch (fee_1 c) = activation_epoch (fee_2 c) \<longrightarrow> fee_1 c = fee_2 c) \<and>
     fees_ok (fee_1 c) \<and> fees_ok (fee_2 c)"

text \<open>What the next epoch's fees will be if nothing more is changed.\<close>

definition next_fees :: "fee_config \<Rightarrow> u64 \<Rightarrow> fees" where
  "next_fees c e =
     (if e < activation_epoch (fee_1 c) then fee_1 c
      else if e < activation_epoch (fee_2 c) then fee_2 c
      else current_fees c e)"

lemma unat_ucast_16_64 [simp]: "unat (ucast (x :: u16) :: u64) = unat x"
  by transfer (simp add: take_bit_eq_mod)

lemma unat_16_less: "unat (x :: u16) < 65536"
  using unsigned_less [of x, where ?'a = nat] by simp

lemma fees_total_less: "fees_total f < 131072"
  using unat_16_less [of "fee (protocol_fee_bps f)"] unat_16_less [of "fee (ncn_fee_bps f)"]
  by (simp add: fees_total_def)

lemma fees_total_unat [simp]: "unat (word_of_nat (fees_total f) :: u64) = fees_total f"
  using fees_total_less [of f] by (simp add: unat_of_nat)

lemma Fees_total_fees_bps_Ok [simp]:
  "Fees_total_fees_bps f = Ok (word_of_nat (fees_total f))"
proof -
  have "checked_add 0 (ucast (fee (protocol_fee_bps f)) :: u64) =
      Some (ucast (fee (protocol_fee_bps f)))"
    by (simp add: checked_simps)
  moreover have "checked_add (ucast (fee (protocol_fee_bps f)) :: u64) (ucast (fee (ncn_fee_bps f)))
      = Some (word_of_nat (fees_total f))"
    unfolding checked_add_eq_Some fees_total_unat by (simp add: fees_total_def)
  ultimately show ?thesis by (simp add: Fees_total_fees_bps_def)
qed

lemma total_okay_iff:
  "MAX_FEE_BPS < (word_of_nat (fees_total f) :: u64) \<longleftrightarrow> 10000 < fees_total f"
  "(word_of_nat (fees_total f) :: u64) = 0 \<longleftrightarrow> fees_total f = 0"
  by (simp_all only: word_less_nat_alt word_unat_eq_iff fees_total_unat)
    (simp_all add: MAX_FEE_BPS_def)

lemma check_fees_okay_OkD:
  "check_fees_okay P c e = Ok u \<Longrightarrow> fees_ok (current_fees c e)"
  by (auto simp: check_fees_okay_def FeeConfig_total_fees_bps_def result_simps total_okay_iff
      fees_ok_def)

lemma check_fees_okay_Ok:
  assumes "precise_number P raw" and "fees_ok (current_fees c e)"
  shows "check_fees_okay P c e = Ok ()"
proof -
  obtain p where p: "pn_new P (ucast (fee (protocol_fee_bps (current_fees c e)))) = Some p"
    using precise_number.pn_new_law [OF assms(1)] by blast
  obtain q where q: "pn_new P (ucast (fee (ncn_fee_bps (current_fees c e)))) = Some q"
    using precise_number.pn_new_law [OF assms(1)] by blast
  from p q assms(2) show ?thesis
    by (simp add: check_fees_okay_def FeeConfig_total_fees_bps_def total_okay_iff fees_ok_def
        FeeConfig_precise_protocol_fee_bps_def Fees_precise_protocol_fee_bps_def
        FeeConfig_precise_ncn_fee_bps_def Fees_precise_ncn_fee_bps_def)
qed

section \<open>Updates take effect in the next epoch\<close>

text \<open>The first step of an update: both slots agree, or the pending slot is the updatable one.\<close>

definition staged :: "fee_config \<Rightarrow> u64 \<Rightarrow> fee_config \<Rightarrow> bool" where
  "staged c e d \<longleftrightarrow>
     protocol_fee_wallet d = protocol_fee_wallet c \<and> ncn_fee_wallets d = ncn_fee_wallets c \<and>
     (if updatable_is_fee_1 d e then fee_1 d = next_fees c e \<and> fee_2 d = current_fees c e
      else fee_2 d = next_fees c e \<and> fee_1 d = current_fees c e) \<and>
     activation_epoch (current_fees c e) \<le> e"

lemma stage_fees:
  assumes "fee_config_wf c e"
  shows "\<exists>d. (if activation_epoch (updatable_fees c e) \<le> e then set_fees_to_current c e else Ok c)
           = Ok d \<and> staged c e d"
proof -
  note defs = staged_def set_fees_to_current_def write_updatable_fees_def
      updatable_fees_def updatable_is_fee_1_def next_fees_def current_fees_def
  let ?a = "activation_epoch (fee_1 c)" and ?b = "activation_epoch (fee_2 c)"
  have one: "?a \<le> e \<or> ?b \<le> e" and eq: "?a = ?b \<Longrightarrow> fee_1 c = fee_2 c"
    using assms by (simp_all add: fee_config_wf_def)
  consider "e < ?a" "?b \<le> e" | "?a \<le> e" "e < ?b" | "?a \<le> e" "?b \<le> e" "?a = ?b"
    | "?a \<le> e" "?b \<le> e" "?a < ?b" | "?a \<le> e" "?b \<le> e" "?b < ?a"
    using one by (meson linorder_less_linear not_le)
  then show ?thesis
  proof cases
    case 1
    then have "\<not> ?a \<le> e" by simp
    with 1 show ?thesis by (simp add: defs)
  next
    case 2
    then have "\<not> e < ?a" "\<not> ?b \<le> e" by simp_all
    with 2 show ?thesis by (simp add: defs)
  next
    case 3
    then have "\<not> e < ?a" "\<not> e < ?b" by simp_all
    with 3 eq show ?thesis by (simp add: defs)
  next
    case 4
    then have "\<not> e < ?a" "\<not> e < ?b" "\<not> ?b \<le> ?a" "?a \<le> ?b" by simp_all
    with 4 show ?thesis by (simp add: defs)
  next
    case 5
    then have "\<not> e < ?a" "\<not> e < ?b" "\<not> ?a \<le> ?b" "?b \<le> ?a" by simp_all
    with 5 show ?thesis by (simp add: defs)
  qed
qed

lemma updatable_write [simp]:
  "activation_epoch f = activation_epoch (updatable_fees d e) \<Longrightarrow>
   updatable_is_fee_1 (write_updatable_fees d e f) e = updatable_is_fee_1 d e"
  by (simp add: updatable_is_fee_1_def write_updatable_fees_def updatable_fees_def)

lemma updatable_wallet [simp]:
  "updatable_is_fee_1 (set_ncn_fee_wallet d w) e = updatable_is_fee_1 d e"
  by (simp add: updatable_is_fee_1_def set_ncn_fee_wallet_def)

text \<open>One slot is written with the next epoch's fees, the other keeps the current ones.\<close>

lemma update_fee_config_slots:
  assumes wf: "fee_config_wf c e" and ok: "update_fee_config P c bps wallet e = Ok c'"
  defines "n \<equiv> (next_fees c e)\<lparr>activation_epoch := e + 1\<rparr>"
  defines "n' \<equiv> (case bps of None \<Rightarrow> n | Some v \<Rightarrow> n\<lparr>ncn_fee_bps := Fee_new v\<rparr>)"
  shows "unat (e + 1) = Suc (unat e)"
    and "fee_1 c' = n' \<and> fee_2 c' = current_fees c e \<or>
         fee_2 c' = n' \<and> fee_1 c' = current_fees c e"
    and "ncn_fee_wallets c' = (case wallet of None \<Rightarrow> ncn_fee_wallets c | Some w \<Rightarrow> w)"
    and "protocol_fee_wallet c' = protocol_fee_wallet c"
    and "check_fees_okay P c' e = Ok ()" and "check_fees_okay P c' (e + 1) = Ok ()"
proof -
  from stage_fees [OF wf] obtain d where d: "staged c e d" and
    step: "(if activation_epoch (updatable_fees c e) \<le> e then set_fees_to_current c e else Ok c) = Ok d"
    by blast
  from ok [unfolded update_fee_config_def step] obtain e' where
    e': "checked_add e 1 = Some e'" and chk: "check_fees_okay P c' e = Ok ()" "check_fees_okay P c' e' = Ok ()"
    by (auto simp: result_simps Let_def)
  have sum: "unat e + unat (1 :: u64) = unat e'" using e' unfolding checked_add_eq_Some .
  then show suc: "unat (e + 1) = Suc (unat e)"
    using unat_add_small [of e 1] unat_u64_less [of e'] by simp
  with sum have eq: "e' = e + 1" by (simp add: word_unat_eq_iff)
  show "check_fees_okay P c' e = Ok ()" "check_fees_okay P c' (e + 1) = Ok ()"
    using chk eq by simp_all
  note defs = n'_def n_def staged_def FeeConfig_set_ncn_fee_bps_def Fees_set_ncn_fee_bps_def
    update_updatable_epoch_def updatable_fees_def
  from ok [unfolded update_fee_config_def step] d
  show "fee_1 c' = n' \<and> fee_2 c' = current_fees c e \<or> fee_2 c' = n' \<and> fee_1 c' = current_fees c e"
    and "ncn_fee_wallets c' = (case wallet of None \<Rightarrow> ncn_fee_wallets c | Some w \<Rightarrow> w)"
    and "protocol_fee_wallet c' = protocol_fee_wallet c"
    by (auto simp: result_simps Let_def e' eq defs write_updatable_fees_def set_ncn_fee_wallet_def
        updatable_is_fee_1_def split: option.splits if_splits)
qed

lemma current_fees_active:
  assumes "fee_config_wf c e"
  shows "activation_epoch (current_fees c e) \<le> e"
  using stage_fees [OF assms] by (auto simp: staged_def)

lemma fees_ok_slots:
  assumes "fee_config_wf c e"
  shows "fees_ok (current_fees c e')" and "fees_ok (next_fees c e')"
  using assms by (simp_all add: fee_config_wf_def current_fees_def next_fees_def)

text \<open>With one slot active and the other pending, the epoch selects between them.\<close>

lemma current_fees_pending:
  assumes "fee_1 c = p \<and> fee_2 c = q \<or> fee_2 c = p \<and> fee_1 c = q"
    and "activation_epoch q \<le> e" and "e < activation_epoch p"
  shows "current_fees c e = q" and "activation_epoch p \<le> e' \<Longrightarrow> current_fees c e' = p"
proof -
  have n: "\<not> e < activation_epoch q" "activation_epoch q < activation_epoch p" using assms(2,3) by auto
  then show "current_fees c e = q" using assms(1,3) by (auto simp: current_fees_def)
  assume "activation_epoch p \<le> e'"
  then have "\<not> e' < activation_epoch p" "\<not> e' < activation_epoch q" using n by auto
  with n assms(1) show "current_fees c e' = p" by (auto simp: current_fees_def)
qed

lemma update_fee_config_wf:
  assumes wf: "fee_config_wf c e" and ok: "update_fee_config P c bps wallet e = Ok c'"
  shows "fee_config_wf c' e"
proof -
  note slots = update_fee_config_slots [OF wf ok]
  let ?q = "current_fees c e" and ?p = "current_fees c' (e + 1)"
  have le: "activation_epoch ?q \<le> e" by (rule current_fees_active [OF wf])
  let ?n = "(next_fees c e)\<lparr>activation_epoch := e + 1\<rparr>"
  let ?n' = "case bps of None \<Rightarrow> ?n | Some v \<Rightarrow> ?n\<lparr>ncn_fee_bps := Fee_new v\<rparr>"
  have act: "activation_epoch ?n' = e + 1" by (simp split: option.split)
  have cur: "current_fees c' (e + 1) = ?n'" "current_fees c' e = ?q"
    using current_fees_pending [OF slots(2) le] act word_next_less(1) [OF slots(1)] by auto
  have "fees_ok ?n'" "fees_ok ?q"
    using check_fees_okay_OkD [OF slots(6)] check_fees_okay_OkD [OF slots(5)] cur by simp_all
  moreover have "activation_epoch ?n' \<noteq> activation_epoch ?q" "\<not> e + 1 \<le> e"
    using act le word_next_less(1) [OF slots(1)] by auto
  moreover have "unat (activation_epoch ?q) \<le> Suc (unat e)" using le by (simp add: word_le_nat_alt)
  ultimately show ?thesis
    using slots(1,2) act le by (auto simp: fee_config_wf_def)
qed

lemma fee_config_wf_later:
  assumes "fee_config_wf c e" and "e \<le> e'"
  shows "fee_config_wf c e'"
  using assms order_trans [OF _ assms(2)]
  by (auto simp: fee_config_wf_def word_le_nat_alt [of e])

text \<open>The fees that an update would write for the next epoch.\<close>

definition proposed_fees :: "fee_config \<Rightarrow> u16 option \<Rightarrow> u64 \<Rightarrow> fees" where
  "proposed_fees c bps e =
     (let n = (next_fees c e)\<lparr>activation_epoch := e + 1\<rparr>
      in case bps of None \<Rightarrow> n | Some v \<Rightarrow> n\<lparr>ncn_fee_bps := Fee_new v\<rparr>)"

lemma proposed_fees_act [simp]: "activation_epoch (proposed_fees c bps e) = e + 1"
  by (simp add: proposed_fees_def Let_def split: option.split)

lemma update_fee_config_effect_lemma:
  assumes wf: "fee_config_wf c e" and ok: "update_fee_config P c bps wallet e = Ok c'"
  shows "current_fees c' e = current_fees c e"
    and "e < e' \<Longrightarrow> current_fees c' e' = proposed_fees c bps e"
    and "fees_ok (proposed_fees c bps e)"
proof -
  note slots = update_fee_config_slots [OF wf ok]
  let ?n = "proposed_fees c bps e"
  have sl: "fee_1 c' = ?n \<and> fee_2 c' = current_fees c e \<or>
      fee_2 c' = ?n \<and> fee_1 c' = current_fees c e"
    using slots(2) by (simp add: proposed_fees_def Let_def)
  have le: "activation_epoch (current_fees c e) \<le> e" by (rule current_fees_active [OF wf])
  have lt: "e < activation_epoch ?n" using word_next_less(1) [OF slots(1)] by simp
  show "current_fees c' e = current_fees c e" by (rule current_fees_pending(1) [OF sl le lt])
  show later: "current_fees c' e' = ?n" if "e < e'" for e'
    using current_fees_pending(2) [OF sl le lt] that word_next_less(2) [OF slots(1)] by simp
  show "fees_ok ?n"
    using check_fees_okay_OkD [OF slots(6)] later word_next_less(1) [OF slots(1)] by simp
qed

lemma update_fee_config_succeeds:
  assumes P: "precise_number P raw" and wf: "fee_config_wf c e"
    and e: "e \<noteq> u64_MAX" and fo: "fees_ok (proposed_fees c bps e)"
  shows "is_ok (update_fee_config P c bps wallet e)"
proof -
  from stage_fees [OF wf] obtain d where d: "staged c e d" and
    step: "(if activation_epoch (updatable_fees c e) \<le> e then set_fees_to_current c e else Ok c) = Ok d"
    by blast
  have e1: "unat (e + 1) = Suc (unat e)"
    using checked_add_one [of e] e by (simp add: checked_add_eq_Some)
  have cap: "\<not> MAX_FEE_BPS < ucast v" if "bps = Some v" for v
    using fo that
    by (simp add: word_less_nat_alt MAX_FEE_BPS_def fees_ok_def fees_total_def proposed_fees_def
        Let_def Fee_new_def)
  define m where "m = (case bps of Some v \<Rightarrow> write_updatable_fees d e
      ((updatable_fees d e)\<lparr>ncn_fee_bps := Fee_new v\<rparr>) | None \<Rightarrow> d)"
  define w where "w = (case wallet of Some k \<Rightarrow> set_ncn_fee_wallet m k | None \<Rightarrow> m)"
  define c' where "c' = write_updatable_fees w e ((updatable_fees w e)\<lparr>activation_epoch := e + 1\<rparr>)"
  have sl: "fee_1 c' = proposed_fees c bps e \<and> fee_2 c' = current_fees c e \<or>
      fee_2 c' = proposed_fees c bps e \<and> fee_1 c' = current_fees c e"
    using d by (auto simp: c'_def w_def m_def staged_def write_updatable_fees_def updatable_fees_def
        updatable_is_fee_1_def set_ncn_fee_wallet_def proposed_fees_def Let_def split: option.splits if_splits)
  note pend = current_fees_pending [OF sl current_fees_active [OF wf]]
  have "check_fees_okay P c' e = Ok ()"
    using pend(1) word_next_less(1) [OF e1] fees_ok_slots(1) [OF wf]
    by (intro check_fees_okay_Ok [OF P]) simp
  moreover have "check_fees_okay P c' (e + 1) = Ok ()"
    using pend(2) [of "e + 1"] word_next_less(1) [OF e1] fo
    by (intro check_fees_okay_Ok [OF P]) simp
  moreover have "(case bps of Some v \<Rightarrow> FeeConfig_set_ncn_fee_bps d v e | None \<Rightarrow> Ok d) = Ok m"
    using cap by (simp add: m_def FeeConfig_set_ncn_fee_bps_def Fees_set_ncn_fee_bps_def
        split: option.split)
  ultimately have "update_fee_config P c bps wallet e = Ok c'"
    unfolding update_fee_config_def step
    by (simp add: update_updatable_epoch_def checked_add_one e flip: w_def c'_def)
  then show ?thesis by simp
qed

section \<open>Reachable configurations\<close>

text \<open>
  The configurations an account can hold: created at some epoch, updated any number of times,
  with the clock's epoch never going back.
\<close>

inductive fee_reach :: "'p precise_ops \<Rightarrow> fee_config \<Rightarrow> u64 \<Rightarrow> bool" for P where
  fr_new: "FeeConfig_new P wallet bps e = Ok c \<Longrightarrow> fee_reach P c e"
| fr_epoch: "fee_reach P c e \<Longrightarrow> e \<le> e' \<Longrightarrow> fee_reach P c e'"
| fr_update: "fee_reach P c e \<Longrightarrow> update_fee_config P c bps wallet e = Ok c' \<Longrightarrow> fee_reach P c' e"

lemma FeeConfig_new_OkD:
  assumes "FeeConfig_new P wallet bps e = Ok c"
  shows "fee_config_wf c e" and "fee_1 c = fee_2 c" and "activation_epoch (fee_1 c) = e"
    and "protocol_fee_bps (fee_1 c) = Fee_new PROTOCOL_FEE_BPS"
    and "ncn_fee_bps (fee_1 c) = Fee_new bps" and "ncn_fee_wallets c = wallet"
    and "wallet \<noteq> Pubkey_default" and "protocol_fee_wallet c = PROTOCOL_FEE_WALLET"
proof -
  from assms obtain f where f: "Fees_new bps e = Ok f" and chk: "check_fees_okay P c e = Ok ()"
    and c: "c = \<lparr>protocol_fee_wallet = PROTOCOL_FEE_WALLET, ncn_fee_wallets = wallet,
              fee_1 = f, fee_2 = f\<rparr>" and w: "wallet \<noteq> Pubkey_default"
    by (auto simp: FeeConfig_new_def Let_def result_simps)
  have fv: "f = \<lparr>activation_epoch = e, protocol_fee_bps = Fee_new PROTOCOL_FEE_BPS,
      ncn_fee_bps = Fee_new bps\<rparr>"
    using f by (auto simp: Fees_new_def Fees_set_ncn_fee_bps_def Let_def result_simps)
  have "current_fees c e = f" by (simp add: c current_fees_def)
  with check_fees_okay_OkD [OF chk] have "fees_ok f" by simp
  then show "fee_config_wf c e" by (simp add: fee_config_wf_def c fv)
  show "fee_1 c = fee_2 c" "activation_epoch (fee_1 c) = e"
    "protocol_fee_bps (fee_1 c) = Fee_new PROTOCOL_FEE_BPS" "ncn_fee_bps (fee_1 c) = Fee_new bps"
    "ncn_fee_wallets c = wallet" "protocol_fee_wallet c = PROTOCOL_FEE_WALLET"
    "wallet \<noteq> Pubkey_default"
    using w by (simp_all add: c fv)
qed

lemma fee_reach_invariant:
  "fee_reach P c e \<Longrightarrow> fee_config_wf c e \<and> protocol_fee_wallet c = PROTOCOL_FEE_WALLET \<and>
     protocol_fee_bps (fee_1 c) = Fee_new PROTOCOL_FEE_BPS \<and>
     protocol_fee_bps (fee_2 c) = Fee_new PROTOCOL_FEE_BPS"
proof (induction rule: fee_reach.induct)
  case (fr_new wallet bps e c)
  note new = FeeConfig_new_OkD [OF this]
  then show ?case by (simp flip: new(2))
next
  case (fr_epoch c e e')
  then show ?case using fee_config_wf_later by blast
next
  case (fr_update c e bps wallet c')
  then have wf: "fee_config_wf c e" by simp
  note slots = update_fee_config_slots [OF wf fr_update(2)]
  have "protocol_fee_bps (current_fees c e) = Fee_new PROTOCOL_FEE_BPS"
    "protocol_fee_bps (next_fees c e) = Fee_new PROTOCOL_FEE_BPS"
    using fr_update.IH by (simp_all add: current_fees_def next_fees_def)
  with slots(2) fr_update.IH slots(4) update_fee_config_wf [OF wf fr_update(2)]
  show ?case by (auto split: option.splits)
qed

end
