(* ===== verification/Slot_Table.thy ===== *)
theory Slot_Table
  imports Ncn_Prelude
begin

text \<open>
  Most accounts keep a fixed-size array whose unused slots hold a default record, and add an
  entry by writing it over the first unused slot: the mint and vault lists of the registry,
  the operator votes and ballot tallies of the ballot box, the reward routes of both routers.
  The locale \<open>slot_table\<close> is the contract of such an array: which slots are unused, and that
  the default record is.  Inside it we show that filling the first unused slot keeps the used
  slots a prefix of the array and appends to the list of used entries, so every table is
  abstracted to that list.
\<close>

locale slot_table =
  fixes empty :: "'a \<Rightarrow> bool"
    and dflt :: 'a
  assumes empty_dflt: "empty dflt"
begin

definition live :: "'a list \<Rightarrow> 'a list" where
  "live xs = filter (\<lambda>x. \<not> empty x) xs"

definition packed :: "'a list \<Rightarrow> bool" where
  "packed xs \<longleftrightarrow> xs = live xs @ replicate (length xs - length (live xs)) dflt"

lemma live_append [simp]: "live (xs @ ys) = live xs @ live ys"
  by (simp add: live_def)

lemma live_Cons: "live (x # xs) = (if empty x then live xs else x # live xs)"
  by (simp add: live_def)

lemma live_Nil [simp]: "live [] = []"
  by (simp add: live_def)

lemma live_replicate [simp]: "live (replicate n dflt) = []"
  by (simp add: live_def empty_dflt)

lemma live_live [simp]: "live (live xs) = live xs"
  by (simp add: live_def)

lemma live_not_empty: "x \<in> set (live xs) \<Longrightarrow> \<not> empty x"
  by (simp add: live_def)

lemma length_live: "length (live xs) \<le> length xs"
  by (simp add: live_def)

lemma length_live_count: "length (live xs) = count_where (\<lambda>x. \<not> empty x) xs"
  by (simp add: live_def count_where_def)

lemma packed_replicate [simp]: "packed (replicate n dflt)"
  by (simp add: packed_def)

lemma packed_live_app:
  assumes "\<forall>x \<in> set fs. \<not> empty x" and "xs = fs @ replicate n dflt"
  shows "packed xs" and "live xs = fs"
proof -
  show l: "live xs = fs" using assms by (simp add: live_def empty_dflt)
  with assms(2) show "packed xs" by (simp add: packed_def)
qed

lemma packed_cases:
  assumes "packed xs"
  obtains n where "xs = live xs @ replicate n dflt"
  using assms by (auto simp: packed_def)

lemma packed_nth_live: "packed xs \<Longrightarrow> i < length (live xs) \<Longrightarrow> xs ! i = live xs ! i"
  by (metis nth_append packed_cases)

lemma packed_nth_dflt:
  "packed xs \<Longrightarrow> length (live xs) \<le> i \<Longrightarrow> i < length xs \<Longrightarrow> xs ! i = dflt"
  by (erule packed_cases) (metis length_append length_replicate nth_append nth_replicate
      add_diff_cancel_left' diff_less_mono not_less)

lemma packed_set: "packed xs \<Longrightarrow> x \<in> set xs \<Longrightarrow> x \<in> set (live xs) \<or> x = dflt"
  by (erule packed_cases) (metis UnE in_set_replicate set_append)

lemma set_live: "set (live xs) \<subseteq> set xs"
  by (auto simp: live_def)

lemma packed_position_empty:
  assumes "packed xs"
  shows "position empty xs =
    (if length (live xs) < length xs then Some (length (live xs)) else None)"
proof (cases "length (live xs) < length xs")
  case True
  have "position empty xs = Some (length (live xs))"
  proof (rule position_first [OF True])
    show "empty (xs ! length (live xs))"
      using packed_nth_dflt [OF assms order_refl True] by (simp add: empty_dflt)
    show "\<forall>j < length (live xs). \<not> empty (xs ! j)"
      using assms by (metis live_not_empty nth_mem packed_nth_live)
  qed
  with True show ?thesis by simp
next
  case False
  then have "xs = live xs" using assms length_live [of xs] by (auto simp: packed_def)
  then have "\<forall>x \<in> set xs. \<not> empty x" using live_not_empty by metis
  with False show ?thesis by (simp add: position_None)
qed

lemma packed_insert:
  assumes "packed xs" and "position empty xs = Some i" and "\<not> empty x"
  shows "packed (xs[i := x])" and "live (xs[i := x]) = live xs @ [x]" and "i = length (live xs)"
proof -
  from assms(1,2) show i: "i = length (live xs)"
    by (simp add: packed_position_empty split: if_splits)
  obtain n where n: "xs = live xs @ replicate n dflt" using packed_cases [OF assms(1)] .
  from assms(2) have "i < length xs" using position_Some by blast
  with i n have "n \<noteq> 0" by (metis add_0_right length_append length_replicate less_irrefl)
  then obtain m where m: "n = Suc m" by (cases n) auto
  have "xs[i := x] = (live xs @ replicate n dflt)[i := x]" using n by simp
  also have "\<dots> = live xs @ [x] @ replicate m dflt"
    by (simp add: i m list_update_append)
  finally have "xs[i := x] = (live xs @ [x]) @ replicate m dflt" by simp
  moreover have "\<forall>y \<in> set (live xs @ [x]). \<not> empty y"
    using assms(3) live_not_empty by auto
  ultimately show "packed (xs[i := x])" and "live (xs[i := x]) = live xs @ [x]"
    using packed_live_app by blast+
qed

lemma packed_update:
  assumes "packed xs" and "i < length (live xs)" and "\<not> empty x"
  shows "packed (xs[i := x])" and "live (xs[i := x]) = (live xs)[i := x]"
proof -
  obtain n where n: "xs = live xs @ replicate n dflt" using packed_cases [OF assms(1)] .
  have "xs[i := x] = (live xs @ replicate n dflt)[i := x]" using n by simp
  also have "\<dots> = (live xs)[i := x] @ replicate n dflt"
    using assms(2) by (simp add: list_update_append)
  finally have "xs[i := x] = (live xs)[i := x] @ replicate n dflt" .
  moreover have "\<forall>y \<in> set ((live xs)[i := x]). \<not> empty y"
    using assms(3) set_update_subset_insert [of "live xs" i x] live_not_empty by blast
  ultimately show "packed (xs[i := x])" and "live (xs[i := x]) = (live xs)[i := x]"
    using packed_live_app by blast+
qed

lemma packed_position_live:
  assumes "packed xs" and "\<not> p dflt"
  shows "position p xs = position p (live xs)"
proof -
  obtain n where n: "xs = live xs @ replicate n dflt" using packed_cases [OF assms(1)] .
  have "position p (live xs @ replicate n dflt) = position p (live xs)"
    using assms(2) by (simp add: position_append split: option.splits)
  with n show ?thesis by simp
qed

lemma packed_sum:
  fixes f :: "'a \<Rightarrow> nat"
  assumes "packed xs" and "f dflt = 0"
  shows "sum_list (map f xs) = sum_list (map f (live xs))"
proof -
  obtain n where n: "xs = live xs @ replicate n dflt" using packed_cases [OF assms(1)] .
  have "sum_list (map f (live xs @ replicate n dflt)) = sum_list (map f (live xs))"
    using assms(2) by (simp add: sum_list_replicate)
  with n show ?thesis by simp
qed

end

section \<open>Tables keyed by an address\<close>

lemma find_snoc_new:
  "key x \<notin> key ` set ys \<Longrightarrow>
   find (\<lambda>z. key z = k) (ys @ [x]) = (if k = key x then Some x else find (\<lambda>z. key z = k) ys)"
  by (induction ys) auto

lemma find_position:
  "find p xs = map_option ((!) xs) (position p xs)"
  by (induction xs) (auto simp: option.map_comp comp_def)

text \<open>
  A slot table whose entries carry a key, the default key marking an unused slot: the mint
  list of the registry and the weight table.  Lookup takes the first entry with the key,
  an update rewrites that entry in place.
\<close>

locale keyed_table =
  fixes key :: "'a \<Rightarrow> pubkey"
    and dflt :: 'a
  assumes key_dflt: "key dflt = Pubkey_default"

sublocale keyed_table \<subseteq> slot_table "\<lambda>x. key x = Pubkey_default" dflt
  by unfold_locales (rule key_dflt)

context keyed_table
begin

definition lookup :: "pubkey \<Rightarrow> 'a list \<Rightarrow> 'a option" where
  "lookup k xs = find (\<lambda>x. key x = k) xs"

definition keys_ok :: "'a list \<Rightarrow> bool" where
  "keys_ok xs \<longleftrightarrow> packed xs \<and> distinct (map key (live xs))"

lemma keys_ok_replicate: "keys_ok (replicate n dflt)"
  by (simp add: keys_ok_def)

lemma lookup_insert:
  assumes ok: "keys_ok xs" and i: "position (\<lambda>x. key x = Pubkey_default) xs = Some i"
    and x: "key x \<noteq> Pubkey_default" and new: "lookup (key x) xs = None"
  shows "keys_ok (xs[i := x])" and "live (xs[i := x]) = live xs @ [x]"
    and "k \<noteq> Pubkey_default \<Longrightarrow>
      lookup k (xs[i := x]) = (if k = key x then Some x else lookup k xs)"
proof -
  note ins = packed_insert [OF conjunct1 [OF ok [unfolded keys_ok_def]] i x]
  show lv: "live (xs[i := x]) = live xs @ [x]" by (rule ins(2))
  have "key x \<notin> key ` set xs" using new by (auto simp: lookup_def find_None_iff)
  then have "key x \<notin> key ` set (live xs)" using set_live [of xs] by auto
  with ok ins(1) lv show ok': "keys_ok (xs[i := x])" by (simp add: keys_ok_def)
  have idx: "i < length xs" "key (xs ! i) = Pubkey_default" using position_Some [OF i] by simp_all
  assume k: "k \<noteq> Pubkey_default"
  have at: "lookup k ys = lookup k (live ys)" for ys
    using k by (induction ys) (auto simp: lookup_def live_def)
  have "lookup k (live xs @ [x]) = (if k = key x then Some x else lookup k (live xs))"
    using \<open>key x \<notin> key ` set (live xs)\<close>
    by (simp add: lookup_def find_snoc_new)
  then show "lookup k (xs[i := x]) = (if k = key x then Some x else lookup k xs)"
    by (simp add: at [of "xs[i := x]"] at [of xs] lv)
qed

lemma position_key_live:
  assumes "packed xs" and "position (\<lambda>x. key x = k) xs = Some i" and "k \<noteq> Pubkey_default"
  shows "i < length (live xs)" and "live xs ! i = xs ! i"
proof -
  have "position (\<lambda>x. key x = k) (live xs) = Some i"
    using assms packed_position_live [of xs "\<lambda>x. key x = k"] by (simp add: key_dflt)
  then show "i < length (live xs)" using position_Some by blast
  then show "live xs ! i = xs ! i" by (simp add: packed_nth_live [OF assms(1)])
qed

lemma lookup_update:
  assumes ok: "keys_ok xs" and i: "position (\<lambda>x. key x = k) xs = Some i"
    and k: "k \<noteq> Pubkey_default" and y: "key y = k"
  shows "keys_ok (xs[i := y])" and "live (xs[i := y]) = (live xs)[i := y]"
    and "map key (live (xs[i := y])) = map key (live xs)"
proof -
  have pk: "packed xs" using ok by (simp add: keys_ok_def)
  note pos = position_key_live [OF pk i k]
  have ny: "key y \<noteq> Pubkey_default" using y k by simp
  note upd = packed_update [OF pk pos(1) ny]
  show lv: "live (xs[i := y]) = (live xs)[i := y]" by (rule upd(2))
  have "key (live xs ! i) = k" using position_Some [OF i] pos(2) by simp
  then show mk: "map key (live (xs[i := y])) = map key (live xs)"
    unfolding lv by (intro map_update_same) (simp_all add: pos(1) y)
  show "keys_ok (xs[i := y])" using ok upd(1) mk by (simp add: keys_ok_def)
qed

end

text \<open>Updating the first entry with a key is seen by a lookup of that key and by no other.\<close>

lemma find_first_update:
  assumes "position (\<lambda>x. key x = k) xs = Some i" and "key y = k"
  shows "find (\<lambda>x. key x = k') (xs[i := y]) =
    (if k' = k then Some y else find (\<lambda>x. key x = k') xs)"
  using assms
proof (induction xs arbitrary: i)
  case (Cons x xs)
  then show ?case by (cases "key x = k") auto
qed simp

end
