(* ===== verification/Vault_Registry.thy ===== *)
theory Vault_Registry
  imports Precise_Number Slot_Table
begin

text \<open>
  \<open>core/src/vault_registry.rs\<close>: the supported mints with their weights and the registered
  vaults, both fixed arrays of 64 entries.
\<close>

section \<open>Entries\<close>

record st_mint_entry =
  sme_st_mint :: pubkey
  reserve_switchboard_feed :: "u8 list"
  sme_weight :: u128

definition StMintEntry_new :: "pubkey \<Rightarrow> u128 \<Rightarrow> st_mint_entry" where
  "StMintEntry_new m w =
     \<lparr>sme_st_mint = m, reserve_switchboard_feed = replicate 32 0, sme_weight = w\<rparr>"

definition StMintEntry_default :: st_mint_entry where
  "StMintEntry_default = StMintEntry_new Pubkey_default 0"

definition StMintEntry_is_empty :: "st_mint_entry \<Rightarrow> bool" where
  "StMintEntry_is_empty self \<longleftrightarrow> sme_st_mint self = Pubkey_default"

record vault_entry =
  ve_vault :: pubkey
  ve_st_mint :: pubkey
  ve_vault_index :: u64
  ve_slot_registered :: u64

definition EMPTY_VAULT_INDEX :: u64 where "EMPTY_VAULT_INDEX = u64_MAX"
definition EMPTY_SLOT_REGISTERED :: u64 where "EMPTY_SLOT_REGISTERED = u64_MAX"

definition VaultEntry_new :: "pubkey \<Rightarrow> pubkey \<Rightarrow> u64 \<Rightarrow> u64 \<Rightarrow> vault_entry" where
  "VaultEntry_new vault st_mint index slot =
     \<lparr>ve_vault = vault, ve_st_mint = st_mint, ve_vault_index = index, ve_slot_registered = slot\<rparr>"

definition VaultEntry_default :: vault_entry where
  "VaultEntry_default =
     VaultEntry_new Pubkey_default Pubkey_default EMPTY_VAULT_INDEX EMPTY_SLOT_REGISTERED"

definition VaultEntry_is_empty :: "vault_entry \<Rightarrow> bool" where
  "VaultEntry_is_empty self \<longleftrightarrow> ve_slot_registered self = u64_MAX"

section \<open>The registry\<close>

record vault_registry =
  vr_ncn :: pubkey
  vr_bump :: u8
  st_mint_list :: "st_mint_entry list"
  vault_list :: "vault_entry list"

definition VaultRegistry_new :: "pubkey \<Rightarrow> u8 \<Rightarrow> vault_registry" where
  "VaultRegistry_new ncn bump =
     \<lparr>vr_ncn = ncn, vr_bump = bump,
      st_mint_list = replicate MAX_ST_MINTS StMintEntry_default,
      vault_list = replicate MAX_VAULTS VaultEntry_default\<rparr>"

definition VaultRegistry_initialize :: "vault_registry \<Rightarrow> pubkey \<Rightarrow> u8 \<Rightarrow> vault_registry" where
  "VaultRegistry_initialize self ncn bump =
     self\<lparr>vr_ncn := ncn, vr_bump := bump,
      st_mint_list := replicate MAX_ST_MINTS StMintEntry_default,
      vault_list := replicate MAX_VAULTS VaultEntry_default\<rparr>"

definition has_st_mint :: "vault_registry \<Rightarrow> pubkey \<Rightarrow> bool" where
  "has_st_mint self mint = list_ex (\<lambda>m. sme_st_mint m = mint) (st_mint_list self)"

definition check_st_mint_entry :: "st_mint_entry \<Rightarrow> (unit, program_error) result" where
  "check_st_mint_entry entry = ensure (sme_weight entry \<noteq> 0) (program_error_of WeightNotSet)"

definition register_st_mint ::
  "vault_registry \<Rightarrow> pubkey \<Rightarrow> u128 \<Rightarrow> (vault_registry, program_error) result" where
  "register_st_mint self st_mint weight =
     and_then (ensure (\<not> list_ex (\<lambda>m. sme_st_mint m = st_mint) (st_mint_list self))
                 (program_error_of MintInTable)) (\<lambda>_.
     and_then (ok_or (position (\<lambda>m. sme_st_mint m = sme_st_mint StMintEntry_default) (st_mint_list self))
                 (program_error_of VaultRegistryListFull)) (\<lambda>i.
     let new_mint_entry = StMintEntry_new st_mint weight in
     and_then (check_st_mint_entry new_mint_entry) (\<lambda>_.
     Ok (self\<lparr>st_mint_list := (st_mint_list self)[i := new_mint_entry]\<rparr>))))"

definition set_st_mint ::
  "vault_registry \<Rightarrow> pubkey \<Rightarrow> u128 option \<Rightarrow> (vault_registry, program_error) result" where
  "set_st_mint self st_mint weight =
     and_then (ok_or (position (\<lambda>m. sme_st_mint m = st_mint) (st_mint_list self))
                 (program_error_of MintEntryNotFound)) (\<lambda>i.
     let updated = st_mint_list self ! i;
         updated = (case weight of Some w \<Rightarrow> updated\<lparr>sme_weight := w\<rparr> | None \<Rightarrow> updated) in
     and_then (check_st_mint_entry updated) (\<lambda>_.
     Ok (self\<lparr>st_mint_list := (st_mint_list self)[i := updated]\<rparr>)))"

definition register_vault ::
  "vault_registry \<Rightarrow> pubkey \<Rightarrow> pubkey \<Rightarrow> u64 \<Rightarrow> u64 \<Rightarrow> (vault_registry, program_error) result" where
  "register_vault self vault st_mint vault_index current_slot =
     (if list_ex (\<lambda>m. ve_vault m = vault) (vault_list self) then Ok self
      else
        and_then (ok_or (position (\<lambda>m. ve_st_mint m = ve_st_mint VaultEntry_default) (vault_list self))
                    (program_error_of VaultRegistryListFull)) (\<lambda>i.
        Ok (self\<lparr>vault_list := (vault_list self)[i := VaultEntry_new vault st_mint vault_index current_slot]\<rparr>)))"

definition VaultRegistry_vault_count :: "vault_registry \<Rightarrow> u64" where
  "VaultRegistry_vault_count self = word_of_nat (count_where (\<lambda>m. \<not> VaultEntry_is_empty m) (vault_list self))"

definition get_valid_vault_entries :: "vault_registry \<Rightarrow> vault_entry list" where
  "get_valid_vault_entries self = filter (\<lambda>m. \<not> VaultEntry_is_empty m) (vault_list self)"

definition get_valid_mint_entries :: "vault_registry \<Rightarrow> st_mint_entry list" where
  "get_valid_mint_entries self = filter (\<lambda>m. \<not> StMintEntry_is_empty m) (st_mint_list self)"

definition VaultRegistry_st_mint_count :: "vault_registry \<Rightarrow> nat" where
  "VaultRegistry_st_mint_count self = count_where (\<lambda>m. \<not> StMintEntry_is_empty m) (st_mint_list self)"

definition get_mint_entry :: "vault_registry \<Rightarrow> pubkey \<Rightarrow> (st_mint_entry, program_error) result" where
  "get_mint_entry self st_mint =
     ok_or (find (\<lambda>m. sme_st_mint m = st_mint) (st_mint_list self)) (program_error_of MintEntryNotFound)"

section \<open>The two tables\<close>

interpretation mints: keyed_table sme_st_mint StMintEntry_default
  by unfold_locales (simp add: StMintEntry_default_def StMintEntry_new_def)

interpretation vaults: slot_table "\<lambda>m. ve_st_mint m = Pubkey_default" VaultEntry_default
  by unfold_locales (simp add: VaultEntry_default_def VaultEntry_new_def)

text \<open>
  The invariant: both lists are packed, mints and vaults appear once, every registered mint
  has a weight, and a vault slot is used by its mint exactly when it is by its slot.
\<close>

definition vr_mints_ok :: "vault_registry \<Rightarrow> bool" where
  "vr_mints_ok r \<longleftrightarrow> length (st_mint_list r) = MAX_ST_MINTS \<and> mints.keys_ok (st_mint_list r) \<and>
     (\<forall>m \<in> set (get_valid_mint_entries r). sme_weight m \<noteq> 0)"

definition vr_vaults_ok :: "vault_registry \<Rightarrow> bool" where
  "vr_vaults_ok r \<longleftrightarrow> length (vault_list r) = MAX_VAULTS \<and> vaults.packed (vault_list r) \<and>
     distinct (map ve_vault (get_valid_vault_entries r)) \<and>
     (\<forall>m \<in> set (vault_list r). ve_st_mint m = Pubkey_default \<longleftrightarrow> VaultEntry_is_empty m)"

definition vr_wf :: "vault_registry \<Rightarrow> bool" where
  "vr_wf r \<longleftrightarrow> vr_mints_ok r \<and> vr_vaults_ok r"

text \<open>The registry as a map from mints to weights.\<close>

definition mint_weight :: "vault_registry \<Rightarrow> pubkey \<Rightarrow> u128 option" where
  "mint_weight r m = (if m = Pubkey_default then None
     else map_option sme_weight (find (\<lambda>e. sme_st_mint e = m) (st_mint_list r)))"

lemma valid_mints_live: "get_valid_mint_entries r = mints.live (st_mint_list r)"
  by (simp add: get_valid_mint_entries_def mints.live_def StMintEntry_is_empty_def)

lemma valid_vaults_live:
  "vr_vaults_ok r \<Longrightarrow> get_valid_vault_entries r = vaults.live (vault_list r)"
  by (auto simp: get_valid_vault_entries_def vaults.live_def vr_vaults_ok_def intro: filter_cong)

lemma default_mint_key [simp]: "sme_st_mint StMintEntry_default = Pubkey_default"
  by (rule mints.key_dflt)

lemma default_vault_mint [simp]: "ve_st_mint VaultEntry_default = Pubkey_default"
  by (rule vaults.empty_dflt)

lemma VaultRegistry_initialize_wf: "vr_wf (VaultRegistry_initialize r ncn bump)"
proof -
  let ?r = "VaultRegistry_initialize r ncn bump"
  have "get_valid_mint_entries ?r = []" "get_valid_vault_entries ?r = []"
    by (simp_all add: get_valid_mint_entries_def get_valid_vault_entries_def
        VaultRegistry_initialize_def StMintEntry_is_empty_def VaultEntry_is_empty_def
        VaultEntry_default_def VaultEntry_new_def EMPTY_SLOT_REGISTERED_def)
  then show ?thesis
    unfolding vr_wf_def vr_mints_ok_def vr_vaults_ok_def
    by (simp add: VaultRegistry_initialize_def mints.keys_ok_replicate VaultEntry_is_empty_def
        VaultEntry_default_def VaultEntry_new_def EMPTY_SLOT_REGISTERED_def)
      (use vaults.packed_replicate in \<open>simp add: VaultEntry_default_def VaultEntry_new_def EMPTY_SLOT_REGISTERED_def\<close>)
qed

lemma register_st_mint_OkD:
  assumes mok: "vr_mints_ok r" and ok: "register_st_mint r m w = Ok r'"
  shows "vr_mints_ok r'" and "m \<noteq> Pubkey_default" and "w \<noteq> 0" and "mint_weight r m = None"
    and "mint_weight r' = (mint_weight r)(m \<mapsto> w)" and "vault_list r' = vault_list r"
    and "get_valid_mint_entries r' = get_valid_mint_entries r @ [StMintEntry_new m w]"
proof -
  from ok obtain i where new: "\<forall>e \<in> set (st_mint_list r). sme_st_mint e \<noteq> m"
    and i: "position (\<lambda>e. sme_st_mint e = Pubkey_default) (st_mint_list r) = Some i"
    and w: "w \<noteq> 0" and r': "r' = r\<lparr>st_mint_list := (st_mint_list r)[i := StMintEntry_new m w]\<rparr>"
    by (auto simp: register_st_mint_def result_simps Let_def check_st_mint_entry_def list_ex_iff
        StMintEntry_new_def)
  have m: "m \<noteq> Pubkey_default" using position_Some [OF i] new by (metis nth_mem)
  let ?e = "StMintEntry_new m w"
  have key: "sme_st_mint ?e = m" "sme_weight ?e = w" by (simp_all add: StMintEntry_new_def)
  have ne: "sme_st_mint ?e \<noteq> Pubkey_default" using m key by simp
  have kok: "mints.keys_ok (st_mint_list r)" using mok by (simp add: vr_mints_ok_def)
  have none: "mints.lookup (sme_st_mint ?e) (st_mint_list r) = None"
    using new by (auto simp: mints.lookup_def find_None_iff key)
  note ins = mints.lookup_insert [OF kok i ne none]
  show mv: "get_valid_mint_entries r' = get_valid_mint_entries r @ [?e]"
    using ins(2) by (simp add: valid_mints_live r')
  show "vr_mints_ok r'"
    using mok ins(1) w mv by (auto simp: vr_mints_ok_def r' key valid_mints_live)
  show "m \<noteq> Pubkey_default" "w \<noteq> 0" "vault_list r' = vault_list r" using m w by (simp_all add: r')
  show "mint_weight r m = None" using new by (auto simp: mint_weight_def find_None_iff)
  show "mint_weight r' = (mint_weight r)(m \<mapsto> w)"
    using ins(3) m by (auto simp: fun_eq_iff mint_weight_def r' key mints.lookup_def)
qed

lemma registry_mint_count_live: "VaultRegistry_st_mint_count r = length (get_valid_mint_entries r)"
  by (simp add: VaultRegistry_st_mint_count_def get_valid_mint_entries_def count_where_def)

lemma register_st_mint_is_ok_iff:
  assumes mok: "vr_mints_ok r"
  shows "is_ok (register_st_mint r m w) \<longleftrightarrow>
    m \<noteq> Pubkey_default \<and> w \<noteq> 0 \<and> mint_weight r m = None \<and> VaultRegistry_st_mint_count r < 64"
    (is "?l \<longleftrightarrow> ?r")
proof
  have len: "length (st_mint_list r) = 64" and pk: "mints.packed (st_mint_list r)"
    using mok by (simp_all add: vr_mints_ok_def MAX_ST_MINTS_def mints.keys_ok_def)
  assume ?l
  then obtain r' where ok: "register_st_mint r m w = Ok r'" by (auto simp: is_ok_iff)
  note reg = register_st_mint_OkD [OF mok ok]
  have "length (get_valid_mint_entries r') \<le> 64"
    using reg(1) mints.length_live [of "st_mint_list r'"]
    by (simp add: vr_mints_ok_def MAX_ST_MINTS_def valid_mints_live)
  with reg show ?r by (simp add: registry_mint_count_live)
next
  have len: "length (st_mint_list r) = 64" and pk: "mints.packed (st_mint_list r)"
    using mok by (simp_all add: vr_mints_ok_def MAX_ST_MINTS_def mints.keys_ok_def)
  assume r: ?r
  have "position (\<lambda>e. sme_st_mint e = Pubkey_default) (st_mint_list r) = Some (length (get_valid_mint_entries r))"
    using r len mints.packed_position_empty [OF pk] by (simp add: registry_mint_count_live valid_mints_live)
  moreover have "\<not> list_ex (\<lambda>e. sme_st_mint e = m) (st_mint_list r)"
    using r by (auto simp: mint_weight_def list_ex_iff find_None_iff)
  ultimately show ?l
    using r by (simp add: register_st_mint_def Let_def check_st_mint_entry_def StMintEntry_new_def)
qed

lemma set_st_mint_OkD:
  assumes mok: "vr_mints_ok r" and m: "m \<noteq> Pubkey_default" and ok: "set_st_mint r m w = Ok r'"
  shows "vr_mints_ok r'" and "\<exists>old. mint_weight r m = Some old \<and>
      mint_weight r' = (mint_weight r)(m \<mapsto> (case w of None \<Rightarrow> old | Some v \<Rightarrow> v))"
    and "map sme_st_mint (get_valid_mint_entries r') = map sme_st_mint (get_valid_mint_entries r)"
    and "vault_list r' = vault_list r"
proof -
  from ok obtain i where i: "position (\<lambda>e. sme_st_mint e = m) (st_mint_list r) = Some i"
    by (auto simp: set_st_mint_def result_simps)
  let ?e = "st_mint_list r ! i"
  define u where "u = (case w of Some v \<Rightarrow> ?e\<lparr>sme_weight := v\<rparr> | None \<Rightarrow> ?e)"
  have u: "sme_weight u \<noteq> 0" and r': "r' = r\<lparr>st_mint_list := (st_mint_list r)[i := u]\<rparr>"
    using ok by (auto simp: set_st_mint_def result_simps i check_st_mint_entry_def Let_def u_def)
  note pos = position_Some [OF i]
  have key: "sme_st_mint u = m" and wt: "sme_weight u = (case w of None \<Rightarrow> sme_weight ?e | Some v \<Rightarrow> v)"
    using pos by (simp_all add: u_def split: option.split)
  have kok: "mints.keys_ok (st_mint_list r)" using mok by (simp add: vr_mints_ok_def)
  note upd = mints.lookup_update [OF kok i m key]
  have live: "get_valid_mint_entries r' = (get_valid_mint_entries r)[i := u]"
    using upd(2) by (simp add: valid_mints_live r')
  have "\<forall>x \<in> set (get_valid_mint_entries r'). sme_weight x \<noteq> 0"
    using mok u set_update_subset_insert [of "get_valid_mint_entries r" i u]
    by (auto simp: live vr_mints_ok_def)
  with mok upd(1) show "vr_mints_ok r'" by (simp add: vr_mints_ok_def r')
  show "map sme_st_mint (get_valid_mint_entries r') = map sme_st_mint (get_valid_mint_entries r)"
    using upd(3) by (simp add: valid_mints_live r')
  have old: "mint_weight r m = Some (sme_weight ?e)"
    using m i by (simp add: mint_weight_def find_position)
  have "mint_weight r' k = ((mint_weight r)(m \<mapsto> sme_weight u)) k" for k
    using find_first_update [OF i key] m by (simp add: mint_weight_def r')
  then have "mint_weight r' = (mint_weight r)(m \<mapsto> sme_weight u)" ..
  with old wt show "\<exists>old. mint_weight r m = Some old \<and>
      mint_weight r' = (mint_weight r)(m \<mapsto> (case w of None \<Rightarrow> old | Some v \<Rightarrow> v))" by auto
  show "vault_list r' = vault_list r" by (simp add: r')
qed

lemma vault_member:
  assumes "vr_vaults_ok r" and "v \<noteq> Pubkey_default"
  shows "list_ex (\<lambda>e. ve_vault e = v) (vault_list r) \<longleftrightarrow> v \<in> ve_vault ` set (get_valid_vault_entries r)"
proof -
  have pk: "vaults.packed (vault_list r)" using assms(1) by (simp add: vr_vaults_ok_def)
  have "ve_vault VaultEntry_default = Pubkey_default"
    by (simp add: VaultEntry_default_def VaultEntry_new_def)
  with assms(2) vaults.packed_set [OF pk] vaults.set_live [of "vault_list r"] show ?thesis
    by (auto simp: list_ex_iff valid_vaults_live [OF assms(1)])
qed

lemma register_vault_new:
  assumes vok: "vr_vaults_ok r" and v: "v \<noteq> Pubkey_default" and m: "m \<noteq> Pubkey_default"
    and slot: "slot \<noteq> u64_MAX" and new: "v \<notin> ve_vault ` set (get_valid_vault_entries r)"
    and room: "length (get_valid_vault_entries r) < 64"
  shows "\<exists>r'. register_vault r v m i slot = Ok r' \<and> vr_vaults_ok r' \<and>
    get_valid_vault_entries r' = get_valid_vault_entries r @ [VaultEntry_new v m i slot] \<and>
    st_mint_list r' = st_mint_list r"
proof -
  have pk: "vaults.packed (vault_list r)" and len: "length (vault_list r) = 64"
    and emp: "\<forall>e \<in> set (vault_list r). ve_st_mint e = Pubkey_default \<longleftrightarrow> VaultEntry_is_empty e"
    using vok by (simp_all add: vr_vaults_ok_def MAX_VAULTS_def)
  let ?n = "length (get_valid_vault_entries r)" and ?e = "VaultEntry_new v m i slot"
  have p: "position (\<lambda>e. ve_st_mint e = Pubkey_default) (vault_list r) = Some ?n"
    using room len vaults.packed_position_empty [OF pk] by (simp add: valid_vaults_live [OF vok])
  define r' where "r' = r\<lparr>vault_list := (vault_list r)[?n := ?e]\<rparr>"
  have reg: "register_vault r v m i slot = Ok r'"
    using vault_member [OF vok v] new p by (simp add: register_vault_def r'_def)
  have ne: "ve_st_mint ?e \<noteq> Pubkey_default" using m by (simp add: VaultEntry_new_def)
  note ins = vaults.packed_insert [OF pk p ne]
  have "\<forall>e \<in> set (vault_list r'). ve_st_mint e = Pubkey_default \<longleftrightarrow> VaultEntry_is_empty e"
    using emp ne slot set_update_subset_insert [of "vault_list r" ?n ?e]
    by (auto simp: r'_def VaultEntry_is_empty_def VaultEntry_new_def)
  then have lv: "get_valid_vault_entries r' = vaults.live (vault_list r')"
    by (auto simp: get_valid_vault_entries_def vaults.live_def intro: filter_cong)
  have gv: "get_valid_vault_entries r' = get_valid_vault_entries r @ [?e]"
    unfolding lv using ins(2) by (simp add: r'_def valid_vaults_live [OF vok])
  have ev: "ve_vault ?e = v" by (simp add: VaultEntry_new_def)
  have "distinct (map ve_vault (get_valid_vault_entries r'))"
    using vok new unfolding gv by (simp add: vr_vaults_ok_def ev)
  then have "vr_vaults_ok r'"
    using len ins(1) \<open>\<forall>e \<in> set (vault_list r'). _ e\<close>
    by (simp add: vr_vaults_ok_def r'_def MAX_VAULTS_def)
  with reg gv show ?thesis by (auto simp: r'_def)
qed

end
