(* ===== verification/Weight_Table.thy ===== *)
theory Weight_Table
  imports Vault_Registry
begin

text \<open>
  \<open>core/src/weight_entry.rs\<close> and \<open>core/src/weight_table.rs\<close>: the per-epoch copy of the
  registry with a weight for every supported mint.
\<close>

section \<open>Weight entries\<close>

record weight_entry =
  we_st_mint_entry :: st_mint_entry
  we_weight :: u128
  we_slot_set :: u64
  we_slot_updated :: u64

definition WeightEntry_default :: weight_entry where
  "WeightEntry_default = \<lparr>we_st_mint_entry = StMintEntry_default, we_weight = 0,
     we_slot_set = 0, we_slot_updated = 0\<rparr>"

definition WeightEntry_new :: "st_mint_entry \<Rightarrow> weight_entry" where
  "WeightEntry_new mint_entry = \<lparr>we_st_mint_entry = mint_entry, we_weight = 0,
     we_slot_set = 0, we_slot_updated = 0\<rparr>"

definition WeightEntry_is_empty :: "weight_entry \<Rightarrow> bool" where
  "WeightEntry_is_empty self = StMintEntry_is_empty (we_st_mint_entry self)"

definition WeightEntry_is_set :: "weight_entry \<Rightarrow> bool" where
  "WeightEntry_is_set self \<longleftrightarrow> 0 < we_slot_set self"

definition we_st_mint :: "weight_entry \<Rightarrow> pubkey" where
  "we_st_mint self = sme_st_mint (we_st_mint_entry self)"

definition WeightEntry_precise_weight :: "'p precise_ops \<Rightarrow> weight_entry \<Rightarrow> ('p, ncn_error) result" where
  "WeightEntry_precise_weight P self = ok_or (pn_new P (we_weight self)) NewPreciseNumberError"

definition WeightEntry_set_weight :: "weight_entry \<Rightarrow> u128 \<Rightarrow> u64 \<Rightarrow> weight_entry" where
  "WeightEntry_set_weight self weight current_slot =
     (let self = self\<lparr>we_weight := weight\<rparr>;
          self = (if we_slot_set self = 0
                  then self\<lparr>we_slot_set := current_slot, we_slot_updated := current_slot\<rparr> else self)
      in self\<lparr>we_slot_updated := current_slot\<rparr>)"

section \<open>The weight table\<close>

record weight_table =
  wt_ncn :: pubkey
  wt_epoch :: u64
  wt_slot_created :: u64
  wt_vault_count :: u64
  wt_bump :: u8
  wt_vault_registry :: "vault_entry list"
  wt_table :: "weight_entry list"

definition WeightTable_new :: "pubkey \<Rightarrow> u64 \<Rightarrow> u64 \<Rightarrow> u64 \<Rightarrow> u8 \<Rightarrow> weight_table" where
  "WeightTable_new ncn epoch slot_created vault_count bump =
     \<lparr>wt_ncn = ncn, wt_epoch = epoch, wt_slot_created = slot_created, wt_vault_count = vault_count,
      wt_bump = bump, wt_vault_registry = replicate MAX_VAULTS VaultEntry_default,
      wt_table = replicate MAX_ST_MINTS WeightEntry_default\<rparr>"

definition vault_entry_count :: "weight_table \<Rightarrow> nat" where
  "vault_entry_count self = count_where (\<lambda>e. \<not> VaultEntry_is_empty e) (wt_vault_registry self)"

definition mint_count :: "weight_table \<Rightarrow> nat" where
  "mint_count self = count_where (\<lambda>e. \<not> WeightEntry_is_empty e) (wt_table self)"

definition weight_count :: "weight_table \<Rightarrow> nat" where
  "weight_count self = count_where WeightEntry_is_set (wt_table self)"

definition WeightTable_st_mint_count :: "weight_table \<Rightarrow> nat" where
  "WeightTable_st_mint_count self = count_where (\<lambda>e. \<not> WeightEntry_is_empty e) (wt_table self)"

definition vault_registry_initialized :: "weight_table \<Rightarrow> bool" where
  "vault_registry_initialized self \<longleftrightarrow> wt_vault_count self = word_of_nat (vault_entry_count self)"

definition table_initialized :: "weight_table \<Rightarrow> bool" where
  "table_initialized self \<longleftrightarrow> 0 < mint_count self"

definition finalized :: "weight_table \<Rightarrow> bool" where
  "finalized self \<longleftrightarrow> vault_registry_initialized self \<and> table_initialized self \<and>
     mint_count self = weight_count self"

definition check_table_initialized :: "weight_table \<Rightarrow> (unit, ncn_error) result" where
  "check_table_initialized self = ensure (table_initialized self) TableNotInitialized"

definition check_registry_initialized :: "weight_table \<Rightarrow> (unit, ncn_error) result" where
  "check_registry_initialized self = ensure (vault_registry_initialized self) RegistryNotInitialized"

definition check_registry_for_vault :: "weight_table \<Rightarrow> u64 \<Rightarrow> (unit, ncn_error) result" where
  "check_registry_for_vault self vault_index =
     and_then (ensure (vault_index \<noteq> EMPTY_VAULT_INDEX) VaultNotInRegistry) (\<lambda>_.
     ensure (list_ex (\<lambda>e. ve_vault_index e = vault_index) (wt_vault_registry self)) VaultNotInRegistry)"

text \<open>
  The two copy loops run over arrays of the same length as their target; writing entry by
  entry from index 0 is \<open>copy_entries\<close>.
\<close>

fun copy_entries :: "('a \<Rightarrow> 'b) \<Rightarrow> nat \<Rightarrow> 'a list \<Rightarrow> 'b list \<Rightarrow> 'b list" where
  "copy_entries f i [] target = target"
| "copy_entries f i (x # xs) target = copy_entries f (Suc i) xs (target[i := f x])"

definition set_vault_entries :: "weight_table \<Rightarrow> vault_entry list \<Rightarrow> (weight_table, ncn_error) result" where
  "set_vault_entries self vault_entries =
     and_then (ensure (\<not> vault_registry_initialized self) WeightTableAlreadyInitialized) (\<lambda>_.
     let self = self\<lparr>wt_vault_registry := copy_entries (\<lambda>e. e) 0 vault_entries (wt_vault_registry self)\<rparr> in
     and_then (check_registry_initialized self) (\<lambda>_. Ok self))"

definition set_mint_entries :: "weight_table \<Rightarrow> st_mint_entry list \<Rightarrow> (weight_table, ncn_error) result" where
  "set_mint_entries self mint_entries =
     and_then (ensure (\<not> table_initialized self) WeightTableAlreadyInitialized) (\<lambda>_.
     let self = self\<lparr>wt_table := copy_entries WeightEntry_new 0 mint_entries (wt_table self)\<rparr> in
     and_then (check_table_initialized self) (\<lambda>_. Ok self))"

definition WeightTable_initialize ::
  "weight_table \<Rightarrow> pubkey \<Rightarrow> u64 \<Rightarrow> u64 \<Rightarrow> u64 \<Rightarrow> u8 \<Rightarrow> vault_entry list \<Rightarrow> st_mint_entry list \<Rightarrow>
   (weight_table, ncn_error) result" where
  "WeightTable_initialize self ncn ncn_epoch slot_created vault_count bump vault_entries mint_entries =
     (let self = self\<lparr>wt_ncn := ncn, wt_epoch := ncn_epoch, wt_slot_created := slot_created,
                      wt_vault_count := vault_count, wt_bump := bump,
                      wt_vault_registry := replicate MAX_VAULTS VaultEntry_default,
                      wt_table := replicate MAX_ST_MINTS WeightEntry_default\<rparr> in
      and_then (set_vault_entries self vault_entries) (\<lambda>self.
      set_mint_entries self mint_entries))"

definition WeightTable_set_weight ::
  "weight_table \<Rightarrow> pubkey \<Rightarrow> u128 \<Rightarrow> u64 \<Rightarrow> (weight_table, ncn_error) result" where
  "WeightTable_set_weight self mint weight current_slot =
     (case position (\<lambda>e. we_st_mint e = mint) (wt_table self) of
        None \<Rightarrow> Err InvalidMintForWeightTable
      | Some i \<Rightarrow> Ok (self\<lparr>wt_table := (wt_table self)
                             [i := WeightEntry_set_weight (wt_table self ! i) weight current_slot]\<rparr>))"

definition get_weight :: "weight_table \<Rightarrow> pubkey \<Rightarrow> (u128, ncn_error) result" where
  "get_weight self mint =
     (case find (\<lambda>e. we_st_mint e = mint) (wt_table self) of
        None \<Rightarrow> Err InvalidMintForWeightTable
      | Some e \<Rightarrow> Ok (we_weight e))"

definition get_weight_entry :: "weight_table \<Rightarrow> pubkey \<Rightarrow> (weight_entry, ncn_error) result" where
  "get_weight_entry self mint =
     ok_or (find (\<lambda>e. we_st_mint e = mint) (wt_table self)) InvalidMintForWeightTable"

definition get_precise_weight :: "'p precise_ops \<Rightarrow> weight_table \<Rightarrow> pubkey \<Rightarrow> ('p, ncn_error) result" where
  "get_precise_weight P self mint =
     and_then (get_weight self mint) (\<lambda>w. ok_or (pn_new P w) NewPreciseNumberError)"

definition get_mints :: "weight_table \<Rightarrow> pubkey list" where
  "get_mints self = map we_st_mint (filter (\<lambda>e. \<not> WeightEntry_is_empty e) (wt_table self))"

section \<open>The table as a keyed table\<close>

interpretation weights: keyed_table we_st_mint WeightEntry_default
  by unfold_locales (simp add: we_st_mint_def WeightEntry_default_def)

text \<open>
  The invariant: the array is packed, mints are distinct, and only entries of a mint are set.
\<close>

definition wt_wf :: "weight_table \<Rightarrow> bool" where
  "wt_wf t \<longleftrightarrow> length (wt_table t) = MAX_ST_MINTS \<and> length (wt_vault_registry t) = MAX_VAULTS \<and>
     weights.keys_ok (wt_table t)"

abbreviation weight_entries :: "weight_table \<Rightarrow> weight_entry list" where
  "weight_entries t \<equiv> weights.live (wt_table t)"

lemma WeightEntry_new_mint [simp]: "we_st_mint (WeightEntry_new e) = sme_st_mint e"
  by (simp add: we_st_mint_def WeightEntry_new_def)

lemma WeightEntry_empty_iff: "WeightEntry_is_empty e \<longleftrightarrow> we_st_mint e = Pubkey_default"
  by (simp add: WeightEntry_is_empty_def StMintEntry_is_empty_def we_st_mint_def)

lemma set_weight_fields [simp]:
  "we_st_mint (WeightEntry_set_weight e w slot) = we_st_mint e"
  "we_weight (WeightEntry_set_weight e w slot) = w"
  "we_slot_updated (WeightEntry_set_weight e w slot) = slot"
  "we_slot_set (WeightEntry_set_weight e w slot) = (if we_slot_set e = 0 then slot else we_slot_set e)"
  by (simp_all add: WeightEntry_set_weight_def we_st_mint_def Let_def)

lemma copy_entries_append:
  "length xs \<le> length ys \<Longrightarrow>
   copy_entries f (length zs) xs (zs @ ys) = zs @ map f xs @ drop (length xs) ys"
proof (induction xs arbitrary: zs ys)
  case (Cons x xs)
  then obtain y ys' where ys: "ys = y # ys'" by (cases ys) auto
  have "copy_entries f (length zs) (x # xs) (zs @ ys) = copy_entries f (length (zs @ [f x])) xs ((zs @ [f x]) @ ys')"
    by (simp add: ys)
  also have "\<dots> = (zs @ [f x]) @ map f xs @ drop (length xs) ys'"
    using Cons.prems ys by (intro Cons.IH) simp
  finally show ?case by (simp add: ys)
qed simp

lemma copy_entries_full: "length xs = length ys \<Longrightarrow> copy_entries f 0 xs ys = map f xs"
  using copy_entries_append [of xs ys f "[]"] by simp

lemma mint_count_live: "mint_count t = length (weight_entries t)"
  by (simp add: mint_count_def weights.live_def count_where_def WeightEntry_empty_iff)

lemma weights_packed_map:
  assumes "mints.keys_ok xs"
  shows "weights.keys_ok (map WeightEntry_new xs)"
    and "weights.live (map WeightEntry_new xs) = map WeightEntry_new (mints.live xs)"
proof -
  show lv: "weights.live (map WeightEntry_new xs) = map WeightEntry_new (mints.live xs)"
    by (simp add: weights.live_def mints.live_def filter_map comp_def)
  obtain n where n: "xs = mints.live xs @ replicate n StMintEntry_default"
    using assms mints.packed_cases unfolding mints.keys_ok_def by blast
  have d: "WeightEntry_new StMintEntry_default = WeightEntry_default"
    by (simp add: WeightEntry_new_def WeightEntry_default_def)
  have "map WeightEntry_new xs = weights.live (map WeightEntry_new xs) @ replicate n WeightEntry_default"
    unfolding lv by (subst n) (simp only: map_append map_replicate d)
  moreover have "\<forall>x \<in> set (weights.live (map WeightEntry_new xs)). \<not> we_st_mint x = Pubkey_default"
    using weights.live_not_empty by blast
  ultimately have "weights.packed (map WeightEntry_new xs)"
    using weights.packed_live_app by blast
  moreover have "map we_st_mint (map WeightEntry_new ys) = map sme_st_mint ys" for ys by simp
  ultimately show "weights.keys_ok (map WeightEntry_new xs)"
    using assms unfolding weights.keys_ok_def mints.keys_ok_def lv by metis
qed

text \<open>Initialization copies the registry and fails when either list is empty.\<close>

lemma WeightTable_initialize_result:
  assumes len: "length vs = MAX_VAULTS" "length ms = MAX_ST_MINTS"
  shows "WeightTable_initialize t ncn e slot cnt bump vs ms =
    (if cnt = 0 then Err WeightTableAlreadyInitialized
     else if cnt \<noteq> word_of_nat (count_where (\<lambda>e. \<not> VaultEntry_is_empty e) vs) then Err RegistryNotInitialized
     else if count_where (\<lambda>m. \<not> StMintEntry_is_empty m) ms = 0 then Err TableNotInitialized
     else Ok (t\<lparr>wt_ncn := ncn, wt_epoch := e, wt_slot_created := slot, wt_vault_count := cnt,
               wt_bump := bump, wt_vault_registry := vs, wt_table := map WeightEntry_new ms\<rparr>))"
proof -
  have z: "VaultEntry_is_empty VaultEntry_default" "WeightEntry_is_empty WeightEntry_default"
    by (simp_all add: VaultEntry_is_empty_def VaultEntry_default_def VaultEntry_new_def
        EMPTY_SLOT_REGISTERED_def WeightEntry_empty_iff weights.key_dflt)
  have c: "count_where (\<lambda>e. \<not> WeightEntry_is_empty e) (map WeightEntry_new ms)
      = count_where (\<lambda>m. \<not> StMintEntry_is_empty m) ms"
    by (simp add: count_where_map comp_def WeightEntry_empty_iff StMintEntry_is_empty_def)
  show ?thesis
    using len by (simp add: WeightTable_initialize_def set_vault_entries_def set_mint_entries_def
        check_registry_initialized_def check_table_initialized_def vault_registry_initialized_def
        table_initialized_def vault_entry_count_def mint_count_def copy_entries_full z c)
qed

lemma set_weight_OkD:
  assumes wf: "wt_wf t" and m: "m \<noteq> Pubkey_default"
    and ok: "WeightTable_set_weight t m w slot = Ok t'"
  shows "wt_wf t'" and "get_weight t' k = (if k = m then Ok w else get_weight t k)"
    and "map we_st_mint (weight_entries t') = map we_st_mint (weight_entries t)"
    and "wt_vault_registry t' = wt_vault_registry t" and "wt_vault_count t' = wt_vault_count t"
    and "m \<in> we_st_mint ` set (weight_entries t)"
proof -
  from ok obtain i where i: "position (\<lambda>e. we_st_mint e = m) (wt_table t) = Some i"
    and t': "t' = t\<lparr>wt_table := (wt_table t)[i := WeightEntry_set_weight (wt_table t ! i) w slot]\<rparr>"
    by (auto simp: WeightTable_set_weight_def split: option.splits)
  let ?e = "WeightEntry_set_weight (wt_table t ! i) w slot"
  note pos = position_Some [OF i]
  have key: "we_st_mint ?e = m" using pos by simp
  have kok: "weights.keys_ok (wt_table t)" using wf by (simp add: wt_wf_def)
  note upd = weights.lookup_update [OF kok i m key]
  show "wt_wf t'" using wf upd(1) by (simp add: wt_wf_def t')
  show "get_weight t' k = (if k = m then Ok w else get_weight t k)"
    using find_first_update [OF i key, of k] by (simp add: get_weight_def t')
  show "map we_st_mint (weight_entries t') = map we_st_mint (weight_entries t)"
    using upd(3) by (simp add: t')
  show "wt_vault_registry t' = wt_vault_registry t" "wt_vault_count t' = wt_vault_count t"
    by (simp_all add: t')
  have pk: "weights.packed (wt_table t)" using kok by (simp add: weights.keys_ok_def)
  note live = weights.position_key_live [OF pk i m]
  show "m \<in> we_st_mint ` set (weight_entries t)" using live pos by (metis imageI nth_mem)
qed

section \<open>Finalized tables\<close>

lemma weight_count_live:
  assumes "wt_wf t"
  shows "weight_count t = count_where WeightEntry_is_set (weight_entries t)"
proof -
  obtain n where n: "wt_table t = weight_entries t @ replicate n WeightEntry_default"
    using assms weights.packed_cases unfolding wt_wf_def weights.keys_ok_def by blast
  have "\<not> WeightEntry_is_set WeightEntry_default"
    by (simp add: WeightEntry_is_set_def WeightEntry_default_def)
  then have "count_where WeightEntry_is_set (weight_entries t @ replicate n WeightEntry_default)
      = count_where WeightEntry_is_set (weight_entries t)" by simp
  with n show ?thesis unfolding weight_count_def by metis
qed

lemma finalized_iff:
  assumes "wt_wf t"
  shows "finalized t \<longleftrightarrow> vault_registry_initialized t \<and> weight_entries t \<noteq> [] \<and>
    (\<forall>e \<in> set (weight_entries t). WeightEntry_is_set e)"
  using count_where_all [of WeightEntry_is_set "weight_entries t"]
  by (auto simp: finalized_def table_initialized_def mint_count_live weight_count_live [OF assms])

text \<open>Setting a weight marks its entry as set and never unsets another.\<close>

lemma set_weight_entries:
  assumes wf: "wt_wf t" and m: "m \<noteq> Pubkey_default" and slot: "slot \<noteq> 0"
    and ok: "WeightTable_set_weight t m w slot = Ok t'"
    and e': "e' \<in> set (weight_entries t')"
  shows "(we_st_mint e' = m \<and> WeightEntry_is_set e' \<and> we_weight e' = w) \<or>
    (we_st_mint e' \<noteq> m \<and> e' \<in> set (weight_entries t))"
proof -
  from ok obtain i where i: "position (\<lambda>e. we_st_mint e = m) (wt_table t) = Some i"
    and t': "t' = t\<lparr>wt_table := (wt_table t)[i := WeightEntry_set_weight (wt_table t ! i) w slot]\<rparr>"
    by (auto simp: WeightTable_set_weight_def split: option.splits)
  let ?e = "WeightEntry_set_weight (wt_table t ! i) w slot"
  have key: "we_st_mint ?e = m" using position_Some [OF i] by simp
  have kok: "weights.keys_ok (wt_table t)" using wf by (simp add: wt_wf_def)
  note upd = weights.lookup_update [OF kok i m key]
  have live: "weight_entries t' = (weight_entries t)[i := ?e]" using upd(2) by (simp add: t')
  have set: "WeightEntry_is_set ?e" using slot by (simp add: WeightEntry_is_set_def word_neq_0_conv)
  have pk: "weights.packed (wt_table t)" using kok by (simp add: weights.keys_ok_def)
  note pos = weights.position_key_live [OF pk i m]
  from e' obtain j where j: "j < length (weight_entries t)" "e' = (weight_entries t)[i := ?e] ! j"
    by (auto simp: live in_set_conv_nth)
  show ?thesis
  proof (cases "j = i")
    case True
    with j key set pos(1) show ?thesis by simp
  next
    case False
    have "we_st_mint (weight_entries t ! i) = m" using position_Some [OF i] pos(2) by simp
    moreover have "distinct (map we_st_mint (weight_entries t))"
      using kok by (simp add: weights.keys_ok_def)
    ultimately have "we_st_mint (weight_entries t ! j) \<noteq> m"
      using False j(1) pos(1) nth_eq_iff_index_eq [of "map we_st_mint (weight_entries t)" j i] by simp
    with False j show ?thesis by simp
  qed
qed

lemma set_weight_succeeds:
  assumes "wt_wf t" and "m \<in> we_st_mint ` set (weight_entries t)"
  shows "\<exists>t'. WeightTable_set_weight t m w slot = Ok t'"
proof -
  have "\<exists>e \<in> set (wt_table t). we_st_mint e = m"
    using assms(2) weights.set_live [of "wt_table t"] by auto
  then obtain i where "position (\<lambda>e. we_st_mint e = m) (wt_table t) = Some i"
    by (metis (mono_tags, lifting) not_None_eq position_None)
  then show ?thesis by (simp add: WeightTable_set_weight_def)
qed

end
