(* ===== verification/Stake_Weight.thy ===== *)
theory Stake_Weight
  imports Ncn_Errors
begin

text \<open>
  \<open>core/src/stake_weight.rs\<close>: the stake weight attached to a vote, a tally or a snapshot, a
  single \<open>u128\<close> changed by checked addition and subtraction only.
\<close>

record stake_weights =
  stake_weight :: u128

definition StakeWeights_default :: stake_weights where
  "StakeWeights_default = \<lparr>stake_weight = 0\<rparr>"

definition StakeWeights_new :: "u128 \<Rightarrow> stake_weights" where
  "StakeWeights_new w = \<lparr>stake_weight = w\<rparr>"

definition increment_stake_weight :: "stake_weights \<Rightarrow> u128 \<Rightarrow> (stake_weights, ncn_error) result" where
  "increment_stake_weight self w =
     and_then (ok_or (checked_add (stake_weight self) w) ArithmeticOverflow) (\<lambda>s.
     Ok (self\<lparr>stake_weight := s\<rparr>))"

definition StakeWeights_snapshot :: "u128 \<Rightarrow> (stake_weights, ncn_error) result" where
  "StakeWeights_snapshot w = increment_stake_weight StakeWeights_default w"

definition StakeWeights_increment ::
  "stake_weights \<Rightarrow> stake_weights \<Rightarrow> (stake_weights, ncn_error) result" where
  "StakeWeights_increment self other = increment_stake_weight self (stake_weight other)"

definition decrement_stake_weight :: "stake_weights \<Rightarrow> u128 \<Rightarrow> (stake_weights, ncn_error) result" where
  "decrement_stake_weight self w =
     and_then (ok_or (checked_sub (stake_weight self) w) ArithmeticOverflow) (\<lambda>s.
     Ok (self\<lparr>stake_weight := s\<rparr>))"

definition StakeWeights_decrement ::
  "stake_weights \<Rightarrow> stake_weights \<Rightarrow> (stake_weights, ncn_error) result" where
  "StakeWeights_decrement self other = decrement_stake_weight self (stake_weight other)"

text \<open>The weight as a number; every claim about stake is linear arithmetic on it.\<close>

abbreviation weight_of :: "stake_weights \<Rightarrow> nat" where
  "weight_of w \<equiv> unat (stake_weight w)"

lemma StakeWeights_default_weight [simp]: "stake_weight StakeWeights_default = 0"
  by (simp add: StakeWeights_default_def)

lemma StakeWeights_increment_Ok:
  "StakeWeights_increment a b = Ok c \<longleftrightarrow> weight_of c = weight_of a + weight_of b"
  by (cases a; cases c)
    (auto simp: StakeWeights_increment_def increment_stake_weight_def result_simps checked_simps)

lemma StakeWeights_increment_Err:
  "StakeWeights_increment a b = Err e \<longleftrightarrow>
     2 ^ 128 \<le> weight_of a + weight_of b \<and> e = ArithmeticOverflow"
  by (auto simp: StakeWeights_increment_def increment_stake_weight_def result_simps checked_simps)

lemma StakeWeights_increment_not_Panic [simp]: "StakeWeights_increment a b \<noteq> Panic"
  by (simp add: StakeWeights_increment_def increment_stake_weight_def result_simps)

lemma StakeWeights_decrement_Ok:
  "StakeWeights_decrement a b = Ok c \<longleftrightarrow> weight_of a = weight_of b + weight_of c"
  by (cases a; cases c)
    (auto simp: StakeWeights_decrement_def decrement_stake_weight_def result_simps checked_simps)

lemma StakeWeights_decrement_increment:
  "StakeWeights_increment a b = Ok c \<Longrightarrow> StakeWeights_decrement c b = Ok a"
  by (simp add: StakeWeights_increment_Ok StakeWeights_decrement_Ok)

lemma StakeWeights_snapshot_Ok [simp]: "StakeWeights_snapshot w = Ok (StakeWeights_new w)"
  using unat_u128_less [of w]
  by (simp add: StakeWeights_snapshot_def increment_stake_weight_def StakeWeights_default_def
      StakeWeights_new_def checked_add_def)

end
