(* ===== verification/Epoch_Snapshot.thy ===== *)
theory Epoch_Snapshot
  imports Weight_Table Stake_Weight Fees
begin

text \<open>
  \<open>core/src/epoch_snapshot.rs\<close>: the epoch snapshot with its running stake total, the operator
  snapshots with one entry per vault delegation, and the stake weight of a delegation.
  \<open>DelegationState::total_security\<close> belongs to the vault program's crate; its result is an
  argument.
\<close>

section \<open>The epoch snapshot\<close>

record epoch_snapshot =
  es_ncn :: pubkey
  es_epoch :: u64
  es_bump :: u8
  es_slot_created :: u64
  es_slot_finalized :: u64
  es_operator_count :: u64
  es_vault_count :: u64
  es_operators_registered :: u64
  es_valid_operator_vault_delegations :: u64
  es_stake_weights :: stake_weights
  es_fees :: fees

definition EpochSnapshot_new ::
  "pubkey \<Rightarrow> u64 \<Rightarrow> u8 \<Rightarrow> u64 \<Rightarrow> u64 \<Rightarrow> u64 \<Rightarrow> fees \<Rightarrow> epoch_snapshot" where
  "EpochSnapshot_new ncn ncn_epoch bump current_slot operator_count vault_count fees_arg =
     \<lparr>es_ncn = ncn, es_epoch = ncn_epoch, es_bump = bump, es_slot_created = current_slot,
      es_slot_finalized = 0, es_operator_count = operator_count, es_vault_count = vault_count,
      es_operators_registered = 0, es_valid_operator_vault_delegations = 0,
      es_stake_weights = StakeWeights_default, es_fees = fees_arg\<rparr>"

definition EpochSnapshot_finalized :: "epoch_snapshot \<Rightarrow> bool" where
  "EpochSnapshot_finalized self \<longleftrightarrow> es_operators_registered self = es_operator_count self"

definition increment_operator_registration ::
  "epoch_snapshot \<Rightarrow> u64 \<Rightarrow> u64 \<Rightarrow> stake_weights \<Rightarrow> (epoch_snapshot, ncn_error) result" where
  "increment_operator_registration self current_slot delegations w =
     and_then (ensure (\<not> EpochSnapshot_finalized self) OperatorFinalized) (\<lambda>_.
     and_then (ok_or (checked_add (es_operators_registered self) 1) ArithmeticOverflow) (\<lambda>n.
     let self = self\<lparr>es_operators_registered := n\<rparr> in
     and_then (ok_or (checked_add (es_valid_operator_vault_delegations self) delegations)
                 ArithmeticOverflow) (\<lambda>d.
     let self = self\<lparr>es_valid_operator_vault_delegations := d\<rparr> in
     and_then (StakeWeights_increment (es_stake_weights self) w) (\<lambda>s.
     let self = self\<lparr>es_stake_weights := s\<rparr> in
     Ok (if EpochSnapshot_finalized self then self\<lparr>es_slot_finalized := current_slot\<rparr> else self)))))"

section \<open>Operator snapshots\<close>

record vault_operator_stake_weight_t =
  vosw_vault :: pubkey
  vosw_vault_index :: u64
  vosw_stake_weight :: stake_weights

definition VaultOperatorStakeWeight_default :: vault_operator_stake_weight_t where
  "VaultOperatorStakeWeight_default =
     \<lparr>vosw_vault = Pubkey_default, vosw_vault_index = u64_MAX,
      vosw_stake_weight = StakeWeights_default\<rparr>"

definition VaultOperatorStakeWeight_new ::
  "pubkey \<Rightarrow> u64 \<Rightarrow> stake_weights \<Rightarrow> vault_operator_stake_weight_t" where
  "VaultOperatorStakeWeight_new vault vault_index w =
     \<lparr>vosw_vault = vault, vosw_vault_index = vault_index, vosw_stake_weight = w\<rparr>"

definition VaultOperatorStakeWeight_is_empty :: "vault_operator_stake_weight_t \<Rightarrow> bool" where
  "VaultOperatorStakeWeight_is_empty self \<longleftrightarrow> vosw_vault_index self = u64_MAX"

record operator_snapshot =
  os_operator :: pubkey
  os_ncn :: pubkey
  os_ncn_epoch :: u64
  os_bump :: u8
  os_slot_created :: u64
  os_slot_finalized :: u64
  os_is_active :: bool
  os_ncn_operator_index :: u64
  os_operator_index :: u64
  os_operator_fee_bps :: u16
  vault_operator_delegation_count :: u64
  vault_operator_delegations_registered :: u64
  os_valid_operator_vault_delegations :: u64
  os_stake_weights :: stake_weights
  vault_operator_stake_weight :: "vault_operator_stake_weight_t list"

definition OperatorSnapshot_new ::
  "pubkey \<Rightarrow> pubkey \<Rightarrow> u64 \<Rightarrow> u8 \<Rightarrow> u64 \<Rightarrow> bool \<Rightarrow> u64 \<Rightarrow> u64 \<Rightarrow> u16 \<Rightarrow> u64 \<Rightarrow>
   (operator_snapshot, ncn_error) result" where
  "OperatorSnapshot_new operator ncn ncn_epoch bump current_slot active ncn_index index fee_bps count =
     and_then (ensure (\<not> word_of_nat MAX_VAULTS < count) TooManyVaultOperatorDelegations) (\<lambda>_.
     Ok \<lparr>os_operator = operator, os_ncn = ncn, os_ncn_epoch = ncn_epoch, os_bump = bump,
         os_slot_created = current_slot, os_slot_finalized = 0, os_is_active = active,
         os_ncn_operator_index = ncn_index, os_operator_index = index,
         os_operator_fee_bps = fee_bps, vault_operator_delegation_count = count,
         vault_operator_delegations_registered = 0, os_valid_operator_vault_delegations = 0,
         os_stake_weights = StakeWeights_default,
         vault_operator_stake_weight = replicate MAX_VAULTS VaultOperatorStakeWeight_default\<rparr>)"

definition OperatorSnapshot_initialize ::
  "operator_snapshot \<Rightarrow> pubkey \<Rightarrow> pubkey \<Rightarrow> u64 \<Rightarrow> u8 \<Rightarrow> u64 \<Rightarrow> bool \<Rightarrow> u64 \<Rightarrow> u64 \<Rightarrow> u16 \<Rightarrow> u64 \<Rightarrow>
   (operator_snapshot, ncn_error) result" where
  "OperatorSnapshot_initialize self operator ncn ncn_epoch bump current_slot active ncn_index index
       fee_bps count =
     and_then (ensure (\<not> word_of_nat MAX_VAULTS < count) TooManyVaultOperatorDelegations) (\<lambda>_.
     let slot_fin = (if \<not> active then current_slot else 0);
         fee_bps = (if active then fee_bps else 0);
         count = (if active then count else 0) in
     Ok (self\<lparr>os_operator := operator, os_ncn := ncn, os_ncn_epoch := ncn_epoch, os_bump := bump,
         os_slot_created := current_slot, os_slot_finalized := slot_fin, os_is_active := active,
         os_ncn_operator_index := ncn_index, os_operator_index := index,
         os_operator_fee_bps := fee_bps, vault_operator_delegation_count := count,
         vault_operator_delegations_registered := 0, os_valid_operator_vault_delegations := 0,
         os_stake_weights := StakeWeights_default,
         vault_operator_stake_weight := replicate MAX_VAULTS VaultOperatorStakeWeight_default\<rparr>))"

definition OperatorSnapshot_finalized :: "operator_snapshot \<Rightarrow> bool" where
  "OperatorSnapshot_finalized self \<longleftrightarrow>
     vault_operator_delegations_registered self = vault_operator_delegation_count self"

definition contains_vault_index :: "operator_snapshot \<Rightarrow> u64 \<Rightarrow> bool" where
  "contains_vault_index self vault_index =
     list_ex (\<lambda>v. vosw_vault_index v = vault_index) (vault_operator_stake_weight self)"

definition contains_vault :: "operator_snapshot \<Rightarrow> pubkey \<Rightarrow> bool" where
  "contains_vault self vault = list_ex (\<lambda>v. vosw_vault v = vault) (vault_operator_stake_weight self)"

definition insert_vault_operator_stake_weight ::
  "operator_snapshot \<Rightarrow> pubkey \<Rightarrow> u64 \<Rightarrow> stake_weights \<Rightarrow> (operator_snapshot, ncn_error) result" where
  "insert_vault_operator_stake_weight self vault vault_index w =
     and_then (ok_or (checked_add (vault_operator_delegations_registered self) 1) ArithmeticOverflow) (\<lambda>n.
     and_then (ensure (\<not> word_of_nat MAX_VAULTS < n) TooManyVaultOperatorDelegations) (\<lambda>_.
     and_then (ensure (\<not> contains_vault_index self vault_index) DuplicateVaultOperatorDelegation) (\<lambda>_.
     let i = unat (vault_operator_delegations_registered self) in
     if i < length (vault_operator_stake_weight self)
     then Ok (self\<lparr>vault_operator_stake_weight :=
            (vault_operator_stake_weight self)[i := VaultOperatorStakeWeight_new vault vault_index w]\<rparr>)
     else Panic)))"

definition increment_vault_operator_delegation_registration ::
  "operator_snapshot \<Rightarrow> u64 \<Rightarrow> pubkey \<Rightarrow> u64 \<Rightarrow> stake_weights \<Rightarrow> (operator_snapshot, ncn_error) result" where
  "increment_vault_operator_delegation_registration self current_slot vault vault_index w =
     and_then (ensure (\<not> OperatorSnapshot_finalized self) VaultOperatorDelegationFinalized) (\<lambda>_.
     and_then (insert_vault_operator_stake_weight self vault vault_index w) (\<lambda>self.
     and_then (ok_or (checked_add (vault_operator_delegations_registered self) 1) ArithmeticOverflow) (\<lambda>n.
     let self = self\<lparr>vault_operator_delegations_registered := n\<rparr> in
     and_then (if 0 < stake_weight w
               then and_then (ok_or (checked_add (os_valid_operator_vault_delegations self) 1)
                                ArithmeticOverflow) (\<lambda>v.
                    Ok (self\<lparr>os_valid_operator_vault_delegations := v\<rparr>))
               else Ok self) (\<lambda>self.
     and_then (StakeWeights_increment (os_stake_weights self) w) (\<lambda>s.
     let self = self\<lparr>os_stake_weights := s\<rparr> in
     Ok (if OperatorSnapshot_finalized self then self\<lparr>os_slot_finalized := current_slot\<rparr> else self))))))"

definition calculate_total_stake_weight ::
  "'p precise_ops \<Rightarrow> (u64, program_error) result \<Rightarrow> weight_table \<Rightarrow> pubkey \<Rightarrow>
   (u128, program_error) result" where
  "calculate_total_stake_weight P total_security table st_mint =
     and_then total_security (\<lambda>sec.
     and_then (into_program (ok_or (pn_new P (ucast sec)) NewPreciseNumberError)) (\<lambda>ps.
     and_then (into_program (get_precise_weight P table st_mint)) (\<lambda>pw.
     and_then (into_program (ok_or (pn_checked_mul P ps pw) ArithmeticOverflow)) (\<lambda>pt.
     into_program (ok_or (pn_to_imprecise P pt) CastToImpreciseNumberError)))))"

section \<open>The invariant of an operator snapshot\<close>

interpretation delegations: slot_table VaultOperatorStakeWeight_is_empty VaultOperatorStakeWeight_default
  by unfold_locales
    (simp add: VaultOperatorStakeWeight_is_empty_def VaultOperatorStakeWeight_default_def)

definition os_entries :: "operator_snapshot \<Rightarrow> vault_operator_stake_weight_t list" where
  "os_entries s = filter (\<lambda>v. \<not> VaultOperatorStakeWeight_is_empty v) (vault_operator_stake_weight s)"

abbreviation entry_weight :: "vault_operator_stake_weight_t \<Rightarrow> nat" where
  "entry_weight v \<equiv> weight_of (vosw_stake_weight v)"

definition os_wf :: "operator_snapshot \<Rightarrow> bool" where
  "os_wf s \<longleftrightarrow>
     length (vault_operator_stake_weight s) = MAX_VAULTS \<and>
     delegations.packed (vault_operator_stake_weight s) \<and>
     unat (vault_operator_delegations_registered s) = length (os_entries s) \<and>
     vault_operator_delegations_registered s \<le> vault_operator_delegation_count s \<and>
     unat (vault_operator_delegation_count s) \<le> MAX_VAULTS \<and>
     distinct (map vosw_vault_index (os_entries s)) \<and>
     weight_of (os_stake_weights s) = sum_list (map entry_weight (os_entries s)) \<and>
     unat (os_valid_operator_vault_delegations s) = count_where (\<lambda>v. entry_weight v \<noteq> 0) (os_entries s)"

lemma os_entries_live: "os_entries s = delegations.live (vault_operator_stake_weight s)"
  by (simp add: os_entries_def delegations.live_def)

lemma OperatorSnapshot_initialize_wf:
  assumes "OperatorSnapshot_initialize s op ncn e bump slot active ni oi fee_b cnt = Ok s'"
  shows "os_wf s'" and "os_entries s' = []"
    and "\<not> active \<Longrightarrow> OperatorSnapshot_finalized s' \<and> os_operator_fee_bps s' = 0"
proof -
  have c: "unat cnt \<le> 64"
    using assms by (simp add: OperatorSnapshot_initialize_def result_simps word_less_nat_alt MAX_VAULTS_def not_less)
  show en: "os_entries s' = []"
    using assms delegations.live_replicate
    by (auto simp: OperatorSnapshot_initialize_def result_simps os_entries_live Let_def)
  show "os_wf s'"
    using assms c delegations.packed_replicate unfolding os_wf_def en
    by (auto simp: OperatorSnapshot_initialize_def result_simps Let_def MAX_VAULTS_def)
  show "OperatorSnapshot_finalized s' \<and> os_operator_fee_bps s' = 0" if "\<not> active"
    using assms that by (auto simp: OperatorSnapshot_initialize_def result_simps Let_def
        OperatorSnapshot_finalized_def)
qed

text \<open>A free slot holds the index \<open>u64::MAX\<close>, so that index is always taken as a duplicate.\<close>

lemma contains_vault_index_iff:
  assumes "os_wf s" and "length (os_entries s) < 64"
  shows "contains_vault_index s i \<longleftrightarrow> i = u64_MAX \<or> i \<in> vosw_vault_index ` set (os_entries s)"
proof -
  have pk: "delegations.packed (vault_operator_stake_weight s)"
    and len: "length (vault_operator_stake_weight s) = 64"
    using assms(1) by (simp_all add: os_wf_def MAX_VAULTS_def)
  from pk obtain n where n: "vault_operator_stake_weight s = os_entries s @ replicate n VaultOperatorStakeWeight_default"
    unfolding os_entries_live by (rule delegations.packed_cases)
  have "length (os_entries s) + n = 64" using len n by (metis length_append length_replicate)
  with assms(2) have "n \<noteq> 0" by simp
  then show ?thesis
    unfolding contains_vault_index_def n by (auto simp: list_ex_iff VaultOperatorStakeWeight_default_def)
qed

lemma insert_stake_weight_result:
  assumes wf: "os_wf s" and nf: "\<not> OperatorSnapshot_finalized s"
  shows "insert_vault_operator_stake_weight s v i w =
    (if i = u64_MAX \<or> i \<in> vosw_vault_index ` set (os_entries s) then Err DuplicateVaultOperatorDelegation
     else Ok (s\<lparr>vault_operator_stake_weight := (vault_operator_stake_weight s)
            [length (os_entries s) := VaultOperatorStakeWeight_new v i w]\<rparr>))"
    and "length (os_entries s) < 64"
    and "length (os_entries s) < unat (vault_operator_delegation_count s)"
    and "vault_operator_delegations_registered s \<noteq> u64_MAX"
    and "unat (vault_operator_delegations_registered s + 1) = Suc (length (os_entries s))"
proof -
  have reg: "unat (vault_operator_delegations_registered s) = length (os_entries s)"
    and len: "length (vault_operator_stake_weight s) = 64"
    and cnt: "unat (vault_operator_delegation_count s) \<le> 64"
    using wf by (simp_all add: os_wf_def MAX_VAULTS_def)
  have "vault_operator_delegations_registered s \<le> vault_operator_delegation_count s"
    using wf by (simp add: os_wf_def)
  with nf have "vault_operator_delegations_registered s < vault_operator_delegation_count s"
    unfolding OperatorSnapshot_finalized_def by (rule le_neq_trans [rotated])
  then show lt: "length (os_entries s) < unat (vault_operator_delegation_count s)"
    by (simp add: word_less_nat_alt reg)
  with cnt show lt64: "length (os_entries s) < 64" by simp
  show nm: "vault_operator_delegations_registered s \<noteq> u64_MAX"
  proof
    assume "vault_operator_delegations_registered s = u64_MAX"
    with reg have "length (os_entries s) = unat u64_MAX" by simp
    with lt64 show False by simp
  qed
  then have add: "checked_add (vault_operator_delegations_registered s) 1
      = Some (vault_operator_delegations_registered s + 1)" by (simp add: checked_add_one)
  then show suc: "unat (vault_operator_delegations_registered s + 1) = Suc (length (os_entries s))"
    unfolding checked_add_eq_Some by (simp add: reg)
  have "\<not> word_of_nat MAX_VAULTS < vault_operator_delegations_registered s + 1"
    using lt64 suc by (simp add: word_less_nat_alt MAX_VAULTS_def)
  then show "insert_vault_operator_stake_weight s v i w =
    (if i = u64_MAX \<or> i \<in> vosw_vault_index ` set (os_entries s) then Err DuplicateVaultOperatorDelegation
     else Ok (s\<lparr>vault_operator_stake_weight := (vault_operator_stake_weight s)
            [length (os_entries s) := VaultOperatorStakeWeight_new v i w]\<rparr>))"
    using lt64 by (simp add: insert_vault_operator_stake_weight_def add reg len Let_def
        contains_vault_index_iff [OF wf lt64])
qed

text \<open>The part of the registration after the entry is written.\<close>

lemma registration_tail:
  assumes ok: "increment_vault_operator_delegation_registration s slot v i w = Ok s'"
    and nf: "\<not> OperatorSnapshot_finalized s"
    and im: "insert_vault_operator_stake_weight s v i w = Ok m"
    and nm: "vault_operator_delegations_registered m \<noteq> u64_MAX"
  shows "\<exists>valid sw.
    unat valid = unat (os_valid_operator_vault_delegations m) + (if 0 < stake_weight w then 1 else 0) \<and>
    weight_of sw = weight_of (os_stake_weights m) + weight_of w \<and>
    s' = (let t = m\<lparr>vault_operator_delegations_registered := vault_operator_delegations_registered m + 1,
         os_valid_operator_vault_delegations := valid, os_stake_weights := sw\<rparr> in
         if OperatorSnapshot_finalized t then t\<lparr>os_slot_finalized := slot\<rparr> else t)"
proof -
  let ?R = "vault_operator_delegations_registered m + 1"
  have add: "checked_add (vault_operator_delegations_registered m) 1 = Some ?R"
    using nm by (simp add: checked_add_one)
  note defs = increment_vault_operator_delegation_registration_def
  show ?thesis
  proof (cases "0 < stake_weight w")
    case True
    with ok obtain valid where
      v: "checked_add (os_valid_operator_vault_delegations m) 1 = Some valid"
      by (cases "checked_add (os_valid_operator_vault_delegations m) 1") (simp_all add: defs nf im add)
    with ok True obtain sw where sw: "StakeWeights_increment (os_stake_weights m) w = Ok sw"
      by (cases "StakeWeights_increment (os_stake_weights m) w") (simp_all add: defs nf im add)
    from ok True have "s' = (let t = m\<lparr>vault_operator_delegations_registered := ?R,
         os_valid_operator_vault_delegations := valid, os_stake_weights := sw\<rparr> in
         if OperatorSnapshot_finalized t then t\<lparr>os_slot_finalized := slot\<rparr> else t)"
      by (simp add: defs nf im add v sw Let_def)
    with v sw True show ?thesis
      by (intro exI [of _ valid] exI [of _ sw]) (simp add: checked_simps StakeWeights_increment_Ok)
  next
    case False
    with ok obtain sw where sw: "StakeWeights_increment (os_stake_weights m) w = Ok sw"
      by (cases "StakeWeights_increment (os_stake_weights m) w") (simp_all add: defs nf im add)
    from ok False have "s' = (let t = m\<lparr>vault_operator_delegations_registered := ?R,
         os_stake_weights := sw\<rparr> in
         if OperatorSnapshot_finalized t then t\<lparr>os_slot_finalized := slot\<rparr> else t)"
      by (simp add: defs nf im add sw Let_def)
    with sw False show ?thesis
      by (intro exI [of _ "os_valid_operator_vault_delegations m"] exI [of _ sw])
        (simp add: StakeWeights_increment_Ok)
  qed
qed

lemma delegation_registered:
  assumes wf: "os_wf s"
    and ok: "increment_vault_operator_delegation_registration s slot v i w = Ok s'"
  shows "os_entries s' = os_entries s @ [VaultOperatorStakeWeight_new v i w]" and "os_wf s'"
    and "OperatorSnapshot_finalized s' \<longleftrightarrow>
      Suc (length (os_entries s)) = unat (vault_operator_delegation_count s)"
    and "vault_operator_delegation_count s' = vault_operator_delegation_count s"
    and "OperatorSnapshot_finalized s' \<Longrightarrow> os_slot_finalized s' = slot"
    and "i \<notin> vosw_vault_index ` set (os_entries s)" and "\<not> OperatorSnapshot_finalized s"
proof -
  show nf: "\<not> OperatorSnapshot_finalized s"
    using ok by (simp add: increment_vault_operator_delegation_registration_def result_simps)
  note ins = insert_stake_weight_result [OF wf nf]
  let ?e = "VaultOperatorStakeWeight_new v i w"
  define m where "m = s\<lparr>vault_operator_stake_weight := (vault_operator_stake_weight s)[length (os_entries s) := ?e]\<rparr>"
  have i: "i \<noteq> u64_MAX" "i \<notin> vosw_vault_index ` set (os_entries s)"
    and im: "insert_vault_operator_stake_weight s v i w = Ok m"
    using ok ins(1) [of v i w]
    by (auto simp: increment_vault_operator_delegation_registration_def result_simps m_def split: if_splits)
  then show "i \<notin> vosw_vault_index ` set (os_entries s)" by simp
  let ?R = "vault_operator_delegations_registered s + 1"
  obtain valid sw where
    valid: "unat valid = unat (os_valid_operator_vault_delegations s) + (if 0 < stake_weight w then 1 else 0)"
    and sw: "weight_of sw = weight_of (os_stake_weights s) + weight_of w"
    and s': "s' = (let t = m\<lparr>vault_operator_delegations_registered := ?R,
         os_valid_operator_vault_delegations := valid, os_stake_weights := sw\<rparr> in
         if OperatorSnapshot_finalized t then t\<lparr>os_slot_finalized := slot\<rparr> else t)"
    using registration_tail [OF ok nf im] ins(4) by (auto simp: m_def)
  have fields: "vault_operator_stake_weight s' = (vault_operator_stake_weight s)[length (os_entries s) := ?e]"
    "vault_operator_delegations_registered s' = ?R" "os_valid_operator_vault_delegations s' = valid"
    "os_stake_weights s' = sw" "vault_operator_delegation_count s' = vault_operator_delegation_count s"
    "OperatorSnapshot_finalized s' \<Longrightarrow> os_slot_finalized s' = slot"
    by (auto simp: s' m_def Let_def OperatorSnapshot_finalized_def)
  have pk: "delegations.packed (vault_operator_stake_weight s)"
    and len: "length (vault_operator_stake_weight s) = 64"
    using wf by (simp_all add: os_wf_def MAX_VAULTS_def)
  have pos: "position VaultOperatorStakeWeight_is_empty (vault_operator_stake_weight s)
      = Some (length (os_entries s))"
    using delegations.packed_position_empty [OF pk] ins(2) len by (simp add: os_entries_live)
  have ne: "\<not> VaultOperatorStakeWeight_is_empty ?e"
    using i(1) by (simp add: VaultOperatorStakeWeight_is_empty_def VaultOperatorStakeWeight_new_def)
  note pins = delegations.packed_insert [OF pk pos ne]
  show ent: "os_entries s' = os_entries s @ [?e]" using pins(2) by (simp add: os_entries_live fields)
  have e: "vosw_vault_index ?e = i" "vosw_stake_weight ?e = w"
    by (simp_all add: VaultOperatorStakeWeight_new_def)
  have "?R \<le> vault_operator_delegation_count s"
    using ins(3,5) by (simp add: word_le_nat_alt)
  then show "os_wf s'"
    using wf i(2) valid sw ins(5) pins(1) len unfolding os_wf_def ent fields
    by (auto simp: e MAX_VAULTS_def word_gt_0 unat_eq_0)
  show "OperatorSnapshot_finalized s' \<longleftrightarrow>
      Suc (length (os_entries s)) = unat (vault_operator_delegation_count s)"
    using ins(5) by (simp add: OperatorSnapshot_finalized_def fields word_unat_eq_iff)
  show "vault_operator_delegation_count s' = vault_operator_delegation_count s"
    and "OperatorSnapshot_finalized s' \<Longrightarrow> os_slot_finalized s' = slot"
    by (simp_all add: fields)
qed

end
