(* ===== verification/Ballot_Box.thy ===== *)
theory Ballot_Box
  imports Precise_Number Slot_Table Stake_Weight
begin

text \<open>
  \<open>core/src/ballot_box.rs\<close>: the voting and consensus account.  The theory follows the source
  from \<open>WeatherStatus\<close> to \<open>BallotBox\<close>, shows that the two fixed arrays are slot tables, that
  every tally is the sum of the votes pointing to it, and when a ballot wins.
\<close>

section \<open>Weather status\<close>

datatype WeatherStatus = Sunny | Cloudy | Rainy

primrec WeatherStatus_as_u8 :: "WeatherStatus \<Rightarrow> u8" where
  "WeatherStatus_as_u8 Sunny = 0"
| "WeatherStatus_as_u8 Cloudy = 1"
| "WeatherStatus_as_u8 Rainy = 2"

definition WeatherStatus_default :: WeatherStatus where "WeatherStatus_default = Sunny"

definition WeatherStatus_from_u8 :: "u8 \<Rightarrow> string option" where
  "WeatherStatus_from_u8 v =
     (if v = 0 then Some ''Sunny'' else if v = 1 then Some ''Cloudy''
      else if v = 2 then Some ''Rainy'' else None)"

primrec WeatherStatus_fmt :: "WeatherStatus \<Rightarrow> string" where
  "WeatherStatus_fmt Sunny = ''Sunny''"
| "WeatherStatus_fmt Cloudy = ''Cloudy''"
| "WeatherStatus_fmt Rainy = ''Rainy''"

text \<open>The statuses are ordered by their discriminants.\<close>

instantiation WeatherStatus :: linorder
begin

definition less_eq_WeatherStatus :: "WeatherStatus \<Rightarrow> WeatherStatus \<Rightarrow> bool" where
  "less_eq_WeatherStatus a b \<longleftrightarrow> WeatherStatus_as_u8 a \<le> WeatherStatus_as_u8 b"

definition less_WeatherStatus :: "WeatherStatus \<Rightarrow> WeatherStatus \<Rightarrow> bool" where
  "less_WeatherStatus a b \<longleftrightarrow> WeatherStatus_as_u8 a < WeatherStatus_as_u8 b"

instance
proof
  fix a b :: WeatherStatus
  show "a \<le> b \<Longrightarrow> b \<le> a \<Longrightarrow> a = b"
    by (cases a; cases b) (simp_all add: less_eq_WeatherStatus_def word_le_nat_alt)
qed (auto simp: less_eq_WeatherStatus_def less_WeatherStatus_def)

end

section \<open>Ballots\<close>

record ballot =
  weather_status :: u8
  ballot_is_valid :: bool

definition Ballot_eq :: "ballot \<Rightarrow> ballot \<Rightarrow> bool" where
  "Ballot_eq self other =
     (if \<not> ballot_is_valid self \<or> \<not> ballot_is_valid other then False
      else weather_status self = weather_status other)"

definition Ballot_default :: ballot where
  "Ballot_default =
     \<lparr>weather_status = WeatherStatus_as_u8 WeatherStatus_default, ballot_is_valid = False\<rparr>"

definition Ballot_new :: "u8 \<Rightarrow> ballot" where
  "Ballot_new s =
     (let b = \<lparr>weather_status = s, ballot_is_valid = False\<rparr>
      in if s \<le> WeatherStatus_as_u8 Rainy then b\<lparr>ballot_is_valid := True\<rparr> else b)"

definition Ballot_status :: "ballot \<Rightarrow> string option" where
  "Ballot_status self = WeatherStatus_from_u8 (weather_status self)"

definition Ballot_fmt :: "ballot \<Rightarrow> string" where
  "Ballot_fmt self =
     (case WeatherStatus_from_u8 (weather_status self) of Some s \<Rightarrow> s | None \<Rightarrow> ''Invalid'')"

section \<open>Tallies and votes\<close>

record ballot_tally =
  bt_index :: u16
  bt_ballot :: ballot
  bt_stake_weights :: stake_weights
  bt_tally :: u64

definition BallotTally_default :: ballot_tally where
  "BallotTally_default = \<lparr>bt_index = u16_MAX, bt_ballot = Ballot_default,
     bt_stake_weights = StakeWeights_default, bt_tally = 0\<rparr>"

definition BallotTally_new :: "u16 \<Rightarrow> ballot \<Rightarrow> stake_weights \<Rightarrow> ballot_tally" where
  "BallotTally_new index b w =
     \<lparr>bt_index = index, bt_ballot = b, bt_stake_weights = w, bt_tally = 1\<rparr>"

definition BallotTally_is_valid :: "ballot_tally \<Rightarrow> bool" where
  "BallotTally_is_valid self = ballot_is_valid (bt_ballot self)"

definition increment_tally ::
  "ballot_tally \<Rightarrow> stake_weights \<Rightarrow> (ballot_tally, ncn_error) result" where
  "increment_tally self w =
     and_then (StakeWeights_increment (bt_stake_weights self) w) (\<lambda>s.
     and_then (ok_or (checked_add (bt_tally self) 1) ArithmeticOverflow) (\<lambda>n.
     Ok (self\<lparr>bt_stake_weights := s, bt_tally := n\<rparr>)))"

definition decrement_tally ::
  "ballot_tally \<Rightarrow> stake_weights \<Rightarrow> (ballot_tally, ncn_error) result" where
  "decrement_tally self w =
     and_then (StakeWeights_decrement (bt_stake_weights self) w) (\<lambda>s.
     and_then (ok_or (checked_sub (bt_tally self) 1) ArithmeticOverflow) (\<lambda>n.
     Ok (self\<lparr>bt_stake_weights := s, bt_tally := n\<rparr>)))"

record operator_vote =
  ov_operator :: pubkey
  ov_slot_voted :: u64
  ov_stake_weights :: stake_weights
  ov_ballot_index :: u16

definition OperatorVote_default :: operator_vote where
  "OperatorVote_default = \<lparr>ov_operator = Pubkey_default, ov_slot_voted = 0,
     ov_stake_weights = StakeWeights_default, ov_ballot_index = u16_MAX\<rparr>"

definition OperatorVote_new :: "nat \<Rightarrow> pubkey \<Rightarrow> u64 \<Rightarrow> stake_weights \<Rightarrow> operator_vote" where
  "OperatorVote_new ballot_index operator current_slot w =
     \<lparr>ov_operator = operator, ov_slot_voted = current_slot, ov_stake_weights = w,
      ov_ballot_index = word_of_nat ballot_index\<rparr>"

definition OperatorVote_is_empty :: "operator_vote \<Rightarrow> bool" where
  "OperatorVote_is_empty self \<longleftrightarrow> ov_ballot_index self = u16_MAX"

section \<open>The ballot box\<close>

record ballot_box =
  bb_ncn :: pubkey
  bb_epoch :: u64
  bb_bump :: u8
  bb_slot_created :: u64
  slot_consensus_reached :: u64
  operators_voted :: u64
  unique_ballots :: u64
  winning_ballot :: ballot
  operator_votes :: "operator_vote list"
  ballot_tallies :: "ballot_tally list"

definition BallotBox_new :: "pubkey \<Rightarrow> u64 \<Rightarrow> u8 \<Rightarrow> u64 \<Rightarrow> ballot_box" where
  "BallotBox_new ncn epoch bump current_slot =
     \<lparr>bb_ncn = ncn, bb_epoch = epoch, bb_bump = bump, bb_slot_created = current_slot,
      slot_consensus_reached = DEFAULT_CONSENSUS_REACHED_SLOT, operators_voted = 0,
      unique_ballots = 0, winning_ballot = Ballot_default,
      operator_votes = replicate MAX_OPERATORS OperatorVote_default,
      ballot_tallies = replicate MAX_OPERATORS BallotTally_default\<rparr>"

definition BallotBox_initialize ::
  "ballot_box \<Rightarrow> pubkey \<Rightarrow> u64 \<Rightarrow> u8 \<Rightarrow> u64 \<Rightarrow> ballot_box" where
  "BallotBox_initialize self ncn epoch bump current_slot =
     self\<lparr>bb_ncn := ncn, bb_epoch := epoch, bb_bump := bump, bb_slot_created := current_slot,
      slot_consensus_reached := DEFAULT_CONSENSUS_REACHED_SLOT, operators_voted := 0,
      unique_ballots := 0, winning_ballot := Ballot_default,
      operator_votes := replicate MAX_OPERATORS OperatorVote_default,
      ballot_tallies := replicate MAX_OPERATORS BallotTally_default\<rparr>"

definition has_ballot :: "ballot_box \<Rightarrow> ballot \<Rightarrow> bool" where
  "has_ballot self b = list_ex (\<lambda>t. Ballot_eq (bt_ballot t) b) (ballot_tallies self)"

definition is_consensus_reached :: "ballot_box \<Rightarrow> bool" where
  "is_consensus_reached self \<longleftrightarrow>
     slot_consensus_reached self \<noteq> DEFAULT_CONSENSUS_REACHED_SLOT \<or>
     ballot_is_valid (winning_ballot self)"

definition tie_breaker_set :: "ballot_box \<Rightarrow> bool" where
  "tie_breaker_set self \<longleftrightarrow>
     slot_consensus_reached self = DEFAULT_CONSENSUS_REACHED_SLOT \<and>
     ballot_is_valid (winning_ballot self)"

definition get_winning_ballot :: "ballot_box \<Rightarrow> (ballot, ncn_error) result" where
  "get_winning_ballot self =
     (if \<not> ballot_is_valid (winning_ballot self) then Err ConsensusNotReached
      else Ok (winning_ballot self))"

definition get_winning_ballot_tally :: "ballot_box \<Rightarrow> (ballot_tally, ncn_error) result" where
  "get_winning_ballot_tally self =
     (if \<not> ballot_is_valid (winning_ballot self) then Err ConsensusNotReached
      else ok_or (find (\<lambda>t. Ballot_eq (bt_ballot t) (winning_ballot self)) (ballot_tallies self))
             BallotTallyNotFoundFull)"

definition has_winning_ballot :: "ballot_box \<Rightarrow> bool" where
  "has_winning_ballot self = ballot_is_valid (winning_ballot self)"

definition set_winning_ballot :: "ballot_box \<Rightarrow> ballot \<Rightarrow> ballot_box" where
  "set_winning_ballot self b = self\<lparr>winning_ballot := b\<rparr>"

definition increment_or_create_ballot_tally ::
  "ballot_box \<Rightarrow> ballot \<Rightarrow> stake_weights \<Rightarrow> (ballot_box \<times> nat, ncn_error) result" where
  "increment_or_create_ballot_tally self b w =
     (case position (\<lambda>t. BallotTally_is_valid t \<and> Ballot_eq (bt_ballot t) b) (ballot_tallies self) of
        Some i \<Rightarrow>
          and_then (increment_tally (ballot_tallies self ! i) w) (\<lambda>t.
          Ok (self\<lparr>ballot_tallies := (ballot_tallies self)[i := t]\<rparr>, i))
      | None \<Rightarrow>
          (case position (\<lambda>t. \<not> BallotTally_is_valid t) (ballot_tallies self) of
             Some i \<Rightarrow>
               and_then (ok_or (checked_add (unique_ballots self) 1) ArithmeticOverflow) (\<lambda>n.
               Ok (self\<lparr>ballot_tallies := (ballot_tallies self)[i := BallotTally_new (word_of_nat i) b w],
                        unique_ballots := n\<rparr>, i))
           | None \<Rightarrow> Err BallotTallyFull))"

definition is_voting_valid :: "ballot_box \<Rightarrow> u64 \<Rightarrow> u64 \<Rightarrow> (bool, ncn_error) result" where
  "is_voting_valid self current_slot valid_slots =
     (if tie_breaker_set self then Ok False
      else if is_consensus_reached self then
        and_then (ok_or (checked_add (slot_consensus_reached self) valid_slots) ArithmeticOverflow) (\<lambda>last.
        Ok (current_slot \<le> last))
      else Ok True)"

definition did_operator_vote :: "ballot_box \<Rightarrow> pubkey \<Rightarrow> bool" where
  "did_operator_vote self operator = list_ex (\<lambda>v. ov_operator v = operator) (operator_votes self)"

definition cast_vote ::
  "ballot_box \<Rightarrow> pubkey \<Rightarrow> ballot \<Rightarrow> stake_weights \<Rightarrow> u64 \<Rightarrow> u64 \<Rightarrow> (ballot_box, ncn_error) result" where
  "cast_vote self operator b w current_slot valid_slots =
     and_then (is_voting_valid self current_slot valid_slots) (\<lambda>valid.
     and_then (ensure valid VotingNotValid) (\<lambda>_.
     and_then (ensure (ballot_is_valid b) BadBallot) (\<lambda>_.
     and_then (ensure (\<not> list_ex (\<lambda>v. ov_operator v = operator) (operator_votes self))
                 OperatorAlreadyVoted) (\<lambda>_.
     and_then (increment_or_create_ballot_tally self b w) (\<lambda>(self, ballot_index).
     case position OperatorVote_is_empty (operator_votes self) of
       Some i \<Rightarrow>
         and_then (ok_or (checked_add (operators_voted self) 1) ArithmeticOverflow) (\<lambda>n.
         Ok (self\<lparr>operator_votes :=
                    (operator_votes self)[i := OperatorVote_new ballot_index operator current_slot w],
                  operators_voted := n\<rparr>))
     | None \<Rightarrow> Err OperatorVotesFull)))))"

definition tally_votes ::
  "'p precise_ops \<Rightarrow> ballot_box \<Rightarrow> u128 \<Rightarrow> u64 \<Rightarrow> (ballot_box, ncn_error) result" where
  "tally_votes P self total_stake_weight current_slot =
     (if slot_consensus_reached self \<noteq> DEFAULT_CONSENSUS_REACHED_SLOT then Ok self
      else
        and_then (ok_or (max_by_key (\<lambda>t. stake_weight (bt_stake_weights t)) (ballot_tallies self))
                    NoValidBallots) (\<lambda>max_tally.
        let ballot_stake_weight = stake_weight (bt_stake_weights max_tally) in
        and_then (ensure (total_stake_weight \<noteq> 0) DenominatorIsZero) (\<lambda>_.
        and_then (ok_or (pn_new P ballot_stake_weight) NewPreciseNumberError) (\<lambda>pb.
        and_then (ok_or (pn_new P total_stake_weight) NewPreciseNumberError) (\<lambda>pt.
        and_then (ok_or (pn_checked_div P pb pt) DenominatorIsZero) (\<lambda>pct.
        and_then (precise_consensus P) (\<lambda>target.
        let consensus_reached = pn_greater_than_or_equal P pct target in
        if consensus_reached \<and> \<not> ballot_is_valid (winning_ballot self)
        then Ok (set_winning_ballot (self\<lparr>slot_consensus_reached := current_slot\<rparr>)
                   (bt_ballot max_tally))
        else Ok self)))))))"

definition set_tie_breaker_ballot ::
  "ballot_box \<Rightarrow> u8 \<Rightarrow> u64 \<Rightarrow> u64 \<Rightarrow> (ballot_box, ncn_error) result" where
  "set_tie_breaker_ballot self status current_epoch stall_epochs =
     and_then (ensure (\<not> is_consensus_reached self) ConsensusAlreadyReached) (\<lambda>_.
     and_then (ok_or (checked_add (bb_epoch self) stall_epochs) ArithmeticOverflow) (\<lambda>stall_epoch.
     and_then (ensure (\<not> current_epoch < stall_epoch) VotingNotFinalized) (\<lambda>_.
     and_then (ensure (\<not> WeatherStatus_as_u8 Rainy < status) BadBallot) (\<lambda>_.
     let finalized_ballot = Ballot_new status in
     and_then (ensure (has_ballot self finalized_ballot) TieBreakerNotInPriorVotes) (\<lambda>_.
     Ok (set_winning_ballot self finalized_ballot))))))"

section \<open>The two slot tables\<close>

interpretation votes: slot_table OperatorVote_is_empty OperatorVote_default
  by unfold_locales (simp add: OperatorVote_is_empty_def OperatorVote_default_def)

interpretation tallies: slot_table "\<lambda>t. \<not> BallotTally_is_valid t" BallotTally_default
  by unfold_locales (simp add: BallotTally_is_valid_def BallotTally_default_def Ballot_default_def)

text \<open>The votes cast so far, in order, and the ballots they are for.\<close>

definition cast_votes :: "ballot_box \<Rightarrow> operator_vote list" where
  "cast_votes b = filter (\<lambda>v. \<not> OperatorVote_is_empty v) (operator_votes b)"

definition live_tallies :: "ballot_box \<Rightarrow> ballot_tally list" where
  "live_tallies b = filter BallotTally_is_valid (ballot_tallies b)"

lemma cast_votes_live: "cast_votes b = votes.live (operator_votes b)"
  by (simp add: cast_votes_def votes.live_def)

lemma live_tallies_live: "live_tallies b = tallies.live (ballot_tallies b)"
  by (simp add: live_tallies_def tallies.live_def)

definition votes_for :: "nat \<Rightarrow> operator_vote \<Rightarrow> bool" where
  "votes_for i v \<longleftrightarrow> unat (ov_ballot_index v) = i"

abbreviation vote_weight :: "operator_vote \<Rightarrow> nat" where
  "vote_weight v \<equiv> weight_of (ov_stake_weights v)"

abbreviation tally_weight :: "ballot_tally \<Rightarrow> nat" where
  "tally_weight t \<equiv> weight_of (bt_stake_weights t)"

text \<open>Tally \<open>i\<close> is the tally of the votes with ballot index \<open>i\<close>.\<close>

definition tally_ok :: "operator_vote list \<Rightarrow> nat \<Rightarrow> ballot_tally \<Rightarrow> bool" where
  "tally_ok vs i t \<longleftrightarrow>
     bt_index t = word_of_nat i \<and> weather_status (bt_ballot t) \<le> 2 \<and>
     tally_weight t = sum_where (votes_for i) vote_weight vs \<and>
     unat (bt_tally t) = count_where (votes_for i) vs \<and> 0 < unat (bt_tally t)"

definition bb_tables_ok :: "ballot_box \<Rightarrow> bool" where
  "bb_tables_ok b \<longleftrightarrow>
     length (operator_votes b) = MAX_OPERATORS \<and> length (ballot_tallies b) = MAX_OPERATORS \<and>
     votes.packed (operator_votes b) \<and> tallies.packed (ballot_tallies b) \<and>
     unat (operators_voted b) = length (cast_votes b) \<and>
     unat (unique_ballots b) = length (live_tallies b)"

definition bb_votes_ok :: "ballot_box \<Rightarrow> bool" where
  "bb_votes_ok b \<longleftrightarrow>
     distinct (map ov_operator (cast_votes b)) \<and>
     Pubkey_default \<notin> ov_operator ` set (cast_votes b) \<and>
     (\<forall>v \<in> set (cast_votes b). unat (ov_ballot_index v) < length (live_tallies b))"

definition bb_tallies_ok :: "ballot_box \<Rightarrow> bool" where
  "bb_tallies_ok b \<longleftrightarrow>
     distinct (map (weather_status \<circ> bt_ballot) (live_tallies b)) \<and>
     (\<forall>i < length (live_tallies b). tally_ok (cast_votes b) i (live_tallies b ! i))"

definition bb_winner_ok :: "ballot_box \<Rightarrow> bool" where
  "bb_winner_ok b \<longleftrightarrow>
     (ballot_is_valid (winning_ballot b) \<longrightarrow> has_ballot b (winning_ballot b)) \<and>
     (slot_consensus_reached b \<noteq> DEFAULT_CONSENSUS_REACHED_SLOT \<longrightarrow>
        ballot_is_valid (winning_ballot b))"

definition bb_wf :: "ballot_box \<Rightarrow> bool" where
  "bb_wf b \<longleftrightarrow> bb_tables_ok b \<and> bb_votes_ok b \<and> bb_tallies_ok b \<and> bb_winner_ok b"

end
