(* ===== verification/Epoch_State.thy ===== *)
theory Epoch_State
  imports Precise_Number
begin

text \<open>
  \<open>core/src/epoch_state.rs\<close> and \<open>core/src/consensus_result.rs\<close>: the account that tracks the
  status of every other account of an epoch and the progress of each phase, and the record
  of the consensus.  \<open>EpochSchedule::get_epoch\<close> of the Solana SDK is the argument \<open>get_epoch\<close>.
  An index outside one of the 256-element arrays is a panic.
\<close>

section \<open>Account status\<close>

datatype AccountStatus = DNE | Created | CreatedWithReceiver | Closed

primrec AccountStatus_as_u8 :: "AccountStatus \<Rightarrow> u8" where
  "AccountStatus_as_u8 DNE = 0"
| "AccountStatus_as_u8 Created = 1"
| "AccountStatus_as_u8 CreatedWithReceiver = 2"
| "AccountStatus_as_u8 Closed = 3"

record epoch_account_status =
  eas_epoch_state :: u8
  eas_weight_table :: u8
  eas_epoch_snapshot :: u8
  eas_operator_snapshot :: "u8 list"
  eas_ballot_box :: u8
  eas_ncn_reward_router :: u8
  eas_operator_vault_reward_router :: "u8 list"

definition EpochAccountStatus_default :: epoch_account_status where
  "EpochAccountStatus_default =
     \<lparr>eas_epoch_state = 0, eas_weight_table = 0, eas_epoch_snapshot = 0,
      eas_operator_snapshot = replicate MAX_OPERATORS 0, eas_ballot_box = 0,
      eas_ncn_reward_router = 0, eas_operator_vault_reward_router = replicate MAX_OPERATORS 0\<rparr>"

definition get_account_status :: "u8 \<Rightarrow> (AccountStatus, ncn_error) result" where
  "get_account_status u =
     (if u = 0 then Ok DNE else if u = 1 then Ok Created
      else if u = 2 then Ok CreatedWithReceiver else if u = 3 then Ok Closed
      else Err InvalidAccountStatus)"

text \<open>Reading and writing an array element; out of bounds is a panic.\<close>

definition index_or_panic :: "'a list \<Rightarrow> nat \<Rightarrow> ('a, 'e) result" where
  "index_or_panic xs i = (if i < length xs then Ok (xs ! i) else Panic)"

definition update_or_panic :: "'a list \<Rightarrow> nat \<Rightarrow> 'a \<Rightarrow> ('a list, 'e) result" where
  "update_or_panic xs i x = (if i < length xs then Ok (xs[i := x]) else Panic)"

definition eas_operator_snapshot_at :: "epoch_account_status \<Rightarrow> nat \<Rightarrow> (AccountStatus, ncn_error) result" where
  "eas_operator_snapshot_at self i =
     and_then (index_or_panic (eas_operator_snapshot self) i) get_account_status"

definition set_operator_snapshot ::
  "epoch_account_status \<Rightarrow> nat \<Rightarrow> AccountStatus \<Rightarrow> (epoch_account_status, 'e) result" where
  "set_operator_snapshot self i s =
     and_then (update_or_panic (eas_operator_snapshot self) i (AccountStatus_as_u8 s)) (\<lambda>xs.
     Ok (self\<lparr>eas_operator_snapshot := xs\<rparr>))"

definition set_operator_vault_reward_router ::
  "epoch_account_status \<Rightarrow> nat \<Rightarrow> AccountStatus \<Rightarrow> (epoch_account_status, 'e) result" where
  "set_operator_vault_reward_router self i s =
     and_then (update_or_panic (eas_operator_vault_reward_router self) i (AccountStatus_as_u8 s)) (\<lambda>xs.
     Ok (self\<lparr>eas_operator_vault_reward_router := xs\<rparr>))"

definition are_all_closed :: "epoch_account_status \<Rightarrow> bool" where
  "are_all_closed self =
     (if eas_weight_table self \<noteq> AccountStatus_as_u8 Closed then False
      else if eas_epoch_snapshot self \<noteq> AccountStatus_as_u8 Closed then False
      else if list_ex (\<lambda>s. s \<noteq> AccountStatus_as_u8 DNE \<and> s \<noteq> AccountStatus_as_u8 Closed)
                (eas_operator_snapshot self) then False
      else if eas_ballot_box self \<noteq> AccountStatus_as_u8 Closed then False
      else if eas_ncn_reward_router self \<noteq> AccountStatus_as_u8 Closed then False
      else if list_ex (\<lambda>s. s \<noteq> AccountStatus_as_u8 DNE \<and> s \<noteq> AccountStatus_as_u8 Closed)
                (eas_operator_vault_reward_router self) then False
      else True)"

section \<open>Progress\<close>

record progress =
  prog_tally :: u64
  prog_total :: u64

definition Progress_INVALID :: u64 where "Progress_INVALID = u64_MAX"

definition Progress_default :: progress where
  "Progress_default = \<lparr>prog_tally = Progress_INVALID, prog_total = Progress_INVALID\<rparr>"

text \<open>The bytes of a freshly created account are zero.\<close>

definition Progress_zeroed :: progress where
  "Progress_zeroed = \<lparr>prog_tally = 0, prog_total = 0\<rparr>"

definition Progress_new :: "u64 \<Rightarrow> progress" where
  "Progress_new n = \<lparr>prog_tally = 0, prog_total = n\<rparr>"

definition Progress_increment :: "progress \<Rightarrow> u64 \<Rightarrow> (progress, ncn_error) result" where
  "Progress_increment self amount =
     and_then (ok_or (checked_add (prog_tally self) amount) ArithmeticOverflow) (\<lambda>t.
     Ok (self\<lparr>prog_tally := t\<rparr>))"

definition increment_one :: "progress \<Rightarrow> (progress, ncn_error) result" where
  "increment_one self = Progress_increment self 1"

definition is_invalid :: "progress \<Rightarrow> bool" where
  "is_invalid self \<longleftrightarrow> prog_tally self = Progress_INVALID \<or> prog_total self = Progress_INVALID"

definition is_complete :: "progress \<Rightarrow> bool" where
  "is_complete self = (if is_invalid self then False else prog_total self \<le> prog_tally self)"

text \<open>\<open>let _ = progress.increment(n)\<close>: on an overflow the progress stays as it is.\<close>

definition increment_ignore :: "progress \<Rightarrow> u64 \<Rightarrow> progress" where
  "increment_ignore self amount = (case Progress_increment self amount of Ok p \<Rightarrow> p | _ \<Rightarrow> self)"

section \<open>The epoch state\<close>

record epoch_state =
  est_ncn :: pubkey
  est_epoch :: u64
  est_bump :: u8
  est_slot_created :: u64
  was_tie_breaker_set :: bool
  est_slot_consensus_reached :: u64
  est_operator_count :: u64
  est_vault_count :: u64
  account_status :: epoch_account_status
  set_weight_progress :: progress
  epoch_snapshot_progress :: progress
  operator_snapshot_progress :: "progress list"
  voting_progress :: progress
  total_distribution_progress :: progress
  ncn_distribution_progress :: progress
  protocol_distribution_progress :: progress
  operator_vault_distribution_progress :: progress
  operator_vault_routes_distribution_progress :: "progress list"
  est_is_closing :: bool

definition EpochState_new :: "pubkey \<Rightarrow> u64 \<Rightarrow> u8 \<Rightarrow> u64 \<Rightarrow> epoch_state" where
  "EpochState_new ncn epoch bump slot_created =
     \<lparr>est_ncn = ncn, est_epoch = epoch, est_bump = bump, est_slot_created = slot_created,
      was_tie_breaker_set = False, est_slot_consensus_reached = DEFAULT_CONSENSUS_REACHED_SLOT,
      est_operator_count = 0, est_vault_count = 0, account_status = EpochAccountStatus_default,
      set_weight_progress = Progress_default, epoch_snapshot_progress = Progress_default,
      operator_snapshot_progress = replicate MAX_OPERATORS Progress_default,
      voting_progress = Progress_default, total_distribution_progress = Progress_default,
      ncn_distribution_progress = Progress_default, protocol_distribution_progress = Progress_default,
      operator_vault_distribution_progress = Progress_default,
      operator_vault_routes_distribution_progress = replicate MAX_OPERATORS Progress_default,
      est_is_closing = False\<rparr>"

text \<open>A new account before \<open>initialize\<close>: all bytes zero.\<close>

definition EpochState_zeroed :: epoch_state where
  "EpochState_zeroed =
     \<lparr>est_ncn = 0, est_epoch = 0, est_bump = 0, est_slot_created = 0,
      was_tie_breaker_set = False, est_slot_consensus_reached = 0,
      est_operator_count = 0, est_vault_count = 0, account_status = EpochAccountStatus_default,
      set_weight_progress = Progress_zeroed, epoch_snapshot_progress = Progress_zeroed,
      operator_snapshot_progress = replicate MAX_OPERATORS Progress_zeroed,
      voting_progress = Progress_zeroed, total_distribution_progress = Progress_zeroed,
      ncn_distribution_progress = Progress_zeroed, protocol_distribution_progress = Progress_zeroed,
      operator_vault_distribution_progress = Progress_zeroed,
      operator_vault_routes_distribution_progress = replicate MAX_OPERATORS Progress_zeroed,
      est_is_closing = False\<rparr>"

definition EpochState_initialize :: "epoch_state \<Rightarrow> pubkey \<Rightarrow> u64 \<Rightarrow> u8 \<Rightarrow> u64 \<Rightarrow> epoch_state" where
  "EpochState_initialize self ncn epoch bump slot_created =
     self\<lparr>est_ncn := ncn, est_bump := bump, est_epoch := epoch, est_slot_created := slot_created,
      est_slot_consensus_reached := DEFAULT_CONSENSUS_REACHED_SLOT\<rparr>"

definition EpochState_load_to_close :: "epoch_state \<Rightarrow> pubkey \<Rightarrow> u64 \<Rightarrow> (unit, program_error) result" where
  "EpochState_load_to_close self ncn epoch =
     and_then (ensure (est_ncn self = ncn) (program_error_of CannotCloseAccount)) (\<lambda>_.
     and_then (ensure (est_epoch self = epoch) (program_error_of CannotCloseAccount)) (\<lambda>_.
     ensure (are_all_closed (account_status self)) (program_error_of CannotCloseEpochStateAccount)))"

definition EpochState_is_consensus_reached :: "epoch_state \<Rightarrow> bool" where
  "EpochState_is_consensus_reached self \<longleftrightarrow>
     est_slot_consensus_reached self \<noteq> DEFAULT_CONSENSUS_REACHED_SLOT"

definition get_slot_consensus_reached :: "epoch_state \<Rightarrow> (u64, ncn_error) result" where
  "get_slot_consensus_reached self =
     (if est_slot_consensus_reached self = DEFAULT_CONSENSUS_REACHED_SLOT then Err ConsensusNotReached
      else Ok (est_slot_consensus_reached self))"

definition get_epoch_consensus_reached :: "(u64 \<Rightarrow> u64) \<Rightarrow> epoch_state \<Rightarrow> (u64, program_error) result" where
  "get_epoch_consensus_reached get_epoch self =
     and_then (into_program (get_slot_consensus_reached self)) (\<lambda>slot. Ok (get_epoch slot))"

subsection \<open>Updaters\<close>

definition update_realloc_epoch_state :: "epoch_state \<Rightarrow> epoch_state" where
  "update_realloc_epoch_state self =
     self\<lparr>account_status := (account_status self)\<lparr>eas_epoch_state := AccountStatus_as_u8 Created\<rparr>\<rparr>"

definition update_realloc_weight_table :: "epoch_state \<Rightarrow> u64 \<Rightarrow> u64 \<Rightarrow> epoch_state" where
  "update_realloc_weight_table self vault_count st_mint_count =
     self\<lparr>account_status := (account_status self)\<lparr>eas_weight_table := AccountStatus_as_u8 Created\<rparr>,
          est_vault_count := vault_count, set_weight_progress := Progress_new st_mint_count\<rparr>"

definition update_set_weight :: "epoch_state \<Rightarrow> u64 \<Rightarrow> u64 \<Rightarrow> epoch_state" where
  "update_set_weight self weights_set st_mint_count =
     self\<lparr>set_weight_progress := \<lparr>prog_tally = weights_set, prog_total = st_mint_count\<rparr>\<rparr>"

definition update_initialize_epoch_snapshot :: "epoch_state \<Rightarrow> u64 \<Rightarrow> epoch_state" where
  "update_initialize_epoch_snapshot self operator_count =
     self\<lparr>account_status := (account_status self)\<lparr>eas_epoch_snapshot := AccountStatus_as_u8 Created\<rparr>,
          est_operator_count := operator_count, epoch_snapshot_progress := Progress_new operator_count\<rparr>"

definition update_realloc_operator_snapshot ::
  "epoch_state \<Rightarrow> nat \<Rightarrow> bool \<Rightarrow> (epoch_state, ncn_error) result" where
  "update_realloc_operator_snapshot self i is_active =
     and_then (set_operator_snapshot (account_status self) i Created) (\<lambda>st.
     let self = self\<lparr>account_status := st\<rparr> in
     if is_active then
       and_then (update_or_panic (operator_snapshot_progress self) i (Progress_new (est_vault_count self))) (\<lambda>ps.
       Ok (self\<lparr>operator_snapshot_progress := ps\<rparr>))
     else
       and_then (increment_one (Progress_new 1)) (\<lambda>p.
       and_then (update_or_panic (operator_snapshot_progress self) i p) (\<lambda>ps.
       and_then (increment_one (epoch_snapshot_progress self)) (\<lambda>q.
       Ok (self\<lparr>operator_snapshot_progress := ps, epoch_snapshot_progress := q\<rparr>)))))"

definition update_snapshot_vault_operator_delegation ::
  "epoch_state \<Rightarrow> nat \<Rightarrow> bool \<Rightarrow> (epoch_state, ncn_error) result" where
  "update_snapshot_vault_operator_delegation self i is_final =
     and_then (index_or_panic (operator_snapshot_progress self) i) (\<lambda>p.
     and_then (increment_one p) (\<lambda>p.
     let self = self\<lparr>operator_snapshot_progress := (operator_snapshot_progress self)[i := p]\<rparr> in
     if is_final then
       and_then (increment_one (epoch_snapshot_progress self)) (\<lambda>q.
       Ok (self\<lparr>epoch_snapshot_progress := q\<rparr>))
     else Ok self))"

definition update_realloc_ballot_box :: "epoch_state \<Rightarrow> epoch_state" where
  "update_realloc_ballot_box self =
     self\<lparr>account_status := (account_status self)\<lparr>eas_ballot_box := AccountStatus_as_u8 Created\<rparr>,
          voting_progress := Progress_new (est_operator_count self)\<rparr>"

definition update_cast_vote :: "epoch_state \<Rightarrow> u64 \<Rightarrow> bool \<Rightarrow> u64 \<Rightarrow> (epoch_state, ncn_error) result" where
  "update_cast_vote self voted reached current_slot =
     (let self = (if reached \<and> \<not> EpochState_is_consensus_reached self
                  then self\<lparr>est_slot_consensus_reached := current_slot\<rparr> else self)
      in Ok (self\<lparr>voting_progress := (voting_progress self)\<lparr>prog_tally := voted\<rparr>\<rparr>))"

definition update_set_tie_breaker :: "epoch_state \<Rightarrow> bool \<Rightarrow> u64 \<Rightarrow> (epoch_state, ncn_error) result" where
  "update_set_tie_breaker self reached current_slot =
     Ok (if reached \<and> \<not> EpochState_is_consensus_reached self
         then self\<lparr>est_slot_consensus_reached := current_slot, was_tie_breaker_set := True\<rparr> else self)"

definition update_realloc_ncn_reward_router :: "epoch_state \<Rightarrow> epoch_state" where
  "update_realloc_ncn_reward_router self =
     self\<lparr>account_status := (account_status self)
            \<lparr>eas_ncn_reward_router := AccountStatus_as_u8 CreatedWithReceiver\<rparr>,
          ncn_distribution_progress := Progress_new 0, protocol_distribution_progress := Progress_new 0,
          operator_vault_distribution_progress := Progress_new 0\<rparr>"

definition update_realloc_operator_vault_reward_router ::
  "epoch_state \<Rightarrow> nat \<Rightarrow> (epoch_state, 'e) result" where
  "update_realloc_operator_vault_reward_router self i =
     and_then (set_operator_vault_reward_router (account_status self) i CreatedWithReceiver) (\<lambda>st.
     and_then (update_or_panic (operator_vault_routes_distribution_progress self) i (Progress_new 0)) (\<lambda>ps.
     Ok (self\<lparr>account_status := st, operator_vault_routes_distribution_progress := ps\<rparr>)))"

definition update_route_total_rewards :: "epoch_state \<Rightarrow> u64 \<Rightarrow> epoch_state" where
  "update_route_total_rewards self n =
     self\<lparr>total_distribution_progress := (total_distribution_progress self)\<lparr>prog_total := n\<rparr>\<rparr>"

definition update_route_ncn_rewards :: "epoch_state \<Rightarrow> u64 \<Rightarrow> epoch_state" where
  "update_route_ncn_rewards self n =
     self\<lparr>ncn_distribution_progress := (ncn_distribution_progress self)\<lparr>prog_total := n\<rparr>\<rparr>"

definition update_route_protocol_rewards :: "epoch_state \<Rightarrow> u64 \<Rightarrow> epoch_state" where
  "update_route_protocol_rewards self n =
     self\<lparr>protocol_distribution_progress := (protocol_distribution_progress self)\<lparr>prog_total := n\<rparr>\<rparr>"

definition update_operator_vault_rewards :: "epoch_state \<Rightarrow> u64 \<Rightarrow> epoch_state" where
  "update_operator_vault_rewards self n =
     self\<lparr>operator_vault_distribution_progress :=
            (operator_vault_distribution_progress self)\<lparr>prog_total := n\<rparr>\<rparr>"

definition update_distribute_ncn_rewards :: "epoch_state \<Rightarrow> u64 \<Rightarrow> epoch_state" where
  "update_distribute_ncn_rewards self n =
     self\<lparr>total_distribution_progress := increment_ignore (total_distribution_progress self) n,
          ncn_distribution_progress := increment_ignore (ncn_distribution_progress self) n\<rparr>"

definition update_distribute_protocol_rewards :: "epoch_state \<Rightarrow> u64 \<Rightarrow> epoch_state" where
  "update_distribute_protocol_rewards self n =
     self\<lparr>total_distribution_progress := increment_ignore (total_distribution_progress self) n,
          protocol_distribution_progress := increment_ignore (protocol_distribution_progress self) n\<rparr>"

definition update_route_operator_vault_rewards ::
  "epoch_state \<Rightarrow> nat \<Rightarrow> u64 \<Rightarrow> (epoch_state, 'e) result" where
  "update_route_operator_vault_rewards self i n =
     and_then (index_or_panic (operator_vault_routes_distribution_progress self) i) (\<lambda>p.
     Ok (self\<lparr>operator_vault_routes_distribution_progress :=
            (operator_vault_routes_distribution_progress self)[i := p\<lparr>prog_total := n\<rparr>]\<rparr>))"

definition update_distribute_operator_vault_rewards :: "epoch_state \<Rightarrow> u64 \<Rightarrow> epoch_state" where
  "update_distribute_operator_vault_rewards self n =
     self\<lparr>operator_vault_distribution_progress :=
            increment_ignore (operator_vault_distribution_progress self) n\<rparr>"

definition update_distribute_operator_vault_route_rewards ::
  "epoch_state \<Rightarrow> nat \<Rightarrow> u64 \<Rightarrow> (epoch_state, 'e) result" where
  "update_distribute_operator_vault_route_rewards self i n =
     (let self = self\<lparr>total_distribution_progress := increment_ignore (total_distribution_progress self) n\<rparr> in
      and_then (index_or_panic (operator_vault_routes_distribution_progress self) i) (\<lambda>p.
      Ok (self\<lparr>operator_vault_routes_distribution_progress :=
            (operator_vault_routes_distribution_progress self)[i := increment_ignore p n]\<rparr>)))"

subsection \<open>Closers\<close>

definition set_is_closing :: "epoch_state \<Rightarrow> epoch_state" where
  "set_is_closing self = self\<lparr>est_is_closing := True\<rparr>"

definition close_epoch_state :: "epoch_state \<Rightarrow> epoch_state" where
  "close_epoch_state self =
     self\<lparr>account_status := (account_status self)\<lparr>eas_epoch_state := AccountStatus_as_u8 Closed\<rparr>\<rparr>"

definition close_weight_table :: "epoch_state \<Rightarrow> epoch_state" where
  "close_weight_table self =
     self\<lparr>account_status := (account_status self)\<lparr>eas_weight_table := AccountStatus_as_u8 Closed\<rparr>\<rparr>"

definition close_epoch_snapshot :: "epoch_state \<Rightarrow> epoch_state" where
  "close_epoch_snapshot self =
     self\<lparr>account_status := (account_status self)\<lparr>eas_epoch_snapshot := AccountStatus_as_u8 Closed\<rparr>\<rparr>"

definition close_operator_snapshot :: "epoch_state \<Rightarrow> nat \<Rightarrow> (epoch_state, 'e) result" where
  "close_operator_snapshot self i =
     and_then (set_operator_snapshot (account_status self) i Closed) (\<lambda>st.
     Ok (self\<lparr>account_status := st\<rparr>))"

definition close_ballot_box :: "epoch_state \<Rightarrow> epoch_state" where
  "close_ballot_box self =
     self\<lparr>account_status := (account_status self)\<lparr>eas_ballot_box := AccountStatus_as_u8 Closed\<rparr>\<rparr>"

definition close_ncn_reward_router :: "epoch_state \<Rightarrow> epoch_state" where
  "close_ncn_reward_router self =
     self\<lparr>account_status := (account_status self)\<lparr>eas_ncn_reward_router := AccountStatus_as_u8 Closed\<rparr>\<rparr>"

definition close_operator_vault_reward_router :: "epoch_state \<Rightarrow> nat \<Rightarrow> (epoch_state, 'e) result" where
  "close_operator_vault_reward_router self i =
     and_then (set_operator_vault_reward_router (account_status self) i Closed) (\<lambda>st.
     Ok (self\<lparr>account_status := st\<rparr>))"

subsection \<open>Phases\<close>

datatype State = SetWeight | Snapshot | Vote | PostVoteCooldown | Distribute | Close

definition can_start_routing :: "epoch_state \<Rightarrow> u64 \<Rightarrow> u64 \<Rightarrow> (bool, program_error) result" where
  "can_start_routing self valid_slots current_slot =
     (if \<not> EpochState_is_consensus_reached self then Ok False
      else
        and_then (into_program (get_slot_consensus_reached self)) (\<lambda>slot.
        and_then (into_program (ok_or (checked_add slot valid_slots) ArithmeticOverflow)) (\<lambda>start.
        Ok (start \<le> current_slot))))"

definition can_close_epoch_accounts ::
  "(u64 \<Rightarrow> u64) \<Rightarrow> epoch_state \<Rightarrow> u64 \<Rightarrow> u64 \<Rightarrow> (bool, program_error) result" where
  "can_close_epoch_accounts get_epoch self close_epochs current_slot =
     and_then (get_epoch_consensus_reached get_epoch self) (\<lambda>e.
     let current_epoch = get_epoch current_slot;
         epoch_delta = saturating_sub current_epoch e
     in Ok (close_epochs \<le> epoch_delta))"

definition current_state ::
  "(u64 \<Rightarrow> u64) \<Rightarrow> epoch_state \<Rightarrow> u64 \<Rightarrow> u64 \<Rightarrow> u64 \<Rightarrow> (State, program_error) result" where
  "current_state get_epoch self valid_slots close_epochs current_slot =
     (if can_close_epoch_accounts get_epoch self close_epochs current_slot = Ok True then Ok Close
      else
        and_then (into_program (get_account_status (eas_weight_table (account_status self)))) (\<lambda>wt.
        if wt = DNE \<or> \<not> is_complete (set_weight_progress self) then Ok SetWeight
        else
        and_then (into_program (get_account_status (eas_epoch_snapshot (account_status self)))) (\<lambda>es.
        if es = DNE \<or> \<not> is_complete (epoch_snapshot_progress self) then Ok Snapshot
        else
        and_then (into_program (get_account_status (eas_ballot_box (account_status self)))) (\<lambda>bb.
        if bb = DNE then Ok Snapshot
        else if \<not> EpochState_is_consensus_reached self then Ok Vote
        else
        and_then (can_start_routing self valid_slots current_slot) (\<lambda>go.
        if \<not> go then Ok PostVoteCooldown else Ok Distribute)))))"

definition current_state_patched ::
  "(u64 \<Rightarrow> u64) \<Rightarrow> epoch_state \<Rightarrow> u64 \<Rightarrow> u64 \<Rightarrow> u64 \<Rightarrow> u64 \<Rightarrow> (State, program_error) result" where
  "current_state_patched get_epoch self valid_slots close_epochs st_mint_count current_slot =
     (if can_close_epoch_accounts get_epoch self close_epochs current_slot = Ok True then Ok Close
      else
        and_then (into_program (get_account_status (eas_weight_table (account_status self)))) (\<lambda>wt.
        if wt = DNE \<or> prog_tally (set_weight_progress self) < st_mint_count then Ok SetWeight
        else
        and_then (into_program (get_account_status (eas_epoch_snapshot (account_status self)))) (\<lambda>es.
        if es = DNE \<or> \<not> is_complete (epoch_snapshot_progress self) then Ok Snapshot
        else
        and_then (into_program (get_account_status (eas_ballot_box (account_status self)))) (\<lambda>bb.
        if bb = DNE then Ok Snapshot
        else if \<not> EpochState_is_consensus_reached self then Ok Vote
        else
        and_then (can_start_routing self valid_slots current_slot) (\<lambda>go.
        if \<not> go then Ok PostVoteCooldown else Ok Distribute)))))"

section \<open>The consensus result\<close>

record consensus_result =
  cr_ncn :: pubkey
  cr_epoch :: u64
  cr_vote_weight :: u64
  cr_total_vote_weight :: u64
  cr_consensus_slot :: u64
  cr_bump :: u8
  cr_weather_status :: u8

definition ConsensusResult_new :: "pubkey \<Rightarrow> u64 \<Rightarrow> u8 \<Rightarrow> consensus_result" where
  "ConsensusResult_new ncn epoch bump =
     \<lparr>cr_ncn = ncn, cr_epoch = epoch, cr_vote_weight = 0, cr_total_vote_weight = 0,
      cr_consensus_slot = 0, cr_bump = bump, cr_weather_status = 0\<rparr>"

definition ConsensusResult_is_consensus_reached :: "consensus_result \<Rightarrow> bool" where
  "ConsensusResult_is_consensus_reached self \<longleftrightarrow> cr_consensus_slot self \<noteq> 0"

definition record_consensus ::
  "consensus_result \<Rightarrow> u8 \<Rightarrow> u64 \<Rightarrow> u64 \<Rightarrow> u64 \<Rightarrow> (consensus_result, ncn_error) result" where
  "record_consensus self status weight total_weight slot =
     (if ConsensusResult_is_consensus_reached self then Ok (self\<lparr>cr_vote_weight := weight\<rparr>)
      else Ok (self\<lparr>cr_weather_status := status, cr_vote_weight := weight,
                    cr_total_vote_weight := total_weight, cr_consensus_slot := slot\<rparr>))"

definition ConsensusResult_initialize ::
  "consensus_result \<Rightarrow> pubkey \<Rightarrow> u64 \<Rightarrow> u8 \<Rightarrow> (consensus_result, program_error) result" where
  "ConsensusResult_initialize self ncn epoch bump =
     Ok (self\<lparr>cr_ncn := ncn, cr_epoch := epoch, cr_bump := bump, cr_weather_status := 0,
              cr_vote_weight := 0, cr_total_vote_weight := 0, cr_consensus_slot := 0\<rparr>)"

end
