(* ===== verification/Route_Table.thy ===== *)
theory Route_Table
  imports Precise_Number Slot_Table
begin

text \<open>
  What the two reward routers share: the table of reward routes, a keyed table whose entries
  carry an amount of lamports, and the arithmetic of proportional shares.  The locale
  \<open>route_table\<close> is the contract of such a table; crediting and debiting a route are shown to
  change the total by exactly the amount moved and no other route.
\<close>

section \<open>Words\<close>

text \<open>A word for a number that fits, to instantiate the sums of the checked operations.\<close>

lemma word_for: "n < 2 ^ 64 \<Longrightarrow> \<exists>w :: u64. unat w = n"
  by (rule exI [of _ "word_of_nat n"]) (simp add: unat_of_nat)

lemma unat_ucast_16_128 [simp]: "unat (ucast (x :: u16) :: u128) = unat x"
  by transfer (simp add: take_bit_eq_mod)

section \<open>Proportional shares\<close>

lemma floor_shares_le:
  fixes f :: "'a \<Rightarrow> nat"
  shows "sum_where p (\<lambda>x. R * f x div W) xs \<le> R * sum_where p f xs div W"
proof (induction xs)
  case (Cons x xs)
  have "R * f x div W + R * sum_where p f xs div W \<le> R * (f x + sum_where p f xs) div W"
    by (subst distrib_left, subst div_add1_eq [of "R * f x"]) simp
  with Cons show ?case by (cases "p x") (simp_all add: add.commute)
qed simp

lemma shares_within:
  fixes f :: "'a \<Rightarrow> nat"
  assumes "sum_where p f xs \<le> W"
  shows "sum_where p (\<lambda>x. R * f x div W) xs \<le> R"
proof -
  have "R * sum_where p f xs div W \<le> R * W div W"
    by (rule div_le_mono, rule mult_le_mono2, rule assms)
  also have "\<dots> \<le> R" by simp
  finally show ?thesis using floor_shares_le [of p R f W xs] by simp
qed

lemma share_le_amount:
  fixes R w W :: nat
  assumes "w \<le> W"
  shows "R * w div W \<le> R"
  using shares_within [of "\<lambda>_. True" "\<lambda>x. x" "[w]" W R] assms by simp

section \<open>Route tables\<close>

locale route_table = keyed_table key dflt
  for key :: "'a \<Rightarrow> pubkey" and dflt :: 'a +
  fixes amount :: "'a \<Rightarrow> u64"
  assumes amount_dflt: "amount dflt = 0"
begin

definition routed :: "'a list \<Rightarrow> nat" where
  "routed xs = sum_list (map (\<lambda>x. unat (amount x)) xs)"

definition routed_to :: "pubkey \<Rightarrow> 'a list \<Rightarrow> nat" where
  "routed_to k xs = (case find (\<lambda>x. key x = k) xs of None \<Rightarrow> 0 | Some x \<Rightarrow> unat (amount x))"

lemma routed_replicate [simp]: "routed (replicate n dflt) = 0"
  by (simp add: routed_def sum_list_replicate amount_dflt)

lemma routed_nth_le: "i < length xs \<Longrightarrow> unat (amount (xs ! i)) \<le> routed xs"
  unfolding routed_def by (rule sum_list_nth_le)

text \<open>Rewriting an existing route.\<close>

lemma rewrite_route:
  assumes ok: "keys_ok xs" and i: "position (\<lambda>x. key x = k) xs = Some i"
    and k: "k \<noteq> Pubkey_default" and y: "key y = k"
  shows "keys_ok (xs[i := y])" and "routed (xs[i := y]) + unat (amount (xs ! i)) = routed xs + unat (amount y)"
    and "routed_to k' (xs[i := y]) = (if k' = k then unat (amount y) else routed_to k' xs)"
    and "map key (live (xs[i := y])) = map key (live xs)"
    and "routed_to k xs = unat (amount (xs ! i))"
proof -
  note upd = lookup_update [OF ok i k y]
  show "keys_ok (xs[i := y])" and "map key (live (xs[i := y])) = map key (live xs)"
    by (rule upd)+
  have il: "i < length xs" using position_Some [OF i] by simp
  show "routed (xs[i := y]) + unat (amount (xs ! i)) = routed xs + unat (amount y)"
    unfolding routed_def by (rule sum_list_update [OF il])
  show "routed_to k' (xs[i := y]) = (if k' = k then unat (amount y) else routed_to k' xs)"
    using find_first_update [OF i y, of k'] by (simp add: routed_to_def)
  show "routed_to k xs = unat (amount (xs ! i))"
    using i by (simp add: routed_to_def find_position)
qed

text \<open>Writing a new route over the first unused slot.\<close>

lemma append_route:
  assumes ok: "keys_ok xs" and i: "position (\<lambda>x. key x = Pubkey_default) xs = Some i"
    and k: "k \<noteq> Pubkey_default" and new: "position (\<lambda>x. key x = k) xs = None" and y: "key y = k"
  shows "keys_ok (xs[i := y])" and "routed (xs[i := y]) = routed xs + unat (amount y)"
    and "k' \<noteq> Pubkey_default \<Longrightarrow>
      routed_to k' (xs[i := y]) = (if k' = k then unat (amount y) else routed_to k' xs)"
    and "map key (live (xs[i := y])) = map key (live xs) @ [k]" and "routed_to k xs = 0"
proof -
  have ne: "key y \<noteq> Pubkey_default" using y k by simp
  have none: "lookup (key y) xs = None" using new by (simp add: lookup_def find_position y)
  note ins = lookup_insert [OF ok i ne none]
  show "keys_ok (xs[i := y])" by (rule ins(1))
  show "map key (live (xs[i := y])) = map key (live xs) @ [k]" using ins(2) y by simp
  have pk: "packed xs" using ok by (simp add: keys_ok_def)
  have "i = length (live xs)" by (rule packed_insert(3) [OF pk i ne])
  then have "xs ! i = dflt" using packed_nth_dflt [OF pk, of i] position_Some [OF i] by simp
  moreover have il: "i < length xs" using position_Some [OF i] by simp
  ultimately show "routed (xs[i := y]) = routed xs + unat (amount y)"
    using sum_list_update [OF il, of "\<lambda>x. unat (amount x)" y] by (simp add: routed_def amount_dflt)
  show "routed_to k xs = 0" using new by (simp add: routed_to_def find_position)
  assume "k' \<noteq> Pubkey_default"
  then show "routed_to k' (xs[i := y]) = (if k' = k then unat (amount y) else routed_to k' xs)"
    using ins(3) [of k'] y by (simp add: routed_to_def lookup_def)
qed

text \<open>A table whose keys lie in a set smaller than the table has room for every key of it.\<close>

lemma room_for_key:
  assumes ok: "keys_ok xs" and sub: "key ` set (live xs) \<subseteq> K" and fin: "finite K"
    and card: "card K \<le> length xs" and k: "k \<in> K" and new: "position (\<lambda>x. key x = k) xs = None"
  shows "\<exists>i. position (\<lambda>x. key x = Pubkey_default) xs = Some i"
proof -
  have pk: "packed xs" and dist: "distinct (map key (live xs))" using ok by (simp_all add: keys_ok_def)
  have "k \<notin> key ` set (live xs)" using new set_live [of xs] by (auto simp: position_None)
  with sub k have "key ` set (live xs) \<subset> K" by blast
  then have "card (key ` set (live xs)) < card K" by (rule psubset_card_mono [OF fin])
  moreover have "card (key ` set (live xs)) = length (live xs)"
    using distinct_card [OF dist] by simp
  ultimately have "length (live xs) < length xs" using card by simp
  then show ?thesis using packed_position_empty [OF pk] by simp
qed

text \<open>A single scan for the key or an unused slot finds the key's entry when there is one.\<close>

lemma position_key_or_empty:
  assumes pk: "packed xs" and k: "k \<noteq> Pubkey_default"
  shows "position (\<lambda>x. key x = k \<or> key x = Pubkey_default) xs =
    (case position (\<lambda>x. key x = k) xs of
       Some i \<Rightarrow> Some i | None \<Rightarrow> position (\<lambda>x. key x = Pubkey_default) xs)"
proof (cases "position (\<lambda>x. key x = k) xs")
  case (Some i)
  note pos = position_Some [OF Some] and live = position_key_live [OF pk Some k]
  have "\<forall>j < i. \<not> (key (xs ! j) = k \<or> key (xs ! j) = Pubkey_default)"
  proof (intro allI impI)
    fix j assume j: "j < i"
    then have "j < length (live xs)" using live(1) by simp
    then have "key (xs ! j) \<noteq> Pubkey_default"
      using packed_nth_live [OF pk] live_not_empty nth_mem by metis
    with pos j show "\<not> (key (xs ! j) = k \<or> key (xs ! j) = Pubkey_default)" by blast
  qed
  with pos have "position (\<lambda>x. key x = k \<or> key x = Pubkey_default) xs = Some i"
    by (intro position_first) auto
  with Some show ?thesis by simp
next
  case None
  then have "\<forall>x \<in> set xs. key x \<noteq> k" by (simp add: position_None)
  then have "position (\<lambda>x. key x = k \<or> key x = Pubkey_default) ys = position (\<lambda>x. key x = Pubkey_default) ys"
    if "set ys \<subseteq> set xs" for ys
    using that by (induction ys) auto
  with None show ?thesis by simp
qed

end

end
