(* ===== verification/Ballot_Box_Correct.thy ===== *)
theory Ballot_Box_Correct
  imports Ballot_Box
begin

text \<open>
  Correctness of the ballot box: the invariant \<open>bb_wf\<close> and its preservation by voting,
  tallying and tie breaking, the abstract ballot log that voting refines, and the consensus
  rule.
\<close>

section \<open>Tables\<close>

lemma unat_u16_index [simp]: "i < 256 \<Longrightarrow> unat (word_of_nat i :: u16) = i"
  by (simp add: unat_of_nat)

lemma u16_index_not_max [simp]:
  assumes "i < 256"
  shows "(word_of_nat i :: u16) \<noteq> u16_MAX"
proof
  assume "(word_of_nat i :: u16) = u16_MAX"
  then have "unat (word_of_nat i :: u16) = unat u16_MAX" by simp
  with assms show False by (simp add: unsigned_minus_1_eq_mask mask_eq_exp_minus_1)
qed

lemma OperatorVote_new_live [simp]:
  "i < 256 \<Longrightarrow> \<not> OperatorVote_is_empty (OperatorVote_new i op slot w)"
  by (simp add: OperatorVote_is_empty_def OperatorVote_new_def)

lemma Ballot_eq_iff:
  "Ballot_eq x y \<longleftrightarrow>
     ballot_is_valid x \<and> ballot_is_valid y \<and> weather_status x = weather_status y"
  by (auto simp: Ballot_eq_def)

lemma Ballot_new_fields [simp]:
  "weather_status (Ballot_new s) = s" "ballot_is_valid (Ballot_new s) \<longleftrightarrow> s \<le> 2"
  by (simp_all add: Ballot_new_def Let_def)

lemma has_ballot_iff: "has_ballot b x \<longleftrightarrow> (\<exists>t \<in> set (live_tallies b). Ballot_eq (bt_ballot t) x)"
  by (auto simp: has_ballot_def list_ex_iff live_tallies_def BallotTally_is_valid_def Ballot_eq_iff)

lemma tables_lengths:
  assumes "bb_tables_ok b"
  shows "length (cast_votes b) \<le> 256" and "length (live_tallies b) \<le> 256"
  using assms votes.length_live [of "operator_votes b"] tallies.length_live [of "ballot_tallies b"]
  by (simp_all add: bb_tables_ok_def cast_votes_live live_tallies_live MAX_OPERATORS_def)

lemma increment_tally_OkD:
  assumes "increment_tally t w = Ok t'"
  shows "bt_index t' = bt_index t" and "bt_ballot t' = bt_ballot t"
    and "tally_weight t' = tally_weight t + weight_of w"
    and "unat (bt_tally t') = Suc (unat (bt_tally t))"
  using assms by (auto simp: increment_tally_def result_simps checked_simps StakeWeights_increment_Ok)

text \<open>The two ways a vote reaches a tally: a known ballot is incremented, a new one appended.\<close>

lemma tally_position:
  assumes "bb_tables_ok b"
  shows "position (\<lambda>t. BallotTally_is_valid t \<and> Ballot_eq (bt_ballot t) x) (ballot_tallies b)
       = position (\<lambda>t. Ballot_eq (bt_ballot t) x) (live_tallies b)"
proof -
  let ?p = "\<lambda>t. BallotTally_is_valid t \<and> Ballot_eq (bt_ballot t) x"
  have "?p = (\<lambda>t. Ballot_eq (bt_ballot t) x)"
    by (auto simp: BallotTally_is_valid_def Ballot_eq_iff)
  moreover have "\<not> ?p BallotTally_default"
    by (simp add: BallotTally_is_valid_def BallotTally_default_def Ballot_default_def)
  ultimately show ?thesis
    using assms tallies.packed_position_live [of "ballot_tallies b" ?p]
    by (simp add: bb_tables_ok_def live_tallies_live)
qed

definition tally_update :: "ballot_tally list \<Rightarrow> ballot \<Rightarrow> stake_weights \<Rightarrow> nat \<Rightarrow> ballot_tally list \<Rightarrow> bool"
where
  "tally_update L x w i L' \<longleftrightarrow>
     (i < length L \<and> Ballot_eq (bt_ballot (L ! i)) x \<and>
        (\<exists>t. increment_tally (L ! i) w = Ok t \<and> L' = L[i := t])) \<or>
     (i = length L \<and> (\<forall>t \<in> set L. \<not> Ballot_eq (bt_ballot t) x) \<and>
        L' = L @ [BallotTally_new (word_of_nat i) x w])"

lemma increment_or_create_OkD:
  assumes tab: "bb_tables_ok b" and val: "ballot_is_valid x"
    and ok: "increment_or_create_ballot_tally b x w = Ok (b', i)"
  shows "tally_update (live_tallies b) x w i (live_tallies b')"
    and "i < 256" and "length (ballot_tallies b') = MAX_OPERATORS"
    and "tallies.packed (ballot_tallies b')"
    and "unat (unique_ballots b') = length (live_tallies b')"
    and "b' = b\<lparr>ballot_tallies := ballot_tallies b', unique_ballots := unique_ballots b'\<rparr>"
proof -
  let ?T = "ballot_tallies b" and ?L = "live_tallies b"
  have len: "length ?T = 256" and pk: "tallies.packed ?T"
    and ub: "unat (unique_ballots b) = length ?L"
    using tab by (simp_all add: bb_tables_ok_def MAX_OPERATORS_def)
  have "tally_update ?L x w i (live_tallies b') \<and> i < 256 \<and>
     length (ballot_tallies b') = MAX_OPERATORS \<and> tallies.packed (ballot_tallies b') \<and>
     unat (unique_ballots b') = length (live_tallies b') \<and>
     b' = b\<lparr>ballot_tallies := ballot_tallies b', unique_ballots := unique_ballots b'\<rparr>"
  proof (cases "position (\<lambda>t. Ballot_eq (bt_ballot t) x) ?L")
    case (Some k)
    note pos = position_Some [OF Some]
    have kl: "k < length ?L" using pos by simp
    have nth: "?T ! k = ?L ! k"
      using tallies.packed_nth_live [OF pk] kl by (simp add: live_tallies_live)
    from ok Some obtain t where t: "increment_tally (?L ! k) w = Ok t"
      and b': "b' = b\<lparr>ballot_tallies := ?T[k := t]\<rparr>" "i = k"
      by (auto simp: increment_or_create_ballot_tally_def tally_position [OF tab] result_simps nth)
    have "BallotTally_is_valid t"
      using pos increment_tally_OkD(2) [OF t] by (simp add: BallotTally_is_valid_def Ballot_eq_iff)
    with tallies.packed_update [OF pk, of k t] kl
    have "tallies.packed (?T[k := t])" "tallies.live (?T[k := t]) = ?L[k := t]"
      by (simp_all add: live_tallies_live)
    with pos t b' kl len ub tables_lengths(2) [OF tab] show ?thesis
      by (simp add: tally_update_def live_tallies_live MAX_OPERATORS_def)
  next
    case None
    from ok None obtain k n where k: "position (\<lambda>t. \<not> BallotTally_is_valid t) ?T = Some k"
      and n: "checked_add (unique_ballots b) 1 = Some n"
      and b': "b' = b\<lparr>ballot_tallies := ?T[k := BallotTally_new (word_of_nat k) x w],
                     unique_ballots := n\<rparr>" "i = k"
      by (auto simp: increment_or_create_ballot_tally_def tally_position [OF tab] result_simps
          split: option.splits)
    let ?t = "BallotTally_new (word_of_nat k) x w"
    have tv: "\<not> \<not> BallotTally_is_valid ?t"
      using val by (simp add: BallotTally_is_valid_def BallotTally_new_def)
    note ins = tallies.packed_insert [OF pk k tv]
    have "k < 256" using position_Some [OF k] len by simp
    moreover have "unat n = Suc (length ?L)" using n ub by (simp add: checked_simps)
    moreover have "\<forall>t \<in> set ?L. \<not> Ballot_eq (bt_ballot t) x" using None by (simp add: position_None)
    ultimately show ?thesis
      using ins b' len by (simp add: tally_update_def live_tallies_live MAX_OPERATORS_def)
  qed
  then show "tally_update ?L x w i (live_tallies b')" and "i < 256"
    and "length (ballot_tallies b') = MAX_OPERATORS" and "tallies.packed (ballot_tallies b')"
    and "unat (unique_ballots b') = length (live_tallies b')"
    and "b' = b\<lparr>ballot_tallies := ballot_tallies b', unique_ballots := unique_ballots b'\<rparr>"
    by blast+
qed

section \<open>Casting a vote\<close>

lemma did_operator_vote_iff:
  assumes "bb_tables_ok b"
  shows "did_operator_vote b op \<longleftrightarrow>
    op \<in> ov_operator ` set (cast_votes b) \<or> (length (cast_votes b) < 256 \<and> op = Pubkey_default)"
proof -
  have pk: "votes.packed (operator_votes b)" and len: "length (operator_votes b) = 256"
    using assms by (simp_all add: bb_tables_ok_def MAX_OPERATORS_def)
  from pk obtain n where n: "operator_votes b = cast_votes b @ replicate n OperatorVote_default"
    unfolding cast_votes_live by (rule votes.packed_cases)
  then have n256: "length (cast_votes b) + n = 256" using len by (metis length_append length_replicate)
  have "did_operator_vote b op \<longleftrightarrow>
      op \<in> ov_operator ` set (cast_votes b) \<or> (n \<noteq> 0 \<and> op = Pubkey_default)"
    unfolding did_operator_vote_def n by (auto simp: list_ex_iff OperatorVote_default_def)
  with n256 show ?thesis by auto
qed

lemma cast_vote_OkD:
  assumes tab: "bb_tables_ok b" and ok: "cast_vote b op x w slot valid = Ok b'"
  obtains i where "tally_update (live_tallies b) x w i (live_tallies b')" and "i < 256"
    and "cast_votes b' = cast_votes b @ [OperatorVote_new i op slot w]"
    and "bb_tables_ok b'" and "op \<notin> ov_operator ` set (cast_votes b)" and "op \<noteq> Pubkey_default"
    and "ballot_is_valid x" and "is_voting_valid b slot valid = Ok True"
    and "winning_ballot b' = winning_ballot b"
    and "slot_consensus_reached b' = slot_consensus_reached b"
    and "bb_epoch b' = bb_epoch b" and "bb_ncn b' = bb_ncn b"
proof -
  from ok obtain m i k n where val: "is_voting_valid b slot valid = Ok True"
    and x: "ballot_is_valid x" and nv: "\<not> did_operator_vote b op"
    and m: "increment_or_create_ballot_tally b x w = Ok (m, i)"
    and k: "position OperatorVote_is_empty (operator_votes m) = Some k"
    and n: "checked_add (operators_voted m) 1 = Some n"
    and b': "b' = m\<lparr>operator_votes := (operator_votes m)[k := OperatorVote_new i op slot w],
                     operators_voted := n\<rparr>"
    by (auto simp: cast_vote_def result_simps did_operator_vote_def split: option.splits)
  note inc = increment_or_create_OkD [OF tab x m]
  have same: "operator_votes m = operator_votes b" "operators_voted m = operators_voted b"
    "winning_ballot m = winning_ballot b" "slot_consensus_reached m = slot_consensus_reached b"
    "bb_epoch m = bb_epoch b" "bb_ncn m = bb_ncn b"
    by (subst inc(6), simp)+
  have pk: "votes.packed (operator_votes m)" and len: "length (operator_votes m) = 256"
    and ov: "unat (operators_voted m) = length (cast_votes b)"
    using tab by (simp_all add: bb_tables_ok_def MAX_OPERATORS_def same)
  note ins = votes.packed_insert [OF pk k OperatorVote_new_live [OF inc(2)]]
  have cv: "cast_votes b' = cast_votes b @ [OperatorVote_new i op slot w]"
    using ins(2) [of op slot w] by (simp add: b' cast_votes_live same)
  moreover have lt: "live_tallies b' = live_tallies m" by (simp add: b' live_tallies_def)
  moreover have "bb_tables_ok b'"
    using inc(3-5) ins(1) [of op slot w] len n ov
    unfolding bb_tables_ok_def cv lt by (simp add: b' checked_simps MAX_OPERATORS_def)
  moreover have "length (cast_votes b) < 256"
    using ins(3) position_Some [OF k] len by (simp add: cast_votes_live same)
  ultimately show thesis
    using that [of i] inc(1,2) nv did_operator_vote_iff [OF tab] x val same by (auto simp: b')
qed

lemma cast_vote_frame:
  assumes "bb_tables_ok b" and "cast_vote b op x w slot valid = Ok b'"
  shows "winning_ballot b' = winning_ballot b"
    and "slot_consensus_reached b' = slot_consensus_reached b"
    and "bb_epoch b' = bb_epoch b" and "bb_ncn b' = bb_ncn b"
  by (rule cast_vote_OkD [OF assms], assumption)+

text \<open>One more vote keeps every tally the sum of its votes.\<close>

lemma tally_ok_other:
  "tally_ok vs i t \<Longrightarrow> \<not> votes_for i v \<Longrightarrow> tally_ok (vs @ [v]) i t"
  by (simp add: tally_ok_def)

lemma tally_ok_incr:
  assumes "tally_ok vs i t" and "increment_tally t (ov_stake_weights v) = Ok t'" and "votes_for i v"
  shows "tally_ok (vs @ [v]) i t'"
  using assms increment_tally_OkD [OF assms(2)] by (simp add: tally_ok_def)

lemma tally_ok_new:
  assumes "\<forall>v \<in> set vs. unat (ov_ballot_index v) < i" and "i < 256" and "weather_status x \<le> 2"
  shows "tally_ok (vs @ [OperatorVote_new i op slot w]) i (BallotTally_new (word_of_nat i) x w)"
proof -
  have "filter (votes_for i) vs = []"
    using assms(1) by (auto simp: votes_for_def filter_empty_conv)
  with assms(2,3) show ?thesis
    by (simp add: tally_ok_def BallotTally_new_def sum_where_def count_where_def votes_for_def
        OperatorVote_new_def)
qed

lemma tally_update_ok:
  fixes op :: pubkey and slot :: u64
  assumes upd: "tally_update L x w i L'" and i: "i < 256"
    and val: "ballot_is_valid x" and st: "weather_status x \<le> 2"
    and live: "\<forall>t \<in> set L. BallotTally_is_valid t"
    and dist: "distinct (map (weather_status \<circ> bt_ballot) L)"
    and ok: "\<forall>j < length L. tally_ok vs j (L ! j)"
    and idx: "\<forall>v \<in> set vs. unat (ov_ballot_index v) < length L"
  defines "v \<equiv> OperatorVote_new i op slot w"
  shows "distinct (map (weather_status \<circ> bt_ballot) L')"
    and "\<forall>j < length L'. tally_ok (vs @ [v]) j (L' ! j)"
    and "i < length L'" and "length L \<le> length L'"
    and "weather_status (bt_ballot (L' ! i)) = weather_status x"
    and "\<forall>j < length L. bt_ballot (L' ! j) = bt_ballot (L ! j)"
proof -
  have vf: "votes_for j v \<longleftrightarrow> j = i" for j
    using i by (auto simp: votes_for_def v_def OperatorVote_new_def)
  have w: "ov_stake_weights v = w" by (simp add: v_def OperatorVote_new_def)
  have "distinct (map (weather_status \<circ> bt_ballot) L') \<and> (\<forall>j < length L'. tally_ok (vs @ [v]) j (L' ! j))
      \<and> i < length L' \<and> length L \<le> length L'
      \<and> weather_status (bt_ballot (L' ! i)) = weather_status x
      \<and> (\<forall>j < length L. bt_ballot (L' ! j) = bt_ballot (L ! j))"
  proof (cases "i < length L")
    case True
    with upd obtain t where t: "increment_tally (L ! i) w = Ok t" and L': "L' = L[i := t]"
      and eq: "Ballot_eq (bt_ballot (L ! i)) x"
      by (auto simp: tally_update_def)
    note bt = increment_tally_OkD [OF t]
    have "tally_ok (vs @ [v]) j (L' ! j)" if "j < length L" for j
      using ok that vf tally_ok_other tally_ok_incr [of vs i "L ! i" v t] t w
      by (cases "j = i") (auto simp: L')
    with True eq bt dist show ?thesis
      by (auto simp: L' map_update_same Ballot_eq_iff nth_list_update)
  next
    case False
    with upd have il: "i = length L" and nw: "\<forall>t \<in> set L. \<not> Ballot_eq (bt_ballot t) x"
      and L': "L' = L @ [BallotTally_new (word_of_nat i) x w]"
      by (auto simp: tally_update_def)
    have "tally_ok (vs @ [v]) j (L' ! j)" if "j < length L'" for j
    proof (cases "j = i")
      case True
      have "tally_ok (vs @ [v]) i (BallotTally_new (word_of_nat i) x w)"
        unfolding v_def by (rule tally_ok_new) (use idx il i st in auto)
      then show ?thesis using True il by (simp add: L' nth_append)
    next
      case False
      then have "j < length L" using that il by (simp add: L')
      then show ?thesis using ok vf False tally_ok_other by (simp add: L' nth_append)
    qed
    moreover have "weather_status x \<notin> (weather_status \<circ> bt_ballot) ` set L"
      using nw live val by (auto simp: Ballot_eq_iff BallotTally_is_valid_def)
    ultimately show ?thesis
      using dist il by (auto simp: L' nth_append BallotTally_new_def)
  qed
  then show "distinct (map (weather_status \<circ> bt_ballot) L')"
    and "\<forall>j < length L'. tally_ok (vs @ [v]) j (L' ! j)"
    and "i < length L'" and "length L \<le> length L'"
    and "weather_status (bt_ballot (L' ! i)) = weather_status x"
    and "\<forall>j < length L. bt_ballot (L' ! j) = bt_ballot (L ! j)"
    by blast+
qed

lemma live_tallies_valid: "t \<in> set (live_tallies b) \<Longrightarrow> BallotTally_is_valid t"
  by (simp add: live_tallies_def)

lemma cast_vote_facts:
  assumes wf: "bb_wf b" and ok: "cast_vote b op (Ballot_new s) w slot valid = Ok b'"
  obtains i where "i < length (live_tallies b')"
    and "cast_votes b' = cast_votes b @ [OperatorVote_new i op slot w]"
    and "weather_status (bt_ballot (live_tallies b' ! i)) = s" and "s \<le> 2" and "i < 256"
    and "length (live_tallies b) \<le> length (live_tallies b')"
    and "\<forall>j < length (live_tallies b). bt_ballot (live_tallies b' ! j) = bt_ballot (live_tallies b ! j)"
    and "bb_wf b'"
proof -
  have tab: "bb_tables_ok b" and v: "bb_votes_ok b" and t: "bb_tallies_ok b" and win: "bb_winner_ok b"
    using wf by (simp_all add: bb_wf_def)
  from cast_vote_OkD [OF tab ok] obtain i
    where upd: "tally_update (live_tallies b) (Ballot_new s) w i (live_tallies b')" and i: "i < 256"
    and cv: "cast_votes b' = cast_votes b @ [OperatorVote_new i op slot w]"
    and tab': "bb_tables_ok b'" and op: "op \<notin> ov_operator ` set (cast_votes b)"
      "op \<noteq> Pubkey_default" and s: "s \<le> 2" and same: "winning_ballot b' = winning_ballot b"
      "slot_consensus_reached b' = slot_consensus_reached b"
    by auto
  have pre: "ballot_is_valid (Ballot_new s)" "weather_status (Ballot_new s) \<le> 2"
    "\<forall>t \<in> set (live_tallies b). BallotTally_is_valid t"
    using s live_tallies_valid by auto
  have pre': "distinct (map (weather_status \<circ> bt_ballot) (live_tallies b))"
    "\<forall>j < length (live_tallies b). tally_ok (cast_votes b) j (live_tallies b ! j)"
    "\<forall>v \<in> set (cast_votes b). unat (ov_ballot_index v) < length (live_tallies b)"
    using v t by (simp_all add: bb_votes_ok_def bb_tallies_ok_def)
  note upd' = tally_update_ok [OF upd i pre pre']
  have u: "distinct (map (weather_status \<circ> bt_ballot) (live_tallies b'))"
    "\<forall>j < length (live_tallies b'). tally_ok (cast_votes b') j (live_tallies b' ! j)"
    "i < length (live_tallies b')" "length (live_tallies b) \<le> length (live_tallies b')"
    "weather_status (bt_ballot (live_tallies b' ! i)) = s"
    "\<forall>j < length (live_tallies b). bt_ballot (live_tallies b' ! j) = bt_ballot (live_tallies b ! j)"
    using upd' by (simp_all add: cv)
  have "bb_votes_ok b'"
    using v op u(3,4) i unfolding bb_votes_ok_def cv
    by (auto simp: OperatorVote_new_def intro: less_le_trans)
  moreover have "bb_tallies_ok b'" using u(1,2) by (simp add: bb_tallies_ok_def)
  moreover have "has_ballot b' x" if "has_ballot b x" for x
    using that u(4,6) unfolding has_ballot_iff by (metis in_set_conv_nth less_le_trans)
  then have "bb_winner_ok b'" using win by (simp add: bb_winner_ok_def same)
  ultimately have "bb_wf b'" using tab' by (simp add: bb_wf_def)
  then show thesis using that u(3-6) cv s i by blast
qed

lemma live_tallies_le_3:
  assumes "bb_wf b"
  shows "length (live_tallies b) \<le> 3"
proof -
  let ?S = "map (weather_status \<circ> bt_ballot) (live_tallies b)"
  have "set ?S \<subseteq> {0, 1, 2}"
  proof
    fix s assume "s \<in> set ?S"
    then have "s \<le> 2"
      using assms by (auto simp: bb_wf_def bb_tallies_ok_def tally_ok_def in_set_conv_nth)
    then have "unat s \<le> 2" by (simp add: word_le_nat_alt)
    then consider "unat s = unat (0 :: u8)" | "unat s = unat (1 :: u8)" | "unat s = unat (2 :: u8)"
      by fastforce
    then show "s \<in> {0, 1, 2}" by cases (simp_all only: word_unat_eq_iff [symmetric], simp_all)
  qed
  then have "card (set ?S) \<le> 3" using card_mono [of "{0, 1, 2 :: u8}" "set ?S"] by simp
  moreover have "distinct ?S" using assms by (simp add: bb_wf_def bb_tallies_ok_def)
  ultimately show ?thesis by (metis distinct_card length_map)
qed

section \<open>The ballot log\<close>

text \<open>
  The abstract view of a ballot box: who voted for which status with how much stake, in
  order.
\<close>

definition ballot_log :: "ballot_box \<Rightarrow> (pubkey \<times> u8 \<times> nat) list" where
  "ballot_log b =
     map (\<lambda>v. (ov_operator v,
               weather_status (bt_ballot (ballot_tallies b ! unat (ov_ballot_index v))),
               vote_weight v)) (cast_votes b)"

definition log_stake :: "u8 \<Rightarrow> (pubkey \<times> u8 \<times> nat) list \<Rightarrow> nat" where
  "log_stake s lg = sum_where (\<lambda>x. fst (snd x) = s) (\<lambda>x. snd (snd x)) lg"

definition log_count :: "u8 \<Rightarrow> (pubkey \<times> u8 \<times> nat) list \<Rightarrow> nat" where
  "log_count s lg = count_where (\<lambda>x. fst (snd x) = s) lg"

lemma ballot_tallies_nth:
  assumes "bb_wf b" and "i < length (live_tallies b)"
  shows "ballot_tallies b ! i = live_tallies b ! i"
  using assms tallies.packed_nth_live [of "ballot_tallies b" i]
  by (simp add: bb_wf_def bb_tables_ok_def live_tallies_live)

lemma vote_status_iff:
  assumes wf: "bb_wf b" and v: "v \<in> set (cast_votes b)" and i: "i < length (live_tallies b)"
  shows "weather_status (bt_ballot (ballot_tallies b ! unat (ov_ballot_index v)))
           = weather_status (bt_ballot (live_tallies b ! i)) \<longleftrightarrow> votes_for i v"
proof -
  have k: "unat (ov_ballot_index v) < length (live_tallies b)"
    using wf v by (simp add: bb_wf_def bb_votes_ok_def)
  have "distinct (map (weather_status \<circ> bt_ballot) (live_tallies b))"
    using wf by (simp add: bb_wf_def bb_tallies_ok_def)
  from nth_eq_iff_index_eq [OF this, of "unat (ov_ballot_index v)" i] k i show ?thesis
    by (simp add: ballot_tallies_nth [OF wf] votes_for_def)
qed

text \<open>Every tally is the stake and the number of the votes logged for its status.\<close>

lemma tally_is_log:
  assumes wf: "bb_wf b" and i: "i < length (live_tallies b)"
  shows "tally_weight (live_tallies b ! i)
           = log_stake (weather_status (bt_ballot (live_tallies b ! i))) (ballot_log b)"
    and "unat (bt_tally (live_tallies b ! i))
           = log_count (weather_status (bt_ballot (live_tallies b ! i))) (ballot_log b)"
proof -
  have ok: "tally_ok (cast_votes b) i (live_tallies b ! i)"
    using assms by (simp add: bb_wf_def bb_tallies_ok_def)
  show "tally_weight (live_tallies b ! i)
           = log_stake (weather_status (bt_ballot (live_tallies b ! i))) (ballot_log b)"
    using ok sum_where_cong [of "cast_votes b" _ "votes_for i" vote_weight, OF vote_status_iff [OF wf _ i]]
    by (simp add: tally_ok_def log_stake_def ballot_log_def sum_where_map comp_def)
  show "unat (bt_tally (live_tallies b ! i))
           = log_count (weather_status (bt_ballot (live_tallies b ! i))) (ballot_log b)"
    using ok count_where_cong [of "cast_votes b" _ "votes_for i", OF vote_status_iff [OF wf _ i]]
    by (simp add: tally_ok_def log_count_def ballot_log_def count_where_map comp_def)
qed

lemma log_stake_unvoted:
  assumes wf: "bb_wf b" and s: "s \<notin> (weather_status \<circ> bt_ballot) ` set (live_tallies b)"
  shows "log_stake s (ballot_log b) = 0"
proof -
  have "weather_status (bt_ballot (ballot_tallies b ! unat (ov_ballot_index v))) \<noteq> s"
    if "v \<in> set (cast_votes b)" for v
  proof -
    have k: "unat (ov_ballot_index v) < length (live_tallies b)"
      using wf that by (simp add: bb_wf_def bb_votes_ok_def)
    with s show ?thesis by (auto simp: ballot_tallies_nth [OF wf])
  qed
  then have "sum_where (\<lambda>v. weather_status (bt_ballot (ballot_tallies b ! unat (ov_ballot_index v))) = s)
      vote_weight (cast_votes b) = sum_where (\<lambda>_. False) vote_weight (cast_votes b)"
    by (intro sum_where_cong) auto
  then show ?thesis
    by (simp add: log_stake_def ballot_log_def sum_where_map comp_def) (simp add: sum_where_def)
qed

lemma cast_vote_log:
  assumes wf: "bb_wf b" and ok: "cast_vote b op (Ballot_new s) w slot valid = Ok b'"
  shows "ballot_log b' = ballot_log b @ [(op, s, weight_of w)]"
proof -
  from cast_vote_facts [OF wf ok] obtain i where i: "i < length (live_tallies b')"
    and cv: "cast_votes b' = cast_votes b @ [OperatorVote_new i op slot w]"
    and st: "weather_status (bt_ballot (live_tallies b' ! i)) = s" and i256: "i < 256"
    and le: "length (live_tallies b) \<le> length (live_tallies b')"
    and bs: "\<forall>j < length (live_tallies b). bt_ballot (live_tallies b' ! j) = bt_ballot (live_tallies b ! j)"
    and wf': "bb_wf b'" .
  have old: "bt_ballot (ballot_tallies b' ! unat (ov_ballot_index v))
      = bt_ballot (ballot_tallies b ! unat (ov_ballot_index v))" if "v \<in> set (cast_votes b)" for v
  proof -
    have "unat (ov_ballot_index v) < length (live_tallies b)"
      using wf that by (simp add: bb_wf_def bb_votes_ok_def)
    then show ?thesis using bs le by (simp add: ballot_tallies_nth [OF wf] ballot_tallies_nth [OF wf'])
  qed
  show ?thesis
    using old i256 i st unfolding ballot_log_def cv
    by (simp add: OperatorVote_new_def ballot_tallies_nth [OF wf'])
qed

section \<open>When a vote is accepted\<close>

lemma increment_tally_succeeds:
  assumes "tally_weight t + weight_of w < 2 ^ 128" and "unat (bt_tally t) < 2 ^ 64 - 1"
  shows "\<exists>t'. increment_tally t w = Ok t'"
proof -
  have "StakeWeights_increment (bt_stake_weights t) w \<noteq> Err e" for e
    using assms(1) by (auto simp: StakeWeights_increment_Err)
  then obtain sw where "StakeWeights_increment (bt_stake_weights t) w = Ok sw"
    by (cases "StakeWeights_increment (bt_stake_weights t) w") auto
  moreover have "checked_add (bt_tally t) 1 = Some (bt_tally t + 1)"
    using assms(2) by (auto simp: checked_add_one)
  ultimately show ?thesis by (simp add: increment_tally_def)
qed

lemma increment_or_create_succeeds:
  assumes wf: "bb_wf b" and s: "s \<le> 2"
    and fits: "log_stake s (ballot_log b) + weight_of w < 2 ^ 128"
  shows "is_ok (increment_or_create_ballot_tally b (Ballot_new s) w)"
proof -
  have tab: "bb_tables_ok b" using wf by (simp add: bb_wf_def)
  show ?thesis
  proof (cases "position (\<lambda>t. Ballot_eq (bt_ballot t) (Ballot_new s)) (live_tallies b)")
    case (Some k)
    note pos = position_Some [OF Some]
    then have k: "k < length (live_tallies b)" by simp
    have st: "weather_status (bt_ballot (live_tallies b ! k)) = s"
      using pos by (simp add: Ballot_eq_iff)
    have "unat (bt_tally (live_tallies b ! k)) = count_where (votes_for k) (cast_votes b)"
      using wf k by (simp add: bb_wf_def bb_tallies_ok_def tally_ok_def)
    also have "\<dots> \<le> 256"
      using count_where_le [of "votes_for k" "cast_votes b"] tables_lengths(1) [OF tab] by simp
    finally obtain t where "increment_tally (live_tallies b ! k) w = Ok t"
      using increment_tally_succeeds [of "live_tallies b ! k" w] tally_is_log(1) [OF wf k] st fits
      by fastforce
    then show ?thesis
      by (simp add: increment_or_create_ballot_tally_def tally_position [OF tab] Some
          ballot_tallies_nth [OF wf k])
  next
    case None
    have "length (live_tallies b) < 256" using live_tallies_le_3 [OF wf] by simp
    then have "position (\<lambda>t. \<not> BallotTally_is_valid t) (ballot_tallies b)
        = Some (length (live_tallies b))"
      using tab tallies.packed_position_empty [of "ballot_tallies b"]
      by (simp add: bb_tables_ok_def MAX_OPERATORS_def live_tallies_live)
    moreover have "unique_ballots b \<noteq> u64_MAX"
    proof
      assume "unique_ballots b = u64_MAX"
      then have "length (live_tallies b) = unat u64_MAX" using tab by (simp add: bb_tables_ok_def)
      then show False using live_tallies_le_3 [OF wf] by simp
    qed
    ultimately show ?thesis
      by (simp add: increment_or_create_ballot_tally_def tally_position [OF tab] None checked_add_one)
  qed
qed

text \<open>Exactly when a well-formed ballot box accepts a vote, in the order the code tests.\<close>

lemma cast_vote_is_ok_iff:
  assumes wf: "bb_wf b"
  shows "is_ok (cast_vote b op (Ballot_new s) w slot valid) \<longleftrightarrow>
    is_voting_valid b slot valid = Ok True \<and> s \<le> 2 \<and> \<not> did_operator_vote b op \<and>
    log_stake s (ballot_log b) + weight_of w < 2 ^ 128 \<and> length (cast_votes b) < 256"
    (is "?l \<longleftrightarrow> ?r")
proof
  have tab: "bb_tables_ok b" using wf by (simp add: bb_wf_def)
  assume ?l
  then obtain b' where ok: "cast_vote b op (Ballot_new s) w slot valid = Ok b'" by (auto simp: is_ok_iff)
  from cast_vote_facts [OF wf ok] obtain i where i: "i < length (live_tallies b')"
    and cv: "cast_votes b' = cast_votes b @ [OperatorVote_new i op slot w]"
    and st: "weather_status (bt_ballot (live_tallies b' ! i)) = s" and wf': "bb_wf b'" .
  have "length (cast_votes b') \<le> 256" using wf' tables_lengths(1) by (simp add: bb_wf_def)
  moreover have "log_stake s (ballot_log b) + weight_of w < 2 ^ 128"
    using tally_is_log(1) [OF wf' i] unat_u128_less [of "stake_weight (bt_stake_weights (live_tallies b' ! i))"]
    by (simp add: st cast_vote_log [OF wf ok] log_stake_def)
  ultimately show ?r
    using ok by (auto simp: cast_vote_def result_simps cv did_operator_vote_def)
next
  have tab: "bb_tables_ok b" using wf by (simp add: bb_wf_def)
  assume r: ?r
  then obtain m i where m: "increment_or_create_ballot_tally b (Ballot_new s) w = Ok (m, i)"
    using increment_or_create_succeeds [OF wf, of s w] by (auto simp: is_ok_iff)
  from r have v: "ballot_is_valid (Ballot_new s)" by simp
  note inc = increment_or_create_OkD [OF tab v m]
  have same: "operator_votes m = operator_votes b" "operators_voted m = operators_voted b"
    by (subst inc(6), simp)+
  have ov: "unat (operators_voted b) = length (cast_votes b)" using tab by (simp add: bb_tables_ok_def)
  have "operators_voted b \<noteq> u64_MAX"
  proof
    assume "operators_voted b = u64_MAX"
    with ov have "length (cast_votes b) = unat u64_MAX" by simp
    then show False using r by simp
  qed
  moreover have "position OperatorVote_is_empty (operator_votes b) = Some (length (cast_votes b))"
    using tab r votes.packed_position_empty [of "operator_votes b"]
    by (simp add: bb_tables_ok_def MAX_OPERATORS_def cast_votes_live)
  ultimately show ?l
    using r m by (simp add: cast_vote_def same checked_add_one did_operator_vote_def)
qed

section \<open>Consensus\<close>

text \<open>The threshold as the code computes it: \<open>2/3\<close> truncated to twelve decimals.\<close>

definition supermajority :: "nat \<Rightarrow> nat \<Rightarrow> bool" where
  "supermajority tot w \<longleftrightarrow> 666666666666 * tot \<le> w * 10 ^ 12"

lemma supermajority_two_thirds: "2 * tot \<le> 3 * w \<Longrightarrow> supermajority tot w"
  by (simp add: supermajority_def)

lemma supermajority_exact: "tot < 500000000000 \<Longrightarrow> supermajority tot w \<longleftrightarrow> 2 * tot \<le> 3 * w"
  by (auto simp: supermajority_def)

lemma supermajority_unique:
  "supermajority tot w \<Longrightarrow> supermajority tot w' \<Longrightarrow> w + w' \<le> tot \<Longrightarrow> tot = 0"
  by (simp add: supermajority_def)

lemma supermajority_pos: "supermajority tot w \<Longrightarrow> tot \<noteq> 0 \<Longrightarrow> w \<noteq> 0"
  by (auto simp: supermajority_def)

lemma max_tally:
  assumes "bb_wf b"
  obtains m where "max_by_key (\<lambda>t. stake_weight (bt_stake_weights t)) (ballot_tallies b) = Some m"
    and "m \<in> set (ballot_tallies b)" and "\<forall>t \<in> set (live_tallies b). tally_weight t \<le> tally_weight m"
    and "tally_weight m \<noteq> 0 \<Longrightarrow> m \<in> set (live_tallies b)"
proof -
  have tab: "length (ballot_tallies b) = 256" "tallies.packed (ballot_tallies b)"
    using assms by (simp_all add: bb_wf_def bb_tables_ok_def MAX_OPERATORS_def)
  then have "ballot_tallies b \<noteq> []" by auto
  then obtain m where m: "max_by_key (\<lambda>t. stake_weight (bt_stake_weights t)) (ballot_tallies b) = Some m"
    by (metis max_by_key_None not_None_eq)
  note mm = max_by_key_Some [OF m]
  have "m \<in> set (live_tallies b)" if "tally_weight m \<noteq> 0"
    using tallies.packed_set [OF tab(2), of m] mm that
    by (auto simp: live_tallies_live BallotTally_default_def)
  moreover have "\<forall>t \<in> set (live_tallies b). tally_weight t \<le> tally_weight m"
    using mm by (auto simp: live_tallies_def word_le_nat_alt)
  ultimately show thesis using m mm that by blast
qed

lemma tally_votes_decides:
  assumes P: "precise_number P raw" and wf: "bb_wf b" and tot: "tot \<noteq> 0"
    and nw: "\<not> is_consensus_reached b"
    and m: "max_by_key (\<lambda>t. stake_weight (bt_stake_weights t)) (ballot_tallies b) = Some m"
  shows "tally_votes P b tot slot =
    Ok (if supermajority (unat tot) (tally_weight m)
        then b\<lparr>slot_consensus_reached := slot, winning_ballot := bt_ballot m\<rparr> else b)"
proof -
  obtain pb where pb: "pn_new P (stake_weight (bt_stake_weights m)) = Some pb"
    using precise_number.pn_new_law [OF P] by blast
  obtain pt where pt: "pn_new P tot = Some pt" using precise_number.pn_new_law [OF P] by blast
  obtain pct where pct: "pn_checked_div P pb pt = Some pct"
      "raw pct = tally_weight m * pn_ONE div unat tot"
    using precise_number.whole_ratio [OF P pb pt tot] by blast
  obtain c where c: "precise_consensus P = Ok c" "raw c = 666666666666"
    using precise_number.precise_consensus_raw [OF P] by blast
  have "0 < unat tot" using tot by (simp add: unat_gt_0)
  then have "pn_greater_than_or_equal P pct c \<longleftrightarrow> supermajority (unat tot) (tally_weight m)"
    by (simp add: precise_number.pn_ge_law [OF P] pct c supermajority_def pn_ONE_def
        less_eq_div_iff_mult_less_eq)
  then show ?thesis
    using nw tot by (simp add: tally_votes_def m pb pt pct c set_winning_ballot_def
        is_consensus_reached_def)
qed

lemma tally_votes_decided:
  assumes wf: "bb_wf b" and "is_consensus_reached b" and ok: "tally_votes P b tot slot = Ok b'"
  shows "b' = b"
proof -
  have "ballot_is_valid (winning_ballot b)"
    using assms(1,2) by (auto simp: bb_wf_def bb_winner_ok_def is_consensus_reached_def)
  with ok show ?thesis by (auto simp: tally_votes_def result_simps Let_def split: if_splits)
qed

text \<open>A tally either changes nothing or makes a ballot of maximal stake the winner.\<close>

lemma tally_votes_OkD:
  assumes wf: "bb_wf b" and ok: "tally_votes P b tot slot = Ok b'"
  shows "b' = b \<or> (\<not> is_consensus_reached b \<and>
    (\<exists>m \<in> set (ballot_tallies b). b' = b\<lparr>slot_consensus_reached := slot, winning_ballot := bt_ballot m\<rparr> \<and>
       max_by_key (\<lambda>t. stake_weight (bt_stake_weights t)) (ballot_tallies b) = Some m))"
  using ok max_by_key_Some
  by (fastforce simp: tally_votes_def result_simps Let_def set_winning_ballot_def
      is_consensus_reached_def split: if_splits)

lemma tally_votes_wf:
  assumes P: "precise_number P raw" and wf: "bb_wf b" and ok: "tally_votes P b tot slot = Ok b'"
  shows "bb_wf b'"
proof (cases "is_consensus_reached b")
  case True
  with tally_votes_decided [OF wf _ ok] wf show ?thesis by simp
next
  case False
  obtain m where m: "max_by_key (\<lambda>t. stake_weight (bt_stake_weights t)) (ballot_tallies b) = Some m"
    and live: "tally_weight m \<noteq> 0 \<Longrightarrow> m \<in> set (live_tallies b)"
    using max_tally [OF wf] by blast
  have "tot \<noteq> 0"
    using ok False by (auto simp: tally_votes_def m result_simps Let_def is_consensus_reached_def)
  note dec = tally_votes_decides [OF P wf this False m, of slot]
  show ?thesis
  proof (cases "supermajority (unat tot) (tally_weight m)")
    case True
    have "m \<in> set (live_tallies b)"
      using supermajority_pos [OF True] \<open>tot \<noteq> 0\<close> live by (simp add: unat_eq_0)
    moreover from this have "Ballot_eq (bt_ballot m) (bt_ballot m)"
      using live_tallies_valid by (auto simp: Ballot_eq_iff BallotTally_is_valid_def)
    ultimately have "has_ballot b (bt_ballot m)" "ballot_is_valid (bt_ballot m)"
      by (auto simp: has_ballot_iff Ballot_eq_iff)
    with True dec ok wf show ?thesis
      by (auto simp: bb_wf_def bb_winner_ok_def bb_tables_ok_def bb_votes_ok_def bb_tallies_ok_def
          has_ballot_def cast_votes_def live_tallies_def)
  next
    case False
    with dec ok wf show ?thesis by simp
  qed
qed

lemma set_tie_breaker_ballot_OkD:
  assumes "set_tie_breaker_ballot b s e stall = Ok b'"
  shows "b' = b\<lparr>winning_ballot := Ballot_new s\<rparr>" and "\<not> is_consensus_reached b" and "s \<le> 2"
    and "has_ballot b (Ballot_new s)" and "unat (bb_epoch b) + unat stall \<le> unat e"
  using assms
  by (auto simp: set_tie_breaker_ballot_def result_simps checked_simps Let_def set_winning_ballot_def
      word_le_nat_alt word_less_nat_alt not_less)

lemma set_tie_breaker_ballot_wf:
  assumes wf: "bb_wf b" and ok: "set_tie_breaker_ballot b s e stall = Ok b'"
  shows "bb_wf b'"
  using wf set_tie_breaker_ballot_OkD [OF ok]
  by (auto simp: bb_wf_def bb_winner_ok_def bb_tables_ok_def bb_votes_ok_def bb_tallies_ok_def
          has_ballot_def cast_votes_def live_tallies_def is_consensus_reached_def)

lemma BallotBox_initialize_wf: "bb_wf (BallotBox_initialize b ncn epoch bump slot)"
proof -
  let ?b = "BallotBox_initialize b ncn epoch bump slot"
  have "cast_votes ?b = []" "live_tallies ?b = []"
    using votes.live_replicate tallies.live_replicate
    by (simp_all add: cast_votes_live live_tallies_live BallotBox_initialize_def)
  then show ?thesis
    unfolding bb_wf_def bb_tables_ok_def bb_votes_ok_def bb_tallies_ok_def bb_winner_ok_def
    by (simp add: BallotBox_initialize_def Ballot_default_def)
qed

section \<open>The ballot box as a state machine\<close>

text \<open>
  The three ways the program changes a ballot box, with arbitrary arguments, and the boxes
  they reach from a fresh one.
\<close>

inductive bb_step :: "'p precise_ops \<Rightarrow> ballot_box \<Rightarrow> ballot_box \<Rightarrow> bool" for P where
  bb_cast: "cast_vote b op (Ballot_new s) w slot valid = Ok b' \<Longrightarrow> bb_step P b b'"
| bb_tally: "tally_votes P b tot slot = Ok b' \<Longrightarrow> bb_step P b b'"
| bb_tie: "set_tie_breaker_ballot b s e stall = Ok b' \<Longrightarrow> bb_step P b b'"

inductive_cases bb_stepE: "bb_step P b b'"

inductive bb_reach :: "'p precise_ops \<Rightarrow> ballot_box \<Rightarrow> ballot_box \<Rightarrow> bool" for P where
  bb_refl: "bb_reach P b b"
| bb_next: "bb_reach P b b' \<Longrightarrow> bb_step P b' b'' \<Longrightarrow> bb_reach P b b''"

lemma bb_step_wf:
  assumes P: "precise_number P raw" and wf: "bb_wf b" and st: "bb_step P b b'"
  shows "bb_wf b'"
  using st
proof (rule bb_stepE)
  fix op s w slot valid
  assume "cast_vote b op (Ballot_new s) w slot valid = Ok b'"
  from cast_vote_facts [OF wf this] show ?thesis by blast
qed (auto intro: tally_votes_wf [OF P wf] set_tie_breaker_ballot_wf [OF wf])

lemma bb_reach_wf:
  "bb_reach P b b' \<Longrightarrow> precise_number P raw \<Longrightarrow> bb_wf b \<Longrightarrow> bb_wf b'"
  by (induction rule: bb_reach.induct) (auto intro: bb_step_wf)

text \<open>A decided ballot box keeps its winner and its consensus slot, and only grows its log.\<close>

lemma bb_step_stable:
  assumes wf: "bb_wf b" and st: "bb_step P b b'"
  shows "is_consensus_reached b \<Longrightarrow>
      winning_ballot b' = winning_ballot b \<and> slot_consensus_reached b' = slot_consensus_reached b"
    and "\<exists>ext. ballot_log b' = ballot_log b @ ext"
    and "bb_epoch b' = bb_epoch b \<and> bb_ncn b' = bb_ncn b"
proof -
  have "(is_consensus_reached b \<longrightarrow> winning_ballot b' = winning_ballot b \<and>
        slot_consensus_reached b' = slot_consensus_reached b) \<and>
      (\<exists>ext. ballot_log b' = ballot_log b @ ext) \<and> bb_epoch b' = bb_epoch b \<and> bb_ncn b' = bb_ncn b"
    using st
  proof (rule bb_stepE)
    fix op s w slot valid
    assume vote: "cast_vote b op (Ballot_new s) w slot valid = Ok b'"
    have "bb_tables_ok b" using wf by (simp add: bb_wf_def)
    from cast_vote_OkD [OF this vote] cast_vote_log [OF wf vote] show ?thesis by auto
  next
    fix tot slot
    assume "tally_votes P b tot slot = Ok b'"
    from tally_votes_OkD [OF wf this] show ?thesis
      by (auto simp: ballot_log_def cast_votes_def)
  next
    fix s e stall
    assume "set_tie_breaker_ballot b s e stall = Ok b'"
    from set_tie_breaker_ballot_OkD [OF this] show ?thesis
      by (auto simp: ballot_log_def cast_votes_def)
  qed
  then show "is_consensus_reached b \<Longrightarrow>
      winning_ballot b' = winning_ballot b \<and> slot_consensus_reached b' = slot_consensus_reached b"
    and "\<exists>ext. ballot_log b' = ballot_log b @ ext"
    and "bb_epoch b' = bb_epoch b \<and> bb_ncn b' = bb_ncn b" by blast+
qed

lemma bb_reach_stable:
  "bb_reach P b b' \<Longrightarrow> precise_number P raw \<Longrightarrow> bb_wf b \<Longrightarrow> is_consensus_reached b \<Longrightarrow>
     winning_ballot b' = winning_ballot b \<and> slot_consensus_reached b' = slot_consensus_reached b"
proof (induction rule: bb_reach.induct)
  case (bb_next b b' b'')
  then have ih: "winning_ballot b' = winning_ballot b"
    "slot_consensus_reached b' = slot_consensus_reached b" by simp_all
  then have "is_consensus_reached b'" using bb_next.prems by (simp add: is_consensus_reached_def)
  with bb_step_stable(1) [OF bb_reach_wf [OF bb_next(1) bb_next.prems(1,2)] bb_next(2)] ih
  show ?case by simp
qed simp

lemma winning_tally_found:
  assumes wf: "bb_wf b" and win: "ballot_is_valid (winning_ballot b)"
  obtains i where "i < length (live_tallies b)"
    and "get_winning_ballot_tally b = Ok (live_tallies b ! i)"
    and "bt_index (live_tallies b ! i) = word_of_nat i"
    and "weather_status (bt_ballot (live_tallies b ! i)) = weather_status (winning_ballot b)"
    and "tally_weight (live_tallies b ! i) = sum_where (votes_for i) vote_weight (cast_votes b)"
    and "i < 256"
proof -
  let ?p = "\<lambda>t. Ballot_eq (bt_ballot t) (winning_ballot b)"
  have hb: "has_ballot b (winning_ballot b)" using assms by (simp add: bb_wf_def bb_winner_ok_def)
  then have "\<exists>t \<in> set (ballot_tallies b). ?p t" by (simp add: has_ballot_def list_ex_iff)
  then obtain t where t: "find ?p (ballot_tallies b) = Some t"
    by (metis find_None_iff not_None_eq)
  then have "t \<in> set (ballot_tallies b)" "?p t"
    by (auto simp: find_Some_iff in_set_conv_nth)
  then have "t \<in> set (live_tallies b)"
    by (auto simp: live_tallies_def BallotTally_is_valid_def Ballot_eq_iff)
  then obtain i where i: "i < length (live_tallies b)" "t = live_tallies b ! i"
    by (auto simp: in_set_conv_nth)
  moreover have "tally_ok (cast_votes b) i t"
    using wf i by (simp add: bb_wf_def bb_tallies_ok_def)
  moreover have "i < 256" using live_tallies_le_3 [OF wf] i(1) by simp
  ultimately show thesis
    using that [of i] win t \<open>?p t\<close>
    by (simp add: get_winning_ballot_tally_def tally_ok_def Ballot_eq_iff)
qed

section \<open>The election a ballot box implements\<close>

text \<open>
  The abstract contract: a log of votes and a winner that is decided at most once.  Its events
  carry the arguments of the call they stand for, so that a decision is measured against the
  total stake that was passed to that tally, and a tie breaker against the epochs passed to it.
\<close>

datatype ballot_call =
    VoteCall pubkey u8 stake_weights u64 u64
  | TallyCall u128 u64
  | TieCall u8 u64 u64

record election =
  el_epoch :: nat
  el_log :: "(pubkey \<times> u8 \<times> nat) list"
  el_winner :: "u8 option"
  el_slot :: "nat option"

definition consensus_slot :: "u64 \<Rightarrow> nat option" where
  "consensus_slot slot = (if slot = DEFAULT_CONSENSUS_REACHED_SLOT then None else Some (unat slot))"

text \<open>
  Votes are open until a winner is there; after a consensus for a number of slots, after a tie
  breaker not at all.
\<close>

definition el_open :: "election \<Rightarrow> u64 \<Rightarrow> u64 \<Rightarrow> bool" where
  "el_open X slot valid \<longleftrightarrow>
     el_winner X = None \<or> (\<exists>t. el_slot X = Some t \<and> unat slot \<le> t + unat valid)"

inductive election_event :: "ballot_call \<Rightarrow> election \<Rightarrow> election \<Rightarrow> bool" where
  el_vote: "el_open X slot valid \<Longrightarrow> op \<notin> fst ` set (el_log X) \<Longrightarrow> s \<le> 2 \<Longrightarrow>
    election_event (VoteCall op s w slot valid) X (X\<lparr>el_log := el_log X @ [(op, s, weight_of w)]\<rparr>)"
| el_decide: "el_winner X = None \<Longrightarrow> tot \<noteq> 0 \<Longrightarrow> supermajority (unat tot) (log_stake s (el_log X)) \<Longrightarrow>
    \<forall>s'. log_stake s' (el_log X) \<le> log_stake s (el_log X) \<Longrightarrow>
    election_event (TallyCall tot slot) X (X\<lparr>el_winner := Some s, el_slot := consensus_slot slot\<rparr>)"
| el_short: "el_winner X = None \<Longrightarrow> tot \<noteq> 0 \<Longrightarrow> \<forall>s. \<not> supermajority (unat tot) (log_stake s (el_log X)) \<Longrightarrow>
    election_event (TallyCall tot slot) X X"
| el_decided: "el_winner X \<noteq> None \<Longrightarrow> election_event (TallyCall tot slot) X X"
| el_tie: "el_winner X = None \<Longrightarrow> s \<in> (fst \<circ> snd) ` set (el_log X) \<Longrightarrow> el_epoch X + unat stall \<le> unat e \<Longrightarrow>
    election_event (TieCall s e stall) X (X\<lparr>el_winner := Some s\<rparr>)"

primrec election_run :: "ballot_call list \<Rightarrow> election \<Rightarrow> election \<Rightarrow> bool" where
  "election_run [] X Y \<longleftrightarrow> Y = X"
| "election_run (c # cs) X Y \<longleftrightarrow> (\<exists>Z. election_event c X Z \<and> election_run cs Z Y)"

text \<open>The same calls on a ballot box; a call that is refused ends the sequence.\<close>

primrec apply_call :: "'p precise_ops \<Rightarrow> ballot_call \<Rightarrow> ballot_box \<Rightarrow> (ballot_box, ncn_error) result" where
  "apply_call P (VoteCall op s w slot valid) b = cast_vote b op (Ballot_new s) w slot valid"
| "apply_call P (TallyCall tot slot) b = tally_votes P b tot slot"
| "apply_call P (TieCall s e stall) b = set_tie_breaker_ballot b s e stall"

primrec apply_calls :: "'p precise_ops \<Rightarrow> ballot_call list \<Rightarrow> ballot_box \<Rightarrow> (ballot_box, ncn_error) result" where
  "apply_calls P [] b = Ok b"
| "apply_calls P (c # cs) b = and_then (apply_call P c b) (apply_calls P cs)"

definition abs_box :: "ballot_box \<Rightarrow> election" where
  "abs_box b = \<lparr>el_epoch = unat (bb_epoch b), el_log = ballot_log b,
     el_winner = (if ballot_is_valid (winning_ballot b)
                  then Some (weather_status (winning_ballot b)) else None),
     el_slot = consensus_slot (slot_consensus_reached b)\<rparr>"

lemma log_stake_le_max:
  assumes wf: "bb_wf b" and mx: "\<forall>t \<in> set (live_tallies b). tally_weight t \<le> w"
  shows "log_stake s (ballot_log b) \<le> w"
proof (cases "s \<in> (weather_status \<circ> bt_ballot) ` set (live_tallies b)")
  case True
  then obtain i where "i < length (live_tallies b)" "s = weather_status (bt_ballot (live_tallies b ! i))"
    by (auto simp: in_set_conv_nth)
  with tally_is_log(1) [OF wf this(1)] mx show ?thesis by (metis nth_mem)
qed (simp add: log_stake_unvoted [OF wf])

lemma live_tally_stake:
  assumes "bb_wf b" and "t \<in> set (live_tallies b)"
  shows "tally_weight t = log_stake (weather_status (bt_ballot t)) (ballot_log b)"
  using assms tally_is_log(1) [OF assms(1)] by (metis in_set_conv_nth)

text \<open>What the tally of an undecided box does, in terms of the log.\<close>

lemma tally_votes_log:
  assumes P: "precise_number P raw" and wf: "bb_wf b" and tot: "tot \<noteq> 0"
    and nw: "\<not> is_consensus_reached b"
  shows "(\<exists>s. supermajority (unat tot) (log_stake s (ballot_log b)) \<and>
            (\<forall>s'. log_stake s' (ballot_log b) \<le> log_stake s (ballot_log b)) \<and> s \<le> 2 \<and>
            tally_votes P b tot slot =
              Ok (b\<lparr>slot_consensus_reached := slot, winning_ballot := Ballot_new s\<rparr>)) \<or>
         (\<forall>s. \<not> supermajority (unat tot) (log_stake s (ballot_log b))) \<and>
            tally_votes P b tot slot = Ok b"
proof -
  from max_tally [OF wf] obtain m
    where m: "max_by_key (\<lambda>t. stake_weight (bt_stake_weights t)) (ballot_tallies b) = Some m"
    and mx: "\<forall>t \<in> set (live_tallies b). tally_weight t \<le> tally_weight m"
    and live: "tally_weight m \<noteq> 0 \<Longrightarrow> m \<in> set (live_tallies b)" by metis
  note dec = tally_votes_decides [OF P wf tot nw m, of slot]
  note le = log_stake_le_max [OF wf mx]
  show ?thesis
  proof (cases "supermajority (unat tot) (tally_weight m)")
    case True
    then have ml: "m \<in> set (live_tallies b)"
      using supermajority_pos [OF True] tot live by (simp add: unat_eq_0)
    let ?s = "weather_status (bt_ballot m)"
    have "ballot_is_valid (bt_ballot m)" using live_tallies_valid [OF ml] by (simp add: BallotTally_is_valid_def)
    moreover have s2: "?s \<le> 2"
      using wf ml by (auto simp: bb_wf_def bb_tallies_ok_def tally_ok_def in_set_conv_nth)
    ultimately have "bt_ballot m = Ballot_new ?s"
      by (cases "bt_ballot m") (simp add: Ballot_new_def)
    with True dec le live_tally_stake [OF wf ml] s2 show ?thesis by auto
  next
    case False
    have "\<not> supermajority (unat tot) (log_stake s (ballot_log b))" for s
      using False le [of s] unfolding supermajority_def by (meson le_trans mult_le_mono1)
    with False dec show ?thesis by simp
  qed
qed

lemma cast_vote_fresh:
  assumes wf: "bb_wf b" and ok: "cast_vote b op (Ballot_new s) w slot valid = Ok b'"
  shows "op \<notin> fst ` set (ballot_log b)" and "s \<le> 2"
proof -
  have "bb_tables_ok b" using wf by (simp add: bb_wf_def)
  from cast_vote_OkD [OF this ok]
  have "op \<notin> ov_operator ` set (cast_votes b) \<and> ballot_is_valid (Ballot_new s)" by blast
  then show "op \<notin> fst ` set (ballot_log b)" and "s \<le> 2" by (auto simp: ballot_log_def)
qed

lemma has_ballot_log:
  assumes wf: "bb_wf b" and hb: "has_ballot b (Ballot_new s)"
  shows "s \<in> (fst \<circ> snd) ` set (ballot_log b)"
proof -
  from hb obtain i where i: "i < length (live_tallies b)"
    and s: "s = weather_status (bt_ballot (live_tallies b ! i))"
    by (auto simp: has_ballot_iff Ballot_eq_iff in_set_conv_nth)
  have "0 < log_count s (ballot_log b)"
    using tally_is_log(2) [OF wf i] wf i s
    by (auto simp: bb_wf_def bb_tallies_ok_def tally_ok_def)
  then have "filter (\<lambda>x. fst (snd x) = s) (ballot_log b) \<noteq> []"
    by (auto simp: log_count_def count_where_def)
  then show ?thesis by (force simp: filter_empty_conv)
qed

lemma abs_box_winner:
  assumes "s \<le> 2"
  shows "abs_box (b\<lparr>slot_consensus_reached := slot, winning_ballot := Ballot_new s\<rparr>)
      = (abs_box b)\<lparr>el_winner := Some s, el_slot := consensus_slot slot\<rparr>"
    and "abs_box (b\<lparr>winning_ballot := Ballot_new s\<rparr>) = (abs_box b)\<lparr>el_winner := Some s\<rparr>"
  using assms by (simp_all add: abs_box_def ballot_log_def cast_votes_def)

lemma abs_box_undecided: "bb_wf b \<Longrightarrow> el_winner (abs_box b) = None \<longleftrightarrow> \<not> is_consensus_reached b"
  by (auto simp: abs_box_def bb_wf_def bb_winner_ok_def is_consensus_reached_def)

lemma abs_box_open:
  assumes "bb_wf b" and "is_voting_valid b slot valid = Ok True"
  shows "el_open (abs_box b) slot valid"
  using assms abs_box_undecided [OF assms(1)]
  by (auto simp: el_open_def is_voting_valid_def tie_breaker_set_def is_consensus_reached_def abs_box_def
      consensus_slot_def result_simps checked_simps word_le_nat_alt split: if_splits)

text \<open>Every call a ballot box accepts is the event of the election with the same arguments.\<close>

lemma apply_call_wf:
  assumes P: "precise_number P raw" and wf: "bb_wf b" and ok: "apply_call P c b = Ok b'"
  shows "bb_wf b'"
  using ok by (cases c) (auto intro: bb_step_wf [OF P wf] bb_step.intros)

lemma tally_call_event:
  assumes P: "precise_number P raw" and wf: "bb_wf b" and ok: "tally_votes P b tot slot = Ok b'"
  shows "election_event (TallyCall tot slot) (abs_box b) (abs_box b')"
proof (cases "is_consensus_reached b")
  case True
  with tally_votes_decided [OF wf True ok] abs_box_undecided [OF wf] show ?thesis by (simp add: el_decided)
next
  case False
  have "ballot_tallies b \<noteq> []" using wf by (auto simp: bb_wf_def bb_tables_ok_def MAX_OPERATORS_def)
  then have tot: "tot \<noteq> 0"
    using ok False by (auto simp: tally_votes_def result_simps Let_def is_consensus_reached_def)
  have none: "el_winner (abs_box b) = None" using False abs_box_undecided [OF wf] by simp
  have lg: "el_log (abs_box b) = ballot_log b" by (simp add: abs_box_def)
  from tally_votes_log [OF P wf tot False, of slot] show ?thesis
  proof (elim disjE exE conjE)
    fix s
    assume sup: "supermajority (unat tot) (log_stake s (ballot_log b))"
      and mx: "\<forall>s'. log_stake s' (ballot_log b) \<le> log_stake s (ballot_log b)" and s: "s \<le> 2"
      and res: "tally_votes P b tot slot = Ok (b\<lparr>slot_consensus_reached := slot, winning_ballot := Ballot_new s\<rparr>)"
    have "b' = b\<lparr>slot_consensus_reached := slot, winning_ballot := Ballot_new s\<rparr>" using res ok by simp
    with el_decide [OF none tot, of s slot] sup mx lg abs_box_winner(1) [OF s] show ?thesis by simp
  next
    assume "\<forall>s. \<not> supermajority (unat tot) (log_stake s (ballot_log b))" and "tally_votes P b tot slot = Ok b"
    with el_short [OF none tot] ok lg show ?thesis by simp
  qed
qed

lemma apply_call_event:
  assumes P: "precise_number P raw" and wf: "bb_wf b" and ok: "apply_call P c b = Ok b'"
  shows "election_event c (abs_box b) (abs_box b')"
proof (cases c)
  case (VoteCall op s w slot valid)
  then have vote: "cast_vote b op (Ballot_new s) w slot valid = Ok b'" using ok by simp
  have tab: "bb_tables_ok b" using wf by (simp add: bb_wf_def)
  have "is_voting_valid b slot valid = Ok True" by (rule cast_vote_OkD [OF tab vote])
  note open_now = abs_box_open [OF wf this]
  have "abs_box b' = (abs_box b)\<lparr>el_log := el_log (abs_box b) @ [(op, s, weight_of w)]\<rparr>"
    using cast_vote_log [OF wf vote] cast_vote_frame [OF tab vote] by (simp add: abs_box_def)
  with el_vote [OF open_now, of op s w] cast_vote_fresh [OF wf vote] VoteCall show ?thesis
    by (simp add: abs_box_def)
next
  case (TallyCall tot slot)
  with ok tally_call_event [OF P wf] show ?thesis by simp
next
  case (TieCall s e stall)
  then have "set_tie_breaker_ballot b s e stall = Ok b'" using ok by simp
  note tie = set_tie_breaker_ballot_OkD [OF this]
  have "el_winner (abs_box b) = None" using tie(2) abs_box_undecided [OF wf] by simp
  moreover have "s \<in> (fst \<circ> snd) ` set (el_log (abs_box b))"
    using has_ballot_log [OF wf tie(4)] by (simp add: abs_box_def)
  moreover have "el_epoch (abs_box b) + unat stall \<le> unat e" using tie(5) by (simp add: abs_box_def)
  ultimately show ?thesis
    using el_tie [of "abs_box b" s stall e] TieCall tie(1) abs_box_winner(2) [OF tie(3)] by simp
qed

lemma apply_calls_run:
  assumes P: "precise_number P raw" and "bb_wf b" and "apply_calls P cs b = Ok b'"
  shows "election_run cs (abs_box b) (abs_box b')"
  using assms(2,3)
proof (induction cs arbitrary: b)
  case (Cons c cs)
  then obtain b1 where b1: "apply_call P c b = Ok b1" "apply_calls P cs b1 = Ok b'" by (auto simp: result_simps)
  with Cons.IH [OF apply_call_wf [OF P Cons.prems(1) b1(1)]] apply_call_event [OF P Cons.prems(1) b1(1)] show ?case
    by auto
qed simp

end
