(* ===== verification/Ncn_Reward_Router.thy ===== *)
theory Ncn_Reward_Router
  imports Route_Table Ballot_Box_Correct Fees
begin

text \<open>
  \<open>core/src/ncn_reward_router.rs\<close>: incoming rewards are split into protocol, NCN and
  operator-vault shares, and the operator-vault share is routed to the operators that voted
  for the winning ballot, in proportion to their stake, possibly over several calls.  A loop
  that stops early because of its iteration limit returns the flag \<open>False\<close> with the state it
  saved.
\<close>

section \<open>Routes\<close>

record ncn_reward_router_rewards =
  nrr_rewards :: u64

record operator_vault_reward_route =
  ovrr_operator :: pubkey
  ovrr_rewards :: ncn_reward_router_rewards

definition OperatorVaultRewardRoute_default :: operator_vault_reward_route where
  "OperatorVaultRewardRoute_default =
     \<lparr>ovrr_operator = Pubkey_default, ovrr_rewards = \<lparr>nrr_rewards = 0\<rparr>\<rparr>"

definition OperatorVaultRewardRoute_set_rewards ::
  "operator_vault_reward_route \<Rightarrow> u64 \<Rightarrow> (operator_vault_reward_route, ncn_error) result" where
  "OperatorVaultRewardRoute_set_rewards self n =
     Ok (self\<lparr>ovrr_rewards := (ovrr_rewards self)\<lparr>nrr_rewards := n\<rparr>\<rparr>)"

definition OperatorVaultRewardRoute_new ::
  "pubkey \<Rightarrow> u64 \<Rightarrow> (operator_vault_reward_route, ncn_error) result" where
  "OperatorVaultRewardRoute_new operator n =
     OperatorVaultRewardRoute_set_rewards
       \<lparr>ovrr_operator = operator, ovrr_rewards = \<lparr>nrr_rewards = 0\<rparr>\<rparr> n"

definition OperatorVaultRewardRoute_rewards :: "operator_vault_reward_route \<Rightarrow> u64" where
  "OperatorVaultRewardRoute_rewards self = nrr_rewards (ovrr_rewards self)"

definition OperatorVaultRewardRoute_is_empty :: "operator_vault_reward_route \<Rightarrow> bool" where
  "OperatorVaultRewardRoute_is_empty self \<longleftrightarrow> ovrr_operator self = Pubkey_default"

definition OperatorVaultRewardRoute_has_rewards ::
  "operator_vault_reward_route \<Rightarrow> (bool, ncn_error) result" where
  "OperatorVaultRewardRoute_has_rewards self = Ok (0 < OperatorVaultRewardRoute_rewards self)"

definition OperatorVaultRewardRoute_increment_rewards ::
  "operator_vault_reward_route \<Rightarrow> u64 \<Rightarrow> (operator_vault_reward_route, ncn_error) result" where
  "OperatorVaultRewardRoute_increment_rewards self n =
     and_then (ok_or (checked_add (OperatorVaultRewardRoute_rewards self) n) ArithmeticOverflow)
       (OperatorVaultRewardRoute_set_rewards self)"

definition OperatorVaultRewardRoute_decrement_rewards ::
  "operator_vault_reward_route \<Rightarrow> u64 \<Rightarrow> (operator_vault_reward_route, ncn_error) result" where
  "OperatorVaultRewardRoute_decrement_rewards self n =
     and_then (ok_or (checked_sub (OperatorVaultRewardRoute_rewards self) n) ArithmeticOverflow)
       (OperatorVaultRewardRoute_set_rewards self)"

section \<open>The router\<close>

record ncn_reward_router =
  nr_ncn :: pubkey
  nr_epoch :: u64
  nr_bump :: u8
  nr_slot_created :: u64
  nr_total_rewards :: u64
  nr_reward_pool :: u64
  nr_rewards_processed :: u64
  nr_reserved :: "u8 list"
  last_vote_index :: u16
  nr_last_rewards_to_process :: u64
  protocol_rewards :: u64
  ncn_rewards :: u64
  operator_vault_rewards :: u64
  operator_vault_reward_routes :: "operator_vault_reward_route list"

definition NO_LAST_VOTE_INDEX :: u16 where "NO_LAST_VOTE_INDEX = u16_MAX"
definition NO_LAST_REWARDS_TO_PROCESS :: u64 where "NO_LAST_REWARDS_TO_PROCESS = u64_MAX"
definition MAX_ROUTE_BASE_ITERATIONS :: u16 where "MAX_ROUTE_BASE_ITERATIONS = 30"

definition NCNRewardRouter_new :: "pubkey \<Rightarrow> u64 \<Rightarrow> u8 \<Rightarrow> u64 \<Rightarrow> ncn_reward_router" where
  "NCNRewardRouter_new ncn ncn_epoch bump slot_created =
     \<lparr>nr_ncn = ncn, nr_epoch = ncn_epoch, nr_bump = bump, nr_slot_created = slot_created,
      nr_total_rewards = 0, nr_reward_pool = 0, nr_rewards_processed = 0,
      nr_reserved = replicate 128 0, last_vote_index = NO_LAST_VOTE_INDEX,
      nr_last_rewards_to_process = NO_LAST_REWARDS_TO_PROCESS, protocol_rewards = 0,
      ncn_rewards = 0, operator_vault_rewards = 0,
      operator_vault_reward_routes = replicate 256 OperatorVaultRewardRoute_default\<rparr>"

definition NCNRewardRouter_reset_routing_state :: "ncn_reward_router \<Rightarrow> ncn_reward_router" where
  "NCNRewardRouter_reset_routing_state self =
     self\<lparr>last_vote_index := NO_LAST_VOTE_INDEX,
          nr_last_rewards_to_process := NO_LAST_REWARDS_TO_PROCESS\<rparr>"

definition NCNRewardRouter_initialize ::
  "ncn_reward_router \<Rightarrow> pubkey \<Rightarrow> u64 \<Rightarrow> u8 \<Rightarrow> u64 \<Rightarrow> ncn_reward_router" where
  "NCNRewardRouter_initialize self ncn ncn_epoch bump current_slot =
     NCNRewardRouter_reset_routing_state
       (self\<lparr>nr_ncn := ncn, nr_epoch := ncn_epoch, nr_bump := bump, nr_slot_created := current_slot,
         nr_total_rewards := 0, nr_reward_pool := 0, nr_rewards_processed := 0,
         nr_reserved := replicate 128 0, protocol_rewards := 0, ncn_rewards := 0,
         operator_vault_rewards := 0,
         operator_vault_reward_routes := replicate 256 OperatorVaultRewardRoute_default\<rparr>)"

definition NCNRewardRouter_still_routing :: "ncn_reward_router \<Rightarrow> bool" where
  "NCNRewardRouter_still_routing self \<longleftrightarrow>
     last_vote_index self \<noteq> NO_LAST_VOTE_INDEX \<or>
     nr_last_rewards_to_process self \<noteq> NO_LAST_REWARDS_TO_PROCESS"

definition NCNRewardRouter_resume_routing_state :: "ncn_reward_router \<Rightarrow> nat \<times> u64" where
  "NCNRewardRouter_resume_routing_state self =
     (if \<not> NCNRewardRouter_still_routing self then (0, 0)
      else (unat (last_vote_index self), nr_last_rewards_to_process self))"

definition NCNRewardRouter_save_routing_state :: "ncn_reward_router \<Rightarrow> nat \<Rightarrow> u64 \<Rightarrow> ncn_reward_router" where
  "NCNRewardRouter_save_routing_state self vote_index rewards_to_process =
     self\<lparr>last_vote_index := word_of_nat vote_index,
          nr_last_rewards_to_process := rewards_to_process\<rparr>"

definition NCNRewardRouter_operator_vault_reward_route ::
  "ncn_reward_router \<Rightarrow> pubkey \<Rightarrow> operator_vault_reward_route" where
  "NCNRewardRouter_operator_vault_reward_route self operator =
     (case find (\<lambda>r. ovrr_operator r = operator) (operator_vault_reward_routes self) of
        Some r \<Rightarrow> r | None \<Rightarrow> OperatorVaultRewardRoute_default)"

definition NCNRewardRouter_total_rewards_in_transit :: "ncn_reward_router \<Rightarrow> (u64, ncn_error) result" where
  "NCNRewardRouter_total_rewards_in_transit self =
     ok_or (checked_add (nr_reward_pool self) (nr_rewards_processed self)) ArithmeticOverflow"

definition NCNRewardRouter_route_to_reward_pool ::
  "ncn_reward_router \<Rightarrow> u64 \<Rightarrow> (ncn_reward_router, ncn_error) result" where
  "NCNRewardRouter_route_to_reward_pool self rewards =
     (if rewards = 0 then Ok self
      else
        and_then (ok_or (checked_add (nr_total_rewards self) rewards) ArithmeticOverflow) (\<lambda>t.
        and_then (ok_or (checked_add (nr_reward_pool self) rewards) ArithmeticOverflow) (\<lambda>p.
        Ok (self\<lparr>nr_total_rewards := t, nr_reward_pool := p\<rparr>))))"

definition NCNRewardRouter_route_incoming_rewards ::
  "ncn_reward_router \<Rightarrow> u64 \<Rightarrow> u64 \<Rightarrow> (ncn_reward_router, ncn_error) result" where
  "NCNRewardRouter_route_incoming_rewards self rent_cost account_balance =
     and_then (NCNRewardRouter_total_rewards_in_transit self) (\<lambda>total_rewards.
     and_then (ok_or (checked_sub account_balance total_rewards) ArithmeticUnderflowError) (\<lambda>incoming.
     and_then (ok_or (checked_sub incoming rent_cost) ArithmeticUnderflowError) (\<lambda>rewards_to_route.
     NCNRewardRouter_route_to_reward_pool self rewards_to_route)))"

definition NCNRewardRouter_increment_rewards_processed ::
  "ncn_reward_router \<Rightarrow> u64 \<Rightarrow> (ncn_reward_router, ncn_error) result" where
  "NCNRewardRouter_increment_rewards_processed self rewards =
     (if rewards = 0 then Ok self
      else
        and_then (ok_or (checked_add (nr_rewards_processed self) rewards) ArithmeticOverflow) (\<lambda>n.
        Ok (self\<lparr>nr_rewards_processed := n\<rparr>)))"

definition NCNRewardRouter_decrement_rewards_processed ::
  "ncn_reward_router \<Rightarrow> u64 \<Rightarrow> (ncn_reward_router, ncn_error) result" where
  "NCNRewardRouter_decrement_rewards_processed self rewards =
     (if rewards = 0 then Ok self
      else
        and_then (ok_or (checked_sub (nr_rewards_processed self) rewards) ArithmeticUnderflowError) (\<lambda>n.
        Ok (self\<lparr>nr_rewards_processed := n\<rparr>)))"

definition NCNRewardRouter_route_from_reward_pool ::
  "ncn_reward_router \<Rightarrow> u64 \<Rightarrow> (ncn_reward_router, ncn_error) result" where
  "NCNRewardRouter_route_from_reward_pool self rewards =
     (if rewards = 0 then Ok self
      else
        and_then (ok_or (checked_sub (nr_reward_pool self) rewards) ArithmeticUnderflowError) (\<lambda>p.
        NCNRewardRouter_increment_rewards_processed (self\<lparr>nr_reward_pool := p\<rparr>) rewards))"

definition route_from_operator_vault_rewards ::
  "ncn_reward_router \<Rightarrow> u64 \<Rightarrow> (ncn_reward_router, ncn_error) result" where
  "route_from_operator_vault_rewards self rewards =
     (if rewards = 0 then Ok self
      else
        and_then (ok_or (checked_sub (operator_vault_rewards self) rewards) ArithmeticUnderflowError) (\<lambda>n.
        Ok (self\<lparr>operator_vault_rewards := n\<rparr>)))"

definition route_to_protocol :: "ncn_reward_router \<Rightarrow> u64 \<Rightarrow> (ncn_reward_router, ncn_error) result" where
  "route_to_protocol self rewards =
     (if rewards = 0 then Ok self
      else
        and_then (ok_or (checked_add (protocol_rewards self) rewards) ArithmeticOverflow) (\<lambda>n.
        Ok (self\<lparr>protocol_rewards := n\<rparr>)))"

definition route_to_ncn :: "ncn_reward_router \<Rightarrow> u64 \<Rightarrow> (ncn_reward_router, ncn_error) result" where
  "route_to_ncn self rewards =
     (if rewards = 0 then Ok self
      else
        and_then (ok_or (checked_add (ncn_rewards self) rewards) ArithmeticOverflow) (\<lambda>n.
        Ok (self\<lparr>ncn_rewards := n\<rparr>)))"

definition route_to_operator_vault :: "ncn_reward_router \<Rightarrow> u64 \<Rightarrow> (ncn_reward_router, ncn_error) result" where
  "route_to_operator_vault self rewards =
     (if rewards = 0 then Ok self
      else
        and_then (ok_or (checked_add (operator_vault_rewards self) rewards) ArithmeticOverflow) (\<lambda>n.
        Ok (self\<lparr>operator_vault_rewards := n\<rparr>)))"

section \<open>Calculations\<close>

definition BASIS_POINTS_DENOMINATOR :: u16 where "BASIS_POINTS_DENOMINATOR = 10000"

definition calculate_reward_split :: "'p precise_ops \<Rightarrow> u16 \<Rightarrow> u64 \<Rightarrow> (u64, ncn_error) result" where
  "calculate_reward_split P fee_basis_points rewards =
     (if fee_basis_points = 0 \<or> rewards = 0 then Ok 0
      else precise_share P rewards (ucast fee_basis_points) (ucast BASIS_POINTS_DENOMINATOR))"

definition calculate_operator_vault_route_reward ::
  "'p precise_ops \<Rightarrow> u128 \<Rightarrow> u128 \<Rightarrow> u64 \<Rightarrow> (u64, ncn_error) result" where
  "calculate_operator_vault_route_reward P operator_stake winning_stake rewards_to_process =
     (if operator_stake = 0 \<or> rewards_to_process = 0 then Ok 0
      else precise_share P rewards_to_process operator_stake winning_stake)"

section \<open>Routing\<close>

definition NCNRewardRouter_route_reward_pool ::
  "'p precise_ops \<Rightarrow> ncn_reward_router \<Rightarrow> fees \<Rightarrow> (ncn_reward_router, ncn_error) result" where
  "NCNRewardRouter_route_reward_pool P self fs =
     (let rewards_to_process = nr_reward_pool self in
      and_then (calculate_reward_split P (fee (protocol_fee_bps fs)) rewards_to_process) (\<lambda>protocol_fee.
      and_then (NCNRewardRouter_route_from_reward_pool self protocol_fee) (\<lambda>self.
      and_then (route_to_protocol self protocol_fee) (\<lambda>self.
      and_then (calculate_reward_split P (fee (ncn_fee_bps fs)) rewards_to_process) (\<lambda>ncn_fee.
      and_then (NCNRewardRouter_route_from_reward_pool self ncn_fee) (\<lambda>self.
      and_then (route_to_ncn self ncn_fee) (\<lambda>self.
      let rest = nr_reward_pool self in
      and_then (NCNRewardRouter_route_from_reward_pool self rest) (\<lambda>self.
      route_to_operator_vault self rest))))))))"

text \<open>
  One pass over the routes: the first entry that is the operator's or unused is incremented
  or written.
\<close>

definition route_to_operator_vault_reward_route ::
  "ncn_reward_router \<Rightarrow> pubkey \<Rightarrow> u64 \<Rightarrow> (ncn_reward_router, ncn_error) result" where
  "route_to_operator_vault_reward_route self operator rewards =
     (if rewards = 0 then Ok self
      else case position (\<lambda>r. ovrr_operator r = operator \<or> ovrr_operator r = Pubkey_default)
                  (operator_vault_reward_routes self) of
        Some i \<Rightarrow>
          (let r = operator_vault_reward_routes self ! i in
           and_then (if ovrr_operator r = operator
                     then OperatorVaultRewardRoute_increment_rewards r rewards
                     else OperatorVaultRewardRoute_new operator rewards) (\<lambda>r.
           Ok (self\<lparr>operator_vault_reward_routes := (operator_vault_reward_routes self)[i := r]\<rparr>)))
      | None \<Rightarrow> Err OperatorRewardListFull)"

text \<open>The loop of \<open>route_operator_vault_rewards\<close> over the votes from \<open>vote_index\<close> on.\<close>

fun route_votes_loop ::
  "'p precise_ops \<Rightarrow> ballot_tally \<Rightarrow> u64 \<Rightarrow> u16 \<Rightarrow> ncn_reward_router \<Rightarrow> u16 \<Rightarrow> nat \<Rightarrow>
   operator_vote list \<Rightarrow> (ncn_reward_router \<times> bool, ncn_error) result" where
  "route_votes_loop P win rewards max_iterations self iterations vote_index [] = Ok (self, True)"
| "route_votes_loop P win rewards max_iterations self iterations vote_index (vote # votes) =
     (if ov_ballot_index vote = bt_index win then
        and_then (ok_or (checked_add iterations 1) ArithmeticOverflow) (\<lambda>iterations.
        if max_iterations < iterations
        then Ok (NCNRewardRouter_save_routing_state self vote_index rewards, False)
        else
          and_then (calculate_operator_vault_route_reward P
                      (stake_weight (ov_stake_weights vote)) (stake_weight (bt_stake_weights win))
                      rewards) (\<lambda>reward.
          and_then (route_from_operator_vault_rewards self reward) (\<lambda>self.
          and_then (route_to_operator_vault_reward_route self (ov_operator vote) reward) (\<lambda>self.
          route_votes_loop P win rewards max_iterations self iterations (Suc vote_index) votes))))
      else route_votes_loop P win rewards max_iterations self iterations (Suc vote_index) votes)"

definition route_operator_vault_rewards ::
  "'p precise_ops \<Rightarrow> ncn_reward_router \<Rightarrow> ballot_box \<Rightarrow> u16 \<Rightarrow> (ncn_reward_router, ncn_error) result" where
  "route_operator_vault_rewards P self b max_iterations =
     and_then (get_winning_ballot_tally b) (\<lambda>win.
     let (starting_vote_index, starting_rewards) = NCNRewardRouter_resume_routing_state self;
         max_iterations = max max_iterations 1;
         rewards_to_process = (if 0 < starting_rewards then starting_rewards
                               else operator_vault_rewards self)
     in
     if rewards_to_process = 0 then Ok self
     else
       and_then (route_votes_loop P win rewards_to_process max_iterations self 0 starting_vote_index
                   (drop starting_vote_index (operator_votes b))) (\<lambda>(self, done).
       if \<not> done then Ok self
       else
         let leftover = operator_vault_rewards self in
         and_then (route_from_operator_vault_rewards self leftover) (\<lambda>self.
         and_then (route_to_ncn self leftover) (\<lambda>self.
         Ok (NCNRewardRouter_reset_routing_state self)))))"

section \<open>Distribution\<close>

definition distribute_ncn_fee_rewards :: "ncn_reward_router \<Rightarrow> (ncn_reward_router \<times> u64, ncn_error) result" where
  "distribute_ncn_fee_rewards self =
     (let rewards = ncn_rewards self in
      and_then (ok_or (checked_sub rewards rewards) ArithmeticUnderflowError) (\<lambda>n.
      and_then (NCNRewardRouter_decrement_rewards_processed (self\<lparr>ncn_rewards := n\<rparr>) rewards) (\<lambda>self.
      Ok (self, rewards))))"

definition distribute_protocol_fee_rewards :: "ncn_reward_router \<Rightarrow> (ncn_reward_router \<times> u64, ncn_error) result" where
  "distribute_protocol_fee_rewards self =
     (let rewards = protocol_rewards self in
      and_then (ok_or (checked_sub rewards rewards) ArithmeticUnderflowError) (\<lambda>n.
      and_then (NCNRewardRouter_decrement_rewards_processed (self\<lparr>protocol_rewards := n\<rparr>) rewards) (\<lambda>self.
      Ok (self, rewards))))"

definition has_operator_vault_reward_route :: "ncn_reward_router \<Rightarrow> pubkey \<Rightarrow> bool" where
  "has_operator_vault_reward_route self operator =
     list_ex (\<lambda>r. ovrr_operator r = operator) (operator_vault_reward_routes self)"

definition oprtator_vault_reward_route ::
  "ncn_reward_router \<Rightarrow> pubkey \<Rightarrow> (operator_vault_reward_route, ncn_error) result" where
  "oprtator_vault_reward_route self operator =
     ok_or (find (\<lambda>r. ovrr_operator r = operator) (operator_vault_reward_routes self))
       NcnRewardRouteNotFound"

definition distribute_operator_vault_reward_route ::
  "ncn_reward_router \<Rightarrow> pubkey \<Rightarrow> (ncn_reward_router \<times> u64, ncn_error) result" where
  "distribute_operator_vault_reward_route self operator =
     (case position (\<lambda>r. ovrr_operator r = operator) (operator_vault_reward_routes self) of
        Some i \<Rightarrow>
          (let route = operator_vault_reward_routes self ! i;
               rewards = OperatorVaultRewardRoute_rewards route in
           and_then (OperatorVaultRewardRoute_decrement_rewards route rewards) (\<lambda>route.
           and_then (NCNRewardRouter_decrement_rewards_processed
                       (self\<lparr>operator_vault_reward_routes := (operator_vault_reward_routes self)[i := route]\<rparr>)
                       rewards) (\<lambda>self.
           Ok (self, rewards))))
      | None \<Rightarrow> Err OperatorRewardNotFound)"

section \<open>The ledger\<close>

interpretation op_routes: route_table ovrr_operator OperatorVaultRewardRoute_default OperatorVaultRewardRoute_rewards
  by unfold_locales
    (simp_all add: OperatorVaultRewardRoute_default_def OperatorVaultRewardRoute_rewards_def)

text \<open>Everything processed and not yet distributed is in exactly one bucket.\<close>

definition nr_buckets :: "ncn_reward_router \<Rightarrow> nat" where
  "nr_buckets r = unat (protocol_rewards r) + unat (ncn_rewards r) + unat (operator_vault_rewards r) +
     op_routes.routed (operator_vault_reward_routes r)"

definition nr_wf :: "ncn_reward_router \<Rightarrow> bool" where
  "nr_wf r \<longleftrightarrow> length (operator_vault_reward_routes r) = 256 \<and>
     op_routes.keys_ok (operator_vault_reward_routes r) \<and>
     unat (nr_rewards_processed r) = nr_buckets r"

end
