(* ===== verification/Routing_Loop.thy ===== *)
theory Routing_Loop
  imports Ncn_Prelude Ncn_Errors
begin

text \<open>
  The two reward routers route in the same way: a loop over a table credits one entry after
  the other, counts the entries that need work, and saves its position when the count exceeds
  the limit of the call, so that a later call resumes there.  The locale \<open>resumable_routing\<close>
  states what such a routine consists of.  From it: an interrupted routing that is resumed does
  what an uninterrupted one does, and enough calls always finish it.
\<close>

section \<open>Results\<close>

lemma and_then_assoc: "and_then (and_then m f) g = and_then m (\<lambda>x. and_then (f x) g)"
  by (cases m) auto

definition map_ok :: "('a \<Rightarrow> 'b) \<Rightarrow> ('a, 'e) result \<Rightarrow> ('b, 'e) result" where
  "map_ok f m = and_then m (\<lambda>x. Ok (f x))"

lemma map_ok_and_then: "map_ok f (and_then m k) = and_then m (\<lambda>x. map_ok f (k x))"
  by (simp add: map_ok_def and_then_assoc)

lemma and_then_map_ok: "and_then (map_ok f m) k = and_then m (\<lambda>x. k (f x))"
  by (simp add: map_ok_def and_then_assoc)

lemma map_ok_Ok [simp]: "map_ok f (Ok x) = Ok (f x)" "map_ok f (Err e) = Err e" "map_ok f Panic = Panic"
  by (simp_all add: map_ok_def)

lemma iteration_step:
  fixes it m :: u16
  assumes "unat it < unat m"
  shows "checked_add it 1 = Some (it + 1)" and "unat (it + 1) = Suc (unat it)"
proof -
  have "unat m < 2 ^ 16" using unsigned_less [of m, where ?'a = nat] by simp
  with assms have lt: "unat it + 1 < 2 ^ 16" by simp
  then show "checked_add it 1 = Some (it + 1)" by (simp add: checked_add_def)
  show "unat (it + 1) = Suc (unat it)" using unat_add_small [of it 1] lt by simp
qed

section \<open>A loop with a limit\<close>

text \<open>
  \<open>loop R m s it i xs\<close> routes the amount \<open>R\<close> over the entries \<open>xs\<close>, the first of which has the
  index \<open>i\<close>, after \<open>it\<close> of at most \<open>m\<close> iterations; the flag says whether it got to the end.
\<close>

locale routing_loop =
  fixes loop :: "u64 \<Rightarrow> u16 \<Rightarrow> 's \<Rightarrow> u16 \<Rightarrow> nat \<Rightarrow> 'i list \<Rightarrow> ('s \<times> bool, ncn_error) result"
    and counts :: "'i \<Rightarrow> bool"
    and step :: "u64 \<Rightarrow> 's \<Rightarrow> 'i \<Rightarrow> ('s, ncn_error) result"
    and save :: "nat \<Rightarrow> u64 \<Rightarrow> 's \<Rightarrow> 's"
  assumes loop_Nil: "loop R m s it i [] = Ok (s, True)"
    and loop_Cons: "loop R m s it i (x # xs) =
      (if counts x
       then and_then (ok_or (checked_add it 1) ArithmeticOverflow) (\<lambda>it.
            if m < it then Ok (save i R s, False)
            else and_then (step R s x) (\<lambda>s. loop R m s it (Suc i) xs))
       else loop R m s it (Suc i) xs)"
begin

text \<open>The loop without a limit.\<close>

primrec credit :: "u64 \<Rightarrow> 's \<Rightarrow> 'i list \<Rightarrow> ('s, ncn_error) result" where
  "credit R s [] = Ok s"
| "credit R s (x # xs) =
     (if counts x then and_then (step R s x) (\<lambda>s. credit R s xs) else credit R s xs)"

lemma credit_append: "credit R s (xs @ ys) = and_then (credit R s xs) (\<lambda>s. credit R s ys)"
  by (induction xs arbitrary: s) (simp_all add: and_then_assoc)

lemma loop_unlimited:
  "unat it + count_where counts xs \<le> unat m \<Longrightarrow>
   loop R m s it i xs = and_then (credit R s xs) (\<lambda>s. Ok (s, True))"
proof (induction xs arbitrary: s it i)
  case (Cons x xs)
  show ?case
  proof (cases "counts x")
    case True
    then have lt: "unat it < unat m" using Cons.prems by simp
    note it = iteration_step [OF lt]
    have "\<not> m < it + 1" using lt it(2) by (simp add: word_less_nat_alt)
    moreover have "unat (it + 1) + count_where counts xs \<le> unat m"
      using Cons.prems True it(2) by simp
    ultimately show ?thesis using True it(1) Cons.IH by (simp add: and_then_assoc loop_Cons)
  next
    case False
    with Cons show ?thesis by (simp add: loop_Cons)
  qed
qed (simp add: loop_Nil)

text \<open>
  An interrupted loop has processed exactly \<open>m\<close> entries and saved the position of the next
  one.
\<close>

lemma loop_interrupted:
  "loop R m s it i xs = Ok (s', False) \<Longrightarrow> unat it \<le> unat m \<Longrightarrow>
   \<exists>k t. k < length xs \<and> credit R s (take k xs) = Ok t \<and> s' = save (i + k) R t \<and>
     counts (xs ! k) \<and> unat it + count_where counts (take k xs) = unat m"
proof (induction xs arbitrary: s it i)
  case (Cons x xs)
  show ?case
  proof (cases "counts x")
    case c: True
    show ?thesis
    proof (cases "unat it < unat m")
      case True
      note it = iteration_step [OF True]
      have nm: "\<not> m < it + 1" using True it(2) by (simp add: word_less_nat_alt)
      from Cons.prems(1) c it(1) nm obtain s1 where s1: "step R s x = Ok s1"
        and rest: "loop R m s1 (it + 1) (Suc i) xs = Ok (s', False)"
        by (auto simp: result_simps loop_Cons)
      have "unat (it + 1) \<le> unat m" using True it(2) by simp
      from Cons.IH [OF rest this] obtain k t where "k < length xs"
        "credit R s1 (take k xs) = Ok t" "s' = save (Suc i + k) R t" "counts (xs ! k)"
        "unat (it + 1) + count_where counts (take k xs) = unat m" by blast
      with c s1 it(2) show ?thesis by (intro exI [of _ "Suc k"] exI [of _ t]) simp
    next
      case False
      with Cons.prems have eq: "unat it = unat m" by simp
      have "m < it + 1 \<or> checked_add it 1 = None"
      proof (cases "checked_add it 1")
        case (Some n)
        then have "unat it + 1 = unat n" "n = it + 1"
          using checked_add_eq_Some [of it 1 n] by (simp_all add: checked_add_def split: if_splits)
        then show ?thesis using eq by (simp add: word_less_nat_alt)
      qed simp
      then have "s' = save i R s"
        using Cons.prems(1) c
        by (cases "checked_add it 1") (auto simp: checked_add_def loop_Cons split: if_splits)
      with c eq show ?thesis by (intro exI [of _ 0] exI [of _ s]) simp
    qed
  next
    case False
    with Cons.prems Cons.IH [of s it "Suc i"] obtain k t where "k < length xs"
        "credit R s (take k xs) = Ok t" "s' = save (Suc i + k) R t" "counts (xs ! k)"
        "unat it + count_where counts (take k xs) = unat m" by (auto simp: loop_Cons)
    with False show ?thesis by (intro exI [of _ "Suc k"] exI [of _ t]) simp
  qed
qed (simp add: loop_Nil)

lemma loop_finished: "loop R m s it i xs = Ok (s', True) \<Longrightarrow> credit R s xs = Ok s'"
  by (induction xs arbitrary: s it i) (auto simp: result_simps loop_Nil loop_Cons split: if_splits)

text \<open>
  Where the uninterrupted loop succeeds, a limited one does, and it is interrupted exactly
  when more entries are left than the limit allows.
\<close>

lemma loop_progress:
  "credit R s xs = Ok t \<Longrightarrow> unat it \<le> unat m \<Longrightarrow> unat it + length xs < 65536 \<Longrightarrow>
   \<exists>s'. loop R m s it i xs = Ok (s', unat it + count_where counts xs \<le> unat m)"
proof (induction xs arbitrary: s it i)
  case (Cons x xs)
  show ?case
  proof (cases "counts x")
    case c: True
    have lt: "unat it + 1 < 2 ^ LENGTH(16)" using Cons.prems(3) by simp
    then have it: "checked_add it 1 = Some (it + 1)" "unat (it + 1) = Suc (unat it)"
      using unat_add_small [of it 1] by (simp_all add: checked_add_def)
    show ?thesis
    proof (cases "unat it < unat m")
      case True
      have nm: "\<not> m < it + 1" using True it(2) by (simp add: word_less_nat_alt)
      from Cons.prems(1) c obtain s1 where "step R s x = Ok s1" "credit R s1 xs = Ok t"
        by (auto simp: result_simps)
      with Cons.IH [of s1 "it + 1" "Suc i"] Cons.prems(3) True nm c it show ?thesis
        by (simp add: loop_Cons)
    next
      case False
      then have "m < it + 1" using it(2) by (simp add: word_less_nat_alt)
      with c it Cons.prems(2) False show ?thesis by (simp add: loop_Cons)
    qed
  next
    case False
    with Cons.prems Cons.IH [of s it "Suc i"] show ?thesis by (simp add: loop_Cons)
  qed
qed (simp add: loop_Nil)

text \<open>A property every step keeps is kept by the loop.\<close>

lemma credit_keeps:
  assumes keep: "\<And>s x s'. I s \<Longrightarrow> x \<in> set xs \<Longrightarrow> counts x \<Longrightarrow> step R s x = Ok s' \<Longrightarrow> I s'"
  shows "I s \<Longrightarrow> credit R s ys = Ok s' \<Longrightarrow> set ys \<subseteq> set xs \<Longrightarrow> I s'"
proof (induction ys arbitrary: s)
  case (Cons y ys)
  show ?case
  proof (cases "counts y")
    case True
    with Cons.prems(2) obtain s1 where s1: "step R s y = Ok s1" "credit R s1 ys = Ok s'"
      by (auto simp: result_simps)
    have "I s1" using keep [OF Cons.prems(1) _ True s1(1)] Cons.prems(3) by simp
    with Cons.IH s1(2) Cons.prems(3) show ?thesis by simp
  next
    case False
    with Cons show ?thesis by simp
  qed
qed simp

end

section \<open>Routing in several calls\<close>

locale resumable_routing = routing_loop loop counts step save
  for loop :: "u64 \<Rightarrow> u16 \<Rightarrow> 's \<Rightarrow> u16 \<Rightarrow> nat \<Rightarrow> 'i list \<Rightarrow> ('s \<times> bool, ncn_error) result"
    and counts :: "'i \<Rightarrow> bool"
    and step :: "u64 \<Rightarrow> 's \<Rightarrow> 'i \<Rightarrow> ('s, ncn_error) result"
    and save :: "nat \<Rightarrow> u64 \<Rightarrow> 's \<Rightarrow> 's" +
  fixes call :: "'s \<Rightarrow> u16 \<Rightarrow> ('s, ncn_error) result"
    and items :: "'i list"
    and start_of :: "'s \<Rightarrow> nat" and amount_of :: "'s \<Rightarrow> u64" and still :: "'s \<Rightarrow> bool"
    and finish :: "'s \<Rightarrow> ('s, ncn_error) result"
  assumes call_unfold: "call s m =
      (if amount_of s = 0 then Ok s
       else and_then (loop (amount_of s) (max m 1) s 0 (start_of s) (drop (start_of s) items)) (\<lambda>(s, d).
            if \<not> d then Ok s else finish s))"
    and step_save: "step R' (save j R s) x = map_ok (save j R) (step R' s x)"
    and save_still: "j < 65535 \<Longrightarrow> still (save j R s)"
    and save_start: "j < 65535 \<Longrightarrow> start_of (save j R s) = j"
    and save_amount: "j < 65535 \<Longrightarrow> R \<noteq> 0 \<Longrightarrow> amount_of (save j R s) = R"
    and finish_still: "finish s = Ok s' \<Longrightarrow> \<not> still s'"
    and finish_save: "finish (save j R s) = finish s"
begin

lemma credit_save: "credit R' (save j R s) xs = map_ok (save j R) (credit R' s xs)"
  by (induction xs arbitrary: s) (simp_all add: step_save map_ok_and_then and_then_map_ok)

text \<open>An uninterrupted call.\<close>

lemma one_shot:
  assumes len: "length items \<le> 256" and M: "256 \<le> unat M"
  shows "call s M = (if amount_of s = 0 then Ok s
     else and_then (credit (amount_of s) s (drop (start_of s) items)) finish)"
proof -
  let ?xs = "drop (start_of s) items"
  have mx: "max M 1 = M" using M by (simp add: max_def word_le_nat_alt)
  have "count_where counts ?xs \<le> 256" using count_where_le [of counts ?xs] len by simp
  then have "unat (0 :: u16) + count_where counts ?xs \<le> unat M" using M by simp
  note unlimited = loop_unlimited [OF this]
  show ?thesis by (simp add: call_unfold mx unlimited and_then_assoc)
qed

lemma interrupted_then_resumed:
  assumes len: "length items \<le> 256" and M: "256 \<le> unat M"
    and part: "call s m = Ok s1" and st: "still s1"
  shows "call s1 M = call s M"
proof (cases "amount_of s = 0")
  case True
  with part show ?thesis by (simp add: call_unfold)
next
  case False
  let ?R = "amount_of s" and ?i = "start_of s"
  from part False obtain s2 d where
    l: "loop ?R (max m 1) s 0 ?i (drop ?i items) = Ok (s2, d)"
    and s1: "(if \<not> d then Ok s2 else finish s2) = Ok s1"
    by (auto simp: call_unfold result_simps)
  have "\<not> d" using s1 st finish_still by auto
  with l s1 have l': "loop ?R (max m 1) s 0 ?i (drop ?i items) = Ok (s1, False)" by simp
  from loop_interrupted [OF l'] obtain k t where k: "k < length (drop ?i items)"
    and t: "credit ?R s (take k (drop ?i items)) = Ok t" and s1t: "s1 = save (?i + k) ?R t" by auto
  have j: "?i + k < 65535" using k len by simp
  have "take k (drop ?i items) @ drop (?i + k) items = drop ?i items"
    by (metis add.commute append_take_drop_id drop_drop)
  then have "credit ?R s (drop ?i items) = credit ?R t (drop (?i + k) items)"
    using credit_append [of ?R s "take k (drop ?i items)" "drop (?i + k) items"] t by simp
  then show ?thesis
    unfolding one_shot [OF len M] s1t save_start [OF j] save_amount [OF j False]
    by (simp add: False credit_save and_then_map_ok finish_save)
qed

definition left :: "'s \<Rightarrow> nat" where
  "left s = count_where counts (drop (start_of s) items)"

lemma left_le: "left s \<le> length items"
  unfolding left_def by (rule le_trans [OF count_where_le]) simp

lemma one_call:
  assumes len: "length items \<le> 256" and M: "256 \<le> unat M"
    and whole: "call s M = Ok s'" and amt: "amount_of s \<noteq> 0"
  shows "\<exists>s1. call s m = Ok s1 \<and>
    (if left s \<le> unat (max m 1) then s1 = s'
     else still s1 \<and> amount_of s1 \<noteq> 0 \<and> left s = left s1 + unat (max m 1) \<and> call s1 M = Ok s')"
proof -
  let ?R = "amount_of s" and ?i = "start_of s" and ?m = "max m 1"
  let ?xs = "drop ?i items"
  from whole amt obtain t where t: "credit ?R s ?xs = Ok t" and fin: "finish t = Ok s'"
    by (auto simp: one_shot [OF len M] result_simps)
  have "unat (0 :: u16) + length ?xs < 65536" using len by simp
  from loop_progress [OF t _ this, of ?m ?i] obtain s1 where
    l: "loop ?R ?m s 0 ?i ?xs = Ok (s1, left s \<le> unat ?m)" by (auto simp: left_def)
  show ?thesis
  proof (cases "left s \<le> unat ?m")
    case True
    then have "unat (0 :: u16) + count_where counts ?xs \<le> unat ?m" by (simp add: left_def)
    from loop_unlimited [OF this, of ?R s ?i] l t True have "s1 = t" by simp
    with True l fin amt show ?thesis by (simp add: call_unfold)
  next
    case False
    with l have l': "loop ?R ?m s 0 ?i ?xs = Ok (s1, False)" by simp
    then have part: "call s m = Ok s1" using amt by (simp add: call_unfold)
    from loop_interrupted [OF l'] obtain k u where k: "k < length ?xs"
      and s1: "s1 = save (?i + k) ?R u" and cnt: "count_where counts (take k ?xs) = unat ?m" by auto
    have j: "?i + k < 65535" using k len by simp
    have st: "still s1" unfolding s1 by (rule save_still [OF j])
    have "count_where counts ?xs = count_where counts (take k ?xs) + count_where counts (drop k ?xs)"
      by (metis append_take_drop_id count_where_append)
    then have "left s = left s1 + unat ?m"
      using cnt save_start [OF j] by (simp add: left_def add.commute s1)
    with False part st amt whole save_amount [OF j amt] interrupted_then_resumed [OF len M part st] s1
    show ?thesis by simp
  qed
qed

text \<open>Calls are made until the routing has finished.\<close>

primrec in_calls :: "u16 list \<Rightarrow> 's \<Rightarrow> ('s, ncn_error) result" where
  "in_calls [] s = Ok s"
| "in_calls (m # ms) s = and_then (call s m) (\<lambda>s. if still s then in_calls ms s else Ok s)"

lemma in_calls_finish:
  assumes len: "length items \<le> 256" and M: "256 \<le> unat M"
  shows "call s M = Ok s' \<Longrightarrow> amount_of s \<noteq> 0 \<Longrightarrow> \<not> still s' \<Longrightarrow> ms \<noteq> [] \<Longrightarrow>
    left s \<le> sum_list (map (\<lambda>m. unat (max m 1)) ms) \<Longrightarrow> in_calls ms s = Ok s'"
proof (induction ms arbitrary: s)
  case (Cons m ms)
  from one_call [OF len M Cons.prems(1,2), of m] obtain s1 where
    s1: "call s m = Ok s1"
    and c: "if left s \<le> unat (max m 1) then s1 = s'
     else still s1 \<and> amount_of s1 \<noteq> 0 \<and> left s = left s1 + unat (max m 1) \<and> call s1 M = Ok s'" by blast
  show ?case
  proof (cases "left s \<le> unat (max m 1)")
    case True
    with c s1 Cons.prems(3) show ?thesis by simp
  next
    case False
    then have c': "still s1" "amount_of s1 \<noteq> 0" "left s = left s1 + unat (max m 1)" "call s1 M = Ok s'"
      using c by simp_all
    have ms: "ms \<noteq> []" "left s1 \<le> sum_list (map (\<lambda>m. unat (max m 1)) ms)"
      using c'(3) Cons.prems(5) False by auto
    have "in_calls ms s1 = Ok s'" by (rule Cons.IH [OF c'(4,2) Cons.prems(3) ms])
    with s1 c'(1) show ?thesis by simp
  qed
qed simp

text \<open>A property every step, saving and finishing keep is kept by every call.\<close>

lemma call_keeps:
  assumes keep: "\<And>R s x s'. I s \<Longrightarrow> x \<in> set items \<Longrightarrow> counts x \<Longrightarrow> step R s x = Ok s' \<Longrightarrow> I s'"
    and sv: "\<And>j R s. I s \<Longrightarrow> I (save j R s)" and fin: "\<And>s s'. I s \<Longrightarrow> finish s = Ok s' \<Longrightarrow> I s'"
    and s: "I s" and ok: "call s m = Ok s'"
  shows "I s'"
proof (cases "amount_of s = 0")
  case True
  with ok s show ?thesis by (simp add: call_unfold)
next
  case False
  let ?xs = "drop (start_of s) items"
  from ok False obtain s2 d where l: "loop (amount_of s) (max m 1) s 0 (start_of s) ?xs = Ok (s2, d)"
    and s': "(if \<not> d then Ok s2 else finish s2) = Ok s'"
    by (auto simp: call_unfold result_simps)
  have sub: "set ?xs \<subseteq> set items" "set (take k ?xs) \<subseteq> set items" for k
    by (auto dest: in_set_dropD in_set_takeD)
  show ?thesis
  proof (cases d)
    case True
    with l have "credit (amount_of s) s ?xs = Ok s2" using loop_finished by simp
    from credit_keeps [of I items "amount_of s", OF keep s this sub(1)] have "I s2" .
    with fin s' True show ?thesis by simp
  next
    case False
    with loop_interrupted [of "amount_of s" "max m 1" s 0 "start_of s" ?xs s2] l s'
    obtain k t where t: "credit (amount_of s) s (take k ?xs) = Ok t"
      and s't: "s' = save (start_of s + k) (amount_of s) t" by auto
    from credit_keeps [of I items "amount_of s", OF keep s t sub(2)] have "I t" .
    then show ?thesis unfolding s't by (rule sv)
  qed
qed

end

end
