(* ===== verification/Operator_Vault_Reward_Router.thy ===== *)
theory Operator_Vault_Reward_Router
  imports Route_Table Routing_Loop Epoch_Snapshot
begin

text \<open>
  \<open>core/src/operator_vault_reward_router.rs\<close>: an operator's rewards are split into the operator's
  fee and the vaults' shares, in proportion to the stake delegated to the operator, possibly
  over several calls.  A loop that stops early because of its iteration limit returns the flag
  \<open>False\<close> with the state it saved.  \<open>MAX_BPS\<close> is a constant of the vault program's crate and an
  argument where it is used.
\<close>

section \<open>Routes\<close>

record vault_reward_route_t =
  vrr_vault :: pubkey
  vrr_rewards :: u64

definition VaultRewardRoute_default :: vault_reward_route_t where
  "VaultRewardRoute_default = \<lparr>vrr_vault = Pubkey_default, vrr_rewards = 0\<rparr>"

definition VaultRewardRoute_new :: "pubkey \<Rightarrow> u64 \<Rightarrow> (vault_reward_route_t, ncn_error) result" where
  "VaultRewardRoute_new vault rewards = Ok \<lparr>vrr_vault = vault, vrr_rewards = rewards\<rparr>"

definition VaultRewardRoute_is_empty :: "vault_reward_route_t \<Rightarrow> bool" where
  "VaultRewardRoute_is_empty self \<longleftrightarrow> vrr_vault self = Pubkey_default"

definition VaultRewardRoute_has_rewards :: "vault_reward_route_t \<Rightarrow> bool" where
  "VaultRewardRoute_has_rewards self \<longleftrightarrow> 0 < vrr_rewards self"

definition VaultRewardRoute_set_rewards ::
  "vault_reward_route_t \<Rightarrow> u64 \<Rightarrow> (vault_reward_route_t, ncn_error) result" where
  "VaultRewardRoute_set_rewards self rewards = Ok (self\<lparr>vrr_rewards := rewards\<rparr>)"

definition VaultRewardRoute_increment_rewards ::
  "vault_reward_route_t \<Rightarrow> u64 \<Rightarrow> (vault_reward_route_t, ncn_error) result" where
  "VaultRewardRoute_increment_rewards self rewards =
     and_then (ok_or (checked_add (vrr_rewards self) rewards) ArithmeticOverflow)
       (VaultRewardRoute_set_rewards self)"

definition VaultRewardRoute_decrement_rewards ::
  "vault_reward_route_t \<Rightarrow> u64 \<Rightarrow> (vault_reward_route_t, ncn_error) result" where
  "VaultRewardRoute_decrement_rewards self rewards =
     and_then (ok_or (checked_sub (vrr_rewards self) rewards) ArithmeticUnderflowError)
       (VaultRewardRoute_set_rewards self)"

section \<open>The router\<close>

record operator_vault_reward_router =
  or_operator :: pubkey
  or_ncn :: pubkey
  or_epoch :: u64
  or_bump :: u8
  or_slot_created :: u64
  or_ncn_operator_index :: u64
  or_total_rewards :: u64
  or_reward_pool :: u64
  or_rewards_processed :: u64
  operator_rewards :: u64
  or_last_rewards_to_process :: u64
  last_vault_operator_delegation_index :: u16
  vault_reward_routes :: "vault_reward_route_t list"

definition OVRR_NO_LAST_REWARDS_TO_PROCESS :: u64 where "OVRR_NO_LAST_REWARDS_TO_PROCESS = u64_MAX"
definition NO_LAST_VAULT_OPERATION_DELEGATION_INDEX :: u16 where
  "NO_LAST_VAULT_OPERATION_DELEGATION_INDEX = u16_MAX"
definition MAX_ROUTE_NCN_ITERATIONS :: u16 where "MAX_ROUTE_NCN_ITERATIONS = 30"

definition OperatorVaultRewardRouter_new ::
  "pubkey \<Rightarrow> u64 \<Rightarrow> pubkey \<Rightarrow> u64 \<Rightarrow> u8 \<Rightarrow> u64 \<Rightarrow> operator_vault_reward_router" where
  "OperatorVaultRewardRouter_new operator operator_ncn_index ncn ncn_epoch bump slot_created =
     \<lparr>or_operator = operator, or_ncn = ncn, or_epoch = ncn_epoch, or_bump = bump,
      or_slot_created = slot_created, or_ncn_operator_index = operator_ncn_index,
      or_total_rewards = 0, or_reward_pool = 0, or_rewards_processed = 0, operator_rewards = 0,
      or_last_rewards_to_process = OVRR_NO_LAST_REWARDS_TO_PROCESS,
      last_vault_operator_delegation_index = NO_LAST_VAULT_OPERATION_DELEGATION_INDEX,
      vault_reward_routes = replicate MAX_VAULTS VaultRewardRoute_default\<rparr>"

definition OVRR_still_routing :: "operator_vault_reward_router \<Rightarrow> bool" where
  "OVRR_still_routing self \<longleftrightarrow>
     or_last_rewards_to_process self \<noteq> OVRR_NO_LAST_REWARDS_TO_PROCESS \<or>
     last_vault_operator_delegation_index self \<noteq> NO_LAST_VAULT_OPERATION_DELEGATION_INDEX"

definition OVRR_resume_routing_state :: "operator_vault_reward_router \<Rightarrow> u64 \<Rightarrow> u64 \<times> nat" where
  "OVRR_resume_routing_state self rewards_to_process =
     (if \<not> OVRR_still_routing self then (rewards_to_process, 0)
      else (or_last_rewards_to_process self, unat (last_vault_operator_delegation_index self)))"

definition OVRR_save_routing_state ::
  "operator_vault_reward_router \<Rightarrow> u64 \<Rightarrow> nat \<Rightarrow> operator_vault_reward_router" where
  "OVRR_save_routing_state self rewards_to_process i =
     self\<lparr>or_last_rewards_to_process := rewards_to_process,
          last_vault_operator_delegation_index := word_of_nat i\<rparr>"

definition OVRR_reset_routing_state :: "operator_vault_reward_router \<Rightarrow> operator_vault_reward_router" where
  "OVRR_reset_routing_state self =
     self\<lparr>or_last_rewards_to_process := OVRR_NO_LAST_REWARDS_TO_PROCESS,
          last_vault_operator_delegation_index := NO_LAST_VAULT_OPERATION_DELEGATION_INDEX\<rparr>"

section \<open>Buckets\<close>

definition OVRR_total_rewards_in_transit :: "operator_vault_reward_router \<Rightarrow> (u64, ncn_error) result" where
  "OVRR_total_rewards_in_transit self =
     ok_or (checked_add (or_reward_pool self) (or_rewards_processed self)) ArithmeticOverflow"

definition OVRR_route_to_reward_pool ::
  "operator_vault_reward_router \<Rightarrow> u64 \<Rightarrow> (operator_vault_reward_router, ncn_error) result" where
  "OVRR_route_to_reward_pool self rewards =
     (if rewards = 0 then Ok self
      else
        and_then (ok_or (checked_add (or_total_rewards self) rewards) ArithmeticOverflow) (\<lambda>t.
        and_then (ok_or (checked_add (or_reward_pool self) rewards) ArithmeticOverflow) (\<lambda>p.
        Ok (self\<lparr>or_total_rewards := t, or_reward_pool := p\<rparr>))))"

definition OVRR_increment_rewards_processed ::
  "operator_vault_reward_router \<Rightarrow> u64 \<Rightarrow> (operator_vault_reward_router, ncn_error) result" where
  "OVRR_increment_rewards_processed self rewards =
     (if rewards = 0 then Ok self
      else
        and_then (ok_or (checked_add (or_rewards_processed self) rewards) ArithmeticOverflow) (\<lambda>n.
        Ok (self\<lparr>or_rewards_processed := n\<rparr>)))"

definition OVRR_decrement_rewards_processed ::
  "operator_vault_reward_router \<Rightarrow> u64 \<Rightarrow> (operator_vault_reward_router, ncn_error) result" where
  "OVRR_decrement_rewards_processed self rewards =
     (if rewards = 0 then Ok self
      else
        and_then (ok_or (checked_sub (or_rewards_processed self) rewards) ArithmeticUnderflowError) (\<lambda>n.
        Ok (self\<lparr>or_rewards_processed := n\<rparr>)))"

definition OVRR_route_from_reward_pool ::
  "operator_vault_reward_router \<Rightarrow> u64 \<Rightarrow> (operator_vault_reward_router, ncn_error) result" where
  "OVRR_route_from_reward_pool self rewards =
     (if rewards = 0 then Ok self
      else
        and_then (ok_or (checked_sub (or_reward_pool self) rewards) ArithmeticUnderflowError) (\<lambda>p.
        OVRR_increment_rewards_processed (self\<lparr>or_reward_pool := p\<rparr>) rewards))"

definition route_to_operator_rewards ::
  "operator_vault_reward_router \<Rightarrow> u64 \<Rightarrow> (operator_vault_reward_router, ncn_error) result" where
  "route_to_operator_rewards self rewards =
     (if rewards = 0 then Ok self
      else
        and_then (ok_or (checked_add (operator_rewards self) rewards) ArithmeticOverflow) (\<lambda>n.
        Ok (self\<lparr>operator_rewards := n\<rparr>)))"

definition OVRR_route_incoming_rewards ::
  "operator_vault_reward_router \<Rightarrow> u64 \<Rightarrow> u64 \<Rightarrow> (operator_vault_reward_router, ncn_error) result" where
  "OVRR_route_incoming_rewards self rent_cost account_balance =
     and_then (OVRR_total_rewards_in_transit self) (\<lambda>total_rewards.
     and_then (ok_or (checked_sub account_balance total_rewards) ArithmeticUnderflowError) (\<lambda>incoming.
     and_then (ok_or (checked_sub incoming rent_cost) ArithmeticUnderflowError) (\<lambda>rewards_to_route.
     OVRR_route_to_reward_pool self rewards_to_route)))"

section \<open>Calculations\<close>

definition calculate_operator_reward ::
  "'p precise_ops \<Rightarrow> u16 \<Rightarrow> u64 \<Rightarrow> u64 \<Rightarrow> (u64, ncn_error) result" where
  "calculate_operator_reward P max_bps fee_bps rewards_to_process =
     (if fee_bps = 0 \<or> rewards_to_process = 0 then Ok 0
      else
        and_then (ok_or (pn_new P (ucast fee_bps)) NewPreciseNumberError) (\<lambda>pf.
        and_then (ok_or (pn_new P (ucast max_bps)) NewPreciseNumberError) (\<lambda>pm.
        and_then (ok_or (pn_new P (ucast rewards_to_process)) NewPreciseNumberError) (\<lambda>pr.
        and_then (ok_or (Option.bind (pn_checked_mul P pr pf) (\<lambda>x. pn_checked_div P x pm))
                    ArithmeticOverflow) (\<lambda>p.
        and_then (ok_or (pn_floor P p) ArithmeticFloorError) (\<lambda>f.
        and_then (ok_or (pn_to_imprecise P f) CastToImpreciseNumberError) (\<lambda>n.
        ok_or (try_into_u64 n) CastToU64Error)))))))"

definition calculate_vault_reward ::
  "'p precise_ops \<Rightarrow> u128 \<Rightarrow> u128 \<Rightarrow> u64 \<Rightarrow> (u64, ncn_error) result" where
  "calculate_vault_reward P vault_stake operator_stake rewards_to_process =
     (if operator_stake = 0 \<or> rewards_to_process = 0 then Ok 0
      else precise_share P rewards_to_process vault_stake operator_stake)"

section \<open>Routing\<close>

definition route_operator_rewards ::
  "'p precise_ops \<Rightarrow> u16 \<Rightarrow> operator_vault_reward_router \<Rightarrow> operator_snapshot \<Rightarrow>
   (operator_vault_reward_router, ncn_error) result" where
  "route_operator_rewards P max_bps self snap =
     (let rewards_to_process = or_reward_pool self in
      and_then (calculate_operator_reward P max_bps (ucast (os_operator_fee_bps snap)) rewards_to_process) (\<lambda>n.
      and_then (OVRR_route_from_reward_pool self n) (\<lambda>self.
      route_to_operator_rewards self n)))"

text \<open>
  Two passes over the routes: the vault's entry is incremented; without one the first unused
  entry is written.
\<close>

definition route_to_vault_reward_route ::
  "operator_vault_reward_router \<Rightarrow> pubkey \<Rightarrow> u64 \<Rightarrow> (operator_vault_reward_router, ncn_error) result" where
  "route_to_vault_reward_route self vault rewards =
     (if rewards = 0 then Ok self
      else case position (\<lambda>r. vrr_vault r = vault) (vault_reward_routes self) of
        Some i \<Rightarrow>
          and_then (VaultRewardRoute_increment_rewards (vault_reward_routes self ! i) rewards) (\<lambda>r.
          Ok (self\<lparr>vault_reward_routes := (vault_reward_routes self)[i := r]\<rparr>))
      | None \<Rightarrow>
          (case position (\<lambda>r. vrr_vault r = Pubkey_default) (vault_reward_routes self) of
             Some i \<Rightarrow>
               and_then (VaultRewardRoute_new vault rewards) (\<lambda>r.
               Ok (self\<lparr>vault_reward_routes := (vault_reward_routes self)[i := r]\<rparr>))
           | None \<Rightarrow> Err OperatorRewardListFull))"

text \<open>The loop of \<open>route_reward_pool\<close> over the delegations from index \<open>i\<close> on.\<close>

fun route_vaults_loop ::
  "'p precise_ops \<Rightarrow> u128 \<Rightarrow> u64 \<Rightarrow> u16 \<Rightarrow> operator_vault_reward_router \<Rightarrow> u16 \<Rightarrow> nat \<Rightarrow>
   vault_operator_stake_weight_t list \<Rightarrow> (operator_vault_reward_router \<times> bool, ncn_error) result" where
  "route_vaults_loop P operator_stake rewards max_iterations self iterations i [] = Ok (self, True)"
| "route_vaults_loop P operator_stake rewards max_iterations self iterations i (d # ds) =
     and_then (ok_or (checked_add iterations 1) ArithmeticOverflow) (\<lambda>iterations.
     if max_iterations < iterations
     then Ok (OVRR_save_routing_state self rewards i, False)
     else
       and_then (calculate_vault_reward P (stake_weight (vosw_stake_weight d)) operator_stake rewards) (\<lambda>n.
       and_then (OVRR_route_from_reward_pool self n) (\<lambda>self.
       and_then (route_to_vault_reward_route self (vosw_vault d) n) (\<lambda>self.
       route_vaults_loop P operator_stake rewards max_iterations self iterations (Suc i) ds))))"

definition OVRR_route_reward_pool ::
  "'p precise_ops \<Rightarrow> operator_vault_reward_router \<Rightarrow> operator_snapshot \<Rightarrow> u16 \<Rightarrow>
   (operator_vault_reward_router, ncn_error) result" where
  "OVRR_route_reward_pool P self snap max_iterations =
     (let operator_stake = os_stake_weights snap;
          (rewards_to_process, start) = OVRR_resume_routing_state self (or_reward_pool self)
      in
      if rewards_to_process = 0 then Ok self
      else
        let max_iterations = max max_iterations 1 in
        and_then (route_vaults_loop P (stake_weight operator_stake) rewards_to_process max_iterations
                    self 0 start (drop start (vault_operator_stake_weight snap))) (\<lambda>(self, done).
        if \<not> done then Ok self
        else
          let self = OVRR_reset_routing_state self;
              leftover = or_reward_pool self in
          and_then (OVRR_route_from_reward_pool self leftover) (\<lambda>self.
          route_to_operator_rewards self leftover)))"

section \<open>Distribution\<close>

definition distribute_operator_rewards ::
  "operator_vault_reward_router \<Rightarrow> (operator_vault_reward_router \<times> u64, ncn_error) result" where
  "distribute_operator_rewards self =
     (let rewards = operator_rewards self in
      and_then (ok_or (checked_sub rewards rewards) ArithmeticUnderflowError) (\<lambda>n.
      and_then (OVRR_decrement_rewards_processed (self\<lparr>operator_rewards := n\<rparr>) rewards) (\<lambda>self.
      Ok (self, rewards))))"

definition vault_reward_route ::
  "operator_vault_reward_router \<Rightarrow> pubkey \<Rightarrow> (vault_reward_route_t, ncn_error) result" where
  "vault_reward_route self vault =
     ok_or (find (\<lambda>r. vrr_vault r = vault) (vault_reward_routes self)) VaultRewardNotFound"

definition distribute_vault_reward_route ::
  "operator_vault_reward_router \<Rightarrow> pubkey \<Rightarrow> (operator_vault_reward_router \<times> u64, ncn_error) result" where
  "distribute_vault_reward_route self vault =
     (case position (\<lambda>r. vrr_vault r = vault) (vault_reward_routes self) of
        Some i \<Rightarrow>
          (let route = vault_reward_routes self ! i; rewards = vrr_rewards route in
           and_then (VaultRewardRoute_decrement_rewards route rewards) (\<lambda>route.
           and_then (OVRR_decrement_rewards_processed
                       (self\<lparr>vault_reward_routes := (vault_reward_routes self)[i := route]\<rparr>) rewards) (\<lambda>self.
           Ok (self, rewards))))
      | None \<Rightarrow> Err OperatorRewardNotFound)"

section \<open>The ledger\<close>

interpretation vault_routes: route_table vrr_vault VaultRewardRoute_default vrr_rewards
  by unfold_locales (simp_all add: VaultRewardRoute_default_def)

text \<open>Everything processed and not yet distributed is in exactly one bucket.\<close>

definition or_wf :: "operator_vault_reward_router \<Rightarrow> bool" where
  "or_wf r \<longleftrightarrow> length (vault_reward_routes r) = 64 \<and> vault_routes.keys_ok (vault_reward_routes r) \<and>
     unat (or_rewards_processed r) =
       unat (operator_rewards r) + vault_routes.routed (vault_reward_routes r)"

end
