(* ===== verification/Accounts.thy ===== *)
theory Accounts
  imports Fees Vault_Registry Weight_Table Epoch_Snapshot Ballot_Box Epoch_State
    Ncn_Reward_Router Operator_Vault_Reward_Router
begin

text \<open>
  The data of accounts, kept typed: an account of this program whose first byte is the
  discriminator of a type holds a value of the type; memory that has been allocated but not
  initialized is zero; data of other programs is a list of bytes.  The theory has the
  discriminators (\<open>core/src/discriminators.rs\<close>), the sizes of the account types, the epoch
  marker (\<open>core/src/epoch_marker.rs\<close>), and the views by which the processors read typed data
  or initialize zeroed memory.
\<close>

section \<open>Account data\<close>

record epoch_marker =
  em_ncn :: pubkey
  em_epoch :: u64
  em_slot_closed :: u64

definition EpochMarker_new :: "pubkey \<Rightarrow> u64 \<Rightarrow> u64 \<Rightarrow> epoch_marker" where
  "EpochMarker_new ncn epoch slot_closed =
     \<lparr>em_ncn = ncn, em_epoch = epoch, em_slot_closed = slot_closed\<rparr>"

datatype account_data =
    Zeroed nat
  | Foreign "u8 list"
  | ConfigData config
  | VaultRegistryData vault_registry
  | WeightTableData weight_table
  | EpochSnapshotData epoch_snapshot
  | OperatorSnapshotData operator_snapshot
  | BallotBoxData ballot_box
  | ConsensusResultData consensus_result
  | NCNRewardRouterData ncn_reward_router
  | OperatorVaultRewardRouterData operator_vault_reward_router
  | EpochStateData epoch_state
  | EpochMarkerData epoch_marker

datatype Discriminators =
    DConfig | DVaultRegistry | DWeightTable | DEpochSnapshot | DOperatorSnapshot | DBallotBox
  | DConsensusResult | DNCNRewardRouter | DOperatorVaultRewardRouter | DEpochState | DEpochMarker

primrec Discriminators_as_u8 :: "Discriminators \<Rightarrow> u8" where
  "Discriminators_as_u8 DConfig = 0x01"
| "Discriminators_as_u8 DVaultRegistry = 0x02"
| "Discriminators_as_u8 DWeightTable = 0x10"
| "Discriminators_as_u8 DEpochSnapshot = 0x11"
| "Discriminators_as_u8 DOperatorSnapshot = 0x12"
| "Discriminators_as_u8 DBallotBox = 0x20"
| "Discriminators_as_u8 DConsensusResult = 0x21"
| "Discriminators_as_u8 DNCNRewardRouter = 0x40"
| "Discriminators_as_u8 DOperatorVaultRewardRouter = 0x41"
| "Discriminators_as_u8 DEpochState = 0x50"
| "Discriminators_as_u8 DEpochMarker = 0x51"

text \<open>
  The sizes: eight bytes of header and the packed \<open>repr(C)\<close> struct, every field of which has
  alignment one.
\<close>

definition Config_SIZE :: nat where
  "Config_SIZE = 8 + (32 + 32 + 8 + 8 + 8 + 8 + (32 + 32 + 12 + 12) + 1)"

definition VaultRegistry_SIZE :: nat where
  "VaultRegistry_SIZE = 8 + (32 + 1 + 64 * (32 + 32 + 16) + 64 * (32 + 32 + 8 + 8))"

definition WeightTable_SIZE :: nat where
  "WeightTable_SIZE = 8 + (32 + 8 + 8 + 8 + 1 + 64 * (32 + 32 + 8 + 8) + 64 * (80 + 16 + 8 + 8))"

definition EpochSnapshot_SIZE :: nat where
  "EpochSnapshot_SIZE = 8 + (32 + 8 + 1 + 8 + 8 + 8 + 8 + 8 + 8 + 16 + 12)"

definition OperatorSnapshot_SIZE :: nat where
  "OperatorSnapshot_SIZE =
     8 + (32 + 32 + 8 + 1 + 8 + 8 + 1 + 8 + 8 + 2 + 8 + 8 + 8 + 16 + 64 * (32 + 8 + 16))"

definition BallotBox_SIZE :: nat where
  "BallotBox_SIZE =
     8 + (32 + 8 + 1 + 8 + 8 + 8 + 8 + 2 + 256 * (32 + 8 + 16 + 2) + 256 * (2 + 2 + 16 + 8))"

definition ConsensusResult_SIZE :: nat where
  "ConsensusResult_SIZE = 8 + (32 + 8 + 8 + 8 + 8 + 1 + 1)"

definition NCNRewardRouter_SIZE :: nat where
  "NCNRewardRouter_SIZE =
     8 + (32 + 8 + 1 + 8 + 8 + 8 + 8 + 128 + 2 + 8 + 8 + 8 + 8 + 256 * (32 + 8))"

definition OperatorVaultRewardRouter_SIZE :: nat where
  "OperatorVaultRewardRouter_SIZE =
     8 + (32 + 32 + 8 + 1 + 8 + 8 + 8 + 8 + 8 + 8 + 8 + 2 + 64 * (32 + 8))"

definition EpochState_SIZE :: nat where
  "EpochState_SIZE =
     8 + (32 + 8 + 1 + 8 + 1 + 8 + 8 + 8 + (1 + 1 + 1 + 256 + 1 + 1 + 256) + 16 + 16 + 256 * 16 +
       16 + 16 + 16 + 16 + 16 + 256 * 16 + 1)"

definition EpochMarker_SIZE :: nat where
  "EpochMarker_SIZE = 8 + (32 + 8 + 8)"

fun discriminator_of :: "account_data \<Rightarrow> Discriminators option" where
  "discriminator_of (Zeroed _) = None"
| "discriminator_of (Foreign _) = None"
| "discriminator_of (ConfigData _) = Some DConfig"
| "discriminator_of (VaultRegistryData _) = Some DVaultRegistry"
| "discriminator_of (WeightTableData _) = Some DWeightTable"
| "discriminator_of (EpochSnapshotData _) = Some DEpochSnapshot"
| "discriminator_of (OperatorSnapshotData _) = Some DOperatorSnapshot"
| "discriminator_of (BallotBoxData _) = Some DBallotBox"
| "discriminator_of (ConsensusResultData _) = Some DConsensusResult"
| "discriminator_of (NCNRewardRouterData _) = Some DNCNRewardRouter"
| "discriminator_of (OperatorVaultRewardRouterData _) = Some DOperatorVaultRewardRouter"
| "discriminator_of (EpochStateData _) = Some DEpochState"
| "discriminator_of (EpochMarkerData _) = Some DEpochMarker"

primrec size_of_type :: "Discriminators \<Rightarrow> nat" where
  "size_of_type DConfig = Config_SIZE"
| "size_of_type DVaultRegistry = VaultRegistry_SIZE"
| "size_of_type DWeightTable = WeightTable_SIZE"
| "size_of_type DEpochSnapshot = EpochSnapshot_SIZE"
| "size_of_type DOperatorSnapshot = OperatorSnapshot_SIZE"
| "size_of_type DBallotBox = BallotBox_SIZE"
| "size_of_type DConsensusResult = ConsensusResult_SIZE"
| "size_of_type DNCNRewardRouter = NCNRewardRouter_SIZE"
| "size_of_type DOperatorVaultRewardRouter = OperatorVaultRewardRouter_SIZE"
| "size_of_type DEpochState = EpochState_SIZE"
| "size_of_type DEpochMarker = EpochMarker_SIZE"

lemmas account_sizes = Config_SIZE_def VaultRegistry_SIZE_def WeightTable_SIZE_def
  EpochSnapshot_SIZE_def OperatorSnapshot_SIZE_def BallotBox_SIZE_def ConsensusResult_SIZE_def
  NCNRewardRouter_SIZE_def OperatorVaultRewardRouter_SIZE_def EpochState_SIZE_def
  EpochMarker_SIZE_def

text \<open>\<open>data_len\<close>, \<open>data_is_empty\<close> and \<open>data.borrow()[0]\<close> of an \<open>AccountInfo\<close>.\<close>

definition data_len :: "account_data \<Rightarrow> nat" where
  "data_len d = (case discriminator_of d of
       Some t \<Rightarrow> size_of_type t
     | None \<Rightarrow> (case d of Zeroed n \<Rightarrow> n | Foreign bs \<Rightarrow> length bs | _ \<Rightarrow> 0))"

definition data_is_empty :: "account_data \<Rightarrow> bool" where
  "data_is_empty d \<longleftrightarrow> data_len d = 0"

definition first_byte :: "account_data \<Rightarrow> (u8, 'e) result" where
  "first_byte d =
     (if data_is_empty d then Panic
      else case discriminator_of d of
        Some t \<Rightarrow> Ok (Discriminators_as_u8 t)
      | None \<Rightarrow> (case d of Foreign (b # _) \<Rightarrow> Ok b | _ \<Rightarrow> Ok 0))"

section \<open>Typed views\<close>

text \<open>\<open>try_from_slice_unchecked\<close> of each type: the discriminator and the length must fit.\<close>

fun Config_of :: "account_data \<Rightarrow> (config, program_error) result" where
  "Config_of (ConfigData x) = Ok x" | "Config_of _ = Err InvalidAccountData"

fun VaultRegistry_of :: "account_data \<Rightarrow> (vault_registry, program_error) result" where
  "VaultRegistry_of (VaultRegistryData x) = Ok x" | "VaultRegistry_of _ = Err InvalidAccountData"

fun WeightTable_of :: "account_data \<Rightarrow> (weight_table, program_error) result" where
  "WeightTable_of (WeightTableData x) = Ok x" | "WeightTable_of _ = Err InvalidAccountData"

fun EpochSnapshot_of :: "account_data \<Rightarrow> (epoch_snapshot, program_error) result" where
  "EpochSnapshot_of (EpochSnapshotData x) = Ok x" | "EpochSnapshot_of _ = Err InvalidAccountData"

fun OperatorSnapshot_of :: "account_data \<Rightarrow> (operator_snapshot, program_error) result" where
  "OperatorSnapshot_of (OperatorSnapshotData x) = Ok x"
| "OperatorSnapshot_of _ = Err InvalidAccountData"

fun BallotBox_of :: "account_data \<Rightarrow> (ballot_box, program_error) result" where
  "BallotBox_of (BallotBoxData x) = Ok x" | "BallotBox_of _ = Err InvalidAccountData"

fun ConsensusResult_of :: "account_data \<Rightarrow> (consensus_result, program_error) result" where
  "ConsensusResult_of (ConsensusResultData x) = Ok x"
| "ConsensusResult_of _ = Err InvalidAccountData"

fun NCNRewardRouter_of :: "account_data \<Rightarrow> (ncn_reward_router, program_error) result" where
  "NCNRewardRouter_of (NCNRewardRouterData x) = Ok x"
| "NCNRewardRouter_of _ = Err InvalidAccountData"

fun OperatorVaultRewardRouter_of ::
  "account_data \<Rightarrow> (operator_vault_reward_router, program_error) result" where
  "OperatorVaultRewardRouter_of (OperatorVaultRewardRouterData x) = Ok x"
| "OperatorVaultRewardRouter_of _ = Err InvalidAccountData"

fun EpochState_of :: "account_data \<Rightarrow> (epoch_state, program_error) result" where
  "EpochState_of (EpochStateData x) = Ok x" | "EpochState_of _ = Err InvalidAccountData"

lemma typed_views [result_simps]:
  "Config_of d = Ok a \<longleftrightarrow> d = ConfigData a"
  "VaultRegistry_of d = Ok b \<longleftrightarrow> d = VaultRegistryData b"
  "WeightTable_of d = Ok c \<longleftrightarrow> d = WeightTableData c"
  "EpochSnapshot_of d = Ok e \<longleftrightarrow> d = EpochSnapshotData e"
  "OperatorSnapshot_of d = Ok f \<longleftrightarrow> d = OperatorSnapshotData f"
  "BallotBox_of d = Ok g \<longleftrightarrow> d = BallotBoxData g"
  "ConsensusResult_of d = Ok h \<longleftrightarrow> d = ConsensusResultData h"
  "NCNRewardRouter_of d = Ok i \<longleftrightarrow> d = NCNRewardRouterData i"
  "OperatorVaultRewardRouter_of d = Ok j \<longleftrightarrow> d = OperatorVaultRewardRouterData j"
  "EpochState_of d = Ok k \<longleftrightarrow> d = EpochStateData k"
  by (cases d; auto)+

text \<open>
  Initialization of an account: \<open>data[0] = T::DISCRIMINATOR\<close> followed by
  \<open>try_from_slice_unchecked_mut\<close>.  On zeroed memory of the right size it yields the all-zero
  struct, on empty data the index panics.
\<close>

definition init_view ::
  "Discriminators \<Rightarrow> 'a \<Rightarrow> (account_data \<Rightarrow> ('a, program_error) result) \<Rightarrow> account_data \<Rightarrow>
   ('a, program_error) result" where
  "init_view t zeroed view d =
     (if data_is_empty d then Panic
      else if d = Zeroed (size_of_type t) then Ok zeroed else view d)"

definition VaultEntry_zeroed :: vault_entry where
  "VaultEntry_zeroed = \<lparr>ve_vault = 0, ve_st_mint = 0, ve_vault_index = 0, ve_slot_registered = 0\<rparr>"

definition VaultRegistry_zeroed :: vault_registry where
  "VaultRegistry_zeroed =
     \<lparr>vr_ncn = 0, vr_bump = 0, st_mint_list = replicate MAX_ST_MINTS (StMintEntry_new 0 0),
      vault_list = replicate MAX_VAULTS VaultEntry_zeroed\<rparr>"

definition WeightTable_zeroed :: weight_table where
  "WeightTable_zeroed =
     \<lparr>wt_ncn = 0, wt_epoch = 0, wt_slot_created = 0, wt_vault_count = 0, wt_bump = 0,
      wt_vault_registry = replicate MAX_VAULTS VaultEntry_zeroed,
      wt_table = replicate MAX_ST_MINTS
        \<lparr>we_st_mint_entry = StMintEntry_new 0 0, we_weight = 0, we_slot_set = 0, we_slot_updated = 0\<rparr>\<rparr>"

definition OperatorSnapshot_zeroed :: operator_snapshot where
  "OperatorSnapshot_zeroed =
     \<lparr>os_operator = 0, os_ncn = 0, os_ncn_epoch = 0, os_bump = 0, os_slot_created = 0,
      os_slot_finalized = 0, os_is_active = False, os_ncn_operator_index = 0,
      os_operator_index = 0, os_operator_fee_bps = 0, vault_operator_delegation_count = 0,
      vault_operator_delegations_registered = 0, os_valid_operator_vault_delegations = 0,
      os_stake_weights = StakeWeights_new 0,
      vault_operator_stake_weight = replicate MAX_VAULTS
        \<lparr>vosw_vault = 0, vosw_vault_index = 0, vosw_stake_weight = StakeWeights_new 0\<rparr>\<rparr>"

definition BallotBox_zeroed :: ballot_box where
  "BallotBox_zeroed =
     \<lparr>bb_ncn = 0, bb_epoch = 0, bb_bump = 0, bb_slot_created = 0, slot_consensus_reached = 0,
      operators_voted = 0, unique_ballots = 0,
      winning_ballot = \<lparr>weather_status = 0, ballot_is_valid = False\<rparr>,
      operator_votes = replicate MAX_OPERATORS
        \<lparr>ov_operator = 0, ov_slot_voted = 0, ov_stake_weights = StakeWeights_new 0, ov_ballot_index = 0\<rparr>,
      ballot_tallies = replicate MAX_OPERATORS
        \<lparr>bt_index = 0, bt_ballot = \<lparr>weather_status = 0, ballot_is_valid = False\<rparr>,
         bt_stake_weights = StakeWeights_new 0, bt_tally = 0\<rparr>\<rparr>"

definition ConsensusResult_zeroed :: consensus_result where
  "ConsensusResult_zeroed =
     \<lparr>cr_ncn = 0, cr_epoch = 0, cr_vote_weight = 0, cr_total_vote_weight = 0,
      cr_consensus_slot = 0, cr_bump = 0, cr_weather_status = 0\<rparr>"

definition NCNRewardRouter_zeroed :: ncn_reward_router where
  "NCNRewardRouter_zeroed =
     \<lparr>nr_ncn = 0, nr_epoch = 0, nr_bump = 0, nr_slot_created = 0, nr_total_rewards = 0,
      nr_reward_pool = 0, nr_rewards_processed = 0, nr_reserved = replicate 128 0,
      last_vote_index = 0, nr_last_rewards_to_process = 0, protocol_rewards = 0,
      ncn_rewards = 0, operator_vault_rewards = 0,
      operator_vault_reward_routes = replicate 256
        \<lparr>ovrr_operator = 0, ovrr_rewards = \<lparr>nrr_rewards = 0\<rparr>\<rparr>\<rparr>"

end
