(* ===== verification/Solana_Runtime.thy ===== *)
theory Solana_Runtime
  imports Accounts
begin

text \<open>
  What the processors see of the chain: the ledger of accounts, the \<open>AccountInfo\<close>s of an
  instruction, and the record \<open>runtime\<close> of everything the sources call but do not contain:
  the sysvars, the derivation of program addresses, the system program, and the loaders and
  accessors of the restaking and vault programs.  An \<open>AccountInfo\<close> names an account of the
  ledger and says how the transaction passed it (signer, writable); lamports, owner and data
  are read and written through the ledger, so that an account passed twice is one account.

  The documented behaviour the program relies on is the locale \<open>runtime_laws\<close>; it is
  interpreted on a runtime whose system program follows the rules of that program.
\<close>

section \<open>The ledger\<close>

record account =
  lamports :: u64
  acc_owner :: pubkey
  acc_data :: account_data

type_synonym ledger = "pubkey \<Rightarrow> account"

record account_info =
  ai_key :: pubkey
  ai_is_signer :: bool
  ai_is_writable :: bool

definition data_at :: "ledger \<Rightarrow> account_info \<Rightarrow> account_data" where
  "data_at L a = acc_data (L (ai_key a))"

definition set_data :: "ledger \<Rightarrow> account_info \<Rightarrow> account_data \<Rightarrow> ledger" where
  "set_data L a d = L(ai_key a := (L (ai_key a))\<lparr>acc_data := d\<rparr>)"

definition lamports_at :: "ledger \<Rightarrow> account_info \<Rightarrow> u64" where
  "lamports_at L a = lamports (L (ai_key a))"

definition set_lamports :: "ledger \<Rightarrow> pubkey \<Rightarrow> u64 \<Rightarrow> ledger" where
  "set_lamports L k n = L(k := (L k)\<lparr>lamports := n\<rparr>)"

definition set_owner :: "ledger \<Rightarrow> pubkey \<Rightarrow> pubkey \<Rightarrow> ledger" where
  "set_owner L k p = L(k := (L k)\<lparr>acc_owner := p\<rparr>)"

named_theorems ledger_simps \<open>reading the ledger after a write\<close>

lemma data_at_set_data [ledger_simps]:
  "data_at (set_data L a d) b = (if ai_key b = ai_key a then d else data_at L b)"
  by (simp add: data_at_def set_data_def)

lemma set_data_apply [ledger_simps]:
  "set_data L a d k = (if k = ai_key a then (L k)\<lparr>acc_data := d\<rparr> else L k)"
  by (simp add: set_data_def)

lemma set_lamports_apply [ledger_simps]:
  "set_lamports L k n j = (if j = k then (L j)\<lparr>lamports := n\<rparr> else L j)"
  by (simp add: set_lamports_def)

lemma set_owner_apply [ledger_simps]:
  "set_owner L k p j = (if j = k then (L j)\<lparr>acc_owner := p\<rparr> else L j)"
  by (simp add: set_owner_def)

lemma data_at_set_lamports [ledger_simps]: "data_at (set_lamports L k n) a = data_at L a"
  by (simp add: data_at_def set_lamports_def)

lemma data_at_set_owner [ledger_simps]: "data_at (set_owner L k p) a = data_at L a"
  by (simp add: data_at_def set_owner_def)

section \<open>Code outside the repository\<close>

text \<open>The instructions of the system program that the sources build.\<close>

datatype system_instruction =
    Transfer pubkey pubkey u64
  | Allocate pubkey u64
  | Assign pubkey pubkey

text \<open>
  Accounts of the restaking and vault programs, reduced to what the sources read of them.  A
  \<open>SlotToggle\<close> is given by its observations; a \<open>SlotToggleState\<close> is its number as \<open>u8\<close> and
  whether it is \<open>Active\<close>.
\<close>

record slot_toggle =
  is_active :: "u64 \<Rightarrow> u64 \<Rightarrow> (bool, program_error) result"
  is_active_or_cooldown :: "u64 \<Rightarrow> u64 \<Rightarrow> (bool, program_error) result"
  toggle_state :: "u64 \<Rightarrow> u64 \<Rightarrow> (u8 \<times> bool, program_error) result"

record ncn_account =
  ncn_admin :: pubkey
  ncn_program_admin :: pubkey
  ncn_weight_table_admin :: pubkey
  ncn_vault_count :: u64
  ncn_operator_count :: u64

record operator_account =
  op_voter :: pubkey
  op_fee_bps :: u16
  op_index :: u64

record vault_account =
  v_supported_mint :: pubkey
  v_vault_index :: u64
  v_is_update_needed :: "u64 \<Rightarrow> u64 \<Rightarrow> (bool, program_error) result"

record ncn_operator_state =
  nos_index :: u64
  nos_ncn_opt_in_state :: slot_toggle
  nos_operator_opt_in_state :: slot_toggle

type_synonym loader = "account_info \<Rightarrow> account \<Rightarrow> bool \<Rightarrow> (unit, program_error) result"
type_synonym ticket_loader =
  "account_info \<Rightarrow> account \<Rightarrow> account_info \<Rightarrow> account_info \<Rightarrow> bool \<Rightarrow> (unit, program_error) result"
type_synonym 'a reader = "account_data \<Rightarrow> ('a, program_error) result"

record runtime =
  clock_slot :: u64
  clock_epoch :: u64
  get_epoch :: "u64 \<Rightarrow> u64"
  minimum_balance :: "nat \<Rightarrow> u64"
  vault_core_MAX_BPS :: u16
  find_pda :: "u8 list list \<Rightarrow> pubkey \<Rightarrow> pubkey \<times> u8"
  system_program_id :: pubkey
  invoke_signed ::
    "pubkey \<Rightarrow> system_instruction \<Rightarrow> u8 list list \<Rightarrow> ledger \<Rightarrow> (ledger, program_error) result"
  realloc_data :: "nat \<Rightarrow> account_data \<Rightarrow> (account_data, program_error) result"
  load_signer_of :: loader
  load_system_account_of :: loader
  load_system_program_of :: "account_info \<Rightarrow> (unit, program_error) result"
  load_token_mint_of :: "account_info \<Rightarrow> account \<Rightarrow> (unit, program_error) result"
  Ncn_load_of :: loader
  Operator_load_of :: loader
  Vault_load_of :: loader
  RestakingConfig_load_of :: loader
  NcnOperatorState_load_of :: ticket_loader
  NcnVaultTicket_load_of :: ticket_loader
  VaultNcnTicket_load_of :: ticket_loader
  VaultOperatorDelegation_load_of :: ticket_loader
  Ncn_of :: "ncn_account reader"
  Operator_of :: "operator_account reader"
  Vault_of :: "vault_account reader"
  epoch_length_of :: "u64 reader"
  NcnOperatorState_of :: "ncn_operator_state reader"
  NcnVaultTicket_of :: "slot_toggle reader"
  VaultNcnTicket_of :: "slot_toggle reader"
  delegation_total_security_of :: "(u64, program_error) result reader"

text \<open>The loaders as the handlers call them, on an account of the ledger.\<close>

definition load_signer :: "runtime \<Rightarrow> account_info \<Rightarrow> bool \<Rightarrow> ledger \<Rightarrow> (unit, program_error) result" where
  "load_signer E a w L = load_signer_of E a (L (ai_key a)) w"

definition load_system_account :: "runtime \<Rightarrow> account_info \<Rightarrow> bool \<Rightarrow> ledger \<Rightarrow> (unit, program_error) result" where
  "load_system_account E a w L = load_system_account_of E a (L (ai_key a)) w"

definition load_system_program :: "runtime \<Rightarrow> account_info \<Rightarrow> (unit, program_error) result" where
  "load_system_program E a = load_system_program_of E a"

definition load_token_mint :: "runtime \<Rightarrow> account_info \<Rightarrow> ledger \<Rightarrow> (unit, program_error) result" where
  "load_token_mint E a L = load_token_mint_of E a (L (ai_key a))"

definition Ncn_load :: "runtime \<Rightarrow> account_info \<Rightarrow> bool \<Rightarrow> ledger \<Rightarrow> (unit, program_error) result" where
  "Ncn_load E a w L = Ncn_load_of E a (L (ai_key a)) w"

definition Operator_load :: "runtime \<Rightarrow> account_info \<Rightarrow> bool \<Rightarrow> ledger \<Rightarrow> (unit, program_error) result" where
  "Operator_load E a w L = Operator_load_of E a (L (ai_key a)) w"

definition Vault_load :: "runtime \<Rightarrow> account_info \<Rightarrow> bool \<Rightarrow> ledger \<Rightarrow> (unit, program_error) result" where
  "Vault_load E a w L = Vault_load_of E a (L (ai_key a)) w"

definition RestakingConfig_load :: "runtime \<Rightarrow> account_info \<Rightarrow> bool \<Rightarrow> ledger \<Rightarrow> (unit, program_error) result" where
  "RestakingConfig_load E a w L = RestakingConfig_load_of E a (L (ai_key a)) w"

definition NcnOperatorState_load ::
  "runtime \<Rightarrow> account_info \<Rightarrow> account_info \<Rightarrow> account_info \<Rightarrow> bool \<Rightarrow> ledger \<Rightarrow> (unit, program_error) result" where
  "NcnOperatorState_load E a ncn operator w L = NcnOperatorState_load_of E a (L (ai_key a)) ncn operator w"

definition NcnVaultTicket_load ::
  "runtime \<Rightarrow> account_info \<Rightarrow> account_info \<Rightarrow> account_info \<Rightarrow> bool \<Rightarrow> ledger \<Rightarrow> (unit, program_error) result" where
  "NcnVaultTicket_load E a ncn vault w L = NcnVaultTicket_load_of E a (L (ai_key a)) ncn vault w"

definition VaultNcnTicket_load ::
  "runtime \<Rightarrow> account_info \<Rightarrow> account_info \<Rightarrow> account_info \<Rightarrow> bool \<Rightarrow> ledger \<Rightarrow> (unit, program_error) result" where
  "VaultNcnTicket_load E a vault ncn w L = VaultNcnTicket_load_of E a (L (ai_key a)) vault ncn w"

definition VaultOperatorDelegation_load ::
  "runtime \<Rightarrow> account_info \<Rightarrow> account_info \<Rightarrow> account_info \<Rightarrow> bool \<Rightarrow> ledger \<Rightarrow> (unit, program_error) result" where
  "VaultOperatorDelegation_load E a vault operator w L =
     VaultOperatorDelegation_load_of E a (L (ai_key a)) vault operator w"

section \<open>The laws of the runtime\<close>

text \<open>
  A program signs for the addresses derived from it: seeds that end with the bump
  \<open>find_program_address\<close> returned sign for the address.
\<close>

definition pda_signs :: "runtime \<Rightarrow> pubkey \<Rightarrow> u8 list list \<Rightarrow> pubkey \<Rightarrow> bool" where
  "pda_signs E program_id seeds k =
     (case rev seeds of
        [b] # s \<Rightarrow> find_pda E (rev s) program_id = (k, b)
      | _ \<Rightarrow> False)"

lemma pda_signs_bump [simp]: "pda_signs E p (s @ [[b]]) k \<longleftrightarrow> find_pda E s p = (k, b)"
  by (simp add: pda_signs_def)

definition transferred :: "pubkey \<Rightarrow> pubkey \<Rightarrow> u64 \<Rightarrow> ledger \<Rightarrow> ledger" where
  "transferred from to n L =
     (let L' = set_lamports L from (lamports (L from) - n) in
      set_lamports L' to (lamports (L' to) + n))"

definition can_pay :: "pubkey \<Rightarrow> pubkey \<Rightarrow> u64 \<Rightarrow> ledger \<Rightarrow> bool" where
  "can_pay from to n L \<longleftrightarrow>
     n \<le> lamports (L from) \<and>
     (from \<noteq> to \<longrightarrow> unat (lamports (L to)) + unat n < 2 ^ 64)"

locale runtime_laws =
  fixes E :: runtime
  assumes transfer_Ok:
    "invoke_signed E p (Transfer from to n) s L = Ok L' \<Longrightarrow> can_pay from to n L \<and> L' = transferred from to n L"
  and transfer_runs:
    "pda_signs E p s from \<Longrightarrow> acc_owner (L from) = system_program_id E \<Longrightarrow>
     data_is_empty (acc_data (L from)) \<Longrightarrow> can_pay from to n L \<Longrightarrow>
     invoke_signed E p (Transfer from to n) s L = Ok (transferred from to n L)"
  and allocate_Ok:
    "invoke_signed E p (Allocate k m) s L = Ok L' \<Longrightarrow>
     acc_owner (L k) = system_program_id E \<and> data_is_empty (acc_data (L k)) \<and>
     L' = L(k := (L k)\<lparr>acc_data := Zeroed (unat m)\<rparr>)"
  and allocate_runs:
    "pda_signs E p s k \<Longrightarrow> acc_owner (L k) = system_program_id E \<Longrightarrow>
     data_is_empty (acc_data (L k)) \<Longrightarrow> m \<le> 10240 \<Longrightarrow>
     invoke_signed E p (Allocate k m) s L = Ok (L(k := (L k)\<lparr>acc_data := Zeroed (unat m)\<rparr>))"
  and assign_Ok:
    "invoke_signed E p (Assign k q) s L = Ok L' \<Longrightarrow>
     acc_owner (L k) \<in> {system_program_id E, q} \<and> L' = set_owner L k q"
  and assign_runs:
    "pda_signs E p s k \<Longrightarrow> acc_owner (L k) = system_program_id E \<Longrightarrow>
     invoke_signed E p (Assign k q) s L = Ok (set_owner L k q)"
  and realloc_Ok:
    "realloc_data E z d = Ok d' \<Longrightarrow> data_len d' = z \<and> (d' = d \<or> d' = Zeroed z \<or> (\<exists>bs. d' = Foreign bs))"
  and realloc_zeroed: "realloc_data E z (Zeroed j) = Ok d' \<Longrightarrow> d' = Zeroed z"
  and realloc_runs: "z \<le> j + 10240 \<Longrightarrow> realloc_data E z (Zeroed j) = Ok (Zeroed z)"
  and realloc_empties: "realloc_data E 0 d = Ok (Zeroed 0)"
  and signer_Ok: "load_signer_of E a acc w = Ok () \<Longrightarrow> ai_is_signer a \<and> (w \<longrightarrow> ai_is_writable a)"
  and system_account_Ok:
    "load_system_account_of E a acc w = Ok () \<Longrightarrow>
     acc_owner acc = system_program_id E \<and> data_is_empty (acc_data acc) \<and> (w \<longrightarrow> ai_is_writable a)"
  and operator_Ok: "Operator_load_of E a acc w = Ok () \<Longrightarrow> ai_key a \<noteq> Pubkey_default"
  and vault_Ok: "Vault_load_of E a acc w = Ok () \<Longrightarrow> ai_key a \<noteq> Pubkey_default"
  and vault_mint_Ok:
    "Vault_load_of E a acc w = Ok () \<Longrightarrow> Vault_of E (acc_data acc) = Ok v \<Longrightarrow>
     v_supported_mint v \<noteq> Pubkey_default"

section \<open>A reference runtime\<close>

text \<open>
  The rules of the system program, of \<open>AccountInfo::realloc\<close> and of the generic loaders over
  an arbitrary runtime: any derivation of addresses, clock, rent and restaking accounts.
  The error values of these programs are not those of this one and are kept opaque.
\<close>

definition system_invoke ::
  "runtime \<Rightarrow> pubkey \<Rightarrow> system_instruction \<Rightarrow> u8 list list \<Rightarrow> ledger \<Rightarrow> (ledger, program_error) result" where
  "system_invoke E p ix s L =
     (case ix of
        Transfer from to n \<Rightarrow>
          and_then (ensure (pda_signs E p s from) (ExternalError 0)) (\<lambda>_.
          and_then (ensure (acc_owner (L from) = system_program_id E) (ExternalError 1)) (\<lambda>_.
          and_then (ensure (data_is_empty (acc_data (L from))) (ExternalError 2)) (\<lambda>_.
          and_then (ensure (can_pay from to n L) (ExternalError 3)) (\<lambda>_.
          Ok (transferred from to n L)))))
      | Allocate k m \<Rightarrow>
          and_then (ensure (pda_signs E p s k) (ExternalError 0)) (\<lambda>_.
          and_then (ensure (acc_owner (L k) = system_program_id E \<and> data_is_empty (acc_data (L k)))
                      (ExternalError 1)) (\<lambda>_.
          and_then (ensure (m \<le> 10485760) (ExternalError 2)) (\<lambda>_.
          Ok (L(k := (L k)\<lparr>acc_data := Zeroed (unat m)\<rparr>)))))
      | Assign k q \<Rightarrow>
          if acc_owner (L k) = q then Ok L
          else
            and_then (ensure (pda_signs E p s k) (ExternalError 0)) (\<lambda>_.
            and_then (ensure (acc_owner (L k) = system_program_id E) (ExternalError 1)) (\<lambda>_.
            Ok (set_owner L k q))))"

definition resize_data :: "nat \<Rightarrow> account_data \<Rightarrow> (account_data, program_error) result" where
  "resize_data m d =
     (if m = 0 then Ok (Zeroed 0)
      else if data_len d + 10240 < m then Err (ExternalError 4)
      else case d of
        Zeroed _ \<Rightarrow> Ok (Zeroed m)
      | Foreign bs \<Rightarrow> Ok (Foreign (take m bs @ replicate (m - length bs) 0))
      | _ \<Rightarrow> if m = data_len d then Ok d
            else and_then (first_byte d) (\<lambda>b. Ok (Foreign (b # replicate (m - 1) 0))))"

definition signer_rule :: loader where
  "signer_rule a acc w =
     and_then (ensure (ai_is_signer a) (ExternalError 5)) (\<lambda>_.
     ensure (w \<longrightarrow> ai_is_writable a) (ExternalError 6))"

definition system_account_rule :: "pubkey \<Rightarrow> loader" where
  "system_account_rule sys a acc w =
     and_then (ensure (acc_owner acc = sys) InvalidAccountOwner) (\<lambda>_.
     and_then (ensure (data_is_empty (acc_data acc)) InvalidAccountData) (\<lambda>_.
     ensure (w \<longrightarrow> ai_is_writable a) InvalidAccountData))"

text \<open>No operator, vault or mint has the all-zero address, which is the system program's.\<close>

definition named_operator :: "runtime \<Rightarrow> loader" where
  "named_operator E a acc w =
     and_then (ensure (ai_key a \<noteq> Pubkey_default) InvalidAccountData) (\<lambda>_. Operator_load_of E a acc w)"

definition named_vault :: "runtime \<Rightarrow> loader" where
  "named_vault E a acc w =
     and_then (ensure (ai_key a \<noteq> Pubkey_default) InvalidAccountData) (\<lambda>_.
     and_then (Vault_of E (acc_data acc)) (\<lambda>v.
     and_then (ensure (v_supported_mint v \<noteq> Pubkey_default) InvalidAccountData) (\<lambda>_.
     Vault_load_of E a acc w)))"

definition reference_runtime :: "runtime \<Rightarrow> runtime" where
  "reference_runtime E =
     E\<lparr>invoke_signed := system_invoke E, realloc_data := resize_data,
       load_signer_of := signer_rule,
       load_system_account_of := system_account_rule (system_program_id E),
       Operator_load_of := named_operator E, Vault_load_of := named_vault E\<rparr>"

lemma resize_data_Ok:
  assumes "resize_data m d = Ok d'"
  shows "data_len d' = m \<and> (d' = d \<or> d' = Zeroed m \<or> (\<exists>bs. d' = Foreign bs))"
  using assms
  by (cases d)
    (auto simp: resize_data_def data_len_def result_simps split: if_splits)

lemma reference_runtime_sel [simp]:
  "invoke_signed (reference_runtime E) = system_invoke E"
  "realloc_data (reference_runtime E) = resize_data"
  "load_signer_of (reference_runtime E) = signer_rule"
  "load_system_account_of (reference_runtime E) = system_account_rule (system_program_id E)"
  "system_program_id (reference_runtime E) = system_program_id E"
  "find_pda (reference_runtime E) = find_pda E"
  "minimum_balance (reference_runtime E) = minimum_balance E"
  "clock_slot (reference_runtime E) = clock_slot E"
  "clock_epoch (reference_runtime E) = clock_epoch E"
  "Operator_load_of (reference_runtime E) = named_operator E"
  "Vault_load_of (reference_runtime E) = named_vault E"
  "Vault_of (reference_runtime E) = Vault_of E"
  "Operator_of (reference_runtime E) = Operator_of E"
  "Ncn_of (reference_runtime E) = Ncn_of E"
  "Ncn_load_of (reference_runtime E) = Ncn_load_of E"
  "load_system_program_of (reference_runtime E) = load_system_program_of E"
  "get_epoch (reference_runtime E) = get_epoch E"
  by (simp_all add: reference_runtime_def)

lemma pda_signs_reference [simp]: "pda_signs (reference_runtime E) = pda_signs E"
  unfolding pda_signs_def reference_runtime_sel by (rule refl)

lemma set_owner_same: "acc_owner (L k) = q \<Longrightarrow> set_owner L k q = L"
  by (auto simp: set_owner_def)

interpretation reference: runtime_laws "reference_runtime E" for E
proof (unfold_locales, goal_cases)
  case (5 p k q s L L')
  then show ?case
    by (auto simp: system_invoke_def result_simps set_owner_same split: if_splits)
next
  case (7 m d d')
  then show ?case using resize_data_Ok by simp
qed (auto simp: system_invoke_def signer_rule_def system_account_rule_def resize_data_def
    named_operator_def named_vault_def
    result_simps set_owner_same data_len_def word_le_nat_alt split: if_splits)

end
