(* ===== verification/Loaders.thy ===== *)
theory Loaders
  imports Solana_Runtime
begin

unbundle bit_operations_syntax

text \<open>
  Program derived addresses and the loaders of the account types: \<open>core/src/loaders.rs\<close>, the
  functions \<open>seeds\<close>, \<open>find_program_address\<close>, \<open>load\<close>, \<open>load_to_close\<close> and
  \<open>load_and_check_is_closing\<close> of the account types, \<open>core/src/epoch_marker.rs\<close> and
  \<open>core/src/utils.rs\<close>.  The main facts are that the seeds of different accounts never
  concatenate to the same bytes, and what a successful load says about an account.
\<close>

section \<open>Bytes\<close>

text \<open>\<open>to_le_bytes\<close> of a \<open>u64\<close>, \<open>Pubkey::to_bytes\<close>, and byte string literals.\<close>

definition to_le_bytes :: "u64 \<Rightarrow> u8 list" where
  "to_le_bytes n = map (\<lambda>i. ucast (drop_bit (8 * i) n)) [0..<8]"

definition to_bytes :: "pubkey \<Rightarrow> u8 list" where
  "to_bytes k = map (\<lambda>i. ucast (drop_bit (8 * i) k)) (rev [0..<32])"

definition byte_string :: "string \<Rightarrow> u8 list" where
  "byte_string s = map of_char s"

section \<open>Checks\<close>

definition check_load ::
  "pubkey \<Rightarrow> account_info \<Rightarrow> pubkey \<Rightarrow> Discriminators option \<Rightarrow> bool \<Rightarrow> ledger \<Rightarrow> (unit, program_error) result" where
  "check_load program_id account expected_pda expected_discriminator expect_writable L =
     and_then (ensure (acc_owner (L (ai_key account)) = program_id) InvalidAccountOwner) (\<lambda>_.
     and_then (ensure (ai_key account = expected_pda) InvalidAccountData) (\<lambda>_.
     and_then (case expected_discriminator of
                 None \<Rightarrow> Ok ()
               | Some discriminator \<Rightarrow>
                   and_then (ensure (\<not> data_is_empty (data_at L account)) InvalidAccountData) (\<lambda>_.
                   and_then (first_byte (data_at L account)) (\<lambda>b.
                   ensure (b = Discriminators_as_u8 discriminator) InvalidAccountData))) (\<lambda>_.
     ensure (\<not> (expect_writable \<and> \<not> ai_is_writable account)) InvalidAccountData)))"

definition load_ncn_epoch ::
  "runtime \<Rightarrow> account_info \<Rightarrow> u64 \<Rightarrow> u64 option \<Rightarrow> ledger \<Rightarrow> (u64 \<times> u64, program_error) result" where
  "load_ncn_epoch E restaking_config current_slot first_slot_of_ncn_epoch L =
     and_then (epoch_length_of E (data_at L restaking_config)) (\<lambda>ncn_epoch_length.
     and_then (into_program (ok_or (checked_div current_slot ncn_epoch_length) DenominatorIsZero)) (\<lambda>current_ncn_epoch.
     let ncn_epoch_slot = (case first_slot_of_ncn_epoch of Some s \<Rightarrow> s | None \<Rightarrow> current_slot) in
     and_then (into_program (ok_or (checked_div ncn_epoch_slot ncn_epoch_length) DenominatorIsZero)) (\<lambda>ncn_epoch.
     and_then (ensure (\<not> current_ncn_epoch < ncn_epoch) (program_error_of CannotCreateFutureWeightTables)) (\<lambda>_.
     Ok (ncn_epoch, ncn_epoch_length)))))"

definition get_new_size :: "nat \<Rightarrow> nat \<Rightarrow> (nat, program_error) result" where
  "get_new_size current_size new_target =
     and_then (ok_or (if current_size + unat MAX_REALLOC_BYTES < 2 ^ 64
                      then Some (current_size + unat MAX_REALLOC_BYTES) else None)
                 ProgramArithmeticOverflow) (\<lambda>n.
     Ok (min n new_target))"

definition can_operator_vote :: "ballot_box \<Rightarrow> operator_snapshot \<Rightarrow> pubkey \<Rightarrow> bool" where
  "can_operator_vote ballot_box operator_snapshot operator =
     (if did_operator_vote ballot_box operator then False
      else if stake_weight (os_stake_weights operator_snapshot) = 0 then False
      else True)"

section \<open>The accounts of the program\<close>

subsection \<open>\<open>Config\<close>\<close>

definition Config_seeds :: "pubkey \<Rightarrow> u8 list list" where
  "Config_seeds ncn = [byte_string ''config'', to_bytes ncn]"

definition Config_find_program_address ::
  "runtime \<Rightarrow> pubkey \<Rightarrow> pubkey \<Rightarrow> pubkey \<times> u8 \<times> u8 list list" where
  "Config_find_program_address E program_id ncn =
     (let seeds = Config_seeds ncn; (address, bump) = find_pda E seeds program_id in
      (address, bump, seeds))"

definition Config_load ::
  "runtime \<Rightarrow> pubkey \<Rightarrow> account_info \<Rightarrow> pubkey \<Rightarrow> bool \<Rightarrow> ledger \<Rightarrow> (unit, program_error) result" where
  "Config_load E program_id account ncn expect_writable L =
     check_load program_id account (fst (Config_find_program_address E program_id ncn))
       (Some DConfig) expect_writable L"

subsection \<open>\<open>VaultRegistry\<close>\<close>

definition VaultRegistry_seeds :: "pubkey \<Rightarrow> u8 list list" where
  "VaultRegistry_seeds ncn = [byte_string ''vault_registry'', to_bytes ncn]"

definition VaultRegistry_find_program_address ::
  "runtime \<Rightarrow> pubkey \<Rightarrow> pubkey \<Rightarrow> pubkey \<times> u8 \<times> u8 list list" where
  "VaultRegistry_find_program_address E program_id ncn =
     (let seeds = VaultRegistry_seeds ncn; (address, bump) = find_pda E seeds program_id in
      (address, bump, seeds))"

definition VaultRegistry_load ::
  "runtime \<Rightarrow> pubkey \<Rightarrow> account_info \<Rightarrow> pubkey \<Rightarrow> bool \<Rightarrow> ledger \<Rightarrow> (unit, program_error) result" where
  "VaultRegistry_load E program_id account ncn expect_writable L =
     check_load program_id account (fst (VaultRegistry_find_program_address E program_id ncn))
       (Some DVaultRegistry) expect_writable L"

subsection \<open>\<open>WeightTable\<close>\<close>

definition WeightTable_seeds :: "pubkey \<Rightarrow> u64 \<Rightarrow> u8 list list" where
  "WeightTable_seeds ncn epoch = [byte_string ''weight_table'', to_bytes ncn, to_le_bytes epoch]"

definition WeightTable_find_program_address ::
  "runtime \<Rightarrow> pubkey \<Rightarrow> pubkey \<Rightarrow> u64 \<Rightarrow> pubkey \<times> u8 \<times> u8 list list" where
  "WeightTable_find_program_address E program_id ncn epoch =
     (let seeds = WeightTable_seeds ncn epoch; (address, bump) = find_pda E seeds program_id in
      (address, bump, seeds))"

definition WeightTable_load ::
  "runtime \<Rightarrow> pubkey \<Rightarrow> account_info \<Rightarrow> pubkey \<Rightarrow> u64 \<Rightarrow> bool \<Rightarrow> ledger \<Rightarrow> (unit, program_error) result" where
  "WeightTable_load E program_id account ncn epoch expect_writable L =
     check_load program_id account (fst (WeightTable_find_program_address E program_id ncn epoch))
       (Some DWeightTable) expect_writable L"

definition WeightTable_load_to_close ::
  "runtime \<Rightarrow> pubkey \<Rightarrow> account_info \<Rightarrow> pubkey \<Rightarrow> u64 \<Rightarrow> ledger \<Rightarrow> (unit, program_error) result" where
  "WeightTable_load_to_close E program_id account_to_close ncn epoch L =
     WeightTable_load E program_id account_to_close ncn epoch True L"

subsection \<open>\<open>EpochSnapshot\<close>\<close>

definition EpochSnapshot_seeds :: "pubkey \<Rightarrow> u64 \<Rightarrow> u8 list list" where
  "EpochSnapshot_seeds ncn epoch = [byte_string ''epoch_snapshot'', to_bytes ncn, to_le_bytes epoch]"

definition EpochSnapshot_find_program_address ::
  "runtime \<Rightarrow> pubkey \<Rightarrow> pubkey \<Rightarrow> u64 \<Rightarrow> pubkey \<times> u8 \<times> u8 list list" where
  "EpochSnapshot_find_program_address E program_id ncn epoch =
     (let seeds = EpochSnapshot_seeds ncn epoch; (address, bump) = find_pda E seeds program_id in
      (address, bump, seeds))"

definition EpochSnapshot_load ::
  "runtime \<Rightarrow> pubkey \<Rightarrow> account_info \<Rightarrow> pubkey \<Rightarrow> u64 \<Rightarrow> bool \<Rightarrow> ledger \<Rightarrow> (unit, program_error) result" where
  "EpochSnapshot_load E program_id account ncn epoch expect_writable L =
     check_load program_id account (fst (EpochSnapshot_find_program_address E program_id ncn epoch))
       (Some DEpochSnapshot) expect_writable L"

definition EpochSnapshot_load_to_close ::
  "runtime \<Rightarrow> pubkey \<Rightarrow> account_info \<Rightarrow> pubkey \<Rightarrow> u64 \<Rightarrow> ledger \<Rightarrow> (unit, program_error) result" where
  "EpochSnapshot_load_to_close E program_id account_to_close ncn epoch L =
     EpochSnapshot_load E program_id account_to_close ncn epoch True L"

subsection \<open>\<open>OperatorSnapshot\<close>\<close>

definition OperatorSnapshot_seeds :: "pubkey \<Rightarrow> pubkey \<Rightarrow> u64 \<Rightarrow> u8 list list" where
  "OperatorSnapshot_seeds operator ncn epoch = [byte_string ''operator_snapshot'', to_bytes operator, to_bytes ncn, to_le_bytes epoch]"

definition OperatorSnapshot_find_program_address ::
  "runtime \<Rightarrow> pubkey \<Rightarrow> pubkey \<Rightarrow> pubkey \<Rightarrow> u64 \<Rightarrow> pubkey \<times> u8 \<times> u8 list list" where
  "OperatorSnapshot_find_program_address E program_id operator ncn epoch =
     (let seeds = OperatorSnapshot_seeds operator ncn epoch; (address, bump) = find_pda E seeds program_id in
      (address, bump, seeds))"

definition OperatorSnapshot_load ::
  "runtime \<Rightarrow> pubkey \<Rightarrow> account_info \<Rightarrow> pubkey \<Rightarrow> pubkey \<Rightarrow> u64 \<Rightarrow> bool \<Rightarrow> ledger \<Rightarrow> (unit, program_error) result" where
  "OperatorSnapshot_load E program_id account operator ncn epoch expect_writable L =
     check_load program_id account (fst (OperatorSnapshot_find_program_address E program_id operator ncn epoch))
       (Some DOperatorSnapshot) expect_writable L"

definition OperatorSnapshot_load_to_close ::
  "runtime \<Rightarrow> pubkey \<Rightarrow> account_info \<Rightarrow> pubkey \<Rightarrow> u64 \<Rightarrow> ledger \<Rightarrow> (unit, program_error) result" where
  "OperatorSnapshot_load_to_close E program_id account_to_close ncn epoch L =
     and_then (OperatorSnapshot_of (data_at L account_to_close)) (\<lambda>account_struct.
     OperatorSnapshot_load E program_id account_to_close (os_operator account_struct) ncn epoch True L)"

subsection \<open>\<open>BallotBox\<close>\<close>

definition BallotBox_seeds :: "pubkey \<Rightarrow> u64 \<Rightarrow> u8 list list" where
  "BallotBox_seeds ncn epoch = [byte_string ''ballot_box'', to_bytes ncn, to_le_bytes epoch]"

definition BallotBox_find_program_address ::
  "runtime \<Rightarrow> pubkey \<Rightarrow> pubkey \<Rightarrow> u64 \<Rightarrow> pubkey \<times> u8 \<times> u8 list list" where
  "BallotBox_find_program_address E program_id ncn epoch =
     (let seeds = BallotBox_seeds ncn epoch; (address, bump) = find_pda E seeds program_id in
      (address, bump, seeds))"

definition BallotBox_load ::
  "runtime \<Rightarrow> pubkey \<Rightarrow> account_info \<Rightarrow> pubkey \<Rightarrow> u64 \<Rightarrow> bool \<Rightarrow> ledger \<Rightarrow> (unit, program_error) result" where
  "BallotBox_load E program_id account ncn epoch expect_writable L =
     check_load program_id account (fst (BallotBox_find_program_address E program_id ncn epoch))
       (Some DBallotBox) expect_writable L"

definition BallotBox_load_to_close ::
  "runtime \<Rightarrow> pubkey \<Rightarrow> account_info \<Rightarrow> pubkey \<Rightarrow> u64 \<Rightarrow> ledger \<Rightarrow> (unit, program_error) result" where
  "BallotBox_load_to_close E program_id account_to_close ncn epoch L =
     BallotBox_load E program_id account_to_close ncn epoch True L"

subsection \<open>\<open>ConsensusResult\<close>\<close>

definition ConsensusResult_seeds :: "pubkey \<Rightarrow> u64 \<Rightarrow> u8 list list" where
  "ConsensusResult_seeds ncn epoch = [byte_string ''consensus-result'', to_bytes ncn, to_le_bytes epoch]"

definition ConsensusResult_find_program_address ::
  "runtime \<Rightarrow> pubkey \<Rightarrow> pubkey \<Rightarrow> u64 \<Rightarrow> pubkey \<times> u8 \<times> u8 list list" where
  "ConsensusResult_find_program_address E program_id ncn epoch =
     (let seeds = ConsensusResult_seeds ncn epoch; (address, bump) = find_pda E seeds program_id in
      (address, bump, seeds))"

definition ConsensusResult_load ::
  "runtime \<Rightarrow> pubkey \<Rightarrow> account_info \<Rightarrow> pubkey \<Rightarrow> u64 \<Rightarrow> bool \<Rightarrow> ledger \<Rightarrow> (unit, program_error) result" where
  "ConsensusResult_load E program_id account ncn epoch expect_writable L =
     check_load program_id account (fst (ConsensusResult_find_program_address E program_id ncn epoch))
       (Some DConsensusResult) expect_writable L"

subsection \<open>\<open>NCNRewardRouter\<close>\<close>

definition NCNRewardRouter_seeds :: "pubkey \<Rightarrow> u64 \<Rightarrow> u8 list list" where
  "NCNRewardRouter_seeds ncn epoch = [byte_string ''ncn_reward_router'', to_bytes ncn, to_le_bytes epoch]"

definition NCNRewardRouter_find_program_address ::
  "runtime \<Rightarrow> pubkey \<Rightarrow> pubkey \<Rightarrow> u64 \<Rightarrow> pubkey \<times> u8 \<times> u8 list list" where
  "NCNRewardRouter_find_program_address E program_id ncn epoch =
     (let seeds = NCNRewardRouter_seeds ncn epoch; (address, bump) = find_pda E seeds program_id in
      (address, bump, seeds))"

definition NCNRewardRouter_load ::
  "runtime \<Rightarrow> pubkey \<Rightarrow> account_info \<Rightarrow> pubkey \<Rightarrow> u64 \<Rightarrow> bool \<Rightarrow> ledger \<Rightarrow> (unit, program_error) result" where
  "NCNRewardRouter_load E program_id account ncn epoch expect_writable L =
     check_load program_id account (fst (NCNRewardRouter_find_program_address E program_id ncn epoch))
       (Some DNCNRewardRouter) expect_writable L"

definition NCNRewardRouter_load_to_close ::
  "runtime \<Rightarrow> pubkey \<Rightarrow> account_info \<Rightarrow> pubkey \<Rightarrow> u64 \<Rightarrow> ledger \<Rightarrow> (unit, program_error) result" where
  "NCNRewardRouter_load_to_close E program_id account_to_close ncn epoch L =
     NCNRewardRouter_load E program_id account_to_close ncn epoch True L"

subsection \<open>\<open>NCNRewardReceiver\<close>\<close>

definition NCNRewardReceiver_seeds :: "pubkey \<Rightarrow> u64 \<Rightarrow> u8 list list" where
  "NCNRewardReceiver_seeds ncn epoch = [byte_string ''ncn_reward_receiver'', to_bytes ncn, to_le_bytes epoch]"

definition NCNRewardReceiver_find_program_address ::
  "runtime \<Rightarrow> pubkey \<Rightarrow> pubkey \<Rightarrow> u64 \<Rightarrow> pubkey \<times> u8 \<times> u8 list list" where
  "NCNRewardReceiver_find_program_address E program_id ncn epoch =
     (let seeds = NCNRewardReceiver_seeds ncn epoch; (address, bump) = find_pda E seeds program_id in
      (address, bump, seeds))"

definition NCNRewardReceiver_load ::
  "runtime \<Rightarrow> pubkey \<Rightarrow> account_info \<Rightarrow> pubkey \<Rightarrow> u64 \<Rightarrow> bool \<Rightarrow> ledger \<Rightarrow> (unit, program_error) result" where
  "NCNRewardReceiver_load E program_id account ncn epoch expect_writable L =
     check_load (system_program_id E) account (fst (NCNRewardReceiver_find_program_address E program_id ncn epoch))
       None expect_writable L"

definition NCNRewardReceiver_load_to_close ::
  "runtime \<Rightarrow> pubkey \<Rightarrow> account_info \<Rightarrow> pubkey \<Rightarrow> u64 \<Rightarrow> ledger \<Rightarrow> (unit, program_error) result" where
  "NCNRewardReceiver_load_to_close E program_id account_to_close ncn epoch L =
     NCNRewardReceiver_load E program_id account_to_close ncn epoch True L"

subsection \<open>\<open>OperatorVaultRewardRouter\<close>\<close>

definition OperatorVaultRewardRouter_seeds :: "pubkey \<Rightarrow> pubkey \<Rightarrow> u64 \<Rightarrow> u8 list list" where
  "OperatorVaultRewardRouter_seeds operator ncn epoch = [byte_string ''operator_vault_reward_route'', to_bytes operator, to_bytes ncn, to_le_bytes epoch]"

definition OperatorVaultRewardRouter_find_program_address ::
  "runtime \<Rightarrow> pubkey \<Rightarrow> pubkey \<Rightarrow> pubkey \<Rightarrow> u64 \<Rightarrow> pubkey \<times> u8 \<times> u8 list list" where
  "OperatorVaultRewardRouter_find_program_address E program_id operator ncn epoch =
     (let seeds = OperatorVaultRewardRouter_seeds operator ncn epoch; (address, bump) = find_pda E seeds program_id in
      (address, bump, seeds))"

definition OperatorVaultRewardRouter_load ::
  "runtime \<Rightarrow> pubkey \<Rightarrow> account_info \<Rightarrow> pubkey \<Rightarrow> pubkey \<Rightarrow> u64 \<Rightarrow> bool \<Rightarrow> ledger \<Rightarrow> (unit, program_error) result" where
  "OperatorVaultRewardRouter_load E program_id account operator ncn epoch expect_writable L =
     check_load program_id account (fst (OperatorVaultRewardRouter_find_program_address E program_id operator ncn epoch))
       (Some DOperatorVaultRewardRouter) expect_writable L"

definition OperatorVaultRewardRouter_load_to_close ::
  "runtime \<Rightarrow> pubkey \<Rightarrow> account_info \<Rightarrow> pubkey \<Rightarrow> u64 \<Rightarrow> ledger \<Rightarrow> (unit, program_error) result" where
  "OperatorVaultRewardRouter_load_to_close E program_id account_to_close ncn epoch L =
     and_then (OperatorVaultRewardRouter_of (data_at L account_to_close)) (\<lambda>account_struct.
     OperatorVaultRewardRouter_load E program_id account_to_close (or_operator account_struct) ncn epoch True L)"

subsection \<open>\<open>OperatorVaultRewardReceiver\<close>\<close>

definition OperatorVaultRewardReceiver_seeds :: "pubkey \<Rightarrow> pubkey \<Rightarrow> u64 \<Rightarrow> u8 list list" where
  "OperatorVaultRewardReceiver_seeds operator ncn epoch = [byte_string ''operator_vault_reward_receiver'', to_bytes operator, to_bytes ncn, to_le_bytes epoch]"

definition OperatorVaultRewardReceiver_find_program_address ::
  "runtime \<Rightarrow> pubkey \<Rightarrow> pubkey \<Rightarrow> pubkey \<Rightarrow> u64 \<Rightarrow> pubkey \<times> u8 \<times> u8 list list" where
  "OperatorVaultRewardReceiver_find_program_address E program_id operator ncn epoch =
     (let seeds = OperatorVaultRewardReceiver_seeds operator ncn epoch; (address, bump) = find_pda E seeds program_id in
      (address, bump, seeds))"

definition OperatorVaultRewardReceiver_load ::
  "runtime \<Rightarrow> pubkey \<Rightarrow> account_info \<Rightarrow> pubkey \<Rightarrow> pubkey \<Rightarrow> u64 \<Rightarrow> bool \<Rightarrow> ledger \<Rightarrow> (unit, program_error) result" where
  "OperatorVaultRewardReceiver_load E program_id account operator ncn epoch expect_writable L =
     check_load (system_program_id E) account (fst (OperatorVaultRewardReceiver_find_program_address E program_id operator ncn epoch))
       None expect_writable L"

subsection \<open>\<open>EpochState\<close>\<close>

definition EpochState_seeds :: "pubkey \<Rightarrow> u64 \<Rightarrow> u8 list list" where
  "EpochState_seeds ncn epoch = [byte_string ''epoch_state'', to_bytes ncn, to_le_bytes epoch]"

definition EpochState_find_program_address ::
  "runtime \<Rightarrow> pubkey \<Rightarrow> pubkey \<Rightarrow> u64 \<Rightarrow> pubkey \<times> u8 \<times> u8 list list" where
  "EpochState_find_program_address E program_id ncn epoch =
     (let seeds = EpochState_seeds ncn epoch; (address, bump) = find_pda E seeds program_id in
      (address, bump, seeds))"

definition EpochState_load ::
  "runtime \<Rightarrow> pubkey \<Rightarrow> account_info \<Rightarrow> pubkey \<Rightarrow> u64 \<Rightarrow> bool \<Rightarrow> ledger \<Rightarrow> (unit, program_error) result" where
  "EpochState_load E program_id account ncn epoch expect_writable L =
     check_load program_id account (fst (EpochState_find_program_address E program_id ncn epoch))
       (Some DEpochState) expect_writable L"

definition EpochState_load_and_check_is_closing ::
  "runtime \<Rightarrow> pubkey \<Rightarrow> account_info \<Rightarrow> pubkey \<Rightarrow> u64 \<Rightarrow> bool \<Rightarrow> ledger \<Rightarrow> (unit, program_error) result" where
  "EpochState_load_and_check_is_closing E program_id account ncn epoch expect_writable L =
     and_then (EpochState_of (data_at L account)) (\<lambda>account_struct.
     and_then (ensure (\<not> est_is_closing account_struct) (program_error_of EpochIsClosingDown)) (\<lambda>_.
     EpochState_load E program_id account ncn epoch expect_writable L))"

subsection \<open>\<open>AccountPayer\<close>\<close>

definition AccountPayer_seeds :: "pubkey \<Rightarrow> u8 list list" where
  "AccountPayer_seeds ncn = [byte_string ''account_payer'', to_bytes ncn, to_bytes ncn]"

definition AccountPayer_find_program_address ::
  "runtime \<Rightarrow> pubkey \<Rightarrow> pubkey \<Rightarrow> pubkey \<times> u8 \<times> u8 list list" where
  "AccountPayer_find_program_address E program_id ncn =
     (let seeds = AccountPayer_seeds ncn; (address, bump) = find_pda E seeds program_id in
      (address, bump, seeds))"

definition AccountPayer_load ::
  "runtime \<Rightarrow> pubkey \<Rightarrow> account_info \<Rightarrow> pubkey \<Rightarrow> bool \<Rightarrow> ledger \<Rightarrow> (unit, program_error) result" where
  "AccountPayer_load E program_id account ncn expect_writable L =
     check_load (system_program_id E) account (fst (AccountPayer_find_program_address E program_id ncn))
       None expect_writable L"

subsection \<open>\<open>EpochMarker\<close>\<close>

definition EpochMarker_seeds :: "pubkey \<Rightarrow> u64 \<Rightarrow> u8 list list" where
  "EpochMarker_seeds ncn epoch = [byte_string ''epoch_marker'', to_bytes ncn, to_le_bytes epoch, to_bytes ncn]"

definition EpochMarker_find_program_address ::
  "runtime \<Rightarrow> pubkey \<Rightarrow> pubkey \<Rightarrow> u64 \<Rightarrow> pubkey \<times> u8 \<times> u8 list list" where
  "EpochMarker_find_program_address E program_id ncn epoch =
     (let seeds = EpochMarker_seeds ncn epoch; (address, bump) = find_pda E seeds program_id in
      (address, bump, seeds))"

definition EpochMarker_check_dne ::
  "runtime \<Rightarrow> pubkey \<Rightarrow> account_info \<Rightarrow> pubkey \<Rightarrow> u64 \<Rightarrow> ledger \<Rightarrow> (unit, program_error) result" where
  "EpochMarker_check_dne E program_id account ncn epoch L =
     and_then (ensure (fst (EpochMarker_find_program_address E program_id ncn epoch) = ai_key account)
                 InvalidSeeds) (\<lambda>_.
     ensure (\<not> 0 < data_len (data_at L account)) (program_error_of MarkerExists))"

section \<open>What a load establishes\<close>

lemmas load_defs = Config_load_def VaultRegistry_load_def WeightTable_load_def
  EpochSnapshot_load_def OperatorSnapshot_load_def BallotBox_load_def ConsensusResult_load_def
  NCNRewardRouter_load_def NCNRewardReceiver_load_def OperatorVaultRewardRouter_load_def
  OperatorVaultRewardReceiver_load_def EpochState_load_def AccountPayer_load_def

lemmas load_to_close_defs = WeightTable_load_to_close_def EpochSnapshot_load_to_close_def
  OperatorSnapshot_load_to_close_def BallotBox_load_to_close_def NCNRewardRouter_load_to_close_def
  NCNRewardReceiver_load_to_close_def OperatorVaultRewardRouter_load_to_close_def

lemma check_load_Ok [result_simps]:
  "check_load p a pda disc w L = Ok u \<longleftrightarrow>
     acc_owner (L (ai_key a)) = p \<and> ai_key a = pda \<and> (w \<longrightarrow> ai_is_writable a) \<and>
     (\<forall>t. disc = Some t \<longrightarrow>
        \<not> data_is_empty (data_at L a) \<and>
        first_byte (data_at L a) = (Ok (Discriminators_as_u8 t) :: (u8, program_error) result))"
  by (cases disc) (auto simp: check_load_def result_simps)

lemma Discriminators_as_u8_eq [simp]: "Discriminators_as_u8 s = Discriminators_as_u8 t \<longleftrightarrow> s = t"
  by (cases s; cases t) simp_all

lemma Discriminators_as_u8_not_0 [simp]: "Discriminators_as_u8 t \<noteq> 0"
  by (cases t) simp_all

lemma size_of_type_pos [simp]: "0 < size_of_type t"
  by (cases t) (simp_all add: account_sizes)

lemma typed_not_empty [simp]: "discriminator_of d = Some t \<Longrightarrow> \<not> data_is_empty d"
  using size_of_type_pos [of t] by (simp add: data_is_empty_def data_len_def)

lemma first_byte_typed [simp]: "discriminator_of d = Some t \<Longrightarrow> first_byte d = Ok (Discriminators_as_u8 t)"
  by (simp add: first_byte_def)

text \<open>
  The first byte decides the type: data that starts with a discriminator and is not foreign
  is of that type, so accounts loaded as different types are different accounts.
\<close>

lemma first_byte_decides:
  assumes "first_byte d = Ok (Discriminators_as_u8 t)"
  shows "discriminator_of d = Some t \<or> (\<exists>bs. d = Foreign bs)"
proof (cases "discriminator_of d")
  case None
  then have "(\<exists>n. d = Zeroed n) \<or> (\<exists>bs. d = Foreign bs)" by (cases d) simp_all
  then show ?thesis
    using assms Discriminators_as_u8_not_0 [of t] by (auto simp: first_byte_def split: if_splits)
qed (use assms in simp)

lemma EpochState_load_and_check_Ok:
  "EpochState_load_and_check_is_closing E p a ncn epoch w L = Ok u \<longleftrightarrow>
     (\<exists>es. data_at L a = EpochStateData es \<and> \<not> est_is_closing es) \<and>
     EpochState_load E p a ncn epoch w L = Ok ()"
  by (auto simp: EpochState_load_and_check_is_closing_def result_simps)

lemma EpochMarker_check_dne_Ok [result_simps]:
  "EpochMarker_check_dne E p a ncn epoch L = Ok u \<longleftrightarrow>
     ai_key a = fst (EpochMarker_find_program_address E p ncn epoch) \<and> data_is_empty (data_at L a)"
  by (auto simp: EpochMarker_check_dne_def result_simps data_is_empty_def)

lemma load_ncn_epoch_None:
  "load_ncn_epoch E a slot None L =
     and_then (epoch_length_of E (data_at L a)) (\<lambda>n.
     if n = 0 then Err (program_error_of DenominatorIsZero) else Ok (slot div n, n))"
  by (cases "epoch_length_of E (data_at L a)")
    (simp_all add: load_ncn_epoch_def checked_div_def)

text \<open>Reallocation never shrinks, grows by at most the limit and stops at the target.\<close>

lemma get_new_size_Ok [result_simps]:
  "get_new_size cur tgt = Ok n \<longleftrightarrow> cur + 10240 < 2 ^ 64 \<and> n = min (cur + 10240) tgt"
  by (auto simp: get_new_size_def MAX_REALLOC_BYTES_def result_simps)

section \<open>Addresses\<close>

text \<open>
  Every account the program derives an address for.  The runtime hashes the concatenation of
  the seeds, so addresses of different accounts can only be kept apart if the concatenations
  differ.
\<close>

datatype account_id =
    ConfigId pubkey | VaultRegistryId pubkey | AccountPayerId pubkey
  | WeightTableId pubkey u64 | EpochSnapshotId pubkey u64 | BallotBoxId pubkey u64
  | ConsensusResultId pubkey u64 | NCNRewardRouterId pubkey u64 | NCNRewardReceiverId pubkey u64
  | EpochStateId pubkey u64 | EpochMarkerId pubkey u64
  | OperatorSnapshotId pubkey pubkey u64 | OperatorVaultRewardRouterId pubkey pubkey u64
  | OperatorVaultRewardReceiverId pubkey pubkey u64

fun seeds_of :: "account_id \<Rightarrow> u8 list list" where
  "seeds_of (ConfigId n) = Config_seeds n"
| "seeds_of (VaultRegistryId n) = VaultRegistry_seeds n"
| "seeds_of (AccountPayerId n) = AccountPayer_seeds n"
| "seeds_of (WeightTableId n e) = WeightTable_seeds n e"
| "seeds_of (EpochSnapshotId n e) = EpochSnapshot_seeds n e"
| "seeds_of (BallotBoxId n e) = BallotBox_seeds n e"
| "seeds_of (ConsensusResultId n e) = ConsensusResult_seeds n e"
| "seeds_of (NCNRewardRouterId n e) = NCNRewardRouter_seeds n e"
| "seeds_of (NCNRewardReceiverId n e) = NCNRewardReceiver_seeds n e"
| "seeds_of (EpochStateId n e) = EpochState_seeds n e"
| "seeds_of (EpochMarkerId n e) = EpochMarker_seeds n e"
| "seeds_of (OperatorSnapshotId p n e) = OperatorSnapshot_seeds p n e"
| "seeds_of (OperatorVaultRewardRouterId p n e) = OperatorVaultRewardRouter_seeds p n e"
| "seeds_of (OperatorVaultRewardReceiverId p n e) = OperatorVaultRewardReceiver_seeds p n e"

lemmas seeds_defs = Config_seeds_def VaultRegistry_seeds_def AccountPayer_seeds_def
  WeightTable_seeds_def EpochSnapshot_seeds_def BallotBox_seeds_def ConsensusResult_seeds_def
  NCNRewardRouter_seeds_def NCNRewardReceiver_seeds_def EpochState_seeds_def EpochMarker_seeds_def
  OperatorSnapshot_seeds_def OperatorVaultRewardRouter_seeds_def
  OperatorVaultRewardReceiver_seeds_def

lemma bit_of_byte:
  fixes w :: "'a :: len word"
  assumes "i < n * 8"
  shows "bit w i = bit (ucast (drop_bit (8 * (i div 8)) w) :: u8) (i mod 8)"
  using assms by (simp add: bit_ucast_iff bit_drop_bit_eq)

lemma to_le_bytes_inject [simp]: "to_le_bytes a = to_le_bytes b \<longleftrightarrow> a = b"
proof
  assume eq: "to_le_bytes a = to_le_bytes b"
  have byte: "(ucast (drop_bit (8 * i) a) :: u8) = ucast (drop_bit (8 * i) b)" if "i < 8" for i
    using eq that by (auto simp: to_le_bytes_def)
  show "a = b"
  proof (rule bit_word_eqI)
    fix i assume i: "i < LENGTH(64)"
    then have "i < 8 * 8" "i div 8 < 8" by auto
    with byte show "bit a i = bit b i" using bit_of_byte [of i 8] by metis
  qed
qed simp

lemma to_bytes_inject [simp]: "to_bytes a = to_bytes b \<longleftrightarrow> a = b"
proof
  assume eq: "to_bytes a = to_bytes b"
  have byte: "(ucast (drop_bit (8 * i) a) :: u8) = ucast (drop_bit (8 * i) b)" if "i < 32" for i
    using eq that by (auto simp: to_bytes_def)
  show "a = b"
  proof (rule bit_word_eqI)
    fix i assume i: "i < LENGTH(256)"
    then have "i < 32 * 8" "i div 8 < 32" by auto
    with byte show "bit a i = bit b i" using bit_of_byte [of i 32] by metis
  qed
qed simp

lemma length_to_bytes [simp]: "length (to_bytes k) = 32" and length_to_le_bytes [simp]: "length (to_le_bytes n) = 8"
  by (simp_all add: to_bytes_def to_le_bytes_def)

lemma length_byte_string [simp]: "length (byte_string s) = length s"
  by (simp add: byte_string_def)

text \<open>The total length of the seeds tells the type of the account.\<close>

fun seed_length :: "account_id \<Rightarrow> nat" where
  "seed_length (ConfigId _) = 38"
| "seed_length (VaultRegistryId _) = 46"
| "seed_length (BallotBoxId _ _) = 50"
| "seed_length (EpochStateId _ _) = 51"
| "seed_length (WeightTableId _ _) = 52"
| "seed_length (EpochSnapshotId _ _) = 54"
| "seed_length (ConsensusResultId _ _) = 56"
| "seed_length (NCNRewardRouterId _ _) = 57"
| "seed_length (NCNRewardReceiverId _ _) = 59"
| "seed_length (AccountPayerId _) = 77"
| "seed_length (EpochMarkerId _ _) = 84"
| "seed_length (OperatorSnapshotId _ _ _) = 89"
| "seed_length (OperatorVaultRewardRouterId _ _ _) = 99"
| "seed_length (OperatorVaultRewardReceiverId _ _ _) = 102"

lemma length_seeds: "length (concat (seeds_of a)) = seed_length a"
  by (cases a) (simp_all add: seeds_defs)

lemma concat_seeds_inject: "concat (seeds_of a) = concat (seeds_of b) \<longleftrightarrow> a = b"
proof
  assume eq: "concat (seeds_of a) = concat (seeds_of b)"
  then have "seed_length a = seed_length b" by (metis length_seeds)
  with eq show "a = b" by (cases a; cases b) (simp_all add: seeds_defs)
qed simp

end
