(* ===== verification/Account_Payer.thy ===== *)
theory Account_Payer
  imports Loaders
begin

text \<open>
  \<open>core/src/account_payer.rs\<close> and the two reward receivers: the payer is an uninitialized
  address of the program that holds the lamports for rent; accounts are created, grown and
  closed through it.  Receivers hold the rewards of an epoch until they are distributed.

  That these operations are actions of an account machine that neither creates nor destroys
  lamports is shown in \<open>Handlers_Refine\<close>, and that repeated growth completes in
  \<open>Account_Lifecycle\<close>.
\<close>

section \<open>The payer\<close>

definition AccountPayer_transfer ::
  "runtime \<Rightarrow> pubkey \<Rightarrow> pubkey \<Rightarrow> account_info \<Rightarrow> account_info \<Rightarrow> u64 \<Rightarrow> ledger \<Rightarrow>
   (ledger, program_error) result" where
  "AccountPayer_transfer E program_id ncn account_payer to n L =
     (let (account_payer_address, bump, seeds) = AccountPayer_find_program_address E program_id ncn in
      and_then (ensure (account_payer_address = ai_key account_payer) InvalidAccountData) (\<lambda>_.
      invoke_signed E program_id (Transfer account_payer_address (ai_key to) n) (seeds @ [[bump]]) L))"

definition pay_and_create_account ::
  "runtime \<Rightarrow> pubkey \<Rightarrow> pubkey \<Rightarrow> account_info \<Rightarrow> account_info \<Rightarrow> pubkey \<Rightarrow> nat \<Rightarrow> u8 list list \<Rightarrow>
   ledger \<Rightarrow> (ledger, program_error) result" where
  "pay_and_create_account E program_id ncn account_payer new_account program_owner space seeds L =
     (let minimum = minimum_balance E space;
          required_lamports = saturating_sub minimum (lamports_at L new_account) in
      and_then (if 0 < required_lamports
                then AccountPayer_transfer E program_id ncn account_payer new_account required_lamports L
                else Ok L) (\<lambda>L.
      let space = min (word_of_nat space) MAX_REALLOC_BYTES in
      and_then (invoke_signed E program_id (Allocate (ai_key new_account) space) seeds L) (\<lambda>L.
      invoke_signed E program_id (Assign (ai_key new_account) program_owner) seeds L)))"

definition pay_and_realloc ::
  "runtime \<Rightarrow> pubkey \<Rightarrow> pubkey \<Rightarrow> account_info \<Rightarrow> account_info \<Rightarrow> nat \<Rightarrow> ledger \<Rightarrow>
   (ledger, program_error) result" where
  "pay_and_realloc E program_id ncn account_payer account new_size L =
     (let new_minimum_balance = minimum_balance E new_size;
          required_lamports = saturating_sub new_minimum_balance (lamports_at L account) in
      and_then (if 0 < required_lamports
                then AccountPayer_transfer E program_id ncn account_payer account required_lamports L
                else Ok L) (\<lambda>L.
      and_then (realloc_data E new_size (data_at L account)) (\<lambda>d.
      Ok (set_data L account d))))"

definition close_account ::
  "runtime \<Rightarrow> pubkey \<Rightarrow> account_info \<Rightarrow> account_info \<Rightarrow> ledger \<Rightarrow> (ledger, program_error) result" where
  "close_account E program_id account_payer account_to_close L =
     and_then (ensure (\<not> acc_owner (L (ai_key account_to_close)) \<noteq> program_id) IllegalOwner) (\<lambda>_.
     and_then (ok_or (checked_add (lamports_at L account_payer) (lamports_at L account_to_close))
                 ProgramArithmeticOverflow) (\<lambda>n.
     let L = set_lamports L (ai_key account_payer) n;
         L = set_lamports L (ai_key account_to_close) 0;
         L = set_owner L (ai_key account_to_close) (system_program_id E) in
     and_then (realloc_data E 0 (data_at L account_to_close)) (\<lambda>d.
     Ok (set_data L account_to_close d))))"

section \<open>The receivers\<close>

definition NCNRewardReceiver_transfer ::
  "runtime \<Rightarrow> pubkey \<Rightarrow> pubkey \<Rightarrow> u64 \<Rightarrow> account_info \<Rightarrow> account_info \<Rightarrow> u64 \<Rightarrow> ledger \<Rightarrow>
   (ledger, program_error) result" where
  "NCNRewardReceiver_transfer E program_id ncn epoch ncn_reward_receiver to n L =
     (let (address, bump, seeds) = NCNRewardReceiver_find_program_address E program_id ncn epoch in
      and_then (ensure (address = ai_key ncn_reward_receiver) InvalidAccountData) (\<lambda>_.
      invoke_signed E program_id (Transfer address (ai_key to) n) (seeds @ [[bump]]) L))"

definition NCNRewardReceiver_close ::
  "runtime \<Rightarrow> pubkey \<Rightarrow> pubkey \<Rightarrow> u64 \<Rightarrow> account_info \<Rightarrow> account_info \<Rightarrow> account_info \<Rightarrow> ledger \<Rightarrow>
   (ledger, program_error) result" where
  "NCNRewardReceiver_close E program_id ncn epoch ncn_reward_receiver ncn_fee_wallet account_payer L =
     (let min_rent = minimum_balance E 0;
          delta_lamports = saturating_sub (lamports_at L ncn_reward_receiver) min_rent in
      and_then (if 0 < delta_lamports
                then NCNRewardReceiver_transfer E program_id ncn epoch ncn_reward_receiver
                       ncn_fee_wallet delta_lamports L
                else Ok L) (\<lambda>L.
      NCNRewardReceiver_transfer E program_id ncn epoch ncn_reward_receiver account_payer min_rent L))"

definition OperatorVaultRewardReceiver_transfer ::
  "runtime \<Rightarrow> pubkey \<Rightarrow> pubkey \<Rightarrow> pubkey \<Rightarrow> u64 \<Rightarrow> account_info \<Rightarrow> account_info \<Rightarrow> u64 \<Rightarrow> ledger \<Rightarrow>
   (ledger, program_error) result" where
  "OperatorVaultRewardReceiver_transfer E program_id operator ncn epoch receiver to n L =
     (let (address, bump, seeds) =
            OperatorVaultRewardReceiver_find_program_address E program_id operator ncn epoch in
      and_then (ensure (address = ai_key receiver) InvalidAccountData) (\<lambda>_.
      invoke_signed E program_id (Transfer address (ai_key to) n) (seeds @ [[bump]]) L))"

definition OperatorVaultRewardReceiver_close ::
  "runtime \<Rightarrow> pubkey \<Rightarrow> pubkey \<Rightarrow> pubkey \<Rightarrow> u64 \<Rightarrow> account_info \<Rightarrow> account_info \<Rightarrow> account_info \<Rightarrow>
   ledger \<Rightarrow> (ledger, program_error) result" where
  "OperatorVaultRewardReceiver_close E program_id operator ncn epoch receiver dao_wallet account_payer L =
     (let min_rent = minimum_balance E 0;
          delta_lamports = saturating_sub (lamports_at L receiver) min_rent in
      and_then (if 0 < delta_lamports
                then OperatorVaultRewardReceiver_transfer E program_id operator ncn epoch receiver
                       dao_wallet delta_lamports L
                else Ok L) (\<lambda>L.
      OperatorVaultRewardReceiver_transfer E program_id operator ncn epoch receiver account_payer
        min_rent L))"

end
