(* ===== verification/Handlers_Config.thy ===== *)
theory Handlers_Config
  imports Account_Payer
begin

text \<open>
  The instruction processors of \<open>program/src\<close> that set up and administer an NCN: the
  configuration, the vault registry, and the admin instructions on weight tables and ballot
  boxes.  Each takes the runtime, the arithmetic of \<open>PreciseNumber\<close> where it is used, the
  program id, the accounts and the instruction's arguments, and returns the new ledger.
  Messages are not modelled.
\<close>

section \<open>Growing an account\<close>

text \<open>
  The two steps that every \<open>realloc\<close> processor starts with: an account smaller than its type
  grows by one reallocation; it is to be initialized once it is large enough and does not
  carry the discriminator yet.
\<close>

definition grow_account ::
  "runtime \<Rightarrow> pubkey \<Rightarrow> pubkey \<Rightarrow> account_info \<Rightarrow> account_info \<Rightarrow> Discriminators \<Rightarrow> ledger \<Rightarrow>
   (ledger, program_error) result" where
  "grow_account E program_id ncn account_payer account t L =
     (if data_len (data_at L account) < size_of_type t
      then
        and_then (get_new_size (data_len (data_at L account)) (size_of_type t)) (\<lambda>new_size.
        pay_and_realloc E program_id ncn account_payer account new_size L)
      else Ok L)"

definition should_initialize :: "Discriminators \<Rightarrow> account_data \<Rightarrow> (bool, program_error) result" where
  "should_initialize t d =
     (if size_of_type t \<le> data_len d
      then and_then (first_byte d) (\<lambda>b. Ok (b \<noteq> Discriminators_as_u8 t))
      else Ok False)"

section \<open>Configuration\<close>

definition in_range :: "u64 \<Rightarrow> u64 \<Rightarrow> u64 \<Rightarrow> bool" where
  "in_range lo hi x \<longleftrightarrow> lo \<le> x \<and> x \<le> hi"

definition process_admin_initialize_config ::
  "runtime \<Rightarrow> 'p precise_ops \<Rightarrow> pubkey \<Rightarrow> account_info list \<Rightarrow> u64 \<Rightarrow> u64 \<Rightarrow> u64 \<Rightarrow> u16 \<Rightarrow> ledger \<Rightarrow>
   (ledger, program_error) result" where
  "process_admin_initialize_config E P program_id accounts stall_epochs close_epochs valid_slots fee_bps L =
     (case accounts of
        [config, ncn, ncn_fee_wallet, ncn_admin_info, tie_breaker, account_payer, system_program] \<Rightarrow>
          and_then (load_system_account E config True L) (\<lambda>_.
          and_then (load_system_program E system_program) (\<lambda>_.
          and_then (load_signer E ncn_admin_info False L) (\<lambda>_.
          and_then (Ncn_load E ncn False L) (\<lambda>_.
          and_then (AccountPayer_load E program_id account_payer (ai_key ncn) True L) (\<lambda>_.
          let epoch = clock_epoch E in
          and_then (ensure (in_range MIN_EPOCHS_BEFORE_STALL MAX_EPOCHS_BEFORE_STALL stall_epochs)
                      (program_error_of InvalidEpochsBeforeStall)) (\<lambda>_.
          and_then (ensure (in_range MIN_EPOCHS_AFTER_CONSENSUS_BEFORE_CLOSE
                              MAX_EPOCHS_AFTER_CONSENSUS_BEFORE_CLOSE close_epochs)
                      (program_error_of InvalidEpochsBeforeClose)) (\<lambda>_.
          and_then (ensure (in_range MIN_VALID_SLOTS_AFTER_CONSENSUS MAX_VALID_SLOTS_AFTER_CONSENSUS valid_slots)
                      (program_error_of InvalidSlotsAfterConsensus)) (\<lambda>_.
          and_then (Ncn_of E (data_at L ncn)) (\<lambda>ncn_account.
          and_then (ensure (ncn_admin ncn_account = ai_key ncn_admin_info)
                      (program_error_of IncorrectNcnAdmin)) (\<lambda>_.
          let (config_pda, config_bump, config_seeds) =
                Config_find_program_address E program_id (ai_key ncn) in
          and_then (ensure (config_pda = ai_key config) InvalidSeeds) (\<lambda>_.
          and_then (pay_and_create_account E program_id (ai_key ncn) account_payer config program_id
                      Config_SIZE (config_seeds @ [[config_bump]]) L) (\<lambda>L.
          and_then (init_view DConfig () (\<lambda>d. and_then (Config_of d) (\<lambda>_. Ok ())) (data_at L config)) (\<lambda>_.
          and_then (into_program (FeeConfig_new P (ai_key ncn_fee_wallet) fee_bps epoch)) (\<lambda>fee_config.
          let c = Config_new (ai_key ncn) (ai_key tie_breaker) epoch valid_slots stall_epochs
                    close_epochs fee_config config_bump in
          and_then (into_program (check_fees_okay P (fee_config_of c) epoch)) (\<lambda>_.
          Ok (set_data L config (ConfigData c)))))))))))))))))
      | _ \<Rightarrow> Err NotEnoughAccountKeys)"

definition process_admin_set_new_admin ::
  "runtime \<Rightarrow> pubkey \<Rightarrow> account_info list \<Rightarrow> ConfigAdminRole \<Rightarrow> ledger \<Rightarrow> (ledger, program_error) result" where
  "process_admin_set_new_admin E program_id accounts role L =
     (case accounts of
        [config, ncn_account, ncn_admin_info, new_admin] \<Rightarrow>
          and_then (load_signer E ncn_admin_info True L) (\<lambda>_.
          and_then (Config_load E program_id config (ai_key ncn_account) True L) (\<lambda>_.
          and_then (Ncn_load E ncn_account False L) (\<lambda>_.
          and_then (Config_of (data_at L config)) (\<lambda>c.
          and_then (ensure (config_ncn c = ai_key ncn_account) (program_error_of IncorrectNcn)) (\<lambda>_.
          and_then (Ncn_of E (data_at L ncn_account)) (\<lambda>ncn.
          and_then (ensure (ncn_admin ncn = ai_key ncn_admin_info)
                      (program_error_of IncorrectNcnAdmin)) (\<lambda>_.
          case role of
            TieBreakerAdmin \<Rightarrow>
              Ok (set_data L config (ConfigData (c\<lparr>tie_breaker_admin := ai_key new_admin\<rparr>))))))))))
      | _ \<Rightarrow> Err NotEnoughAccountKeys)"

definition process_admin_set_parameters ::
  "runtime \<Rightarrow> pubkey \<Rightarrow> account_info list \<Rightarrow> u64 option \<Rightarrow> u64 option \<Rightarrow> u64 option \<Rightarrow> u64 option \<Rightarrow>
   ledger \<Rightarrow> (ledger, program_error) result" where
  "process_admin_set_parameters E program_id accounts start_epoch stall_epochs close_epochs valid_slots L =
     (case accounts of
        [config, ncn_account, ncn_admin_info] \<Rightarrow>
          and_then (load_signer E ncn_admin_info True L) (\<lambda>_.
          and_then (Config_load E program_id config (ai_key ncn_account) True L) (\<lambda>_.
          and_then (Ncn_load E ncn_account False L) (\<lambda>_.
          and_then (Ncn_of E (data_at L ncn_account)) (\<lambda>ncn.
          and_then (ensure (ncn_admin ncn = ai_key ncn_admin_info)
                      (program_error_of IncorrectNcnAdmin)) (\<lambda>_.
          and_then (Config_of (data_at L config)) (\<lambda>c.
          and_then (ensure (config_ncn c = ai_key ncn_account) (program_error_of IncorrectNcn)) (\<lambda>_.
          let c = (case start_epoch of Some e \<Rightarrow> c\<lparr>starting_valid_epoch := e\<rparr> | None \<Rightarrow> c) in
          and_then (case stall_epochs of
                      Some epochs \<Rightarrow>
                        and_then (ensure (in_range MIN_EPOCHS_BEFORE_STALL MAX_EPOCHS_BEFORE_STALL epochs)
                                    (program_error_of InvalidEpochsBeforeStall)) (\<lambda>_.
                        Ok (c\<lparr>epochs_before_stall := epochs\<rparr>))
                    | None \<Rightarrow> Ok c) (\<lambda>c.
          and_then (case close_epochs of
                      Some epochs \<Rightarrow>
                        and_then (ensure (in_range MIN_EPOCHS_AFTER_CONSENSUS_BEFORE_CLOSE
                                            MAX_EPOCHS_AFTER_CONSENSUS_BEFORE_CLOSE epochs)
                                    (program_error_of InvalidEpochsBeforeClose)) (\<lambda>_.
                        Ok (c\<lparr>epochs_after_consensus_before_close := epochs\<rparr>))
                    | None \<Rightarrow> Ok c) (\<lambda>c.
          and_then (case valid_slots of
                      Some slots \<Rightarrow>
                        and_then (ensure (in_range MIN_VALID_SLOTS_AFTER_CONSENSUS
                                            MAX_VALID_SLOTS_AFTER_CONSENSUS slots)
                                    (program_error_of InvalidSlotsAfterConsensus)) (\<lambda>_.
                        Ok (c\<lparr>valid_slots_after_consensus := slots\<rparr>))
                    | None \<Rightarrow> Ok c) (\<lambda>c.
          Ok (set_data L config (ConfigData c))))))))))))
      | _ \<Rightarrow> Err NotEnoughAccountKeys)"

section \<open>Vault registry\<close>

definition process_initialize_vault_registry ::
  "runtime \<Rightarrow> pubkey \<Rightarrow> account_info list \<Rightarrow> ledger \<Rightarrow> (ledger, program_error) result" where
  "process_initialize_vault_registry E program_id accounts L =
     (case accounts of
        [ncn_config, vault_registry, ncn, account_payer, system_program] \<Rightarrow>
          and_then (load_system_account E vault_registry True L) (\<lambda>_.
          and_then (load_system_program E system_program) (\<lambda>_.
          and_then (Ncn_load E ncn False L) (\<lambda>_.
          and_then (Config_load E program_id ncn_config (ai_key ncn) False L) (\<lambda>_.
          and_then (AccountPayer_load E program_id account_payer (ai_key ncn) True L) (\<lambda>_.
          let (vault_registry_pda, bump, seeds) =
                VaultRegistry_find_program_address E program_id (ai_key ncn) in
          and_then (ensure (vault_registry_pda = ai_key vault_registry) InvalidSeeds) (\<lambda>_.
          pay_and_create_account E program_id (ai_key ncn) account_payer vault_registry program_id
            (unat MAX_REALLOC_BYTES) (seeds @ [[bump]]) L))))))
      | _ \<Rightarrow> Err NotEnoughAccountKeys)"

definition process_realloc_vault_registry ::
  "runtime \<Rightarrow> pubkey \<Rightarrow> account_info list \<Rightarrow> ledger \<Rightarrow> (ledger, program_error) result" where
  "process_realloc_vault_registry E program_id accounts L =
     (case accounts of
        [ncn_config, vault_registry, ncn, account_payer, system_program] \<Rightarrow>
          and_then (load_system_program E system_program) (\<lambda>_.
          and_then (Ncn_load E ncn False L) (\<lambda>_.
          and_then (Config_load E program_id ncn_config (ai_key ncn) False L) (\<lambda>_.
          and_then (AccountPayer_load E program_id account_payer (ai_key ncn) True L) (\<lambda>_.
          let (vault_registry_pda, vault_registry_bump, seeds) =
                VaultRegistry_find_program_address E program_id (ai_key ncn) in
          and_then (ensure (vault_registry_pda = ai_key vault_registry) InvalidSeeds) (\<lambda>_.
          and_then (grow_account E program_id (ai_key ncn) account_payer vault_registry DVaultRegistry L) (\<lambda>L.
          and_then (should_initialize DVaultRegistry (data_at L vault_registry)) (\<lambda>init.
          if init
          then
            and_then (init_view DVaultRegistry VaultRegistry_zeroed VaultRegistry_of
                        (data_at L vault_registry)) (\<lambda>r.
            Ok (set_data L vault_registry
                  (VaultRegistryData (VaultRegistry_initialize r (ai_key ncn) vault_registry_bump))))
          else Ok L)))))))
      | _ \<Rightarrow> Err NotEnoughAccountKeys)"

definition process_register_vault ::
  "runtime \<Rightarrow> pubkey \<Rightarrow> account_info list \<Rightarrow> ledger \<Rightarrow> (ledger, program_error) result" where
  "process_register_vault E program_id accounts L =
     (case accounts of
        [config, vault_registry, ncn, vault, ncn_vault_ticket] \<Rightarrow>
          and_then (Config_load E program_id config (ai_key ncn) False L) (\<lambda>_.
          and_then (VaultRegistry_load E program_id vault_registry (ai_key ncn) True L) (\<lambda>_.
          and_then (Ncn_load E ncn False L) (\<lambda>_.
          and_then (Vault_load E vault False L) (\<lambda>_.
          and_then (NcnVaultTicket_load E ncn_vault_ticket ncn vault False L) (\<lambda>_.
          let slot = clock_slot E in
          and_then (VaultRegistry_of (data_at L vault_registry)) (\<lambda>registry.
          and_then (Vault_of E (data_at L vault)) (\<lambda>vault_account.
          and_then (ensure (has_st_mint registry (v_supported_mint vault_account)) InvalidAccountData) (\<lambda>_.
          and_then (register_vault registry (ai_key vault) (v_supported_mint vault_account)
                      (v_vault_index vault_account) slot) (\<lambda>registry.
          Ok (set_data L vault_registry (VaultRegistryData registry)))))))))))
      | _ \<Rightarrow> Err NotEnoughAccountKeys)"

definition process_admin_register_st_mint ::
  "runtime \<Rightarrow> pubkey \<Rightarrow> account_info list \<Rightarrow> u128 option \<Rightarrow> ledger \<Rightarrow> (ledger, program_error) result" where
  "process_admin_register_st_mint E program_id accounts weight L =
     (case accounts of
        [config, ncn, st_mint, vault_registry, admin] \<Rightarrow>
          and_then (Config_load E program_id config (ai_key ncn) False L) (\<lambda>_.
          and_then (VaultRegistry_load E program_id vault_registry (ai_key ncn) True L) (\<lambda>_.
          and_then (Ncn_load E ncn False L) (\<lambda>_.
          and_then (load_token_mint E st_mint L) (\<lambda>_.
          and_then (load_signer E admin False L) (\<lambda>_.
          and_then (Ncn_of E (data_at L ncn)) (\<lambda>ncn_account.
          and_then (ensure (ncn_program_admin ncn_account = ai_key admin) InvalidAccountData) (\<lambda>_.
          and_then (VaultRegistry_of (data_at L vault_registry)) (\<lambda>registry.
          let weight = (case weight of Some w \<Rightarrow> w | None \<Rightarrow> 0) in
          and_then (register_st_mint registry (ai_key st_mint) weight) (\<lambda>registry.
          Ok (set_data L vault_registry (VaultRegistryData registry)))))))))))
      | _ \<Rightarrow> Err NotEnoughAccountKeys)"

definition process_admin_set_st_mint ::
  "runtime \<Rightarrow> pubkey \<Rightarrow> account_info list \<Rightarrow> pubkey \<Rightarrow> u128 option \<Rightarrow> ledger \<Rightarrow> (ledger, program_error) result" where
  "process_admin_set_st_mint E program_id accounts st_mint weight L =
     (case accounts of
        [config, ncn, vault_registry, admin] \<Rightarrow>
          and_then (Config_load E program_id config (ai_key ncn) False L) (\<lambda>_.
          and_then (VaultRegistry_load E program_id vault_registry (ai_key ncn) True L) (\<lambda>_.
          and_then (Ncn_load E ncn False L) (\<lambda>_.
          and_then (load_signer E admin False L) (\<lambda>_.
          and_then (Ncn_of E (data_at L ncn)) (\<lambda>ncn_account.
          and_then (ensure (ncn_program_admin ncn_account = ai_key admin) InvalidAccountData) (\<lambda>_.
          and_then (VaultRegistry_of (data_at L vault_registry)) (\<lambda>registry.
          and_then (set_st_mint registry st_mint weight) (\<lambda>registry.
          Ok (set_data L vault_registry (VaultRegistryData registry))))))))))
      | _ \<Rightarrow> Err NotEnoughAccountKeys)"

section \<open>Admin instructions on an epoch\<close>

definition process_admin_set_weight ::
  "runtime \<Rightarrow> pubkey \<Rightarrow> account_info list \<Rightarrow> pubkey \<Rightarrow> u64 \<Rightarrow> u128 \<Rightarrow> ledger \<Rightarrow> (ledger, program_error) result" where
  "process_admin_set_weight E program_id accounts st_mint epoch weight L =
     (case accounts of
        [epoch_state, ncn, weight_table, weight_table_admin] \<Rightarrow>
          and_then (Ncn_load E ncn False L) (\<lambda>_.
          and_then (Ncn_of E (data_at L ncn)) (\<lambda>ncn_account.
          and_then (load_signer E weight_table_admin True L) (\<lambda>_.
          and_then (EpochState_load E program_id epoch_state (ai_key ncn) epoch True L) (\<lambda>_.
          and_then (WeightTable_load E program_id weight_table (ai_key ncn) epoch True L) (\<lambda>_.
          and_then (ensure (ncn_weight_table_admin ncn_account = ai_key weight_table_admin)
                      (program_error_of IncorrectWeightTableAdmin)) (\<lambda>_.
          and_then (WeightTable_of (data_at L weight_table)) (\<lambda>table.
          and_then (into_program (check_table_initialized table)) (\<lambda>_.
          and_then (ensure (\<not> finalized table) InvalidAccountData) (\<lambda>_.
          and_then (into_program (WeightTable_set_weight table st_mint weight (clock_slot E))) (\<lambda>table.
          let L = set_data L weight_table (WeightTableData table) in
          and_then (EpochState_of (data_at L epoch_state)) (\<lambda>es.
          Ok (set_data L epoch_state
                (EpochStateData (update_set_weight es (word_of_nat (weight_count table))
                   (word_of_nat (WeightTable_st_mint_count table))))))))))))))))
      | _ \<Rightarrow> Err NotEnoughAccountKeys)"

definition process_admin_set_tie_breaker ::
  "runtime \<Rightarrow> pubkey \<Rightarrow> account_info list \<Rightarrow> u8 \<Rightarrow> u64 \<Rightarrow> ledger \<Rightarrow> (ledger, program_error) result" where
  "process_admin_set_tie_breaker E program_id accounts status epoch L =
     (case accounts of
        [epoch_state, ncn_config, ballot_box, ncn, tie_breaker] \<Rightarrow>
          and_then (EpochState_load E program_id epoch_state (ai_key ncn) epoch True L) (\<lambda>_.
          and_then (Config_load E program_id ncn_config (ai_key ncn) False L) (\<lambda>_.
          and_then (BallotBox_load E program_id ballot_box (ai_key ncn) epoch True L) (\<lambda>_.
          and_then (Ncn_load E ncn False L) (\<lambda>_.
          and_then (load_signer E tie_breaker False L) (\<lambda>_.
          and_then (Config_of (data_at L ncn_config)) (\<lambda>c.
          and_then (ensure (tie_breaker_admin c = ai_key tie_breaker)
                      (program_error_of TieBreakerAdminInvalid)) (\<lambda>_.
          and_then (BallotBox_of (data_at L ballot_box)) (\<lambda>bb.
          and_then (into_program (set_tie_breaker_ballot bb status (clock_epoch E) (epochs_before_stall c))) (\<lambda>bb.
          let L = set_data L ballot_box (BallotBoxData bb) in
          and_then (EpochState_of (data_at L epoch_state)) (\<lambda>es.
          and_then (into_program (update_set_tie_breaker es (is_consensus_reached bb) (clock_slot E))) (\<lambda>es.
          Ok (set_data L epoch_state (EpochStateData es)))))))))))))
      | _ \<Rightarrow> Err NotEnoughAccountKeys)"

end
