(* ===== verification/Handlers_Snapshot.thy ===== *)
theory Handlers_Snapshot
  imports Handlers_Config
begin

text \<open>
  The instruction processors that open an epoch and take its snapshot: epoch state, weight
  table, epoch snapshot, operator snapshots and the delegations of the vaults.
\<close>

section \<open>Epoch state\<close>

definition process_initialize_epoch_state ::
  "runtime \<Rightarrow> pubkey \<Rightarrow> account_info list \<Rightarrow> u64 \<Rightarrow> ledger \<Rightarrow> (ledger, program_error) result" where
  "process_initialize_epoch_state E program_id accounts epoch L =
     (case accounts of
        [epoch_marker, epoch_state, config, ncn, account_payer, system_program] \<Rightarrow>
          and_then (ensure (\<not> clock_epoch E < epoch) InvalidArgument) (\<lambda>_.
          and_then (load_system_account E epoch_state True L) (\<lambda>_.
          and_then (load_system_program E system_program) (\<lambda>_.
          and_then (Ncn_load E ncn False L) (\<lambda>_.
          and_then (Config_load E program_id config (ai_key ncn) False L) (\<lambda>_.
          and_then (AccountPayer_load E program_id account_payer (ai_key ncn) True L) (\<lambda>_.
          and_then (EpochMarker_check_dne E program_id epoch_marker (ai_key ncn) epoch L) (\<lambda>_.
          and_then (Config_of (data_at L config)) (\<lambda>config_account.
          and_then (ensure (\<not> epoch < starting_valid_epoch config_account) InvalidArgument) (\<lambda>_.
          let (epoch_state_pda, bump, seeds) = EpochState_find_program_address E program_id (ai_key ncn) epoch in
          and_then (ensure (epoch_state_pda = ai_key epoch_state) InvalidSeeds) (\<lambda>_.
          and_then (pay_and_create_account E program_id (ai_key ncn) account_payer epoch_state program_id
                      EpochState_SIZE (seeds @ [[bump]]) L) (\<lambda>L.
          and_then (init_view DEpochState EpochState_zeroed EpochState_of (data_at L epoch_state)) (\<lambda>es.
          Ok (set_data L epoch_state (EpochStateData
                (update_realloc_epoch_state
                   (EpochState_initialize es (ai_key ncn) epoch bump (clock_slot E)))))))))))))))))
      | _ \<Rightarrow> Err NotEnoughAccountKeys)"

section \<open>Weight table\<close>

definition process_initialize_weight_table ::
  "runtime \<Rightarrow> pubkey \<Rightarrow> account_info list \<Rightarrow> u64 \<Rightarrow> ledger \<Rightarrow> (ledger, program_error) result" where
  "process_initialize_weight_table E program_id accounts epoch L =
     (case accounts of
        [epoch_marker, epoch_state, vault_registry, ncn, weight_table, account_payer, system_program] \<Rightarrow>
          and_then (EpochState_load_and_check_is_closing E program_id epoch_state (ai_key ncn) epoch False L) (\<lambda>_.
          and_then (VaultRegistry_load E program_id vault_registry (ai_key ncn) False L) (\<lambda>_.
          and_then (Ncn_load E ncn False L) (\<lambda>_.
          and_then (AccountPayer_load E program_id account_payer (ai_key ncn) True L) (\<lambda>_.
          and_then (EpochMarker_check_dne E program_id epoch_marker (ai_key ncn) epoch L) (\<lambda>_.
          and_then (load_system_account E weight_table True L) (\<lambda>_.
          and_then (load_system_program E system_program) (\<lambda>_.
          and_then (Ncn_of E (data_at L ncn)) (\<lambda>ncn_account.
          and_then (VaultRegistry_of (data_at L vault_registry)) (\<lambda>registry.
          and_then (ensure (ncn_vault_count ncn_account = VaultRegistry_vault_count registry)
                      InvalidAccountData) (\<lambda>_.
          let (weight_table_pubkey, bump, seeds) = WeightTable_find_program_address E program_id (ai_key ncn) epoch in
          and_then (ensure (weight_table_pubkey = ai_key weight_table) InvalidAccountData) (\<lambda>_.
          pay_and_create_account E program_id (ai_key ncn) account_payer weight_table program_id
            (unat MAX_REALLOC_BYTES) (seeds @ [[bump]]) L)))))))))))
      | _ \<Rightarrow> Err NotEnoughAccountKeys)"

definition process_realloc_weight_table ::
  "runtime \<Rightarrow> pubkey \<Rightarrow> account_info list \<Rightarrow> u64 \<Rightarrow> ledger \<Rightarrow> (ledger, program_error) result" where
  "process_realloc_weight_table E program_id accounts epoch L =
     (case accounts of
        [epoch_state, ncn_config, weight_table, ncn, vault_registry, account_payer, system_program] \<Rightarrow>
          and_then (load_system_program E system_program) (\<lambda>_.
          and_then (Ncn_load E ncn False L) (\<lambda>_.
          and_then (EpochState_load E program_id epoch_state (ai_key ncn) epoch True L) (\<lambda>_.
          and_then (Config_load E program_id ncn_config (ai_key ncn) False L) (\<lambda>_.
          and_then (VaultRegistry_load E program_id vault_registry (ai_key ncn) False L) (\<lambda>_.
          and_then (AccountPayer_load E program_id account_payer (ai_key ncn) True L) (\<lambda>_.
          let (weight_table_pda, bump, seeds) = WeightTable_find_program_address E program_id (ai_key ncn) epoch in
          and_then (ensure (weight_table_pda = ai_key weight_table) InvalidAccountData) (\<lambda>_.
          and_then (grow_account E program_id (ai_key ncn) account_payer weight_table DWeightTable L) (\<lambda>L.
          and_then (should_initialize DWeightTable (data_at L weight_table)) (\<lambda>init.
          if init
          then
            and_then (VaultRegistry_of (data_at L vault_registry)) (\<lambda>registry.
            let vault_count = VaultRegistry_vault_count registry;
                st_mint_count = VaultRegistry_st_mint_count registry in
            and_then (init_view DWeightTable WeightTable_zeroed WeightTable_of (data_at L weight_table)) (\<lambda>table.
            and_then (into_program (WeightTable_initialize table (ai_key ncn) epoch (clock_slot E) vault_count
                        bump (vault_list registry) (st_mint_list registry))) (\<lambda>table.
            let L = set_data L weight_table (WeightTableData table) in
            and_then (EpochState_of (data_at L epoch_state)) (\<lambda>es.
            Ok (set_data L epoch_state (EpochStateData
                  (update_realloc_weight_table es vault_count (word_of_nat st_mint_count))))))))
          else Ok L)))))))))
      | _ \<Rightarrow> Err NotEnoughAccountKeys)"

text \<open>The loop of \<open>process_set_epoch_weights\<close> over the valid mint entries of the registry.\<close>

fun set_weights_loop :: "u64 \<Rightarrow> st_mint_entry list \<Rightarrow> weight_table \<Rightarrow> (weight_table, program_error) result" where
  "set_weights_loop slot [] table = Ok table"
| "set_weights_loop slot (mint_entry # rest) table =
     and_then (ensure (sme_weight mint_entry \<noteq> 0) (program_error_of WeightNotSet)) (\<lambda>_.
     and_then (into_program (WeightTable_set_weight table (sme_st_mint mint_entry) (sme_weight mint_entry) slot)) (\<lambda>table.
     set_weights_loop slot rest table))"

definition process_set_epoch_weights ::
  "runtime \<Rightarrow> pubkey \<Rightarrow> account_info list \<Rightarrow> u64 \<Rightarrow> ledger \<Rightarrow> (ledger, program_error) result" where
  "process_set_epoch_weights E program_id accounts epoch L =
     (case accounts of
        [epoch_state, ncn, vault_registry, weight_table] \<Rightarrow>
          and_then (EpochState_load E program_id epoch_state (ai_key ncn) epoch True L) (\<lambda>_.
          and_then (Ncn_load E ncn False L) (\<lambda>_.
          and_then (WeightTable_load E program_id weight_table (ai_key ncn) epoch True L) (\<lambda>_.
          and_then (VaultRegistry_load E program_id vault_registry (ai_key ncn) False L) (\<lambda>_.
          and_then (WeightTable_of (data_at L weight_table)) (\<lambda>table.
          and_then (into_program (check_table_initialized table)) (\<lambda>_.
          and_then (ensure (\<not> finalized table) InvalidAccountData) (\<lambda>_.
          and_then (VaultRegistry_of (data_at L vault_registry)) (\<lambda>registry.
          and_then (set_weights_loop (clock_slot E) (get_valid_mint_entries registry) table) (\<lambda>table.
          let L = set_data L weight_table (WeightTableData table) in
          and_then (EpochState_of (data_at L epoch_state)) (\<lambda>es.
          Ok (set_data L epoch_state
                (EpochStateData (update_set_weight es (word_of_nat (weight_count table))
                   (word_of_nat (WeightTable_st_mint_count table)))))))))))))))
      | _ \<Rightarrow> Err NotEnoughAccountKeys)"

section \<open>Epoch snapshot\<close>

definition process_initialize_epoch_snapshot ::
  "runtime \<Rightarrow> pubkey \<Rightarrow> account_info list \<Rightarrow> u64 \<Rightarrow> ledger \<Rightarrow> (ledger, program_error) result" where
  "process_initialize_epoch_snapshot E program_id accounts epoch L =
     (case accounts of
        [epoch_marker, epoch_state, config, ncn, weight_table, epoch_snapshot, account_payer, system_program] \<Rightarrow>
          and_then (EpochState_load_and_check_is_closing E program_id epoch_state (ai_key ncn) epoch True L) (\<lambda>_.
          and_then (Config_load E program_id config (ai_key ncn) False L) (\<lambda>_.
          and_then (Ncn_load E ncn False L) (\<lambda>_.
          and_then (AccountPayer_load E program_id account_payer (ai_key ncn) True L) (\<lambda>_.
          and_then (EpochMarker_check_dne E program_id epoch_marker (ai_key ncn) epoch L) (\<lambda>_.
          and_then (load_system_account E epoch_snapshot True L) (\<lambda>_.
          and_then (load_system_program E system_program) (\<lambda>_.
          let current_slot = clock_slot E; ncn_epoch = epoch in
          and_then (WeightTable_load E program_id weight_table (ai_key ncn) ncn_epoch False L) (\<lambda>_.
          and_then (WeightTable_of (data_at L weight_table)) (\<lambda>table.
          and_then (ensure (finalized table) (program_error_of WeightTableNotFinalized)) (\<lambda>_.
          let vault_count = wt_vault_count table;
              (epoch_snapshot_pubkey, bump, seeds) =
                EpochSnapshot_find_program_address E program_id (ai_key ncn) ncn_epoch in
          and_then (ensure (epoch_snapshot_pubkey = ai_key epoch_snapshot) InvalidAccountData) (\<lambda>_.
          and_then (pay_and_create_account E program_id (ai_key ncn) account_payer epoch_snapshot program_id
                      EpochSnapshot_SIZE (seeds @ [[bump]]) L) (\<lambda>L.
          and_then (Ncn_of E (data_at L ncn)) (\<lambda>ncn_account.
          let operator_count = ncn_operator_count ncn_account in
          and_then (ensure (operator_count \<noteq> 0) (program_error_of NoOperators)) (\<lambda>_.
          and_then (init_view DEpochSnapshot () (\<lambda>d. and_then (EpochSnapshot_of d) (\<lambda>_. Ok ()))
                      (data_at L epoch_snapshot)) (\<lambda>_.
          and_then (Config_of (data_at L config)) (\<lambda>config_account.
          let ncn_fees = current_fees (fee_config_of config_account) ncn_epoch;
              L = set_data L epoch_snapshot (EpochSnapshotData
                    (EpochSnapshot_new (ai_key ncn) ncn_epoch bump current_slot operator_count
                       vault_count ncn_fees)) in
          and_then (EpochState_of (data_at L epoch_state)) (\<lambda>es.
          Ok (set_data L epoch_state
                (EpochStateData (update_initialize_epoch_snapshot es operator_count))))))))))))))))))))
      | _ \<Rightarrow> Err NotEnoughAccountKeys)"

definition process_initialize_operator_snapshot ::
  "runtime \<Rightarrow> pubkey \<Rightarrow> account_info list \<Rightarrow> u64 \<Rightarrow> ledger \<Rightarrow> (ledger, program_error) result" where
  "process_initialize_operator_snapshot E program_id accounts epoch L =
     (case accounts of
        [epoch_marker, epoch_state, config, restaking_config, ncn, operator, ncn_operator_state_info,
         epoch_snapshot, operator_snapshot, account_payer, system_program] \<Rightarrow>
          and_then (EpochState_load_and_check_is_closing E program_id epoch_state (ai_key ncn) epoch False L) (\<lambda>_.
          and_then (Config_load E program_id config (ai_key ncn) False L) (\<lambda>_.
          and_then (Ncn_load E ncn False L) (\<lambda>_.
          and_then (Operator_load E operator False L) (\<lambda>_.
          and_then (NcnOperatorState_load E ncn_operator_state_info ncn operator False L) (\<lambda>_.
          and_then (EpochSnapshot_load E program_id epoch_snapshot (ai_key ncn) epoch False L) (\<lambda>_.
          and_then (load_system_account E operator_snapshot True L) (\<lambda>_.
          and_then (load_system_program E system_program) (\<lambda>_.
          and_then (AccountPayer_load E program_id account_payer (ai_key ncn) True L) (\<lambda>_.
          and_then (EpochMarker_check_dne E program_id epoch_marker (ai_key ncn) epoch L) (\<lambda>_.
          let (operator_snapshot_pubkey, bump, seeds) =
                OperatorSnapshot_find_program_address E program_id (ai_key operator) (ai_key ncn) epoch in
          and_then (ensure (operator_snapshot_pubkey = ai_key operator_snapshot) InvalidAccountData) (\<lambda>_.
          and_then (EpochSnapshot_of (data_at L epoch_snapshot)) (\<lambda>epoch_snapshot_account.
          and_then (NcnOperatorState_of E (data_at L ncn_operator_state_info)) (\<lambda>nos.
          and_then (ensure (\<not> es_operator_count epoch_snapshot_account \<le> nos_index nos)
                      (program_error_of OperatorIsNotInSnapshot)) (\<lambda>_.
          and_then (pay_and_create_account E program_id (ai_key ncn) account_payer operator_snapshot program_id
                      OperatorSnapshot_SIZE (seeds @ [[bump]]) L) (\<lambda>L.
          let current_slot = clock_slot E in
          and_then (load_ncn_epoch E restaking_config current_slot None L) (\<lambda>(_, ncn_epoch_length).
          and_then (NcnOperatorState_of E (data_at L ncn_operator_state_info)) (\<lambda>nos.
          and_then (is_active (nos_ncn_opt_in_state nos) current_slot ncn_epoch_length) (\<lambda>ncn_operator_okay.
          and_then (is_active_or_cooldown (nos_operator_opt_in_state nos) current_slot ncn_epoch_length) (\<lambda>operator_ncn_okay.
          let ncn_operator_index = nos_index nos;
              active = (ncn_operator_okay \<and> operator_ncn_okay) in
          and_then (EpochSnapshot_of (data_at L epoch_snapshot)) (\<lambda>epoch_snapshot_account.
          let vault_count = es_vault_count epoch_snapshot_account in
          and_then (Operator_of E (data_at L operator)) (\<lambda>operator_account.
          and_then (init_view DOperatorSnapshot OperatorSnapshot_zeroed OperatorSnapshot_of
                      (data_at L operator_snapshot)) (\<lambda>os.
          and_then (into_program (OperatorSnapshot_initialize os (ai_key operator) (ai_key ncn) epoch bump
                      current_slot active ncn_operator_index (op_index operator_account)
                      (op_fee_bps operator_account) vault_count)) (\<lambda>os.
          let L = set_data L operator_snapshot (OperatorSnapshotData os) in
          and_then (if \<not> active
                    then
                      and_then (EpochSnapshot_of (data_at L epoch_snapshot)) (\<lambda>es.
                      and_then (into_program (increment_operator_registration es current_slot 0
                                  StakeWeights_default)) (\<lambda>es.
                      Ok (set_data L epoch_snapshot (EpochSnapshotData es))))
                    else Ok L) (\<lambda>L.
          and_then (EpochState_of (data_at L epoch_state)) (\<lambda>est.
          and_then (into_program (update_realloc_operator_snapshot est (unat ncn_operator_index) active)) (\<lambda>est.
          Ok (set_data L epoch_state (EpochStateData est))))))))))))))))))))))))))))
      | _ \<Rightarrow> Err NotEnoughAccountKeys)"

section \<open>Delegations\<close>

text \<open>The part of the processor that decides whether the vault's delegation counts.\<close>

definition delegation_is_active ::
  "runtime \<Rightarrow> account_info \<Rightarrow> account_info \<Rightarrow> account_info \<Rightarrow> u64 \<Rightarrow> u64 \<Rightarrow> ledger \<Rightarrow> (bool, program_error) result" where
  "delegation_is_active E ncn_vault_ticket vault_ncn_ticket vault_operator_delegation current_slot
       ncn_epoch_length L =
     and_then (NcnVaultTicket_of E (data_at L ncn_vault_ticket)) (\<lambda>ticket.
     and_then (is_active ticket current_slot ncn_epoch_length) (\<lambda>ncn_vault_okay.
     and_then (if data_is_empty (data_at L vault_ncn_ticket) then Ok False
               else
                 and_then (VaultNcnTicket_of E (data_at L vault_ncn_ticket)) (\<lambda>ticket.
                 is_active_or_cooldown ticket current_slot ncn_epoch_length)) (\<lambda>vault_ncn_okay.
     let delegation_dne = data_is_empty (data_at L vault_operator_delegation) in
     Ok (vault_ncn_okay \<and> ncn_vault_okay \<and> \<not> delegation_dne))))"

definition process_snapshot_vault_operator_delegation ::
  "runtime \<Rightarrow> 'p precise_ops \<Rightarrow> pubkey \<Rightarrow> account_info list \<Rightarrow> u64 \<Rightarrow> ledger \<Rightarrow> (ledger, program_error) result" where
  "process_snapshot_vault_operator_delegation E P program_id accounts epoch L =
     (case accounts of
        [epoch_state, ncn_config, restaking_config, ncn, operator, vault, vault_ncn_ticket,
         ncn_vault_ticket, vault_operator_delegation, weight_table, epoch_snapshot, operator_snapshot] \<Rightarrow>
          and_then (EpochState_load E program_id epoch_state (ai_key ncn) epoch True L) (\<lambda>_.
          and_then (Config_load E program_id ncn_config (ai_key ncn) False L) (\<lambda>_.
          and_then (RestakingConfig_load E restaking_config False L) (\<lambda>_.
          and_then (Ncn_load E ncn False L) (\<lambda>_.
          and_then (Operator_load E operator False L) (\<lambda>_.
          and_then (Vault_load E vault False L) (\<lambda>_.
          and_then (NcnVaultTicket_load E ncn_vault_ticket ncn vault False L) (\<lambda>_.
          and_then (if \<not> data_is_empty (data_at L vault_ncn_ticket)
                    then VaultNcnTicket_load E vault_ncn_ticket vault ncn False L else Ok ()) (\<lambda>_.
          and_then (if \<not> data_is_empty (data_at L vault_operator_delegation)
                    then VaultOperatorDelegation_load E vault_operator_delegation vault operator False L
                    else Ok ()) (\<lambda>_.
          let current_slot = clock_slot E in
          and_then (load_ncn_epoch E restaking_config current_slot None L) (\<lambda>(_, ncn_epoch_length).
          and_then (WeightTable_load E program_id weight_table (ai_key ncn) epoch False L) (\<lambda>_.
          and_then (EpochSnapshot_load E program_id epoch_snapshot (ai_key ncn) epoch True L) (\<lambda>_.
          and_then (OperatorSnapshot_load E program_id operator_snapshot (ai_key operator) (ai_key ncn) epoch True L) (\<lambda>_.
          and_then (Vault_of E (data_at L vault)) (\<lambda>vault_account.
          and_then (v_is_update_needed vault_account current_slot ncn_epoch_length) (\<lambda>vault_needs_update.
          and_then (ensure (\<not> vault_needs_update) (program_error_of VaultNeedsUpdate)) (\<lambda>_.
          let vault_index = v_vault_index vault_account; st_mint = v_supported_mint vault_account in
          and_then (delegation_is_active E ncn_vault_ticket vault_ncn_ticket vault_operator_delegation
                      current_slot ncn_epoch_length L) (\<lambda>active.
          and_then (WeightTable_of (data_at L weight_table)) (\<lambda>table.
          and_then (into_program (check_registry_for_vault table vault_index)) (\<lambda>_.
          and_then (if active
                    then
                      and_then (delegation_total_security_of E (data_at L vault_operator_delegation)) (\<lambda>security.
                      calculate_total_stake_weight P security table st_mint)
                    else Ok 0) (\<lambda>total_stake_weight.
          and_then (OperatorSnapshot_of (data_at L operator_snapshot)) (\<lambda>os.
          and_then (into_program (StakeWeights_snapshot total_stake_weight)) (\<lambda>w.
          and_then (into_program (increment_vault_operator_delegation_registration os current_slot
                      (ai_key vault) vault_index w)) (\<lambda>os.
          let L = set_data L operator_snapshot (OperatorSnapshotData os) in
          and_then (if OperatorSnapshot_finalized os
                    then
                      and_then (EpochSnapshot_of (data_at L epoch_snapshot)) (\<lambda>es.
                      and_then (into_program (increment_operator_registration es current_slot
                                  (os_valid_operator_vault_delegations os) (os_stake_weights os))) (\<lambda>es.
                      Ok (set_data L epoch_snapshot (EpochSnapshotData es))))
                    else Ok L) (\<lambda>L.
          and_then (EpochState_of (data_at L epoch_state)) (\<lambda>est.
          and_then (into_program (update_snapshot_vault_operator_delegation est
                      (unat (os_ncn_operator_index os)) (OperatorSnapshot_finalized os))) (\<lambda>est.
          Ok (set_data L epoch_state (EpochStateData est))))))))))))))))))))))))))))
      | _ \<Rightarrow> Err NotEnoughAccountKeys)"

end
