(* ===== verification/Handlers_Vote.thy ===== *)
theory Handlers_Vote
  imports Handlers_Snapshot
begin

text \<open>
  The instruction processors of the vote: creation and growth of the ballot box with the
  consensus result, and \<open>process_cast_vote\<close>.
\<close>

definition process_initialize_ballot_box ::
  "runtime \<Rightarrow> pubkey \<Rightarrow> account_info list \<Rightarrow> u64 \<Rightarrow> ledger \<Rightarrow> (ledger, program_error) result" where
  "process_initialize_ballot_box E program_id accounts epoch L =
     (case accounts of
        epoch_marker # epoch_state # ncn_config # ballot_box # ncn # account_payer # system_program #
        consensus_result # _ \<Rightarrow>
          and_then (load_system_account E ballot_box True L) (\<lambda>_.
          and_then (load_system_program E system_program) (\<lambda>_.
          and_then (Ncn_load E ncn False L) (\<lambda>_.
          and_then (EpochState_load_and_check_is_closing E program_id epoch_state (ai_key ncn) epoch False L) (\<lambda>_.
          and_then (Config_load E program_id ncn_config (ai_key ncn) False L) (\<lambda>_.
          and_then (AccountPayer_load E program_id account_payer (ai_key ncn) True L) (\<lambda>_.
          and_then (EpochMarker_check_dne E program_id epoch_marker (ai_key ncn) epoch L) (\<lambda>_.
          let (ballot_box_pda, ballot_box_bump, ballot_box_seeds) =
                BallotBox_find_program_address E program_id (ai_key ncn) epoch in
          and_then (ensure (ballot_box_pda = ai_key ballot_box) InvalidSeeds) (\<lambda>_.
          and_then (pay_and_create_account E program_id (ai_key ncn) account_payer ballot_box program_id
                      (unat MAX_REALLOC_BYTES) (ballot_box_seeds @ [[ballot_box_bump]]) L) (\<lambda>L.
          and_then (load_system_account E consensus_result True L) (\<lambda>_.
          let (consensus_result_pda, bump, seeds) =
                ConsensusResult_find_program_address E program_id (ai_key ncn) epoch in
          and_then (ensure (consensus_result_pda = ai_key consensus_result) InvalidSeeds) (\<lambda>_.
          if data_is_empty (data_at L consensus_result)
          then
            and_then (pay_and_create_account E program_id (ai_key ncn) account_payer consensus_result
                        program_id ConsensusResult_SIZE (seeds @ [[bump]]) L) (\<lambda>L.
            and_then (init_view DConsensusResult ConsensusResult_zeroed ConsensusResult_of
                        (data_at L consensus_result)) (\<lambda>cr.
            and_then (ConsensusResult_initialize cr (ai_key ncn) epoch bump) (\<lambda>cr.
            Ok (set_data L consensus_result (ConsensusResultData cr)))))
          else Ok L)))))))))))
      | _ \<Rightarrow> Err NotEnoughAccountKeys)"

definition process_realloc_ballot_box ::
  "runtime \<Rightarrow> pubkey \<Rightarrow> account_info list \<Rightarrow> u64 \<Rightarrow> ledger \<Rightarrow> (ledger, program_error) result" where
  "process_realloc_ballot_box E program_id accounts epoch L =
     (case accounts of
        [epoch_state, ncn_config, ballot_box, ncn, account_payer, system_program] \<Rightarrow>
          and_then (load_system_program E system_program) (\<lambda>_.
          and_then (Ncn_load E ncn False L) (\<lambda>_.
          and_then (EpochState_load E program_id epoch_state (ai_key ncn) epoch False L) (\<lambda>_.
          and_then (Config_load E program_id ncn_config (ai_key ncn) False L) (\<lambda>_.
          and_then (AccountPayer_load E program_id account_payer (ai_key ncn) True L) (\<lambda>_.
          let (ballot_box_pda, bump, seeds) = BallotBox_find_program_address E program_id (ai_key ncn) epoch in
          and_then (ensure (ballot_box_pda = ai_key ballot_box) InvalidAccountData) (\<lambda>_.
          and_then (grow_account E program_id (ai_key ncn) account_payer ballot_box DBallotBox L) (\<lambda>L.
          and_then (should_initialize DBallotBox (data_at L ballot_box)) (\<lambda>init.
          if init
          then
            and_then (init_view DBallotBox BallotBox_zeroed BallotBox_of (data_at L ballot_box)) (\<lambda>bb.
            let L = set_data L ballot_box
                      (BallotBoxData (BallotBox_initialize bb (ai_key ncn) epoch bump (clock_slot E))) in
            and_then (EpochState_of (data_at L epoch_state)) (\<lambda>es.
            Ok (set_data L epoch_state (EpochStateData (update_realloc_ballot_box es)))))
          else Ok L))))))))
      | _ \<Rightarrow> Err NotEnoughAccountKeys)"

definition process_cast_vote ::
  "runtime \<Rightarrow> 'p precise_ops \<Rightarrow> pubkey \<Rightarrow> account_info list \<Rightarrow> u8 \<Rightarrow> u64 \<Rightarrow> ledger \<Rightarrow> (ledger, program_error) result" where
  "process_cast_vote E P program_id accounts status epoch L =
     (case accounts of
        epoch_state # ncn_config # ballot_box # ncn # epoch_snapshot # operator_snapshot # operator #
        operator_admin # consensus_result # _ \<Rightarrow>
          and_then (load_signer E operator_admin False L) (\<lambda>_.
          and_then (EpochState_load E program_id epoch_state (ai_key ncn) epoch False L) (\<lambda>_.
          and_then (Config_load E program_id ncn_config (ai_key ncn) False L) (\<lambda>_.
          and_then (Ncn_load E ncn False L) (\<lambda>_.
          and_then (Operator_load E operator False L) (\<lambda>_.
          and_then (BallotBox_load E program_id ballot_box (ai_key ncn) epoch True L) (\<lambda>_.
          and_then (EpochSnapshot_load E program_id epoch_snapshot (ai_key ncn) epoch False L) (\<lambda>_.
          and_then (OperatorSnapshot_load E program_id operator_snapshot (ai_key operator) (ai_key ncn) epoch False L) (\<lambda>_.
          and_then (ConsensusResult_load E program_id consensus_result (ai_key ncn) epoch True L) (\<lambda>_.
          and_then (Operator_of E (data_at L operator)) (\<lambda>operator_account.
          and_then (ensure (ai_key operator_admin = op_voter operator_account)
                      (program_error_of InvalidOperatorVoter)) (\<lambda>_.
          and_then (Config_of (data_at L ncn_config)) (\<lambda>c.
          and_then (BallotBox_of (data_at L ballot_box)) (\<lambda>bb.
          and_then (EpochSnapshot_of (data_at L epoch_snapshot)) (\<lambda>es.
          and_then (ensure (EpochSnapshot_finalized es) (program_error_of EpochSnapshotNotFinalized)) (\<lambda>_.
          let total_stake_weights = es_stake_weights es in
          and_then (OperatorSnapshot_of (data_at L operator_snapshot)) (\<lambda>os.
          let operator_stake_weights = os_stake_weights os in
          and_then (ensure (stake_weight operator_stake_weights \<noteq> 0)
                      (program_error_of CannotVoteWithZeroStake)) (\<lambda>_.
          let slot = clock_slot E; b = Ballot_new status in
          and_then (into_program (cast_vote bb (ai_key operator) b operator_stake_weights slot
                      (valid_slots_after_consensus c))) (\<lambda>bb.
          and_then (into_program (tally_votes P bb (stake_weight total_stake_weights) slot)) (\<lambda>bb.
          let L = set_data L ballot_box (BallotBoxData bb) in
          and_then (if is_consensus_reached bb
                    then
                      and_then (into_program (get_winning_ballot_tally bb)) (\<lambda>winning.
                      and_then (ConsensusResult_of (data_at L consensus_result)) (\<lambda>cr.
                      and_then (into_program (record_consensus cr (weather_status (bt_ballot winning))
                                  (ucast (stake_weight (bt_stake_weights winning)))
                                  (ucast (stake_weight total_stake_weights)) slot)) (\<lambda>cr.
                      Ok (set_data L consensus_result (ConsensusResultData cr)))))
                    else Ok L) (\<lambda>L.
          and_then (EpochState_of (data_at L epoch_state)) (\<lambda>est.
          and_then (into_program (update_cast_vote est (operators_voted bb) (is_consensus_reached bb) slot)) (\<lambda>est.
          Ok (set_data L epoch_state (EpochStateData est))))))))))))))))))))))))
      | _ \<Rightarrow> Err NotEnoughAccountKeys)"

end
