(* ===== verification/Handlers_Reward.thy ===== *)
theory Handlers_Reward
  imports Handlers_Vote
begin

text \<open>
  The instruction processors that route the rewards of an epoch and pay them out.  Rewards
  arrive as lamports on a receiver account; routing moves them between the buckets of a
  router, distribution empties a bucket and transfers its lamports out of the receiver.
\<close>

section \<open>The NCN's router\<close>

definition process_initialize_ncn_reward_router ::
  "runtime \<Rightarrow> pubkey \<Rightarrow> account_info list \<Rightarrow> u64 \<Rightarrow> ledger \<Rightarrow> (ledger, program_error) result" where
  "process_initialize_ncn_reward_router E program_id accounts epoch L =
     (case accounts of
        [epoch_marker, epoch_state, ncn, ncn_reward_router, ncn_reward_receiver, account_payer, system_program] \<Rightarrow>
          and_then (EpochState_load_and_check_is_closing E program_id epoch_state (ai_key ncn) epoch False L) (\<lambda>_.
          and_then (Ncn_load E ncn False L) (\<lambda>_.
          and_then (NCNRewardReceiver_load E program_id ncn_reward_receiver (ai_key ncn) epoch True L) (\<lambda>_.
          and_then (AccountPayer_load E program_id account_payer (ai_key ncn) True L) (\<lambda>_.
          and_then (EpochMarker_check_dne E program_id epoch_marker (ai_key ncn) epoch L) (\<lambda>_.
          and_then (load_system_account E ncn_reward_router True L) (\<lambda>_.
          and_then (load_system_program E system_program) (\<lambda>_.
          let (ncn_reward_router_pubkey, bump, seeds) =
                NCNRewardRouter_find_program_address E program_id (ai_key ncn) epoch in
          and_then (ensure (ncn_reward_router_pubkey = ai_key ncn_reward_router) InvalidAccountData) (\<lambda>_.
          and_then (pay_and_create_account E program_id (ai_key ncn) account_payer ncn_reward_router
                      program_id (unat MAX_REALLOC_BYTES) (seeds @ [[bump]]) L) (\<lambda>L.
          AccountPayer_transfer E program_id (ai_key ncn) account_payer ncn_reward_receiver
            (minimum_balance E 0) L)))))))))
      | _ \<Rightarrow> Err NotEnoughAccountKeys)"

definition process_realloc_ncn_reward_router ::
  "runtime \<Rightarrow> pubkey \<Rightarrow> account_info list \<Rightarrow> u64 \<Rightarrow> ledger \<Rightarrow> (ledger, program_error) result" where
  "process_realloc_ncn_reward_router E program_id accounts epoch L =
     (case accounts of
        [epoch_state, ncn_config, ncn_reward_router, ncn, account_payer, system_program] \<Rightarrow>
          and_then (load_system_program E system_program) (\<lambda>_.
          and_then (Ncn_load E ncn False L) (\<lambda>_.
          and_then (EpochState_load E program_id epoch_state (ai_key ncn) epoch True L) (\<lambda>_.
          and_then (Config_load E program_id ncn_config (ai_key ncn) False L) (\<lambda>_.
          and_then (AccountPayer_load E program_id account_payer (ai_key ncn) True L) (\<lambda>_.
          let (ncn_reward_router_pda, bump, seeds) =
                NCNRewardRouter_find_program_address E program_id (ai_key ncn) epoch in
          and_then (ensure (ncn_reward_router_pda = ai_key ncn_reward_router) InvalidAccountData) (\<lambda>_.
          and_then (grow_account E program_id (ai_key ncn) account_payer ncn_reward_router DNCNRewardRouter L) (\<lambda>L.
          and_then (should_initialize DNCNRewardRouter (data_at L ncn_reward_router)) (\<lambda>init.
          if init
          then
            and_then (init_view DNCNRewardRouter NCNRewardRouter_zeroed NCNRewardRouter_of
                        (data_at L ncn_reward_router)) (\<lambda>r.
            let L = set_data L ncn_reward_router (NCNRewardRouterData
                      (NCNRewardRouter_initialize r (ai_key ncn) epoch bump (clock_slot E))) in
            and_then (EpochState_of (data_at L epoch_state)) (\<lambda>es.
            Ok (set_data L epoch_state (EpochStateData (update_realloc_ncn_reward_router es)))))
          else Ok L))))))))
      | _ \<Rightarrow> Err NotEnoughAccountKeys)"

definition process_route_ncn_rewards ::
  "runtime \<Rightarrow> 'p precise_ops \<Rightarrow> pubkey \<Rightarrow> account_info list \<Rightarrow> u16 \<Rightarrow> u64 \<Rightarrow> ledger \<Rightarrow> (ledger, program_error) result" where
  "process_route_ncn_rewards E P program_id accounts max_iterations epoch L =
     (case accounts of
        [epoch_state, config, ncn, epoch_snapshot, ballot_box, ncn_reward_router, ncn_reward_receiver] \<Rightarrow>
          and_then (EpochState_load E program_id epoch_state (ai_key ncn) epoch True L) (\<lambda>_.
          and_then (Config_load E program_id config (ai_key ncn) False L) (\<lambda>_.
          and_then (Ncn_load E ncn False L) (\<lambda>_.
          and_then (EpochSnapshot_load E program_id epoch_snapshot (ai_key ncn) epoch False L) (\<lambda>_.
          and_then (NCNRewardRouter_load E program_id ncn_reward_router (ai_key ncn) epoch True L) (\<lambda>_.
          and_then (BallotBox_load E program_id ballot_box (ai_key ncn) epoch False L) (\<lambda>_.
          and_then (NCNRewardReceiver_load E program_id ncn_reward_receiver (ai_key ncn) epoch True L) (\<lambda>_.
          and_then (EpochSnapshot_of (data_at L epoch_snapshot)) (\<lambda>epoch_snapshot_account.
          and_then (BallotBox_of (data_at L ballot_box)) (\<lambda>ballot_box_account.
          and_then (Config_of (data_at L config)) (\<lambda>c.
          and_then (into_program (is_voting_valid ballot_box_account (clock_slot E)
                      (valid_slots_after_consensus c))) (\<lambda>voting.
          and_then (ensure (\<not> voting) (program_error_of VotingIsNotOver)) (\<lambda>_.
          let ncn_reward_receiver_balance = lamports_at L ncn_reward_receiver in
          and_then (NCNRewardRouter_of (data_at L ncn_reward_router)) (\<lambda>r.
          let rent_cost = minimum_balance E 0 in
          and_then (if \<not> NCNRewardRouter_still_routing r
                    then
                      and_then (into_program (NCNRewardRouter_route_incoming_rewards r rent_cost
                                  ncn_reward_receiver_balance)) (\<lambda>r.
                      into_program (NCNRewardRouter_route_reward_pool P r (es_fees epoch_snapshot_account)))
                    else Ok r) (\<lambda>r.
          and_then (into_program (route_operator_vault_rewards P r ballot_box_account max_iterations)) (\<lambda>r.
          let L = set_data L ncn_reward_router (NCNRewardRouterData r) in
          and_then (EpochState_of (data_at L epoch_state)) (\<lambda>es.
          let es = update_route_ncn_rewards es (ncn_rewards r);
              es = update_route_protocol_rewards es (protocol_rewards r);
              es = update_route_total_rewards es (nr_total_rewards r) in
          Ok (set_data L epoch_state (EpochStateData es))))))))))))))))))
      | _ \<Rightarrow> Err NotEnoughAccountKeys)"

definition process_distribute_ncn_rewards ::
  "runtime \<Rightarrow> pubkey \<Rightarrow> account_info list \<Rightarrow> u64 \<Rightarrow> ledger \<Rightarrow> (ledger, program_error) result" where
  "process_distribute_ncn_rewards E program_id accounts epoch L =
     (case accounts of
        [epoch_state, ncn_config, ncn, ncn_reward_router, ncn_reward_receiver, ncn_fee_wallet, system_program] \<Rightarrow>
          and_then (EpochState_load E program_id epoch_state (ai_key ncn) epoch True L) (\<lambda>_.
          and_then (Ncn_load E ncn False L) (\<lambda>_.
          and_then (Config_load E program_id ncn_config (ai_key ncn) False L) (\<lambda>_.
          and_then (NCNRewardRouter_load E program_id ncn_reward_router (ai_key ncn) epoch True L) (\<lambda>_.
          and_then (NCNRewardReceiver_load E program_id ncn_reward_receiver (ai_key ncn) epoch True L) (\<lambda>_.
          and_then (Config_of (data_at L ncn_config)) (\<lambda>c.
          and_then (ensure (ncn_fee_wallets (fee_config_of c) = ai_key ncn_fee_wallet) InvalidAccountData) (\<lambda>_.
          and_then (NCNRewardRouter_of (data_at L ncn_reward_router)) (\<lambda>r.
          and_then (ensure (\<not> NCNRewardRouter_still_routing r) (program_error_of RouterStillRouting)) (\<lambda>_.
          and_then (into_program (distribute_ncn_fee_rewards r)) (\<lambda>(r, rewards).
          let L = set_data L ncn_reward_router (NCNRewardRouterData r) in
          and_then (if 0 < rewards
                    then
                      let (_, bump, seeds) =
                            NCNRewardReceiver_find_program_address E program_id (ai_key ncn) epoch in
                      invoke_signed E program_id
                        (Transfer (ai_key ncn_reward_receiver) (ai_key ncn_fee_wallet) rewards)
                        (seeds @ [[bump]]) L
                    else Ok L) (\<lambda>L.
          and_then (EpochState_of (data_at L epoch_state)) (\<lambda>es.
          Ok (set_data L epoch_state (EpochStateData (update_distribute_ncn_rewards es rewards)))))))))))))))
      | _ \<Rightarrow> Err NotEnoughAccountKeys)"

definition process_distribute_protocol_rewards ::
  "runtime \<Rightarrow> pubkey \<Rightarrow> account_info list \<Rightarrow> u64 \<Rightarrow> ledger \<Rightarrow> (ledger, program_error) result" where
  "process_distribute_protocol_rewards E program_id accounts epoch L =
     (case accounts of
        [epoch_state, ncn_config, ncn, ncn_reward_router, ncn_reward_receiver, protocol_wallet, system_program] \<Rightarrow>
          and_then (EpochState_load E program_id epoch_state (ai_key ncn) epoch True L) (\<lambda>_.
          and_then (Ncn_load E ncn False L) (\<lambda>_.
          and_then (Config_load E program_id ncn_config (ai_key ncn) False L) (\<lambda>_.
          and_then (NCNRewardRouter_load E program_id ncn_reward_router (ai_key ncn) epoch True L) (\<lambda>_.
          and_then (NCNRewardReceiver_load E program_id ncn_reward_receiver (ai_key ncn) epoch True L) (\<lambda>_.
          and_then (Config_of (data_at L ncn_config)) (\<lambda>c.
          and_then (ensure (protocol_fee_wallet (fee_config_of c) = ai_key protocol_wallet) InvalidAccountData) (\<lambda>_.
          and_then (NCNRewardRouter_of (data_at L ncn_reward_router)) (\<lambda>r.
          and_then (ensure (\<not> NCNRewardRouter_still_routing r) (program_error_of RouterStillRouting)) (\<lambda>_.
          and_then (into_program (distribute_protocol_fee_rewards r)) (\<lambda>(r, rewards).
          let L = set_data L ncn_reward_router (NCNRewardRouterData r) in
          and_then (if 0 < rewards
                    then
                      let (_, bump, seeds) =
                            NCNRewardReceiver_find_program_address E program_id (ai_key ncn) epoch in
                      invoke_signed E program_id
                        (Transfer (ai_key ncn_reward_receiver) (ai_key protocol_wallet) rewards)
                        (seeds @ [[bump]]) L
                    else Ok L) (\<lambda>L.
          and_then (EpochState_of (data_at L epoch_state)) (\<lambda>es.
          Ok (set_data L epoch_state (EpochStateData (update_distribute_protocol_rewards es rewards)))))))))))))))
      | _ \<Rightarrow> Err NotEnoughAccountKeys)"

definition process_distribute_operator_vault_reward_route ::
  "runtime \<Rightarrow> pubkey \<Rightarrow> account_info list \<Rightarrow> u64 \<Rightarrow> ledger \<Rightarrow> (ledger, program_error) result" where
  "process_distribute_operator_vault_reward_route E program_id accounts epoch L =
     (case accounts of
        [epoch_state, ncn_config, ncn, operator, ncn_reward_router, ncn_reward_receiver,
         operator_vault_reward_router, operator_vault_reward_receiver, system_program] \<Rightarrow>
          and_then (EpochState_load E program_id epoch_state (ai_key ncn) epoch True L) (\<lambda>_.
          and_then (Ncn_load E ncn False L) (\<lambda>_.
          and_then (Operator_load E operator False L) (\<lambda>_.
          and_then (Config_load E program_id ncn_config (ai_key ncn) False L) (\<lambda>_.
          and_then (NCNRewardRouter_load E program_id ncn_reward_router (ai_key ncn) epoch True L) (\<lambda>_.
          and_then (OperatorVaultRewardRouter_load E program_id operator_vault_reward_router (ai_key operator)
                      (ai_key ncn) epoch False L) (\<lambda>_.
          and_then (NCNRewardReceiver_load E program_id ncn_reward_receiver (ai_key ncn) epoch True L) (\<lambda>_.
          and_then (OperatorVaultRewardReceiver_load E program_id operator_vault_reward_receiver
                      (ai_key operator) (ai_key ncn) epoch False L) (\<lambda>_.
          and_then (load_system_program E system_program) (\<lambda>_.
          and_then (NCNRewardRouter_of (data_at L ncn_reward_router)) (\<lambda>r.
          and_then (ensure (\<not> NCNRewardRouter_still_routing r) (program_error_of RouterStillRouting)) (\<lambda>_.
          and_then (into_program (distribute_operator_vault_reward_route r (ai_key operator))) (\<lambda>(r, rewards).
          let L = set_data L ncn_reward_router (NCNRewardRouterData r) in
          and_then (if 0 < rewards
                    then
                      let (_, bump, seeds) =
                            NCNRewardReceiver_find_program_address E program_id (ai_key ncn) epoch in
                      invoke_signed E program_id
                        (Transfer (ai_key ncn_reward_receiver) (ai_key operator_vault_reward_receiver) rewards)
                        (seeds @ [[bump]]) L
                    else Ok L) (\<lambda>L.
          and_then (EpochState_of (data_at L epoch_state)) (\<lambda>es.
          Ok (set_data L epoch_state
                (EpochStateData (update_distribute_operator_vault_rewards es rewards)))))))))))))))))
      | _ \<Rightarrow> Err NotEnoughAccountKeys)"

section \<open>The operators' routers\<close>

definition process_initialize_operator_vault_reward_router ::
  "runtime \<Rightarrow> pubkey \<Rightarrow> account_info list \<Rightarrow> u64 \<Rightarrow> ledger \<Rightarrow> (ledger, program_error) result" where
  "process_initialize_operator_vault_reward_router E program_id accounts epoch L =
     (case accounts of
        [epoch_marker, epoch_state, ncn, operator, operator_snapshot, operator_vault_reward_router,
         operator_vault_reward_receiver, account_payer, system_program] \<Rightarrow>
          and_then (EpochState_load_and_check_is_closing E program_id epoch_state (ai_key ncn) epoch True L) (\<lambda>_.
          and_then (Ncn_load E ncn False L) (\<lambda>_.
          and_then (Operator_load E operator False L) (\<lambda>_.
          and_then (OperatorSnapshot_load E program_id operator_snapshot (ai_key operator) (ai_key ncn) epoch False L) (\<lambda>_.
          and_then (OperatorVaultRewardReceiver_load E program_id operator_vault_reward_receiver
                      (ai_key operator) (ai_key ncn) epoch True L) (\<lambda>_.
          and_then (load_system_account E operator_vault_reward_router True L) (\<lambda>_.
          and_then (load_system_program E system_program) (\<lambda>_.
          and_then (AccountPayer_load E program_id account_payer (ai_key ncn) True L) (\<lambda>_.
          and_then (EpochMarker_check_dne E program_id epoch_marker (ai_key ncn) epoch L) (\<lambda>_.
          and_then (OperatorSnapshot_of (data_at L operator_snapshot)) (\<lambda>os.
          let operator_ncn_index = os_ncn_operator_index os; current_slot = clock_slot E;
              (operator_vault_reward_router_pubkey, bump, seeds) =
                OperatorVaultRewardRouter_find_program_address E program_id (ai_key operator) (ai_key ncn) epoch in
          and_then (ensure (operator_vault_reward_router_pubkey = ai_key operator_vault_reward_router)
                      InvalidAccountData) (\<lambda>_.
          and_then (pay_and_create_account E program_id (ai_key ncn) account_payer
                      operator_vault_reward_router program_id OperatorVaultRewardRouter_SIZE
                      (seeds @ [[bump]]) L) (\<lambda>L.
          and_then (init_view DOperatorVaultRewardRouter ()
                      (\<lambda>d. and_then (OperatorVaultRewardRouter_of d) (\<lambda>_. Ok ()))
                      (data_at L operator_vault_reward_router)) (\<lambda>_.
          let L = set_data L operator_vault_reward_router (OperatorVaultRewardRouterData
                    (OperatorVaultRewardRouter_new (ai_key operator) operator_ncn_index (ai_key ncn) epoch
                       bump current_slot)) in
          and_then (AccountPayer_transfer E program_id (ai_key ncn) account_payer
                      operator_vault_reward_receiver (minimum_balance E 0) L) (\<lambda>L.
          and_then (EpochState_of (data_at L epoch_state)) (\<lambda>es.
          and_then (update_realloc_operator_vault_reward_router es (unat operator_ncn_index)) (\<lambda>es.
          Ok (set_data L epoch_state (EpochStateData es))))))))))))))))))
      | _ \<Rightarrow> Err NotEnoughAccountKeys)"

definition process_route_operator_vault_rewards ::
  "runtime \<Rightarrow> 'p precise_ops \<Rightarrow> pubkey \<Rightarrow> account_info list \<Rightarrow> u16 \<Rightarrow> u64 \<Rightarrow> ledger \<Rightarrow> (ledger, program_error) result" where
  "process_route_operator_vault_rewards E P program_id accounts max_iterations epoch L =
     (case accounts of
        [epoch_state, ncn, operator, operator_snapshot, router_info, receiver_info] \<Rightarrow>
          and_then (EpochState_load E program_id epoch_state (ai_key ncn) epoch True L) (\<lambda>_.
          and_then (Ncn_load E ncn False L) (\<lambda>_.
          and_then (Operator_load E operator False L) (\<lambda>_.
          and_then (OperatorVaultRewardReceiver_load E program_id receiver_info (ai_key operator)
                      (ai_key ncn) epoch True L) (\<lambda>_.
          and_then (OperatorSnapshot_load E program_id operator_snapshot (ai_key operator) (ai_key ncn) epoch False L) (\<lambda>_.
          and_then (OperatorVaultRewardRouter_load E program_id router_info (ai_key operator) (ai_key ncn) epoch True L) (\<lambda>_.
          and_then (OperatorSnapshot_of (data_at L operator_snapshot)) (\<lambda>os.
          let account_balance = lamports_at L receiver_info in
          and_then (OperatorVaultRewardRouter_of (data_at L router_info)) (\<lambda>r.
          let rent_cost = minimum_balance E 0 in
          and_then (if \<not> OVRR_still_routing r
                    then
                      and_then (into_program (OVRR_route_incoming_rewards r rent_cost account_balance)) (\<lambda>r.
                      into_program (route_operator_rewards P (vault_core_MAX_BPS E) r os))
                    else Ok r) (\<lambda>r.
          and_then (into_program (OVRR_route_reward_pool P r os max_iterations)) (\<lambda>r.
          let L = set_data L router_info (OperatorVaultRewardRouterData r) in
          and_then (EpochState_of (data_at L epoch_state)) (\<lambda>es.
          and_then (update_route_operator_vault_rewards es (unat (os_ncn_operator_index os))
                      (or_total_rewards r)) (\<lambda>es.
          Ok (set_data L epoch_state (EpochStateData es))))))))))))))
      | _ \<Rightarrow> Err NotEnoughAccountKeys)"

definition process_distribute_operator_rewards ::
  "runtime \<Rightarrow> pubkey \<Rightarrow> account_info list \<Rightarrow> u64 \<Rightarrow> ledger \<Rightarrow> (ledger, program_error) result" where
  "process_distribute_operator_rewards E program_id accounts epoch L =
     (case accounts of
        [epoch_state, ncn_config, ncn, operator, operator_snapshot, operator_vault_reward_router,
         operator_vault_reward_receiver, system_program] \<Rightarrow>
          and_then (EpochState_load E program_id epoch_state (ai_key ncn) epoch True L) (\<lambda>_.
          and_then (Ncn_load E ncn False L) (\<lambda>_.
          and_then (Operator_load E operator True L) (\<lambda>_.
          and_then (OperatorSnapshot_load E program_id operator_snapshot (ai_key operator) (ai_key ncn) epoch True L) (\<lambda>_.
          and_then (Config_load E program_id ncn_config (ai_key ncn) False L) (\<lambda>_.
          and_then (OperatorVaultRewardRouter_load E program_id operator_vault_reward_router (ai_key operator)
                      (ai_key ncn) epoch True L) (\<lambda>_.
          and_then (OperatorVaultRewardReceiver_load E program_id operator_vault_reward_receiver
                      (ai_key operator) (ai_key ncn) epoch True L) (\<lambda>_.
          and_then (OperatorVaultRewardRouter_of (data_at L operator_vault_reward_router)) (\<lambda>r.
          and_then (ensure (\<not> OVRR_still_routing r) (program_error_of RouterStillRouting)) (\<lambda>_.
          and_then (into_program (distribute_operator_rewards r)) (\<lambda>(r, rewards).
          let L = set_data L operator_vault_reward_router (OperatorVaultRewardRouterData r) in
          and_then (if 0 < rewards
                    then
                      let (_, bump, seeds) = OperatorVaultRewardReceiver_find_program_address E program_id
                            (ai_key operator) (ai_key ncn) epoch in
                      invoke_signed E program_id
                        (Transfer (ai_key operator_vault_reward_receiver) (ai_key operator) rewards)
                        (seeds @ [[bump]]) L
                    else Ok L) (\<lambda>L.
          and_then (OperatorSnapshot_of (data_at L operator_snapshot)) (\<lambda>os.
          and_then (EpochState_of (data_at L epoch_state)) (\<lambda>es.
          and_then (update_distribute_operator_vault_route_rewards es (unat (os_ncn_operator_index os)) rewards) (\<lambda>es.
          Ok (set_data L epoch_state (EpochStateData es))))))))))))))))
      | _ \<Rightarrow> Err NotEnoughAccountKeys)"

definition process_distribute_vault_rewards ::
  "runtime \<Rightarrow> pubkey \<Rightarrow> account_info list \<Rightarrow> u64 \<Rightarrow> ledger \<Rightarrow> (ledger, program_error) result" where
  "process_distribute_vault_rewards E program_id accounts epoch L =
     (case accounts of
        [epoch_state, ncn_config, ncn, operator, vault, operator_snapshot, operator_vault_reward_router,
         operator_vault_reward_receiver, system_program] \<Rightarrow>
          and_then (EpochState_load E program_id epoch_state (ai_key ncn) epoch True L) (\<lambda>_.
          and_then (Ncn_load E ncn False L) (\<lambda>_.
          and_then (Operator_load E operator False L) (\<lambda>_.
          and_then (Vault_load E vault True L) (\<lambda>_.
          and_then (OperatorSnapshot_load E program_id operator_snapshot (ai_key operator) (ai_key ncn) epoch True L) (\<lambda>_.
          and_then (Config_load E program_id ncn_config (ai_key ncn) False L) (\<lambda>_.
          and_then (OperatorVaultRewardRouter_load E program_id operator_vault_reward_router (ai_key operator)
                      (ai_key ncn) epoch True L) (\<lambda>_.
          and_then (OperatorVaultRewardReceiver_load E program_id operator_vault_reward_receiver
                      (ai_key operator) (ai_key ncn) epoch True L) (\<lambda>_.
          and_then (OperatorVaultRewardRouter_of (data_at L operator_vault_reward_router)) (\<lambda>r.
          and_then (ensure (\<not> OVRR_still_routing r) (program_error_of RouterStillRouting)) (\<lambda>_.
          and_then (into_program (distribute_vault_reward_route r (ai_key vault))) (\<lambda>(r, rewards).
          let L = set_data L operator_vault_reward_router (OperatorVaultRewardRouterData r) in
          and_then (if 0 < rewards
                    then
                      let (_, bump, seeds) = OperatorVaultRewardReceiver_find_program_address E program_id
                            (ai_key operator) (ai_key ncn) epoch in
                      invoke_signed E program_id
                        (Transfer (ai_key operator_vault_reward_receiver) (ai_key vault) rewards)
                        (seeds @ [[bump]]) L
                    else Ok L) (\<lambda>L.
          and_then (OperatorSnapshot_of (data_at L operator_snapshot)) (\<lambda>os.
          and_then (EpochState_of (data_at L epoch_state)) (\<lambda>es.
          and_then (update_distribute_operator_vault_route_rewards es (unat (os_ncn_operator_index os)) rewards) (\<lambda>es.
          Ok (set_data L epoch_state (EpochStateData es)))))))))))))))))
      | _ \<Rightarrow> Err NotEnoughAccountKeys)"

end
