(* ===== verification/Handlers_Close.thy ===== *)
theory Handlers_Close
  imports Handlers_Reward
begin

text \<open>
  \<open>program/src/close_epoch_account.rs\<close>, and the dispatch of instructions in
  \<open>program/src/lib.rs\<close> over the instruction type of \<open>core/src/instruction.rs\<close>.
\<close>

section \<open>Closing\<close>

text \<open>
  The \<open>match\<close> on the discriminator of the account to close: the checks of its type, the
  closing of the receiver that belongs to a router, and the change of the epoch state.
\<close>

definition close_by_discriminator ::
  "runtime \<Rightarrow> pubkey \<Rightarrow> config \<Rightarrow> account_info \<Rightarrow> account_info \<Rightarrow> account_info \<Rightarrow> account_info list \<Rightarrow>
   u64 \<Rightarrow> u8 \<Rightarrow> epoch_state \<Rightarrow> ledger \<Rightarrow> (epoch_state \<times> ledger, program_error) result" where
  "close_by_discriminator E program_id config_account ncn account_to_close account_payer
       optional_accounts epoch discriminator es L =
     (if discriminator = Discriminators_as_u8 DEpochState then
        and_then (EpochState_load_to_close es (ai_key ncn) epoch) (\<lambda>_.
        Ok (close_epoch_state es, L))
      else if discriminator = Discriminators_as_u8 DWeightTable then
        and_then (WeightTable_load_to_close E program_id account_to_close (ai_key ncn) epoch L) (\<lambda>_.
        Ok (close_weight_table es, L))
      else if discriminator = Discriminators_as_u8 DEpochSnapshot then
        and_then (EpochSnapshot_load_to_close E program_id account_to_close (ai_key ncn) epoch L) (\<lambda>_.
        Ok (close_epoch_snapshot es, L))
      else if discriminator = Discriminators_as_u8 DOperatorSnapshot then
        and_then (OperatorSnapshot_load_to_close E program_id account_to_close (ai_key ncn) epoch L) (\<lambda>_.
        and_then (OperatorSnapshot_of (data_at L account_to_close)) (\<lambda>os.
        and_then (close_operator_snapshot es (unat (os_ncn_operator_index os))) (\<lambda>es.
        Ok (es, L))))
      else if discriminator = Discriminators_as_u8 DBallotBox then
        and_then (BallotBox_load_to_close E program_id account_to_close (ai_key ncn) epoch L) (\<lambda>_.
        Ok (close_ballot_box es, L))
      else if discriminator = Discriminators_as_u8 DNCNRewardRouter then
        and_then (NCNRewardRouter_load_to_close E program_id account_to_close (ai_key ncn) epoch L) (\<lambda>_.
        case optional_accounts of
          [ncn_fee_wallet, ncn_reward_receiver] \<Rightarrow>
            and_then (ensure (ncn_fee_wallets (fee_config_of config_account) = ai_key ncn_fee_wallet)
                        (program_error_of InvalidNCNFeeWallet)) (\<lambda>_.
            and_then (NCNRewardReceiver_load E program_id ncn_reward_receiver (ai_key ncn) epoch True L) (\<lambda>_.
            and_then (NCNRewardReceiver_close E program_id (ai_key ncn) epoch ncn_reward_receiver
                        ncn_fee_wallet account_payer L) (\<lambda>L.
            Ok (close_ncn_reward_router es, L))))
        | _ \<Rightarrow> Err (program_error_of CannotCloseAccountNoEnoughAccounts))
      else if discriminator = Discriminators_as_u8 DOperatorVaultRewardRouter then
        and_then (OperatorVaultRewardRouter_load_to_close E program_id account_to_close (ai_key ncn) epoch L) (\<lambda>_.
        case optional_accounts of
          [ncn_fee_wallet, operator_vault_reward_receiver] \<Rightarrow>
            and_then (ensure (ncn_fee_wallets (fee_config_of config_account) = ai_key ncn_fee_wallet)
                        (program_error_of InvalidNCNFeeWallet)) (\<lambda>_.
            and_then (OperatorVaultRewardRouter_of (data_at L account_to_close)) (\<lambda>r.
            let operator = or_operator r in
            and_then (OperatorVaultRewardReceiver_load E program_id operator_vault_reward_receiver
                        operator (ai_key ncn) epoch True L) (\<lambda>_.
            and_then (OperatorVaultRewardReceiver_close E program_id operator (ai_key ncn) epoch
                        operator_vault_reward_receiver ncn_fee_wallet account_payer L) (\<lambda>L.
            and_then (close_operator_vault_reward_router es (unat (or_ncn_operator_index r))) (\<lambda>es.
            Ok (es, L))))))
        | _ \<Rightarrow> Err (program_error_of CannotCloseAccountNoEnoughAccounts))
      else Err (program_error_of InvalidAccountToCloseDiscriminator))"

text \<open>The marker that is left behind when the epoch state goes.\<close>

definition create_epoch_marker ::
  "runtime \<Rightarrow> pubkey \<Rightarrow> account_info \<Rightarrow> account_info \<Rightarrow> account_info \<Rightarrow> u64 \<Rightarrow> ledger \<Rightarrow>
   (ledger, program_error) result" where
  "create_epoch_marker E program_id epoch_marker ncn account_payer epoch L =
     (let (epoch_marker_pda, bump, seeds) = EpochMarker_find_program_address E program_id (ai_key ncn) epoch in
      and_then (ensure (epoch_marker_pda = ai_key epoch_marker) InvalidSeeds) (\<lambda>_.
      and_then (pay_and_create_account E program_id (ai_key ncn) account_payer epoch_marker program_id
                  EpochMarker_SIZE (seeds @ [[bump]]) L) (\<lambda>L.
      and_then (init_view DEpochMarker ()
                  (\<lambda>d. if discriminator_of d = Some DEpochMarker then Ok () else Err InvalidAccountData)
                  (data_at L epoch_marker)) (\<lambda>_.
      Ok (set_data L epoch_marker (EpochMarkerData (EpochMarker_new (ai_key ncn) epoch (clock_slot E))))))))"

definition process_close_epoch_account ::
  "runtime \<Rightarrow> pubkey \<Rightarrow> account_info list \<Rightarrow> u64 \<Rightarrow> ledger \<Rightarrow> (ledger, program_error) result" where
  "process_close_epoch_account E program_id accounts epoch L =
     (case accounts of
        epoch_marker # epoch_state # config # ncn # account_to_close # account_payer # system_program #
        optional_accounts \<Rightarrow>
          and_then (load_system_program E system_program) (\<lambda>_.
          and_then (Ncn_load E ncn False L) (\<lambda>_.
          and_then (EpochState_load E program_id epoch_state (ai_key ncn) epoch False L) (\<lambda>_.
          and_then (Config_load E program_id config (ai_key ncn) False L) (\<lambda>_.
          and_then (AccountPayer_load E program_id account_payer (ai_key ncn) False L) (\<lambda>_.
          and_then (EpochMarker_check_dne E program_id epoch_marker (ai_key ncn) epoch L) (\<lambda>_.
          let closing_epoch_state = (ai_key account_to_close = ai_key epoch_state) in
          and_then (ensure (\<not> data_is_empty (data_at L account_to_close))
                      (program_error_of CannotCloseAccountAlreadyClosed)) (\<lambda>_.
          and_then (Config_of (data_at L config)) (\<lambda>config_account.
          and_then (EpochState_of (data_at L epoch_state)) (\<lambda>es.
          and_then (can_close_epoch_accounts (get_epoch E) es
                      (epochs_after_consensus_before_close config_account) (clock_slot E)) (\<lambda>can_close.
          and_then (ensure can_close (program_error_of CannotCloseAccountNotEnoughEpochs)) (\<lambda>_.
          let es = set_is_closing es in
          and_then (if closing_epoch_state then Ok (Discriminators_as_u8 DEpochState)
                    else first_byte (data_at L account_to_close)) (\<lambda>discriminator.
          and_then (close_by_discriminator E program_id config_account ncn account_to_close account_payer
                      optional_accounts epoch discriminator es L) (\<lambda>(es, L).
          let L = set_data L epoch_state (EpochStateData es) in
          and_then (if closing_epoch_state
                    then create_epoch_marker E program_id epoch_marker ncn account_payer epoch L
                    else Ok L) (\<lambda>L.
          close_account E program_id account_payer account_to_close L))))))))))))))
      | _ \<Rightarrow> Panic)"

section \<open>Dispatch\<close>

datatype NCNProgramInstruction =
    InitializeConfig u64 u64 u64 u16
  | InitializeVaultRegistry
  | ReallocVaultRegistry
  | RegisterVault
  | InitializeEpochState u64
  | InitializeWeightTable u64
  | SetEpochWeights u64
  | ReallocWeightTable u64
  | InitializeEpochSnapshot u64
  | InitializeOperatorSnapshot u64
  | SnapshotVaultOperatorDelegation u64
  | InitializeBallotBox u64
  | ReallocBallotBox u64
  | CastVote u8 u64
  | InitializeNCNRewardRouter u64
  | ReallocNCNRewardRouter u64
  | RouteNCNRewards u16 u64
  | DistributeProtocolRewards u64
  | DistributeNCNRewards u64
  | InitializeOperatorVaultRewardRouter u64
  | DistributeOperatorVaultRewardRoute u64
  | RouteOperatorVaultRewards u16 u64
  | CloseEpochAccount u64
  | DistributeOperatorRewards u64
  | DistributeVaultRewards u64
  | AdminSetParameters "u64 option" "u64 option" "u64 option" "u64 option"
  | AdminSetNewAdmin ConfigAdminRole
  | AdminSetTieBreaker u8 u64
  | AdminSetWeight pubkey u128 u64
  | AdminRegisterStMint "u128 option"
  | AdminSetStMint pubkey "u128 option"

text \<open>
  The instruction data is decoded by \<open>borsh\<close>; \<open>decoded\<close> is what it returns.  \<open>own_id\<close> is the
  address the program was deployed with (\<open>declare_id!\<close> of the build).
\<close>

definition process_instruction ::
  "runtime \<Rightarrow> 'p precise_ops \<Rightarrow> pubkey \<Rightarrow> pubkey \<Rightarrow> account_info list \<Rightarrow>
   (NCNProgramInstruction, program_error) result \<Rightarrow> ledger \<Rightarrow> (ledger, program_error) result" where
  "process_instruction E P own_id program_id accounts decoded L =
     and_then (ensure (\<not> program_id \<noteq> own_id) IncorrectProgramId) (\<lambda>_.
     and_then decoded (\<lambda>instruction.
     case instruction of
       InitializeConfig stall close slots fee_bps \<Rightarrow>
         process_admin_initialize_config E P program_id accounts stall close slots fee_bps L
     | InitializeVaultRegistry \<Rightarrow> process_initialize_vault_registry E program_id accounts L
     | ReallocVaultRegistry \<Rightarrow> process_realloc_vault_registry E program_id accounts L
     | RegisterVault \<Rightarrow> process_register_vault E program_id accounts L
     | InitializeEpochState epoch \<Rightarrow> process_initialize_epoch_state E program_id accounts epoch L
     | InitializeWeightTable epoch \<Rightarrow> process_initialize_weight_table E program_id accounts epoch L
     | ReallocWeightTable epoch \<Rightarrow> process_realloc_weight_table E program_id accounts epoch L
     | SetEpochWeights epoch \<Rightarrow> process_set_epoch_weights E program_id accounts epoch L
     | InitializeEpochSnapshot epoch \<Rightarrow> process_initialize_epoch_snapshot E program_id accounts epoch L
     | InitializeOperatorSnapshot epoch \<Rightarrow> process_initialize_operator_snapshot E program_id accounts epoch L
     | SnapshotVaultOperatorDelegation epoch \<Rightarrow>
         process_snapshot_vault_operator_delegation E P program_id accounts epoch L
     | InitializeBallotBox epoch \<Rightarrow> process_initialize_ballot_box E program_id accounts epoch L
     | ReallocBallotBox epoch \<Rightarrow> process_realloc_ballot_box E program_id accounts epoch L
     | CastVote status epoch \<Rightarrow> process_cast_vote E P program_id accounts status epoch L
     | CloseEpochAccount epoch \<Rightarrow> process_close_epoch_account E program_id accounts epoch L
     | AdminSetParameters start stall close slots \<Rightarrow>
         process_admin_set_parameters E program_id accounts start stall close slots L
     | AdminSetNewAdmin role \<Rightarrow> process_admin_set_new_admin E program_id accounts role L
     | AdminSetTieBreaker status epoch \<Rightarrow> process_admin_set_tie_breaker E program_id accounts status epoch L
     | AdminSetWeight st_mint weight epoch \<Rightarrow>
         process_admin_set_weight E program_id accounts st_mint epoch weight L
     | AdminRegisterStMint weight \<Rightarrow> process_admin_register_st_mint E program_id accounts weight L
     | AdminSetStMint st_mint weight \<Rightarrow> process_admin_set_st_mint E program_id accounts st_mint weight L
     | InitializeNCNRewardRouter epoch \<Rightarrow> process_initialize_ncn_reward_router E program_id accounts epoch L
     | ReallocNCNRewardRouter epoch \<Rightarrow> process_realloc_ncn_reward_router E program_id accounts epoch L
     | RouteNCNRewards max_iterations epoch \<Rightarrow>
         process_route_ncn_rewards E P program_id accounts max_iterations epoch L
     | DistributeProtocolRewards epoch \<Rightarrow> process_distribute_protocol_rewards E program_id accounts epoch L
     | DistributeNCNRewards epoch \<Rightarrow> process_distribute_ncn_rewards E program_id accounts epoch L
     | InitializeOperatorVaultRewardRouter epoch \<Rightarrow>
         process_initialize_operator_vault_reward_router E program_id accounts epoch L
     | DistributeOperatorVaultRewardRoute epoch \<Rightarrow>
         process_distribute_operator_vault_reward_route E program_id accounts epoch L
     | RouteOperatorVaultRewards max_iterations epoch \<Rightarrow>
         process_route_operator_vault_rewards E P program_id accounts max_iterations epoch L
     | DistributeOperatorRewards epoch \<Rightarrow> process_distribute_operator_rewards E program_id accounts epoch L
     | DistributeVaultRewards epoch \<Rightarrow> process_distribute_vault_rewards E program_id accounts epoch L))"

end
