(* ===== verification/Ncn_Reward_Correct.thy ===== *)
theory Ncn_Reward_Correct
  imports Ncn_Reward_Router Routing_Loop
begin

text \<open>
  Correctness of the NCN reward router: every routing step conserves the rewards, the split
  and the operators' shares are the exact floors of the rational shares, and routing always
  completes.
\<close>

section \<open>Single steps\<close>

lemma route_from_reward_pool_Ok:
  "NCNRewardRouter_route_from_reward_pool r n = Ok r' \<longleftrightarrow>
     (\<exists>p q. unat (nr_reward_pool r) = unat n + unat p \<and>
            unat (nr_rewards_processed r) + unat n = unat q \<and>
            r' = r\<lparr>nr_reward_pool := p, nr_rewards_processed := q\<rparr>)"
proof (cases "n = 0")
  case True
  then show ?thesis
    by (auto simp: NCNRewardRouter_route_from_reward_pool_def word_unat_eq_iff [symmetric])
next
  case False
  then show ?thesis
    by (auto simp: NCNRewardRouter_route_from_reward_pool_def result_simps checked_simps
        NCNRewardRouter_increment_rewards_processed_def)
qed

lemma route_to_protocol_Ok:
  "route_to_protocol r n = Ok r' \<longleftrightarrow>
     (\<exists>p. unat (protocol_rewards r) + unat n = unat p \<and> r' = r\<lparr>protocol_rewards := p\<rparr>)"
  by (cases "n = 0") (auto simp: route_to_protocol_def result_simps checked_simps word_unat_eq_iff [symmetric])

lemma route_to_ncn_Ok:
  "route_to_ncn r n = Ok r' \<longleftrightarrow>
     (\<exists>p. unat (ncn_rewards r) + unat n = unat p \<and> r' = r\<lparr>ncn_rewards := p\<rparr>)"
  by (cases "n = 0") (auto simp: route_to_ncn_def result_simps checked_simps word_unat_eq_iff [symmetric])

lemma route_to_operator_vault_Ok:
  "route_to_operator_vault r n = Ok r' \<longleftrightarrow>
     (\<exists>p. unat (operator_vault_rewards r) + unat n = unat p \<and> r' = r\<lparr>operator_vault_rewards := p\<rparr>)"
  by (cases "n = 0") (auto simp: route_to_operator_vault_def result_simps checked_simps word_unat_eq_iff [symmetric])

lemma route_from_operator_vault_Ok:
  "route_from_operator_vault_rewards r n = Ok r' \<longleftrightarrow>
     (\<exists>p. unat (operator_vault_rewards r) = unat n + unat p \<and> r' = r\<lparr>operator_vault_rewards := p\<rparr>)"
  by (cases "n = 0") (auto simp: route_from_operator_vault_rewards_def result_simps checked_simps word_unat_eq_iff [symmetric])

lemma decrement_processed_Ok:
  "NCNRewardRouter_decrement_rewards_processed r n = Ok r' \<longleftrightarrow>
     (\<exists>p. unat (nr_rewards_processed r) = unat n + unat p \<and> r' = r\<lparr>nr_rewards_processed := p\<rparr>)"
  by (cases "n = 0") (auto simp: NCNRewardRouter_decrement_rewards_processed_def result_simps checked_simps word_unat_eq_iff [symmetric])

lemma nr_stepI:
  "unat (nr_reward_pool r) = unat n + unat p \<Longrightarrow> unat (nr_rewards_processed r) + unat n = unat q \<Longrightarrow>
     NCNRewardRouter_route_from_reward_pool r n = Ok (r\<lparr>nr_reward_pool := p, nr_rewards_processed := q\<rparr>)"
  "unat (protocol_rewards r) + unat n = unat p \<Longrightarrow> route_to_protocol r n = Ok (r\<lparr>protocol_rewards := p\<rparr>)"
  "unat (ncn_rewards r) + unat n = unat p \<Longrightarrow> route_to_ncn r n = Ok (r\<lparr>ncn_rewards := p\<rparr>)"
  "unat (operator_vault_rewards r) + unat n = unat p \<Longrightarrow>
     route_to_operator_vault r n = Ok (r\<lparr>operator_vault_rewards := p\<rparr>)"
  "unat (operator_vault_rewards r) = unat n + unat p \<Longrightarrow>
     route_from_operator_vault_rewards r n = Ok (r\<lparr>operator_vault_rewards := p\<rparr>)"
  "unat (nr_rewards_processed r) = unat n + unat p \<Longrightarrow>
     NCNRewardRouter_decrement_rewards_processed r n = Ok (r\<lparr>nr_rewards_processed := p\<rparr>)"
  unfolding route_from_reward_pool_Ok route_to_protocol_Ok route_to_ncn_Ok
    route_to_operator_vault_Ok route_from_operator_vault_Ok decrement_processed_Ok by blast+

section \<open>The reward pool\<close>

lemma reward_split_Ok:
  assumes P: "precise_number P raw" and b: "unat b \<le> 10000"
  shows "\<exists>a. calculate_reward_split P b n = Ok a \<and> unat a = unat n * unat b div 10000"
proof (cases "b = 0 \<or> n = 0")
  case True
  then show ?thesis by (auto simp: calculate_reward_split_def)
next
  case False
  have den: "(ucast BASIS_POINTS_DENOMINATOR :: u128) \<noteq> 0" "unat BASIS_POINTS_DENOMINATOR = 10000"
    by (simp_all add: BASIS_POINTS_DENOMINATOR_def)
  have le: "unat n * unat b div 10000 \<le> unat n" by (rule share_le_amount [OF b])
  then have lt: "unat n * unat b div 10000 < 2 ^ 64" using unat_u64_less [of n] by simp
  have "precise_share P n (ucast b) (ucast BASIS_POINTS_DENOMINATOR)
      = Ok (word_of_nat (unat n * unat b div 10000))"
    using precise_number.precise_share_floor [OF P den(1), of "ucast b" n] lt b
    by (simp add: den(2))
  with False lt show ?thesis by (auto simp: calculate_reward_split_def unat_of_nat)
qed

lemma route_reward_pool_splits:
  assumes P: "precise_number P raw" and wf: "nr_wf r"
    and fees: "unat (fee (protocol_fee_bps fs)) + unat (fee (ncn_fee_bps fs)) \<le> 10000"
    and fits: "unat (nr_reward_pool r) + unat (nr_rewards_processed r) < 2 ^ 64"
  defines "pool \<equiv> unat (nr_reward_pool r)"
  defines "pf \<equiv> pool * unat (fee (protocol_fee_bps fs)) div 10000"
  defines "nf \<equiv> pool * unat (fee (ncn_fee_bps fs)) div 10000"
  shows "\<exists>r'. NCNRewardRouter_route_reward_pool P r fs = Ok r' \<and> nr_wf r' \<and>
    unat (protocol_rewards r') = unat (protocol_rewards r) + pf \<and>
    unat (ncn_rewards r') = unat (ncn_rewards r) + nf \<and>
    unat (operator_vault_rewards r') = unat (operator_vault_rewards r) + (pool - pf - nf) \<and>
    nr_reward_pool r' = 0 \<and>
    unat (nr_rewards_processed r') = unat (nr_rewards_processed r) + pool \<and>
    operator_vault_reward_routes r' = operator_vault_reward_routes r \<and>
    nr_total_rewards r' = nr_total_rewards r \<and> pf + nf \<le> pool"
proof -
  have le: "pf + nf \<le> pool"
  proof -
    have "pf + nf \<le> pool * (unat (fee (protocol_fee_bps fs)) + unat (fee (ncn_fee_bps fs))) div 10000"
      unfolding pf_def nf_def by (subst distrib_left, subst div_add1_eq) simp
    also have "\<dots> \<le> pool" by (rule share_le_amount [OF fees])
    finally show ?thesis .
  qed
  have "unat (fee (protocol_fee_bps fs)) \<le> 10000" "unat (fee (ncn_fee_bps fs)) \<le> 10000"
    using fees by simp_all
  from reward_split_Ok [OF P this(1), of "nr_reward_pool r"]
    reward_split_Ok [OF P this(2), of "nr_reward_pool r"]
  obtain pa na where pa: "calculate_reward_split P (fee (protocol_fee_bps fs)) (nr_reward_pool r) = Ok pa"
      "unat pa = pf"
    and na: "calculate_reward_split P (fee (ncn_fee_bps fs)) (nr_reward_pool r) = Ok na" "unat na = nf"
    by (auto simp: pf_def nf_def pool_def)
  have bk: "unat (nr_rewards_processed r) = unat (protocol_rewards r) + unat (ncn_rewards r) +
      unat (operator_vault_rewards r) + op_routes.routed (operator_vault_reward_routes r)"
    using wf by (simp add: nr_wf_def nr_buckets_def)
  have b: "pool + unat (nr_rewards_processed r) < 2 ^ 64" using fits by (simp add: pool_def)
  obtain p1 :: u64 where p1: "unat p1 = pool - pf" using b by (metis word_for diff_le_self le_less_trans trans_le_add1)
  obtain q1 :: u64 where q1: "unat q1 = unat (nr_rewards_processed r) + pf"
    using b le word_for [of "unat (nr_rewards_processed r) + pf"] by auto
  obtain a1 :: u64 where a1: "unat a1 = unat (protocol_rewards r) + pf"
    using b le bk word_for [of "unat (protocol_rewards r) + pf"] by auto
  have "pool - pf - nf < 2 ^ 64" using b by simp
  then obtain p2 :: u64 where p2: "unat p2 = pool - pf - nf" using word_for by blast
  obtain q2 :: u64 where q2: "unat q2 = unat (nr_rewards_processed r) + pf + nf"
    using b le word_for [of "unat (nr_rewards_processed r) + pf + nf"] by auto
  obtain n2 :: u64 where n2: "unat n2 = unat (ncn_rewards r) + nf"
    using b le bk word_for [of "unat (ncn_rewards r) + nf"] by auto
  obtain q3 :: u64 where q3: "unat q3 = unat (nr_rewards_processed r) + pool"
    using b word_for [of "unat (nr_rewards_processed r) + pool"] by auto
  have "unat (operator_vault_rewards r) + (pool - pf - nf) < 2 ^ 64" using b bk by simp
  then obtain o3 :: u64 where o3: "unat o3 = unat (operator_vault_rewards r) + (pool - pf - nf)"
    using word_for by blast
  let ?r1 = "r\<lparr>nr_reward_pool := p1, nr_rewards_processed := q1\<rparr>"
  let ?r2 = "?r1\<lparr>protocol_rewards := a1\<rparr>"
  let ?r3 = "?r2\<lparr>nr_reward_pool := p2, nr_rewards_processed := q2\<rparr>"
  let ?r4 = "?r3\<lparr>ncn_rewards := n2\<rparr>"
  let ?r5 = "?r4\<lparr>nr_reward_pool := 0, nr_rewards_processed := q3\<rparr>"
  let ?r6 = "?r5\<lparr>operator_vault_rewards := o3\<rparr>"
  have s1: "NCNRewardRouter_route_from_reward_pool r pa = Ok ?r1"
    by (rule nr_stepI(1)) (use p1 q1 le in \<open>simp_all add: pa(2) pool_def\<close>)
  have s2: "route_to_protocol ?r1 pa = Ok ?r2"
    by (rule nr_stepI(2)) (use a1 in \<open>simp add: pa(2)\<close>)
  have s3: "NCNRewardRouter_route_from_reward_pool ?r2 na = Ok ?r3"
    using nr_stepI(1) [of ?r2 na p2 q2] p1 p2 q1 q2 le na(2) by simp
  have s4: "route_to_ncn ?r3 na = Ok ?r4"
    by (rule nr_stepI(3)) (use n2 in \<open>simp add: na(2)\<close>)
  have s5: "NCNRewardRouter_route_from_reward_pool ?r4 p2 = Ok ?r5"
    using nr_stepI(1) [of ?r4 p2 0 q3] p2 q2 q3 le by simp
  have s6: "route_to_operator_vault ?r5 p2 = Ok ?r6"
    by (rule nr_stepI(4)) (use o3 p2 in simp)
  have "NCNRewardRouter_route_reward_pool P r fs = Ok ?r6"
    using s1 s2 s3 s4 s5 s6 pa na by (simp add: NCNRewardRouter_route_reward_pool_def)
  moreover have "nr_wf ?r6"
    using wf a1 n2 o3 q3 le bk by (simp add: nr_wf_def nr_buckets_def)
  ultimately show ?thesis using a1 n2 o3 q3 le by (intro exI [of _ ?r6]) simp
qed

section \<open>Routing to the operators\<close>

definition route_keys :: "ncn_reward_router \<Rightarrow> pubkey set" where
  "route_keys r = ovrr_operator ` set (op_routes.live (operator_vault_reward_routes r))"

abbreviation routed_to :: "pubkey \<Rightarrow> ncn_reward_router \<Rightarrow> nat" where
  "routed_to k r \<equiv> op_routes.routed_to k (operator_vault_reward_routes r)"

text \<open>Crediting an operator's route succeeds, and adds the amount to that route only.\<close>

lemma route_to_operator_route:
  assumes len: "length (operator_vault_reward_routes r) = 256"
    and ok: "op_routes.keys_ok (operator_vault_reward_routes r)"
    and K: "route_keys r \<subseteq> K" "finite K" "card K \<le> 256" and op: "op \<in> K" "op \<noteq> Pubkey_default"
    and fits: "op_routes.routed (operator_vault_reward_routes r) + unat n < 2 ^ 64"
  shows "\<exists>xs. route_to_operator_vault_reward_route r op n = Ok (r\<lparr>operator_vault_reward_routes := xs\<rparr>) \<and>
    length xs = 256 \<and> op_routes.keys_ok xs \<and> ovrr_operator ` set (op_routes.live xs) \<subseteq> K \<and>
    op_routes.routed xs = op_routes.routed (operator_vault_reward_routes r) + unat n \<and>
    (\<forall>k. k \<noteq> Pubkey_default \<longrightarrow>
       op_routes.routed_to k xs = routed_to k r + (if k = op then unat n else 0))"
proof (cases "n = 0")
  case True
  with assms show ?thesis
    by (intro exI [of _ "operator_vault_reward_routes r"])
      (simp add: route_to_operator_vault_reward_route_def route_keys_def)
next
  case False
  let ?xs = "operator_vault_reward_routes r"
  have pk: "op_routes.packed ?xs" using ok by (simp add: op_routes.keys_ok_def)
  note scan = op_routes.position_key_or_empty [OF pk op(2)]
  show ?thesis
  proof (cases "position (\<lambda>x. ovrr_operator x = op) ?xs")
    case (Some i)
    note pos = position_Some [OF Some]
    have "unat (OperatorVaultRewardRoute_rewards (?xs ! i)) + unat n < 2 ^ 64"
      using op_routes.routed_nth_le [of i ?xs] pos fits by simp
    then obtain a :: u64 where a: "unat a = unat (OperatorVaultRewardRoute_rewards (?xs ! i)) + unat n"
      using word_for by blast
    let ?y = "(?xs ! i)\<lparr>ovrr_rewards := (ovrr_rewards (?xs ! i))\<lparr>nrr_rewards := a\<rparr>\<rparr>"
    have y: "ovrr_operator ?y = op" "OperatorVaultRewardRoute_rewards ?y = a"
      using pos by (simp_all add: OperatorVaultRewardRoute_rewards_def)
    have "checked_add (OperatorVaultRewardRoute_rewards (?xs ! i)) n = Some a"
      using a by (simp add: checked_simps)
    then have "OperatorVaultRewardRoute_increment_rewards (?xs ! i) n = Ok ?y"
      by (simp add: OperatorVaultRewardRoute_increment_rewards_def OperatorVaultRewardRoute_set_rewards_def)
    then have res: "route_to_operator_vault_reward_route r op n
        = Ok (r\<lparr>operator_vault_reward_routes := ?xs[i := ?y]\<rparr>)"
      using False scan Some pos by (simp add: route_to_operator_vault_reward_route_def Let_def)
    note w = op_routes.rewrite_route [OF ok Some op(2) y(1)]
    have "ovrr_operator ` set (op_routes.live (?xs[i := ?y])) = route_keys r"
      using arg_cong [OF w(4), of set] by (simp add: route_keys_def)
    with res w(1,2,3,5) y(2) a K(1) len show ?thesis by (intro exI [of _ "?xs[i := ?y]"]) auto
  next
    case None
    obtain i where i: "position (\<lambda>x. ovrr_operator x = Pubkey_default) ?xs = Some i"
      using op_routes.room_for_key [OF ok _ K(2) _ op(1) None] K(1,3) len by (auto simp: route_keys_def)
    let ?y = "\<lparr>ovrr_operator = op, ovrr_rewards = \<lparr>nrr_rewards = n\<rparr>\<rparr>"
    have y: "ovrr_operator ?y = op" "OperatorVaultRewardRoute_rewards ?y = n"
      by (simp_all add: OperatorVaultRewardRoute_rewards_def)
    have "ovrr_operator (?xs ! i) \<noteq> op" using position_Some [OF i] op(2) by simp
    then have res: "route_to_operator_vault_reward_route r op n
        = Ok (r\<lparr>operator_vault_reward_routes := ?xs[i := ?y]\<rparr>)"
      using False scan None i
      by (simp add: route_to_operator_vault_reward_route_def OperatorVaultRewardRoute_new_def
          OperatorVaultRewardRoute_set_rewards_def)
    note w = op_routes.append_route [OF ok i op(2) None y(1)]
    have "ovrr_operator ` set (op_routes.live (?xs[i := ?y])) = insert op (route_keys r)"
      using arg_cong [OF w(4), of set] by (simp add: route_keys_def)
    with res w(1,2,3,5) y(2) K(1) op(1) len show ?thesis by (intro exI [of _ "?xs[i := ?y]"]) auto
  qed
qed

text \<open>The loop without its iteration limit: what is left to do is a function of the votes.\<close>

fun credit_votes ::
  "'p precise_ops \<Rightarrow> ballot_tally \<Rightarrow> u64 \<Rightarrow> ncn_reward_router \<Rightarrow> operator_vote list \<Rightarrow>
   (ncn_reward_router, ncn_error) result" where
  "credit_votes P win R r [] = Ok r"
| "credit_votes P win R r (v # vs) =
     (if ov_ballot_index v = bt_index win then
        and_then (calculate_operator_vault_route_reward P (stake_weight (ov_stake_weights v))
                    (stake_weight (bt_stake_weights win)) R) (\<lambda>a.
        and_then (route_from_operator_vault_rewards r a) (\<lambda>r.
        and_then (route_to_operator_vault_reward_route r (ov_operator v) a) (\<lambda>r.
        credit_votes P win R r vs)))
      else credit_votes P win R r vs)"

abbreviation winner :: "ballot_tally \<Rightarrow> operator_vote \<Rightarrow> bool" where
  "winner win v \<equiv> ov_ballot_index v = bt_index win"

section \<open>Shares\<close>

definition share :: "u64 \<Rightarrow> ballot_tally \<Rightarrow> operator_vote \<Rightarrow> nat" where
  "share R win v = unat R * vote_weight v div tally_weight win"

lemma route_reward_Ok:
  assumes P: "precise_number P raw" and le: "vote_weight v \<le> tally_weight win"
    and small: "vote_weight v < 2 ^ 112"
  shows "\<exists>a. calculate_operator_vault_route_reward P (stake_weight (ov_stake_weights v))
    (stake_weight (bt_stake_weights win)) R = Ok a \<and> unat a = share R win v"
proof (cases "stake_weight (ov_stake_weights v) = 0 \<or> R = 0")
  case True
  then show ?thesis by (auto simp: calculate_operator_vault_route_reward_def share_def)
next
  case False
  then have "0 < vote_weight v" by (simp add: unat_gt_0)
  with le have ne: "stake_weight (bt_stake_weights win) \<noteq> 0" by (auto simp: unat_eq_0)
  have "share R win v \<le> unat R" unfolding share_def by (rule share_le_amount [OF le])
  then have lt: "share R win v < 2 ^ 64" using unat_u64_less [of R] by simp
  have "precise_share P R (stake_weight (ov_stake_weights v)) (stake_weight (bt_stake_weights win))
      = Ok (word_of_nat (share R win v))"
    using precise_number.precise_share_floor [OF P ne small, of R] lt by (simp add: share_def)
  with False lt show ?thesis by (auto simp: calculate_operator_vault_route_reward_def unat_of_nat)
qed

text \<open>A router in the middle of routing the votes \<open>vs\<close>: the shares still to pay are covered.\<close>

definition routable :: "ballot_tally \<Rightarrow> u64 \<Rightarrow> pubkey set \<Rightarrow> operator_vote list \<Rightarrow> bool" where
  "routable win R K vs \<longleftrightarrow>
     (\<forall>v \<in> set vs. winner win v \<longrightarrow> ov_operator v \<in> K \<and> ov_operator v \<noteq> Pubkey_default \<and>
        vote_weight v \<le> tally_weight win \<and> vote_weight v < 2 ^ 112)"

definition same_but_routes :: "ncn_reward_router \<Rightarrow> ncn_reward_router \<Rightarrow> bool" where
  "same_but_routes r r' \<longleftrightarrow>
     r' = r\<lparr>operator_vault_rewards := operator_vault_rewards r',
            operator_vault_reward_routes := operator_vault_reward_routes r'\<rparr>"

lemma same_but_routes_fields:
  assumes "same_but_routes r r'"
  shows "ncn_rewards r' = ncn_rewards r" "protocol_rewards r' = protocol_rewards r"
    "nr_reward_pool r' = nr_reward_pool r" "nr_rewards_processed r' = nr_rewards_processed r"
    "nr_total_rewards r' = nr_total_rewards r"
  by (subst assms [unfolded same_but_routes_def], simp)+

lemma credit_votes_runs:
  assumes P: "precise_number P raw" and K: "finite K" "card K \<le> 256"
  shows "nr_wf r \<Longrightarrow> route_keys r \<subseteq> K \<Longrightarrow> routable win R K vs \<Longrightarrow>
    sum_where (winner win) (share R win) vs \<le> unat (operator_vault_rewards r) \<Longrightarrow>
    \<exists>r'. credit_votes P win R r vs = Ok r' \<and> nr_wf r' \<and> route_keys r' \<subseteq> K \<and> same_but_routes r r' \<and>
      unat (operator_vault_rewards r') + sum_where (winner win) (share R win) vs
        = unat (operator_vault_rewards r) \<and>
      (\<forall>k. k \<noteq> Pubkey_default \<longrightarrow> routed_to k r' =
         routed_to k r + sum_where (\<lambda>v. winner win v \<and> ov_operator v = k) (share R win) vs)"
proof (induction vs arbitrary: r)
  case Nil
  then show ?case by (simp add: same_but_routes_def)
next
  case (Cons v vs)
  have tail: "routable win R K vs" using Cons.prems(3) by (simp add: routable_def)
  show ?case
  proof (cases "winner win v")
    case False
    with Cons.IH [OF Cons.prems(1,2) tail] Cons.prems(4) show ?thesis by simp
  next
    case True
    then have v: "ov_operator v \<in> K" "ov_operator v \<noteq> Pubkey_default"
      "vote_weight v \<le> tally_weight win" "vote_weight v < 2 ^ 112"
      using Cons.prems(3) by (simp_all add: routable_def)
    obtain a where a: "calculate_operator_vault_route_reward P (stake_weight (ov_stake_weights v))
        (stake_weight (bt_stake_weights win)) R = Ok a" "unat a = share R win v"
      using route_reward_Ok [OF P v(3,4)] by blast
    have cover: "unat a + sum_where (winner win) (share R win) vs \<le> unat (operator_vault_rewards r)"
      using Cons.prems(4) True a(2) by simp
    let ?p = "operator_vault_rewards r - a"
    have p: "unat (operator_vault_rewards r) = unat a + unat ?p"
      using cover by (simp add: unat_sub word_le_nat_alt)
    define r1 where "r1 = r\<lparr>operator_vault_rewards := ?p\<rparr>"
    have s1: "route_from_operator_vault_rewards r a = Ok r1"
      unfolding r1_def by (rule nr_stepI(5) [OF p])
    have len: "length (operator_vault_reward_routes r1) = 256"
      and kok: "op_routes.keys_ok (operator_vault_reward_routes r1)"
      using Cons.prems(1) by (simp_all add: nr_wf_def r1_def)
    have rk: "route_keys r1 \<subseteq> K" using Cons.prems(2) by (simp add: r1_def route_keys_def)
    have "unat (nr_rewards_processed r) < 2 ^ 64" using unat_u64_less by simp
    then have fits: "op_routes.routed (operator_vault_reward_routes r1) + unat a < 2 ^ 64"
      using Cons.prems(1) p by (simp add: nr_wf_def nr_buckets_def r1_def)
    from route_to_operator_route [OF len kok rk K v(1,2) fits] obtain xs where
      s2: "route_to_operator_vault_reward_route r1 (ov_operator v) a
            = Ok (r1\<lparr>operator_vault_reward_routes := xs\<rparr>)"
      and xs: "length xs = 256" "op_routes.keys_ok xs" "ovrr_operator ` set (op_routes.live xs) \<subseteq> K"
        "op_routes.routed xs = op_routes.routed (operator_vault_reward_routes r1) + unat a"
        "\<forall>k. k \<noteq> Pubkey_default \<longrightarrow> op_routes.routed_to k xs
            = routed_to k r1 + (if k = ov_operator v then unat a else 0)" by blast
    define r2 where "r2 = r1\<lparr>operator_vault_reward_routes := xs\<rparr>"
    have wf2: "nr_wf r2" and rk2: "route_keys r2 \<subseteq> K"
      using Cons.prems(1) xs p by (simp_all add: nr_wf_def nr_buckets_def r2_def r1_def route_keys_def)
    have "sum_where (winner win) (share R win) vs \<le> unat (operator_vault_rewards r2)"
      using cover p by (simp add: r2_def r1_def)
    from Cons.IH [OF wf2 rk2 tail this] obtain r' where
      r': "credit_votes P win R r2 vs = Ok r'" "nr_wf r'" "route_keys r' \<subseteq> K" "same_but_routes r2 r'"
        "unat (operator_vault_rewards r') + sum_where (winner win) (share R win) vs
          = unat (operator_vault_rewards r2)"
        "\<forall>k. k \<noteq> Pubkey_default \<longrightarrow> routed_to k r' = routed_to k r2
           + sum_where (\<lambda>v. winner win v \<and> ov_operator v = k) (share R win) vs" by blast
    have run: "credit_votes P win R r (v # vs) = Ok r'"
      using True a(1) s1 s2 r'(1) by (simp add: r2_def)
    have "same_but_routes r r'"
      using r'(4) by (simp add: same_but_routes_def r2_def r1_def)
    with run r' xs(5) True a(2) p show ?thesis
      by (intro exI [of _ r']) (auto simp: r2_def r1_def)
  qed
qed

section \<open>Saving and resuming\<close>

text \<open>One vote of the loop, what comes after the loop, and where a call starts.\<close>

definition credit_vote ::
  "'p precise_ops \<Rightarrow> ballot_tally \<Rightarrow> u64 \<Rightarrow> ncn_reward_router \<Rightarrow> operator_vote \<Rightarrow> (ncn_reward_router, ncn_error) result" where
  "credit_vote P win R r v =
     and_then (calculate_operator_vault_route_reward P (stake_weight (ov_stake_weights v))
                 (stake_weight (bt_stake_weights win)) R) (\<lambda>a.
     and_then (route_from_operator_vault_rewards r a) (\<lambda>r.
     route_to_operator_vault_reward_route r (ov_operator v) a))"

definition finish_routing :: "ncn_reward_router \<Rightarrow> (ncn_reward_router, ncn_error) result" where
  "finish_routing r =
     (let leftover = operator_vault_rewards r in
      and_then (route_from_operator_vault_rewards r leftover) (\<lambda>r.
      and_then (route_to_ncn r leftover) (\<lambda>r.
      Ok (NCNRewardRouter_reset_routing_state r))))"

definition start_of :: "ncn_reward_router \<Rightarrow> nat" where
  "start_of r = fst (NCNRewardRouter_resume_routing_state r)"

definition amount_of :: "ncn_reward_router \<Rightarrow> u64" where
  "amount_of r = (let s = snd (NCNRewardRouter_resume_routing_state r)
                  in if 0 < s then s else operator_vault_rewards r)"

definition route_with_tally ::
  "'p precise_ops \<Rightarrow> ballot_tally \<Rightarrow> ballot_box \<Rightarrow> ncn_reward_router \<Rightarrow> u16 \<Rightarrow> (ncn_reward_router, ncn_error) result" where
  "route_with_tally P win b r m =
    (if amount_of r = 0 then Ok r
     else and_then (route_votes_loop P win (amount_of r) (max m 1) r 0 (start_of r)
                      (drop (start_of r) (operator_votes b))) (\<lambda>(r, d).
          if \<not> d then Ok r else finish_routing r))"

lemma route_operator_vault_rewards_unfold:
  assumes "get_winning_ballot_tally b = Ok win"
  shows "route_operator_vault_rewards P r b m = route_with_tally P win b r m"
proof -
  obtain i s where "NCNRewardRouter_resume_routing_state r = (i, s)"
    by (cases "NCNRewardRouter_resume_routing_state r")
  with assms show ?thesis
    unfolding route_operator_vault_rewards_def route_with_tally_def amount_of_def start_of_def
      finish_routing_def Let_def
    by auto
qed

abbreviation save :: "nat \<Rightarrow> u64 \<Rightarrow> ncn_reward_router \<Rightarrow> ncn_reward_router" where
  "save j R r \<equiv> NCNRewardRouter_save_routing_state r j R"

text \<open>The steps of the loop do not look at the saved position.\<close>

lemma save_commutes:
  "route_from_operator_vault_rewards (save j R r) n = map_ok (save j R) (route_from_operator_vault_rewards r n)"
  "route_to_operator_vault_reward_route (save j R r) op n
     = map_ok (save j R) (route_to_operator_vault_reward_route r op n)"
  "route_to_ncn (save j R r) n = map_ok (save j R) (route_to_ncn r n)"
proof -
  obtain e p n t rp pr rs li lr pt nc ov rt r' where r: "r = \<lparr>nr_ncn = e, nr_epoch = p, nr_bump = n,
      nr_slot_created = t, nr_total_rewards = rp, nr_reward_pool = pr, nr_rewards_processed = rs,
      nr_reserved = li, last_vote_index = lr, nr_last_rewards_to_process = pt, protocol_rewards = nc,
      ncn_rewards = ov, operator_vault_rewards = rt, operator_vault_reward_routes = r'\<rparr>"
    by (cases r)
  show "route_from_operator_vault_rewards (save j R r) n = map_ok (save j R) (route_from_operator_vault_rewards r n)" for n
    by (simp add: r route_from_operator_vault_rewards_def map_ok_and_then NCNRewardRouter_save_routing_state_def)
  show "route_to_operator_vault_reward_route (save j R r) op n
     = map_ok (save j R) (route_to_operator_vault_reward_route r op n)" for n
    by (simp add: r route_to_operator_vault_reward_route_def map_ok_and_then Let_def
      NCNRewardRouter_save_routing_state_def split: option.split)
  show "route_to_ncn (save j R r) n = map_ok (save j R) (route_to_ncn r n)" for n
    by (simp add: r route_to_ncn_def map_ok_and_then NCNRewardRouter_save_routing_state_def)
qed

lemma reset_not_routing: "\<not> NCNRewardRouter_still_routing (NCNRewardRouter_reset_routing_state r)"
  by (simp add: NCNRewardRouter_still_routing_def NCNRewardRouter_reset_routing_state_def)

lemma reset_save: "NCNRewardRouter_reset_routing_state (save j R x) = NCNRewardRouter_reset_routing_state x"
  by (simp add: NCNRewardRouter_reset_routing_state_def NCNRewardRouter_save_routing_state_def)

lemma save_rewards: "operator_vault_rewards (save j R r) = operator_vault_rewards r"
  by (simp add: NCNRewardRouter_save_routing_state_def)

lemma save_resumes:
  assumes "j < 65535"
  shows "NCNRewardRouter_still_routing (save j R r)"
    and "NCNRewardRouter_resume_routing_state (save j R r) = (j, R)"
proof -
  have j: "unat (word_of_nat j :: u16) = j" using assms by (simp add: unat_of_nat)
  then have "(word_of_nat j :: u16) \<noteq> NO_LAST_VOTE_INDEX"
    using assms by (auto simp: NO_LAST_VOTE_INDEX_def word_unat_eq_iff unsigned_minus_1_eq_mask mask_eq_exp_minus_1)
  then show st: "NCNRewardRouter_still_routing (save j R r)"
    by (simp add: NCNRewardRouter_still_routing_def NCNRewardRouter_save_routing_state_def)
  show "NCNRewardRouter_resume_routing_state (save j R r) = (j, R)"
    using st j by (simp add: NCNRewardRouter_resume_routing_state_def)
      (simp add: NCNRewardRouter_save_routing_state_def)
qed

interpretation ncn_routing: resumable_routing
  "route_votes_loop P win" "winner win" "credit_vote P win" "\<lambda>j R r. save j R r"
  "route_with_tally P win b" "operator_votes b" start_of amount_of NCNRewardRouter_still_routing
  finish_routing
  for P :: "'p precise_ops" and win :: ballot_tally and b :: ballot_box
proof
  show "credit_vote P win R' (save j R s) x = map_ok (\<lambda>r. save j R r) (credit_vote P win R' s x)" for R' j R s x
    by (simp add: credit_vote_def save_commutes map_ok_and_then and_then_map_ok)
  show "finish_routing s = Ok s' \<Longrightarrow> \<not> NCNRewardRouter_still_routing s'" for s s'
    by (auto simp: finish_routing_def result_simps Let_def reset_not_routing)
  show "finish_routing (save j R s) = finish_routing s" for j R s
    by (simp add: finish_routing_def save_commutes and_then_map_ok reset_save save_rewards)
qed (simp_all add: credit_vote_def and_then_assoc route_with_tally_def start_of_def amount_of_def
    save_resumes word_neq_0_conv cong: if_cong)

lemma credit_eq: "routing_loop.credit (winner win) (credit_vote P win) R r vs = credit_votes P win R r vs"
  by (induction vs arbitrary: r) (simp_all add: ncn_routing.credit.simps credit_vote_def and_then_assoc)

lemma route_one_shot:
  assumes "get_winning_ballot_tally b = Ok win" and "length (operator_votes b) \<le> 256" and "256 \<le> unat M"
  shows "route_operator_vault_rewards P r b M =
    (if amount_of r = 0 then Ok r
     else and_then (credit_votes P win (amount_of r) r (drop (start_of r) (operator_votes b))) finish_routing)"
  using ncn_routing.one_shot [OF assms(2,3), of P win r]
  by (simp add: route_operator_vault_rewards_unfold [OF assms(1)] credit_eq)

section \<open>The winning voters\<close>

text \<open>What the operators are owed, in terms of the abstract log of votes.\<close>

definition operator_share :: "(pubkey \<times> u8 \<times> nat) list \<Rightarrow> u8 \<Rightarrow> nat \<Rightarrow> pubkey \<Rightarrow> nat" where
  "operator_share lg s R k =
     sum_where (\<lambda>x. fst (snd x) = s \<and> fst x = k) (\<lambda>x. R * snd (snd x) div log_stake s lg) lg"

definition all_shares :: "(pubkey \<times> u8 \<times> nat) list \<Rightarrow> u8 \<Rightarrow> nat \<Rightarrow> nat" where
  "all_shares lg s R = sum_where (\<lambda>x. fst (snd x) = s) (\<lambda>x. R * snd (snd x) div log_stake s lg) lg"

abbreviation voters :: "ballot_box \<Rightarrow> pubkey set" where
  "voters b \<equiv> fst ` set (ballot_log b)"

abbreviation winning_status :: "ballot_box \<Rightarrow> u8" where
  "winning_status b \<equiv> weather_status (winning_ballot b)"

lemma all_shares_le: "all_shares lg s R \<le> R"
  unfolding all_shares_def by (rule shares_within) (simp add: log_stake_def)

lemma voters_cast: "voters b = ov_operator ` set (cast_votes b)"
  by (force simp: ballot_log_def)

lemma voters_finite: "bb_wf b \<Longrightarrow> finite (voters b) \<and> card (voters b) \<le> 256"
proof -
  assume wf: "bb_wf b"
  have "card (voters b) \<le> length (cast_votes b)"
    unfolding voters_cast by (metis card_image_le card_length finite_set le_trans)
  also have "\<dots> \<le> 256"
    using wf votes.length_live [of "operator_votes b"]
    by (simp add: bb_wf_def bb_tables_ok_def cast_votes_live MAX_OPERATORS_def)
  finally show ?thesis by simp
qed

lemma winner_facts:
  assumes wf: "bb_wf b" and dec: "is_consensus_reached b"
  obtains win where "get_winning_ballot_tally b = Ok win"
    and "tally_weight win = log_stake (winning_status b) (ballot_log b)"
    and "\<And>v. v \<in> set (operator_votes b) \<Longrightarrow> winner win v \<longleftrightarrow> v \<in> set (cast_votes b) \<and>
      weather_status (bt_ballot (ballot_tallies b ! unat (ov_ballot_index v))) = winning_status b"
proof -
  have "ballot_is_valid (winning_ballot b)"
    using wf dec by (auto simp: bb_wf_def bb_winner_ok_def is_consensus_reached_def)
  from winning_tally_found [OF wf this] obtain i where i: "i < length (live_tallies b)"
    and win: "get_winning_ballot_tally b = Ok (live_tallies b ! i)"
    and ix: "bt_index (live_tallies b ! i) = word_of_nat i"
    and st: "weather_status (bt_ballot (live_tallies b ! i)) = winning_status b" and i256: "i < 256"
    by metis
  have ui: "unat (word_of_nat i :: u16) = i" using i256 by simp
  have "winner (live_tallies b ! i) v \<longleftrightarrow> v \<in> set (cast_votes b) \<and>
      weather_status (bt_ballot (ballot_tallies b ! unat (ov_ballot_index v))) = winning_status b"
    if v: "v \<in> set (operator_votes b)" for v
  proof (cases "v \<in> set (cast_votes b)")
    case True
    with vote_status_iff [OF wf True i] show ?thesis
      using ui by (auto simp: votes_for_def st ix word_unat_eq_iff)
  next
    case False
    then have "ov_ballot_index v = u16_MAX" using v by (simp add: cast_votes_def OperatorVote_is_empty_def)
    moreover have "(word_of_nat i :: u16) \<noteq> u16_MAX" by (rule u16_index_not_max [OF i256])
    ultimately show ?thesis using False ix by auto
  qed
  with win tally_is_log(1) [OF wf i] st show thesis by (intro that) simp_all
qed

text \<open>Sums over the winning entries of the vote table are sums over the log.\<close>

lemma winner_sum:
  assumes win: "\<And>v. v \<in> set (operator_votes b) \<Longrightarrow> winner win v \<longleftrightarrow> v \<in> set (cast_votes b) \<and>
      weather_status (bt_ballot (ballot_tallies b ! unat (ov_ballot_index v))) = winning_status b"
  shows "sum_where (\<lambda>v. winner win v \<and> Q (ov_operator v)) (\<lambda>v. f (vote_weight v)) (operator_votes b)
    = sum_where (\<lambda>x. fst (snd x) = winning_status b \<and> Q (fst x)) (\<lambda>x. f (snd (snd x))) (ballot_log b)"
proof -
  let ?st = "\<lambda>v. weather_status (bt_ballot (ballot_tallies b ! unat (ov_ballot_index v))) = winning_status b"
  have "filter (\<lambda>v. winner win v \<and> Q (ov_operator v)) (operator_votes b)
      = filter (\<lambda>v. ?st v \<and> Q (ov_operator v)) (cast_votes b)"
    unfolding cast_votes_def filter_filter using win by (intro filter_cong) (auto simp: cast_votes_def)
  then show ?thesis
    by (simp add: sum_where_def ballot_log_def filter_map comp_def)
qed

section \<open>A complete routing\<close>

lemma finish_routing_Ok:
  assumes wf: "nr_wf r"
  shows "\<exists>r'. finish_routing r = Ok r' \<and> nr_wf r' \<and> operator_vault_rewards r' = 0 \<and>
    unat (ncn_rewards r') = unat (ncn_rewards r) + unat (operator_vault_rewards r) \<and>
    operator_vault_reward_routes r' = operator_vault_reward_routes r \<and>
    nr_rewards_processed r' = nr_rewards_processed r \<and> nr_reward_pool r' = nr_reward_pool r \<and>
    protocol_rewards r' = protocol_rewards r \<and> nr_total_rewards r' = nr_total_rewards r \<and>
    \<not> NCNRewardRouter_still_routing r'"
proof -
  let ?l = "operator_vault_rewards r"
  have s1: "route_from_operator_vault_rewards r ?l = Ok (r\<lparr>operator_vault_rewards := 0\<rparr>)"
    by (rule nr_stepI(5)) simp
  have "unat (nr_rewards_processed r) < 2 ^ 64" using unat_u64_less by simp
  then have "unat (ncn_rewards r) + unat ?l < 2 ^ 64" using wf by (simp add: nr_wf_def nr_buckets_def)
  then obtain n :: u64 where n: "unat n = unat (ncn_rewards r) + unat ?l" using word_for by blast
  let ?r1 = "r\<lparr>operator_vault_rewards := 0\<rparr>"
  let ?r' = "NCNRewardRouter_reset_routing_state (?r1\<lparr>ncn_rewards := n\<rparr>)"
  have s2: "route_to_ncn ?r1 ?l = Ok (?r1\<lparr>ncn_rewards := n\<rparr>)" by (rule nr_stepI(3)) (simp add: n)
  have "finish_routing r = Ok ?r'" using s1 s2 by (simp add: finish_routing_def Let_def)
  moreover have "nr_wf ?r'"
    using wf n by (simp add: nr_wf_def nr_buckets_def NCNRewardRouter_reset_routing_state_def)
  ultimately show ?thesis
    using n reset_not_routing by (intro exI [of _ ?r']) (simp add: NCNRewardRouter_reset_routing_state_def)
qed

text \<open>
  The state between calls: the operators with a route have voted, and a router that is not in
  the middle of a routing starts at the first vote.
\<close>

definition ready_to_route :: "ballot_box \<Rightarrow> ncn_reward_router \<Rightarrow> bool" where
  "ready_to_route b r \<longleftrightarrow> nr_wf r \<and> \<not> NCNRewardRouter_still_routing r \<and> route_keys r \<subseteq> voters b"

lemma not_routing_start:
  "\<not> NCNRewardRouter_still_routing r \<Longrightarrow> start_of r = 0 \<and> amount_of r = operator_vault_rewards r"
  by (simp add: start_of_def amount_of_def NCNRewardRouter_resume_routing_state_def)

definition routed_all :: "ballot_box \<Rightarrow> ncn_reward_router \<Rightarrow> ncn_reward_router \<Rightarrow> bool" where
  "routed_all b r r' \<longleftrightarrow>
     (let R = unat (operator_vault_rewards r); s = winning_status b; lg = ballot_log b in
      operator_vault_rewards r' = 0 \<and>
      unat (ncn_rewards r') = unat (ncn_rewards r) + (R - all_shares lg s R) \<and>
      (\<forall>k. k \<noteq> Pubkey_default \<longrightarrow> routed_to k r' = routed_to k r + operator_share lg s R k) \<and>
      protocol_rewards r' = protocol_rewards r \<and> nr_reward_pool r' = nr_reward_pool r \<and>
      nr_rewards_processed r' = nr_rewards_processed r \<and> nr_total_rewards r' = nr_total_rewards r)"

lemma votes_routable:
  assumes wf: "bb_wf b" and small: "\<forall>x \<in> set (ballot_log b). snd (snd x) < 2 ^ 112"
    and tw: "tally_weight win = log_stake (winning_status b) (ballot_log b)"
    and win: "\<And>v. v \<in> set (operator_votes b) \<Longrightarrow> winner win v \<longleftrightarrow> v \<in> set (cast_votes b) \<and>
      weather_status (bt_ballot (ballot_tallies b ! unat (ov_ballot_index v))) = winning_status b"
  shows "routable win R (voters b) (operator_votes b)"
  unfolding routable_def
proof (intro ballI impI)
  fix v assume v: "v \<in> set (operator_votes b)" "winner win v"
  let ?x = "(ov_operator v, winning_status b, vote_weight v)"
  have c: "v \<in> set (cast_votes b)" using v win by blast
  have "?x \<in> set (ballot_log b)" using v win by (force simp: ballot_log_def)
  then have x: "?x \<in> set (filter (\<lambda>x. fst (snd x) = winning_status b) (ballot_log b))" by simp
  then have "vote_weight v \<le> log_stake (winning_status b) (ballot_log b)"
    unfolding log_stake_def sum_where_def using member_le_sum_list [of "vote_weight v"] by force
  with tw c x small wf show "ov_operator v \<in> voters b \<and> ov_operator v \<noteq> Pubkey_default \<and>
      vote_weight v \<le> tally_weight win \<and> vote_weight v < 2 ^ 112"
    by (force simp: voters_cast bb_wf_def bb_votes_ok_def)
qed

lemma routing_complete:
  assumes P: "precise_number P raw" and wf: "bb_wf b" and dec: "is_consensus_reached b"
    and rdy: "ready_to_route b r" and small: "\<forall>x \<in> set (ballot_log b). snd (snd x) < 2 ^ 112"
    and M: "256 \<le> unat M"
  shows "\<exists>r'. route_operator_vault_rewards P r b M = Ok r' \<and> ready_to_route b r' \<and> routed_all b r r'"
proof -
  from winner_facts [OF wf dec] obtain win where win: "get_winning_ballot_tally b = Ok win"
    and tw: "tally_weight win = log_stake (winning_status b) (ballot_log b)"
    and wv: "\<And>v. v \<in> set (operator_votes b) \<Longrightarrow> winner win v \<longleftrightarrow> v \<in> set (cast_votes b) \<and>
      weather_status (bt_ballot (ballot_tallies b ! unat (ov_ballot_index v))) = winning_status b" by metis
  let ?R = "operator_vault_rewards r" and ?lg = "ballot_log b" and ?s = "winning_status b"
  have len: "length (operator_votes b) \<le> 256"
    using wf by (simp add: bb_wf_def bb_tables_ok_def MAX_OPERATORS_def)
  have rwf: "nr_wf r" and rk: "route_keys r \<subseteq> voters b" and st: "start_of r = 0" "amount_of r = ?R"
    using rdy not_routing_start by (auto simp: ready_to_route_def)
  note fin = voters_finite [OF wf]
  have sh: "sum_where (winner win) (share ?R win) (operator_votes b) = all_shares ?lg ?s (unat ?R)"
    using winner_sum [OF wv, of "\<lambda>_. True" "\<lambda>w. unat ?R * w div tally_weight win"]
    by (simp add: all_shares_def tw share_def [abs_def])
  have shk: "sum_where (\<lambda>v. winner win v \<and> ov_operator v = k) (share ?R win) (operator_votes b)
      = operator_share ?lg ?s (unat ?R) k" for k
    using winner_sum [OF wv, of "\<lambda>x. x = k" "\<lambda>w. unat ?R * w div tally_weight win"]
    by (simp add: operator_share_def tw share_def [abs_def])
  have "sum_where (winner win) (share ?R win) (operator_votes b) \<le> unat ?R"
    unfolding sh by (rule all_shares_le)
  from credit_votes_runs [OF P conjunct1 [OF fin] conjunct2 [OF fin] rwf rk
      votes_routable [OF wf small tw wv] this]
  obtain r1 where r1: "credit_votes P win ?R r (operator_votes b) = Ok r1" "nr_wf r1"
    "route_keys r1 \<subseteq> voters b" "same_but_routes r r1"
    "unat (operator_vault_rewards r1) + all_shares ?lg ?s (unat ?R) = unat ?R"
    "\<forall>k. k \<noteq> Pubkey_default \<longrightarrow> routed_to k r1 = routed_to k r + operator_share ?lg ?s (unat ?R) k"
    unfolding sh shk by blast
  have same: "ncn_rewards r1 = ncn_rewards r" "protocol_rewards r1 = protocol_rewards r"
    "nr_reward_pool r1 = nr_reward_pool r" "nr_rewards_processed r1 = nr_rewards_processed r"
    "nr_total_rewards r1 = nr_total_rewards r"
    by (rule same_but_routes_fields [OF r1(4)])+
  show ?thesis
  proof (cases "?R = 0")
    case True
    then have "route_operator_vault_rewards P r b M = Ok r"
      using route_one_shot [OF win len M, of P r] st by simp
    with True rdy show ?thesis
      by (intro exI [of _ r]) (simp add: routed_all_def Let_def operator_share_def all_shares_def sum_where_def)
  next
    case False
    from finish_routing_Ok [OF r1(2)] obtain r' where r': "finish_routing r1 = Ok r'" "nr_wf r'"
      "operator_vault_rewards r' = 0"
      "unat (ncn_rewards r') = unat (ncn_rewards r1) + unat (operator_vault_rewards r1)"
      "operator_vault_reward_routes r' = operator_vault_reward_routes r1"
      "nr_rewards_processed r' = nr_rewards_processed r1" "nr_reward_pool r' = nr_reward_pool r1"
      "protocol_rewards r' = protocol_rewards r1" "nr_total_rewards r' = nr_total_rewards r1"
      "\<not> NCNRewardRouter_still_routing r'" by blast
    have "route_operator_vault_rewards P r b M = Ok r'"
      using route_one_shot [OF win len M, of P r] st False r1(1) r'(1) by simp
    moreover have "ready_to_route b r'"
      using r'(2,5,10) r1(3) by (simp add: ready_to_route_def route_keys_def)
    moreover have "routed_all b r r'"
      using r' r1(5,6) same by (simp add: routed_all_def Let_def)
    ultimately show ?thesis by blast
  qed
qed

section \<open>Routing in several calls\<close>

text \<open>The instruction is sent until the router has finished.\<close>

fun route_in_calls ::
  "'p precise_ops \<Rightarrow> ballot_box \<Rightarrow> ncn_reward_router \<Rightarrow> u16 list \<Rightarrow> (ncn_reward_router, ncn_error) result" where
  "route_in_calls P b r [] = Ok r"
| "route_in_calls P b r (m # ms) =
     and_then (route_operator_vault_rewards P r b m) (\<lambda>r.
     if NCNRewardRouter_still_routing r then route_in_calls P b r ms else Ok r)"

lemma route_in_calls_eq:
  assumes "get_winning_ballot_tally b = Ok win"
  shows "route_in_calls P b r ms =
    resumable_routing.in_calls (route_with_tally P win b) NCNRewardRouter_still_routing ms r"
  by (induction ms arbitrary: r)
    (simp_all add: route_operator_vault_rewards_unfold [OF assms] ncn_routing.in_calls.simps cong: if_cong)

lemma route_in_calls_finish:
  assumes win: "get_winning_ballot_tally b = Ok win" and len: "length (operator_votes b) \<le> 256"
    and M: "256 \<le> unat M" and whole: "route_operator_vault_rewards P r b M = Ok r'"
    and amt: "amount_of r \<noteq> 0" and fin: "\<not> NCNRewardRouter_still_routing r'"
    and ms: "256 \<le> sum_list (map (\<lambda>m. unat (max m 1)) ms)"
  shows "route_in_calls P b r ms = Ok r'"
proof -
  have "ms \<noteq> []" using ms by auto
  moreover have "resumable_routing.left (winner win) (operator_votes b) start_of r
      \<le> sum_list (map (\<lambda>m. unat (max m 1)) ms)"
    using ncn_routing.left_le [of win b r] len ms by simp
  ultimately show ?thesis
    using ncn_routing.in_calls_finish [OF len M, of P win r r' ms] whole amt fin
    by (simp add: route_in_calls_eq [OF win] route_operator_vault_rewards_unfold [OF win])
qed

section \<open>Conservation\<close>

lemma route_to_operator_route_OkD:
  assumes ok: "op_routes.keys_ok (operator_vault_reward_routes r)" and op: "op \<noteq> Pubkey_default"
    and res: "route_to_operator_vault_reward_route r op n = Ok r'"
  shows "\<exists>xs. r' = r\<lparr>operator_vault_reward_routes := xs\<rparr> \<and>
    length xs = length (operator_vault_reward_routes r) \<and> op_routes.keys_ok xs \<and>
    op_routes.routed xs = op_routes.routed (operator_vault_reward_routes r) + unat n"
proof (cases "n = 0")
  case True
  with res ok show ?thesis
    by (intro exI [of _ "operator_vault_reward_routes r"])
      (simp add: route_to_operator_vault_reward_route_def)
next
  case False
  let ?xs = "operator_vault_reward_routes r"
  have pk: "op_routes.packed ?xs" using ok by (simp add: op_routes.keys_ok_def)
  note scan = op_routes.position_key_or_empty [OF pk op]
  show ?thesis
  proof (cases "position (\<lambda>x. ovrr_operator x = op) ?xs")
    case (Some i)
    note pos = position_Some [OF Some]
    from res False scan Some pos obtain y where
      y: "OperatorVaultRewardRoute_increment_rewards (?xs ! i) n = Ok y"
      and r': "r' = r\<lparr>operator_vault_reward_routes := ?xs[i := y]\<rparr>"
      by (auto simp: route_to_operator_vault_reward_route_def Let_def result_simps)
    have "ovrr_operator y = op"
      "unat (OperatorVaultRewardRoute_rewards y) = unat (OperatorVaultRewardRoute_rewards (?xs ! i)) + unat n"
      using y pos by (auto simp: OperatorVaultRewardRoute_increment_rewards_def
          OperatorVaultRewardRoute_set_rewards_def OperatorVaultRewardRoute_rewards_def
          result_simps checked_simps)
    with op_routes.rewrite_route(1,2) [OF ok Some op] r' show ?thesis by force
  next
    case None
    from res False scan None obtain i where i: "position (\<lambda>x. ovrr_operator x = Pubkey_default) ?xs = Some i"
      by (cases "position (\<lambda>x. ovrr_operator x = Pubkey_default) ?xs")
        (auto simp: route_to_operator_vault_reward_route_def)
    let ?y = "\<lparr>ovrr_operator = op, ovrr_rewards = \<lparr>nrr_rewards = n\<rparr>\<rparr>"
    have "ovrr_operator (?xs ! i) \<noteq> op" using position_Some [OF i] op by simp
    then have "r' = r\<lparr>operator_vault_reward_routes := ?xs[i := ?y]\<rparr>"
      using res False scan None i
      by (simp add: route_to_operator_vault_reward_route_def OperatorVaultRewardRoute_new_def
          OperatorVaultRewardRoute_set_rewards_def Let_def)
    with op_routes.append_route(1,2) [OF ok i op None, of ?y] show ?thesis
      by (intro exI [of _ "?xs[i := ?y]"]) (simp add: OperatorVaultRewardRoute_rewards_def)
  qed
qed

text \<open>What every routing step keeps: the buckets, and what is accounted for in all.\<close>

definition nr_in_transit :: "ncn_reward_router \<Rightarrow> nat" where
  "nr_in_transit r = unat (nr_reward_pool r) + unat (nr_rewards_processed r)"

definition conserves :: "ncn_reward_router \<Rightarrow> ncn_reward_router \<Rightarrow> bool" where
  "conserves r r' \<longleftrightarrow> nr_wf r' \<and> nr_in_transit r' = nr_in_transit r \<and>
     nr_total_rewards r' = nr_total_rewards r"

lemma credit_vote_conserves:
  assumes wf: "nr_wf r" and ne: "ov_operator v \<noteq> Pubkey_default" and ok: "credit_vote P win R r v = Ok r'"
  shows "conserves r r'"
proof -
  from ok obtain a r1 where r1: "route_from_operator_vault_rewards r a = Ok r1"
    and r2: "route_to_operator_vault_reward_route r1 (ov_operator v) a = Ok r'"
    by (auto simp: credit_vote_def result_simps)
  from r1 obtain p where p: "unat (operator_vault_rewards r) = unat a + unat p"
    "r1 = r\<lparr>operator_vault_rewards := p\<rparr>" by (auto simp: route_from_operator_vault_Ok)
  have "op_routes.keys_ok (operator_vault_reward_routes r1)" using wf p(2) by (simp add: nr_wf_def)
  from route_to_operator_route_OkD [OF this ne r2] show ?thesis
    using wf p by (auto simp: conserves_def nr_wf_def nr_buckets_def nr_in_transit_def)
qed

lemma save_conserves: "conserves r s \<Longrightarrow> conserves r (save j R s)"
  by (simp add: conserves_def nr_wf_def nr_buckets_def nr_in_transit_def
      NCNRewardRouter_save_routing_state_def)

lemma conserves_trans: "conserves r s \<Longrightarrow> conserves s t \<Longrightarrow> conserves r t"
  by (simp add: conserves_def)

lemma route_operators_conserves:
  assumes wf: "nr_wf r" and bwf: "bb_wf b" and ok: "route_operator_vault_rewards P r b m = Ok r'"
  shows "conserves r r'"
proof -
  from ok obtain win where win: "get_winning_ballot_tally b = Ok win"
    by (auto simp: route_operator_vault_rewards_def result_simps)
  then have dec: "is_consensus_reached b"
    by (auto simp: get_winning_ballot_tally_def is_consensus_reached_def split: if_splits)
  from winner_facts [OF bwf dec] win have wv: "v \<in> set (cast_votes b)"
    if "v \<in> set (operator_votes b)" "winner win v" for v using that by (metis result.inject(1))
  have ne: "ov_operator v \<noteq> Pubkey_default" if "v \<in> set (operator_votes b)" "winner win v" for v
    using wv [OF that] bwf by (force simp: bb_wf_def bb_votes_ok_def)
  show ?thesis
  proof (rule ncn_routing.call_keeps [of "conserves r" b win P])
    show "route_with_tally P win b r m = Ok r'"
      using ok by (simp add: route_operator_vault_rewards_unfold [OF win])
    show "conserves r s'" if "conserves r s" "v \<in> set (operator_votes b)" "winner win v"
      "credit_vote P win R s v = Ok s'" for R s v s'
    proof (rule conserves_trans [OF that(1)])
      have "nr_wf s" using that(1) by (simp add: conserves_def)
      then show "conserves s s'" by (rule credit_vote_conserves [OF _ ne [OF that(2,3)] that(4)])
    qed
    show "conserves r s'" if "conserves r s" "finish_routing s = Ok s'" for s s'
      using that finish_routing_Ok [of s] by (auto simp: conserves_def nr_in_transit_def)
  qed (use wf in \<open>simp_all add: save_conserves\<close>, simp add: conserves_def)
qed

lemma route_reward_pool_conserves:
  assumes wf: "nr_wf r" and ok: "NCNRewardRouter_route_reward_pool P r fs = Ok r'"
  shows "conserves r r'"
  using ok wf
  by (auto simp: NCNRewardRouter_route_reward_pool_def Let_def result_simps route_from_reward_pool_Ok
      route_to_protocol_Ok route_to_ncn_Ok route_to_operator_vault_Ok conserves_def nr_wf_def
      nr_buckets_def nr_in_transit_def)

section \<open>Incoming rewards and payments\<close>

lemma incoming_Ok:
  "NCNRewardRouter_route_incoming_rewards r rent bal = Ok r' \<longleftrightarrow>
     nr_in_transit r < 2 ^ 64 \<and>
     (\<exists>(n :: u64) t p. unat bal = nr_in_transit r + unat rent + unat n \<and>
        unat (nr_total_rewards r) + unat n = unat t \<and> unat (nr_reward_pool r) + unat n = unat p \<and>
        r' = r\<lparr>nr_total_rewards := t, nr_reward_pool := p\<rparr>)"
    (is "?l \<longleftrightarrow> ?r")
proof
  assume ?l
  then obtain q i n where qs: "checked_add (nr_reward_pool r) (nr_rewards_processed r) = Some q"
    "checked_sub bal q = Some i" "checked_sub i rent = Some n"
    and r': "NCNRewardRouter_route_to_reward_pool r n = Ok r'"
    by (auto simp: NCNRewardRouter_route_incoming_rewards_def NCNRewardRouter_total_rewards_in_transit_def
        result_simps)
  then have q: "unat (nr_reward_pool r) + unat (nr_rewards_processed r) = unat q"
    and i: "unat bal = unat q + unat i" and n: "unat i = unat rent + unat n"
    by (simp_all only: checked_simps)
  have "\<exists>t p. unat (nr_total_rewards r) + unat n = unat t \<and> unat (nr_reward_pool r) + unat n = unat p \<and>
        r' = r\<lparr>nr_total_rewards := t, nr_reward_pool := p\<rparr>" (is "\<exists>t p. ?c t p")
    using r' by (cases "n = 0") (auto simp: NCNRewardRouter_route_to_reward_pool_def result_simps
        checked_simps word_unat_eq_iff [symmetric])
  then obtain t p where "?c t p" by blast
  moreover have "nr_in_transit r < 2 ^ 64" "unat bal = nr_in_transit r + unat rent + unat n"
    using q i n unat_u64_less [of q] by (simp_all add: nr_in_transit_def)
  ultimately show ?r by blast
next
  assume r: ?r
  then obtain n :: u64 and t p where lt: "nr_in_transit r < 2 ^ 64"
    and b: "unat bal = nr_in_transit r + unat rent + unat n"
    and t: "unat (nr_total_rewards r) + unat n = unat t" and p: "unat (nr_reward_pool r) + unat n = unat p"
    and r': "r' = r\<lparr>nr_total_rewards := t, nr_reward_pool := p\<rparr>" by blast
  from lt obtain q :: u64 where q: "unat q = nr_in_transit r" using word_for by blast
  have "unat rent + unat n < 2 ^ 64" using b unat_u64_less [of bal] by simp
  then obtain i :: u64 where i: "unat i = unat rent + unat n" using word_for by blast
  have "checked_add (nr_reward_pool r) (nr_rewards_processed r) = Some q" "checked_sub bal q = Some i"
    "checked_sub i rent = Some n"
    using q i b by (simp_all add: checked_simps nr_in_transit_def)
  moreover have "NCNRewardRouter_route_to_reward_pool r n = Ok r'"
  proof (cases "n = 0")
    case True
    then have "t = nr_total_rewards r" "p = nr_reward_pool r" using t p by (simp_all add: word_unat_eq_iff)
    with True r' show ?thesis by (simp add: NCNRewardRouter_route_to_reward_pool_def)
  next
    case False
    have "checked_add (nr_total_rewards r) n = Some t" "checked_add (nr_reward_pool r) n = Some p"
      using t p by (simp_all only: checked_simps)
    with False r' show ?thesis by (simp add: NCNRewardRouter_route_to_reward_pool_def)
  qed
  ultimately show ?l
    by (simp add: NCNRewardRouter_route_incoming_rewards_def NCNRewardRouter_total_rewards_in_transit_def)
qed

text \<open>A payment empties one bucket and takes as much off the processed rewards.\<close>

definition paid :: "ncn_reward_router \<Rightarrow> ncn_reward_router \<Rightarrow> u64 \<Rightarrow> bool" where
  "paid r r' n \<longleftrightarrow> nr_wf r' \<and> nr_in_transit r = nr_in_transit r' + unat n \<and>
     nr_total_rewards r' = nr_total_rewards r \<and> nr_reward_pool r' = nr_reward_pool r"

lemma processed_minus:
  fixes n :: u64
  assumes "nr_wf r" and "unat n \<le> nr_buckets r"
  shows "\<exists>p :: u64. unat (nr_rewards_processed r) = unat n + unat p"
proof -
  have "unat n \<le> unat (nr_rewards_processed r)" using assms by (simp add: nr_wf_def)
  then show ?thesis
    by (intro exI [of _ "nr_rewards_processed r - n"]) (simp add: unat_sub word_le_nat_alt)
qed

lemma distribute_ncn_pays:
  assumes wf: "nr_wf r"
  shows "\<exists>r'. distribute_ncn_fee_rewards r = Ok (r', ncn_rewards r) \<and> paid r r' (ncn_rewards r) \<and>
    ncn_rewards r' = 0 \<and> protocol_rewards r' = protocol_rewards r \<and>
    operator_vault_reward_routes r' = operator_vault_reward_routes r"
proof -
  have "unat (ncn_rewards r) \<le> nr_buckets r" by (simp add: nr_buckets_def)
  from processed_minus [OF wf this] obtain p :: u64 where
    p: "unat (nr_rewards_processed r) = unat (ncn_rewards r) + unat p" by blast
  let ?r' = "r\<lparr>ncn_rewards := 0, nr_rewards_processed := p\<rparr>"
  have "NCNRewardRouter_decrement_rewards_processed (r\<lparr>ncn_rewards := 0\<rparr>) (ncn_rewards r) = Ok ?r'"
    by (rule nr_stepI(6)) (simp add: p)
  with wf p show ?thesis
    by (intro exI [of _ ?r'])
      (simp add: distribute_ncn_fee_rewards_def paid_def nr_wf_def nr_buckets_def nr_in_transit_def)
qed

lemma distribute_protocol_pays:
  assumes wf: "nr_wf r"
  shows "\<exists>r'. distribute_protocol_fee_rewards r = Ok (r', protocol_rewards r) \<and>
    paid r r' (protocol_rewards r) \<and> protocol_rewards r' = 0 \<and> ncn_rewards r' = ncn_rewards r \<and>
    operator_vault_reward_routes r' = operator_vault_reward_routes r"
proof -
  have "unat (protocol_rewards r) \<le> nr_buckets r" by (simp add: nr_buckets_def)
  from processed_minus [OF wf this] obtain p :: u64 where
    p: "unat (nr_rewards_processed r) = unat (protocol_rewards r) + unat p" by blast
  let ?r' = "r\<lparr>protocol_rewards := 0, nr_rewards_processed := p\<rparr>"
  have "NCNRewardRouter_decrement_rewards_processed (r\<lparr>protocol_rewards := 0\<rparr>) (protocol_rewards r) = Ok ?r'"
    by (rule nr_stepI(6)) (simp add: p)
  with wf p show ?thesis
    by (intro exI [of _ ?r'])
      (simp add: distribute_protocol_fee_rewards_def paid_def nr_wf_def nr_buckets_def nr_in_transit_def)
qed

lemma distribute_operator_pays:
  assumes wf: "nr_wf r" and op: "op \<noteq> Pubkey_default"
  shows "if has_operator_vault_reward_route r op
    then \<exists>r' n. distribute_operator_vault_reward_route r op = Ok (r', n) \<and> unat n = routed_to op r \<and>
      paid r r' n \<and> ncn_rewards r' = ncn_rewards r \<and> protocol_rewards r' = protocol_rewards r \<and>
      (\<forall>k. routed_to k r' = (if k = op then 0 else routed_to k r))
    else distribute_operator_vault_reward_route r op = Err OperatorRewardNotFound"
proof (cases "position (\<lambda>x. ovrr_operator x = op) (operator_vault_reward_routes r)")
  case None
  then have "\<not> has_operator_vault_reward_route r op"
    by (simp add: has_operator_vault_reward_route_def list_ex_iff position_None)
  with None show ?thesis by (simp add: distribute_operator_vault_reward_route_def)
next
  case (Some i)
  let ?xs = "operator_vault_reward_routes r"
  let ?x = "?xs ! i" let ?n = "OperatorVaultRewardRoute_rewards ?x"
  let ?y = "?x\<lparr>ovrr_rewards := (ovrr_rewards ?x)\<lparr>nrr_rewards := 0\<rparr>\<rparr>"
  note pos = position_Some [OF Some]
  have has: "has_operator_vault_reward_route r op"
    using pos by (auto simp: has_operator_vault_reward_route_def list_ex_iff)
  have kok: "op_routes.keys_ok ?xs" using wf by (simp add: nr_wf_def)
  have y: "ovrr_operator ?y = op" "OperatorVaultRewardRoute_rewards ?y = 0"
    using pos by (simp_all add: OperatorVaultRewardRoute_rewards_def)
  note w = op_routes.rewrite_route [OF kok Some op y(1)]
  have "unat ?n \<le> nr_buckets r" using op_routes.routed_nth_le [of i ?xs] pos by (simp add: nr_buckets_def)
  from processed_minus [OF wf this] obtain p :: u64 where
    p: "unat (nr_rewards_processed r) = unat ?n + unat p" by blast
  let ?r1 = "r\<lparr>operator_vault_reward_routes := ?xs[i := ?y]\<rparr>"
  let ?r' = "?r1\<lparr>nr_rewards_processed := p\<rparr>"
  have "NCNRewardRouter_decrement_rewards_processed ?r1 ?n = Ok ?r'"
    by (rule nr_stepI(6)) (simp add: p)
  then have run: "distribute_operator_vault_reward_route r op = Ok (?r', ?n)"
    using Some by (simp add: distribute_operator_vault_reward_route_def Let_def
        OperatorVaultRewardRoute_decrement_rewards_def OperatorVaultRewardRoute_set_rewards_def)
  have "paid r ?r' ?n"
    using wf p w(1,2) y(2) by (simp add: paid_def nr_wf_def nr_buckets_def nr_in_transit_def)
  with run has w(3,5) y(2) show ?thesis by (intro iffD2 [OF if_P]) auto
qed

section \<open>The router and its receiver account over time\<close>

text \<open>
  The rewards sit in the receiver account: \<open>funds\<close> is its balance, \<open>paid_out\<close> what was paid from
  it so far.  Anyone can send lamports to it; the instructions take the other steps.
\<close>

record reward_vault =
  funds :: nat
  paid_out :: nat
  router :: ncn_reward_router

inductive nr_step :: "'p precise_ops \<Rightarrow> u64 \<Rightarrow> reward_vault \<Rightarrow> reward_vault \<Rightarrow> bool" for P rent where
  nr_deposit: "nr_step P rent s (s\<lparr>funds := funds s + n\<rparr>)"
| nr_incoming: "unat bal = funds s \<Longrightarrow>
    NCNRewardRouter_route_incoming_rewards (router s) rent bal = Ok r' \<Longrightarrow> nr_step P rent s (s\<lparr>router := r'\<rparr>)"
| nr_split: "NCNRewardRouter_route_reward_pool P (router s) fs = Ok r' \<Longrightarrow>
    nr_step P rent s (s\<lparr>router := r'\<rparr>)"
| nr_operators: "bb_wf b \<Longrightarrow> route_operator_vault_rewards P (router s) b m = Ok r' \<Longrightarrow>
    nr_step P rent s (s\<lparr>router := r'\<rparr>)"
| nr_pay_protocol: "distribute_protocol_fee_rewards (router s) = Ok (r', n) \<Longrightarrow>
    nr_step P rent s \<lparr>funds = funds s - unat n, paid_out = paid_out s + unat n, router = r'\<rparr>"
| nr_pay_ncn: "distribute_ncn_fee_rewards (router s) = Ok (r', n) \<Longrightarrow>
    nr_step P rent s \<lparr>funds = funds s - unat n, paid_out = paid_out s + unat n, router = r'\<rparr>"
| nr_pay_operator: "op \<noteq> Pubkey_default \<Longrightarrow> distribute_operator_vault_reward_route (router s) op = Ok (r', n) \<Longrightarrow>
    nr_step P rent s \<lparr>funds = funds s - unat n, paid_out = paid_out s + unat n, router = r'\<rparr>"

inductive nr_reach :: "'p precise_ops \<Rightarrow> u64 \<Rightarrow> reward_vault \<Rightarrow> bool" for P rent where
  nr_reach_init: "unat rent \<le> n \<Longrightarrow> nr_reach P rent
    \<lparr>funds = n, paid_out = 0, router = NCNRewardRouter_initialize r ncn epoch bump slot\<rparr>"
| nr_reach_step: "nr_reach P rent s \<Longrightarrow> nr_step P rent s s' \<Longrightarrow> nr_reach P rent s'"

definition nr_solvent :: "u64 \<Rightarrow> reward_vault \<Rightarrow> bool" where
  "nr_solvent rent s \<longleftrightarrow> nr_wf (router s) \<and> unat rent + nr_in_transit (router s) \<le> funds s \<and>
     unat (nr_total_rewards (router s)) = nr_in_transit (router s) + paid_out s"

lemma NCNRewardRouter_initialize_wf: "nr_wf (NCNRewardRouter_initialize r ncn epoch bump slot)"
  by (simp add: nr_wf_def nr_buckets_def NCNRewardRouter_initialize_def
      NCNRewardRouter_reset_routing_state_def op_routes.keys_ok_replicate)

lemma paid_solvent:
  assumes "nr_solvent rent s" and "paid (router s) r' n"
  shows "nr_solvent rent \<lparr>funds = funds s - unat n, paid_out = paid_out s + unat n, router = r'\<rparr>"
  using assms unfolding nr_solvent_def paid_def by auto

lemma conserves_solvent:
  assumes "nr_solvent rent s" and "conserves (router s) r'"
  shows "nr_solvent rent (s\<lparr>router := r'\<rparr>)"
  using assms by (simp add: nr_solvent_def conserves_def)

lemma nr_step_solvent: "nr_step P rent s s' \<Longrightarrow> nr_solvent rent s \<Longrightarrow> nr_solvent rent s'"
proof (induction rule: nr_step.induct)
  case (nr_deposit s n)
  then show ?case by (simp add: nr_solvent_def)
next
  case (nr_incoming bal s r')
  then show ?case
    by (auto simp: incoming_Ok nr_solvent_def nr_wf_def nr_buckets_def nr_in_transit_def)
next
  case (nr_split s fs r')
  have "nr_wf (router s)" using nr_split(2) by (simp add: nr_solvent_def)
  from route_reward_pool_conserves [OF this nr_split(1)] show ?case
    by (rule conserves_solvent [OF nr_split(2)])
next
  case (nr_operators b s m r')
  have "nr_wf (router s)" using nr_operators(3) by (simp add: nr_solvent_def)
  from route_operators_conserves [OF this nr_operators(1,2)] show ?case
    by (rule conserves_solvent [OF nr_operators(3)])
next
  case (nr_pay_protocol s r' n)
  then have "paid (router s) r' n"
    using distribute_protocol_pays [of "router s"] by (auto simp: nr_solvent_def)
  then show ?case by (rule paid_solvent [OF nr_pay_protocol(2)])
next
  case (nr_pay_ncn s r' n)
  then have "paid (router s) r' n"
    using distribute_ncn_pays [of "router s"] by (auto simp: nr_solvent_def)
  then show ?case by (rule paid_solvent [OF nr_pay_ncn(2)])
next
  case (nr_pay_operator op s r' n)
  then have "paid (router s) r' n"
    using distribute_operator_pays [of "router s" op] by (auto simp: nr_solvent_def split: if_splits)
  then show ?case by (rule paid_solvent [OF nr_pay_operator(3)])
qed

lemma nr_reach_solvent: "nr_reach P rent s \<Longrightarrow> nr_solvent rent s"
proof (induction rule: nr_reach.induct)
  case (nr_reach_init n r ncn epoch bump slot)
  then show ?case
    using NCNRewardRouter_initialize_wf
    by (simp add: nr_solvent_def nr_in_transit_def NCNRewardRouter_initialize_def
        NCNRewardRouter_reset_routing_state_def)
next
  case (nr_reach_step s s')
  then show ?case using nr_step_solvent by blast
qed

end
