(* ===== verification/Operator_Reward_Correct.thy ===== *)
theory Operator_Reward_Correct
  imports Operator_Vault_Reward_Router
begin

text \<open>
  Correctness of the operator vault reward router: the operator's fee and the vaults' shares
  are the exact floors of the rational shares, the operator gets what rounding leaves, every
  step conserves the rewards, and routing always completes.
\<close>

section \<open>Single steps\<close>

lemma or_route_from_pool_Ok:
  "OVRR_route_from_reward_pool r n = Ok r' \<longleftrightarrow>
     (\<exists>p q. unat (or_reward_pool r) = unat n + unat p \<and>
            unat (or_rewards_processed r) + unat n = unat q \<and>
            r' = r\<lparr>or_reward_pool := p, or_rewards_processed := q\<rparr>)"
proof (cases "n = 0")
  case True
  then show ?thesis
    by (auto simp: OVRR_route_from_reward_pool_def word_unat_eq_iff [symmetric])
next
  case False
  then show ?thesis
    by (auto simp: OVRR_route_from_reward_pool_def result_simps checked_simps
        OVRR_increment_rewards_processed_def)
qed

lemma route_to_operator_rewards_Ok:
  "route_to_operator_rewards r n = Ok r' \<longleftrightarrow>
     (\<exists>p. unat (operator_rewards r) + unat n = unat p \<and> r' = r\<lparr>operator_rewards := p\<rparr>)"
  by (cases "n = 0") (auto simp: route_to_operator_rewards_def result_simps checked_simps word_unat_eq_iff [symmetric])

lemma or_decrement_processed_Ok:
  "OVRR_decrement_rewards_processed r n = Ok r' \<longleftrightarrow>
     (\<exists>p. unat (or_rewards_processed r) = unat n + unat p \<and> r' = r\<lparr>or_rewards_processed := p\<rparr>)"
  by (cases "n = 0") (auto simp: OVRR_decrement_rewards_processed_def result_simps checked_simps word_unat_eq_iff [symmetric])

lemma or_stepI:
  "unat (or_reward_pool r) = unat n + unat p \<Longrightarrow> unat (or_rewards_processed r) + unat n = unat q \<Longrightarrow>
     OVRR_route_from_reward_pool r n = Ok (r\<lparr>or_reward_pool := p, or_rewards_processed := q\<rparr>)"
  "unat (operator_rewards r) + unat n = unat p \<Longrightarrow> route_to_operator_rewards r n = Ok (r\<lparr>operator_rewards := p\<rparr>)"
  "unat (or_rewards_processed r) = unat n + unat p \<Longrightarrow>
     OVRR_decrement_rewards_processed r n = Ok (r\<lparr>or_rewards_processed := p\<rparr>)"
  unfolding or_route_from_pool_Ok route_to_operator_rewards_Ok or_decrement_processed_Ok by blast+

section \<open>Routes\<close>

definition vault_keys :: "operator_vault_reward_router \<Rightarrow> pubkey set" where
  "vault_keys r = vrr_vault ` set (vault_routes.live (vault_reward_routes r))"

abbreviation vault_routed_to :: "pubkey \<Rightarrow> operator_vault_reward_router \<Rightarrow> nat" where
  "vault_routed_to k r \<equiv> vault_routes.routed_to k (vault_reward_routes r)"

text \<open>What crediting a vault does, when it succeeds.\<close>

definition credited :: "operator_vault_reward_router \<Rightarrow> pubkey \<Rightarrow> nat \<Rightarrow> operator_vault_reward_router \<Rightarrow> bool" where
  "credited r k n r' \<longleftrightarrow> (\<exists>xs. r' = r\<lparr>vault_reward_routes := xs\<rparr> \<and>
     length xs = length (vault_reward_routes r) \<and> vault_routes.keys_ok xs \<and>
     vault_routes.routed xs = vault_routes.routed (vault_reward_routes r) + n \<and>
     vrr_vault ` set (vault_routes.live xs) \<subseteq> insert k (vault_keys r) \<and>
     (\<forall>k'. k' \<noteq> Pubkey_default \<longrightarrow>
       vault_routes.routed_to k' xs = vault_routed_to k' r + (if k' = k then n else 0)))"

lemma route_to_vault_OkD:
  assumes ok: "vault_routes.keys_ok (vault_reward_routes r)" and k: "k \<noteq> Pubkey_default"
    and res: "route_to_vault_reward_route r k n = Ok r'"
  shows "credited r k (unat n) r'"
proof (cases "n = 0")
  case True
  with res ok show ?thesis unfolding credited_def
    by (intro exI [of _ "vault_reward_routes r"]) (auto simp: route_to_vault_reward_route_def vault_keys_def)
next
  case False
  let ?xs = "vault_reward_routes r"
  show ?thesis
  proof (cases "position (\<lambda>x. vrr_vault x = k) ?xs")
    case (Some i)
    from res False Some obtain y where y: "VaultRewardRoute_increment_rewards (?xs ! i) n = Ok y"
      and r': "r' = r\<lparr>vault_reward_routes := ?xs[i := y]\<rparr>"
      by (auto simp: route_to_vault_reward_route_def result_simps)
    have y': "vrr_vault y = k" "unat (vrr_rewards y) = unat (vrr_rewards (?xs ! i)) + unat n"
      using y position_Some [OF Some]
      by (auto simp: VaultRewardRoute_increment_rewards_def VaultRewardRoute_set_rewards_def
          result_simps checked_simps)
    note w = vault_routes.rewrite_route [OF ok Some k y'(1)]
    have "vrr_vault ` set (vault_routes.live (?xs[i := y])) = vault_keys r"
      using arg_cong [OF w(4), of set] by (simp add: vault_keys_def)
    with w r' y'(2) show ?thesis unfolding credited_def by (intro exI [of _ "?xs[i := y]"]) auto
  next
    case None
    from res False None obtain i where i: "position (\<lambda>x. vrr_vault x = Pubkey_default) ?xs = Some i"
      and r': "r' = r\<lparr>vault_reward_routes := ?xs[i := \<lparr>vrr_vault = k, vrr_rewards = n\<rparr>]\<rparr>"
      by (auto simp: route_to_vault_reward_route_def VaultRewardRoute_new_def split: option.splits)
    let ?y = "\<lparr>vrr_vault = k, vrr_rewards = n\<rparr>"
    note w = vault_routes.append_route [OF ok i k None, of ?y]
    have "vrr_vault ` set (vault_routes.live (?xs[i := ?y])) = insert k (vault_keys r)"
      using arg_cong [OF w(4), of set] by (simp add: vault_keys_def)
    with w r' show ?thesis unfolding credited_def by (intro exI [of _ "?xs[i := ?y]"]) auto
  qed
qed

lemma route_to_vault_succeeds:
  assumes len: "length (vault_reward_routes r) = 64"
    and ok: "vault_routes.keys_ok (vault_reward_routes r)"
    and K: "vault_keys r \<subseteq> K" "finite K" "card K \<le> 64" and k: "k \<in> K"
    and fits: "vault_routes.routed (vault_reward_routes r) + unat n < 2 ^ 64"
  shows "\<exists>r'. route_to_vault_reward_route r k n = Ok r'"
proof (cases "n = 0")
  case False
  let ?xs = "vault_reward_routes r"
  show ?thesis
  proof (cases "position (\<lambda>x. vrr_vault x = k) ?xs")
    case (Some i)
    have "unat (vrr_rewards (?xs ! i)) + unat n < 2 ^ LENGTH(64)"
      using vault_routes.routed_nth_le [of i ?xs] position_Some [OF Some] fits by simp
    then have "checked_add (vrr_rewards (?xs ! i)) n = Some (vrr_rewards (?xs ! i) + n)"
      by (simp add: checked_add_def)
    with Some False show ?thesis
      by (simp add: route_to_vault_reward_route_def VaultRewardRoute_increment_rewards_def
          VaultRewardRoute_set_rewards_def)
  next
    case None
    obtain i where "position (\<lambda>x. vrr_vault x = Pubkey_default) ?xs = Some i"
      using vault_routes.room_for_key [OF ok _ K(2) _ k None] K(1,3) len by (auto simp: vault_keys_def)
    with None False show ?thesis
      by (simp add: route_to_vault_reward_route_def VaultRewardRoute_new_def)
  qed
qed (simp add: route_to_vault_reward_route_def)

section \<open>Shares\<close>

definition vault_share :: "u64 \<Rightarrow> nat \<Rightarrow> vault_operator_stake_weight_t \<Rightarrow> nat" where
  "vault_share R W d = unat R * entry_weight d div W"

lemma vault_reward_Ok:
  assumes P: "precise_number P raw" and le: "entry_weight d \<le> unat W" and small: "entry_weight d < 2 ^ 112"
  shows "\<exists>a. calculate_vault_reward P (stake_weight (vosw_stake_weight d)) W R = Ok a \<and>
    unat a = vault_share R (unat W) d"
proof (cases "W = 0 \<or> R = 0")
  case True
  then show ?thesis by (auto simp: calculate_vault_reward_def vault_share_def)
next
  case False
  have "vault_share R (unat W) d \<le> unat R" unfolding vault_share_def by (rule share_le_amount [OF le])
  then have lt: "vault_share R (unat W) d < 2 ^ 64" using unat_u64_less [of R] by simp
  have "precise_share P R (stake_weight (vosw_stake_weight d)) W = Ok (word_of_nat (vault_share R (unat W) d))"
    using precise_number.precise_share_floor [OF P _ small, of W R] False lt by (simp add: vault_share_def)
  with False lt show ?thesis by (auto simp: calculate_vault_reward_def unat_of_nat)
qed

lemma operator_reward_share:
  "calculate_operator_reward P max_bps f R =
     (if f = 0 \<or> R = 0 then Ok 0 else precise_share P R (ucast f) (ucast max_bps))"
  unfolding calculate_operator_reward_def precise_share_def
  by (cases "pn_new P (ucast f)"; cases "pn_new P (ucast max_bps)"; cases "pn_new P (ucast R)") simp_all

lemma operator_reward_Ok:
  assumes P: "precise_number P raw" and m: "max_bps \<noteq> 0" and f: "f \<le> max_bps"
  shows "\<exists>a. calculate_operator_reward P max_bps (ucast f) R = Ok a \<and>
    unat a = unat R * unat f div unat max_bps"
proof (cases "(ucast f :: u64) = 0 \<or> R = 0")
  case True
  then have "unat f = 0 \<or> R = 0" by (metis unat_0 unat_ucast_16_64)
  with True show ?thesis by (auto simp: operator_reward_share)
next
  case False
  have le: "unat R * unat f div unat max_bps \<le> unat R"
    by (rule share_le_amount) (use f in \<open>simp add: word_le_nat_alt\<close>)
  then have lt: "unat R * unat f div unat max_bps < 2 ^ 64" using unat_u64_less [of R] by simp
  have "(ucast max_bps :: u128) \<noteq> 0" using m by (metis unat_eq_0 unat_ucast_16_128)
  moreover have uf: "unat (ucast (ucast f :: u64) :: u128) = unat f" by simp
  moreover have "unat f < 2 ^ 16" using unsigned_less [of f, where ?'a = nat] by simp
  ultimately have "precise_share P R (ucast (ucast f :: u64)) (ucast max_bps)
      = Ok (word_of_nat (unat R * unat f div unat max_bps))"
    using precise_number.precise_share_floor [OF P, of "ucast max_bps" "ucast (ucast f :: u64)" R] lt
    by (simp del: unat_ucast_up)
  with False lt show ?thesis by (auto simp: operator_reward_share unat_of_nat)
qed

section \<open>Saving and resuming\<close>

abbreviation or_save :: "nat \<Rightarrow> u64 \<Rightarrow> operator_vault_reward_router \<Rightarrow> operator_vault_reward_router" where
  "or_save j R r \<equiv> OVRR_save_routing_state r R j"

definition credit_vault ::
  "'p precise_ops \<Rightarrow> u128 \<Rightarrow> u64 \<Rightarrow> operator_vault_reward_router \<Rightarrow> vault_operator_stake_weight_t \<Rightarrow>
   (operator_vault_reward_router, ncn_error) result" where
  "credit_vault P W R r d =
     and_then (calculate_vault_reward P (stake_weight (vosw_stake_weight d)) W R) (\<lambda>n.
     and_then (OVRR_route_from_reward_pool r n) (\<lambda>r.
     route_to_vault_reward_route r (vosw_vault d) n))"

definition or_finish :: "operator_vault_reward_router \<Rightarrow> (operator_vault_reward_router, ncn_error) result" where
  "or_finish r =
     (let r = OVRR_reset_routing_state r; leftover = or_reward_pool r in
      and_then (OVRR_route_from_reward_pool r leftover) (\<lambda>r. route_to_operator_rewards r leftover))"

definition or_start :: "operator_vault_reward_router \<Rightarrow> nat" where
  "or_start r = snd (OVRR_resume_routing_state r (or_reward_pool r))"

definition or_amount :: "operator_vault_reward_router \<Rightarrow> u64" where
  "or_amount r = fst (OVRR_resume_routing_state r (or_reward_pool r))"

lemma or_route_reward_pool_unfold:
  "OVRR_route_reward_pool P r snap m =
    (if or_amount r = 0 then Ok r
     else and_then (route_vaults_loop P (stake_weight (os_stake_weights snap)) (or_amount r) (max m 1) r 0
                      (or_start r) (drop (or_start r) (vault_operator_stake_weight snap))) (\<lambda>(r, d).
          if \<not> d then Ok r else or_finish r))"
proof -
  obtain R i where "OVRR_resume_routing_state r (or_reward_pool r) = (R, i)"
    by (cases "OVRR_resume_routing_state r (or_reward_pool r)")
  then show ?thesis
    unfolding OVRR_route_reward_pool_def or_amount_def or_start_def or_finish_def Let_def by simp
qed

lemma or_save_commutes:
  "OVRR_route_from_reward_pool (or_save j R r) n = map_ok (or_save j R) (OVRR_route_from_reward_pool r n)"
  "route_to_vault_reward_route (or_save j R r) k n = map_ok (or_save j R) (route_to_vault_reward_route r k n)"
proof -
  obtain a b c d e f t p q l i v x where r: "r = \<lparr>or_operator = a, or_ncn = b, or_epoch = c, or_bump = d,
      or_slot_created = e, or_ncn_operator_index = f, or_total_rewards = t, or_reward_pool = p,
      or_rewards_processed = q, operator_rewards = l, or_last_rewards_to_process = i,
      last_vault_operator_delegation_index = v, vault_reward_routes = x\<rparr>"
    by (cases r)
  show "OVRR_route_from_reward_pool (or_save j R r) n = map_ok (or_save j R) (OVRR_route_from_reward_pool r n)"
    by (simp add: r OVRR_route_from_reward_pool_def OVRR_increment_rewards_processed_def
        map_ok_and_then OVRR_save_routing_state_def)
  show "route_to_vault_reward_route (or_save j R r) k n = map_ok (or_save j R) (route_to_vault_reward_route r k n)"
    by (simp add: r route_to_vault_reward_route_def map_ok_and_then OVRR_save_routing_state_def
        split: option.split)
qed

lemma or_reset_save: "OVRR_reset_routing_state (or_save j R x) = OVRR_reset_routing_state x"
  by (simp add: OVRR_reset_routing_state_def OVRR_save_routing_state_def)

lemma or_save_resumes:
  assumes "j < 65535"
  shows "OVRR_still_routing (or_save j R r)"
    and "OVRR_resume_routing_state (or_save j R r) p = (R, j)"
proof -
  have j: "unat (word_of_nat j :: u16) = j" using assms by (simp add: unat_of_nat)
  then have "(word_of_nat j :: u16) \<noteq> NO_LAST_VAULT_OPERATION_DELEGATION_INDEX"
    using assms by (auto simp: NO_LAST_VAULT_OPERATION_DELEGATION_INDEX_def word_unat_eq_iff
        unsigned_minus_1_eq_mask mask_eq_exp_minus_1)
  then show st: "OVRR_still_routing (or_save j R r)"
    by (simp add: OVRR_still_routing_def OVRR_save_routing_state_def)
  show "OVRR_resume_routing_state (or_save j R r) p = (R, j)"
    using st j by (simp add: OVRR_resume_routing_state_def) (simp add: OVRR_save_routing_state_def)
qed

lemma or_finish_not_routing: "or_finish r = Ok r' \<Longrightarrow> \<not> OVRR_still_routing r'"
  by (auto simp: or_finish_def Let_def result_simps or_route_from_pool_Ok route_to_operator_rewards_Ok
      OVRR_still_routing_def OVRR_reset_routing_state_def)

interpretation vault_routing: resumable_routing
  "route_vaults_loop P (stake_weight (os_stake_weights snap))" "\<lambda>_. True"
  "credit_vault P (stake_weight (os_stake_weights snap))" "\<lambda>j R r. or_save j R r"
  "\<lambda>r m. OVRR_route_reward_pool P r snap m" "vault_operator_stake_weight snap"
  or_start or_amount OVRR_still_routing or_finish
  for P :: "'p precise_ops" and snap :: operator_snapshot
proof
  show "credit_vault P W R' (or_save j R s) x = map_ok (\<lambda>r. or_save j R r) (credit_vault P W R' s x)" for W R' j R s x
    by (simp add: credit_vault_def or_save_commutes map_ok_and_then and_then_map_ok)
  show "or_finish (or_save j R s) = or_finish s" for j R s
    by (simp add: or_finish_def or_reset_save)
qed (simp_all add: credit_vault_def and_then_assoc or_start_def or_amount_def or_save_resumes
    or_finish_not_routing or_route_reward_pool_unfold cong: if_cong)

fun credit_vaults ::
  "'p precise_ops \<Rightarrow> u128 \<Rightarrow> u64 \<Rightarrow> operator_vault_reward_router \<Rightarrow> vault_operator_stake_weight_t list \<Rightarrow>
   (operator_vault_reward_router, ncn_error) result" where
  "credit_vaults P W R r [] = Ok r"
| "credit_vaults P W R r (d # ds) = and_then (credit_vault P W R r d) (\<lambda>r. credit_vaults P W R r ds)"

lemma credit_vaults_eq:
  fixes snap :: operator_snapshot
  shows "routing_loop.credit (\<lambda>_. True) (credit_vault P (stake_weight (os_stake_weights snap))) R r ds
     = credit_vaults P (stake_weight (os_stake_weights snap)) R r ds"
  by (induction ds arbitrary: r) (simp_all add: vault_routing.credit.simps)

section \<open>A complete routing\<close>

definition or_in_transit :: "operator_vault_reward_router \<Rightarrow> nat" where
  "or_in_transit r = unat (or_reward_pool r) + unat (or_rewards_processed r)"

text \<open>What a routing step keeps: the buckets, and what is accounted for in all.\<close>

definition or_conserves :: "operator_vault_reward_router \<Rightarrow> operator_vault_reward_router \<Rightarrow> bool" where
  "or_conserves r r' \<longleftrightarrow> or_wf r' \<and> or_in_transit r' = or_in_transit r \<and> or_total_rewards r' = or_total_rewards r"

lemma or_conserves_trans: "or_conserves r s \<Longrightarrow> or_conserves s t \<Longrightarrow> or_conserves r t"
  by (simp add: or_conserves_def)

lemma credit_vault_OkD:
  assumes wf: "or_wf r" and k: "vosw_vault d \<noteq> Pubkey_default \<or> a = 0"
    and calc: "calculate_vault_reward P (stake_weight (vosw_stake_weight d)) W R = Ok a"
    and ok: "credit_vault P W R r d = Ok r'"
  shows "or_conserves r r'" and "unat (or_reward_pool r) = unat (or_reward_pool r') + unat a"
    and "operator_rewards r' = operator_rewards r"
    and "k' \<noteq> Pubkey_default \<Longrightarrow> vault_routed_to k' r' = vault_routed_to k' r + (if k' = vosw_vault d then unat a else 0)"
    and "a = 0 \<or> vosw_vault d \<in> K \<Longrightarrow> vault_keys r \<subseteq> K \<Longrightarrow> vault_keys r' \<subseteq> K"
proof -
  from ok calc obtain r1 where r1: "OVRR_route_from_reward_pool r a = Ok r1"
    and r2: "route_to_vault_reward_route r1 (vosw_vault d) a = Ok r'"
    by (auto simp: credit_vault_def result_simps)
  from r1 obtain p q where p: "unat (or_reward_pool r) = unat a + unat p"
    "unat (or_rewards_processed r) + unat a = unat q"
    "r1 = r\<lparr>or_reward_pool := p, or_rewards_processed := q\<rparr>" by (auto simp: or_route_from_pool_Ok)
  have "or_conserves r r' \<and> unat (or_reward_pool r) = unat (or_reward_pool r') + unat a \<and>
    operator_rewards r' = operator_rewards r \<and>
    (k' \<noteq> Pubkey_default \<longrightarrow> vault_routed_to k' r' = vault_routed_to k' r + (if k' = vosw_vault d then unat a else 0)) \<and>
    (a = 0 \<or> vosw_vault d \<in> K \<longrightarrow> vault_keys r \<subseteq> K \<longrightarrow> vault_keys r' \<subseteq> K)"
  proof (cases "a = 0")
    case True
    then have "r' = r1" using r2 by (simp add: route_to_vault_reward_route_def)
    moreover have "r1 = r" using True r1 by (simp add: OVRR_route_from_reward_pool_def)
    ultimately show ?thesis using wf True by (simp add: or_conserves_def)
  next
    case False
    have "vault_routes.keys_ok (vault_reward_routes r1)" using wf p(3) by (simp add: or_wf_def)
    from route_to_vault_OkD [OF this _ r2] k False have "credited r1 (vosw_vault d) (unat a) r'" by simp
    then obtain xs where xs: "r' = r1\<lparr>vault_reward_routes := xs\<rparr>"
      "length xs = length (vault_reward_routes r1)" "vault_routes.keys_ok xs"
      "vault_routes.routed xs = vault_routes.routed (vault_reward_routes r1) + unat a"
      "vrr_vault ` set (vault_routes.live xs) \<subseteq> insert (vosw_vault d) (vault_keys r1)"
      "\<forall>k'. k' \<noteq> Pubkey_default \<longrightarrow>
         vault_routes.routed_to k' xs = vault_routed_to k' r1 + (if k' = vosw_vault d then unat a else 0)"
      unfolding credited_def by blast
    have "or_conserves r r'"
      using wf p xs(1,2,3,4) by (simp add: or_conserves_def or_wf_def or_in_transit_def)
    moreover have "vault_keys r' \<subseteq> insert (vosw_vault d) (vault_keys r)"
      using xs(1,5) p(3) by (simp add: vault_keys_def)
    ultimately show ?thesis using p(1,3) xs(1,6) False by auto
  qed
  then show "or_conserves r r'" and "unat (or_reward_pool r) = unat (or_reward_pool r') + unat a"
    and "operator_rewards r' = operator_rewards r"
    and "k' \<noteq> Pubkey_default \<Longrightarrow> vault_routed_to k' r' = vault_routed_to k' r + (if k' = vosw_vault d then unat a else 0)"
    and "a = 0 \<or> vosw_vault d \<in> K \<Longrightarrow> vault_keys r \<subseteq> K \<Longrightarrow> vault_keys r' \<subseteq> K"
    by blast+
qed

text \<open>A delegation that can be credited: the vault is a real key among \<open>K\<close>, or there is no stake.\<close>

definition creditable :: "u128 \<Rightarrow> pubkey set \<Rightarrow> vault_operator_stake_weight_t \<Rightarrow> bool" where
  "creditable W K d \<longleftrightarrow> entry_weight d \<le> unat W \<and> entry_weight d < 2 ^ 112 \<and>
     (entry_weight d = 0 \<or> vosw_vault d \<in> K \<and> vosw_vault d \<noteq> Pubkey_default)"

lemma credit_vault_succeeds:
  assumes wf: "or_wf r" and K: "vault_keys r \<subseteq> K" "finite K" "card K \<le> 64" and d: "creditable W K d"
    and calc: "calculate_vault_reward P (stake_weight (vosw_stake_weight d)) W R = Ok a"
    and z: "entry_weight d = 0 \<longrightarrow> a = 0"
    and le: "unat a \<le> unat (or_reward_pool r)" and fits: "or_in_transit r < 2 ^ 64"
  shows "\<exists>r'. credit_vault P W R r d = Ok r'"
proof (cases "a = 0")
  case True
  with calc show ?thesis
    by (simp add: credit_vault_def OVRR_route_from_reward_pool_def route_to_vault_reward_route_def)
next
  case False
  let ?p = "or_reward_pool r - a"
  have p: "unat (or_reward_pool r) = unat a + unat ?p" using le by (simp add: unat_sub word_le_nat_alt)
  have lt: "unat (or_rewards_processed r) + unat a < 2 ^ 64"
    using fits le by (simp add: or_in_transit_def)
  then obtain q :: u64 where q: "unat (or_rewards_processed r) + unat a = unat q" using word_for by metis
  let ?r1 = "r\<lparr>or_reward_pool := ?p, or_rewards_processed := q\<rparr>"
  have s1: "OVRR_route_from_reward_pool r a = Ok ?r1" by (rule or_stepI(1) [OF p q])
  have "\<exists>r'. route_to_vault_reward_route ?r1 (vosw_vault d) a = Ok r'"
  proof (rule route_to_vault_succeeds [where K = K])
    show "vosw_vault d \<in> K" using d z False by (simp add: creditable_def)
    show "vault_routes.routed (vault_reward_routes ?r1) + unat a < 2 ^ 64"
      using wf lt by (simp add: or_wf_def)
  qed (use wf K in \<open>simp_all add: or_wf_def vault_keys_def\<close>)
  with calc s1 show ?thesis by (auto simp: credit_vault_def)
qed

lemma credit_vaults_runs:
  assumes P: "precise_number P raw" and K: "finite K" "card K \<le> 64"
  shows "or_wf r \<Longrightarrow> vault_keys r \<subseteq> K \<Longrightarrow> or_in_transit r < 2 ^ 64 \<Longrightarrow> \<forall>d \<in> set ds. creditable W K d \<Longrightarrow>
    sum_list (map (vault_share R (unat W)) ds) \<le> unat (or_reward_pool r) \<Longrightarrow>
    \<exists>r'. credit_vaults P W R r ds = Ok r' \<and> or_conserves r r' \<and>
      vault_keys r' \<subseteq> K \<and> operator_rewards r' = operator_rewards r \<and>
      unat (or_reward_pool r') + sum_list (map (vault_share R (unat W)) ds) = unat (or_reward_pool r) \<and>
      (\<forall>k. k \<noteq> Pubkey_default \<longrightarrow> vault_routed_to k r' =
         vault_routed_to k r + sum_where (\<lambda>d. vosw_vault d = k) (vault_share R (unat W)) ds)"
proof (induction ds arbitrary: r)
  case Nil
  then show ?case by (simp add: or_conserves_def)
next
  case (Cons d ds)
  have d: "creditable W K d" using Cons.prems(4) by simp
  obtain a where calc: "calculate_vault_reward P (stake_weight (vosw_stake_weight d)) W R = Ok a"
    and a: "unat a = vault_share R (unat W) d"
    using vault_reward_Ok [OF P, of d W R] d by (auto simp: creditable_def)
  have z: "entry_weight d = 0 \<longrightarrow> a = 0"
    using a by (auto simp: vault_share_def unat_eq_0)
  have le: "unat a \<le> unat (or_reward_pool r)" using Cons.prems(5) a by simp
  obtain r1 where r1: "credit_vault P W R r d = Ok r1"
    using credit_vault_succeeds [OF Cons.prems(1,2) K d calc z le Cons.prems(3)] by blast
  have ka: "vosw_vault d \<noteq> Pubkey_default \<or> a = 0" "a = 0 \<or> vosw_vault d \<in> K"
    using d z by (auto simp: creditable_def)
  note one = credit_vault_OkD [OF Cons.prems(1) ka(1) calc r1]
  have tail: "or_wf r1" "or_in_transit r1 < 2 ^ 64" using one(1) Cons.prems(3) by (simp_all add: or_conserves_def)
  have ks: "vault_keys r1 \<subseteq> K" by (rule one(5) [OF ka(2) Cons.prems(2)])
  have rest: "\<forall>d \<in> set ds. creditable W K d"
    "sum_list (map (vault_share R (unat W)) ds) \<le> unat (or_reward_pool r1)"
    using Cons.prems(4,5) a one(2) by simp_all
  from Cons.IH [OF tail(1) ks tail(2) rest] obtain r' where
    r': "credit_vaults P W R r1 ds = Ok r'" "or_conserves r1 r'"
      "vault_keys r' \<subseteq> K" "operator_rewards r' = operator_rewards r1"
      "unat (or_reward_pool r') + sum_list (map (vault_share R (unat W)) ds) = unat (or_reward_pool r1)"
      "\<forall>k. k \<noteq> Pubkey_default \<longrightarrow> vault_routed_to k r' =
         vault_routed_to k r1 + sum_where (\<lambda>d. vosw_vault d = k) (vault_share R (unat W)) ds" by blast
  have run: "credit_vaults P W R r (d # ds) = Ok r'"
    using r1 r'(1) by simp
  with r' one(2,3,4) a or_conserves_trans [OF one(1) r'(2)] show ?case
    by (intro exI [of _ r']) auto
qed

text \<open>After the loop the operator gets what is left in the pool.\<close>

lemma or_finish_Ok:
  assumes wf: "or_wf r" and fits: "or_in_transit r < 2 ^ 64"
  shows "\<exists>r'. or_finish r = Ok r' \<and> or_conserves r r' \<and> or_reward_pool r' = 0 \<and>
    unat (operator_rewards r') = unat (operator_rewards r) + unat (or_reward_pool r) \<and>
    vault_reward_routes r' = vault_reward_routes r \<and> \<not> OVRR_still_routing r'"
proof -
  let ?l = "or_reward_pool r" and ?r0 = "OVRR_reset_routing_state r"
  have "unat (or_rewards_processed r) + unat ?l < 2 ^ 64" using fits by (simp add: or_in_transit_def)
  then obtain q :: u64 where q: "unat q = unat (or_rewards_processed r) + unat ?l" using word_for by blast
  have "unat (operator_rewards r) + unat ?l < 2 ^ 64" using fits wf by (simp add: or_in_transit_def or_wf_def)
  then obtain n :: u64 where n: "unat n = unat (operator_rewards r) + unat ?l" using word_for by blast
  let ?r1 = "?r0\<lparr>or_reward_pool := 0, or_rewards_processed := q\<rparr>"
  let ?r' = "?r1\<lparr>operator_rewards := n\<rparr>"
  have s1: "OVRR_route_from_reward_pool ?r0 ?l = Ok ?r1"
    by (rule or_stepI(1)) (simp_all add: OVRR_reset_routing_state_def q)
  have s2: "route_to_operator_rewards ?r1 ?l = Ok ?r'"
    by (rule or_stepI(2)) (simp add: OVRR_reset_routing_state_def n)
  have run: "or_finish r = Ok ?r'"
    using s1 s2 by (simp add: or_finish_def Let_def) (simp add: OVRR_reset_routing_state_def)
  have "or_conserves r ?r'"
    using wf q n by (simp add: or_conserves_def or_wf_def or_in_transit_def OVRR_reset_routing_state_def)
  with run n or_finish_not_routing [OF run] show ?thesis
    by (intro exI [of _ ?r']) (simp add: OVRR_reset_routing_state_def)
qed

text \<open>What the vaults are owed, in terms of the delegations registered in the snapshot.\<close>

definition vault_due :: "operator_snapshot \<Rightarrow> nat \<Rightarrow> pubkey \<Rightarrow> nat" where
  "vault_due snap R k =
     sum_where (\<lambda>d. vosw_vault d = k) (\<lambda>d. R * entry_weight d div weight_of (os_stake_weights snap)) (os_entries snap)"

definition vaults_due :: "operator_snapshot \<Rightarrow> nat \<Rightarrow> nat" where
  "vaults_due snap R =
     sum_list (map (\<lambda>d. R * entry_weight d div weight_of (os_stake_weights snap)) (os_entries snap))"

definition snapshot_routable :: "operator_snapshot \<Rightarrow> bool" where
  "snapshot_routable snap \<longleftrightarrow> os_wf snap \<and>
     (\<forall>d \<in> set (os_entries snap). entry_weight d < 2 ^ 112 \<and> vosw_vault d \<noteq> Pubkey_default)"

lemma vaults_due_le: "os_wf snap \<Longrightarrow> vaults_due snap R \<le> R"
  using shares_within [of "\<lambda>_. True" entry_weight "os_entries snap" "weight_of (os_stake_weights snap)" R]
  by (simp add: vaults_due_def os_wf_def sum_where_def)

text \<open>The unused slots of the snapshot have no stake and get nothing.\<close>

lemma snapshot_slots:
  assumes wf: "os_wf snap"
  obtains n where "vault_operator_stake_weight snap = os_entries snap @ replicate n VaultOperatorStakeWeight_default"
    and "length (os_entries snap) \<le> 64"
proof -
  have pk: "delegations.packed (vault_operator_stake_weight snap)"
    and len: "length (vault_operator_stake_weight snap) = 64"
    using wf by (simp_all add: os_wf_def MAX_VAULTS_def)
  from pk obtain n where "vault_operator_stake_weight snap = os_entries snap @ replicate n VaultOperatorStakeWeight_default"
    unfolding os_entries_live by (rule delegations.packed_cases)
  moreover have "length (os_entries snap) \<le> 64"
    using delegations.length_live [of "vault_operator_stake_weight snap"] len by (simp add: os_entries_live)
  ultimately show thesis by (rule that)
qed

lemma default_entry [simp]: "entry_weight VaultOperatorStakeWeight_default = 0"
  by (simp add: VaultOperatorStakeWeight_default_def StakeWeights_default_def)

lemma snapshot_shares:
  assumes wf: "os_wf snap"
  defines "W \<equiv> weight_of (os_stake_weights snap)"
  shows "sum_list (map (vault_share R W) (vault_operator_stake_weight snap)) = vaults_due snap (unat R)"
    and "sum_where (\<lambda>d. vosw_vault d = k) (vault_share R W) (vault_operator_stake_weight snap)
      = vault_due snap (unat R) k"
proof -
  from snapshot_slots [OF wf] obtain n where
    n: "vault_operator_stake_weight snap = os_entries snap @ replicate n VaultOperatorStakeWeight_default" .
  have z: "vault_share R W VaultOperatorStakeWeight_default = 0" by (simp add: vault_share_def)
  show "sum_list (map (vault_share R W) (vault_operator_stake_weight snap)) = vaults_due snap (unat R)"
    by (simp add: n vaults_due_def z sum_list_replicate) (simp add: vault_share_def [abs_def] W_def)
  have "sum_where p (vault_share R W) (replicate n VaultOperatorStakeWeight_default) = 0" for p
    by (induction n) (simp_all add: z)
  then show "sum_where (\<lambda>d. vosw_vault d = k) (vault_share R W) (vault_operator_stake_weight snap)
      = vault_due snap (unat R) k"
    by (simp add: n vault_due_def) (simp add: vault_share_def [abs_def] W_def)
qed

lemma snapshot_creditable:
  assumes sr: "snapshot_routable snap" and d: "d \<in> set (vault_operator_stake_weight snap)"
  shows "creditable (stake_weight (os_stake_weights snap)) (vosw_vault ` set (os_entries snap)) d"
proof -
  have wf: "os_wf snap" using sr by (simp add: snapshot_routable_def)
  from snapshot_slots [OF wf] obtain n where
    "vault_operator_stake_weight snap = os_entries snap @ replicate n VaultOperatorStakeWeight_default" .
  with d have "d \<in> set (os_entries snap) \<or> d = VaultOperatorStakeWeight_default" by auto
  then show ?thesis
  proof
    assume e: "d \<in> set (os_entries snap)"
    have "entry_weight d \<le> sum_list (map entry_weight (os_entries snap))"
      by (rule member_le_sum_list) (use e in simp_all)
    also have "\<dots> = weight_of (os_stake_weights snap)" using wf by (simp add: os_wf_def)
    finally show ?thesis using sr e by (simp add: creditable_def snapshot_routable_def)
  qed (simp add: creditable_def)
qed

lemma vaults_routed:
  assumes P: "precise_number P raw" and sr: "snapshot_routable snap" and wf: "or_wf r"
    and nr: "\<not> OVRR_still_routing r" and ks: "vault_keys r \<subseteq> vosw_vault ` set (os_entries snap)"
    and fits: "or_in_transit r < 2 ^ 64" and M: "256 \<le> unat M"
  defines "R \<equiv> unat (or_reward_pool r)"
  shows "\<exists>r'. OVRR_route_reward_pool P r snap M = Ok r' \<and> or_conserves r r' \<and>
    \<not> OVRR_still_routing r' \<and> vault_keys r' \<subseteq> vosw_vault ` set (os_entries snap) \<and>
    or_reward_pool r' = 0 \<and>
    unat (operator_rewards r') = unat (operator_rewards r) + (R - vaults_due snap R) \<and>
    (\<forall>k. k \<noteq> Pubkey_default \<longrightarrow> vault_routed_to k r' = vault_routed_to k r + vault_due snap R k)"
proof -
  let ?K = "vosw_vault ` set (os_entries snap)" and ?W = "stake_weight (os_stake_weights snap)"
  let ?ds = "vault_operator_stake_weight snap" and ?p = "or_reward_pool r"
  have swf: "os_wf snap" using sr by (simp add: snapshot_routable_def)
  have len: "length ?ds \<le> 256" using swf by (simp add: os_wf_def MAX_VAULTS_def)
  from snapshot_slots [OF swf] have "length (os_entries snap) \<le> 64" .
  then have K: "finite ?K" "card ?K \<le> 64"
    by (auto intro: le_trans [OF card_image_le] le_trans [OF card_length])
  have st: "or_start r = 0" "or_amount r = ?p"
    using nr by (simp_all add: or_start_def or_amount_def OVRR_resume_routing_state_def)
  note shares = snapshot_shares [OF swf, where R = ?p]
  have cr: "\<forall>d \<in> set ?ds. creditable ?W ?K d" using snapshot_creditable [OF sr] by blast
  have "sum_list (map (vault_share ?p (weight_of (os_stake_weights snap))) ?ds) \<le> unat ?p"
    unfolding shares by (rule vaults_due_le [OF swf])
  from credit_vaults_runs [OF P K wf ks fits cr this] obtain r1 where
    r1: "credit_vaults P ?W ?p r ?ds = Ok r1" "or_conserves r r1" "vault_keys r1 \<subseteq> ?K"
      "operator_rewards r1 = operator_rewards r" "unat (or_reward_pool r1) + vaults_due snap R = R"
      "\<forall>k. k \<noteq> Pubkey_default \<longrightarrow> vault_routed_to k r1 = vault_routed_to k r + vault_due snap R k"
    unfolding shares R_def by blast
  show ?thesis
  proof (cases "?p = 0")
    case True
    have "OVRR_route_reward_pool P r snap M = Ok r"
      using True st by (simp add: or_route_reward_pool_unfold)
    with True wf nr ks show ?thesis
      by (intro exI [of _ r]) (simp add: or_conserves_def R_def vault_due_def sum_where_def)
  next
    case False
    have "or_wf r1" "or_in_transit r1 < 2 ^ 64" using r1(2) fits by (simp_all add: or_conserves_def)
    from or_finish_Ok [OF this] obtain r' where r': "or_finish r1 = Ok r'" "or_conserves r1 r'"
      "or_reward_pool r' = 0"
      "unat (operator_rewards r') = unat (operator_rewards r1) + unat (or_reward_pool r1)"
      "vault_reward_routes r' = vault_reward_routes r1" "\<not> OVRR_still_routing r'" by blast
    have "OVRR_route_reward_pool P r snap M = Ok r'"
      using vault_routing.one_shot [OF len M, of P r] st False r1(1) r'(1)
      by (simp add: credit_vaults_eq)
    with r' r1 or_conserves_trans [OF r1(2) r'(2)] show ?thesis
      by (intro exI [of _ r']) (auto simp: vault_keys_def)
  qed
qed

section \<open>Routing in several calls\<close>

fun vaults_in_calls ::
  "'p precise_ops \<Rightarrow> operator_snapshot \<Rightarrow> operator_vault_reward_router \<Rightarrow> u16 list \<Rightarrow>
   (operator_vault_reward_router, ncn_error) result" where
  "vaults_in_calls P snap r [] = Ok r"
| "vaults_in_calls P snap r (m # ms) =
     and_then (OVRR_route_reward_pool P r snap m) (\<lambda>r.
     if OVRR_still_routing r then vaults_in_calls P snap r ms else Ok r)"

lemma vaults_in_calls_eq:
  "vaults_in_calls P snap r ms =
    resumable_routing.in_calls (\<lambda>r m. OVRR_route_reward_pool P r snap m) OVRR_still_routing ms r"
  by (induction ms arbitrary: r) (simp_all add: vault_routing.in_calls.simps cong: if_cong)

lemma vaults_in_calls_finish:
  fixes snap :: operator_snapshot
  assumes len: "length (vault_operator_stake_weight snap) = 64" and M: "256 \<le> unat M"
    and whole: "OVRR_route_reward_pool P r snap M = Ok r'" and amt: "or_amount r \<noteq> 0"
    and fin: "\<not> OVRR_still_routing r'" and ms: "64 \<le> sum_list (map (\<lambda>m. unat (max m 1)) ms)"
  shows "vaults_in_calls P snap r ms = Ok r'"
proof -
  have len': "length (vault_operator_stake_weight snap) \<le> 256" using len by simp
  have "ms \<noteq> []" using ms by auto
  moreover have "resumable_routing.left (\<lambda>_. True) (vault_operator_stake_weight snap) or_start r
      \<le> sum_list (map (\<lambda>m. unat (max m 1)) ms)"
    using vault_routing.left_le [of snap r] len ms by simp
  ultimately show ?thesis
    using vault_routing.in_calls_finish [OF len' M, of P r r' ms] whole amt fin
    by (simp add: vaults_in_calls_eq)
qed

section \<open>The operator's fee\<close>

lemma operator_fee_routed:
  assumes P: "precise_number P raw" and wf: "or_wf r" and m: "max_bps \<noteq> 0"
    and f: "os_operator_fee_bps snap \<le> max_bps" and fits: "or_in_transit r < 2 ^ 64"
  defines "fee_amount \<equiv> unat (or_reward_pool r) * unat (os_operator_fee_bps snap) div unat max_bps"
  shows "\<exists>r'. route_operator_rewards P max_bps r snap = Ok r' \<and> or_conserves r r' \<and>
    unat (operator_rewards r') = unat (operator_rewards r) + fee_amount \<and>
    unat (or_reward_pool r') = unat (or_reward_pool r) - fee_amount \<and> fee_amount \<le> unat (or_reward_pool r) \<and>
    vault_reward_routes r' = vault_reward_routes r \<and> (OVRR_still_routing r' \<longleftrightarrow> OVRR_still_routing r)"
proof -
  let ?l = "or_reward_pool r"
  from operator_reward_Ok [OF P m f, of ?l] obtain a where
    calc: "calculate_operator_reward P max_bps (ucast (os_operator_fee_bps snap)) ?l = Ok a"
    and a: "unat a = fee_amount" by (auto simp: fee_amount_def)
  have le: "unat a \<le> unat ?l"
    unfolding a fee_amount_def by (rule share_le_amount) (use f in \<open>simp add: word_le_nat_alt\<close>)
  have p: "unat ?l = unat a + unat (?l - a)" using le by (simp add: unat_sub word_le_nat_alt)
  have "unat (or_rewards_processed r) + unat a < 2 ^ 64" using fits le by (simp add: or_in_transit_def)
  then obtain q :: u64 where q: "unat q = unat (or_rewards_processed r) + unat a" using word_for by blast
  have "unat (operator_rewards r) + unat a < 2 ^ 64" using fits wf le by (simp add: or_in_transit_def or_wf_def)
  then obtain n :: u64 where n: "unat n = unat (operator_rewards r) + unat a" using word_for by blast
  let ?r1 = "r\<lparr>or_reward_pool := ?l - a, or_rewards_processed := q\<rparr>"
  let ?r' = "?r1\<lparr>operator_rewards := n\<rparr>"
  have s1: "OVRR_route_from_reward_pool r a = Ok ?r1" by (rule or_stepI(1) [OF p]) (simp add: q)
  have s2: "route_to_operator_rewards ?r1 a = Ok ?r'" by (rule or_stepI(2)) (simp add: n)
  have run: "route_operator_rewards P max_bps r snap = Ok ?r'"
    using calc s1 s2 by (simp add: route_operator_rewards_def Let_def)
  have "or_conserves r ?r'" using wf q n p by (simp add: or_conserves_def or_wf_def or_in_transit_def)
  with run n a p le show ?thesis
    by (intro exI [of _ ?r']) (simp add: OVRR_still_routing_def)
qed

lemma route_operator_conserves:
  assumes wf: "or_wf r" and ok: "route_operator_rewards P max_bps r snap = Ok r'"
  shows "or_conserves r r'"
  using ok wf
  by (auto simp: route_operator_rewards_def Let_def result_simps or_route_from_pool_Ok
      route_to_operator_rewards_Ok or_conserves_def or_wf_def or_in_transit_def)

section \<open>Conservation\<close>

lemma or_finish_conserves:
  assumes wf: "or_wf r" and ok: "or_finish r = Ok r'"
  shows "or_conserves r r'"
  using ok wf
  by (auto simp: or_finish_def Let_def result_simps or_route_from_pool_Ok route_to_operator_rewards_Ok
      or_conserves_def or_wf_def or_in_transit_def OVRR_reset_routing_state_def)

lemma or_save_conserves: "or_conserves r s \<Longrightarrow> or_conserves r (or_save j R s)"
  by (simp add: or_conserves_def or_wf_def or_in_transit_def OVRR_save_routing_state_def)

lemma route_vaults_conserves:
  fixes snap :: operator_snapshot
  assumes P: "precise_number P raw" and wf: "or_wf r" and sr: "snapshot_routable snap"
    and ok: "OVRR_route_reward_pool P r snap m = Ok r'"
  shows "or_conserves r r'"
proof (rule vault_routing.call_keeps [of "or_conserves r" snap P, OF _ _ _ _ ok])
  let ?W = "stake_weight (os_stake_weights snap)"
  show "or_conserves r s'" if I: "or_conserves r s" and d: "d \<in> set (vault_operator_stake_weight snap)"
    and c: "credit_vault P ?W R s d = Ok s'" for R s d s'
  proof -
    have cr: "creditable ?W (vosw_vault ` set (os_entries snap)) d" by (rule snapshot_creditable [OF sr d])
    then obtain a where calc: "calculate_vault_reward P (stake_weight (vosw_stake_weight d)) ?W R = Ok a"
      and a: "unat a = vault_share R (unat ?W) d"
      using vault_reward_Ok [OF P, of d ?W R] by (auto simp: creditable_def)
    have "vosw_vault d \<noteq> Pubkey_default \<or> a = 0"
      using cr a by (auto simp: creditable_def vault_share_def unat_eq_0)
    moreover have "or_wf s" using I by (simp add: or_conserves_def)
    ultimately have "or_conserves s s'" using credit_vault_OkD(1) [OF _ _ calc c] by blast
    then show ?thesis by (rule or_conserves_trans [OF I])
  qed
  show "or_conserves r s'" if "or_conserves r s" "or_finish s = Ok s'" for s s'
    using that or_finish_conserves [of s s'] or_conserves_trans [of r s s'] by (simp add: or_conserves_def)
qed (use wf in \<open>simp_all add: or_save_conserves\<close>, simp add: or_conserves_def)

section \<open>Payments\<close>

definition or_paid :: "operator_vault_reward_router \<Rightarrow> operator_vault_reward_router \<Rightarrow> u64 \<Rightarrow> bool" where
  "or_paid r r' n \<longleftrightarrow> or_wf r' \<and> or_in_transit r = or_in_transit r' + unat n \<and>
     or_total_rewards r' = or_total_rewards r \<and> or_reward_pool r' = or_reward_pool r"

lemma or_processed_minus:
  fixes n :: u64
  assumes "unat n \<le> unat (or_rewards_processed r)"
  shows "\<exists>p :: u64. unat (or_rewards_processed r) = unat n + unat p"
  using assms by (intro exI [of _ "or_rewards_processed r - n"]) (simp add: unat_sub word_le_nat_alt)

lemma distribute_operator_rewards_pays:
  assumes wf: "or_wf r"
  shows "\<exists>r'. distribute_operator_rewards r = Ok (r', operator_rewards r) \<and>
    or_paid r r' (operator_rewards r) \<and> operator_rewards r' = 0 \<and>
    vault_reward_routes r' = vault_reward_routes r"
proof -
  have "unat (operator_rewards r) \<le> unat (or_rewards_processed r)" using wf by (simp add: or_wf_def)
  from or_processed_minus [OF this] obtain p :: u64 where
    p: "unat (or_rewards_processed r) = unat (operator_rewards r) + unat p" by blast
  let ?r' = "r\<lparr>operator_rewards := 0, or_rewards_processed := p\<rparr>"
  have "OVRR_decrement_rewards_processed (r\<lparr>operator_rewards := 0\<rparr>) (operator_rewards r) = Ok ?r'"
    by (rule or_stepI(3)) (simp add: p)
  with wf p show ?thesis
    by (intro exI [of _ ?r']) (simp add: distribute_operator_rewards_def or_paid_def or_wf_def or_in_transit_def)
qed

lemma distribute_vault_pays:
  assumes wf: "or_wf r" and k: "k \<noteq> Pubkey_default"
  shows "if k \<in> vrr_vault ` set (vault_reward_routes r)
    then \<exists>r' n. distribute_vault_reward_route r k = Ok (r', n) \<and> unat n = vault_routed_to k r \<and>
      or_paid r r' n \<and> operator_rewards r' = operator_rewards r \<and>
      (\<forall>k'. vault_routed_to k' r' = (if k' = k then 0 else vault_routed_to k' r))
    else distribute_vault_reward_route r k = Err OperatorRewardNotFound"
proof (cases "position (\<lambda>x. vrr_vault x = k) (vault_reward_routes r)")
  case None
  then have "k \<notin> vrr_vault ` set (vault_reward_routes r)" by (auto simp: position_None)
  with None show ?thesis by (simp add: distribute_vault_reward_route_def)
next
  case (Some i)
  let ?xs = "vault_reward_routes r"
  let ?x = "?xs ! i" let ?n = "vrr_rewards ?x" let ?y = "?x\<lparr>vrr_rewards := 0\<rparr>"
  note pos = position_Some [OF Some]
  have has: "k \<in> vrr_vault ` set ?xs" using pos by auto
  have kok: "vault_routes.keys_ok ?xs" using wf by (simp add: or_wf_def)
  have y: "vrr_vault ?y = k" "vrr_rewards ?y = 0" using pos by simp_all
  note w = vault_routes.rewrite_route [OF kok Some k y(1)]
  have "unat ?n \<le> unat (or_rewards_processed r)"
    using vault_routes.routed_nth_le [of i ?xs] pos wf by (simp add: or_wf_def)
  from or_processed_minus [OF this] obtain p :: u64 where
    p: "unat (or_rewards_processed r) = unat ?n + unat p" by blast
  let ?r1 = "r\<lparr>vault_reward_routes := ?xs[i := ?y]\<rparr>"
  let ?r' = "?r1\<lparr>or_rewards_processed := p\<rparr>"
  have "OVRR_decrement_rewards_processed ?r1 ?n = Ok ?r'" by (rule or_stepI(3)) (simp add: p)
  then have run: "distribute_vault_reward_route r k = Ok (?r', ?n)"
    using Some by (simp add: distribute_vault_reward_route_def Let_def
        VaultRewardRoute_decrement_rewards_def VaultRewardRoute_set_rewards_def)
  have "or_paid r ?r' ?n" using wf p w(1,2) y(2) by (simp add: or_paid_def or_wf_def or_in_transit_def)
  with run has w(3,5) y(2) show ?thesis by (intro iffD2 [OF if_P]) auto
qed

end
