(* ===== verification/Account_Machine.thy ===== *)
theory Account_Machine
  imports Handlers_Close Ballot_Box_Correct Ncn_Reward_Correct Operator_Reward_Correct
begin

text \<open>
  An abstract machine for the ledger.  The data of an account evolves by \<open>data_step\<close>, the
  operations of its component; an instruction is a sequence of actions \<open>act\<close> on the accounts
  it was passed: a data step, a transfer of lamports, the creation of an account or its
  closing.  Invariants of the ledger, the conservation of lamports and the frame are proved
  here, on the machine; that every instruction is such a sequence is proved in
  \<open>Handlers_Refine\<close>.
\<close>

section \<open>Component steps\<close>

text \<open>Parameters of a configuration lie in their ranges.\<close>

definition config_ranges :: "config \<Rightarrow> bool" where
  "config_ranges c \<longleftrightarrow>
     in_range MIN_EPOCHS_BEFORE_STALL MAX_EPOCHS_BEFORE_STALL (epochs_before_stall c) \<and>
     in_range MIN_EPOCHS_AFTER_CONSENSUS_BEFORE_CLOSE MAX_EPOCHS_AFTER_CONSENSUS_BEFORE_CLOSE
       (epochs_after_consensus_before_close c) \<and>
     in_range MIN_VALID_SLOTS_AFTER_CONSENSUS MAX_VALID_SLOTS_AFTER_CONSENSUS
       (valid_slots_after_consensus c)"

text \<open>
  What the updates of an epoch state may do: they keep its identity, its arrays and valid
  statuses, a recorded consensus slot and the closing flag.
\<close>

definition est_wf :: "epoch_state \<Rightarrow> bool" where
  "est_wf s \<longleftrightarrow>
     length (eas_operator_snapshot (account_status s)) = MAX_OPERATORS \<and>
     length (eas_operator_vault_reward_router (account_status s)) = MAX_OPERATORS \<and>
     length (operator_snapshot_progress s) = MAX_OPERATORS \<and>
     length (operator_vault_routes_distribution_progress s) = MAX_OPERATORS"

definition est_evolves :: "epoch_state \<Rightarrow> epoch_state \<Rightarrow> bool" where
  "est_evolves s s' \<longleftrightarrow>
     est_ncn s' = est_ncn s \<and> est_epoch s' = est_epoch s \<and> est_bump s' = est_bump s \<and>
     (est_wf s \<longrightarrow> est_wf s') \<and> (est_is_closing s \<longrightarrow> est_is_closing s') \<and>
     (EpochState_is_consensus_reached s \<longrightarrow> est_slot_consensus_reached s' = est_slot_consensus_reached s)"

inductive nr_op :: "'p precise_ops \<Rightarrow> ncn_reward_router \<Rightarrow> ncn_reward_router \<Rightarrow> bool" for P where
  nr_op_incoming: "NCNRewardRouter_route_incoming_rewards r rent bal = Ok r' \<Longrightarrow> nr_op P r r'"
| nr_op_split: "NCNRewardRouter_route_reward_pool P r fs = Ok r' \<Longrightarrow> nr_op P r r'"
| nr_op_operators: "bb_wf b \<Longrightarrow> route_operator_vault_rewards P r b m = Ok r' \<Longrightarrow> nr_op P r r'"
| nr_op_ncn: "distribute_ncn_fee_rewards r = Ok (r', n) \<Longrightarrow> nr_op P r r'"
| nr_op_protocol: "distribute_protocol_fee_rewards r = Ok (r', n) \<Longrightarrow> nr_op P r r'"
| nr_op_operator: "op \<noteq> Pubkey_default \<Longrightarrow> distribute_operator_vault_reward_route r op = Ok (r', n) \<Longrightarrow> nr_op P r r'"

text \<open>Vaults in a snapshot are named by their address.\<close>

definition snapshot_named :: "operator_snapshot \<Rightarrow> bool" where
  "snapshot_named s \<longleftrightarrow> os_wf s \<and> (\<forall>d \<in> set (os_entries s). vosw_vault d \<noteq> Pubkey_default)"

inductive or_op ::
  "'p precise_ops \<Rightarrow> operator_vault_reward_router \<Rightarrow> operator_vault_reward_router \<Rightarrow> bool" for P where
  or_op_incoming: "OVRR_route_incoming_rewards r rent bal = Ok r' \<Longrightarrow> or_op P r r'"
| or_op_operator: "route_operator_rewards P max_bps r snap = Ok r' \<Longrightarrow> or_op P r r'"
| or_op_vaults: "snapshot_named snap \<Longrightarrow> OVRR_route_reward_pool P r snap m = Ok r' \<Longrightarrow> or_op P r r'"
| or_op_pay: "distribute_operator_rewards r = Ok (r', n) \<Longrightarrow> or_op P r r'"
| or_op_pay_vault: "k \<noteq> Pubkey_default \<Longrightarrow> distribute_vault_reward_route r k = Ok (r', n) \<Longrightarrow> or_op P r r'"

text \<open>The feed of a mint has the 32 bytes of its array type.\<close>

definition feed_ok :: "st_mint_entry \<Rightarrow> bool" where
  "feed_ok e \<longleftrightarrow> length (reserve_switchboard_feed e) = 32"

section \<open>Data steps\<close>

text \<open>
  An account is initialized out of zeroed memory of its size and keeps its type from then on.
\<close>

inductive data_step :: "'p precise_ops \<Rightarrow> account_data \<Rightarrow> account_data \<Rightarrow> bool" for P where
  ds_config_new:
    "config_ranges c \<Longrightarrow> FeeConfig_new P w f e = Ok (fee_config_of c) \<Longrightarrow>
     data_step P (Zeroed Config_SIZE) (ConfigData c)"
| ds_config_set:
    "config_ranges c \<longrightarrow> config_ranges c' \<Longrightarrow> fee_config_of c' = fee_config_of c \<Longrightarrow>
     config_ncn c' = config_ncn c \<Longrightarrow> data_step P (ConfigData c) (ConfigData c')"
| ds_registry_new:
    "data_step P (Zeroed VaultRegistry_SIZE) (VaultRegistryData (VaultRegistry_initialize r ncn bump))"
| ds_registry_mint:
    "register_st_mint r m wt = Ok r' \<Longrightarrow> data_step P (VaultRegistryData r) (VaultRegistryData r')"
| ds_registry_set:
    "m \<noteq> Pubkey_default \<Longrightarrow> set_st_mint r m wo = Ok r' \<Longrightarrow>
     data_step P (VaultRegistryData r) (VaultRegistryData r')"
| ds_registry_vault:
    "v \<noteq> Pubkey_default \<Longrightarrow> m \<noteq> Pubkey_default \<Longrightarrow> slot \<noteq> u64_MAX \<Longrightarrow> register_vault r v m i slot = Ok r' \<Longrightarrow>
     data_step P (VaultRegistryData r) (VaultRegistryData r')"
| ds_table_new:
    "vr_wf r \<Longrightarrow> list_all feed_ok (st_mint_list r) \<Longrightarrow>
     WeightTable_initialize t ncn epoch slot (VaultRegistry_vault_count r) bump (vault_list r) (st_mint_list r) = Ok t' \<Longrightarrow>
     data_step P (Zeroed WeightTable_SIZE) (WeightTableData t')"
| ds_table_weight:
    "m \<noteq> Pubkey_default \<Longrightarrow> WeightTable_set_weight t m wt slot = Ok t' \<Longrightarrow>
     data_step P (WeightTableData t) (WeightTableData t')"
| ds_table_weights:
    "set_weights_loop slot (get_valid_mint_entries r) t = Ok t' \<Longrightarrow>
     data_step P (WeightTableData t) (WeightTableData t')"
| ds_epoch_snapshot_new:
    "fees_ok fs \<Longrightarrow>
     data_step P (Zeroed EpochSnapshot_SIZE) (EpochSnapshotData (EpochSnapshot_new ncn epoch bump slot n vc fs))"
| ds_epoch_snapshot:
    "increment_operator_registration s slot n w = Ok s' \<Longrightarrow>
     data_step P (EpochSnapshotData s) (EpochSnapshotData s')"
| ds_operator_snapshot_new:
    "OperatorSnapshot_initialize os op ncn epoch bump slot active ni oi fb vc = Ok os' \<Longrightarrow>
     data_step P (Zeroed OperatorSnapshot_SIZE) (OperatorSnapshotData os')"
| ds_operator_snapshot:
    "v \<noteq> Pubkey_default \<Longrightarrow> increment_vault_operator_delegation_registration os slot v i w = Ok os' \<Longrightarrow>
     data_step P (OperatorSnapshotData os) (OperatorSnapshotData os')"
| ds_ballot_box_new:
    "data_step P (Zeroed BallotBox_SIZE) (BallotBoxData (BallotBox_initialize b ncn epoch bump slot))"
| ds_ballot_box: "bb_reach P b b' \<Longrightarrow> data_step P (BallotBoxData b) (BallotBoxData b')"
| ds_consensus_new:
    "ConsensusResult_initialize c ncn epoch bump = Ok c' \<Longrightarrow>
     data_step P (Zeroed ConsensusResult_SIZE) (ConsensusResultData c')"
| ds_consensus:
    "record_consensus c st wt tw slot = Ok c' \<Longrightarrow>
     data_step P (ConsensusResultData c) (ConsensusResultData c')"
| ds_router_new:
    "data_step P (Zeroed NCNRewardRouter_SIZE) (NCNRewardRouterData (NCNRewardRouter_initialize r ncn epoch bump slot))"
| ds_router: "(nr_op P)\<^sup>*\<^sup>* r r' \<Longrightarrow> data_step P (NCNRewardRouterData r) (NCNRewardRouterData r')"
| ds_operator_router_new:
    "data_step P (Zeroed OperatorVaultRewardRouter_SIZE)
       (OperatorVaultRewardRouterData (OperatorVaultRewardRouter_new op i ncn epoch bump slot))"
| ds_operator_router:
    "(or_op P)\<^sup>*\<^sup>* r r' \<Longrightarrow>
     data_step P (OperatorVaultRewardRouterData r) (OperatorVaultRewardRouterData r')"
| ds_epoch_state_new:
    "est_evolves (EpochState_initialize EpochState_zeroed ncn epoch bump slot) s' \<Longrightarrow>
     data_step P (Zeroed EpochState_SIZE) (EpochStateData s')"
| ds_epoch_state: "est_evolves s s' \<Longrightarrow> data_step P (EpochStateData s) (EpochStateData s')"
| ds_marker_new: "data_step P (Zeroed EpochMarker_SIZE) (EpochMarkerData (EpochMarker_new ncn epoch slot))"

section \<open>Actions on the ledger\<close>

text \<open>The type of account that lives at an address; payer and receivers hold no data.\<close>

fun type_at :: "account_id \<Rightarrow> Discriminators option" where
  "type_at (ConfigId _) = Some DConfig"
| "type_at (VaultRegistryId _) = Some DVaultRegistry"
| "type_at (AccountPayerId _) = None"
| "type_at (WeightTableId _ _) = Some DWeightTable"
| "type_at (EpochSnapshotId _ _) = Some DEpochSnapshot"
| "type_at (BallotBoxId _ _) = Some DBallotBox"
| "type_at (ConsensusResultId _ _) = Some DConsensusResult"
| "type_at (NCNRewardRouterId _ _) = Some DNCNRewardRouter"
| "type_at (NCNRewardReceiverId _ _) = None"
| "type_at (EpochStateId _ _) = Some DEpochState"
| "type_at (EpochMarkerId _ _) = Some DEpochMarker"
| "type_at (OperatorSnapshotId _ _ _) = Some DOperatorSnapshot"
| "type_at (OperatorVaultRewardRouterId _ _ _) = Some DOperatorVaultRewardRouter"
| "type_at (OperatorVaultRewardReceiverId _ _ _) = None"

definition address_of :: "runtime \<Rightarrow> pubkey \<Rightarrow> account_id \<Rightarrow> pubkey" where
  "address_of E p i = fst (find_pda E (seeds_of i) p)"

definition kinds_apart :: "runtime \<Rightarrow> pubkey \<Rightarrow> bool" where
  "kinds_apart E p \<longleftrightarrow> (\<forall>i j. address_of E p i = address_of E p j \<longrightarrow> type_at i = type_at j)"

definition closable :: "Discriminators set" where
  "closable = {DEpochState, DWeightTable, DEpochSnapshot, DOperatorSnapshot, DBallotBox,
     DNCNRewardRouter, DOperatorVaultRewardRouter}"

definition closed_into :: "runtime \<Rightarrow> account_info \<Rightarrow> account_info \<Rightarrow> u64 \<Rightarrow> ledger \<Rightarrow> ledger" where
  "closed_into E payer a n L =
     set_data (set_owner (set_lamports (set_lamports L (ai_key payer) n) (ai_key a) 0) (ai_key a)
       (system_program_id E)) a (Zeroed 0)"

inductive act ::
  "runtime \<Rightarrow> 'p precise_ops \<Rightarrow> pubkey \<Rightarrow> account_info list \<Rightarrow> ledger \<Rightarrow> ledger \<Rightarrow> bool" for E P p A where
  act_data: "a \<in> set A \<Longrightarrow> data_step P (data_at L a) d \<Longrightarrow> act E P p A L (set_data L a d)"
| act_grow:
    "a \<in> set A \<Longrightarrow> ai_key a = address_of E p i \<Longrightarrow> type_at i = Some t \<Longrightarrow>
     data_len (data_at L a) < size_of_type t \<Longrightarrow> realloc_data E n (data_at L a) = Ok d \<Longrightarrow>
     act E P p A L (set_data L a d)"
| act_transfer:
    "f \<in> ai_key ` set A \<Longrightarrow> t \<in> ai_key ` set A \<Longrightarrow> can_pay f t n L \<Longrightarrow>
     act E P p A L (transferred f t n L)"
| act_create:
    "a \<in> set A \<Longrightarrow> acc_owner (L (ai_key a)) = system_program_id E \<Longrightarrow> data_is_empty (data_at L a) \<Longrightarrow>
     act E P p A L (set_owner (set_data L a (Zeroed n)) (ai_key a) p)"
| act_close:
    "a \<in> set A \<Longrightarrow> payer \<in> set A \<Longrightarrow> ai_key payer \<noteq> ai_key a \<Longrightarrow> acc_owner (L (ai_key a)) = p \<Longrightarrow>
     t \<in> closable \<Longrightarrow> first_byte (data_at L a) = (Ok (Discriminators_as_u8 t) :: (u8, program_error) result) \<Longrightarrow>
     checked_add (lamports_at L payer) (lamports_at L a) = Some n \<Longrightarrow>
     act E P p A L (closed_into E payer a n L)"

inductive_cases data_stepE: "data_step P d d'"
inductive_cases actE: "act E P p A L L'"

section \<open>Well-formed data\<close>

fun data_wf :: "account_data \<Rightarrow> bool" where
  "data_wf (ConfigData c) \<longleftrightarrow>
     config_ranges c \<and> fees_ok (fee_1 (fee_config_of c)) \<and> fees_ok (fee_2 (fee_config_of c))"
| "data_wf (VaultRegistryData r) \<longleftrightarrow> vr_wf r \<and> list_all feed_ok (st_mint_list r)"
| "data_wf (WeightTableData t) \<longleftrightarrow> wt_wf t \<and> list_all (\<lambda>e. feed_ok (we_st_mint_entry e)) (wt_table t)"
| "data_wf (EpochSnapshotData s) \<longleftrightarrow> es_operators_registered s \<le> es_operator_count s \<and> fees_ok (es_fees s)"
| "data_wf (OperatorSnapshotData s) \<longleftrightarrow> snapshot_named s"
| "data_wf (BallotBoxData b) \<longleftrightarrow> bb_wf b"
| "data_wf (NCNRewardRouterData r) \<longleftrightarrow> nr_wf r \<and> length (nr_reserved r) = 128"
| "data_wf (OperatorVaultRewardRouterData r) \<longleftrightarrow> or_wf r"
| "data_wf (EpochStateData s) \<longleftrightarrow> est_wf s"
| "data_wf _ \<longleftrightarrow> True"

definition ledger_wf :: "ledger \<Rightarrow> bool" where
  "ledger_wf L \<longleftrightarrow> (\<forall>k. data_wf (acc_data (L k)))"

lemma ledger_wf_data [intro]: "ledger_wf L \<Longrightarrow> data_wf (data_at L a)"
  by (simp add: ledger_wf_def data_at_def)

subsection \<open>Routers\<close>

lemma nr_op_wf:
  assumes "nr_op P r r'" and wf: "nr_wf r"
  shows "nr_wf r'"
  using assms(1)
proof cases
  case (nr_op_incoming rent bal)
  then show ?thesis using wf by (auto simp: incoming_Ok nr_wf_def nr_buckets_def)
next
  case (nr_op_split fs)
  with route_reward_pool_conserves [OF wf] show ?thesis by (auto simp: conserves_def)
next
  case (nr_op_operators b m)
  with route_operators_conserves [OF wf] show ?thesis by (auto simp: conserves_def)
next
  case (nr_op_ncn n)
  with distribute_ncn_pays [OF wf] show ?thesis by (auto simp: paid_def)
next
  case (nr_op_protocol n)
  with distribute_protocol_pays [OF wf] show ?thesis by (auto simp: paid_def)
next
  case (nr_op_operator op n)
  with distribute_operator_pays [OF wf nr_op_operator(1)] show ?thesis
    by (auto simp: paid_def split: if_splits)
qed

lemma zero_stake_earns_nothing:
  assumes P: "precise_number P raw" and c: "calculate_vault_reward P 0 W R = Ok a"
  shows "a = 0"
proof -
  from vault_reward_Ok [OF P, of VaultOperatorStakeWeight_default W R]
  obtain b where "calculate_vault_reward P 0 W R = Ok b" "unat b = 0"
    by (auto simp: vault_share_def VaultOperatorStakeWeight_default_def StakeWeights_default_def)
  with c show ?thesis by (simp add: unat_eq_0)
qed

lemma route_named_vaults_conserves:
  fixes snap :: operator_snapshot
  assumes P: "precise_number P raw" and wf: "or_wf r" and sn: "snapshot_named snap"
    and ok: "OVRR_route_reward_pool P r snap m = Ok r'"
  shows "or_conserves r r'"
proof (rule vault_routing.call_keeps [of "or_conserves r" snap P, OF _ _ _ _ ok])
  let ?W = "stake_weight (os_stake_weights snap)"
  show "or_conserves r s'" if I: "or_conserves r s" and d: "d \<in> set (vault_operator_stake_weight snap)"
    and c: "credit_vault P ?W R s d = Ok s'" for R s d s'
  proof -
    from c obtain a where calc: "calculate_vault_reward P (stake_weight (vosw_stake_weight d)) ?W R = Ok a"
      by (auto simp: credit_vault_def result_simps)
    have "os_wf snap" using sn by (simp add: snapshot_named_def)
    from snapshot_slots [OF this] obtain n where
      "vault_operator_stake_weight snap = os_entries snap @ replicate n VaultOperatorStakeWeight_default" .
    with d sn have "vosw_vault d \<noteq> Pubkey_default \<or> d = VaultOperatorStakeWeight_default"
      by (auto simp: snapshot_named_def)
    then have "vosw_vault d \<noteq> Pubkey_default \<or> a = 0"
      using zero_stake_earns_nothing [OF P] calc
      by (auto simp: VaultOperatorStakeWeight_default_def StakeWeights_default_def)
    moreover have "or_wf s" using I by (simp add: or_conserves_def)
    ultimately have "or_conserves s s'" using credit_vault_OkD(1) [OF _ _ calc c] by blast
    then show ?thesis by (rule or_conserves_trans [OF I])
  qed
  show "or_conserves r s'" if "or_conserves r s" "or_finish s = Ok s'" for s s'
    using that or_finish_conserves [of s s'] or_conserves_trans [of r s s'] by (simp add: or_conserves_def)
qed (use wf in \<open>simp_all add: or_save_conserves\<close>, simp add: or_conserves_def)

lemma or_op_wf:
  assumes P: "precise_number P raw" and "or_op P r r'" and wf: "or_wf r"
  shows "or_wf r'"
  using assms(2)
proof cases
  case (or_op_incoming rent bal)
  then show ?thesis using wf
    by (auto simp: OVRR_route_incoming_rewards_def OVRR_route_to_reward_pool_def or_wf_def result_simps
        split: if_splits)
next
  case (or_op_operator mx snap)
  with route_operator_conserves [OF wf] show ?thesis by (auto simp: or_conserves_def)
next
  case (or_op_vaults snap m)
  with route_named_vaults_conserves [OF P wf] show ?thesis by (auto simp: or_conserves_def)
next
  case (or_op_pay n)
  with distribute_operator_rewards_pays [OF wf] show ?thesis by (auto simp: or_paid_def)
next
  case (or_op_pay_vault k n)
  with distribute_vault_pays [OF wf or_op_pay_vault(1)] show ?thesis
    by (auto simp: or_paid_def split: if_splits)
qed

lemma nr_ops_wf: "(nr_op P)\<^sup>*\<^sup>* r r' \<Longrightarrow> nr_wf r \<Longrightarrow> nr_wf r'"
  by (induction rule: rtranclp_induct) (auto intro: nr_op_wf)

lemma or_ops_wf: "(or_op P)\<^sup>*\<^sup>* r r' \<Longrightarrow> precise_number P raw \<Longrightarrow> or_wf r \<Longrightarrow> or_wf r'"
  by (induction rule: rtranclp_induct) (auto intro: or_op_wf)

subsection \<open>Arrays of bytes\<close>

lemma feed_ok_new [simp]: "feed_ok (StMintEntry_new m w)" "feed_ok StMintEntry_default"
  by (simp_all add: feed_ok_def StMintEntry_new_def StMintEntry_default_def)

lemma list_all_update: "list_all P xs \<Longrightarrow> P x \<Longrightarrow> list_all P (xs[i := x])"
  by (auto simp: list_all_iff dest: set_update_subset_insert [THEN subsetD])

lemma registry_feeds:
  "register_st_mint r m w = Ok r' \<Longrightarrow> list_all feed_ok (st_mint_list r) \<Longrightarrow> list_all feed_ok (st_mint_list r')"
  "set_st_mint r m wo = Ok r' \<Longrightarrow> list_all feed_ok (st_mint_list r) \<Longrightarrow> list_all feed_ok (st_mint_list r')"
  "register_vault r v m' i slot = Ok r' \<Longrightarrow> st_mint_list r' = st_mint_list r"
proof -
  show "list_all feed_ok (st_mint_list r')"
    if "register_st_mint r m w = Ok r'" "list_all feed_ok (st_mint_list r)"
    using that by (auto simp: register_st_mint_def Let_def result_simps intro!: list_all_update)
  show "list_all feed_ok (st_mint_list r')" if s: "set_st_mint r m wo = Ok r'" and f: "list_all feed_ok (st_mint_list r)"
  proof -
    from s obtain i where i: "position (\<lambda>e. sme_st_mint e = m) (st_mint_list r) = Some i"
      by (auto simp: set_st_mint_def result_simps)
    then have "feed_ok (st_mint_list r ! i)" using f position_Some [OF i] by (auto simp: list_all_length)
    then show ?thesis
      using s i f by (auto simp: set_st_mint_def Let_def result_simps feed_ok_def split: option.splits intro!: list_all_update)
  qed
  show "st_mint_list r' = st_mint_list r" if "register_vault r v m' i slot = Ok r'"
    using that by (auto simp: register_vault_def result_simps split: if_splits)
qed

lemma set_weight_feeds:
  assumes "WeightTable_set_weight t m w slot = Ok t'" and "list_all (\<lambda>e. feed_ok (we_st_mint_entry e)) (wt_table t)"
  shows "list_all (\<lambda>e. feed_ok (we_st_mint_entry e)) (wt_table t')"
  using assms position_Some [of "\<lambda>e. we_st_mint e = m" "wt_table t"]
  by (auto simp: WeightTable_set_weight_def WeightEntry_set_weight_def list_all_length nth_list_update Let_def
    split: option.splits)

lemma set_weights_feeds:
  "set_weights_loop slot es t = Ok t' \<Longrightarrow> list_all (\<lambda>e. feed_ok (we_st_mint_entry e)) (wt_table t) \<Longrightarrow>
   list_all (\<lambda>e. feed_ok (we_st_mint_entry e)) (wt_table t')"
  by (induction es arbitrary: t) (auto simp: result_simps dest: set_weight_feeds)

lemma initialize_feeds:
  assumes "vr_wf r" "list_all feed_ok (st_mint_list r)"
    and ok: "WeightTable_initialize t ncn e slot cnt bump (vault_list r) (st_mint_list r) = Ok t'"
  shows "list_all (\<lambda>e. feed_ok (we_st_mint_entry e)) (wt_table t')"
proof -
  have len: "length (vault_list r) = MAX_VAULTS" "length (st_mint_list r) = MAX_ST_MINTS"
    using assms(1) by (simp_all add: vr_wf_def vr_vaults_ok_def vr_mints_ok_def)
  show ?thesis
    using ok assms(2)
    by (auto simp: WeightTable_initialize_result [OF len] WeightEntry_new_def list_all_iff split: if_splits)
qed

lemma nr_op_reserved:
  assumes "nr_op P r r'"
  shows "nr_reserved r' = nr_reserved r"
  using assms
proof cases
  case (nr_op_operators b m)
  then obtain win where win: "get_winning_ballot_tally b = Ok win"
    by (auto simp: route_operator_vault_rewards_def result_simps)
  show ?thesis
  proof (rule ncn_routing.call_keeps [of "\<lambda>s. nr_reserved s = nr_reserved r" b win P])
    show "route_with_tally P win b r m = Ok r'"
      using nr_op_operators by (simp add: route_operator_vault_rewards_unfold [OF win])
  qed (auto simp: credit_vote_def route_from_operator_vault_Ok route_to_operator_vault_reward_route_def
      finish_routing_def NCNRewardRouter_save_routing_state_def NCNRewardRouter_reset_routing_state_def
      route_to_ncn_Ok Let_def result_simps split: if_splits option.splits)
qed (auto simp: incoming_Ok NCNRewardRouter_route_reward_pool_def Let_def result_simps route_from_reward_pool_Ok
      route_to_protocol_Ok route_to_ncn_Ok route_to_operator_vault_Ok distribute_ncn_fee_rewards_def
      distribute_protocol_fee_rewards_def distribute_operator_vault_reward_route_def decrement_processed_Ok
      split: if_splits option.splits)

lemma nr_ops_reserved: "(nr_op P)\<^sup>*\<^sup>* r r' \<Longrightarrow> nr_reserved r' = nr_reserved r"
  by (induction rule: rtranclp_induct) (simp_all add: nr_op_reserved)

lemma initialized_bytes:
  "list_all feed_ok (st_mint_list (VaultRegistry_initialize r ncn bump))"
  "length (nr_reserved (NCNRewardRouter_initialize r' ncn epoch bump slot)) = 128"
  by (simp_all add: VaultRegistry_initialize_def list_all_iff NCNRewardRouter_initialize_def
      NCNRewardRouter_reset_routing_state_def)

subsection \<open>Registry, tables and snapshots\<close>

lemma register_vault_wf:
  assumes wf: "vr_wf r" and v: "v \<noteq> Pubkey_default" and m: "m \<noteq> Pubkey_default"
    and slot: "slot \<noteq> u64_MAX" and ok: "register_vault r v m i slot = Ok r'"
  shows "vr_wf r'"
proof (cases "v \<in> ve_vault ` set (vault_list r)")
  case True
  then have "list_ex (\<lambda>m. ve_vault m = v) (vault_list r)" by (auto simp: list_ex_iff)
  then show ?thesis using ok wf by (simp add: register_vault_def)
next
  case False
  have vok: "vr_vaults_ok r" using wf by (simp add: vr_wf_def)
  have new: "v \<notin> ve_vault ` set (get_valid_vault_entries r)"
    using False by (auto simp: get_valid_vault_entries_def)
  have "\<not> list_ex (\<lambda>m. ve_vault m = v) (vault_list r)" using False by (auto simp: list_ex_iff)
  with ok obtain j where
    j: "position (\<lambda>m. ve_st_mint m = ve_st_mint VaultEntry_default) (vault_list r) = Some j"
    by (auto simp: register_vault_def result_simps)
  from position_Some [OF j] have "j < length (vault_list r)"
    "vault_list r ! j \<in> set (vault_list r)" "VaultEntry_is_empty (vault_list r ! j)"
    using vok by (auto simp: vr_vaults_ok_def default_vault_mint)
  then have "length (get_valid_vault_entries r) < length (vault_list r)"
    unfolding get_valid_vault_entries_def by (metis length_filter_less)
  then have "length (get_valid_vault_entries r) < 64" using vok by (simp add: vr_vaults_ok_def MAX_VAULTS_def)
  from register_vault_new [OF vok v m slot new this, of i] ok wf show ?thesis
    by (auto simp: vr_wf_def vr_mints_ok_def get_valid_mint_entries_def)
qed

lemma set_weights_loop_wf:
  assumes "set_weights_loop slot es t = Ok t'" and "wt_wf t"
    and "\<forall>e \<in> set es. sme_st_mint e \<noteq> Pubkey_default"
  shows "wt_wf t'"
  using assms by (induction es arbitrary: t) (auto simp: result_simps dest: set_weight_OkD(1))

lemma WeightTable_initialize_wf:
  assumes wf: "vr_wf r" and ok: "WeightTable_initialize t ncn e slot cnt bump (vault_list r) (st_mint_list r) = Ok t'"
  shows "wt_wf t'"
proof -
  have len: "length (vault_list r) = MAX_VAULTS" "length (st_mint_list r) = MAX_ST_MINTS"
    and ks: "mints.keys_ok (st_mint_list r)"
    using wf by (simp_all add: vr_wf_def vr_vaults_ok_def vr_mints_ok_def)
  show ?thesis
    using ok len weights_packed_map(1) [OF ks]
    by (auto simp: WeightTable_initialize_result [OF len] wt_wf_def split: if_splits)
qed

lemma valid_mints_named: "e \<in> set (get_valid_mint_entries r) \<Longrightarrow> sme_st_mint e \<noteq> Pubkey_default"
  by (auto simp: get_valid_mint_entries_def StMintEntry_is_empty_def)

lemma increment_operator_wf:
  assumes ok: "increment_operator_registration s slot n w = Ok s'" and le: "es_operators_registered s \<le> es_operator_count s"
  shows "es_operators_registered s' \<le> es_operator_count s'" and "es_fees s' = es_fees s"
proof -
  from ok obtain a where a: "checked_add (es_operators_registered s) 1 = Some a"
    and ne: "es_operators_registered s \<noteq> es_operator_count s"
    and s': "es_operators_registered s' = a" "es_operator_count s' = es_operator_count s" "es_fees s' = es_fees s"
    by (auto simp: increment_operator_registration_def result_simps EpochSnapshot_finalized_def Let_def
        split: if_splits)
  have "unat a = Suc (unat (es_operators_registered s))"
    using a by (simp add: checked_simps)
  with ne le show "es_operators_registered s' \<le> es_operator_count s'"
    using s' by (simp add: word_le_nat_alt word_unat_eq_iff)
  show "es_fees s' = es_fees s" by (rule s')
qed

lemma OperatorVaultRewardRouter_new_wf: "or_wf (OperatorVaultRewardRouter_new op i ncn epoch bump slot)"
  by (simp add: or_wf_def OperatorVaultRewardRouter_new_def vault_routes.keys_ok_replicate MAX_VAULTS_def)

lemma EpochState_initialize_wf: "est_wf (EpochState_initialize EpochState_zeroed ncn epoch bump slot)"
  by (simp add: est_wf_def EpochState_initialize_def EpochState_zeroed_def EpochAccountStatus_default_def)

text \<open>Every operation keeps the data of an account well-formed.\<close>

lemma data_step_wf:
  assumes P: "precise_number P raw" and st: "data_step P d d'" and wf: "data_wf d"
  shows "data_wf d'"
  using st
proof cases
  case (ds_config_new c w f e)
  then show ?thesis using FeeConfig_new_OkD(1) [of P w f e "fee_config_of c"] by (simp add: fee_config_wf_def)
next
  case (ds_registry_mint r m wt r')
  then show ?thesis using wf register_st_mint_OkD(1,6) [of r m wt r'] registry_feeds(1) [of r m wt r']
    by (auto simp: vr_wf_def vr_vaults_ok_def get_valid_vault_entries_def)
next
  case (ds_registry_set m r wo r')
  then show ?thesis using wf set_st_mint_OkD(1,4) [of r m wo r'] registry_feeds(2) [of r m wo r']
    by (auto simp: vr_wf_def vr_vaults_ok_def get_valid_vault_entries_def)
next
  case (ds_registry_vault v m slot r i r')
  then show ?thesis using wf register_vault_wf [of r v m slot i r'] registry_feeds(3) [of r v m i slot r'] by simp
next
  case (ds_table_new r t ncn epoch slot bump t')
  then show ?thesis using WeightTable_initialize_wf initialize_feeds by simp
next
  case (ds_table_weight m t wt slot t')
  then show ?thesis using wf set_weight_OkD(1) [of t m wt slot t'] set_weight_feeds [of t m wt slot t'] by simp
next
  case (ds_table_weights slot r t t')
  then show ?thesis using wf set_weights_loop_wf [OF ds_table_weights(3)] valid_mints_named
      set_weights_feeds [OF ds_table_weights(3)] by auto
next
  case (ds_epoch_snapshot s slot n w s')
  then show ?thesis using wf increment_operator_wf [OF ds_epoch_snapshot(3)] by simp
next
  case (ds_operator_snapshot_new os op ncn epoch bump slot active ni oi fb vc os')
  then show ?thesis using OperatorSnapshot_initialize_wf(1,2) by (simp add: snapshot_named_def)
next
  case (ds_operator_snapshot v os slot i w os')
  then show ?thesis using wf delegation_registered(1,2) [of os slot v i w os']
    by (auto simp: snapshot_named_def VaultOperatorStakeWeight_new_def)
next
  case (ds_epoch_state_new ncn epoch bump slot s')
  then show ?thesis using EpochState_initialize_wf by (simp add: est_evolves_def)
qed (use wf in \<open>auto simp: est_evolves_def VaultRegistry_initialize_wf BallotBox_initialize_wf
      NCNRewardRouter_initialize_wf EpochSnapshot_new_def OperatorVaultRewardRouter_new_wf
      initialized_bytes nr_ops_reserved
      intro: bb_reach_wf [OF _ P] nr_ops_wf or_ops_wf [OF _ P]\<close>)

text \<open>Data keeps its type.\<close>

lemma data_step_type:
  "data_step P d d' \<Longrightarrow> discriminator_of d = Some t \<Longrightarrow> discriminator_of d' = Some t"
  by (cases rule: data_step.cases, assumption) simp_all

lemma data_step_marker: "data_step P (EpochMarkerData m) d' \<longleftrightarrow> False"
  by (auto elim: data_stepE)

section \<open>Invariants of the ledger\<close>

lemma set_data_wf: "ledger_wf L \<Longrightarrow> data_wf d \<Longrightarrow> ledger_wf (set_data L a d)"
  by (simp add: ledger_wf_def ledger_simps)

lemma lamports_owner_wf [simp]:
  "ledger_wf (set_lamports L k n) \<longleftrightarrow> ledger_wf L" "ledger_wf (set_owner L k q) \<longleftrightarrow> ledger_wf L"
  "ledger_wf (transferred f t n L) \<longleftrightarrow> ledger_wf L"
proof -
  have "acc_data (set_lamports L k n j) = acc_data (L j)" "acc_data (set_owner L k q j) = acc_data (L j)"
    for L k n q j by (simp_all add: ledger_simps)
  then show "ledger_wf (set_lamports L k n) \<longleftrightarrow> ledger_wf L" "ledger_wf (set_owner L k q) \<longleftrightarrow> ledger_wf L"
    "ledger_wf (transferred f t n L) \<longleftrightarrow> ledger_wf L"
    by (simp_all add: ledger_wf_def transferred_def Let_def)
qed

text \<open>The lamports of a set of accounts.\<close>

definition total_lamports :: "pubkey set \<Rightarrow> ledger \<Rightarrow> nat" where
  "total_lamports K L = (\<Sum>k\<in>K. unat (lamports (L k)))"

lemma total_lamports_cong:
  "(\<And>k. k \<in> K \<Longrightarrow> lamports (L' k) = lamports (L k)) \<Longrightarrow> total_lamports K L' = total_lamports K L"
  by (simp add: total_lamports_def)

lemma total_lamports_pair:
  assumes "finite K" "f \<in> K" "t \<in> K" "f \<noteq> t"
  shows "total_lamports K L =
    unat (lamports (L f)) + unat (lamports (L t)) + total_lamports (K - {f, t}) L"
proof -
  have "K = insert f (insert t (K - {f, t}))" using assms by blast
  then show ?thesis
    using assms sum.insert [of "insert t (K - {f, t})" f] sum.insert [of "K - {f, t}" t]
    unfolding total_lamports_def by (metis (no_types, lifting) Diff_iff add.assoc finite_Diff finite_insert insertE insertI1 insertI2)
qed

lemma total_lamports_moved:
  assumes K: "finite K" "f \<in> K" "t \<in> K" "f \<noteq> t"
    and rest: "\<And>k. k \<notin> {f, t} \<Longrightarrow> lamports (L' k) = lamports (L k)"
    and pair: "unat (lamports (L' f)) + unat (lamports (L' t)) = unat (lamports (L f)) + unat (lamports (L t))"
  shows "total_lamports K L' = total_lamports K L"
  using total_lamports_pair [OF K, of L] total_lamports_pair [OF K, of L'] pair
    total_lamports_cong [of "K - {f, t}" L' L] rest by simp

lemma transferred_lamports:
  "f \<noteq> t \<Longrightarrow> lamports (transferred f t n L k) =
     (if k = t then lamports (L t) + n else if k = f then lamports (L f) - n else lamports (L k))"
  by (simp add: transferred_def Let_def ledger_simps)

lemma transferred_keeps [simp]:
  "acc_data (transferred f t n L k) = acc_data (L k)" "acc_owner (transferred f t n L k) = acc_owner (L k)"
  by (auto simp: transferred_def Let_def ledger_simps)

lemma transferred_same: "transferred k k n L = L"
  by (auto simp: transferred_def Let_def set_lamports_def)

lemma transferred_conserves:
  assumes K: "finite K" "f \<in> K" "t \<in> K" and pay: "can_pay f t n L"
  shows "total_lamports K (transferred f t n L) = total_lamports K L"
proof (cases "f = t")
  case False
  have n: "n \<le> lamports (L f)" "unat (lamports (L t)) + unat n < 2 ^ 64"
    using pay False by (simp_all add: can_pay_def)
  have "unat (lamports (L f) - n) = unat (lamports (L f)) - unat n" "unat n \<le> unat (lamports (L f))"
    using n(1) by (simp_all add: unat_sub word_le_nat_alt)
  moreover have "unat (lamports (L t) + n) = unat (lamports (L t)) + unat n"
    using n(2) by (simp add: unat_add_small)
  ultimately show ?thesis
    by (intro total_lamports_moved [OF K False]) (use False in \<open>simp_all add: transferred_lamports\<close>)
qed (simp add: transferred_same)

context runtime_laws
begin

lemma act_wf:
  assumes P: "precise_number P raw" and st: "act E P p A L L'" and wf: "ledger_wf L"
  shows "ledger_wf L'"
  using st
proof cases
  case (act_data a d)
  then show ?thesis using set_data_wf [OF wf] data_step_wf [OF P] ledger_wf_data [OF wf, of a] by simp
next
  case (act_grow a i t n d)
  have "data_wf d"
    using realloc_Ok [OF act_grow(6)] ledger_wf_data [OF wf, of a] by (metis data_wf.simps(10,11))
  then show ?thesis using act_grow set_data_wf [OF wf] by simp
qed (use wf in \<open>simp_all add: closed_into_def set_data_wf\<close>)

lemma act_conserves_lamports:
  assumes st: "act E P p A L L'" and K: "finite K" "ai_key ` set A \<subseteq> K"
  shows "total_lamports K L' = total_lamports K L"
  using st
proof cases
  case (act_transfer f t n)
  then show ?thesis using K transferred_conserves [of K f t n L] by auto
next
  case (act_close a payer t n)
  have ks: "ai_key payer \<in> K" "ai_key a \<in> K" using act_close K by auto
  have "lamports (L' k) = (if k = ai_key a then 0 else if k = ai_key payer then n else lamports (L k))" for k
    using act_close(1) by (simp add: closed_into_def ledger_simps)
  then show ?thesis
    using act_close(4,8)
    by (intro total_lamports_moved [OF K(1) ks]) (simp_all add: checked_simps lamports_at_def)
qed (rule total_lamports_cong, simp add: ledger_simps)+

lemma act_frame:
  assumes "act E P p A L L'" and k: "k \<notin> ai_key ` set A"
  shows "L' k = L k"
proof -
  have ne: "k \<noteq> ai_key a" if "a \<in> set A" for a using that k by blast
  from assms(1) show ?thesis
  proof cases
    case (act_grow a i t n d)
    with ne [of a] show ?thesis by (simp add: ledger_simps)
  qed (use ne in \<open>auto simp: closed_into_def transferred_def Let_def ledger_simps\<close>)
qed

text \<open>
  Accounts of a type that cannot be closed stay: their type and owner are kept, and a marker
  is never written again.  Addresses of accounts of different types are different.
\<close>

lemma act_permanent:
  assumes st: "act E P p A L L'" and apart: "kinds_apart E p"
    and k: "k = address_of E p i" "type_at i = Some t" and nc: "t \<notin> closable"
    and ty: "discriminator_of (acc_data (L k)) = Some t"
  shows "discriminator_of (acc_data (L' k)) = Some t \<and> acc_owner (L' k) = acc_owner (L k) \<and>
    (t = DEpochMarker \<longrightarrow> acc_data (L' k) = acc_data (L k))"
  using st
proof cases
  case (act_data a d)
  show ?thesis
  proof (cases "k = ai_key a")
    case True
    with act_data ty have ds: "data_step P (acc_data (L k)) d" by (simp add: data_at_def)
    have "discriminator_of d = Some t" by (rule data_step_type [OF ds ty])
    moreover have "t \<noteq> DEpochMarker" using ds ty data_step_marker by (cases "acc_data (L k)") auto
    ultimately show ?thesis using act_data(1) True by (simp add: ledger_simps)
  qed (use act_data ty in \<open>simp add: ledger_simps\<close>)
next
  case (act_grow a j u n d)
  have "k \<noteq> ai_key a"
  proof
    assume eq: "k = ai_key a"
    with act_grow(3) k(1) apart have "type_at i = type_at j" unfolding kinds_apart_def by metis
    with act_grow(4) k(2) have "u = t" by simp
    moreover have "data_len (data_at L a) = size_of_type t" using ty eq by (simp add: data_at_def data_len_def)
    ultimately show False using act_grow(5) by simp
  qed
  then show ?thesis using act_grow(1) ty by (simp add: ledger_simps)
next
  case (act_transfer f u n)
  then show ?thesis using ty by simp
next
  case (act_create a n)
  have "k \<noteq> ai_key a" using act_create(4) typed_not_empty [OF ty] by (auto simp: data_at_def)
  then show ?thesis using act_create(1) ty by (simp add: ledger_simps)
next
  case (act_close a payer u n)
  have "k \<noteq> ai_key a" using act_close(6,7) nc first_byte_typed [OF ty, where ?'a = program_error] by (auto simp: data_at_def)
  then show ?thesis using act_close(1) ty by (auto simp: closed_into_def ledger_simps)
qed

end

end
