(* ===== verification/Handlers_Refine.thy ===== *)
theory Handlers_Refine
  imports Account_Machine
begin

text \<open>
  Every instruction that succeeds is a sequence of actions of the account machine on the
  accounts it was passed.  \<open>refines L r\<close> says so of a computation \<open>r\<close> started on the ledger
  \<open>L\<close>; the rules of the calculus follow the shape of the processors: checks, reads, writes
  and calls of the system program.
\<close>

named_theorems evolves \<open>updates of an epoch state\<close>

section \<open>Updates of the epoch state\<close>

lemma update_or_panic_length: "update_or_panic xs i x = Ok ys \<Longrightarrow> length ys = length xs"
  by (auto simp: update_or_panic_def split: if_splits)

lemma set_operator_snapshot_lengths:
  "set_operator_snapshot st i s = Ok st' \<Longrightarrow>
     length (eas_operator_snapshot st') = length (eas_operator_snapshot st) \<and>
     eas_operator_vault_reward_router st' = eas_operator_vault_reward_router st"
  by (auto simp: set_operator_snapshot_def result_simps dest: update_or_panic_length)

lemma set_operator_router_lengths:
  "set_operator_vault_reward_router st i s = Ok st' \<Longrightarrow>
     length (eas_operator_vault_reward_router st') = length (eas_operator_vault_reward_router st) \<and>
     eas_operator_snapshot st' = eas_operator_snapshot st"
  by (auto simp: set_operator_vault_reward_router_def result_simps dest: update_or_panic_length)

lemmas evolves_defs = est_evolves_def est_wf_def EpochState_is_consensus_reached_def

lemma est_evolves_refl [evolves]: "est_evolves s s"
  by (simp add: est_evolves_def)

lemma est_evolves_trans: "est_evolves s t \<Longrightarrow> est_evolves t u \<Longrightarrow> est_evolves s u"
  by (auto simp: est_evolves_def EpochState_is_consensus_reached_def)

lemma updates_evolve [evolves]:
  "est_evolves s (update_realloc_epoch_state s)"
  "est_evolves s (update_realloc_weight_table s vc mc)"
  "est_evolves s (update_set_weight s ws mc)"
  "est_evolves s (update_initialize_epoch_snapshot s oc)"
  "est_evolves s (update_realloc_ballot_box s)"
  "est_evolves s (update_realloc_ncn_reward_router s)"
  "est_evolves s (update_route_total_rewards s n)"
  "est_evolves s (update_route_ncn_rewards s n)"
  "est_evolves s (update_route_protocol_rewards s n)"
  "est_evolves s (update_distribute_ncn_rewards s n)"
  "est_evolves s (update_distribute_protocol_rewards s n)"
  "est_evolves s (update_distribute_operator_vault_rewards s n)"
  "est_evolves s (set_is_closing s)" "est_evolves s (close_epoch_state s)"
  "est_evolves s (close_weight_table s)" "est_evolves s (close_epoch_snapshot s)"
  "est_evolves s (close_ballot_box s)" "est_evolves s (close_ncn_reward_router s)"
  by (simp_all add: evolves_defs update_realloc_epoch_state_def update_realloc_weight_table_def
      update_set_weight_def update_initialize_epoch_snapshot_def update_realloc_ballot_box_def
      update_realloc_ncn_reward_router_def update_route_total_rewards_def update_route_ncn_rewards_def
      update_route_protocol_rewards_def update_distribute_ncn_rewards_def
      update_distribute_protocol_rewards_def update_distribute_operator_vault_rewards_def
      set_is_closing_def close_epoch_state_def close_weight_table_def close_epoch_snapshot_def
      close_ballot_box_def close_ncn_reward_router_def)

text \<open>An update that touches only statuses and progress.\<close>

lemma est_evolvesI:
  assumes "s' = s\<lparr>account_status := st, operator_snapshot_progress := ps, epoch_snapshot_progress := q\<rparr>"
    and "length (eas_operator_snapshot st) = length (eas_operator_snapshot (account_status s))"
    and "eas_operator_vault_reward_router st = eas_operator_vault_reward_router (account_status s)"
    and "length ps = length (operator_snapshot_progress s)"
  shows "est_evolves s s'"
  using assms(2-) unfolding assms(1) by (simp add: evolves_defs)

lemma update_realloc_operator_snapshot_evolves [evolves]:
  assumes ok: "update_realloc_operator_snapshot s i active = Ok s'"
  shows "est_evolves s s'"
proof -
  from ok obtain st where st: "set_operator_snapshot (account_status s) i Created = (Ok st :: (_, ncn_error) result)"
    by (auto simp: update_realloc_operator_snapshot_def result_simps)
  obtain ps q p where "update_or_panic (operator_snapshot_progress s) i p = (Ok ps :: (_, ncn_error) result)"
    "s' = s\<lparr>account_status := st, operator_snapshot_progress := ps, epoch_snapshot_progress := q\<rparr>"
  proof (cases active)
    case True
    with ok that [where q = "epoch_snapshot_progress s"] show ?thesis
      by (auto simp: update_realloc_operator_snapshot_def result_simps st Let_def)
  next
    case False
    with ok that show ?thesis
      by (auto simp: update_realloc_operator_snapshot_def result_simps st Let_def)
  qed
  with set_operator_snapshot_lengths [OF st] show ?thesis
    by (intro est_evolvesI [where s' = s' and s = s and st = st and ps = ps and q = q]) (auto dest: update_or_panic_length)
qed

lemma update_delegation_evolves [evolves]:
  assumes "update_snapshot_vault_operator_delegation s i fin = Ok s'"
  shows "est_evolves s s'"
proof -
  obtain p q where
    "s' = s\<lparr>account_status := account_status s,
             operator_snapshot_progress := (operator_snapshot_progress s)[i := p], epoch_snapshot_progress := q\<rparr>"
  proof (cases fin)
    case True
    with assms that show ?thesis
      by (auto simp: update_snapshot_vault_operator_delegation_def result_simps Let_def)
  next
    case False
    with assms that [where q = "epoch_snapshot_progress s"] show ?thesis
      by (auto simp: update_snapshot_vault_operator_delegation_def result_simps Let_def)
  qed
  then show ?thesis by (rule est_evolvesI) simp_all
qed

lemma update_votes_evolve [evolves]:
  "update_cast_vote s n c slot = Ok s' \<Longrightarrow> est_evolves s s'"
  "update_set_tie_breaker s c slot = Ok s' \<Longrightarrow> est_evolves s s'"
  by (auto simp: update_cast_vote_def update_set_tie_breaker_def evolves_defs Let_def split: if_splits)

lemma update_router_evolves [evolves]:
  fixes s' :: epoch_state
  shows "update_realloc_operator_vault_reward_router s i = (Ok s' :: (epoch_state, program_error) result) \<Longrightarrow> est_evolves s s'"
  "update_route_operator_vault_rewards s i n = (Ok s' :: (epoch_state, program_error) result) \<Longrightarrow> est_evolves s s'"
  "update_distribute_operator_vault_route_rewards s i n = (Ok s' :: (epoch_state, program_error) result) \<Longrightarrow> est_evolves s s'"
  "close_operator_snapshot s i = (Ok s' :: (epoch_state, program_error) result) \<Longrightarrow> est_evolves s s'"
  "close_operator_vault_reward_router s i = (Ok s' :: (epoch_state, program_error) result) \<Longrightarrow> est_evolves s s'"
  by (auto simp: update_realloc_operator_vault_reward_router_def update_route_operator_vault_rewards_def
      update_distribute_operator_vault_route_rewards_def close_operator_snapshot_def
      close_operator_vault_reward_router_def result_simps evolves_defs Let_def
      dest: set_operator_snapshot_lengths set_operator_router_lengths update_or_panic_length)

section \<open>Initialization\<close>

text \<open>
  A processor initializes an account only in zeroed memory of the right size: right after
  creating it, or when the first byte is not the discriminator yet.
\<close>

lemma typed_ops_discriminator:
  "Config_of d = Ok a \<Longrightarrow> discriminator_of d = Some DConfig"
  "VaultRegistry_of d = Ok b \<Longrightarrow> discriminator_of d = Some DVaultRegistry"
  "WeightTable_of d = Ok c \<Longrightarrow> discriminator_of d = Some DWeightTable"
  "BallotBox_of d = Ok g \<Longrightarrow> discriminator_of d = Some DBallotBox"
  "NCNRewardRouter_of d = Ok i \<Longrightarrow> discriminator_of d = Some DNCNRewardRouter"
  by (auto simp: result_simps)

lemma should_initialize_view:
  assumes "should_initialize t d = Ok True" and "init_view t z view d = Ok x"
    and "\<And>y. view d = Ok y \<Longrightarrow> discriminator_of d = Some t"
  shows "d = Zeroed (size_of_type t)" and "x = z"
proof -
  have "discriminator_of d \<noteq> Some t"
    using assms(1) by (auto simp: should_initialize_def result_simps split: if_splits)
  with assms(2,3) have "d = Zeroed (size_of_type t) \<and> x = z" by (auto simp: init_view_def split: if_splits)
  then show "d = Zeroed (size_of_type t)" "x = z" by simp_all
qed

lemma init_view_zeroed: "init_view t z view (Zeroed (size_of_type t)) = Ok z"
  using size_of_type_pos [of t] by (simp add: init_view_def data_is_empty_def data_len_def)

lemma wf_views:
  "ledger_wf L \<Longrightarrow> data_at L a = VaultRegistryData r \<Longrightarrow> vr_wf r"
  "ledger_wf L \<Longrightarrow> data_at L a = BallotBoxData b \<Longrightarrow> bb_wf b"
  "ledger_wf L \<Longrightarrow> data_at L a = OperatorSnapshotData s \<Longrightarrow> snapshot_named s"
  "ledger_wf L \<Longrightarrow> data_at L a = ConfigData c \<Longrightarrow> fees_ok (current_fees (fee_config_of c) e)"
  "ledger_wf L \<Longrightarrow> data_at L a = VaultRegistryData r \<Longrightarrow> list_all feed_ok (st_mint_list r)"
  using ledger_wf_data [of L a] by (auto simp: current_fees_def)

lemma table_new_step:
  "WeightTable_initialize t ncn epoch slot (VaultRegistry_vault_count r) bump (vault_list r) (st_mint_list r) = Ok t' \<Longrightarrow>
   data_at L a = VaultRegistryData r \<Longrightarrow> ledger_wf L \<Longrightarrow> data_step P (Zeroed WeightTable_SIZE) (WeightTableData t')"
  by (rule ds_table_new [OF wf_views(1,5)])

lemma epoch_snapshot_new_step:
  "data_at L a = ConfigData c \<Longrightarrow> ledger_wf L \<Longrightarrow>
   data_step P (Zeroed EpochSnapshot_SIZE)
     (EpochSnapshotData (EpochSnapshot_new ncn epoch bump slot n vc (current_fees (fee_config_of c) e)))"
  by (rule ds_epoch_snapshot_new [OF wf_views(4)])

section \<open>Ledgers and instructions\<close>

text \<open>Steps that only move lamports leave data and owners alone.\<close>

definition same_data :: "ledger \<Rightarrow> ledger \<Rightarrow> bool" where
  "same_data L L' \<longleftrightarrow> (\<forall>k. acc_data (L' k) = acc_data (L k) \<and> acc_owner (L' k) = acc_owner (L k))"

lemma same_data_refl [simp]: "same_data L L"
  by (simp add: same_data_def)

text \<open>
  Instructions that set the weight of a mint name a mint: the all-zero key selects an unused
  slot of a registry or table.
\<close>

fun names_mint :: "NCNProgramInstruction \<Rightarrow> bool" where
  "names_mint (AdminSetWeight m _ _) \<longleftrightarrow> m \<noteq> Pubkey_default"
| "names_mint (AdminSetStMint m _) \<longleftrightarrow> m \<noteq> Pubkey_default"
| "names_mint _ \<longleftrightarrow> True"

section \<open>The calculus\<close>

locale ncn_program = runtime_laws E + precise_number P raw
  for E :: runtime and P :: "'p precise_ops" and raw :: "'p \<Rightarrow> nat"
begin

abbreviation acts :: "pubkey \<Rightarrow> account_info list \<Rightarrow> ledger \<Rightarrow> ledger \<Rightarrow> bool" where
  "acts p A \<equiv> (act E P p A)\<^sup>*\<^sup>*"

lemma acts_wf: "acts p A L L' \<Longrightarrow> ledger_wf L \<Longrightarrow> ledger_wf L'"
  by (induction rule: rtranclp_induct) (auto intro: act_wf [OF precise_number_axioms])

lemma acts_conserve_lamports:
  "acts p A L L' \<Longrightarrow> finite K \<Longrightarrow> ai_key ` set A \<subseteq> K \<Longrightarrow> total_lamports K L' = total_lamports K L"
  by (induction rule: rtranclp_induct) (simp_all add: act_conserves_lamports)

lemma acts_frame: "acts p A L L' \<Longrightarrow> k \<notin> ai_key ` set A \<Longrightarrow> L' k = L k"
  by (induction rule: rtranclp_induct) (auto dest: act_frame)

definition refines :: "pubkey \<Rightarrow> account_info list \<Rightarrow> ledger \<Rightarrow> (ledger, program_error) result \<Rightarrow> bool" where
  "refines p A L r \<longleftrightarrow> (\<forall>L'. r = Ok L' \<longrightarrow> acts p A L L')"

lemma refines_fails: "refines p A L (Err e)" "refines p A L Panic"
  by (simp_all add: refines_def)

lemma refines_done: "refines p A L (Ok L)"
  by (simp add: refines_def)

lemma refines_read: "(\<And>x. m = Ok x \<Longrightarrow> refines p A L (k x)) \<Longrightarrow> refines p A L (and_then m k)"
  by (auto simp: refines_def result_simps)

lemma refines_ensure:
  "(c \<Longrightarrow> refines p A L (k ())) \<Longrightarrow> refines p A L (and_then (ensure c e) k)"
  by (auto simp: refines_def result_simps)

lemma refines_into: "(\<And>x. m = Ok x \<Longrightarrow> refines p A L (k x)) \<Longrightarrow> refines p A L (and_then (into_program m) k)"
  by (auto simp: refines_def result_simps)

lemma refines_step:
  fixes m :: "(ledger, program_error) result"
  assumes "ledger_wf L" and "refines p A L m"
    and "\<And>L1. m = Ok L1 \<Longrightarrow> ledger_wf L1 \<Longrightarrow> refines p A L1 (k L1)"
  shows "refines p A L (and_then m k)"
  unfolding refines_def
proof (intro allI impI)
  fix L' assume "and_then m k = Ok L'"
  then obtain L1 where L1: "m = Ok L1" "k L1 = Ok L'" by (auto simp: result_simps)
  with assms(2) have "acts p A L L1" by (simp add: refines_def)
  moreover from acts_wf [OF this assms(1)] assms(3) L1 have "acts p A L1 L'" by (simp add: refines_def)
  ultimately show "acts p A L L'" by (rule rtranclp_trans)
qed

lemma refines_let: "refines p A L (f v) \<Longrightarrow> refines p A L (Let v f)"
  by simp

lemma refines_let_write:
  assumes "ledger_wf L" and "a \<in> set A" and "data_step P (data_at L a) d"
    and "ledger_wf (set_data L a d) \<Longrightarrow> refines p A (set_data L a d) (f (set_data L a d))"
  shows "refines p A L (Let (set_data L a d) f)"
proof -
  have "act E P p A L (set_data L a d)" by (rule act_data [OF assms(2,3)])
  with assms(1,4) show ?thesis
    using act_wf [OF precise_number_axioms] unfolding refines_def Let_def
    by (meson converse_rtranclp_into_rtranclp)
qed

lemma refines_write: "a \<in> set A \<Longrightarrow> data_step P (data_at L a) d \<Longrightarrow> refines p A L (Ok (set_data L a d))"
  using act_data [of a A P L d E p] by (auto simp: refines_def)

lemma refines_prod: "(\<And>a b. t = (a, b) \<Longrightarrow> refines p A L (f a b)) \<Longrightarrow> refines p A L (case t of (a, b) \<Rightarrow> f a b)"
  by (cases t) simp

lemma refines_accounts:
  "refines p A L n \<Longrightarrow> (\<And>y ys. xs = y # ys \<Longrightarrow> refines p A L (c y ys)) \<Longrightarrow>
   refines p A L (case xs of [] \<Rightarrow> n | y # ys \<Rightarrow> c y ys)"
  by (cases xs) simp_all

lemma refines_if:
  "(c \<Longrightarrow> refines p A L r) \<Longrightarrow> (\<not> c \<Longrightarrow> refines p A L s) \<Longrightarrow> refines p A L (if c then r else s)"
  by simp

subsection \<open>Lamports\<close>

lemma refines_transfer:
  "f \<in> ai_key ` set A \<Longrightarrow> t \<in> ai_key ` set A \<Longrightarrow> refines p A L (invoke_signed E p (Transfer f t n) s L)"
  by (auto simp: refines_def dest!: transfer_Ok intro: r_into_rtranclp act_transfer)

lemma AccountPayer_transfer_Ok:
  "AccountPayer_transfer E p ncn payer to n L = Ok L' \<Longrightarrow>
     can_pay (ai_key payer) (ai_key to) n L \<and> L' = transferred (ai_key payer) (ai_key to) n L"
  by (auto simp: AccountPayer_transfer_def result_simps split: prod.splits dest: transfer_Ok)

lemma refines_pay:
  "payer \<in> set A \<Longrightarrow> to \<in> set A \<Longrightarrow> refines p A L (AccountPayer_transfer E p ncn payer to n L)"
  by (auto simp: refines_def dest!: AccountPayer_transfer_Ok intro: r_into_rtranclp act_transfer)

lemma pay_and_create_Ok:
  assumes "pay_and_create_account E p ncn payer a p n s L = Ok L'"
  obtains L1 where "L1 = L \<or> (\<exists>m. can_pay (ai_key payer) (ai_key a) m L \<and> L1 = transferred (ai_key payer) (ai_key a) m L)"
    and "acc_owner (L (ai_key a)) = system_program_id E" and "data_is_empty (data_at L a)"
    and "L' = set_owner (set_data L1 a (Zeroed (unat (min (word_of_nat n) MAX_REALLOC_BYTES)))) (ai_key a) p"
proof -
  from assms obtain L1 L2 where
    1: "(if 0 < saturating_sub (minimum_balance E n) (lamports_at L a)
         then AccountPayer_transfer E p ncn payer a (saturating_sub (minimum_balance E n) (lamports_at L a)) L
         else Ok L) = Ok L1"
    and 2: "invoke_signed E p (Allocate (ai_key a) (min (word_of_nat n) MAX_REALLOC_BYTES)) s L1 = Ok L2"
    and 3: "invoke_signed E p (Assign (ai_key a) p) s L2 = Ok L'"
    by (auto simp: pay_and_create_account_def result_simps Let_def)
  have L1: "L1 = L \<or> (\<exists>m. can_pay (ai_key payer) (ai_key a) m L \<and> L1 = transferred (ai_key payer) (ai_key a) m L)"
    using 1 by (auto dest!: AccountPayer_transfer_Ok split: if_splits)
  then have same: "acc_owner (L1 (ai_key a)) = acc_owner (L (ai_key a))" "acc_data (L1 (ai_key a)) = acc_data (L (ai_key a))"
    by auto
  from allocate_Ok [OF 2] assign_Ok [OF 3] same L1 show ?thesis
    by (intro that [OF L1]) (simp_all add: data_at_def set_data_def)
qed

lemma refines_create:
  assumes "payer \<in> set A" "a \<in> set A"
  shows "refines p A L (pay_and_create_account E p ncn payer a p n s L)"
  unfolding refines_def
proof (intro allI impI)
  fix L' assume "pay_and_create_account E p ncn payer a p n s L = Ok L'"
  then obtain L1 where L1: "L1 = L \<or> (\<exists>m. can_pay (ai_key payer) (ai_key a) m L \<and> L1 = transferred (ai_key payer) (ai_key a) m L)"
    and o: "acc_owner (L (ai_key a)) = system_program_id E" "data_is_empty (data_at L a)"
    and L': "L' = set_owner (set_data L1 a (Zeroed (unat (min (word_of_nat n) MAX_REALLOC_BYTES)))) (ai_key a) p"
    by (rule pay_and_create_Ok)
  have "acts p A L L1" using L1 assms by (auto intro: r_into_rtranclp act_transfer)
  moreover have "act E P p A L1 L'"
    unfolding L' by (rule act_create [OF assms(2)]) (use L1 o in \<open>auto simp: data_at_def\<close>)
  ultimately show "acts p A L L'" by simp
qed

definition growable :: "pubkey \<Rightarrow> Discriminators \<Rightarrow> pubkey \<Rightarrow> bool" where
  "growable p t k \<longleftrightarrow> (\<exists>i. k = address_of E p i \<and> type_at i = Some t)"

lemma growableI:
  "VaultRegistry_find_program_address E p ncn = (k, r) \<Longrightarrow> growable p DVaultRegistry k"
  "WeightTable_find_program_address E p ncn epoch = (k, r) \<Longrightarrow> growable p DWeightTable k"
  "BallotBox_find_program_address E p ncn epoch = (k, r) \<Longrightarrow> growable p DBallotBox k"
  "NCNRewardRouter_find_program_address E p ncn epoch = (k, r) \<Longrightarrow> growable p DNCNRewardRouter k"
  unfolding growable_def address_of_def
  by (rule exI [of _ "VaultRegistryId ncn"] exI [of _ "WeightTableId ncn epoch"]
        exI [of _ "BallotBoxId ncn epoch"] exI [of _ "NCNRewardRouterId ncn epoch"],
      simp add: VaultRegistry_find_program_address_def WeightTable_find_program_address_def
        BallotBox_find_program_address_def NCNRewardRouter_find_program_address_def Let_def split: prod.splits)+

lemma refines_grow:
  assumes "payer \<in> set A" "a \<in> set A" and g: "growable p t (ai_key a)"
  shows "refines p A L (grow_account E p ncn payer a t L)"
  unfolding refines_def
proof (intro allI impI)
  from g obtain i where i: "ai_key a = address_of E p i" "type_at i = Some t" by (auto simp: growable_def)
  fix L' assume ok: "grow_account E p ncn payer a t L = Ok L'"
  show "acts p A L L'"
  proof (cases "data_len (data_at L a) < size_of_type t")
    case True
    with ok obtain n L1 d where
      1: "(if 0 < saturating_sub (minimum_balance E n) (lamports_at L a)
         then AccountPayer_transfer E p ncn payer a (saturating_sub (minimum_balance E n) (lamports_at L a)) L
         else Ok L) = Ok L1"
      and 2: "realloc_data E n (data_at L1 a) = Ok d" "L' = set_data L1 a d"
      by (auto simp: grow_account_def pay_and_realloc_def result_simps Let_def)
    have L1: "L1 = L \<or> (\<exists>m. can_pay (ai_key payer) (ai_key a) m L \<and> L1 = transferred (ai_key payer) (ai_key a) m L)"
      using 1 by (auto dest!: AccountPayer_transfer_Ok split: if_splits)
    then have "acts p A L L1" using assms(1,2) by (auto intro: r_into_rtranclp act_transfer)
    moreover have "act E P p A L1 L'"
      unfolding 2(2) by (rule act_grow [OF assms(2) i _ 2(1)]) (use L1 True in \<open>auto simp: data_at_def\<close>)
    ultimately show ?thesis by simp
  qed (use ok in \<open>simp add: grow_account_def\<close>)
qed

lemma created_data:
  assumes "pay_and_create_account E p ncn payer a p n s L = Ok L'" and "n \<le> 10240"
  shows "data_at L' a = Zeroed n"
proof -
  have "unat (word_of_nat n :: u64) = n" using assms(2) by (simp add: unat_of_nat)
  then have "unat (min (word_of_nat n) MAX_REALLOC_BYTES) = n"
    using assms(2) by (simp add: min_def MAX_REALLOC_BYTES_def word_le_nat_alt)
  with assms(1) show ?thesis by (auto elim!: pay_and_create_Ok simp: ledger_simps)
qed

lemma created:
  "pay_and_create_account E p ncn payer a p Config_SIZE s L = Ok L' \<Longrightarrow> data_at L' a = Zeroed Config_SIZE"
  "pay_and_create_account E p ncn payer a p EpochState_SIZE s L = Ok L' \<Longrightarrow> data_at L' a = Zeroed EpochState_SIZE"
  "pay_and_create_account E p ncn payer a p EpochSnapshot_SIZE s L = Ok L' \<Longrightarrow> data_at L' a = Zeroed EpochSnapshot_SIZE"
  "pay_and_create_account E p ncn payer a p OperatorSnapshot_SIZE s L = Ok L' \<Longrightarrow> data_at L' a = Zeroed OperatorSnapshot_SIZE"
  "pay_and_create_account E p ncn payer a p ConsensusResult_SIZE s L = Ok L' \<Longrightarrow> data_at L' a = Zeroed ConsensusResult_SIZE"
  "pay_and_create_account E p ncn payer a p OperatorVaultRewardRouter_SIZE s L = Ok L' \<Longrightarrow>
     data_at L' a = Zeroed OperatorVaultRewardRouter_SIZE"
  "pay_and_create_account E p ncn payer a p EpochMarker_SIZE s L = Ok L' \<Longrightarrow> data_at L' a = Zeroed EpochMarker_SIZE"
  by (erule created_data, simp add: account_sizes)+

lemmas refine_rules = refines_fails refines_done refines_write refines_accounts refines_ensure refines_into
  refines_step refines_read refines_let_write refines_let refines_prod refines_if
  refines_create refines_pay refines_transfer refines_grow

section \<open>Configuration\<close>

lemma config_new_step:
  assumes "in_range MIN_EPOCHS_BEFORE_STALL MAX_EPOCHS_BEFORE_STALL stall"
    and "in_range MIN_EPOCHS_AFTER_CONSENSUS_BEFORE_CLOSE MAX_EPOCHS_AFTER_CONSENSUS_BEFORE_CLOSE close"
    and "in_range MIN_VALID_SLOTS_AFTER_CONSENSUS MAX_VALID_SLOTS_AFTER_CONSENSUS slots"
    and "FeeConfig_new P w f e = Ok fc"
  shows "data_step P (Zeroed Config_SIZE) (ConfigData (Config_new ncn tb e' slots stall close fc b))"
  using assms by (intro ds_config_new [of _ P w f e]) (simp_all add: config_ranges_def Config_new_def)

lemma initialize_config_refines:
  assumes "ledger_wf L"
  shows "refines p A L (process_admin_initialize_config E P p A stall close slots bps L)"
  unfolding process_admin_initialize_config_def
  by (intro refine_rules) (use assms in \<open>auto simp: result_simps dest!: created intro: config_new_step\<close>)

lemma set_new_admin_refines:
  assumes "ledger_wf L"
  shows "refines p A L (process_admin_set_new_admin E p A role L)"
  unfolding process_admin_set_new_admin_def
  by (intro refine_rules, cases role)
    (auto simp: result_simps config_ranges_def intro!: refines_write ds_config_set)

lemma set_parameters_refines:
  assumes "ledger_wf L"
  shows "refines p A L (process_admin_set_parameters E p A start stall close slots L)"
  unfolding process_admin_set_parameters_def
  by (intro refine_rules)
    (auto simp: result_simps config_ranges_def split: option.splits intro!: ds_config_set)

section \<open>Vault registry\<close>

lemma initialize_vault_registry_refines:
  assumes "ledger_wf L"
  shows "refines p A L (process_initialize_vault_registry E p A L)"
  unfolding process_initialize_vault_registry_def by (intro refine_rules) (use assms in auto)

lemma realloc_vault_registry_refines:
  assumes "ledger_wf L"
  shows "refines p A L (process_realloc_vault_registry E p A L)"
  unfolding process_realloc_vault_registry_def
  by (intro refine_rules)
    (use assms in \<open>auto simp: growableI dest!: should_initialize_view(1) [OF _ _ typed_ops_discriminator(2)]
      intro: ds_registry_new\<close>)

lemma register_vault_refines:
  assumes "ledger_wf L" and "clock_slot E \<noteq> u64_MAX"
  shows "refines p A L (process_register_vault E p A L)"
  unfolding process_register_vault_def
  by (intro refine_rules)
    (use assms in \<open>auto simp: result_simps Vault_load_def data_at_def dest: vault_Ok vault_mint_Ok intro: ds_registry_vault\<close>)

lemma admin_register_st_mint_refines:
  assumes "ledger_wf L"
  shows "refines p A L (process_admin_register_st_mint E p A w L)"
  unfolding process_admin_register_st_mint_def
  by (intro refine_rules) (use assms in \<open>auto simp: result_simps intro: ds_registry_mint\<close>)

lemma admin_set_st_mint_refines:
  assumes "ledger_wf L" and "m \<noteq> Pubkey_default"
  shows "refines p A L (process_admin_set_st_mint E p A m w L)"
  unfolding process_admin_set_st_mint_def
  by (intro refine_rules) (use assms in \<open>auto simp: result_simps intro: ds_registry_set\<close>)

section \<open>Admin instructions on an epoch\<close>

lemma admin_set_weight_refines:
  assumes "ledger_wf L" and "m \<noteq> Pubkey_default"
  shows "refines p A L (process_admin_set_weight E p A m epoch w L)"
  unfolding process_admin_set_weight_def
  by (intro refine_rules)
    (use assms in \<open>auto simp: result_simps intro: ds_table_weight ds_epoch_state evolves\<close>)

lemma admin_set_tie_breaker_refines:
  assumes "ledger_wf L"
  shows "refines p A L (process_admin_set_tie_breaker E p A st epoch L)"
  unfolding process_admin_set_tie_breaker_def
  by (intro refine_rules)
    (use assms in \<open>auto simp: result_simps
      intro: ds_ballot_box ds_epoch_state evolves bb_next [OF bb_refl] bb_tie\<close>)

section \<open>Epoch state, weight table and snapshots\<close>

lemma initialize_epoch_state_refines:
  assumes "ledger_wf L"
  shows "refines p A L (process_initialize_epoch_state E p A epoch L)"
  unfolding process_initialize_epoch_state_def
  by (intro refine_rules)
    (use assms init_view_zeroed [of DEpochState EpochState_zeroed] in
      \<open>auto simp: result_simps dest!: created intro!: ds_epoch_state_new updates_evolve(1)\<close>)

lemma initialize_weight_table_refines:
  assumes "ledger_wf L"
  shows "refines p A L (process_initialize_weight_table E p A epoch L)"
  unfolding process_initialize_weight_table_def by (intro refine_rules) (use assms in auto)

lemma realloc_weight_table_refines:
  assumes "ledger_wf L"
  shows "refines p A L (process_realloc_weight_table E p A epoch L)"
  unfolding process_realloc_weight_table_def
  by (intro refine_rules)
    (use assms in \<open>auto simp: growableI result_simps
      dest!: should_initialize_view(1) [OF _ _ typed_ops_discriminator(3)]
      intro: table_new_step ds_epoch_state evolves\<close>)

lemma set_epoch_weights_refines:
  assumes "ledger_wf L"
  shows "refines p A L (process_set_epoch_weights E p A epoch L)"
  unfolding process_set_epoch_weights_def
  by (intro refine_rules)
    (use assms in \<open>auto simp: result_simps intro: ds_table_weights ds_epoch_state evolves\<close>)

lemma initialize_epoch_snapshot_refines:
  assumes "ledger_wf L"
  shows "refines p A L (process_initialize_epoch_snapshot E p A epoch L)"
  unfolding process_initialize_epoch_snapshot_def
  by (intro refine_rules)
    (use assms in \<open>auto simp: result_simps dest!: created
      intro: epoch_snapshot_new_step ds_epoch_state evolves\<close>)

lemma initialize_operator_snapshot_refines:
  assumes "ledger_wf L"
  shows "refines p A L (process_initialize_operator_snapshot E p A epoch L)"
  unfolding process_initialize_operator_snapshot_def
  by (intro refine_rules)
    (use assms in \<open>auto simp: result_simps dest!: created
      intro: ds_operator_snapshot_new ds_epoch_snapshot ds_epoch_state evolves\<close>)

lemma snapshot_delegation_refines:
  assumes "ledger_wf L"
  shows "refines p A L (process_snapshot_vault_operator_delegation E P p A epoch L)"
  unfolding process_snapshot_vault_operator_delegation_def
  by (intro refine_rules)
    (use assms in \<open>auto simp: result_simps Vault_load_def data_at_def dest: vault_Ok
      intro: ds_operator_snapshot ds_epoch_snapshot ds_epoch_state evolves\<close>)

section \<open>The vote\<close>

lemma initialize_ballot_box_refines:
  assumes "ledger_wf L"
  shows "refines p A L (process_initialize_ballot_box E p A epoch L)"
  unfolding process_initialize_ballot_box_def
  by (intro refine_rules) (use assms in \<open>auto simp: result_simps dest!: created intro: ds_consensus_new\<close>)

lemma realloc_ballot_box_refines:
  assumes "ledger_wf L"
  shows "refines p A L (process_realloc_ballot_box E p A epoch L)"
  unfolding process_realloc_ballot_box_def
  by (intro refine_rules)
    (use assms in \<open>auto simp: growableI result_simps
      dest!: should_initialize_view(1) [OF _ _ typed_ops_discriminator(4)]
      intro: ds_ballot_box_new ds_epoch_state evolves\<close>)

lemma cast_and_tally_step:
  "cast_vote b op (Ballot_new st) w slot valid = Ok b1 \<Longrightarrow> tally_votes P b1 tw slot' = Ok b2 \<Longrightarrow>
   data_step P (BallotBoxData b) (BallotBoxData b2)"
  by (blast intro: ds_ballot_box bb_refl bb_next bb_cast bb_tally)

lemma cast_vote_refines:
  assumes "ledger_wf L"
  shows "refines p A L (process_cast_vote E P p A st epoch L)"
  unfolding process_cast_vote_def
  by (intro refine_rules)
    (use assms in \<open>auto simp: result_simps intro: cast_and_tally_step ds_consensus ds_epoch_state evolves\<close>)

section \<open>Rewards\<close>

lemma initialize_ncn_reward_router_refines:
  assumes "ledger_wf L"
  shows "refines p A L (process_initialize_ncn_reward_router E p A epoch L)"
  unfolding process_initialize_ncn_reward_router_def by (intro refine_rules) (use assms in auto)

lemma realloc_ncn_reward_router_refines:
  assumes "ledger_wf L"
  shows "refines p A L (process_realloc_ncn_reward_router E p A epoch L)"
  unfolding process_realloc_ncn_reward_router_def
  by (intro refine_rules)
    (use assms in \<open>auto simp: growableI result_simps
      dest!: should_initialize_view(1) [OF _ _ typed_ops_discriminator(5)]
      intro: ds_router_new ds_epoch_state evolves\<close>)

lemma route_step:
  assumes "(if \<not> NCNRewardRouter_still_routing r
      then and_then (into_program (NCNRewardRouter_route_incoming_rewards r rent bal)) (\<lambda>r.
        into_program (NCNRewardRouter_route_reward_pool P r fs)) else Ok r) = Ok r1"
    and "route_operator_vault_rewards P r1 b m = Ok r2" and "data_at L a = BallotBoxData b" and "ledger_wf L"
  shows "data_step P (NCNRewardRouterData r) (NCNRewardRouterData r2)"
proof -
  have "(nr_op P)\<^sup>*\<^sup>* r r1"
    using assms(1)
    by (auto simp: result_simps split: if_splits
        intro: converse_rtranclp_into_rtranclp nr_op_incoming nr_op_split)
  moreover have "nr_op P r1 r2" using nr_op_operators [OF wf_views(2)] assms(2-) by blast
  ultimately show ?thesis by (intro ds_router) simp
qed

lemma route_ncn_rewards_refines:
  assumes "ledger_wf L"
  shows "refines p A L (process_route_ncn_rewards E P p A m epoch L)"
  unfolding process_route_ncn_rewards_def
  by (intro refine_rules)
    (use assms in \<open>auto simp: result_simps
      intro: route_step ds_epoch_state est_evolves_trans evolves simp del: if_split\<close>)

lemma distribute_steps:
  "distribute_ncn_fee_rewards r = Ok (r', n) \<Longrightarrow> data_step P (NCNRewardRouterData r) (NCNRewardRouterData r')"
  "distribute_protocol_fee_rewards r = Ok (r', n) \<Longrightarrow> data_step P (NCNRewardRouterData r) (NCNRewardRouterData r')"
  "distribute_operator_vault_reward_route r op = Ok (r', n) \<Longrightarrow> op \<noteq> Pubkey_default \<Longrightarrow>
     data_step P (NCNRewardRouterData r) (NCNRewardRouterData r')"
  "distribute_operator_rewards q = Ok (q', n) \<Longrightarrow>
     data_step P (OperatorVaultRewardRouterData q) (OperatorVaultRewardRouterData q')"
  "distribute_vault_reward_route q v = Ok (q', n) \<Longrightarrow> v \<noteq> Pubkey_default \<Longrightarrow>
     data_step P (OperatorVaultRewardRouterData q) (OperatorVaultRewardRouterData q')"
  by (blast intro: ds_router ds_operator_router r_into_rtranclp nr_op.intros or_op.intros)+

lemma distribute_ncn_rewards_refines:
  assumes "ledger_wf L"
  shows "refines p A L (process_distribute_ncn_rewards E p A epoch L)"
  unfolding process_distribute_ncn_rewards_def
  by (intro refine_rules)
    (use assms in \<open>auto simp: result_simps intro: distribute_steps ds_epoch_state evolves\<close>)

lemma distribute_protocol_rewards_refines:
  assumes "ledger_wf L"
  shows "refines p A L (process_distribute_protocol_rewards E p A epoch L)"
  unfolding process_distribute_protocol_rewards_def
  by (intro refine_rules)
    (use assms in \<open>auto simp: result_simps intro: distribute_steps ds_epoch_state evolves\<close>)

lemma distribute_operator_route_refines:
  assumes "ledger_wf L"
  shows "refines p A L (process_distribute_operator_vault_reward_route E p A epoch L)"
  unfolding process_distribute_operator_vault_reward_route_def
  by (intro refine_rules)
    (use assms in \<open>auto simp: result_simps Operator_load_def dest: operator_Ok
      intro: distribute_steps ds_epoch_state evolves\<close>)

lemma initialize_operator_vault_reward_router_refines:
  assumes "ledger_wf L"
  shows "refines p A L (process_initialize_operator_vault_reward_router E p A epoch L)"
  unfolding process_initialize_operator_vault_reward_router_def
  by (intro refine_rules)
    (use assms in \<open>auto simp: result_simps dest!: created
      intro: ds_operator_router_new ds_epoch_state evolves\<close>)

lemma vault_route_step:
  assumes "(if \<not> OVRR_still_routing r
      then and_then (into_program (OVRR_route_incoming_rewards r rent bal)) (\<lambda>r.
        into_program (route_operator_rewards P mx r os)) else Ok r) = Ok r1"
    and "OVRR_route_reward_pool P r1 os m = Ok r2" and "data_at L a = OperatorSnapshotData os" and "ledger_wf L"
  shows "data_step P (OperatorVaultRewardRouterData r) (OperatorVaultRewardRouterData r2)"
proof -
  have "(or_op P)\<^sup>*\<^sup>* r r1"
    using assms(1)
    by (auto simp: result_simps split: if_splits
        intro: converse_rtranclp_into_rtranclp or_op_incoming or_op_operator)
  moreover have "or_op P r1 r2" using or_op_vaults [OF wf_views(3)] assms(2-) by blast
  ultimately show ?thesis by (intro ds_operator_router) simp
qed

lemma route_operator_vault_rewards_refines:
  assumes "ledger_wf L"
  shows "refines p A L (process_route_operator_vault_rewards E P p A m epoch L)"
  unfolding process_route_operator_vault_rewards_def
  by (intro refine_rules)
    (use assms in \<open>auto simp: result_simps intro: vault_route_step ds_epoch_state evolves simp del: if_split\<close>)

lemma distribute_operator_rewards_refines:
  assumes "ledger_wf L"
  shows "refines p A L (process_distribute_operator_rewards E p A epoch L)"
  unfolding process_distribute_operator_rewards_def
  by (intro refine_rules)
    (use assms in \<open>auto simp: result_simps intro: distribute_steps ds_epoch_state evolves\<close>)

lemma distribute_vault_rewards_refines:
  assumes "ledger_wf L"
  shows "refines p A L (process_distribute_vault_rewards E p A epoch L)"
  unfolding process_distribute_vault_rewards_def
  by (intro refine_rules)
    (use assms in \<open>auto simp: result_simps Vault_load_def dest: vault_Ok
      intro: distribute_steps ds_epoch_state evolves\<close>)

section \<open>Closing\<close>

lemma transfer_acts:
  assumes "invoke_signed E p (Transfer f t n) s L = Ok L'" and "f \<in> ai_key ` set A" "t \<in> ai_key ` set A"
  shows "acts p A L L' \<and> same_data L L'"
  using refines_transfer [OF assms(2,3)] assms(1) transfer_Ok [OF assms(1)]
  by (auto simp: refines_def same_data_def)

lemma receiver_transfer_acts:
  assumes "r \<in> set A" "to \<in> set A"
  shows "NCNRewardReceiver_transfer E p ncn epoch r to n L = Ok L' \<Longrightarrow> acts p A L L' \<and> same_data L L'"
    and "OperatorVaultRewardReceiver_transfer E p op ncn epoch r to n L = Ok L' \<Longrightarrow> acts p A L L' \<and> same_data L L'"
  using assms
  by (auto simp: NCNRewardReceiver_transfer_def OperatorVaultRewardReceiver_transfer_def result_simps
      split: prod.splits elim!: transfer_acts)

lemma receiver_close_acts:
  assumes "r \<in> set A" "wallet \<in> set A" "payer \<in> set A"
  shows "NCNRewardReceiver_close E p ncn epoch r wallet payer L = Ok L' \<Longrightarrow> acts p A L L' \<and> same_data L L'"
    and "OperatorVaultRewardReceiver_close E p op ncn epoch r wallet payer L = Ok L' \<Longrightarrow>
      acts p A L L' \<and> same_data L L'"
  using assms
  by (fastforce simp: NCNRewardReceiver_close_def OperatorVaultRewardReceiver_close_def result_simps
      same_data_def Let_def split: if_splits dest!: receiver_transfer_acts [rotated 2] intro: rtranclp_trans)+

lemma close_by_discriminator_acts:
  assumes ok: "close_by_discriminator E p c ncn a payer opt epoch disc es L = Ok (es', L')"
    and A: "payer \<in> set A" "set opt \<subseteq> set A"
  shows "acts p A L L'" and "same_data L L'" and "est_evolves es es'"
    and "\<exists>t \<in> closable. disc = Discriminators_as_u8 t"
proof -
  show "acts p A L L'" "same_data L L'"
    using ok A unfolding close_by_discriminator_def
    by (auto simp: result_simps Let_def split: if_splits list.splits dest!: receiver_close_acts [rotated 3])
  show "est_evolves es es'"
    using ok unfolding close_by_discriminator_def
    by (auto simp: result_simps Let_def split: if_splits list.splits intro: evolves)
  show "\<exists>t \<in> closable. disc = Discriminators_as_u8 t"
    using ok unfolding close_by_discriminator_def closable_def by (auto split: if_splits)
qed

lemma create_epoch_marker_acts:
  assumes ok: "create_epoch_marker E p em ncn payer epoch L = Ok L'" and "ledger_wf L"
    and A: "payer \<in> set A" "em \<in> set A"
  shows "acts p A L L'" and "k \<noteq> ai_key em \<Longrightarrow> acc_data (L' k) = acc_data (L k)"
proof -
  have "refines p A L (create_epoch_marker E p em ncn payer epoch L)"
    unfolding create_epoch_marker_def
    by (intro refine_rules) (use assms(2) A in \<open>auto dest!: created intro: ds_marker_new\<close>)
  with ok show "acts p A L L'" by (simp add: refines_def)
  show "k \<noteq> ai_key em \<Longrightarrow> acc_data (L' k) = acc_data (L k)"
    using ok by (auto simp: create_epoch_marker_def result_simps ledger_simps split: prod.splits
        elim!: pay_and_create_Ok)
qed

lemma close_account_act:
  assumes ok: "close_account E p payer a L = Ok L'" and A: "payer \<in> set A" "a \<in> set A"
    and ne: "ai_key payer \<noteq> ai_key a" and t: "t \<in> closable"
    and fb: "first_byte (data_at L a) = (Ok (Discriminators_as_u8 t) :: (u8, program_error) result)"
  shows "act E P p A L L'"
proof -
  from ok obtain n where n: "checked_add (lamports_at L payer) (lamports_at L a) = Some n"
    and o: "acc_owner (L (ai_key a)) = p" and L': "L' = closed_into E payer a n L"
    by (auto simp: close_account_def closed_into_def result_simps Let_def realloc_empties)
  show ?thesis unfolding L' by (rule act_close [OF A(2,1) ne o t fb n])
qed

lemma close_epoch_account_Ok:
  assumes ok: "process_close_epoch_account E p A epoch L = Ok L'"
  obtains em st cfg ncn a payer sys opt es es' disc L1 L3 u v w where
    "A = em # st # cfg # ncn # a # payer # sys # opt"
    and "EpochState_load E p st (ai_key ncn) epoch False L = Ok u"
    and "AccountPayer_load E p payer (ai_key ncn) False L = Ok v"
    and "EpochMarker_check_dne E p em (ai_key ncn) epoch L = Ok w"
    and "data_at L st = EpochStateData es"
    and "(if ai_key a = ai_key st then Ok (Discriminators_as_u8 DEpochState) else first_byte (data_at L a)) = (Ok disc :: (u8, program_error) result)"
    and "\<exists>c. close_by_discriminator E p c ncn a payer opt epoch disc (set_is_closing es) L = Ok (es', L1)"
    and "(if ai_key a = ai_key st then create_epoch_marker E p em ncn payer epoch (set_data L1 st (EpochStateData es'))
          else Ok (set_data L1 st (EpochStateData es'))) = Ok L3"
    and "close_account E p payer a L3 = Ok L'"
proof -
  obtain em st cfg ncn a payer sys opt where A: "A = em # st # cfg # ncn # a # payer # sys # opt"
    using ok by (auto simp: process_close_epoch_account_def split: list.splits)
  show ?thesis
    using ok unfolding A process_close_epoch_account_def
    by (simp only: list.case Let_def and_then_eq_Ok ensure_eq_Ok typed_views split_paired_Ex prod.case, clarify)
      (rule that [OF A], (assumption | blast)+)
qed

lemma close_epoch_account_refines:
  assumes wf: "ledger_wf L" and sys: "p \<noteq> system_program_id E"
  shows "refines p A L (process_close_epoch_account E p A epoch L)"
  unfolding refines_def
proof (intro allI impI)
  fix L' assume "process_close_epoch_account E p A epoch L = Ok L'"
  then show "acts p A L L'"
  proof (rule close_epoch_account_Ok, goal_cases)
    case (1 em st cfg ncn a payer sp opt es es' disc L1 L3 u v w)
    have A: "payer \<in> set A" "set opt \<subseteq> set A" "em \<in> set A" "st \<in> set A" "a \<in> set A" using 1(1) by auto
    from 1(7) obtain c where "close_by_discriminator E p c ncn a payer opt epoch disc (set_is_closing es) L = Ok (es', L1)" by blast
    note cl = close_by_discriminator_acts [OF this A(1,2)]
    let ?L2 = "set_data L1 st (EpochStateData es')"
    have "est_evolves es es'" using est_evolves_trans [OF updates_evolve(13) cl(3)] .
    then have "data_step P (data_at L1 st) (EpochStateData es')"
      using cl(2) 1(5) by (auto simp: same_data_def data_at_def intro: ds_epoch_state)
    then have "act E P p A L1 ?L2" by (rule act_data [OF A(4)])
    with cl(1) have to2: "acts p A L ?L2" by simp
    have wf2: "ledger_wf ?L2" by (rule acts_wf [OF to2 wf])
    have own: "acc_owner (L (ai_key payer)) = system_program_id E" "acc_owner (L (ai_key st)) = p"
      using 1(2,3) unfolding load_defs check_load_Ok by blast+
    have em: "ai_key em \<noteq> ai_key st" using 1(4,5) typed_not_empty [of "data_at L st"]
      by (auto simp: result_simps data_at_def)
    obtain t where t: "t \<in> closable" and d: "disc = Discriminators_as_u8 t" using cl(4) by blast
    have "acts p A ?L2 L3 \<and> ai_key payer \<noteq> ai_key a \<and>
      first_byte (data_at L3 a) = (Ok (Discriminators_as_u8 t) :: (u8, program_error) result)"
    proof (cases "ai_key a = ai_key st")
      case True
      then have cr: "create_epoch_marker E p em ncn payer epoch ?L2 = Ok L3" using 1(8) by simp
      have "data_at L3 a = EpochStateData es'"
        using create_epoch_marker_acts(2) [OF cr wf2 A(1,3), of "ai_key st"] em True
        by (simp add: data_at_def ledger_simps)
      moreover have "t = DEpochState" using True 1(6) d by (cases t) simp_all
      ultimately show ?thesis using create_epoch_marker_acts(1) [OF cr wf2 A(1,3)] own sys True by auto
    next
      case False
      then have L3: "L3 = ?L2" using 1(8) by simp
      have "acc_owner (L3 (ai_key payer)) = system_program_id E" "data_at L3 a = data_at L a"
        using cl(2) own(1) False by (auto simp: L3 same_data_def data_at_def ledger_simps)
      moreover have "acc_owner (L3 (ai_key a)) = p" using 1(9) by (auto simp: close_account_def result_simps)
      ultimately show ?thesis using L3 1(6) False d sys by auto
    qed
    with close_account_act [OF 1(9) A(1,5) _ t] to2 show ?case by (meson rtranclp.rtrancl_into_rtrancl rtranclp_trans)
  qed
qed

section \<open>Dispatch\<close>

lemmas handlers_refine = initialize_config_refines set_new_admin_refines set_parameters_refines
  initialize_vault_registry_refines realloc_vault_registry_refines register_vault_refines
  admin_register_st_mint_refines admin_set_st_mint_refines admin_set_weight_refines
  admin_set_tie_breaker_refines initialize_epoch_state_refines initialize_weight_table_refines
  realloc_weight_table_refines set_epoch_weights_refines initialize_epoch_snapshot_refines
  initialize_operator_snapshot_refines snapshot_delegation_refines initialize_ballot_box_refines
  realloc_ballot_box_refines cast_vote_refines initialize_ncn_reward_router_refines
  realloc_ncn_reward_router_refines route_ncn_rewards_refines distribute_ncn_rewards_refines
  distribute_protocol_rewards_refines distribute_operator_route_refines
  initialize_operator_vault_reward_router_refines route_operator_vault_rewards_refines
  distribute_operator_rewards_refines distribute_vault_rewards_refines close_epoch_account_refines

lemma process_instruction_refines:
  assumes wf: "ledger_wf L" and ne: "p \<noteq> system_program_id E" "clock_slot E \<noteq> u64_MAX"
    and ix: "\<And>i. decoded = Ok i \<Longrightarrow> names_mint i"
  shows "refines p A L (process_instruction E P own p A decoded L)"
  unfolding process_instruction_def
proof (rule refines_ensure, rule refines_read, goal_cases)
  case (1 i)
  with ix have "names_mint i" by blast
  then show ?case by (cases i) (simp_all add: handlers_refine wf ne)
qed

lemma instruction_acts:
  assumes "process_instruction E P own p A decoded L = Ok L'" and "ledger_wf L"
    and "p \<noteq> system_program_id E" "clock_slot E \<noteq> u64_MAX" and "\<And>i. decoded = Ok i \<Longrightarrow> names_mint i"
  shows "acts p A L L'"
  using process_instruction_refines [OF assms(2-)] assms(1) by (simp add: refines_def)

lemma acts_permanent:
  assumes "acts p A L L'" and "kinds_apart E p" and "k = address_of E p i" "type_at i = Some t"
    and "t \<notin> closable" and "discriminator_of (acc_data (L k)) = Some t"
  shows "discriminator_of (acc_data (L' k)) = Some t \<and> acc_owner (L' k) = acc_owner (L k) \<and>
    (t = DEpochMarker \<longrightarrow> acc_data (L' k) = acc_data (L k))"
  using assms(1)
proof (induction rule: rtranclp_induct)
  case (step M N)
  then show ?case using act_permanent [OF step.hyps(2) assms(2-5)] by simp
qed (use assms(6) in simp)

end

text \<open>The program on the reference runtime, with the arithmetic of \<open>spl_math\<close>.\<close>

interpretation reference_program: ncn_program "reference_runtime E" spl_ops "\<lambda>p. p" for E
  by unfold_locales

end
