(* ===== verification/Program_Runs.thy ===== *)
theory Program_Runs
  imports Handlers_Refine
begin

text \<open>
  Runs of the program.  The runtime applies an instruction as a whole: one that fails or
  aborts leaves the ledger as it was.  A run is a list of transactions, each with the clock,
  the accounts and the instruction of its own.  The invariants of the account machine are
  lifted to runs; the reactions of single processors that several properties need follow.
\<close>

section \<open>Runs\<close>

type_synonym transaction = "runtime \<times> account_info list \<times> NCNProgramInstruction"

definition execute :: "'p precise_ops \<Rightarrow> pubkey \<Rightarrow> transaction \<Rightarrow> ledger \<Rightarrow> ledger" where
  "execute P p = (\<lambda>(E, A, i) L.
     case process_instruction E P p p A (Ok i) L of Ok L' \<Rightarrow> L' | _ \<Rightarrow> L)"

definition run :: "'p precise_ops \<Rightarrow> pubkey \<Rightarrow> transaction list \<Rightarrow> ledger \<Rightarrow> ledger" where
  "run P p txs L = fold (execute P p) txs L"

text \<open>
  The runtimes of a run obey the laws of the runtime, the program is not the system program,
  and weights are set for named mints.
\<close>

definition lawful :: "'p precise_ops \<Rightarrow> ('p \<Rightarrow> nat) \<Rightarrow> pubkey \<Rightarrow> transaction \<Rightarrow> bool" where
  "lawful P raw p = (\<lambda>(E, A, i).
     ncn_program E P raw \<and> p \<noteq> system_program_id E \<and> clock_slot E \<noteq> u64_MAX \<and> names_mint i)"

definition keys_of :: "transaction \<Rightarrow> pubkey set" where
  "keys_of = (\<lambda>(E, A, i). ai_key ` set A)"

definition runtime_of :: "transaction \<Rightarrow> runtime" where
  "runtime_of = fst"

lemma run_simps [simp]:
  "run P p [] L = L" "run P p (tx # txs) L = run P p txs (execute P p tx L)"
  by (simp_all add: run_def)

lemma execute_acts:
  assumes "lawful P raw p (E, A, i)" and "ledger_wf L"
  shows "(act E P p A)\<^sup>*\<^sup>* L (execute P p (E, A, i) L)"
proof -
  have pr: "ncn_program E P raw" and ne: "p \<noteq> system_program_id E" "clock_slot E \<noteq> u64_MAX"
    and ix: "\<And>j. Ok i = (Ok j :: (_, program_error) result) \<Longrightarrow> names_mint j"
    using assms(1) by (auto simp: lawful_def)
  show ?thesis
    using ncn_program.instruction_acts [OF pr _ assms(2) ne ix] by (auto simp: execute_def split: result.splits)
qed

lemma execute_wf:
  assumes "lawful P raw p tx" and "ledger_wf L"
  shows "ledger_wf (execute P p tx L)"
proof (cases tx)
  case (fields E A i)
  with assms show ?thesis
    using ncn_program.acts_wf [of E P raw p A L "execute P p tx L"] execute_acts [of P raw p E A i L]
    by (auto simp: lawful_def)
qed

lemma execute_conserves:
  assumes "lawful P raw p tx" "ledger_wf L" "finite K" "keys_of tx \<subseteq> K"
  shows "total_lamports K (execute P p tx L) = total_lamports K L"
proof (cases tx)
  case (fields E A i)
  with assms show ?thesis
    using ncn_program.acts_conserve_lamports [of E P raw p A L "execute P p tx L" K]
      execute_acts [of P raw p E A i L] by (auto simp: lawful_def keys_of_def)
qed

lemma execute_frame:
  assumes "lawful P raw p tx" "ledger_wf L" "k \<notin> keys_of tx"
  shows "execute P p tx L k = L k"
proof (cases tx)
  case (fields E A i)
  with assms show ?thesis
    using ncn_program.acts_frame [of E P raw p A L "execute P p tx L" k] execute_acts [of P raw p E A i L]
    by (auto simp: lawful_def keys_of_def)
qed

lemma execute_permanent:
  assumes "lawful P raw p tx" "ledger_wf L" and "kinds_apart (runtime_of tx) p"
    and "k = address_of (runtime_of tx) p i" "type_at i = Some t" "t \<notin> closable"
    and "discriminator_of (acc_data (L k)) = Some t"
  shows "discriminator_of (acc_data (execute P p tx L k)) = Some t \<and>
    acc_owner (execute P p tx L k) = acc_owner (L k) \<and>
    (t = DEpochMarker \<longrightarrow> acc_data (execute P p tx L k) = acc_data (L k))"
proof (cases tx)
  case (fields E A j)
  with assms show ?thesis
    using ncn_program.acts_permanent [of E P raw p A L "execute P p tx L" k i t] execute_acts [of P raw p E A j L]
    by (auto simp: lawful_def runtime_of_def)
qed

lemma run_invariant:
  assumes "\<And>tx L. tx \<in> set txs \<Longrightarrow> I L \<Longrightarrow> I (execute P p tx L)" and "I L"
  shows "I (run P p txs L)"
  using assms by (induction txs arbitrary: L) simp_all

lemma run_wf: "\<forall>tx \<in> set txs. lawful P raw p tx \<Longrightarrow> ledger_wf L \<Longrightarrow> ledger_wf (run P p txs L)"
  by (rule run_invariant) (blast intro: execute_wf [where raw = raw])+

section \<open>What a success tells\<close>

text \<open>
  \<open>yields Q r\<close>: if the computation returns a result, \<open>Q\<close> holds of it.  The rules walk through a
  processor and collect what its checks have established.
\<close>

definition yields :: "('a \<Rightarrow> bool) \<Rightarrow> ('a, 'e) result \<Rightarrow> bool" where
  "yields Q r \<longleftrightarrow> (\<forall>x. r = Ok x \<longrightarrow> Q x)"

lemma yieldsD: "yields Q r \<Longrightarrow> r = Ok x \<Longrightarrow> Q x"
  by (simp add: yields_def)

lemma yields_fails: "yields Q (Err e)" "yields Q Panic"
  by (simp_all add: yields_def)

lemma yields_Ok: "Q x \<Longrightarrow> yields Q (Ok x)"
  by (simp add: yields_def)

lemma yields_bind: "(\<And>x. m = Ok x \<Longrightarrow> yields Q (k x)) \<Longrightarrow> yields Q (and_then m k)"
  by (auto simp: yields_def result_simps)

lemma yields_ensure: "(c \<Longrightarrow> yields Q (k ())) \<Longrightarrow> yields Q (and_then (ensure c e) k)"
  by (auto simp: yields_def result_simps)

lemma yields_let: "yields Q (f v) \<Longrightarrow> yields Q (Let v f)"
  by simp

lemma yields_prod: "(\<And>a b. t = (a, b) \<Longrightarrow> yields Q (f a b)) \<Longrightarrow> yields Q (case t of (a, b) \<Rightarrow> f a b)"
  by (cases t) simp

lemma yields_accounts:
  "yields Q n \<Longrightarrow> (\<And>y ys. xs = y # ys \<Longrightarrow> yields Q (c y ys)) \<Longrightarrow>
   yields Q (case xs of [] \<Rightarrow> n | y # ys \<Rightarrow> c y ys)"
  by (cases xs) simp_all

lemma yields_if:
  "(c \<Longrightarrow> yields Q r) \<Longrightarrow> (\<not> c \<Longrightarrow> yields Q s) \<Longrightarrow> yields Q (if c then r else s)"
  by simp

lemma yields_any: "(\<And>x. r = Ok x \<Longrightarrow> Q x) \<Longrightarrow> yields Q r"
  by (simp add: yields_def)

lemmas yields_rules = yields_fails yields_Ok yields_accounts yields_ensure yields_bind yields_let
  yields_prod yields_if

text \<open>The loaders fix the address of what they load.\<close>

lemma load_address:
  "Config_load E p a n w L = Ok u \<Longrightarrow> ai_key a = address_of E p (ConfigId n)"
  "VaultRegistry_load E p a n w L = Ok u \<Longrightarrow> ai_key a = address_of E p (VaultRegistryId n)"
  "WeightTable_load E p a n e w L = Ok u \<Longrightarrow> ai_key a = address_of E p (WeightTableId n e)"
  "EpochSnapshot_load E p a n e w L = Ok u \<Longrightarrow> ai_key a = address_of E p (EpochSnapshotId n e)"
  "OperatorSnapshot_load E p a op n e w L = Ok u \<Longrightarrow> ai_key a = address_of E p (OperatorSnapshotId op n e)"
  "BallotBox_load E p a n e w L = Ok u \<Longrightarrow> ai_key a = address_of E p (BallotBoxId n e)"
  "ConsensusResult_load E p a n e w L = Ok u \<Longrightarrow> ai_key a = address_of E p (ConsensusResultId n e)"
  "EpochState_load E p a n e w L = Ok u \<Longrightarrow> ai_key a = address_of E p (EpochStateId n e)"
  "EpochMarker_check_dne E p a n e L = Ok u \<Longrightarrow> ai_key a = address_of E p (EpochMarkerId n e)"
  unfolding load_defs check_load_Ok EpochMarker_check_dne_Ok
  by (simp_all add: address_of_def Config_find_program_address_def VaultRegistry_find_program_address_def
      WeightTable_find_program_address_def EpochSnapshot_find_program_address_def
      OperatorSnapshot_find_program_address_def BallotBox_find_program_address_def
      ConsensusResult_find_program_address_def EpochState_find_program_address_def
      EpochMarker_find_program_address_def Let_def split: prod.splits)

section \<open>An example chain\<close>

text \<open>
  A small ledger for concrete runs: NCN 11 in epoch 5, operator 7 that votes with key 13,
  administrator 14, program 9.  Addresses are derived from the length of the seeds, which
  tells the types of accounts apart.
\<close>

definition always_active :: slot_toggle where
  "always_active = \<lparr>is_active = (\<lambda>_ _. Ok True), is_active_or_cooldown = (\<lambda>_ _. Ok True),
     toggle_state = (\<lambda>_ _. Ok (2, True))\<rparr>"

definition chain_base :: runtime where
  "chain_base =
     \<lparr>clock_slot = 120, clock_epoch = 5, get_epoch = (\<lambda>s. s div 432),
      minimum_balance = (\<lambda>n. word_of_nat (128 + n)), vault_core_MAX_BPS = 10000,
      find_pda = (\<lambda>s p. (word_of_nat (1000 + length (concat s)), 255)), system_program_id = 0,
      invoke_signed = (\<lambda>_ _ _ L. Ok L), realloc_data = (\<lambda>_ d. Ok d),
      load_signer_of = (\<lambda>_ _ _. Ok ()), load_system_account_of = (\<lambda>_ _ _. Ok ()),
      load_system_program_of = (\<lambda>_. Ok ()), load_token_mint_of = (\<lambda>_ _. Ok ()),
      Ncn_load_of = (\<lambda>_ _ _. Ok ()), Operator_load_of = (\<lambda>_ _ _. Ok ()),
      Vault_load_of = (\<lambda>_ _ _. Ok ()), RestakingConfig_load_of = (\<lambda>_ _ _. Ok ()),
      NcnOperatorState_load_of = (\<lambda>_ _ _ _ _. Ok ()), NcnVaultTicket_load_of = (\<lambda>_ _ _ _ _. Ok ()),
      VaultNcnTicket_load_of = (\<lambda>_ _ _ _ _. Ok ()), VaultOperatorDelegation_load_of = (\<lambda>_ _ _ _ _. Ok ()),
      Ncn_of = (\<lambda>_. Ok \<lparr>ncn_admin = 14, ncn_program_admin = 14, ncn_weight_table_admin = 14,
                      ncn_vault_count = 1, ncn_operator_count = 1\<rparr>),
      Operator_of = (\<lambda>_. Ok \<lparr>op_voter = 13, op_fee_bps = 100, op_index = 3\<rparr>),
      Vault_of = (\<lambda>_. Ok \<lparr>v_supported_mint = 21, v_vault_index = 0, v_is_update_needed = (\<lambda>_ _. Ok False)\<rparr>),
      epoch_length_of = (\<lambda>_. Ok 432),
      NcnOperatorState_of = (\<lambda>_. Ok \<lparr>nos_index = 0,
         nos_ncn_opt_in_state = always_active,
         nos_operator_opt_in_state = always_active\<rparr>),
      NcnVaultTicket_of = (\<lambda>_. Ok always_active),
      VaultNcnTicket_of = (\<lambda>_. Ok always_active),
      delegation_total_security_of = (\<lambda>_. Ok (Ok 70))\<rparr>"

definition chain :: runtime where
  "chain = reference_runtime chain_base"

lemma chain_program: "ncn_program chain spl_ops (\<lambda>p. p)"
  unfolding chain_def by (rule reference_program.ncn_program_axioms)

lemma chain_sel [simp]:
  "clock_slot chain = 120" "clock_epoch chain = 5" "get_epoch chain = (\<lambda>s. s div 432)"
  "minimum_balance chain n = word_of_nat (128 + n)" "system_program_id chain = 0"
  "find_pda chain s p = (word_of_nat (1000 + length (concat s)), 255)"
  "load_system_program_of chain a = Ok ()" "Ncn_load_of chain a acc w = Ok ()"
  "Ncn_of chain d = Ok \<lparr>ncn_admin = 14, ncn_program_admin = 14, ncn_weight_table_admin = 14,
                      ncn_vault_count = 1, ncn_operator_count = 1\<rparr>"
  "Operator_of chain d = Ok \<lparr>op_voter = 13, op_fee_bps = 100, op_index = 3\<rparr>"
  "load_signer_of chain = signer_rule" "load_system_account_of chain = system_account_rule 0"
  "Operator_load_of chain = named_operator chain_base" "Operator_load_of chain_base a acc w = Ok ()"
  "invoke_signed chain = system_invoke chain_base" "realloc_data chain = resize_data"
  "find_pda chain_base s p = (word_of_nat (1000 + length (concat s)), 255)" "system_program_id chain_base = 0"
  by (simp_all add: chain_def chain_base_def)

lemma chain_address: "address_of chain p i = word_of_nat (1000 + seed_length i)"
  by (simp add: address_of_def length_seeds [symmetric])

lemma small_key: "n < 2000 \<Longrightarrow> unat (word_of_nat n :: pubkey) = n"
  by (simp add: unat_of_nat)

lemma seed_type: "seed_length i = seed_length j \<Longrightarrow> type_at i = type_at j"
  by (cases i; cases j) simp_all

lemma chain_kinds_apart: "kinds_apart chain p"
proof -
  have "1000 + seed_length i < 2000" for i by (cases i) simp_all
  then have "unat (address_of chain p i) = 1000 + seed_length i" for i
    unfolding chain_address by (rule small_key)
  then show ?thesis unfolding kinds_apart_def by (metis add_left_cancel seed_type)
qed

end
