(* ===== verification/Config_Properties.thy ===== *)
theory Config_Properties
  imports Epoch_Snapshot
begin

text \<open>
  The properties of the configuration and set-up components: fee updates, the vault registry,
  the weight table and the stake snapshots.
\<close>

section \<open>Fees\<close>

text \<open>A sample configuration for the witnesses: an NCN fee of 5 percent from epoch 5 on.\<close>

definition fees0 :: fees where
  "fees0 = \<lparr>activation_epoch = 5, protocol_fee_bps = Fee_new 400, ncn_fee_bps = Fee_new 500\<rparr>"

definition fee_config0 :: fee_config where
  "fee_config0 = \<lparr>protocol_fee_wallet = PROTOCOL_FEE_WALLET, ncn_fee_wallets = 7, fee_1 = fees0, fee_2 = fees0\<rparr>"

lemma fee_config0_wf: "fee_config_wf fee_config0 5"
  by (simp add: fee_config_wf_def fee_config0_def fees0_def fees_ok_def fees_total_def Fee_new_def)

lemma fee_config0_next: "next_fees fee_config0 5 = fees0" "current_fees fee_config0 5 = fees0"
  by (simp_all add: next_fees_def current_fees_def fee_config0_def fees0_def)

lemma fee_config0_update: "is_ok (update_fee_config spl_ops fee_config0 (Some 600) None 5)"
proof (rule update_fee_config_succeeds [OF spl.precise_number_axioms fee_config0_wf])
  show "fees_ok (proposed_fees fee_config0 (Some 600) 5)"
    by (simp add: proposed_fees_def fee_config0_next fees_ok_def fees_total_def fees0_def Fee_new_def)
qed simp

lemma fee_config0_reach: "fee_reach spl_ops fee_config0 5"
proof (rule fr_new)
  have "check_fees_okay spl_ops fee_config0 5 = Ok ()"
    by (rule check_fees_okay_Ok [OF spl.precise_number_axioms])
      (simp add: fee_config0_next fees_ok_def fees_total_def fees0_def Fee_new_def)
  then show "FeeConfig_new spl_ops 7 500 5 = Ok fee_config0"
    by (simp add: FeeConfig_new_def Fees_new_def Fees_set_ncn_fee_bps_def PROTOCOL_FEE_BPS_def
        MAX_FEE_BPS_def word_less_nat_alt fee_config0_def fees0_def Fee_new_def Fee_default_def)
qed

text \<open>
  An accepted fee update leaves the fees of the current epoch as they are and determines
  those of every later epoch: the fees already scheduled, with the NCN fee replaced by the new
  one if there is one; they are again within the cap.
\<close>

theorem fee_update_takes_effect_next_epoch:
  assumes "fee_config_wf c e" and "update_fee_config P c bps wallet e = Ok c'"
  shows "current_fees c' e = current_fees c e \<and>
    (\<forall>e'. e < e' \<longrightarrow> current_fees c' e' = proposed_fees c bps e) \<and>
    fees_ok (proposed_fees c bps e) \<and> fee_config_wf c' e \<and>
    ncn_fee_wallets c' = (case wallet of None \<Rightarrow> ncn_fee_wallets c | Some w \<Rightarrow> w)"
  using update_fee_config_effect_lemma [OF assms] update_fee_config_wf [OF assms]
    update_fee_config_slots(3) [OF assms] by blast

theorem fee_update_takes_effect_next_epoch_witness:
  "current_fees (the_ok (update_fee_config spl_ops fee_config0 (Some 600) None 5)) 5 = fees0 \<and>
   current_fees (the_ok (update_fee_config spl_ops fee_config0 (Some 600) None 5)) 6
     = fees0\<lparr>activation_epoch := 6, ncn_fee_bps := Fee_new 600\<rparr>"
proof -
  obtain c' where c': "update_fee_config spl_ops fee_config0 (Some 600) None 5 = Ok c'"
    using fee_config0_update by (auto simp: is_ok_iff)
  have "(5 :: u64) < 6" by (simp add: word_less_nat_alt)
  with fee_update_takes_effect_next_epoch [OF fee_config0_wf c'] show ?thesis
    by (simp add: c' fee_config0_next proposed_fees_def)
qed

text \<open>
  A fee update is accepted exactly when there is a next epoch and the fees it schedules
  add up to more than nothing and at most 10000 basis points.
\<close>

theorem fee_update_accepted_iff:
  assumes "precise_number P raw" and "fee_config_wf c e"
  shows "is_ok (update_fee_config P c bps wallet e) \<longleftrightarrow> e \<noteq> u64_MAX \<and> fees_ok (proposed_fees c bps e)"
proof
  assume "is_ok (update_fee_config P c bps wallet e)"
  then obtain c' where c': "update_fee_config P c bps wallet e = Ok c'" by (auto simp: is_ok_iff)
  have "e \<noteq> u64_MAX" using update_fee_config_slots(1) [OF assms(2) c'] by auto
  then show "e \<noteq> u64_MAX \<and> fees_ok (proposed_fees c bps e)"
    using update_fee_config_effect_lemma(3) [OF assms(2) c'] by simp
next
  assume "e \<noteq> u64_MAX \<and> fees_ok (proposed_fees c bps e)"
  then show "is_ok (update_fee_config P c bps wallet e)"
    using update_fee_config_succeeds [OF assms] by blast
qed

theorem fee_update_accepted_iff_witness:
  "is_ok (update_fee_config spl_ops fee_config0 (Some 9600) None 5) \<and>
   \<not> is_ok (update_fee_config spl_ops fee_config0 (Some 9601) None 5)"
  using fee_update_accepted_iff [OF spl.precise_number_axioms fee_config0_wf, of "Some 9600" None]
    fee_update_accepted_iff [OF spl.precise_number_axioms fee_config0_wf, of "Some 9601" None]
  by (simp add: proposed_fees_def fee_config0_next fees_ok_def fees_total_def fees0_def Fee_new_def)

text \<open>
  In every configuration reached by creation, updates and the passing of epochs, the fees
  of the present and of any later epoch add up to at most 10000 basis points and are not
  zero, and the protocol's fee and wallet are the fixed ones.
\<close>

theorem reachable_fees_bounded:
  assumes "fee_reach P c e" and "e \<le> e'"
  shows "fees_ok (current_fees c e') \<and> protocol_fee_bps (current_fees c e') = Fee_new 400 \<and>
    protocol_fee_wallet c = PROTOCOL_FEE_WALLET"
proof -
  note inv = fee_reach_invariant [OF assms(1)]
  then have wf: "fee_config_wf c e'" using fee_config_wf_later assms(2) by blast
  have "protocol_fee_bps (current_fees c e') = Fee_new PROTOCOL_FEE_BPS"
    using inv by (simp add: current_fees_def)
  with inv fees_ok_slots(1) [OF wf] show ?thesis by (simp add: PROTOCOL_FEE_BPS_def)
qed

theorem reachable_fees_bounded_witness:
  "fees_ok (current_fees fee_config0 9) \<and> protocol_fee_bps (current_fees fee_config0 9) = Fee_new 400"
  using reachable_fees_bounded [OF fee_config0_reach, of 9] by (simp add: word_le_nat_alt)

section \<open>The vault registry\<close>

definition registry0 :: vault_registry where
  "registry0 = VaultRegistry_initialize (VaultRegistry_new 0 0) 11 254"

definition registry1 :: vault_registry where
  "registry1 = the_ok (register_st_mint registry0 21 300)"

lemma registry0_facts: "vr_wf registry0" "get_valid_mint_entries registry0 = []"
  "get_valid_vault_entries registry0 = []" "mint_weight registry0 m = None"
proof -
  show "vr_wf registry0" unfolding registry0_def by (rule VaultRegistry_initialize_wf)
  show "get_valid_mint_entries registry0 = []" "get_valid_vault_entries registry0 = []"
    by (simp_all add: get_valid_mint_entries_def get_valid_vault_entries_def registry0_def
        VaultRegistry_initialize_def StMintEntry_is_empty_def VaultEntry_is_empty_def
        VaultEntry_default_def VaultEntry_new_def EMPTY_SLOT_REGISTERED_def)
  show "mint_weight registry0 m = None"
    by (auto simp: mint_weight_def registry0_def VaultRegistry_initialize_def find_None_iff
        StMintEntry_default_def StMintEntry_new_def)
qed

text \<open>
  Registering a mint is accepted exactly when the mint is a real key that is not
  registered yet, its weight is not zero and fewer than 64 mints are registered; it then adds
  exactly this mint with this weight and keeps the invariant.
\<close>

theorem register_mint_correct:
  assumes "vr_wf r"
  shows "if m \<noteq> Pubkey_default \<and> w \<noteq> 0 \<and> mint_weight r m = None \<and> VaultRegistry_st_mint_count r < 64
    then \<exists>r'. register_st_mint r m w = Ok r' \<and> vr_wf r' \<and> mint_weight r' = (mint_weight r)(m \<mapsto> w) \<and>
      get_valid_mint_entries r' = get_valid_mint_entries r @ [StMintEntry_new m w] \<and>
      vault_list r' = vault_list r
    else \<not> is_ok (register_st_mint r m w)"
proof -
  have mok: "vr_mints_ok r" and vok: "vr_vaults_ok r" using assms by (simp_all add: vr_wf_def)
  note iff = register_st_mint_is_ok_iff [OF mok, of m w]
  show ?thesis
  proof (cases "is_ok (register_st_mint r m w)")
    case True
    then obtain r' where r': "register_st_mint r m w = Ok r'" by (auto simp: is_ok_iff)
    note reg = register_st_mint_OkD [OF mok r']
    have "vr_vaults_ok r'" using vok reg(6) by (simp add: vr_vaults_ok_def get_valid_vault_entries_def)
    with True iff r' reg show ?thesis by (simp add: vr_wf_def)
  next
    case False
    with iff show ?thesis by argo
  qed
qed

lemma registry1_facts: "register_st_mint registry0 21 300 = Ok registry1" "vr_wf registry1"
  "mint_weight registry1 = (mint_weight registry0)(21 \<mapsto> 300)" "mint_weight registry1 21 = Some 300"
proof -
  have mok: "vr_mints_ok registry0" using registry0_facts(1) by (simp add: vr_wf_def)
  have "is_ok (register_st_mint registry0 21 300)"
    using register_st_mint_is_ok_iff [OF mok, of 21 300]
    by (simp add: registry0_facts registry_mint_count_live)
  then show ok: "register_st_mint registry0 21 300 = Ok registry1"
    unfolding registry1_def by (cases "register_st_mint registry0 21 300") simp_all
  note reg = register_st_mint_OkD [OF mok ok]
  show "mint_weight registry1 = (mint_weight registry0)(21 \<mapsto> 300)" by (rule reg(5))
  then show "mint_weight registry1 21 = Some 300" by simp
  have "vr_vaults_ok registry1"
    using registry0_facts(1) reg(6) by (simp add: vr_wf_def vr_vaults_ok_def get_valid_vault_entries_def)
  with reg(1) show "vr_wf registry1" by (simp add: vr_wf_def)
qed

theorem register_mint_correct_witness:
  "\<exists>r'. register_st_mint registry1 22 5 = Ok r' \<and> mint_weight r' 22 = Some 5 \<and> mint_weight r' 21 = Some 300"
proof -
  have "VaultRegistry_st_mint_count registry1 < 64"
    using register_st_mint_OkD(7) [OF _ registry1_facts(1)] registry0_facts(1)
    by (simp add: registry_mint_count_live registry0_facts vr_wf_def)
  with register_mint_correct [OF registry1_facts(2), of 22 5] show ?thesis
    by (auto simp: registry1_facts(3) registry0_facts(4))
qed

lemma set_st_mint_is_ok_iff:
  assumes mok: "vr_mints_ok r" and m: "m \<noteq> Pubkey_default"
  shows "is_ok (set_st_mint r m w) \<longleftrightarrow> mint_weight r m \<noteq> None \<and> w \<noteq> Some 0"
proof (cases "position (\<lambda>e. sme_st_mint e = m) (st_mint_list r)")
  case None
  with m show ?thesis by (simp add: set_st_mint_def mint_weight_def find_position)
next
  case (Some i)
  have pk: "mints.packed (st_mint_list r)" using mok by (simp add: vr_mints_ok_def mints.keys_ok_def)
  note live = mints.position_key_live [OF pk Some m]
  have "sme_weight (st_mint_list r ! i) \<noteq> 0"
    using mok nth_mem [OF live(1)] live(2) by (auto simp: vr_mints_ok_def valid_mints_live)
  with Some m show ?thesis
    by (auto simp: set_st_mint_def mint_weight_def find_position check_st_mint_entry_def
        ensure_def is_ok_iff result_simps Let_def split: option.splits)
qed

text \<open>
  Changing a mint's weight is accepted exactly for a registered mint and a weight that is
  not zero (no weight leaves it as it is); it changes the weight of this mint only, and neither
  the list of mints nor the vaults.
\<close>

theorem set_mint_weight_correct:
  assumes "vr_wf r" and "m \<noteq> Pubkey_default"
  shows "case mint_weight r m of
      None \<Rightarrow> \<not> is_ok (set_st_mint r m w)
    | Some old \<Rightarrow>
        (if w = Some 0 then \<not> is_ok (set_st_mint r m w)
         else \<exists>r'. set_st_mint r m w = Ok r' \<and> vr_wf r' \<and>
           mint_weight r' = (mint_weight r)(m \<mapsto> (case w of None \<Rightarrow> old | Some v \<Rightarrow> v)) \<and>
           map sme_st_mint (get_valid_mint_entries r') = map sme_st_mint (get_valid_mint_entries r) \<and>
           vault_list r' = vault_list r)"
proof -
  have mok: "vr_mints_ok r" and vok: "vr_vaults_ok r" using assms by (simp_all add: vr_wf_def)
  note iff = set_st_mint_is_ok_iff [OF mok assms(2), of w]
  show ?thesis
  proof (cases "is_ok (set_st_mint r m w)")
    case True
    then obtain r' where r': "set_st_mint r m w = Ok r'" by (auto simp: is_ok_iff)
    note upd = set_st_mint_OkD [OF mok assms(2) r']
    have "vr_vaults_ok r'" using vok upd(4) by (simp add: vr_vaults_ok_def get_valid_vault_entries_def)
    with True iff r' upd show ?thesis by (auto simp: vr_wf_def)
  next
    case False
    with iff show ?thesis by (auto split: option.split)
  qed
qed

theorem set_mint_weight_correct_witness:
  "\<exists>r'. set_st_mint registry1 21 (Some 400) = Ok r' \<and> mint_weight r' 21 = Some 400"
  using set_mint_weight_correct [OF registry1_facts(2), of 21 "Some 400"] registry1_facts(4) by auto

text \<open>
  Registering a vault that is already registered changes nothing; a new vault of a real
  mint is appended to the list while there is room, and a full list is an error.
\<close>

theorem register_vault_correct:
  assumes "vr_wf r" and "v \<noteq> Pubkey_default" and "m \<noteq> Pubkey_default" and "slot \<noteq> u64_MAX"
  shows "if v \<in> ve_vault ` set (get_valid_vault_entries r) then register_vault r v m i slot = Ok r
    else if length (get_valid_vault_entries r) < 64
    then \<exists>r'. register_vault r v m i slot = Ok r' \<and> vr_wf r' \<and>
      get_valid_vault_entries r' = get_valid_vault_entries r @ [VaultEntry_new v m i slot] \<and>
      mint_weight r' = mint_weight r
    else register_vault r v m i slot = Err (program_error_of VaultRegistryListFull)"
proof -
  have mok: "vr_mints_ok r" and vok: "vr_vaults_ok r" using assms by (simp_all add: vr_wf_def)
  have pk: "vaults.packed (vault_list r)" and len: "length (vault_list r) = 64"
    using vok by (simp_all add: vr_vaults_ok_def MAX_VAULTS_def)
  consider (old) "v \<in> ve_vault ` set (get_valid_vault_entries r)"
    | (new) "v \<notin> ve_vault ` set (get_valid_vault_entries r)" "length (get_valid_vault_entries r) < 64"
    | (full) "v \<notin> ve_vault ` set (get_valid_vault_entries r)" "\<not> length (get_valid_vault_entries r) < 64"
    by blast
  then show ?thesis
  proof cases
    case old
    then show ?thesis by (simp add: register_vault_def vault_member [OF vok assms(2)])
  next
    case new
    from register_vault_new [OF vok assms(2,3,4) new] obtain r' where
      r': "register_vault r v m i slot = Ok r'" "vr_vaults_ok r'"
        "get_valid_vault_entries r' = get_valid_vault_entries r @ [VaultEntry_new v m i slot]"
        "st_mint_list r' = st_mint_list r" by blast
    then have "vr_mints_ok r'" "mint_weight r' = mint_weight r"
      using mok by (simp_all add: vr_mints_ok_def get_valid_mint_entries_def mint_weight_def fun_eq_iff)
    with r' new show ?thesis by (simp add: vr_wf_def)
  next
    case full
    have "position (\<lambda>e. ve_st_mint e = Pubkey_default) (vault_list r) = None"
      using vaults.packed_position_empty [OF pk] full(2) len by (simp add: valid_vaults_live [OF vok])
    with full show ?thesis by (simp add: register_vault_def vault_member [OF vok assms(2)])
  qed
qed

theorem register_vault_correct_witness:
  "\<exists>r'. register_vault registry1 31 21 0 90 = Ok r' \<and>
     get_valid_vault_entries r' = [VaultEntry_new 31 21 0 90]"
proof -
  have "get_valid_vault_entries registry1 = []"
    using register_st_mint_OkD(6) [OF _ registry1_facts(1)] registry0_facts(1,3)
    by (simp add: vr_wf_def get_valid_vault_entries_def)
  with register_vault_correct [OF registry1_facts(2), of 31 21 90 0] show ?thesis by auto
qed

section \<open>The weight table\<close>

lemma valid_vault_count:
  assumes "vr_vaults_ok r"
  shows "VaultRegistry_vault_count r = word_of_nat (length (get_valid_vault_entries r))"
    and "unat (VaultRegistry_vault_count r) = length (get_valid_vault_entries r)"
proof -
  show c: "VaultRegistry_vault_count r = word_of_nat (length (get_valid_vault_entries r))"
    by (simp add: VaultRegistry_vault_count_def get_valid_vault_entries_def count_where_def)
  have "length (get_valid_vault_entries r) \<le> 64"
    using assms length_filter_le [of _ "vault_list r"]
    by (simp add: get_valid_vault_entries_def vr_vaults_ok_def MAX_VAULTS_def)
  then show "unat (VaultRegistry_vault_count r) = length (get_valid_vault_entries r)"
    by (simp add: c unat_of_nat)
qed

text \<open>
  A weight table created from a well-formed registry with at least one vault and one mint
  has one entry for each registered mint, in the registry's order, none of them set, and is
  not finalized; without vaults or without mints its creation fails.
\<close>

theorem weight_table_from_registry:
  assumes "vr_wf r"
  shows "if get_valid_vault_entries r = [] \<or> get_valid_mint_entries r = []
    then \<not> is_ok (WeightTable_initialize t ncn e slot (VaultRegistry_vault_count r) bump
           (vault_list r) (st_mint_list r))
    else \<exists>t'. WeightTable_initialize t ncn e slot (VaultRegistry_vault_count r) bump
           (vault_list r) (st_mint_list r) = Ok t' \<and> wt_wf t' \<and>
         weight_entries t' = map WeightEntry_new (get_valid_mint_entries r) \<and>
         (\<forall>w \<in> set (weight_entries t'). \<not> WeightEntry_is_set w) \<and> \<not> finalized t'"
proof -
  have mok: "vr_mints_ok r" and vok: "vr_vaults_ok r" using assms by (simp_all add: vr_wf_def)
  have len: "length (vault_list r) = MAX_VAULTS" "length (st_mint_list r) = MAX_ST_MINTS"
    and kok: "mints.keys_ok (st_mint_list r)"
    using mok vok by (simp_all add: vr_mints_ok_def vr_vaults_ok_def)
  note res = WeightTable_initialize_result [OF len, of t ncn e slot "VaultRegistry_vault_count r" bump]
  have vc: "VaultRegistry_vault_count r = 0 \<longleftrightarrow> get_valid_vault_entries r = []"
    using valid_vault_count(2) [OF vok] by (metis length_0_conv unat_eq_0)
  have vc': "VaultRegistry_vault_count r = word_of_nat (count_where (\<lambda>e. \<not> VaultEntry_is_empty e) (vault_list r))"
    by (simp add: VaultRegistry_vault_count_def)
  have mc: "count_where (\<lambda>m. \<not> StMintEntry_is_empty m) (st_mint_list r) = length (get_valid_mint_entries r)"
    by (simp add: get_valid_mint_entries_def count_where_def)
  show ?thesis
  proof (cases "get_valid_vault_entries r = [] \<or> get_valid_mint_entries r = []")
    case True
    with res vc vc' mc show ?thesis by (auto simp: is_ok_iff)
  next
    case False
    let ?t = "t\<lparr>wt_ncn := ncn, wt_epoch := e, wt_slot_created := slot,
      wt_vault_count := VaultRegistry_vault_count r, wt_bump := bump, wt_vault_registry := vault_list r,
      wt_table := map WeightEntry_new (st_mint_list r)\<rparr>"
    have ok: "WeightTable_initialize t ncn e slot (VaultRegistry_vault_count r) bump (vault_list r) (st_mint_list r) = Ok ?t"
      using res vc vc' mc False by simp
    note pm = weights_packed_map [OF kok]
    have wf: "wt_wf ?t" using pm(1) len by (simp add: wt_wf_def)
    have live: "weight_entries ?t = map WeightEntry_new (get_valid_mint_entries r)"
      using pm(2) by (simp add: valid_mints_live)
    have "\<not> WeightEntry_is_set (WeightEntry_new m)" for m
      by (simp add: WeightEntry_is_set_def WeightEntry_new_def)
    then have unset: "\<forall>w \<in> set (weight_entries ?t). \<not> WeightEntry_is_set w" unfolding live by auto
    moreover from this False live have "\<not> finalized ?t"
      unfolding finalized_iff [OF wf] by (metis list.map_disc_iff last_in_set)
    ultimately show ?thesis using False ok wf live by auto
  qed
qed

definition registry2 :: vault_registry where
  "registry2 = the_ok (register_vault registry1 31 21 0 90)"

definition table0 :: weight_table where
  "table0 = the_ok (WeightTable_initialize (WeightTable_new 0 0 0 0 0) 11 5 100
     (VaultRegistry_vault_count registry2) 254 (vault_list registry2) (st_mint_list registry2))"

lemma registry2_facts: "vr_wf registry2" "get_valid_vault_entries registry2 = [VaultEntry_new 31 21 0 90]"
  "get_valid_mint_entries registry2 = [StMintEntry_new 21 300]"
  "register_vault registry1 31 21 0 90 = Ok registry2"
proof -
  have r0: "vr_mints_ok registry0" using registry0_facts(1) by (simp add: vr_wf_def)
  note reg = register_st_mint_OkD [OF r0 registry1_facts(1)]
  have vok: "vr_vaults_ok registry1" using registry1_facts(2) by (simp add: vr_wf_def)
  have none: "get_valid_vault_entries registry1 = []"
    using reg(6) registry0_facts(3) by (simp add: get_valid_vault_entries_def)
  from register_vault_new [OF vok, of 31 21 90 0] none obtain r' where
    r': "register_vault registry1 31 21 0 90 = Ok r'" "vr_vaults_ok r'"
      "get_valid_vault_entries r' = [VaultEntry_new 31 21 0 90]" "st_mint_list r' = st_mint_list registry1"
    by auto
  then have eq: "registry2 = r'" by (simp add: registry2_def)
  have "get_valid_mint_entries registry2 = get_valid_mint_entries registry1"
    using r'(4) by (simp add: eq get_valid_mint_entries_def)
  with reg(7) show "get_valid_mint_entries registry2 = [StMintEntry_new 21 300]"
    by (simp add: registry0_facts(2))
  show "get_valid_vault_entries registry2 = [VaultEntry_new 31 21 0 90]" using r'(3) eq by simp
  have "vr_mints_ok registry2"
    using registry1_facts(2) r'(4) by (simp add: eq vr_wf_def vr_mints_ok_def get_valid_mint_entries_def)
  with r'(2) eq show "vr_wf registry2" by (simp add: vr_wf_def)
  show "register_vault registry1 31 21 0 90 = Ok registry2" using r'(1) eq by simp
qed

theorem weight_table_from_registry_witness:
  "\<exists>t'. WeightTable_initialize (WeightTable_new 0 0 0 0 0) 11 5 100 (VaultRegistry_vault_count registry2)
       254 (vault_list registry2) (st_mint_list registry2) = Ok t' \<and>
     map we_st_mint (weight_entries t') = [21] \<and> \<not> finalized t'"
  using weight_table_from_registry [OF registry2_facts(1), of "WeightTable_new 0 0 0 0 0" 11 5 100 254]
  by (auto simp: registry2_facts StMintEntry_new_def)

lemma table0_facts: "wt_wf table0" "weight_entries table0 = [WeightEntry_new (StMintEntry_new 21 300)]"
  "vault_registry_initialized table0"
  "WeightTable_initialize (WeightTable_new 0 0 0 0 0) 11 5 100 (VaultRegistry_vault_count registry2) 254
     (vault_list registry2) (st_mint_list registry2) = Ok table0"
proof -
  have len: "length (vault_list registry2) = MAX_VAULTS" "length (st_mint_list registry2) = MAX_ST_MINTS"
    and kok: "mints.keys_ok (st_mint_list registry2)" and vok: "vr_vaults_ok registry2"
    using registry2_facts(1) by (simp_all add: vr_wf_def vr_mints_ok_def vr_vaults_ok_def)
  let ?t = "\<lparr>wt_ncn = 11, wt_epoch = 5, wt_slot_created = 100, wt_vault_count = VaultRegistry_vault_count registry2,
     wt_bump = 254, wt_vault_registry = vault_list registry2,
     wt_table = map WeightEntry_new (st_mint_list registry2)\<rparr>"
  have vc: "VaultRegistry_vault_count registry2 = 1"
    using valid_vault_count(1) [OF vok] by (simp add: registry2_facts)
  have vc': "VaultRegistry_vault_count registry2
      = word_of_nat (count_where (\<lambda>e. \<not> VaultEntry_is_empty e) (vault_list registry2))"
    by (simp add: VaultRegistry_vault_count_def)
  have mc: "count_where (\<lambda>m. \<not> StMintEntry_is_empty m) (st_mint_list registry2) = 1"
    using registry2_facts(3) by (simp add: get_valid_mint_entries_def count_where_def)
  have ok: "WeightTable_initialize (WeightTable_new 0 0 0 0 0) 11 5 100 (VaultRegistry_vault_count registry2) 254
      (vault_list registry2) (st_mint_list registry2) = Ok ?t"
    using WeightTable_initialize_result [OF len, of "WeightTable_new 0 0 0 0 0" 11 5 100
        "VaultRegistry_vault_count registry2" 254] vc vc' mc
    by (simp add: WeightTable_new_def)
  then have eq: "table0 = ?t" by (simp add: table0_def)
  show "WeightTable_initialize (WeightTable_new 0 0 0 0 0) 11 5 100 (VaultRegistry_vault_count registry2) 254
      (vault_list registry2) (st_mint_list registry2) = Ok table0" using ok by (simp only: eq)
  note pm = weights_packed_map [OF kok]
  show "wt_wf table0" using pm(1) len by (simp add: eq wt_wf_def)
  show "weight_entries table0 = [WeightEntry_new (StMintEntry_new 21 300)]"
    using pm(2) registry2_facts(3) by (simp add: eq valid_mints_live)
  show "vault_registry_initialized table0" using vc' by (simp add: eq vault_registry_initialized_def vault_entry_count_def)
qed

text \<open>
  Setting a weight is accepted exactly for the mints of the table; the mint then has the
  new weight and counts as set, every other mint keeps its weight, and the mints stay the
  same.
\<close>

theorem set_weight_correct:
  assumes "wt_wf t" and "m \<noteq> Pubkey_default" and "slot \<noteq> 0"
  shows "if m \<in> we_st_mint ` set (weight_entries t)
    then \<exists>t'. WeightTable_set_weight t m w slot = Ok t' \<and> wt_wf t' \<and>
      (\<forall>k. get_weight t' k = (if k = m then Ok w else get_weight t k)) \<and>
      (\<forall>e \<in> set (weight_entries t'). we_st_mint e = m \<longrightarrow> WeightEntry_is_set e) \<and>
      map we_st_mint (weight_entries t') = map we_st_mint (weight_entries t)
    else WeightTable_set_weight t m w slot = Err InvalidMintForWeightTable"
proof (cases "m \<in> we_st_mint ` set (weight_entries t)")
  case True
  then obtain t' where t': "WeightTable_set_weight t m w slot = Ok t'"
    using set_weight_succeeds [OF assms(1)] by blast
  with True set_weight_OkD [OF assms(1,2) t'] set_weight_entries [OF assms t'] show ?thesis by auto
next
  case False
  then have "\<not> is_ok (WeightTable_set_weight t m w slot)"
    using set_weight_OkD(6) [OF assms(1,2)] by (auto simp: is_ok_iff)
  with False show ?thesis by (auto simp: WeightTable_set_weight_def split: option.splits)
qed

theorem set_weight_correct_witness:
  "\<exists>t'. WeightTable_set_weight table0 21 300 120 = Ok t' \<and> get_weight t' 21 = Ok 300"
  using set_weight_correct [OF table0_facts(1), of 21 120 300]
  by (auto simp: table0_facts(2) StMintEntry_new_def)

text \<open>
  A well-formed table is finalized exactly when its copy of the vault registry is complete,
  it has a mint, and the weight of every one of its mints has been set.
\<close>

theorem weight_table_finalized_iff:
  assumes "wt_wf t"
  shows "finalized t \<longleftrightarrow> vault_registry_initialized t \<and> weight_entries t \<noteq> [] \<and>
    (\<forall>e \<in> set (weight_entries t). WeightEntry_is_set e)"
  by (rule finalized_iff [OF assms])

theorem weight_table_finalized_iff_witness:
  "\<not> finalized table0 \<and> finalized (the_ok (WeightTable_set_weight table0 21 300 120))"
proof -
  obtain t' where t': "WeightTable_set_weight table0 21 300 120 = Ok t'"
    using set_weight_succeeds [OF table0_facts(1), of 21] by (auto simp: table0_facts(2) StMintEntry_new_def)
  have ne: "(21 :: pubkey) \<noteq> Pubkey_default" by simp
  note upd = set_weight_OkD [OF table0_facts(1) ne t']
  have "map we_st_mint (weight_entries t') = [21]"
    using upd(3) by (simp add: table0_facts(2) StMintEntry_new_def)
  moreover have "WeightEntry_is_set e" if "e \<in> set (weight_entries t')" for e
    using set_weight_entries [OF table0_facts(1) ne _ t' that]
    by (auto simp: table0_facts(2) StMintEntry_new_def)
  moreover have "vault_registry_initialized t'"
    using table0_facts(3) upd(4,5) by (simp add: vault_registry_initialized_def vault_entry_count_def)
  ultimately have "finalized t'"
    using weight_table_finalized_iff [OF upd(1)] by auto
  moreover have "\<not> finalized table0"
    using weight_table_finalized_iff [OF table0_facts(1)]
    by (simp add: table0_facts(2) WeightEntry_is_set_def WeightEntry_new_def)
  ultimately show ?thesis by (simp add: t')
qed

text \<open>
  C29: the default key is accepted as a mint while the table has an unused entry, and the weight
  then counts as one more weight set: a table with exactly one weight missing becomes finalized
  although that weight was never set.
\<close>

theorem default_mint_finalizes:
  assumes "wt_wf t" and "vault_registry_initialized t" and "length (weight_entries t) < 64" and "slot \<noteq> 0"
    and "Suc (weight_count t) = mint_count t"
  shows "\<exists>t'. WeightTable_set_weight t Pubkey_default w slot = Ok t' \<and> finalized t' \<and>
    weight_entries t' = weight_entries t \<and> (\<exists>e \<in> set (weight_entries t'). \<not> WeightEntry_is_set e)"
proof -
  let ?n = "length (weight_entries t)"
  have pk: "weights.packed (wt_table t)" and len: "length (wt_table t) = 64"
    using assms(1) by (simp_all add: wt_wf_def weights.keys_ok_def MAX_ST_MINTS_def)
  have i: "position (\<lambda>e. we_st_mint e = Pubkey_default) (wt_table t) = Some ?n"
    using weights.packed_position_empty [OF pk] assms(3) len by simp
  have dflt: "wt_table t ! ?n = WeightEntry_default"
    using weights.packed_nth_dflt [OF pk, of ?n] assms(3) len by simp
  let ?e = "WeightEntry_set_weight WeightEntry_default w slot"
  let ?t = "t\<lparr>wt_table := (wt_table t)[?n := ?e]\<rparr>"
  have ok: "WeightTable_set_weight t Pubkey_default w slot = Ok ?t"
    by (simp add: WeightTable_set_weight_def i dflt)
  have e: "we_st_mint ?e = Pubkey_default" "WeightEntry_is_set ?e" "\<not> WeightEntry_is_set WeightEntry_default"
    using assms(4) by (simp_all add: we_st_mint_def WeightEntry_is_set_def WeightEntry_set_weight_def
        WeightEntry_default_def word_neq_0_conv Let_def)
  obtain k where k: "wt_table t = weight_entries t @ replicate k WeightEntry_default"
    by (rule weights.packed_cases [OF pk])
  have "length (wt_table t) = ?n + k" by (subst k) simp
  then obtain j where j: "k = Suc j" using len assms(3) by (cases k) simp_all
  have tab: "wt_table ?t = weight_entries t @ ?e # replicate j WeightEntry_default"
    by (simp, subst k) (simp add: j list_update_append)
  have live: "weight_entries ?t = weight_entries t"
    unfolding tab by (simp add: weights.live_Cons e(1) weights.key_dflt)
  have wc: "weight_count ?t = Suc (weight_count t)"
    unfolding weight_count_live [OF assms(1)] by (simp add: weight_count_def tab e(2,3))
  have "weight_entries t \<noteq> []" using assms(5) by (auto simp: mint_count_live)
  then have "finalized ?t"
    using assms(2,5) wc live
    by (simp add: finalized_def table_initialized_def mint_count_live vault_registry_initialized_def
        vault_entry_count_def)
  moreover have "\<exists>e \<in> set (weight_entries ?t). \<not> WeightEntry_is_set e"
    using assms(5) count_where_all [of WeightEntry_is_set "weight_entries t"]
    unfolding live weight_count_live [OF assms(1)] mint_count_live by auto
  ultimately show ?thesis using ok live by auto
qed

theorem default_mint_finalizes_witness:
  "\<exists>t'. WeightTable_set_weight table0 Pubkey_default 1 120 = Ok t' \<and> finalized t' \<and> get_weight t' 21 = Ok 0"
proof -
  have "Suc (weight_count table0) = mint_count table0"
    by (simp add: weight_count_live [OF table0_facts(1)] mint_count_live table0_facts(2)
        WeightEntry_is_set_def WeightEntry_new_def)
  with default_mint_finalizes [OF table0_facts(1,3), of 120 1] obtain t' where
    t': "WeightTable_set_weight table0 Pubkey_default 1 120 = Ok t'" "finalized t'"
      "weight_entries t' = weight_entries table0" by (auto simp: table0_facts(2))
  have "find (\<lambda>e. we_st_mint e = 21) (wt_table t') = find (\<lambda>e. we_st_mint e = 21) (weight_entries t')"
  proof -
    have "find (\<lambda>e. we_st_mint e = 21) (weights.live xs) = find (\<lambda>e. we_st_mint e = 21) xs" for xs
      by (induction xs) (auto simp: weights.live_Cons)
    then show ?thesis by simp
  qed
  with t' show ?thesis
    by (simp add: get_weight_def table0_facts(2) StMintEntry_new_def) (simp add: WeightEntry_new_def)
qed

section \<open>Snapshots\<close>

text \<open>Delegations registered one after the other: vault, index, stake weight and slot.\<close>

fun register_delegations ::
  "operator_snapshot \<Rightarrow> (pubkey \<times> u64 \<times> stake_weights \<times> u64) list \<Rightarrow> (operator_snapshot, ncn_error) result" where
  "register_delegations s [] = Ok s"
| "register_delegations s ((v, i, w, slot) # ds) =
     and_then (increment_vault_operator_delegation_registration s slot v i w) (\<lambda>s. register_delegations s ds)"

lemma register_delegations_run:
  "os_wf s \<Longrightarrow> register_delegations s ds = Ok s' \<Longrightarrow>
   os_wf s' \<and> os_entries s' = os_entries s @ map (\<lambda>(v, i, w, _). VaultOperatorStakeWeight_new v i w) ds \<and>
   vault_operator_delegation_count s' = vault_operator_delegation_count s"
proof (induction ds arbitrary: s)
  case (Cons d ds)
  obtain v i w slot where d: "d = (v, i, w, slot)" by (cases d)
  from Cons.prems(2) obtain s1 where s1: "increment_vault_operator_delegation_registration s slot v i w = Ok s1"
    "register_delegations s1 ds = Ok s'" by (auto simp: d result_simps)
  note one = delegation_registered [OF Cons.prems(1) s1(1)]
  from Cons.IH [OF one(2) s1(2)] one(1,4) show ?case by (simp add: d)
qed simp

text \<open>
  In an operator snapshot built by initialization and accepted registrations the entries
  are exactly the registered delegations in order, with distinct vault indices; the stake
  total is the sum of their weights, the number of valid delegations is the number of those
  with stake, and the snapshot is finalized exactly when as many were registered as announced.
\<close>

theorem operator_snapshot_totals:
  assumes "OperatorSnapshot_initialize s op ncn e bump slot active ni oi fee_b cnt = Ok s0"
    and "register_delegations s0 ds = Ok s'"
  shows "os_entries s' = map (\<lambda>(v, i, w, _). VaultOperatorStakeWeight_new v i w) ds \<and>
    distinct (map (fst \<circ> snd) ds) \<and>
    weight_of (os_stake_weights s') = sum_list (map (\<lambda>d. weight_of (fst (snd (snd d)))) ds) \<and>
    unat (os_valid_operator_vault_delegations s') = length (filter (\<lambda>d. weight_of (fst (snd (snd d))) \<noteq> 0) ds) \<and>
    (OperatorSnapshot_finalized s' \<longleftrightarrow> length ds = (if active then unat cnt else 0))"
proof -
  note init = OperatorSnapshot_initialize_wf [OF assms(1)]
  have cnt: "vault_operator_delegation_count s0 = (if active then cnt else 0)"
    using assms(1) by (auto simp: OperatorSnapshot_initialize_def result_simps Let_def)
  note run = register_delegations_run [OF init(1) assms(2)]
  have en: "os_entries s' = map (\<lambda>(v, i, w, _). VaultOperatorStakeWeight_new v i w) ds"
    using run init(2) by simp
  have wf: "os_wf s'" using run by simp
  have ix: "map vosw_vault_index (os_entries s') = map (fst \<circ> snd) ds"
    by (auto simp: en VaultOperatorStakeWeight_new_def)
  have wt: "map entry_weight (os_entries s') = map (\<lambda>d. weight_of (fst (snd (snd d)))) ds"
    by (auto simp: en VaultOperatorStakeWeight_new_def)
  have "count_where (\<lambda>v. entry_weight v \<noteq> 0) (os_entries s') = length (filter (\<lambda>n. n \<noteq> 0) (map entry_weight (os_entries s')))"
    by (simp add: count_where_def filter_map comp_def)
  also have "\<dots> = length (filter (\<lambda>d. weight_of (fst (snd (snd d))) \<noteq> 0) ds)"
    unfolding wt by (simp add: filter_map comp_def case_prod_beta)
  finally have valid: "count_where (\<lambda>v. entry_weight v \<noteq> 0) (os_entries s')
      = length (filter (\<lambda>d. weight_of (fst (snd (snd d))) \<noteq> 0) ds)" .
  have "OperatorSnapshot_finalized s' \<longleftrightarrow> length (os_entries s') = unat (vault_operator_delegation_count s')"
    using wf by (simp add: OperatorSnapshot_finalized_def os_wf_def word_unat_eq_iff)
  then have fin: "OperatorSnapshot_finalized s' \<longleftrightarrow> length ds = (if active then unat cnt else 0)"
    using run cnt en by simp
  have "distinct (map (fst \<circ> snd) ds)" using wf ix by (simp add: os_wf_def)
  moreover have "weight_of (os_stake_weights s') = sum_list (map (\<lambda>d. weight_of (fst (snd (snd d)))) ds)"
    using wf unfolding wt [symmetric] by (simp add: os_wf_def)
  moreover have "unat (os_valid_operator_vault_delegations s') = length (filter (\<lambda>d. weight_of (fst (snd (snd d))) \<noteq> 0) ds)"
    using wf unfolding valid [symmetric] by (simp add: os_wf_def)
  ultimately show ?thesis using en fin by blast
qed

definition op_snapshot0 :: operator_snapshot where
  "op_snapshot0 = the_ok (OperatorSnapshot_initialize (the_ok (OperatorSnapshot_new 0 0 0 0 0 False 0 0 0 0))
     7 11 5 254 100 True 0 3 100 2)"

definition op_snapshot1 :: operator_snapshot where
  "op_snapshot1 = the_ok (increment_vault_operator_delegation_registration op_snapshot0 110 31 0 (StakeWeights_new 70))"

lemma op_snapshot0_init:
  "OperatorSnapshot_initialize (the_ok (OperatorSnapshot_new 0 0 0 0 0 False 0 0 0 0))
     7 11 5 254 100 True 0 3 100 2 = Ok op_snapshot0"
  by (simp add: op_snapshot0_def OperatorSnapshot_initialize_def MAX_VAULTS_def)

text \<open>An accepted registration: not finalized, a new index, and no overflow of the stake total.\<close>

lemma registration_succeeds:
  assumes wf: "os_wf s" and nf: "\<not> OperatorSnapshot_finalized s"
    and i: "i \<noteq> u64_MAX" "i \<notin> vosw_vault_index ` set (os_entries s)"
    and sum: "weight_of (os_stake_weights s) + weight_of w < 2 ^ 128"
  shows "is_ok (increment_vault_operator_delegation_registration s slot v i w)"
proof -
  note ins = insert_stake_weight_result [OF wf nf]
  let ?m = "s\<lparr>vault_operator_stake_weight := (vault_operator_stake_weight s)
      [length (os_entries s) := VaultOperatorStakeWeight_new v i w]\<rparr>"
  have im: "insert_vault_operator_stake_weight s v i w = Ok ?m" using ins(1) i by simp
  have "unat (os_valid_operator_vault_delegations s) \<le> length (os_entries s)"
    using wf count_where_le [of "\<lambda>v. entry_weight v \<noteq> 0" "os_entries s"] by (simp add: os_wf_def)
  then have "os_valid_operator_vault_delegations s \<noteq> u64_MAX" using ins(2) by auto
  then have add: "checked_add (os_valid_operator_vault_delegations s) 1
      = Some (os_valid_operator_vault_delegations s + 1)" by (simp add: checked_add_one)
  have reg: "checked_add (vault_operator_delegations_registered s) 1
      = Some (vault_operator_delegations_registered s + 1)" using ins(4) by (simp add: checked_add_one)
  have "is_ok (StakeWeights_increment (os_stake_weights s) w)"
    using sum by (cases "StakeWeights_increment (os_stake_weights s) w") (auto simp: StakeWeights_increment_Err)
  then obtain sw where "StakeWeights_increment (os_stake_weights s) w = Ok sw" by (auto simp: is_ok_iff)
  with im add reg nf show ?thesis
    by (simp add: increment_vault_operator_delegation_registration_def Let_def)
qed

lemma op_snapshot1_facts:
  "increment_vault_operator_delegation_registration op_snapshot0 110 31 0 (StakeWeights_new 70) = Ok op_snapshot1"
  "os_wf op_snapshot1" "os_entries op_snapshot1 = [VaultOperatorStakeWeight_new 31 0 (StakeWeights_new 70)]"
proof -
  note init = OperatorSnapshot_initialize_wf [OF op_snapshot0_init]
  have nf: "\<not> OperatorSnapshot_finalized op_snapshot0" "weight_of (os_stake_weights op_snapshot0) = 0"
    by (simp_all add: op_snapshot0_def OperatorSnapshot_initialize_def MAX_VAULTS_def
        OperatorSnapshot_finalized_def)
  have "is_ok (increment_vault_operator_delegation_registration op_snapshot0 110 31 0 (StakeWeights_new 70))"
    by (rule registration_succeeds [OF init(1) nf(1)]) (simp_all add: init(2) nf(2) StakeWeights_new_def)
  then show ok: "increment_vault_operator_delegation_registration op_snapshot0 110 31 0 (StakeWeights_new 70) = Ok op_snapshot1"
    unfolding op_snapshot1_def is_ok_iff by auto
  show "os_wf op_snapshot1" "os_entries op_snapshot1 = [VaultOperatorStakeWeight_new 31 0 (StakeWeights_new 70)]"
    using delegation_registered(1,2) [OF init(1) ok] init(2) by simp_all
qed

theorem operator_snapshot_totals_witness:
  "weight_of (os_stake_weights op_snapshot1) = 70 \<and> \<not> OperatorSnapshot_finalized op_snapshot1"
proof -
  have "register_delegations op_snapshot0 [(31, 0, StakeWeights_new 70, 110)] = Ok op_snapshot1"
    by (simp add: op_snapshot1_facts(1))
  from operator_snapshot_totals [OF op_snapshot0_init this] show ?thesis
    by (simp add: StakeWeights_new_def)
qed

text \<open>Operators registered one after the other in the epoch snapshot.\<close>

fun register_operators ::
  "epoch_snapshot \<Rightarrow> (u64 \<times> u64 \<times> stake_weights) list \<Rightarrow> (epoch_snapshot, ncn_error) result" where
  "register_operators s [] = Ok s"
| "register_operators s ((slot, n, w) # xs) =
     and_then (increment_operator_registration s slot n w) (\<lambda>s. register_operators s xs)"

lemma increment_operator_OkD:
  assumes "increment_operator_registration s slot n w = Ok s'"
  shows "unat (es_operators_registered s') = Suc (unat (es_operators_registered s))"
    and "unat (es_valid_operator_vault_delegations s') = unat (es_valid_operator_vault_delegations s) + unat n"
    and "weight_of (es_stake_weights s') = weight_of (es_stake_weights s) + weight_of w"
    and "es_operator_count s' = es_operator_count s" and "es_fees s' = es_fees s"
    and "es_operators_registered s \<noteq> es_operator_count s"
proof -
  from assms obtain a d sw where a: "checked_add (es_operators_registered s) 1 = Some a"
    and d: "checked_add (es_valid_operator_vault_delegations s) n = Some d"
    and sw: "StakeWeights_increment (es_stake_weights s) w = Ok sw"
    and nf: "\<not> EpochSnapshot_finalized s"
    and s': "s' = (let t = s\<lparr>es_operators_registered := a, es_valid_operator_vault_delegations := d, es_stake_weights := sw\<rparr>
        in if EpochSnapshot_finalized t then t\<lparr>es_slot_finalized := slot\<rparr> else t)"
    by (auto simp: increment_operator_registration_def result_simps Let_def)
  have sums: "unat a = Suc (unat (es_operators_registered s))"
    "unat d = unat (es_valid_operator_vault_delegations s) + unat n"
    "weight_of sw = weight_of (es_stake_weights s) + weight_of w"
    using a d sw unfolding checked_add_eq_Some StakeWeights_increment_Ok by simp_all
  show "unat (es_operators_registered s') = Suc (unat (es_operators_registered s))"
    and "unat (es_valid_operator_vault_delegations s') = unat (es_valid_operator_vault_delegations s) + unat n"
    and "weight_of (es_stake_weights s') = weight_of (es_stake_weights s) + weight_of w"
    and "es_operator_count s' = es_operator_count s" and "es_fees s' = es_fees s"
    using sums by (simp_all add: s' Let_def)
  show "es_operators_registered s \<noteq> es_operator_count s" using nf by (simp add: EpochSnapshot_finalized_def)
qed

lemma register_operators_run:
  "register_operators s xs = Ok s' \<Longrightarrow>
   unat (es_operators_registered s') = unat (es_operators_registered s) + length xs \<and>
   unat (es_valid_operator_vault_delegations s') =
     unat (es_valid_operator_vault_delegations s) + sum_list (map (\<lambda>x. unat (fst (snd x))) xs) \<and>
   weight_of (es_stake_weights s') = weight_of (es_stake_weights s) + sum_list (map (\<lambda>x. weight_of (snd (snd x))) xs) \<and>
   es_operator_count s' = es_operator_count s \<and> es_fees s' = es_fees s"
proof (induction xs arbitrary: s)
  case (Cons x xs)
  obtain slot n w where x: "x = (slot, n, w)" by (cases x)
  from Cons.prems obtain s1 where s1: "increment_operator_registration s slot n w = Ok s1"
    "register_operators s1 xs = Ok s'" by (auto simp: x result_simps)
  from Cons.IH [OF s1(2)] increment_operator_OkD [OF s1(1)] show ?case by (simp add: x)
qed simp

text \<open>
  In an epoch snapshot the stake total and the number of valid delegations are the sums
  over the registered operators, the fees are those of its creation, and it is finalized
  exactly when all operators are registered.
\<close>

theorem epoch_snapshot_totals:
  assumes "register_operators (EpochSnapshot_new ncn e bump slot ops vs fs) xs = Ok s"
  shows "weight_of (es_stake_weights s) = sum_list (map (\<lambda>x. weight_of (snd (snd x))) xs) \<and>
    unat (es_valid_operator_vault_delegations s) = sum_list (map (\<lambda>x. unat (fst (snd x))) xs) \<and>
    es_fees s = fs \<and> (EpochSnapshot_finalized s \<longleftrightarrow> length xs = unat ops)"
  using register_operators_run [OF assms]
  by (simp add: EpochSnapshot_new_def EpochSnapshot_finalized_def word_unat_eq_iff)

theorem epoch_snapshot_totals_witness:
  "EpochSnapshot_finalized (the_ok (register_operators (EpochSnapshot_new 11 5 254 100 2 1 fees0)
     [(110, 1, StakeWeights_new 70), (112, 2, StakeWeights_new 30)]))"
proof -
  let ?s = "EpochSnapshot_new 11 5 254 100 2 1 fees0"
  let ?xs = "[(110, 1, StakeWeights_new 70), (112, 2, StakeWeights_new 30)] :: (u64 \<times> u64 \<times> stake_weights) list"
  have "is_ok (register_operators ?s ?xs)"
    by (simp add: EpochSnapshot_new_def increment_operator_registration_def EpochSnapshot_finalized_def
        checked_add_def StakeWeights_increment_def increment_stake_weight_def StakeWeights_new_def Let_def)
  then obtain s where "register_operators ?s ?xs = Ok s" by (auto simp: is_ok_iff)
  with epoch_snapshot_totals [OF this] show ?thesis by simp
qed

text \<open>Whole numbers multiply exactly.\<close>

lemma precise_product:
  assumes P: "precise_number P raw" and p: "pn_new P a = Some p" and q: "pn_new P b = Some q"
    and fits: "unat a * unat b < 2 ^ 128"
  shows "\<exists>r. pn_checked_mul P p q = Some r \<and> pn_to_imprecise P r = Some (a * b)"
proof -
  have rp: "raw p = unat a * pn_ONE" and rq: "raw q = unat b * pn_ONE"
    using p q precise_number.pn_new_law [OF P] by (metis option.inject)+
  let ?x = "unat a * unat b"
  have eq: "raw p * raw q + pn_HALF = ?x * pn_ONE * pn_ONE + pn_HALF" by (simp add: rp rq)
  have "?x < 2 ^ 176" using fits by simp
  then have "raw p * raw q + pn_HALF < 2 ^ 256" unfolding eq by (rule scaled_bound)
  from precise_number.pn_mul_law [OF P this] obtain r where r: "pn_checked_mul P p q = Some r"
    and rr: "raw r = (raw p * raw q + pn_HALF) div pn_ONE" by blast
  have "raw r = ?x * pn_ONE" unfolding rr eq using div_unit [OF pn_HALF_less, of "?x * pn_ONE" 1] by simp
  then have half: "(raw r + pn_HALF) div pn_ONE = ?x" using div_unit [OF pn_HALF_less, of ?x 1] by simp
  have "pn_to_imprecise P r = Some (word_of_nat ?x)"
    using precise_number.pn_imprecise_law [OF P, of r] fits half by simp
  moreover have "(word_of_nat ?x :: u128) = a * b" by simp
  ultimately show ?thesis using r by simp
qed

text \<open>
  The stake weight of a delegation is the exact product of the delegated security and the
  weight of the vault's mint, for every product that fits into 128 bits; a mint that is not in
  the table is an error.
\<close>

theorem stake_weight_is_product:
  assumes "precise_number P raw"
  shows "case get_weight t m of
      Ok w \<Rightarrow> unat sec * unat w < 2 ^ 128 \<longrightarrow>
        (\<exists>r. calculate_total_stake_weight P (Ok sec) t m = Ok r \<and> unat r = unat sec * unat w)
    | Err e \<Rightarrow> calculate_total_stake_weight P (Ok sec) t m = Err (program_error_of e)
    | Panic \<Rightarrow> False"
proof -
  obtain p where p: "pn_new P (ucast sec) = Some p" using precise_number.pn_new_law [OF assms] by blast
  show ?thesis
  proof (cases "get_weight t m")
    case (Ok w)
    obtain q where q: "pn_new P w = Some q" using precise_number.pn_new_law [OF assms] by blast
    have "\<exists>r. calculate_total_stake_weight P (Ok sec) t m = Ok r \<and> unat r = unat sec * unat w"
      if fits: "unat sec * unat w < 2 ^ 128"
    proof -
      have "unat (ucast sec :: u128) * unat w < 2 ^ 128" using fits by simp
      from precise_product [OF assms p q this] obtain r where "pn_checked_mul P p q = Some r"
        "pn_to_imprecise P r = Some (ucast sec * w)" by blast
      moreover have "unat (ucast sec * w :: u128) = unat sec * unat w"
        using fits by (simp add: unat_word_ariths)
      ultimately show ?thesis
        using Ok p q by (simp add: calculate_total_stake_weight_def get_precise_weight_def)
    qed
    with Ok show ?thesis by simp
  next
    case (Err e)
    with p show ?thesis by (simp add: calculate_total_stake_weight_def get_precise_weight_def)
  next
    case Panic
    then show ?thesis by (simp add: get_weight_def split: option.splits)
  qed
qed

theorem stake_weight_is_product_witness:
  "\<exists>r. calculate_total_stake_weight spl_ops (Ok 5) (the_ok (WeightTable_set_weight table0 21 300 120)) 21 = Ok r \<and>
     unat r = 1500"
proof -
  obtain t' where t': "WeightTable_set_weight table0 21 300 120 = Ok t'"
    using set_weight_succeeds [OF table0_facts(1), of 21] by (auto simp: table0_facts(2) StMintEntry_new_def)
  have "get_weight t' 21 = Ok 300" using set_weight_OkD(2) [OF table0_facts(1) _ t', of 21] by simp
  with stake_weight_is_product [OF spl.precise_number_axioms, where t = t' and m = 21 and sec = 5] show ?thesis by (simp add: t')
qed

end
