(* ===== verification/Voting_Properties.thy ===== *)
theory Voting_Properties
  imports Ballot_Box_Correct
begin

text \<open>
  The properties of the voting component: what a reachable ballot box looks like, when a vote
  is accepted and what it records, when consensus is declared, and that a decision is final.
  The sample boxes at the start are the concrete inputs of the witnesses.
\<close>

section \<open>Sample ballot boxes\<close>

definition box0 :: ballot_box where
  "box0 = BallotBox_initialize (BallotBox_new 0 0 0 0) 11 5 254 100"

definition box1 :: ballot_box where
  "box1 = the_ok (cast_vote box0 7 (Ballot_new 1) (StakeWeights_new 70) 120 50)"

definition box2 :: ballot_box where
  "box2 = the_ok (tally_votes spl_ops box1 100 120)"

lemma is_ok_the_ok: "is_ok r \<Longrightarrow> r = Ok (the_ok r)"
  by (cases r) auto

lemma box0_facts: "bb_wf box0" "cast_votes box0 = []" "ballot_log box0 = []"
  "\<not> is_consensus_reached box0" "bb_epoch box0 = 5"
proof -
  show "bb_wf box0" unfolding box0_def by (rule BallotBox_initialize_wf)
  show "cast_votes box0 = []"
    using votes.live_replicate by (simp add: cast_votes_live box0_def BallotBox_initialize_def)
  then show "ballot_log box0 = []" by (simp add: ballot_log_def)
  show "\<not> is_consensus_reached box0" "bb_epoch box0 = 5"
    by (simp_all add: box0_def BallotBox_initialize_def is_consensus_reached_def Ballot_default_def)
qed

lemma box0_accepts: "is_ok (cast_vote box0 7 (Ballot_new 1) (StakeWeights_new 70) 120 50)"
proof -
  have "bb_tables_ok box0" using box0_facts(1) by (simp add: bb_wf_def)
  then have "\<not> did_operator_vote box0 7" by (simp add: did_operator_vote_iff box0_facts)
  moreover have "is_voting_valid box0 120 50 = Ok True"
    using box0_facts(4) by (simp add: is_voting_valid_def tie_breaker_set_def is_consensus_reached_def)
  moreover have "(1 :: u8) \<le> 2" by (simp add: word_le_nat_alt)
  ultimately show ?thesis
    by (simp add: cast_vote_is_ok_iff [OF box0_facts(1)] box0_facts log_stake_def StakeWeights_new_def)
qed

lemma box1_cast: "cast_vote box0 7 (Ballot_new 1) (StakeWeights_new 70) 120 50 = Ok box1"
  unfolding box1_def by (rule is_ok_the_ok [OF box0_accepts])

lemma box1_facts: "bb_wf box1" "ballot_log box1 = [(7, 1, 70)]" "\<not> is_consensus_reached box1"
  "bb_epoch box1 = 5" "length (cast_votes box1) = 1"
proof -
  have tab: "bb_tables_ok box0" using box0_facts(1) by (simp add: bb_wf_def)
  show "bb_wf box1" by (rule cast_vote_facts [OF box0_facts(1) box1_cast])
  show lg: "ballot_log box1 = [(7, 1, 70)]"
    using cast_vote_log [OF box0_facts(1) box1_cast] by (simp add: box0_facts StakeWeights_new_def)
  show "\<not> is_consensus_reached box1" "bb_epoch box1 = 5"
    using box0_facts(4,5) cast_vote_frame [OF tab box1_cast] by (simp_all add: is_consensus_reached_def)
  have "length (ballot_log box1) = 1" by (simp add: lg)
  then show "length (cast_votes box1) = 1" by (simp add: ballot_log_def)
qed

lemma box2_facts: "tally_votes spl_ops box1 100 120 = Ok box2"
  "box2 = box1\<lparr>slot_consensus_reached := 120, winning_ballot := Ballot_new 1\<rparr>"
proof -
  have sup: "supermajority 100 (log_stake 1 (ballot_log box1))"
    by (simp add: box1_facts log_stake_def supermajority_def)
  from tally_votes_log [OF spl.precise_number_axioms box1_facts(1) _ box1_facts(3), of 100 120] sup
  obtain s where s: "supermajority 100 (log_stake s (ballot_log box1))"
    and r: "tally_votes spl_ops box1 100 120 =
       Ok (box1\<lparr>slot_consensus_reached := 120, winning_ballot := Ballot_new s\<rparr>)"
    by auto
  have "s = 1" using s by (auto simp: box1_facts log_stake_def supermajority_def split: if_splits)
  with r show "tally_votes spl_ops box1 100 120 = Ok box2"
    "box2 = box1\<lparr>slot_consensus_reached := 120, winning_ballot := Ballot_new 1\<rparr>"
    by (simp_all add: box2_def)
qed

section \<open>The invariant\<close>

text \<open>
  C6: every ballot box that voting, tallying and tie breaking reach from an initialized
  account is well formed: both arrays are packed prefixes, the counters \<open>operators_voted\<close> and
  \<open>unique_ballots\<close> are the numbers of used slots, no operator appears twice, every vote points
  to a tally, every tally is the stake and the number of the votes that point to it, ballots
  are distinct valid statuses, and a recorded winner is one of them.  This holds for every
  \<open>PreciseNumber\<close> implementation that satisfies its contract.
\<close>

theorem ballot_box_invariant:
  assumes "precise_number P raw"
    and "bb_reach P (BallotBox_initialize a ncn epoch bump slot) b"
  shows "bb_wf b"
  by (rule bb_reach_wf [OF assms(2,1) BallotBox_initialize_wf])

lemma box1_reach: "bb_reach spl_ops box0 box1"
  by (rule bb_next [OF bb_refl bb_cast [OF box1_cast]])

lemma box2_reach: "bb_reach spl_ops box1 box2"
  by (rule bb_next [OF bb_refl bb_tally [OF box2_facts(1)]])

theorem ballot_box_invariant_witness:
  "bb_reach spl_ops (BallotBox_initialize (BallotBox_new 0 0 0 0) 11 5 254 100) box1 \<and> bb_wf box1"
  using ballot_box_invariant [OF spl.precise_number_axioms box1_reach [unfolded box0_def]]
    box1_reach [unfolded box0_def] by simp

section \<open>Votes\<close>

text \<open>
  Casting a vote refines appending to the ballot log: an accepted vote of operator \<open>op\<close> for
  status \<open>s\<close> with weight \<open>w\<close> adds exactly the entry \<open>(op, s, w)\<close> at the end, keeps the box well
  formed, counts one more voter and leaves the decision alone.
\<close>

theorem cast_vote_appends:
  assumes "bb_wf b" and "cast_vote b op (Ballot_new s) w slot valid = Ok b'"
  shows "ballot_log b' = ballot_log b @ [(op, s, weight_of w)] \<and> bb_wf b' \<and>
    unat (operators_voted b') = Suc (unat (operators_voted b)) \<and>
    winning_ballot b' = winning_ballot b \<and> slot_consensus_reached b' = slot_consensus_reached b"
proof -
  have tab: "bb_tables_ok b" using assms(1) by (simp add: bb_wf_def)
  from cast_vote_facts [OF assms] have wf': "bb_wf b'" by blast
  have lg: "ballot_log b' = ballot_log b @ [(op, s, weight_of w)]" by (rule cast_vote_log [OF assms])
  have "length (ballot_log b') = Suc (length (ballot_log b))" by (simp add: lg)
  then have "length (cast_votes b') = Suc (length (cast_votes b))" by (simp add: ballot_log_def)
  with tab wf' have "unat (operators_voted b') = Suc (unat (operators_voted b))"
    by (simp add: bb_wf_def bb_tables_ok_def)
  with lg wf' cast_vote_frame [OF tab assms(2)] show ?thesis by simp
qed

theorem cast_vote_appends_witness:
  "ballot_log box1 = ballot_log box0 @ [(7, 1, 70)] \<and> unat (operators_voted box1) = 1 + unat (operators_voted box0)"
  using cast_vote_appends [OF box0_facts(1) box1_cast] by (simp add: StakeWeights_new_def)

text \<open>
  Exactly when a well-formed box accepts a vote: the voting window is open, the status is
  one of the three, the operator has not voted (and is not the default key while a slot is
  free), the stake of that status does not overflow \<open>u128\<close>, and fewer than 256 operators have
  voted.  In particular \<open>BallotTallyFull\<close> and the counter overflows never happen.
\<close>

theorem cast_vote_accepts_iff:
  assumes "bb_wf b"
  shows "(\<exists>b'. cast_vote b op (Ballot_new s) w slot valid = Ok b') \<longleftrightarrow>
    is_voting_valid b slot valid = Ok True \<and> s \<le> 2 \<and>
    op \<notin> fst ` set (ballot_log b) \<and> (op = Pubkey_default \<longrightarrow> 256 \<le> length (ballot_log b)) \<and>
    log_stake s (ballot_log b) + weight_of w < 2 ^ 128 \<and> length (ballot_log b) < 256"
proof -
  have tab: "bb_tables_ok b" using assms by (simp add: bb_wf_def)
  have "length (ballot_log b) = length (cast_votes b)" by (simp add: ballot_log_def)
  moreover have "fst ` set (ballot_log b) = ov_operator ` set (cast_votes b)"
    by (simp add: ballot_log_def image_image)
  ultimately show ?thesis
    using cast_vote_is_ok_iff [OF assms, of op s w slot valid] did_operator_vote_iff [OF tab, of op]
    by (auto simp: is_ok_iff)
qed

theorem cast_vote_accepts_iff_witness:
  "bb_wf box1 \<and> \<not> (\<exists>b'. cast_vote box1 7 (Ballot_new 2) (StakeWeights_new 30) 121 50 = Ok b')"
  using cast_vote_accepts_iff [OF box1_facts(1), of 7 2 "StakeWeights_new 30" 121 50] box1_facts(1,2)
  by simp

text \<open>
  No operator votes twice: once an operator is in the log, whatever happens afterwards,
  every further \<open>cast_vote\<close> of that operator is refused, for any ballot, weight and slot.
\<close>

theorem no_double_vote:
  assumes "precise_number P raw" and "bb_wf b" and "op \<in> fst ` set (ballot_log b)"
    and "bb_reach P b b'"
  shows "\<not> is_ok (cast_vote b' op x w slot valid)"
proof
  have wf': "bb_wf b'" by (rule bb_reach_wf [OF assms(4,1,2)])
  then have tab: "bb_tables_ok b'" by (simp add: bb_wf_def)
  assume "is_ok (cast_vote b' op x w slot valid)"
  then have "\<not> did_operator_vote b' op"
    by (auto simp: is_ok_iff cast_vote_def result_simps did_operator_vote_def)
  moreover have "set (ballot_log b) \<subseteq> set (ballot_log b')"
    using assms(4,2)
  proof (induction rule: bb_reach.induct)
    case (bb_next b b' b'')
    have "bb_wf b'" by (rule bb_reach_wf [OF bb_next(1) assms(1) bb_next.prems])
    from bb_step_stable(2) [OF this bb_next(2)] bb_next.IH [OF bb_next.prems] show ?case by auto
  qed simp
  ultimately show False
    using assms(3) did_operator_vote_iff [OF tab] by (auto simp: ballot_log_def image_image)
qed

theorem no_double_vote_witness:
  "bb_reach spl_ops box1 box2 \<and> \<not> is_ok (cast_vote box2 7 (Ballot_new 0) (StakeWeights_new 1) 121 50)"
  using no_double_vote [OF spl.precise_number_axioms box1_facts(1) _ box2_reach, of 7] box2_reach
  by (simp add: box1_facts)

section \<open>Consensus\<close>

text \<open>
  C20: tallying an undecided box with a nonzero total always succeeds, leaves the log alone,
  and declares a winner exactly when some status holds at least \<open>0.666666666666\<close> of the total
  stake; the winner is such a status, of maximal stake, and the slot is recorded.
\<close>

theorem tally_votes_consensus:
  assumes "precise_number P raw" and "bb_wf b" and "tot \<noteq> 0" and "\<not> is_consensus_reached b"
  shows "\<exists>b'. tally_votes P b tot slot = Ok b' \<and> ballot_log b' = ballot_log b \<and>
    (ballot_is_valid (winning_ballot b') \<longleftrightarrow>
       (\<exists>s. supermajority (unat tot) (log_stake s (ballot_log b)))) \<and>
    (ballot_is_valid (winning_ballot b') \<longrightarrow> slot_consensus_reached b' = slot \<and>
       supermajority (unat tot) (log_stake (weather_status (winning_ballot b')) (ballot_log b)) \<and>
       (\<forall>s. log_stake s (ballot_log b) \<le> log_stake (weather_status (winning_ballot b')) (ballot_log b)))"
  using tally_votes_log [OF assms, of slot]
proof (elim disjE exE conjE)
  assume "\<forall>s. \<not> supermajority (unat tot) (log_stake s (ballot_log b))"
    and "tally_votes P b tot slot = Ok b"
  with assms(4) show ?thesis by (simp add: is_consensus_reached_def)
qed (auto simp: ballot_log_def cast_votes_def)

theorem tally_votes_consensus_witness:
  "\<exists>b'. tally_votes spl_ops box1 100 120 = Ok b' \<and> ballot_is_valid (winning_ballot b') \<and>
     slot_consensus_reached b' = 120"
proof -
  have "supermajority (unat (100 :: u128)) (log_stake 1 (ballot_log box1))"
    by (simp add: box1_facts log_stake_def supermajority_def)
  then show ?thesis
    using tally_votes_consensus [OF spl.precise_number_axioms box1_facts(1) _ box1_facts(3), of 100 120]
    by auto
qed

abbreviation total_stake :: "(pubkey \<times> u8 \<times> nat) list \<Rightarrow> nat" where
  "total_stake lg \<equiv> sum_list (map (\<lambda>x. snd (snd x)) lg)"

lemma log_stake_two: "s \<noteq> t \<Longrightarrow> log_stake s lg + log_stake t lg \<le> total_stake lg"
  by (induction lg) (auto simp: log_stake_def)

text \<open>
  The two-thirds rule: when the log's stake does not exceed the total, a status holding
  two thirds of the total becomes the winner, whatever the other votes are.
\<close>

lemma two_thirds_wins:
  assumes "precise_number P raw" and "bb_wf b" and "tot \<noteq> 0" and "\<not> is_consensus_reached b"
    and "total_stake (ballot_log b) \<le> unat tot"
    and "2 * unat tot \<le> 3 * log_stake s (ballot_log b)"
  shows "\<exists>b'. tally_votes P b tot slot = Ok b' \<and> winning_ballot b' = Ballot_new s"
proof -
  from tally_votes_log [OF assms(1-4), of slot] supermajority_two_thirds [OF assms(6)]
  obtain s' where s': "supermajority (unat tot) (log_stake s' (ballot_log b))"
    and r: "tally_votes P b tot slot = Ok (b\<lparr>slot_consensus_reached := slot, winning_ballot := Ballot_new s'\<rparr>)"
    by auto
  have "s' = s"
  proof (rule ccontr)
    assume ne: "s' \<noteq> s"
    have "log_stake s (ballot_log b) + log_stake s' (ballot_log b) \<le> unat tot"
      using log_stake_two [OF ne [symmetric]] assms(5) by (rule order_trans)
    then have "unat tot = 0"
      by (rule supermajority_unique [OF supermajority_two_thirds [OF assms(6)] s'])
    then show False using assms(3) by (simp add: unat_eq_0)
  qed
  with r show ?thesis by simp
qed

text \<open>
  C26: the threshold the code computes is exactly two thirds while the total stake is below
  \<open>5 * 10^11\<close>: tallying then declares a winner iff three times some status's stake reaches
  twice the total.
\<close>

theorem consensus_exact_two_thirds:
  assumes "precise_number P raw" and "bb_wf b" and "tot \<noteq> 0" and "\<not> is_consensus_reached b"
    and "unat tot < 500000000000"
  shows "\<exists>b'. tally_votes P b tot slot = Ok b' \<and>
    (has_winning_ballot b' \<longleftrightarrow> (\<exists>s. 2 * unat tot \<le> 3 * log_stake s (ballot_log b)))"
  using tally_votes_log [OF assms(1-4), of slot]
proof (elim disjE exE conjE)
  fix s
  assume "supermajority (unat tot) (log_stake s (ballot_log b))" "s \<le> 2"
    "tally_votes P b tot slot = Ok (b\<lparr>slot_consensus_reached := slot, winning_ballot := Ballot_new s\<rparr>)"
  then show ?thesis
    by (auto simp: has_winning_ballot_def supermajority_exact [OF assms(5)])
next
  assume "\<forall>s. \<not> supermajority (unat tot) (log_stake s (ballot_log b))"
    and "tally_votes P b tot slot = Ok b"
  with assms(4) show ?thesis
    by (simp add: has_winning_ballot_def is_consensus_reached_def supermajority_exact [OF assms(5)])
qed

theorem consensus_exact_two_thirds_witness:
  "\<exists>b'. tally_votes spl_ops box1 200 120 = Ok b' \<and> \<not> has_winning_ballot b'"
  using consensus_exact_two_thirds [OF spl.precise_number_axioms box1_facts(1) _ box1_facts(3), of 200 120]
  by (auto simp: box1_facts log_stake_def split: if_splits)

text \<open>
  C27: how far the threshold, which is truncated to twelve decimals, is from two thirds, for
  every arithmetic that satisfies the contract.  A status that a tally decides is short of two
  thirds of the total by at most the \<open>10^12\<close>th part of it; and from a total of \<open>1.5 * 10^12\<close> on
  there is a stake short of two thirds with which every undecided ballot box is decided.
\<close>

theorem consensus_shortfall:
  assumes "precise_number P raw" and "tot \<noteq> 0"
  shows "(\<forall>b b'. bb_wf b \<and> \<not> is_consensus_reached b \<and> tally_votes P b tot slot = Ok b' \<and> has_winning_ballot b' \<longrightarrow>
      2 * 10 ^ 12 * unat tot \<le> 3 * 10 ^ 12 * log_stake (weather_status (winning_ballot b')) (ballot_log b) + 2 * unat tot) \<and>
    (1500000000000 \<le> unat tot \<longrightarrow> (\<exists>w. 3 * w < 2 * unat tot \<and>
      (\<forall>b s. bb_wf b \<and> \<not> is_consensus_reached b \<and> log_stake s (ballot_log b) = w \<longrightarrow>
        (\<exists>b'. tally_votes P b tot slot = Ok b' \<and> has_winning_ballot b'))))"
proof (intro conjI allI impI)
  fix b b'
  assume b: "bb_wf b \<and> \<not> is_consensus_reached b \<and> tally_votes P b tot slot = Ok b' \<and> has_winning_ballot b'"
  then have "supermajority (unat tot) (log_stake (weather_status (winning_ballot b')) (ballot_log b))"
    using tally_votes_log [OF assms(1) _ assms(2), of b slot]
    by (auto simp: has_winning_ballot_def is_consensus_reached_def)
  then show "2 * 10 ^ 12 * unat tot \<le> 3 * 10 ^ 12 * log_stake (weather_status (winning_ballot b')) (ballot_log b) + 2 * unat tot"
    by (simp add: supermajority_def)
next
  assume tot: "1500000000000 \<le> unat tot"
  let ?w = "(2 * unat tot - 1) div 3"
  have "3 * ?w \<le> 2 * unat tot - 1" "2 * unat tot - 1 < 3 * ?w + 3"
    using div_mult_mod_eq [of "2 * unat tot - 1" 3] mod_less_divisor [of 3 "2 * unat tot - 1"] by linarith+
  then have short: "3 * ?w < 2 * unat tot" and "2 * unat tot \<le> 3 * ?w + 3" using tot by linarith+
  moreover have "3 * (666666666666 * t) \<le> 3 * (w * 1000000000000)"
    if "2 * t \<le> 3 * w + 3" "1500000000000 \<le> t" for t w :: nat using that by linarith
  ultimately have sup: "supermajority (unat tot) ?w" using tot by (simp add: supermajority_def)
  show "\<exists>w. 3 * w < 2 * unat tot \<and> (\<forall>b s. bb_wf b \<and> \<not> is_consensus_reached b \<and> log_stake s (ballot_log b) = w \<longrightarrow>
      (\<exists>b'. tally_votes P b tot slot = Ok b' \<and> has_winning_ballot b'))"
  proof (intro exI [of _ ?w] conjI short allI impI)
    fix b s
    assume b: "bb_wf b \<and> \<not> is_consensus_reached b \<and> log_stake s (ballot_log b) = ?w"
    then have "supermajority (unat tot) (log_stake s (ballot_log b))" using sup by metis
    moreover have "bb_wf b" "\<not> is_consensus_reached b" using b by simp_all
    ultimately show "\<exists>b'. tally_votes P b tot slot = Ok b' \<and> has_winning_ballot b'"
      using tally_votes_log [OF assms(1) _ assms(2), of b slot] by (auto simp: has_winning_ballot_def)
  qed
qed

text \<open>On a total of \<open>3 * 10^12\<close> a single vote one below two thirds wins.\<close>

definition box_short :: ballot_box where
  "box_short = the_ok (cast_vote box0 7 (Ballot_new 1) (StakeWeights_new 1999999999999) 120 50)"

lemma box_short_facts: "bb_wf box_short" "ballot_log box_short = [(7, 1, 1999999999999)]" "\<not> is_consensus_reached box_short"
proof -
  have tab: "bb_tables_ok box0" using box0_facts(1) by (simp add: bb_wf_def)
  then have "\<not> did_operator_vote box0 7" by (simp add: did_operator_vote_iff box0_facts)
  moreover have "is_voting_valid box0 120 50 = Ok True"
    using box0_facts(4) by (simp add: is_voting_valid_def tie_breaker_set_def is_consensus_reached_def)
  moreover have "(1 :: u8) \<le> 2" by (simp add: word_le_nat_alt)
  ultimately have "is_ok (cast_vote box0 7 (Ballot_new 1) (StakeWeights_new 1999999999999) 120 50)"
    by (simp add: cast_vote_is_ok_iff [OF box0_facts(1)] box0_facts log_stake_def StakeWeights_new_def)
  note ok = is_ok_the_ok [OF this, folded box_short_def]
  show "bb_wf box_short" by (rule cast_vote_facts [OF box0_facts(1) ok])
  show "ballot_log box_short = [(7, 1, 1999999999999)]"
    using cast_vote_log [OF box0_facts(1) ok] by (simp add: box0_facts StakeWeights_new_def)
  show "\<not> is_consensus_reached box_short"
    using box0_facts(4) cast_vote_frame [OF tab ok] by (simp add: is_consensus_reached_def)
qed

theorem consensus_shortfall_witness:
  "(\<exists>b'. tally_votes spl_ops box_short 3000000000000 120 = Ok b' \<and> has_winning_ballot b' \<and>
     2 * 10 ^ 12 * 3000000000000 \<le> 3 * 10 ^ 12 * log_stake (weather_status (winning_ballot b')) (ballot_log box_short) + 2 * 3000000000000) \<and>
   3 * log_stake 1 (ballot_log box_short) < 2 * 3000000000000 \<and>
   (\<exists>w. 3 * w < 2 * unat (3000000000000 :: u128) \<and>
      (\<forall>b s. bb_wf b \<and> \<not> is_consensus_reached b \<and> log_stake s (ballot_log b) = w \<longrightarrow>
        (\<exists>b'. tally_votes spl_ops b 3000000000000 120 = Ok b' \<and> has_winning_ballot b')))"
proof -
  note short = consensus_shortfall [OF spl.precise_number_axioms, of 3000000000000 120]
  have lg: "log_stake 1 (ballot_log box_short) = 1999999999999" by (simp add: box_short_facts log_stake_def)
  have "supermajority (unat (3000000000000 :: u128)) (log_stake 1 (ballot_log box_short))"
    by (simp add: lg supermajority_def)
  then obtain b' where b': "tally_votes spl_ops box_short 3000000000000 120 = Ok b'" "has_winning_ballot b'"
    using tally_votes_log [OF spl.precise_number_axioms box_short_facts(1) _ box_short_facts(3), of 3000000000000 120]
    by (auto simp: has_winning_ballot_def)
  then have "2 * 10 ^ 12 * 3000000000000 \<le>
      3 * 10 ^ 12 * log_stake (weather_status (winning_ballot b')) (ballot_log box_short) + 2 * 3000000000000"
    using conjunct1 [OF short, rule_format, of box_short b'] box_short_facts by simp
  moreover have "3 * log_stake 1 (ballot_log box_short) < 2 * 3000000000000" by (simp add: lg)
  ultimately show ?thesis using b' conjunct2 [OF short] by simp
qed

section \<open>Decisions are final\<close>

text \<open>
  C19: once consensus is reached or a tie breaker is set, no sequence of votes, tallies and
  tie breakers changes the winning ballot or the consensus slot.
\<close>

theorem decision_is_final:
  assumes "precise_number P raw" and "bb_wf b" and "is_consensus_reached b" and "bb_reach P b b'"
  shows "winning_ballot b' = winning_ballot b \<and>
    slot_consensus_reached b' = slot_consensus_reached b \<and> is_consensus_reached b'"
  using bb_reach_stable [OF assms(4,1,2,3)] assms(3) by (simp add: is_consensus_reached_def)

lemma box2_wf: "bb_wf box2"
  by (rule tally_votes_wf [OF spl.precise_number_axioms box1_facts(1) box2_facts(1)])

lemma box2_decided: "is_consensus_reached box2" "winning_ballot box2 = Ballot_new 1"
  "slot_consensus_reached box2 = 120" "\<not> tie_breaker_set box2"
  by (simp_all add: box2_facts(2) is_consensus_reached_def tie_breaker_set_def
      DEFAULT_CONSENSUS_REACHED_SLOT_def)

definition box3 :: ballot_box where
  "box3 = the_ok (cast_vote box2 8 (Ballot_new 2) (StakeWeights_new 900) 130 50)"

lemma box3_cast: "cast_vote box2 8 (Ballot_new 2) (StakeWeights_new 900) 130 50 = Ok box3"
proof -
  have tab: "bb_tables_ok box2" using box2_wf by (simp add: bb_wf_def)
  have cv: "cast_votes box2 = cast_votes box1" "ballot_log box2 = ballot_log box1"
    by (simp_all add: box2_facts(2) cast_votes_def ballot_log_def)
  have "fst ` set (ballot_log box2) = {7}" by (simp add: cv box1_facts)
  then have "\<not> did_operator_vote box2 8"
    by (simp add: did_operator_vote_iff [OF tab] ballot_log_def image_image)
  moreover have "is_voting_valid box2 130 50 = Ok True"
    by (simp add: is_voting_valid_def box2_decided checked_add_def word_le_nat_alt)
  ultimately have "is_ok (cast_vote box2 8 (Ballot_new 2) (StakeWeights_new 900) 130 50)"
    using box1_facts(5)
    by (simp add: cast_vote_is_ok_iff [OF box2_wf] cv box1_facts(2) log_stake_def StakeWeights_new_def)
  then show ?thesis unfolding box3_def by (rule is_ok_the_ok)
qed

theorem decision_is_final_witness:
  "bb_reach spl_ops box2 box3 \<and> winning_ballot box3 = Ballot_new 1 \<and>
   slot_consensus_reached box3 = 120"
proof -
  have r: "bb_reach spl_ops box2 box3" by (rule bb_next [OF bb_refl bb_cast [OF box3_cast]])
  with decision_is_final [OF spl.precise_number_axioms box2_wf box2_decided(1) r] show ?thesis
    by (simp add: box2_decided)
qed

text \<open>
  C18: a ballot box refines an abstract election.  Every sequence of votes, tallies and tie
  breakers that a well-formed ballot box accepts is a sequence of events of the election with
  the same arguments: a vote is a new entry of the log while voting is open; a tally decides a
  status of maximal stake that is a supermajority of the total stake passed to it, and changes
  nothing if no status is one; a tie breaker decides a status of the log, with nothing decided
  and the epochs it is given past the stall.
\<close>

theorem ballot_box_refines_election:
  assumes "precise_number P raw" and "bb_wf b" and "apply_calls P cs b = Ok b'"
  shows "election_run cs (abs_box b) (abs_box b')"
  by (rule apply_calls_run [OF assms])

theorem ballot_box_refines_election_witness:
  "election_run [VoteCall 7 1 (StakeWeights_new 70) 120 50, TallyCall 200 120, TallyCall 100 120]
     (abs_box box0) (abs_box box2) \<and>
   el_winner (abs_box box1) = None \<and> el_winner (abs_box box2) = Some 1 \<and> el_slot (abs_box box2) = Some 120"
proof -
  have "tally_votes spl_ops box1 200 120 = Ok box1"
    using tally_votes_log [OF spl.precise_number_axioms box1_facts(1) _ box1_facts(3), of 200 120]
    by (auto simp: box1_facts log_stake_def supermajority_def split: if_splits)
  then have "apply_calls spl_ops [VoteCall 7 1 (StakeWeights_new 70) 120 50, TallyCall 200 120, TallyCall 100 120] box0 = Ok box2"
    by (simp add: box1_cast box2_facts(1))
  then have "election_run [VoteCall 7 1 (StakeWeights_new 70) 120 50, TallyCall 200 120, TallyCall 100 120]
     (abs_box box0) (abs_box box2)"
    by (rule ballot_box_refines_election [OF spl.precise_number_axioms box0_facts(1)])
  moreover have "el_winner (abs_box box1) = None" by (simp add: abs_box_undecided box1_facts)
  moreover have "el_winner (abs_box box2) = Some 1" "el_slot (abs_box box2) = Some 120"
    by (simp_all add: box2_facts(2) abs_box_def consensus_slot_def DEFAULT_CONSENSUS_REACHED_SLOT_def word_le_nat_alt)
  ultimately show ?thesis by blast
qed

lemma has_ballot_new_iff:
  assumes "bb_wf b"
  shows "has_ballot b (Ballot_new s) \<longleftrightarrow> s \<le> 2 \<and> s \<in> (fst \<circ> snd) ` set (ballot_log b)"
proof
  assume "has_ballot b (Ballot_new s)"
  moreover from this have "s \<le> 2" by (auto simp: has_ballot_iff Ballot_eq_iff)
  ultimately show "s \<le> 2 \<and> s \<in> (fst \<circ> snd) ` set (ballot_log b)"
    using has_ballot_log [OF assms] by blast
next
  assume s: "s \<le> 2 \<and> s \<in> (fst \<circ> snd) ` set (ballot_log b)"
  then obtain v where v: "v \<in> set (cast_votes b)"
    and sv: "s = weather_status (bt_ballot (ballot_tallies b ! unat (ov_ballot_index v)))"
    by (auto simp: ballot_log_def)
  have k: "unat (ov_ballot_index v) < length (live_tallies b)"
    using assms v by (simp add: bb_wf_def bb_votes_ok_def)
  let ?t = "live_tallies b ! unat (ov_ballot_index v)"
  have "?t \<in> set (live_tallies b)" using k by simp
  moreover from this have "ballot_is_valid (bt_ballot ?t)"
    using live_tallies_valid by (simp add: BallotTally_is_valid_def)
  ultimately show "has_ballot b (Ballot_new s)"
    using s sv ballot_tallies_nth [OF assms k] by (auto simp: has_ballot_iff Ballot_eq_iff)
qed

text \<open>
  A tie breaker is accepted exactly when nothing is decided, the epoch is at least
  \<open>epochs_before_stall\<close> past the ballot box's epoch (with no overflow), and the status has
  been voted on; it then decides that status without setting a consensus slot.
\<close>

theorem tie_breaker_iff:
  assumes "bb_wf b"
  shows "set_tie_breaker_ballot b s e stall = Ok b' \<longleftrightarrow>
    \<not> is_consensus_reached b \<and> unat (bb_epoch b) + unat stall \<le> unat e \<and>
    s \<le> 2 \<and> s \<in> (fst \<circ> snd) ` set (ballot_log b) \<and> b' = b\<lparr>winning_ballot := Ballot_new s\<rparr>"
    (is "?l \<longleftrightarrow> ?r")
proof
  assume ?l
  note tie = set_tie_breaker_ballot_OkD [OF this]
  with has_ballot_log [OF assms tie(4)] show ?r by simp
next
  assume r: ?r
  let ?se = "word_of_nat (unat (bb_epoch b) + unat stall) :: u64"
  have lt: "unat (bb_epoch b) + unat stall < 2 ^ 64" using r unat_u64_less [of e] by simp
  then have "unat ?se = unat (bb_epoch b) + unat stall" by (simp only: unat_of_nat) simp
  then have "checked_add (bb_epoch b) stall = Some ?se" "\<not> e < ?se"
    using r by (simp_all only: checked_add_eq_Some word_less_nat_alt) simp_all
  moreover have "has_ballot b (Ballot_new s)" using r has_ballot_new_iff [OF assms] by simp
  ultimately show ?l
    using r by (simp add: set_tie_breaker_ballot_def Let_def set_winning_ballot_def not_less)
qed

theorem tie_breaker_iff_witness:
  "set_tie_breaker_ballot box1 1 8 3 = Ok (box1\<lparr>winning_ballot := Ballot_new 1\<rparr>)"
  using tie_breaker_iff [OF box1_facts(1), of 1 8 3 "box1\<lparr>winning_ballot := Ballot_new 1\<rparr>"] box1_facts(3)
  by (simp add: box1_facts(2,4) word_le_nat_alt)

text \<open>
  The voting window: a tie breaker closes voting for good, an open box accepts votes at
  any slot, and after consensus at slot \<open>c\<close> votes are accepted up to and including slot
  \<open>c + valid_slots\<close>, with \<open>ArithmeticOverflow\<close> when that slot does not exist.
\<close>

theorem voting_window:
  "is_voting_valid b slot valid =
     (if tie_breaker_set b then Ok False
      else if \<not> is_consensus_reached b then Ok True
      else if unat (slot_consensus_reached b) + unat valid < 2 ^ 64
      then Ok (unat slot \<le> unat (slot_consensus_reached b) + unat valid)
      else Err ArithmeticOverflow)"
proof -
  have "is_voting_valid b slot valid =
      (if unat (slot_consensus_reached b) + unat valid < 2 ^ 64
       then Ok (unat slot \<le> unat (slot_consensus_reached b) + unat valid)
       else Err ArithmeticOverflow)" if "\<not> tie_breaker_set b" "is_consensus_reached b"
    using that unat_add_small [of "slot_consensus_reached b" valid]
    by (simp add: is_voting_valid_def checked_add_def word_le_nat_alt)
  then show ?thesis by (simp add: is_voting_valid_def)
qed

text \<open>
  A decided box always has a winning tally: \<open>get_winning_ballot_tally\<close> finds the tally of
  the winning status, with its own array index and the stake logged for that status; an
  undecided one gives \<open>ConsensusNotReached\<close>.
\<close>

theorem winning_tally_exists:
  assumes "bb_wf b"
  shows "if is_consensus_reached b
    then \<exists>t. get_winning_ballot_tally b = Ok t \<and> ballot_tallies b ! unat (bt_index t) = t \<and>
      weather_status (bt_ballot t) = weather_status (winning_ballot b) \<and>
      tally_weight t = log_stake (weather_status (winning_ballot b)) (ballot_log b)
    else get_winning_ballot_tally b = Err ConsensusNotReached"
proof (cases "is_consensus_reached b")
  case True
  then have "ballot_is_valid (winning_ballot b)"
    using assms by (auto simp: bb_wf_def bb_winner_ok_def is_consensus_reached_def)
  from winning_tally_found [OF assms this] obtain i where i: "i < length (live_tallies b)"
    "get_winning_ballot_tally b = Ok (live_tallies b ! i)"
    "bt_index (live_tallies b ! i) = word_of_nat i"
    "weather_status (bt_ballot (live_tallies b ! i)) = weather_status (winning_ballot b)" "i < 256"
    by metis
  have "tally_weight (live_tallies b ! i) = log_stake (weather_status (winning_ballot b)) (ballot_log b)"
    using tally_is_log(1) [OF assms i(1)] i(4) by simp
  with True i ballot_tallies_nth [OF assms i(1)] show ?thesis by simp
qed (simp add: get_winning_ballot_tally_def is_consensus_reached_def)

theorem winning_tally_exists_witness:
  "\<exists>t. get_winning_ballot_tally box2 = Ok t \<and> tally_weight t = 70"
  using winning_tally_exists [OF box2_wf] box2_decided(1,2) box1_facts(2)
  by (auto simp: box2_facts(2) ballot_log_def cast_votes_def log_stake_def)

end
