(* ===== verification/Epoch_Properties.thy ===== *)
theory Epoch_Properties
  imports Epoch_State Ballot_Box_Correct
begin

text \<open>
  The properties of the epoch state: statuses, phases, when accounts may be closed, and how its
  record of the consensus relates to the ballot box.
\<close>

section \<open>Status and progress\<close>

text \<open>
  The byte stored for an account status reads back as that status, and every other byte is
  an error.
\<close>

theorem account_status_roundtrip:
  "get_account_status (AccountStatus_as_u8 s) = Ok s \<and>
   (\<not> is_ok (get_account_status u) \<longleftrightarrow> u \<notin> range AccountStatus_as_u8)"
proof -
  have all: "range AccountStatus_as_u8 = {0, 1, 2, 3}"
  proof
    show "range AccountStatus_as_u8 \<subseteq> {0, 1, 2, 3}"
    proof
      fix x assume "x \<in> range AccountStatus_as_u8"
      then obtain s where "x = AccountStatus_as_u8 s" by blast
      then show "x \<in> {0, 1, 2, 3}" by (cases s) simp_all
    qed
    have "{AccountStatus_as_u8 DNE, AccountStatus_as_u8 Created,
        AccountStatus_as_u8 CreatedWithReceiver, AccountStatus_as_u8 Closed} \<subseteq> range AccountStatus_as_u8"
      by blast
    then show "{0, 1, 2, 3} \<subseteq> range AccountStatus_as_u8" by simp
  qed
  have "get_account_status (AccountStatus_as_u8 s) = Ok s"
    by (cases s) (simp_all add: get_account_status_def)
  then show ?thesis unfolding all by (auto simp: get_account_status_def)
qed

section \<open>Closing\<close>

definition closed_or_absent :: "u8 \<Rightarrow> bool" where
  "closed_or_absent s \<longleftrightarrow> s = AccountStatus_as_u8 DNE \<or> s = AccountStatus_as_u8 Closed"

text \<open>
  All accounts of the epoch are gone: the four every epoch has were closed, those of the
  operators were closed or never existed.
\<close>

definition only_state_left :: "epoch_account_status \<Rightarrow> bool" where
  "only_state_left a \<longleftrightarrow>
     eas_weight_table a = AccountStatus_as_u8 Closed \<and> eas_epoch_snapshot a = AccountStatus_as_u8 Closed \<and>
     eas_ballot_box a = AccountStatus_as_u8 Closed \<and> eas_ncn_reward_router a = AccountStatus_as_u8 Closed \<and>
     (\<forall>s \<in> set (eas_operator_snapshot a). closed_or_absent s) \<and>
     (\<forall>s \<in> set (eas_operator_vault_reward_router a). closed_or_absent s)"

lemma load_to_close_iff:
  "EpochState_load_to_close st ncn e = Ok () \<longleftrightarrow>
     est_ncn st = ncn \<and> est_epoch st = e \<and> only_state_left (account_status st)"
  by (auto simp: EpochState_load_to_close_def result_simps are_all_closed_def Let_def list_ex_iff
      closed_or_absent_def only_state_left_def)

definition state_closed :: epoch_state where
  "state_closed = (EpochState_initialize EpochState_zeroed 11 5 254 100)
     \<lparr>account_status := EpochAccountStatus_default
        \<lparr>eas_weight_table := 3, eas_epoch_snapshot := 3, eas_ballot_box := 3, eas_ncn_reward_router := 3,
         eas_operator_snapshot := (replicate MAX_OPERATORS 0)[4 := 3]\<rparr>\<rparr>"

lemma set_update_replicate: "set ((replicate n a)[i := b]) \<subseteq> {a, b}"
  using set_update_subset_insert [of "replicate n a" i b] by (auto split: if_splits)

lemma saturating_sub_le:
  "(n :: u64) \<le> saturating_sub a b \<longleftrightarrow> unat n = 0 \<or> unat b + unat n \<le> unat a"
  by (auto simp: saturating_sub_def word_le_nat_alt unat_sub word_less_nat_alt unat_eq_0)

text \<open>
  The accounts of an epoch may be closed exactly when consensus was reached and at least
  the configured number of epochs has passed since the epoch of the consensus slot; without
  consensus it is an error.
\<close>

theorem can_close_iff:
  "can_close_epoch_accounts get_epoch st close_epochs slot =
     (if est_slot_consensus_reached st = DEFAULT_CONSENSUS_REACHED_SLOT
      then Err (program_error_of ConsensusNotReached)
      else Ok (close_epochs = 0 \<or>
        unat (get_epoch (est_slot_consensus_reached st)) + unat close_epochs \<le> unat (get_epoch slot)))"
  by (auto simp: can_close_epoch_accounts_def get_epoch_consensus_reached_def
      get_slot_consensus_reached_def Let_def saturating_sub_le unat_eq_0)

section \<open>Phases\<close>

text \<open>The phases in the order of an epoch.\<close>

primrec phase_rank :: "State \<Rightarrow> nat" where
  "phase_rank SetWeight = 0"
| "phase_rank Snapshot = 1"
| "phase_rank Vote = 2"
| "phase_rank PostVoteCooldown = 3"
| "phase_rank Distribute = 4"
| "phase_rank Close = 5"

lemma phase_rank_inj: "phase_rank s = phase_rank t \<Longrightarrow> s = t"
  by (cases s; cases t) simp_all

instantiation State :: linorder
begin

definition less_eq_State :: "State \<Rightarrow> State \<Rightarrow> bool" where
  "less_eq_State s t \<longleftrightarrow> phase_rank s \<le> phase_rank t"

definition less_State :: "State \<Rightarrow> State \<Rightarrow> bool" where
  "less_State s t \<longleftrightarrow> phase_rank s < phase_rank t"

instance
  by standard (auto simp: less_eq_State_def less_State_def phase_rank_inj)

end

lemma can_start_routing_mono:
  assumes "can_start_routing st v slot = Ok True" and "slot \<le> slot'"
  shows "can_start_routing st v slot' = Ok True"
  using assms order_trans [OF _ assms(2)]
  by (auto simp: can_start_routing_def result_simps split: if_splits)

lemma can_close_mono:
  assumes "can_close_epoch_accounts ge st c slot = Ok True" and "ge slot \<le> ge slot'"
  shows "can_close_epoch_accounts ge st c slot' = Ok True"
proof -
  have "unat (ge slot) \<le> unat (ge slot')" using assms(2) by (simp add: word_le_nat_alt)
  with assms(1) show ?thesis
    by (auto simp: can_close_epoch_accounts_def get_epoch_consensus_reached_def
        get_slot_consensus_reached_def Let_def saturating_sub_le split: if_splits)
qed

lemma phase_le_Close [simp]: "(p :: State) \<le> Close"
  by (cases p) (simp_all add: less_eq_State_def)

text \<open>
  C30: for an unchanged epoch state the phase never goes back as time passes: with a clock
  whose epochs do not decrease, the phase at a later slot is the same or a later one.
\<close>

theorem phase_never_goes_back:
  assumes "slot \<le> slot'" and "get_epoch slot \<le> get_epoch slot'"
    and "current_state get_epoch st v c slot = Ok p" and "current_state get_epoch st v c slot' = Ok p'"
  shows "p \<le> p'"
proof (cases "can_close_epoch_accounts get_epoch st c slot' = Ok True")
  case True
  then have "p' = Close" using assms(4) by (simp add: current_state_def)
  then show ?thesis by simp
next
  case False
  then have "can_close_epoch_accounts get_epoch st c slot \<noteq> Ok True" using can_close_mono [of get_epoch st c slot slot'] assms(2) by blast
  with False assms(3,4) can_start_routing_mono [OF _ assms(1), of st v] show ?thesis
    by (auto simp: current_state_def result_simps less_eq_State_def split: if_splits)
qed

definition state_voted :: epoch_state where
  "state_voted = (EpochState_initialize EpochState_zeroed 11 5 254 100)
     \<lparr>account_status := EpochAccountStatus_default\<lparr>eas_weight_table := 1, eas_epoch_snapshot := 1, eas_ballot_box := 1\<rparr>,
      est_slot_consensus_reached := 200\<rparr>"

lemma state_voted_phases:
  "current_state (\<lambda>s. s div 432) state_voted 50 10 240 = Ok PostVoteCooldown"
  "current_state (\<lambda>s. s div 432) state_voted 50 10 250 = Ok Distribute"
  by (simp_all add: state_voted_def EpochState_initialize_def EpochState_zeroed_def current_state_def
      can_close_epoch_accounts_def get_epoch_consensus_reached_def get_slot_consensus_reached_def
      DEFAULT_CONSENSUS_REACHED_SLOT_def saturating_sub_def get_account_status_def EpochAccountStatus_default_def
      is_complete_def is_invalid_def Progress_zeroed_def Progress_INVALID_def EpochState_is_consensus_reached_def
      can_start_routing_def checked_add_def word_le_nat_alt Let_def unat_div)

theorem phase_never_goes_back_witness:
  "\<exists>p p'. current_state (\<lambda>s. s div 432) state_voted 50 10 240 = Ok p \<and>
     current_state (\<lambda>s. s div 432) state_voted 50 10 250 = Ok p' \<and> p \<le> p' \<and> p = PostVoteCooldown \<and> p' = Distribute"
proof -
  have "(240 :: u64) \<le> 250" "(240 :: u64) div 432 \<le> 250 div 432" by (simp_all add: word_le_nat_alt)
  then have "PostVoteCooldown \<le> Distribute" by (rule phase_never_goes_back [OF _ _ state_voted_phases])
  with state_voted_phases show ?thesis by blast
qed

section \<open>The consensus slot\<close>

text \<open>
  The updates of the epoch state by the two instructions that can decide the vote, with
  whether the ballot box is decided afterwards and the current slot.
\<close>

inductive vote_update :: "epoch_state \<Rightarrow> epoch_state \<Rightarrow> bool" where
  vu_cast: "update_cast_vote st n reached slot = Ok st' \<Longrightarrow> vote_update st st'"
| vu_tie: "update_set_tie_breaker st reached slot = Ok st' \<Longrightarrow> vote_update st st'"

inductive_cases vote_updateE: "vote_update st st'"

lemma vote_update_keeps:
  assumes "vote_update st st'"
  shows "account_status st' = account_status st"
    and "EpochState_is_consensus_reached st \<Longrightarrow>
      est_slot_consensus_reached st' = est_slot_consensus_reached st \<and> was_tie_breaker_set st' = was_tie_breaker_set st"
  using assms by (auto elim!: vote_updateE simp: update_cast_vote_def update_set_tie_breaker_def Let_def)

text \<open>
  Once recorded, the consensus slot and the tie-breaker flag never change again, whatever
  votes and tie breakers follow, and no vote or tie breaker changes a status.
\<close>

theorem consensus_slot_is_final:
  assumes "vote_update\<^sup>*\<^sup>* st st'" and "EpochState_is_consensus_reached st"
  shows "est_slot_consensus_reached st' = est_slot_consensus_reached st \<and>
    was_tie_breaker_set st' = was_tie_breaker_set st \<and> account_status st' = account_status st"
  using assms
proof (induction rule: rtranclp_induct)
  case (step y z)
  then have "EpochState_is_consensus_reached y" by (simp add: EpochState_is_consensus_reached_def)
  with step vote_update_keeps [OF step(2)] show ?case by simp
qed simp

theorem consensus_slot_is_final_witness:
  "est_slot_consensus_reached (the_ok (update_cast_vote state_voted 9 True 230)) = 200"
proof -
  have "vote_update\<^sup>*\<^sup>* state_voted (the_ok (update_cast_vote state_voted 9 True 230))"
    by (intro r_into_rtranclp vu_cast [of _ 9 True 230]) (simp add: update_cast_vote_def Let_def)
  moreover have "EpochState_is_consensus_reached state_voted"
    by (simp add: state_voted_def EpochState_is_consensus_reached_def DEFAULT_CONSENSUS_REACHED_SLOT_def)
  ultimately show ?thesis using consensus_slot_is_final by (simp add: state_voted_def)
qed

text \<open>
  C31: with the same consensus slot \<open>c\<close> in the ballot box and the epoch state, votes and routing
  exclude each other except at the one slot \<open>c + valid_slots\<close>, where a vote is still accepted and
  the epoch state already allows routing.
\<close>

theorem voting_and_routing_overlap:
  assumes "slot_consensus_reached b = est_slot_consensus_reached st"
    and "slot_consensus_reached b \<noteq> DEFAULT_CONSENSUS_REACHED_SLOT"
    and "unat (slot_consensus_reached b) + unat valid < 2 ^ 64"
  shows "is_voting_valid b slot valid = Ok True \<and> can_start_routing st valid slot = Ok True \<longleftrightarrow>
    slot = slot_consensus_reached b + valid"
proof -
  let ?c = "slot_consensus_reached b"
  have sum: "unat (?c + valid) = unat ?c + unat valid" using unat_add_small [of ?c valid] assms(3) by simp
  then have add: "checked_add ?c valid = Some (?c + valid)" by (simp add: checked_add_eq_Some)
  have "\<not> tie_breaker_set b" "is_consensus_reached b"
    using assms(2) by (simp_all add: tie_breaker_set_def is_consensus_reached_def)
  then have "is_voting_valid b slot valid = Ok (slot \<le> ?c + valid)"
    by (simp add: is_voting_valid_def add)
  moreover have "can_start_routing st valid slot = Ok (?c + valid \<le> slot)"
    using assms(1,2) add by (simp add: can_start_routing_def EpochState_is_consensus_reached_def
        get_slot_consensus_reached_def)
  ultimately show ?thesis by auto
qed

theorem voting_and_routing_overlap_witness:
  "is_voting_valid ((BallotBox_new 0 0 0 0)\<lparr>slot_consensus_reached := 200, winning_ballot := Ballot_new 1\<rparr>) 250 50 = Ok True \<and>
   can_start_routing state_voted 50 250 = Ok True"
proof -
  let ?b = "(BallotBox_new 0 0 0 0)\<lparr>slot_consensus_reached := 200, winning_ballot := Ballot_new 1\<rparr>"
  have st: "est_slot_consensus_reached state_voted = 200" by (simp add: state_voted_def)
  have "slot_consensus_reached ?b = est_slot_consensus_reached state_voted"
    "slot_consensus_reached ?b \<noteq> DEFAULT_CONSENSUS_REACHED_SLOT" "unat (slot_consensus_reached ?b) + unat (50 :: u64) < 2 ^ 64"
    by (simp_all add: st DEFAULT_CONSENSUS_REACHED_SLOT_def)
  from voting_and_routing_overlap [OF this, of 250] show ?thesis by simp
qed

end
