(* ===== verification/Reward_Properties.thy ===== *)
theory Reward_Properties
  imports Ncn_Reward_Correct Operator_Reward_Correct Voting_Properties Config_Properties
begin

text \<open>
  The properties of the two reward routers: the split of incoming rewards, the shares of
  operators and vaults, resumption after an interrupted call, payments, and that the receiver
  account always covers what the router owes.
\<close>

section \<open>Sample routers\<close>

definition ncn_router0 :: ncn_reward_router where
  "ncn_router0 = NCNRewardRouter_initialize (NCNRewardRouter_new 0 0 0 0) 11 5 254 100"

definition ncn_router1 :: ncn_reward_router where
  "ncn_router1 = ncn_router0\<lparr>nr_total_rewards := 1000, nr_reward_pool := 1000\<rparr>"

definition ncn_router2 :: ncn_reward_router where
  "ncn_router2 = ncn_router0\<lparr>nr_total_rewards := 900, nr_rewards_processed := 900, operator_vault_rewards := 900\<rparr>"

lemma ncn_router0_wf: "nr_wf ncn_router0"
  unfolding ncn_router0_def by (rule NCNRewardRouter_initialize_wf)

lemma ncn_router1_wf: "nr_wf ncn_router1" "unat (nr_reward_pool ncn_router1) = 1000"
  "unat (nr_reward_pool ncn_router1) + unat (nr_rewards_processed ncn_router1) < 2 ^ 64"
  "ncn_rewards ncn_router1 = 0" "protocol_rewards ncn_router1 = 0" "operator_vault_rewards ncn_router1 = 0"
  using ncn_router0_wf
  by (simp_all add: ncn_router1_def nr_wf_def nr_buckets_def ncn_router0_def NCNRewardRouter_initialize_def
      NCNRewardRouter_reset_routing_state_def)

lemma ncn_router2_ready: "ready_to_route box2 ncn_router2" "operator_vault_rewards ncn_router2 = 900"
  "routed_to 7 ncn_router2 = 0"
proof -
  have routes: "operator_vault_reward_routes ncn_router2 = replicate 256 OperatorVaultRewardRoute_default"
    by (simp add: ncn_router2_def ncn_router0_def NCNRewardRouter_initialize_def
        NCNRewardRouter_reset_routing_state_def)
  have "nr_wf ncn_router2"
    using ncn_router0_wf by (simp add: ncn_router2_def nr_wf_def nr_buckets_def ncn_router0_def
        NCNRewardRouter_initialize_def NCNRewardRouter_reset_routing_state_def)
  moreover have "\<not> NCNRewardRouter_still_routing ncn_router2"
    by (simp add: ncn_router2_def ncn_router0_def NCNRewardRouter_initialize_def
        NCNRewardRouter_reset_routing_state_def NCNRewardRouter_still_routing_def)
  moreover have "route_keys ncn_router2 \<subseteq> voters box2"
    using op_routes.live_replicate by (simp add: route_keys_def routes)
  ultimately show "ready_to_route box2 ncn_router2" by (simp add: ready_to_route_def)
  show "operator_vault_rewards ncn_router2 = 900" by (simp add: ncn_router2_def)
  have "find (\<lambda>x. ovrr_operator x = 7) (replicate 256 OperatorVaultRewardRoute_default) = None"
    by (simp add: find_None_iff OperatorVaultRewardRoute_default_def)
  then show "routed_to 7 ncn_router2 = 0" by (simp add: routes op_routes.routed_to_def)
qed

lemma box2_log: "ballot_log box2 = [(7, 1, 70)]" "winning_status box2 = 1" "is_consensus_reached box2" "bb_wf box2"
  using box1_facts(2) box2_decided box2_wf
  by (simp_all add: box2_facts(2) ballot_log_def cast_votes_def)

section \<open>The NCN reward router\<close>

text \<open>
  The reward pool is split completely: the protocol and the NCN get the floors of their
  fees in basis points, the operators and vaults get the rest, and nothing stays in the pool;
  the split succeeds whenever the fees are within the cap and the rewards in transit fit into
  64 bits.
\<close>

theorem reward_pool_split:
  assumes "precise_number P raw" and "nr_wf r"
    and "unat (fee (protocol_fee_bps fs)) + unat (fee (ncn_fee_bps fs)) \<le> 10000"
    and "unat (nr_reward_pool r) + unat (nr_rewards_processed r) < 2 ^ 64"
  shows "\<exists>r'. NCNRewardRouter_route_reward_pool P r fs = Ok r' \<and> nr_wf r' \<and> nr_reward_pool r' = 0 \<and>
    (let pool = unat (nr_reward_pool r);
         protocol_part = pool * unat (fee (protocol_fee_bps fs)) div 10000;
         ncn_part = pool * unat (fee (ncn_fee_bps fs)) div 10000 in
     unat (protocol_rewards r') = unat (protocol_rewards r) + protocol_part \<and>
     unat (ncn_rewards r') = unat (ncn_rewards r) + ncn_part \<and>
     unat (operator_vault_rewards r') + protocol_part + ncn_part = unat (operator_vault_rewards r) + pool \<and>
     unat (nr_rewards_processed r') = unat (nr_rewards_processed r) + pool)"
proof -
  from route_reward_pool_splits [OF assms] obtain r' where
    "NCNRewardRouter_route_reward_pool P r fs = Ok r'" "nr_wf r'" "nr_reward_pool r' = 0"
    "unat (protocol_rewards r') = unat (protocol_rewards r) + unat (nr_reward_pool r) * unat (fee (protocol_fee_bps fs)) div 10000"
    "unat (ncn_rewards r') = unat (ncn_rewards r) + unat (nr_reward_pool r) * unat (fee (ncn_fee_bps fs)) div 10000"
    "unat (operator_vault_rewards r') = unat (operator_vault_rewards r) + (unat (nr_reward_pool r)
       - unat (nr_reward_pool r) * unat (fee (protocol_fee_bps fs)) div 10000
       - unat (nr_reward_pool r) * unat (fee (ncn_fee_bps fs)) div 10000)"
    "unat (nr_rewards_processed r') = unat (nr_rewards_processed r) + unat (nr_reward_pool r)"
    "unat (nr_reward_pool r) * unat (fee (protocol_fee_bps fs)) div 10000
       + unat (nr_reward_pool r) * unat (fee (ncn_fee_bps fs)) div 10000 \<le> unat (nr_reward_pool r)"
    by blast
  then show ?thesis by (intro exI [of _ r']) (simp add: Let_def)
qed

theorem reward_pool_split_witness:
  "\<exists>r'. NCNRewardRouter_route_reward_pool spl_ops ncn_router1 fees0 = Ok r' \<and>
     unat (protocol_rewards r') = 40 \<and> unat (ncn_rewards r') = 50 \<and> unat (operator_vault_rewards r') = 910"
proof -
  have "unat (fee (protocol_fee_bps fees0)) = 400" "unat (fee (ncn_fee_bps fees0)) = 500"
    by (simp_all add: fees0_def Fee_new_def)
  with reward_pool_split [OF spl.precise_number_axioms ncn_router1_wf(1) _ ncn_router1_wf(3), of fees0]
  show ?thesis by (auto simp: ncn_router1_wf Let_def)
qed

text \<open>
  C7: one call with a limit of at least 256 routes everything: every operator that voted for the
  winning status is credited the floor of its share of the rewards by stake, nobody else is
  credited, the NCN gets what rounding leaves, nothing else changes, and the router is ready
  again.  It succeeds for every decided, well-formed ballot box with stakes below \<open>2^112\<close>.
\<close>

theorem operators_get_their_shares:
  assumes "precise_number P raw" and "bb_wf b" and "is_consensus_reached b" and "ready_to_route b r"
    and "\<forall>x \<in> set (ballot_log b). snd (snd x) < 2 ^ 112" and "256 \<le> unat M"
  shows "\<exists>r'. route_operator_vault_rewards P r b M = Ok r' \<and> ready_to_route b r' \<and> routed_all b r r'"
  by (rule routing_complete [OF assms])

theorem operators_get_their_shares_witness:
  "\<exists>r'. route_operator_vault_rewards spl_ops ncn_router2 box2 300 = Ok r' \<and> routed_to 7 r' = 900"
proof -
  have "\<forall>x \<in> set (ballot_log box2). snd (snd x) < 2 ^ 112" by (simp add: box2_log)
  from operators_get_their_shares [OF spl.precise_number_axioms box2_log(4,3) ncn_router2_ready(1) this, of 300]
  show ?thesis
    by (auto simp: routed_all_def Let_def box2_log operator_share_def log_stake_def ncn_router2_ready)
qed

text \<open>
  C17: routing may be spread over calls with any limits: as soon as the limits of the calls add
  up to 256, the calls end with exactly the router that one unlimited call gives.
\<close>

theorem interrupted_routing_is_resumed:
  assumes "precise_number P raw" and "bb_wf b" and "is_consensus_reached b" and "ready_to_route b r"
    and "\<forall>x \<in> set (ballot_log b). snd (snd x) < 2 ^ 112" and "operator_vault_rewards r \<noteq> 0"
    and "256 \<le> sum_list (map (\<lambda>m. unat (max m 1)) ms)"
  shows "\<exists>r'. route_in_calls P b r ms = Ok r' \<and> route_operator_vault_rewards P r b 256 = Ok r' \<and>
    \<not> NCNRewardRouter_still_routing r'"
proof -
  have M: "256 \<le> unat (256 :: u16)" by simp
  from routing_complete [OF assms(1-5) M] obtain r' where
    r': "route_operator_vault_rewards P r b 256 = Ok r'" "ready_to_route b r'" by blast
  from winner_facts [OF assms(2,3)] obtain win where win: "get_winning_ballot_tally b = Ok win" by blast
  have len: "length (operator_votes b) \<le> 256"
    using assms(2) by (simp add: bb_wf_def bb_tables_ok_def MAX_OPERATORS_def)
  have amt: "amount_of r \<noteq> 0"
    using assms(4,6) not_routing_start [of r] by (simp add: ready_to_route_def)
  have fin: "\<not> NCNRewardRouter_still_routing r'" using r'(2) by (simp add: ready_to_route_def)
  from route_in_calls_finish [OF win len M r'(1) amt fin assms(7)] r'(1) fin show ?thesis by blast
qed

theorem interrupted_routing_is_resumed_witness:
  "\<exists>r'. route_in_calls spl_ops box2 ncn_router2 (replicate 9 30) = Ok r' \<and>
     route_operator_vault_rewards spl_ops ncn_router2 box2 256 = Ok r'"
proof -
  have "\<forall>x \<in> set (ballot_log box2). snd (snd x) < 2 ^ 112" by (simp add: box2_log)
  moreover have "operator_vault_rewards ncn_router2 \<noteq> 0" by (simp add: ncn_router2_ready)
  moreover have "max (30 :: u16) 1 = 30" by (simp add: max_def word_le_nat_alt)
  then have "256 \<le> sum_list (map (\<lambda>m. unat (max m 1)) (replicate 9 (30 :: u16)))"
    by (simp add: sum_list_replicate)
  ultimately show ?thesis
    using interrupted_routing_is_resumed [OF spl.precise_number_axioms box2_log(4,3) ncn_router2_ready(1)] by blast
qed

text \<open>
  C8: at every moment of a router's life, whatever deposits, routings and payments happened,
  the receiver account holds its rent and everything the router still owes, the buckets add up
  to the rewards processed, and every lamport ever accepted is in the pool, in one bucket, or
  paid out.
\<close>

theorem router_is_solvent:
  assumes "nr_reach P rent s"
  shows "unat rent + unat (nr_reward_pool (router s)) + unat (nr_rewards_processed (router s)) \<le> funds s \<and>
    unat (nr_rewards_processed (router s)) = nr_buckets (router s) \<and>
    unat (nr_total_rewards (router s)) =
      unat (nr_reward_pool (router s)) + nr_buckets (router s) + paid_out s"
  using nr_reach_solvent [OF assms] by (simp add: nr_solvent_def nr_in_transit_def nr_wf_def)

lemma ncn_router1_reached:
  "nr_reach spl_ops 5 \<lparr>funds = 1005, paid_out = 0, router = ncn_router1\<rparr>"
proof -
  let ?s0 = "\<lparr>funds = 1005, paid_out = 0, router = ncn_router0\<rparr>"
  have "nr_reach spl_ops 5 ?s0" unfolding ncn_router0_def by (rule nr_reach_init) simp
  moreover have "NCNRewardRouter_route_incoming_rewards (router ?s0) 5 1005 = Ok ncn_router1"
    by (simp add: NCNRewardRouter_route_incoming_rewards_def NCNRewardRouter_total_rewards_in_transit_def
        NCNRewardRouter_route_to_reward_pool_def ncn_router1_def ncn_router0_def
        NCNRewardRouter_initialize_def NCNRewardRouter_reset_routing_state_def checked_add_def checked_sub_def
        word_le_nat_alt)
  then have "nr_step spl_ops 5 ?s0 (?s0\<lparr>router := ncn_router1\<rparr>)"
    by (intro nr_incoming [of 1005]) simp_all
  ultimately show ?thesis using nr_reach_step by fastforce
qed

theorem router_is_solvent_witness:
  "unat (nr_total_rewards ncn_router1) = 1000 + nr_buckets ncn_router1"
  using router_is_solvent [OF ncn_router1_reached] ncn_router1_wf(2) by simp

text \<open>
  Distributing an operator's route pays exactly what was routed to it and empties that
  route; the other routes and buckets stay as they are, and an operator without a route is an
  error.
\<close>

theorem operator_route_paid_once:
  assumes "nr_wf r" and "op \<noteq> Pubkey_default"
  shows "if has_operator_vault_reward_route r op
    then \<exists>r' n. distribute_operator_vault_reward_route r op = Ok (r', n) \<and> unat n = routed_to op r \<and>
      paid r r' n \<and> ncn_rewards r' = ncn_rewards r \<and> protocol_rewards r' = protocol_rewards r \<and>
      (\<forall>k. routed_to k r' = (if k = op then 0 else routed_to k r))
    else distribute_operator_vault_reward_route r op = Err OperatorRewardNotFound"
  by (rule distribute_operator_pays [OF assms])

theorem operator_route_paid_once_witness:
  "distribute_operator_vault_reward_route ncn_router0 9 = Err OperatorRewardNotFound"
proof -
  have "\<not> has_operator_vault_reward_route ncn_router0 9"
    by (simp add: has_operator_vault_reward_route_def ncn_router0_def NCNRewardRouter_initialize_def
        NCNRewardRouter_reset_routing_state_def list_ex_iff OperatorVaultRewardRoute_default_def)
  with operator_route_paid_once [OF ncn_router0_wf, of 9] show ?thesis by simp
qed

section \<open>The operator vault reward router\<close>

definition op_router0 :: operator_vault_reward_router where
  "op_router0 = (OperatorVaultRewardRouter_new 7 0 11 5 254 100)\<lparr>or_total_rewards := 1000, or_reward_pool := 1000\<rparr>"

lemma op_router0_facts: "or_wf op_router0" "\<not> OVRR_still_routing op_router0" "vault_keys op_router0 = {}"
  "or_in_transit op_router0 < 2 ^ 64" "unat (or_reward_pool op_router0) = 1000"
  "operator_rewards op_router0 = 0" "k \<noteq> Pubkey_default \<Longrightarrow> vault_routed_to k op_router0 = 0"
proof -
  have routes: "vault_reward_routes op_router0 = replicate 64 VaultRewardRoute_default"
    by (simp add: op_router0_def OperatorVaultRewardRouter_new_def MAX_VAULTS_def)
  show "or_wf op_router0"
    using vault_routes.keys_ok_replicate [of 64]
    by (simp add: or_wf_def routes) (simp add: op_router0_def OperatorVaultRewardRouter_new_def)
  show "vault_keys op_router0 = {}" using vault_routes.live_replicate by (simp add: vault_keys_def routes)
  show "\<not> OVRR_still_routing op_router0" "or_in_transit op_router0 < 2 ^ 64"
    "unat (or_reward_pool op_router0) = 1000" "operator_rewards op_router0 = 0"
    by (simp_all add: op_router0_def OperatorVaultRewardRouter_new_def OVRR_still_routing_def or_in_transit_def)
  assume k: "k \<noteq> Pubkey_default"
  then have "find (\<lambda>x. vrr_vault x = k) (replicate 64 VaultRewardRoute_default) = None"
    by (simp add: find_None_iff VaultRewardRoute_default_def)
  then show "vault_routed_to k op_router0 = 0" by (simp add: routes vault_routes.routed_to_def)
qed

lemma op_snapshot1_routable: "snapshot_routable op_snapshot1" "weight_of (os_stake_weights op_snapshot1) = 70"
proof -
  show "snapshot_routable op_snapshot1"
    by (simp add: snapshot_routable_def op_snapshot1_facts VaultOperatorStakeWeight_new_def StakeWeights_new_def)
  show "weight_of (os_stake_weights op_snapshot1) = 70"
    using op_snapshot1_facts(2)
    by (simp add: os_wf_def op_snapshot1_facts(3) VaultOperatorStakeWeight_new_def StakeWeights_new_def)
qed

text \<open>
  The operator is first credited the floor of its fee on the reward pool, out of the pool,
  and nothing else changes; this succeeds whenever the fee is at most the maximum.
\<close>

theorem operator_fee_is_floor:
  assumes "precise_number P raw" and "or_wf r" and "max_bps \<noteq> 0" and "os_operator_fee_bps snap \<le> max_bps"
    and "or_in_transit r < 2 ^ 64"
  shows "\<exists>r'. route_operator_rewards P max_bps r snap = Ok r' \<and> or_wf r' \<and>
    vault_reward_routes r' = vault_reward_routes r \<and> or_in_transit r' = or_in_transit r \<and>
    (let part = unat (or_reward_pool r) * unat (os_operator_fee_bps snap) div unat max_bps in
     unat (operator_rewards r') = unat (operator_rewards r) + part \<and>
     unat (or_reward_pool r') + part = unat (or_reward_pool r))"
  using operator_fee_routed [OF assms] by (auto simp: or_conserves_def Let_def)

theorem operator_fee_is_floor_witness:
  "\<exists>r'. route_operator_rewards spl_ops 10000 op_router0 op_snapshot1 = Ok r' \<and> unat (operator_rewards r') = 10"
proof -
  have f: "os_operator_fee_bps op_snapshot1 = 100"
    by (simp add: op_snapshot1_def op_snapshot0_def OperatorSnapshot_initialize_def MAX_VAULTS_def
        increment_vault_operator_delegation_registration_def insert_vault_operator_stake_weight_def
        OperatorSnapshot_finalized_def checked_add_def contains_vault_index_def list_ex_iff
        VaultOperatorStakeWeight_default_def StakeWeights_new_def StakeWeights_increment_def
        increment_stake_weight_def StakeWeights_default_def Let_def word_less_nat_alt)
  have le: "os_operator_fee_bps op_snapshot1 \<le> 10000" unfolding f by (simp add: word_le_nat_alt)
  have "(10000 :: u16) \<noteq> 0" by simp
  from operator_fee_is_floor [OF spl.precise_number_axioms op_router0_facts(1) this le op_router0_facts(4)]
  show ?thesis by (auto simp: op_router0_facts f Let_def)
qed

text \<open>
  C28: one call with a limit of at least 256 routes the whole pool: every vault with delegations
  to the operator is credited the floor of its share by stake, no other vault is credited, and
  the operator gets what rounding leaves.
\<close>

theorem vaults_get_their_shares:
  assumes "precise_number P raw" and "snapshot_routable snap" and "or_wf r" and "\<not> OVRR_still_routing r"
    and "vault_keys r \<subseteq> vosw_vault ` set (os_entries snap)" and "or_in_transit r < 2 ^ 64" and "256 \<le> unat M"
  shows "\<exists>r'. OVRR_route_reward_pool P r snap M = Ok r' \<and> or_conserves r r' \<and>
    \<not> OVRR_still_routing r' \<and> or_reward_pool r' = 0 \<and>
    (let R = unat (or_reward_pool r) in
     unat (operator_rewards r') = unat (operator_rewards r) + (R - vaults_due snap R) \<and>
     (\<forall>k. k \<noteq> Pubkey_default \<longrightarrow> vault_routed_to k r' = vault_routed_to k r + vault_due snap R k))"
  using vaults_routed [OF assms] unfolding Let_def by blast

theorem vaults_get_their_shares_witness:
  "\<exists>r'. OVRR_route_reward_pool spl_ops op_router0 op_snapshot1 256 = Ok r' \<and> vault_routed_to 31 r' = 1000"
proof -
  have ks: "vault_keys op_router0 \<subseteq> vosw_vault ` set (os_entries op_snapshot1)" by (simp add: op_router0_facts)
  have "vault_due op_snapshot1 1000 31 = 1000"
    by (simp add: vault_due_def op_snapshot1_facts(3) op_snapshot1_routable VaultOperatorStakeWeight_new_def
        StakeWeights_new_def)
  with vaults_get_their_shares [OF spl.precise_number_axioms op_snapshot1_routable(1) op_router0_facts(1,2) ks
      op_router0_facts(4), of 256] op_router0_facts(5,7)
  show ?thesis by (auto simp: Let_def)
qed

text \<open>
  Routing to the vaults may be spread over calls: as soon as the limits of the calls add up
  to 64, the calls end with exactly the router that one unlimited call gives.
\<close>

theorem interrupted_vault_routing_is_resumed:
  assumes "precise_number P raw" and "snapshot_routable snap" and "or_wf r" and "\<not> OVRR_still_routing r"
    and "vault_keys r \<subseteq> vosw_vault ` set (os_entries snap)" and "or_in_transit r < 2 ^ 64"
    and "or_reward_pool r \<noteq> 0" and "64 \<le> sum_list (map (\<lambda>m. unat (max m 1)) ms)"
  shows "\<exists>r'. vaults_in_calls P snap r ms = Ok r' \<and> OVRR_route_reward_pool P r snap 256 = Ok r' \<and>
    \<not> OVRR_still_routing r'"
proof -
  have M: "256 \<le> unat (256 :: u16)" by simp
  from vaults_routed [OF assms(1-6) M] obtain r' where
    r': "OVRR_route_reward_pool P r snap 256 = Ok r'" "\<not> OVRR_still_routing r'" by blast
  have len: "length (vault_operator_stake_weight snap) = 64"
    using assms(2) by (simp add: snapshot_routable_def os_wf_def MAX_VAULTS_def)
  have amt: "or_amount r \<noteq> 0" using assms(4,7) by (simp add: or_amount_def OVRR_resume_routing_state_def)
  from vaults_in_calls_finish [OF len M r'(1) amt r'(2) assms(8)] r' show ?thesis by blast
qed

theorem interrupted_vault_routing_is_resumed_witness:
  "\<exists>r'. vaults_in_calls spl_ops op_snapshot1 op_router0 [30, 30, 30] = Ok r' \<and>
     OVRR_route_reward_pool spl_ops op_router0 op_snapshot1 256 = Ok r'"
proof -
  have ks: "vault_keys op_router0 \<subseteq> vosw_vault ` set (os_entries op_snapshot1)" by (simp add: op_router0_facts)
  have "or_reward_pool op_router0 \<noteq> 0" using op_router0_facts(5) by auto
  moreover have "max (30 :: u16) 1 = 30" by (simp add: max_def word_le_nat_alt)
  then have "64 \<le> sum_list (map (\<lambda>m. unat (max m 1)) [30, 30, 30 :: u16])" by simp
  ultimately show ?thesis
    using interrupted_vault_routing_is_resumed [OF spl.precise_number_axioms op_snapshot1_routable(1)
        op_router0_facts(1,2) ks op_router0_facts(4)] by blast
qed

end
