(* ===== verification/Program_Properties.thy ===== *)
theory Program_Properties
  imports Program_Runs Config_Properties Voting_Properties Epoch_Properties Reward_Properties
begin

text \<open>
  Properties of the program as a whole, on the ledger: what every instruction keeps, who may
  do what, and what the central instructions do to the accounts they are passed.
\<close>

section \<open>Example accounts\<close>

definition config0 :: config where
  "config0 = Config_new 11 14 5 1000 10 10 fee_config0 255"

definition epoch_state0 :: epoch_state where
  "epoch_state0 = EpochState_initialize EpochState_zeroed 11 5 255 100"

definition epoch_snapshot0 :: epoch_snapshot where
  "epoch_snapshot0 = (EpochSnapshot_new 11 5 255 100 1 1 fees0)
     \<lparr>es_operators_registered := 1, es_stake_weights := StakeWeights_new 100\<rparr>"

definition owned :: "account_data \<Rightarrow> account" where
  "owned d = \<lparr>lamports = 50000, acc_owner = 9, acc_data = d\<rparr>"

definition wallet :: "u64 \<Rightarrow> account" where
  "wallet n = \<lparr>lamports = n, acc_owner = 0, acc_data = Zeroed 0\<rparr>"

definition ledger0 :: ledger where
  "ledger0 k =
     (if k = 1038 then owned (ConfigData config0)
      else if k = 1046 then owned (VaultRegistryData registry2)
      else if k = 1050 then owned (BallotBoxData box0)
      else if k = 1051 then owned (EpochStateData epoch_state0)
      else if k = 1052 then owned (WeightTableData table0)
      else if k = 1054 then owned (EpochSnapshotData epoch_snapshot0)
      else if k = 1056 then owned (ConsensusResultData (ConsensusResult_new 11 5 255))
      else if k = 1089 then owned (OperatorSnapshotData op_snapshot1)
      else if k = 1077 then wallet 1000000
      else wallet 0)"

definition acc :: "pubkey \<Rightarrow> account_info" where
  "acc k = \<lparr>ai_key = k, ai_is_signer = (k = 13 \<or> k = 14), ai_is_writable = True\<rparr>"

lemma acc_sel [simp]: "ai_key (acc k) = k" "ai_is_signer (acc k) \<longleftrightarrow> k = 13 \<or> k = 14" "ai_is_writable (acc k)"
  by (simp_all add: acc_def)

lemma account_sel [simp]:
  "acc_data (owned d) = d" "acc_owner (owned d) = 9" "lamports (owned d) = 50000"
  "acc_data (wallet n) = Zeroed 0" "acc_owner (wallet n) = 0" "lamports (wallet n) = n"
  by (simp_all add: owned_def wallet_def)

lemma ledger0_wf: "ledger_wf ledger0"
proof -
  have "config_ranges config0" "fees_ok fees0"
    by (simp_all add: config_ranges_def config0_def Config_new_def in_range_def fees_ok_def fees_total_def
        fees0_def Fee_new_def MIN_EPOCHS_BEFORE_STALL_def MAX_EPOCHS_BEFORE_STALL_def
        MIN_EPOCHS_AFTER_CONSENSUS_BEFORE_CLOSE_def MAX_EPOCHS_AFTER_CONSENSUS_BEFORE_CLOSE_def
        MIN_VALID_SLOTS_AFTER_CONSENSUS_def MAX_VALID_SLOTS_AFTER_CONSENSUS_def)
  moreover have "fee_config_of config0 = fee_config0" by (simp add: config0_def Config_new_def)
  moreover have "est_wf epoch_state0" unfolding epoch_state0_def by (rule EpochState_initialize_wf)
  moreover have "wt_wf table0" using table0_facts by simp
  moreover have mints: "list_all feed_ok (st_mint_list registry2)"
    using registry_feeds(3) [OF registry2_facts(4)] registry_feeds(1) [OF registry1_facts(1)]
    by (simp add: registry0_def initialized_bytes)
  moreover have "list_all (\<lambda>e. feed_ok (we_st_mint_entry e)) (wt_table table0)"
    by (rule initialize_feeds [OF registry2_facts(1) mints table0_facts(4)])
  moreover have "snapshot_named op_snapshot1" using op_snapshot1_facts by (simp add: snapshot_named_def VaultOperatorStakeWeight_new_def)
  ultimately show ?thesis
    unfolding ledger_wf_def ledger0_def
    by (simp add: registry2_facts box0_facts fee_config0_def epoch_snapshot0_def EpochSnapshot_new_def)
qed

text \<open>Operator 7 votes \<open>Sunny\<close> (status 1) with 70 of 100 and decides the epoch.\<close>

definition vote_accounts :: "account_info list" where
  "vote_accounts = map acc [1051, 1038, 1050, 11, 1054, 1089, 7, 13, 1056]"

definition voted_result :: consensus_result where
  "voted_result = (ConsensusResult_new 11 5 255)
     \<lparr>cr_weather_status := 1, cr_vote_weight := 70, cr_total_vote_weight := 100, cr_consensus_slot := 120\<rparr>"

definition ledger1 :: ledger where
  "ledger1 = set_data (set_data (set_data ledger0 (acc 1050) (BallotBoxData box2))
       (acc 1056) (ConsensusResultData voted_result))
     (acc 1051) (EpochStateData (the_ok (update_cast_vote epoch_state0 1 True 120)))"

lemma ledger0_at:
  "ledger0 1038 = owned (ConfigData config0)" "ledger0 1046 = owned (VaultRegistryData registry2)"
  "ledger0 1050 = owned (BallotBoxData box0)" "ledger0 1051 = owned (EpochStateData epoch_state0)"
  "ledger0 1052 = owned (WeightTableData table0)" "ledger0 1054 = owned (EpochSnapshotData epoch_snapshot0)"
  "ledger0 1056 = owned (ConsensusResultData (ConsensusResult_new 11 5 255))"
  "ledger0 1089 = owned (OperatorSnapshotData op_snapshot1)" "ledger0 1077 = wallet 1000000"
  "ledger0 1084 = wallet 0" "ledger0 7 = wallet 0" "ledger0 11 = wallet 0" "ledger0 13 = wallet 0" "ledger0 14 = wallet 0"
  by (simp_all add: ledger0_def)

lemma find_addresses [simp]:
  "fst (Config_find_program_address chain p n) = 1038" "fst (VaultRegistry_find_program_address chain p n) = 1046"
  "fst (BallotBox_find_program_address chain p n e) = 1050" "fst (EpochState_find_program_address chain p n e) = 1051"
  "fst (WeightTable_find_program_address chain p n e) = 1052" "fst (EpochSnapshot_find_program_address chain p n e) = 1054"
  "fst (ConsensusResult_find_program_address chain p n e) = 1056" "fst (AccountPayer_find_program_address chain p n) = 1077"
  "fst (EpochMarker_find_program_address chain p n e) = 1084"
  "fst (OperatorSnapshot_find_program_address chain p op n e) = 1089"
  by (simp_all add: Config_find_program_address_def VaultRegistry_find_program_address_def
      BallotBox_find_program_address_def EpochState_find_program_address_def
      WeightTable_find_program_address_def EpochSnapshot_find_program_address_def
      ConsensusResult_find_program_address_def AccountPayer_find_program_address_def
      EpochMarker_find_program_address_def OperatorSnapshot_find_program_address_def Let_def seeds_defs)

lemma winner2: "\<exists>t. get_winning_ballot_tally box2 = Ok t \<and> weather_status (bt_ballot t) = 1 \<and>
  stake_weight (bt_stake_weights t) = 70"
proof -
  have "ballot_is_valid (winning_ballot box2)" by (simp add: box2_decided Ballot_new_fields)
  from winning_tally_found [OF box2_wf this] obtain i where i: "i < length (live_tallies box2)"
    "get_winning_ballot_tally box2 = Ok (live_tallies box2 ! i)"
    "weather_status (bt_ballot (live_tallies box2 ! i)) = weather_status (winning_ballot box2)" by blast
  have "tally_weight (live_tallies box2 ! i) = log_stake 1 (ballot_log box2)"
    using live_tally_stake [OF box2_wf nth_mem [OF i(1)]] i(3) by (simp add: box2_decided Ballot_new_fields)
  also have "ballot_log box2 = ballot_log box1" by (simp add: box2_facts(2) cast_votes_def ballot_log_def)
  finally have "unat (stake_weight (bt_stake_weights (live_tallies box2 ! i))) = 70"
    by (simp add: box1_facts log_stake_def)
  then have "stake_weight (bt_stake_weights (live_tallies box2 ! i)) = 70"
    by (simp add: word_unat_eq_iff)
  with i show ?thesis by (simp add: box2_decided Ballot_new_fields)
qed

lemma loads_typed:
  "acc_owner (L (ai_key a)) = p \<Longrightarrow> discriminator_of (data_at L a) = Some t \<Longrightarrow> ai_key a = pda \<Longrightarrow>
   ai_is_writable a \<Longrightarrow> check_load p a pda (Some t) w L = Ok ()"
  by (simp add: check_load_Ok)

lemma loads_untyped:
  "acc_owner (L (ai_key a)) = p \<Longrightarrow> ai_key a = pda \<Longrightarrow> ai_is_writable a \<Longrightarrow> check_load p a pda None w L = Ok ()"
  by (simp add: check_load_Ok)

lemma box0_vote: "cast_vote box0 7 (Ballot_new 1) (StakeWeights_new 70) 120 v = Ok box1"
proof -
  have "is_voting_valid box0 120 v = is_voting_valid box0 120 50"
    using box0_facts(4) by (simp add: is_voting_valid_def tie_breaker_set_def)
  then show ?thesis using box1_cast unfolding cast_vote_def by simp
qed

lemma op_snapshot1_stake: "os_stake_weights op_snapshot1 = StakeWeights_new 70"
proof -
  have "weight_of (os_stake_weights op_snapshot1) = 70"
    using op_snapshot1_facts(2,3) by (simp add: os_wf_def VaultOperatorStakeWeight_new_def StakeWeights_new_def)
  then show ?thesis by (cases "os_stake_weights op_snapshot1") (simp add: StakeWeights_new_def word_unat_eq_iff)
qed

lemma vote0: "process_cast_vote chain spl_ops 9 vote_accounts 1 5 ledger0 = Ok ledger1"
proof -
  obtain t where t: "get_winning_ballot_tally box2 = Ok t" "weather_status (bt_ballot t) = 1"
    "stake_weight (bt_stake_weights t) = 70" using winner2 by blast
  have voted: "operators_voted box2 = 1"
    using box1_facts(1,5) by (simp add: box2_facts(2) bb_wf_def bb_tables_ok_def word_unat_eq_iff)
  show ?thesis
    unfolding process_cast_vote_def vote_accounts_def list.map list.case
    by (simp add: load_signer_def signer_rule_def load_defs loads_typed Ncn_load_def Operator_load_def named_operator_def
        data_at_def ledger_simps ledger0_at box0_vote [unfolded StakeWeights_new_def] box2_facts(1) op_snapshot1_stake epoch_snapshot0_def EpochSnapshot_new_def
        EpochSnapshot_finalized_def box2_decided t voted StakeWeights_new_def Let_def
        record_consensus_def ConsensusResult_is_consensus_reached_def ConsensusResult_new_def
        update_cast_vote_def voted_result_def ledger1_def)
qed

lemma vote_transaction:
  "lawful spl_ops (\<lambda>p. p) 9 (chain, vote_accounts, CastVote 1 5)"
  "process_instruction chain spl_ops 9 9 vote_accounts (Ok (CastVote 1 5)) ledger0 = Ok ledger1"
  "execute spl_ops 9 (chain, vote_accounts, CastVote 1 5) ledger0 = ledger1"
  by (simp_all add: lawful_def chain_program process_instruction_def execute_def vote0)

section \<open>What every instruction keeps\<close>

text \<open>
  C1: every instruction that succeeds is a sequence of actions of the account machine on the
  accounts it was passed: operations of the components on typed data, transfers, creation of
  accounts out of empty ones, growth of accounts at their own address, and closing.
\<close>

theorem instruction_refines_machine:
  assumes "ncn_program E P raw" and "ledger_wf L" and "p \<noteq> system_program_id E"
    and "clock_slot E \<noteq> u64_MAX" and "\<And>i. decoded = Ok i \<Longrightarrow> names_mint i"
    and "process_instruction E P own p A decoded L = Ok L'"
  shows "(act E P p A)\<^sup>*\<^sup>* L L'"
  by (rule ncn_program.instruction_acts [OF assms(1,6,2,3,4,5)])

theorem instruction_refines_machine_witness:
  "(act chain spl_ops 9 vote_accounts)\<^sup>*\<^sup>* ledger0 ledger1 \<and> ledger0 \<noteq> ledger1"
proof
  show "(act chain spl_ops 9 vote_accounts)\<^sup>*\<^sup>* ledger0 ledger1"
    using instruction_refines_machine [OF chain_program ledger0_wf _ _ _ vote_transaction(2)] by simp
  have "acc_data (ledger0 1056) \<noteq> acc_data (ledger1 1056)"
    by (simp add: ledger0_at ledger1_def ledger_simps voted_result_def ConsensusResult_new_def)
  then show "ledger0 \<noteq> ledger1" by auto
qed

text \<open>
  C2: the data of every account stays well formed in every run whose \<open>AdminSetWeight\<close> and
  \<open>AdminSetStMint\<close> instructions name a mint (a key that is not all zero, \<open>names_mint\<close>; with the
  all-zero key these two can break the weight table and the registry), while the clock has not
  reached \<open>u64::MAX\<close>.  Well formed: parameters and fees of a configuration in range, registry
  and weight table packed with distinct keys, operator snapshots whose totals are the sums of
  their entries, epoch snapshots with at most as many registered operators as the NCN had and
  fees in range, ballot boxes and reward routers with their invariants, the arrays of an epoch
  state of their fixed lengths.
\<close>

theorem ledger_stays_well_formed:
  assumes "\<forall>(E, A, i) \<in> set txs. ncn_program E P raw \<and> p \<noteq> system_program_id E \<and>
      clock_slot E \<noteq> u64_MAX \<and> names_mint i"
    and "ledger_wf L"
  shows "ledger_wf (run P p txs L)"
proof (rule run_wf)
  show "\<forall>tx \<in> set txs. lawful P raw p tx" using assms(1) by (auto simp: lawful_def)
qed (rule assms(2))

theorem ledger_stays_well_formed_witness:
  "ledger_wf (run spl_ops 9 [(chain, vote_accounts, CastVote 1 5)] ledger0) \<and>
   run spl_ops 9 [(chain, vote_accounts, CastVote 1 5)] ledger0 = ledger1"
  using ledger_stays_well_formed [of "[(chain, vote_accounts, CastVote 1 5)]" spl_ops "\<lambda>p. p" 9 ledger0]
    vote_transaction ledger0_wf by (simp add: lawful_def)

text \<open>
  C3: no run creates or destroys lamports: over any finite set of accounts that contains
  those of the transactions the sum stays the same, through creation, growth, distribution and
  closing of accounts.
\<close>

theorem lamports_are_conserved:
  assumes "\<forall>tx \<in> set txs. lawful P raw p tx" and "ledger_wf L"
    and "finite K" and "\<forall>tx \<in> set txs. keys_of tx \<subseteq> K"
  shows "total_lamports K (run P p txs L) = total_lamports K L"
proof -
  have "ledger_wf (run P p txs L) \<and> total_lamports K (run P p txs L) = total_lamports K L"
    by (rule run_invariant [where I = "\<lambda>M. ledger_wf M \<and> total_lamports K M = total_lamports K L"])
      (use assms execute_wf [where raw = raw] execute_conserves [where raw = raw] in \<open>metis\<close>)+
  then show ?thesis by simp
qed

text \<open>The account payer creates the registry of the NCN.\<close>

definition no_registry :: ledger where
  "no_registry = ledger0(1046 := wallet 0)"

definition create_registry :: transaction where
  "create_registry = (chain, map acc [1038, 1046, 11, 1077, 0], InitializeVaultRegistry)"

lemma no_registry_wf: "ledger_wf no_registry"
  using ledger0_wf by (simp add: ledger_wf_def no_registry_def)

lemma seeds_total [simp]:
  "length (concat (AccountPayer_seeds n)) = 77" "length (concat (VaultRegistry_seeds n)) = 46"
  by (simp_all add: seeds_defs)

lemma create_registry_runs:
  "lawful spl_ops (\<lambda>p. p) 9 create_registry"
  "execute spl_ops 9 create_registry no_registry =
     no_registry(1046 := \<lparr>lamports = 10368, acc_owner = 9, acc_data = Zeroed 10240\<rparr>, 1077 := wallet 989632)"
proof -
  show "lawful spl_ops (\<lambda>p. p) 9 create_registry" by (simp add: lawful_def create_registry_def chain_program)
  have ks: "no_registry 1046 = wallet 0" "no_registry 1077 = wallet 1000000"
    "no_registry 1038 = owned (ConfigData config0)" by (simp_all add: no_registry_def ledger0_at)
  have find: "VaultRegistry_find_program_address chain 9 n = (1046, 255, VaultRegistry_seeds n)"
    "AccountPayer_find_program_address chain 9 n = (1077, 255, AccountPayer_seeds n)" for n
    by (simp_all add: VaultRegistry_find_program_address_def AccountPayer_find_program_address_def Let_def seeds_defs)
  have "process_initialize_vault_registry chain 9 (map acc [1038, 1046, 11, 1077, 0]) no_registry =
     Ok (no_registry(1046 := \<lparr>lamports = 10368, acc_owner = 9, acc_data = Zeroed 10240\<rparr>, 1077 := wallet 989632))"
    unfolding process_initialize_vault_registry_def list.map list.case
    by (simp add: load_system_account_def loads_untyped system_account_rule_def load_system_program_def Ncn_load_def
        load_defs loads_typed data_at_def ks find Let_def data_is_empty_def data_len_def check_load_Ok
        pay_and_create_account_def AccountPayer_transfer_def saturating_sub_def lamports_at_def
        MAX_REALLOC_BYTES_def system_invoke_def can_pay_def transferred_def ledger_simps) (rule ext, simp add: ledger_simps ks wallet_def)
  then show "execute spl_ops 9 create_registry no_registry =
     no_registry(1046 := \<lparr>lamports = 10368, acc_owner = 9, acc_data = Zeroed 10240\<rparr>, 1077 := wallet 989632)"
    by (simp add: execute_def create_registry_def process_instruction_def)
qed

theorem lamports_are_conserved_witness:
  "total_lamports {1038, 1046, 11, 1077, 0} (run spl_ops 9 [create_registry] no_registry) = 1050000 \<and>
   lamports (run spl_ops 9 [create_registry] no_registry 1046) = 10368"
proof -
  have "total_lamports {1038, 1046, 11, 1077, 0} (run spl_ops 9 [create_registry] no_registry)
      = total_lamports {1038, 1046, 11, 1077, 0} no_registry"
    using lamports_are_conserved [of "[create_registry]" spl_ops "\<lambda>p. p" 9 no_registry "{1038, 1046, 11, 1077, 0}"]
      create_registry_runs(1) no_registry_wf by (simp add: keys_of_def create_registry_def)
  moreover have "total_lamports {1038, 1046, 11, 1077, 0} no_registry = 1050000"
    by (simp add: total_lamports_def no_registry_def ledger0_def)
  ultimately show ?thesis by (simp add: create_registry_runs(2))
qed

text \<open>
  C21: a configuration, a vault registry, a consensus result and an epoch marker stay at their
  address once they exist: no run closes them, changes their type or their owner, and a marker
  is never written again.  Addresses of accounts of different types are assumed to differ.
\<close>

theorem permanent_accounts_stay:
  assumes "\<forall>tx \<in> set txs. lawful P raw p tx" and "ledger_wf L"
    and "\<forall>tx \<in> set txs. kinds_apart (runtime_of tx) p \<and> address_of (runtime_of tx) p i = k"
    and "type_at i = Some t" and "t \<in> {DConfig, DVaultRegistry, DConsensusResult, DEpochMarker}"
    and "discriminator_of (acc_data (L k)) = Some t"
  shows "discriminator_of (acc_data (run P p txs L k)) = Some t \<and>
    acc_owner (run P p txs L k) = acc_owner (L k) \<and>
    (t = DEpochMarker \<longrightarrow> acc_data (run P p txs L k) = acc_data (L k))"
proof -
  define I where "I M \<longleftrightarrow> ledger_wf M \<and> discriminator_of (acc_data (M k)) = Some t \<and>
    acc_owner (M k) = acc_owner (L k) \<and> (t = DEpochMarker \<longrightarrow> acc_data (M k) = acc_data (L k))" for M
  have nc: "t \<notin> closable" using assms(5) by (auto simp: closable_def)
  have "I (run P p txs L)"
  proof (rule run_invariant)
    fix tx M assume tx: "tx \<in> set txs" and M: "I M"
    have "k = address_of (runtime_of tx) p i" "kinds_apart (runtime_of tx) p" "lawful P raw p tx" "ledger_wf M"
      using tx M assms(1,3) by (auto simp: I_def)
    with execute_permanent [of P raw p tx M k i t] assms(4) nc M execute_wf [of P raw p tx M]
    show "I (execute P p tx M)" by (simp add: I_def)
  qed (use assms in \<open>simp add: I_def\<close>)
  then show ?thesis by (simp add: I_def)
qed

theorem permanent_accounts_stay_witness:
  "discriminator_of (acc_data (run spl_ops 9 [(chain, vote_accounts, CastVote 1 5)] ledger0 1056)) = Some DConsensusResult"
  using permanent_accounts_stay [of "[(chain, vote_accounts, CastVote 1 5)]" spl_ops "\<lambda>p. p" 9 ledger0
      "ConsensusResultId 11 5" 1056 DConsensusResult]
    vote_transaction(1) ledger0_wf chain_kinds_apart by (simp add: runtime_of_def chain_address ledger0_at)

section \<open>Who may do what\<close>

definition signed_by :: "account_info list \<Rightarrow> pubkey \<Rightarrow> bool" where
  "signed_by A k \<longleftrightarrow> (\<exists>a \<in> set A. ai_is_signer a \<and> ai_key a = k)"

text \<open>
  The instructions that ask for an authority.  All others can be sent by anybody, among them
  \<open>RegisterVault\<close>, which adds a vault to the registry, and \<open>SetEpochWeights\<close>, which copies the
  weights of the registry to the table of an epoch.
\<close>

fun privileged :: "NCNProgramInstruction \<Rightarrow> bool" where
  "privileged (InitializeConfig _ _ _ _) \<longleftrightarrow> True"
| "privileged (AdminSetNewAdmin _) \<longleftrightarrow> True"
| "privileged (AdminSetParameters _ _ _ _) \<longleftrightarrow> True"
| "privileged (AdminRegisterStMint _) \<longleftrightarrow> True"
| "privileged (AdminSetStMint _ _) \<longleftrightarrow> True"
| "privileged (AdminSetWeight _ _ _) \<longleftrightarrow> True"
| "privileged (AdminSetTieBreaker _ _) \<longleftrightarrow> True"
| "privileged (CastVote _ _) \<longleftrightarrow> True"
| "privileged _ \<longleftrightarrow> False"

text \<open>
  The authority of an instruction: the key it asks for, read from the NCN, the configuration
  or the operator it was passed, has signed, and the account it creates or changes lives at the
  address derived for that NCN.
\<close>

fun authorised :: "runtime \<Rightarrow> pubkey \<Rightarrow> account_info list \<Rightarrow> ledger \<Rightarrow> NCNProgramInstruction \<Rightarrow> bool" where
  "authorised E p A L (InitializeConfig _ _ _ _) \<longleftrightarrow>
     ai_key (A ! 0) = address_of E p (ConfigId (ai_key (A ! 1))) \<and>
     (\<exists>n. Ncn_of E (data_at L (A ! 1)) = Ok n \<and> signed_by A (ncn_admin n))"
| "authorised E p A L (AdminSetNewAdmin _) \<longleftrightarrow>
     ai_key (A ! 0) = address_of E p (ConfigId (ai_key (A ! 1))) \<and>
     (\<exists>n. Ncn_of E (data_at L (A ! 1)) = Ok n \<and> signed_by A (ncn_admin n))"
| "authorised E p A L (AdminSetParameters _ _ _ _) \<longleftrightarrow>
     ai_key (A ! 0) = address_of E p (ConfigId (ai_key (A ! 1))) \<and>
     (\<exists>n. Ncn_of E (data_at L (A ! 1)) = Ok n \<and> signed_by A (ncn_admin n))"
| "authorised E p A L (AdminRegisterStMint _) \<longleftrightarrow>
     ai_key (A ! 3) = address_of E p (VaultRegistryId (ai_key (A ! 1))) \<and>
     (\<exists>n. Ncn_of E (data_at L (A ! 1)) = Ok n \<and> signed_by A (ncn_program_admin n))"
| "authorised E p A L (AdminSetStMint _ _) \<longleftrightarrow>
     ai_key (A ! 2) = address_of E p (VaultRegistryId (ai_key (A ! 1))) \<and>
     (\<exists>n. Ncn_of E (data_at L (A ! 1)) = Ok n \<and> signed_by A (ncn_program_admin n))"
| "authorised E p A L (AdminSetWeight _ _ epoch) \<longleftrightarrow>
     ai_key (A ! 2) = address_of E p (WeightTableId (ai_key (A ! 1)) epoch) \<and>
     (\<exists>n. Ncn_of E (data_at L (A ! 1)) = Ok n \<and> signed_by A (ncn_weight_table_admin n))"
| "authorised E p A L (AdminSetTieBreaker _ epoch) \<longleftrightarrow>
     ai_key (A ! 2) = address_of E p (BallotBoxId (ai_key (A ! 3)) epoch) \<and>
     ai_key (A ! 1) = address_of E p (ConfigId (ai_key (A ! 3))) \<and>
     (\<exists>c. data_at L (A ! 1) = ConfigData c \<and> signed_by A (tie_breaker_admin c))"
| "authorised E p A L (CastVote _ epoch) \<longleftrightarrow>
     ai_key (A ! 2) = address_of E p (BallotBoxId (ai_key (A ! 3)) epoch) \<and>
     ai_key (A ! 5) = address_of E p (OperatorSnapshotId (ai_key (A ! 6)) (ai_key (A ! 3)) epoch) \<and>
     (\<exists>op. Operator_of E (data_at L (A ! 6)) = Ok op \<and> signed_by A (op_voter op))"
| "authorised E p A L _ \<longleftrightarrow> False"

lemma signer_signed: "runtime_laws E \<Longrightarrow> load_signer E a w L = Ok u \<Longrightarrow> ai_is_signer a"
  by (simp add: load_signer_def) (metis runtime_laws.signer_Ok old.unit.exhaust)

lemmas authority = signed_by_def result_simps

lemma config_address: "Config_find_program_address E p n = (k, b, s) \<Longrightarrow> k = address_of E p (ConfigId n)"
  by (auto simp: address_of_def Config_find_program_address_def Let_def split: prod.splits)

lemma privileged_handlers:
  assumes laws: "runtime_laws E"
  shows "yields (\<lambda>_. authorised E p A L (InitializeConfig a b c d))
      (process_admin_initialize_config E P p A a b c d L)"
    and "yields (\<lambda>_. authorised E p A L (AdminSetNewAdmin role)) (process_admin_set_new_admin E p A role L)"
    and "yields (\<lambda>_. authorised E p A L (AdminSetParameters sa sb sc sd)) (process_admin_set_parameters E p A sa sb sc sd L)"
    and "yields (\<lambda>_. authorised E p A L (AdminRegisterStMint w)) (process_admin_register_st_mint E p A w L)"
    and "yields (\<lambda>_. authorised E p A L (AdminSetStMint m w)) (process_admin_set_st_mint E p A m w L)"
    and "yields (\<lambda>_. authorised E p A L (AdminSetWeight m w' epoch)) (process_admin_set_weight E p A m epoch w' L)"
    and "yields (\<lambda>_. authorised E p A L (AdminSetTieBreaker st epoch)) (process_admin_set_tie_breaker E p A st epoch L)"
    and "yields (\<lambda>_. authorised E p A L (CastVote st epoch)) (process_cast_vote E P p A st epoch L)"
  subgoal unfolding process_admin_initialize_config_def
    by (intro yields_rules) (auto simp: authority dest!: signer_signed [OF laws] config_address)
  subgoal unfolding process_admin_set_new_admin_def
    by (intro yields_rules yields_any) (auto simp: authority dest!: signer_signed [OF laws] load_address)
  subgoal unfolding process_admin_set_parameters_def
    by (intro yields_rules) (auto simp: authority dest!: signer_signed [OF laws] load_address)
  subgoal unfolding process_admin_register_st_mint_def
    by (intro yields_rules) (auto simp: authority dest!: signer_signed [OF laws] load_address)
  subgoal unfolding process_admin_set_st_mint_def
    by (intro yields_rules) (auto simp: authority dest!: signer_signed [OF laws] load_address)
  subgoal unfolding process_admin_set_weight_def
    by (intro yields_rules) (auto simp: authority dest!: signer_signed [OF laws] load_address)
  subgoal unfolding process_admin_set_tie_breaker_def
    by (intro yields_rules) (auto simp: authority dest!: signer_signed [OF laws] load_address)
  subgoal unfolding process_cast_vote_def
    by (intro yields_rules) (auto simp: authority dest!: signer_signed [OF laws] load_address)
  done

lemma privileged_signed:
  assumes "runtime_laws E" and "privileged i" and "process_instruction E P own p A (Ok i) L = Ok L'"
  shows "authorised E p A L i"
proof -
  note h = privileged_handlers [OF assms(1), THEN yieldsD]
  show ?thesis
    using assms(2,3) unfolding process_instruction_def
    by (cases i) (auto simp: result_simps simp del: authorised.simps intro: h)
qed



section \<open>Closed epochs\<close>

text \<open>
  The instructions that create or close accounts of an epoch, with the position of the NCN
  among their accounts.
\<close>

fun opens_epoch :: "NCNProgramInstruction \<Rightarrow> (u64 \<times> nat) option" where
  "opens_epoch (InitializeEpochState e) = Some (e, 3)"
| "opens_epoch (InitializeWeightTable e) = Some (e, 3)"
| "opens_epoch (InitializeEpochSnapshot e) = Some (e, 3)"
| "opens_epoch (InitializeOperatorSnapshot e) = Some (e, 4)"
| "opens_epoch (InitializeBallotBox e) = Some (e, 4)"
| "opens_epoch (InitializeNCNRewardRouter e) = Some (e, 2)"
| "opens_epoch (InitializeOperatorVaultRewardRouter e) = Some (e, 2)"
| "opens_epoch (CloseEpochAccount e) = Some (e, 3)"
| "opens_epoch _ = None"

definition unmarked :: "runtime \<Rightarrow> pubkey \<Rightarrow> pubkey \<Rightarrow> u64 \<Rightarrow> ledger \<Rightarrow> bool" where
  "unmarked E p n e L \<longleftrightarrow> data_is_empty (acc_data (L (address_of E p (EpochMarkerId n e))))"

lemma check_dne_unmarked: "EpochMarker_check_dne E p a n e L = Ok u \<Longrightarrow> unmarked E p n e L"
  using load_address(9) [of E p a n e L u]
  unfolding unmarked_def EpochMarker_check_dne_Ok data_at_def by metis

lemma opening_handlers:
  "yields (\<lambda>_. unmarked E p (ai_key (A ! 3)) e L) (process_initialize_epoch_state E p A e L)"
  "yields (\<lambda>_. unmarked E p (ai_key (A ! 3)) e L) (process_initialize_weight_table E p A e L)"
  "yields (\<lambda>_. unmarked E p (ai_key (A ! 3)) e L) (process_initialize_epoch_snapshot E p A e L)"
  "yields (\<lambda>_. unmarked E p (ai_key (A ! 4)) e L) (process_initialize_operator_snapshot E p A e L)"
  "yields (\<lambda>_. unmarked E p (ai_key (A ! 4)) e L) (process_initialize_ballot_box E p A e L)"
  "yields (\<lambda>_. unmarked E p (ai_key (A ! 2)) e L) (process_initialize_ncn_reward_router E p A e L)"
  "yields (\<lambda>_. unmarked E p (ai_key (A ! 2)) e L) (process_initialize_operator_vault_reward_router E p A e L)"
  "yields (\<lambda>_. unmarked E p (ai_key (A ! 3)) e L) (process_close_epoch_account E p A e L)"
  subgoal unfolding process_initialize_epoch_state_def
    by (intro yields_rules yields_any) (auto dest: check_dne_unmarked)
  subgoal unfolding process_initialize_weight_table_def
    by (intro yields_rules yields_any) (auto dest: check_dne_unmarked)
  subgoal unfolding process_initialize_epoch_snapshot_def
    by (intro yields_rules yields_any) (auto dest: check_dne_unmarked)
  subgoal unfolding process_initialize_operator_snapshot_def
    by (intro yields_rules yields_any) (auto dest: check_dne_unmarked)
  subgoal unfolding process_initialize_ballot_box_def
    by (intro yields_rules yields_any) (auto dest: check_dne_unmarked)
  subgoal unfolding process_initialize_ncn_reward_router_def
    by (intro yields_rules yields_any) (auto dest: check_dne_unmarked)
  subgoal unfolding process_initialize_operator_vault_reward_router_def
    by (intro yields_rules yields_any) (auto dest: check_dne_unmarked)
  subgoal unfolding process_close_epoch_account_def
    by (intro yields_rules yields_any) (auto dest: check_dne_unmarked)
  done

text \<open>
  C11: once the marker of an epoch exists, the epoch stays closed: after any further run no
  instruction creates an account of that epoch again, and none closes one.
\<close>

theorem closed_epoch_stays_closed:
  assumes "\<forall>tx \<in> set txs. lawful P raw p tx" and "ledger_wf L"
    and "\<forall>tx \<in> set txs. kinds_apart (runtime_of tx) p \<and> address_of (runtime_of tx) p (EpochMarkerId n e) = k"
    and "acc_data (L k) = EpochMarkerData m" and "address_of E p (EpochMarkerId n e) = k"
    and "opens_epoch i = Some (e, j)" and "ai_key (A ! j) = n"
  shows "\<not> is_ok (process_instruction E P own p A (Ok i) (run P p txs L))"
proof -
  have "acc_data (run P p txs L k) = acc_data (L k)"
  proof -
    define I where "I M \<longleftrightarrow> ledger_wf M \<and> acc_data (M k) = EpochMarkerData m" for M
    have "I (run P p txs L)"
    proof (rule run_invariant)
      fix tx M assume tx: "tx \<in> set txs" and M: "I M"
      then show "I (execute P p tx M)"
        using execute_permanent [of P raw p tx M k "EpochMarkerId n e" DEpochMarker] assms(1,3)
          execute_wf [of P raw p tx M] by (simp add: I_def closable_def)
    qed (use assms in \<open>simp add: I_def\<close>)
    then show ?thesis using assms(4) by (simp add: I_def)
  qed
  then have marked: "\<not> unmarked E p n e (run P p txs L)"
    using assms(4,5) by (simp add: unmarked_def)
  note h = opening_handlers [THEN yieldsD]
  have "unmarked E p n e (run P p txs L)" if "process_instruction E P own p A (Ok i) (run P p txs L) = Ok L'" for L'
    using that assms(6,7) unfolding process_instruction_def
    by (cases i) (auto simp: result_simps dest: h)
  with marked show ?thesis by (auto simp: is_ok_iff)
qed

theorem closed_epoch_stays_closed_witness:
  "\<not> is_ok (process_instruction chain spl_ops 9 9 (map acc [1084, 1051, 1038, 11, 1077, 0]) (Ok (InitializeEpochState 5))
     (run spl_ops 9 [create_registry]
       (no_registry(1084 := owned (EpochMarkerData (EpochMarker_new 11 5 110))))))"
proof -
  have "ledger_wf (no_registry(1084 := owned (EpochMarkerData (EpochMarker_new 11 5 110))))"
    using no_registry_wf by (simp add: ledger_wf_def)
  then show ?thesis
    using create_registry_runs(1) chain_kinds_apart
    by (intro closed_epoch_stays_closed [where n = 11 and e = 5 and k = 1084 and j = 3
          and raw = "\<lambda>p. p" and m = "EpochMarker_new 11 5 110"])
      (simp_all add: runtime_of_def create_registry_def chain_address)
qed

end
