(* ===== verification/Instruction_Properties.thy ===== *)
theory Instruction_Properties
  imports Program_Properties
begin

text \<open>
  What single instructions do to the ledger: the vote, the weights of an epoch, payments of
  rewards, growth of accounts and closing.
\<close>

section \<open>Casting a vote\<close>

lemma cast_vote_Ok:
  assumes ok: "process_cast_vote E P p A status epoch L = Ok L'"
    and A: "A = est # cfg # bbx # ncn # snap # osnap # op # voter # cr # rest"
  obtains b c s os b1 b' es es' L1 u v w where
    "ConsensusResult_load E p cr (ai_key ncn) epoch True L = Ok u" "EpochState_load E p est (ai_key ncn) epoch False L = Ok v"
    "BallotBox_load E p bbx (ai_key ncn) epoch True L = Ok w"
    "data_at L bbx = BallotBoxData b" "data_at L cfg = ConfigData c" "data_at L snap = EpochSnapshotData s"
    "data_at L osnap = OperatorSnapshotData os" "EpochSnapshot_finalized s" "stake_weight (os_stake_weights os) \<noteq> 0"
    "cast_vote b (ai_key op) (Ballot_new status) (os_stake_weights os) (clock_slot E) (valid_slots_after_consensus c) = Ok b1"
    "tally_votes P b1 (stake_weight (es_stake_weights s)) (clock_slot E) = Ok b'"
    "(if is_consensus_reached b'
      then and_then (into_program (get_winning_ballot_tally b')) (\<lambda>winning.
        and_then (ConsensusResult_of (data_at (set_data L bbx (BallotBoxData b')) cr)) (\<lambda>c.
        and_then (into_program (record_consensus c (weather_status (bt_ballot winning))
          (ucast (stake_weight (bt_stake_weights winning))) (ucast (stake_weight (es_stake_weights s))) (clock_slot E))) (\<lambda>c.
        Ok (set_data (set_data L bbx (BallotBoxData b')) cr (ConsensusResultData c)))))
      else Ok (set_data L bbx (BallotBoxData b'))) = Ok L1"
    "data_at L1 est = EpochStateData es" "update_cast_vote es (operators_voted b') (is_consensus_reached b') (clock_slot E) = Ok es'"
    "L' = set_data L1 est (EpochStateData es')"
proof -
  have "yields (\<lambda>x. x = L' \<longrightarrow> thesis) (process_cast_vote E P p A status epoch L)"
    unfolding A process_cast_vote_def list.case
    by (intro yields_rules impI, unfold typed_views map_err_eq_Ok) (rule that, (assumption | erule sym)+)
  then show ?thesis using ok by (simp add: yields_def)
qed

text \<open>Accounts loaded as different types are different accounts.\<close>

lemma loaded_apart:
  assumes "check_load p a pda (Some t) w L = Ok u" and "check_load q b pdb (Some t') w' L = Ok v" and "t \<noteq> t'"
  shows "ai_key a \<noteq> ai_key b"
  using assms by (auto simp: check_load_Ok data_at_def)

lemma winning_stake:
  assumes wf: "bb_wf b" and w: "get_winning_ballot_tally b = Ok w"
  shows "weather_status (bt_ballot w) = weather_status (winning_ballot b)"
    and "unat (stake_weight (bt_stake_weights w)) = log_stake (weather_status (winning_ballot b)) (ballot_log b)"
proof -
  have v: "ballot_is_valid (winning_ballot b)" using w by (simp add: get_winning_ballot_tally_def split: if_splits)
  from winning_tally_found [OF wf v] w obtain i where i: "i < length (live_tallies b)" "w = live_tallies b ! i"
    "weather_status (bt_ballot w) = weather_status (winning_ballot b)" by auto
  then show "weather_status (bt_ballot w) = weather_status (winning_ballot b)"
    "unat (stake_weight (bt_stake_weights w)) = log_stake (weather_status (winning_ballot b)) (ballot_log b)"
    using live_tally_stake [OF wf nth_mem [OF i(1)]] by simp_all
qed

lemma recorded_consensus:
  assumes "record_consensus c st w tw slot = Ok c'"
  shows "cr_vote_weight c' = w"
    and "\<not> ConsensusResult_is_consensus_reached c \<Longrightarrow>
      cr_weather_status c' = st \<and> cr_total_vote_weight c' = tw \<and> cr_consensus_slot c' = slot"
    and "ConsensusResult_is_consensus_reached c \<Longrightarrow>
      cr_weather_status c' = cr_weather_status c \<and> cr_consensus_slot c' = cr_consensus_slot c"
  using assms by (auto simp: record_consensus_def split: if_splits)

text \<open>The effect of a successful vote on the ledger.\<close>

lemma cast_vote_effect:
  assumes pr: "ncn_program E P raw" and L: "ledger_wf L"
    and ok: "process_cast_vote E P p A status epoch L = Ok L'"
    and A: "A = est # cfg # bbx # ncn # snap # osnap # op # voter # cr # rest"
  obtains b b1 b' s os v d es' where
    "data_at L bbx = BallotBoxData b" "data_at L snap = EpochSnapshotData s"
    "data_at L osnap = OperatorSnapshotData os" "bb_wf b" "bb_wf b1" "bb_wf b'"
    "cast_vote b (ai_key op) (Ballot_new status) (os_stake_weights os) (clock_slot E) v = Ok b1"
    "tally_votes P b1 (stake_weight (es_stake_weights s)) (clock_slot E) = Ok b'"
    "ballot_log b' = ballot_log b @ [(ai_key op, status, weight_of (os_stake_weights os))]"
    "if is_consensus_reached b'
     then \<exists>c c'. data_at L cr = ConsensusResultData c \<and> d = ConsensusResultData c' \<and>
       record_consensus c (weather_status (winning_ballot b'))
         (word_of_nat (log_stake (weather_status (winning_ballot b')) (ballot_log b')))
         (ucast (stake_weight (es_stake_weights s))) (clock_slot E) = Ok c'
     else d = data_at L cr"
    "L' = set_data (set_data (set_data L bbx (BallotBoxData b')) cr d) est (EpochStateData es')"
    "EpochSnapshot_finalized s" "weight_of (os_stake_weights os) \<noteq> 0"
    "ai_key cr \<noteq> ai_key bbx" "ai_key est \<noteq> ai_key cr" "ai_key est \<noteq> ai_key bbx"
  using ok A
proof (rule cast_vote_Ok, goal_cases)
  case (1 b c s os b1 b' es es' L1 u v x)
  have P: "precise_number P raw" using pr by (rule ncn_program.axioms)
  have wf: "bb_wf b" using wf_views(2) [OF L 1(5)] .
  have wf1: "bb_wf b1" by (rule cast_vote_facts [OF wf 1(11)])
  have wf': "bb_wf b'" by (rule tally_votes_wf [OF P wf1 1(12)])
  have log: "ballot_log b' = ballot_log b @ [(ai_key op, status, weight_of (os_stake_weights os))]"
    using cast_vote_log [OF wf 1(11)] tally_votes_OkD [OF wf1 1(12)] by (auto simp: ballot_log_def cast_votes_def)
  have ne: "ai_key cr \<noteq> ai_key bbx" "ai_key est \<noteq> ai_key cr" "ai_key est \<noteq> ai_key bbx"
    using loaded_apart 1(2-4) unfolding load_defs by blast+
  let ?L = "set_data L bbx (BallotBoxData b')"
  show ?case
  proof (cases "is_consensus_reached b'")
    case True
    with 1(13) obtain w c0 c' where w: "get_winning_ballot_tally b' = Ok w"
      and c0: "data_at ?L cr = ConsensusResultData c0"
      and c': "record_consensus c0 (weather_status (bt_ballot w)) (ucast (stake_weight (bt_stake_weights w)))
        (ucast (stake_weight (es_stake_weights s))) (clock_slot E) = Ok c'"
      and L1: "L1 = set_data ?L cr (ConsensusResultData c')"
      by (auto simp: result_simps)
    note win = winning_stake [OF wf' w]
    have "(ucast (stake_weight (bt_stake_weights w)) :: u64) =
        word_of_nat (log_stake (weather_status (winning_ballot b')) (ballot_log b'))"
      by (simp flip: win(2))
    then show ?thesis
      using 1(5-12,14-) True wf wf1 wf' ne log c0 c' win(1)
      by (intro 1(1) [of b s os b1 b' _ "ConsensusResultData c'" es']) (auto simp: L1 ledger_simps unat_eq_0)
  next
    case False
    with 1(13) have L1: "L1 = set_data ?L cr (data_at L cr)" using ne by (auto simp: set_data_def data_at_def)
    show ?thesis
      using 1(5-12,14-) False wf wf1 wf' ne log
      by (intro 1(1) [of b s os b1 b' _ "data_at L cr" es']) (auto simp: L1 unat_eq_0)
  qed
qed

text \<open>
  C9: what a successful \<open>CastVote\<close> does.  The epoch snapshot is finalized, the operator has
  stake and had not voted; its vote with the stake of its snapshot is appended to the log of
  the ballot box.  If the box is decided, the consensus result holds the stake of the winning
  status, and, when it is recorded for the first time, the winning status, the total and the
  slot; if not, the consensus result is untouched.
\<close>

theorem cast_vote_instruction:
  assumes "ncn_program E P raw" and "ledger_wf L"
    and "process_cast_vote E P p A status epoch L = Ok L'"
    and "A = est # cfg # bbx # ncn # snap # osnap # op # voter # cr # rest"
  shows "\<exists>b s os b'. data_at L bbx = BallotBoxData b \<and> data_at L snap = EpochSnapshotData s \<and>
    data_at L osnap = OperatorSnapshotData os \<and> data_at L' bbx = BallotBoxData b' \<and> bb_wf b' \<and>
    EpochSnapshot_finalized s \<and> weight_of (os_stake_weights os) \<noteq> 0 \<and> ai_key op \<notin> fst ` set (ballot_log b) \<and>
    ballot_log b' = ballot_log b @ [(ai_key op, status, weight_of (os_stake_weights os))] \<and>
    (if is_consensus_reached b'
     then \<exists>c c'. data_at L cr = ConsensusResultData c \<and> data_at L' cr = ConsensusResultData c' \<and>
       cr_vote_weight c' = word_of_nat (log_stake (weather_status (winning_ballot b')) (ballot_log b')) \<and>
       (\<not> ConsensusResult_is_consensus_reached c \<longrightarrow>
          cr_weather_status c' = weather_status (winning_ballot b') \<and> cr_consensus_slot c' = clock_slot E \<and>
          cr_total_vote_weight c' = ucast (stake_weight (es_stake_weights s)))
     else data_at L' cr = data_at L cr)"
proof (rule cast_vote_effect [OF assms], goal_cases)
  case (1 b b1 b' s os v d es)
  have at: "data_at L' bbx = BallotBoxData b'" "data_at L' cr = d" using 1(11,14-16) by (auto simp: ledger_simps)
  have "if is_consensus_reached b'
     then \<exists>c c'. data_at L cr = ConsensusResultData c \<and> data_at L' cr = ConsensusResultData c' \<and>
       cr_vote_weight c' = word_of_nat (log_stake (weather_status (winning_ballot b')) (ballot_log b')) \<and>
       (\<not> ConsensusResult_is_consensus_reached c \<longrightarrow>
          cr_weather_status c' = weather_status (winning_ballot b') \<and> cr_consensus_slot c' = clock_slot E \<and>
          cr_total_vote_weight c' = ucast (stake_weight (es_stake_weights s)))
     else data_at L' cr = data_at L cr"
    using 1(10) recorded_consensus(1,2) by (fastforce simp: at)
  with 1 at cast_vote_fresh(1) [OF 1(4,7)] show ?case by blast
qed

theorem cast_vote_instruction_witness:
  "data_at ledger1 (acc 1050) = BallotBoxData box2 \<and> ballot_log box2 = [(7, 1, 70)] \<and> is_consensus_reached box2 \<and>
   (\<exists>c'. data_at ledger1 (acc 1056) = ConsensusResultData c' \<and> cr_weather_status c' = 1 \<and> cr_consensus_slot c' = 120)"
proof -
  have d: "data_at ledger1 (acc 1050) = BallotBoxData box2" by (simp add: ledger1_def ledger_simps)
  have "data_at ledger0 (acc 1050) = BallotBoxData box0" "data_at ledger0 (acc 1089) = OperatorSnapshotData op_snapshot1"
    "data_at ledger0 (acc 1056) = ConsensusResultData (ConsensusResult_new 11 5 255)"
    by (simp_all add: data_at_def ledger0_at)
  note facts = this d
  show ?thesis
    using cast_vote_instruction [OF chain_program ledger0_wf vote0 vote_accounts_def [unfolded list.map]]
    unfolding facts account_data.inject
    by (elim exE conjE) (simp add: box0_facts op_snapshot1_stake StakeWeights_new_def box2_decided
        ConsensusResult_is_consensus_reached_def ConsensusResult_new_def, metis)
qed

section \<open>The weights of an epoch\<close>

abbreviation table_mints :: "weight_table \<Rightarrow> pubkey set" where
  "table_mints t \<equiv> we_st_mint ` set (weight_entries t)"

lemma set_weights_loop_runs:
  assumes "wt_wf t" and "\<forall>e \<in> set es. sme_st_mint e \<noteq> Pubkey_default \<and> sme_weight e \<noteq> 0"
  shows "if sme_st_mint ` set es \<subseteq> table_mints t
    then \<exists>t'. set_weights_loop slot es t = Ok t' \<and> wt_wf t' \<and> table_mints t' = table_mints t \<and>
      wt_vault_registry t' = wt_vault_registry t \<and> wt_vault_count t' = wt_vault_count t
    else set_weights_loop slot es t = Err (program_error_of InvalidMintForWeightTable)"
  using assms
proof (induction es arbitrary: t)
  case (Cons x es)
  have x: "sme_st_mint x \<noteq> Pubkey_default" "sme_weight x \<noteq> 0" using Cons.prems(2) by auto
  show ?case
  proof (cases "sme_st_mint x \<in> table_mints t")
    case True
    obtain t1 where t1: "WeightTable_set_weight t (sme_st_mint x) (sme_weight x) slot = Ok t1"
      using set_weight_succeeds [OF Cons.prems(1) True] by blast
    note sw = set_weight_OkD [OF Cons.prems(1) x(1) t1]
    have km: "table_mints t1 = table_mints t" unfolding set_map [symmetric] sw(3) ..
    have step: "set_weights_loop slot (x # es) t = set_weights_loop slot es t1" using x t1 by simp
    have sub: "sme_st_mint ` set (x # es) \<subseteq> table_mints t \<longleftrightarrow> sme_st_mint ` set es \<subseteq> table_mints t1"
      using True km by simp
    have "\<forall>e \<in> set es. sme_st_mint e \<noteq> Pubkey_default \<and> sme_weight e \<noteq> 0" using Cons.prems(2) by simp
    from Cons.IH [OF sw(1) this] show ?thesis unfolding step sub by (simp only: km sw(4,5))
  next
    case False
    have "we_st_mint e \<noteq> sme_st_mint x" if "e \<in> set (wt_table t)" for e
    proof
      assume eq: "we_st_mint e = sme_st_mint x"
      then have "e \<in> set (weight_entries t)" using that x(1) by (simp add: weights.live_def)
      with False eq show False by (metis imageI)
    qed
    then have "position (\<lambda>e. we_st_mint e = sme_st_mint x) (wt_table t) = None" by (simp add: position_None)
    then have "set_weights_loop slot (x # es) t = Err (program_error_of InvalidMintForWeightTable)"
      using x by (simp add: WeightTable_set_weight_def)
    moreover have "\<not> sme_st_mint ` set (x # es) \<subseteq> table_mints t" using False by simp
    ultimately show ?thesis by (simp only: if_False)
  qed
qed simp

lemma set_weights_loop_weights:
  assumes "set_weights_loop slot es t = Ok t'" and "wt_wf t"
    and "\<forall>e \<in> set es. sme_st_mint e \<noteq> Pubkey_default" and "distinct (map sme_st_mint es)"
  shows "get_weight t' k =
    (case find (\<lambda>e. sme_st_mint e = k) es of Some e \<Rightarrow> Ok (sme_weight e) | None \<Rightarrow> get_weight t k)"
  using assms
proof (induction es arbitrary: t)
  case (Cons x es)
  have x: "sme_st_mint x \<noteq> Pubkey_default" using Cons.prems(3) by simp
  from Cons.prems(1) obtain t1 where t1: "WeightTable_set_weight t (sme_st_mint x) (sme_weight x) slot = Ok t1"
    and rest: "set_weights_loop slot es t1 = Ok t'" by (auto simp: result_simps)
  note sw = set_weight_OkD(1,2) [OF Cons.prems(2) x t1]
  have "find (\<lambda>e. sme_st_mint e = k) es = None" if "sme_st_mint x = k"
    using that Cons.prems(4) by (simp add: find_None_iff) (metis imageI)
  with Cons.IH [OF rest sw(1)] Cons.prems(3,4) sw(2) [of k] show ?case by (auto split: option.splits)
qed simp

lemma set_weights_loop_entries:
  assumes "set_weights_loop slot es t = Ok t'" and "wt_wf t" and "slot \<noteq> 0"
    and "\<forall>e \<in> set es. sme_st_mint e \<noteq> Pubkey_default" and "e \<in> set (weight_entries t')"
  shows "WeightEntry_is_set e \<or> e \<in> set (weight_entries t) \<and> we_st_mint e \<notin> sme_st_mint ` set es"
  using assms
proof (induction es arbitrary: t)
  case (Cons x es)
  have x: "sme_st_mint x \<noteq> Pubkey_default" using Cons.prems(4) by simp
  from Cons.prems(1) obtain t1 where t1: "WeightTable_set_weight t (sme_st_mint x) (sme_weight x) slot = Ok t1"
    and rest: "set_weights_loop slot es t1 = Ok t'" by (auto simp: result_simps)
  note wf1 = set_weight_OkD(1) [OF Cons.prems(2) x t1]
  have "WeightEntry_is_set e \<or> e \<in> set (weight_entries t1) \<and> we_st_mint e \<notin> sme_st_mint ` set es"
    by (rule Cons.IH [OF rest wf1 Cons.prems(3) _ Cons.prems(5)]) (use Cons.prems(4) in simp)
  then show ?case using set_weight_entries [OF Cons.prems(2) x Cons.prems(3) t1, of e] by auto
qed simp

text \<open>
  C24: \<open>SetEpochWeights\<close> on an initialized weight table that is not finalized.  If the table has
  every mint of the registry it succeeds: each of these mints gets the weight of the registry,
  no other weight changes, and the table is finalized as soon as the registry has every mint
  of the table.  If a mint was registered after the table was created the instruction fails
  with \<open>InvalidMintForWeightTable\<close>, so that such a table can only be finished by the weight
  table admin.
\<close>

theorem set_epoch_weights_instruction:
  assumes "ledger_wf L" and "clock_slot E \<noteq> 0"
    and "EpochState_load E p est (ai_key ncn) epoch True L = Ok ()" and "data_at L est = EpochStateData es"
    and "Ncn_load E ncn False L = Ok ()"
    and "WeightTable_load E p tbl (ai_key ncn) epoch True L = Ok ()" and "data_at L tbl = WeightTableData t"
    and "VaultRegistry_load E p reg (ai_key ncn) False L = Ok ()" and "data_at L reg = VaultRegistryData r"
    and "table_initialized t" and "\<not> finalized t"
  shows "if sme_st_mint ` set (get_valid_mint_entries r) \<subseteq> table_mints t
    then \<exists>L' t'. process_set_epoch_weights E p [est, ncn, reg, tbl] epoch L = Ok L' \<and>
      data_at L' tbl = WeightTableData t' \<and> wt_wf t' \<and> table_mints t' = table_mints t \<and>
      (\<forall>k. get_weight t' k = (case find (\<lambda>e. sme_st_mint e = k) (get_valid_mint_entries r) of
         Some e \<Rightarrow> Ok (sme_weight e) | None \<Rightarrow> get_weight t k)) \<and>
      (vault_registry_initialized t \<and> table_mints t \<subseteq> sme_st_mint ` set (get_valid_mint_entries r) \<longrightarrow> finalized t')
    else process_set_epoch_weights E p [est, ncn, reg, tbl] epoch L =
      Err (program_error_of InvalidMintForWeightTable)"
proof -
  let ?es = "get_valid_mint_entries r" and ?slot = "clock_slot E"
  have wf: "wt_wf t" using ledger_wf_data [OF assms(1), of tbl] assms(7) by simp
  have rwf: "vr_mints_ok r" using wf_views(1) [OF assms(1,9)] by (simp add: vr_wf_def)
  have named: "\<forall>e \<in> set ?es. sme_st_mint e \<noteq> Pubkey_default" by (simp add: valid_mints_named)
  have es: "\<forall>e \<in> set ?es. sme_st_mint e \<noteq> Pubkey_default \<and> sme_weight e \<noteq> 0"
    using rwf named by (simp add: vr_mints_ok_def)
  have dist: "distinct (map sme_st_mint ?es)" using rwf by (simp add: vr_mints_ok_def valid_mints_live mints.keys_ok_def)
  have ne: "ai_key est \<noteq> ai_key tbl" using assms(3,6) loaded_apart unfolding load_defs by blast
  have step: "process_set_epoch_weights E p [est, ncn, reg, tbl] epoch L =
    and_then (set_weights_loop ?slot ?es t) (\<lambda>t'. Ok (set_data (set_data L tbl (WeightTableData t')) est
      (EpochStateData (update_set_weight es (word_of_nat (weight_count t')) (word_of_nat (WeightTable_st_mint_count t'))))))"
    using assms(4,7,9) ne
    by (simp add: process_set_epoch_weights_def assms(3,5,6,8,10,11) check_table_initialized_def Let_def ledger_simps)
  show ?thesis
  proof (cases "sme_st_mint ` set ?es \<subseteq> table_mints t")
    case True
    then obtain t' where t': "set_weights_loop ?slot ?es t = Ok t'" "wt_wf t'" "table_mints t' = table_mints t"
      "wt_vault_registry t' = wt_vault_registry t" "wt_vault_count t' = wt_vault_count t"
      using set_weights_loop_runs [OF wf es, of ?slot] by auto
    have fin: "finalized t'" if "vault_registry_initialized t" "table_mints t \<subseteq> sme_st_mint ` set ?es"
    proof -
      have "weight_entries t' \<noteq> []" using t'(3) assms(10)
        by (auto simp: table_initialized_def mint_count_live)
      moreover have "vault_registry_initialized t'"
        using that(1) t'(4,5) by (simp add: vault_registry_initialized_def vault_entry_count_def)
      moreover have "WeightEntry_is_set e" if e: "e \<in> set (weight_entries t')" for e
        using set_weights_loop_entries [OF t'(1) wf assms(2) named e] e t'(3) \<open>table_mints t \<subseteq> _\<close> by blast
      ultimately show ?thesis by (simp add: finalized_iff [OF t'(2)])
    qed
    show ?thesis
      using True t' ne fin set_weights_loop_weights [OF t'(1) wf named dist]
      by (simp add: step ledger_simps)
  next
    case False
    then have "set_weights_loop ?slot ?es t = Err (program_error_of InvalidMintForWeightTable)"
      using set_weights_loop_runs [OF wf es, of ?slot] by simp
    with False show ?thesis by (simp add: step)
  qed
qed

lemma table0_open: "table_initialized table0" "\<not> finalized table0"
  by (simp_all add: table_initialized_def mint_count_live table0_facts finalized_iff WeightEntry_is_set_def WeightEntry_new_def)

theorem set_epoch_weights_instruction_witness:
  "\<exists>L' t'. process_set_epoch_weights chain 9 [acc 1051, acc 11, acc 1046, acc 1052] 5 ledger0 = Ok L' \<and>
     data_at L' (acc 1052) = WeightTableData t' \<and> finalized t' \<and> get_weight t' 21 = Ok 300"
proof -
  have "sme_st_mint ` set (get_valid_mint_entries registry2) = {21}" "table_mints table0 = {21}"
    "find (\<lambda>e. sme_st_mint e = 21) (get_valid_mint_entries registry2) = Some (StMintEntry_new 21 300)"
    by (simp_all add: registry2_facts table0_facts StMintEntry_new_def)
  moreover have "EpochState_load chain 9 (acc 1051) (ai_key (acc 11)) 5 True ledger0 = Ok ()"
    "WeightTable_load chain 9 (acc 1052) (ai_key (acc 11)) 5 True ledger0 = Ok ()"
    "VaultRegistry_load chain 9 (acc 1046) (ai_key (acc 11)) False ledger0 = Ok ()"
    "Ncn_load chain (acc 11) False ledger0 = Ok ()"
    by (simp_all add: load_defs loads_typed Ncn_load_def data_at_def ledger0_at)
  moreover have "data_at ledger0 (acc 1051) = EpochStateData epoch_state0" "data_at ledger0 (acc 1052) = WeightTableData table0"
    "data_at ledger0 (acc 1046) = VaultRegistryData registry2" by (simp_all add: data_at_def ledger0_at)
  ultimately show ?thesis
    using set_epoch_weights_instruction [of ledger0 chain 9 "acc 1051" "acc 11" 5 epoch_state0 "acc 1052" table0 "acc 1046" registry2]
      ledger0_wf table0_open table0_facts(3)
    by (auto simp: StMintEntry_new_def)
qed

section \<open>Payments\<close>

text \<open>\<open>n\<close> lamports have moved from one account to another.\<close>

definition moved :: "pubkey \<Rightarrow> pubkey \<Rightarrow> u64 \<Rightarrow> ledger \<Rightarrow> ledger \<Rightarrow> bool" where
  "moved f t n L L' \<longleftrightarrow>
     unat (lamports (L f)) = unat (lamports (L' f)) + unat n \<and>
     unat (lamports (L' t)) = unat (lamports (L t)) + unat n \<and>
     (\<forall>k. k \<notin> {f, t} \<longrightarrow> lamports (L' k) = lamports (L k))"

lemma transferred_moves:
  assumes "can_pay f t n L" and "f \<noteq> t"
  shows "moved f t n L (transferred f t n L)"
proof -
  have n: "n \<le> lamports (L f)" "unat (lamports (L t)) + unat n < 2 ^ 64"
    using assms by (simp_all add: can_pay_def)
  then show ?thesis
    using assms(2) by (simp add: moved_def transferred_lamports unat_sub word_le_nat_alt unat_add_small)
qed

lemma payment_moves:
  fixes rewards :: u64
  assumes "runtime_laws E" and "f \<noteq> t"
    and "(if 0 < rewards then let (_, bump, seeds) = fnd in invoke_signed E p (Transfer f t rewards) (seeds @ [[bump]]) L
      else Ok L) = Ok L'"
  shows "moved f t rewards L L'" and "acc_data (L' k) = acc_data (L k)"
proof -
  have "(rewards = 0 \<and> L' = L) \<or> (can_pay f t rewards L \<and> L' = transferred f t rewards L)"
    using assms(3) runtime_laws.transfer_Ok [OF assms(1)]
    by (auto split: if_splits prod.splits simp: Let_def word_neq_0_conv)
  then show "moved f t rewards L L'" "acc_data (L' k) = acc_data (L k)"
    using transferred_moves [OF _ assms(2)] by (auto simp: moved_def)
qed

lemma moved_data:
  "moved f t n (set_data L a d) L' \<longleftrightarrow> moved f t n L L'" "moved f t n L (set_data L' a d) \<longleftrightarrow> moved f t n L L'"
  by (auto simp: moved_def ledger_simps)

lemma distribute_ncn_rewards_Ok:
  assumes ok: "process_distribute_ncn_rewards E p [est, cfg, ncn, rtr, rcv, wal, sys] epoch L = Ok L'"
  obtains c r r' n es L1 u v where
    "EpochState_load E p est (ai_key ncn) epoch True L = Ok u"
    "NCNRewardRouter_load E p rtr (ai_key ncn) epoch True L = Ok v"
    "data_at L cfg = ConfigData c" "ncn_fee_wallets (fee_config_of c) = ai_key wal"
    "data_at L rtr = NCNRewardRouterData r" "\<not> NCNRewardRouter_still_routing r"
    "distribute_ncn_fee_rewards r = Ok (r', n)"
    "(if 0 < n then let (_, bump, seeds) = NCNRewardReceiver_find_program_address E p (ai_key ncn) epoch in
        invoke_signed E p (Transfer (ai_key rcv) (ai_key wal) n) (seeds @ [[bump]]) (set_data L rtr (NCNRewardRouterData r'))
      else Ok (set_data L rtr (NCNRewardRouterData r'))) = Ok L1"
    "data_at L1 est = EpochStateData es"
    "L' = set_data L1 est (EpochStateData (update_distribute_ncn_rewards es n))"
proof -
  have "yields (\<lambda>x. x = L' \<longrightarrow> thesis)
    (process_distribute_ncn_rewards E p [est, cfg, ncn, rtr, rcv, wal, sys] epoch L)"
    unfolding process_distribute_ncn_rewards_def list.case
    by (intro yields_rules impI, unfold typed_views map_err_eq_Ok, hypsubst)
      (rule that, (assumption | erule sym)+)
  then show ?thesis using ok by (simp add: yields_def)
qed

text \<open>
  C23: a successful \<open>DistributeNCNRewards\<close> pays the fee wallet of the configuration exactly the
  NCN rewards of the router, out of the receiver, and clears them: the router owes that much
  less, everything else it owes is unchanged.
\<close>

theorem distribute_ncn_rewards_instruction:
  assumes "runtime_laws E" and "ledger_wf L" and "ai_key rcv \<noteq> ai_key wal"
    and "process_distribute_ncn_rewards E p [est, cfg, ncn, rtr, rcv, wal, sys] epoch L = Ok L'"
  shows "\<exists>c r r'. data_at L cfg = ConfigData c \<and> ai_key wal = ncn_fee_wallets (fee_config_of c) \<and>
    data_at L rtr = NCNRewardRouterData r \<and> data_at L' rtr = NCNRewardRouterData r' \<and>
    moved (ai_key rcv) (ai_key wal) (ncn_rewards r) L L' \<and> ncn_rewards r' = 0 \<and>
    nr_in_transit r = nr_in_transit r' + unat (ncn_rewards r) \<and> protocol_rewards r' = protocol_rewards r \<and>
    operator_vault_reward_routes r' = operator_vault_reward_routes r"
  using assms(4)
proof (rule distribute_ncn_rewards_Ok, goal_cases)
  case (1 c r r' n es L1 u v)
  have wf: "nr_wf r" using ledger_wf_data [OF assms(2), of rtr] 1(5) by simp
  from distribute_ncn_pays [OF wf] 1(7) have pays: "n = ncn_rewards r" "paid r r' (ncn_rewards r)" "ncn_rewards r' = 0"
    "protocol_rewards r' = protocol_rewards r" "operator_vault_reward_routes r' = operator_vault_reward_routes r" by auto
  have ne: "ai_key est \<noteq> ai_key rtr" using 1(1,2) loaded_apart unfolding load_defs by blast
  note pm = payment_moves [OF assms(1,3) 1(8)]
  have "moved (ai_key rcv) (ai_key wal) n L L'" using pm(1) 1(10) by (simp add: moved_data)
  moreover have "data_at L' rtr = NCNRewardRouterData r'"
    using pm(2) [of "ai_key rtr"] 1(10) ne by (simp add: data_at_def ledger_simps)
  ultimately show ?case using 1 pays by (auto simp: paid_def)
qed

definition paying_router :: ncn_reward_router where
  "paying_router = ncn_router0\<lparr>nr_total_rewards := 100, nr_rewards_processed := 100, ncn_rewards := 100\<rparr>"

definition paying_ledger :: ledger where
  "paying_ledger = ledger0(1057 := owned (NCNRewardRouterData paying_router), 1059 := wallet 1000)"

lemma paying_router_wf: "nr_wf paying_router"
  using ncn_router0_wf
  by (simp add: paying_router_def nr_wf_def nr_buckets_def ncn_router0_def NCNRewardRouter_initialize_def
      NCNRewardRouter_reset_routing_state_def)

lemma paying_ledger_wf: "ledger_wf paying_ledger"
  using ledger0_wf paying_router_wf
  by (simp add: ledger_wf_def paying_ledger_def paying_router_def ncn_router0_def initialized_bytes)

lemma paying_ledger_at:
  "paying_ledger 1038 = owned (ConfigData config0)" "paying_ledger 1051 = owned (EpochStateData epoch_state0)"
  "paying_ledger 1057 = owned (NCNRewardRouterData paying_router)" "paying_ledger 1059 = wallet 1000"
  "paying_ledger 7 = wallet 0"
  by (simp_all add: paying_ledger_def ledger0_at)

lemma find_receivers [simp]:
  "fst (NCNRewardRouter_find_program_address chain p n e) = 1057"
  "NCNRewardReceiver_find_program_address chain p n e = (1059, 255, NCNRewardReceiver_seeds n e)"
  by (simp_all add: NCNRewardRouter_find_program_address_def NCNRewardReceiver_find_program_address_def
      Let_def seeds_defs)

lemma seeds_total_receiver [simp]: "length (concat (NCNRewardReceiver_seeds n e)) = 59"
  by (simp add: seeds_defs)

lemma paying_runs:
  "is_ok (process_distribute_ncn_rewards chain 9 (map acc [1051, 1038, 11, 1057, 1059, 7, 0]) 5 paying_ledger)"
proof -
  from distribute_ncn_pays [OF paying_router_wf] obtain r' where
    r': "distribute_ncn_fee_rewards paying_router = Ok (r', 100)" by (auto simp: paying_router_def)
  have nr: "\<not> NCNRewardRouter_still_routing paying_router"
    by (simp add: paying_router_def ncn_router0_def NCNRewardRouter_still_routing_def
        NCNRewardRouter_initialize_def NCNRewardRouter_reset_routing_state_def)
  have w: "ncn_fee_wallets (fee_config_of config0) = 7" by (simp add: config0_def Config_new_def fee_config0_def)
  show ?thesis
    unfolding process_distribute_ncn_rewards_def list.map list.case
    by (simp add: load_defs loads_typed loads_untyped Ncn_load_def data_at_def paying_ledger_at r' nr w Let_def
        system_invoke_def can_pay_def transferred_def ledger_simps data_is_empty_def data_len_def)
qed

theorem distribute_ncn_rewards_instruction_witness:
  "\<exists>L'. process_distribute_ncn_rewards chain 9 (map acc [1051, 1038, 11, 1057, 1059, 7, 0]) 5 paying_ledger = Ok L' \<and>
     moved 1059 7 100 paying_ledger L'"
proof -
  obtain L' where ok: "process_distribute_ncn_rewards chain 9 (map acc [1051, 1038, 11, 1057, 1059, 7, 0]) 5 paying_ledger = Ok L'"
    using paying_runs by (auto simp: is_ok_iff)
  have "runtime_laws chain" using chain_program by (rule ncn_program.axioms)
  from distribute_ncn_rewards_instruction [OF this paying_ledger_wf _ ok [unfolded list.map]]
  have "moved 1059 7 100 paying_ledger L'" by (auto simp: data_at_def paying_ledger_at paying_router_def)
  with ok show ?thesis by blast
qed

end
