(* ===== verification/Account_Lifecycle.thy ===== *)
theory Account_Lifecycle
  imports Instruction_Properties
begin

text \<open>
  The life of an account: its address, its growth to full size in steps of at most 10240
  bytes, and its end.
\<close>

section \<open>Addresses\<close>

text \<open>
  Different accounts of the program have different seeds, even after the concatenation
  that the runtime hashes: no account type, NCN, operator or epoch can be confused with
  another.
\<close>

theorem account_seeds_distinct: "concat (seeds_of i) = concat (seeds_of j) \<longleftrightarrow> i = j"
  by (rule concat_seeds_inject)

section \<open>Growth\<close>

text \<open>Repeated calls of a \<open>realloc\<close> instruction, seen from the account that grows.\<close>

fun grow_times ::
  "runtime \<Rightarrow> pubkey \<Rightarrow> pubkey \<Rightarrow> account_info \<Rightarrow> account_info \<Rightarrow> Discriminators \<Rightarrow> nat \<Rightarrow> ledger \<Rightarrow>
   (ledger, program_error) result" where
  "grow_times E p ncn payer a t 0 L = Ok L"
| "grow_times E p ncn payer a t (Suc k) L =
     and_then (grow_account E p ncn payer a t L) (\<lambda>L. grow_times E p ncn payer a t k L)"

text \<open>The payer can cover the rent of the full-sized account.\<close>

definition funded :: "runtime \<Rightarrow> pubkey \<Rightarrow> pubkey \<Rightarrow> account_info \<Rightarrow> account_info \<Rightarrow> nat \<Rightarrow> ledger \<Rightarrow> bool" where
  "funded E p ncn payer a z L \<longleftrightarrow>
     address_of E p (AccountPayerId ncn) = ai_key payer \<and> ai_key payer \<noteq> ai_key a \<and>
     acc_owner (L (ai_key payer)) = system_program_id E \<and> data_is_empty (data_at L payer) \<and>
     unat (minimum_balance E z) \<le> unat (lamports_at L payer) + unat (lamports_at L a) \<and>
     unat (lamports_at L payer) + unat (lamports_at L a) < 2 ^ 64"

context runtime_laws
begin

lemma AccountPayer_transfer_runs:
  assumes "address_of E p (AccountPayerId ncn) = ai_key payer"
    and "acc_owner (L (ai_key payer)) = system_program_id E" and "data_is_empty (data_at L payer)"
    and "can_pay (ai_key payer) (ai_key to) n L"
  shows "AccountPayer_transfer E p ncn payer to n L = Ok (transferred (ai_key payer) (ai_key to) n L)"
proof -
  obtain b where find: "find_pda E (AccountPayer_seeds ncn) p = (ai_key payer, b)"
    using assms(1) by (cases "find_pda E (AccountPayer_seeds ncn) p") (simp add: address_of_def)
  then have "pda_signs E p (AccountPayer_seeds ncn @ [[b]]) (ai_key payer)" by simp
  from transfer_runs [OF this assms(2) _ assms(4)] assms(3) show ?thesis
    by (simp add: AccountPayer_transfer_def AccountPayer_find_program_address_def find Let_def data_at_def)
qed

lemma transferred_funded:
  assumes f: "funded E p ncn payer a z L" and pay: "can_pay (ai_key payer) (ai_key a) n L"
  shows "funded E p ncn payer a z (transferred (ai_key payer) (ai_key a) n L)"
proof -
  have ne: "ai_key payer \<noteq> ai_key a" using f by (simp add: funded_def)
  have "unat (lamports (transferred (ai_key payer) (ai_key a) n L (ai_key payer))) +
      unat (lamports (transferred (ai_key payer) (ai_key a) n L (ai_key a))) =
    unat (lamports (L (ai_key payer))) + unat (lamports (L (ai_key a)))"
    using transferred_moves [OF pay ne] by (simp add: moved_def)
  with f show ?thesis by (simp add: funded_def lamports_at_def data_at_def)
qed

lemma grow_step:
  assumes f: "funded E p ncn payer a (size_of_type t) L" and d: "data_at L a = Zeroed n"
    and n: "n < size_of_type t" and rent: "\<And>m. m \<le> size_of_type t \<Longrightarrow> minimum_balance E m \<le> minimum_balance E (size_of_type t)"
  shows "\<exists>L'. grow_account E p ncn payer a t L = Ok L' \<and> data_at L' a = Zeroed (min (n + 10240) (size_of_type t)) \<and>
    funded E p ncn payer a (size_of_type t) L'"
proof -
  let ?z = "size_of_type t" and ?m = "min (n + 10240) (size_of_type t)"
  define r where "r = saturating_sub (minimum_balance E ?m) (lamports_at L a)"
  have z: "?z < 30000" by (cases t) (simp_all add: account_sizes)
  have "unat (minimum_balance E ?m) \<le> unat (minimum_balance E ?z)" using rent [of ?m] by (simp add: word_le_nat_alt)
  then have r: "unat r \<le> unat (lamports_at L payer)" "r \<noteq> 0 \<Longrightarrow> unat r = unat (minimum_balance E ?m) - unat (lamports_at L a)"
    using f by (auto simp: r_def saturating_sub_def funded_def word_le_nat_alt unat_sub split: if_splits)
  have pay: "can_pay (ai_key payer) (ai_key a) r L"
    using f r by (simp add: can_pay_def funded_def word_le_nat_alt lamports_at_def)
  define L1 where "L1 = (if 0 < r then transferred (ai_key payer) (ai_key a) r L else L)"
  have f1: "funded E p ncn payer a ?z L1" unfolding L1_def using transferred_funded [OF f pay] f by simp
  have d1: "data_at L1 a = Zeroed n" using d by (simp add: L1_def data_at_def)
  have pays: "(if 0 < r then AccountPayer_transfer E p ncn payer a r L else Ok L) = Ok L1"
    using AccountPayer_transfer_runs [of p ncn payer L a r] f pay by (simp add: L1_def funded_def)
  have new: "get_new_size n ?z = Ok ?m" using n z by (simp add: get_new_size_Ok)
  have real: "realloc_data E ?m (Zeroed n) = Ok (Zeroed ?m)" by (rule realloc_runs) simp
  have "grow_account E p ncn payer a t L =
      and_then (if 0 < r then AccountPayer_transfer E p ncn payer a r L else Ok L) (\<lambda>L.
      and_then (realloc_data E ?m (data_at L a)) (\<lambda>d. Ok (set_data L a d)))"
    using n new d by (simp add: grow_account_def pay_and_realloc_def data_len_def Let_def r_def)
  then have "grow_account E p ncn payer a t L = Ok (set_data L1 a (Zeroed ?m))"
    unfolding pays using d1 real by simp
  moreover have "funded E p ncn payer a ?z (set_data L1 a (Zeroed ?m))"
    using f1 by (auto simp: funded_def lamports_at_def ledger_simps)
  ultimately show ?thesis by (auto simp: ledger_simps)
qed

end

lemma calls_left: "0 < x \<Longrightarrow> (x + 10239) div 10240 = Suc ((x - 10240 + 10239) div 10240)" for x :: nat
proof (cases "x \<le> 10240")
  case False
  then have "x + 10239 = 10240 + (x - 10240 + 10239)" by simp
  then show ?thesis by simp
qed (simp add: le_div_geq)

lemma grow_all:
  assumes "runtime_laws E" and "funded E p ncn payer a (size_of_type t) L" and "data_at L a = Zeroed n"
    and "n \<le> size_of_type t"
    and "\<And>m. m \<le> size_of_type t \<Longrightarrow> minimum_balance E m \<le> minimum_balance E (size_of_type t)"
  shows "\<exists>L'. grow_times E p ncn payer a t ((size_of_type t - n + 10239) div 10240) L = Ok L' \<and>
    data_at L' a = Zeroed (size_of_type t) \<and> should_initialize t (data_at L' a) = Ok True"
proof -
  have init: "should_initialize t (Zeroed (size_of_type t)) = Ok True"
    by (simp add: should_initialize_def data_len_def first_byte_def data_is_empty_def)
  have "\<exists>L'. grow_times E p ncn payer a t ((size_of_type t - n + 10239) div 10240) L = Ok L' \<and>
    data_at L' a = Zeroed (size_of_type t)"
    using assms(2-4)
  proof (induction "size_of_type t - n" arbitrary: n L rule: less_induct)
    case less
    show ?case
    proof (cases "n = size_of_type t")
      case False
      then have lt: "n < size_of_type t" using less.prems(3) by simp
      let ?m = "min (n + 10240) (size_of_type t)"
      obtain L1 where L1: "grow_account E p ncn payer a t L = Ok L1" "data_at L1 a = Zeroed ?m"
        "funded E p ncn payer a (size_of_type t) L1"
        using runtime_laws.grow_step [OF assms(1) less.prems(1,2) lt assms(5)] by blast
      have k: "(size_of_type t - n + 10239) div 10240 = Suc ((size_of_type t - ?m + 10239) div 10240)"
        using calls_left [of "size_of_type t - n"] lt by (simp add: min_def)
      obtain L' where "grow_times E p ncn payer a t ((size_of_type t - ?m + 10239) div 10240) L1 = Ok L'"
        "data_at L' a = Zeroed (size_of_type t)"
        using less.hyps [OF _ L1(3,2)] lt by fastforce
      with L1(1) show ?thesis unfolding k by auto
    qed (use less.prems in simp)
  qed
  with init show ?thesis by auto
qed

text \<open>
  C25: growth terminates: an uninitialized account of any size \<open>n\<close> reaches the full size of its
  type after \<open>(size - n + 10239) div 10240\<close> calls, provided the payer holds the rent, and it is
  then to be initialized.
\<close>

theorem growth_terminates:
  assumes "runtime_laws E" and "funded E p ncn payer a (size_of_type t) L" and "data_at L a = Zeroed n"
    and "n \<le> size_of_type t"
    and "\<And>m. m \<le> size_of_type t \<Longrightarrow> minimum_balance E m \<le> minimum_balance E (size_of_type t)"
  shows "\<exists>L'. grow_times E p ncn payer a t ((size_of_type t - n + 10239) div 10240) L = Ok L' \<and>
    data_at L' a = Zeroed (size_of_type t) \<and> should_initialize t (data_at L' a) = Ok True"
  using assms by (rule grow_all)

definition growing_ledger :: ledger where
  "growing_ledger = ledger0(1050 := owned (Zeroed 10240))"

lemma growing_ballot_box:
  "size_of_type DBallotBox = 22099" "data_at growing_ledger (acc 1050) = Zeroed 10240"
  "m \<le> 22099 \<Longrightarrow> minimum_balance chain m \<le> minimum_balance chain 22099"
  "funded chain 9 11 (acc 1077) (acc 1050) 22099 growing_ledger" "runtime_laws chain"
proof -
  show "size_of_type DBallotBox = 22099" by (simp add: BallotBox_SIZE_def)
  show "data_at growing_ledger (acc 1050) = Zeroed 10240" by (simp add: data_at_def growing_ledger_def)
  have bal: "unat (minimum_balance chain m) = 128 + m" if "m \<le> 22099" for m
    using that by (simp add: unat_of_nat del: of_nat_add)
  show "minimum_balance chain m \<le> minimum_balance chain 22099" if "m \<le> 22099"
    using that bal [of m] bal [of 22099] by (simp add: word_le_nat_alt)
  show "funded chain 9 11 (acc 1077) (acc 1050) 22099 growing_ledger"
    using bal [of 22099] by (simp add: growing_ledger_def funded_def chain_address lamports_at_def data_at_def
      ledger0_at data_is_empty_def data_len_def)
  show "runtime_laws chain" using chain_program by (rule ncn_program.axioms)
qed

theorem growth_terminates_witness:
  "\<exists>L'. grow_times chain 9 11 (acc 1077) (acc 1050) DBallotBox 2 growing_ledger = Ok L' \<and>
    data_at L' (acc 1050) = Zeroed 22099"
  using growth_terminates [of chain 9 11 "acc 1077" "acc 1050" DBallotBox growing_ledger 10240]
    growing_ballot_box(2-5) unfolding growing_ballot_box(1) by auto

section \<open>Closing\<close>

lemma close_account_runs:
  assumes "runtime_laws E" and "acc_owner (L (ai_key a)) = p"
    and "unat (lamports_at L payer) + unat (lamports_at L a) < 2 ^ 64"
  shows "close_account E p payer a L =
    Ok (closed_into E payer a (lamports_at L payer + lamports_at L a) L)"
  using assms(2,3) runtime_laws.realloc_empties [OF assms(1)]
  by (simp add: close_account_def closed_into_def checked_add_def Let_def)

lemma close_needs_seven_accounts:
  "length A < 7 \<Longrightarrow> process_close_epoch_account E p A epoch L = Panic"
  by (auto simp: process_close_epoch_account_def split: list.splits)

text \<open>
  C33: closing checks the address of every account it closes except that of an epoch state
  that is not the one of the epoch: once the accounts of an epoch are closed,
  \<open>CloseEpochAccount\<close> for that epoch also closes any other epoch state account of the program,
  of another epoch or another NCN, whatever its progress, and leaves no marker for it.
\<close>

theorem foreign_epoch_state_is_closed:
  assumes "runtime_laws E" and "load_system_program E sys = Ok ()" and "Ncn_load E ncn False L = Ok ()"
    and "EpochState_load E p st (ai_key ncn) epoch False L = Ok ()" and "data_at L st = EpochStateData es"
    and "Config_load E p cfg (ai_key ncn) False L = Ok ()" and "data_at L cfg = ConfigData c"
    and "AccountPayer_load E p payer (ai_key ncn) False L = Ok ()"
    and "EpochMarker_check_dne E p em (ai_key ncn) epoch L = Ok ()"
    and "can_close_epoch_accounts (get_epoch E) es (epochs_after_consensus_before_close c) (clock_slot E) = Ok True"
    and "est_ncn es = ai_key ncn" and "est_epoch es = epoch" and "are_all_closed (account_status es)"
    and "acc_owner (L (ai_key other)) = p" and "data_at L other = EpochStateData es2"
    and "ai_key other \<noteq> ai_key st" and "ai_key other \<noteq> ai_key payer"
    and "unat (lamports_at L payer) + unat (lamports_at L other) < 2 ^ 64"
  shows "\<exists>L'. process_close_epoch_account E p [em, st, cfg, ncn, other, payer, sys] epoch L = Ok L' \<and>
    data_at L' other = Zeroed 0 \<and> lamports_at L' other = 0 \<and> data_at L' em = data_at L em"
proof -
  let ?es = "close_epoch_state (set_is_closing es)"
  let ?L = "set_data L st (EpochStateData ?es)"
  have other: "\<not> data_is_empty (data_at L other)" "first_byte (data_at L other) = (Ok (Discriminators_as_u8 DEpochState) :: (u8, program_error) result)"
    by (simp_all add: assms(15))
  have cl: "close_by_discriminator E p c ncn other payer [] epoch (Discriminators_as_u8 DEpochState) (set_is_closing es) L = Ok (?es, L)"
    using assms(11-13) by (simp add: close_by_discriminator_def EpochState_load_to_close_def set_is_closing_def)
  have "close_account E p payer other ?L =
      Ok (closed_into E payer other (lamports_at ?L payer + lamports_at ?L other) ?L)"
    by (rule close_account_runs [OF assms(1)]) (use assms(14,18) in \<open>auto simp: ledger_simps lamports_at_def\<close>)
  moreover have "ai_key em \<noteq> ai_key other" "ai_key em \<noteq> ai_key st"
    using assms(9,5) other(1) typed_not_empty [of "data_at L st" DEpochState]
    by (auto simp: EpochMarker_check_dne_Ok data_at_def)
  ultimately show ?thesis
    using assms(16,17) other cl
    by (simp add: process_close_epoch_account_def assms(2-10) Let_def closed_into_def ledger_simps lamports_at_def
        del: Discriminators_as_u8.simps)
qed

text \<open>The example chain eleven epochs later; account 777 is the epoch state of another NCN that is still voting.\<close>

definition later :: runtime where
  "later = reference_runtime (chain_base\<lparr>clock_slot := 5000\<rparr>)"

definition finished :: epoch_state where
  "finished = state_closed\<lparr>est_slot_consensus_reached := 120\<rparr>"

definition closing_ledger :: ledger where
  "closing_ledger = ledger0(1051 := owned (EpochStateData finished),
     777 := owned (EpochStateData (EpochState_initialize EpochState_zeroed 12 5 255 100)))"

lemma later_sel [simp]:
  "clock_slot later = 5000" "get_epoch later = (\<lambda>s. s div 432)" "system_program_id later = 0"
  "find_pda later = find_pda chain" "load_system_program_of later a = Ok ()" "Ncn_load_of later a x w = Ok ()"
  by (simp_all add: later_def chain_def chain_base_def)

lemma later_find [simp]:
  "fst (Config_find_program_address later p n) = 1038" "fst (EpochState_find_program_address later p n e) = 1051"
  "fst (AccountPayer_find_program_address later p n) = 1077" "fst (EpochMarker_find_program_address later p n e) = 1084"
  by (simp_all add: Config_find_program_address_def EpochState_find_program_address_def
      AccountPayer_find_program_address_def EpochMarker_find_program_address_def Let_def seeds_defs)

lemma finished_closable:
  "can_close_epoch_accounts (\<lambda>s. s div 432) finished 10 5000 = Ok True"
  "est_ncn finished = 11" "est_epoch finished = 5" "are_all_closed (account_status finished)"
proof -
  show "can_close_epoch_accounts (\<lambda>s. s div 432) finished 10 5000 = Ok True"
    by (simp add: can_close_epoch_accounts_def get_epoch_consensus_reached_def get_slot_consensus_reached_def
        finished_def saturating_sub_def DEFAULT_CONSENSUS_REACHED_SLOT_def Let_def)
  show "est_ncn finished = 11" "est_epoch finished = 5"
    by (simp_all add: finished_def state_closed_def EpochState_initialize_def)
  show "are_all_closed (account_status finished)"
    using set_update_replicate [of MAX_OPERATORS "0 :: u8" 4 3]
    by (auto simp: finished_def state_closed_def are_all_closed_def EpochState_initialize_def EpochAccountStatus_default_def
        list_ex_iff)
qed

theorem foreign_epoch_state_is_closed_witness:
  "\<exists>L'. process_close_epoch_account later 9 (map acc [1084, 1051, 1038, 11, 777, 1077, 0]) 5 closing_ledger = Ok L' \<and>
     data_at L' (acc 777) = Zeroed 0"
proof -
  have "runtime_laws later" unfolding later_def by (rule reference.runtime_laws_axioms)
  moreover have at: "closing_ledger 1038 = owned (ConfigData config0)" "closing_ledger 1051 = owned (EpochStateData finished)"
    "closing_ledger 777 = owned (EpochStateData (EpochState_initialize EpochState_zeroed 12 5 255 100))"
    "closing_ledger 1077 = wallet 1000000" "closing_ledger 1084 = wallet 0"
    by (simp_all add: closing_ledger_def ledger0_at)
  moreover have "epochs_after_consensus_before_close config0 = 10" by (simp add: config0_def Config_new_def)
  ultimately have "\<exists>L'. process_close_epoch_account later 9 [acc 1084, acc 1051, acc 1038, acc 11, acc 777, acc 1077, acc 0] 5 closing_ledger = Ok L' \<and>
     data_at L' (acc 777) = Zeroed 0 \<and> lamports_at L' (acc 777) = 0 \<and> data_at L' (acc 1084) = data_at closing_ledger (acc 1084)"
    using finished_closable
    by (intro foreign_epoch_state_is_closed [where es = finished and c = config0
          and ?es2.0 = "EpochState_initialize EpochState_zeroed 12 5 255 100"])
      (simp_all add: load_system_program_def Ncn_load_def load_defs loads_typed loads_untyped data_at_def
        EpochMarker_check_dne_Ok data_is_empty_def data_len_def lamports_at_def)
  then show ?thesis by auto
qed

section \<open>The end of an epoch\<close>

lemma close_waits:
  "yields (\<lambda>_. \<exists>es c. data_at L (A ! 1) = EpochStateData es \<and> data_at L (A ! 2) = ConfigData c \<and>
     can_close_epoch_accounts (get_epoch E) es (epochs_after_consensus_before_close c) (clock_slot E) = Ok True)
   (process_close_epoch_account E p A epoch L)"
  unfolding process_close_epoch_account_def
  by (intro yields_rules yields_any) (auto simp: typed_views)

lemma marker_created:
  assumes "ncn_program E P raw" and "create_epoch_marker E p em ncn payer epoch L = Ok L'"
  shows "data_at L' em = EpochMarkerData (EpochMarker_new (ai_key ncn) epoch (clock_slot E))"
    and "k \<noteq> ai_key em \<Longrightarrow> acc_data (L' k) = acc_data (L k)"
  using assms(2)
  by (auto simp: create_epoch_marker_def result_simps ledger_simps split: prod.splits
      elim!: ncn_program.pay_and_create_Ok [OF assms(1)])

text \<open>
  C32: the epoch state is the last account of an epoch to go.  \<open>CloseEpochAccount\<close> on the epoch
  state itself succeeds only if consensus was reached and the configured number of epochs has
  passed since, the weight table, the epoch snapshot, the ballot box and the reward router of the
  epoch are recorded as closed, and every operator account as closed or never created.  Then the
  account is empty, without lamports and back with the system program, and the marker of the epoch
  is at its address.
\<close>

theorem epoch_state_closes_last:
  assumes "ncn_program E P raw" and "process_instruction E P p p A (Ok (CloseEpochAccount epoch)) L = Ok L'"
    and "ai_key (A ! 4) = ai_key (A ! 1)"
  shows "\<exists>es c. data_at L (A ! 1) = EpochStateData es \<and> data_at L (A ! 2) = ConfigData c \<and>
    est_ncn es = ai_key (A ! 3) \<and> est_epoch es = epoch \<and> only_state_left (account_status es) \<and>
    est_slot_consensus_reached es \<noteq> DEFAULT_CONSENSUS_REACHED_SLOT \<and>
    (epochs_after_consensus_before_close c = 0 \<or>
     unat (get_epoch E (est_slot_consensus_reached es)) + unat (epochs_after_consensus_before_close c)
      \<le> unat (get_epoch E (clock_slot E))) \<and>
    L' (ai_key (A ! 1)) = \<lparr>lamports = 0, acc_owner = system_program_id E, acc_data = Zeroed 0\<rparr> \<and>
    acc_data (L' (address_of E p (EpochMarkerId (ai_key (A ! 3)) epoch))) =
      EpochMarkerData (EpochMarker_new (ai_key (A ! 3)) epoch (clock_slot E))"
proof -
  have ok: "process_close_epoch_account E p A epoch L = Ok L'"
    using assms(2) by (simp add: process_instruction_def result_simps)
  obtain es' c where w: "data_at L (A ! 1) = EpochStateData es'" "data_at L (A ! 2) = ConfigData c"
    "can_close_epoch_accounts (get_epoch E) es' (epochs_after_consensus_before_close c) (clock_slot E) = Ok True"
    using yieldsD [OF close_waits ok] by blast
  from ok show ?thesis
  proof (rule ncn_program.close_epoch_account_Ok [OF assms(1)], goal_cases)
    case (1 em st cfg ncn a payer sys opt es es2 disc L1 L3 u v w')
    have k: "ai_key a = ai_key st" and es': "es' = es" using assms(3) w(1) 1(1,5) by simp_all
    have disc: "disc = Discriminators_as_u8 DEpochState" using 1(6) k by simp
    obtain c' where "close_by_discriminator E p c' ncn a payer opt epoch disc (set_is_closing es) L = Ok (es2, L1)"
      using 1(7) by blast
    then have "EpochState_load_to_close (set_is_closing es) (ai_key ncn) epoch = Ok ()"
      unfolding disc close_by_discriminator_def by (auto simp: result_simps)
    then have st: "est_ncn es = ai_key ncn" "est_epoch es = epoch" "only_state_left (account_status es)"
      by (simp_all add: load_to_close_iff set_is_closing_def)
    have "create_epoch_marker E p em ncn payer epoch (set_data L1 st (EpochStateData es2)) = Ok L3" using 1(8) k by simp
    note marker = marker_created [OF assms(1) this]
    have em: "ai_key em = address_of E p (EpochMarkerId (ai_key ncn) epoch)" by (rule load_address(9) [OF 1(4)])
    have ne: "ai_key em \<noteq> ai_key st"
      using 1(4,5) typed_not_empty [of "data_at L st" DEpochState] by (auto simp: EpochMarker_check_dne_Ok data_at_def)
    obtain n where L': "L' = closed_into E payer a n L3"
      using 1(9) ncn_program.axioms(1) [OF assms(1)]
      by (auto simp: close_account_def closed_into_def result_simps Let_def runtime_laws.realloc_empties)
    have "L' (ai_key st) = \<lparr>lamports = 0, acc_owner = system_program_id E, acc_data = Zeroed 0\<rparr>"
      by (simp add: L' closed_into_def ledger_simps k)
    moreover have "acc_data (L' (ai_key em)) = EpochMarkerData (EpochMarker_new (ai_key ncn) epoch (clock_slot E))"
      using marker(1) ne k by (auto simp: L' closed_into_def ledger_simps data_at_def)
    ultimately show ?case
      using st w es' 1(1) em can_close_iff [of "get_epoch E" es "epochs_after_consensus_before_close c" "clock_slot E"]
      by (auto split: if_splits)
  qed
qed

lemma closing_ledger_at:
  "closing_ledger 1038 = owned (ConfigData config0)" "closing_ledger 1051 = owned (EpochStateData finished)"
  "closing_ledger 1077 = wallet 1000000" "closing_ledger 1084 = wallet 0" "closing_ledger 11 = wallet 0"
  by (simp_all add: closing_ledger_def ledger0_at)

lemma later_runtime [simp]:
  "invoke_signed later = system_invoke (chain_base\<lparr>clock_slot := 5000\<rparr>)" "realloc_data later = resize_data"
  "minimum_balance later n = word_of_nat (128 + n)" "find_pda (chain_base\<lparr>clock_slot := 5000\<rparr>) = find_pda chain_base"
  "system_program_id (chain_base\<lparr>clock_slot := 5000\<rparr>) = 0"
  by (simp_all add: later_def chain_base_def)

lemma state_closing_runs:
  "is_ok (process_instruction later spl_ops 9 9 (map acc [1084, 1051, 1038, 11, 1051, 1077, 0]) (Ok (CloseEpochAccount 5)) closing_ledger)"
proof -
  have "epochs_after_consensus_before_close config0 = 10" by (simp add: config0_def Config_new_def)
  moreover have "EpochState_load_to_close (set_is_closing finished) 11 5 = Ok ()"
    using finished_closable by (simp add: EpochState_load_to_close_def set_is_closing_def)
  moreover have find: "EpochMarker_find_program_address later 9 n e = (1084, 255, EpochMarker_seeds n e)"
    "AccountPayer_find_program_address later 9 n = (1077, 255, AccountPayer_seeds n)" for n e
    by (simp_all add: EpochMarker_find_program_address_def AccountPayer_find_program_address_def Let_def seeds_defs)
  ultimately show ?thesis
    using finished_closable(1)
    by (simp add: process_instruction_def process_close_epoch_account_def load_system_program_def Ncn_load_def load_defs
        loads_typed loads_untyped data_at_def closing_ledger_at EpochMarker_check_dne_def data_is_empty_def data_len_def account_sizes
        Let_def close_by_discriminator_def create_epoch_marker_def find ledger_simps pay_and_create_account_def
        AccountPayer_transfer_def saturating_sub_def lamports_at_def MAX_REALLOC_BYTES_def system_invoke_def can_pay_def
        transferred_def set_owner_def pda_signs_def seeds_defs init_view_def close_account_def checked_add_def resize_data_def)
qed

theorem epoch_state_closes_last_witness:
  "\<exists>L'. process_instruction later spl_ops 9 9 (map acc [1084, 1051, 1038, 11, 1051, 1077, 0]) (Ok (CloseEpochAccount 5)) closing_ledger = Ok L' \<and>
    L' 1051 = \<lparr>lamports = 0, acc_owner = 0, acc_data = Zeroed 0\<rparr> \<and>
    acc_data (L' 1084) = EpochMarkerData (EpochMarker_new 11 5 5000)"
proof -
  obtain L' where ok: "process_instruction later spl_ops 9 9 (map acc [1084, 1051, 1038, 11, 1051, 1077, 0]) (Ok (CloseEpochAccount 5)) closing_ledger = Ok L'"
    using state_closing_runs by (auto simp: is_ok_iff)
  have "ncn_program later spl_ops (\<lambda>p. p)" unfolding later_def by (rule reference_program.ncn_program_axioms)
  from epoch_state_closes_last [OF this ok] show ?thesis
    using ok by (auto simp: address_of_def seeds_defs)
qed

end
