(* ===== verification/Voting_Liveness.thy ===== *)
theory Voting_Liveness
  imports Instruction_Properties
begin

text \<open>
  Progress of the vote on the ledger.  The checks of \<open>process_cast_vote\<close> before the ballot box
  is opened are a predicate on the accounts; a vote that passes them is counted unless the box
  refuses it.  From this follows that operators with two thirds of the stake decide the epoch,
  whatever other votes and unrelated transactions come between theirs.
\<close>

section \<open>Votes of an epoch\<close>

text \<open>
  The accounts every vote of an epoch is passed, and a vote: the runtime it is executed in, the
  snapshot of the operator, the operator, its voter and the status.
\<close>

record poll =
  po_state :: account_info
  po_config :: account_info
  po_box :: account_info
  po_ncn :: account_info
  po_snapshot :: account_info
  po_result :: account_info
  po_epoch :: u64

type_synonym vote = "runtime \<times> account_info \<times> account_info \<times> account_info \<times> u8"

definition cast_vote_tx :: "poll \<Rightarrow> vote \<Rightarrow> transaction" where
  "cast_vote_tx Q = (\<lambda>(E, osnap, operator, voter, status).
     (E, [po_state Q, po_config Q, po_box Q, po_ncn Q, po_snapshot Q, osnap, operator, voter, po_result Q],
      CastVote status (po_epoch Q)))"

definition vote_operator :: "vote \<Rightarrow> pubkey" where
  "vote_operator = (\<lambda>(E, osnap, operator, voter, status). ai_key operator)"

definition vote_status :: "vote \<Rightarrow> u8" where
  "vote_status = (\<lambda>(E, osnap, operator, voter, status). status)"

definition vote_stake :: "ledger \<Rightarrow> vote \<Rightarrow> nat" where
  "vote_stake L = (\<lambda>(E, osnap, operator, voter, status).
     case data_at L osnap of OperatorSnapshotData os \<Rightarrow> weight_of (os_stake_weights os) | _ \<Rightarrow> 0)"

text \<open>What the processor checks before it opens the ballot box.\<close>

definition entitled :: "pubkey \<Rightarrow> poll \<Rightarrow> ledger \<Rightarrow> vote \<Rightarrow> bool" where
  "entitled p Q L = (\<lambda>(E, osnap, operator, voter, status).
     let n = ai_key (po_ncn Q); e = po_epoch Q in
     load_signer E voter False L = Ok () \<and>
     EpochState_load E p (po_state Q) n e False L = Ok () \<and>
     Config_load E p (po_config Q) n False L = Ok () \<and>
     Ncn_load E (po_ncn Q) False L = Ok () \<and>
     Operator_load E operator False L = Ok () \<and>
     BallotBox_load E p (po_box Q) n e True L = Ok () \<and>
     EpochSnapshot_load E p (po_snapshot Q) n e False L = Ok () \<and>
     OperatorSnapshot_load E p osnap (ai_key operator) n e False L = Ok () \<and>
     ConsensusResult_load E p (po_result Q) n e True L = Ok () \<and>
     (case Operator_of E (data_at L operator) of Ok x \<Rightarrow> ai_key voter = op_voter x | _ \<Rightarrow> False) \<and>
     (case data_at L (po_snapshot Q) of EpochSnapshotData s \<Rightarrow> EpochSnapshot_finalized s | _ \<Rightarrow> False) \<and>
     vote_stake L (E, osnap, operator, voter, status) \<noteq> 0)"

text \<open>The accounts of the epoch that a vote writes hold data of their types.\<close>

definition poll_ready :: "poll \<Rightarrow> ledger \<Rightarrow> bool" where
  "poll_ready Q L \<longleftrightarrow>
     (\<exists>c. data_at L (po_config Q) = ConfigData c) \<and> (\<exists>e. data_at L (po_state Q) = EpochStateData e) \<and>
     (\<exists>b. data_at L (po_box Q) = BallotBoxData b) \<and> (\<exists>r. data_at L (po_result Q) = ConsensusResultData r)"

lemma vote_sel [simp]:
  "vote_operator (E, osnap, opr, voter, st) = ai_key opr" "vote_status (E, osnap, opr, voter, st) = st"
  by (simp_all add: vote_operator_def vote_status_def)

lemma cast_vote_tx_inj [simp]: "cast_vote_tx Q v = cast_vote_tx Q v' \<longleftrightarrow> v = v'"
  by (cases v; cases v') (auto simp: cast_vote_tx_def)

lemma vote_stake_eq: "data_at L osnap = OperatorSnapshotData os \<Longrightarrow>
  vote_stake L (E, osnap, opr, voter, st) = weight_of (os_stake_weights os)"
  by (simp add: vote_stake_def)

text \<open>Progress: a vote that passes the checks succeeds as soon as the ballot box accepts it.\<close>

lemma tally_votes_runs:
  assumes P: "precise_number P raw" and wf: "bb_wf b" and tot: "tot \<noteq> 0" and "\<not> tie_breaker_set b"
  shows "is_ok (tally_votes P b tot slot)"
proof (cases "is_consensus_reached b")
  case True
  with assms(4) have "slot_consensus_reached b \<noteq> DEFAULT_CONSENSUS_REACHED_SLOT"
    by (auto simp: is_consensus_reached_def tie_breaker_set_def)
  then show ?thesis by (simp add: tally_votes_def)
next
  case False
  show ?thesis using tally_votes_log [OF P wf tot False, of slot] by auto
qed

lemma record_consensus_runs: "\<exists>c'. record_consensus c st w tw slot = Ok c'"
  by (simp add: record_consensus_def)

lemma vote_progress:
  assumes pr: "ncn_program E P raw" and L: "ledger_wf L" and ready: "poll_ready Q L"
    and ent: "entitled p Q L (E, osnap, opr, voter, st)"
    and b: "data_at L (po_box Q) = BallotBoxData b" and c: "data_at L (po_config Q) = ConfigData c"
    and s: "data_at L (po_snapshot Q) = EpochSnapshotData s" and tot: "stake_weight (es_stake_weights s) \<noteq> 0"
    and os: "data_at L osnap = OperatorSnapshotData os"
    and ok: "is_ok (cast_vote b (ai_key opr) (Ballot_new st) (os_stake_weights os) (clock_slot E) (valid_slots_after_consensus c))"
  shows "is_ok (process_instruction E P p p (fst (snd (cast_vote_tx Q (E, osnap, opr, voter, st)))) (Ok (CastVote st (po_epoch Q))) L)"
proof -
  have P: "precise_number P raw" using pr by (rule ncn_program.axioms)
  from ok obtain b1 where b1: "cast_vote b (ai_key opr) (Ballot_new st) (os_stake_weights os) (clock_slot E)
      (valid_slots_after_consensus c) = Ok b1" by (auto simp: is_ok_iff)
  have wf: "bb_wf b" using wf_views(2) [OF L b] .
  have wf1: "bb_wf b1" by (rule cast_vote_facts [OF wf b1])
  have tab: "bb_tables_ok b" using wf by (simp add: bb_wf_def)
  have "\<not> tie_breaker_set b" using b1 by (auto simp: cast_vote_def is_voting_valid_def result_simps)
  then have "\<not> tie_breaker_set b1" using cast_vote_frame [OF tab b1] by (simp add: tie_breaker_set_def)
  then obtain b' where b': "tally_votes P b1 (stake_weight (es_stake_weights s)) (clock_slot E) = Ok b'"
    using tally_votes_runs [OF P wf1 tot] by (auto simp: is_ok_iff)
  have wf': "bb_wf b'" by (rule tally_votes_wf [OF P wf1 b'])
  have win: "is_consensus_reached b' \<Longrightarrow> \<exists>t. get_winning_ballot_tally b' = Ok t"
    using winning_tally_found [OF wf'] wf' by (metis bb_wf_def bb_winner_ok_def is_consensus_reached_def)
  obtain r e where r: "data_at L (po_result Q) = ConsensusResultData r" and e: "data_at L (po_state Q) = EpochStateData e"
    using ready by (auto simp: poll_ready_def)
  have ne: "ai_key (po_result Q) \<noteq> ai_key (po_box Q)" "ai_key (po_state Q) \<noteq> ai_key (po_result Q)"
    "ai_key (po_state Q) \<noteq> ai_key (po_box Q)"
    using b r e by (auto simp: data_at_def)
  obtain x where x: "Operator_of E (data_at L opr) = Ok x" "ai_key voter = op_voter x"
    using ent by (auto simp: entitled_def Let_def split: result.splits)
  have fin: "EpochSnapshot_finalized s" "stake_weight (os_stake_weights os) \<noteq> 0"
    using ent s os by (auto simp: entitled_def Let_def vote_stake_eq unat_eq_0)
  show ?thesis
  proof (cases "is_consensus_reached b'")
    case True
    then obtain t where t: "get_winning_ballot_tally b' = Ok t" using win by blast
    obtain r' where r': "record_consensus r (weather_status (bt_ballot t)) (ucast (stake_weight (bt_stake_weights t)))
        (ucast (stake_weight (es_stake_weights s))) (clock_slot E) = Ok r'"
      using record_consensus_runs by blast
    show ?thesis
      using ent ne fin True
      by (simp add: entitled_def cast_vote_tx_def process_instruction_def process_cast_vote_def x b c s os b1 b' t r r' e
          ledger_simps update_cast_vote_def Let_def)
  next
    case False
    then show ?thesis
      using ent ne fin
      by (simp add: entitled_def cast_vote_tx_def process_instruction_def process_cast_vote_def x b c s os b1 b' e
          ledger_simps update_cast_vote_def Let_def)
  qed
qed

lemma vote_entitled:
  assumes "process_instruction E P p q (fst (snd (cast_vote_tx Q (E, osnap, opr, voter, st)))) (Ok (CastVote st (po_epoch Q))) L = Ok L'"
  shows "entitled q Q L (E, osnap, opr, voter, st)"
proof -
  have "yields (\<lambda>_. entitled q Q L (E, osnap, opr, voter, st)) (process_cast_vote E P q
      [po_state Q, po_config Q, po_box Q, po_ncn Q, po_snapshot Q, osnap, opr, voter, po_result Q] st (po_epoch Q) L)"
    unfolding process_cast_vote_def list.case
    by (intro yields_rules, unfold typed_views)
      (auto simp: entitled_def vote_stake_def unat_gt_0 Let_def intro!: yields_any)
  then show ?thesis
    using assms by (auto simp: process_instruction_def cast_vote_tx_def yields_def result_simps split: if_splits)
qed

section \<open>Ledgers that differ by votes\<close>

definition poll_writes :: "poll \<Rightarrow> pubkey set" where
  "poll_writes Q = {ai_key (po_state Q), ai_key (po_box Q), ai_key (po_result Q)}"

definition poll_agrees :: "poll \<Rightarrow> pubkey set \<Rightarrow> ledger \<Rightarrow> ledger \<Rightarrow> bool" where
  "poll_agrees Q K L L' \<longleftrightarrow> poll_ready Q L \<and> poll_ready Q L' \<and>
     (\<forall>k \<in> poll_writes Q. acc_owner (L' k) = acc_owner (L k)) \<and> (\<forall>k \<in> K - poll_writes Q. L' k = L k)"

lemma check_load_typed:
  "discriminator_of (data_at L a) = Some t' \<Longrightarrow>
   check_load p a pda (Some t) w L = Ok () \<longleftrightarrow>
     acc_owner (L (ai_key a)) = p \<and> ai_key a = pda \<and> (w \<longrightarrow> ai_is_writable a) \<and> t' = t"
  by (auto simp: check_load_Ok first_byte_typed [where ?'a = program_error])

lemma check_load_same: "L' (ai_key a) = L (ai_key a) \<Longrightarrow> check_load p a pda t w L' = check_load p a pda t w L"
  by (simp add: check_load_def data_at_def cong: option.case_cong)

lemma entitled_agrees:
  assumes ag: "poll_agrees Q K L L'" and K: "keys_of (cast_vote_tx Q v) \<subseteq> K"
    and v: "v = (E, osnap, opr, voter, st)"
    and apart: "ai_key (po_ncn Q) \<notin> poll_writes Q" "ai_key opr \<notin> poll_writes Q" "ai_key voter \<notin> poll_writes Q"
  shows "entitled p Q L' v \<longleftrightarrow> entitled p Q L v"
proof -
  obtain c e b r c' e' b' r' where
    d: "data_at L (po_config Q) = ConfigData c" "data_at L (po_state Q) = EpochStateData e"
      "data_at L (po_box Q) = BallotBoxData b" "data_at L (po_result Q) = ConsensusResultData r"
    and d': "data_at L' (po_config Q) = ConfigData c'" "data_at L' (po_state Q) = EpochStateData e'"
      "data_at L' (po_box Q) = BallotBoxData b'" "data_at L' (po_result Q) = ConsensusResultData r'"
    using ag unfolding poll_agrees_def poll_ready_def by blast
  have same: "\<And>k. k \<in> keys_of (cast_vote_tx Q v) \<Longrightarrow> k \<notin> poll_writes Q \<Longrightarrow> L' k = L k"
    and own: "\<And>k. k \<in> poll_writes Q \<Longrightarrow> acc_owner (L' k) = acc_owner (L k)"
    using ag K by (auto simp: poll_agrees_def)
  have cfg: "ai_key (po_config Q) \<notin> poll_writes Q" using d by (auto simp: poll_writes_def data_at_def)
  have other: "(check_load p a pda (Some t) w L' = Ok () \<longleftrightarrow> check_load p a pda (Some t) w L = Ok ()) \<and>
      (check_load p a pda (Some t) w L = Ok () \<longrightarrow> data_at L' a = data_at L a)"
    if "ai_key a \<in> keys_of (cast_vote_tx Q v)" "t \<notin> {DEpochState, DBallotBox, DConsensusResult}" for a pda t w
  proof (cases "ai_key a \<in> poll_writes Q")
    case True
    then have "data_at L a \<in> {EpochStateData e, BallotBoxData b, ConsensusResultData r}"
      "data_at L' a \<in> {EpochStateData e', BallotBoxData b', ConsensusResultData r'}"
      using d d' by (auto simp: poll_writes_def data_at_def)
    then show ?thesis using that(2) by (auto simp: check_load_typed)
  next
    case False
    note eq = same [OF that(1) False]
    show ?thesis by (simp add: check_load_same [of L' a L, OF eq] data_at_def eq)
  qed
  have keys: "ai_key (po_snapshot Q) \<in> keys_of (cast_vote_tx Q v)" "ai_key osnap \<in> keys_of (cast_vote_tx Q v)"
    "ai_key (po_config Q) \<in> keys_of (cast_vote_tx Q v)" "ai_key (po_ncn Q) \<in> keys_of (cast_vote_tx Q v)"
    "ai_key opr \<in> keys_of (cast_vote_tx Q v)" "ai_key voter \<in> keys_of (cast_vote_tx Q v)"
    by (simp_all add: v keys_of_def cast_vote_tx_def)
  note eqs = same [OF keys(4) apart(1)] same [OF keys(5) apart(2)] same [OF keys(6) apart(3)] same [OF keys(3) cfg]
  have untyped: "load_signer E voter False L' = load_signer E voter False L" "Ncn_load E (po_ncn Q) False L' = Ncn_load E (po_ncn Q) False L"
    "Operator_load E opr False L' = Operator_load E opr False L" "data_at L' opr = data_at L opr"
    by (simp_all add: load_signer_def Ncn_load_def Operator_load_def data_at_def eqs)
  have written: "EpochState_load E p (po_state Q) n f False L' = Ok () \<longleftrightarrow> EpochState_load E p (po_state Q) n f False L = Ok ()"
    "BallotBox_load E p (po_box Q) n f True L' = Ok () \<longleftrightarrow> BallotBox_load E p (po_box Q) n f True L = Ok ()"
    "ConsensusResult_load E p (po_result Q) n f True L' = Ok () \<longleftrightarrow> ConsensusResult_load E p (po_result Q) n f True L = Ok ()"
    "Config_load E p (po_config Q) n False L' = Ok () \<longleftrightarrow> Config_load E p (po_config Q) n False L = Ok ()" for n f
    by (simp_all add: load_defs check_load_typed d d' own poll_writes_def eqs)
  have snap: "EpochSnapshot_load E p (po_snapshot Q) n f False L' = Ok () \<longleftrightarrow> EpochSnapshot_load E p (po_snapshot Q) n f False L = Ok ()"
    "EpochSnapshot_load E p (po_snapshot Q) n f False L = Ok () \<Longrightarrow> data_at L' (po_snapshot Q) = data_at L (po_snapshot Q)" for n f
    using other [OF keys(1), where t = DEpochSnapshot and w = False and pda = "fst (EpochSnapshot_find_program_address E p n f)"]
    unfolding EpochSnapshot_load_def by simp_all
  have osnap: "OperatorSnapshot_load E p osnap k n f False L' = Ok () \<longleftrightarrow> OperatorSnapshot_load E p osnap k n f False L = Ok ()"
    "OperatorSnapshot_load E p osnap k n f False L = Ok () \<Longrightarrow> data_at L' osnap = data_at L osnap" for k n f
    using other [OF keys(2), where t = DOperatorSnapshot and w = False and pda = "fst (OperatorSnapshot_find_program_address E p k n f)"]
    unfolding OperatorSnapshot_load_def by simp_all
  show ?thesis
    unfolding v entitled_def prod.case Let_def untyped written snap(1) osnap(1) vote_stake_def
    by (intro conj_cong refl) (simp_all only: snap(2) osnap(2))
qed

section \<open>The log of a poll\<close>

text \<open>
  \<open>turnout stake V old new\<close>: \<open>new\<close> are votes of \<open>V\<close> by operators that are not in \<open>old\<close>, one per
  operator, each with the stake of its operator.
\<close>

definition turnout :: "(pubkey \<Rightarrow> nat) \<Rightarrow> vote set \<Rightarrow> (pubkey \<times> u8 \<times> nat) list \<Rightarrow> (pubkey \<times> u8 \<times> nat) list \<Rightarrow> bool" where
  "turnout stake V old new \<longleftrightarrow> distinct (map fst new) \<and> fst ` set new \<inter> fst ` set old = {} \<and>
     (\<forall>(k, t, w) \<in> set new. w = stake k \<and> (\<exists>v \<in> V. vote_operator v = k \<and> vote_status v = t))"

lemma log_stake_append [simp]: "log_stake s (xs @ ys) = log_stake s xs + log_stake s ys"
  by (simp add: log_stake_def)

lemma log_stake_le_total: "log_stake s lg \<le> total_stake lg"
  by (induction lg) (auto simp: log_stake_def)

lemma length_ballot_log [simp]: "length (ballot_log b) = length (cast_votes b)"
  by (simp add: ballot_log_def)

lemma distinct_log: "bb_wf b \<Longrightarrow> distinct (map fst (ballot_log b))"
  by (simp add: bb_wf_def bb_votes_ok_def ballot_log_def comp_def)

lemma log_stake_sum:
  assumes "distinct (map fst lg)" and "\<forall>(k, t, w) \<in> set lg. w = stake k"
  shows "log_stake s lg = (\<Sum>k | (k, s) \<in> (\<lambda>x. (fst x, fst (snd x))) ` set lg. stake k)"
    and "total_stake lg = (\<Sum>k \<in> fst ` set lg. stake k)"
proof -
  show "total_stake lg = (\<Sum>k \<in> fst ` set lg. stake k)"
    using assms by (induction lg) auto
  show "log_stake s lg = (\<Sum>k | (k, s) \<in> (\<lambda>x. (fst x, fst (snd x))) ` set lg. stake k)"
    using assms
  proof (induction lg)
    case (Cons x lg)
    obtain k t w where x: "x = (k, t, w)" by (cases x)
    let ?S = "\<lambda>lg. {k. (k, s) \<in> (\<lambda>x. (fst x, fst (snd x))) ` set lg}"
    have fin: "finite (?S lg)" by (rule finite_subset [of _ "fst ` set lg"]) force+
    have new: "k \<notin> ?S lg" using Cons.prems(1) by (force simp: x)
    have "?S (x # lg) = (if t = s then insert k (?S lg) else ?S lg)" by (auto simp: x)
    with Cons fin new show ?case by (simp add: x log_stake_def)
  qed (simp add: log_stake_def)
qed

lemma turnoutD:
  assumes "turnout stake V old new" and "(k, t, w) \<in> set new"
  shows "w = stake k" and "\<exists>v \<in> V. vote_operator v = k \<and> vote_status v = t" and "k \<notin> fst ` set old"
proof -
  show "w = stake k" and "\<exists>v \<in> V. vote_operator v = k \<and> vote_status v = t"
    using assms by (auto simp: turnout_def)
  have "k \<in> fst ` set new" using assms(2) by force
  then show "k \<notin> fst ` set old" using assms(1) by (auto simp: turnout_def)
qed

lemma turnout_operators:
  assumes "turnout stake V old new"
  shows "fst ` set new \<subseteq> vote_operator ` V - fst ` set old"
proof
  fix k assume "k \<in> fst ` set new"
  then obtain t w where "(k, t, w) \<in> set new" by auto
  from turnoutD [OF assms this] show "k \<in> vote_operator ` V - fst ` set old" by auto
qed

lemma turnout_snoc:
  assumes "turnout stake V old new" and "v \<in> V" and "w = stake (vote_operator v)" and "vote_operator v \<notin> fst ` set (old @ new)"
  shows "turnout stake V old (new @ [(vote_operator v, vote_status v, w)])"
  using assms by (auto simp: turnout_def)

lemma turnout_sums:
  assumes t: "turnout stake V old new" and fin: "finite V"
    and S: "S \<subseteq> vote_operator ` V - fst ` set old" "\<forall>v \<in> V. vote_operator v \<in> S \<longrightarrow> vote_status v = st"
    and tot: "total_stake old + (\<Sum>k \<in> vote_operator ` V - fst ` set old. stake k) \<le> tot"
  shows "total_stake (old @ new) \<le> tot"
    and "s \<noteq> st \<Longrightarrow> log_stake s (old @ new) + (log_stake st old + (\<Sum>k \<in> S. stake k)) \<le> tot"
    and "S \<subseteq> fst ` set new \<Longrightarrow> log_stake st old + (\<Sum>k \<in> S. stake k) \<le> log_stake st (old @ new)"
proof -
  let ?O = "vote_operator ` V - fst ` set old"
  let ?R = "\<lambda>s. {k. (k, s) \<in> (\<lambda>x. (fst x, fst (snd x))) ` set new}"
  have dist: "distinct (map fst new)" and st: "\<forall>(k, t, w) \<in> set new. w = stake k"
    using t by (auto simp: turnout_def)
  note sub = turnout_operators [OF t]
  note sums = log_stake_sum [OF dist st]
  have finO: "finite ?O" using fin by simp
  show "total_stake (old @ new) \<le> tot"
    using sum_mono2 [OF finO sub, of stake] tot by (simp add: sums(2))
  have R: "?R s \<subseteq> fst ` set new" "finite (?R s)" for s
    by (force, rule finite_subset [of _ "fst ` set new"]) force+
  show "log_stake s (old @ new) + (log_stake st old + (\<Sum>k \<in> S. stake k)) \<le> tot" if "s \<noteq> st"
  proof -
    have "?R s \<inter> S = {}" using turnoutD(2) [OF t] S(2) that by force
    then have "(\<Sum>k \<in> ?R s. stake k) + (\<Sum>k \<in> S. stake k) = (\<Sum>k \<in> ?R s \<union> S. stake k)"
      using R finite_subset [OF S(1) finO] by (simp add: sum.union_disjoint)
    also have "\<dots> \<le> (\<Sum>k \<in> ?O. stake k)"
      using R(1) [of s] sub S(1) by (intro sum_mono2 [OF finO]) auto
    finally show ?thesis using tot log_stake_two [OF that, of old] by (simp add: sums(1))
  qed
  show "log_stake st old + (\<Sum>k \<in> S. stake k) \<le> log_stake st (old @ new)" if "S \<subseteq> fst ` set new"
  proof -
    have "S \<subseteq> ?R st"
    proof
      fix k assume k: "k \<in> S"
      with that have "k \<in> fst ` set new" by blast
      then obtain u w where n: "(k, u, w) \<in> set new" by auto
      from turnoutD(2) [OF t n] S(2) k have "u = st" by auto
      with n show "k \<in> ?R st" by force
    qed
    then show ?thesis using sum_mono2 [OF R(2), of S st stake] by (simp add: sums(1))
  qed
qed

lemma turnout_length:
  assumes "turnout stake V old new" and "finite V" and "distinct (map fst old)"
    and "v \<in> V" "vote_operator v \<notin> fst ` set (old @ new)"
    and "card (vote_operator ` V \<union> fst ` set old) \<le> n"
  shows "length (old @ new) < n"
proof -
  have "distinct (map fst (old @ new))" using assms(1,3) by (auto simp: turnout_def)
  from distinct_card [OF this] have "length (old @ new) = card (fst ` set (old @ new))" by (simp add: image_Un)
  also have "\<dots> < card (vote_operator ` V \<union> fst ` set old)"
    using turnout_operators [OF assms(1)] assms(2,4,5) by (intro psubset_card_mono) auto
  finally show ?thesis using assms(6) by simp
qed

section \<open>The run of a poll\<close>

text \<open>
  A poll on a ledger: the stake of the operators that may still vote and of the votes already
  cast is at most the total of the epoch snapshot, the ballot box has room for all of them, and
  the operators \<open>S\<close> that vote for \<open>st\<close> and nothing else hold two thirds with the votes for \<open>st\<close>
  already cast.
\<close>

definition valid_votes :: "pubkey \<Rightarrow> poll \<Rightarrow> ledger \<Rightarrow> transaction list \<Rightarrow> vote set" where
  "valid_votes p Q L txs = {v. cast_vote_tx Q v \<in> set txs \<and> entitled p Q L v \<and> vote_status v \<le> 2}"

definition poll_transactions :: "poll \<Rightarrow> transaction list \<Rightarrow> bool" where
  "poll_transactions Q txs \<longleftrightarrow>
     (\<forall>tx \<in> set txs. (\<exists>v. tx = cast_vote_tx Q v) \<or> (\<forall>v. cast_vote_tx Q v \<in> set txs \<longrightarrow> keys_of tx \<inter> keys_of (cast_vote_tx Q v) = {})) \<and>
     (\<forall>E osnap opr voter st. cast_vote_tx Q (E, osnap, opr, voter, st) \<in> set txs \<longrightarrow>
        {ai_key (po_ncn Q), ai_key opr, ai_key voter} \<inter> poll_writes Q = {})"

lemma finite_votes: "finite (valid_votes p Q L txs)"
proof (rule finite_subset)
  show "valid_votes p Q L txs \<subseteq> cast_vote_tx Q -` set txs" by (auto simp: valid_votes_def)
  show "finite (cast_vote_tx Q -` set txs)" by (rule finite_vimageI) (auto simp: inj_def)
qed

text \<open>
  What holds after any part of the run: the accounts a vote reads are as at the start, the log
  has grown by valid votes, and either the box is decided for \<open>st\<close> and the result records it, or
  no status has a supermajority and every operator of \<open>S\<close> that has sent a vote is in the log.
\<close>

definition poll_outcome :: "poll \<Rightarrow> vote set \<Rightarrow> ledger \<Rightarrow> nat \<Rightarrow> u8 \<Rightarrow> transaction list \<Rightarrow> ledger \<Rightarrow> ballot_box \<Rightarrow> bool \<Rightarrow> bool" where
  "poll_outcome Q V L tot st past L' b' voted \<longleftrightarrow>
     (if is_consensus_reached b'
      then winning_ballot b' = Ballot_new st \<and>
        (\<exists>r. data_at L' (po_result Q) = ConsensusResultData r \<and> cr_weather_status r = st)
      else data_at L' (po_result Q) = data_at L (po_result Q) \<and>
        (voted \<longrightarrow> (\<forall>s. \<not> supermajority tot (log_stake s (ballot_log b')))) \<and>
        (\<forall>v \<in> V. cast_vote_tx Q v \<in> set past \<longrightarrow> vote_operator v \<in> fst ` set (ballot_log b')))"

definition poll_inv ::
  "pubkey \<Rightarrow> poll \<Rightarrow> transaction list \<Rightarrow> ledger \<Rightarrow> ballot_box \<Rightarrow> (pubkey \<Rightarrow> nat) \<Rightarrow> nat \<Rightarrow> u8 \<Rightarrow> transaction list \<Rightarrow> ledger \<Rightarrow> bool" where
  "poll_inv p Q txs L b stake tot st past L' \<longleftrightarrow> ledger_wf L' \<and>
     poll_agrees Q (\<Union>v \<in> {v. cast_vote_tx Q v \<in> set txs}. keys_of (cast_vote_tx Q v)) L L' \<and>
     (\<exists>b' new. data_at L' (po_box Q) = BallotBoxData b' \<and> ballot_log b' = ballot_log b @ new \<and>
        turnout stake (valid_votes p Q L txs) (ballot_log b) new \<and>
        poll_outcome Q (valid_votes p Q L txs) L tot st past L' b' (new \<noteq> []))"

definition poll_setting ::
  "'p precise_ops \<Rightarrow> ('p \<Rightarrow> nat) \<Rightarrow> pubkey \<Rightarrow> poll \<Rightarrow> transaction list \<Rightarrow> ledger \<Rightarrow>
   ballot_box \<Rightarrow> nat \<Rightarrow> (pubkey \<Rightarrow> nat) \<Rightarrow> pubkey set \<Rightarrow> u8 \<Rightarrow> bool" where
  "poll_setting P raw p Q txs L b tot stake S st \<longleftrightarrow>
     (\<forall>tx \<in> set txs. lawful P raw p tx) \<and> poll_transactions Q txs \<and> ledger_wf L \<and> poll_ready Q L \<and>
     data_at L (po_box Q) = BallotBoxData b \<and> \<not> is_consensus_reached b \<and>
     (\<exists>r. data_at L (po_result Q) = ConsensusResultData r \<and> \<not> ConsensusResult_is_consensus_reached r) \<and>
     (\<exists>s. data_at L (po_snapshot Q) = EpochSnapshotData s \<and> weight_of (es_stake_weights s) = tot) \<and>
     (\<forall>v \<in> valid_votes p Q L txs. vote_stake L v = stake (vote_operator v)) \<and>
     total_stake (ballot_log b) + (\<Sum>k \<in> vote_operator ` valid_votes p Q L txs - fst ` set (ballot_log b). stake k) \<le> tot \<and>
     card (vote_operator ` valid_votes p Q L txs \<union> fst ` set (ballot_log b)) \<le> MAX_OPERATORS \<and>
     S \<noteq> {} \<and> S \<subseteq> vote_operator ` valid_votes p Q L txs - fst ` set (ballot_log b) \<and>
     (\<forall>v \<in> valid_votes p Q L txs. vote_operator v \<in> S \<longrightarrow> vote_status v = st) \<and>
     2 * tot \<le> 3 * (log_stake st (ballot_log b) + (\<Sum>k \<in> S. stake k))"

lemma vote_agrees:
  assumes ag: "poll_agrees Q K L0 L" and d: "d = ConsensusResultData r"
    and ne: "ai_key (po_result Q) \<noteq> ai_key (po_box Q)" "ai_key (po_state Q) \<noteq> ai_key (po_result Q)" "ai_key (po_state Q) \<noteq> ai_key (po_box Q)"
    and L': "L' = set_data (set_data (set_data L (po_box Q) (BallotBoxData b)) (po_result Q) d) (po_state Q) (EpochStateData e)"
  shows "poll_agrees Q K L0 L'"
proof -
  obtain c where c: "data_at L (po_config Q) = ConfigData c" using ag by (auto simp: poll_agrees_def poll_ready_def)
  then have "ai_key (po_config Q) \<notin> poll_writes Q"
    using ag by (auto simp: poll_agrees_def poll_ready_def poll_writes_def data_at_def)
  then show ?thesis using ag ne c by (auto simp: L' d poll_agrees_def poll_ready_def poll_writes_def ledger_simps)
qed

lemma poll_agrees_data:
  assumes ag: "poll_agrees Q K L L'" and k: "ai_key a \<in> K"
    and t: "discriminator_of (data_at L a) = Some t \<or> discriminator_of (data_at L' a) = Some t" "t \<notin> {DEpochState, DBallotBox, DConsensusResult}"
  shows "data_at L' a = data_at L a"
proof -
  have "ai_key a \<notin> poll_writes Q"
    using ag t by (auto simp: poll_agrees_def poll_ready_def poll_writes_def data_at_def)
  then show ?thesis using ag k by (simp add: poll_agrees_def data_at_def)
qed

text \<open>The facts of a setting.\<close>

lemma poll_settingD:
  assumes "poll_setting P raw p Q txs L b tot stake S st"
  shows "\<And>tx. tx \<in> set txs \<Longrightarrow> lawful P raw p tx" "poll_transactions Q txs" "ledger_wf L" "poll_ready Q L"
    "data_at L (po_box Q) = BallotBoxData b" "\<not> is_consensus_reached b"
    "\<exists>r. data_at L (po_result Q) = ConsensusResultData r \<and> \<not> ConsensusResult_is_consensus_reached r"
    "\<exists>s. data_at L (po_snapshot Q) = EpochSnapshotData s \<and> weight_of (es_stake_weights s) = tot"
    "\<And>v. v \<in> valid_votes p Q L txs \<Longrightarrow> vote_stake L v = stake (vote_operator v)"
    "total_stake (ballot_log b) + (\<Sum>k \<in> vote_operator ` valid_votes p Q L txs - fst ` set (ballot_log b). stake k) \<le> tot"
    "card (vote_operator ` valid_votes p Q L txs \<union> fst ` set (ballot_log b)) \<le> 256"
    "S \<noteq> {}" "S \<subseteq> vote_operator ` valid_votes p Q L txs - fst ` set (ballot_log b)"
    "\<forall>v \<in> valid_votes p Q L txs. vote_operator v \<in> S \<longrightarrow> vote_status v = st"
    "2 * tot \<le> 3 * (log_stake st (ballot_log b) + (\<Sum>k \<in> S. stake k))"
  using assms unfolding poll_setting_def MAX_OPERATORS_def by blast+

lemma setting_total:
  assumes "poll_setting P raw p Q txs L b tot stake S st"
  shows "tot \<noteq> 0"
proof -
  note D = poll_settingD [OF assms]
  obtain k where k: "k \<in> S" using D(12) by blast
  then obtain v where v: "v \<in> valid_votes p Q L txs" "vote_operator v = k" using D(13) by blast
  then have "stake k \<noteq> 0" using D(9) [OF v(1)] by (cases v) (auto simp: valid_votes_def entitled_def Let_def)
  moreover have "stake k \<le> (\<Sum>k \<in> vote_operator ` valid_votes p Q L txs - fst ` set (ballot_log b). stake k)"
    using k D(13) finite_votes [of p Q L txs] by (intro member_le_sum) auto
  ultimately show ?thesis using D(10) by linarith
qed

lemma setting_apart:
  assumes "poll_setting P raw p Q txs L b tot stake S st" and "cast_vote_tx Q (E, osnap, opr, voter, s) \<in> set txs"
  shows "ai_key (po_ncn Q) \<notin> poll_writes Q" "ai_key opr \<notin> poll_writes Q" "ai_key voter \<notin> poll_writes Q"
  using poll_settingD(2) [OF assms(1)] assms(2) unfolding poll_transactions_def by blast+

text \<open>No other status can get a supermajority.\<close>

lemma setting_winner:
  assumes "poll_setting P raw p Q txs L b tot stake S st"
    and "turnout stake (valid_votes p Q L txs) (ballot_log b) new" and "supermajority tot (log_stake s (ballot_log b @ new))"
  shows "s = st"
proof (rule ccontr)
  assume "s \<noteq> st"
  note D = poll_settingD [OF assms(1)]
  have "log_stake s (ballot_log b @ new) + (log_stake st (ballot_log b) + (\<Sum>k \<in> S. stake k)) \<le> tot"
    by (rule turnout_sums(2) [OF assms(2) finite_votes D(13,14,10) \<open>s \<noteq> st\<close>])
  then have "tot = 0"
    by (rule supermajority_unique [OF assms(3) supermajority_two_thirds [OF D(15)]])
  then show False using setting_total [OF assms(1)] by simp
qed

abbreviation poll_keys :: "poll \<Rightarrow> transaction list \<Rightarrow> pubkey set" where
  "poll_keys Q txs \<equiv> \<Union>v \<in> {v. cast_vote_tx Q v \<in> set txs}. keys_of (cast_vote_tx Q v)"

lemma vote_keys: "cast_vote_tx Q v \<in> set txs \<Longrightarrow> keys_of (cast_vote_tx Q v) \<subseteq> poll_keys Q txs"
  by auto

lemma vote_key_members:
  "v = (E, osnap, opr, voter, st) \<Longrightarrow>
   {ai_key (po_snapshot Q), ai_key osnap, ai_key (po_config Q), ai_key (po_box Q), ai_key (po_result Q), ai_key (po_state Q)} \<subseteq> keys_of (cast_vote_tx Q v)"
  by (simp add: keys_of_def cast_vote_tx_def)

lemma setting_accepts:
  assumes set: "poll_setting P raw p Q txs L b tot stake S st" and L': "ledger_wf L'"
    and ag: "poll_agrees Q (poll_keys Q txs) L L'"
    and b': "data_at L' (po_box Q) = BallotBoxData b'" "\<not> is_consensus_reached b'" "ballot_log b' = ballot_log b @ new"
    and t: "turnout stake (valid_votes p Q L txs) (ballot_log b) new"
    and v: "v \<in> valid_votes p Q L txs" "vote_operator v \<notin> fst ` set (ballot_log b')" "v = (E, osnap, opr, voter, vst)"
  shows "is_ok (process_instruction E P p p (fst (snd (cast_vote_tx Q v))) (Ok (CastVote vst (po_epoch Q))) L')"
proof -
  note D = poll_settingD [OF set]
  have tx: "cast_vote_tx Q v \<in> set txs" and ent: "entitled p Q L v" and le2: "vst \<le> 2"
    using v(1,3) by (auto simp: valid_votes_def)
  note keys = subset_trans [OF vote_key_members [OF v(3)] vote_keys [OF tx]]
  have pr: "ncn_program E P raw" using D(1) [OF tx] by (simp add: v(3) cast_vote_tx_def lawful_def)
  have ent': "entitled p Q L' v"
    using entitled_agrees [OF ag vote_keys [OF tx] v(3) setting_apart [OF set tx [unfolded v(3)]]] ent by blast
  obtain s where s: "data_at L (po_snapshot Q) = EpochSnapshotData s" "weight_of (es_stake_weights s) = tot"
    using D(8) by blast
  have s': "data_at L' (po_snapshot Q) = EpochSnapshotData s"
    using poll_agrees_data [OF ag, of "po_snapshot Q" DEpochSnapshot] keys s(1) by simp
  obtain c where c: "data_at L' (po_config Q) = ConfigData c" and ready: "poll_ready Q L'"
    using ag by (auto simp: poll_agrees_def poll_ready_def)
  obtain os where os: "data_at L osnap = OperatorSnapshotData os"
    using ent by (auto simp: v(3) entitled_def Let_def vote_stake_def split: account_data.splits)
  have os': "data_at L' osnap = OperatorSnapshotData os"
    using poll_agrees_data [OF ag, of osnap DOperatorSnapshot] keys os by simp
  have w: "weight_of (os_stake_weights os) = stake (ai_key opr)"
    using D(9) [OF v(1)] os by (simp add: v(3) vote_stake_eq)
  have wf: "bb_wf b" "bb_wf b'" using wf_views(2) [OF D(3,5)] wf_views(2) [OF L' b'(1)] .
  let ?w = "(ai_key opr, vst, weight_of (os_stake_weights os))"
  have t': "turnout stake (valid_votes p Q L txs) (ballot_log b) (new @ [?w])"
    using turnout_snoc [OF t v(1), of "weight_of (os_stake_weights os)"] w v(2,3) b'(3) by simp
  have "log_stake vst (ballot_log b') + weight_of (os_stake_weights os) \<le> total_stake (ballot_log b @ new @ [?w])"
    using log_stake_le_total [of vst "ballot_log b @ new @ [?w]"] by (simp add: b'(3) log_stake_def)
  also have "\<dots> \<le> tot" by (rule turnout_sums(1) [OF t' finite_votes D(13,14,10)])
  also have "\<dots> < 2 ^ 128" using unat_u128_less [of "stake_weight (es_stake_weights s)"] s(2) by simp
  finally have fits: "log_stake vst (ballot_log b') + weight_of (os_stake_weights os) < 2 ^ 128" .
  have "length (cast_votes b') < 256"
    using turnout_length [OF t finite_votes _ v(1) _ D(11)] v(2) distinct_log [OF wf(1)] b'(3)
    by (metis length_ballot_log)
  moreover have "ai_key opr \<noteq> Pubkey_default"
    using ent' runtime_laws.operator_Ok [OF ncn_program.axioms(1) [OF pr]]
    by (auto simp: v(3) entitled_def Operator_load_def Let_def)
  then have "\<not> did_operator_vote b' (ai_key opr)"
    using v(2,3) wf(2) by (force simp: did_operator_vote_iff bb_wf_def ballot_log_def)
  moreover have "is_voting_valid b' (clock_slot E) (valid_slots_after_consensus c) = Ok True"
    using b'(2) by (auto simp: is_voting_valid_def tie_breaker_set_def is_consensus_reached_def)
  ultimately have "is_ok (cast_vote b' (ai_key opr) (Ballot_new vst) (os_stake_weights os) (clock_slot E) (valid_slots_after_consensus c))"
    using fits le2 by (simp add: cast_vote_is_ok_iff [OF wf(2)])
  then show ?thesis
    using vote_progress [OF pr L' ready ent' [unfolded v(3)] b'(1) c s' _ os'] s(2) setting_total [OF set]
    by (auto simp: v(3) unat_gt_0)
qed

lemma setting_outcome:
  assumes set: "poll_setting P raw p Q txs L b tot stake S st" and P: "precise_number P raw"
    and wf: "bb_wf b0" "bb_wf b1"
    and vote: "cast_vote b0 k (Ballot_new vst) w slot valid = Ok b1" and tally: "tally_votes P b1 sw slot = Ok b'"
    and sw: "unat sw = tot" and log: "ballot_log b' = ballot_log b @ new" and t: "turnout stake V (ballot_log b) new"
    and v: "v \<in> V" "vote_operator v \<in> fst ` set (ballot_log b')" and out: "poll_outcome Q V L tot st past L' b0 voted"
    and V: "V = valid_votes p Q L txs"
    and res: "if is_consensus_reached b'
      then \<exists>c c'. data_at L' (po_result Q) = ConsensusResultData c \<and> data_at L'' (po_result Q) = ConsensusResultData c' \<and>
        record_consensus c (weather_status (winning_ballot b')) x y z = Ok c'
      else data_at L'' (po_result Q) = data_at L' (po_result Q)"
  shows "poll_outcome Q V L tot st (past @ [cast_vote_tx Q v]) L'' b' True"
proof -
  have "bb_tables_ok b0" using wf by (simp add: bb_wf_def)
  note frame = cast_vote_frame [OF this vote]
  have tot: "sw \<noteq> 0" using setting_total [OF set] sw by auto
  show ?thesis
  proof (cases "is_consensus_reached b0")
    case True
    then have dec: "is_consensus_reached b1" using frame by (simp add: is_consensus_reached_def)
    have "b' = b1" by (rule tally_votes_decided [OF wf(2) dec tally])
    then show ?thesis
      using res dec out True frame(1) recorded_consensus(2,3)
      by (fastforce simp: poll_outcome_def Ballot_new_fields)
  next
    case False
    then have und: "\<not> is_consensus_reached b1" using frame by (simp add: is_consensus_reached_def)
    have same: "data_at L' (po_result Q) = data_at L (po_result Q)"
      and past: "\<And>v. v \<in> V \<Longrightarrow> cast_vote_tx Q v \<in> set past \<Longrightarrow> vote_operator v \<in> fst ` set (ballot_log b0)"
      using out False by (simp_all add: poll_outcome_def)
    from tally_votes_log [OF P wf(2) tot und, of slot] show ?thesis
    proof (elim disjE exE conjE)
      fix s assume s: "supermajority (unat sw) (log_stake s (ballot_log b1))" "s \<le> 2"
        and "tally_votes P b1 sw slot = Ok (b1\<lparr>slot_consensus_reached := slot, winning_ballot := Ballot_new s\<rparr>)"
      then have b': "b' = b1\<lparr>slot_consensus_reached := slot, winning_ballot := Ballot_new s\<rparr>" using tally by simp
      then have "ballot_log b1 = ballot_log b @ new" using log by (simp add: ballot_log_def cast_votes_def)
      then have "s = st" using setting_winner [OF set t [unfolded V]] s(1) sw by simp
      moreover have "is_consensus_reached b'" using s(2) by (simp add: b' is_consensus_reached_def)
      ultimately show ?thesis
        using res same poll_settingD(7) [OF set] recorded_consensus(2) by (fastforce simp: poll_outcome_def b')
    next
      assume no: "\<forall>s. \<not> supermajority (unat sw) (log_stake s (ballot_log b1))" and "tally_votes P b1 sw slot = Ok b1"
      then have b': "b' = b1" using tally by simp
      have "ballot_log b1 = ballot_log b0 @ [(k, vst, weight_of w)]" by (rule cast_vote_log [OF wf(1) vote])
      then show ?thesis
        using und no sw past v(2) res same by (auto simp: poll_outcome_def b')
    qed
  qed
qed

text \<open>A vote that succeeds extends the log by a valid vote and keeps the accounts of the poll.\<close>

lemma setting_vote:
  assumes set: "poll_setting P raw p Q txs L b tot stake S st" 
    and inv: "poll_inv p Q txs L b stake tot st past L'"
    and tx: "cast_vote_tx Q v \<in> set txs" and v: "v = (E, osnap, opr, voter, vst)"
    and ok: "process_instruction E P p p (fst (snd (cast_vote_tx Q v))) (Ok (CastVote vst (po_epoch Q))) L' = Ok L''"
  shows "poll_inv p Q txs L b stake tot st (past @ [cast_vote_tx Q v]) L''"
proof -
  note D = poll_settingD [OF set]
  let ?V = "valid_votes p Q L txs"
  obtain b0 new where ag: "poll_agrees Q (poll_keys Q txs) L L'" and b0: "data_at L' (po_box Q) = BallotBoxData b0"
    and log0: "ballot_log b0 = ballot_log b @ new" and t0: "turnout stake ?V (ballot_log b) new"
    and out: "poll_outcome Q ?V L tot st past L' b0 (new \<noteq> [])" and L': "ledger_wf L'"
    using inv unfolding poll_inv_def by blast
  have law: "lawful P raw p (cast_vote_tx Q v)" using D(1) [OF tx] .
  then have pr: "ncn_program E P raw" by (simp add: v cast_vote_tx_def lawful_def)
  have P: "precise_number P raw" using pr by (rule ncn_program.axioms)
  note keys = subset_trans [OF vote_key_members [OF v] vote_keys [OF tx]]
  have proc: "process_cast_vote E P p [po_state Q, po_config Q, po_box Q, po_ncn Q, po_snapshot Q, osnap, opr, voter, po_result Q]
      vst (po_epoch Q) L' = Ok L''" using ok by (simp add: process_instruction_def v cast_vote_tx_def)
  have wf'': "ledger_wf L''"
    using execute_wf [OF law L'] ok by (simp add: execute_def v cast_vote_tx_def)
  show ?thesis
  proof (rule cast_vote_effect [OF pr L' proc refl], goal_cases)
    case (1 b1 b2 b' s os slots d e)
    have b1: "b1 = b0" using 1(1) b0 by simp
    have vV: "v \<in> ?V"
      using vote_entitled [OF ok [unfolded v]] cast_vote_fresh(2) [OF 1(4,7)] tx
        entitled_agrees [OF ag vote_keys [OF tx] v setting_apart [OF set tx [unfolded v]]]
      by (auto simp: valid_votes_def v)
    have os: "data_at L osnap = OperatorSnapshotData os"
      using poll_agrees_data [OF ag, of osnap DOperatorSnapshot] keys 1(3) by simp
    then have w: "weight_of (os_stake_weights os) = stake (ai_key opr)"
      using D(9) [OF vV] by (simp add: v vote_stake_eq)
    have tot: "unat (stake_weight (es_stake_weights s)) = tot"
      using D(8) poll_agrees_data [OF ag, of "po_snapshot Q" DEpochSnapshot] keys 1(2) by auto
    let ?new = "new @ [(ai_key opr, vst, weight_of (os_stake_weights os))]"
    have log: "ballot_log b' = ballot_log b @ ?new" by (simp add: 1(9) b1 log0)
    have t: "turnout stake ?V (ballot_log b) ?new"
      using turnout_snoc [OF t0 vV, of "weight_of (os_stake_weights os)"] w cast_vote_fresh(1) [OF 1(4,7)]
      by (simp add: v b1 log0)
    obtain r where d: "d = ConsensusResultData r"
      using 1(10) ag by (auto simp: poll_agrees_def poll_ready_def split: if_splits)
    have ag'': "poll_agrees Q (poll_keys Q txs) L L''" by (rule vote_agrees [OF ag d 1(14-16,11)])
    have at: "data_at L'' (po_box Q) = BallotBoxData b'" "data_at L'' (po_result Q) = d"
      using 1(11,14-16) by (auto simp: ledger_simps)
    have "poll_outcome Q ?V L tot st (past @ [cast_vote_tx Q v]) L'' b' True"
      by (rule setting_outcome [OF set P 1(4,5,7,8) tot log t vV _ out [folded b1] refl]) (use v log 1(10) at in auto)
    then show ?case
      using wf'' ag'' log t at unfolding poll_inv_def by auto
  qed
qed

lemma poll_start:
  assumes "poll_setting P raw p Q txs L b tot stake S st"
  shows "poll_inv p Q txs L b stake tot st [] L"
  using poll_settingD(3-6) [OF assms]
  by (auto simp: poll_inv_def poll_agrees_def poll_outcome_def turnout_def)

lemma poll_step_vote:
  assumes set: "poll_setting P raw p Q txs L b tot stake S st" and inv: "poll_inv p Q txs L b stake tot st past L'"
    and tx: "cast_vote_tx Q v \<in> set txs"
  shows "poll_inv p Q txs L b stake tot st (past @ [cast_vote_tx Q v]) (execute P p (cast_vote_tx Q v) L')"
proof -
  let ?V = "valid_votes p Q L txs"
  obtain E osnap opr voter vst where v: "v = (E, osnap, opr, voter, vst)" by (cases v)
  let ?r = "process_instruction E P p p (fst (snd (cast_vote_tx Q v))) (Ok (CastVote vst (po_epoch Q))) L'"
  have ex: "execute P p (cast_vote_tx Q v) L' = (case ?r of Ok L'' \<Rightarrow> L'' | _ \<Rightarrow> L')"
    by (simp add: execute_def v cast_vote_tx_def)
  show ?thesis
  proof (cases "is_ok ?r")
    case True
    then obtain L'' where "?r = Ok L''" by (auto simp: is_ok_iff)
    with setting_vote [OF set inv tx v this] show ?thesis by (simp add: ex)
  next
    case False
    then have same: "execute P p (cast_vote_tx Q v) L' = L'" by (cases ?r) (simp_all add: ex)
    from inv obtain b0 new where b0: "ledger_wf L'" "poll_agrees Q (poll_keys Q txs) L L'"
      "data_at L' (po_box Q) = BallotBoxData b0" "ballot_log b0 = ballot_log b @ new" "turnout stake ?V (ballot_log b) new"
      "poll_outcome Q ?V L tot st past L' b0 (new \<noteq> [])"
      unfolding poll_inv_def by blast
    have "vote_operator v \<in> fst ` set (ballot_log b0)" if "v \<in> ?V" "\<not> is_consensus_reached b0"
      using setting_accepts [OF set b0(1-3) that(2) b0(4,5) that(1) _ v] False by blast
    then have "poll_outcome Q ?V L tot st (past @ [cast_vote_tx Q v]) L' b0 (new \<noteq> [])"
      using b0(6) by (auto simp: poll_outcome_def)
    then show ?thesis using b0 unfolding poll_inv_def same by blast
  qed
qed

lemma poll_step_foreign:
  assumes set: "poll_setting P raw p Q txs L b tot stake S st" and inv: "poll_inv p Q txs L b stake tot st past L'"
    and tx: "tx \<in> set txs" and other: "\<And>v. tx \<noteq> cast_vote_tx Q v"
  shows "poll_inv p Q txs L b stake tot st (past @ [tx]) (execute P p tx L')"
proof -
  note D = poll_settingD [OF set]
  have wf: "ledger_wf L'" using inv by (simp add: poll_inv_def)
  have "keys_of tx \<inter> poll_keys Q txs = {}" using D(2) tx other unfolding poll_transactions_def by blast
  then have same: "execute P p tx L' k = L' k" if "k \<in> poll_keys Q txs" for k
    using execute_frame [OF D(1) [OF tx] wf, of k] that by blast
  have "valid_votes p Q L txs \<noteq> {}" using D(12,13) by blast
  then obtain v where v: "cast_vote_tx Q v \<in> set txs" unfolding valid_votes_def by blast
  obtain E osnap opr voter vst where "v = (E, osnap, opr, voter, vst)" by (cases v)
  from subset_trans [OF vote_key_members [OF this] vote_keys [OF v]]
  have keys: "ai_key (po_config Q) \<in> poll_keys Q txs" "ai_key (po_box Q) \<in> poll_keys Q txs" "ai_key (po_result Q) \<in> poll_keys Q txs"
    "ai_key (po_state Q) \<in> poll_keys Q txs" by simp_all
  note at = keys [THEN same]
  have "poll_agrees Q (poll_keys Q txs) L (execute P p tx L')"
    using inv same by (auto simp: poll_inv_def poll_agrees_def poll_ready_def poll_writes_def data_at_def at)
  moreover have "poll_outcome Q V L tot st past L' b0 vd \<Longrightarrow> poll_outcome Q V L tot st (past @ [tx]) (execute P p tx L') b0 vd" for V b0 vd
    using other [symmetric] by (simp add: poll_outcome_def data_at_def at split: if_splits)
  moreover have "data_at (execute P p tx L') (po_box Q) = data_at L' (po_box Q)" by (simp add: data_at_def at)
  ultimately show ?thesis
    using inv execute_wf [OF D(1) [OF tx] wf] unfolding poll_inv_def by metis
qed

lemma poll_run:
  assumes set: "poll_setting P raw p Q txs L b tot stake S st"
  shows "txs = past @ rest \<Longrightarrow> poll_inv p Q txs L b stake tot st past (run P p past L)"
proof (induction past arbitrary: rest rule: rev_induct)
  case (snoc tx past)
  then have inv: "poll_inv p Q txs L b stake tot st past (run P p past L)" and tx: "tx \<in> set txs" by auto
  show ?case
    using poll_step_vote [OF set inv] poll_step_foreign [OF set inv tx] tx
    by (cases "\<exists>v. tx = cast_vote_tx Q v") (auto simp: run_def)
qed (simp add: poll_start [OF set])

text \<open>
  C4: operators with two thirds of the stake decide the epoch.  In any run of votes of an epoch
  and transactions that do not touch its accounts, if operators \<open>S\<close> with an entitled vote in the
  run vote for \<open>st\<close> and nothing else, and hold two thirds of the total with the votes for \<open>st\<close>
  already cast, then after the run the ballot box is decided for \<open>st\<close> and the consensus result
  records it, whatever the others vote and in which order.
\<close>

theorem two_thirds_decide:
  assumes "poll_setting P raw p Q txs L b tot stake S st"
  shows "\<exists>b' r. data_at (run P p txs L) (po_box Q) = BallotBoxData b' \<and> is_consensus_reached b' \<and>
    winning_ballot b' = Ballot_new st \<and>
    data_at (run P p txs L) (po_result Q) = ConsensusResultData r \<and> cr_weather_status r = st"
proof -
  note D = poll_settingD [OF assms]
  let ?V = "valid_votes p Q L txs"
  have "poll_inv p Q txs L b stake tot st txs (run P p txs L)"
    by (rule poll_run [OF assms, of txs "[]"]) simp
  then obtain b' new where b': "data_at (run P p txs L) (po_box Q) = BallotBoxData b'" "ballot_log b' = ballot_log b @ new"
    and t: "turnout stake ?V (ballot_log b) new"
    and out: "poll_outcome Q ?V L tot st txs (run P p txs L) b' (new \<noteq> [])"
    unfolding poll_inv_def by blast
  have "is_consensus_reached b'"
  proof (rule ccontr)
    assume no: "\<not> is_consensus_reached b'"
    then have "\<forall>v \<in> ?V. vote_operator v \<in> fst ` set (ballot_log b')"
      using out by (auto simp: poll_outcome_def valid_votes_def)
    then have S: "S \<subseteq> fst ` set new" using D(13) b'(2) by fastforce
    then have "new \<noteq> []" using D(12) by auto
    moreover have "supermajority tot (log_stake st (ballot_log b'))"
      unfolding b'(2) using turnout_sums(3) [OF t finite_votes D(13,14,10) S]
      by (rule supermajority_two_thirds [OF order_trans [OF D(15) mult_le_mono2]])
    ultimately show False using out no by (simp add: poll_outcome_def)
  qed
  with out b'(1) show ?thesis by (auto simp: poll_outcome_def)
qed

text \<open>Operator 7 votes twice, first with a voter that is not its own, and decides the epoch.\<close>

definition poll0 :: poll where
  "poll0 = \<lparr>po_state = acc 1051, po_config = acc 1038, po_box = acc 1050, po_ncn = acc 11, po_snapshot = acc 1054,
     po_result = acc 1056, po_epoch = 5\<rparr>"

definition vote_by :: "pubkey \<Rightarrow> u8 \<Rightarrow> vote" where
  "vote_by voter status = (chain, acc 1089, acc 7, acc voter, status)"

lemma poll0_votes: "valid_votes 9 poll0 ledger0 (map (cast_vote_tx poll0) [vote_by 14 2, vote_by 13 1]) = {vote_by 13 1}"
proof -
  have "entitled 9 poll0 ledger0 (vote_by 13 1)" "\<not> entitled 9 poll0 ledger0 (vote_by 14 2)"
    by (simp_all add: entitled_def vote_by_def poll0_def load_signer_def signer_rule_def load_defs loads_typed Ncn_load_def
        Operator_load_def named_operator_def data_at_def ledger0_at epoch_snapshot0_def EpochSnapshot_new_def
        EpochSnapshot_finalized_def vote_stake_def op_snapshot1_stake StakeWeights_new_def Let_def)
  then show ?thesis by (auto simp: valid_votes_def vote_by_def)
qed

theorem two_thirds_decide_witness:
  "\<exists>b' r. data_at (run spl_ops 9 (map (cast_vote_tx poll0) [vote_by 14 2, vote_by 13 1]) ledger0) (acc 1050) = BallotBoxData b' \<and>
     is_consensus_reached b' \<and> winning_ballot b' = Ballot_new 1 \<and>
     data_at (run spl_ops 9 (map (cast_vote_tx poll0) [vote_by 14 2, vote_by 13 1]) ledger0) (acc 1056) = ConsensusResultData r \<and>
     cr_weather_status r = 1"
proof -
  let ?txs = "map (cast_vote_tx poll0) [vote_by 14 2, vote_by 13 1]"
  have "poll_transactions poll0 ?txs"
    unfolding poll_transactions_def by (auto simp: vote_by_def poll_writes_def poll0_def)
  moreover have "\<forall>tx \<in> set ?txs. lawful spl_ops (\<lambda>p. p) 9 tx"
    by (simp add: lawful_def chain_program vote_by_def cast_vote_tx_def)
  moreover have "vote_stake ledger0 (vote_by 13 1) = 70" "vote_operator (vote_by 13 1) = 7" "vote_status (vote_by 13 1) = 1"
    by (simp_all add: vote_stake_def vote_by_def data_at_def ledger0_at op_snapshot1_stake StakeWeights_new_def)
  ultimately have "poll_setting spl_ops (\<lambda>p. p) 9 poll0 ?txs ledger0 box0 100 (\<lambda>_. 70) {7} 1"
    unfolding poll_setting_def poll0_votes
    by (simp add: ledger0_wf poll_ready_def poll0_def data_at_def ledger0_at box0_facts
        ConsensusResult_is_consensus_reached_def ConsensusResult_new_def epoch_snapshot0_def EpochSnapshot_new_def
        StakeWeights_new_def log_stake_def MAX_OPERATORS_def)
  from two_thirds_decide [OF this] show ?thesis by (simp add: poll0_def)
qed

end
