(* ===== verification/Snapshot_Phase.thy ===== *)
theory Snapshot_Phase
  imports Instruction_Properties
begin

text \<open>
  The snapshot phase on the ledger.  Two instructions write the snapshots of an epoch:
  \<open>InitializeOperatorSnapshot\<close> and \<open>SnapshotVaultOperatorDelegation\<close>.  Each updates an operator
  snapshot and, when that is complete, the epoch snapshot; the accounts agree after every run.
\<close>

section \<open>The two instructions\<close>

text \<open>What a snapshot account contributes to the epoch: its stake once it is complete.\<close>

definition snapshot_done :: "account_data \<Rightarrow> bool" where
  "snapshot_done d = (case d of OperatorSnapshotData s \<Rightarrow> OperatorSnapshot_finalized s | _ \<Rightarrow> False)"

definition snapshot_stake :: "account_data \<Rightarrow> nat" where
  "snapshot_stake d = (case d of
       OperatorSnapshotData s \<Rightarrow> if OperatorSnapshot_finalized s then weight_of (os_stake_weights s) else 0
     | _ \<Rightarrow> 0)"

lemma snapshot_simps [simp]:
  "snapshot_done (OperatorSnapshotData s) = OperatorSnapshot_finalized s"
  "snapshot_stake (OperatorSnapshotData s) = (if OperatorSnapshot_finalized s then weight_of (os_stake_weights s) else 0)"
  "\<not> snapshot_done (EpochStateData st)" "snapshot_stake (EpochStateData st) = 0"
  "\<not> snapshot_done (EpochSnapshotData e)" "snapshot_stake (EpochSnapshotData e) = 0"
  by (simp_all add: snapshot_done_def snapshot_stake_def)

lemma empty_snapshot: "data_is_empty d \<Longrightarrow> \<not> snapshot_done d \<and> snapshot_stake d = 0"
  by (cases d) (auto simp: snapshot_done_def snapshot_stake_def data_is_empty_def data_len_def account_sizes)

text \<open>
  The effect both have on the snapshots: one account contributes that did not before, the epoch
  snapshot grows by its stake and, if it is complete, by one operator; no other account
  contributes more or less.
\<close>

definition registers ::
  "account_info \<Rightarrow> account_info \<Rightarrow> ledger \<Rightarrow> ledger \<Rightarrow> bool" where
  "registers snap osnap L L' \<longleftrightarrow> (\<exists>e e'.
     data_at L snap = EpochSnapshotData e \<and> data_at L' snap = EpochSnapshotData e' \<and> ai_key osnap \<noteq> ai_key snap \<and>
     \<not> snapshot_done (data_at L osnap) \<and> snapshot_stake (data_at L osnap) = 0 \<and>
     es_operator_count e' = es_operator_count e \<and> es_vault_count e' = es_vault_count e \<and>
     weight_of (es_stake_weights e') = weight_of (es_stake_weights e) + snapshot_stake (data_at L' osnap) \<and>
     (es_vault_count e \<noteq> 0 \<longrightarrow> unat (es_operators_registered e') =
        unat (es_operators_registered e) + (if snapshot_done (data_at L' osnap) then 1 else 0)) \<and>
     (\<forall>k. k \<noteq> ai_key osnap \<longrightarrow> k \<noteq> ai_key snap \<longrightarrow>
        snapshot_done (acc_data (L' k)) = snapshot_done (acc_data (L k)) \<and>
        snapshot_stake (acc_data (L' k)) = snapshot_stake (acc_data (L k))))"

lemma increment_operator_keeps:
  "increment_operator_registration s slot n w = Ok s' \<Longrightarrow> es_vault_count s' = es_vault_count s"
  by (auto simp: increment_operator_registration_def result_simps Let_def)

lemma snapshot_delegation_Ok:
  assumes ok: "process_snapshot_vault_operator_delegation E P p A epoch L = Ok L'"
    and A: "A = [est, cfg, rc, ncn, opr, vault, vnt, nvt, vod, wt, snap, osnap]"
  obtains os os' vi w es es' L1 x y z where
    "EpochState_load E p est (ai_key ncn) epoch True L = Ok x" "EpochSnapshot_load E p snap (ai_key ncn) epoch True L = Ok y"
    "OperatorSnapshot_load E p osnap (ai_key opr) (ai_key ncn) epoch True L = Ok z"
    "data_at L osnap = OperatorSnapshotData os"
    "increment_vault_operator_delegation_registration os (clock_slot E) (ai_key vault) vi w = Ok os'"
    "(if OperatorSnapshot_finalized os'
      then and_then (EpochSnapshot_of (data_at (set_data L osnap (OperatorSnapshotData os')) snap)) (\<lambda>es.
        and_then (into_program (increment_operator_registration es (clock_slot E)
          (os_valid_operator_vault_delegations os') (os_stake_weights os'))) (\<lambda>es.
        Ok (set_data (set_data L osnap (OperatorSnapshotData os')) snap (EpochSnapshotData es))))
      else Ok (set_data L osnap (OperatorSnapshotData os'))) = Ok L1"
    "data_at L1 est = EpochStateData es" "L' = set_data L1 est (EpochStateData es')"
proof -
  have "yields (\<lambda>x. x = L' \<longrightarrow> thesis) (process_snapshot_vault_operator_delegation E P p A epoch L)"
    unfolding A process_snapshot_vault_operator_delegation_def list.case
    by (intro yields_rules impI, unfold typed_views map_err_eq_Ok) (rule that, (assumption | erule sym)+)
  then show ?thesis using ok by (simp add: yields_def)
qed

lemma delegation_registers:
  assumes ok: "process_snapshot_vault_operator_delegation E P p A epoch L = Ok L'"
    and A: "A = [est, cfg, rc, ncn, opr, vault, vnt, nvt, vod, wt, snap, osnap]"
    and L: "ledger_wf L" and e: "data_at L snap = EpochSnapshotData e"
  shows "registers snap osnap L L'"
  using ok A
proof (rule snapshot_delegation_Ok, goal_cases)
  case (1 os os' vi w st st' L1 x y z)
  have "os_wf os" using wf_views(3) [OF L 1(4)] by (simp add: snapshot_named_def)
  note reg = delegation_registered [OF this 1(5)]
  have ne: "ai_key osnap \<noteq> ai_key snap" "ai_key est \<noteq> ai_key snap" "ai_key est \<noteq> ai_key osnap"
    using loaded_apart 1(1-3) unfolding load_defs by blast+
  show ?case
  proof (cases "OperatorSnapshot_finalized os'")
    case True
    with 1(6) e ne obtain e' where e': "increment_operator_registration e (clock_slot E)
        (os_valid_operator_vault_delegations os') (os_stake_weights os') = Ok e'"
      and L1: "L1 = set_data (set_data L osnap (OperatorSnapshotData os')) snap (EpochSnapshotData e')"
      by (auto simp: result_simps ledger_simps)
    show ?thesis
      unfolding registers_def
      by (rule exI [of _ e], rule exI [of _ e'])
        (use 1(4,7,8) ne e True reg(7) increment_operator_OkD [OF e'] increment_operator_keeps [OF e'] in
          \<open>auto simp: L1 ledger_simps data_at_def\<close>)
  next
    case False
    with 1(6) have L1: "L1 = set_data L osnap (OperatorSnapshotData os')" by simp
    show ?thesis
      unfolding registers_def
      by (rule exI [of _ e], rule exI [of _ e])
        (use 1(4,7,8) ne e False reg(7) in \<open>auto simp: L1 ledger_simps data_at_def\<close>)
  qed
qed

lemma initialize_snapshot_Ok:
  assumes ok: "process_initialize_operator_snapshot E p A epoch L = Ok L'"
    and A: "A = [em, est, cfg, rc, ncn, opr, nos, snap, osnap, payer, sys]"
  obtains L0 e os os' active ni oi fee_b bump es es' L1 seeds x y where
    "EpochState_load_and_check_is_closing E p est (ai_key ncn) epoch False L = Ok x" "EpochSnapshot_load E p snap (ai_key ncn) epoch False L = Ok y"
    "pay_and_create_account E p (ai_key ncn) payer osnap p OperatorSnapshot_SIZE seeds L = Ok L0"
    "OperatorSnapshot_initialize os (ai_key opr) (ai_key ncn) epoch bump (clock_slot E) active ni oi fee_b (es_vault_count e) = Ok os'"
    "data_at L0 snap = EpochSnapshotData e"
    "(if \<not> active
      then and_then (EpochSnapshot_of (data_at (set_data L0 osnap (OperatorSnapshotData os')) snap)) (\<lambda>es.
        and_then (into_program (increment_operator_registration es (clock_slot E) 0 StakeWeights_default)) (\<lambda>es.
        Ok (set_data (set_data L0 osnap (OperatorSnapshotData os')) snap (EpochSnapshotData es))))
      else Ok (set_data L0 osnap (OperatorSnapshotData os'))) = Ok L1"
    "data_at L1 est = EpochStateData es" "L' = set_data L1 est (EpochStateData es')"
proof -
  have "yields (\<lambda>x. x = L' \<longrightarrow> thesis) (process_initialize_operator_snapshot E p A epoch L)"
    unfolding A process_initialize_operator_snapshot_def list.case
    by (intro yields_rules impI, unfold typed_views map_err_eq_Ok) (rule that, (assumption | erule sym)+)
  then show ?thesis using ok by (simp add: yields_def)
qed

lemma initialized_snapshot:
  assumes "OperatorSnapshot_initialize s op ncn e bump slot active ni oi fee_b cnt = Ok s'"
  shows "weight_of (os_stake_weights s') = 0" and "OperatorSnapshot_finalized s' \<longleftrightarrow> \<not> active \<or> cnt = 0"
  using assms by (auto simp: OperatorSnapshot_initialize_def OperatorSnapshot_finalized_def result_simps Let_def)

lemma initialize_registers:
  assumes pr: "ncn_program E P raw" and ok: "process_initialize_operator_snapshot E p A epoch L = Ok L'"
    and A: "A = [em, est, cfg, rc, ncn, opr, nos, snap, osnap, payer, sys]"
  shows "registers snap osnap L L'"
  using ok A
proof (rule initialize_snapshot_Ok, goal_cases)
  case (1 L0 e os os' active ni oi fee_b bump st st' L1 seeds x y)
  obtain M where M: "M = L \<or> (\<exists>m. can_pay (ai_key payer) (ai_key osnap) m L \<and> M = transferred (ai_key payer) (ai_key osnap) m L)"
    and new: "data_is_empty (data_at L osnap)"
    and L0: "L0 = set_owner (set_data M osnap (Zeroed (unat (min (word_of_nat OperatorSnapshot_SIZE) MAX_REALLOC_BYTES)))) (ai_key osnap) p"
    by (rule ncn_program.pay_and_create_Ok [OF pr 1(3)])
  have same: "acc_data (L0 k) = acc_data (L k)" if "k \<noteq> ai_key osnap" for k
    using M that unfolding L0 by (auto simp: ledger_simps)
  have "data_at L0 osnap = Zeroed OperatorSnapshot_SIZE" by (rule ncn_program.created(4) [OF pr 1(3)])
  then have ne: "ai_key osnap \<noteq> ai_key snap" using 1(5) by (auto simp: data_at_def)
  then have e: "data_at L snap = EpochSnapshotData e" using 1(5) same [of "ai_key snap"] by (simp add: data_at_def)
  have "discriminator_of (data_at L est) = Some DEpochState"
    using 1(1) by (auto simp: EpochState_load_and_check_is_closing_def result_simps)
  then have ne': "ai_key est \<noteq> ai_key snap" "ai_key est \<noteq> ai_key osnap"
    using e new by (auto simp: data_at_def data_is_empty_def data_len_def account_sizes)
  note ini = initialized_snapshot [OF 1(4)] and before = empty_snapshot [OF new]
  show ?case
  proof (cases active)
    case False
    with 1(6) 1(5) ne obtain e' where
      e': "increment_operator_registration e (clock_slot E) 0 StakeWeights_default = Ok e'"
      and L1: "L1 = set_data (set_data L0 osnap (OperatorSnapshotData os')) snap (EpochSnapshotData e')"
      by (auto simp: result_simps ledger_simps)
    show ?thesis
      unfolding registers_def
      by (rule exI [of _ e], rule exI [of _ e'])
        (use 1(7,8) ne ne' e ini before same False increment_operator_OkD [OF e'] increment_operator_keeps [OF e'] in
          \<open>auto simp: L1 ledger_simps data_at_def\<close>)
  next
    case True
    with 1(6) have L1: "L1 = set_data L0 osnap (OperatorSnapshotData os')" by simp
    show ?thesis
      unfolding registers_def
      by (rule exI [of _ e], rule exI [of _ e])
        (use 1(7,8) ne ne' e ini before same True in \<open>auto simp: L1 ledger_simps data_at_def\<close>)
  qed
qed

section \<open>Runs\<close>

text \<open>
  A transaction of the snapshot phase: one of the two instructions with the given epoch snapshot
  account, for the operator snapshot \<open>k\<close>.
\<close>

definition snapshot_tx :: "account_info \<Rightarrow> pubkey \<Rightarrow> transaction \<Rightarrow> bool" where
  "snapshot_tx snap k = (\<lambda>(E, A, i). case i of
       InitializeOperatorSnapshot epoch \<Rightarrow> length A = 11 \<and> A ! 7 = snap \<and> ai_key (A ! 8) = k
     | SnapshotVaultOperatorDelegation epoch \<Rightarrow> length A = 12 \<and> A ! 10 = snap \<and> ai_key (A ! 11) = k
     | _ \<Rightarrow> False)"

text \<open>The epoch snapshot holds the stake of the complete operator snapshots and their number.\<close>

definition adds_up :: "account_info \<Rightarrow> pubkey set \<Rightarrow> ledger \<Rightarrow> bool" where
  "adds_up snap K L \<longleftrightarrow> (\<exists>e. data_at L snap = EpochSnapshotData e \<and>
     weight_of (es_stake_weights e) = (\<Sum>k \<in> K. snapshot_stake (acc_data (L k))) \<and>
     (es_vault_count e \<noteq> 0 \<longrightarrow> unat (es_operators_registered e) = card {k \<in> K. snapshot_done (acc_data (L k))}))"

lemma registers_adds_up:
  assumes r: "registers snap osnap L L'" and up: "adds_up snap K L"
    and K: "finite K" "ai_key osnap \<in> K" "ai_key snap \<notin> K"
  shows "adds_up snap K L'"
proof -
  let ?o = "ai_key osnap"
  obtain e e' where e: "data_at L snap = EpochSnapshotData e" "data_at L' snap = EpochSnapshotData e'"
    and v: "es_vault_count e' = es_vault_count e"
    and before: "\<not> snapshot_done (acc_data (L ?o))" "snapshot_stake (acc_data (L ?o)) = 0"
    and w: "weight_of (es_stake_weights e') = weight_of (es_stake_weights e) + snapshot_stake (acc_data (L' ?o))"
    and n: "es_vault_count e \<noteq> 0 \<longrightarrow> unat (es_operators_registered e') =
        unat (es_operators_registered e) + (if snapshot_done (acc_data (L' ?o)) then 1 else 0)"
    and same: "\<And>k. k \<in> K - {?o} \<Longrightarrow> snapshot_done (acc_data (L' k)) = snapshot_done (acc_data (L k)) \<and>
        snapshot_stake (acc_data (L' k)) = snapshot_stake (acc_data (L k))"
    using r K(3) unfolding registers_def data_at_def by (metis DiffE singletonI)
  have "(\<Sum>k \<in> K. snapshot_stake (acc_data (L' k))) = (\<Sum>k \<in> K. snapshot_stake (acc_data (L k))) + snapshot_stake (acc_data (L' ?o))"
    using K(1,2) before(2) same by (simp add: sum.remove [of K ?o])
  moreover have "{k \<in> K. snapshot_done (acc_data (L' k))} =
      (if snapshot_done (acc_data (L' ?o)) then insert ?o {k \<in> K. snapshot_done (acc_data (L k))} else {k \<in> K. snapshot_done (acc_data (L k))})"
    using K(2) before(1) same by auto
  ultimately show ?thesis
    using up e v w n before(1) K(1) unfolding adds_up_def by auto
qed

text \<open>
  What the voting phase relies on: the stake of voters with complete snapshots of their own does
  not exceed the total of the epoch.
\<close>

lemma adds_up_covers:
  assumes "adds_up snap K L" and e: "data_at L snap = EpochSnapshotData e" and K: "finite K"
    and f: "inj_on f V" "f ` V \<subseteq> K" and stake: "\<And>v. v \<in> V \<Longrightarrow> stake v \<le> snapshot_stake (acc_data (L (f v)))"
  shows "(\<Sum>v \<in> V. stake v) \<le> weight_of (es_stake_weights e)"
proof -
  have "(\<Sum>v \<in> V. stake v) \<le> (\<Sum>v \<in> V. snapshot_stake (acc_data (L (f v))))" using stake by (rule sum_mono)
  also have "\<dots> = (\<Sum>k \<in> f ` V. snapshot_stake (acc_data (L k)))" using f(1) by (simp add: sum.reindex)
  also have "\<dots> \<le> (\<Sum>k \<in> K. snapshot_stake (acc_data (L k)))" using K f(2) by (rule sum_mono2) simp
  finally show ?thesis using assms(1) e by (auto simp: adds_up_def)
qed

lemma list_11: "length A = 11 \<Longrightarrow> A = [A ! 0, A ! 1, A ! 2, A ! 3, A ! 4, A ! 5, A ! 6, A ! 7, A ! 8, A ! 9, A ! 10]"
  and list_12: "length A = 12 \<Longrightarrow> A = [A ! 0, A ! 1, A ! 2, A ! 3, A ! 4, A ! 5, A ! 6, A ! 7, A ! 8, A ! 9, A ! 10, A ! 11]"
  by (auto simp: list_eq_iff_nth_eq less_Suc_eq numeral_eq_Suc)

lemma snapshot_tx_registers:
  assumes law: "lawful P raw p tx" and L: "ledger_wf L" and tx: "snapshot_tx snap k tx" and up: "adds_up snap K L"
  shows "execute P p tx L = L \<or> (\<exists>osnap. ai_key osnap = k \<and> registers snap osnap L (execute P p tx L))"
proof -
  obtain E A i where T: "tx = (E, A, i)" by (cases tx)
  have pr: "ncn_program E P raw" using law by (simp add: T lawful_def)
  obtain e where e: "data_at L snap = EpochSnapshotData e" using up by (auto simp: adds_up_def)
  show ?thesis
  proof (cases "process_instruction E P p p A (Ok i) L")
    case (Ok L')
    from tx consider (init) epoch where "i = InitializeOperatorSnapshot epoch" "length A = 11" "A ! 7 = snap" "ai_key (A ! 8) = k"
      | (deleg) epoch where "i = SnapshotVaultOperatorDelegation epoch" "length A = 12" "A ! 10 = snap" "ai_key (A ! 11) = k"
      by (auto simp: snapshot_tx_def T split: NCNProgramInstruction.splits)
    then have "\<exists>osnap. ai_key osnap = k \<and> registers snap osnap L L'"
    proof cases
      case init
      have "registers (A ! 7) (A ! 8) L L'"
        by (rule initialize_registers [OF pr _ list_11 [OF init(2)]]) (use Ok init(1) in \<open>simp add: process_instruction_def\<close>)
      with init show ?thesis by blast
    next
      case deleg
      have "registers (A ! 10) (A ! 11) L L'"
        by (rule delegation_registers [OF _ list_12 [OF deleg(2)] L e [folded deleg(3)]])
          (use Ok deleg(1) in \<open>simp add: process_instruction_def\<close>)
      with deleg show ?thesis by blast
    qed
    then show ?thesis by (simp add: T execute_def Ok)
  qed (simp_all add: T execute_def)
qed

text \<open>
  C5: the snapshots of an epoch add up.  In every run of transactions of the snapshot phase, and of
  transactions that are not passed the snapshots, the stake of the epoch snapshot stays the sum
  of the stakes of the complete operator snapshots, and, when the epoch has vaults, the number
  of registered operators stays the number of complete operator snapshots.
\<close>

theorem snapshots_add_up:
  assumes "\<forall>tx \<in> set txs. lawful P raw p tx" and "ledger_wf L"
    and "\<forall>tx \<in> set txs. (\<exists>k \<in> K. snapshot_tx snap k tx) \<or> keys_of tx \<inter> insert (ai_key snap) K = {}"
    and "finite K" and "ai_key snap \<notin> K" and "adds_up snap K L"
  shows "adds_up snap K (run P p txs L)"
proof -
  have "ledger_wf (run P p txs L) \<and> adds_up snap K (run P p txs L)"
  proof (rule run_invariant)
    fix tx M assume tx: "tx \<in> set txs" and M: "ledger_wf M \<and> adds_up snap K M"
    have law: "lawful P raw p tx" using assms(1) tx by blast
    have "adds_up snap K (execute P p tx M)"
    proof (cases "\<exists>k \<in> K. snapshot_tx snap k tx")
      case True
      then obtain k where k: "k \<in> K" "snapshot_tx snap k tx" by blast
      with snapshot_tx_registers [OF law _ k(2)] M assms(4,5) show ?thesis by (metis registers_adds_up)
    next
      case False
      then have "\<And>k. k \<in> insert (ai_key snap) K \<Longrightarrow> execute P p tx M k = M k"
        using assms(3) tx execute_frame [OF law] M by blast
      then show ?thesis using M by (simp add: adds_up_def data_at_def cong: conj_cong)
    qed
    then show "ledger_wf (execute P p tx M) \<and> adds_up snap K (execute P p tx M)"
      using execute_wf [OF law] M by blast
  qed (use assms in simp)
  then show ?thesis by blast
qed

text \<open>
  The snapshot of operator 7 is created, its delegation by vault 31 is recorded, and the registry
  of the NCN is created in between.
\<close>

definition phase_ledger :: ledger where
  "phase_ledger = no_registry(1054 := owned (EpochSnapshotData (EpochSnapshot_new 11 5 255 100 1 1 fees0)), 1089 := wallet 0)"

definition snapshot_run :: "transaction list" where
  "snapshot_run =
     [(chain, map acc [1084, 1051, 1038, 31, 11, 7, 33, 1054, 1089, 1077, 0], InitializeOperatorSnapshot 5),
      create_registry,
      (chain, map acc [1051, 1038, 31, 11, 7, 40, 35, 34, 36, 1052, 1054, 1089], SnapshotVaultOperatorDelegation 5)]"

lemma chain_operator:
  "NcnOperatorState_of chain d = Ok \<lparr>nos_index = 0, nos_ncn_opt_in_state = always_active,
     nos_operator_opt_in_state = always_active\<rparr>"
  "epoch_length_of chain d = Ok 432" "NcnOperatorState_load_of chain a x ncn op w = Ok ()"
  "is_active always_active s n = Ok True" "is_active_or_cooldown always_active s n = Ok True"
  by (simp_all add: chain_def reference_runtime_def chain_base_def always_active_def)

lemma phase_ledger_wf: "ledger_wf phase_ledger"
  using no_registry_wf by (simp add: ledger_wf_def phase_ledger_def EpochSnapshot_new_def fees_ok_def fees_total_def fees0_def Fee_new_def)

lemma phase_ledger_at:
  "phase_ledger 1038 = owned (ConfigData config0)" "phase_ledger 1051 = owned (EpochStateData epoch_state0)"
    "phase_ledger 1054 = owned (EpochSnapshotData (EpochSnapshot_new 11 5 255 100 1 1 fees0))" "phase_ledger 1089 = wallet 0"
    "phase_ledger 1077 = wallet 1000000" "phase_ledger 1084 = wallet 0" "phase_ledger 7 = wallet 0" "phase_ledger 11 = wallet 0"
  by (simp_all add: phase_ledger_def no_registry_def ledger0_at)

lemma snapshot_created:
  "\<exists>s L'. process_initialize_operator_snapshot chain 9 (map acc [1084, 1051, 1038, 31, 11, 7, 33, 1054, 1089, 1077, 0]) 5 phase_ledger = Ok L' \<and>
      data_at L' (acc 1089) = OperatorSnapshotData s"
proof -
  have find: "OperatorSnapshot_find_program_address chain 9 k n e = (1089, 255, OperatorSnapshot_seeds k n e)"
    "AccountPayer_find_program_address chain 9 n = (1077, 255, AccountPayer_seeds n)" for k n e
    by (simp_all add: OperatorSnapshot_find_program_address_def AccountPayer_find_program_address_def Let_def seeds_defs)
  show ?thesis
    unfolding process_initialize_operator_snapshot_def list.map list.case
    by (simp add: load_system_account_def loads_untyped system_account_rule_def load_system_program_def Ncn_load_def
        load_defs loads_typed data_at_def phase_ledger_at find Let_def data_is_empty_def data_len_def check_load_Ok
        pay_and_create_account_def AccountPayer_transfer_def saturating_sub_def lamports_at_def
        MAX_REALLOC_BYTES_def system_invoke_def can_pay_def transferred_def ledger_simps
        Operator_load_def named_operator_def NcnOperatorState_load_def EpochMarker_check_dne_def
        EpochState_load_and_check_is_closing_def load_ncn_epoch_def chain_operator OperatorSnapshot_SIZE_def
        OperatorSnapshot_seeds_def checked_div_def init_view_def OperatorSnapshot_initialize_def
        MAX_VAULTS_def EpochSnapshot_new_def update_realloc_operator_snapshot_def set_operator_snapshot_def
        update_or_panic_def epoch_state0_def EpochState_initialize_def EpochState_zeroed_def EpochAccountStatus_default_def
        set_owner_def pda_signs_def MAX_OPERATORS_def)
qed

theorem snapshots_add_up_witness:
  "adds_up (acc 1054) {1089} (run spl_ops 9 snapshot_run phase_ledger) \<and>
   discriminator_of (data_at (run spl_ops 9 (take 1 snapshot_run) phase_ledger) (acc 1089)) = Some DOperatorSnapshot"
proof -
  have "adds_up (acc 1054) {1089} phase_ledger"
    by (simp add: adds_up_def data_at_def phase_ledger_at EpochSnapshot_new_def snapshot_stake_def snapshot_done_def StakeWeights_default_def)
  then have "adds_up (acc 1054) {1089} (run spl_ops 9 snapshot_run phase_ledger)"
    using create_registry_runs(1)
    by (intro snapshots_add_up [where raw = "\<lambda>p. p"] phase_ledger_wf)
      (auto simp: snapshot_run_def snapshot_tx_def lawful_def chain_program create_registry_def keys_of_def)
  then show ?thesis using snapshot_created by (auto simp: snapshot_run_def execute_def process_instruction_def)
qed

end
