(* ===== verification/Protected_Data.thy ===== *)
theory Protected_Data
  imports Program_Properties
begin

text \<open>
  What can change protected data.  A configuration and the mints and weights of a vault registry
  change in a run only by an instruction that its authority has signed: every other processor
  leaves them alone, whatever accounts it is passed.
\<close>

section \<open>Guarded instructions\<close>

text \<open>
  The instructions that write a configuration or the mints of a registry that exist, with the
  type of the account and its position among the accounts they are passed.
\<close>

fun guards :: "NCNProgramInstruction \<Rightarrow> (Discriminators \<times> nat) option" where
  "guards (AdminSetNewAdmin _) = Some (DConfig, 0)"
| "guards (AdminSetParameters _ _ _ _) = Some (DConfig, 0)"
| "guards (AdminRegisterStMint _) = Some (DVaultRegistry, 3)"
| "guards (AdminSetStMint _ _) = Some (DVaultRegistry, 2)"
| "guards _ = None"

text \<open>The data they guard: all of a configuration, and of a registry the mints with their weights.\<close>

fun guarded_part :: "account_data \<Rightarrow> (config + st_mint_entry list) option" where
  "guarded_part (ConfigData c) = Some (Inl c)"
| "guarded_part (VaultRegistryData r) = Some (Inr (st_mint_list r))"
| "guarded_part _ = None"

definition part_of :: "Discriminators \<Rightarrow> account_data \<Rightarrow> (config + st_mint_entry list) option" where
  "part_of t d = (if discriminator_of d = Some t then guarded_part d else None)"

section \<open>Fields of permanent accounts\<close>

text \<open>
  A field of the accounts of one type, configurations or registries, and the calculus for
  computations on the ledger that leave the field of the account at one address as it is.
\<close>

locale kept_field = ncn_program E P raw
  for E :: runtime and P :: "'p precise_ops" and raw :: "'p \<Rightarrow> nat" +
  fixes field :: "account_data \<Rightarrow> 'b option" and t :: Discriminators
  assumes field_type: "field d = Some x \<Longrightarrow> discriminator_of d = Some t"
    and protected: "t \<in> {DConfig, DVaultRegistry}"
    and vault_field: "register_vault r v m i slot = Ok r' \<Longrightarrow> field (VaultRegistryData r') = field (VaultRegistryData r)"
begin

lemma other_types [simp]:
  "field (Zeroed n) \<noteq> Some x" "field (Foreign bs) \<noteq> Some x" "field (WeightTableData wt) \<noteq> Some x"
  "field (EpochSnapshotData es) \<noteq> Some x" "field (OperatorSnapshotData os) \<noteq> Some x"
  "field (BallotBoxData bb) \<noteq> Some x" "field (ConsensusResultData cr) \<noteq> Some x"
  "field (NCNRewardRouterData nr) \<noteq> Some x" "field (OperatorVaultRewardRouterData orr) \<noteq> Some x"
  "field (EpochStateData st) \<noteq> Some x" "field (EpochMarkerData em) \<noteq> Some x"
  using protected by (auto dest!: field_type)

lemma empty_field: "data_is_empty d \<Longrightarrow> field d \<noteq> Some x"
  using typed_not_empty [of d t] by (auto dest!: field_type)

definition keeps :: "pubkey \<Rightarrow> 'b \<Rightarrow> ledger \<Rightarrow> (ledger, program_error) result \<Rightarrow> bool" where
  "keeps k x L r \<longleftrightarrow>
     (field (acc_data (L k)) = Some x \<longrightarrow> (\<forall>L'. r = Ok L' \<longrightarrow> field (acc_data (L' k)) = Some x))"

lemma keeps_fails: "keeps k x L (Err e)" "keeps k x L Panic"
  by (simp_all add: keeps_def)

lemma keeps_done: "keeps k x L (Ok L)"
  by (simp add: keeps_def)

lemma keeps_read: "(\<And>y. m = Ok y \<Longrightarrow> keeps k x L (g y)) \<Longrightarrow> keeps k x L (and_then m g)"
  by (auto simp: keeps_def result_simps)

lemma keeps_ensure: "(c \<Longrightarrow> keeps k x L (g ())) \<Longrightarrow> keeps k x L (and_then (ensure c e) g)"
  by (auto simp: keeps_def result_simps)

lemma keeps_into: "(\<And>y. m = Ok y \<Longrightarrow> keeps k x L (g y)) \<Longrightarrow> keeps k x L (and_then (into_program m) g)"
  by (auto simp: keeps_def result_simps)

lemma keeps_step:
  fixes m :: "(ledger, program_error) result"
  shows "keeps k x L m \<Longrightarrow> (\<And>L1. m = Ok L1 \<Longrightarrow> keeps k x L1 (g L1)) \<Longrightarrow> keeps k x L (and_then m g)"
  by (auto simp: keeps_def result_simps)

lemma keeps_let: "keeps k x L (g v) \<Longrightarrow> keeps k x L (Let v g)"
  by simp

lemma keeps_write:
  "(ai_key a = k \<Longrightarrow> field (data_at L a) = Some x \<Longrightarrow> field d = Some x) \<Longrightarrow> keeps k x L (Ok (set_data L a d))"
  by (auto simp: keeps_def data_at_def ledger_simps)

lemma keeps_let_write:
  "(ai_key a = k \<Longrightarrow> field (data_at L a) = Some x \<Longrightarrow> field d = Some x) \<Longrightarrow>
   keeps k x (set_data L a d) (g (set_data L a d)) \<Longrightarrow> keeps k x L (Let (set_data L a d) g)"
  by (cases "ai_key a = k") (auto simp: keeps_def data_at_def ledger_simps)

lemma keeps_prod: "(\<And>a b. v = (a, b) \<Longrightarrow> keeps k x L (g a b)) \<Longrightarrow> keeps k x L (case v of (a, b) \<Rightarrow> g a b)"
  by (cases v) simp

lemma keeps_accounts:
  "keeps k x L n \<Longrightarrow> (\<And>y ys. xs = y # ys \<Longrightarrow> keeps k x L (c y ys)) \<Longrightarrow>
   keeps k x L (case xs of [] \<Rightarrow> n | y # ys \<Rightarrow> c y ys)"
  by (cases xs) simp_all

lemma keeps_if:
  "(c \<Longrightarrow> keeps k x L r) \<Longrightarrow> (\<not> c \<Longrightarrow> keeps k x L s) \<Longrightarrow> keeps k x L (if c then r else s)"
  by simp

lemma keeps_transfer: "keeps k x L (invoke_signed E p (Transfer f u n) s L)"
  by (auto simp: keeps_def dest!: transfer_Ok)

lemma keeps_pay: "keeps k x L (AccountPayer_transfer E p ncn payer to n L)"
  by (auto simp: keeps_def dest!: AccountPayer_transfer_Ok)

lemma keeps_create: "keeps k x L (pay_and_create_account E p ncn payer a p n s L)"
  unfolding keeps_def
proof (intro impI allI)
  fix L' assume x: "field (acc_data (L k)) = Some x" and ok: "pay_and_create_account E p ncn payer a p n s L = Ok L'"
  obtain L1 where L1: "L1 = L \<or> (\<exists>m. can_pay (ai_key payer) (ai_key a) m L \<and> L1 = transferred (ai_key payer) (ai_key a) m L)"
    and new: "data_is_empty (data_at L a)"
    and L': "L' = set_owner (set_data L1 a (Zeroed (unat (min (word_of_nat n) MAX_REALLOC_BYTES)))) (ai_key a) p"
    by (rule pay_and_create_Ok [OF ok])
  have "k \<noteq> ai_key a" using x empty_field [OF new] by (auto simp: data_at_def)
  then show "field (acc_data (L' k)) = Some x" using L1 x by (auto simp: L' ledger_simps)
qed

lemma grown:
  assumes "grow_account E p ncn payer a u L = Ok L'" and "data_len (data_at L a) < size_of_type u"
  obtains L1 d where "L1 = L \<or> (\<exists>m. can_pay (ai_key payer) (ai_key a) m L \<and> L1 = transferred (ai_key payer) (ai_key a) m L)"
    and "L' = set_data L1 a d"
proof -
  from assms obtain n L1 d where
    1: "(if 0 < saturating_sub (minimum_balance E n) (lamports_at L a)
       then AccountPayer_transfer E p ncn payer a (saturating_sub (minimum_balance E n) (lamports_at L a)) L
       else Ok L) = Ok L1" and 2: "L' = set_data L1 a d"
    by (auto simp: grow_account_def pay_and_realloc_def result_simps Let_def)
  show ?thesis by (rule that [OF _ 2]) (use 1 in \<open>auto dest!: AccountPayer_transfer_Ok split: if_splits\<close>)
qed

text \<open>Growth is for accounts at the address of another type, or not yet of full size.\<close>

lemma keeps_grow:
  assumes "growable p u (ai_key a)" and "kinds_apart E p" and "growable p t k"
  shows "keeps k x L (grow_account E p ncn payer a u L)"
  unfolding keeps_def
proof (intro impI allI)
  fix L' assume x: "field (acc_data (L k)) = Some x" and ok: "grow_account E p ncn payer a u L = Ok L'"
  show "field (acc_data (L' k)) = Some x"
  proof (cases "data_len (data_at L a) < size_of_type u")
    case True
    have "k \<noteq> ai_key a"
    proof
      assume k: "k = ai_key a"
      then have "u = t" using assms unfolding growable_def kinds_apart_def by (metis option.inject)
      then show False using True k field_type [OF x] by (simp add: data_at_def data_len_def)
    qed
    moreover obtain L1 d where "L1 = L \<or> (\<exists>m. can_pay (ai_key payer) (ai_key a) m L \<and> L1 = transferred (ai_key payer) (ai_key a) m L)"
      and "L' = set_data L1 a d"
      by (rule grown [OF ok True])
    ultimately show ?thesis using x by (auto simp: ledger_simps)
  qed (use ok x in \<open>simp add: grow_account_def\<close>)
qed

lemmas keep_rules = keeps_fails keeps_done keeps_write keeps_accounts keeps_ensure keeps_into
  keeps_step keeps_read keeps_let_write keeps_let keeps_prod keeps_if
  keeps_create keeps_pay keeps_transfer keeps_grow

section \<open>Processors\<close>

lemma initialize_config_keeps: "keeps k x L (process_admin_initialize_config E P p A stall close slots bps L)"
  unfolding process_admin_initialize_config_def
  by (intro keep_rules) (auto simp: result_simps dest!: created)

lemma initialize_vault_registry_keeps: "keeps k x L (process_initialize_vault_registry E p A L)"
  unfolding process_initialize_vault_registry_def by (intro keep_rules)

lemma admin_set_weight_keeps: "keeps k x L (process_admin_set_weight E p A m epoch w L)"
  unfolding process_admin_set_weight_def by (intro keep_rules) (auto simp: result_simps)

lemma admin_set_tie_breaker_keeps: "keeps k x L (process_admin_set_tie_breaker E p A st epoch L)"
  unfolding process_admin_set_tie_breaker_def by (intro keep_rules) (auto simp: result_simps)

lemma initialize_epoch_state_keeps: "keeps k x L (process_initialize_epoch_state E p A epoch L)"
  unfolding process_initialize_epoch_state_def by (intro keep_rules) (auto simp: result_simps dest!: created)

lemma initialize_weight_table_keeps: "keeps k x L (process_initialize_weight_table E p A epoch L)"
  unfolding process_initialize_weight_table_def by (intro keep_rules)

lemma set_epoch_weights_keeps: "keeps k x L (process_set_epoch_weights E p A epoch L)"
  unfolding process_set_epoch_weights_def by (intro keep_rules) (auto simp: result_simps)

lemma initialize_epoch_snapshot_keeps: "keeps k x L (process_initialize_epoch_snapshot E p A epoch L)"
  unfolding process_initialize_epoch_snapshot_def by (intro keep_rules) (auto simp: result_simps dest!: created)

lemma initialize_operator_snapshot_keeps: "keeps k x L (process_initialize_operator_snapshot E p A epoch L)"
  unfolding process_initialize_operator_snapshot_def by (intro keep_rules) (auto simp: result_simps dest!: created)

lemma snapshot_delegation_keeps: "keeps k x L (process_snapshot_vault_operator_delegation E P p A epoch L)"
  unfolding process_snapshot_vault_operator_delegation_def by (intro keep_rules) (auto simp: result_simps)

lemma initialize_ballot_box_keeps: "keeps k x L (process_initialize_ballot_box E p A epoch L)"
  unfolding process_initialize_ballot_box_def by (intro keep_rules) (auto simp: result_simps dest!: created)

lemma cast_vote_keeps: "keeps k x L (process_cast_vote E P p A st epoch L)"
  unfolding process_cast_vote_def by (intro keep_rules) (auto simp: result_simps)

lemma initialize_ncn_reward_router_keeps: "keeps k x L (process_initialize_ncn_reward_router E p A epoch L)"
  unfolding process_initialize_ncn_reward_router_def by (intro keep_rules)

lemma route_ncn_rewards_keeps: "keeps k x L (process_route_ncn_rewards E P p A m epoch L)"
  unfolding process_route_ncn_rewards_def by (intro keep_rules) (auto simp: result_simps)

lemma distribute_ncn_rewards_keeps: "keeps k x L (process_distribute_ncn_rewards E p A epoch L)"
  unfolding process_distribute_ncn_rewards_def by (intro keep_rules) (auto simp: result_simps)

lemma distribute_protocol_rewards_keeps: "keeps k x L (process_distribute_protocol_rewards E p A epoch L)"
  unfolding process_distribute_protocol_rewards_def by (intro keep_rules) (auto simp: result_simps)

lemma distribute_operator_route_keeps: "keeps k x L (process_distribute_operator_vault_reward_route E p A epoch L)"
  unfolding process_distribute_operator_vault_reward_route_def by (intro keep_rules) (auto simp: result_simps)

lemma initialize_operator_vault_reward_router_keeps:
  "keeps k x L (process_initialize_operator_vault_reward_router E p A epoch L)"
  unfolding process_initialize_operator_vault_reward_router_def
  by (intro keep_rules) (auto simp: result_simps dest!: created)

lemma route_operator_vault_rewards_keeps: "keeps k x L (process_route_operator_vault_rewards E P p A m epoch L)"
  unfolding process_route_operator_vault_rewards_def by (intro keep_rules) (auto simp: result_simps)

lemma distribute_operator_rewards_keeps: "keeps k x L (process_distribute_operator_rewards E p A epoch L)"
  unfolding process_distribute_operator_rewards_def by (intro keep_rules) (auto simp: result_simps)

lemma distribute_vault_rewards_keeps: "keeps k x L (process_distribute_vault_rewards E p A epoch L)"
  unfolding process_distribute_vault_rewards_def by (intro keep_rules) (auto simp: result_simps)

lemma reallocs_keep:
  assumes "kinds_apart E p" and "growable p t k"
  shows "keeps k x L (process_realloc_vault_registry E p A L)"
    and "keeps k x L (process_realloc_weight_table E p A epoch L)"
    and "keeps k x L (process_realloc_ballot_box E p A epoch L)"
    and "keeps k x L (process_realloc_ncn_reward_router E p A epoch L)"
  subgoal unfolding process_realloc_vault_registry_def
    by (intro keep_rules) (use assms in \<open>auto simp: growableI result_simps dest!: should_initialize_view(1) [OF _ _ typed_ops_discriminator(2)]\<close>)
  subgoal unfolding process_realloc_weight_table_def
    by (intro keep_rules) (use assms in \<open>auto simp: growableI result_simps dest!: should_initialize_view(1) [OF _ _ typed_ops_discriminator(3)]\<close>)
  subgoal unfolding process_realloc_ballot_box_def
    by (intro keep_rules) (use assms in \<open>auto simp: growableI result_simps dest!: should_initialize_view(1) [OF _ _ typed_ops_discriminator(4)]\<close>)
  subgoal unfolding process_realloc_ncn_reward_router_def
    by (intro keep_rules) (use assms in \<open>auto simp: growableI result_simps dest!: should_initialize_view(1) [OF _ _ typed_ops_discriminator(5)]\<close>)
  done

lemma register_vault_keeps: "keeps k x L (process_register_vault E p A L)"
  unfolding process_register_vault_def by (intro keep_rules) (auto simp: result_simps dest: vault_field)

text \<open>The guarded processors write one account.\<close>

lemma config_field: "field (ConfigData c) = Some x \<Longrightarrow> t = DConfig"
  and registry_field: "field (VaultRegistryData r) = Some x \<Longrightarrow> t = DVaultRegistry"
  by (auto dest!: field_type)

lemma guarded_keep:
  shows "\<not> (t = DConfig \<and> ai_key (A ! 0) = k) \<Longrightarrow> keeps k x L (process_admin_set_new_admin E p A role L)"
    and "\<not> (t = DConfig \<and> ai_key (A ! 0) = k) \<Longrightarrow> keeps k x L (process_admin_set_parameters E p A start stall close slots L)"
    and "\<not> (t = DVaultRegistry \<and> ai_key (A ! 3) = k) \<Longrightarrow> keeps k x L (process_admin_register_st_mint E p A w L)"
    and "\<not> (t = DVaultRegistry \<and> ai_key (A ! 2) = k) \<Longrightarrow> keeps k x L (process_admin_set_st_mint E p A m wo L)"
  subgoal unfolding process_admin_set_new_admin_def
    by (intro keep_rules, cases role) (auto simp: result_simps dest: config_field intro!: keeps_write)
  subgoal unfolding process_admin_set_parameters_def
    by (intro keep_rules) (auto simp: result_simps dest: config_field)
  subgoal unfolding process_admin_register_st_mint_def
    by (intro keep_rules) (auto simp: result_simps dest: registry_field)
  subgoal unfolding process_admin_set_st_mint_def
    by (intro keep_rules) (auto simp: result_simps dest: registry_field)
  done

lemma create_epoch_marker_keeps: "keeps k x L (create_epoch_marker E p em ncn payer epoch L)"
  unfolding create_epoch_marker_def by (intro keep_rules) (auto dest!: created)

lemma close_epoch_account_keeps: "keeps k x L (process_close_epoch_account E p A epoch L)"
  unfolding keeps_def
proof (intro impI allI)
  fix L' assume x: "field (acc_data (L k)) = Some x" and "process_close_epoch_account E p A epoch L = Ok L'"
  from this(2) show "field (acc_data (L' k)) = Some x"
  proof (rule close_epoch_account_Ok, goal_cases)
    case (1 em st cfg ncn a payer sp opt es es' disc L1 L3 u v w)
    have A: "payer \<in> set A" "set opt \<subseteq> set A" using 1(1) by auto
    from 1(7) obtain c where "close_by_discriminator E p c ncn a payer opt epoch disc (set_is_closing es) L = Ok (es', L1)" by blast
    note cl = close_by_discriminator_acts [OF this A]
    have st: "k \<noteq> ai_key st" using x 1(5) by (auto simp: data_at_def)
    obtain u where u: "u \<in> closable" "disc = Discriminators_as_u8 u" using cl(4) by blast
    have a: "k \<noteq> ai_key a"
    proof
      assume k: "k = ai_key a"
      then have "first_byte (data_at L a) = (Ok disc :: (u8, program_error) result)" using 1(6) st by (simp split: if_splits)
      then have "Discriminators_as_u8 t = Discriminators_as_u8 u"
        using k u(2) first_byte_typed [OF field_type [OF x], where ?'a = program_error] by (simp add: data_at_def)
      then have "t \<in> closable" using u(1) by simp
      then show False using protected by (auto simp: closable_def)
    qed
    have "field (acc_data (set_data L1 st (EpochStateData es') k)) = Some x"
      using cl(2) x st by (simp add: same_data_def ledger_simps)
    then have "field (acc_data (L3 k)) = Some x"
      using 1(8) create_epoch_marker_keeps [of k x "set_data L1 st (EpochStateData es')" p em ncn payer epoch]
      by (auto simp: keeps_def split: if_splits)
    moreover obtain n where "L' = closed_into E payer a n L3"
      using 1(9) by (auto simp: close_account_def closed_into_def result_simps Let_def realloc_empties)
    ultimately show ?case using a by (auto simp: closed_into_def ledger_simps)
  qed
qed

lemmas handlers_keep = initialize_config_keeps initialize_vault_registry_keeps register_vault_keeps
  admin_set_weight_keeps admin_set_tie_breaker_keeps initialize_epoch_state_keeps initialize_weight_table_keeps
  set_epoch_weights_keeps initialize_epoch_snapshot_keeps initialize_operator_snapshot_keeps
  snapshot_delegation_keeps initialize_ballot_box_keeps cast_vote_keeps initialize_ncn_reward_router_keeps
  route_ncn_rewards_keeps distribute_ncn_rewards_keeps distribute_protocol_rewards_keeps
  distribute_operator_route_keeps initialize_operator_vault_reward_router_keeps
  route_operator_vault_rewards_keeps distribute_operator_rewards_keeps distribute_vault_rewards_keeps
  close_epoch_account_keeps reallocs_keep guarded_keep

lemma instruction_keeps:
  assumes "kinds_apart E p" and "growable p t k"
    and "\<And>m. guards i = Some (t, m) \<Longrightarrow> ai_key (A ! m) \<noteq> k"
  shows "keeps k x L (process_instruction E P own p A (Ok i) L)"
  unfolding process_instruction_def
  by (rule keeps_ensure, rule keeps_read) (use assms in \<open>cases i; auto simp: handlers_keep\<close>)

end

interpretation config_part: kept_field "reference_runtime E" spl_ops "\<lambda>p. p" "part_of DConfig" DConfig for E
  by unfold_locales (auto simp: part_of_def split: if_splits)

interpretation registry_part: kept_field "reference_runtime E" spl_ops "\<lambda>p. p" "part_of DVaultRegistry" DVaultRegistry for E
  by unfold_locales (auto simp: part_of_def register_vault_def result_simps split: if_splits)

section \<open>Runs\<close>

lemma kept_part:
  assumes "ncn_program E P raw" and "t \<in> {DConfig, DVaultRegistry}"
  shows "kept_field E P raw (part_of t) t"
  using assms
  by (intro kept_field.intro kept_field_axioms.intro)
    (auto simp: part_of_def register_vault_def result_simps split: if_splits)

lemma execute_keeps_part:
  assumes pr: "ncn_program E P raw" and t: "t \<in> {DConfig, DVaultRegistry}" "type_at j = Some t"
    and k: "kinds_apart E p" "address_of E p j = k"
    and L: "discriminator_of (acc_data (L k)) = Some t"
    and i: "\<And>m. guards i = Some (t, m) \<Longrightarrow> ai_key (A ! m) \<noteq> k"
  shows "part_of t (acc_data (execute P p (E, A, i) L k)) = part_of t (acc_data (L k))"
proof -
  obtain x where x: "part_of t (acc_data (L k)) = Some x"
    using L t(1) by (cases "acc_data (L k)") (auto simp: part_of_def)
  have "ncn_program.growable E p t k" unfolding ncn_program.growable_def [OF pr] using k(2) t(2) by blast
  note keeps = kept_field.instruction_keeps [OF kept_part [OF pr t(1)] k(1) this, where i = i and A = A and x = x and L = L and own = p,
      OF i, unfolded kept_field.keeps_def [OF kept_part [OF pr t(1)]]]
  show ?thesis
  proof (cases "process_instruction E P p p A (Ok i) L")
    case (Ok L')
    then have "part_of t (acc_data (L' k)) = Some x" using keeps x by blast
    then show ?thesis using x Ok by (simp add: execute_def)
  qed (simp_all add: execute_def)
qed

text \<open>
  C22: a configuration that exists, and the mints and weights of a vault registry that exists,
  change in a run only by an instruction its authority has signed.  If they differ after a run,
  the run has a transaction \<open>AdminSetNewAdmin\<close> or \<open>AdminSetParameters\<close> for the configuration, or
  \<open>AdminRegisterStMint\<close> or \<open>AdminSetStMint\<close> for the registry, that was passed that account and was
  signed by the authority of its NCN, up to which they are unchanged.  Whatever else is in the
  run, with whatever accounts: no other instruction changes them.  Addresses of accounts of
  different types are assumed to differ.
\<close>

theorem protected_data_changes_are_signed:
  assumes "\<forall>(E, A, i) \<in> set txs. ncn_program E P raw \<and> kinds_apart E p \<and> address_of E p j = k"
    and "t \<in> {DConfig, DVaultRegistry}" and "type_at j = Some t" and "discriminator_of (acc_data (L k)) = Some t"
    and "guarded_part (acc_data (run P p txs L k)) \<noteq> guarded_part (acc_data (L k))"
  shows "\<exists>before E A i after m. txs = before @ (E, A, i) # after \<and>
    guarded_part (acc_data (run P p before L k)) = guarded_part (acc_data (L k)) \<and>
    guards i = Some (t, m) \<and> ai_key (A ! m) = k \<and> authorised E p A (run P p before L) i"
  using assms(1,4,5)
proof (induction txs arbitrary: L)
  case (Cons tx txs)
  obtain E A i where tx: "tx = (E, A, i)" by (cases tx)
  have pr: "ncn_program E P raw" and k: "kinds_apart E p" "address_of E p j = k" using Cons.prems(1) tx by auto
  show ?case
  proof (cases "part_of t (acc_data (execute P p tx L k)) = part_of t (acc_data (L k))")
    case True
    have "guarded_part (acc_data (L k)) \<noteq> None" using Cons.prems(2) assms(2) by (cases "acc_data (L k)") auto
    then have same: "discriminator_of (acc_data (execute P p tx L k)) = Some t"
      "guarded_part (acc_data (execute P p tx L k)) = guarded_part (acc_data (L k))"
      using True Cons.prems(2) by (auto simp: part_of_def split: if_splits)
    from Cons.IH [of "execute P p tx L"] Cons.prems(1,3) same obtain before E' A' i' after m where
      "txs = before @ (E', A', i') # after"
      "guarded_part (acc_data (run P p before (execute P p tx L) k)) = guarded_part (acc_data (L k))"
      "guards i' = Some (t, m)" "ai_key (A' ! m) = k" "authorised E' p A' (run P p before (execute P p tx L)) i'"
      by auto
    then show ?thesis by (intro exI [of _ "tx # before"]) auto
  next
    case False
    then obtain m where m: "guards i = Some (t, m)" "ai_key (A ! m) = k"
      using execute_keeps_part [where A = A and i = i and L = L, OF pr assms(2,3) k Cons.prems(2)] tx by blast
    have ok: "\<exists>L'. process_instruction E P p p A (Ok i) L = Ok L'"
      using False by (auto simp: tx execute_def split: result.splits)
    have "privileged i" using m(1) by (cases i) auto
    with ok have "authorised E p A L i"
      using privileged_signed [OF ncn_program.axioms(1) [OF pr]] by blast
    then show ?thesis using m tx by (intro exI [of _ "[]"]) auto
  qed
qed simp

text \<open>The admin of the NCN stores new parameters in its configuration, after a vote.\<close>

definition new_parameters :: transaction where
  "new_parameters = (chain, map acc [1038, 11, 14], AdminSetParameters None (Some 7) None None)"

lemma new_parameters_runs:
  assumes "acc_data (L 1038) = ConfigData config0" and "acc_owner (L 1038) = 9"
  shows "execute spl_ops 9 new_parameters L = set_data L (acc 1038) (ConfigData (config0\<lparr>epochs_before_stall := 7\<rparr>))"
proof -
  have find: "Config_find_program_address chain 9 n = (1038, 255, Config_seeds n)" for n
    by (simp add: Config_find_program_address_def Let_def seeds_defs)
  show ?thesis
    using assms
    by (simp add: new_parameters_def execute_def process_instruction_def process_admin_set_parameters_def load_signer_def
        signer_rule_def Config_load_def check_load_def find data_at_def Ncn_load_def config0_def Config_new_def
        in_range_def MIN_EPOCHS_BEFORE_STALL_def MAX_EPOCHS_BEFORE_STALL_def word_le_nat_alt data_is_empty_def data_len_def account_sizes)
qed

theorem protected_data_changes_are_signed_witness:
  "\<exists>before E A i after m. [(chain, vote_accounts, CastVote 1 5), new_parameters] = before @ (E, A, i) # after \<and>
     guards i = Some (DConfig, m) \<and> ai_key (A ! m) = 1038 \<and>
     authorised E 9 A (run spl_ops 9 before ledger0) i"
proof -
  have "acc_data (run spl_ops 9 [(chain, vote_accounts, CastVote 1 5), new_parameters] ledger0 1038) =
      ConfigData (config0\<lparr>epochs_before_stall := 7\<rparr>)"
    using vote_transaction new_parameters_runs [of ledger1] by (simp add: ledger1_def ledger_simps ledger0_at)
  moreover have "config0\<lparr>epochs_before_stall := 7\<rparr> \<noteq> config0" by (simp add: config0_def Config_new_def)
  ultimately have "guarded_part (acc_data (run spl_ops 9 [(chain, vote_accounts, CastVote 1 5), new_parameters] ledger0 1038))
      \<noteq> guarded_part (acc_data (ledger0 1038))"
    by (simp add: ledger0_at del: run_simps)
  moreover have "\<forall>(E, A, i) \<in> set [(chain, vote_accounts, CastVote 1 5), new_parameters].
      ncn_program E spl_ops (\<lambda>p. p) \<and> kinds_apart E 9 \<and> address_of E 9 (ConfigId 11) = 1038"
    using chain_program chain_kinds_apart by (simp add: new_parameters_def chain_address)
  moreover have "discriminator_of (acc_data (ledger0 1038)) = Some DConfig" by (simp add: ledger0_at)
  ultimately show ?thesis
    using protected_data_changes_are_signed [where t = DConfig and j = "ConfigId 11" and L = ledger0 and k = 1038 and p = 9 and P = spl_ops
        and txs = "[(chain, vote_accounts, CastVote 1 5), new_parameters]" and raw = "\<lambda>p. p"]
    unfolding insert_iff type_at.simps by blast
qed

end
