(* ===== verification/Client_Instructions.thy ===== *)
theory Client_Instructions
  imports Handlers_Close
begin

text \<open>
  The generated Rust client, \<open>clients/rust/ncn_program/src/generated/instructions\<close>: for every
  instruction the account metas in the order of the client with the instruction data, and
  the \<open>instruction\<close> method of the builder.  A builder is given by its fields in the order of its
  struct: \<open>Some\<close> a value where the setter was called, \<open>None\<close> where it was not; \<open>instruction\<close>
  calls \<open>expect\<close> on the fields that have no default and panics when one is missing.  The CPI
  variants are in theory \<open>Client_Cpi\<close>.

  The bytes are those of \<open>borsh\<close>, which is not in the repository: its serializers and the
  decoder derived for \<open>NCNProgramInstruction\<close> are the record \<open>borsh\<close>; its format is the
  locale \<open>borsh_format\<close> of theory \<open>Client_Encoding\<close>.
\<close>

section \<open>Instructions\<close>

record account_meta =
  am_pubkey :: pubkey
  am_is_signer :: bool
  am_is_writable :: bool

definition AccountMeta_new :: "pubkey \<Rightarrow> bool \<Rightarrow> account_meta" where
  "AccountMeta_new k signer = \<lparr>am_pubkey = k, am_is_signer = signer, am_is_writable = True\<rparr>"

definition AccountMeta_new_readonly :: "pubkey \<Rightarrow> bool \<Rightarrow> account_meta" where
  "AccountMeta_new_readonly k signer = \<lparr>am_pubkey = k, am_is_signer = signer, am_is_writable = False\<rparr>"

record instruction =
  ix_program_id :: pubkey
  ix_accounts :: "account_meta list"
  ix_data :: "u8 list"

record borsh =
  bs_u8 :: "u8 \<Rightarrow> u8 list"
  bs_u16 :: "u16 \<Rightarrow> u8 list"
  bs_u64 :: "u64 \<Rightarrow> u8 list"
  bs_u128 :: "u128 \<Rightarrow> u8 list"
  bs_pubkey :: "pubkey \<Rightarrow> u8 list"
  bs_role :: "ConfigAdminRole \<Rightarrow> u8 list"
  bs_tag :: "bool \<Rightarrow> u8 list"
  bs_instruction :: "u8 list \<Rightarrow> (NCNProgramInstruction, program_error) result"

text \<open>An \<open>Option\<close> is a tag and, for \<open>Some\<close>, the value.\<close>

definition bs_option :: "borsh \<Rightarrow> ('a \<Rightarrow> u8 list) \<Rightarrow> 'a option \<Rightarrow> u8 list" where
  "bs_option B ser x = (case x of None \<Rightarrow> bs_tag B False | Some y \<Rightarrow> bs_tag B True @ ser y)"

text \<open>The base-58 key of \<open>programs.rs\<close> and of \<open>declare_id!\<close> in \<open>program/src/lib.rs\<close>, as a number.\<close>

definition NCN_PROGRAM_ID :: pubkey where
  "NCN_PROGRAM_ID =
     29861443486030156620848296081877509803021181529576489398529380934237843315242"

definition expect :: "'a option \<Rightarrow> ('a, 'e) result" where
  "expect x = (case x of Some y \<Rightarrow> Ok y | None \<Rightarrow> Panic)"

definition unwrap_or :: "'a option \<Rightarrow> 'a \<Rightarrow> 'a" where
  "unwrap_or x d = (case x of Some y \<Rightarrow> y | None \<Rightarrow> d)"

lemma expect_simps [simp]: "expect (Some x) = Ok x" "expect None = Panic"
  by (simp_all add: expect_def)

lemma unwrap_or_simps [simp]: "unwrap_or (Some x) d = x" "unwrap_or None d = d"
  by (simp_all add: unwrap_or_def)

section \<open>Builders\<close>

subsection \<open>\<open>InitializeConfig\<close>\<close>

definition InitializeConfigInstructionData_new :: u8 where "InitializeConfigInstructionData_new = 0"

definition InitializeConfig_instruction_with_remaining_accounts ::
  "borsh \<Rightarrow> pubkey \<Rightarrow> pubkey \<Rightarrow> pubkey \<Rightarrow>
  pubkey \<Rightarrow> pubkey \<Rightarrow> pubkey \<Rightarrow> pubkey \<Rightarrow>
  u64 \<Rightarrow> u64 \<Rightarrow> u64 \<Rightarrow> u16 \<Rightarrow>
  account_meta list \<Rightarrow> instruction" where
  "InitializeConfig_instruction_with_remaining_accounts B config ncn ncn_fee_wallet ncn_admin'
  tie_breaker_admin' account_payer system_program epochs_before_stall'
  epochs_after_consensus_before_close' valid_slots_after_consensus' ncn_fee_bps'
  remaining_accounts =
     \<lparr>ix_program_id = NCN_PROGRAM_ID,
      ix_accounts =
        [AccountMeta_new config False,
         AccountMeta_new_readonly ncn False,
         AccountMeta_new_readonly ncn_fee_wallet False,
         AccountMeta_new_readonly ncn_admin' True,
         AccountMeta_new_readonly tie_breaker_admin' False,
         AccountMeta_new account_payer False,
         AccountMeta_new_readonly system_program False] @ remaining_accounts,
      ix_data = bs_u8 B InitializeConfigInstructionData_new @ bs_u64 B epochs_before_stall' @
      bs_u64 B epochs_after_consensus_before_close' @ bs_u64 B valid_slots_after_consensus' @
      bs_u16 B ncn_fee_bps'\<rparr>"

definition InitializeConfigBuilder_instruction ::
  "borsh \<Rightarrow> pubkey option \<Rightarrow> pubkey option \<Rightarrow>
  pubkey option \<Rightarrow> pubkey option \<Rightarrow> pubkey option \<Rightarrow>
  pubkey option \<Rightarrow> pubkey option \<Rightarrow> u64 option \<Rightarrow>
  u64 option \<Rightarrow> u64 option \<Rightarrow> u16 option \<Rightarrow>
  account_meta list \<Rightarrow> (instruction, 'e) result" where
  "InitializeConfigBuilder_instruction B config ncn ncn_fee_wallet ncn_admin'
  tie_breaker_admin' account_payer system_program epochs_before_stall'
  epochs_after_consensus_before_close' valid_slots_after_consensus' ncn_fee_bps'
  remaining_accounts =
     and_then (expect config) (\<lambda>config.
     and_then (expect ncn) (\<lambda>ncn.
     and_then (expect ncn_fee_wallet) (\<lambda>ncn_fee_wallet.
     and_then (expect ncn_admin') (\<lambda>ncn_admin'.
     and_then (expect tie_breaker_admin') (\<lambda>tie_breaker_admin'.
     and_then (expect account_payer) (\<lambda>account_payer.
     and_then (expect epochs_before_stall') (\<lambda>epochs_before_stall'.
     and_then (expect epochs_after_consensus_before_close') (\<lambda>epochs_after_consensus_before_close'.
     and_then (expect valid_slots_after_consensus') (\<lambda>valid_slots_after_consensus'.
     and_then (expect ncn_fee_bps') (\<lambda>ncn_fee_bps'.
     Ok (InitializeConfig_instruction_with_remaining_accounts B
           config ncn ncn_fee_wallet ncn_admin' tie_breaker_admin' account_payer
           (unwrap_or system_program Pubkey_default) epochs_before_stall'
           epochs_after_consensus_before_close' valid_slots_after_consensus' ncn_fee_bps'
           remaining_accounts)))))))))))"

subsection \<open>\<open>InitializeVaultRegistry\<close>\<close>

definition InitializeVaultRegistryInstructionData_new :: u8 where "InitializeVaultRegistryInstructionData_new = 1"

definition InitializeVaultRegistry_instruction_with_remaining_accounts ::
  "borsh \<Rightarrow> pubkey \<Rightarrow> pubkey \<Rightarrow> pubkey \<Rightarrow>
  pubkey \<Rightarrow> pubkey \<Rightarrow> account_meta list \<Rightarrow> instruction" where
  "InitializeVaultRegistry_instruction_with_remaining_accounts B config vault_registry ncn
  account_payer system_program remaining_accounts =
     \<lparr>ix_program_id = NCN_PROGRAM_ID,
      ix_accounts =
        [AccountMeta_new_readonly config False,
         AccountMeta_new vault_registry False,
         AccountMeta_new_readonly ncn False,
         AccountMeta_new account_payer False,
         AccountMeta_new_readonly system_program False] @ remaining_accounts,
      ix_data = bs_u8 B InitializeVaultRegistryInstructionData_new\<rparr>"

definition InitializeVaultRegistryBuilder_instruction ::
  "borsh \<Rightarrow> pubkey option \<Rightarrow> pubkey option \<Rightarrow>
  pubkey option \<Rightarrow> pubkey option \<Rightarrow> pubkey option \<Rightarrow>
  account_meta list \<Rightarrow> (instruction, 'e) result" where
  "InitializeVaultRegistryBuilder_instruction B config vault_registry ncn account_payer
  system_program remaining_accounts =
     and_then (expect config) (\<lambda>config.
     and_then (expect vault_registry) (\<lambda>vault_registry.
     and_then (expect ncn) (\<lambda>ncn.
     and_then (expect account_payer) (\<lambda>account_payer.
     Ok (InitializeVaultRegistry_instruction_with_remaining_accounts B
           config vault_registry ncn account_payer (unwrap_or system_program Pubkey_default)
           remaining_accounts)))))"

subsection \<open>\<open>ReallocVaultRegistry\<close>\<close>

definition ReallocVaultRegistryInstructionData_new :: u8 where "ReallocVaultRegistryInstructionData_new = 2"

definition ReallocVaultRegistry_instruction_with_remaining_accounts ::
  "borsh \<Rightarrow> pubkey \<Rightarrow> pubkey \<Rightarrow> pubkey \<Rightarrow>
  pubkey \<Rightarrow> pubkey \<Rightarrow> account_meta list \<Rightarrow> instruction" where
  "ReallocVaultRegistry_instruction_with_remaining_accounts B config vault_registry ncn
  account_payer system_program remaining_accounts =
     \<lparr>ix_program_id = NCN_PROGRAM_ID,
      ix_accounts =
        [AccountMeta_new_readonly config False,
         AccountMeta_new vault_registry False,
         AccountMeta_new_readonly ncn False,
         AccountMeta_new account_payer False,
         AccountMeta_new_readonly system_program False] @ remaining_accounts,
      ix_data = bs_u8 B ReallocVaultRegistryInstructionData_new\<rparr>"

definition ReallocVaultRegistryBuilder_instruction ::
  "borsh \<Rightarrow> pubkey option \<Rightarrow> pubkey option \<Rightarrow>
  pubkey option \<Rightarrow> pubkey option \<Rightarrow> pubkey option \<Rightarrow>
  account_meta list \<Rightarrow> (instruction, 'e) result" where
  "ReallocVaultRegistryBuilder_instruction B config vault_registry ncn account_payer
  system_program remaining_accounts =
     and_then (expect config) (\<lambda>config.
     and_then (expect vault_registry) (\<lambda>vault_registry.
     and_then (expect ncn) (\<lambda>ncn.
     and_then (expect account_payer) (\<lambda>account_payer.
     Ok (ReallocVaultRegistry_instruction_with_remaining_accounts B
           config vault_registry ncn account_payer (unwrap_or system_program Pubkey_default)
           remaining_accounts)))))"

subsection \<open>\<open>RegisterVault\<close>\<close>

definition RegisterVaultInstructionData_new :: u8 where "RegisterVaultInstructionData_new = 3"

definition RegisterVault_instruction_with_remaining_accounts ::
  "borsh \<Rightarrow> pubkey \<Rightarrow> pubkey \<Rightarrow> pubkey \<Rightarrow>
  pubkey \<Rightarrow> pubkey \<Rightarrow> account_meta list \<Rightarrow> instruction" where
  "RegisterVault_instruction_with_remaining_accounts B config vault_registry ncn vault
  ncn_vault_ticket remaining_accounts =
     \<lparr>ix_program_id = NCN_PROGRAM_ID,
      ix_accounts =
        [AccountMeta_new_readonly config False,
         AccountMeta_new vault_registry False,
         AccountMeta_new_readonly ncn False,
         AccountMeta_new_readonly vault False,
         AccountMeta_new_readonly ncn_vault_ticket False] @ remaining_accounts,
      ix_data = bs_u8 B RegisterVaultInstructionData_new\<rparr>"

definition RegisterVaultBuilder_instruction ::
  "borsh \<Rightarrow> pubkey option \<Rightarrow> pubkey option \<Rightarrow>
  pubkey option \<Rightarrow> pubkey option \<Rightarrow> pubkey option \<Rightarrow>
  account_meta list \<Rightarrow> (instruction, 'e) result" where
  "RegisterVaultBuilder_instruction B config vault_registry ncn vault ncn_vault_ticket
  remaining_accounts =
     and_then (expect config) (\<lambda>config.
     and_then (expect vault_registry) (\<lambda>vault_registry.
     and_then (expect ncn) (\<lambda>ncn.
     and_then (expect vault) (\<lambda>vault.
     and_then (expect ncn_vault_ticket) (\<lambda>ncn_vault_ticket.
     Ok (RegisterVault_instruction_with_remaining_accounts B
           config vault_registry ncn vault ncn_vault_ticket remaining_accounts))))))"

subsection \<open>\<open>InitializeEpochState\<close>\<close>

definition InitializeEpochStateInstructionData_new :: u8 where "InitializeEpochStateInstructionData_new = 4"

definition InitializeEpochState_instruction_with_remaining_accounts ::
  "borsh \<Rightarrow> pubkey \<Rightarrow> pubkey \<Rightarrow> pubkey \<Rightarrow>
  pubkey \<Rightarrow> pubkey \<Rightarrow> pubkey \<Rightarrow> u64 \<Rightarrow>
  account_meta list \<Rightarrow> instruction" where
  "InitializeEpochState_instruction_with_remaining_accounts B epoch_marker epoch_state config
  ncn account_payer system_program epoch remaining_accounts =
     \<lparr>ix_program_id = NCN_PROGRAM_ID,
      ix_accounts =
        [AccountMeta_new_readonly epoch_marker False,
         AccountMeta_new epoch_state False,
         AccountMeta_new_readonly config False,
         AccountMeta_new_readonly ncn False,
         AccountMeta_new account_payer False,
         AccountMeta_new_readonly system_program False] @ remaining_accounts,
      ix_data = bs_u8 B InitializeEpochStateInstructionData_new @ bs_u64 B epoch\<rparr>"

definition InitializeEpochStateBuilder_instruction ::
  "borsh \<Rightarrow> pubkey option \<Rightarrow> pubkey option \<Rightarrow>
  pubkey option \<Rightarrow> pubkey option \<Rightarrow> pubkey option \<Rightarrow>
  pubkey option \<Rightarrow> u64 option \<Rightarrow> account_meta list \<Rightarrow>
  (instruction, 'e) result" where
  "InitializeEpochStateBuilder_instruction B epoch_marker epoch_state config ncn account_payer
  system_program epoch remaining_accounts =
     and_then (expect epoch_marker) (\<lambda>epoch_marker.
     and_then (expect epoch_state) (\<lambda>epoch_state.
     and_then (expect config) (\<lambda>config.
     and_then (expect ncn) (\<lambda>ncn.
     and_then (expect account_payer) (\<lambda>account_payer.
     and_then (expect epoch) (\<lambda>epoch.
     Ok (InitializeEpochState_instruction_with_remaining_accounts B
           epoch_marker epoch_state config ncn account_payer
           (unwrap_or system_program Pubkey_default) epoch remaining_accounts)))))))"

subsection \<open>\<open>InitializeWeightTable\<close>\<close>

definition InitializeWeightTableInstructionData_new :: u8 where "InitializeWeightTableInstructionData_new = 5"

definition InitializeWeightTable_instruction_with_remaining_accounts ::
  "borsh \<Rightarrow> pubkey \<Rightarrow> pubkey \<Rightarrow> pubkey \<Rightarrow>
  pubkey \<Rightarrow> pubkey \<Rightarrow> pubkey \<Rightarrow> pubkey \<Rightarrow>
  u64 \<Rightarrow> account_meta list \<Rightarrow> instruction" where
  "InitializeWeightTable_instruction_with_remaining_accounts B epoch_marker epoch_state
  vault_registry ncn weight_table account_payer system_program epoch remaining_accounts =
     \<lparr>ix_program_id = NCN_PROGRAM_ID,
      ix_accounts =
        [AccountMeta_new_readonly epoch_marker False,
         AccountMeta_new_readonly epoch_state False,
         AccountMeta_new_readonly vault_registry False,
         AccountMeta_new_readonly ncn False,
         AccountMeta_new weight_table False,
         AccountMeta_new account_payer False,
         AccountMeta_new_readonly system_program False] @ remaining_accounts,
      ix_data = bs_u8 B InitializeWeightTableInstructionData_new @ bs_u64 B epoch\<rparr>"

definition InitializeWeightTableBuilder_instruction ::
  "borsh \<Rightarrow> pubkey option \<Rightarrow> pubkey option \<Rightarrow>
  pubkey option \<Rightarrow> pubkey option \<Rightarrow> pubkey option \<Rightarrow>
  pubkey option \<Rightarrow> pubkey option \<Rightarrow> u64 option \<Rightarrow>
  account_meta list \<Rightarrow> (instruction, 'e) result" where
  "InitializeWeightTableBuilder_instruction B epoch_marker epoch_state vault_registry ncn
  weight_table account_payer system_program epoch remaining_accounts =
     and_then (expect epoch_marker) (\<lambda>epoch_marker.
     and_then (expect epoch_state) (\<lambda>epoch_state.
     and_then (expect vault_registry) (\<lambda>vault_registry.
     and_then (expect ncn) (\<lambda>ncn.
     and_then (expect weight_table) (\<lambda>weight_table.
     and_then (expect account_payer) (\<lambda>account_payer.
     and_then (expect epoch) (\<lambda>epoch.
     Ok (InitializeWeightTable_instruction_with_remaining_accounts B
           epoch_marker epoch_state vault_registry ncn weight_table account_payer
           (unwrap_or system_program Pubkey_default) epoch remaining_accounts))))))))"

subsection \<open>\<open>SetEpochWeights\<close>\<close>

definition SetEpochWeightsInstructionData_new :: u8 where "SetEpochWeightsInstructionData_new = 6"

definition SetEpochWeights_instruction_with_remaining_accounts ::
  "borsh \<Rightarrow> pubkey \<Rightarrow> pubkey \<Rightarrow> pubkey \<Rightarrow>
  pubkey \<Rightarrow> u64 \<Rightarrow> account_meta list \<Rightarrow> instruction" where
  "SetEpochWeights_instruction_with_remaining_accounts B epoch_state ncn vault_registry
  weight_table epoch remaining_accounts =
     \<lparr>ix_program_id = NCN_PROGRAM_ID,
      ix_accounts =
        [AccountMeta_new epoch_state False,
         AccountMeta_new_readonly ncn False,
         AccountMeta_new_readonly vault_registry False,
         AccountMeta_new weight_table False] @ remaining_accounts,
      ix_data = bs_u8 B SetEpochWeightsInstructionData_new @ bs_u64 B epoch\<rparr>"

definition SetEpochWeightsBuilder_instruction ::
  "borsh \<Rightarrow> pubkey option \<Rightarrow> pubkey option \<Rightarrow>
  pubkey option \<Rightarrow> pubkey option \<Rightarrow> u64 option \<Rightarrow>
  account_meta list \<Rightarrow> (instruction, 'e) result" where
  "SetEpochWeightsBuilder_instruction B epoch_state ncn vault_registry weight_table epoch
  remaining_accounts =
     and_then (expect epoch_state) (\<lambda>epoch_state.
     and_then (expect ncn) (\<lambda>ncn.
     and_then (expect vault_registry) (\<lambda>vault_registry.
     and_then (expect weight_table) (\<lambda>weight_table.
     and_then (expect epoch) (\<lambda>epoch.
     Ok (SetEpochWeights_instruction_with_remaining_accounts B
           epoch_state ncn vault_registry weight_table epoch remaining_accounts))))))"

subsection \<open>\<open>ReallocWeightTable\<close>\<close>

definition ReallocWeightTableInstructionData_new :: u8 where "ReallocWeightTableInstructionData_new = 7"

definition ReallocWeightTable_instruction_with_remaining_accounts ::
  "borsh \<Rightarrow> pubkey \<Rightarrow> pubkey \<Rightarrow> pubkey \<Rightarrow>
  pubkey \<Rightarrow> pubkey \<Rightarrow> pubkey \<Rightarrow> pubkey \<Rightarrow>
  u64 \<Rightarrow> account_meta list \<Rightarrow> instruction" where
  "ReallocWeightTable_instruction_with_remaining_accounts B epoch_state config weight_table ncn
  vault_registry account_payer system_program epoch remaining_accounts =
     \<lparr>ix_program_id = NCN_PROGRAM_ID,
      ix_accounts =
        [AccountMeta_new epoch_state False,
         AccountMeta_new_readonly config False,
         AccountMeta_new weight_table False,
         AccountMeta_new_readonly ncn False,
         AccountMeta_new_readonly vault_registry False,
         AccountMeta_new account_payer False,
         AccountMeta_new_readonly system_program False] @ remaining_accounts,
      ix_data = bs_u8 B ReallocWeightTableInstructionData_new @ bs_u64 B epoch\<rparr>"

definition ReallocWeightTableBuilder_instruction ::
  "borsh \<Rightarrow> pubkey option \<Rightarrow> pubkey option \<Rightarrow>
  pubkey option \<Rightarrow> pubkey option \<Rightarrow> pubkey option \<Rightarrow>
  pubkey option \<Rightarrow> pubkey option \<Rightarrow> u64 option \<Rightarrow>
  account_meta list \<Rightarrow> (instruction, 'e) result" where
  "ReallocWeightTableBuilder_instruction B epoch_state config weight_table ncn vault_registry
  account_payer system_program epoch remaining_accounts =
     and_then (expect epoch_state) (\<lambda>epoch_state.
     and_then (expect config) (\<lambda>config.
     and_then (expect weight_table) (\<lambda>weight_table.
     and_then (expect ncn) (\<lambda>ncn.
     and_then (expect vault_registry) (\<lambda>vault_registry.
     and_then (expect account_payer) (\<lambda>account_payer.
     and_then (expect epoch) (\<lambda>epoch.
     Ok (ReallocWeightTable_instruction_with_remaining_accounts B
           epoch_state config weight_table ncn vault_registry account_payer
           (unwrap_or system_program Pubkey_default) epoch remaining_accounts))))))))"

subsection \<open>\<open>InitializeEpochSnapshot\<close>\<close>

definition InitializeEpochSnapshotInstructionData_new :: u8 where "InitializeEpochSnapshotInstructionData_new = 8"

definition InitializeEpochSnapshot_instruction_with_remaining_accounts ::
  "borsh \<Rightarrow> pubkey \<Rightarrow> pubkey \<Rightarrow> pubkey \<Rightarrow>
  pubkey \<Rightarrow> pubkey \<Rightarrow> pubkey \<Rightarrow> pubkey \<Rightarrow>
  pubkey \<Rightarrow> u64 \<Rightarrow> account_meta list \<Rightarrow> instruction" where
  "InitializeEpochSnapshot_instruction_with_remaining_accounts B epoch_marker epoch_state
  config ncn weight_table epoch_snapshot account_payer system_program epoch remaining_accounts
  =
     \<lparr>ix_program_id = NCN_PROGRAM_ID,
      ix_accounts =
        [AccountMeta_new_readonly epoch_marker False,
         AccountMeta_new epoch_state False,
         AccountMeta_new_readonly config False,
         AccountMeta_new_readonly ncn False,
         AccountMeta_new_readonly weight_table False,
         AccountMeta_new epoch_snapshot False,
         AccountMeta_new account_payer False,
         AccountMeta_new_readonly system_program False] @ remaining_accounts,
      ix_data = bs_u8 B InitializeEpochSnapshotInstructionData_new @ bs_u64 B epoch\<rparr>"

definition InitializeEpochSnapshotBuilder_instruction ::
  "borsh \<Rightarrow> pubkey option \<Rightarrow> pubkey option \<Rightarrow>
  pubkey option \<Rightarrow> pubkey option \<Rightarrow> pubkey option \<Rightarrow>
  pubkey option \<Rightarrow> pubkey option \<Rightarrow> pubkey option \<Rightarrow>
  u64 option \<Rightarrow> account_meta list \<Rightarrow> (instruction, 'e) result" where
  "InitializeEpochSnapshotBuilder_instruction B epoch_marker epoch_state config ncn
  weight_table epoch_snapshot account_payer system_program epoch remaining_accounts =
     and_then (expect epoch_marker) (\<lambda>epoch_marker.
     and_then (expect epoch_state) (\<lambda>epoch_state.
     and_then (expect config) (\<lambda>config.
     and_then (expect ncn) (\<lambda>ncn.
     and_then (expect weight_table) (\<lambda>weight_table.
     and_then (expect epoch_snapshot) (\<lambda>epoch_snapshot.
     and_then (expect account_payer) (\<lambda>account_payer.
     and_then (expect epoch) (\<lambda>epoch.
     Ok (InitializeEpochSnapshot_instruction_with_remaining_accounts B
           epoch_marker epoch_state config ncn weight_table epoch_snapshot account_payer
           (unwrap_or system_program Pubkey_default) epoch remaining_accounts)))))))))"

subsection \<open>\<open>InitializeOperatorSnapshot\<close>\<close>

definition InitializeOperatorSnapshotInstructionData_new :: u8 where "InitializeOperatorSnapshotInstructionData_new = 9"

definition InitializeOperatorSnapshot_instruction_with_remaining_accounts ::
  "borsh \<Rightarrow> pubkey \<Rightarrow> pubkey \<Rightarrow> pubkey \<Rightarrow>
  pubkey \<Rightarrow> pubkey \<Rightarrow> pubkey \<Rightarrow> pubkey \<Rightarrow>
  pubkey \<Rightarrow> pubkey \<Rightarrow> pubkey \<Rightarrow> pubkey \<Rightarrow>
  u64 \<Rightarrow> account_meta list \<Rightarrow> instruction" where
  "InitializeOperatorSnapshot_instruction_with_remaining_accounts B epoch_marker epoch_state
  config restaking_config ncn operator ncn_operator_state epoch_snapshot operator_snapshot
  account_payer system_program epoch remaining_accounts =
     \<lparr>ix_program_id = NCN_PROGRAM_ID,
      ix_accounts =
        [AccountMeta_new_readonly epoch_marker False,
         AccountMeta_new epoch_state False,
         AccountMeta_new_readonly config False,
         AccountMeta_new_readonly restaking_config False,
         AccountMeta_new_readonly ncn False,
         AccountMeta_new_readonly operator False,
         AccountMeta_new_readonly ncn_operator_state False,
         AccountMeta_new epoch_snapshot False,
         AccountMeta_new operator_snapshot False,
         AccountMeta_new account_payer False,
         AccountMeta_new_readonly system_program False] @ remaining_accounts,
      ix_data = bs_u8 B InitializeOperatorSnapshotInstructionData_new @ bs_u64 B epoch\<rparr>"

definition InitializeOperatorSnapshotBuilder_instruction ::
  "borsh \<Rightarrow> pubkey option \<Rightarrow> pubkey option \<Rightarrow>
  pubkey option \<Rightarrow> pubkey option \<Rightarrow> pubkey option \<Rightarrow>
  pubkey option \<Rightarrow> pubkey option \<Rightarrow> pubkey option \<Rightarrow>
  pubkey option \<Rightarrow> pubkey option \<Rightarrow> pubkey option \<Rightarrow>
  u64 option \<Rightarrow> account_meta list \<Rightarrow> (instruction, 'e) result" where
  "InitializeOperatorSnapshotBuilder_instruction B epoch_marker epoch_state config
  restaking_config ncn operator ncn_operator_state epoch_snapshot operator_snapshot
  account_payer system_program epoch remaining_accounts =
     and_then (expect epoch_marker) (\<lambda>epoch_marker.
     and_then (expect epoch_state) (\<lambda>epoch_state.
     and_then (expect config) (\<lambda>config.
     and_then (expect restaking_config) (\<lambda>restaking_config.
     and_then (expect ncn) (\<lambda>ncn.
     and_then (expect operator) (\<lambda>operator.
     and_then (expect ncn_operator_state) (\<lambda>ncn_operator_state.
     and_then (expect epoch_snapshot) (\<lambda>epoch_snapshot.
     and_then (expect operator_snapshot) (\<lambda>operator_snapshot.
     and_then (expect account_payer) (\<lambda>account_payer.
     and_then (expect epoch) (\<lambda>epoch.
     Ok (InitializeOperatorSnapshot_instruction_with_remaining_accounts B
           epoch_marker epoch_state config restaking_config ncn operator ncn_operator_state
           epoch_snapshot operator_snapshot account_payer
           (unwrap_or system_program Pubkey_default) epoch remaining_accounts))))))))))))"

subsection \<open>\<open>SnapshotVaultOperatorDelegation\<close>\<close>

definition SnapshotVaultOperatorDelegationInstructionData_new :: u8 where "SnapshotVaultOperatorDelegationInstructionData_new = 10"

definition SnapshotVaultOperatorDelegation_instruction_with_remaining_accounts ::
  "borsh \<Rightarrow> pubkey \<Rightarrow> pubkey \<Rightarrow> pubkey \<Rightarrow>
  pubkey \<Rightarrow> pubkey \<Rightarrow> pubkey \<Rightarrow> pubkey \<Rightarrow>
  pubkey \<Rightarrow> pubkey \<Rightarrow> pubkey \<Rightarrow> pubkey \<Rightarrow>
  pubkey \<Rightarrow> u64 \<Rightarrow> account_meta list \<Rightarrow> instruction" where
  "SnapshotVaultOperatorDelegation_instruction_with_remaining_accounts B epoch_state config
  restaking_config ncn operator vault vault_ncn_ticket ncn_vault_ticket
  vault_operator_delegation weight_table epoch_snapshot operator_snapshot epoch
  remaining_accounts =
     \<lparr>ix_program_id = NCN_PROGRAM_ID,
      ix_accounts =
        [AccountMeta_new epoch_state False,
         AccountMeta_new_readonly config False,
         AccountMeta_new_readonly restaking_config False,
         AccountMeta_new_readonly ncn False,
         AccountMeta_new_readonly operator False,
         AccountMeta_new_readonly vault False,
         AccountMeta_new_readonly vault_ncn_ticket False,
         AccountMeta_new_readonly ncn_vault_ticket False,
         AccountMeta_new_readonly vault_operator_delegation False,
         AccountMeta_new_readonly weight_table False,
         AccountMeta_new epoch_snapshot False,
         AccountMeta_new operator_snapshot False] @ remaining_accounts,
      ix_data = bs_u8 B SnapshotVaultOperatorDelegationInstructionData_new @ bs_u64 B
      epoch\<rparr>"

definition SnapshotVaultOperatorDelegationBuilder_instruction ::
  "borsh \<Rightarrow> pubkey option \<Rightarrow> pubkey option \<Rightarrow>
  pubkey option \<Rightarrow> pubkey option \<Rightarrow> pubkey option \<Rightarrow>
  pubkey option \<Rightarrow> pubkey option \<Rightarrow> pubkey option \<Rightarrow>
  pubkey option \<Rightarrow> pubkey option \<Rightarrow> pubkey option \<Rightarrow>
  pubkey option \<Rightarrow> u64 option \<Rightarrow> account_meta list \<Rightarrow>
  (instruction, 'e) result" where
  "SnapshotVaultOperatorDelegationBuilder_instruction B epoch_state config restaking_config ncn
  operator vault vault_ncn_ticket ncn_vault_ticket vault_operator_delegation weight_table
  epoch_snapshot operator_snapshot epoch remaining_accounts =
     and_then (expect epoch_state) (\<lambda>epoch_state.
     and_then (expect config) (\<lambda>config.
     and_then (expect restaking_config) (\<lambda>restaking_config.
     and_then (expect ncn) (\<lambda>ncn.
     and_then (expect operator) (\<lambda>operator.
     and_then (expect vault) (\<lambda>vault.
     and_then (expect vault_ncn_ticket) (\<lambda>vault_ncn_ticket.
     and_then (expect ncn_vault_ticket) (\<lambda>ncn_vault_ticket.
     and_then (expect vault_operator_delegation) (\<lambda>vault_operator_delegation.
     and_then (expect weight_table) (\<lambda>weight_table.
     and_then (expect epoch_snapshot) (\<lambda>epoch_snapshot.
     and_then (expect operator_snapshot) (\<lambda>operator_snapshot.
     and_then (expect epoch) (\<lambda>epoch.
     Ok (SnapshotVaultOperatorDelegation_instruction_with_remaining_accounts B
           epoch_state config restaking_config ncn operator vault vault_ncn_ticket
           ncn_vault_ticket vault_operator_delegation weight_table epoch_snapshot
           operator_snapshot epoch remaining_accounts))))))))))))))"

subsection \<open>\<open>InitializeBallotBox\<close>\<close>

definition InitializeBallotBoxInstructionData_new :: u8 where "InitializeBallotBoxInstructionData_new = 11"

definition InitializeBallotBox_instruction_with_remaining_accounts ::
  "borsh \<Rightarrow> pubkey \<Rightarrow> pubkey \<Rightarrow> pubkey \<Rightarrow>
  pubkey \<Rightarrow> pubkey \<Rightarrow> pubkey \<Rightarrow> pubkey \<Rightarrow>
  pubkey \<Rightarrow> u64 \<Rightarrow> account_meta list \<Rightarrow> instruction" where
  "InitializeBallotBox_instruction_with_remaining_accounts B epoch_marker epoch_state config
  ballot_box ncn account_payer system_program consensus_result epoch remaining_accounts =
     \<lparr>ix_program_id = NCN_PROGRAM_ID,
      ix_accounts =
        [AccountMeta_new_readonly epoch_marker False,
         AccountMeta_new_readonly epoch_state False,
         AccountMeta_new_readonly config False,
         AccountMeta_new ballot_box False,
         AccountMeta_new_readonly ncn False,
         AccountMeta_new account_payer False,
         AccountMeta_new_readonly system_program False,
         AccountMeta_new consensus_result False] @ remaining_accounts,
      ix_data = bs_u8 B InitializeBallotBoxInstructionData_new @ bs_u64 B epoch\<rparr>"

definition InitializeBallotBoxBuilder_instruction ::
  "borsh \<Rightarrow> pubkey option \<Rightarrow> pubkey option \<Rightarrow>
  pubkey option \<Rightarrow> pubkey option \<Rightarrow> pubkey option \<Rightarrow>
  pubkey option \<Rightarrow> pubkey option \<Rightarrow> pubkey option \<Rightarrow>
  u64 option \<Rightarrow> account_meta list \<Rightarrow> (instruction, 'e) result" where
  "InitializeBallotBoxBuilder_instruction B epoch_marker epoch_state config ballot_box ncn
  account_payer system_program consensus_result epoch remaining_accounts =
     and_then (expect epoch_marker) (\<lambda>epoch_marker.
     and_then (expect epoch_state) (\<lambda>epoch_state.
     and_then (expect config) (\<lambda>config.
     and_then (expect ballot_box) (\<lambda>ballot_box.
     and_then (expect ncn) (\<lambda>ncn.
     and_then (expect account_payer) (\<lambda>account_payer.
     and_then (expect consensus_result) (\<lambda>consensus_result.
     and_then (expect epoch) (\<lambda>epoch.
     Ok (InitializeBallotBox_instruction_with_remaining_accounts B
           epoch_marker epoch_state config ballot_box ncn account_payer
           (unwrap_or system_program Pubkey_default) consensus_result epoch remaining_accounts)))))))))"

subsection \<open>\<open>ReallocBallotBox\<close>\<close>

definition ReallocBallotBoxInstructionData_new :: u8 where "ReallocBallotBoxInstructionData_new = 12"

definition ReallocBallotBox_instruction_with_remaining_accounts ::
  "borsh \<Rightarrow> pubkey \<Rightarrow> pubkey \<Rightarrow> pubkey \<Rightarrow>
  pubkey \<Rightarrow> pubkey \<Rightarrow> pubkey \<Rightarrow> u64 \<Rightarrow>
  account_meta list \<Rightarrow> instruction" where
  "ReallocBallotBox_instruction_with_remaining_accounts B epoch_state config ballot_box ncn
  account_payer system_program epoch remaining_accounts =
     \<lparr>ix_program_id = NCN_PROGRAM_ID,
      ix_accounts =
        [AccountMeta_new epoch_state False,
         AccountMeta_new_readonly config False,
         AccountMeta_new ballot_box False,
         AccountMeta_new_readonly ncn False,
         AccountMeta_new account_payer False,
         AccountMeta_new_readonly system_program False] @ remaining_accounts,
      ix_data = bs_u8 B ReallocBallotBoxInstructionData_new @ bs_u64 B epoch\<rparr>"

definition ReallocBallotBoxBuilder_instruction ::
  "borsh \<Rightarrow> pubkey option \<Rightarrow> pubkey option \<Rightarrow>
  pubkey option \<Rightarrow> pubkey option \<Rightarrow> pubkey option \<Rightarrow>
  pubkey option \<Rightarrow> u64 option \<Rightarrow> account_meta list \<Rightarrow>
  (instruction, 'e) result" where
  "ReallocBallotBoxBuilder_instruction B epoch_state config ballot_box ncn account_payer
  system_program epoch remaining_accounts =
     and_then (expect epoch_state) (\<lambda>epoch_state.
     and_then (expect config) (\<lambda>config.
     and_then (expect ballot_box) (\<lambda>ballot_box.
     and_then (expect ncn) (\<lambda>ncn.
     and_then (expect account_payer) (\<lambda>account_payer.
     and_then (expect epoch) (\<lambda>epoch.
     Ok (ReallocBallotBox_instruction_with_remaining_accounts B
           epoch_state config ballot_box ncn account_payer
           (unwrap_or system_program Pubkey_default) epoch remaining_accounts)))))))"

subsection \<open>\<open>CastVote\<close>\<close>

definition CastVoteInstructionData_new :: u8 where "CastVoteInstructionData_new = 13"

definition CastVote_instruction_with_remaining_accounts ::
  "borsh \<Rightarrow> pubkey \<Rightarrow> pubkey \<Rightarrow> pubkey \<Rightarrow>
  pubkey \<Rightarrow> pubkey \<Rightarrow> pubkey \<Rightarrow> pubkey \<Rightarrow>
  pubkey \<Rightarrow> pubkey \<Rightarrow> u8 \<Rightarrow> u64 \<Rightarrow>
  account_meta list \<Rightarrow> instruction" where
  "CastVote_instruction_with_remaining_accounts B epoch_state config ballot_box ncn
  epoch_snapshot operator_snapshot operator operator_voter consensus_result weather_status'
  epoch remaining_accounts =
     \<lparr>ix_program_id = NCN_PROGRAM_ID,
      ix_accounts =
        [AccountMeta_new epoch_state False,
         AccountMeta_new_readonly config False,
         AccountMeta_new ballot_box False,
         AccountMeta_new_readonly ncn False,
         AccountMeta_new_readonly epoch_snapshot False,
         AccountMeta_new_readonly operator_snapshot False,
         AccountMeta_new_readonly operator False,
         AccountMeta_new_readonly operator_voter True,
         AccountMeta_new consensus_result False] @ remaining_accounts,
      ix_data = bs_u8 B CastVoteInstructionData_new @ bs_u8 B weather_status' @ bs_u64 B
      epoch\<rparr>"

definition CastVoteBuilder_instruction ::
  "borsh \<Rightarrow> pubkey option \<Rightarrow> pubkey option \<Rightarrow>
  pubkey option \<Rightarrow> pubkey option \<Rightarrow> pubkey option \<Rightarrow>
  pubkey option \<Rightarrow> pubkey option \<Rightarrow> pubkey option \<Rightarrow>
  pubkey option \<Rightarrow> u8 option \<Rightarrow> u64 option \<Rightarrow>
  account_meta list \<Rightarrow> (instruction, 'e) result" where
  "CastVoteBuilder_instruction B epoch_state config ballot_box ncn epoch_snapshot
  operator_snapshot operator operator_voter consensus_result weather_status' epoch
  remaining_accounts =
     and_then (expect epoch_state) (\<lambda>epoch_state.
     and_then (expect config) (\<lambda>config.
     and_then (expect ballot_box) (\<lambda>ballot_box.
     and_then (expect ncn) (\<lambda>ncn.
     and_then (expect epoch_snapshot) (\<lambda>epoch_snapshot.
     and_then (expect operator_snapshot) (\<lambda>operator_snapshot.
     and_then (expect operator) (\<lambda>operator.
     and_then (expect operator_voter) (\<lambda>operator_voter.
     and_then (expect consensus_result) (\<lambda>consensus_result.
     and_then (expect weather_status') (\<lambda>weather_status'.
     and_then (expect epoch) (\<lambda>epoch.
     Ok (CastVote_instruction_with_remaining_accounts B
           epoch_state config ballot_box ncn epoch_snapshot operator_snapshot operator
           operator_voter consensus_result weather_status' epoch remaining_accounts))))))))))))"

subsection \<open>\<open>InitializeNCNRewardRouter\<close>\<close>

definition InitializeNCNRewardRouterInstructionData_new :: u8 where "InitializeNCNRewardRouterInstructionData_new = 14"

definition InitializeNCNRewardRouter_instruction_with_remaining_accounts ::
  "borsh \<Rightarrow> pubkey \<Rightarrow> pubkey \<Rightarrow> pubkey \<Rightarrow>
  pubkey \<Rightarrow> pubkey \<Rightarrow> pubkey \<Rightarrow> pubkey \<Rightarrow>
  u64 \<Rightarrow> account_meta list \<Rightarrow> instruction" where
  "InitializeNCNRewardRouter_instruction_with_remaining_accounts B epoch_marker epoch_state ncn
  ncn_reward_router ncn_reward_receiver account_payer system_program epoch remaining_accounts =
     \<lparr>ix_program_id = NCN_PROGRAM_ID,
      ix_accounts =
        [AccountMeta_new_readonly epoch_marker False,
         AccountMeta_new_readonly epoch_state False,
         AccountMeta_new_readonly ncn False,
         AccountMeta_new ncn_reward_router False,
         AccountMeta_new ncn_reward_receiver False,
         AccountMeta_new account_payer False,
         AccountMeta_new_readonly system_program False] @ remaining_accounts,
      ix_data = bs_u8 B InitializeNCNRewardRouterInstructionData_new @ bs_u64 B epoch\<rparr>"

definition InitializeNCNRewardRouterBuilder_instruction ::
  "borsh \<Rightarrow> pubkey option \<Rightarrow> pubkey option \<Rightarrow>
  pubkey option \<Rightarrow> pubkey option \<Rightarrow> pubkey option \<Rightarrow>
  pubkey option \<Rightarrow> pubkey option \<Rightarrow> u64 option \<Rightarrow>
  account_meta list \<Rightarrow> (instruction, 'e) result" where
  "InitializeNCNRewardRouterBuilder_instruction B epoch_marker epoch_state ncn
  ncn_reward_router ncn_reward_receiver account_payer system_program epoch remaining_accounts =
     and_then (expect epoch_marker) (\<lambda>epoch_marker.
     and_then (expect epoch_state) (\<lambda>epoch_state.
     and_then (expect ncn) (\<lambda>ncn.
     and_then (expect ncn_reward_router) (\<lambda>ncn_reward_router.
     and_then (expect ncn_reward_receiver) (\<lambda>ncn_reward_receiver.
     and_then (expect account_payer) (\<lambda>account_payer.
     and_then (expect epoch) (\<lambda>epoch.
     Ok (InitializeNCNRewardRouter_instruction_with_remaining_accounts B
           epoch_marker epoch_state ncn ncn_reward_router ncn_reward_receiver account_payer
           (unwrap_or system_program Pubkey_default) epoch remaining_accounts))))))))"

subsection \<open>\<open>ReallocNCNRewardRouter\<close>\<close>

definition ReallocNCNRewardRouterInstructionData_new :: u8 where "ReallocNCNRewardRouterInstructionData_new = 15"

definition ReallocNCNRewardRouter_instruction_with_remaining_accounts ::
  "borsh \<Rightarrow> pubkey \<Rightarrow> pubkey \<Rightarrow> pubkey \<Rightarrow>
  pubkey \<Rightarrow> pubkey \<Rightarrow> pubkey \<Rightarrow> u64 \<Rightarrow>
  account_meta list \<Rightarrow> instruction" where
  "ReallocNCNRewardRouter_instruction_with_remaining_accounts B epoch_state config
  ncn_reward_router ncn account_payer system_program epoch remaining_accounts =
     \<lparr>ix_program_id = NCN_PROGRAM_ID,
      ix_accounts =
        [AccountMeta_new epoch_state False,
         AccountMeta_new_readonly config False,
         AccountMeta_new ncn_reward_router False,
         AccountMeta_new_readonly ncn False,
         AccountMeta_new account_payer False,
         AccountMeta_new_readonly system_program False] @ remaining_accounts,
      ix_data = bs_u8 B ReallocNCNRewardRouterInstructionData_new @ bs_u64 B epoch\<rparr>"

definition ReallocNCNRewardRouterBuilder_instruction ::
  "borsh \<Rightarrow> pubkey option \<Rightarrow> pubkey option \<Rightarrow>
  pubkey option \<Rightarrow> pubkey option \<Rightarrow> pubkey option \<Rightarrow>
  pubkey option \<Rightarrow> u64 option \<Rightarrow> account_meta list \<Rightarrow>
  (instruction, 'e) result" where
  "ReallocNCNRewardRouterBuilder_instruction B epoch_state config ncn_reward_router ncn
  account_payer system_program epoch remaining_accounts =
     and_then (expect epoch_state) (\<lambda>epoch_state.
     and_then (expect config) (\<lambda>config.
     and_then (expect ncn_reward_router) (\<lambda>ncn_reward_router.
     and_then (expect ncn) (\<lambda>ncn.
     and_then (expect account_payer) (\<lambda>account_payer.
     and_then (expect epoch) (\<lambda>epoch.
     Ok (ReallocNCNRewardRouter_instruction_with_remaining_accounts B
           epoch_state config ncn_reward_router ncn account_payer
           (unwrap_or system_program Pubkey_default) epoch remaining_accounts)))))))"

subsection \<open>\<open>RouteNCNRewards\<close>\<close>

definition RouteNCNRewardsInstructionData_new :: u8 where "RouteNCNRewardsInstructionData_new = 16"

definition RouteNCNRewards_instruction_with_remaining_accounts ::
  "borsh \<Rightarrow> pubkey \<Rightarrow> pubkey \<Rightarrow> pubkey \<Rightarrow>
  pubkey \<Rightarrow> pubkey \<Rightarrow> pubkey \<Rightarrow> pubkey \<Rightarrow>
  u16 \<Rightarrow> u64 \<Rightarrow> account_meta list \<Rightarrow> instruction" where
  "RouteNCNRewards_instruction_with_remaining_accounts B epoch_state config ncn epoch_snapshot
  ballot_box ncn_reward_router ncn_reward_receiver max_iterations epoch remaining_accounts =
     \<lparr>ix_program_id = NCN_PROGRAM_ID,
      ix_accounts =
        [AccountMeta_new epoch_state False,
         AccountMeta_new_readonly config False,
         AccountMeta_new_readonly ncn False,
         AccountMeta_new_readonly epoch_snapshot False,
         AccountMeta_new_readonly ballot_box False,
         AccountMeta_new ncn_reward_router False,
         AccountMeta_new ncn_reward_receiver False] @ remaining_accounts,
      ix_data = bs_u8 B RouteNCNRewardsInstructionData_new @ bs_u16 B max_iterations @ bs_u64 B
      epoch\<rparr>"

definition RouteNCNRewardsBuilder_instruction ::
  "borsh \<Rightarrow> pubkey option \<Rightarrow> pubkey option \<Rightarrow>
  pubkey option \<Rightarrow> pubkey option \<Rightarrow> pubkey option \<Rightarrow>
  pubkey option \<Rightarrow> pubkey option \<Rightarrow> u16 option \<Rightarrow>
  u64 option \<Rightarrow> account_meta list \<Rightarrow> (instruction, 'e) result" where
  "RouteNCNRewardsBuilder_instruction B epoch_state config ncn epoch_snapshot ballot_box
  ncn_reward_router ncn_reward_receiver max_iterations epoch remaining_accounts =
     and_then (expect epoch_state) (\<lambda>epoch_state.
     and_then (expect config) (\<lambda>config.
     and_then (expect ncn) (\<lambda>ncn.
     and_then (expect epoch_snapshot) (\<lambda>epoch_snapshot.
     and_then (expect ballot_box) (\<lambda>ballot_box.
     and_then (expect ncn_reward_router) (\<lambda>ncn_reward_router.
     and_then (expect ncn_reward_receiver) (\<lambda>ncn_reward_receiver.
     and_then (expect max_iterations) (\<lambda>max_iterations.
     and_then (expect epoch) (\<lambda>epoch.
     Ok (RouteNCNRewards_instruction_with_remaining_accounts B
           epoch_state config ncn epoch_snapshot ballot_box ncn_reward_router
           ncn_reward_receiver max_iterations epoch remaining_accounts))))))))))"

subsection \<open>\<open>DistributeProtocolRewards\<close>\<close>

definition DistributeProtocolRewardsInstructionData_new :: u8 where "DistributeProtocolRewardsInstructionData_new = 17"

definition DistributeProtocolRewards_instruction_with_remaining_accounts ::
  "borsh \<Rightarrow> pubkey \<Rightarrow> pubkey \<Rightarrow> pubkey \<Rightarrow>
  pubkey \<Rightarrow> pubkey \<Rightarrow> pubkey \<Rightarrow> pubkey \<Rightarrow>
  u64 \<Rightarrow> account_meta list \<Rightarrow> instruction" where
  "DistributeProtocolRewards_instruction_with_remaining_accounts B epoch_state config ncn
  ncn_reward_router ncn_reward_receiver protocol_fee_wallet' system_program epoch
  remaining_accounts =
     \<lparr>ix_program_id = NCN_PROGRAM_ID,
      ix_accounts =
        [AccountMeta_new epoch_state False,
         AccountMeta_new_readonly config False,
         AccountMeta_new_readonly ncn False,
         AccountMeta_new ncn_reward_router False,
         AccountMeta_new ncn_reward_receiver False,
         AccountMeta_new protocol_fee_wallet' False,
         AccountMeta_new_readonly system_program False] @ remaining_accounts,
      ix_data = bs_u8 B DistributeProtocolRewardsInstructionData_new @ bs_u64 B epoch\<rparr>"

definition DistributeProtocolRewardsBuilder_instruction ::
  "borsh \<Rightarrow> pubkey option \<Rightarrow> pubkey option \<Rightarrow>
  pubkey option \<Rightarrow> pubkey option \<Rightarrow> pubkey option \<Rightarrow>
  pubkey option \<Rightarrow> pubkey option \<Rightarrow> u64 option \<Rightarrow>
  account_meta list \<Rightarrow> (instruction, 'e) result" where
  "DistributeProtocolRewardsBuilder_instruction B epoch_state config ncn ncn_reward_router
  ncn_reward_receiver protocol_fee_wallet' system_program epoch remaining_accounts =
     and_then (expect epoch_state) (\<lambda>epoch_state.
     and_then (expect config) (\<lambda>config.
     and_then (expect ncn) (\<lambda>ncn.
     and_then (expect ncn_reward_router) (\<lambda>ncn_reward_router.
     and_then (expect ncn_reward_receiver) (\<lambda>ncn_reward_receiver.
     and_then (expect protocol_fee_wallet') (\<lambda>protocol_fee_wallet'.
     and_then (expect epoch) (\<lambda>epoch.
     Ok (DistributeProtocolRewards_instruction_with_remaining_accounts B
           epoch_state config ncn ncn_reward_router ncn_reward_receiver protocol_fee_wallet'
           (unwrap_or system_program Pubkey_default) epoch remaining_accounts))))))))"

subsection \<open>\<open>DistributeNCNRewards\<close>\<close>

definition DistributeNCNRewardsInstructionData_new :: u8 where "DistributeNCNRewardsInstructionData_new = 18"

definition DistributeNCNRewards_instruction_with_remaining_accounts ::
  "borsh \<Rightarrow> pubkey \<Rightarrow> pubkey \<Rightarrow> pubkey \<Rightarrow>
  pubkey \<Rightarrow> pubkey \<Rightarrow> pubkey \<Rightarrow> pubkey \<Rightarrow>
  u64 \<Rightarrow> account_meta list \<Rightarrow> instruction" where
  "DistributeNCNRewards_instruction_with_remaining_accounts B epoch_state config ncn
  ncn_reward_router ncn_reward_receiver ncn_fee_wallet system_program epoch remaining_accounts
  =
     \<lparr>ix_program_id = NCN_PROGRAM_ID,
      ix_accounts =
        [AccountMeta_new epoch_state False,
         AccountMeta_new_readonly config False,
         AccountMeta_new_readonly ncn False,
         AccountMeta_new ncn_reward_router False,
         AccountMeta_new ncn_reward_receiver False,
         AccountMeta_new ncn_fee_wallet False,
         AccountMeta_new_readonly system_program False] @ remaining_accounts,
      ix_data = bs_u8 B DistributeNCNRewardsInstructionData_new @ bs_u64 B epoch\<rparr>"

definition DistributeNCNRewardsBuilder_instruction ::
  "borsh \<Rightarrow> pubkey option \<Rightarrow> pubkey option \<Rightarrow>
  pubkey option \<Rightarrow> pubkey option \<Rightarrow> pubkey option \<Rightarrow>
  pubkey option \<Rightarrow> pubkey option \<Rightarrow> u64 option \<Rightarrow>
  account_meta list \<Rightarrow> (instruction, 'e) result" where
  "DistributeNCNRewardsBuilder_instruction B epoch_state config ncn ncn_reward_router
  ncn_reward_receiver ncn_fee_wallet system_program epoch remaining_accounts =
     and_then (expect epoch_state) (\<lambda>epoch_state.
     and_then (expect config) (\<lambda>config.
     and_then (expect ncn) (\<lambda>ncn.
     and_then (expect ncn_reward_router) (\<lambda>ncn_reward_router.
     and_then (expect ncn_reward_receiver) (\<lambda>ncn_reward_receiver.
     and_then (expect ncn_fee_wallet) (\<lambda>ncn_fee_wallet.
     and_then (expect epoch) (\<lambda>epoch.
     Ok (DistributeNCNRewards_instruction_with_remaining_accounts B
           epoch_state config ncn ncn_reward_router ncn_reward_receiver ncn_fee_wallet
           (unwrap_or system_program Pubkey_default) epoch remaining_accounts))))))))"

subsection \<open>\<open>InitializeOperatorVaultRewardRouter\<close>\<close>

definition InitializeOperatorVaultRewardRouterInstructionData_new :: u8 where "InitializeOperatorVaultRewardRouterInstructionData_new = 19"

definition InitializeOperatorVaultRewardRouter_instruction_with_remaining_accounts ::
  "borsh \<Rightarrow> pubkey \<Rightarrow> pubkey \<Rightarrow> pubkey \<Rightarrow>
  pubkey \<Rightarrow> pubkey \<Rightarrow> pubkey \<Rightarrow> pubkey \<Rightarrow>
  pubkey \<Rightarrow> pubkey \<Rightarrow> u64 \<Rightarrow> account_meta list \<Rightarrow>
  instruction" where
  "InitializeOperatorVaultRewardRouter_instruction_with_remaining_accounts B epoch_marker
  epoch_state ncn operator operator_snapshot operator_vault_reward_router
  operator_vault_reward_receiver account_payer system_program epoch remaining_accounts =
     \<lparr>ix_program_id = NCN_PROGRAM_ID,
      ix_accounts =
        [AccountMeta_new_readonly epoch_marker False,
         AccountMeta_new epoch_state False,
         AccountMeta_new_readonly ncn False,
         AccountMeta_new_readonly operator False,
         AccountMeta_new_readonly operator_snapshot False,
         AccountMeta_new operator_vault_reward_router False,
         AccountMeta_new operator_vault_reward_receiver False,
         AccountMeta_new account_payer False,
         AccountMeta_new_readonly system_program False] @ remaining_accounts,
      ix_data = bs_u8 B InitializeOperatorVaultRewardRouterInstructionData_new @ bs_u64 B
      epoch\<rparr>"

definition InitializeOperatorVaultRewardRouterBuilder_instruction ::
  "borsh \<Rightarrow> pubkey option \<Rightarrow> pubkey option \<Rightarrow>
  pubkey option \<Rightarrow> pubkey option \<Rightarrow> pubkey option \<Rightarrow>
  pubkey option \<Rightarrow> pubkey option \<Rightarrow> pubkey option \<Rightarrow>
  pubkey option \<Rightarrow> u64 option \<Rightarrow> account_meta list \<Rightarrow>
  (instruction, 'e) result" where
  "InitializeOperatorVaultRewardRouterBuilder_instruction B epoch_marker epoch_state ncn
  operator operator_snapshot operator_vault_reward_router operator_vault_reward_receiver
  account_payer system_program epoch remaining_accounts =
     and_then (expect epoch_marker) (\<lambda>epoch_marker.
     and_then (expect epoch_state) (\<lambda>epoch_state.
     and_then (expect ncn) (\<lambda>ncn.
     and_then (expect operator) (\<lambda>operator.
     and_then (expect operator_snapshot) (\<lambda>operator_snapshot.
     and_then (expect operator_vault_reward_router) (\<lambda>operator_vault_reward_router.
     and_then (expect operator_vault_reward_receiver) (\<lambda>operator_vault_reward_receiver.
     and_then (expect account_payer) (\<lambda>account_payer.
     and_then (expect epoch) (\<lambda>epoch.
     Ok (InitializeOperatorVaultRewardRouter_instruction_with_remaining_accounts B
           epoch_marker epoch_state ncn operator operator_snapshot operator_vault_reward_router
           operator_vault_reward_receiver account_payer
           (unwrap_or system_program Pubkey_default) epoch remaining_accounts))))))))))"

subsection \<open>\<open>DistributeOperatorVaultRewardRoute\<close>\<close>

definition DistributeOperatorVaultRewardRouteInstructionData_new :: u8 where "DistributeOperatorVaultRewardRouteInstructionData_new = 20"

definition DistributeOperatorVaultRewardRoute_instruction_with_remaining_accounts ::
  "borsh \<Rightarrow> pubkey \<Rightarrow> pubkey \<Rightarrow> pubkey \<Rightarrow>
  pubkey \<Rightarrow> pubkey \<Rightarrow> pubkey \<Rightarrow> pubkey \<Rightarrow>
  pubkey \<Rightarrow> pubkey \<Rightarrow> u64 \<Rightarrow> account_meta list \<Rightarrow>
  instruction" where
  "DistributeOperatorVaultRewardRoute_instruction_with_remaining_accounts B epoch_state config
  ncn operator ncn_reward_router ncn_reward_receiver operator_vault_reward_router
  operator_vault_reward_receiver system_program epoch remaining_accounts =
     \<lparr>ix_program_id = NCN_PROGRAM_ID,
      ix_accounts =
        [AccountMeta_new epoch_state False,
         AccountMeta_new_readonly config False,
         AccountMeta_new_readonly ncn False,
         AccountMeta_new_readonly operator False,
         AccountMeta_new ncn_reward_router False,
         AccountMeta_new ncn_reward_receiver False,
         AccountMeta_new_readonly operator_vault_reward_router False,
         AccountMeta_new operator_vault_reward_receiver False,
         AccountMeta_new_readonly system_program False] @ remaining_accounts,
      ix_data = bs_u8 B DistributeOperatorVaultRewardRouteInstructionData_new @ bs_u64 B
      epoch\<rparr>"

definition DistributeOperatorVaultRewardRouteBuilder_instruction ::
  "borsh \<Rightarrow> pubkey option \<Rightarrow> pubkey option \<Rightarrow>
  pubkey option \<Rightarrow> pubkey option \<Rightarrow> pubkey option \<Rightarrow>
  pubkey option \<Rightarrow> pubkey option \<Rightarrow> pubkey option \<Rightarrow>
  pubkey option \<Rightarrow> u64 option \<Rightarrow> account_meta list \<Rightarrow>
  (instruction, 'e) result" where
  "DistributeOperatorVaultRewardRouteBuilder_instruction B epoch_state config ncn operator
  ncn_reward_router ncn_reward_receiver operator_vault_reward_router
  operator_vault_reward_receiver system_program epoch remaining_accounts =
     and_then (expect epoch_state) (\<lambda>epoch_state.
     and_then (expect config) (\<lambda>config.
     and_then (expect ncn) (\<lambda>ncn.
     and_then (expect operator) (\<lambda>operator.
     and_then (expect ncn_reward_router) (\<lambda>ncn_reward_router.
     and_then (expect ncn_reward_receiver) (\<lambda>ncn_reward_receiver.
     and_then (expect operator_vault_reward_router) (\<lambda>operator_vault_reward_router.
     and_then (expect operator_vault_reward_receiver) (\<lambda>operator_vault_reward_receiver.
     and_then (expect epoch) (\<lambda>epoch.
     Ok (DistributeOperatorVaultRewardRoute_instruction_with_remaining_accounts B
           epoch_state config ncn operator ncn_reward_router ncn_reward_receiver
           operator_vault_reward_router operator_vault_reward_receiver
           (unwrap_or system_program Pubkey_default) epoch remaining_accounts))))))))))"

subsection \<open>\<open>RouteOperatorVaultRewards\<close>\<close>

definition RouteOperatorVaultRewardsInstructionData_new :: u8 where "RouteOperatorVaultRewardsInstructionData_new = 21"

definition RouteOperatorVaultRewards_instruction_with_remaining_accounts ::
  "borsh \<Rightarrow> pubkey \<Rightarrow> pubkey \<Rightarrow> pubkey \<Rightarrow>
  pubkey \<Rightarrow> pubkey \<Rightarrow> pubkey \<Rightarrow> u16 \<Rightarrow>
  u64 \<Rightarrow> account_meta list \<Rightarrow> instruction" where
  "RouteOperatorVaultRewards_instruction_with_remaining_accounts B epoch_state ncn operator
  operator_snapshot operator_vault_reward_router operator_vault_reward_receiver max_iterations
  epoch remaining_accounts =
     \<lparr>ix_program_id = NCN_PROGRAM_ID,
      ix_accounts =
        [AccountMeta_new epoch_state False,
         AccountMeta_new_readonly ncn False,
         AccountMeta_new_readonly operator False,
         AccountMeta_new_readonly operator_snapshot False,
         AccountMeta_new operator_vault_reward_router False,
         AccountMeta_new operator_vault_reward_receiver False] @ remaining_accounts,
      ix_data = bs_u8 B RouteOperatorVaultRewardsInstructionData_new @ bs_u16 B max_iterations
      @ bs_u64 B epoch\<rparr>"

definition RouteOperatorVaultRewardsBuilder_instruction ::
  "borsh \<Rightarrow> pubkey option \<Rightarrow> pubkey option \<Rightarrow>
  pubkey option \<Rightarrow> pubkey option \<Rightarrow> pubkey option \<Rightarrow>
  pubkey option \<Rightarrow> u16 option \<Rightarrow> u64 option \<Rightarrow>
  account_meta list \<Rightarrow> (instruction, 'e) result" where
  "RouteOperatorVaultRewardsBuilder_instruction B epoch_state ncn operator operator_snapshot
  operator_vault_reward_router operator_vault_reward_receiver max_iterations epoch
  remaining_accounts =
     and_then (expect epoch_state) (\<lambda>epoch_state.
     and_then (expect ncn) (\<lambda>ncn.
     and_then (expect operator) (\<lambda>operator.
     and_then (expect operator_snapshot) (\<lambda>operator_snapshot.
     and_then (expect operator_vault_reward_router) (\<lambda>operator_vault_reward_router.
     and_then (expect operator_vault_reward_receiver) (\<lambda>operator_vault_reward_receiver.
     and_then (expect max_iterations) (\<lambda>max_iterations.
     and_then (expect epoch) (\<lambda>epoch.
     Ok (RouteOperatorVaultRewards_instruction_with_remaining_accounts B
           epoch_state ncn operator operator_snapshot operator_vault_reward_router
           operator_vault_reward_receiver max_iterations epoch remaining_accounts)))))))))"

subsection \<open>\<open>CloseEpochAccount\<close>\<close>

definition CloseEpochAccountInstructionData_new :: u8 where "CloseEpochAccountInstructionData_new = 22"

definition CloseEpochAccount_instruction_with_remaining_accounts ::
  "borsh \<Rightarrow> pubkey \<Rightarrow> pubkey \<Rightarrow> pubkey \<Rightarrow>
  pubkey \<Rightarrow> pubkey \<Rightarrow> pubkey \<Rightarrow> pubkey \<Rightarrow>
  pubkey option \<Rightarrow> pubkey option \<Rightarrow> u64 \<Rightarrow>
  account_meta list \<Rightarrow> instruction" where
  "CloseEpochAccount_instruction_with_remaining_accounts B epoch_marker epoch_state config ncn
  account_to_close account_payer system_program ncn_fee_wallet receiver_to_close epoch
  remaining_accounts =
     \<lparr>ix_program_id = NCN_PROGRAM_ID,
      ix_accounts =
        [AccountMeta_new epoch_marker False,
         AccountMeta_new epoch_state False,
         AccountMeta_new_readonly config False,
         AccountMeta_new_readonly ncn False,
         AccountMeta_new account_to_close False,
         AccountMeta_new account_payer False,
         AccountMeta_new_readonly system_program False,
         (case ncn_fee_wallet of Some ncn_fee_wallet \<Rightarrow> AccountMeta_new ncn_fee_wallet False
         | None \<Rightarrow> AccountMeta_new_readonly NCN_PROGRAM_ID False),
         (case receiver_to_close of Some receiver_to_close \<Rightarrow> AccountMeta_new receiver_to_close False
         | None \<Rightarrow> AccountMeta_new_readonly NCN_PROGRAM_ID False)] @ remaining_accounts,
      ix_data = bs_u8 B CloseEpochAccountInstructionData_new @ bs_u64 B epoch\<rparr>"

definition CloseEpochAccountBuilder_instruction ::
  "borsh \<Rightarrow> pubkey option \<Rightarrow> pubkey option \<Rightarrow>
  pubkey option \<Rightarrow> pubkey option \<Rightarrow> pubkey option \<Rightarrow>
  pubkey option \<Rightarrow> pubkey option \<Rightarrow> pubkey option \<Rightarrow>
  pubkey option \<Rightarrow> u64 option \<Rightarrow> account_meta list \<Rightarrow>
  (instruction, 'e) result" where
  "CloseEpochAccountBuilder_instruction B epoch_marker epoch_state config ncn account_to_close
  account_payer system_program ncn_fee_wallet receiver_to_close epoch remaining_accounts =
     and_then (expect epoch_marker) (\<lambda>epoch_marker.
     and_then (expect epoch_state) (\<lambda>epoch_state.
     and_then (expect config) (\<lambda>config.
     and_then (expect ncn) (\<lambda>ncn.
     and_then (expect account_to_close) (\<lambda>account_to_close.
     and_then (expect account_payer) (\<lambda>account_payer.
     and_then (expect epoch) (\<lambda>epoch.
     Ok (CloseEpochAccount_instruction_with_remaining_accounts B
           epoch_marker epoch_state config ncn account_to_close account_payer
           (unwrap_or system_program Pubkey_default) ncn_fee_wallet receiver_to_close epoch
           remaining_accounts))))))))"

subsection \<open>\<open>DistributeOperatorRewards\<close>\<close>

definition DistributeOperatorRewardsInstructionData_new :: u8 where "DistributeOperatorRewardsInstructionData_new = 23"

definition DistributeOperatorRewards_instruction_with_remaining_accounts ::
  "borsh \<Rightarrow> pubkey \<Rightarrow> pubkey \<Rightarrow> pubkey \<Rightarrow>
  pubkey \<Rightarrow> pubkey \<Rightarrow> pubkey \<Rightarrow> pubkey \<Rightarrow>
  pubkey \<Rightarrow> u64 \<Rightarrow> account_meta list \<Rightarrow> instruction" where
  "DistributeOperatorRewards_instruction_with_remaining_accounts B epoch_state config ncn
  operator operator_snapshot operator_vault_reward_router operator_vault_reward_receiver
  system_program epoch remaining_accounts =
     \<lparr>ix_program_id = NCN_PROGRAM_ID,
      ix_accounts =
        [AccountMeta_new epoch_state False,
         AccountMeta_new_readonly config False,
         AccountMeta_new_readonly ncn False,
         AccountMeta_new operator False,
         AccountMeta_new operator_snapshot False,
         AccountMeta_new operator_vault_reward_router False,
         AccountMeta_new operator_vault_reward_receiver False,
         AccountMeta_new_readonly system_program False] @ remaining_accounts,
      ix_data = bs_u8 B DistributeOperatorRewardsInstructionData_new @ bs_u64 B epoch\<rparr>"

definition DistributeOperatorRewardsBuilder_instruction ::
  "borsh \<Rightarrow> pubkey option \<Rightarrow> pubkey option \<Rightarrow>
  pubkey option \<Rightarrow> pubkey option \<Rightarrow> pubkey option \<Rightarrow>
  pubkey option \<Rightarrow> pubkey option \<Rightarrow> pubkey option \<Rightarrow>
  u64 option \<Rightarrow> account_meta list \<Rightarrow> (instruction, 'e) result" where
  "DistributeOperatorRewardsBuilder_instruction B epoch_state config ncn operator
  operator_snapshot operator_vault_reward_router operator_vault_reward_receiver system_program
  epoch remaining_accounts =
     and_then (expect epoch_state) (\<lambda>epoch_state.
     and_then (expect config) (\<lambda>config.
     and_then (expect ncn) (\<lambda>ncn.
     and_then (expect operator) (\<lambda>operator.
     and_then (expect operator_snapshot) (\<lambda>operator_snapshot.
     and_then (expect operator_vault_reward_router) (\<lambda>operator_vault_reward_router.
     and_then (expect operator_vault_reward_receiver) (\<lambda>operator_vault_reward_receiver.
     and_then (expect epoch) (\<lambda>epoch.
     Ok (DistributeOperatorRewards_instruction_with_remaining_accounts B
           epoch_state config ncn operator operator_snapshot operator_vault_reward_router
           operator_vault_reward_receiver (unwrap_or system_program Pubkey_default) epoch
           remaining_accounts)))))))))"

subsection \<open>\<open>DistributeVaultRewards\<close>\<close>

definition DistributeVaultRewardsInstructionData_new :: u8 where "DistributeVaultRewardsInstructionData_new = 24"

definition DistributeVaultRewards_instruction_with_remaining_accounts ::
  "borsh \<Rightarrow> pubkey \<Rightarrow> pubkey \<Rightarrow> pubkey \<Rightarrow>
  pubkey \<Rightarrow> pubkey \<Rightarrow> pubkey \<Rightarrow> pubkey \<Rightarrow>
  pubkey \<Rightarrow> pubkey \<Rightarrow> u64 \<Rightarrow> account_meta list \<Rightarrow>
  instruction" where
  "DistributeVaultRewards_instruction_with_remaining_accounts B epoch_state config ncn operator
  vault operator_snapshot operator_vault_reward_router operator_vault_reward_receiver
  system_program epoch remaining_accounts =
     \<lparr>ix_program_id = NCN_PROGRAM_ID,
      ix_accounts =
        [AccountMeta_new epoch_state False,
         AccountMeta_new_readonly config False,
         AccountMeta_new_readonly ncn False,
         AccountMeta_new_readonly operator False,
         AccountMeta_new vault False,
         AccountMeta_new operator_snapshot False,
         AccountMeta_new operator_vault_reward_router False,
         AccountMeta_new operator_vault_reward_receiver False,
         AccountMeta_new_readonly system_program False] @ remaining_accounts,
      ix_data = bs_u8 B DistributeVaultRewardsInstructionData_new @ bs_u64 B epoch\<rparr>"

definition DistributeVaultRewardsBuilder_instruction ::
  "borsh \<Rightarrow> pubkey option \<Rightarrow> pubkey option \<Rightarrow>
  pubkey option \<Rightarrow> pubkey option \<Rightarrow> pubkey option \<Rightarrow>
  pubkey option \<Rightarrow> pubkey option \<Rightarrow> pubkey option \<Rightarrow>
  pubkey option \<Rightarrow> u64 option \<Rightarrow> account_meta list \<Rightarrow>
  (instruction, 'e) result" where
  "DistributeVaultRewardsBuilder_instruction B epoch_state config ncn operator vault
  operator_snapshot operator_vault_reward_router operator_vault_reward_receiver system_program
  epoch remaining_accounts =
     and_then (expect epoch_state) (\<lambda>epoch_state.
     and_then (expect config) (\<lambda>config.
     and_then (expect ncn) (\<lambda>ncn.
     and_then (expect operator) (\<lambda>operator.
     and_then (expect vault) (\<lambda>vault.
     and_then (expect operator_snapshot) (\<lambda>operator_snapshot.
     and_then (expect operator_vault_reward_router) (\<lambda>operator_vault_reward_router.
     and_then (expect operator_vault_reward_receiver) (\<lambda>operator_vault_reward_receiver.
     and_then (expect epoch) (\<lambda>epoch.
     Ok (DistributeVaultRewards_instruction_with_remaining_accounts B
           epoch_state config ncn operator vault operator_snapshot operator_vault_reward_router
           operator_vault_reward_receiver (unwrap_or system_program Pubkey_default) epoch
           remaining_accounts))))))))))"

subsection \<open>\<open>AdminSetParameters\<close>\<close>

definition AdminSetParametersInstructionData_new :: u8 where "AdminSetParametersInstructionData_new = 25"

definition AdminSetParameters_instruction_with_remaining_accounts ::
  "borsh \<Rightarrow> pubkey \<Rightarrow> pubkey \<Rightarrow> pubkey \<Rightarrow>
  u64 option \<Rightarrow> u64 option \<Rightarrow> u64 option \<Rightarrow>
  u64 option \<Rightarrow> account_meta list \<Rightarrow> instruction" where
  "AdminSetParameters_instruction_with_remaining_accounts B config ncn ncn_admin'
  starting_valid_epoch' epochs_before_stall' epochs_after_consensus_before_close'
  valid_slots_after_consensus' remaining_accounts =
     \<lparr>ix_program_id = NCN_PROGRAM_ID,
      ix_accounts =
        [AccountMeta_new config False,
         AccountMeta_new_readonly ncn False,
         AccountMeta_new_readonly ncn_admin' True] @ remaining_accounts,
      ix_data = bs_u8 B AdminSetParametersInstructionData_new @ bs_option B (bs_u64 B)
      starting_valid_epoch' @ bs_option B (bs_u64 B) epochs_before_stall' @ bs_option B (bs_u64
      B) epochs_after_consensus_before_close' @ bs_option B (bs_u64 B)
      valid_slots_after_consensus'\<rparr>"

definition AdminSetParametersBuilder_instruction ::
  "borsh \<Rightarrow> pubkey option \<Rightarrow> pubkey option \<Rightarrow>
  pubkey option \<Rightarrow> u64 option \<Rightarrow> u64 option \<Rightarrow>
  u64 option \<Rightarrow> u64 option \<Rightarrow> account_meta list \<Rightarrow>
  (instruction, 'e) result" where
  "AdminSetParametersBuilder_instruction B config ncn ncn_admin' starting_valid_epoch'
  epochs_before_stall' epochs_after_consensus_before_close' valid_slots_after_consensus'
  remaining_accounts =
     and_then (expect config) (\<lambda>config.
     and_then (expect ncn) (\<lambda>ncn.
     and_then (expect ncn_admin') (\<lambda>ncn_admin'.
     Ok (AdminSetParameters_instruction_with_remaining_accounts B
           config ncn ncn_admin' starting_valid_epoch' epochs_before_stall'
           epochs_after_consensus_before_close' valid_slots_after_consensus'
           remaining_accounts))))"

subsection \<open>\<open>AdminSetNewAdmin\<close>\<close>

definition AdminSetNewAdminInstructionData_new :: u8 where "AdminSetNewAdminInstructionData_new = 26"

definition AdminSetNewAdmin_instruction_with_remaining_accounts ::
  "borsh \<Rightarrow> pubkey \<Rightarrow> pubkey \<Rightarrow> pubkey \<Rightarrow>
  pubkey \<Rightarrow> ConfigAdminRole \<Rightarrow> account_meta list \<Rightarrow> instruction"
  where
  "AdminSetNewAdmin_instruction_with_remaining_accounts B config ncn ncn_admin' new_admin role
  remaining_accounts =
     \<lparr>ix_program_id = NCN_PROGRAM_ID,
      ix_accounts =
        [AccountMeta_new config False,
         AccountMeta_new_readonly ncn False,
         AccountMeta_new_readonly ncn_admin' True,
         AccountMeta_new_readonly new_admin False] @ remaining_accounts,
      ix_data = bs_u8 B AdminSetNewAdminInstructionData_new @ bs_role B role\<rparr>"

definition AdminSetNewAdminBuilder_instruction ::
  "borsh \<Rightarrow> pubkey option \<Rightarrow> pubkey option \<Rightarrow>
  pubkey option \<Rightarrow> pubkey option \<Rightarrow> ConfigAdminRole option \<Rightarrow>
  account_meta list \<Rightarrow> (instruction, 'e) result" where
  "AdminSetNewAdminBuilder_instruction B config ncn ncn_admin' new_admin role
  remaining_accounts =
     and_then (expect config) (\<lambda>config.
     and_then (expect ncn) (\<lambda>ncn.
     and_then (expect ncn_admin') (\<lambda>ncn_admin'.
     and_then (expect new_admin) (\<lambda>new_admin.
     and_then (expect role) (\<lambda>role.
     Ok (AdminSetNewAdmin_instruction_with_remaining_accounts B
           config ncn ncn_admin' new_admin role remaining_accounts))))))"

subsection \<open>\<open>AdminSetTieBreaker\<close>\<close>

definition AdminSetTieBreakerInstructionData_new :: u8 where "AdminSetTieBreakerInstructionData_new = 27"

definition AdminSetTieBreaker_instruction_with_remaining_accounts ::
  "borsh \<Rightarrow> pubkey \<Rightarrow> pubkey \<Rightarrow> pubkey \<Rightarrow>
  pubkey \<Rightarrow> pubkey \<Rightarrow> u8 \<Rightarrow> u64 \<Rightarrow>
  account_meta list \<Rightarrow> instruction" where
  "AdminSetTieBreaker_instruction_with_remaining_accounts B epoch_state config ballot_box ncn
  tie_breaker_admin' weather_status' epoch remaining_accounts =
     \<lparr>ix_program_id = NCN_PROGRAM_ID,
      ix_accounts =
        [AccountMeta_new epoch_state False,
         AccountMeta_new_readonly config False,
         AccountMeta_new ballot_box False,
         AccountMeta_new_readonly ncn False,
         AccountMeta_new_readonly tie_breaker_admin' True] @ remaining_accounts,
      ix_data = bs_u8 B AdminSetTieBreakerInstructionData_new @ bs_u8 B weather_status' @
      bs_u64 B epoch\<rparr>"

definition AdminSetTieBreakerBuilder_instruction ::
  "borsh \<Rightarrow> pubkey option \<Rightarrow> pubkey option \<Rightarrow>
  pubkey option \<Rightarrow> pubkey option \<Rightarrow> pubkey option \<Rightarrow>
  u8 option \<Rightarrow> u64 option \<Rightarrow> account_meta list \<Rightarrow>
  (instruction, 'e) result" where
  "AdminSetTieBreakerBuilder_instruction B epoch_state config ballot_box ncn tie_breaker_admin'
  weather_status' epoch remaining_accounts =
     and_then (expect epoch_state) (\<lambda>epoch_state.
     and_then (expect config) (\<lambda>config.
     and_then (expect ballot_box) (\<lambda>ballot_box.
     and_then (expect ncn) (\<lambda>ncn.
     and_then (expect tie_breaker_admin') (\<lambda>tie_breaker_admin'.
     and_then (expect weather_status') (\<lambda>weather_status'.
     and_then (expect epoch) (\<lambda>epoch.
     Ok (AdminSetTieBreaker_instruction_with_remaining_accounts B
           epoch_state config ballot_box ncn tie_breaker_admin' weather_status' epoch
           remaining_accounts))))))))"

subsection \<open>\<open>AdminSetWeight\<close>\<close>

definition AdminSetWeightInstructionData_new :: u8 where "AdminSetWeightInstructionData_new = 28"

definition AdminSetWeight_instruction_with_remaining_accounts ::
  "borsh \<Rightarrow> pubkey \<Rightarrow> pubkey \<Rightarrow> pubkey \<Rightarrow>
  pubkey \<Rightarrow> pubkey \<Rightarrow> u128 \<Rightarrow> u64 \<Rightarrow>
  account_meta list \<Rightarrow> instruction" where
  "AdminSetWeight_instruction_with_remaining_accounts B epoch_state ncn weight_table
  weight_table_admin st_mint weight epoch remaining_accounts =
     \<lparr>ix_program_id = NCN_PROGRAM_ID,
      ix_accounts =
        [AccountMeta_new epoch_state False,
         AccountMeta_new_readonly ncn False,
         AccountMeta_new weight_table False,
         AccountMeta_new_readonly weight_table_admin True] @ remaining_accounts,
      ix_data = bs_u8 B AdminSetWeightInstructionData_new @ bs_pubkey B st_mint @ bs_u128 B
      weight @ bs_u64 B epoch\<rparr>"

definition AdminSetWeightBuilder_instruction ::
  "borsh \<Rightarrow> pubkey option \<Rightarrow> pubkey option \<Rightarrow>
  pubkey option \<Rightarrow> pubkey option \<Rightarrow> pubkey option \<Rightarrow>
  u128 option \<Rightarrow> u64 option \<Rightarrow> account_meta list \<Rightarrow>
  (instruction, 'e) result" where
  "AdminSetWeightBuilder_instruction B epoch_state ncn weight_table weight_table_admin st_mint
  weight epoch remaining_accounts =
     and_then (expect epoch_state) (\<lambda>epoch_state.
     and_then (expect ncn) (\<lambda>ncn.
     and_then (expect weight_table) (\<lambda>weight_table.
     and_then (expect weight_table_admin) (\<lambda>weight_table_admin.
     and_then (expect st_mint) (\<lambda>st_mint.
     and_then (expect weight) (\<lambda>weight.
     and_then (expect epoch) (\<lambda>epoch.
     Ok (AdminSetWeight_instruction_with_remaining_accounts B
           epoch_state ncn weight_table weight_table_admin st_mint weight epoch
           remaining_accounts))))))))"

subsection \<open>\<open>AdminRegisterStMint\<close>\<close>

definition AdminRegisterStMintInstructionData_new :: u8 where "AdminRegisterStMintInstructionData_new = 29"

definition AdminRegisterStMint_instruction_with_remaining_accounts ::
  "borsh \<Rightarrow> pubkey \<Rightarrow> pubkey \<Rightarrow> pubkey \<Rightarrow>
  pubkey \<Rightarrow> pubkey \<Rightarrow> u128 option \<Rightarrow>
  account_meta list \<Rightarrow> instruction" where
  "AdminRegisterStMint_instruction_with_remaining_accounts B config ncn st_mint vault_registry
  admin weight remaining_accounts =
     \<lparr>ix_program_id = NCN_PROGRAM_ID,
      ix_accounts =
        [AccountMeta_new_readonly config False,
         AccountMeta_new_readonly ncn False,
         AccountMeta_new_readonly st_mint False,
         AccountMeta_new vault_registry False,
         AccountMeta_new admin True] @ remaining_accounts,
      ix_data = bs_u8 B AdminRegisterStMintInstructionData_new @ bs_option B (bs_u128 B)
      weight\<rparr>"

definition AdminRegisterStMintBuilder_instruction ::
  "borsh \<Rightarrow> pubkey option \<Rightarrow> pubkey option \<Rightarrow>
  pubkey option \<Rightarrow> pubkey option \<Rightarrow> pubkey option \<Rightarrow>
  u128 option \<Rightarrow> account_meta list \<Rightarrow> (instruction, 'e) result" where
  "AdminRegisterStMintBuilder_instruction B config ncn st_mint vault_registry admin weight
  remaining_accounts =
     and_then (expect config) (\<lambda>config.
     and_then (expect ncn) (\<lambda>ncn.
     and_then (expect st_mint) (\<lambda>st_mint.
     and_then (expect vault_registry) (\<lambda>vault_registry.
     and_then (expect admin) (\<lambda>admin.
     Ok (AdminRegisterStMint_instruction_with_remaining_accounts B
           config ncn st_mint vault_registry admin weight remaining_accounts))))))"

subsection \<open>\<open>AdminSetStMint\<close>\<close>

definition AdminSetStMintInstructionData_new :: u8 where "AdminSetStMintInstructionData_new = 30"

definition AdminSetStMint_instruction_with_remaining_accounts ::
  "borsh \<Rightarrow> pubkey \<Rightarrow> pubkey \<Rightarrow> pubkey \<Rightarrow>
  pubkey \<Rightarrow> pubkey \<Rightarrow> u128 option \<Rightarrow>
  account_meta list \<Rightarrow> instruction" where
  "AdminSetStMint_instruction_with_remaining_accounts B config ncn vault_registry admin st_mint
  weight remaining_accounts =
     \<lparr>ix_program_id = NCN_PROGRAM_ID,
      ix_accounts =
        [AccountMeta_new_readonly config False,
         AccountMeta_new_readonly ncn False,
         AccountMeta_new vault_registry False,
         AccountMeta_new admin True] @ remaining_accounts,
      ix_data = bs_u8 B AdminSetStMintInstructionData_new @ bs_pubkey B st_mint @ bs_option B
      (bs_u128 B) weight\<rparr>"

definition AdminSetStMintBuilder_instruction ::
  "borsh \<Rightarrow> pubkey option \<Rightarrow> pubkey option \<Rightarrow>
  pubkey option \<Rightarrow> pubkey option \<Rightarrow> pubkey option \<Rightarrow>
  u128 option \<Rightarrow> account_meta list \<Rightarrow> (instruction, 'e) result" where
  "AdminSetStMintBuilder_instruction B config ncn vault_registry admin st_mint weight
  remaining_accounts =
     and_then (expect config) (\<lambda>config.
     and_then (expect ncn) (\<lambda>ncn.
     and_then (expect vault_registry) (\<lambda>vault_registry.
     and_then (expect admin) (\<lambda>admin.
     and_then (expect st_mint) (\<lambda>st_mint.
     Ok (AdminSetStMint_instruction_with_remaining_accounts B
           config ncn vault_registry admin st_mint weight remaining_accounts))))))"

end
