(* ===== verification/Client_Encoding.thy ===== *)
theory Client_Encoding
  imports Client_Instructions
begin

unbundle bit_operations_syntax

text \<open>
  What the program sees of an instruction the generated client built: the bytes decode to the
  instruction the builder is named after, and the accounts carry the flags the processors ask
  for.  The format of \<open>borsh\<close> is the locale \<open>borsh_format\<close>, interpreted on the little-endian
  encoding with an executable decoder.
\<close>

section \<open>The format\<close>

text \<open>
  The encoding \<open>borsh\<close> derives for an \<open>enum\<close>: the index of the variant in the declaration of
  \<open>NCNProgramInstruction\<close>, then its fields in order.
\<close>

fun variant_bytes :: "borsh \<Rightarrow> NCNProgramInstruction \<Rightarrow> u8 list" where
  "variant_bytes B (InitializeConfig x0 x1 x2 x3) =
     bs_u8 B 0 @ bs_u64 B x0 @ bs_u64 B x1 @ bs_u64 B x2 @ bs_u16 B x3"
| "variant_bytes B InitializeVaultRegistry = bs_u8 B 1"
| "variant_bytes B ReallocVaultRegistry = bs_u8 B 2"
| "variant_bytes B RegisterVault = bs_u8 B 3"
| "variant_bytes B (InitializeEpochState x0) = bs_u8 B 4 @ bs_u64 B x0"
| "variant_bytes B (InitializeWeightTable x0) = bs_u8 B 5 @ bs_u64 B x0"
| "variant_bytes B (SetEpochWeights x0) = bs_u8 B 6 @ bs_u64 B x0"
| "variant_bytes B (ReallocWeightTable x0) = bs_u8 B 7 @ bs_u64 B x0"
| "variant_bytes B (InitializeEpochSnapshot x0) = bs_u8 B 8 @ bs_u64 B x0"
| "variant_bytes B (InitializeOperatorSnapshot x0) = bs_u8 B 9 @ bs_u64 B x0"
| "variant_bytes B (SnapshotVaultOperatorDelegation x0) = bs_u8 B 10 @ bs_u64 B x0"
| "variant_bytes B (InitializeBallotBox x0) = bs_u8 B 11 @ bs_u64 B x0"
| "variant_bytes B (ReallocBallotBox x0) = bs_u8 B 12 @ bs_u64 B x0"
| "variant_bytes B (CastVote x0 x1) = bs_u8 B 13 @ bs_u8 B x0 @ bs_u64 B x1"
| "variant_bytes B (InitializeNCNRewardRouter x0) = bs_u8 B 14 @ bs_u64 B x0"
| "variant_bytes B (ReallocNCNRewardRouter x0) = bs_u8 B 15 @ bs_u64 B x0"
| "variant_bytes B (RouteNCNRewards x0 x1) = bs_u8 B 16 @ bs_u16 B x0 @ bs_u64 B x1"
| "variant_bytes B (DistributeProtocolRewards x0) = bs_u8 B 17 @ bs_u64 B x0"
| "variant_bytes B (DistributeNCNRewards x0) = bs_u8 B 18 @ bs_u64 B x0"
| "variant_bytes B (InitializeOperatorVaultRewardRouter x0) = bs_u8 B 19 @ bs_u64 B x0"
| "variant_bytes B (DistributeOperatorVaultRewardRoute x0) = bs_u8 B 20 @ bs_u64 B x0"
| "variant_bytes B (RouteOperatorVaultRewards x0 x1) = bs_u8 B 21 @ bs_u16 B x0 @ bs_u64 B x1"
| "variant_bytes B (CloseEpochAccount x0) = bs_u8 B 22 @ bs_u64 B x0"
| "variant_bytes B (DistributeOperatorRewards x0) = bs_u8 B 23 @ bs_u64 B x0"
| "variant_bytes B (DistributeVaultRewards x0) = bs_u8 B 24 @ bs_u64 B x0"
| "variant_bytes B (AdminSetParameters x0 x1 x2 x3) =
     bs_u8 B 25 @ bs_option B (bs_u64 B) x0 @ bs_option B (bs_u64 B) x1 @
     bs_option B (bs_u64 B) x2 @ bs_option B (bs_u64 B) x3"
| "variant_bytes B (AdminSetNewAdmin x0) = bs_u8 B 26 @ bs_role B x0"
| "variant_bytes B (AdminSetTieBreaker x0 x1) = bs_u8 B 27 @ bs_u8 B x0 @ bs_u64 B x1"
| "variant_bytes B (AdminSetWeight x0 x1 x2) =
     bs_u8 B 28 @ bs_pubkey B x0 @ bs_u128 B x1 @ bs_u64 B x2"
| "variant_bytes B (AdminRegisterStMint x0) = bs_u8 B 29 @ bs_option B (bs_u128 B) x0"
| "variant_bytes B (AdminSetStMint x0 x1) =
     bs_u8 B 30 @ bs_pubkey B x0 @ bs_option B (bs_u128 B) x1"

locale borsh_format =
  fixes B :: borsh
  assumes decode_variant: "bs_instruction B (variant_bytes B i) = Ok i"

section \<open>The little-endian encoding\<close>

definition le_bytes :: "nat \<Rightarrow> 'a::len word \<Rightarrow> u8 list" where
  "le_bytes n w = map (\<lambda>i. ucast (drop_bit (8 * i) w)) [0..<n]"

fun le_word :: "u8 list \<Rightarrow> 'a::len word" where
  "le_word [] = 0"
| "le_word (b # bs) = ucast b OR push_bit 8 (le_word bs)"

lemma length_le_bytes [simp]: "length (le_bytes n w) = n"
  by (simp add: le_bytes_def)

lemma le_bytes_Suc: "le_bytes (Suc n) w = ucast w # le_bytes n (drop_bit 8 w)"
proof -
  have "map f [0..<Suc n] = f 0 # map (\<lambda>i. f (Suc i)) [0..<n]" for f :: "nat \<Rightarrow> u8"
    by (simp add: upt_conv_Cons map_Suc_upt [symmetric] del: upt_Suc)
  from this [of "\<lambda>i. ucast (drop_bit (8 * i) w)"] show ?thesis
    by (simp add: le_bytes_def drop_bit_drop_bit add.commute del: upt_Suc)
qed

lemma le_word_bytes: "le_word (le_bytes n w) = take_bit (8 * n) (w :: 'a::len word)"
proof (induction n arbitrary: w)
  case 0
  then show ?case by (simp add: le_bytes_def)
next
  case (Suc n)
  have "bit (ucast (ucast w :: u8) OR push_bit 8 (take_bit (8 * n) (drop_bit 8 w))) i
      = bit (take_bit (8 * Suc n) w) i" if "i < LENGTH('a)" for i
    using that by (auto simp: bit_simps)
  then show ?case
    by (simp only: le_bytes_Suc le_word.simps Suc) (rule bit_word_eqI, blast)
qed

definition read_word :: "nat \<Rightarrow> u8 list \<Rightarrow> ('a::len word \<times> u8 list) option" where
  "read_word n bs = (if length bs < n then None else Some (le_word (take n bs), drop n bs))"

definition read_pubkey :: "u8 list \<Rightarrow> (pubkey \<times> u8 list) option" where
  "read_pubkey bs = (if length bs < 32 then None else Some (le_word (rev (take 32 bs)), drop 32 bs))"

definition read_role :: "u8 list \<Rightarrow> (ConfigAdminRole \<times> u8 list) option" where
  "read_role bs = (case bs of b # rest \<Rightarrow> if b = 0 then Some (TieBreakerAdmin, rest) else None | [] \<Rightarrow> None)"

definition read_option ::
  "(u8 list \<Rightarrow> ('a \<times> u8 list) option) \<Rightarrow> u8 list \<Rightarrow> ('a option \<times> u8 list) option" where
  "read_option rd bs =
     (case bs of
        b # rest \<Rightarrow>
          if b = 0 then Some (None, rest)
          else if b = 1 then map_option (\<lambda>(x, r). (Some x, r)) (rd rest)
          else None
      | [] \<Rightarrow> None)"

definition and_read ::
  "(u8 list \<Rightarrow> ('a \<times> u8 list) option) \<Rightarrow> ('a \<Rightarrow> u8 list \<Rightarrow> ('b \<times> u8 list) option) \<Rightarrow>
   u8 list \<Rightarrow> ('b \<times> u8 list) option" where
  "and_read rd f bs = (case rd bs of Some (x, r) \<Rightarrow> f x r | None \<Rightarrow> None)"

definition give :: "'a \<Rightarrow> u8 list \<Rightarrow> ('a \<times> u8 list) option" where
  "give x bs = Some (x, bs)"

definition on_epoch :: "(u64 \<Rightarrow> 'a) \<Rightarrow> u8 list \<Rightarrow> ('a \<times> u8 list) option" where
  "on_epoch f = and_read (read_word 8) (\<lambda>x. give (f x))"

definition readers :: "(u8 list \<Rightarrow> (NCNProgramInstruction \<times> u8 list) option) list" where
  "readers =
     [and_read (read_word 8) (\<lambda>x0. and_read (read_word 8) (\<lambda>x1.
        and_read (read_word 8) (\<lambda>x2. and_read (read_word 2) (\<lambda>x3. give (InitializeConfig x0 x1 x2 x3))))),
      give InitializeVaultRegistry,
      give ReallocVaultRegistry,
      give RegisterVault,
      on_epoch InitializeEpochState,
      on_epoch InitializeWeightTable,
      on_epoch SetEpochWeights,
      on_epoch ReallocWeightTable,
      on_epoch InitializeEpochSnapshot,
      on_epoch InitializeOperatorSnapshot,
      on_epoch SnapshotVaultOperatorDelegation,
      on_epoch InitializeBallotBox,
      on_epoch ReallocBallotBox,
      and_read (read_word 1) (\<lambda>x0. and_read (read_word 8) (\<lambda>x1.
        give (CastVote x0 x1))),
      on_epoch InitializeNCNRewardRouter,
      on_epoch ReallocNCNRewardRouter,
      and_read (read_word 2) (\<lambda>x0. and_read (read_word 8) (\<lambda>x1.
        give (RouteNCNRewards x0 x1))),
      on_epoch DistributeProtocolRewards,
      on_epoch DistributeNCNRewards,
      on_epoch InitializeOperatorVaultRewardRouter,
      on_epoch DistributeOperatorVaultRewardRoute,
      and_read (read_word 2) (\<lambda>x0. and_read (read_word 8) (\<lambda>x1.
        give (RouteOperatorVaultRewards x0 x1))),
      on_epoch CloseEpochAccount,
      on_epoch DistributeOperatorRewards,
      on_epoch DistributeVaultRewards,
      and_read (read_option (read_word 8)) (\<lambda>x0. and_read (read_option (read_word 8)) (\<lambda>x1.
        and_read (read_option (read_word 8)) (\<lambda>x2. and_read (read_option (read_word 8)) (\<lambda>x3. give (AdminSetParameters x0 x1 x2 x3))))),
      and_read read_role (\<lambda>x0. give (AdminSetNewAdmin x0)),
      and_read (read_word 1) (\<lambda>x0. and_read (read_word 8) (\<lambda>x1.
        give (AdminSetTieBreaker x0 x1))),
      and_read read_pubkey (\<lambda>x0. and_read (read_word 16) (\<lambda>x1.
        and_read (read_word 8) (\<lambda>x2. give (AdminSetWeight x0 x1 x2)))),
      and_read (read_option (read_word 16)) (\<lambda>x0. give (AdminRegisterStMint x0)),
      and_read read_pubkey (\<lambda>x0. and_read (read_option (read_word 16)) (\<lambda>x1.
        give (AdminSetStMint x0 x1)))]"

text \<open>\<open>try_from_slice\<close> decodes the whole slice: bytes that are left over are an error.\<close>

definition le_instruction :: "u8 list \<Rightarrow> (NCNProgramInstruction, program_error) result" where
  "le_instruction bs =
     (case bs of
        b # rest \<Rightarrow>
          if unat b < length readers
          then (case (readers ! unat b) rest of Some (i, []) \<Rightarrow> Ok i | _ \<Rightarrow> Err (ExternalError 7))
          else Err (ExternalError 7)
      | [] \<Rightarrow> Err (ExternalError 7))"

definition le_borsh :: borsh where
  "le_borsh =
     \<lparr>bs_u8 = le_bytes 1, bs_u16 = le_bytes 2, bs_u64 = le_bytes 8, bs_u128 = le_bytes 16,
      bs_pubkey = to_bytes, bs_role = (\<lambda>_. [0]), bs_tag = (\<lambda>b. [if b then 1 else 0]),
      bs_instruction = le_instruction\<rparr>"

lemma read_word_bytes [simp]:
  "read_word 1 (le_bytes 1 (a :: u8) @ r) = Some (a, r)"
  "read_word 2 (le_bytes 2 (b :: u16) @ r) = Some (b, r)"
  "read_word 8 (le_bytes 8 (c :: u64) @ r) = Some (c, r)"
  "read_word 16 (le_bytes 16 (d :: u128) @ r) = Some (d, r)"
  by (simp_all add: read_word_def le_word_bytes take_bit_word_eq_self)

lemma read_byte [simp]: "read_word (Suc 0) (a # r) = Some (a :: u8, r)"
  by (simp add: read_word_def)

lemmas read_word_end [simp] = read_word_bytes [of _ "[]", simplified]

lemma to_bytes_rev: "to_bytes k = rev (le_bytes 32 k)"
  by (simp only: to_bytes_def le_bytes_def rev_map)

lemma read_pubkey_bytes [simp]: "read_pubkey (to_bytes k @ r) = Some (k, r)"
  by (simp add: read_pubkey_def to_bytes_rev le_word_bytes take_bit_word_eq_self)

lemma read_option_bytes [simp]:
  "read_option rd (bs_option le_borsh ser None @ r) = Some (None, r)"
  "rd (ser x @ r) = Some (x, r) \<Longrightarrow> read_option rd (bs_option le_borsh ser (Some x) @ r) = Some (Some x, r)"
  by (simp_all add: read_option_def bs_option_def le_borsh_def)

lemma read_option_word [simp]:
  "read_option (read_word 8) (bs_option le_borsh (le_bytes 8) (x :: u64 option) @ r) = Some (x, r)"
  "read_option (read_word 16) (bs_option le_borsh (le_bytes 16) (y :: u128 option) @ r) = Some (y, r)"
  by (cases x; simp) (cases y; simp)

lemmas read_option_word_end [simp] = read_option_word [of _ "[]", simplified]

lemma le_borsh_sel [simp]:
  "bs_u8 le_borsh = le_bytes 1" "bs_u16 le_borsh = le_bytes 2" "bs_u64 le_borsh = le_bytes 8"
  "bs_u128 le_borsh = le_bytes 16" "bs_pubkey le_borsh = to_bytes" "bs_role le_borsh = (\<lambda>_. [0])"
  "bs_instruction le_borsh = le_instruction"
  by (simp_all add: le_borsh_def)

lemma le_bytes_1 [simp]: "le_bytes (Suc 0) b = [b :: u8]"
  by (simp add: le_bytes_def)

interpretation le: borsh_format le_borsh
proof
  fix i
  show "bs_instruction le_borsh (variant_bytes le_borsh i) = Ok i"
  proof (cases i)
    case (AdminSetNewAdmin role)
    then show ?thesis
      by (cases role) (simp add: le_instruction_def readers_def nth_Cons' and_read_def give_def read_role_def)
  qed (simp_all add: le_instruction_def readers_def and_read_def give_def on_epoch_def)
qed

end
