(* ===== verification/Client_Flags.thy ===== *)
theory Client_Flags
  imports Client_Encoding
begin

text \<open>
  How the runtime passes the accounts of a transaction to the program, and that the metas of
  the generated client carry every flag the processors check.
\<close>

section \<open>Accounts of a transaction\<close>

text \<open>
  A transaction has one set of flags per account: an account is signer or writable for every
  instruction of the transaction as soon as one meta says so, and the fee payer is both.
\<close>

definition info_of :: "pubkey \<Rightarrow> instruction list \<Rightarrow> account_meta \<Rightarrow> account_info" where
  "info_of payer ixs m =
     (let metas = concat (map ix_accounts ixs) in
      \<lparr>ai_key = am_pubkey m,
       ai_is_signer = (am_pubkey m = payer \<or>
         list_ex (\<lambda>m'. am_pubkey m' = am_pubkey m \<and> am_is_signer m') metas),
       ai_is_writable = (am_pubkey m = payer \<or>
         list_ex (\<lambda>m'. am_pubkey m' = am_pubkey m \<and> am_is_writable m') metas)\<rparr>)"

definition account_infos :: "pubkey \<Rightarrow> instruction list \<Rightarrow> instruction \<Rightarrow> account_info list" where
  "account_infos payer ixs ix = map (info_of payer ixs) (ix_accounts ix)"

lemma account_meta_sel [simp]:
  "am_pubkey (AccountMeta_new k s) = k" "am_is_signer (AccountMeta_new k s) = s"
  "am_is_writable (AccountMeta_new k s)" "am_pubkey (AccountMeta_new_readonly k s) = k"
  "am_is_signer (AccountMeta_new_readonly k s) = s" "\<not> am_is_writable (AccountMeta_new_readonly k s)"
  by (simp_all add: AccountMeta_new_def AccountMeta_new_readonly_def)

lemma ai_key_info [simp]: "ai_key (info_of payer ixs m) = am_pubkey m"
  by (simp add: info_of_def Let_def)

definition writable_in :: "pubkey \<Rightarrow> instruction list \<Rightarrow> pubkey \<Rightarrow> bool" where
  "writable_in payer ixs k \<longleftrightarrow>
     k = payer \<or> list_ex (\<lambda>m. am_pubkey m = k \<and> am_is_writable m) (concat (map ix_accounts ixs))"

lemma writable_info: "ai_is_writable (info_of payer ixs m) \<longleftrightarrow> writable_in payer ixs (am_pubkey m)"
  by (simp add: info_of_def Let_def writable_in_def)

lemma info_flags:
  assumes "ix \<in> set ixs"
  shows "list_all (\<lambda>m.
      (am_is_writable m \<longrightarrow> ai_is_writable (info_of payer ixs m)) \<and>
      (am_is_signer m \<longrightarrow> ai_is_signer (info_of payer ixs m))) (ix_accounts ix)"
  using assms by (auto simp: info_of_def Let_def list_all_iff list_ex_iff)

definition unlocked :: "account_info \<Rightarrow> account_info" where
  "unlocked a = a\<lparr>ai_is_signer := True, ai_is_writable := True\<rparr>"

section \<open>Loaders and flags\<close>

text \<open>
  A loader looks at the writable flag only when it is told to, and \<open>load_signer\<close> at the signer
  flag; the other accounts a loader is passed are used for their keys.
\<close>

locale flag_laws =
  fixes E :: runtime
  assumes signer_flags:
    "ai_is_signer a \<Longrightarrow> w \<longrightarrow> ai_is_writable a \<Longrightarrow>
     load_signer_of E (unlocked a) acc w = load_signer_of E a acc w"
  and signer_writable: "load_signer_of E a acc True = Ok () \<Longrightarrow> ai_is_writable a"
  and loader_flags:
    "l \<in> {load_system_account_of E, Ncn_load_of E, Operator_load_of E, Vault_load_of E,
       RestakingConfig_load_of E} \<Longrightarrow> w \<longrightarrow> ai_is_writable a \<Longrightarrow> l (unlocked a) acc w = l a acc w"
  and program_flags: "load_system_program_of E (unlocked a) = load_system_program_of E a"
  and mint_flags: "load_token_mint_of E (unlocked a) acc = load_token_mint_of E a acc"
  and ticket_flags:
    "t \<in> {NcnOperatorState_load_of E, NcnVaultTicket_load_of E, VaultNcnTicket_load_of E,
       VaultOperatorDelegation_load_of E} \<Longrightarrow>
     t (unlocked a) acc (unlocked b) (unlocked c) False = t a acc b c False"

text \<open>Loaders over an arbitrary runtime that follow these rules.\<close>

definition bare :: "account_info \<Rightarrow> account_info" where
  "bare a = a\<lparr>ai_is_signer := False, ai_is_writable := False\<rparr>"

definition key_loader :: "loader \<Rightarrow> loader" where
  "key_loader l a acc w =
     and_then (l (bare a) acc False) (\<lambda>_. ensure (w \<longrightarrow> ai_is_writable a) InvalidAccountData)"

definition ticket_by_key :: "ticket_loader \<Rightarrow> ticket_loader" where
  "ticket_by_key l a acc b c w =
     and_then (l (bare a) acc (bare b) (bare c) False) (\<lambda>_. ensure (w \<longrightarrow> ai_is_writable a) InvalidAccountData)"

definition flagged_runtime :: "runtime \<Rightarrow> runtime" where
  "flagged_runtime E =
     E\<lparr>load_signer_of := signer_rule,
       load_system_account_of := system_account_rule (system_program_id E),
       load_system_program_of := (\<lambda>a. load_system_program_of E (bare a)),
       load_token_mint_of := (\<lambda>a. load_token_mint_of E (bare a)),
       Ncn_load_of := key_loader (Ncn_load_of E), Operator_load_of := key_loader (Operator_load_of E),
       Vault_load_of := key_loader (Vault_load_of E),
       RestakingConfig_load_of := key_loader (RestakingConfig_load_of E),
       NcnOperatorState_load_of := ticket_by_key (NcnOperatorState_load_of E),
       NcnVaultTicket_load_of := ticket_by_key (NcnVaultTicket_load_of E),
       VaultNcnTicket_load_of := ticket_by_key (VaultNcnTicket_load_of E),
       VaultOperatorDelegation_load_of := ticket_by_key (VaultOperatorDelegation_load_of E)\<rparr>"

lemma bare_unlocked [simp]: "bare (unlocked a) = bare a"
  by (simp add: bare_def unlocked_def)

interpretation flagged: flag_laws "flagged_runtime E" for E
  by unfold_locales
    (auto simp: flagged_runtime_def signer_rule_def system_account_rule_def key_loader_def
      ticket_by_key_def unlocked_def bare_def ensure_def split: if_splits)

section \<open>Processors and flags\<close>

lemma unlocked_sel [simp]:
  "ai_key (unlocked a) = ai_key a" "ai_is_signer (unlocked a)" "ai_is_writable (unlocked a)"
  by (simp_all add: unlocked_def)

lemma unlocked_ledger [simp]:
  "data_at L (unlocked a) = data_at L a" "set_data L (unlocked a) d = set_data L a d"
  "lamports_at L (unlocked a) = lamports_at L a"
  by (simp_all add: data_at_def set_data_def lamports_at_def)

lemma check_load_unlocked:
  "w \<longrightarrow> ai_is_writable a \<Longrightarrow> check_load p (unlocked a) k t w L = check_load p a k t w L"
  by (auto simp: check_load_def ensure_def split: option.split)

context flag_laws
begin

lemma unlocked_loads:
  assumes "w \<longrightarrow> ai_is_writable a"
  shows "load_system_account E (unlocked a) w L = load_system_account E a w L"
    "Ncn_load E (unlocked a) w L = Ncn_load E a w L"
    "Operator_load E (unlocked a) w L = Operator_load E a w L"
    "Vault_load E (unlocked a) w L = Vault_load E a w L"
    "RestakingConfig_load E (unlocked a) w L = RestakingConfig_load E a w L"
    "ai_is_signer a \<Longrightarrow> load_signer E (unlocked a) w L = load_signer E a w L"
    "Config_load E p (unlocked a) n w L = Config_load E p a n w L"
    "VaultRegistry_load E p (unlocked a) n w L = VaultRegistry_load E p a n w L"
    "WeightTable_load E p (unlocked a) n e w L = WeightTable_load E p a n e w L"
    "EpochSnapshot_load E p (unlocked a) n e w L = EpochSnapshot_load E p a n e w L"
    "OperatorSnapshot_load E p (unlocked a) op n e w L = OperatorSnapshot_load E p a op n e w L"
    "BallotBox_load E p (unlocked a) n e w L = BallotBox_load E p a n e w L"
    "ConsensusResult_load E p (unlocked a) n e w L = ConsensusResult_load E p a n e w L"
    "NCNRewardRouter_load E p (unlocked a) n e w L = NCNRewardRouter_load E p a n e w L"
    "NCNRewardReceiver_load E p (unlocked a) n e w L = NCNRewardReceiver_load E p a n e w L"
    "OperatorVaultRewardRouter_load E p (unlocked a) op n e w L = OperatorVaultRewardRouter_load E p a op n e w L"
    "OperatorVaultRewardReceiver_load E p (unlocked a) op n e w L = OperatorVaultRewardReceiver_load E p a op n e w L"
    "EpochState_load E p (unlocked a) n e w L = EpochState_load E p a n e w L"
    "EpochState_load_and_check_is_closing E p (unlocked a) n e w L = EpochState_load_and_check_is_closing E p a n e w L"
    "AccountPayer_load E p (unlocked a) n w L = AccountPayer_load E p a n w L"
  using assms
  by (simp_all add: load_system_account_def Ncn_load_def Operator_load_def Vault_load_def
      RestakingConfig_load_def load_signer_def signer_flags loader_flags load_defs check_load_unlocked
      EpochState_load_and_check_is_closing_def)

lemma unlocked_closes:
  assumes "ai_is_writable a"
  shows "WeightTable_load_to_close E p (unlocked a) n e L = WeightTable_load_to_close E p a n e L"
    "EpochSnapshot_load_to_close E p (unlocked a) n e L = EpochSnapshot_load_to_close E p a n e L"
    "OperatorSnapshot_load_to_close E p (unlocked a) n e L = OperatorSnapshot_load_to_close E p a n e L"
    "BallotBox_load_to_close E p (unlocked a) n e L = BallotBox_load_to_close E p a n e L"
    "NCNRewardRouter_load_to_close E p (unlocked a) n e L = NCNRewardRouter_load_to_close E p a n e L"
    "OperatorVaultRewardRouter_load_to_close E p (unlocked a) n e L = OperatorVaultRewardRouter_load_to_close E p a n e L"
  using assms by (simp_all add: load_to_close_defs load_defs check_load_unlocked)

lemma unlocked_tickets:
  "load_system_program E (unlocked a) = load_system_program E a"
  "load_token_mint E (unlocked a) L = load_token_mint E a L"
  "NcnOperatorState_load E (unlocked a) (unlocked b) (unlocked c) False L = NcnOperatorState_load E a b c False L"
  "NcnVaultTicket_load E (unlocked a) (unlocked b) (unlocked c) False L = NcnVaultTicket_load E a b c False L"
  "VaultNcnTicket_load E (unlocked a) (unlocked b) (unlocked c) False L = VaultNcnTicket_load E a b c False L"
  "VaultOperatorDelegation_load E (unlocked a) (unlocked b) (unlocked c) False L =
     VaultOperatorDelegation_load E a b c False L"
  "EpochMarker_check_dne E p (unlocked a) n e L = EpochMarker_check_dne E p a n e L"
  "load_ncn_epoch E (unlocked a) s f L = load_ncn_epoch E a s f L"
  "delegation_is_active E (unlocked a) (unlocked b) (unlocked c) s m L = delegation_is_active E a b c s m L"
  by (simp_all add: load_system_program_def load_token_mint_def NcnOperatorState_load_def
      NcnVaultTicket_load_def VaultNcnTicket_load_def VaultOperatorDelegation_load_def program_flags
      mint_flags ticket_flags EpochMarker_check_dne_def load_ncn_epoch_def delegation_is_active_def
      Let_def cong: if_cong)

lemma unlocked_payer:
  "AccountPayer_transfer E p n (unlocked a) (unlocked b) = AccountPayer_transfer E p n a b"
  "pay_and_create_account E p n (unlocked a) (unlocked b) = pay_and_create_account E p n a b"
  "grow_account E p n (unlocked a) (unlocked b) = grow_account E p n a b"
  "close_account E p (unlocked a) (unlocked b) = close_account E p a b"
  "NCNRewardReceiver_transfer E p n e (unlocked a) (unlocked b) = NCNRewardReceiver_transfer E p n e a b"
  "NCNRewardReceiver_close E p n e (unlocked a) (unlocked b) (unlocked c) = NCNRewardReceiver_close E p n e a b c"
  "OperatorVaultRewardReceiver_transfer E p op n e (unlocked a) (unlocked b) =
     OperatorVaultRewardReceiver_transfer E p op n e a b"
  "OperatorVaultRewardReceiver_close E p op n e (unlocked a) (unlocked b) (unlocked c) =
     OperatorVaultRewardReceiver_close E p op n e a b c"
  "create_epoch_marker E p (unlocked a) (unlocked b) (unlocked c) = create_epoch_marker E p a b c"
  by (intro ext, simp add: pay_and_create_account_def AccountPayer_transfer_def grow_account_def
      pay_and_realloc_def close_account_def NCNRewardReceiver_transfer_def NCNRewardReceiver_close_def
      OperatorVaultRewardReceiver_transfer_def OperatorVaultRewardReceiver_close_def
      create_epoch_marker_def Let_def cong: if_cong prod.case_cong)+

text \<open>A receiver that does not belong to the system program is refused before its flags matter.\<close>

lemma unlocked_receiver:
  assumes "ai_is_writable r \<or> acc_owner (L (ai_key r)) \<noteq> system_program_id E"
  shows "NCNRewardReceiver_load E p (unlocked r) n e True L = NCNRewardReceiver_load E p r n e True L"
    "OperatorVaultRewardReceiver_load E p (unlocked r) op n e True L = OperatorVaultRewardReceiver_load E p r op n e True L"
  using assms by (auto simp: load_defs check_load_def ensure_def)

lemma unlocked_close_by_discriminator:
  assumes "ai_is_writable a"
    and "\<And>w r. opt = [w, r] \<Longrightarrow> ai_is_writable r \<or> acc_owner (L (ai_key r)) \<noteq> system_program_id E"
  shows "close_by_discriminator E p c (unlocked n) (unlocked a) (unlocked b) (map unlocked opt) e d es L =
    close_by_discriminator E p c n a b opt e d es L"
proof (cases "\<exists>w r. opt = [w, r]")
  case True
  then obtain w r where opt: "opt = [w, r]" by blast
  from assms(2) [OF opt] show ?thesis
    using assms(1) by (simp add: opt close_by_discriminator_def unlocked_receiver unlocked_closes unlocked_payer Let_def
        cong: if_cong)
next
  case False
  then have "(case map unlocked opt of [w, r] \<Rightarrow> f w r | _ \<Rightarrow> g) = g" "(case opt of [w, r] \<Rightarrow> f w r | _ \<Rightarrow> g) = g"
    for f and g :: "(epoch_state \<times> ledger, program_error) result"
    by (auto split: list.splits)
  then show ?thesis
    using assms(1) by (simp add: close_by_discriminator_def unlocked_closes Let_def cong: if_cong)
qed

lemmas unlocked_rules = unlocked_loads unlocked_closes unlocked_tickets unlocked_payer
  unlocked_close_by_discriminator

lemma unlocked_InitializeConfig:
  assumes "ai_is_writable a0" "ai_is_signer a3" "ai_is_writable a5"
  shows "process_admin_initialize_config E P p (map unlocked ([a0, a1, a2, a3, a4, a5, a6] @ R)) stall close slots fee_bps L =
    process_admin_initialize_config E P p ([a0, a1, a2, a3, a4, a5, a6] @ R) stall close slots fee_bps L"
  using assms by (cases R) (simp_all add: process_admin_initialize_config_def unlocked_rules Let_def cong: if_cong prod.case_cong)

lemma unlocked_InitializeVaultRegistry:
  assumes "ai_is_writable a1" "ai_is_writable a3"
  shows "process_initialize_vault_registry E p (map unlocked ([a0, a1, a2, a3, a4] @ R)) L =
    process_initialize_vault_registry E p ([a0, a1, a2, a3, a4] @ R) L"
  using assms by (cases R) (simp_all add: process_initialize_vault_registry_def unlocked_rules Let_def cong: if_cong prod.case_cong)

lemma unlocked_ReallocVaultRegistry:
  assumes "ai_is_writable a1" "ai_is_writable a3"
  shows "process_realloc_vault_registry E p (map unlocked ([a0, a1, a2, a3, a4] @ R)) L =
    process_realloc_vault_registry E p ([a0, a1, a2, a3, a4] @ R) L"
  using assms by (cases R) (simp_all add: process_realloc_vault_registry_def unlocked_rules Let_def cong: if_cong prod.case_cong)

lemma unlocked_RegisterVault:
  assumes "ai_is_writable a1"
  shows "process_register_vault E p (map unlocked ([a0, a1, a2, a3, a4] @ R)) L =
    process_register_vault E p ([a0, a1, a2, a3, a4] @ R) L"
  using assms by (cases R) (simp_all add: process_register_vault_def unlocked_rules Let_def cong: if_cong prod.case_cong)

lemma unlocked_InitializeEpochState:
  assumes "ai_is_writable a1" "ai_is_writable a4"
  shows "process_initialize_epoch_state E p (map unlocked ([a0, a1, a2, a3, a4, a5] @ R)) epoch L =
    process_initialize_epoch_state E p ([a0, a1, a2, a3, a4, a5] @ R) epoch L"
  using assms by (cases R) (simp_all add: process_initialize_epoch_state_def unlocked_rules Let_def cong: if_cong prod.case_cong)

lemma unlocked_InitializeWeightTable:
  assumes "ai_is_writable a4" "ai_is_writable a5"
  shows "process_initialize_weight_table E p (map unlocked ([a0, a1, a2, a3, a4, a5, a6] @ R)) epoch L =
    process_initialize_weight_table E p ([a0, a1, a2, a3, a4, a5, a6] @ R) epoch L"
  using assms by (cases R) (simp_all add: process_initialize_weight_table_def unlocked_rules Let_def cong: if_cong prod.case_cong)

lemma unlocked_SetEpochWeights:
  assumes "ai_is_writable a0" "ai_is_writable a3"
  shows "process_set_epoch_weights E p (map unlocked ([a0, a1, a2, a3] @ R)) epoch L =
    process_set_epoch_weights E p ([a0, a1, a2, a3] @ R) epoch L"
  using assms by (cases R) (simp_all add: process_set_epoch_weights_def unlocked_rules Let_def cong: if_cong prod.case_cong)

lemma unlocked_ReallocWeightTable:
  assumes "ai_is_writable a0" "ai_is_writable a2" "ai_is_writable a5"
  shows "process_realloc_weight_table E p (map unlocked ([a0, a1, a2, a3, a4, a5, a6] @ R)) epoch L =
    process_realloc_weight_table E p ([a0, a1, a2, a3, a4, a5, a6] @ R) epoch L"
  using assms by (cases R) (simp_all add: process_realloc_weight_table_def unlocked_rules Let_def cong: if_cong prod.case_cong)

lemma unlocked_InitializeEpochSnapshot:
  assumes "ai_is_writable a1" "ai_is_writable a5" "ai_is_writable a6"
  shows "process_initialize_epoch_snapshot E p (map unlocked ([a0, a1, a2, a3, a4, a5, a6, a7] @ R)) epoch L =
    process_initialize_epoch_snapshot E p ([a0, a1, a2, a3, a4, a5, a6, a7] @ R) epoch L"
  using assms by (cases R) (simp_all add: process_initialize_epoch_snapshot_def unlocked_rules Let_def cong: if_cong prod.case_cong)

lemma unlocked_InitializeOperatorSnapshot:
  assumes "ai_is_writable a1" "ai_is_writable a7" "ai_is_writable a8" "ai_is_writable a9"
  shows "process_initialize_operator_snapshot E p (map unlocked ([a0, a1, a2, a3, a4, a5, a6, a7, a8, a9, a10] @ R)) epoch L =
    process_initialize_operator_snapshot E p ([a0, a1, a2, a3, a4, a5, a6, a7, a8, a9, a10] @ R) epoch L"
  using assms by (cases R) (simp_all add: process_initialize_operator_snapshot_def unlocked_rules Let_def cong: if_cong prod.case_cong)

lemma unlocked_SnapshotVaultOperatorDelegation:
  assumes "ai_is_writable a0" "ai_is_writable a10" "ai_is_writable a11"
  shows "process_snapshot_vault_operator_delegation E P p (map unlocked ([a0, a1, a2, a3, a4, a5, a6, a7, a8, a9, a10, a11] @ R)) epoch L =
    process_snapshot_vault_operator_delegation E P p ([a0, a1, a2, a3, a4, a5, a6, a7, a8, a9, a10, a11] @ R) epoch L"
  using assms by (cases R) (simp_all add: process_snapshot_vault_operator_delegation_def unlocked_rules Let_def cong: if_cong prod.case_cong)

lemma unlocked_InitializeBallotBox:
  assumes "ai_is_writable a3" "ai_is_writable a5" "ai_is_writable a7"
  shows "process_initialize_ballot_box E p (map unlocked ([a0, a1, a2, a3, a4, a5, a6, a7] @ R)) epoch L =
    process_initialize_ballot_box E p ([a0, a1, a2, a3, a4, a5, a6, a7] @ R) epoch L"
  using assms by (cases R) (simp_all add: process_initialize_ballot_box_def unlocked_rules Let_def cong: if_cong prod.case_cong)

lemma unlocked_ReallocBallotBox:
  assumes "ai_is_writable a0" "ai_is_writable a2" "ai_is_writable a4"
  shows "process_realloc_ballot_box E p (map unlocked ([a0, a1, a2, a3, a4, a5] @ R)) epoch L =
    process_realloc_ballot_box E p ([a0, a1, a2, a3, a4, a5] @ R) epoch L"
  using assms by (cases R) (simp_all add: process_realloc_ballot_box_def unlocked_rules Let_def cong: if_cong prod.case_cong)

lemma unlocked_CastVote:
  assumes "ai_is_writable a0" "ai_is_writable a2" "ai_is_signer a7" "ai_is_writable a8"
  shows "process_cast_vote E P p (map unlocked ([a0, a1, a2, a3, a4, a5, a6, a7, a8] @ R)) status epoch L =
    process_cast_vote E P p ([a0, a1, a2, a3, a4, a5, a6, a7, a8] @ R) status epoch L"
  using assms by (cases R) (simp_all add: process_cast_vote_def unlocked_rules Let_def cong: if_cong prod.case_cong)

lemma unlocked_InitializeNCNRewardRouter:
  assumes "ai_is_writable a3" "ai_is_writable a4" "ai_is_writable a5"
  shows "process_initialize_ncn_reward_router E p (map unlocked ([a0, a1, a2, a3, a4, a5, a6] @ R)) epoch L =
    process_initialize_ncn_reward_router E p ([a0, a1, a2, a3, a4, a5, a6] @ R) epoch L"
  using assms by (cases R) (simp_all add: process_initialize_ncn_reward_router_def unlocked_rules Let_def cong: if_cong prod.case_cong)

lemma unlocked_ReallocNCNRewardRouter:
  assumes "ai_is_writable a0" "ai_is_writable a2" "ai_is_writable a4"
  shows "process_realloc_ncn_reward_router E p (map unlocked ([a0, a1, a2, a3, a4, a5] @ R)) epoch L =
    process_realloc_ncn_reward_router E p ([a0, a1, a2, a3, a4, a5] @ R) epoch L"
  using assms by (cases R) (simp_all add: process_realloc_ncn_reward_router_def unlocked_rules Let_def cong: if_cong prod.case_cong)

lemma unlocked_RouteNCNRewards:
  assumes "ai_is_writable a0" "ai_is_writable a5" "ai_is_writable a6"
  shows "process_route_ncn_rewards E P p (map unlocked ([a0, a1, a2, a3, a4, a5, a6] @ R)) max_iterations epoch L =
    process_route_ncn_rewards E P p ([a0, a1, a2, a3, a4, a5, a6] @ R) max_iterations epoch L"
  using assms by (cases R) (simp_all add: process_route_ncn_rewards_def unlocked_rules Let_def cong: if_cong prod.case_cong)

lemma unlocked_DistributeProtocolRewards:
  assumes "ai_is_writable a0" "ai_is_writable a3" "ai_is_writable a4" "ai_is_writable a5"
  shows "process_distribute_protocol_rewards E p (map unlocked ([a0, a1, a2, a3, a4, a5, a6] @ R)) epoch L =
    process_distribute_protocol_rewards E p ([a0, a1, a2, a3, a4, a5, a6] @ R) epoch L"
  using assms by (cases R) (simp_all add: process_distribute_protocol_rewards_def unlocked_rules Let_def cong: if_cong prod.case_cong)

lemma unlocked_DistributeNCNRewards:
  assumes "ai_is_writable a0" "ai_is_writable a3" "ai_is_writable a4" "ai_is_writable a5"
  shows "process_distribute_ncn_rewards E p (map unlocked ([a0, a1, a2, a3, a4, a5, a6] @ R)) epoch L =
    process_distribute_ncn_rewards E p ([a0, a1, a2, a3, a4, a5, a6] @ R) epoch L"
  using assms by (cases R) (simp_all add: process_distribute_ncn_rewards_def unlocked_rules Let_def cong: if_cong prod.case_cong)

lemma unlocked_InitializeOperatorVaultRewardRouter:
  assumes "ai_is_writable a1" "ai_is_writable a5" "ai_is_writable a6" "ai_is_writable a7"
  shows "process_initialize_operator_vault_reward_router E p (map unlocked ([a0, a1, a2, a3, a4, a5, a6, a7, a8] @ R)) epoch L =
    process_initialize_operator_vault_reward_router E p ([a0, a1, a2, a3, a4, a5, a6, a7, a8] @ R) epoch L"
  using assms by (cases R) (simp_all add: process_initialize_operator_vault_reward_router_def unlocked_rules Let_def cong: if_cong prod.case_cong)

lemma unlocked_DistributeOperatorVaultRewardRoute:
  assumes "ai_is_writable a0" "ai_is_writable a4" "ai_is_writable a5" "ai_is_writable a7"
  shows "process_distribute_operator_vault_reward_route E p (map unlocked ([a0, a1, a2, a3, a4, a5, a6, a7, a8] @ R)) epoch L =
    process_distribute_operator_vault_reward_route E p ([a0, a1, a2, a3, a4, a5, a6, a7, a8] @ R) epoch L"
  using assms by (cases R) (simp_all add: process_distribute_operator_vault_reward_route_def unlocked_rules Let_def cong: if_cong prod.case_cong)

lemma unlocked_RouteOperatorVaultRewards:
  assumes "ai_is_writable a0" "ai_is_writable a4" "ai_is_writable a5"
  shows "process_route_operator_vault_rewards E P p (map unlocked ([a0, a1, a2, a3, a4, a5] @ R)) max_iterations epoch L =
    process_route_operator_vault_rewards E P p ([a0, a1, a2, a3, a4, a5] @ R) max_iterations epoch L"
  using assms by (cases R) (simp_all add: process_route_operator_vault_rewards_def unlocked_rules Let_def cong: if_cong prod.case_cong)

lemma unlocked_CloseEpochAccount:
  assumes "ai_is_writable a0" "ai_is_writable a1" "ai_is_writable a4" "ai_is_writable a5"
    and "\<And>w r. opt = [w, r] \<Longrightarrow> ai_is_writable r \<or> acc_owner (L (ai_key r)) \<noteq> system_program_id E"
  shows "process_close_epoch_account E p (map unlocked ([a0, a1, a2, a3, a4, a5, a6] @ opt)) epoch L =
    process_close_epoch_account E p ([a0, a1, a2, a3, a4, a5, a6] @ opt) epoch L"
  using assms by (simp add: process_close_epoch_account_def unlocked_rules Let_def cong: if_cong prod.case_cong)

lemma unlocked_DistributeOperatorRewards:
  assumes "ai_is_writable a0" "ai_is_writable a3" "ai_is_writable a4" "ai_is_writable a5" "ai_is_writable a6"
  shows "process_distribute_operator_rewards E p (map unlocked ([a0, a1, a2, a3, a4, a5, a6, a7] @ R)) epoch L =
    process_distribute_operator_rewards E p ([a0, a1, a2, a3, a4, a5, a6, a7] @ R) epoch L"
  using assms by (cases R) (simp_all add: process_distribute_operator_rewards_def unlocked_rules Let_def cong: if_cong prod.case_cong)

lemma unlocked_DistributeVaultRewards:
  assumes "ai_is_writable a0" "ai_is_writable a4" "ai_is_writable a5" "ai_is_writable a6" "ai_is_writable a7"
  shows "process_distribute_vault_rewards E p (map unlocked ([a0, a1, a2, a3, a4, a5, a6, a7, a8] @ R)) epoch L =
    process_distribute_vault_rewards E p ([a0, a1, a2, a3, a4, a5, a6, a7, a8] @ R) epoch L"
  using assms by (cases R) (simp_all add: process_distribute_vault_rewards_def unlocked_rules Let_def cong: if_cong prod.case_cong)

lemma unlocked_AdminSetParameters:
  assumes "ai_is_writable a0" "ai_is_writable a2" "ai_is_signer a2"
  shows "process_admin_set_parameters E p (map unlocked ([a0, a1, a2] @ R)) start stall close slots L =
    process_admin_set_parameters E p ([a0, a1, a2] @ R) start stall close slots L"
  using assms by (cases R) (simp_all add: process_admin_set_parameters_def unlocked_rules Let_def cong: if_cong prod.case_cong)

lemma unlocked_AdminSetNewAdmin:
  assumes "ai_is_writable a0" "ai_is_writable a2" "ai_is_signer a2"
  shows "process_admin_set_new_admin E p (map unlocked ([a0, a1, a2, a3] @ R)) role L =
    process_admin_set_new_admin E p ([a0, a1, a2, a3] @ R) role L"
  using assms by (cases R) (simp_all add: process_admin_set_new_admin_def unlocked_rules Let_def cong: if_cong prod.case_cong ConfigAdminRole.case_cong)

lemma unlocked_AdminSetTieBreaker:
  assumes "ai_is_writable a0" "ai_is_writable a2" "ai_is_signer a4"
  shows "process_admin_set_tie_breaker E p (map unlocked ([a0, a1, a2, a3, a4] @ R)) status epoch L =
    process_admin_set_tie_breaker E p ([a0, a1, a2, a3, a4] @ R) status epoch L"
  using assms by (cases R) (simp_all add: process_admin_set_tie_breaker_def unlocked_rules Let_def cong: if_cong prod.case_cong)

lemma unlocked_AdminSetWeight:
  assumes "ai_is_writable a0" "ai_is_writable a2" "ai_is_writable a3" "ai_is_signer a3"
  shows "process_admin_set_weight E p (map unlocked ([a0, a1, a2, a3] @ R)) st_mint epoch weight L =
    process_admin_set_weight E p ([a0, a1, a2, a3] @ R) st_mint epoch weight L"
  using assms by (cases R) (simp_all add: process_admin_set_weight_def unlocked_rules Let_def cong: if_cong prod.case_cong)

lemma unlocked_AdminRegisterStMint:
  assumes "ai_is_writable a3" "ai_is_writable a4" "ai_is_signer a4"
  shows "process_admin_register_st_mint E p (map unlocked ([a0, a1, a2, a3, a4] @ R)) weight L =
    process_admin_register_st_mint E p ([a0, a1, a2, a3, a4] @ R) weight L"
  using assms by (cases R) (simp_all add: process_admin_register_st_mint_def unlocked_rules Let_def cong: if_cong prod.case_cong)

lemma unlocked_AdminSetStMint:
  assumes "ai_is_writable a2" "ai_is_writable a3" "ai_is_signer a3"
  shows "process_admin_set_st_mint E p (map unlocked ([a0, a1, a2, a3] @ R)) st_mint weight L =
    process_admin_set_st_mint E p ([a0, a1, a2, a3] @ R) st_mint weight L"
  using assms by (cases R) (simp_all add: process_admin_set_st_mint_def unlocked_rules Let_def cong: if_cong prod.case_cong)

lemma unlocked_CloseEpochAccount_optional:
  assumes "ai_is_writable a0" "ai_is_writable a1" "ai_is_writable a4" "ai_is_writable a5"
    and "ai_is_writable a8 \<or> acc_owner (L (ai_key a8)) \<noteq> system_program_id E"
  shows "process_close_epoch_account E p (map unlocked ([a0, a1, a2, a3, a4, a5, a6, a7, a8] @ R)) epoch L =
    process_close_epoch_account E p ([a0, a1, a2, a3, a4, a5, a6, a7, a8] @ R) epoch L"
  using unlocked_CloseEpochAccount [OF assms(1-4), of "a7 # a8 # R" L p a2 a3 a6 epoch] assms(5) by auto

lemmas unlocked_processors =
  unlocked_InitializeConfig unlocked_InitializeVaultRegistry unlocked_ReallocVaultRegistry
  unlocked_RegisterVault unlocked_InitializeEpochState unlocked_InitializeWeightTable
  unlocked_SetEpochWeights unlocked_ReallocWeightTable unlocked_InitializeEpochSnapshot
  unlocked_InitializeOperatorSnapshot unlocked_SnapshotVaultOperatorDelegation
  unlocked_InitializeBallotBox unlocked_ReallocBallotBox unlocked_CastVote
  unlocked_InitializeNCNRewardRouter unlocked_ReallocNCNRewardRouter
  unlocked_RouteNCNRewards unlocked_DistributeProtocolRewards unlocked_DistributeNCNRewards
  unlocked_InitializeOperatorVaultRewardRouter unlocked_DistributeOperatorVaultRewardRoute
  unlocked_RouteOperatorVaultRewards unlocked_CloseEpochAccount_optional
  unlocked_DistributeOperatorRewards unlocked_DistributeVaultRewards
  unlocked_AdminSetParameters unlocked_AdminSetNewAdmin unlocked_AdminSetTieBreaker
  unlocked_AdminSetWeight unlocked_AdminRegisterStMint unlocked_AdminSetStMint

end

section \<open>Instructions of the client\<close>

text \<open>
  The instructions the client can build, of whatever keys, arguments, optional and additional
  accounts, with the instruction of the program each stands for and the accounts the processor
  wants writable although the builder passes them read-only.
\<close>

inductive client_built :: "borsh \<Rightarrow> instruction \<Rightarrow> NCNProgramInstruction \<Rightarrow> pubkey set \<Rightarrow> bool" for B where
  built_InitializeConfig:
    "client_built B (InitializeConfig_instruction_with_remaining_accounts B
       k0 k1 k2 k3 k4 k5 k6 x0 x1 x2 x3 rest) (InitializeConfig x0 x1 x2 x3) {}"
| built_InitializeVaultRegistry:
    "client_built B (InitializeVaultRegistry_instruction_with_remaining_accounts B
       k0 k1 k2 k3 k4 rest) InitializeVaultRegistry {}"
| built_ReallocVaultRegistry:
    "client_built B (ReallocVaultRegistry_instruction_with_remaining_accounts B
       k0 k1 k2 k3 k4 rest) ReallocVaultRegistry {}"
| built_RegisterVault:
    "client_built B (RegisterVault_instruction_with_remaining_accounts B
       k0 k1 k2 k3 k4 rest) RegisterVault {}"
| built_InitializeEpochState:
    "client_built B (InitializeEpochState_instruction_with_remaining_accounts B
       k0 k1 k2 k3 k4 k5 x0 rest) (InitializeEpochState x0) {}"
| built_InitializeWeightTable:
    "client_built B (InitializeWeightTable_instruction_with_remaining_accounts B
       k0 k1 k2 k3 k4 k5 k6 x0 rest) (InitializeWeightTable x0) {}"
| built_SetEpochWeights:
    "client_built B (SetEpochWeights_instruction_with_remaining_accounts B
       k0 k1 k2 k3 x0 rest) (SetEpochWeights x0) {}"
| built_ReallocWeightTable:
    "client_built B (ReallocWeightTable_instruction_with_remaining_accounts B
       k0 k1 k2 k3 k4 k5 k6 x0 rest) (ReallocWeightTable x0) {}"
| built_InitializeEpochSnapshot:
    "client_built B (InitializeEpochSnapshot_instruction_with_remaining_accounts B
       k0 k1 k2 k3 k4 k5 k6 k7 x0 rest) (InitializeEpochSnapshot x0) {}"
| built_InitializeOperatorSnapshot:
    "client_built B (InitializeOperatorSnapshot_instruction_with_remaining_accounts B
       k0 k1 k2 k3 k4 k5 k6 k7 k8 k9 k10 x0 rest) (InitializeOperatorSnapshot x0) {}"
| built_SnapshotVaultOperatorDelegation:
    "client_built B (SnapshotVaultOperatorDelegation_instruction_with_remaining_accounts B
       k0 k1 k2 k3 k4 k5 k6 k7 k8 k9 k10 k11 x0 rest) (SnapshotVaultOperatorDelegation x0) {}"
| built_InitializeBallotBox:
    "client_built B (InitializeBallotBox_instruction_with_remaining_accounts B
       k0 k1 k2 k3 k4 k5 k6 k7 x0 rest) (InitializeBallotBox x0) {}"
| built_ReallocBallotBox:
    "client_built B (ReallocBallotBox_instruction_with_remaining_accounts B
       k0 k1 k2 k3 k4 k5 x0 rest) (ReallocBallotBox x0) {}"
| built_CastVote:
    "client_built B (CastVote_instruction_with_remaining_accounts B
       k0 k1 k2 k3 k4 k5 k6 k7 k8 x0 x1 rest) (CastVote x0 x1) {}"
| built_InitializeNCNRewardRouter:
    "client_built B (InitializeNCNRewardRouter_instruction_with_remaining_accounts B
       k0 k1 k2 k3 k4 k5 k6 x0 rest) (InitializeNCNRewardRouter x0) {}"
| built_ReallocNCNRewardRouter:
    "client_built B (ReallocNCNRewardRouter_instruction_with_remaining_accounts B
       k0 k1 k2 k3 k4 k5 x0 rest) (ReallocNCNRewardRouter x0) {}"
| built_RouteNCNRewards:
    "client_built B (RouteNCNRewards_instruction_with_remaining_accounts B
       k0 k1 k2 k3 k4 k5 k6 x0 x1 rest) (RouteNCNRewards x0 x1) {}"
| built_DistributeProtocolRewards:
    "client_built B (DistributeProtocolRewards_instruction_with_remaining_accounts B
       k0 k1 k2 k3 k4 k5 k6 x0 rest) (DistributeProtocolRewards x0) {}"
| built_DistributeNCNRewards:
    "client_built B (DistributeNCNRewards_instruction_with_remaining_accounts B
       k0 k1 k2 k3 k4 k5 k6 x0 rest) (DistributeNCNRewards x0) {}"
| built_InitializeOperatorVaultRewardRouter:
    "client_built B (InitializeOperatorVaultRewardRouter_instruction_with_remaining_accounts B
       k0 k1 k2 k3 k4 k5 k6 k7 k8 x0 rest) (InitializeOperatorVaultRewardRouter x0) {}"
| built_DistributeOperatorVaultRewardRoute:
    "client_built B (DistributeOperatorVaultRewardRoute_instruction_with_remaining_accounts B
       k0 k1 k2 k3 k4 k5 k6 k7 k8 x0 rest) (DistributeOperatorVaultRewardRoute x0) {}"
| built_RouteOperatorVaultRewards:
    "client_built B (RouteOperatorVaultRewards_instruction_with_remaining_accounts B
       k0 k1 k2 k3 k4 k5 x0 x1 rest) (RouteOperatorVaultRewards x0 x1) {}"
| built_CloseEpochAccount:
    "client_built B (CloseEpochAccount_instruction_with_remaining_accounts B
       k0 k1 k2 k3 k4 k5 k6 k7 k8 x0 rest) (CloseEpochAccount x0) {}"
| built_DistributeOperatorRewards:
    "client_built B (DistributeOperatorRewards_instruction_with_remaining_accounts B
       k0 k1 k2 k3 k4 k5 k6 k7 x0 rest) (DistributeOperatorRewards x0) {}"
| built_DistributeVaultRewards:
    "client_built B (DistributeVaultRewards_instruction_with_remaining_accounts B
       k0 k1 k2 k3 k4 k5 k6 k7 k8 x0 rest) (DistributeVaultRewards x0) {}"
| built_AdminSetParameters:
    "client_built B (AdminSetParameters_instruction_with_remaining_accounts B
       k0 k1 k2 x0 x1 x2 x3 rest) (AdminSetParameters x0 x1 x2 x3) {k2}"
| built_AdminSetNewAdmin:
    "client_built B (AdminSetNewAdmin_instruction_with_remaining_accounts B
       k0 k1 k2 k3 x0 rest) (AdminSetNewAdmin x0) {k2}"
| built_AdminSetTieBreaker:
    "client_built B (AdminSetTieBreaker_instruction_with_remaining_accounts B
       k0 k1 k2 k3 k4 x0 x1 rest) (AdminSetTieBreaker x0 x1) {}"
| built_AdminSetWeight:
    "client_built B (AdminSetWeight_instruction_with_remaining_accounts B
       k0 k1 k2 k3 x0 x1 x2 rest) (AdminSetWeight x0 x1 x2) {k3}"
| built_AdminRegisterStMint:
    "client_built B (AdminRegisterStMint_instruction_with_remaining_accounts B
       k0 k1 k2 k3 k4 x0 rest) (AdminRegisterStMint x0) {}"
| built_AdminSetStMint:
    "client_built B (AdminSetStMint_instruction_with_remaining_accounts B
       k0 k1 k2 k3 x0 x1 rest) (AdminSetStMint x0 x1) {}"

lemmas client_metas =
  InitializeConfig_instruction_with_remaining_accounts_def
  InitializeVaultRegistry_instruction_with_remaining_accounts_def
  ReallocVaultRegistry_instruction_with_remaining_accounts_def
  RegisterVault_instruction_with_remaining_accounts_def
  InitializeEpochState_instruction_with_remaining_accounts_def
  InitializeWeightTable_instruction_with_remaining_accounts_def
  SetEpochWeights_instruction_with_remaining_accounts_def
  ReallocWeightTable_instruction_with_remaining_accounts_def
  InitializeEpochSnapshot_instruction_with_remaining_accounts_def
  InitializeOperatorSnapshot_instruction_with_remaining_accounts_def
  SnapshotVaultOperatorDelegation_instruction_with_remaining_accounts_def
  InitializeBallotBox_instruction_with_remaining_accounts_def
  ReallocBallotBox_instruction_with_remaining_accounts_def
  CastVote_instruction_with_remaining_accounts_def
  InitializeNCNRewardRouter_instruction_with_remaining_accounts_def
  ReallocNCNRewardRouter_instruction_with_remaining_accounts_def
  RouteNCNRewards_instruction_with_remaining_accounts_def
  DistributeProtocolRewards_instruction_with_remaining_accounts_def
  DistributeNCNRewards_instruction_with_remaining_accounts_def
  InitializeOperatorVaultRewardRouter_instruction_with_remaining_accounts_def
  DistributeOperatorVaultRewardRoute_instruction_with_remaining_accounts_def
  RouteOperatorVaultRewards_instruction_with_remaining_accounts_def
  CloseEpochAccount_instruction_with_remaining_accounts_def
  DistributeOperatorRewards_instruction_with_remaining_accounts_def
  DistributeVaultRewards_instruction_with_remaining_accounts_def
  AdminSetParameters_instruction_with_remaining_accounts_def
  AdminSetNewAdmin_instruction_with_remaining_accounts_def
  AdminSetTieBreaker_instruction_with_remaining_accounts_def
  AdminSetWeight_instruction_with_remaining_accounts_def
  AdminRegisterStMint_instruction_with_remaining_accounts_def
  AdminSetStMint_instruction_with_remaining_accounts_def

lemmas client_discriminators =
  InitializeConfigInstructionData_new_def InitializeVaultRegistryInstructionData_new_def
  ReallocVaultRegistryInstructionData_new_def RegisterVaultInstructionData_new_def
  InitializeEpochStateInstructionData_new_def InitializeWeightTableInstructionData_new_def
  SetEpochWeightsInstructionData_new_def ReallocWeightTableInstructionData_new_def
  InitializeEpochSnapshotInstructionData_new_def
  InitializeOperatorSnapshotInstructionData_new_def
  SnapshotVaultOperatorDelegationInstructionData_new_def
  InitializeBallotBoxInstructionData_new_def ReallocBallotBoxInstructionData_new_def
  CastVoteInstructionData_new_def InitializeNCNRewardRouterInstructionData_new_def
  ReallocNCNRewardRouterInstructionData_new_def RouteNCNRewardsInstructionData_new_def
  DistributeProtocolRewardsInstructionData_new_def
  DistributeNCNRewardsInstructionData_new_def
  InitializeOperatorVaultRewardRouterInstructionData_new_def
  DistributeOperatorVaultRewardRouteInstructionData_new_def
  RouteOperatorVaultRewardsInstructionData_new_def CloseEpochAccountInstructionData_new_def
  DistributeOperatorRewardsInstructionData_new_def
  DistributeVaultRewardsInstructionData_new_def AdminSetParametersInstructionData_new_def
  AdminSetNewAdminInstructionData_new_def AdminSetTieBreakerInstructionData_new_def
  AdminSetWeightInstructionData_new_def AdminRegisterStMintInstructionData_new_def
  AdminSetStMintInstructionData_new_def

lemma client_built_program: "client_built B ix i K \<Longrightarrow> ix_program_id ix = NCN_PROGRAM_ID"
  by (induction rule: client_built.induct) (simp_all add: client_metas)

lemma client_built_data: "client_built B ix i K \<Longrightarrow> ix_data ix = variant_bytes B i"
  by (induction rule: client_built.induct) (simp_all add: client_metas client_discriminators)

context flag_laws
begin

lemma client_flags_suffice:
  assumes built: "client_built B ix i K" and ixs: "ix \<in> set ixs" and K: "\<forall>k \<in> K. writable_in payer ixs k"
    and program: "acc_owner (L NCN_PROGRAM_ID) \<noteq> system_program_id E"
  shows "process_instruction E P q p (account_infos payer ixs ix) (Ok i) L =
    process_instruction E P q p (map unlocked (account_infos payer ixs ix)) (Ok i) L"
  using built info_flags [OF ixs, of payer] K program
  by (cases rule: client_built.cases)
    (auto simp: client_metas account_infos_def process_instruction_def writable_info
      unlocked_processors [simplified] simp del: map_map split: option.splits)

text \<open>An authority that is not writable in the transaction is refused.\<close>

lemma read_only_authority:
  assumes "client_built B ix i K" and "k \<in> K" and "\<not> writable_in payer ixs k"
  shows "\<not> is_ok (process_instruction E P q p (account_infos payer ixs ix) (Ok i) L)"
  using assms
  by (cases rule: client_built.cases)
    (auto simp: client_metas account_infos_def process_instruction_def is_ok_iff result_simps load_signer_def writable_info
      process_admin_set_parameters_def process_admin_set_new_admin_def process_admin_set_weight_def
      split: list.splits dest!: signer_writable)

end

end
