(* ===== verification/Client_Rpc.thy ===== *)
theory Client_Rpc
  imports Client_Flags
begin

text \<open>
  The command line client of \<open>cli/src\<close> talks to the chain through an RPC server.  A call of
  the client is a computation on a \<open>world\<close>: the ledger, the number of RPC calls made so far,
  and the transactions submitted so far.  Everything the client does not control is the record
  \<open>network\<close>: what other users do to the ledger before each call, the clock at each call, which
  calls fail, which transactions get lost, and the packages the client calls (the restaking
  and vault programs with their clients, the weather service), and the order in which a hash
  map is iterated.

  The theory has the computations with errors, the transactions, \<open>cli/src/handler.rs\<close> as far
  as it is not argument parsing, and the getters of \<open>cli/src/getters.rs\<close>.  Logging and
  sleeping have no effect in the model.
\<close>

section \<open>Computations\<close>

datatype cli_error =
    RpcError
  | TransactionFailed
  | Anyhow string
  | FromProgram program_error

type_synonym ('s, 'a) comp = "'s \<Rightarrow> ('a, cli_error) result \<times> 's"

definition creturn :: "'a \<Rightarrow> ('s, 'a) comp" where
  "creturn x s = (Ok x, s)"

definition clift :: "('a, cli_error) result \<Rightarrow> ('s, 'a) comp" where
  "clift r s = (r, s)"

text \<open>The \<open>?\<close> operator: an error or a panic ends the computation, its effects stay.\<close>

definition cbind :: "('s, 'a) comp \<Rightarrow> ('a \<Rightarrow> ('s, 'b) comp) \<Rightarrow> ('s, 'b) comp" where
  "cbind m f s = (case m s of
       (Ok x, s') \<Rightarrow> f x s' | (Err e, s') \<Rightarrow> (Err e, s') | (Panic, s') \<Rightarrow> (Panic, s'))"

text \<open>A call whose \<open>Result\<close> is kept as a value; a panic is not caught.\<close>

definition attempt :: "('s, 'a) comp \<Rightarrow> ('s, ('a, cli_error) result) comp" where
  "attempt m s = (case m s of (Panic, s') \<Rightarrow> (Panic, s') | (r, s') \<Rightarrow> (Ok r, s'))"

primrec for_each :: "('a \<Rightarrow> ('s, unit) comp) \<Rightarrow> 'a list \<Rightarrow> ('s, unit) comp" where
  "for_each f [] = creturn ()"
| "for_each f (x # xs) = cbind (f x) (\<lambda>_. for_each f xs)"

definition of_program :: "('a, program_error) result \<Rightarrow> ('s, 'a) comp" where
  "of_program r = clift (map_err FromProgram r)"

definition of_ncn :: "('a, ncn_error) result \<Rightarrow> ('s, 'a) comp" where
  "of_ncn r = clift (map_err (FromProgram \<circ> program_error_of) r)"

section \<open>The network\<close>

datatype vault_command =
    InitializeVaultUpdateStateTracker pubkey pubkey pubkey pubkey
  | CrankVaultUpdateStateTracker pubkey pubkey pubkey pubkey pubkey
  | CloseVaultUpdateStateTracker pubkey pubkey pubkey pubkey u64

text \<open>The type whose size \<open>get_rpc_program_accounts_with_config\<close> filters by.\<close>

datatype account_kind = NcnOperatorStateKind | NcnVaultTicketKind | VaultOperatorDelegationKind

record 'p network =
  net_sdk :: runtime
  net_runtime :: "nat \<Rightarrow> runtime"
  net_others :: "nat \<Rightarrow> ledger \<Rightarrow> ledger"
  net_fails :: "nat \<Rightarrow> bool"
  net_lost :: "nat \<Rightarrow> bool"
  net_precise :: "'p precise_ops"
  net_borsh :: borsh
  net_external :: "runtime \<Rightarrow> instruction \<Rightarrow> account_info list \<Rightarrow> ledger \<Rightarrow> (ledger, program_error) result"
  set_compute_unit_limit :: "nat \<Rightarrow> instruction"
  set_compute_unit_price :: "u64 \<Rightarrow> instruction"
  system_transfer :: "pubkey \<Rightarrow> pubkey \<Rightarrow> u64 \<Rightarrow> instruction"
  vault_instruction :: "vault_command \<Rightarrow> instruction"
  RestakingConfig_address :: "pubkey \<Rightarrow> pubkey"
  VaultConfig_address :: "pubkey \<Rightarrow> pubkey"
  NcnOperatorState_address :: "pubkey \<Rightarrow> pubkey \<Rightarrow> pubkey \<Rightarrow> pubkey"
  NcnVaultTicket_address :: "pubkey \<Rightarrow> pubkey \<Rightarrow> pubkey \<Rightarrow> pubkey"
  VaultNcnTicket_address :: "pubkey \<Rightarrow> pubkey \<Rightarrow> pubkey \<Rightarrow> pubkey"
  VaultOperatorDelegation_address :: "pubkey \<Rightarrow> pubkey \<Rightarrow> pubkey \<Rightarrow> pubkey"
  OperatorVaultTicket_address :: "pubkey \<Rightarrow> pubkey \<Rightarrow> pubkey \<Rightarrow> pubkey"
  VaultUpdateStateTracker_address :: "pubkey \<Rightarrow> pubkey \<Rightarrow> u64 \<Rightarrow> pubkey"
  program_accounts :: "pubkey \<Rightarrow> account_kind \<Rightarrow> pubkey \<Rightarrow> ledger \<Rightarrow> (pubkey \<times> account_data) list"
  all_vault_accounts :: "pubkey \<Rightarrow> ledger \<Rightarrow> pubkey list"
  NcnOperatorState_operator :: "account_data \<Rightarrow> pubkey option"
  NcnVaultTicket_vault :: "account_data \<Rightarrow> pubkey option"
  VaultOperatorDelegation_operator :: "account_data \<Rightarrow> (u64 \<times> pubkey) option"
  OperatorVaultTicket_of :: "slot_toggle reader"
  Vault_total_security_of :: "(u64, program_error) result reader"
  vault_config_epoch_length_of :: "u64 reader"
  vault_config_epoch :: "account_data \<Rightarrow> u64 \<Rightarrow> (u64 \<times> u64, program_error) result"
  tracker_last_updated_index :: "account_data \<Rightarrow> (u64, program_error) result"
  pubkey_from_str :: "string \<Rightarrow> pubkey option"
  weather_service :: "nat \<Rightarrow> string \<Rightarrow> (string list, cli_error) result"
  hash_order :: "pubkey list \<Rightarrow> pubkey list"

record world =
  w_ledger :: ledger
  w_calls :: nat
  w_sent :: "instruction list list"

text \<open>A query: other users act, then the server answers from the ledger, or the call fails.\<close>

definition rpc ::
  "'p network \<Rightarrow> (runtime \<Rightarrow> ledger \<Rightarrow> ('a, cli_error) result) \<Rightarrow> (world, 'a) comp" where
  "rpc N query W =
     (let n = w_calls W; L = net_others N n (w_ledger W) in
      (if net_fails N n then Err RpcError else query (net_runtime N n) L,
       W\<lparr>w_ledger := L, w_calls := Suc n\<rparr>))"

section \<open>Transactions\<close>

definition run_instruction ::
  "'p network \<Rightarrow> runtime \<Rightarrow> pubkey \<Rightarrow> instruction list \<Rightarrow> instruction \<Rightarrow> ledger \<Rightarrow> (ledger, program_error) result" where
  "run_instruction N E payer ixs ix L =
     (if ix_program_id ix = NCN_PROGRAM_ID
      then process_instruction E (net_precise N) NCN_PROGRAM_ID (ix_program_id ix)
             (account_infos payer ixs ix) (bs_instruction (net_borsh N) (ix_data ix)) L
      else net_external N E ix (account_infos payer ixs ix) L)"

primrec run_instructions ::
  "'p network \<Rightarrow> runtime \<Rightarrow> pubkey \<Rightarrow> instruction list \<Rightarrow> instruction list \<Rightarrow> ledger \<Rightarrow> (ledger, program_error) result" where
  "run_instructions N E payer ixs [] L = Ok L"
| "run_instructions N E payer ixs (ix # rest) L =
     and_then (run_instruction N E payer ixs ix L) (\<lambda>L. run_instructions N E payer ixs rest L)"

definition run_transaction ::
  "'p network \<Rightarrow> runtime \<Rightarrow> pubkey \<Rightarrow> instruction list \<Rightarrow> ledger \<Rightarrow> (ledger, program_error) result" where
  "run_transaction N E payer ixs L = run_instructions N E payer ixs ixs L"

text \<open>
  Submission: the transaction may get lost, it may fail on chain, and a transaction that was
  executed may still be reported as an error.
\<close>

definition rpc_send :: "'p network \<Rightarrow> pubkey \<Rightarrow> instruction list \<Rightarrow> (world, unit) comp" where
  "rpc_send N payer ixs W =
     (let n = w_calls W; L = net_others N n (w_ledger W);
          W = W\<lparr>w_ledger := L, w_calls := Suc n, w_sent := w_sent W @ [ixs]\<rparr> in
      if net_lost N n then (Err RpcError, W)
      else case run_transaction N (net_runtime N n) payer ixs L of
        Ok L' \<Rightarrow> (if net_fails N n then Err RpcError else Ok (), W\<lparr>w_ledger := L'\<rparr>)
      | _ \<Rightarrow> (Err TransactionFailed, W))"

section \<open>The handler\<close>

text \<open>\<open>CliHandler\<close>, without the connection; a keypair is represented by its public key.\<close>

record cli_handler =
  ch_keypair :: "pubkey option"
  ch_restaking_program_id :: pubkey
  ch_vault_program_id :: pubkey
  ch_ncn_program_id :: pubkey
  ch_ncn :: "pubkey option"
  ch_epoch :: u64
  ch_retries :: u64
  ch_priority_fee_micro_lamports :: u64
  ch_open_weather_api_key :: "string option"

definition handler_keypair :: "cli_handler \<Rightarrow> ('s, pubkey) comp" where
  "handler_keypair h = clift (ok_or (ch_keypair h) (Anyhow ''No keypair''))"

definition handler_ncn :: "cli_handler \<Rightarrow> ('s, pubkey) comp" where
  "handler_ncn h = clift (ok_or (ch_ncn h) (Anyhow ''No NCN address''))"

definition open_weather_api_key :: "cli_handler \<Rightarrow> ('s, string) comp" where
  "open_weather_api_key h =
     clift (ok_or (ch_open_weather_api_key h) (Anyhow ''No Open Weather API key provided''))"

section \<open>Sending\<close>

text \<open>
  \<open>send_transactions\<close>: \<open>retries\<close> attempts with a compute unit price, then a last one without.
  A failed \<open>get_latest_blockhash\<close> ends the function.
\<close>

primrec retry_loop ::
  "'p network \<Rightarrow> pubkey \<Rightarrow> instruction list \<Rightarrow> (world, unit) comp \<Rightarrow> nat \<Rightarrow> (world, unit) comp" where
  "retry_loop N keypair all_instructions last_retry 0 = last_retry"
| "retry_loop N keypair all_instructions last_retry (Suc n) =
     cbind (rpc N (\<lambda>_ _. Ok ())) (\<lambda>blockhash.
     cbind (attempt (rpc_send N keypair all_instructions)) (\<lambda>result.
     if is_ok result then creturn () else retry_loop N keypair all_instructions last_retry n))"

definition send_transactions ::
  "'p network \<Rightarrow> cli_handler \<Rightarrow> instruction list \<Rightarrow> (world, unit) comp" where
  "send_transactions N h instructions =
     cbind (handler_keypair h) (\<lambda>keypair.
     let all_instructions = set_compute_unit_price N (ch_priority_fee_micro_lamports h) # instructions in
     retry_loop N keypair all_instructions
       (cbind (rpc N (\<lambda>_ _. Ok ())) (\<lambda>blockhash. rpc_send N keypair instructions))
       (unat (ch_retries h)))"

definition send_and_log_transaction ::
  "'p network \<Rightarrow> cli_handler \<Rightarrow> instruction list \<Rightarrow> (world, unit) comp" where
  "send_and_log_transaction N h instructions = send_transactions N h instructions"

section \<open>Getters\<close>

text \<open>
  \<open>get_account\<close>: the server reports no account at an address without lamports.
\<close>

definition get_account :: "'p network \<Rightarrow> pubkey \<Rightarrow> (world, account option) comp" where
  "get_account N k = rpc N (\<lambda>_ L. Ok (if lamports (L k) = 0 then None else Some (L k)))"

definition get_current_epoch :: "'p network \<Rightarrow> (world, u64) comp" where
  "get_current_epoch N = rpc N (\<lambda>E _. Ok (clock_epoch E))"

definition get_current_slot :: "'p network \<Rightarrow> (world, u64) comp" where
  "get_current_slot N = rpc N (\<lambda>E _. Ok (clock_slot E))"

definition get_current_epoch_and_slot :: "'p network \<Rightarrow> (world, u64 \<times> u64) comp" where
  "get_current_epoch_and_slot N =
     cbind (get_current_epoch N) (\<lambda>epoch.
     cbind (get_current_slot N) (\<lambda>slot.
     creturn (epoch, slot)))"

text \<open>Ten attempts, then the default values.\<close>

primrec guaranteed_loop :: "'p network \<Rightarrow> nat \<Rightarrow> (world, u64 \<times> u64) comp" where
  "guaranteed_loop N 0 = creturn (0, 0)"
| "guaranteed_loop N (Suc n) =
     cbind (attempt (get_current_epoch_and_slot N)) (\<lambda>result.
     case result of Ok r \<Rightarrow> creturn r | _ \<Rightarrow> guaranteed_loop N n)"

definition get_guaranteed_epoch_and_slot :: "'p network \<Rightarrow> (world, u64 \<times> u64) comp" where
  "get_guaranteed_epoch_and_slot N = guaranteed_loop N 10"

definition get_typed ::
  "'p network \<Rightarrow> pubkey \<Rightarrow> (account_data \<Rightarrow> ('a, program_error) result) \<Rightarrow> (world, 'a) comp" where
  "get_typed N address view =
     cbind (get_account N address) (\<lambda>account.
     case account of
       None \<Rightarrow> clift (Err (Anyhow ''Account not found''))
     | Some account \<Rightarrow> of_program (view (acc_data account)))"

end
