(* ===== verification/Client_Calls.thy ===== *)
theory Client_Calls
  imports Client_Rpc
begin

text \<open>
  The getters of \<open>cli/src/getters.rs\<close> and the functions of \<open>cli/src/instructions.rs\<close> that build
  one instruction or create one account.  \<open>ncn_program::id()\<close> is \<open>NCN_PROGRAM_ID\<close>.
\<close>

section \<open>Getters\<close>

definition get_ncn_program_config :: "'p network \<Rightarrow> cli_handler \<Rightarrow> (world, config) comp" where
  "get_ncn_program_config N h =
     cbind (handler_ncn h) (\<lambda>ncn.
     get_typed N (fst (Config_find_program_address (net_sdk N) (ch_ncn_program_id h) ncn)) Config_of)"

definition get_vault_registry :: "'p network \<Rightarrow> cli_handler \<Rightarrow> (world, vault_registry) comp" where
  "get_vault_registry N h =
     cbind (handler_ncn h) (\<lambda>ncn.
     get_typed N (fst (VaultRegistry_find_program_address (net_sdk N) (ch_ncn_program_id h) ncn))
       VaultRegistry_of)"

definition get_epoch_state :: "'p network \<Rightarrow> cli_handler \<Rightarrow> u64 \<Rightarrow> (world, epoch_state) comp" where
  "get_epoch_state N h epoch =
     cbind (handler_ncn h) (\<lambda>ncn.
     get_typed N (fst (EpochState_find_program_address (net_sdk N) (ch_ncn_program_id h) ncn epoch))
       EpochState_of)"

definition get_weight_table :: "'p network \<Rightarrow> cli_handler \<Rightarrow> u64 \<Rightarrow> (world, weight_table) comp" where
  "get_weight_table N h epoch =
     cbind (handler_ncn h) (\<lambda>ncn.
     get_typed N (fst (WeightTable_find_program_address (net_sdk N) (ch_ncn_program_id h) ncn epoch))
       WeightTable_of)"

definition get_epoch_snapshot :: "'p network \<Rightarrow> cli_handler \<Rightarrow> u64 \<Rightarrow> (world, epoch_snapshot) comp" where
  "get_epoch_snapshot N h epoch =
     cbind (handler_ncn h) (\<lambda>ncn.
     get_typed N (fst (EpochSnapshot_find_program_address (net_sdk N) (ch_ncn_program_id h) ncn epoch))
       EpochSnapshot_of)"

definition get_operator_snapshot ::
  "'p network \<Rightarrow> cli_handler \<Rightarrow> pubkey \<Rightarrow> u64 \<Rightarrow> (world, operator_snapshot) comp" where
  "get_operator_snapshot N h operator epoch =
     cbind (handler_ncn h) (\<lambda>ncn.
     get_typed N (fst (OperatorSnapshot_find_program_address (net_sdk N) (ch_ncn_program_id h) operator ncn epoch))
       OperatorSnapshot_of)"

definition get_ballot_box :: "'p network \<Rightarrow> cli_handler \<Rightarrow> u64 \<Rightarrow> (world, ballot_box) comp" where
  "get_ballot_box N h epoch =
     cbind (handler_ncn h) (\<lambda>ncn.
     get_typed N (fst (BallotBox_find_program_address (net_sdk N) (ch_ncn_program_id h) ncn epoch))
       BallotBox_of)"

definition get_consensus_result :: "'p network \<Rightarrow> cli_handler \<Rightarrow> u64 \<Rightarrow> (world, consensus_result) comp" where
  "get_consensus_result N h epoch =
     cbind (handler_ncn h) (\<lambda>ncn.
     get_typed N (fst (ConsensusResult_find_program_address (net_sdk N) (ch_ncn_program_id h) ncn epoch))
       ConsensusResult_of)"

definition get_is_epoch_completed :: "'p network \<Rightarrow> cli_handler \<Rightarrow> u64 \<Rightarrow> (world, bool) comp" where
  "get_is_epoch_completed N h epoch =
     cbind (handler_ncn h) (\<lambda>ncn.
     cbind (get_account N (fst (EpochMarker_find_program_address (net_sdk N) (ch_ncn_program_id h) ncn epoch))) (\<lambda>account.
     creturn (account \<noteq> None)))"

definition get_vault :: "'p network \<Rightarrow> cli_handler \<Rightarrow> pubkey \<Rightarrow> (world, vault_account) comp" where
  "get_vault N h vault = get_typed N vault (Vault_of (net_sdk N))"

definition get_operator :: "'p network \<Rightarrow> cli_handler \<Rightarrow> pubkey \<Rightarrow> (world, operator_account) comp" where
  "get_operator N h operator = get_typed N operator (Operator_of (net_sdk N))"

definition get_all_operators_in_ncn :: "'p network \<Rightarrow> cli_handler \<Rightarrow> (world, pubkey list) comp" where
  "get_all_operators_in_ncn N h =
     cbind (handler_ncn h) (\<lambda>ncn.
     cbind (rpc N (\<lambda>_ L. Ok (program_accounts N (ch_restaking_program_id h) NcnOperatorStateKind ncn L))) (\<lambda>results.
     creturn (List.map_filter (\<lambda>(_, d). NcnOperatorState_operator N d) results)))"

definition get_all_vaults_in_ncn :: "'p network \<Rightarrow> cli_handler \<Rightarrow> (world, pubkey list) comp" where
  "get_all_vaults_in_ncn N h =
     cbind (handler_ncn h) (\<lambda>ncn.
     cbind (rpc N (\<lambda>_ L. Ok (program_accounts N (ch_restaking_program_id h) NcnVaultTicketKind ncn L))) (\<lambda>results.
     creturn (List.map_filter (\<lambda>(_, d). NcnVaultTicket_vault N d) results)))"

definition get_all_sorted_operators_for_vault ::
  "'p network \<Rightarrow> cli_handler \<Rightarrow> pubkey \<Rightarrow> (world, pubkey list) comp" where
  "get_all_sorted_operators_for_vault N h vault =
     cbind (rpc N (\<lambda>_ L. Ok (program_accounts N (ch_vault_program_id h) VaultOperatorDelegationKind vault L))) (\<lambda>results.
     let index_and_operator = List.map_filter (\<lambda>(_, d). VaultOperatorDelegation_operator N d) results in
     creturn (map snd (sort_key fst index_and_operator)))"

definition get_ncn_reward_router :: "'p network \<Rightarrow> cli_handler \<Rightarrow> u64 \<Rightarrow> (world, ncn_reward_router) comp" where
  "get_ncn_reward_router N h epoch =
     cbind (handler_ncn h) (\<lambda>ncn.
     get_typed N (fst (NCNRewardRouter_find_program_address (net_sdk N) (ch_ncn_program_id h) ncn epoch))
       NCNRewardRouter_of)"

definition get_ncn_reward_receiver :: "'p network \<Rightarrow> cli_handler \<Rightarrow> u64 \<Rightarrow> (world, pubkey \<times> account) comp" where
  "get_ncn_reward_receiver N h epoch =
     cbind (handler_ncn h) (\<lambda>ncn.
     let address = fst (NCNRewardReceiver_find_program_address (net_sdk N) (ch_ncn_program_id h) ncn epoch) in
     cbind (get_account N address) (\<lambda>account.
     case account of
       None \<Rightarrow> clift (Err (Anyhow ''Account not found''))
     | Some account \<Rightarrow> creturn (address, account)))"

definition get_operator_vault_reward_router ::
  "'p network \<Rightarrow> cli_handler \<Rightarrow> pubkey \<Rightarrow> u64 \<Rightarrow> (world, operator_vault_reward_router) comp" where
  "get_operator_vault_reward_router N h operator epoch =
     cbind (handler_ncn h) (\<lambda>ncn.
     get_typed N
       (fst (OperatorVaultRewardRouter_find_program_address (net_sdk N) (ch_ncn_program_id h) operator ncn epoch))
       OperatorVaultRewardRouter_of)"

definition get_operator_vault_reward_receiver ::
  "'p network \<Rightarrow> cli_handler \<Rightarrow> pubkey \<Rightarrow> u64 \<Rightarrow> (world, pubkey \<times> account) comp" where
  "get_operator_vault_reward_receiver N h operator epoch =
     cbind (handler_ncn h) (\<lambda>ncn.
     let address = fst (OperatorVaultRewardReceiver_find_program_address (net_sdk N)
                         (ch_ncn_program_id h) operator ncn epoch) in
     cbind (get_account N address) (\<lambda>account.
     case account of
       None \<Rightarrow> clift (Err (Anyhow ''Account not found''))
     | Some account \<Rightarrow> creturn (address, account)))"

text \<open>The subtraction is checked (\<open>overflow-checks\<close> of the release profile).\<close>

definition get_receiver_rewards :: "'p network \<Rightarrow> pubkey \<Rightarrow> (world, u64) comp" where
  "get_receiver_rewards N address =
     cbind (get_account N address) (\<lambda>account.
     cbind (rpc N (\<lambda>E _. Ok (minimum_balance E 0))) (\<lambda>rent.
     case account of
       None \<Rightarrow> clift (Err (Anyhow ''Account not found''))
     | Some account \<Rightarrow>
         if lamports account < rent then clift Panic else creturn (lamports account - rent)))"

definition get_ncn_reward_receiver_rewards :: "'p network \<Rightarrow> cli_handler \<Rightarrow> u64 \<Rightarrow> (world, u64) comp" where
  "get_ncn_reward_receiver_rewards N h epoch =
     cbind (get_ncn_reward_receiver N h epoch) (\<lambda>(address, _). get_receiver_rewards N address)"

definition get_operator_vault_reward_receiver_rewards ::
  "'p network \<Rightarrow> cli_handler \<Rightarrow> pubkey \<Rightarrow> u64 \<Rightarrow> (world, u64) comp" where
  "get_operator_vault_reward_receiver_rewards N h operator epoch =
     cbind (get_operator_vault_reward_receiver N h operator epoch) (\<lambda>(address, _).
     get_receiver_rewards N address)"

text \<open>The sum over the operators of the winning ballot; the addition is checked.\<close>

fun add_receiver_rewards ::
  "'p network \<Rightarrow> cli_handler \<Rightarrow> u64 \<Rightarrow> pubkey list \<Rightarrow> u64 \<Rightarrow> (world, u64) comp" where
  "add_receiver_rewards N h epoch [] amount = creturn amount"
| "add_receiver_rewards N h epoch (operator # rest) amount =
     cbind (attempt (get_operator_vault_reward_receiver_rewards N h operator epoch)) (\<lambda>result.
     case result of
       Ok n \<Rightarrow> cbind (clift (expect (checked_add amount n))) (\<lambda>amount. add_receiver_rewards N h epoch rest amount)
     | _ \<Rightarrow> add_receiver_rewards N h epoch rest amount)"

definition get_total_rewards_to_be_distributed :: "'p network \<Rightarrow> cli_handler \<Rightarrow> u64 \<Rightarrow> (world, u64) comp" where
  "get_total_rewards_to_be_distributed N h epoch =
     cbind (get_ballot_box N h epoch) (\<lambda>bb.
     cbind (of_ncn (get_winning_ballot_tally bb)) (\<lambda>winning_ballot.
     let all_operators = map ov_operator
           (filter (\<lambda>vote. ov_ballot_index vote = bt_index winning_ballot) (operator_votes bb)) in
     cbind (attempt (get_ncn_reward_receiver_rewards N h epoch)) (\<lambda>result.
     case result of
       Ok n \<Rightarrow> add_receiver_rewards N h epoch all_operators n
     | _ \<Rightarrow> creturn 0)))"

section \<open>Administration\<close>

definition admin_create_config :: "'p network \<Rightarrow> cli_handler \<Rightarrow> pubkey \<Rightarrow> u16 \<Rightarrow> pubkey option \<Rightarrow> u64 \<Rightarrow> u64 \<Rightarrow> u64 \<Rightarrow> (world, unit) comp" where
  "admin_create_config N h wallet fee_bps tie_breaker stall_epochs valid_slots close_epochs =
     cbind (handler_keypair h) (\<lambda>keypair.
     cbind (handler_ncn h) (\<lambda>ncn.
     let config = fst (Config_find_program_address (net_sdk N) (ch_ncn_program_id h) ncn);
         account_payer = fst (AccountPayer_find_program_address (net_sdk N) (ch_ncn_program_id h) ncn) in
     let tie_breaker = unwrap_or tie_breaker keypair in
     cbind (clift (InitializeConfigBuilder_instruction (net_borsh N)
         (Some config) (Some ncn) (Some wallet) (Some keypair) (Some tie_breaker)
         (Some account_payer) None (Some stall_epochs) (Some close_epochs) (Some valid_slots)
         (Some fee_bps) [])) (\<lambda>ix.
     cbind (rpc N (\<lambda>_ L. ensure (lamports (L (ch_ncn_program_id h)) \<noteq> 0) RpcError)) (\<lambda>program.
     send_and_log_transaction N h [ix]))))"

definition admin_register_st_mint :: "'p network \<Rightarrow> cli_handler \<Rightarrow> pubkey \<Rightarrow> u128 option \<Rightarrow> (world, unit) comp" where
  "admin_register_st_mint N h vault weight =
     cbind (handler_keypair h) (\<lambda>keypair.
     cbind (handler_ncn h) (\<lambda>ncn.
     let config = fst (Config_find_program_address (net_sdk N) (ch_ncn_program_id h) ncn);
         vault_registry = fst (VaultRegistry_find_program_address (net_sdk N) (ch_ncn_program_id h) ncn) in
     cbind (get_vault N h vault) (\<lambda>vault_account.
     cbind (clift (AdminRegisterStMintBuilder_instruction (net_borsh N)
         (Some config) (Some ncn) (Some (v_supported_mint vault_account)) (Some vault_registry)
         (Some keypair) weight [])) (\<lambda>ix.
     send_and_log_transaction N h [ix]))))"

definition admin_set_weight_with_st_mint :: "'p network \<Rightarrow> cli_handler \<Rightarrow> pubkey \<Rightarrow> u64 \<Rightarrow> u128 \<Rightarrow> (world, unit) comp" where
  "admin_set_weight_with_st_mint N h st_mint epoch weight =
     cbind (handler_keypair h) (\<lambda>keypair.
     cbind (handler_ncn h) (\<lambda>ncn.
     let weight_table = fst (WeightTable_find_program_address (net_sdk N) (ch_ncn_program_id h) ncn epoch);
         epoch_state = fst (EpochState_find_program_address (net_sdk N) (ch_ncn_program_id h) ncn epoch) in
     cbind (clift (AdminSetWeightBuilder_instruction (net_borsh N)
         (Some epoch_state) (Some ncn) (Some weight_table) (Some keypair) (Some st_mint)
         (Some weight) (Some epoch) [])) (\<lambda>ix.
     send_and_log_transaction N h [ix])))"

definition admin_set_weight :: "'p network \<Rightarrow> cli_handler \<Rightarrow> pubkey \<Rightarrow> u64 \<Rightarrow> u128 \<Rightarrow> (world, unit) comp" where
  "admin_set_weight N h vault epoch weight =
     cbind (get_vault N h vault) (\<lambda>vault_account.
     admin_set_weight_with_st_mint N h (v_supported_mint vault_account) epoch weight)"

definition admin_set_tie_breaker :: "'p network \<Rightarrow> cli_handler \<Rightarrow> u64 \<Rightarrow> u8 \<Rightarrow> (world, unit) comp" where
  "admin_set_tie_breaker N h epoch status =
     cbind (handler_keypair h) (\<lambda>keypair.
     cbind (handler_ncn h) (\<lambda>ncn.
     let epoch_state = fst (EpochState_find_program_address (net_sdk N) (ch_ncn_program_id h) ncn epoch);
         config = fst (Config_find_program_address (net_sdk N) (ch_ncn_program_id h) ncn);
         ballot_box = fst (BallotBox_find_program_address (net_sdk N) (ch_ncn_program_id h) ncn epoch) in
     cbind (clift (AdminSetTieBreakerBuilder_instruction (net_borsh N)
         (Some epoch_state) (Some config) (Some ballot_box) (Some ncn) (Some keypair)
         (Some status) (Some epoch) [])) (\<lambda>ix.
     send_and_log_transaction N h [ix])))"

definition admin_set_new_admin :: "'p network \<Rightarrow> cli_handler \<Rightarrow> pubkey \<Rightarrow> bool \<Rightarrow> (world, unit) comp" where
  "admin_set_new_admin N h new_admin set_tie_breaker_admin =
     cbind (handler_keypair h) (\<lambda>keypair.
     cbind (handler_ncn h) (\<lambda>ncn.
     let config = fst (Config_find_program_address (net_sdk N) (ch_ncn_program_id h) ncn) in
     for_each (\<lambda>(should_set, role).
       if \<not> should_set then creturn ()
       else
         cbind (clift (AdminSetNewAdminBuilder_instruction (net_borsh N)
             (Some config) (Some ncn) (Some keypair) (Some new_admin) (Some role) [])) (\<lambda>ix.
         send_and_log_transaction N h [ix]))
       [(set_tie_breaker_admin, TieBreakerAdmin)]))"

definition admin_set_parameters :: "'p network \<Rightarrow> cli_handler \<Rightarrow> u64 option \<Rightarrow> u64 option \<Rightarrow> u64 option \<Rightarrow> u64 option \<Rightarrow> (world, unit) comp" where
  "admin_set_parameters N h stall_epochs close_epochs valid_slots start_epoch =
     cbind (handler_keypair h) (\<lambda>keypair.
     cbind (handler_ncn h) (\<lambda>ncn.
     let config = fst (Config_find_program_address (net_sdk N) (ch_ncn_program_id h) ncn) in
     cbind (clift (AdminSetParametersBuilder_instruction (net_borsh N)
         (Some config) (Some ncn) (Some keypair) start_epoch stall_epochs close_epochs
         valid_slots [])) (\<lambda>ix.
     send_and_log_transaction N h [ix])))"

section \<open>Creating accounts\<close>

text \<open>
  The number of reallocations a transaction carries, \<open>(SIZE as f64 / MAX_REALLOC_BYTES as
  f64).ceil() as u64 - 1\<close>; the quotients are far from the precision of \<open>f64\<close>, so the ceiling is
  that of the rational quotient.
\<close>

definition num_reallocs :: "nat \<Rightarrow> nat" where
  "num_reallocs bytes = (bytes + unat MAX_REALLOC_BYTES - 1) div unat MAX_REALLOC_BYTES - 1"

definition create_vault_registry :: "'p network \<Rightarrow> cli_handler \<Rightarrow> (world, unit) comp" where
  "create_vault_registry N h =
     cbind (handler_ncn h) (\<lambda>ncn.
     let config = fst (Config_find_program_address (net_sdk N) (ch_ncn_program_id h) ncn);
         vault_registry = fst (VaultRegistry_find_program_address (net_sdk N) (ch_ncn_program_id h) ncn);
         account_payer = fst (AccountPayer_find_program_address (net_sdk N) (ch_ncn_program_id h) ncn) in
     cbind (get_account N vault_registry) (\<lambda>account.
     cbind (if account = None
            then
              cbind (clift (InitializeVaultRegistryBuilder_instruction (net_borsh N)
                  (Some config) (Some vault_registry) (Some ncn) (Some account_payer) None [])) (\<lambda>ix.
              send_and_log_transaction N h [ix])
            else creturn ()) (\<lambda>_.
     cbind (clift (ReallocVaultRegistryBuilder_instruction (net_borsh N)
         (Some config) (Some vault_registry) (Some ncn) (Some account_payer)
         (Some Pubkey_default) [])) (\<lambda>realloc_ix.
     send_and_log_transaction N h
       (set_compute_unit_limit N 1400000 # replicate (max (num_reallocs VaultRegistry_SIZE) 1) realloc_ix)))))"

definition register_vault_cli :: "'p network \<Rightarrow> cli_handler \<Rightarrow> pubkey \<Rightarrow> (world, unit) comp" where
  "register_vault_cli N h vault =
     cbind (handler_ncn h) (\<lambda>ncn.
     let config = fst (Config_find_program_address (net_sdk N) (ch_ncn_program_id h) ncn);
         vault_registry = fst (VaultRegistry_find_program_address (net_sdk N) (ch_ncn_program_id h) ncn) in
     let ncn_vault_ticket = NcnVaultTicket_address N (ch_restaking_program_id h) ncn vault in
     cbind (clift (RegisterVaultBuilder_instruction (net_borsh N)
         (Some config) (Some vault_registry) (Some ncn) (Some vault) (Some ncn_vault_ticket) [])) (\<lambda>ix.
     send_and_log_transaction N h [ix]))"

definition create_epoch_state :: "'p network \<Rightarrow> cli_handler \<Rightarrow> u64 \<Rightarrow> (world, unit) comp" where
  "create_epoch_state N h epoch =
     cbind (handler_ncn h) (\<lambda>ncn.
     let config = fst (Config_find_program_address (net_sdk N) (ch_ncn_program_id h) ncn);
         epoch_state = fst (EpochState_find_program_address (net_sdk N) (ch_ncn_program_id h) ncn epoch);
         account_payer = fst (AccountPayer_find_program_address (net_sdk N) (ch_ncn_program_id h) ncn);
         epoch_marker = fst (EpochMarker_find_program_address (net_sdk N) NCN_PROGRAM_ID ncn epoch) in
     cbind (get_account N epoch_state) (\<lambda>account.
     if account = None
     then
       cbind (clift (InitializeEpochStateBuilder_instruction (net_borsh N)
           (Some epoch_marker) (Some epoch_state) (Some config) (Some ncn) (Some account_payer)
           (Some Pubkey_default) (Some epoch) [])) (\<lambda>ix.
       send_and_log_transaction N h [ix])
     else creturn ()))"

definition create_weight_table :: "'p network \<Rightarrow> cli_handler \<Rightarrow> u64 \<Rightarrow> (world, unit) comp" where
  "create_weight_table N h epoch =
     cbind (handler_ncn h) (\<lambda>ncn.
     let config = fst (Config_find_program_address (net_sdk N) (ch_ncn_program_id h) ncn);
         vault_registry = fst (VaultRegistry_find_program_address (net_sdk N) (ch_ncn_program_id h) ncn);
         weight_table = fst (WeightTable_find_program_address (net_sdk N) (ch_ncn_program_id h) ncn epoch);
         epoch_state = fst (EpochState_find_program_address (net_sdk N) (ch_ncn_program_id h) ncn epoch);
         account_payer = fst (AccountPayer_find_program_address (net_sdk N) (ch_ncn_program_id h) ncn);
         epoch_marker = fst (EpochMarker_find_program_address (net_sdk N) NCN_PROGRAM_ID ncn epoch) in
     cbind (get_account N weight_table) (\<lambda>account.
     cbind (if account = None
            then
              cbind (clift (InitializeWeightTableBuilder_instruction (net_borsh N)
                  (Some epoch_marker) (Some epoch_state) (Some vault_registry) (Some ncn)
                  (Some weight_table) (Some account_payer) (Some Pubkey_default) (Some epoch) [])) (\<lambda>ix.
              send_and_log_transaction N h [ix])
            else creturn ()) (\<lambda>_.
     cbind (clift (ReallocWeightTableBuilder_instruction (net_borsh N)
         (Some epoch_state) (Some config) (Some weight_table) (Some ncn) (Some vault_registry)
         (Some account_payer) (Some Pubkey_default) (Some epoch) [])) (\<lambda>realloc_ix.
     send_and_log_transaction N h
       (set_compute_unit_limit N 1400000 # replicate (num_reallocs WeightTable_SIZE) realloc_ix)))))"

definition set_epoch_weights :: "'p network \<Rightarrow> cli_handler \<Rightarrow> u64 \<Rightarrow> (world, unit) comp" where
  "set_epoch_weights N h epoch =
     cbind (handler_ncn h) (\<lambda>ncn.
     let weight_table = fst (WeightTable_find_program_address (net_sdk N) (ch_ncn_program_id h) ncn epoch);
         epoch_state = fst (EpochState_find_program_address (net_sdk N) (ch_ncn_program_id h) ncn epoch);
         vault_registry = fst (VaultRegistry_find_program_address (net_sdk N) (ch_ncn_program_id h) ncn) in
     cbind (clift (SetEpochWeightsBuilder_instruction (net_borsh N)
         (Some epoch_state) (Some ncn) (Some vault_registry) (Some weight_table) (Some epoch) [])) (\<lambda>ix.
     send_and_log_transaction N h [ix]))"

definition create_epoch_snapshot :: "'p network \<Rightarrow> cli_handler \<Rightarrow> u64 \<Rightarrow> (world, unit) comp" where
  "create_epoch_snapshot N h epoch =
     cbind (handler_ncn h) (\<lambda>ncn.
     let config = fst (Config_find_program_address (net_sdk N) (ch_ncn_program_id h) ncn);
         epoch_state = fst (EpochState_find_program_address (net_sdk N) (ch_ncn_program_id h) ncn epoch);
         weight_table = fst (WeightTable_find_program_address (net_sdk N) (ch_ncn_program_id h) ncn epoch);
         epoch_snapshot = fst (EpochSnapshot_find_program_address (net_sdk N) (ch_ncn_program_id h) ncn epoch);
         account_payer = fst (AccountPayer_find_program_address (net_sdk N) (ch_ncn_program_id h) ncn);
         epoch_marker = fst (EpochMarker_find_program_address (net_sdk N) NCN_PROGRAM_ID ncn epoch) in
     cbind (clift (InitializeEpochSnapshotBuilder_instruction (net_borsh N)
         (Some epoch_marker) (Some epoch_state) (Some config) (Some ncn) (Some weight_table)
         (Some epoch_snapshot) (Some account_payer) (Some Pubkey_default) (Some epoch) [])) (\<lambda>ix.
     send_and_log_transaction N h [ix]))"

definition create_operator_snapshot :: "'p network \<Rightarrow> cli_handler \<Rightarrow> pubkey \<Rightarrow> u64 \<Rightarrow> (world, unit) comp" where
  "create_operator_snapshot N h operator epoch =
     cbind (handler_ncn h) (\<lambda>ncn.
     let config = fst (Config_find_program_address (net_sdk N) (ch_ncn_program_id h) ncn);
         epoch_state = fst (EpochState_find_program_address (net_sdk N) (ch_ncn_program_id h) ncn epoch);
         epoch_snapshot = fst (EpochSnapshot_find_program_address (net_sdk N) (ch_ncn_program_id h) ncn epoch);
         operator_snapshot = fst (OperatorSnapshot_find_program_address (net_sdk N) (ch_ncn_program_id h) operator ncn epoch);
         account_payer = fst (AccountPayer_find_program_address (net_sdk N) (ch_ncn_program_id h) ncn);
         epoch_marker = fst (EpochMarker_find_program_address (net_sdk N) NCN_PROGRAM_ID ncn epoch) in
     let ncn_operator_state = NcnOperatorState_address N (ch_restaking_program_id h) ncn operator in
     cbind (get_account N operator_snapshot) (\<lambda>account.
     if account = None
     then
       cbind (clift (InitializeOperatorSnapshotBuilder_instruction (net_borsh N)
           (Some epoch_marker) (Some epoch_state) (Some config)
           (Some (RestakingConfig_address N (ch_restaking_program_id h))) (Some ncn)
           (Some operator) (Some ncn_operator_state) (Some epoch_snapshot)
           (Some operator_snapshot) (Some account_payer) (Some Pubkey_default) (Some epoch) [])) (\<lambda>ix.
       send_and_log_transaction N h [ix])
     else creturn ()))"

definition snapshot_vault_operator_delegation :: "'p network \<Rightarrow> cli_handler \<Rightarrow> pubkey \<Rightarrow> pubkey \<Rightarrow> u64 \<Rightarrow> (world, unit) comp" where
  "snapshot_vault_operator_delegation N h vault operator epoch =
     cbind (handler_ncn h) (\<lambda>ncn.
     let config = fst (Config_find_program_address (net_sdk N) (ch_ncn_program_id h) ncn);
         epoch_state = fst (EpochState_find_program_address (net_sdk N) (ch_ncn_program_id h) ncn epoch);
         weight_table = fst (WeightTable_find_program_address (net_sdk N) (ch_ncn_program_id h) ncn epoch);
         epoch_snapshot = fst (EpochSnapshot_find_program_address (net_sdk N) (ch_ncn_program_id h) ncn epoch);
         operator_snapshot = fst (OperatorSnapshot_find_program_address (net_sdk N) (ch_ncn_program_id h) operator ncn epoch) in
     let restaking_config = RestakingConfig_address N (ch_restaking_program_id h);
         vault_ncn_ticket = VaultNcnTicket_address N (ch_vault_program_id h) vault ncn;
         ncn_vault_ticket = NcnVaultTicket_address N (ch_restaking_program_id h) ncn vault;
         delegation = VaultOperatorDelegation_address N (ch_vault_program_id h) vault operator in
     cbind (clift (SnapshotVaultOperatorDelegationBuilder_instruction (net_borsh N)
         (Some epoch_state) (Some config) (Some restaking_config) (Some ncn) (Some operator)
         (Some vault) (Some vault_ncn_ticket) (Some ncn_vault_ticket) (Some delegation)
         (Some weight_table) (Some epoch_snapshot) (Some operator_snapshot) (Some epoch) [])) (\<lambda>ix.
     send_and_log_transaction N h [ix]))"

definition create_ballot_box :: "'p network \<Rightarrow> cli_handler \<Rightarrow> u64 \<Rightarrow> (world, unit) comp" where
  "create_ballot_box N h epoch =
     cbind (handler_ncn h) (\<lambda>ncn.
     let config = fst (Config_find_program_address (net_sdk N) (ch_ncn_program_id h) ncn);
         epoch_state = fst (EpochState_find_program_address (net_sdk N) (ch_ncn_program_id h) ncn epoch);
         ballot_box = fst (BallotBox_find_program_address (net_sdk N) (ch_ncn_program_id h) ncn epoch);
         account_payer = fst (AccountPayer_find_program_address (net_sdk N) (ch_ncn_program_id h) ncn);
         epoch_marker = fst (EpochMarker_find_program_address (net_sdk N) NCN_PROGRAM_ID ncn epoch);
         consensus_result = fst (ConsensusResult_find_program_address (net_sdk N) (ch_ncn_program_id h) ncn epoch) in
     cbind (get_account N ballot_box) (\<lambda>account.
     cbind (if account = None
            then
              cbind (clift (InitializeBallotBoxBuilder_instruction (net_borsh N)
                  (Some epoch_marker) (Some epoch_state) (Some config) (Some ballot_box)
                  (Some ncn) (Some account_payer) (Some Pubkey_default) (Some consensus_result)
                  (Some epoch) [])) (\<lambda>ix.
              send_and_log_transaction N h [ix])
            else creturn ()) (\<lambda>_.
     cbind (clift (ReallocBallotBoxBuilder_instruction (net_borsh N)
         (Some epoch_state) (Some config) (Some ballot_box) (Some ncn) (Some account_payer)
         (Some Pubkey_default) (Some epoch) [])) (\<lambda>realloc_ix.
     send_and_log_transaction N h
       (set_compute_unit_limit N 1400000 # replicate (num_reallocs BallotBox_SIZE) realloc_ix)))))"

definition create_ncn_reward_router :: "'p network \<Rightarrow> cli_handler \<Rightarrow> u64 \<Rightarrow> (world, unit) comp" where
  "create_ncn_reward_router N h epoch =
     cbind (handler_ncn h) (\<lambda>ncn.
     let epoch_state = fst (EpochState_find_program_address (net_sdk N) (ch_ncn_program_id h) ncn epoch);
         ncn_reward_router = fst (NCNRewardRouter_find_program_address (net_sdk N) (ch_ncn_program_id h) ncn epoch);
         ncn_reward_receiver = fst (NCNRewardReceiver_find_program_address (net_sdk N) (ch_ncn_program_id h) ncn epoch);
         account_payer = fst (AccountPayer_find_program_address (net_sdk N) (ch_ncn_program_id h) ncn);
         epoch_marker = fst (EpochMarker_find_program_address (net_sdk N) NCN_PROGRAM_ID ncn epoch);
         config = fst (Config_find_program_address (net_sdk N) (ch_ncn_program_id h) ncn) in
     cbind (get_account N ncn_reward_router) (\<lambda>account.
     cbind (if account = None
            then
              cbind (clift (InitializeNCNRewardRouterBuilder_instruction (net_borsh N)
                  (Some epoch_marker) (Some epoch_state) (Some ncn) (Some ncn_reward_router)
                  (Some ncn_reward_receiver) (Some account_payer) (Some Pubkey_default)
                  (Some epoch) [])) (\<lambda>ix.
              send_and_log_transaction N h [ix])
            else creturn ()) (\<lambda>_.
     cbind (clift (ReallocNCNRewardRouterBuilder_instruction (net_borsh N)
         (Some epoch_state) (Some config) (Some ncn_reward_router) (Some ncn)
         (Some account_payer) (Some Pubkey_default) (Some epoch) [])) (\<lambda>realloc_ix.
     send_and_log_transaction N h
       (set_compute_unit_limit N 1400000 # replicate (num_reallocs NCNRewardRouter_SIZE) realloc_ix)))))"

definition create_operator_vault_reward_router :: "'p network \<Rightarrow> cli_handler \<Rightarrow> pubkey \<Rightarrow> u64 \<Rightarrow> (world, unit) comp" where
  "create_operator_vault_reward_router N h operator epoch =
     cbind (handler_ncn h) (\<lambda>ncn.
     let operator_snapshot = fst (OperatorSnapshot_find_program_address (net_sdk N) (ch_ncn_program_id h) operator ncn epoch);
         operator_vault_reward_router = fst (OperatorVaultRewardRouter_find_program_address (net_sdk N) (ch_ncn_program_id h) operator ncn epoch);
         account_payer = fst (AccountPayer_find_program_address (net_sdk N) (ch_ncn_program_id h) ncn);
         epoch_marker = fst (EpochMarker_find_program_address (net_sdk N) NCN_PROGRAM_ID ncn epoch);
         epoch_state = fst (EpochState_find_program_address (net_sdk N) (ch_ncn_program_id h) ncn epoch);
         operator_vault_reward_receiver = fst (OperatorVaultRewardReceiver_find_program_address (net_sdk N) (ch_ncn_program_id h) operator ncn epoch) in
     cbind (get_account N operator_vault_reward_router) (\<lambda>account.
     if account = None
     then
       cbind (clift (InitializeOperatorVaultRewardRouterBuilder_instruction (net_borsh N)
           (Some epoch_marker) (Some epoch_state) (Some ncn) (Some operator)
           (Some operator_snapshot) (Some operator_vault_reward_router)
           (Some operator_vault_reward_receiver) (Some account_payer) (Some Pubkey_default)
           (Some epoch) [])) (\<lambda>ix.
       send_and_log_transaction N h [ix])
     else creturn ()))"

section \<open>Closing, voting and distributing\<close>

definition close_epoch_account :: "'p network \<Rightarrow> cli_handler \<Rightarrow> pubkey \<Rightarrow> u64 \<Rightarrow> pubkey \<Rightarrow> (world, unit) comp" where
  "close_epoch_account N h ncn epoch account_to_close =
     (let epoch_marker = fst (EpochMarker_find_program_address (net_sdk N) (ch_ncn_program_id h) ncn epoch);
         epoch_state = fst (EpochState_find_program_address (net_sdk N) (ch_ncn_program_id h) ncn epoch);
         account_payer = fst (AccountPayer_find_program_address (net_sdk N) (ch_ncn_program_id h) ncn);
         config = fst (Config_find_program_address (net_sdk N) (ch_ncn_program_id h) ncn) in
     cbind (get_account N account_to_close) (\<lambda>account.
     let account_already_closed =
           (case account of None \<Rightarrow> True | Some a \<Rightarrow> data_is_empty (acc_data a) \<or> lamports a = 0) in
     if account_already_closed then creturn ()
     else
       cbind (clift (CloseEpochAccountBuilder_instruction (net_borsh N)
           (Some epoch_marker) (Some epoch_state) (Some config) (Some ncn)
           (Some account_to_close) (Some account_payer) (Some Pubkey_default) None None
           (Some epoch) [])) (\<lambda>ix.
       send_and_log_transaction N h [ix])))"

definition operator_cast_vote :: "'p network \<Rightarrow> cli_handler \<Rightarrow> pubkey \<Rightarrow> u64 \<Rightarrow> u8 \<Rightarrow> (world, unit) comp" where
  "operator_cast_vote N h operator epoch status =
     cbind (handler_keypair h) (\<lambda>keypair.
     cbind (handler_ncn h) (\<lambda>ncn.
     let config = fst (Config_find_program_address (net_sdk N) (ch_ncn_program_id h) ncn);
         epoch_state = fst (EpochState_find_program_address (net_sdk N) (ch_ncn_program_id h) ncn epoch);
         ballot_box = fst (BallotBox_find_program_address (net_sdk N) (ch_ncn_program_id h) ncn epoch);
         epoch_snapshot = fst (EpochSnapshot_find_program_address (net_sdk N) (ch_ncn_program_id h) ncn epoch);
         operator_snapshot = fst (OperatorSnapshot_find_program_address (net_sdk N) (ch_ncn_program_id h) operator ncn epoch);
         consensus_result = fst (ConsensusResult_find_program_address (net_sdk N) (ch_ncn_program_id h) ncn epoch) in
     cbind (clift (CastVoteBuilder_instruction (net_borsh N)
         (Some epoch_state) (Some config) (Some ballot_box) (Some ncn) (Some epoch_snapshot)
         (Some operator_snapshot) (Some operator) (Some keypair) (Some consensus_result)
         (Some status) (Some epoch) [])) (\<lambda>ix.
     send_and_log_transaction N h [ix])))"

definition process_route_ncn_rewards_cli :: "'p network \<Rightarrow> cli_handler \<Rightarrow> u64 \<Rightarrow> (world, unit) comp" where
  "process_route_ncn_rewards_cli N h epoch =
     cbind (handler_ncn h) (\<lambda>ncn.
     let config = fst (Config_find_program_address (net_sdk N) (ch_ncn_program_id h) ncn);
         epoch_state = fst (EpochState_find_program_address (net_sdk N) (ch_ncn_program_id h) ncn epoch);
         ncn_reward_router = fst (NCNRewardRouter_find_program_address (net_sdk N) (ch_ncn_program_id h) ncn epoch);
         ncn_reward_receiver = fst (NCNRewardReceiver_find_program_address (net_sdk N) (ch_ncn_program_id h) ncn epoch);
         ballot_box = fst (BallotBox_find_program_address (net_sdk N) (ch_ncn_program_id h) ncn epoch);
         epoch_snapshot = fst (EpochSnapshot_find_program_address (net_sdk N) (ch_ncn_program_id h) ncn epoch) in
     cbind (clift (RouteNCNRewardsBuilder_instruction (net_borsh N)
         (Some epoch_state) (Some config) (Some ncn) (Some epoch_snapshot) (Some ballot_box)
         (Some ncn_reward_router) (Some ncn_reward_receiver) (Some MAX_ROUTE_BASE_ITERATIONS)
         (Some epoch) [])) (\<lambda>ix.
     send_and_log_transaction N h [set_compute_unit_limit N 1400000, ix]))"

definition distribute_ncn_rewards :: "'p network \<Rightarrow> cli_handler \<Rightarrow> u64 \<Rightarrow> (world, unit) comp" where
  "distribute_ncn_rewards N h epoch =
     cbind (handler_ncn h) (\<lambda>ncn.
     let config = fst (Config_find_program_address (net_sdk N) (ch_ncn_program_id h) ncn);
         epoch_state = fst (EpochState_find_program_address (net_sdk N) (ch_ncn_program_id h) ncn epoch);
         ncn_reward_router = fst (NCNRewardRouter_find_program_address (net_sdk N) (ch_ncn_program_id h) ncn epoch);
         ncn_reward_receiver = fst (NCNRewardReceiver_find_program_address (net_sdk N) (ch_ncn_program_id h) ncn epoch) in
     cbind (get_ncn_program_config N h) (\<lambda>ncn_config.
     cbind (clift (DistributeNCNRewardsBuilder_instruction (net_borsh N)
         (Some epoch_state) (Some config) (Some ncn) (Some ncn_reward_router)
         (Some ncn_reward_receiver) (Some (ncn_fee_wallets (fee_config_of ncn_config))) None
         (Some epoch) [])) (\<lambda>ix.
     send_and_log_transaction N h [ix])))"

definition distribute_protocol_rewards :: "'p network \<Rightarrow> cli_handler \<Rightarrow> u64 \<Rightarrow> (world, unit) comp" where
  "distribute_protocol_rewards N h epoch =
     cbind (handler_ncn h) (\<lambda>ncn.
     let config = fst (Config_find_program_address (net_sdk N) (ch_ncn_program_id h) ncn);
         epoch_state = fst (EpochState_find_program_address (net_sdk N) (ch_ncn_program_id h) ncn epoch);
         ncn_reward_router = fst (NCNRewardRouter_find_program_address (net_sdk N) (ch_ncn_program_id h) ncn epoch);
         ncn_reward_receiver = fst (NCNRewardReceiver_find_program_address (net_sdk N) (ch_ncn_program_id h) ncn epoch) in
     cbind (get_ncn_program_config N h) (\<lambda>ncn_config.
     cbind (clift (DistributeProtocolRewardsBuilder_instruction (net_borsh N)
         (Some epoch_state) (Some config) (Some ncn) (Some ncn_reward_router)
         (Some ncn_reward_receiver) (Some (protocol_fee_wallet (fee_config_of ncn_config)))
         (Some Pubkey_default) (Some epoch) [])) (\<lambda>ix.
     send_and_log_transaction N h [ix])))"

definition process_route_operator_vault_rewards_cli :: "'p network \<Rightarrow> cli_handler \<Rightarrow> pubkey \<Rightarrow> u64 \<Rightarrow> (world, unit) comp" where
  "process_route_operator_vault_rewards_cli N h operator epoch =
     cbind (handler_ncn h) (\<lambda>ncn.
     let operator_snapshot = fst (OperatorSnapshot_find_program_address (net_sdk N) (ch_ncn_program_id h) operator ncn epoch);
         operator_vault_reward_router = fst (OperatorVaultRewardRouter_find_program_address (net_sdk N) (ch_ncn_program_id h) operator ncn epoch);
         operator_vault_reward_receiver = fst (OperatorVaultRewardReceiver_find_program_address (net_sdk N) (ch_ncn_program_id h) operator ncn epoch);
         epoch_state = fst (EpochState_find_program_address (net_sdk N) (ch_ncn_program_id h) ncn epoch) in
     cbind (clift (RouteOperatorVaultRewardsBuilder_instruction (net_borsh N)
         (Some epoch_state) (Some ncn) (Some operator) (Some operator_snapshot)
         (Some operator_vault_reward_router) (Some operator_vault_reward_receiver)
         (Some MAX_ROUTE_NCN_ITERATIONS) (Some epoch) [])) (\<lambda>ix.
     send_and_log_transaction N h [set_compute_unit_limit N 1400000, ix]))"

definition distribute_operator_vault_rewards :: "'p network \<Rightarrow> cli_handler \<Rightarrow> pubkey \<Rightarrow> u64 \<Rightarrow> (world, unit) comp" where
  "distribute_operator_vault_rewards N h operator epoch =
     cbind (handler_ncn h) (\<lambda>ncn.
     let epoch_state = fst (EpochState_find_program_address (net_sdk N) (ch_ncn_program_id h) ncn epoch);
         config = fst (Config_find_program_address (net_sdk N) (ch_ncn_program_id h) ncn);
         ncn_reward_router = fst (NCNRewardRouter_find_program_address (net_sdk N) (ch_ncn_program_id h) ncn epoch);
         ncn_reward_receiver = fst (NCNRewardReceiver_find_program_address (net_sdk N) (ch_ncn_program_id h) ncn epoch);
         operator_vault_reward_router = fst (OperatorVaultRewardRouter_find_program_address (net_sdk N) (ch_ncn_program_id h) operator ncn epoch);
         operator_vault_reward_receiver = fst (OperatorVaultRewardReceiver_find_program_address (net_sdk N) (ch_ncn_program_id h) operator ncn epoch) in
     cbind (clift (DistributeOperatorVaultRewardRouteBuilder_instruction (net_borsh N)
         (Some epoch_state) (Some config) (Some ncn) (Some operator) (Some ncn_reward_router)
         (Some ncn_reward_receiver) (Some operator_vault_reward_router)
         (Some operator_vault_reward_receiver) (Some Pubkey_default) (Some epoch) [])) (\<lambda>ix.
     send_and_log_transaction N h [ix]))"

definition distribute_ncn_operator_rewards :: "'p network \<Rightarrow> cli_handler \<Rightarrow> pubkey \<Rightarrow> u64 \<Rightarrow> (world, unit) comp" where
  "distribute_ncn_operator_rewards N h operator epoch =
     cbind (handler_ncn h) (\<lambda>ncn.
     let config = fst (Config_find_program_address (net_sdk N) (ch_ncn_program_id h) ncn);
         epoch_state = fst (EpochState_find_program_address (net_sdk N) (ch_ncn_program_id h) ncn epoch);
         operator_snapshot = fst (OperatorSnapshot_find_program_address (net_sdk N) (ch_ncn_program_id h) operator ncn epoch);
         operator_vault_reward_router = fst (OperatorVaultRewardRouter_find_program_address (net_sdk N) (ch_ncn_program_id h) operator ncn epoch);
         operator_vault_reward_receiver = fst (OperatorVaultRewardReceiver_find_program_address (net_sdk N) (ch_ncn_program_id h) operator ncn epoch) in
     cbind (clift (DistributeOperatorRewardsBuilder_instruction (net_borsh N)
         (Some epoch_state) (Some config) (Some ncn) (Some operator) (Some operator_snapshot)
         (Some operator_vault_reward_router) (Some operator_vault_reward_receiver)
         (Some Pubkey_default) (Some epoch) [])) (\<lambda>ix.
     send_and_log_transaction N h [ix]))"

definition distribute_ncn_vault_rewards :: "'p network \<Rightarrow> cli_handler \<Rightarrow> pubkey \<Rightarrow> pubkey \<Rightarrow> u64 \<Rightarrow> (world, unit) comp" where
  "distribute_ncn_vault_rewards N h vault operator epoch =
     cbind (handler_ncn h) (\<lambda>ncn.
     let config = fst (Config_find_program_address (net_sdk N) (ch_ncn_program_id h) ncn);
         epoch_state = fst (EpochState_find_program_address (net_sdk N) (ch_ncn_program_id h) ncn epoch);
         operator_snapshot = fst (OperatorSnapshot_find_program_address (net_sdk N) (ch_ncn_program_id h) operator ncn epoch);
         operator_vault_reward_router = fst (OperatorVaultRewardRouter_find_program_address (net_sdk N) (ch_ncn_program_id h) operator ncn epoch);
         operator_vault_reward_receiver = fst (OperatorVaultRewardReceiver_find_program_address (net_sdk N) (ch_ncn_program_id h) operator ncn epoch) in
     cbind (clift (DistributeVaultRewardsBuilder_instruction (net_borsh N)
         (Some epoch_state) (Some config) (Some ncn) (Some operator) (Some vault)
         (Some operator_snapshot) (Some operator_vault_reward_router)
         (Some operator_vault_reward_receiver) (Some Pubkey_default) (Some epoch) [])) (\<lambda>ix.
     send_and_log_transaction N h [ix]))"

end
