(* ===== verification/Client_Cranks.thy ===== *)
theory Client_Cranks
  imports Client_Calls
begin

text \<open>
  The middleware and the cranks of \<open>cli/src/instructions.rs\<close>: functions that fetch accounts,
  create those that are missing, and drive one phase of an epoch.  The two loops that repeat a
  routing instruction until the router is no longer routing take fuel; out of fuel stands for a
  loop that does not return and is, like a panic, not caught by any caller.
\<close>

section \<open>Middleware\<close>

definition CREATE_GET_RETRIES :: nat where "CREATE_GET_RETRIES = 3"

primrec check_created_loop :: "'p network \<Rightarrow> pubkey \<Rightarrow> nat \<Rightarrow> account option \<Rightarrow> (world, account option) comp" where
  "check_created_loop N address 0 account = creturn account"
| "check_created_loop N address (Suc n) account =
     (if account = None
      then cbind (get_account N address) (\<lambda>account. check_created_loop N address n account)
      else creturn account)"

definition check_created :: "'p network \<Rightarrow> pubkey \<Rightarrow> (world, unit) comp" where
  "check_created N address =
     cbind (get_account N address) (\<lambda>account.
     cbind (check_created_loop N address CREATE_GET_RETRIES account) (\<lambda>account.
     if account = None then clift (Err (Anyhow ''Failed to get account after creation'')) else creturn ()))"

text \<open>The test all \<open>get_or_create\<close> functions share: no account, or one that is too small.\<close>

definition too_small :: "nat \<Rightarrow> account option \<Rightarrow> bool" where
  "too_small bytes account = (case account of None \<Rightarrow> True | Some a \<Rightarrow> data_len (acc_data a) < bytes)"

definition get_or_create_vault_registry :: "'p network \<Rightarrow> cli_handler \<Rightarrow> (world, vault_registry) comp" where
  "get_or_create_vault_registry N h =
     cbind (handler_ncn h) (\<lambda>ncn.
     let address = fst (VaultRegistry_find_program_address (net_sdk N) (ch_ncn_program_id h) ncn) in
     cbind (get_account N address) (\<lambda>account.
     case account of
       Some account \<Rightarrow> of_program (VaultRegistry_of (acc_data account))
     | None \<Rightarrow>
         cbind (create_vault_registry N h) (\<lambda>_.
         cbind (get_account N address) (\<lambda>account.
         case account of
           Some account \<Rightarrow> of_program (VaultRegistry_of (acc_data account))
         | None \<Rightarrow> clift (Err (Anyhow ''Failed to get VaultRegistry account''))))))"

definition get_or_create_weight_table :: "'p network \<Rightarrow> cli_handler \<Rightarrow> u64 \<Rightarrow> (world, weight_table) comp" where
  "get_or_create_weight_table N h epoch =
     cbind (handler_ncn h) (\<lambda>ncn.
     let address = fst (WeightTable_find_program_address (net_sdk N) (ch_ncn_program_id h) ncn epoch) in
     cbind (get_account N address) (\<lambda>account.
     cbind (if too_small WeightTable_SIZE account
            then cbind (create_weight_table N h epoch) (\<lambda>_. check_created N address)
            else creturn ()) (\<lambda>_.
     get_weight_table N h epoch)))"

definition get_or_create_epoch_snapshot :: "'p network \<Rightarrow> cli_handler \<Rightarrow> u64 \<Rightarrow> (world, epoch_snapshot) comp" where
  "get_or_create_epoch_snapshot N h epoch =
     cbind (handler_ncn h) (\<lambda>ncn.
     let address = fst (EpochSnapshot_find_program_address (net_sdk N) (ch_ncn_program_id h) ncn epoch) in
     cbind (get_account N address) (\<lambda>account.
     cbind (if too_small EpochSnapshot_SIZE account
            then cbind (create_epoch_snapshot N h epoch) (\<lambda>_. check_created N address)
            else creturn ()) (\<lambda>_.
     get_epoch_snapshot N h epoch)))"

definition get_or_create_ncn_reward_router ::
  "'p network \<Rightarrow> cli_handler \<Rightarrow> u64 \<Rightarrow> (world, ncn_reward_router) comp" where
  "get_or_create_ncn_reward_router N h epoch =
     cbind (handler_ncn h) (\<lambda>ncn.
     let address = fst (NCNRewardRouter_find_program_address (net_sdk N) (ch_ncn_program_id h) ncn epoch) in
     cbind (get_account N address) (\<lambda>account.
     cbind (if too_small NCNRewardRouter_SIZE account
            then cbind (create_ncn_reward_router N h epoch) (\<lambda>_. check_created N address)
            else creturn ()) (\<lambda>_.
     get_ncn_reward_router N h epoch)))"

definition get_or_create_operator_vault_reward_router ::
  "'p network \<Rightarrow> cli_handler \<Rightarrow> pubkey \<Rightarrow> u64 \<Rightarrow> (world, operator_vault_reward_router) comp" where
  "get_or_create_operator_vault_reward_router N h operator epoch =
     cbind (handler_ncn h) (\<lambda>ncn.
     let operator_snapshot =
           fst (OperatorSnapshot_find_program_address (net_sdk N) (ch_ncn_program_id h) operator ncn epoch);
         address =
           fst (OperatorVaultRewardRouter_find_program_address (net_sdk N) (ch_ncn_program_id h) operator ncn epoch) in
     cbind (get_account N operator_snapshot) (\<lambda>snapshot.
     if snapshot = None then clift (Err (Anyhow ''Invalid Route''))
     else
       cbind (get_account N address) (\<lambda>account.
       cbind (if too_small OperatorVaultRewardRouter_SIZE account
              then cbind (create_operator_vault_reward_router N h operator epoch) (\<lambda>_. check_created N address)
              else creturn ()) (\<lambda>_.
       get_operator_vault_reward_router N h operator epoch))))"

definition get_or_create_operator_snapshot ::
  "'p network \<Rightarrow> cli_handler \<Rightarrow> pubkey \<Rightarrow> u64 \<Rightarrow> (world, operator_snapshot) comp" where
  "get_or_create_operator_snapshot N h operator epoch =
     cbind (handler_ncn h) (\<lambda>ncn.
     let address =
           fst (OperatorSnapshot_find_program_address (net_sdk N) (ch_ncn_program_id h) operator ncn epoch) in
     cbind (get_account N address) (\<lambda>account.
     cbind (if too_small OperatorSnapshot_SIZE account
            then cbind (create_operator_snapshot N h operator epoch) (\<lambda>_. check_created N address)
            else creturn ()) (\<lambda>_.
     get_operator_snapshot N h operator epoch)))"

definition get_or_create_ballot_box :: "'p network \<Rightarrow> cli_handler \<Rightarrow> u64 \<Rightarrow> (world, ballot_box) comp" where
  "get_or_create_ballot_box N h epoch =
     cbind (handler_ncn h) (\<lambda>ncn.
     let address = fst (BallotBox_find_program_address (net_sdk N) (ch_ncn_program_id h) ncn epoch) in
     cbind (get_account N address) (\<lambda>account.
     cbind (if too_small BallotBox_SIZE account
            then cbind (create_ballot_box N h epoch) (\<lambda>_. check_created N address)
            else creturn ()) (\<lambda>_.
     get_ballot_box N h epoch)))"

section \<open>Vault updates\<close>

text \<open>
  \<open>full_vault_update\<close> drives the vault program; errors of its transactions are logged and
  dropped.  \<open>last_updated_index + 1\<close> cannot overflow, since \<open>u64::MAX\<close> is the other branch.
\<close>

definition starting_index :: "u64 \<Rightarrow> u64 \<Rightarrow> nat \<Rightarrow> nat" where
  "starting_index last_updated_index ncn_epoch n =
     (if last_updated_index = u64_MAX then unat ncn_epoch mod n
      else (unat last_updated_index + 1) mod n)"

definition crank_order :: "u64 \<Rightarrow> u64 \<Rightarrow> pubkey list \<Rightarrow> pubkey list" where
  "crank_order last_updated_index ncn_epoch all_operators =
     (let n = length all_operators in
      map (\<lambda>index. all_operators ! ((starting_index last_updated_index ncn_epoch n + index) mod n)) [0..<n])"

definition get_vault_update_state_tracker :: "'p network \<Rightarrow> cli_handler \<Rightarrow> pubkey \<Rightarrow> u64 \<Rightarrow> (world, u64) comp" where
  "get_vault_update_state_tracker N h vault ncn_epoch =
     get_typed N (VaultUpdateStateTracker_address N (ch_vault_program_id h) vault ncn_epoch)
       (tracker_last_updated_index N)"

definition full_vault_update :: "'p network \<Rightarrow> cli_handler \<Rightarrow> pubkey \<Rightarrow> (world, unit) comp" where
  "full_vault_update N h vault =
     cbind (handler_keypair h) (\<lambda>payer.
     cbind (rpc N (\<lambda>E _. Ok (clock_slot E))) (\<lambda>current_slot.
     let vault_config = VaultConfig_address N (ch_vault_program_id h) in
     cbind (get_typed N vault_config (\<lambda>d. vault_config_epoch N d current_slot)) (\<lambda>(ncn_epoch, epoch_length).
     cbind (get_vault N h vault) (\<lambda>vault_account.
     cbind (rpc N (\<lambda>E _. Ok (clock_slot E))) (\<lambda>current_slot.
     cbind (of_program (v_is_update_needed vault_account current_slot epoch_length)) (\<lambda>needed.
     if \<not> needed then creturn ()
     else
       let tracker = VaultUpdateStateTracker_address N (ch_vault_program_id h) vault ncn_epoch in
       cbind (get_account N tracker) (\<lambda>tracker_account.
       cbind (if tracker_account = None
              then cbind (attempt (send_and_log_transaction N h
                     [vault_instruction N (InitializeVaultUpdateStateTracker vault tracker payer vault_config)])) (\<lambda>_.
                   creturn ())
              else creturn ()) (\<lambda>_.
       cbind (get_all_sorted_operators_for_vault N h vault) (\<lambda>all_operators.
       cbind (if all_operators \<noteq> []
              then
                cbind (get_vault_update_state_tracker N h vault ncn_epoch) (\<lambda>last_updated_index.
                for_each (\<lambda>operator.
                  let delegation = VaultOperatorDelegation_address N (ch_vault_program_id h) vault operator in
                  cbind (attempt (send_and_log_transaction N h
                    [vault_instruction N (CrankVaultUpdateStateTracker vault operator vault_config delegation tracker)]))
                    (\<lambda>_. creturn ())) (crank_order last_updated_index ncn_epoch all_operators))
              else creturn ()) (\<lambda>_.
       cbind (get_account N tracker) (\<lambda>tracker_account.
       if tracker_account \<noteq> None
       then cbind (attempt (send_and_log_transaction N h
              [vault_instruction N (CloseVaultUpdateStateTracker vault tracker payer vault_config ncn_epoch)])) (\<lambda>_.
            creturn ())
       else creturn ())))))))))))"

definition get_all_vaults :: "'p network \<Rightarrow> cli_handler \<Rightarrow> (world, pubkey list) comp" where
  "get_all_vaults N h = rpc N (\<lambda>_ L. Ok (all_vault_accounts N (ch_vault_program_id h) L))"

definition update_all_vaults_in_network :: "'p network \<Rightarrow> cli_handler \<Rightarrow> (world, unit) comp" where
  "update_all_vaults_in_network N h =
     cbind (get_all_vaults N h) (\<lambda>vaults. for_each (full_vault_update N h) vaults)"

section \<open>Cranks\<close>

definition crank_register_vaults :: "'p network \<Rightarrow> cli_handler \<Rightarrow> (world, unit) comp" where
  "crank_register_vaults N h =
     cbind (get_all_vaults_in_ncn N h) (\<lambda>all_ncn_vaults.
     cbind (get_or_create_vault_registry N h) (\<lambda>registry.
     let all_registered_vaults = map ve_vault (get_valid_vault_entries registry);
         vaults_to_register = filter (\<lambda>vault. vault \<notin> set all_registered_vaults) all_ncn_vaults in
     for_each (\<lambda>vault. cbind (attempt (register_vault_cli N h vault)) (\<lambda>_. creturn ())) vaults_to_register))"

definition snapshot_operator ::
  "'p network \<Rightarrow> cli_handler \<Rightarrow> u64 \<Rightarrow> pubkey list \<Rightarrow> pubkey \<Rightarrow> (world, unit) comp" where
  "snapshot_operator N h epoch all_vaults operator =
     cbind (attempt (get_or_create_operator_snapshot N h operator epoch)) (\<lambda>result.
     case result of
       Ok snapshot \<Rightarrow>
         for_each (\<lambda>vault.
           cbind (attempt (full_vault_update N h vault)) (\<lambda>_.
           cbind (attempt (snapshot_vault_operator_delegation N h vault operator epoch)) (\<lambda>_.
           creturn ()))) (filter (\<lambda>vault. \<not> contains_vault snapshot vault) all_vaults)
     | _ \<Rightarrow> creturn ())"

definition crank_snapshot :: "'p network \<Rightarrow> cli_handler \<Rightarrow> u64 \<Rightarrow> (world, unit) comp" where
  "crank_snapshot N h epoch =
     cbind (get_vault_registry N h) (\<lambda>registry.
     cbind (get_all_operators_in_ncn N h) (\<lambda>operators.
     let all_vaults = map ve_vault (get_valid_vault_entries registry) in
     cbind (get_or_create_epoch_snapshot N h epoch) (\<lambda>snapshot.
     cbind (if \<not> EpochSnapshot_finalized snapshot
            then for_each (snapshot_operator N h epoch all_vaults) operators
            else creturn ()) (\<lambda>_.
     cbind (attempt (get_or_create_ballot_box N h epoch)) (\<lambda>_.
     creturn ())))))"

text \<open>The weather service answers with the \<open>main\<close> entries of its list.\<close>

definition get_weather_status :: "'p network \<Rightarrow> string \<Rightarrow> (world, u8) comp" where
  "get_weather_status N city W =
     (case weather_service N (w_calls W) city of
        Ok [] \<Rightarrow> (Ok 1, W)
      | Ok (main # _) \<Rightarrow>
          (Ok (if main = ''Clear'' then 0
               else if main \<in> set [''Rain'', ''Snow'', ''Drizzle'', ''Thunderstorm''] then 2
               else 1), W)
      | Err e \<Rightarrow> (Err e, W)
      | Panic \<Rightarrow> (Panic, W))"

definition operator_crank_vote :: "'p network \<Rightarrow> cli_handler \<Rightarrow> u64 \<Rightarrow> pubkey \<Rightarrow> (world, u8) comp" where
  "operator_crank_vote N h epoch operator =
     cbind (open_weather_api_key h) (\<lambda>api_key.
     cbind (get_weather_status N ''Solana Beach'') (\<lambda>weather_value.
     cbind (operator_cast_vote N h operator epoch weather_value) (\<lambda>_.
     creturn weather_value)))"

text \<open>
  \<open>operator_crank_post_vote\<close> only logs; it indexes the tallies with the ballot index of the
  operator's vote and asks for the winning ballot of a decided box.
\<close>

definition operator_crank_post_vote :: "'p network \<Rightarrow> cli_handler \<Rightarrow> u64 \<Rightarrow> pubkey \<Rightarrow> (world, unit) comp" where
  "operator_crank_post_vote N h epoch operator =
     cbind (get_ballot_box N h epoch) (\<lambda>bb.
     let operator_vote =
           (if did_operator_vote bb operator
            then find (\<lambda>v. ov_operator v = operator) (operator_votes bb) else None) in
     cbind (case operator_vote of
              Some vote \<Rightarrow>
                if unat (ov_ballot_index vote) < length (ballot_tallies bb) then creturn () else clift Panic
            | None \<Rightarrow> creturn ()) (\<lambda>_.
     if is_consensus_reached bb
     then cbind (of_ncn (get_winning_ballot bb)) (\<lambda>_. creturn ())
     else creturn ()))"

definition crank_test_vote :: "'p network \<Rightarrow> cli_handler \<Rightarrow> u64 \<Rightarrow> (world, unit) comp" where
  "crank_test_vote N h epoch =
     cbind (handler_keypair h) (\<lambda>voter.
     cbind (get_all_operators_in_ncn N h) (\<lambda>operators.
     for_each (\<lambda>operator.
       cbind (get_operator N h operator) (\<lambda>operator_account.
       if op_voter operator_account \<noteq> voter then creturn ()
       else cbind (attempt (operator_cast_vote N h operator epoch 0)) (\<lambda>_. creturn ()))) operators))"

definition close_logged :: "'p network \<Rightarrow> cli_handler \<Rightarrow> pubkey \<Rightarrow> u64 \<Rightarrow> pubkey \<Rightarrow> (world, unit) comp" where
  "close_logged N h ncn epoch address =
     cbind (attempt (close_epoch_account N h ncn epoch address)) (\<lambda>_. creturn ())"

definition crank_close_epoch_accounts :: "'p network \<Rightarrow> cli_handler \<Rightarrow> u64 \<Rightarrow> (world, unit) comp" where
  "crank_close_epoch_accounts N h epoch =
     cbind (handler_ncn h) (\<lambda>ncn.
     cbind (get_all_operators_in_ncn N h) (\<lambda>operators.
     let p = ch_ncn_program_id h in
     cbind (close_logged N h ncn epoch (fst (BallotBox_find_program_address (net_sdk N) p ncn epoch))) (\<lambda>_.
     cbind (for_each (\<lambda>operator.
              close_logged N h ncn epoch
                (fst (OperatorSnapshot_find_program_address (net_sdk N) p operator ncn epoch))) operators) (\<lambda>_.
     cbind (close_logged N h ncn epoch (fst (EpochSnapshot_find_program_address (net_sdk N) p ncn epoch))) (\<lambda>_.
     cbind (close_logged N h ncn epoch (fst (WeightTable_find_program_address (net_sdk N) p ncn epoch))) (\<lambda>_.
     cbind (close_logged N h ncn epoch (fst (EpochState_find_program_address (net_sdk N) p ncn epoch))) (\<lambda>_.
     creturn ())))))))"

definition crank_set_weight :: "'p network \<Rightarrow> cli_handler \<Rightarrow> u64 \<Rightarrow> (world, unit) comp" where
  "crank_set_weight N h epoch =
     cbind (create_weight_table N h epoch) (\<lambda>_.
     cbind (set_epoch_weights N h epoch) (\<lambda>_. creturn ()))"

definition crank_post_vote_cooldown :: "'p network \<Rightarrow> cli_handler \<Rightarrow> u64 \<Rightarrow> (world, unit) comp" where
  "crank_post_vote_cooldown N h epoch = cbind (get_consensus_result N h epoch) (\<lambda>_. creturn ())"

primrec route_ncn_rewards :: "nat \<Rightarrow> 'p network \<Rightarrow> cli_handler \<Rightarrow> u64 \<Rightarrow> (world, unit) comp" where
  "route_ncn_rewards 0 N h epoch = clift Panic"
| "route_ncn_rewards (Suc fuel) N h epoch =
     cbind (process_route_ncn_rewards_cli N h epoch) (\<lambda>_.
     cbind (get_ncn_reward_router N h epoch) (\<lambda>r.
     if NCNRewardRouter_still_routing r then route_ncn_rewards fuel N h epoch else creturn ()))"

primrec route_operator_vault_rewards_cli ::
  "nat \<Rightarrow> 'p network \<Rightarrow> cli_handler \<Rightarrow> pubkey \<Rightarrow> u64 \<Rightarrow> (world, unit) comp" where
  "route_operator_vault_rewards_cli 0 N h operator epoch = clift Panic"
| "route_operator_vault_rewards_cli (Suc fuel) N h operator epoch =
     cbind (process_route_operator_vault_rewards_cli N h operator epoch) (\<lambda>_.
     cbind (get_operator_vault_reward_router N h operator epoch) (\<lambda>r.
     if OVRR_still_routing r then route_operator_vault_rewards_cli fuel N h operator epoch else creturn ()))"

text \<open>
  The body of the loop of \<open>crank_distribute\<close> over the operators.  The router it looks routes up
  in is the one fetched before the rewards were routed.
\<close>

definition distribute_operator ::
  "nat \<Rightarrow> 'p network \<Rightarrow> cli_handler \<Rightarrow> u64 \<Rightarrow> ncn_reward_router \<Rightarrow> pubkey \<Rightarrow> (world, unit) comp" where
  "distribute_operator fuel N h epoch router operator =
     cbind (attempt (get_or_create_operator_vault_reward_router N h operator epoch)) (\<lambda>result.
     if \<not> is_ok result then creturn ()
     else case oprtator_vault_reward_route router operator of
       Ok operator_route \<Rightarrow>
         let has_rewards = (OperatorVaultRewardRoute_has_rewards operator_route = Ok True) in
         cbind (if has_rewards then attempt (distribute_operator_vault_rewards N h operator epoch)
                else creturn (Ok ())) (\<lambda>result.
         if \<not> is_ok result then creturn ()
         else
           cbind (get_operator_vault_reward_receiver_rewards N h operator epoch) (\<lambda>rewards.
           cbind (if 0 < rewards then attempt (route_operator_vault_rewards_cli fuel N h operator epoch)
                  else creturn (Ok ())) (\<lambda>result.
           if \<not> is_ok result then creturn ()
           else
             cbind (attempt (get_or_create_operator_vault_reward_router N h operator epoch)) (\<lambda>result.
             case result of
               Ok r \<Rightarrow>
                 cbind (if operator_rewards r \<noteq> 0
                        then attempt (distribute_ncn_operator_rewards N h operator epoch)
                        else creturn (Ok ())) (\<lambda>result.
                 if \<not> is_ok result then creturn ()
                 else
                   for_each (\<lambda>vault.
                     cbind (attempt (distribute_ncn_vault_rewards N h vault operator epoch)) (\<lambda>_. creturn ()))
                     (map vrr_vault (filter (\<lambda>route. \<not> VaultRewardRoute_is_empty route \<and>
                        VaultRewardRoute_has_rewards route) (vault_reward_routes r))))
             | _ \<Rightarrow> creturn ()))))
     | _ \<Rightarrow> creturn ())"

definition crank_distribute :: "nat \<Rightarrow> 'p network \<Rightarrow> cli_handler \<Rightarrow> u64 \<Rightarrow> (world, unit) comp" where
  "crank_distribute fuel N h epoch =
     cbind (get_all_operators_in_ncn N h) (\<lambda>operators.
     cbind (get_or_create_ncn_reward_router N h epoch) (\<lambda>router.
     cbind (get_ncn_reward_receiver_rewards N h epoch) (\<lambda>rewards.
     cbind (if 0 < rewards then route_ncn_rewards fuel N h epoch else creturn ()) (\<lambda>_.
     cbind (attempt (distribute_ncn_rewards N h epoch)) (\<lambda>_.
     cbind (attempt (distribute_protocol_rewards N h epoch)) (\<lambda>_.
     for_each (distribute_operator fuel N h epoch router) operators))))))"

end
