(* ===== verification/Client_Metrics.thy ===== *)
theory Client_Metrics
  imports Client_Cranks
begin

text \<open>
  The metrics of \<open>cli/src/keeper/keeper_metrics.rs\<close> and \<open>cli/src/operator/operator_metrics.rs\<close>, with
  the getters they use.  A data point has no effect of its own, but its fields are evaluated
  (the logger is set to the level \<open>info\<close>), and an error or a panic in one of them ends the
  function.
\<close>

section \<open>Getters of the metrics\<close>

definition get_account_payer :: "'p network \<Rightarrow> cli_handler \<Rightarrow> (world, account) comp" where
  "get_account_payer N h =
     cbind (handler_ncn h) (\<lambda>ncn.
     cbind (get_account N (fst (AccountPayer_find_program_address (net_sdk N) (ch_ncn_program_id h) ncn))) (\<lambda>account.
     clift (ok_or account (Anyhow ''Account not found''))))"

definition get_ncn :: "'p network \<Rightarrow> cli_handler \<Rightarrow> (world, ncn_account) comp" where
  "get_ncn N h = cbind (handler_ncn h) (\<lambda>ncn. get_typed N ncn (Ncn_of (net_sdk N)))"

definition get_ncn_operator_state ::
  "'p network \<Rightarrow> cli_handler \<Rightarrow> pubkey \<Rightarrow> (world, ncn_operator_state) comp" where
  "get_ncn_operator_state N h operator =
     cbind (handler_ncn h) (\<lambda>ncn.
     get_typed N (NcnOperatorState_address N (ch_restaking_program_id h) ncn operator)
       (NcnOperatorState_of (net_sdk N)))"

definition get_vault_ncn_ticket :: "'p network \<Rightarrow> cli_handler \<Rightarrow> pubkey \<Rightarrow> (world, slot_toggle) comp" where
  "get_vault_ncn_ticket N h vault =
     cbind (handler_ncn h) (\<lambda>ncn.
     get_typed N (VaultNcnTicket_address N (ch_vault_program_id h) vault ncn) (VaultNcnTicket_of (net_sdk N)))"

definition get_ncn_vault_ticket :: "'p network \<Rightarrow> cli_handler \<Rightarrow> pubkey \<Rightarrow> (world, slot_toggle) comp" where
  "get_ncn_vault_ticket N h vault =
     cbind (handler_ncn h) (\<lambda>ncn.
     get_typed N (NcnVaultTicket_address N (ch_restaking_program_id h) ncn vault) (NcnVaultTicket_of (net_sdk N)))"

definition get_vault_operator_delegation ::
  "'p network \<Rightarrow> cli_handler \<Rightarrow> pubkey \<Rightarrow> pubkey \<Rightarrow> (world, (u64, program_error) result) comp" where
  "get_vault_operator_delegation N h vault operator =
     get_typed N (VaultOperatorDelegation_address N (ch_vault_program_id h) vault operator)
       (delegation_total_security_of (net_sdk N))"

definition get_operator_vault_ticket ::
  "'p network \<Rightarrow> cli_handler \<Rightarrow> pubkey \<Rightarrow> pubkey \<Rightarrow> (world, slot_toggle) comp" where
  "get_operator_vault_ticket N h vault operator =
     get_typed N (OperatorVaultTicket_address N (ch_restaking_program_id h) operator vault)
       (OperatorVaultTicket_of N)"

definition get_restaking_epoch_length :: "'p network \<Rightarrow> cli_handler \<Rightarrow> (world, u64) comp" where
  "get_restaking_epoch_length N h =
     get_typed N (RestakingConfig_address N (ch_restaking_program_id h)) (epoch_length_of (net_sdk N))"

definition get_vault_epoch_length :: "'p network \<Rightarrow> cli_handler \<Rightarrow> (world, u64) comp" where
  "get_vault_epoch_length N h =
     get_typed N (VaultConfig_address N (ch_vault_program_id h)) (vault_config_epoch_length_of N)"

text \<open>\<open>NcnTickets\<close>, without the addresses; a vault is kept with its \<open>total_security\<close>.\<close>

record ncn_tickets =
  nt_slot :: u64
  nt_epoch_length :: u64
  nt_ncn :: pubkey
  nt_vault :: pubkey
  nt_vault_account :: vault_account
  nt_vault_security :: "(u64, program_error) result"
  nt_operator :: pubkey
  nt_ncn_vault_ticket :: "slot_toggle option"
  nt_vault_ncn_ticket :: "slot_toggle option"
  nt_vault_operator_delegation :: "(u64, program_error) result option"
  nt_operator_vault_ticket :: "slot_toggle option"
  nt_ncn_operator_state :: "ncn_operator_state option"

definition ok_option :: "('a, 'e) result \<Rightarrow> 'a option" where
  "ok_option r = (case r of Ok x \<Rightarrow> Some x | _ \<Rightarrow> None)"

definition NcnTickets_fetch ::
  "'p network \<Rightarrow> cli_handler \<Rightarrow> pubkey \<Rightarrow> pubkey \<Rightarrow> u64 \<Rightarrow> u64 \<Rightarrow> (world, ncn_tickets) comp" where
  "NcnTickets_fetch N h operator vault slot epoch_length =
     cbind (handler_ncn h) (\<lambda>ncn.
     cbind (get_typed N vault (\<lambda>d. and_then (Vault_of (net_sdk N) d) (\<lambda>v.
       and_then (Vault_total_security_of N d) (\<lambda>t. Ok (v, t))))) (\<lambda>(vault_account, vault_security).
     cbind (attempt (get_ncn_vault_ticket N h vault)) (\<lambda>ncn_vault.
     cbind (attempt (get_vault_ncn_ticket N h vault)) (\<lambda>vault_ncn.
     cbind (attempt (get_vault_operator_delegation N h vault operator)) (\<lambda>delegation.
     cbind (attempt (get_operator_vault_ticket N h vault operator)) (\<lambda>operator_vault.
     cbind (attempt (get_ncn_operator_state N h operator)) (\<lambda>ncn_operator.
     creturn
       \<lparr>nt_slot = slot, nt_epoch_length = epoch_length, nt_ncn = ncn, nt_vault = vault,
        nt_vault_account = vault_account, nt_vault_security = vault_security,
        nt_operator = operator, nt_ncn_vault_ticket = ok_option ncn_vault,
        nt_vault_ncn_ticket = ok_option vault_ncn,
        nt_vault_operator_delegation = ok_option delegation,
        nt_operator_vault_ticket = ok_option operator_vault,
        nt_ncn_operator_state = ok_option ncn_operator\<rparr>)))))))"

text \<open>The third component of \<open>NcnTickets::delegation\<close>, which unwraps \<open>total_security\<close>.\<close>

definition tickets_delegation :: "ncn_tickets \<Rightarrow> (u64, cli_error) result" where
  "tickets_delegation self = (case nt_vault_operator_delegation self of
       None \<Rightarrow> Ok 0
     | Some total_security \<Rightarrow> expect (ok_option total_security))"

text \<open>
  The status of each pair of accounts as a number; the addition is checked.
\<close>

definition NcnTickets_DNE :: u8 where "NcnTickets_DNE = 0"
definition NcnTickets_STAKE :: u8 where "NcnTickets_STAKE = 10"
definition NcnTickets_NO_STAKE :: u8 where "NcnTickets_NO_STAKE = 11"
definition NcnTickets_STATE_OFFSET :: u8 where "NcnTickets_STATE_OFFSET = 100"

definition opt_in_code :: "ncn_tickets \<Rightarrow> slot_toggle option \<Rightarrow> (u8, cli_error) result" where
  "opt_in_code self toggle = (case toggle of
       None \<Rightarrow> Ok NcnTickets_DNE
     | Some t \<Rightarrow> (case toggle_state t (nt_slot self) (nt_epoch_length self) of
           Ok (state, _) \<Rightarrow> expect (checked_add state NcnTickets_STATE_OFFSET)
         | Err _ \<Rightarrow> Ok NcnTickets_DNE
         | Panic \<Rightarrow> Panic))"

definition tickets_ncn_operator :: "ncn_tickets \<Rightarrow> (u8, cli_error) result" where
  "tickets_ncn_operator self = opt_in_code self (map_option nos_ncn_opt_in_state (nt_ncn_operator_state self))"

definition tickets_operator_ncn :: "ncn_tickets \<Rightarrow> (u8, cli_error) result" where
  "tickets_operator_ncn self = opt_in_code self (map_option nos_operator_opt_in_state (nt_ncn_operator_state self))"

definition tickets_ncn_vault :: "ncn_tickets \<Rightarrow> (u8, cli_error) result" where
  "tickets_ncn_vault self = opt_in_code self (nt_ncn_vault_ticket self)"

definition tickets_vault_ncn :: "ncn_tickets \<Rightarrow> (u8, cli_error) result" where
  "tickets_vault_ncn self = opt_in_code self (nt_vault_ncn_ticket self)"

definition tickets_operator_vault :: "ncn_tickets \<Rightarrow> (u8, cli_error) result" where
  "tickets_operator_vault self = opt_in_code self (nt_operator_vault_ticket self)"

definition tickets_vault_operator :: "ncn_tickets \<Rightarrow> u8" where
  "tickets_vault_operator self = (case nt_vault_operator_delegation self of
       None \<Rightarrow> NcnTickets_DNE
     | Some total_security \<Rightarrow> (case total_security of
           Ok n \<Rightarrow> if 0 < n then NcnTickets_STAKE else NcnTickets_NO_STAKE
         | _ \<Rightarrow> NcnTickets_NO_STAKE))"

text \<open>The numbers behind the lines \<open>Display\<close> writes, in their order, and the delegation.\<close>

definition tickets_fmt :: "ncn_tickets \<Rightarrow> (u8 list \<times> u64, cli_error) result" where
  "tickets_fmt self =
     and_then (tickets_ncn_operator self) (\<lambda>ncn_operator.
     and_then (tickets_operator_ncn self) (\<lambda>operator_ncn.
     and_then (tickets_ncn_vault self) (\<lambda>ncn_vault.
     and_then (tickets_vault_ncn self) (\<lambda>vault_ncn.
     and_then (tickets_operator_vault self) (\<lambda>operator_vault.
     and_then (tickets_delegation self) (\<lambda>total_security.
     Ok ([ncn_operator, operator_ncn, ncn_vault, vault_ncn, operator_vault, tickets_vault_operator self],
         total_security)))))))"

text \<open>The pairs are visited operator by operator, and an error ends the collection.\<close>

primrec fetch_tickets ::
  "'p network \<Rightarrow> cli_handler \<Rightarrow> u64 \<Rightarrow> u64 \<Rightarrow> (pubkey \<times> pubkey) list \<Rightarrow> (world, ncn_tickets list) comp" where
  "fetch_tickets N h slot epoch_length [] = creturn []"
| "fetch_tickets N h slot epoch_length (p # ps) =
     cbind (NcnTickets_fetch N h (fst p) (snd p) slot epoch_length) (\<lambda>ticket.
     cbind (fetch_tickets N h slot epoch_length ps) (\<lambda>tickets.
     creturn (ticket # tickets)))"

definition get_all_tickets :: "'p network \<Rightarrow> cli_handler \<Rightarrow> (world, ncn_tickets list) comp" where
  "get_all_tickets N h =
     cbind (get_all_vaults_in_ncn N h) (\<lambda>all_vaults.
     cbind (get_all_operators_in_ncn N h) (\<lambda>all_operators.
     cbind (get_restaking_epoch_length N h) (\<lambda>epoch_length.
     cbind (get_current_slot N) (\<lambda>slot.
     fetch_tickets N h slot epoch_length (List.product all_operators all_vaults)))))"

section \<open>Metrics of the NCN\<close>

definition emit_ncn_metrics_epoch_slot :: "'p network \<Rightarrow> cli_handler \<Rightarrow> (world, unit) comp" where
  "emit_ncn_metrics_epoch_slot N h =
     cbind (handler_ncn h) (\<lambda>ncn.
     cbind (get_current_epoch_and_slot N) (\<lambda>_. creturn ()))"

definition emit_ncn_metrics_account_payer :: "'p network \<Rightarrow> cli_handler \<Rightarrow> (world, unit) comp" where
  "emit_ncn_metrics_account_payer N h =
     cbind (get_current_epoch_and_slot N) (\<lambda>_.
     cbind (handler_ncn h) (\<lambda>ncn.
     cbind (get_account_payer N h) (\<lambda>_. creturn ())))"

definition emit_ncn_metrics_tickets :: "'p network \<Rightarrow> cli_handler \<Rightarrow> (world, unit) comp" where
  "emit_ncn_metrics_tickets N h =
     cbind (get_current_epoch_and_slot N) (\<lambda>(current_epoch, current_slot).
     cbind (get_vault_epoch_length N h) (\<lambda>vault_epoch_length.
     cbind (get_all_tickets N h) (\<lambda>all_tickets.
     for_each (\<lambda>ticket.
       cbind (clift (tickets_delegation ticket)) (\<lambda>_.
       cbind (clift (tickets_ncn_vault ticket)) (\<lambda>_.
       cbind (clift (tickets_vault_ncn ticket)) (\<lambda>_.
       cbind (clift (tickets_ncn_operator ticket)) (\<lambda>_.
       cbind (clift (tickets_operator_ncn ticket)) (\<lambda>_.
       cbind (clift (tickets_operator_vault ticket)) (\<lambda>_.
       cbind (of_program (v_is_update_needed (nt_vault_account ticket) current_slot vault_epoch_length)) (\<lambda>_.
       cbind (of_program (nt_vault_security ticket)) (\<lambda>_. creturn ()))))))))) all_tickets)))"

definition emit_ncn_metrics_vault_operator_delegation ::
  "'p network \<Rightarrow> cli_handler \<Rightarrow> (world, unit) comp" where
  "emit_ncn_metrics_vault_operator_delegation N h =
     cbind (get_current_epoch_and_slot N) (\<lambda>_.
     cbind (get_all_operators_in_ncn N h) (\<lambda>all_operators.
     cbind (get_all_vaults_in_ncn N h) (\<lambda>all_vaults.
     for_each (\<lambda>(operator, vault).
       cbind (attempt (get_vault_operator_delegation N h vault operator)) (\<lambda>result.
       case result of
         Ok total_security \<Rightarrow> cbind (of_program total_security) (\<lambda>_. creturn ())
       | _ \<Rightarrow> creturn ())) (List.product all_operators all_vaults))))"

definition emit_ncn_metrics_operators :: "'p network \<Rightarrow> cli_handler \<Rightarrow> (world, unit) comp" where
  "emit_ncn_metrics_operators N h =
     cbind (get_current_epoch_and_slot N) (\<lambda>(current_epoch, current_slot).
     cbind (get_all_operators_in_ncn N h) (\<lambda>all_operators.
     cbind (attempt (get_ballot_box N h current_epoch)) (\<lambda>_.
     for_each (\<lambda>operator. cbind (get_operator N h operator) (\<lambda>_. creturn ())) all_operators)))"

definition emit_ncn_metrics_vault_registry :: "'p network \<Rightarrow> cli_handler \<Rightarrow> (world, unit) comp" where
  "emit_ncn_metrics_vault_registry N h =
     cbind (get_current_epoch_and_slot N) (\<lambda>_.
     cbind (get_vault_registry N h) (\<lambda>registry.
     for_each (\<lambda>entry.
       if VaultEntry_is_empty entry then creturn ()
       else cbind (get_vault N h (ve_vault entry)) (\<lambda>_. creturn ())) (vault_list registry)))"

definition emit_ncn_metrics_config :: "'p network \<Rightarrow> cli_handler \<Rightarrow> (world, unit) comp" where
  "emit_ncn_metrics_config N h =
     cbind (get_current_epoch_and_slot N) (\<lambda>_.
     cbind (get_ncn_program_config N h) (\<lambda>_. creturn ()))"

definition emit_ncn_metrics :: "'p network \<Rightarrow> cli_handler \<Rightarrow> bool \<Rightarrow> (world, unit) comp" where
  "emit_ncn_metrics N h start_of_loop =
     cbind (emit_ncn_metrics_epoch_slot N h) (\<lambda>_.
     if start_of_loop
     then
       cbind (emit_ncn_metrics_tickets N h) (\<lambda>_.
       cbind (emit_ncn_metrics_vault_operator_delegation N h) (\<lambda>_.
       cbind (emit_ncn_metrics_operators N h) (\<lambda>_.
       cbind (emit_ncn_metrics_vault_registry N h) (\<lambda>_.
       cbind (emit_ncn_metrics_config N h) (\<lambda>_.
       emit_ncn_metrics_account_payer N h)))))
     else creturn ())"

section \<open>Metrics of an epoch\<close>

text \<open>\<open>MAX_OPERATORS\<close> statuses are read; a status that is no \<open>AccountStatus\<close> is an error.\<close>

definition read_statuses :: "epoch_state \<Rightarrow> (world, unit) comp" where
  "read_statuses state =
     for_each (\<lambda>i. cbind (of_ncn (eas_operator_snapshot_at (account_status state) i)) (\<lambda>_. creturn ()))
       [0..<MAX_OPERATORS]"

definition emit_epoch_metrics_state :: "'p network \<Rightarrow> cli_handler \<Rightarrow> u64 \<Rightarrow> (world, unit) comp" where
  "emit_epoch_metrics_state N h epoch =
     cbind (get_current_epoch_and_slot N) (\<lambda>(current_epoch, current_slot).
     cbind (get_is_epoch_completed N h epoch) (\<lambda>is_epoch_completed.
     if is_epoch_completed then creturn ()
     else
       cbind (get_epoch_state N h epoch) (\<lambda>state.
       cbind (get_ncn_program_config N h) (\<lambda>config.
       cbind (rpc N (\<lambda>E _. Ok (get_epoch E))) (\<lambda>epoch_schedule.
       cbind (if 0 < prog_tally (set_weight_progress state)
              then
                cbind (get_weight_table N h epoch) (\<lambda>wt.
                of_program (current_state_patched epoch_schedule state
                  (valid_slots_after_consensus config) (epochs_after_consensus_before_close config)
                  (of_nat (WeightTable_st_mint_count wt)) current_slot))
              else
                of_program (current_state epoch_schedule state
                  (valid_slots_after_consensus config) (epochs_after_consensus_before_close config)
                  current_slot)) (\<lambda>_.
       cbind (read_statuses state) (\<lambda>_.
       for_each (\<lambda>status. cbind (of_ncn (get_account_status (status (account_status state)))) (\<lambda>_. creturn ()))
         [eas_epoch_state, eas_weight_table, eas_epoch_snapshot, eas_ballot_box])))))))"

definition emit_epoch_metrics_weight_table :: "'p network \<Rightarrow> cli_handler \<Rightarrow> u64 \<Rightarrow> (world, unit) comp" where
  "emit_epoch_metrics_weight_table N h epoch =
     cbind (get_current_epoch_and_slot N) (\<lambda>_.
     cbind (attempt (get_weight_table N h epoch)) (\<lambda>_. creturn ()))"

definition emit_epoch_metrics_epoch_snapshot :: "'p network \<Rightarrow> cli_handler \<Rightarrow> u64 \<Rightarrow> (world, unit) comp" where
  "emit_epoch_metrics_epoch_snapshot N h epoch =
     cbind (get_current_epoch_and_slot N) (\<lambda>_.
     cbind (attempt (get_epoch_snapshot N h epoch)) (\<lambda>_. creturn ()))"

definition emit_epoch_metrics_operator_snapshot :: "'p network \<Rightarrow> cli_handler \<Rightarrow> u64 \<Rightarrow> (world, unit) comp" where
  "emit_epoch_metrics_operator_snapshot N h epoch =
     cbind (get_current_epoch_and_slot N) (\<lambda>_.
     cbind (get_all_operators_in_ncn N h) (\<lambda>all_operators.
     for_each (\<lambda>operator. cbind (attempt (get_operator_snapshot N h operator epoch)) (\<lambda>_. creturn ()))
       all_operators))"

text \<open>The tally of every vote is looked up by index, and the tally of the winning ballot is unwrapped.\<close>

definition emit_epoch_metrics_ballot_box :: "'p network \<Rightarrow> cli_handler \<Rightarrow> u64 \<Rightarrow> (world, unit) comp" where
  "emit_epoch_metrics_ballot_box N h epoch =
     cbind (get_current_epoch_and_slot N) (\<lambda>(current_epoch, current_slot).
     cbind (get_ncn_program_config N h) (\<lambda>config.
     cbind (attempt (get_ballot_box N h epoch)) (\<lambda>bb_result.
     cbind (attempt (get_epoch_snapshot N h epoch)) (\<lambda>snapshot_result.
     case bb_result of
       Ok bb \<Rightarrow>
         if is_ok snapshot_result
         then
           cbind (for_each (\<lambda>vote.
             if OperatorVote_is_empty vote then creturn ()
             else if unat (ov_ballot_index vote) < length (ballot_tallies bb) then creturn ()
             else clift Panic) (operator_votes bb)) (\<lambda>_.
           cbind (if has_winning_ballot bb
                  then clift (expect (ok_option (get_winning_ballot_tally bb)))
                  else creturn BallotTally_default) (\<lambda>_.
           cbind (of_ncn (is_voting_valid bb current_slot (valid_slots_after_consensus config))) (\<lambda>_.
           creturn ())))
         else creturn ()
     | _ \<Rightarrow> creturn ()))))"

definition emit_epoch_metrics :: "'p network \<Rightarrow> cli_handler \<Rightarrow> u64 \<Rightarrow> (world, unit) comp" where
  "emit_epoch_metrics N h epoch =
     cbind (emit_epoch_metrics_state N h epoch) (\<lambda>_.
     cbind (emit_epoch_metrics_weight_table N h epoch) (\<lambda>_.
     cbind (emit_epoch_metrics_epoch_snapshot N h epoch) (\<lambda>_.
     cbind (emit_epoch_metrics_operator_snapshot N h epoch) (\<lambda>_.
     emit_epoch_metrics_ballot_box N h epoch))))"

section \<open>Metrics of an operator\<close>

definition emit_ncn_metrics_operator_vote ::
  "'p network \<Rightarrow> cli_handler \<Rightarrow> u8 \<Rightarrow> u64 \<Rightarrow> pubkey \<Rightarrow> (world, unit) comp" where
  "emit_ncn_metrics_operator_vote N h vote epoch operator =
     cbind (get_current_epoch_and_slot N) (\<lambda>_. creturn ())"

definition emit_ncn_metrics_operator_post_vote ::
  "'p network \<Rightarrow> cli_handler \<Rightarrow> u64 \<Rightarrow> pubkey \<Rightarrow> (world, unit) comp" where
  "emit_ncn_metrics_operator_post_vote N h epoch operator =
     cbind (get_current_epoch_and_slot N) (\<lambda>_.
     cbind (get_ballot_box N h epoch) (\<lambda>bb.
     let operator_vote =
           (if did_operator_vote bb operator
            then find (\<lambda>v. ov_operator v = operator) (operator_votes bb) else None) in
     case operator_vote of
       Some vote \<Rightarrow>
         if unat (ov_ballot_index vote) < length (ballot_tallies bb) then creturn () else clift Panic
     | None \<Rightarrow> creturn ()))"

end
