(* ===== verification/Keeper_Loop.thy ===== *)
theory Keeper_Loop
  imports Client_Metrics
begin

text \<open>
  The keeper of \<open>cli/src/keeper\<close>: \<open>keeper_state.rs\<close> and one iteration of the loop of
  \<open>keeper_loop.rs\<close>.  The methods of \<open>KeeperState\<close> take \<open>&mut self\<close>: what they wrote before an
  error stays written, so they are computations on the state and the world together.
\<close>

section \<open>\<open>KeeperState\<close>\<close>

record keeper_state =
  ks_epoch :: u64
  ks_epoch_state_address :: pubkey
  ks_epoch_state :: "epoch_state option"
  ks_current_state :: "State option"
  ks_is_epoch_completed :: bool

definition KeeperState_default :: keeper_state where
  "KeeperState_default =
     \<lparr>ks_epoch = 0, ks_epoch_state_address = Pubkey_default, ks_epoch_state = None,
      ks_current_state = None, ks_is_epoch_completed = False\<rparr>"

type_synonym 'a on_self = "(keeper_state \<times> world, 'a) comp"

definition outside :: "(world, 'a) comp \<Rightarrow> 'a on_self" where
  "outside m = (\<lambda>(self, W). case m W of (r, W') \<Rightarrow> (r, (self, W')))"

definition assign :: "(keeper_state \<Rightarrow> keeper_state) \<Rightarrow> unit on_self" where
  "assign f = (\<lambda>(self, W). (Ok (), (f self, W)))"

definition itself :: "keeper_state on_self" where
  "itself = (\<lambda>(self, W). (Ok self, (self, W)))"

definition self_epoch_state :: "epoch_state on_self" where
  "self_epoch_state =
     cbind itself (\<lambda>self. clift (ok_or (ks_epoch_state self) (Anyhow ''Epoch state does not exist'')))"

definition self_current_state :: "State on_self" where
  "self_current_state =
     cbind itself (\<lambda>self. clift (ok_or (ks_current_state self) (Anyhow ''Current state does not exist'')))"

definition update_current_state :: "'p network \<Rightarrow> cli_handler \<Rightarrow> unit on_self" where
  "update_current_state N h =
     cbind (outside (rpc N (\<lambda>E _. Ok (clock_slot E)))) (\<lambda>current_slot.
     cbind (outside (rpc N (\<lambda>E _. Ok (get_epoch E)))) (\<lambda>epoch_schedule.
     cbind (outside (get_ncn_program_config N h)) (\<lambda>config.
     cbind self_epoch_state (\<lambda>epoch_state.
     cbind (of_program (current_state epoch_schedule epoch_state
         (valid_slots_after_consensus config) (epochs_after_consensus_before_close config)
         current_slot)) (\<lambda>state.
     assign (ks_current_state_update (\<lambda>_. Some state)))))))"

text \<open>What both \<open>KeeperState\<close> types do once the completion flag is set.\<close>

definition load_epoch_state :: "'p network \<Rightarrow> cli_handler \<Rightarrow> unit on_self" where
  "load_epoch_state N h =
     cbind itself (\<lambda>self.
     cbind (outside (get_account N (ks_epoch_state_address self))) (\<lambda>raw_account.
     case raw_account of
       None \<Rightarrow> assign (ks_epoch_state_update (\<lambda>_. None))
     | Some raw_account \<Rightarrow>
         if data_len (acc_data raw_account) < EpochState_SIZE
         then assign (ks_epoch_state_update (\<lambda>_. None))
         else
           cbind (of_program (EpochState_of (acc_data raw_account))) (\<lambda>account.
           cbind (assign (ks_epoch_state_update (\<lambda>_. Some account))) (\<lambda>_.
           update_current_state N h))))"

definition update_epoch_state :: "'p network \<Rightarrow> cli_handler \<Rightarrow> unit on_self" where
  "update_epoch_state N h =
     cbind itself (\<lambda>self.
     cbind (outside (get_is_epoch_completed N h (ks_epoch self))) (\<lambda>is_epoch_completed.
     cbind (assign (ks_is_epoch_completed_update (\<lambda>_. is_epoch_completed))) (\<lambda>_.
     if is_epoch_completed then creturn () else load_epoch_state N h)))"

definition fetch :: "'p network \<Rightarrow> cli_handler \<Rightarrow> u64 \<Rightarrow> unit on_self" where
  "fetch N h epoch =
     cbind (handler_ncn h) (\<lambda>ncn.
     cbind (assign (ks_epoch_state_address_update
       (\<lambda>_. fst (EpochState_find_program_address (net_sdk N) (ch_ncn_program_id h) ncn epoch)))) (\<lambda>_.
     cbind (assign (ks_epoch_update (\<lambda>_. epoch))) (\<lambda>_.
     update_epoch_state N h)))"

definition detect_stall :: "'p network \<Rightarrow> cli_handler \<Rightarrow> bool on_self" where
  "detect_stall N h =
     cbind itself (\<lambda>self.
     if ks_is_epoch_completed self then creturn True
     else
       cbind self_current_state (\<lambda>state.
       if state = Vote \<or> state = PostVoteCooldown then creturn True
       else if state = Distribute
       then
         cbind (outside (get_total_rewards_to_be_distributed N h (ks_epoch self))) (\<lambda>rewards.
         creturn (rewards < 10000))
       else creturn False))"

section \<open>The loop\<close>

text \<open>The variables the loops of the keeper and of the operator have, and the keeper's own.\<close>

record loop_vars =
  kp_state :: keeper_state
  kp_current_keeper_epoch :: u64
  kp_tick :: u64
  kp_world :: world

record keeper = loop_vars +
  kp_epoch_stall :: bool

type_synonym 'a keeping = "(keeper, 'a) comp"

definition keeping :: "'a on_self \<Rightarrow> ('v loop_vars_scheme, 'a) comp" where
  "keeping m K = (case m (kp_state K, kp_world K) of
     (r, (self, W)) \<Rightarrow> (r, K\<lparr>kp_state := self, kp_world := W\<rparr>))"

definition this :: "('s, 's) comp" where
  "this s = (Ok s, s)"

definition change :: "('s \<Rightarrow> 's) \<Rightarrow> ('s, unit) comp" where
  "change f s = (Ok (), f s)"

definition count_tick :: "('v loop_vars_scheme, unit) comp" where
  "count_tick =
     cbind this (\<lambda>K.
     cbind (clift (expect (checked_add (kp_tick K) 1))) (\<lambda>tick.
     change (\<lambda>K. K\<lparr>kp_tick := tick\<rparr>)))"

text \<open>\<open>keeper_epoch + 1\<close> is checked.\<close>

definition progress_epoch :: "bool \<Rightarrow> u64 \<Rightarrow> u64 \<Rightarrow> u64 \<Rightarrow> bool \<Rightarrow> (u64, cli_error) result" where
  "progress_epoch is_epoch_completed current_epoch starting_epoch keeper_epoch epoch_stall =
     (if is_epoch_completed \<or> epoch_stall
      then if keeper_epoch = current_epoch then Ok starting_epoch
           else expect (checked_add keeper_epoch 1)
      else Ok keeper_epoch)"

definition check_and_timeout_error :: "('a, cli_error) result \<Rightarrow> bool" where
  "check_and_timeout_error result = (\<not> is_ok result)"

definition keeper_start :: "cli_handler \<Rightarrow> world \<Rightarrow> keeper" where
  "keeper_start h W =
     \<lparr>kp_state = KeeperState_default, kp_current_keeper_epoch = ch_epoch h, kp_tick = 0, kp_world = W,
      kp_epoch_stall = False\<rparr>"

text \<open>Phase 0.1, which returns \<open>(start_of_loop, end_of_loop)\<close>.\<close>

definition keeper_progress :: "'p network \<Rightarrow> cli_handler \<Rightarrow> (bool \<times> bool) keeping" where
  "keeper_progress N h =
     cbind (keeping (outside (get_guaranteed_epoch_and_slot N))) (\<lambda>(current_epoch, _).
     cbind this (\<lambda>K.
     cbind (clift (progress_epoch (ks_is_epoch_completed (kp_state K)) current_epoch (ch_epoch h)
       (kp_current_keeper_epoch K) (kp_epoch_stall K))) (\<lambda>result.
     cbind (change (\<lambda>K. K\<lparr>kp_current_keeper_epoch := result, kp_epoch_stall := False\<rparr>)) (\<lambda>_.
     creturn (result = ch_epoch h, result = current_epoch)))))"

definition crank_state :: "nat \<Rightarrow> 'p network \<Rightarrow> cli_handler \<Rightarrow> u64 \<Rightarrow> State \<Rightarrow> (world, unit) comp" where
  "crank_state fuel N h epoch state = (case state of
       SetWeight \<Rightarrow> crank_set_weight N h epoch
     | Snapshot \<Rightarrow> crank_snapshot N h epoch
     | Vote \<Rightarrow> creturn ()
     | PostVoteCooldown \<Rightarrow> crank_post_vote_cooldown N h epoch
     | Distribute \<Rightarrow> crank_distribute fuel N h epoch
     | Close \<Rightarrow> crank_close_epoch_accounts N h epoch)"

text \<open>Phases 4 and 5 and the end of the iteration.\<close>

definition keeper_finish ::
  "'p network \<Rightarrow> cli_handler \<Rightarrow> bool \<Rightarrow> u64 \<Rightarrow> unit keeping" where
  "keeper_finish N h end_of_loop epoch =
     cbind (attempt (keeping (outside (emit_epoch_metrics N h epoch)))) (\<lambda>_.
     cbind (attempt (keeping (detect_stall N h))) (\<lambda>result.
     case result of
       Ok stall \<Rightarrow>
         cbind (change (\<lambda>K. K\<lparr>kp_epoch_stall := stall\<rparr>)) (\<lambda>_.
         if end_of_loop \<and> stall then count_tick else creturn ())
     | _ \<Rightarrow> creturn ()))"

text \<open>Phases 2 and 3: create a missing epoch state, or crank the state the epoch is in.\<close>

definition keeper_work ::
  "nat \<Rightarrow> 'p network \<Rightarrow> cli_handler \<Rightarrow> bool \<Rightarrow> unit keeping" where
  "keeper_work fuel N h end_of_loop =
     cbind this (\<lambda>K.
     let self = kp_state K in
     if ks_is_epoch_completed self then creturn ()
     else if ks_epoch_state self = None
     then cbind (attempt (keeping (outside (create_epoch_state N h (ks_epoch self))))) (\<lambda>_. creturn ())
     else
       cbind (clift (expect (ks_current_state self))) (\<lambda>state.
       cbind (attempt (keeping (outside (crank_state fuel N h (ks_epoch self) state)))) (\<lambda>result.
       if check_and_timeout_error result then creturn ()
       else keeper_finish N h end_of_loop (ks_epoch self))))"

definition keeper_update :: "'p network \<Rightarrow> cli_handler \<Rightarrow> unit keeping" where
  "keeper_update N h =
     cbind this (\<lambda>K.
     if ks_epoch (kp_state K) \<noteq> kp_current_keeper_epoch K
     then keeping (fetch N h (kp_current_keeper_epoch K))
     else keeping (update_epoch_state N h))"

text \<open>What follows phase 0.1.\<close>

definition keeper_phases ::
  "nat \<Rightarrow> 'p network \<Rightarrow> cli_handler \<Rightarrow> bool \<times> bool \<Rightarrow> unit keeping" where
  "keeper_phases fuel N h = (\<lambda>(start_of_loop, end_of_loop).
     cbind (attempt (keeping (outside (emit_ncn_metrics N h start_of_loop)))) (\<lambda>_.
     cbind (attempt (keeping (outside (crank_register_vaults N h)))) (\<lambda>result.
     if check_and_timeout_error result then creturn ()
     else
       cbind (attempt (keeper_update N h)) (\<lambda>result.
       if check_and_timeout_error result then creturn ()
       else keeper_work fuel N h end_of_loop))))"

definition keeper_iteration ::
  "nat \<Rightarrow> 'p network \<Rightarrow> cli_handler \<Rightarrow> unit keeping" where
  "keeper_iteration fuel N h = cbind (keeper_progress N h) (keeper_phases fuel N h)"

text \<open>\<open>startup_ncn_keeper\<close>, for a number of iterations: the loop has no exit but a panic.\<close>

primrec startup_ncn_keeper ::
  "nat \<Rightarrow> nat \<Rightarrow> 'p network \<Rightarrow> cli_handler \<Rightarrow> unit keeping" where
  "startup_ncn_keeper 0 fuel N h = creturn ()"
| "startup_ncn_keeper (Suc n) fuel N h =
     cbind (keeper_iteration fuel N h) (\<lambda>_. startup_ncn_keeper n fuel N h)"

end
