(* ===== verification/Operator_Loop.thy ===== *)
theory Operator_Loop
  imports Keeper_Loop
begin

text \<open>
  The loop of an operator, \<open>cli/src/operator\<close>: it votes once per epoch and then marks the epoch
  as done in its own state.  Its \<open>KeeperState\<close> differs from the one of the keeper in that a
  completed epoch is still loaded; the fields and the other methods are the same.
\<close>

definition operator_update_epoch_state :: "'p network \<Rightarrow> cli_handler \<Rightarrow> unit on_self" where
  "operator_update_epoch_state N h =
     cbind itself (\<lambda>self.
     cbind (outside (get_is_epoch_completed N h (ks_epoch self))) (\<lambda>is_epoch_completed.
     cbind (assign (ks_is_epoch_completed_update (\<lambda>_. is_epoch_completed))) (\<lambda>_.
     load_epoch_state N h)))"

definition operator_fetch :: "'p network \<Rightarrow> cli_handler \<Rightarrow> u64 \<Rightarrow> unit on_self" where
  "operator_fetch N h epoch =
     cbind (handler_ncn h) (\<lambda>ncn.
     cbind (assign (ks_epoch_state_address_update
       (\<lambda>_. fst (EpochState_find_program_address (net_sdk N) (ch_ncn_program_id h) ncn epoch)))) (\<lambda>_.
     cbind (assign (ks_epoch_update (\<lambda>_. epoch))) (\<lambda>_.
     operator_update_epoch_state N h)))"

definition operator_progress_epoch :: "bool \<Rightarrow> u64 \<Rightarrow> u64 \<Rightarrow> u64 \<Rightarrow> (u64, cli_error) result" where
  "operator_progress_epoch is_epoch_completed current_epoch starting_epoch keeper_epoch =
     (if is_epoch_completed
      then if keeper_epoch = current_epoch then Ok starting_epoch
           else expect (checked_add keeper_epoch 1)
      else Ok keeper_epoch)"

definition operator_start :: "cli_handler \<Rightarrow> world \<Rightarrow> loop_vars" where
  "operator_start h W =
     \<lparr>kp_state = KeeperState_default, kp_current_keeper_epoch = ch_epoch h, kp_tick = 0, kp_world = W\<rparr>"

definition operator_progress :: "'p network \<Rightarrow> cli_handler \<Rightarrow> (loop_vars, bool) comp" where
  "operator_progress N h =
     cbind (keeping (outside (get_guaranteed_epoch_and_slot N))) (\<lambda>(current_epoch, _).
     cbind this (\<lambda>K.
     cbind (clift (operator_progress_epoch (ks_is_epoch_completed (kp_state K)) current_epoch
       (ch_epoch h) (kp_current_keeper_epoch K))) (\<lambda>result.
     cbind (change (\<lambda>K. K\<lparr>kp_current_keeper_epoch := result\<rparr>)) (\<lambda>_.
     creturn (result = current_epoch)))))"

definition mark_completed :: "(loop_vars, unit) comp" where
  "mark_completed = keeping (assign (ks_is_epoch_completed_update (\<lambda>_. True)))"

definition operator_post_vote ::
  "'p network \<Rightarrow> cli_handler \<Rightarrow> u64 \<Rightarrow> pubkey \<Rightarrow> (loop_vars, unit) comp" where
  "operator_post_vote N h epoch operator =
     cbind (keeping (outside (operator_crank_post_vote N h epoch operator))) (\<lambda>_.
     cbind (attempt (keeping (outside (emit_ncn_metrics_operator_post_vote N h epoch operator)))) (\<lambda>_.
     mark_completed))"

definition operator_vote_phase ::
  "'p network \<Rightarrow> cli_handler \<Rightarrow> u64 \<Rightarrow> pubkey \<Rightarrow> (loop_vars, unit) comp" where
  "operator_vote_phase N h epoch operator =
     cbind (keeping (outside (get_ballot_box N h epoch))) (\<lambda>bb.
     cbind (keeping (outside (get_operator_snapshot N h operator epoch))) (\<lambda>snapshot.
     if can_operator_vote bb snapshot operator
     then
       cbind (attempt (keeping (outside (operator_crank_vote N h epoch operator)))) (\<lambda>result.
       let vote = (case result of Ok v \<Rightarrow> v | _ \<Rightarrow> 3) in
       cbind (attempt (keeping (outside (emit_ncn_metrics_operator_vote N h vote epoch operator)))) (\<lambda>_.
       creturn ()))
     else operator_post_vote N h epoch operator))"

definition operator_crank_state ::
  "'p network \<Rightarrow> cli_handler \<Rightarrow> u64 \<Rightarrow> pubkey \<Rightarrow> State \<Rightarrow> (loop_vars, unit) comp" where
  "operator_crank_state N h epoch operator state = (case state of
       SetWeight \<Rightarrow> creturn ()
     | Snapshot \<Rightarrow> creturn ()
     | Vote \<Rightarrow> operator_vote_phase N h epoch operator
     | PostVoteCooldown \<Rightarrow> operator_post_vote N h epoch operator
     | Distribute \<Rightarrow> operator_post_vote N h epoch operator
     | Close \<Rightarrow> operator_post_vote N h epoch operator)"

definition operator_update :: "'p network \<Rightarrow> cli_handler \<Rightarrow> (loop_vars, unit) comp" where
  "operator_update N h =
     cbind this (\<lambda>K.
     if ks_epoch (kp_state K) \<noteq> kp_current_keeper_epoch K
     then keeping (operator_fetch N h (kp_current_keeper_epoch K))
     else keeping (operator_update_epoch_state N h))"

definition operator_iteration ::
  "'p network \<Rightarrow> cli_handler \<Rightarrow> pubkey \<Rightarrow> (loop_vars, unit) comp" where
  "operator_iteration N h operator =
     cbind (operator_progress N h) (\<lambda>end_of_loop.
     cbind (attempt (operator_update N h)) (\<lambda>result.
     if check_and_timeout_error result then creturn ()
     else
       cbind this (\<lambda>K.
       if ks_epoch_state (kp_state K) = None then mark_completed
       else
         cbind (clift (expect (ks_current_state (kp_state K)))) (\<lambda>state.
         cbind (operator_crank_state N h (ks_epoch (kp_state K)) operator state) (\<lambda>_.
         if end_of_loop then count_tick else creturn ())))))"

text \<open>\<open>startup_operator_loop\<close>, for a number of iterations.\<close>

primrec startup_operator_loop ::
  "nat \<Rightarrow> 'p network \<Rightarrow> cli_handler \<Rightarrow> pubkey \<Rightarrow> (loop_vars, unit) comp" where
  "startup_operator_loop 0 N h operator = creturn ()"
| "startup_operator_loop (Suc n) N h operator =
     cbind (operator_iteration N h operator) (\<lambda>_. startup_operator_loop n N h operator)"

end
