(* ===== verification/Client_Reports.thy ===== *)
theory Client_Reports
  imports Client_Calls "HOL-Library.AList" "HOL-Library.Multiset"
begin

text \<open>
  The three commands of \<open>cli/src/handler.rs\<close> that print percentages of stake.  What they print
  is the value of the computation, one entry per line: a key with the whole percents and the
  hundredths.  Multiplication and addition are checked, a division by zero panics.  The order in
  which a \<open>HashMap\<close> is iterated is unspecified and a parameter, \<open>hash_order\<close> of the network.
\<close>

section \<open>Percentages\<close>

definition checked_times :: "'a::len word \<Rightarrow> 'a word \<Rightarrow> 'a word option" where
  "checked_times a b = (if unat a * unat b < 2 ^ LENGTH('a) then Some (a * b) else None)"

definition percent :: "u128 \<Rightarrow> u128 \<Rightarrow> (u128 \<times> u128, cli_error) result" where
  "percent stake whole =
     and_then (expect (checked_times stake 10000)) (\<lambda>x.
     if whole = 0 then Panic else Ok (x div whole div 100, x div whole mod 100))"

text \<open>\<open>sort_by\<close> with the arguments of \<open>cmp\<close> swapped: descending, equal elements keep their order.\<close>

definition sort_desc :: "('a \<Rightarrow> 'k::linorder) \<Rightarrow> 'a list \<Rightarrow> 'a list" where
  "sort_desc f xs = rev (sort_key f (rev xs))"

primrec percent_lines :: "u128 \<Rightarrow> (pubkey \<times> u128) list \<Rightarrow> ((pubkey \<times> u128 \<times> u128) list, cli_error) result" where
  "percent_lines whole [] = Ok []"
| "percent_lines whole (e # es) =
     and_then (percent (snd e) whole) (\<lambda>p.
     and_then (percent_lines whole es) (\<lambda>ps. Ok ((fst e, p) # ps)))"

section \<open>Collecting stakes\<close>

text \<open>The loop over the operators; a snapshot that cannot be fetched is skipped.\<close>

primrec collect_stakes ::
  "'p network \<Rightarrow> cli_handler \<Rightarrow> ('m \<Rightarrow> pubkey \<Rightarrow> operator_snapshot \<Rightarrow> ('m, cli_error) result) \<Rightarrow> 'm \<Rightarrow>
   pubkey list \<Rightarrow> (world, 'm) comp" where
  "collect_stakes N h f stakes [] = creturn stakes"
| "collect_stakes N h f stakes (operator # operators) =
     cbind (attempt (get_operator_snapshot N h operator (ch_epoch h))) (\<lambda>operator_snapshot.
     cbind (case operator_snapshot of Ok s \<Rightarrow> clift (f stakes operator s) | _ \<Rightarrow> creturn stakes) (\<lambda>stakes.
     collect_stakes N h f stakes operators))"

definition operator_stake ::
  "(pubkey \<times> u128) list \<Rightarrow> pubkey \<Rightarrow> operator_snapshot \<Rightarrow> ((pubkey \<times> u128) list, cli_error) result" where
  "operator_stake stakes operator s = Ok (stakes @ [(operator, stake_weight (os_stake_weights s))])"

primrec add_vault_stakes ::
  "(pubkey \<times> u128) list \<Rightarrow> vault_operator_stake_weight_t list \<Rightarrow> ((pubkey \<times> u128) list, cli_error) result" where
  "add_vault_stakes stakes [] = Ok stakes"
| "add_vault_stakes stakes (d # ds) =
     (if vosw_vault d = Pubkey_default then add_vault_stakes stakes ds
      else
        let stake_weight = stake_weight (vosw_stake_weight d) in
        and_then (case map_of stakes (vosw_vault d) of
                    Some w \<Rightarrow> expect (checked_add w stake_weight) | None \<Rightarrow> Ok stake_weight) (\<lambda>w.
        add_vault_stakes (AList.update (vosw_vault d) w stakes) ds))"

primrec insert_vault_stakes ::
  "pubkey \<Rightarrow> (pubkey \<times> (pubkey \<times> u128) list) list \<Rightarrow> vault_operator_stake_weight_t list \<Rightarrow>
   (pubkey \<times> (pubkey \<times> u128) list) list" where
  "insert_vault_stakes operator stakes [] = stakes"
| "insert_vault_stakes operator stakes (d # ds) =
     (if vosw_vault d = Pubkey_default then insert_vault_stakes operator stakes ds
      else
        let inner = (case map_of stakes (vosw_vault d) of Some m \<Rightarrow> m | None \<Rightarrow> []) in
        insert_vault_stakes operator
          (AList.update (vosw_vault d)
             (AList.update operator (stake_weight (vosw_stake_weight d)) inner) stakes) ds)"

definition iterated :: "'p network \<Rightarrow> (pubkey \<times> 'v) list \<Rightarrow> (pubkey \<times> 'v) list" where
  "iterated N m = map (\<lambda>k. (k, the (map_of m k))) (hash_order N (map fst m))"

section \<open>The commands\<close>

definition get_operator_stakes ::
  "'p network \<Rightarrow> cli_handler \<Rightarrow> (world, (pubkey \<times> u128 \<times> u128) list) comp" where
  "get_operator_stakes N h =
     cbind (get_epoch_snapshot N h (ch_epoch h)) (\<lambda>epoch_snapshot.
     cbind (get_all_operators_in_ncn N h) (\<lambda>operators.
     cbind (collect_stakes N h operator_stake [] operators) (\<lambda>operator_stakes.
     clift (percent_lines (stake_weight (es_stake_weights epoch_snapshot)) (sort_desc snd operator_stakes)))))"

definition get_vault_stakes ::
  "'p network \<Rightarrow> cli_handler \<Rightarrow> (world, (pubkey \<times> u128 \<times> u128) list) comp" where
  "get_vault_stakes N h =
     cbind (get_all_operators_in_ncn N h) (\<lambda>operators.
     cbind (get_epoch_snapshot N h (ch_epoch h)) (\<lambda>epoch_snapshot.
     cbind (collect_stakes N h (\<lambda>stakes _ s. add_vault_stakes stakes (vault_operator_stake_weight s)) [] operators)
       (\<lambda>vault_stakes.
     clift (percent_lines (stake_weight (es_stake_weights epoch_snapshot))
       (sort_desc snd (iterated N vault_stakes))))))"

text \<open>\<open>values().sum()\<close>.\<close>

primrec checked_sum :: "u128 list \<Rightarrow> (u128, cli_error) result" where
  "checked_sum [] = Ok 0"
| "checked_sum (x # xs) = and_then (checked_sum xs) (\<lambda>s. expect (checked_add x s))"

primrec with_totals ::
  "(pubkey \<times> (pubkey \<times> u128) list) list \<Rightarrow> ((pubkey \<times> u128 \<times> (pubkey \<times> u128) list) list, cli_error) result" where
  "with_totals [] = Ok []"
| "with_totals (v # vs) =
     and_then (checked_sum (map snd (snd v))) (\<lambda>whole.
     and_then (with_totals vs) (\<lambda>rest. Ok ((fst v, whole, snd v) # rest)))"

text \<open>
  The lines of one vault after another: its share of all stake, and the shares of its operators
  of the stake of the vault.
\<close>

primrec vault_blocks ::
  "'p network \<Rightarrow> u128 \<Rightarrow> (pubkey \<times> u128 \<times> (pubkey \<times> u128) list) list \<Rightarrow>
   ((pubkey \<times> (u128 \<times> u128) \<times> (pubkey \<times> u128 \<times> u128) list) list, cli_error) result" where
  "vault_blocks N whole [] = Ok []"
| "vault_blocks N whole (v # vs) =
     (let vault = fst v; vault_total = fst (snd v); operator_stakes = snd (snd v) in
      if vault_total = 0 then vault_blocks N whole vs
      else
        and_then (percent vault_total whole) (\<lambda>p.
        and_then (percent_lines vault_total
           (filter (\<lambda>e. snd e \<noteq> 0) (sort_desc snd (iterated N operator_stakes)))) (\<lambda>ps.
        and_then (vault_blocks N whole vs) (\<lambda>rest. Ok ((vault, p, ps) # rest)))))"

definition get_vault_operator_stakes ::
  "'p network \<Rightarrow> cli_handler \<Rightarrow>
   (world, (pubkey \<times> (u128 \<times> u128) \<times> (pubkey \<times> u128 \<times> u128) list) list) comp" where
  "get_vault_operator_stakes N h =
     cbind (get_all_operators_in_ncn N h) (\<lambda>operators.
     cbind (get_epoch_snapshot N h (ch_epoch h)) (\<lambda>epoch_snapshot.
     cbind (collect_stakes N h (\<lambda>stakes operator s.
         Ok (insert_vault_stakes operator stakes (vault_operator_stake_weight s))) [] operators)
       (\<lambda>vault_operator_stakes.
     cbind (clift (with_totals (iterated N vault_operator_stakes))) (\<lambda>vaults.
     clift (vault_blocks N (stake_weight (es_stake_weights epoch_snapshot))
       (sort_desc (\<lambda>v. fst (snd v)) vaults))))))"

section \<open>What the reports show\<close>

text \<open>A percentage is the floor of the share in hundredths of a percent.\<close>

lemma percent_Ok:
  "percent stake whole = Ok (a, b) \<longleftrightarrow> whole \<noteq> 0 \<and> unat stake * 10000 < 2 ^ 128 \<and>
     unat b < 100 \<and> unat a * 100 + unat b = unat stake * 10000 div unat whole"
proof -
  have x: "unat (stake * 10000) = unat stake * 10000" if "unat stake * 10000 < 2 ^ 128"
    using that by (simp add: unat_word_ariths)
  have q: "a = q div 100 \<and> b = q mod 100 \<longleftrightarrow> unat b < 100 \<and> unat a * 100 + unat b = unat q" for q :: u128
  proof
    assume "unat b < 100 \<and> unat a * 100 + unat b = unat q"
    then have e: "unat q = unat a * 100 + unat b" and "unat b < 100" by simp_all
    then have "unat a = unat q div 100" "unat b = unat q mod 100" unfolding e by simp_all
    then show "a = q div 100 \<and> b = q mod 100" by (simp add: word_unat_eq_iff unat_div unat_mod)
  qed (simp add: unat_div unat_mod)
  show ?thesis
  proof (cases "unat stake * 10000 < 2 ^ 128 \<and> whole \<noteq> 0")
    case True
    let ?q = "stake * 10000 div whole"
    have "percent stake whole = Ok (?q div 100, ?q mod 100)"
      using True by (simp add: percent_def checked_times_def)
    moreover have "unat ?q = unat stake * 10000 div unat whole" using True x by (simp add: unat_div)
    ultimately show ?thesis using True q [of ?q] by auto
  next
    case False
    then have "percent stake whole = Panic" by (auto simp: percent_def checked_times_def)
    with False show ?thesis by auto
  qed
qed

text \<open>A report has a line for every key, the greatest stakes first.\<close>

lemma sort_desc_sorted:
  "mset (sort_desc f xs) = mset xs" "sorted_wrt (\<lambda>x y. f y \<le> f x) (sort_desc f xs)"
proof -
  show "mset (sort_desc f xs) = mset xs" by (simp add: sort_desc_def)
  have "sorted_wrt (\<lambda>x y. f x \<le> f y) (sort_key f (rev xs))"
    using sorted_sort_key [of f "rev xs"] by (simp add: sorted_wrt_map)
  then show "sorted_wrt (\<lambda>x y. f y \<le> f x) (sort_desc f xs)" by (simp add: sort_desc_def sorted_wrt_rev)
qed

lemma percent_lines_Ok:
  "percent_lines whole es = Ok ls \<Longrightarrow> map fst ls = map fst es \<and>
     list_all2 (\<lambda>e l. percent (snd e) whole = Ok (snd l)) es ls"
  by (induction es arbitrary: ls) (auto simp: result_simps)

text \<open>The shares of a report never add up to more than what the stakes do.\<close>

lemma percent_lines_total:
  assumes "percent_lines whole es = Ok ls" and "sum_list (map (unat \<circ> snd) es) \<le> unat whole"
  shows "sum_list (map (\<lambda>l. unat (fst (snd l)) * 100 + unat (snd (snd l))) ls) \<le> 10000"
proof (cases "es = []")
  case False
  let ?p = "\<lambda>l. unat (fst (snd l)) * 100 + unat (snd (snd l))"
  have le: "sum_list (map ?p ls) * unat whole \<le> sum_list (map (unat \<circ> snd) es) * 10000"
    using assms(1)
  proof (induction es arbitrary: ls)
    case (Cons e es)
    then obtain a b ls' where ls: "percent (snd e) whole = Ok (a, b)" "percent_lines whole es = Ok ls'"
      "ls = (fst e, a, b) # ls'" by (auto simp: result_simps)
    have "(unat a * 100 + unat b) * unat whole \<le> unat (snd e) * 10000"
      using ls(1) by (simp add: percent_Ok)
    with Cons.IH [OF ls(2)] show ?case by (simp add: ls(3) algebra_simps)
  qed simp
  from False assms(1) have "whole \<noteq> 0"
    by (cases es; cases ls) (auto simp: result_simps percent_def split: if_splits)
  then have "0 < unat whole" by (simp add: unat_gt_0)
  moreover have "sum_list (map ?p ls) * unat whole \<le> 10000 * unat whole"
    using mult_le_mono1 [OF assms(2), of 10000] le by linarith
  ultimately show ?thesis by simp
qed (use assms(1) in simp)

text \<open>Without stake in the epoch snapshot a report of any operator panics.\<close>

lemma percent_no_stake: "percent stake 0 = Panic"
  by (simp add: percent_def checked_times_def expect_def)

end
