(* ===== verification/Client_Handler.thy ===== *)
theory Client_Handler
  imports Operator_Loop Client_Reports
begin

text \<open>
  \<open>CliHandler::handle\<close> of \<open>cli/src/handler.rs\<close>: the commands of \<open>cli/src/args.rs\<close>, without the
  two that run a loop (\<open>Keeper_Loop\<close> and \<open>Operator_Loop\<close>).  A key arrives as a string and is parsed first.  The amount of
  \<open>AdminFundAccountPayer\<close> is given in lamports.
\<close>

section \<open>Remaining functions\<close>

definition admin_fund_account_payer :: "'p network \<Rightarrow> cli_handler \<Rightarrow> u64 \<Rightarrow> (world, unit) comp" where
  "admin_fund_account_payer N h amount =
     cbind (handler_keypair h) (\<lambda>keypair.
     cbind (handler_ncn h) (\<lambda>ncn.
     let account_payer = fst (AccountPayer_find_program_address (net_sdk N) (ch_ncn_program_id h) ncn) in
     send_and_log_transaction N h [system_transfer N keypair account_payer amount]))"

text \<open>The rent of one epoch; additions and multiplications are checked.\<close>

definition times_checked :: "u64 \<Rightarrow> u64 \<Rightarrow> u64 option" where
  "times_checked a b = (if unat a * unat b < 2 ^ 64 then Some (a * b) else None)"

definition rent_exemption :: "'p network \<Rightarrow> nat \<Rightarrow> (world, u64) comp" where
  "rent_exemption N bytes = rpc N (\<lambda>E _. Ok (minimum_balance E bytes))"

definition get_total_epoch_rent_cost :: "'p network \<Rightarrow> cli_handler \<Rightarrow> (world, u64) comp" where
  "get_total_epoch_rent_cost N h =
     cbind (get_all_operators_in_ncn N h) (\<lambda>operators.
     let operator_count = of_nat (length operators) :: u64 in
     cbind (rent_exemption N EpochState_SIZE) (\<lambda>epoch_state.
     cbind (rent_exemption N WeightTable_SIZE) (\<lambda>weight_table.
     cbind (clift (expect (checked_add epoch_state weight_table))) (\<lambda>rent_cost.
     cbind (rent_exemption N EpochSnapshot_SIZE) (\<lambda>epoch_snapshot.
     cbind (clift (expect (checked_add rent_cost epoch_snapshot))) (\<lambda>rent_cost.
     cbind (rent_exemption N OperatorSnapshot_SIZE) (\<lambda>operator_snapshot.
     cbind (clift (expect (times_checked operator_snapshot operator_count))) (\<lambda>operator_snapshots.
     cbind (clift (expect (checked_add rent_cost operator_snapshots))) (\<lambda>rent_cost.
     cbind (rent_exemption N BallotBox_SIZE) (\<lambda>ballot_box.
     cbind (clift (expect (checked_add rent_cost ballot_box))) (\<lambda>rent_cost.
     cbind (rent_exemption N 0) (\<lambda>receiver.
     cbind (clift (expect (checked_add rent_cost receiver))) (\<lambda>rent_cost.
     cbind (rent_exemption N 0) (\<lambda>receiver.
     cbind (clift (expect (times_checked receiver operator_count))) (\<lambda>receivers.
     clift (expect (checked_add rent_cost receivers)))))))))))))))))"

section \<open>Commands\<close>

datatype ProgramCommand =
    CrankUpdateAllVaultsCommand
  | CrankRegisterVaultsCommand
  | CrankSnapshotCommand
  | CrankDistributeCommand
  | CrankCloseEpochAccountsCommand
  | SetEpochWeightsCommand
  | AdminCreateConfigCommand string u64 u64 u64 u64 "string option"
  | AdminRegisterStMintCommand string "u128 option"
  | AdminSetWeightCommand string u128
  | AdminSetTieBreakerCommand u8
  | AdminSetParametersCommand "u64 option" "u64 option" "u64 option" "u64 option"
  | AdminSetNewAdminCommand string bool
  | AdminFundAccountPayerCommand u64
  | CreateVaultRegistryCommand
  | RegisterVaultCommand string
  | CreateEpochStateCommand
  | CreateWeightTableCommand
  | CreateEpochSnapshotCommand
  | CreateOperatorSnapshotCommand string
  | SnapshotVaultOperatorDelegationCommand string string
  | CreateBallotBoxCommand
  | OperatorCastVoteCommand string u8
  | CreateNCNRewardRouterCommand
  | CreateOperatorVaultRewardRouterCommand string
  | RouteNCNRewardsCommand
  | RouteOperatorVaultRewardsCommand string
  | DistributeBaseOperatorVaultRewardsCommand string
  | GetNcnCommand
  | GetNcnOperatorStateCommand string
  | GetVaultNcnTicketCommand string
  | GetNcnVaultTicketCommand string
  | GetVaultOperatorDelegationCommand string string
  | GetAllTicketsCommand
  | GetAllOperatorsInNcnCommand
  | GetAllVaultsInNcnCommand
  | GetNCNProgramConfigCommand
  | GetVaultRegistryCommand
  | GetWeightTableCommand
  | GetEpochStateCommand
  | GetEpochSnapshotCommand
  | GetOperatorSnapshotCommand string
  | GetBallotBoxCommand
  | GetAccountPayerCommand
  | GetTotalEpochRentCostCommand
  | GetConsensusResultCommand
  | GetNCNRewardRouterCommand
  | GetNCNRewardReceiverAddressCommand
  | GetOperatorVaultRewardRouterCommand string
  | GetAllOperatorVaultRewardRoutersCommand
  | GetOperatorStakesCommand
  | GetVaultStakesCommand
  | GetVaultOperatorStakesCommand
  | FullUpdateVaultsCommand "string option"

definition parsed :: "'p network \<Rightarrow> string \<Rightarrow> ('s, pubkey) comp" where
  "parsed N s = clift (ok_or (pubkey_from_str N s) (Anyhow ''Error parsing key''))"

text \<open>\<open>u64::try_into::<u16>\<close>.\<close>

definition u16_try_from :: "u64 \<Rightarrow> ('s, u16) comp" where
  "u16_try_from n =
     (if unat n < 2 ^ 16 then creturn (ucast n) else clift (Err (Anyhow ''out of range'')))"

text \<open>A getter of which the command prints the result.\<close>

definition shown :: "(world, 'a) comp \<Rightarrow> (world, unit) comp" where
  "shown m = cbind m (\<lambda>_. creturn ())"

definition show_epoch_state :: "'p network \<Rightarrow> cli_handler \<Rightarrow> (world, unit) comp" where
  "show_epoch_state N h =
     cbind (get_is_epoch_completed N h (ch_epoch h)) (\<lambda>is_epoch_complete.
     if is_epoch_complete then creturn ()
     else
       cbind (get_epoch_state N h (ch_epoch h)) (\<lambda>epoch_state.
       cbind (get_current_slot N) (\<lambda>current_slot.
       cbind (get_ncn_program_config N h) (\<lambda>config.
       cbind (rpc N (\<lambda>E _. Ok (get_epoch E))) (\<lambda>epoch_schedule.
       if 0 < prog_tally (set_weight_progress epoch_state)
       then shown (get_weight_table N h (ch_epoch h))
       else creturn ())))))"

primrec handle :: "nat \<Rightarrow> 'p network \<Rightarrow> cli_handler \<Rightarrow> ProgramCommand \<Rightarrow> (world, unit) comp" where
  "handle fuel N h CrankUpdateAllVaultsCommand = update_all_vaults_in_network N h"
| "handle fuel N h CrankRegisterVaultsCommand = crank_register_vaults N h"
| "handle fuel N h CrankSnapshotCommand = crank_snapshot N h (ch_epoch h)"
| "handle fuel N h CrankDistributeCommand = crank_distribute fuel N h (ch_epoch h)"
| "handle fuel N h CrankCloseEpochAccountsCommand = crank_close_epoch_accounts N h (ch_epoch h)"
| "handle fuel N h SetEpochWeightsCommand = set_epoch_weights N h (ch_epoch h)"
| "handle fuel N h (AdminCreateConfigCommand wallet fee_bps stall_epochs valid_slots close_epochs tie_breaker) =
     cbind (case tie_breaker of
              None \<Rightarrow> creturn None
            | Some s \<Rightarrow> cbind (parsed N s) (\<lambda>k. creturn (Some k))) (\<lambda>tie_breaker.
     cbind (parsed N wallet) (\<lambda>wallet.
     cbind (u16_try_from fee_bps) (\<lambda>fee_bps.
     admin_create_config N h wallet fee_bps tie_breaker stall_epochs valid_slots close_epochs)))"
| "handle fuel N h (AdminRegisterStMintCommand vault weight) =
     cbind (parsed N vault) (\<lambda>vault. admin_register_st_mint N h vault weight)"
| "handle fuel N h (AdminSetWeightCommand vault weight) =
     cbind (parsed N vault) (\<lambda>vault. admin_set_weight N h vault (ch_epoch h) weight)"
| "handle fuel N h (AdminSetTieBreakerCommand status) = admin_set_tie_breaker N h (ch_epoch h) status"
| "handle fuel N h (AdminSetParametersCommand stall_epochs close_epochs valid_slots start_epoch) =
     cbind (admin_set_parameters N h stall_epochs close_epochs valid_slots start_epoch) (\<lambda>_.
     shown (get_ncn_program_config N h))"
| "handle fuel N h (AdminSetNewAdminCommand new_admin set_tie_breaker_admin) =
     cbind (parsed N new_admin) (\<lambda>new_admin. admin_set_new_admin N h new_admin set_tie_breaker_admin)"
| "handle fuel N h (AdminFundAccountPayerCommand amount) = admin_fund_account_payer N h amount"
| "handle fuel N h CreateVaultRegistryCommand = create_vault_registry N h"
| "handle fuel N h (RegisterVaultCommand vault) =
     cbind (parsed N vault) (\<lambda>vault. register_vault_cli N h vault)"
| "handle fuel N h CreateEpochStateCommand = create_epoch_state N h (ch_epoch h)"
| "handle fuel N h CreateWeightTableCommand = create_weight_table N h (ch_epoch h)"
| "handle fuel N h CreateEpochSnapshotCommand = create_epoch_snapshot N h (ch_epoch h)"
| "handle fuel N h (CreateOperatorSnapshotCommand operator) =
     cbind (parsed N operator) (\<lambda>operator. create_operator_snapshot N h operator (ch_epoch h))"
| "handle fuel N h (SnapshotVaultOperatorDelegationCommand vault operator) =
     cbind (parsed N vault) (\<lambda>vault.
     cbind (parsed N operator) (\<lambda>operator.
     snapshot_vault_operator_delegation N h vault operator (ch_epoch h)))"
| "handle fuel N h CreateBallotBoxCommand = create_ballot_box N h (ch_epoch h)"
| "handle fuel N h (OperatorCastVoteCommand operator status) =
     cbind (parsed N operator) (\<lambda>operator. operator_cast_vote N h operator (ch_epoch h) status)"
| "handle fuel N h CreateNCNRewardRouterCommand = create_ncn_reward_router N h (ch_epoch h)"
| "handle fuel N h (CreateOperatorVaultRewardRouterCommand operator) =
     cbind (parsed N operator) (\<lambda>operator. create_operator_vault_reward_router N h operator (ch_epoch h))"
| "handle fuel N h RouteNCNRewardsCommand = route_ncn_rewards fuel N h (ch_epoch h)"
| "handle fuel N h (RouteOperatorVaultRewardsCommand operator) =
     cbind (parsed N operator) (\<lambda>operator. route_operator_vault_rewards_cli fuel N h operator (ch_epoch h))"
| "handle fuel N h (DistributeBaseOperatorVaultRewardsCommand operator) =
     cbind (parsed N operator) (\<lambda>operator. distribute_operator_vault_rewards N h operator (ch_epoch h))"
| "handle fuel N h GetNcnCommand = shown (get_ncn N h)"
| "handle fuel N h (GetNcnOperatorStateCommand operator) =
     cbind (parsed N operator) (\<lambda>operator. shown (get_ncn_operator_state N h operator))"
| "handle fuel N h (GetVaultNcnTicketCommand vault) =
     cbind (parsed N vault) (\<lambda>vault. shown (get_vault_ncn_ticket N h vault))"
| "handle fuel N h (GetNcnVaultTicketCommand vault) =
     cbind (parsed N vault) (\<lambda>vault. shown (get_ncn_vault_ticket N h vault))"
| "handle fuel N h (GetVaultOperatorDelegationCommand vault operator) =
     cbind (parsed N vault) (\<lambda>vault.
     cbind (parsed N operator) (\<lambda>operator. shown (get_vault_operator_delegation N h vault operator)))"
| "handle fuel N h GetAllTicketsCommand =
     cbind (get_all_tickets N h) (\<lambda>all_tickets.
     for_each (\<lambda>tickets. cbind (clift (tickets_fmt tickets)) (\<lambda>_. creturn ())) all_tickets)"
| "handle fuel N h GetAllOperatorsInNcnCommand = shown (get_all_operators_in_ncn N h)"
| "handle fuel N h GetAllVaultsInNcnCommand = shown (get_all_vaults_in_ncn N h)"
| "handle fuel N h GetNCNProgramConfigCommand = shown (get_ncn_program_config N h)"
| "handle fuel N h GetVaultRegistryCommand = shown (get_vault_registry N h)"
| "handle fuel N h GetWeightTableCommand = shown (get_weight_table N h (ch_epoch h))"
| "handle fuel N h GetEpochStateCommand = show_epoch_state N h"
| "handle fuel N h GetEpochSnapshotCommand = shown (get_epoch_snapshot N h (ch_epoch h))"
| "handle fuel N h (GetOperatorSnapshotCommand operator) =
     cbind (parsed N operator) (\<lambda>operator. shown (get_operator_snapshot N h operator (ch_epoch h)))"
| "handle fuel N h GetBallotBoxCommand = shown (get_ballot_box N h (ch_epoch h))"
| "handle fuel N h GetAccountPayerCommand =
     cbind (get_account_payer N h) (\<lambda>_. shown (handler_ncn h))"
| "handle fuel N h GetTotalEpochRentCostCommand = shown (get_total_epoch_rent_cost N h)"
| "handle fuel N h GetConsensusResultCommand = shown (get_consensus_result N h (ch_epoch h))"
| "handle fuel N h GetNCNRewardRouterCommand = shown (get_ncn_reward_router N h (ch_epoch h))"
| "handle fuel N h GetNCNRewardReceiverAddressCommand = shown (get_ncn_reward_receiver N h (ch_epoch h))"
| "handle fuel N h (GetOperatorVaultRewardRouterCommand operator) =
     cbind (parsed N operator) (\<lambda>operator. shown (get_operator_vault_reward_router N h operator (ch_epoch h)))"
| "handle fuel N h GetAllOperatorVaultRewardRoutersCommand =
     cbind (get_all_operators_in_ncn N h) (\<lambda>operators.
     for_each (\<lambda>operator.
       cbind (attempt (get_operator_vault_reward_router N h operator (ch_epoch h))) (\<lambda>_. creturn ())) operators)"
| "handle fuel N h GetOperatorStakesCommand = shown (get_operator_stakes N h)"
| "handle fuel N h GetVaultStakesCommand = shown (get_vault_stakes N h)"
| "handle fuel N h GetVaultOperatorStakesCommand = shown (get_vault_operator_stakes N h)"
| "handle fuel N h (FullUpdateVaultsCommand vault) =
     cbind (case vault of
              Some s \<Rightarrow> cbind (parsed N s) (\<lambda>vault. creturn [vault])
            | None \<Rightarrow> get_all_vaults N h) (\<lambda>vaults_to_update.
     for_each (full_vault_update N h) vaults_to_update)"

end
