(* ===== verification/Client_Main.thy ===== *)
theory Client_Main
  imports Client_Handler
begin

text \<open>
  The entry of the client: \<open>main\<close> of \<open>cli/src/bin/main.rs\<close>, \<open>CliHandler::from_args\<close>, the dispatch of
  the two commands that run a loop, and the functions nothing else calls.  The arguments arrive
  parsed (\<open>clap\<close> is a package); reading a keypair file and parsing a commitment level are the
  record \<open>environment\<close>.  The URL of the server and the pauses between iterations belong to the
  network and are not among the arguments here.
\<close>

section \<open>Arguments\<close>

datatype cli_command =
    RunKeeper
  | RunOperator string
  | RunCommand ProgramCommand

record cli_args =
  ar_command :: cli_command
  ar_commitment :: string
  ar_priority_fee_micro_lamports :: u64
  ar_transaction_retries :: u64
  ar_ncn_program_id :: string
  ar_restaking_program_id :: string
  ar_vault_program_id :: string
  ar_token_program_id :: string
  ar_ncn :: "string option"
  ar_epoch :: "u64 option"
  ar_keypair_path :: "string option"
  ar_markdown_help :: bool
  ar_open_weather_api_key :: "string option"

record environment =
  commitment_from_str :: "string \<Rightarrow> bool"
  read_keypair_file :: "string \<Rightarrow> pubkey option"

definition read_keypair :: "environment \<Rightarrow> string option \<Rightarrow> ('s, pubkey option) comp" where
  "read_keypair V path = (case path of
       Some path \<Rightarrow>
         cbind (clift (ok_or (read_keypair_file V path) (Anyhow ''Failed to read keypair file''))) (\<lambda>k.
         creturn (Some k))
     | None \<Rightarrow> creturn None)"

definition from_args :: "environment \<Rightarrow> 'p network \<Rightarrow> cli_args \<Rightarrow> (world, cli_handler) comp" where
  "from_args V N args =
     cbind (if commitment_from_str V (ar_commitment args) then creturn ()
            else clift (Err (Anyhow ''ParseCommitmentLevelError''))) (\<lambda>_.
     cbind (read_keypair V (ar_keypair_path args)) (\<lambda>keypair.
     cbind (parsed N (ar_restaking_program_id args)) (\<lambda>restaking_program_id.
     cbind (parsed N (ar_vault_program_id args)) (\<lambda>vault_program_id.
     cbind (parsed N (ar_ncn_program_id args)) (\<lambda>ncn_program_id.
     cbind (parsed N (ar_token_program_id args)) (\<lambda>token_program_id.
     cbind (case ar_ncn args of
              Some s \<Rightarrow> cbind (parsed N s) (\<lambda>k. creturn (Some k))
            | None \<Rightarrow> creturn None) (\<lambda>ncn.
     let handler = \<lparr>ch_keypair = keypair, ch_restaking_program_id = restaking_program_id,
           ch_vault_program_id = vault_program_id, ch_ncn_program_id = ncn_program_id, ch_ncn = ncn,
           ch_epoch = u64_MAX, ch_retries = ar_transaction_retries args,
           ch_priority_fee_micro_lamports = ar_priority_fee_micro_lamports args,
           ch_open_weather_api_key = ar_open_weather_api_key args\<rparr> in
     cbind (case ar_epoch args of
              Some epoch \<Rightarrow> creturn epoch
            | None \<Rightarrow> rpc N (\<lambda>E _. Ok (clock_epoch E))) (\<lambda>epoch.
     creturn (handler\<lparr>ch_epoch := epoch\<rparr>)))))))))"

section \<open>The program\<close>

text \<open>The loops start with the world as it is, and leave it behind.\<close>

definition in_loop :: "(world \<Rightarrow> 's) \<Rightarrow> ('s \<Rightarrow> world) \<Rightarrow> ('s, 'a) comp \<Rightarrow> (world, 'a) comp" where
  "in_loop start world_of m W = map_prod id world_of (m (start W))"

primrec handle_command ::
  "nat \<Rightarrow> nat \<Rightarrow> 'p network \<Rightarrow> cli_handler \<Rightarrow> cli_command \<Rightarrow> (world, unit) comp" where
  "handle_command n fuel N h RunKeeper =
     in_loop (keeper_start h) kp_world (startup_ncn_keeper n fuel N h)"
| "handle_command n fuel N h (RunOperator operator) =
     cbind (parsed N operator) (\<lambda>operator.
     in_loop (operator_start h) kp_world (startup_operator_loop n N h operator))"
| "handle_command n fuel N h (RunCommand command) = handle fuel N h command"

definition main :: "nat \<Rightarrow> nat \<Rightarrow> environment \<Rightarrow> 'p network \<Rightarrow> cli_args \<Rightarrow> (world, unit) comp" where
  "main n fuel V N args =
     (if ar_markdown_help args then creturn ()
      else cbind (from_args V N args) (\<lambda>handler. handle_command n fuel N handler (ar_command args)))"

section \<open>Functions without a caller\<close>

definition EpochMarker_of :: "account_data \<Rightarrow> (epoch_marker, program_error) result" where
  "EpochMarker_of d = (case d of EpochMarkerData m \<Rightarrow> Ok m | _ \<Rightarrow> Err InvalidAccountData)"

definition get_epoch_marker :: "'p network \<Rightarrow> cli_handler \<Rightarrow> u64 \<Rightarrow> (world, epoch_marker) comp" where
  "get_epoch_marker N h epoch =
     cbind (handler_ncn h) (\<lambda>ncn.
     get_typed N (fst (EpochMarker_find_program_address (net_sdk N) (ch_ncn_program_id h) ncn epoch))
       EpochMarker_of)"

definition get_consensus_result_instruction :: "'p network \<Rightarrow> cli_handler \<Rightarrow> u64 \<Rightarrow> (world, unit) comp" where
  "get_consensus_result_instruction N h epoch = cbind (get_consensus_result N h epoch) (\<lambda>_. creturn ())"

text \<open>The slot is computed with checked arithmetic; the states are unwrapped.\<close>

definition DEFAULT_SLOTS_PER_EPOCH :: u64 where "DEFAULT_SLOTS_PER_EPOCH = 432000"

primrec active_operators :: "'p network \<Rightarrow> cli_handler \<Rightarrow> u64 \<Rightarrow> pubkey list \<Rightarrow> (world, pubkey list) comp" where
  "active_operators N h active_slot [] = creturn []"
| "active_operators N h active_slot (operator # operators) =
     cbind (attempt (get_ncn_operator_state N h operator)) (\<lambda>result.
     case result of
       Ok state \<Rightarrow>
         cbind (clift (expect (ok_option (toggle_state (nos_ncn_opt_in_state state) active_slot DEFAULT_SLOTS_PER_EPOCH))))
           (\<lambda>(_, active).
         cbind (active_operators N h active_slot operators) (\<lambda>rest.
         creturn (if active then operator # rest else rest)))
     | _ \<Rightarrow> active_operators N h active_slot operators)"

definition get_all_active_operators_in_ncn ::
  "'p network \<Rightarrow> cli_handler \<Rightarrow> u64 \<Rightarrow> (world, pubkey list) comp" where
  "get_all_active_operators_in_ncn N h epoch =
     cbind (clift (expect (times_checked epoch DEFAULT_SLOTS_PER_EPOCH))) (\<lambda>first_slot.
     cbind (clift (expect (checked_add first_slot 1))) (\<lambda>active_slot.
     cbind (get_all_operators_in_ncn N h) (\<lambda>operators.
     active_operators N h active_slot operators)))"

section \<open>What the arguments give\<close>

text \<open>
  \<open>from_args\<close> builds a handler exactly when every string can be parsed and, without an epoch, the
  server answers; it asks the server for nothing else.
\<close>

definition args_ok :: "environment \<Rightarrow> 'p network \<Rightarrow> cli_args \<Rightarrow> bool" where
  "args_ok V N args \<longleftrightarrow> commitment_from_str V (ar_commitment args) \<and>
     (\<forall>path. ar_keypair_path args = Some path \<longrightarrow> read_keypair_file V path \<noteq> None) \<and>
     list_all (\<lambda>s. pubkey_from_str N s \<noteq> None)
       [ar_restaking_program_id args, ar_vault_program_id args, ar_ncn_program_id args, ar_token_program_id args] \<and>
     (\<forall>s. ar_ncn args = Some s \<longrightarrow> pubkey_from_str N s \<noteq> None)"

lemma comp_Ok:
  "cbind m f s = (Ok y, s') \<longleftrightarrow> (\<exists>x t. m s = (Ok x, t) \<and> f x t = (Ok y, s'))"
  "clift r s = (Ok y, s') \<longleftrightarrow> r = Ok y \<and> s' = s" "creturn y' s = (Ok y, s') \<longleftrightarrow> y' = y \<and> s' = s"
  "parsed N k s = (Ok p, s') \<longleftrightarrow> pubkey_from_str N k = Some p \<and> s' = s"
  by (auto simp: cbind_def clift_def creturn_def parsed_def result_simps split: prod.split result.split)

lemma read_keypair_Ok:
  "read_keypair V path s = (Ok k, s') \<longleftrightarrow> s' = s \<and> k = Option.bind path (read_keypair_file V) \<and>
     (\<forall>p. path = Some p \<longrightarrow> read_keypair_file V p \<noteq> None)"
  by (auto simp: read_keypair_def comp_Ok result_simps split: option.split)

lemma from_args_Ok:
  "from_args V N args W = (Ok h, W') \<longleftrightarrow>
     args_ok V N args \<and>
     (\<exists>epoch. (case ar_epoch args of Some e \<Rightarrow> creturn e | None \<Rightarrow> rpc N (\<lambda>E _. Ok (clock_epoch E))) W = (Ok epoch, W') \<and>
        h = \<lparr>ch_keypair = Option.bind (ar_keypair_path args) (read_keypair_file V),
          ch_restaking_program_id = the (pubkey_from_str N (ar_restaking_program_id args)),
          ch_vault_program_id = the (pubkey_from_str N (ar_vault_program_id args)),
          ch_ncn_program_id = the (pubkey_from_str N (ar_ncn_program_id args)),
          ch_ncn = Option.bind (ar_ncn args) (pubkey_from_str N), ch_epoch = epoch,
          ch_retries = ar_transaction_retries args,
          ch_priority_fee_micro_lamports = ar_priority_fee_micro_lamports args,
          ch_open_weather_api_key = ar_open_weather_api_key args\<rparr>)"
proof -
  have ncn: "(case ar_ncn args of Some s \<Rightarrow> cbind (parsed N s) (\<lambda>k. creturn (Some k)) | None \<Rightarrow> creturn None) w = (Ok x, w') \<longleftrightarrow>
      w' = w \<and> x = Option.bind (ar_ncn args) (pubkey_from_str N) \<and> (\<forall>s. ar_ncn args = Some s \<longrightarrow> pubkey_from_str N s \<noteq> None)"
    for w w' :: world and x by (auto simp: comp_Ok split: option.split)
  have level: "(if c then creturn () else clift (Err e)) w = (Ok x, w') \<longleftrightarrow> c \<and> w' = w" for c e x and w w' :: world
    by (simp add: comp_Ok)
  show ?thesis
    unfolding from_args_def args_ok_def comp_Ok(1) ncn level read_keypair_Ok comp_Ok(4) Let_def
    by (auto simp: comp_Ok(3))
qed

text \<open>A code tells whether a pair of accounts is there, and in which state.\<close>

lemma opt_in_code_DNE:
  assumes "\<And>t s. toggle = Some t \<Longrightarrow> toggle_state t (nt_slot self) (nt_epoch_length self) = Ok s \<Longrightarrow> unat (fst s) < 4"
  shows "opt_in_code self toggle = Ok NcnTickets_DNE \<longleftrightarrow>
    (\<forall>t. toggle = Some t \<longrightarrow> (\<exists>e. toggle_state t (nt_slot self) (nt_epoch_length self) = Err e))"
  using assms
  by (auto simp: opt_in_code_def NcnTickets_DNE_def NcnTickets_STATE_OFFSET_def expect_def checked_add_def word_unat_eq_iff
      unat_word_ariths split: option.splits result.splits if_splits)

end
