(* ===== verification/Client_Sends.thy ===== *)
theory Client_Sends
  imports Client_Main
begin

text \<open>
  What the client's computations do to the world: they only add RPC calls and transactions, and
  every transaction they add satisfies a given property.  One rule per combinator and one lemma
  per function are collected in \<open>sends_intros\<close>; the properties of whole loops follow from them.
\<close>

named_theorems sends_intros \<open>transactions of computations\<close>

section \<open>The combinators\<close>

text \<open>The state of a computation contains the world; \<open>v\<close> selects it.\<close>

definition sends_on :: "('s \<Rightarrow> world) \<Rightarrow> (instruction list \<Rightarrow> bool) \<Rightarrow> ('s, 'a) comp \<Rightarrow> bool" where
  "sends_on v P m \<longleftrightarrow> (\<forall>s. w_calls (v s) \<le> w_calls (v (snd (m s))) \<and>
     (\<exists>txs. w_sent (v (snd (m s))) = w_sent (v s) @ txs \<and> list_all P txs))"

abbreviation sends :: "(instruction list \<Rightarrow> bool) \<Rightarrow> (world, 'a) comp \<Rightarrow> bool" where
  "sends \<equiv> sends_on (\<lambda>W. W)"

lemma sendsD:
  assumes "sends_on v P m"
  shows "w_calls (v W) \<le> w_calls (v (snd (m W)))"
    and "\<exists>txs. w_sent (v (snd (m W))) = w_sent (v W) @ txs \<and> list_all P txs"
  using assms by (auto simp: sends_on_def)

lemma sends_creturn [sends_intros]: "sends_on v P (creturn x)"
  by (simp add: sends_on_def creturn_def)

lemma sends_clift [sends_intros]: "sends_on v P (clift r)"
  by (simp add: sends_on_def clift_def)

lemma sends_of [sends_intros]: "sends_on v P (of_program r)" "sends_on v P (of_ncn r')"
  by (simp_all add: of_program_def of_ncn_def sends_clift)

lemma sends_handler [sends_intros]:
  "sends_on v P (handler_ncn h)" "sends_on v P (handler_keypair h)" "sends_on v P (open_weather_api_key h)"
  by (simp_all add: handler_ncn_def handler_keypair_def open_weather_api_key_def sends_clift)

lemma sends_cbind [sends_intros]:
  assumes m: "sends_on v P m" and f: "\<And>x. (\<exists>W. fst (m W) = Ok x) \<Longrightarrow> sends_on v P (f x)"
  shows "sends_on v P (cbind m f)"
proof (unfold sends_on_def, intro allI)
  fix W
  obtain r W' where mW: "m W = (r, W')" by (cases "m W")
  note first = sendsD [OF m, of W, unfolded mW snd_conv]
  show "w_calls (v W) \<le> w_calls (v (snd (cbind m f W))) \<and>
      (\<exists>txs. w_sent (v (snd (cbind m f W))) = w_sent (v W) @ txs \<and> list_all P txs)"
  proof (cases r)
    case (Ok x)
    then have "sends_on v P (f x)" using mW by (intro f exI [of _ W]) simp
    from sendsD [OF this, of W'] first show ?thesis
      using mW Ok by (fastforce simp: cbind_def)
  qed (use first mW in \<open>simp_all add: cbind_def\<close>)
qed

lemma sends_attempt [sends_intros]: "sends_on v P m \<Longrightarrow> sends_on v P (attempt m)"
  by (simp add: sends_on_def attempt_def split: result.split prod.split) (metis snd_conv)

lemma sends_for_each [sends_intros]:
  "(\<And>x. x \<in> set xs \<Longrightarrow> sends_on v P (f x)) \<Longrightarrow> sends_on v P (for_each f xs)"
  by (induction xs) (auto intro!: sends_intros)

lemma sends_if [sends_intros]:
  "(c \<Longrightarrow> sends_on v P m) \<Longrightarrow> (\<not> c \<Longrightarrow> sends_on v P m') \<Longrightarrow> sends_on v P (if c then m else m')"
  by simp

lemma sends_Let [sends_intros]: "(\<And>x. x = t \<Longrightarrow> sends_on v P (f x)) \<Longrightarrow> sends_on v P (let x = t in f x)"
  by simp

lemma sends_case_prod [sends_intros]: "(\<And>a b. sends_on v P (f a b)) \<Longrightarrow> sends_on v P (case p of (a, b) \<Rightarrow> f a b)"
  by (cases p) simp

lemma sends_case_option [sends_intros]:
  "sends_on v P m \<Longrightarrow> (\<And>y. sends_on v P (f y)) \<Longrightarrow> sends_on v P (case x of None \<Rightarrow> m | Some y \<Rightarrow> f y)"
  by (cases x) simp_all

lemma sends_case_result [sends_intros]:
  "(\<And>y. sends_on v P (f y)) \<Longrightarrow> (\<And>e. sends_on v P (g e)) \<Longrightarrow> sends_on v P p \<Longrightarrow>
   sends_on v P (case r of Ok y \<Rightarrow> f y | Err e \<Rightarrow> g e | Panic \<Rightarrow> p)"
  by (cases r) simp_all

lemma sends_rpc [sends_intros]: "sends P (rpc N q)"
  by (simp add: sends_on_def rpc_def Let_def)

lemma sends_rpc_send [sends_intros]: "P ixs \<Longrightarrow> sends P (rpc_send N payer ixs)"
  by (simp add: sends_on_def rpc_send_def Let_def split: result.split)

lemma sends_retry_loop [sends_intros]:
  "P ixs \<Longrightarrow> sends P m \<Longrightarrow> sends P (retry_loop N payer ixs m n)"
  by (induction n) (auto intro!: sends_intros)

lemma sends_send [sends_intros]:
  assumes "P ixs" and "P (set_compute_unit_price N (ch_priority_fee_micro_lamports h) # ixs)"
  shows "sends P (send_and_log_transaction N h ixs)"
  unfolding send_and_log_transaction_def send_transactions_def
  using assms by (intro sends_intros) simp_all

section \<open>The getters\<close>

lemma sends_get_account [sends_intros]: "sends P (get_account N k)"
  unfolding get_account_def by (rule sends_rpc)

lemma sends_epoch_and_slot [sends_intros]: "sends P (get_current_epoch_and_slot N)"
  unfolding get_current_epoch_and_slot_def get_current_epoch_def get_current_slot_def by (intro sends_intros)

lemma sends_guaranteed_loop [sends_intros]: "sends P (guaranteed_loop N n)"
  by (induction n) (auto intro!: sends_intros)

lemma sends_guaranteed [sends_intros]: "sends P (get_guaranteed_epoch_and_slot N)"
  unfolding get_guaranteed_epoch_and_slot_def by (intro sends_intros)

lemma sends_get_typed [sends_intros]: "sends P (get_typed N address view)"
  unfolding get_typed_def by (intro sends_intros)

lemma sends_program_getters [sends_intros]:
  "sends P (get_ncn_program_config N h)" "sends P (get_vault_registry N h)"
  "sends P (get_epoch_state N h epoch)" "sends P (get_weight_table N h epoch)"
  "sends P (get_epoch_snapshot N h epoch)" "sends P (get_operator_snapshot N h operator epoch)"
  "sends P (get_ballot_box N h epoch)" "sends P (get_consensus_result N h epoch)"
  "sends P (get_is_epoch_completed N h epoch)" "sends P (get_ncn_reward_router N h epoch)"
  "sends P (get_operator_vault_reward_router N h operator epoch)"
  unfolding get_ncn_program_config_def get_vault_registry_def get_epoch_state_def
    get_weight_table_def get_epoch_snapshot_def get_operator_snapshot_def get_ballot_box_def
    get_consensus_result_def get_is_epoch_completed_def get_ncn_reward_router_def
    get_operator_vault_reward_router_def
  by (intro sends_intros)+

lemma sends_other_getters [sends_intros]:
  "sends P (get_vault N h vault)" "sends P (get_operator N h operator)"
  "sends P (get_all_operators_in_ncn N h)" "sends P (get_all_vaults_in_ncn N h)"
  "sends P (get_all_sorted_operators_for_vault N h vault)"
  unfolding get_vault_def get_operator_def get_all_operators_in_ncn_def get_all_vaults_in_ncn_def
    get_all_sorted_operators_for_vault_def
  by (intro sends_intros)+

lemma sends_receivers [sends_intros]:
  "sends P (get_ncn_reward_receiver N h epoch)"
  "sends P (get_operator_vault_reward_receiver N h operator epoch)"
  "sends P (get_receiver_rewards N address)"
  unfolding get_ncn_reward_receiver_def get_operator_vault_reward_receiver_def get_receiver_rewards_def
  by (intro sends_intros)+

lemma sends_receiver_rewards [sends_intros]:
  "sends P (get_ncn_reward_receiver_rewards N h epoch)"
  "sends P (get_operator_vault_reward_receiver_rewards N h operator epoch)"
  unfolding get_ncn_reward_receiver_rewards_def get_operator_vault_reward_receiver_rewards_def
  by (intro sends_intros)+

lemma sends_add_receiver_rewards [sends_intros]:
  "sends P (add_receiver_rewards N h epoch operators amount)"
  by (induction operators arbitrary: amount) (auto intro!: sends_intros)

lemma sends_total_rewards [sends_intros]: "sends P (get_total_rewards_to_be_distributed N h epoch)"
  unfolding get_total_rewards_to_be_distributed_def by (intro sends_intros)

lemma sends_handler_getters [sends_intros]:
  "sends P (get_current_slot N)" "sends P (get_account_payer N h)" "sends P (get_ncn N h)"
  "sends P (get_ncn_operator_state N h operator)" "sends P (get_vault_ncn_ticket N h vault)"
  "sends P (get_ncn_vault_ticket N h vault)" "sends P (get_vault_operator_delegation N h vault operator)"
  "sends P (get_operator_vault_ticket N h vault operator)" "sends P (get_restaking_epoch_length N h)"
  "sends P (get_vault_epoch_length N h)"
  unfolding get_current_slot_def get_account_payer_def get_ncn_def get_ncn_operator_state_def
    get_vault_ncn_ticket_def get_ncn_vault_ticket_def get_vault_operator_delegation_def
    get_operator_vault_ticket_def get_restaking_epoch_length_def get_vault_epoch_length_def
  by (intro sends_intros)+

section \<open>The metrics\<close>

lemma sends_tickets_fetch [sends_intros]: "sends P (NcnTickets_fetch N h operator vault slot epoch_length)"
  unfolding NcnTickets_fetch_def by (intro sends_intros)

lemma sends_fetch_tickets [sends_intros]: "sends P (fetch_tickets N h slot epoch_length ps)"
  by (induction ps) (auto intro!: sends_intros)

lemma sends_get_all_tickets [sends_intros]: "sends P (get_all_tickets N h)"
  unfolding get_all_tickets_def by (intro sends_intros)

lemma sends_emit_ncn_metrics [sends_intros]: "sends P (emit_ncn_metrics N h start_of_loop)"
  unfolding emit_ncn_metrics_def emit_ncn_metrics_epoch_slot_def emit_ncn_metrics_account_payer_def
    emit_ncn_metrics_tickets_def emit_ncn_metrics_vault_operator_delegation_def
    emit_ncn_metrics_operators_def emit_ncn_metrics_vault_registry_def emit_ncn_metrics_config_def
  by (intro sends_intros)

lemma sends_emit_epoch_metrics [sends_intros]: "sends P (emit_epoch_metrics N h epoch)"
  unfolding emit_epoch_metrics_def emit_epoch_metrics_state_def emit_epoch_metrics_weight_table_def
    emit_epoch_metrics_epoch_snapshot_def emit_epoch_metrics_operator_snapshot_def
    emit_epoch_metrics_ballot_box_def read_statuses_def
  by (intro sends_intros)

lemma sends_operator_metrics [sends_intros]:
  "sends P (emit_ncn_metrics_operator_vote N h vote epoch operator)"
  "sends P (emit_ncn_metrics_operator_post_vote N h epoch operator)"
  unfolding emit_ncn_metrics_operator_vote_def emit_ncn_metrics_operator_post_vote_def
  by (intro sends_intros)+

section \<open>The transactions\<close>

text \<open>
  An instruction for the NCN program whose data is that of an \<open>NCNProgramInstruction\<close>, one that
  the client's dependencies build, and transactions of such instructions.
\<close>

definition ncn_ix :: "borsh \<Rightarrow> instruction \<Rightarrow> bool" where
  "ncn_ix B ix \<longleftrightarrow> ix_program_id ix = NCN_PROGRAM_ID \<and> (\<exists>i. ix_data ix = variant_bytes B i)"

definition foreign_ix :: "'p network \<Rightarrow> instruction \<Rightarrow> bool" where
  "foreign_ix N ix \<longleftrightarrow> (\<exists>n. ix = set_compute_unit_limit N n) \<or> (\<exists>p. ix = set_compute_unit_price N p) \<or>
     (\<exists>c. ix = vault_instruction N c) \<or> (\<exists>a b n. ix = system_transfer N a b n)"

definition tx_ok :: "'p network \<Rightarrow> instruction list \<Rightarrow> bool" where
  "tx_ok N ixs \<longleftrightarrow> list_all (\<lambda>ix. ncn_ix (net_borsh N) ix \<or> foreign_ix N ix) ixs"

lemmas client_builders =
  InitializeConfigBuilder_instruction_def InitializeVaultRegistryBuilder_instruction_def
  ReallocVaultRegistryBuilder_instruction_def RegisterVaultBuilder_instruction_def
  InitializeEpochStateBuilder_instruction_def InitializeWeightTableBuilder_instruction_def
  SetEpochWeightsBuilder_instruction_def ReallocWeightTableBuilder_instruction_def
  InitializeEpochSnapshotBuilder_instruction_def InitializeOperatorSnapshotBuilder_instruction_def
  SnapshotVaultOperatorDelegationBuilder_instruction_def
  InitializeBallotBoxBuilder_instruction_def ReallocBallotBoxBuilder_instruction_def
  CastVoteBuilder_instruction_def InitializeNCNRewardRouterBuilder_instruction_def
  ReallocNCNRewardRouterBuilder_instruction_def RouteNCNRewardsBuilder_instruction_def
  DistributeProtocolRewardsBuilder_instruction_def DistributeNCNRewardsBuilder_instruction_def
  InitializeOperatorVaultRewardRouterBuilder_instruction_def
  DistributeOperatorVaultRewardRouteBuilder_instruction_def
  RouteOperatorVaultRewardsBuilder_instruction_def CloseEpochAccountBuilder_instruction_def
  DistributeOperatorRewardsBuilder_instruction_def DistributeVaultRewardsBuilder_instruction_def
  AdminSetParametersBuilder_instruction_def AdminSetNewAdminBuilder_instruction_def
  AdminSetTieBreakerBuilder_instruction_def AdminSetWeightBuilder_instruction_def
  AdminRegisterStMintBuilder_instruction_def AdminSetStMintBuilder_instruction_def

lemma ncn_ix_built: "client_built B ix i K \<Longrightarrow> ncn_ix B ix"
  unfolding ncn_ix_def using client_built_program client_built_data by blast

lemma foreign_ix_simps [simp]:
  "foreign_ix N (set_compute_unit_limit N n)" "foreign_ix N (set_compute_unit_price N p)"
  "foreign_ix N (vault_instruction N c)" "foreign_ix N (system_transfer N k k' amount)"
  unfolding foreign_ix_def by blast+

lemma tx_ok_simps [simp]:
  "tx_ok N []"
  "tx_ok N (ix # ixs) \<longleftrightarrow> (ncn_ix (net_borsh N) ix \<or> foreign_ix N ix) \<and> tx_ok N ixs"
  by (simp_all add: tx_ok_def)

lemma tx_ok_replicate [simp]: "tx_ok N (replicate n ix) \<longleftrightarrow> n = 0 \<or> tx_ok N [ix]"
  by (induction n) auto

lemmas built_ix = client_builders clift_def unwrap_or_def
lemmas built_intros = ncn_ix_built client_built.intros

lemma sends_admin [sends_intros]:
  "sends (tx_ok N) (admin_create_config N h wallet fee_bps tie_breaker stall_epochs valid_slots close_epochs)"
  "sends (tx_ok N) (admin_register_st_mint N h vault weight)"
  "sends (tx_ok N) (admin_set_weight_with_st_mint N h st_mint epoch weight')"
  "sends (tx_ok N) (admin_set_tie_breaker N h epoch status)"
  "sends (tx_ok N) (admin_set_new_admin N h new_admin set_tie_breaker_admin)"
  "sends (tx_ok N) (admin_set_parameters N h stall_epochs' close_epochs' valid_slots' start_epoch)"
  unfolding admin_create_config_def admin_register_st_mint_def admin_set_weight_with_st_mint_def
    admin_set_tie_breaker_def admin_set_new_admin_def admin_set_parameters_def
  by (intro sends_intros; auto simp: built_ix intro: built_intros)+

lemma sends_creations [sends_intros]:
  "sends (tx_ok N) (create_vault_registry N h)"
  "sends (tx_ok N) (register_vault_cli N h vault)"
  "sends (tx_ok N) (create_epoch_state N h epoch)"
  "sends (tx_ok N) (create_weight_table N h epoch)"
  "sends (tx_ok N) (set_epoch_weights N h epoch)"
  "sends (tx_ok N) (create_epoch_snapshot N h epoch)"
  "sends (tx_ok N) (create_operator_snapshot N h operator epoch)"
  "sends (tx_ok N) (snapshot_vault_operator_delegation N h vault operator epoch)"
  "sends (tx_ok N) (create_ballot_box N h epoch)"
  "sends (tx_ok N) (create_ncn_reward_router N h epoch)"
  "sends (tx_ok N) (create_operator_vault_reward_router N h operator epoch)"
  unfolding create_vault_registry_def register_vault_cli_def create_epoch_state_def
    create_weight_table_def set_epoch_weights_def create_epoch_snapshot_def
    create_operator_snapshot_def snapshot_vault_operator_delegation_def
    create_ballot_box_def create_ncn_reward_router_def
    create_operator_vault_reward_router_def
  by (intro sends_intros; auto simp: built_ix intro: built_intros)+

lemma sends_distribution [sends_intros]:
  "sends (tx_ok N) (close_epoch_account N h ncn epoch account_to_close)"
  "sends (tx_ok N) (operator_cast_vote N h operator epoch status)"
  "sends (tx_ok N) (process_route_ncn_rewards_cli N h epoch)"
  "sends (tx_ok N) (distribute_ncn_rewards N h epoch)"
  "sends (tx_ok N) (distribute_protocol_rewards N h epoch)"
  "sends (tx_ok N) (process_route_operator_vault_rewards_cli N h operator epoch)"
  "sends (tx_ok N) (distribute_operator_vault_rewards N h operator epoch)"
  "sends (tx_ok N) (distribute_ncn_operator_rewards N h operator epoch)"
  "sends (tx_ok N) (distribute_ncn_vault_rewards N h vault operator epoch)"
  unfolding close_epoch_account_def operator_cast_vote_def process_route_ncn_rewards_cli_def
    distribute_ncn_rewards_def distribute_protocol_rewards_def
    process_route_operator_vault_rewards_cli_def distribute_operator_vault_rewards_def
    distribute_ncn_operator_rewards_def distribute_ncn_vault_rewards_def
  by (intro sends_intros; auto simp: built_ix intro: built_intros)+

lemma sends_check_created [sends_intros]: "sends P (check_created N address)"
proof -
  have "sends P (check_created_loop N address n account)" for n account
    by (induction n arbitrary: account) (auto intro!: sends_intros)
  then show ?thesis
    unfolding check_created_def by (intro sends_intros)
qed

lemma sends_get_or_create [sends_intros]:
  "sends (tx_ok N) (get_or_create_vault_registry N h)"
  "sends (tx_ok N) (get_or_create_weight_table N h epoch)"
  "sends (tx_ok N) (get_or_create_epoch_snapshot N h epoch)"
  "sends (tx_ok N) (get_or_create_ncn_reward_router N h epoch)"
  "sends (tx_ok N) (get_or_create_operator_vault_reward_router N h operator epoch)"
  "sends (tx_ok N) (get_or_create_operator_snapshot N h operator epoch)"
  "sends (tx_ok N) (get_or_create_ballot_box N h epoch)"
  unfolding get_or_create_vault_registry_def get_or_create_weight_table_def
    get_or_create_epoch_snapshot_def get_or_create_ncn_reward_router_def
    get_or_create_operator_vault_reward_router_def get_or_create_operator_snapshot_def
    get_or_create_ballot_box_def
  by (intro sends_intros)+

lemma sends_full_vault_update [sends_intros]:
  "sends (tx_ok N) (full_vault_update N h vault)"
  unfolding full_vault_update_def get_vault_update_state_tracker_def
  by (intro sends_intros; simp)

lemma sends_update_all_vaults [sends_intros]:
  "sends (tx_ok N) (get_all_vaults N h)"
  "sends (tx_ok N) (update_all_vaults_in_network N h)"
  unfolding get_all_vaults_def update_all_vaults_in_network_def
  by (intro sends_intros)+

lemma sends_snapshots [sends_intros]:
  "sends (tx_ok N) (crank_register_vaults N h)"
  "sends (tx_ok N) (snapshot_operator N h epoch vaults operator)"
  "sends (tx_ok N) (crank_snapshot N h epoch)"
  unfolding crank_register_vaults_def crank_snapshot_def snapshot_operator_def
  by (intro sends_intros)+

lemma sends_get_weather_status [sends_intros]: "sends P (get_weather_status N city)"
  unfolding sends_on_def get_weather_status_def by (auto split: result.split list.split)

lemma sends_votes [sends_intros]:
  "sends P (operator_crank_post_vote N h epoch operator)"
  "sends (tx_ok N) (operator_crank_vote N h epoch operator)"
  "sends (tx_ok N) (crank_test_vote N h epoch)"
  unfolding operator_crank_vote_def operator_crank_post_vote_def crank_test_vote_def
  by (intro sends_intros)+

lemma sends_closing [sends_intros]:
  "sends (tx_ok N) (close_logged N h ncn epoch address)"
  "sends (tx_ok N) (crank_close_epoch_accounts N h epoch)"
  unfolding close_logged_def crank_close_epoch_accounts_def
  by (intro sends_intros)+

lemma sends_phases [sends_intros]:
  "sends (tx_ok N) (crank_set_weight N h epoch)"
  "sends (tx_ok N) (crank_post_vote_cooldown N h epoch)"
  unfolding crank_set_weight_def crank_post_vote_cooldown_def
  by (intro sends_intros)+

lemma sends_route_loops [sends_intros]:
  "sends (tx_ok N) (route_ncn_rewards fuel N h epoch)"
  "sends (tx_ok N) (route_operator_vault_rewards_cli fuel N h operator epoch)"
  by (induction fuel) (auto intro!: sends_intros)

lemma sends_distribute [sends_intros]:
  "sends (tx_ok N) (distribute_operator fuel N h epoch router operator)"
  "sends (tx_ok N) (crank_distribute fuel N h epoch)"
  unfolding distribute_operator_def crank_distribute_def
  by (intro sends_intros)+

lemma sends_crank_state [sends_intros]: "sends (tx_ok N) (crank_state fuel N h epoch state)"
  by (cases state) (simp_all add: crank_state_def sends_intros)

lemma sends_arguments [sends_intros]:
  "sends P (rent_exemption N bytes)" "sends P (parsed N str)" "sends P (u16_try_from n)"
  unfolding rent_exemption_def parsed_def u16_try_from_def by (intro sends_intros)+

lemma sends_shown [sends_intros]: "sends P m \<Longrightarrow> sends P (shown m)"
  unfolding shown_def by (intro sends_intros)

lemma sends_reports [sends_intros]:
  "sends P (get_total_epoch_rent_cost N h)" "sends P (show_epoch_state N h)"
  unfolding get_total_epoch_rent_cost_def show_epoch_state_def by (intro sends_intros)+

lemma sends_admin_weight [sends_intros]: "sends (tx_ok N) (admin_set_weight N h vault epoch weight)"
  unfolding admin_set_weight_def by (intro sends_intros)

lemma sends_fund [sends_intros]: "sends (tx_ok N) (admin_fund_account_payer N h amount)"
  unfolding admin_fund_account_payer_def by (intro sends_intros; simp)

lemma sends_collect [sends_intros]: "sends P (collect_stakes N h f stakes operators)"
proof (induction operators arbitrary: stakes)
  case (Cons operator operators)
  show ?case
    unfolding collect_stakes.simps
    by (intro sends_intros Cons)
qed (auto intro: sends_intros)

lemma sends_stake_reports [sends_intros]:
  "sends P (get_operator_stakes N h)" "sends P (get_vault_stakes N h)" "sends P (get_vault_operator_stakes N h)"
  unfolding get_operator_stakes_def get_vault_stakes_def get_vault_operator_stakes_def
  by (intro sends_intros)+

lemma sends_handle: "sends (tx_ok N) (handle fuel N h command)"
  by (cases command) (simp_all only: handle.simps, (intro sends_intros)+)

section \<open>The loops\<close>

lemma sends_outside [sends_intros]: "sends P m \<Longrightarrow> sends_on snd P (outside m)"
  by (auto simp: sends_on_def outside_def split: prod.split) (metis snd_conv)+

lemma sends_self [sends_intros]:
  "sends_on snd P (assign f)" "sends_on snd P itself"
  by (simp_all add: sends_on_def assign_def itself_def split: prod.split)

lemma sends_keeping [sends_intros]: "sends_on snd P m \<Longrightarrow> sends_on kp_world P (keeping m)"
  by (auto simp: sends_on_def keeping_def split: prod.split) (metis snd_conv)+

lemma sends_this [sends_intros]: "sends_on v P this"
  by (simp add: sends_on_def this_def)

lemma sends_change [sends_intros]: "(\<And>K. v (f K) = v K) \<Longrightarrow> sends_on v P (change f)"
  by (simp add: sends_on_def change_def)

lemma sends_keeper_state [sends_intros]:
  "sends_on snd P self_epoch_state" "sends_on snd P self_current_state"
  "sends_on snd P (update_current_state N h)" "sends_on snd P (load_epoch_state N h)"
  "sends_on snd P (update_epoch_state N h)" "sends_on snd P (fetch N h epoch)"
  "sends_on snd P (detect_stall N h)"
  unfolding update_epoch_state_def fetch_def detect_stall_def load_epoch_state_def
    update_current_state_def self_epoch_state_def self_current_state_def
  by (intro sends_intros)+

lemma sends_count_tick [sends_intros]: "sends_on kp_world P count_tick"
  unfolding count_tick_def by (intro sends_intros; simp)

lemma sends_keeper_parts [sends_intros]:
  "sends_on kp_world P (keeper_progress N h)" "sends_on kp_world P (keeper_update N h)"
  unfolding keeper_progress_def keeper_update_def by (intro sends_intros; simp)+

lemma sends_keeper_phases [sends_intros]: "sends_on kp_world (tx_ok N) (keeper_phases fuel N h b)"
  unfolding keeper_phases_def keeper_work_def keeper_finish_def by (intro sends_intros; simp)

lemma sends_keeper_iteration [sends_intros]:
  "sends_on kp_world (tx_ok N) (keeper_iteration fuel N h)"
  unfolding keeper_iteration_def by (intro sends_intros)

lemma sends_startup_ncn_keeper: "sends_on kp_world (tx_ok N) (startup_ncn_keeper n fuel N h)"
  by (induction n) (auto intro!: sends_intros)

lemma sends_operator_state [sends_intros]:
  "sends_on snd P (operator_update_epoch_state N h)" "sends_on snd P (operator_fetch N h epoch)"
  unfolding operator_fetch_def operator_update_epoch_state_def by (intro sends_intros)+

lemma sends_operator_parts [sends_intros]:
  "sends_on kp_world P (operator_progress N h)" "sends_on kp_world P mark_completed"
  "sends_on kp_world P (operator_update N h)" "sends_on kp_world P (operator_post_vote N h epoch operator)"
  unfolding operator_progress_def mark_completed_def operator_update_def operator_post_vote_def
  by (intro sends_intros; simp)+

text \<open>The operator votes with one of the values \<open>get_weather_status\<close> returns, and sends nothing else.\<close>

definition vote_ix :: "borsh \<Rightarrow> instruction \<Rightarrow> bool" where
  "vote_ix B ix \<longleftrightarrow> ix_program_id ix = NCN_PROGRAM_ID \<and>
     (\<exists>status epoch. status \<in> {0, 1, 2} \<and> ix_data ix = variant_bytes B (CastVote status epoch))"

definition vote_tx :: "'p network \<Rightarrow> instruction list \<Rightarrow> bool" where
  "vote_tx N ixs \<longleftrightarrow> list_all (\<lambda>ix. vote_ix (net_borsh N) ix \<or> foreign_ix N ix) ixs"

lemma weather_values: "fst (get_weather_status N city W) = Ok status \<Longrightarrow> status \<in> {0, 1, 2}"
  by (auto simp: get_weather_status_def split: result.splits list.splits if_splits)

lemma sends_vote_cast:
  "status \<in> {0, 1, 2} \<Longrightarrow> sends (vote_tx N) (operator_cast_vote N h operator epoch status)"
  unfolding operator_cast_vote_def
  by (intro sends_intros)
    (auto simp: vote_tx_def vote_ix_def built_ix client_metas client_discriminators
      intro!: exI [of _ status] exI [of _ epoch])

lemma sends_vote [sends_intros]: "sends (vote_tx N) (operator_crank_vote N h epoch operator)"
  unfolding operator_crank_vote_def
  by (intro sends_intros sends_vote_cast) (auto dest: weather_values)

lemma sends_operator_iteration [sends_intros]:
  "sends_on kp_world (vote_tx N) (operator_iteration N h operator)"
proof -
  have "sends_on kp_world (vote_tx N) (operator_crank_state N h epoch operator state)" for epoch state
    by (cases state) (auto simp: operator_crank_state_def operator_vote_phase_def intro!: sends_intros)
  then show ?thesis
    unfolding operator_iteration_def by (intro sends_intros)
qed

lemma sends_startup_operator_loop:
  "sends_on kp_world (vote_tx N) (startup_operator_loop n N h operator)"
  by (induction n) (auto intro!: sends_intros)

section \<open>The whole program\<close>

lemma vote_tx_ok: "vote_tx N ixs \<Longrightarrow> tx_ok N ixs"
  unfolding vote_tx_def tx_ok_def vote_ix_def ncn_ix_def list_all_iff by blast

lemma sends_weaken: "sends_on v P m \<Longrightarrow> (\<And>ixs. P ixs \<Longrightarrow> P' ixs) \<Longrightarrow> sends_on v P' m"
  by (auto simp: sends_on_def list_all_iff) blast

lemma sends_in_loop:
  assumes "sends_on v P m" and "\<And>W. v (start W) = W"
  shows "sends P (in_loop start v m)"
  using assms(1) unfolding sends_on_def in_loop_def
  by (intro allI, drule_tac spec [of _ "start _"]) (simp add: assms(2))

lemma sends_from_args: "sends P (from_args V N args)"
  unfolding from_args_def read_keypair_def by (intro sends_intros)

lemma sends_handle_command: "sends (tx_ok N) (handle_command n fuel N h command)"
proof (cases command)
  case RunKeeper
  then show ?thesis
    using sends_in_loop [OF sends_startup_ncn_keeper, of "keeper_start h"] by (simp add: keeper_start_def)
next
  case (RunOperator operator)
  have "sends (tx_ok N) (in_loop (operator_start h) kp_world (startup_operator_loop n N h k))" for k
    by (rule sends_in_loop) (auto intro: sends_weaken [OF sends_startup_operator_loop] vote_tx_ok simp: operator_start_def)
  then show ?thesis unfolding RunOperator handle_command.simps by (intro sends_intros)
qed (simp add: sends_handle)

lemma sends_main: "sends (tx_ok N) (main n fuel V N args)"
  unfolding main_def by (intro sends_intros sends_from_args sends_handle_command)

end
