(* ===== verification/Client_Runs.thy ===== *)
theory Client_Runs
  imports Client_Sends
begin

text \<open>
  How the loops of keeper and operator move through the epochs, and what ends them.  As in
  \<open>Client_Sends\<close>, one rule per combinator is collected: \<open>keeps_intros\<close> for a part of the state
  that a computation leaves alone, \<open>no_err_intros\<close> for computations that never return an error.
\<close>

named_theorems keeps_intros \<open>parts of the state a computation leaves alone\<close>
named_theorems no_err_intros \<open>computations without error results\<close>

section \<open>What a computation leaves alone\<close>

definition keeps :: "('s \<Rightarrow> 'b) \<Rightarrow> ('s, 'a) comp \<Rightarrow> bool" where
  "keeps v m \<longleftrightarrow> (\<forall>s. v (snd (m s)) = v s)"

lemma keepsD: "keeps v m \<Longrightarrow> v (snd (m s)) = v s"
  by (simp add: keeps_def)

lemma keeps_pure [keeps_intros]: "keeps v (creturn x)" "keeps v (clift r)" "keeps v this"
  by (simp_all add: keeps_def creturn_def clift_def this_def)

lemma keeps_cbind [keeps_intros]: "keeps v m \<Longrightarrow> (\<And>x. keeps v (f x)) \<Longrightarrow> keeps v (cbind m f)"
  by (auto simp: keeps_def cbind_def split: prod.split result.split) (metis snd_conv)+

lemma keeps_attempt [keeps_intros]: "keeps v m \<Longrightarrow> keeps v (attempt m)"
  by (auto simp: keeps_def attempt_def split: prod.split result.split) (metis snd_conv)+

lemma keeps_cases [keeps_intros]:
  "keeps v m \<Longrightarrow> keeps v m' \<Longrightarrow> keeps v (if c then m else m')"
  "(\<And>y. keeps v (f y)) \<Longrightarrow> (\<And>e. keeps v (g e)) \<Longrightarrow> keeps v p \<Longrightarrow>
   keeps v (case r of Ok y \<Rightarrow> f y | Err e \<Rightarrow> g e | Panic \<Rightarrow> p)"
  "(\<And>a b. keeps v (k a b)) \<Longrightarrow> keeps v (case q of (a, b) \<Rightarrow> k a b)"
  "(\<And>x. keeps v (k' x)) \<Longrightarrow> keeps v (let x = t in k' x)"
  by (simp_all split: result.split prod.split)

lemma keeps_change [keeps_intros]: "(\<And>s. v (f s) = v s) \<Longrightarrow> keeps v (change f)"
  by (simp add: keeps_def change_def)

lemma keeps_keeping [keeps_intros]:
  "(\<And>K self W. v (K\<lparr>kp_state := self, kp_world := W\<rparr>) = v K) \<Longrightarrow> keeps v (keeping m)"
  by (simp add: keeps_def keeping_def split: prod.split)

lemma keeps_count_tick [keeps_intros]:
  "(\<And>K t. v (K\<lparr>kp_tick := t\<rparr>) = v K) \<Longrightarrow> keeps v count_tick"
  unfolding count_tick_def by (intro keeps_intros)

section \<open>Errors\<close>

definition no_err :: "('s, 'a) comp \<Rightarrow> bool" where
  "no_err m \<longleftrightarrow> (\<forall>s e. fst (m s) \<noteq> Err e)"

lemma no_errD: "no_err m \<Longrightarrow> fst (m s) \<noteq> Err e"
  by (simp add: no_err_def)

lemma no_err_pure [no_err_intros]:
  "no_err (creturn x)" "no_err this" "no_err (change f)" "no_err (clift (expect y))"
  by (simp_all add: no_err_def creturn_def this_def change_def clift_def expect_def split: option.split)

lemma no_err_attempt [no_err_intros]: "no_err (attempt m)"
  by (simp add: no_err_def attempt_def split: prod.split result.split)

lemma no_err_cbind [no_err_intros]: "no_err m \<Longrightarrow> (\<And>x. no_err (f x)) \<Longrightarrow> no_err (cbind m f)"
  by (auto simp: no_err_def cbind_def split: prod.split result.split) (metis fst_conv)+

lemma no_err_cases [no_err_intros]:
  "no_err m \<Longrightarrow> no_err m' \<Longrightarrow> no_err (if c then m else m')"
  "(\<And>y. no_err (f y)) \<Longrightarrow> (\<And>e. no_err (g e)) \<Longrightarrow> no_err p \<Longrightarrow>
   no_err (case r of Ok y \<Rightarrow> f y | Err e \<Rightarrow> g e | Panic \<Rightarrow> p)"
  "(\<And>a b. no_err (k a b)) \<Longrightarrow> no_err (case q of (a, b) \<Rightarrow> k a b)"
  "(\<And>x. no_err (k' x)) \<Longrightarrow> no_err (let x = t in k' x)"
  by (simp_all split: result.split prod.split)

lemma no_err_outside [no_err_intros]: "no_err m \<Longrightarrow> no_err (keeping (outside m))"
  by (simp add: no_err_def keeping_def outside_def split: prod.split) (metis fst_conv)

lemma no_err_guaranteed [no_err_intros]: "no_err (get_guaranteed_epoch_and_slot N)"
proof -
  have "no_err (guaranteed_loop N n)" for n
    by (induction n) (auto intro!: no_err_intros)
  then show ?thesis by (simp add: get_guaranteed_epoch_and_slot_def)
qed

lemma no_err_progress [no_err_intros]:
  "no_err (clift (progress_epoch b current start keeper stall))"
  by (simp add: no_err_def clift_def progress_epoch_def expect_def split: option.split)

lemma no_err_count_tick [no_err_intros]: "no_err count_tick"
  unfolding count_tick_def by (intro no_err_intros)

lemma no_err_iteration [no_err_intros]: "no_err (keeper_iteration fuel N h)"
  unfolding keeper_iteration_def keeper_phases_def keeper_progress_def keeper_work_def keeper_finish_def
  by (intro no_err_intros)

lemma no_err_keeper: "no_err (startup_ncn_keeper n fuel N h)"
  by (induction n) (auto intro!: no_err_intros)

section \<open>The state a phase works on\<close>

text \<open>After a successful update the state of an open epoch with an epoch state account is known.\<close>

definition state_known :: "keeper_state \<Rightarrow> bool" where
  "state_known self \<longleftrightarrow> ks_epoch_state self = None \<or> ks_current_state self \<noteq> None"

lemma cbind_Ok:
  "cbind m f s = (Ok y, s') \<longleftrightarrow> (\<exists>x t. m s = (Ok x, t) \<and> f x t = (Ok y, s'))"
  by (auto simp: cbind_def split: prod.splits result.splits)

lemma keeping_Ok:
  "keeping m K = (Ok x, K') \<longleftrightarrow>
    (\<exists>self W. m (kp_state K, kp_world K) = (Ok x, (self, W)) \<and> K' = K\<lparr>kp_state := self, kp_world := W\<rparr>)"
  by (auto simp: keeping_def split: prod.splits)

lemma load_knows_state: "load_epoch_state N h s = (Ok (), s') \<Longrightarrow> state_known (fst s')"
  unfolding load_epoch_state_def update_current_state_def state_known_def
  by (auto simp: cbind_Ok assign_def split: option.splits if_splits prod.splits)

lemma update_knows_state:
  "update_epoch_state N h s = (Ok (), s') \<Longrightarrow> ks_is_epoch_completed (fst s') \<or> state_known (fst s')"
  unfolding update_epoch_state_def
  by (auto simp: cbind_Ok creturn_def assign_def dest!: load_knows_state split: if_splits prod.splits)

lemma fetch_knows_state:
  "fetch N h epoch s = (Ok (), s') \<Longrightarrow> ks_is_epoch_completed (fst s') \<or> state_known (fst s')"
  unfolding fetch_def by (auto simp: cbind_Ok dest: update_knows_state)

lemma keeper_update_knows_state:
  assumes "keeper_update N h K = (Ok (), K')"
  shows "ks_is_epoch_completed (kp_state K') \<or> state_known (kp_state K')"
  using assms unfolding keeper_update_def
  by (auto simp: cbind_Ok keeping_Ok dest!: update_knows_state fetch_knows_state split: if_splits)

section \<open>The epoch the server reports\<close>

text \<open>
  The server answers often enough: among any ten consecutive calls one and the call after it
  succeed.  Then \<open>get_guaranteed_epoch_and_slot\<close> returns the epoch of the clock at one of its calls.
\<close>

definition answers :: "'p network \<Rightarrow> bool" where
  "answers N \<longleftrightarrow> (\<forall>n. \<exists>k < 10. \<not> net_fails N (n + k) \<and> \<not> net_fails N (Suc (n + k)))"

lemma rpc_simps:
  "net_fails N (w_calls W) \<Longrightarrow> rpc N q W =
     (Err RpcError, W\<lparr>w_ledger := net_others N (w_calls W) (w_ledger W), w_calls := Suc (w_calls W)\<rparr>)"
  "\<not> net_fails N (w_calls W) \<Longrightarrow> rpc N q W =
     (q (net_runtime N (w_calls W)) (net_others N (w_calls W) (w_ledger W)),
      W\<lparr>w_ledger := net_others N (w_calls W) (w_ledger W), w_calls := Suc (w_calls W)\<rparr>)"
  by (simp_all add: rpc_def Let_def)

lemma guaranteed_reports:
  assumes "k < m" and "\<not> net_fails N (w_calls W + k)" and "\<not> net_fails N (Suc (w_calls W + k))"
  shows "\<exists>j slot W'. guaranteed_loop N m W = (Ok (clock_epoch (net_runtime N j), slot), W') \<and>
    w_calls W \<le> j \<and> j < w_calls W'"
  using assms
proof (induction m arbitrary: k W)
  case (Suc m)
  consider (epoch) "net_fails N (w_calls W)"
    | (slot) "\<not> net_fails N (w_calls W)" "net_fails N (Suc (w_calls W))"
    | (none) "\<not> net_fails N (w_calls W)" "\<not> net_fails N (Suc (w_calls W))" by blast
  then show ?case
  proof cases
    case epoch
    then have "0 < k" using Suc.prems(2) by (metis add_0_right gr0I)
    then have k: "0 < k" "k - 1 < m" using Suc.prems(1) by simp_all
    let ?W = "snd (rpc N (\<lambda>E _. Ok (clock_epoch E)) W)"
    obtain j slot W' where "guaranteed_loop N m ?W = (Ok (clock_epoch (net_runtime N j), slot), W')"
      "w_calls ?W \<le> j" "j < w_calls W'"
      using k Suc.prems epoch Suc.IH [of "k - 1" ?W] by (auto simp: rpc_simps)
    moreover have "guaranteed_loop N (Suc m) W = guaranteed_loop N m ?W" "w_calls W \<le> w_calls ?W"
      using epoch by (auto simp: get_current_epoch_and_slot_def get_current_epoch_def get_current_slot_def cbind_def attempt_def rpc_simps)
    ultimately show ?thesis by (intro exI [of _ j] exI [of _ slot] exI [of _ W']) simp
  next
    case slot
    have "k \<noteq> 0" "k \<noteq> 1" using slot(2) Suc.prems(2,3) by (auto intro: ccontr)
    then obtain i where k: "k = Suc (Suc i)" by (metis One_nat_def old.nat.exhaust)
    let ?W = "snd (rpc N (\<lambda>E _. Ok (clock_slot E)) (snd (rpc N (\<lambda>E _. Ok (clock_epoch E)) W)))"
    obtain j slot W' where "guaranteed_loop N m ?W = (Ok (clock_epoch (net_runtime N j), slot), W')"
      "w_calls ?W \<le> j" "j < w_calls W'"
      using k Suc.prems slot Suc.IH [of i ?W] by (auto simp: rpc_simps)
    moreover have "guaranteed_loop N (Suc m) W = guaranteed_loop N m ?W" "w_calls W \<le> w_calls ?W"
      using slot by (auto simp: get_current_epoch_and_slot_def get_current_epoch_def get_current_slot_def cbind_def attempt_def rpc_simps)
    ultimately show ?thesis by (intro exI [of _ j] exI [of _ slot] exI [of _ W']) simp
  next
    case none
    then show ?thesis
      by (auto simp: get_current_epoch_and_slot_def get_current_epoch_def get_current_slot_def cbind_def attempt_def creturn_def rpc_simps)
  qed
qed simp

lemma guaranteed_answer:
  assumes "answers N"
  obtains j slot W' where "get_guaranteed_epoch_and_slot N W = (Ok (clock_epoch (net_runtime N j), slot), W')"
    "w_calls W \<le> j" "j < w_calls W'"
proof -
  obtain k where "k < 10" "\<not> net_fails N (w_calls W + k)" "\<not> net_fails N (Suc (w_calls W + k))"
    using assms by (auto simp: answers_def)
  from guaranteed_reports [OF this] show ?thesis
    using that by (auto simp: get_guaranteed_epoch_and_slot_def)
qed

lemma guaranteed_gives_up:
  assumes "\<And>k. k < n \<Longrightarrow> net_fails N (w_calls W + k)"
  shows "fst (guaranteed_loop N n W) = Ok (0, 0)"
  using assms
proof (induction n arbitrary: W)
  case (Suc n)
  have "fst (guaranteed_loop N n (snd (rpc N (\<lambda>E _. Ok (clock_epoch E)) W))) = Ok (0, 0)"
    using Suc.prems [of 0] Suc.prems [of "Suc k" for k] by (intro Suc.IH) (simp add: rpc_simps)
  with Suc.prems [of 0] show ?case
    by (simp add: get_current_epoch_and_slot_def get_current_epoch_def get_current_slot_def cbind_def attempt_def rpc_simps)
qed (simp add: creturn_def)

section \<open>The epoch of the keeper\<close>

lemma keeper_progress_result:
  assumes "get_guaranteed_epoch_and_slot N (kp_world K) = (Ok (current, slot), W')"
    and "progress_epoch (ks_is_epoch_completed (kp_state K)) current (ch_epoch h)
      (kp_current_keeper_epoch K) (kp_epoch_stall K) = Ok e"
  shows "keeper_progress N h K = (Ok (e = ch_epoch h, e = current),
    K\<lparr>kp_world := W', kp_current_keeper_epoch := e, kp_epoch_stall := False\<rparr>)"
  using assms
  by (simp add: keeper_progress_def cbind_def keeping_def outside_def this_def clift_def change_def creturn_def)

lemma keeps_keeper_phases [keeps_intros]: "keeps kp_current_keeper_epoch (keeper_phases fuel N h b)"
  unfolding keeper_phases_def keeper_update_def keeper_work_def keeper_finish_def
  by (intro keeps_intros; simp)

lemma iteration_result:
  assumes "keeper_progress N h K = (Ok b, K1)"
  shows "keeper_iteration fuel N h K = keeper_phases fuel N h b K1"
    and "kp_current_keeper_epoch (snd (keeper_iteration fuel N h K)) = kp_current_keeper_epoch K1"
    and "w_calls (kp_world K1) \<le> w_calls (kp_world (snd (keeper_iteration fuel N h K)))"
proof -
  show "keeper_iteration fuel N h K = keeper_phases fuel N h b K1"
    using assms by (simp add: keeper_iteration_def cbind_def)
  then show "kp_current_keeper_epoch (snd (keeper_iteration fuel N h K)) = kp_current_keeper_epoch K1"
    "w_calls (kp_world K1) \<le> w_calls (kp_world (snd (keeper_iteration fuel N h K)))"
    using keepsD [OF keeps_keeper_phases] sendsD(1) [OF sends_keeper_phases] by simp_all
qed

text \<open>The keeper is between the epoch it was started with and the epoch of the clock.\<close>

definition in_range :: "'p network \<Rightarrow> cli_handler \<Rightarrow> keeper \<Rightarrow> bool" where
  "in_range N h K \<longleftrightarrow> ch_epoch h \<le> kp_current_keeper_epoch K \<and>
     kp_current_keeper_epoch K \<le> clock_epoch (net_runtime N (w_calls (kp_world K)))"

lemma progress_in_range:
  assumes "start \<le> keeper" "keeper \<le> current"
  obtains e where "progress_epoch b current start keeper stall = Ok e" "start \<le> e" "e \<le> current"
proof -
  have "keeper + 1 \<le> current" "start \<le> keeper + 1" "unat keeper + 1 < 2 ^ 64" if "keeper \<noteq> current"
  proof -
    have lt: "keeper < current" using that assms(2) by simp
    then have "unat keeper + 1 \<le> unat current" "unat current < 2 ^ 64"
      using unsigned_less [of current] by (simp_all add: word_less_nat_alt)
    moreover from this have "unat (keeper + 1) = unat keeper + 1"
      by (simp add: unat_add_lem [where 'a = 64, THEN iffD1])
    ultimately show "keeper + 1 \<le> current" "start \<le> keeper + 1" "unat keeper + 1 < 2 ^ 64"
      using assms(1) by (simp_all add: word_le_nat_alt)
  qed
  then show ?thesis
    using assms that by (cases "b \<or> stall"; cases "keeper = current")
      (auto simp: progress_epoch_def checked_add_def)
qed

lemma iteration_in_range:
  assumes mono: "\<And>m n. m \<le> n \<Longrightarrow> clock_epoch (net_runtime N m) \<le> clock_epoch (net_runtime N n)"
    and "answers N" and K: "in_range N h K"
  shows "in_range N h (snd (keeper_iteration fuel N h K))"
proof -
  obtain j slot W' where g: "get_guaranteed_epoch_and_slot N (kp_world K) =
      (Ok (clock_epoch (net_runtime N j), slot), W')" "w_calls (kp_world K) \<le> j" "j < w_calls W'"
    using guaranteed_answer [OF assms(2)] by blast
  have "ch_epoch h \<le> kp_current_keeper_epoch K"
    "kp_current_keeper_epoch K \<le> clock_epoch (net_runtime N j)"
    using K mono [OF g(2)] by (auto simp: in_range_def)
  then obtain e where e: "progress_epoch (ks_is_epoch_completed (kp_state K))
      (clock_epoch (net_runtime N j)) (ch_epoch h) (kp_current_keeper_epoch K) (kp_epoch_stall K) = Ok e"
    "ch_epoch h \<le> e" "e \<le> clock_epoch (net_runtime N j)"
    by (rule progress_in_range)
  let ?K = "snd (keeper_iteration fuel N h K)"
  note p = keeper_progress_result [OF g(1) e(1)]
  have "kp_current_keeper_epoch ?K = e" and "j \<le> w_calls (kp_world ?K)"
    using iteration_result(2,3) [OF p, of fuel] g(3) by simp_all
  then show ?thesis
    using e mono [of j "w_calls (kp_world ?K)"] by (auto simp: in_range_def)
qed

end
