(* ===== verification/Client_Properties.thy ===== *)
theory Client_Properties
  imports Client_Runs Account_Lifecycle Program_Properties
begin

text \<open>
  The properties of the client: the instructions it builds, the transactions its commands and
  loops send, and the way the keeper goes through the epochs.
\<close>

section \<open>An example network\<close>

text \<open>The example chain behind a server that always answers, and foreign instructions without effect.\<close>

definition plain_ix :: "u8 list \<Rightarrow> instruction" where
  "plain_ix d = \<lparr>ix_program_id = 77, ix_accounts = [], ix_data = d\<rparr>"

definition net0 :: "nat network" where
  "net0 =
     \<lparr>net_sdk = chain, net_runtime = (\<lambda>_. chain), net_others = (\<lambda>_ L. L), net_fails = (\<lambda>_. False),
      net_lost = (\<lambda>_. False), net_precise = spl_ops, net_borsh = le_borsh,
      net_external = (\<lambda>_ _ _ L. Ok L), set_compute_unit_limit = (\<lambda>n. plain_ix [2]),
      set_compute_unit_price = (\<lambda>p. plain_ix [3]), system_transfer = (\<lambda>_ _ _. plain_ix [4]),
      vault_instruction = (\<lambda>_. plain_ix [5]), RestakingConfig_address = (\<lambda>_. 31),
      VaultConfig_address = (\<lambda>_. 32), NcnOperatorState_address = (\<lambda>_ _ _. 33),
      NcnVaultTicket_address = (\<lambda>_ _ _. 34), VaultNcnTicket_address = (\<lambda>_ _ _. 35),
      VaultOperatorDelegation_address = (\<lambda>_ _ _. 36), OperatorVaultTicket_address = (\<lambda>_ _ _. 37),
      VaultUpdateStateTracker_address = (\<lambda>_ _ _. 38), program_accounts = (\<lambda>_ _ _ _. []),
      all_vault_accounts = (\<lambda>_ _. []), NcnOperatorState_operator = (\<lambda>_. None),
      NcnVaultTicket_vault = (\<lambda>_. None), VaultOperatorDelegation_operator = (\<lambda>_. None),
      OperatorVaultTicket_of = VaultNcnTicket_of chain,
      Vault_total_security_of = delegation_total_security_of chain,
      vault_config_epoch_length_of = (\<lambda>_. Ok 432), vault_config_epoch = (\<lambda>_ s. Ok (s div 432, 432)),
      tracker_last_updated_index = (\<lambda>_. Ok u64_MAX), pubkey_from_str = (\<lambda>_. None),
      weather_service = (\<lambda>_ _. Ok [''Clear'']), hash_order = (\<lambda>ks. ks)\<rparr>"

definition handler0 :: cli_handler where
  "handler0 =
     \<lparr>ch_keypair = Some 13, ch_restaking_program_id = 71, ch_vault_program_id = 72,
      ch_ncn_program_id = NCN_PROGRAM_ID, ch_ncn = Some 11, ch_epoch = 3, ch_retries = 2,
      ch_priority_fee_micro_lamports = 1, ch_open_weather_api_key = Some ''key''\<rparr>"

definition world0 :: world where
  "world0 = \<lparr>w_ledger = ledger0, w_calls = 0, w_sent = []\<rparr>"

lemma net0_sel [simp]:
  "net_sdk net0 = chain" "net_runtime net0 n = chain" "net_others net0 n L = L" "\<not> net_fails net0 n"
  "\<not> net_lost net0 n" "net_borsh net0 = le_borsh" "net_precise net0 = spl_ops"
  by (simp_all add: net0_def)

section \<open>The instructions of the client\<close>

text \<open>
  C12: an instruction the generated client builds, with any keys, arguments, optional and
  additional accounts, is understood by the program in whatever transaction it is sent: its bytes
  decode to the instruction it was built for, and the program behaves exactly as if every account
  were passed as signer and writable, so the flags of the builder never make it fail.  There is
  one exception, and it is exact: \<open>AdminSetParameters\<close>, \<open>AdminSetNewAdmin\<close> and \<open>AdminSetWeight\<close>
  pass their admin read-only while the processor wants it writable (the set \<open>K\<close>, empty for all
  others); unless the admin is the fee payer or writable for another reason, they fail.  The
  account of the program itself, which stands for an optional account that is missing, is assumed
  not to belong to the system program.
\<close>

theorem client_instructions_fit_program:
  assumes "borsh_format (net_borsh N)" and "flag_laws E"
    and built: "client_built (net_borsh N) ix i K" and ixs: "ix \<in> set ixs"
    and "acc_owner (L NCN_PROGRAM_ID) \<noteq> system_program_id E"
  shows "((\<forall>k \<in> K. writable_in payer ixs k) \<longrightarrow>
      run_instruction N E payer ixs ix L =
      process_instruction E (net_precise N) NCN_PROGRAM_ID NCN_PROGRAM_ID
        (map unlocked (account_infos payer ixs ix)) (Ok i) L) \<and>
    ((\<exists>k \<in> K. \<not> writable_in payer ixs k) \<longrightarrow> \<not> is_ok (run_instruction N E payer ixs ix L))"
proof -
  have run: "run_instruction N E payer ixs ix L =
      process_instruction E (net_precise N) NCN_PROGRAM_ID NCN_PROGRAM_ID (account_infos payer ixs ix) (Ok i) L"
    by (simp add: run_instruction_def client_built_program [OF built] client_built_data [OF built]
      borsh_format.decode_variant [OF assms(1)])
  show ?thesis
    unfolding run
    using flag_laws.client_flags_suffice [where L = L, OF assms(2) built ixs _ assms(5)]
      flag_laws.read_only_authority [OF assms(2) built] by blast
qed

text \<open>
  A vote; the closing of a ballot box without optional accounts, as the client sends it; and new
  parameters from an admin 14 that is not the fee payer.
\<close>

definition vote_ix0 :: instruction where
  "vote_ix0 = CastVote_instruction_with_remaining_accounts le_borsh 1051 1038 1050 11 1054 1089 12 13 1056 1 5 []"

definition close_ix0 :: instruction where
  "close_ix0 = CloseEpochAccount_instruction_with_remaining_accounts le_borsh 1084 1051 1038 11 1050 1077 0 None None 5 []"

definition parameters_ix0 :: instruction where
  "parameters_ix0 = AdminSetParameters_instruction_with_remaining_accounts le_borsh 1038 11 14 None (Some 7) None None []"

definition program_ledger :: ledger where
  "program_ledger = ledger0(NCN_PROGRAM_ID := \<lparr>lamports = 1, acc_owner = 2, acc_data = Foreign [1]\<rparr>)"

theorem client_instructions_fit_program_witness:
  "run_instruction net0 (flagged_runtime chain) 13 [vote_ix0, close_ix0] vote_ix0 program_ledger =
     process_instruction (flagged_runtime chain) spl_ops NCN_PROGRAM_ID NCN_PROGRAM_ID
       (map unlocked (account_infos 13 [vote_ix0, close_ix0] vote_ix0)) (Ok (CastVote 1 5)) program_ledger \<and>
   run_instruction net0 (flagged_runtime chain) 13 [vote_ix0, close_ix0] close_ix0 program_ledger =
     process_instruction (flagged_runtime chain) spl_ops NCN_PROGRAM_ID NCN_PROGRAM_ID
       (map unlocked (account_infos 13 [vote_ix0, close_ix0] close_ix0)) (Ok (CloseEpochAccount 5)) program_ledger \<and>
   \<not> is_ok (run_instruction net0 (flagged_runtime chain) 13 [parameters_ix0] parameters_ix0 program_ledger)"
proof -
  have b: "borsh_format (net_borsh net0)" unfolding net0_sel by (rule le.borsh_format_axioms)
  have f: "flag_laws (flagged_runtime chain)" by (rule flagged.flag_laws_axioms)
  have o: "acc_owner (program_ledger NCN_PROGRAM_ID) \<noteq> system_program_id (flagged_runtime chain)"
    by (simp add: program_ledger_def flagged_runtime_def)
  have "client_built (net_borsh net0) vote_ix0 (CastVote 1 5) {}" "client_built (net_borsh net0) close_ix0 (CloseEpochAccount 5) {}"
    "client_built (net_borsh net0) parameters_ix0 (AdminSetParameters None (Some 7) None None) {14}"
    unfolding vote_ix0_def close_ix0_def parameters_ix0_def net0_sel by (rule client_built.intros)+
  note fit = this [THEN client_instructions_fit_program [where L = program_ledger, OF b f _ _ o]]
  have "\<not> writable_in 13 [parameters_ix0] 14"
    by (simp add: writable_in_def parameters_ix0_def client_metas AccountMeta_new_def AccountMeta_new_readonly_def)
  then show ?thesis
    using fit(1) [of "[vote_ix0, close_ix0]" 13] fit(2) [of "[vote_ix0, close_ix0]" 13] fit(3) [of "[parameters_ix0]" 13] by simp
qed

section \<open>The transactions of the client\<close>

text \<open>What \<open>tx_ok\<close> and \<open>vote_tx\<close> mean for a format with a decoder.\<close>

definition decodes :: "'p network \<Rightarrow> (NCNProgramInstruction \<Rightarrow> bool) \<Rightarrow> instruction \<Rightarrow> bool" where
  "decodes N Q ix \<longleftrightarrow> ix_program_id ix = NCN_PROGRAM_ID \<and>
     (\<exists>i. bs_instruction (net_borsh N) (ix_data ix) = Ok i \<and> Q i)"

definition adds_only :: "(instruction \<Rightarrow> bool) \<Rightarrow> world \<Rightarrow> world \<Rightarrow> bool" where
  "adds_only Q W W' \<longleftrightarrow> (\<exists>txs. w_sent W' = w_sent W @ txs \<and> (\<forall>tx \<in> set txs. \<forall>ix \<in> set tx. Q ix))"

definition weather_vote :: "NCNProgramInstruction \<Rightarrow> bool" where
  "weather_vote i \<longleftrightarrow> (\<exists>status epoch. i = CastVote status epoch \<and> status \<in> {0, 1, 2})"

lemma ix_decodes:
  assumes "borsh_format (net_borsh N)"
  shows "ncn_ix (net_borsh N) ix \<Longrightarrow> decodes N (\<lambda>_. True) ix"
    and "vote_ix (net_borsh N) ix \<Longrightarrow> decodes N weather_vote ix"
  unfolding ncn_ix_def vote_ix_def decodes_def weather_vote_def
  by (metis borsh_format.decode_variant [OF assms])+

lemma sends_adds_only:
  assumes "borsh_format (net_borsh N)"
  shows "sends_on v (tx_ok N) m \<Longrightarrow>
      adds_only (\<lambda>ix. foreign_ix N ix \<or> decodes N (\<lambda>_. True) ix) (v s) (v (snd (m s)))"
    and "sends_on v (vote_tx N) m \<Longrightarrow>
      adds_only (\<lambda>ix. foreign_ix N ix \<or> decodes N weather_vote ix) (v s) (v (snd (m s)))"
  using ix_decodes [OF assms]
  by (auto simp: adds_only_def tx_ok_def vote_tx_def list_all_iff dest!: sendsD(2) [where W = s]) blast+

text \<open>
  C14: whatever its arguments, the client only adds transactions, and each of their instructions
  is one for the compute budget, the vault program or the system program, or an instruction for
  the NCN program whose data the program can decode.  This holds for every command, and for any
  number of iterations of the keeper and of the operator loop.
\<close>

theorem client_sends_decodable_instructions:
  assumes "borsh_format (net_borsh N)"
  shows "adds_only (\<lambda>ix. foreign_ix N ix \<or> decodes N (\<lambda>_. True) ix) W (snd (main n fuel V N args W))"
  using sends_adds_only(1) [OF assms sends_main] .

lemma net0_borsh: "borsh_format (net_borsh net0)"
  unfolding net0_sel by (rule le.borsh_format_axioms)

text \<open>A keeper for an NCN given by its address, which starts with the epoch of the chain.\<close>

definition args0 :: cli_args where
  "args0 = \<lparr>ar_command = RunKeeper, ar_commitment = ''confirmed'', ar_priority_fee_micro_lamports = 1,
     ar_transaction_retries = 2, ar_ncn_program_id = ''N'', ar_restaking_program_id = ''R'', ar_vault_program_id = ''V'',
     ar_token_program_id = ''T'', ar_ncn = Some ''11'', ar_epoch = None, ar_keypair_path = Some ''id.json'',
     ar_markdown_help = False, ar_open_weather_api_key = None\<rparr>"

definition environment0 :: environment where
  "environment0 = \<lparr>commitment_from_str = (\<lambda>s. s = ''confirmed''), read_keypair_file = (\<lambda>_. Some 13)\<rparr>"

definition net_keys :: "nat network" where
  "net_keys = net0\<lparr>pubkey_from_str := (\<lambda>s. if s = ''11'' then Some 11 else Some NCN_PROGRAM_ID)\<rparr>"

theorem client_sends_decodable_instructions_witness:
  "is_ok (fst (from_args environment0 net_keys args0 world0)) \<and>
   adds_only (\<lambda>ix. foreign_ix net_keys ix \<or> decodes net_keys (\<lambda>_. True) ix) world0
     (snd (main 7 5 environment0 net_keys args0 world0))"
proof -
  have "borsh_format (net_borsh net_keys)" using net0_borsh by (simp add: net_keys_def)
  moreover have "is_ok (fst (from_args environment0 net_keys args0 world0))"
    by (simp add: from_args_def read_keypair_def parsed_def cbind_def clift_def creturn_def rpc_def Let_def
        args0_def environment0_def net_keys_def)
  ultimately show ?thesis using client_sends_decodable_instructions by blast
qed

text \<open>
  C15: the loop of an operator sends nothing but votes: every instruction it sends to the NCN
  program decodes to a \<open>CastVote\<close> with one of the three weather statuses.
\<close>

theorem operator_sends_only_votes:
  assumes "borsh_format (net_borsh N)"
  shows "adds_only (\<lambda>ix. foreign_ix N ix \<or> decodes N weather_vote ix)
    (kp_world K) (kp_world (snd (startup_operator_loop n N h operator K)))"
  using sends_adds_only(2) [OF assms sends_startup_operator_loop] .

theorem operator_sends_only_votes_witness:
  "adds_only (\<lambda>ix. foreign_ix net0 ix \<or> decodes net0 weather_vote ix) world0
     (kp_world (snd (startup_operator_loop 3 net0 handler0 12 (operator_start handler0 world0))))"
  using operator_sends_only_votes [OF net0_borsh, of "operator_start handler0 world0" 3 handler0 12]
  by (simp add: operator_start_def)

section \<open>Sending a transaction\<close>

text \<open>A transaction of the list ran, and the ledger is the one it left.\<close>

definition executed :: "'p network \<Rightarrow> pubkey \<Rightarrow> instruction list \<Rightarrow> world \<Rightarrow> bool" where
  "executed N payer tx W \<longleftrightarrow>
     (\<exists>n L. run_transaction N (net_runtime N n) payer tx L = Ok (w_ledger W))"

lemma clift_bind: "cbind (clift (Ok x)) f = f x"
  by (rule ext) (simp add: cbind_def clift_def)

lemma rpc_send_result:
  "w_sent (snd (rpc_send N payer tx W)) = w_sent W @ [tx]"
  "fst (rpc_send N payer tx W) = Ok () \<Longrightarrow> executed N payer tx (snd (rpc_send N payer tx W))"
  by (auto simp: rpc_send_def executed_def Let_def split: result.splits if_splits)

lemma rpc_sent: "w_sent (snd (rpc N q W)) = w_sent W"
  by (simp add: rpc_def Let_def)

lemma retry_loop_result:
  assumes "\<And>W. \<exists>txs. w_sent (snd (last_retry W)) = w_sent W @ txs \<and> length txs \<le> 1 \<and> set txs \<subseteq> T \<and>
      (fst (last_retry W) = Ok () \<longrightarrow> txs \<noteq> [] \<and> executed N payer (last txs) (snd (last_retry W)))"
    and "tx \<in> T"
  shows "\<exists>txs. w_sent (snd (retry_loop N payer tx last_retry n W)) = w_sent W @ txs \<and>
      length txs \<le> n + 1 \<and> set txs \<subseteq> T \<and>
      (fst (retry_loop N payer tx last_retry n W) = Ok () \<longrightarrow>
        txs \<noteq> [] \<and> executed N payer (last txs) (snd (retry_loop N payer tx last_retry n W)))"
proof (induction n arbitrary: W)
  case 0
  then show ?case using assms(1) [of W] by simp
next
  case (Suc n)
  obtain r W1 where r: "rpc N (\<lambda>_ _. Ok ()) W = (r, W1)" by (cases "rpc N (\<lambda>_ _. Ok ()) W") auto
  obtain q W2 where q: "rpc_send N payer tx W1 = (q, W2)" by (cases "rpc_send N payer tx W1") auto
  have sent: "w_sent W1 = w_sent W" "w_sent W2 = w_sent W @ [tx]"
    using rpc_sent [of N "\<lambda>_ _. Ok ()" W] rpc_send_result(1) [of N payer tx W1] by (simp_all add: r q)
  show ?case
  proof (cases "r = Ok ()")
    case False
    then show ?thesis using r sent by (cases r) (auto simp: cbind_def)
  next
    case True
    show ?thesis
    proof (cases q)
      case (Ok u)
      then have "executed N payer tx W2" using rpc_send_result(2) [of N payer tx W1] q by simp
      then show ?thesis using True r q Ok sent assms(2) by (auto simp: cbind_def attempt_def creturn_def)
    next
      case (Err e)
      then have "retry_loop N payer tx last_retry (Suc n) W = retry_loop N payer tx last_retry n W2"
        using True r q by (simp add: cbind_def attempt_def)
      then show ?thesis
        using Suc.IH [of W2] sent assms(2) by (fastforce intro: exI [of _ "[tx] @ txs" for txs])
    next
      case Panic
      then show ?thesis using True r q sent assms(2) by (auto simp: cbind_def attempt_def)
    qed
  qed
qed

text \<open>
  \<open>send_transactions\<close> submits at most one transaction more than the configured number of
  retries, all of them the given instructions with or without a compute unit price, and when it
  reports success the last one was executed and left the ledger.
\<close>

lemma send_transactions_bounded:
  assumes "ch_keypair h = Some payer"
  shows "\<exists>txs. w_sent (snd (send_transactions N h ixs W)) = w_sent W @ txs \<and>
    length txs \<le> unat (ch_retries h) + 1 \<and>
    set txs \<subseteq> {ixs, set_compute_unit_price N (ch_priority_fee_micro_lamports h) # ixs} \<and>
    (fst (send_transactions N h ixs W) = Ok () \<longrightarrow>
      txs \<noteq> [] \<and> executed N payer (last txs) (snd (send_transactions N h ixs W)))"
proof -
  let ?last = "cbind (rpc N (\<lambda>_ _. Ok ())) (\<lambda>_. rpc_send N payer ixs)"
  have "\<exists>txs. w_sent (snd (?last W)) = w_sent W @ txs \<and> length txs \<le> 1 \<and>
      set txs \<subseteq> {ixs, set_compute_unit_price N (ch_priority_fee_micro_lamports h) # ixs} \<and>
      (fst (?last W) = Ok () \<longrightarrow> txs \<noteq> [] \<and> executed N payer (last txs) (snd (?last W)))" for W
  proof -
    obtain r W1 where r: "rpc N (\<lambda>_ _. Ok ()) W = (r, W1)" by (cases "rpc N (\<lambda>_ _. Ok ()) W") auto
    have sent: "w_sent W1 = w_sent W" using rpc_sent [of N "\<lambda>_ _. Ok ()" W] by (simp add: r)
    show ?thesis
    proof (cases r)
      case (Ok u)
      then show ?thesis
        using r sent rpc_send_result [of N payer ixs W1] by (intro exI [of _ "[ixs]"]) (auto simp: cbind_def)
    qed (use r sent in \<open>auto simp: cbind_def\<close>)
  qed
  note retried = retry_loop_result [OF this, of "set_compute_unit_price N (ch_priority_fee_micro_lamports h) # ixs"]
  have "send_transactions N h ixs W = retry_loop N payer
      (set_compute_unit_price N (ch_priority_fee_micro_lamports h) # ixs) ?last (unat (ch_retries h)) W"
    using assms by (simp add: send_transactions_def handler_keypair_def clift_bind Let_def)
  with retried show ?thesis by simp
qed

section \<open>Reallocation\<close>

text \<open>
  C35: the number of reallocation instructions the client puts into one transaction is enough:
  an account of 10240 bytes, as the initialize instructions create it, grows to its full size
  with exactly that many calls and is then to be initialized.
\<close>

theorem client_reallocs_suffice:
  assumes "runtime_laws E" and "funded E p ncn payer a (size_of_type t) L"
    and "data_at L a = Zeroed 10240"
    and "\<And>m. m \<le> size_of_type t \<Longrightarrow> minimum_balance E m \<le> minimum_balance E (size_of_type t)"
    and t: "t \<in> {DVaultRegistry, DWeightTable, DBallotBox, DNCNRewardRouter}"
  shows "\<exists>L'. grow_times E p ncn payer a t (num_reallocs (size_of_type t)) L = Ok L' \<and>
    data_at L' a = Zeroed (size_of_type t) \<and> should_initialize t (data_at L' a) = Ok True"
proof -
  have "10240 \<le> size_of_type t" "num_reallocs (size_of_type t) = (size_of_type t - 10240 + 10239) div 10240"
    using t by (auto simp: num_reallocs_def MAX_REALLOC_BYTES_def account_sizes)
  with grow_all [OF assms(1-3)] assms(4) show ?thesis by simp
qed

theorem client_reallocs_suffice_witness:
  "\<exists>L'. grow_times chain 9 11 (acc 1077) (acc 1050) DBallotBox (num_reallocs 22099) growing_ledger = Ok L' \<and>
    data_at L' (acc 1050) = Zeroed 22099"
  using client_reallocs_suffice [of chain 9 11 "acc 1077" "acc 1050" DBallotBox growing_ledger]
    growing_ballot_box(2-5) unfolding growing_ballot_box(1) by auto

section \<open>The order of the vault cranks\<close>

text \<open>
  \<open>full_vault_update\<close> cranks every operator of the vault exactly once, starting with the one
  after the last that was updated, or for a fresh tracker with one that depends on the epoch.
\<close>

theorem crank_order_rotates:
  assumes "operators \<noteq> []"
  shows "crank_order last_index ncn_epoch operators = rotate
      (if last_index = u64_MAX then unat ncn_epoch else unat last_index + 1) operators \<and>
    set (crank_order last_index ncn_epoch operators) = set operators \<and>
    length (crank_order last_index ncn_epoch operators) = length operators"
proof -
  have "crank_order last_index ncn_epoch operators = rotate
      (if last_index = u64_MAX then unat ncn_epoch else unat last_index + 1) operators"
    using assms
    by (intro nth_equalityI) (auto simp: crank_order_def starting_index_def Let_def nth_rotate mod_simps)
  then show ?thesis by (simp only: set_rotate length_rotate simp_thms)
qed

theorem crank_order_rotates_witness: "crank_order 1 9 [21, 22, 23, 24] = [23, 24, 21, 22]"
  using crank_order_rotates [of "[21, 22, 23, 24]" 1 9] by (simp add: rotate_def)

section \<open>The epochs of the keeper\<close>

text \<open>
  C16: the keeper never leaves the epochs between the one it was started with and the one of the
  chain, as long as the clock does not go back and the server answers often enough.
\<close>

theorem keeper_epoch_in_range:
  assumes "\<And>m n. m \<le> n \<Longrightarrow> clock_epoch (net_runtime N m) \<le> clock_epoch (net_runtime N n)"
    and "answers N" and "ch_epoch h \<le> clock_epoch (net_runtime N (w_calls W))"
  shows "in_range N h (snd (startup_ncn_keeper n fuel N h (keeper_start h W)))"
proof -
  have "in_range N h K \<Longrightarrow> in_range N h (snd (startup_ncn_keeper n fuel N h K))" for K
  proof (induction n arbitrary: K)
    case (Suc n)
    then show ?case
      using iteration_in_range [OF assms(1,2) Suc.prems, of fuel]
      by (cases "keeper_iteration fuel N h K") (auto simp: cbind_def split: result.split)
  qed (simp add: creturn_def)
  then show ?thesis using assms(3) by (simp add: keeper_start_def in_range_def)
qed

theorem keeper_epoch_in_range_witness:
  "in_range net0 handler0 (snd (startup_ncn_keeper 7 5 net0 handler0 (keeper_start handler0 world0)))"
  by (rule keeper_epoch_in_range) (auto simp: answers_def handler0_def intro: exI [of _ 0])

text \<open>
  A keeper that finds every epoch completed or stalled goes round the epochs between the one
  it was started with and the one of the chain, one step per iteration.
\<close>

theorem keeper_goes_round:
  assumes "start \<le> current" and "completed \<or> stall"
  shows "((\<lambda>r. and_then r (\<lambda>e. progress_epoch completed current start e stall)) ^^ n) (Ok start) =
    Ok (start + of_nat (n mod (unat current - unat start + 1)))"
proof (induction n)
  case (Suc n)
  let ?m = "unat current - unat start + 1" and ?e = "start + of_nat (n mod (unat current - unat start + 1)) :: u64"
  have lt: "n mod ?m < ?m" by simp
  have le: "unat start \<le> unat current" "unat current < 2 ^ 64"
    using assms(1) unat_u64_less [of current] by (simp_all add: word_le_nat_alt)
  have small: "unat start + n mod ?m < 2 ^ 64" "n mod ?m < 2 ^ 64" using lt le by linarith+
  have e: "unat ?e = unat start + n mod ?m"
    using small by (simp add: unat_word_ariths unat_of_nat del: add_Suc_right)
  show ?case
  proof (cases "n mod ?m = unat current - unat start")
    case True
    then have "?e = current" using e le by (simp add: word_unat_eq_iff)
    moreover have "Suc n mod ?m = 0" using True by (simp add: mod_Suc)
    ultimately show ?thesis using Suc assms(2) by (simp add: progress_epoch_def)
  next
    case False
    then have less: "n mod ?m < unat current - unat start" using lt by linarith
    then have "?e \<noteq> current" "unat ?e + 1 < 2 ^ 64" using e le by auto
    moreover have "Suc n mod ?m = Suc (n mod ?m)" using less by (simp add: mod_Suc)
    moreover have "?e + 1 = start + of_nat (Suc (n mod ?m))" by (simp only: of_nat_Suc ac_simps)
    ultimately show ?thesis
      using Suc assms(2) by (simp only: funpow.simps o_apply and_then.simps progress_epoch_def
        checked_add_def) simp
  qed
qed simp

theorem keeper_goes_round_witness:
  "((\<lambda>r. and_then r (\<lambda>e. progress_epoch False 7 5 e True)) ^^ 4) (Ok 5) = Ok 6"
  using keeper_goes_round [of 5 7 False True 4] by simp

text \<open>A keeper at its start, on the epoch of the example chain.\<close>

definition fresh_keeper :: keeper where
  "fresh_keeper = (keeper_start handler0 world0)\<lparr>kp_current_keeper_epoch := 5\<rparr>"

lemma epoch_state0_phase:
  "current_state g epoch_state0 v c 120 = Ok SetWeight"
  "\<not> data_len (EpochStateData epoch_state0) < EpochState_SIZE"
  by (simp_all add: current_state_def epoch_state0_def EpochState_initialize_def EpochState_zeroed_def
    can_close_epoch_accounts_def get_epoch_consensus_reached_def get_slot_consensus_reached_def
    EpochAccountStatus_default_def get_account_status_def data_len_def account_sizes)

lemma fresh_keeper_updates:
  "fst (keeper_update net0 handler0 fresh_keeper) = Ok ()"
  by (simp add: keeper_update_def fetch_def update_epoch_state_def get_is_epoch_completed_def get_account_def
    handler_ncn_def cbind_def this_def keeping_def clift_def assign_def itself_def outside_def rpc_simps
    fresh_keeper_def keeper_start_def KeeperState_default_def handler0_def world0_def creturn_def
    load_epoch_state_def update_current_state_def ledger0_at of_program_def self_epoch_state_def
    get_ncn_program_config_def get_typed_def epoch_state0_phase)

text \<open>
  C34: an error never ends the keeper: an iteration returns or panics.  And the phase it works on
  is always known: after a successful update of its state the epoch is completed, has no epoch
  state, or its phase was computed, so that the phase can be unwrapped.
\<close>

theorem keeper_survives_errors:
  "fst (startup_ncn_keeper n fuel N h K) \<noteq> Err e \<and>
   (keeper_update N h K = (Ok (), K') \<longrightarrow>
     ks_is_epoch_completed (kp_state K') \<or> ks_epoch_state (kp_state K') = None \<or>
     ks_current_state (kp_state K') \<noteq> None)"
  using no_errD [OF no_err_keeper] keeper_update_knows_state by (fastforce simp: state_known_def)

theorem keeper_survives_errors_witness:
  "fst (startup_ncn_keeper 4 5 net0 handler0 fresh_keeper) \<noteq> Err RpcError \<and>
   fst (keeper_update net0 handler0 fresh_keeper) = Ok () \<and>
   (let K = kp_state (snd (keeper_update net0 handler0 fresh_keeper)) in
    ks_is_epoch_completed K \<or> ks_epoch_state K = None \<or> ks_current_state K \<noteq> None)"
  using fresh_keeper_updates keeper_survives_errors [of 4 5 net0 handler0 fresh_keeper RpcError
      "snd (keeper_update net0 handler0 fresh_keeper)"]
  by (cases "keeper_update net0 handler0 fresh_keeper") (simp add: Let_def)

text \<open>
  C38: a keeper that cannot reach the server overtakes the chain: after ten failed attempts the
  chain is taken to be at epoch 0, and a keeper that is done with its epoch moves on to the next
  one, whatever the epoch of the chain.
\<close>

theorem unreachable_server_overtakes_chain:
  assumes "\<And>k. k < 10 \<Longrightarrow> net_fails N (w_calls (kp_world K) + k)"
    and "ks_is_epoch_completed (kp_state K) \<or> kp_epoch_stall K"
    and "kp_current_keeper_epoch K \<noteq> 0" and "kp_current_keeper_epoch K \<noteq> u64_MAX"
  shows "kp_current_keeper_epoch (snd (keeper_iteration fuel N h K)) = kp_current_keeper_epoch K + 1"
proof -
  obtain W' where g: "get_guaranteed_epoch_and_slot N (kp_world K) = (Ok (0, 0), W')"
    using guaranteed_gives_up [of 10 N "kp_world K"] assms(1)
    by (cases "get_guaranteed_epoch_and_slot N (kp_world K)") (auto simp: get_guaranteed_epoch_and_slot_def)
  have "unat (kp_current_keeper_epoch K) + 1 < 2 ^ 64"
    using assms(4) unat_u64_less [of "kp_current_keeper_epoch K"] by (auto simp: word_unat_eq_iff)
  then have "progress_epoch (ks_is_epoch_completed (kp_state K)) 0 (ch_epoch h)
      (kp_current_keeper_epoch K) (kp_epoch_stall K) = Ok (kp_current_keeper_epoch K + 1)"
    using assms(2,3) by (simp add: progress_epoch_def checked_add_def)
  from iteration_result(2) [OF keeper_progress_result [OF g this]] show ?thesis by simp
qed

definition stalled_keeper :: keeper where
  "stalled_keeper = (keeper_start handler0 world0)\<lparr>kp_current_keeper_epoch := 5, kp_epoch_stall := True\<rparr>"

theorem unreachable_server_overtakes_chain_witness:
  "kp_current_keeper_epoch (snd (keeper_iteration 5 (net0\<lparr>net_fails := \<lambda>_. True\<rparr>) handler0 stalled_keeper)) = 6 \<and>
   clock_epoch (net_runtime (net0\<lparr>net_fails := \<lambda>_. True\<rparr>) 0) = 5"
  using unreachable_server_overtakes_chain [of "net0\<lparr>net_fails := \<lambda>_. True\<rparr>" stalled_keeper 5 handler0]
  by (simp add: stalled_keeper_def keeper_start_def net0_def)

text \<open>
  C37: a failed fetch makes the keeper skip an epoch: the completion flag of the epoch before
  stays set, so the next iteration moves on although nothing was done for the epoch.
\<close>

theorem failed_fetch_skips_epoch:
  assumes "ch_ncn h = Some ncn" and "ks_is_epoch_completed (kp_state K)"
    and "ks_epoch (kp_state K) \<noteq> kp_current_keeper_epoch K"
    and "net_fails N (w_calls (kp_world K))"
    and "keeper_update N h K = (r, K1)"
    and "get_guaranteed_epoch_and_slot N (kp_world K1) = (Ok (current, slot), W2)"
    and "kp_current_keeper_epoch K < current"
  shows "r = Err RpcError \<and> ks_is_epoch_completed (kp_state K1) \<and>
    kp_current_keeper_epoch (snd (keeper_iteration fuel N h K1)) = kp_current_keeper_epoch K + 1"
proof -
  have K1: "r = Err RpcError" "ks_is_epoch_completed (kp_state K1)"
    "kp_current_keeper_epoch K1 = kp_current_keeper_epoch K"
    using assms(1-5)
    by (auto simp: keeper_update_def fetch_def update_epoch_state_def get_is_epoch_completed_def get_account_def
      handler_ncn_def cbind_def this_def keeping_def clift_def assign_def itself_def outside_def rpc_simps)
  have "unat (kp_current_keeper_epoch K) + 1 < 2 ^ 64"
    using assms(7) unat_u64_less [of current] by (simp add: word_less_nat_alt)
  then have "progress_epoch (ks_is_epoch_completed (kp_state K1)) current (ch_epoch h)
      (kp_current_keeper_epoch K1) (kp_epoch_stall K1) = Ok (kp_current_keeper_epoch K + 1)"
    using K1 assms(7) by (auto simp: progress_epoch_def checked_add_def)
  from iteration_result(2) [OF keeper_progress_result [OF assms(6) this]] K1 show ?thesis by simp
qed

definition net1 :: "nat network" where
  "net1 = net0\<lparr>net_fails := \<lambda>n. n = 0\<rparr>"

definition done_keeper :: keeper where
  "done_keeper = (keeper_start handler0 world0)\<lparr>kp_current_keeper_epoch := 4,
     kp_state := KeeperState_default\<lparr>ks_epoch := 3, ks_is_epoch_completed := True\<rparr>\<rparr>"

theorem failed_fetch_skips_epoch_witness:
  "kp_current_keeper_epoch (snd (keeper_iteration 5 net1 handler0 (snd (keeper_update net1 handler0 done_keeper)))) = 5"
proof -
  obtain r K1 where u: "keeper_update net1 handler0 done_keeper = (r, K1)"
    by (cases "keeper_update net1 handler0 done_keeper") auto
  have start: "ch_ncn handler0 = Some 11" "ks_is_epoch_completed (kp_state done_keeper)"
    "ks_epoch (kp_state done_keeper) \<noteq> kp_current_keeper_epoch done_keeper"
    "net_fails net1 (w_calls (kp_world done_keeper))" "kp_current_keeper_epoch done_keeper = 4"
    by (simp_all add: handler0_def done_keeper_def keeper_start_def world0_def net1_def)
  have calls: "w_calls (kp_world K1) = 1"
    using u start
    by (auto simp: keeper_update_def fetch_def update_epoch_state_def get_is_epoch_completed_def get_account_def
      handler_ncn_def cbind_def this_def keeping_def clift_def assign_def itself_def outside_def rpc_simps
      done_keeper_def keeper_start_def world0_def)
  have no_fail: "\<not> net_fails net1 (Suc n)" and clock: "net_runtime net1 n = chain" for n
    by (simp_all add: net1_def)
  have "guaranteed_loop net1 (Suc n) (kp_world K1) =
      (Ok (5, 120), snd (guaranteed_loop net1 (Suc n) (kp_world K1)))" for n
    using calls no_fail
    by (simp add: get_current_epoch_and_slot_def get_current_epoch_def get_current_slot_def cbind_def attempt_def creturn_def rpc_simps clock)
  from this [of 9] have "get_guaranteed_epoch_and_slot net1 (kp_world K1) =
      (Ok (5, 120), snd (get_guaranteed_epoch_and_slot net1 (kp_world K1)))"
    by (simp add: get_guaranteed_epoch_and_slot_def del: guaranteed_loop.simps)
  from failed_fetch_skips_epoch [OF start(1-4) u this, of 5] show ?thesis
    using u start(5) by simp
qed

section \<open>Closing an epoch\<close>

text \<open>An instruction to close one of the accounts \<open>T\<close>, without fee wallet and receiver.\<close>

definition close_ix :: "borsh \<Rightarrow> pubkey set \<Rightarrow> u64 \<Rightarrow> instruction \<Rightarrow> bool" where
  "close_ix B T epoch ix \<longleftrightarrow> ix_program_id ix = NCN_PROGRAM_ID \<and>
     ix_data ix = variant_bytes B (CloseEpochAccount epoch) \<and> am_pubkey (ix_accounts ix ! 4) \<in> T \<and>
     am_pubkey (ix_accounts ix ! 7) = NCN_PROGRAM_ID \<and> am_pubkey (ix_accounts ix ! 8) = NCN_PROGRAM_ID"

definition close_tx :: "'p network \<Rightarrow> pubkey set \<Rightarrow> u64 \<Rightarrow> instruction list \<Rightarrow> bool" where
  "close_tx N T epoch tx \<longleftrightarrow> list_all (\<lambda>ix. foreign_ix N ix \<or> close_ix (net_borsh N) T epoch ix) tx"

lemma sends_close_logged:
  "k \<in> T \<Longrightarrow> sends (close_tx N T epoch) (close_logged N h ncn epoch k)"
  unfolding close_logged_def close_epoch_account_def
  by (intro sends_intros) (auto simp: close_tx_def close_ix_def built_ix client_metas client_discriminators)

text \<open>The accounts of an epoch the crank closes.\<close>

definition crank_targets :: "'p network \<Rightarrow> cli_handler \<Rightarrow> pubkey \<Rightarrow> u64 \<Rightarrow> pubkey set" where
  "crank_targets N h ncn epoch = (let p = ch_ncn_program_id h in
     {fst (BallotBox_find_program_address (net_sdk N) p ncn epoch),
      fst (EpochSnapshot_find_program_address (net_sdk N) p ncn epoch),
      fst (WeightTable_find_program_address (net_sdk N) p ncn epoch),
      fst (EpochState_find_program_address (net_sdk N) p ncn epoch)} \<union>
     range (\<lambda>operator. fst (OperatorSnapshot_find_program_address (net_sdk N) p operator ncn epoch)))"

text \<open>
  C36: the crank of the closing phase asks for nothing but the closing of ballot box, operator
  snapshots, epoch snapshot, weight table and epoch state, and never passes a fee wallet or a
  receiver.  The reward routers of the epoch, which the program closes only together with their
  receivers, stay open.
\<close>

theorem close_crank_leaves_routers:
  assumes "ch_ncn h = Some ncn"
  shows "adds_only (\<lambda>ix. foreign_ix N ix \<or> close_ix (net_borsh N) (crank_targets N h ncn epoch) epoch ix)
    W (snd (crank_close_epoch_accounts N h epoch W))"
proof -
  have "sends (close_tx N (crank_targets N h ncn epoch) epoch) (crank_close_epoch_accounts N h epoch)"
    unfolding crank_close_epoch_accounts_def Let_def
    using assms by (intro sends_intros sends_close_logged)
      (auto simp: crank_targets_def Let_def handler_ncn_def clift_def)
  from sendsD(2) [OF this, of W] show ?thesis
    by (auto simp: adds_only_def close_tx_def list_all_iff)
qed

theorem close_crank_leaves_routers_witness:
  "adds_only (\<lambda>ix. foreign_ix net0 ix \<or> close_ix le_borsh (crank_targets net0 handler0 11 5) 5 ix)
     world0 (snd (crank_close_epoch_accounts net0 handler0 5 world0))"
  using close_crank_leaves_routers [of handler0 11 net0 5 world0] by (simp add: handler0_def)

end
