(* ===== verification/Account_Layout.thy ===== *)
theory Account_Layout
  imports Client_Encoding Program_Properties
begin

text \<open>
  The bytes of the accounts.  The program keeps an account as eight bytes of discriminator and
  a \<open>repr(C)\<close> struct of fields with alignment one, so that the bytes of the fields follow each
  other in the order of the struct; the account types of the generated client
  (\<open>clients/rust/ncn_program/src/generated/accounts\<close> and \<open>types\<close>) read the fields of their own
  structs one after the other.  The theory has both, and shows that the client reads what the
  program wrote, for every type of account.

  \<open>Pod\<close> integers and \<open>borsh\<close> are not in the repository: what they write and read is the record
  \<open>wire\<close>, and that they fit each other the locale \<open>wire_format\<close>.
\<close>

section \<open>Primitive types\<close>

record wire =
  pod_u16 :: "u16 \<Rightarrow> u8 list"
  pod_u64 :: "u64 \<Rightarrow> u8 list"
  pod_u128 :: "u128 \<Rightarrow> u8 list"
  pod_bool :: "bool \<Rightarrow> u8 list"
  borsh_u8 :: "u8 list \<Rightarrow> (u8 \<times> u8 list) option"
  borsh_u16 :: "u8 list \<Rightarrow> (u16 \<times> u8 list) option"
  borsh_u64 :: "u8 list \<Rightarrow> (u64 \<times> u8 list) option"
  borsh_u128 :: "u8 list \<Rightarrow> (u128 \<times> u8 list) option"
  borsh_bool :: "u8 list \<Rightarrow> (bool \<times> u8 list) option"
  borsh_pubkey :: "u8 list \<Rightarrow> (pubkey \<times> u8 list) option"

text \<open>An array \<open>[T; n]\<close> is read element by element.\<close>

primrec read_array :: "nat \<Rightarrow> (u8 list \<Rightarrow> ('a \<times> u8 list) option) \<Rightarrow> u8 list \<Rightarrow> ('a list \<times> u8 list) option" where
  "read_array 0 rd = give []"
| "read_array (Suc n) rd = and_read rd (\<lambda>x. and_read (read_array n rd) (\<lambda>xs. give (x # xs)))"

section \<open>The structs of the program\<close>

definition StakeWeights_bytes :: "wire \<Rightarrow> stake_weights \<Rightarrow> u8 list" where
  "StakeWeights_bytes W x =
     pod_u128 W (stake_weight x)"

definition Fee_bytes :: "wire \<Rightarrow> fee_t \<Rightarrow> u8 list" where
  "Fee_bytes W x =
     pod_u16 W (fee x)"

definition Fees_bytes :: "wire \<Rightarrow> fees \<Rightarrow> u8 list" where
  "Fees_bytes W x =
     pod_u64 W (activation_epoch x) @ Fee_bytes W (protocol_fee_bps x) @ Fee_bytes W (ncn_fee_bps x)"

definition FeeConfig_bytes :: "wire \<Rightarrow> fee_config \<Rightarrow> u8 list" where
  "FeeConfig_bytes W x =
     to_bytes (protocol_fee_wallet x) @ to_bytes (ncn_fee_wallets x) @ Fees_bytes W (fee_1 x) @
     Fees_bytes W (fee_2 x)"

definition StMintEntry_bytes :: "wire \<Rightarrow> st_mint_entry \<Rightarrow> u8 list" where
  "StMintEntry_bytes W x =
     to_bytes (sme_st_mint x) @ reserve_switchboard_feed x @ pod_u128 W (sme_weight x)"

definition VaultEntry_bytes :: "wire \<Rightarrow> vault_entry \<Rightarrow> u8 list" where
  "VaultEntry_bytes W x =
     to_bytes (ve_vault x) @ to_bytes (ve_st_mint x) @ pod_u64 W (ve_vault_index x) @
     pod_u64 W (ve_slot_registered x)"

definition WeightEntry_bytes :: "wire \<Rightarrow> weight_entry \<Rightarrow> u8 list" where
  "WeightEntry_bytes W x =
     StMintEntry_bytes W (we_st_mint_entry x) @ pod_u128 W (we_weight x) @ pod_u64 W (we_slot_set x) @
     pod_u64 W (we_slot_updated x)"

definition VaultOperatorStakeWeight_bytes :: "wire \<Rightarrow> vault_operator_stake_weight_t \<Rightarrow> u8 list" where
  "VaultOperatorStakeWeight_bytes W x =
     to_bytes (vosw_vault x) @ pod_u64 W (vosw_vault_index x) @
     StakeWeights_bytes W (vosw_stake_weight x)"

definition Ballot_bytes :: "wire \<Rightarrow> ballot \<Rightarrow> u8 list" where
  "Ballot_bytes W x =
     [weather_status x] @ pod_bool W (ballot_is_valid x)"

definition BallotTally_bytes :: "wire \<Rightarrow> ballot_tally \<Rightarrow> u8 list" where
  "BallotTally_bytes W x =
     pod_u16 W (bt_index x) @ Ballot_bytes W (bt_ballot x) @ StakeWeights_bytes W (bt_stake_weights x) @
     pod_u64 W (bt_tally x)"

definition OperatorVote_bytes :: "wire \<Rightarrow> operator_vote \<Rightarrow> u8 list" where
  "OperatorVote_bytes W x =
     to_bytes (ov_operator x) @ pod_u64 W (ov_slot_voted x) @
     StakeWeights_bytes W (ov_stake_weights x) @ pod_u16 W (ov_ballot_index x)"

definition EpochAccountStatus_bytes :: "wire \<Rightarrow> epoch_account_status \<Rightarrow> u8 list" where
  "EpochAccountStatus_bytes W x =
     [eas_epoch_state x] @ [eas_weight_table x] @ [eas_epoch_snapshot x] @ eas_operator_snapshot x @
     [eas_ballot_box x] @ [eas_ncn_reward_router x] @ eas_operator_vault_reward_router x"

definition Progress_bytes :: "wire \<Rightarrow> progress \<Rightarrow> u8 list" where
  "Progress_bytes W x =
     pod_u64 W (prog_tally x) @ pod_u64 W (prog_total x)"

definition NCNRewardRouterRewards_bytes :: "wire \<Rightarrow> ncn_reward_router_rewards \<Rightarrow> u8 list" where
  "NCNRewardRouterRewards_bytes W x =
     pod_u64 W (nrr_rewards x)"

definition OperatorVaultRewardRoute_bytes :: "wire \<Rightarrow> operator_vault_reward_route \<Rightarrow> u8 list" where
  "OperatorVaultRewardRoute_bytes W x =
     to_bytes (ovrr_operator x) @ NCNRewardRouterRewards_bytes W (ovrr_rewards x)"

definition VaultRewardRoute_bytes :: "wire \<Rightarrow> vault_reward_route_t \<Rightarrow> u8 list" where
  "VaultRewardRoute_bytes W x =
     to_bytes (vrr_vault x) @ pod_u64 W (vrr_rewards x)"

definition Config_bytes :: "wire \<Rightarrow> config \<Rightarrow> u8 list" where
  "Config_bytes W x =
     to_bytes (config_ncn x) @ to_bytes (tie_breaker_admin x) @
     pod_u64 W (valid_slots_after_consensus x) @ pod_u64 W (epochs_before_stall x) @
     pod_u64 W (epochs_after_consensus_before_close x) @ pod_u64 W (starting_valid_epoch x) @
     FeeConfig_bytes W (fee_config_of x) @ [config_bump x]"

definition VaultRegistry_bytes :: "wire \<Rightarrow> vault_registry \<Rightarrow> u8 list" where
  "VaultRegistry_bytes W x =
     to_bytes (vr_ncn x) @ [vr_bump x] @ concat (map (StMintEntry_bytes W) (st_mint_list x)) @
     concat (map (VaultEntry_bytes W) (vault_list x))"

definition WeightTable_bytes :: "wire \<Rightarrow> weight_table \<Rightarrow> u8 list" where
  "WeightTable_bytes W x =
     to_bytes (wt_ncn x) @ pod_u64 W (wt_epoch x) @ pod_u64 W (wt_slot_created x) @
     pod_u64 W (wt_vault_count x) @ [wt_bump x] @
     concat (map (VaultEntry_bytes W) (wt_vault_registry x)) @
     concat (map (WeightEntry_bytes W) (wt_table x))"

definition EpochSnapshot_bytes :: "wire \<Rightarrow> epoch_snapshot \<Rightarrow> u8 list" where
  "EpochSnapshot_bytes W x =
     to_bytes (es_ncn x) @ pod_u64 W (es_epoch x) @ [es_bump x] @ pod_u64 W (es_slot_created x) @
     pod_u64 W (es_slot_finalized x) @ pod_u64 W (es_operator_count x) @ pod_u64 W (es_vault_count x) @
     pod_u64 W (es_operators_registered x) @ pod_u64 W (es_valid_operator_vault_delegations x) @
     StakeWeights_bytes W (es_stake_weights x) @ Fees_bytes W (es_fees x)"

definition OperatorSnapshot_bytes :: "wire \<Rightarrow> operator_snapshot \<Rightarrow> u8 list" where
  "OperatorSnapshot_bytes W x =
     to_bytes (os_operator x) @ to_bytes (os_ncn x) @ pod_u64 W (os_ncn_epoch x) @ [os_bump x] @
     pod_u64 W (os_slot_created x) @ pod_u64 W (os_slot_finalized x) @ pod_bool W (os_is_active x) @
     pod_u64 W (os_ncn_operator_index x) @ pod_u64 W (os_operator_index x) @
     pod_u16 W (os_operator_fee_bps x) @ pod_u64 W (vault_operator_delegation_count x) @
     pod_u64 W (vault_operator_delegations_registered x) @
     pod_u64 W (os_valid_operator_vault_delegations x) @ StakeWeights_bytes W (os_stake_weights x) @
     concat (map (VaultOperatorStakeWeight_bytes W) (vault_operator_stake_weight x))"

definition BallotBox_bytes :: "wire \<Rightarrow> ballot_box \<Rightarrow> u8 list" where
  "BallotBox_bytes W x =
     to_bytes (bb_ncn x) @ pod_u64 W (bb_epoch x) @ [bb_bump x] @ pod_u64 W (bb_slot_created x) @
     pod_u64 W (slot_consensus_reached x) @ pod_u64 W (operators_voted x) @
     pod_u64 W (unique_ballots x) @ Ballot_bytes W (winning_ballot x) @
     concat (map (OperatorVote_bytes W) (operator_votes x)) @
     concat (map (BallotTally_bytes W) (ballot_tallies x))"

definition ConsensusResult_bytes :: "wire \<Rightarrow> consensus_result \<Rightarrow> u8 list" where
  "ConsensusResult_bytes W x =
     to_bytes (cr_ncn x) @ pod_u64 W (cr_epoch x) @ pod_u64 W (cr_vote_weight x) @
     pod_u64 W (cr_total_vote_weight x) @ pod_u64 W (cr_consensus_slot x) @ [cr_bump x] @
     [cr_weather_status x]"

definition NCNRewardRouter_bytes :: "wire \<Rightarrow> ncn_reward_router \<Rightarrow> u8 list" where
  "NCNRewardRouter_bytes W x =
     to_bytes (nr_ncn x) @ pod_u64 W (nr_epoch x) @ [nr_bump x] @ pod_u64 W (nr_slot_created x) @
     pod_u64 W (nr_total_rewards x) @ pod_u64 W (nr_reward_pool x) @
     pod_u64 W (nr_rewards_processed x) @ nr_reserved x @ pod_u16 W (last_vote_index x) @
     pod_u64 W (nr_last_rewards_to_process x) @ pod_u64 W (protocol_rewards x) @
     pod_u64 W (ncn_rewards x) @ pod_u64 W (operator_vault_rewards x) @
     concat (map (OperatorVaultRewardRoute_bytes W) (operator_vault_reward_routes x))"

definition OperatorVaultRewardRouter_bytes :: "wire \<Rightarrow> operator_vault_reward_router \<Rightarrow> u8 list" where
  "OperatorVaultRewardRouter_bytes W x =
     to_bytes (or_operator x) @ to_bytes (or_ncn x) @ pod_u64 W (or_epoch x) @ [or_bump x] @
     pod_u64 W (or_slot_created x) @ pod_u64 W (or_ncn_operator_index x) @
     pod_u64 W (or_total_rewards x) @ pod_u64 W (or_reward_pool x) @
     pod_u64 W (or_rewards_processed x) @ pod_u64 W (operator_rewards x) @
     pod_u64 W (or_last_rewards_to_process x) @ pod_u16 W (last_vault_operator_delegation_index x) @
     concat (map (VaultRewardRoute_bytes W) (vault_reward_routes x))"

definition EpochState_bytes :: "wire \<Rightarrow> epoch_state \<Rightarrow> u8 list" where
  "EpochState_bytes W x =
     to_bytes (est_ncn x) @ pod_u64 W (est_epoch x) @ [est_bump x] @ pod_u64 W (est_slot_created x) @
     pod_bool W (was_tie_breaker_set x) @ pod_u64 W (est_slot_consensus_reached x) @
     pod_u64 W (est_operator_count x) @ pod_u64 W (est_vault_count x) @
     EpochAccountStatus_bytes W (account_status x) @ Progress_bytes W (set_weight_progress x) @
     Progress_bytes W (epoch_snapshot_progress x) @
     concat (map (Progress_bytes W) (operator_snapshot_progress x)) @
     Progress_bytes W (voting_progress x) @ Progress_bytes W (total_distribution_progress x) @
     Progress_bytes W (ncn_distribution_progress x) @
     Progress_bytes W (protocol_distribution_progress x) @
     Progress_bytes W (operator_vault_distribution_progress x) @
     concat (map (Progress_bytes W) (operator_vault_routes_distribution_progress x)) @
     pod_bool W (est_is_closing x)"

definition EpochMarker_bytes :: "wire \<Rightarrow> epoch_marker \<Rightarrow> u8 list" where
  "EpochMarker_bytes W x =
     to_bytes (em_ncn x) @ pod_u64 W (em_epoch x) @ pod_u64 W (em_slot_closed x)"

text \<open>The data of an account: the discriminator is the first of eight bytes.\<close>

definition header :: "Discriminators \<Rightarrow> u8 list" where
  "header t = Discriminators_as_u8 t # replicate 7 0"

fun account_bytes :: "wire \<Rightarrow> account_data \<Rightarrow> u8 list" where
  "account_bytes W (Zeroed n) = replicate n 0"
| "account_bytes W (Foreign bs) = bs"
| "account_bytes W (ConfigData x) = header DConfig @ Config_bytes W x"
| "account_bytes W (VaultRegistryData x) = header DVaultRegistry @ VaultRegistry_bytes W x"
| "account_bytes W (WeightTableData x) = header DWeightTable @ WeightTable_bytes W x"
| "account_bytes W (EpochSnapshotData x) = header DEpochSnapshot @ EpochSnapshot_bytes W x"
| "account_bytes W (OperatorSnapshotData x) = header DOperatorSnapshot @ OperatorSnapshot_bytes W x"
| "account_bytes W (BallotBoxData x) = header DBallotBox @ BallotBox_bytes W x"
| "account_bytes W (ConsensusResultData x) = header DConsensusResult @ ConsensusResult_bytes W x"
| "account_bytes W (NCNRewardRouterData x) = header DNCNRewardRouter @ NCNRewardRouter_bytes W x"
| "account_bytes W (OperatorVaultRewardRouterData x) = header DOperatorVaultRewardRouter @ OperatorVaultRewardRouter_bytes W x"
| "account_bytes W (EpochStateData x) = header DEpochState @ EpochState_bytes W x"
| "account_bytes W (EpochMarkerData x) = header DEpochMarker @ EpochMarker_bytes W x"

section \<open>The structs of the generated client\<close>

text \<open>A struct of the client is its discriminator together with the record of the program's struct.\<close>

definition read_StakeWeights :: "wire \<Rightarrow> u8 list \<Rightarrow> (stake_weights \<times> u8 list) option" where
  "read_StakeWeights W =
     and_read (borsh_u128 W) (\<lambda>stake_weight'.
     give (\<lparr>stake_weight = stake_weight'\<rparr>))"

definition read_Fee :: "wire \<Rightarrow> u8 list \<Rightarrow> (fee_t \<times> u8 list) option" where
  "read_Fee W =
     and_read (borsh_u16 W) (\<lambda>fee'.
     give (\<lparr>fee = fee'\<rparr>))"

definition read_Fees :: "wire \<Rightarrow> u8 list \<Rightarrow> (fees \<times> u8 list) option" where
  "read_Fees W =
     and_read (borsh_u64 W) (\<lambda>activation_epoch'.
     and_read (read_Fee W) (\<lambda>protocol_fee_bps'. and_read (read_Fee W) (\<lambda>ncn_fee_bps'.
     give (\<lparr>activation_epoch = activation_epoch', protocol_fee_bps = protocol_fee_bps',
       ncn_fee_bps = ncn_fee_bps'\<rparr>))))"

definition read_FeeConfig :: "wire \<Rightarrow> u8 list \<Rightarrow> (fee_config \<times> u8 list) option" where
  "read_FeeConfig W =
     and_read (borsh_pubkey W) (\<lambda>protocol_fee_wallet'.
     and_read (borsh_pubkey W) (\<lambda>ncn_fee_wallets'. and_read (read_Fees W) (\<lambda>fee1'.
     and_read (read_Fees W) (\<lambda>fee2'.
     give (\<lparr>protocol_fee_wallet = protocol_fee_wallet', ncn_fee_wallets = ncn_fee_wallets',
       fee_1 = fee1', fee_2 = fee2'\<rparr>)))))"

definition read_StMintEntry :: "wire \<Rightarrow> u8 list \<Rightarrow> (st_mint_entry \<times> u8 list) option" where
  "read_StMintEntry W =
     and_read (borsh_pubkey W) (\<lambda>st_mint'.
     and_read (read_array 32 (borsh_u8 W)) (\<lambda>reserve_switchboard_feed'.
     and_read (borsh_u128 W) (\<lambda>weight'.
     give (\<lparr>sme_st_mint = st_mint', reserve_switchboard_feed = reserve_switchboard_feed',
       sme_weight = weight'\<rparr>))))"

definition read_VaultEntry :: "wire \<Rightarrow> u8 list \<Rightarrow> (vault_entry \<times> u8 list) option" where
  "read_VaultEntry W =
     and_read (borsh_pubkey W) (\<lambda>vault'. and_read (borsh_pubkey W) (\<lambda>st_mint'.
     and_read (borsh_u64 W) (\<lambda>vault_index'. and_read (borsh_u64 W) (\<lambda>slot_registered'.
     give (\<lparr>ve_vault = vault', ve_st_mint = st_mint', ve_vault_index = vault_index',
       ve_slot_registered = slot_registered'\<rparr>)))))"

definition read_WeightEntry :: "wire \<Rightarrow> u8 list \<Rightarrow> (weight_entry \<times> u8 list) option" where
  "read_WeightEntry W =
     and_read (read_StMintEntry W) (\<lambda>st_mint_entry'. and_read (borsh_u128 W) (\<lambda>weight'.
     and_read (borsh_u64 W) (\<lambda>slot_set'. and_read (borsh_u64 W) (\<lambda>slot_updated'.
     give (\<lparr>we_st_mint_entry = st_mint_entry', we_weight = weight', we_slot_set = slot_set',
       we_slot_updated = slot_updated'\<rparr>)))))"

definition read_VaultOperatorStakeWeight :: "wire \<Rightarrow> u8 list \<Rightarrow> (vault_operator_stake_weight_t \<times> u8 list) option" where
  "read_VaultOperatorStakeWeight W =
     and_read (borsh_pubkey W) (\<lambda>vault'. and_read (borsh_u64 W) (\<lambda>vault_index'.
     and_read (read_StakeWeights W) (\<lambda>stake_weight'.
     give (\<lparr>vosw_vault = vault', vosw_vault_index = vault_index',
       vosw_stake_weight = stake_weight'\<rparr>))))"

definition read_Ballot :: "wire \<Rightarrow> u8 list \<Rightarrow> (ballot \<times> u8 list) option" where
  "read_Ballot W =
     and_read (borsh_u8 W) (\<lambda>weather_status'. and_read (borsh_bool W) (\<lambda>is_valid'.
     give (\<lparr>weather_status = weather_status', ballot_is_valid = is_valid'\<rparr>)))"

definition read_BallotTally :: "wire \<Rightarrow> u8 list \<Rightarrow> (ballot_tally \<times> u8 list) option" where
  "read_BallotTally W =
     and_read (borsh_u16 W) (\<lambda>index'. and_read (read_Ballot W) (\<lambda>ballot'.
     and_read (read_StakeWeights W) (\<lambda>stake_weights'. and_read (borsh_u64 W) (\<lambda>tally'.
     give (\<lparr>bt_index = index', bt_ballot = ballot', bt_stake_weights = stake_weights',
       bt_tally = tally'\<rparr>)))))"

definition read_OperatorVote :: "wire \<Rightarrow> u8 list \<Rightarrow> (operator_vote \<times> u8 list) option" where
  "read_OperatorVote W =
     and_read (borsh_pubkey W) (\<lambda>operator'. and_read (borsh_u64 W) (\<lambda>slot_voted'.
     and_read (read_StakeWeights W) (\<lambda>stake_weights'.
     and_read (borsh_u16 W) (\<lambda>ballot_index'.
     give (\<lparr>ov_operator = operator', ov_slot_voted = slot_voted',
       ov_stake_weights = stake_weights', ov_ballot_index = ballot_index'\<rparr>)))))"

definition read_EpochAccountStatus :: "wire \<Rightarrow> u8 list \<Rightarrow> (epoch_account_status \<times> u8 list) option" where
  "read_EpochAccountStatus W =
     and_read (borsh_u8 W) (\<lambda>epoch_state'. and_read (borsh_u8 W) (\<lambda>weight_table'.
     and_read (borsh_u8 W) (\<lambda>epoch_snapshot'.
     and_read (read_array 256 (borsh_u8 W)) (\<lambda>operator_snapshot'.
     and_read (borsh_u8 W) (\<lambda>ballot_box'. and_read (borsh_u8 W) (\<lambda>ncn_reward_router'.
     and_read (read_array 256 (borsh_u8 W)) (\<lambda>operator_vault_reward_router'.
     give (\<lparr>eas_epoch_state = epoch_state', eas_weight_table = weight_table',
       eas_epoch_snapshot = epoch_snapshot', eas_operator_snapshot = operator_snapshot',
       eas_ballot_box = ballot_box', eas_ncn_reward_router = ncn_reward_router',
       eas_operator_vault_reward_router = operator_vault_reward_router'\<rparr>))))))))"

definition read_Progress :: "wire \<Rightarrow> u8 list \<Rightarrow> (progress \<times> u8 list) option" where
  "read_Progress W =
     and_read (borsh_u64 W) (\<lambda>tally'. and_read (borsh_u64 W) (\<lambda>total'.
     give (\<lparr>prog_tally = tally', prog_total = total'\<rparr>)))"

definition read_NCNRewardRouterRewards :: "wire \<Rightarrow> u8 list \<Rightarrow> (ncn_reward_router_rewards \<times> u8 list) option" where
  "read_NCNRewardRouterRewards W =
     and_read (borsh_u64 W) (\<lambda>rewards'.
     give (\<lparr>nrr_rewards = rewards'\<rparr>))"

definition read_OperatorVaultRewardRoute :: "wire \<Rightarrow> u8 list \<Rightarrow> (operator_vault_reward_route \<times> u8 list) option" where
  "read_OperatorVaultRewardRoute W =
     and_read (borsh_pubkey W) (\<lambda>operator'.
     and_read (read_NCNRewardRouterRewards W) (\<lambda>rewards'.
     give (\<lparr>ovrr_operator = operator', ovrr_rewards = rewards'\<rparr>)))"

definition read_VaultRewardRoute :: "wire \<Rightarrow> u8 list \<Rightarrow> (vault_reward_route_t \<times> u8 list) option" where
  "read_VaultRewardRoute W =
     and_read (borsh_pubkey W) (\<lambda>vault'. and_read (borsh_u64 W) (\<lambda>rewards'.
     give (\<lparr>vrr_vault = vault', vrr_rewards = rewards'\<rparr>)))"

definition read_Config :: "wire \<Rightarrow> u8 list \<Rightarrow> ((u64 \<times> config) \<times> u8 list) option" where
  "read_Config W =
     and_read (borsh_u64 W) (\<lambda>discriminator'. and_read (borsh_pubkey W) (\<lambda>ncn'.
     and_read (borsh_pubkey W) (\<lambda>tie_breaker_admin'.
     and_read (borsh_u64 W) (\<lambda>valid_slots_after_consensus'.
     and_read (borsh_u64 W) (\<lambda>epochs_before_stall'.
     and_read (borsh_u64 W) (\<lambda>epochs_after_consensus_before_close'.
     and_read (borsh_u64 W) (\<lambda>starting_valid_epoch'.
     and_read (read_FeeConfig W) (\<lambda>fee_config'. and_read (borsh_u8 W) (\<lambda>bump'.
     give (discriminator', \<lparr>config_ncn = ncn', tie_breaker_admin = tie_breaker_admin',
       valid_slots_after_consensus = valid_slots_after_consensus',
       epochs_before_stall = epochs_before_stall',
       epochs_after_consensus_before_close = epochs_after_consensus_before_close',
       starting_valid_epoch = starting_valid_epoch', fee_config_of = fee_config',
       config_bump = bump'\<rparr>))))))))))"

definition read_VaultRegistry :: "wire \<Rightarrow> u8 list \<Rightarrow> ((u64 \<times> vault_registry) \<times> u8 list) option" where
  "read_VaultRegistry W =
     and_read (borsh_u64 W) (\<lambda>discriminator'. and_read (borsh_pubkey W) (\<lambda>ncn'.
     and_read (borsh_u8 W) (\<lambda>bump'.
     and_read (read_array 64 (read_StMintEntry W)) (\<lambda>st_mint_list'.
     and_read (read_array 64 (read_VaultEntry W)) (\<lambda>vault_list'.
     give (discriminator', \<lparr>vr_ncn = ncn', vr_bump = bump', st_mint_list = st_mint_list',
       vault_list = vault_list'\<rparr>))))))"

definition read_WeightTable :: "wire \<Rightarrow> u8 list \<Rightarrow> ((u64 \<times> weight_table) \<times> u8 list) option" where
  "read_WeightTable W =
     and_read (borsh_u64 W) (\<lambda>discriminator'. and_read (borsh_pubkey W) (\<lambda>ncn'.
     and_read (borsh_u64 W) (\<lambda>epoch'. and_read (borsh_u64 W) (\<lambda>slot_created'.
     and_read (borsh_u64 W) (\<lambda>vault_count'. and_read (borsh_u8 W) (\<lambda>bump'.
     and_read (read_array 64 (read_VaultEntry W)) (\<lambda>vault_registry'.
     and_read (read_array 64 (read_WeightEntry W)) (\<lambda>table'.
     give (discriminator', \<lparr>wt_ncn = ncn', wt_epoch = epoch', wt_slot_created = slot_created',
       wt_vault_count = vault_count', wt_bump = bump', wt_vault_registry = vault_registry',
       wt_table = table'\<rparr>)))))))))"

definition read_EpochSnapshot :: "wire \<Rightarrow> u8 list \<Rightarrow> ((u64 \<times> epoch_snapshot) \<times> u8 list) option" where
  "read_EpochSnapshot W =
     and_read (borsh_u64 W) (\<lambda>discriminator'. and_read (borsh_pubkey W) (\<lambda>ncn'.
     and_read (borsh_u64 W) (\<lambda>epoch'. and_read (borsh_u8 W) (\<lambda>bump'.
     and_read (borsh_u64 W) (\<lambda>slot_created'. and_read (borsh_u64 W) (\<lambda>slot_finalized'.
     and_read (borsh_u64 W) (\<lambda>operator_count'. and_read (borsh_u64 W) (\<lambda>vault_count'.
     and_read (borsh_u64 W) (\<lambda>operators_registered'.
     and_read (borsh_u64 W) (\<lambda>valid_operator_vault_delegations'.
     and_read (read_StakeWeights W) (\<lambda>stake_weights'. and_read (read_Fees W) (\<lambda>fees'.
     give (discriminator', \<lparr>es_ncn = ncn', es_epoch = epoch', es_bump = bump',
       es_slot_created = slot_created', es_slot_finalized = slot_finalized',
       es_operator_count = operator_count', es_vault_count = vault_count',
       es_operators_registered = operators_registered',
       es_valid_operator_vault_delegations = valid_operator_vault_delegations',
       es_stake_weights = stake_weights', es_fees = fees'\<rparr>)))))))))))))"

definition read_OperatorSnapshot :: "wire \<Rightarrow> u8 list \<Rightarrow> ((u64 \<times> operator_snapshot) \<times> u8 list) option" where
  "read_OperatorSnapshot W =
     and_read (borsh_u64 W) (\<lambda>discriminator'. and_read (borsh_pubkey W) (\<lambda>operator'.
     and_read (borsh_pubkey W) (\<lambda>ncn'. and_read (borsh_u64 W) (\<lambda>ncn_epoch'.
     and_read (borsh_u8 W) (\<lambda>bump'. and_read (borsh_u64 W) (\<lambda>slot_created'.
     and_read (borsh_u64 W) (\<lambda>slot_finalized'. and_read (borsh_bool W) (\<lambda>is_active'.
     and_read (borsh_u64 W) (\<lambda>ncn_operator_index'.
     and_read (borsh_u64 W) (\<lambda>operator_index'.
     and_read (borsh_u16 W) (\<lambda>operator_fee_bps'.
     and_read (borsh_u64 W) (\<lambda>vault_operator_delegation_count'.
     and_read (borsh_u64 W) (\<lambda>vault_operator_delegations_registered'.
     and_read (borsh_u64 W) (\<lambda>valid_operator_vault_delegations'.
     and_read (read_StakeWeights W) (\<lambda>stake_weights'.
     and_read (read_array 64 (read_VaultOperatorStakeWeight W)) (\<lambda>vault_operator_stake_weight'.
     give (discriminator', \<lparr>os_operator = operator', os_ncn = ncn', os_ncn_epoch = ncn_epoch',
       os_bump = bump', os_slot_created = slot_created', os_slot_finalized = slot_finalized',
       os_is_active = is_active', os_ncn_operator_index = ncn_operator_index',
       os_operator_index = operator_index', os_operator_fee_bps = operator_fee_bps',
       vault_operator_delegation_count = vault_operator_delegation_count',
       vault_operator_delegations_registered = vault_operator_delegations_registered',
       os_valid_operator_vault_delegations = valid_operator_vault_delegations',
       os_stake_weights = stake_weights',
       vault_operator_stake_weight = vault_operator_stake_weight'\<rparr>)))))))))))))))))"

definition read_BallotBox :: "wire \<Rightarrow> u8 list \<Rightarrow> ((u64 \<times> ballot_box) \<times> u8 list) option" where
  "read_BallotBox W =
     and_read (borsh_u64 W) (\<lambda>discriminator'. and_read (borsh_pubkey W) (\<lambda>ncn'.
     and_read (borsh_u64 W) (\<lambda>epoch'. and_read (borsh_u8 W) (\<lambda>bump'.
     and_read (borsh_u64 W) (\<lambda>slot_created'.
     and_read (borsh_u64 W) (\<lambda>slot_consensus_reached'.
     and_read (borsh_u64 W) (\<lambda>operators_voted'.
     and_read (borsh_u64 W) (\<lambda>unique_ballots'.
     and_read (read_Ballot W) (\<lambda>winning_ballot'.
     and_read (read_array 256 (read_OperatorVote W)) (\<lambda>operator_votes'.
     and_read (read_array 256 (read_BallotTally W)) (\<lambda>ballot_tallies'.
     give (discriminator', \<lparr>bb_ncn = ncn', bb_epoch = epoch', bb_bump = bump',
       bb_slot_created = slot_created', slot_consensus_reached = slot_consensus_reached',
       operators_voted = operators_voted', unique_ballots = unique_ballots',
       winning_ballot = winning_ballot', operator_votes = operator_votes',
       ballot_tallies = ballot_tallies'\<rparr>))))))))))))"

definition read_ConsensusResult :: "wire \<Rightarrow> u8 list \<Rightarrow> ((u64 \<times> consensus_result) \<times> u8 list) option" where
  "read_ConsensusResult W =
     and_read (borsh_u64 W) (\<lambda>discriminator'. and_read (borsh_pubkey W) (\<lambda>ncn'.
     and_read (borsh_u64 W) (\<lambda>epoch'. and_read (borsh_u64 W) (\<lambda>vote_weight'.
     and_read (borsh_u64 W) (\<lambda>total_vote_weight'.
     and_read (borsh_u64 W) (\<lambda>consensus_slot'. and_read (borsh_u8 W) (\<lambda>bump'.
     and_read (borsh_u8 W) (\<lambda>weather_status'.
     give (discriminator', \<lparr>cr_ncn = ncn', cr_epoch = epoch', cr_vote_weight = vote_weight',
       cr_total_vote_weight = total_vote_weight', cr_consensus_slot = consensus_slot', cr_bump = bump',
       cr_weather_status = weather_status'\<rparr>)))))))))"

definition read_NCNRewardRouter :: "wire \<Rightarrow> u8 list \<Rightarrow> ((u64 \<times> ncn_reward_router) \<times> u8 list) option" where
  "read_NCNRewardRouter W =
     and_read (borsh_u64 W) (\<lambda>discriminator'. and_read (borsh_pubkey W) (\<lambda>ncn'.
     and_read (borsh_u64 W) (\<lambda>epoch'. and_read (borsh_u8 W) (\<lambda>bump'.
     and_read (borsh_u64 W) (\<lambda>slot_created'. and_read (borsh_u64 W) (\<lambda>total_rewards'.
     and_read (borsh_u64 W) (\<lambda>reward_pool'. and_read (borsh_u64 W) (\<lambda>rewards_processed'.
     and_read (read_array 128 (borsh_u8 W)) (\<lambda>reserved'.
     and_read (borsh_u16 W) (\<lambda>last_vote_index'.
     and_read (borsh_u64 W) (\<lambda>last_rewards_to_process'.
     and_read (borsh_u64 W) (\<lambda>protocol_rewards'. and_read (borsh_u64 W) (\<lambda>ncn_rewards'.
     and_read (borsh_u64 W) (\<lambda>operator_vault_rewards'.
     and_read (read_array 256 (read_OperatorVaultRewardRoute W)) (\<lambda>operator_vault_reward_routes'.
     give (discriminator', \<lparr>nr_ncn = ncn', nr_epoch = epoch', nr_bump = bump',
       nr_slot_created = slot_created', nr_total_rewards = total_rewards',
       nr_reward_pool = reward_pool', nr_rewards_processed = rewards_processed',
       nr_reserved = reserved', last_vote_index = last_vote_index',
       nr_last_rewards_to_process = last_rewards_to_process', protocol_rewards = protocol_rewards',
       ncn_rewards = ncn_rewards', operator_vault_rewards = operator_vault_rewards',
       operator_vault_reward_routes = operator_vault_reward_routes'\<rparr>))))))))))))))))"

definition read_OperatorVaultRewardRouter :: "wire \<Rightarrow> u8 list \<Rightarrow> ((u64 \<times> operator_vault_reward_router) \<times> u8 list) option" where
  "read_OperatorVaultRewardRouter W =
     and_read (borsh_u64 W) (\<lambda>discriminator'. and_read (borsh_pubkey W) (\<lambda>operator'.
     and_read (borsh_pubkey W) (\<lambda>ncn'. and_read (borsh_u64 W) (\<lambda>epoch'.
     and_read (borsh_u8 W) (\<lambda>bump'. and_read (borsh_u64 W) (\<lambda>slot_created'.
     and_read (borsh_u64 W) (\<lambda>ncn_operator_index'.
     and_read (borsh_u64 W) (\<lambda>total_rewards'. and_read (borsh_u64 W) (\<lambda>reward_pool'.
     and_read (borsh_u64 W) (\<lambda>rewards_processed'.
     and_read (borsh_u64 W) (\<lambda>operator_rewards'.
     and_read (borsh_u64 W) (\<lambda>last_rewards_to_process'.
     and_read (borsh_u16 W) (\<lambda>last_vault_operator_delegation_index'.
     and_read (read_array 64 (read_VaultRewardRoute W)) (\<lambda>vault_reward_routes'.
     give (discriminator', \<lparr>or_operator = operator', or_ncn = ncn', or_epoch = epoch',
       or_bump = bump', or_slot_created = slot_created', or_ncn_operator_index = ncn_operator_index',
       or_total_rewards = total_rewards', or_reward_pool = reward_pool',
       or_rewards_processed = rewards_processed', operator_rewards = operator_rewards',
       or_last_rewards_to_process = last_rewards_to_process',
       last_vault_operator_delegation_index = last_vault_operator_delegation_index',
       vault_reward_routes = vault_reward_routes'\<rparr>)))))))))))))))"

definition read_EpochState :: "wire \<Rightarrow> u8 list \<Rightarrow> ((u64 \<times> epoch_state) \<times> u8 list) option" where
  "read_EpochState W =
     and_read (borsh_u64 W) (\<lambda>discriminator'. and_read (borsh_pubkey W) (\<lambda>ncn'.
     and_read (borsh_u64 W) (\<lambda>epoch'. and_read (borsh_u8 W) (\<lambda>bump'.
     and_read (borsh_u64 W) (\<lambda>slot_created'.
     and_read (borsh_bool W) (\<lambda>was_tie_breaker_set'.
     and_read (borsh_u64 W) (\<lambda>slot_consensus_reached'.
     and_read (borsh_u64 W) (\<lambda>operator_count'. and_read (borsh_u64 W) (\<lambda>vault_count'.
     and_read (read_EpochAccountStatus W) (\<lambda>account_status'.
     and_read (read_Progress W) (\<lambda>set_weight_progress'.
     and_read (read_Progress W) (\<lambda>epoch_snapshot_progress'.
     and_read (read_array 256 (read_Progress W)) (\<lambda>operator_snapshot_progress'.
     and_read (read_Progress W) (\<lambda>voting_progress'.
     and_read (read_Progress W) (\<lambda>total_distribution_progress'.
     and_read (read_Progress W) (\<lambda>ncn_distribution_progress'.
     and_read (read_Progress W) (\<lambda>protocol_distribution_progress'.
     and_read (read_Progress W) (\<lambda>operator_vault_distribution_progress'.
     and_read (read_array 256 (read_Progress W)) (\<lambda>operator_vault_routes_distribution_progress'.
     and_read (borsh_bool W) (\<lambda>is_closing'.
     give (discriminator', \<lparr>est_ncn = ncn', est_epoch = epoch', est_bump = bump',
       est_slot_created = slot_created', was_tie_breaker_set = was_tie_breaker_set',
       est_slot_consensus_reached = slot_consensus_reached', est_operator_count = operator_count',
       est_vault_count = vault_count', account_status = account_status',
       set_weight_progress = set_weight_progress', epoch_snapshot_progress = epoch_snapshot_progress',
       operator_snapshot_progress = operator_snapshot_progress', voting_progress = voting_progress',
       total_distribution_progress = total_distribution_progress',
       ncn_distribution_progress = ncn_distribution_progress',
       protocol_distribution_progress = protocol_distribution_progress',
       operator_vault_distribution_progress = operator_vault_distribution_progress',
       operator_vault_routes_distribution_progress = operator_vault_routes_distribution_progress',
       est_is_closing = is_closing'\<rparr>)))))))))))))))))))))"

definition read_EpochMarker :: "wire \<Rightarrow> u8 list \<Rightarrow> ((u64 \<times> epoch_marker) \<times> u8 list) option" where
  "read_EpochMarker W =
     and_read (borsh_u64 W) (\<lambda>discriminator'. and_read (borsh_pubkey W) (\<lambda>ncn'.
     and_read (borsh_u64 W) (\<lambda>epoch'. and_read (borsh_u64 W) (\<lambda>slot_closed'.
     give (discriminator', \<lparr>em_ncn = ncn', em_epoch = epoch',
       em_slot_closed = slot_closed'\<rparr>)))))"

text \<open>\<open>from_bytes\<close> of the account types ignores what follows the struct.\<close>

definition from_bytes :: "(u8 list \<Rightarrow> ((u64 \<times> 'a) \<times> u8 list) option) \<Rightarrow> ('a \<Rightarrow> account_data) \<Rightarrow>
  u8 list \<Rightarrow> (u64 \<times> account_data) option" where
  "from_bytes rd C bs = map_option (\<lambda>((discriminator, x), _). (discriminator, C x)) (rd bs)"

primrec client_account :: "wire \<Rightarrow> Discriminators \<Rightarrow> u8 list \<Rightarrow> (u64 \<times> account_data) option" where
  "client_account W DConfig = from_bytes (read_Config W) ConfigData"
| "client_account W DVaultRegistry = from_bytes (read_VaultRegistry W) VaultRegistryData"
| "client_account W DWeightTable = from_bytes (read_WeightTable W) WeightTableData"
| "client_account W DEpochSnapshot = from_bytes (read_EpochSnapshot W) EpochSnapshotData"
| "client_account W DOperatorSnapshot = from_bytes (read_OperatorSnapshot W) OperatorSnapshotData"
| "client_account W DBallotBox = from_bytes (read_BallotBox W) BallotBoxData"
| "client_account W DConsensusResult = from_bytes (read_ConsensusResult W) ConsensusResultData"
| "client_account W DNCNRewardRouter = from_bytes (read_NCNRewardRouter W) NCNRewardRouterData"
| "client_account W DOperatorVaultRewardRouter = from_bytes (read_OperatorVaultRewardRouter W) OperatorVaultRewardRouterData"
| "client_account W DEpochState = from_bytes (read_EpochState W) EpochStateData"
| "client_account W DEpochMarker = from_bytes (read_EpochMarker W) EpochMarkerData"

section \<open>Layouts\<close>

text \<open>
  A layout: the values \<open>ok\<close> take \<open>n\<close> bytes each, and the reader gives them back and stops where
  the next field begins.
\<close>

locale layout =
  fixes enc :: "'a \<Rightarrow> u8 list" and rd :: "u8 list \<Rightarrow> ('a \<times> u8 list) option"
    and ok :: "'a \<Rightarrow> bool" and n :: nat
  assumes enc_length [simp]: "ok x \<Longrightarrow> length (enc x) = n"
    and read_back: "ok x \<Longrightarrow> rd (enc x @ r) = Some (x, r)"
begin

lemma and_read_back [simp]: "ok x \<Longrightarrow> and_read rd f (enc x @ r) = f x r"
  by (simp add: and_read_def read_back)

lemma and_read_last [simp]: "ok x \<Longrightarrow> and_read rd f (enc x) = f x []"
  using and_read_back [of x f "[]"] by simp

lemma array_length [simp]: "list_all ok xs \<Longrightarrow> length (concat (map enc xs)) = length xs * n"
  by (induction xs) simp_all

lemma array_read: "list_all ok xs \<Longrightarrow> read_array (length xs) rd (concat (map enc xs) @ r) = Some (xs, r)"
proof (induction xs)
  case (Cons x xs)
  then have "and_read (read_array (length xs) rd) f (concat (map enc xs) @ r) = f xs r" for f :: "'a list \<Rightarrow> u8 list \<Rightarrow> ('a list \<times> u8 list) option"
    by (simp add: and_read_def)
  with Cons.prems show ?case by (simp add: give_def)
qed (simp add: give_def)

lemma and_read_array [simp]:
  "length xs = k \<Longrightarrow> list_all ok xs \<Longrightarrow> and_read (read_array k rd) f (concat (map enc xs) @ r) = f xs r"
  by (auto simp: and_read_def array_read)

lemma and_read_array_last [simp]:
  "length xs = k \<Longrightarrow> list_all ok xs \<Longrightarrow> and_read (read_array k rd) f (concat (map enc xs)) = f xs []"
  using and_read_array [of xs k f "[]"] by simp

end

text \<open>The arrays have the lengths of their types.\<close>

fun layout_ok :: "account_data \<Rightarrow> bool" where
  "layout_ok (VaultRegistryData r) \<longleftrightarrow> length (st_mint_list r) = 64 \<and> length (vault_list r) = 64 \<and>
     list_all feed_ok (st_mint_list r)"
| "layout_ok (WeightTableData t) \<longleftrightarrow> length (wt_vault_registry t) = 64 \<and> length (wt_table t) = 64 \<and>
     list_all (\<lambda>x. feed_ok (we_st_mint_entry x)) (wt_table t)"
| "layout_ok (OperatorSnapshotData s) \<longleftrightarrow> length (vault_operator_stake_weight s) = 64"
| "layout_ok (BallotBoxData b) \<longleftrightarrow> length (operator_votes b) = 256 \<and> length (ballot_tallies b) = 256"
| "layout_ok (NCNRewardRouterData r) \<longleftrightarrow> length (nr_reserved r) = 128 \<and>
     length (operator_vault_reward_routes r) = 256"
| "layout_ok (OperatorVaultRewardRouterData r) \<longleftrightarrow> length (vault_reward_routes r) = 64"
| "layout_ok (EpochStateData s) \<longleftrightarrow> length (eas_operator_snapshot (account_status s)) = 256 \<and>
     length (eas_operator_vault_reward_router (account_status s)) = 256 \<and>
     length (operator_snapshot_progress s) = 256 \<and>
     length (operator_vault_routes_distribution_progress s) = 256"
| "layout_ok _ \<longleftrightarrow> True"

text \<open>The documented formats: both are little-endian, a \<open>bool\<close> is one byte.\<close>

locale wire_format =
  fixes W :: wire
  assumes pod_lengths [simp]: "length (pod_u16 W a) = 2" "length (pod_u64 W c) = 8"
      "length (pod_u128 W d) = 16" "length (pod_bool W b) = 1"
    and pod_read: "borsh_u16 W (pod_u16 W a @ r) = Some (a, r)"
      "borsh_u64 W (pod_u64 W c @ r) = Some (c, r)" "borsh_u128 W (pod_u128 W d @ r) = Some (d, r)"
      "borsh_bool W (pod_bool W b @ r) = Some (b, r)"
    and byte_read: "borsh_u8 W (e # r) = Some (e, r)"
    and pubkey_read: "borsh_pubkey W (to_bytes k @ r) = Some (k, r)"
    and little_endian: "pod_u64 W (ucast e) = e # replicate 7 0"
begin

sublocale u16_l: layout "pod_u16 W" "borsh_u16 W" "\<lambda>_. True" 2
  by unfold_locales (simp_all add: pod_read)

sublocale u64_l: layout "pod_u64 W" "borsh_u64 W" "\<lambda>_. True" 8
  by unfold_locales (simp_all add: pod_read)

sublocale u128_l: layout "pod_u128 W" "borsh_u128 W" "\<lambda>_. True" 16
  by unfold_locales (simp_all add: pod_read)

sublocale bool_l: layout "pod_bool W" "borsh_bool W" "\<lambda>_. True" 1
  by unfold_locales (simp_all add: pod_read)

sublocale pubkey_l: layout to_bytes "borsh_pubkey W" "\<lambda>_. True" 32
  by unfold_locales (simp add: to_bytes_def, rule pubkey_read)

sublocale u8_l: layout "\<lambda>x. [x]" "borsh_u8 W" "\<lambda>_. True" 1
  by unfold_locales (simp_all add: byte_read)

lemma read_byte_field [simp]: "and_read (borsh_u8 W) f (x # r) = f x r"
  using u8_l.and_read_back [of f x r] by simp

lemma read_bytes_field [simp]:
  "length xs = k \<Longrightarrow> and_read (read_array k (borsh_u8 W)) f (xs @ r) = f xs r"
  using u8_l.and_read_array [of xs k f r] by (simp add: list_all_iff)

lemma read_bytes_last [simp]: "length xs = k \<Longrightarrow> and_read (read_array k (borsh_u8 W)) f xs = f xs []"
  using read_bytes_field [of xs k f "[]"] by simp

lemma read_header [simp]: "and_read (borsh_u64 W) f (header t @ r) = f (ucast (Discriminators_as_u8 t)) r"
  using u64_l.and_read_back [of f "ucast (Discriminators_as_u8 t)" r] by (simp add: little_endian header_def)

sublocale stake: layout "StakeWeights_bytes W" "read_StakeWeights W" "\<lambda>_. True" 16
  by unfold_locales (simp_all add: StakeWeights_bytes_def read_StakeWeights_def give_def)

sublocale fee_l: layout "Fee_bytes W" "read_Fee W" "\<lambda>_. True" 2
  by unfold_locales (simp_all add: Fee_bytes_def read_Fee_def give_def)

sublocale fees_l: layout "Fees_bytes W" "read_Fees W" "\<lambda>_. True" 12
  by unfold_locales (simp_all add: Fees_bytes_def read_Fees_def give_def)

sublocale fee_config_l: layout "FeeConfig_bytes W" "read_FeeConfig W" "\<lambda>_. True" 88
  by unfold_locales (simp_all add: FeeConfig_bytes_def read_FeeConfig_def give_def)

sublocale st_mint: layout "StMintEntry_bytes W" "read_StMintEntry W" "feed_ok" 80
  by unfold_locales (simp_all add: StMintEntry_bytes_def read_StMintEntry_def give_def feed_ok_def)

sublocale vault_l: layout "VaultEntry_bytes W" "read_VaultEntry W" "\<lambda>_. True" 80
  by unfold_locales (simp_all add: VaultEntry_bytes_def read_VaultEntry_def give_def)

sublocale weight_l: layout "WeightEntry_bytes W" "read_WeightEntry W" "\<lambda>x. feed_ok (we_st_mint_entry x)" 112
  by unfold_locales (simp_all add: WeightEntry_bytes_def read_WeightEntry_def give_def)

sublocale delegation_l: layout "VaultOperatorStakeWeight_bytes W" "read_VaultOperatorStakeWeight W" "\<lambda>_. True" 56
  by unfold_locales (simp_all add: VaultOperatorStakeWeight_bytes_def read_VaultOperatorStakeWeight_def give_def)

sublocale ballot_l: layout "Ballot_bytes W" "read_Ballot W" "\<lambda>_. True" 2
  by unfold_locales (simp_all add: Ballot_bytes_def read_Ballot_def give_def)

sublocale tally_l: layout "BallotTally_bytes W" "read_BallotTally W" "\<lambda>_. True" 28
  by unfold_locales (simp_all add: BallotTally_bytes_def read_BallotTally_def give_def)

sublocale vote_l: layout "OperatorVote_bytes W" "read_OperatorVote W" "\<lambda>_. True" 58
  by unfold_locales (simp_all add: OperatorVote_bytes_def read_OperatorVote_def give_def)

sublocale status_l: layout "EpochAccountStatus_bytes W" "read_EpochAccountStatus W" "\<lambda>x. length (eas_operator_snapshot x) = 256 \<and> length (eas_operator_vault_reward_router x) = 256" 517
  by unfold_locales (simp_all add: EpochAccountStatus_bytes_def read_EpochAccountStatus_def give_def)

sublocale progress_l: layout "Progress_bytes W" "read_Progress W" "\<lambda>_. True" 16
  by unfold_locales (simp_all add: Progress_bytes_def read_Progress_def give_def)

sublocale rewards_l: layout "NCNRewardRouterRewards_bytes W" "read_NCNRewardRouterRewards W" "\<lambda>_. True" 8
  by unfold_locales (simp_all add: NCNRewardRouterRewards_bytes_def read_NCNRewardRouterRewards_def give_def)

sublocale operator_route_l: layout "OperatorVaultRewardRoute_bytes W" "read_OperatorVaultRewardRoute W" "\<lambda>_. True" 40
  by unfold_locales (simp_all add: OperatorVaultRewardRoute_bytes_def read_OperatorVaultRewardRoute_def give_def)

sublocale vault_route_l: layout "VaultRewardRoute_bytes W" "read_VaultRewardRoute W" "\<lambda>_. True" 40
  by unfold_locales (simp_all add: VaultRewardRoute_bytes_def read_VaultRewardRoute_def give_def)


lemma account_body_length:
  "layout_ok d \<Longrightarrow> length (account_bytes W d) = data_len d"
  by (cases d) (simp_all add: data_len_def header_def account_sizes Config_bytes_def VaultRegistry_bytes_def WeightTable_bytes_def EpochSnapshot_bytes_def OperatorSnapshot_bytes_def BallotBox_bytes_def ConsensusResult_bytes_def NCNRewardRouter_bytes_def OperatorVaultRewardRouter_bytes_def EpochState_bytes_def EpochMarker_bytes_def list_all_iff)

lemma account_first_byte:
  "discriminator_of d = Some t \<Longrightarrow> first_byte d = Ok (hd (account_bytes W d))"
  by (cases d) (auto simp: first_byte_def data_is_empty_def data_len_def header_def account_sizes)

lemma client_reads_back:
  "layout_ok d \<Longrightarrow> discriminator_of d = Some t \<Longrightarrow>
   client_account W t (account_bytes W d) = Some (ucast (Discriminators_as_u8 t), d)"
  by (cases d) (auto simp: from_bytes_def give_def Config_bytes_def VaultRegistry_bytes_def WeightTable_bytes_def EpochSnapshot_bytes_def OperatorSnapshot_bytes_def BallotBox_bytes_def ConsensusResult_bytes_def NCNRewardRouter_bytes_def OperatorVaultRewardRouter_bytes_def EpochState_bytes_def EpochMarker_bytes_def read_Config_def read_VaultRegistry_def read_WeightTable_def read_EpochSnapshot_def read_OperatorSnapshot_def read_BallotBox_def read_ConsensusResult_def read_NCNRewardRouter_def read_OperatorVaultRewardRouter_def read_EpochState_def read_EpochMarker_def list_all_iff)

end

section \<open>Little-endian layouts\<close>

definition read_bool :: "u8 list \<Rightarrow> (bool \<times> u8 list) option" where
  "read_bool bs =
     (case bs of b # r \<Rightarrow> if b = 0 then Some (False, r) else if b = 1 then Some (True, r) else None | [] \<Rightarrow> None)"

definition le_wire :: wire where
  "le_wire =
     \<lparr>pod_u16 = le_bytes 2, pod_u64 = le_bytes 8, pod_u128 = le_bytes 16,
      pod_bool = (\<lambda>b. [if b then 1 else 0]), borsh_u8 = read_word 1, borsh_u16 = read_word 2,
      borsh_u64 = read_word 8, borsh_u128 = read_word 16, borsh_bool = read_bool,
      borsh_pubkey = read_pubkey\<rparr>"

lemma le_bytes_byte: "le_bytes 8 (ucast (e :: u8) :: u64) = e # replicate 7 0"
proof -
  have "drop_bit (8 * i + 8) (ucast e :: u64) = 0" for i
    by (rule bit_word_eqI) (auto simp: bit_simps dest: bit_imp_le_length)
  then have "le_bytes n (drop_bit 8 (ucast e) :: u64) = replicate n 0" for n
    by (intro nth_equalityI) (simp_all add: le_bytes_def)
  moreover have "ucast (ucast e :: u64) = e" by (rule bit_word_eqI) (simp add: bit_simps)
  ultimately show ?thesis using le_bytes_Suc [of 7 "ucast e :: u64"] by simp
qed

interpretation le_wire: wire_format le_wire
  by unfold_locales (simp_all add: le_wire_def read_bool_def le_bytes_byte)

section \<open>Accounts of a run\<close>

text \<open>Well-formed data has the lengths of the array types.\<close>

lemma wf_layout: "data_wf d \<Longrightarrow> layout_ok d"
  by (cases d) (simp_all add: vr_wf_def vr_mints_ok_def vr_vaults_ok_def wt_wf_def snapshot_named_def os_wf_def
    bb_wf_def bb_tables_ok_def nr_wf_def or_wf_def est_wf_def MAX_OPERATORS_def MAX_VAULTS_def MAX_ST_MINTS_def)

text \<open>
  C13: the generated client reads every account the program ever writes: whatever transactions
  were run, the bytes of an account are as long as its type says and begin with its
  discriminator, and \<open>from_bytes\<close> of the client's type gives back the discriminator and all
  fields, in spite of struct definitions of its own.
\<close>

theorem client_reads_every_account:
  assumes "wire_format W" and "\<forall>tx \<in> set txs. lawful P raw p tx" and "ledger_wf L"
    and d: "d = acc_data (run P p txs L k)"
  shows "length (account_bytes W d) = data_len d \<and>
    (\<forall>t. discriminator_of d = Some t \<longrightarrow>
       first_byte d = (Ok (hd (account_bytes W d)) :: (u8, program_error) result) \<and>
       client_account W t (account_bytes W d) = Some (ucast (Discriminators_as_u8 t), d))"
proof -
  have "layout_ok d"
    using run_wf [OF assms(2,3)] by (auto simp: d ledger_wf_def intro: wf_layout)
  with wire_format.account_body_length [OF assms(1)] wire_format.account_first_byte [OF assms(1)]
    wire_format.client_reads_back [OF assms(1)] show ?thesis by blast
qed

theorem client_reads_every_account_witness:
  "\<exists>b. acc_data (ledger1 1050) = BallotBoxData b \<and> length (account_bytes le_wire (BallotBoxData b)) = 22099 \<and>
     client_account le_wire DBallotBox (account_bytes le_wire (BallotBoxData b)) = Some (0x20, BallotBoxData b)"
proof -
  obtain b where b: "acc_data (ledger1 1050) = BallotBoxData b"
    by (auto simp: ledger1_def ledger_simps ledger0_at)
  with client_reads_every_account [OF le_wire.wire_format_axioms _ ledger0_wf refl,
      of "[(chain, vote_accounts, CastVote 1 5)]" spl_ops "\<lambda>p. p" 9 1050]
  show ?thesis using vote_transaction(1) by (simp add: vote_transaction(3) data_len_def account_sizes)
qed

end
