(* ===== verification/Client_Cpi.thy ===== *)
theory Client_Cpi
  imports Client_Flags
begin

text \<open>
  The second half of the generated instruction files: the calls of the program by another
  program (\<open>...Cpi\<close> and \<open>...CpiBuilder\<close>).  Accounts are passed as \<open>AccountInfo\<close>; the runtime's
  \<open>invoke\<close> and \<open>invoke_signed\<close>, which are not in the repository, are the record \<open>cpi\<close>.  As for
  \<open>Client_Instructions\<close>, the fields of a builder are \<open>option\<close> arguments: \<open>None\<close> where the setter
  was not called.  The metas are stated again from these files, which build them a second time;
  that they agree with those of the ordinary builders is a theorem.
\<close>

section \<open>Calls\<close>

type_synonym cpi_result = "ledger \<Rightarrow> (ledger, program_error) result"
type_synonym remaining = "(account_info \<times> bool \<times> bool) list"

record cpi =
  cpi_invoke :: "instruction \<Rightarrow> account_info list \<Rightarrow> cpi_result"
  cpi_invoke_signed :: "instruction \<Rightarrow> account_info list \<Rightarrow> u8 list list list \<Rightarrow> cpi_result"

text \<open>The end of every \<open>invoke_signed_with_remaining_accounts\<close>.\<close>

definition cpi_dispatch :: "cpi \<Rightarrow> instruction \<Rightarrow> account_info list \<Rightarrow> u8 list list list \<Rightarrow> cpi_result" where
  "cpi_dispatch R ix infos signers_seeds =
     (if signers_seeds = [] then cpi_invoke R ix infos else cpi_invoke_signed R ix infos signers_seeds)"

text \<open>The meta of a remaining account: the second component is taken for \<open>is_signer\<close>.\<close>

definition remaining_meta :: "account_info \<times> bool \<times> bool \<Rightarrow> account_meta" where
  "remaining_meta a = \<lparr>am_pubkey = ai_key (fst a), am_is_signer = fst (snd a), am_is_writable = snd (snd a)\<rparr>"

text \<open>The methods of the builders that add accounts; the second component is \<open>is_writable\<close>.\<close>

definition add_remaining_account :: "remaining \<Rightarrow> account_info \<Rightarrow> bool \<Rightarrow> bool \<Rightarrow> remaining" where
  "add_remaining_account remaining_accounts account is_writable is_signer =
     remaining_accounts @ [(account, is_writable, is_signer)]"

definition add_remaining_accounts :: "remaining \<Rightarrow> remaining \<Rightarrow> remaining" where
  "add_remaining_accounts remaining_accounts accounts = remaining_accounts @ accounts"

definition and_then_on :: "('a, program_error) result \<Rightarrow> ('a \<Rightarrow> cpi_result) \<Rightarrow> cpi_result" where
  "and_then_on m f L = and_then m (\<lambda>x. f x L)"

lemma and_then_on_Ok [simp]: "and_then_on (Ok x) f = f x" "and_then_on Panic f = (\<lambda>_. Panic)"
  by (simp_all add: and_then_on_def fun_eq_iff)

section \<open>The instructions\<close>

subsection \<open>\<open>InitializeConfigCpi\<close>\<close>

definition InitializeConfigCpi_invoke_signed_with_remaining_accounts ::
  "cpi \<Rightarrow> borsh \<Rightarrow> account_info \<Rightarrow> account_info \<Rightarrow>
  account_info \<Rightarrow> account_info \<Rightarrow> account_info \<Rightarrow>
  account_info \<Rightarrow> account_info \<Rightarrow> account_info \<Rightarrow>
  u64 \<Rightarrow> u64 \<Rightarrow> u64 \<Rightarrow> u16 \<Rightarrow>
  u8 list list list \<Rightarrow> remaining \<Rightarrow> cpi_result" where
  "InitializeConfigCpi_invoke_signed_with_remaining_accounts R B program config ncn
  ncn_fee_wallet ncn_admin' tie_breaker_admin' account_payer system_program
  epochs_before_stall' epochs_after_consensus_before_close' valid_slots_after_consensus'
  ncn_fee_bps' signers_seeds remaining_accounts =
     (let accounts =
        [AccountMeta_new (ai_key config) False,
         AccountMeta_new_readonly (ai_key ncn) False,
         AccountMeta_new_readonly (ai_key ncn_fee_wallet) False,
         AccountMeta_new_readonly (ai_key ncn_admin') True,
         AccountMeta_new_readonly (ai_key tie_breaker_admin') False,
         AccountMeta_new (ai_key account_payer) False,
         AccountMeta_new_readonly (ai_key system_program) False] @ map remaining_meta remaining_accounts;
      data = bs_u8 B InitializeConfigInstructionData_new @ bs_u64 B epochs_before_stall' @
      bs_u64 B epochs_after_consensus_before_close' @ bs_u64 B valid_slots_after_consensus' @
      bs_u16 B ncn_fee_bps';
      instruction = \<lparr>ix_program_id = NCN_PROGRAM_ID, ix_accounts = accounts, ix_data = data\<rparr>;
      account_infos =
        [program, config, ncn, ncn_fee_wallet, ncn_admin', tie_breaker_admin', account_payer,
        system_program] @ map fst remaining_accounts in
      cpi_dispatch R instruction account_infos signers_seeds)"

definition InitializeConfigCpiBuilder_invoke_signed ::
  "cpi \<Rightarrow> borsh \<Rightarrow> account_info \<Rightarrow>
  account_info option \<Rightarrow> account_info option \<Rightarrow>
  account_info option \<Rightarrow> account_info option \<Rightarrow>
  account_info option \<Rightarrow> account_info option \<Rightarrow>
  account_info option \<Rightarrow> u64 option \<Rightarrow> u64 option \<Rightarrow>
  u64 option \<Rightarrow> u16 option \<Rightarrow> remaining \<Rightarrow>
  u8 list list list \<Rightarrow> cpi_result" where
  "InitializeConfigCpiBuilder_invoke_signed R B program config ncn ncn_fee_wallet ncn_admin'
  tie_breaker_admin' account_payer system_program epochs_before_stall'
  epochs_after_consensus_before_close' valid_slots_after_consensus' ncn_fee_bps'
  remaining_accounts signers_seeds =
     and_then_on (expect epochs_before_stall') (\<lambda>epochs_before_stall'.
     and_then_on (expect epochs_after_consensus_before_close') (\<lambda>epochs_after_consensus_before_close'.
     and_then_on (expect valid_slots_after_consensus') (\<lambda>valid_slots_after_consensus'.
     and_then_on (expect ncn_fee_bps') (\<lambda>ncn_fee_bps'.
     and_then_on (expect config) (\<lambda>config.
     and_then_on (expect ncn) (\<lambda>ncn.
     and_then_on (expect ncn_fee_wallet) (\<lambda>ncn_fee_wallet.
     and_then_on (expect ncn_admin') (\<lambda>ncn_admin'.
     and_then_on (expect tie_breaker_admin') (\<lambda>tie_breaker_admin'.
     and_then_on (expect account_payer) (\<lambda>account_payer.
     and_then_on (expect system_program) (\<lambda>system_program.
     InitializeConfigCpi_invoke_signed_with_remaining_accounts R B program
       config ncn ncn_fee_wallet ncn_admin' tie_breaker_admin' account_payer system_program
       epochs_before_stall' epochs_after_consensus_before_close' valid_slots_after_consensus'
       ncn_fee_bps' signers_seeds remaining_accounts)))))))))))"

subsection \<open>\<open>InitializeVaultRegistryCpi\<close>\<close>

definition InitializeVaultRegistryCpi_invoke_signed_with_remaining_accounts ::
  "cpi \<Rightarrow> borsh \<Rightarrow> account_info \<Rightarrow> account_info \<Rightarrow>
  account_info \<Rightarrow> account_info \<Rightarrow> account_info \<Rightarrow>
  account_info \<Rightarrow> u8 list list list \<Rightarrow> remaining \<Rightarrow> cpi_result"
  where
  "InitializeVaultRegistryCpi_invoke_signed_with_remaining_accounts R B program config
  vault_registry ncn account_payer system_program signers_seeds remaining_accounts =
     (let accounts =
        [AccountMeta_new_readonly (ai_key config) False,
         AccountMeta_new (ai_key vault_registry) False,
         AccountMeta_new_readonly (ai_key ncn) False,
         AccountMeta_new (ai_key account_payer) False,
         AccountMeta_new_readonly (ai_key system_program) False] @ map remaining_meta remaining_accounts;
      data = bs_u8 B InitializeVaultRegistryInstructionData_new;
      instruction = \<lparr>ix_program_id = NCN_PROGRAM_ID, ix_accounts = accounts, ix_data = data\<rparr>;
      account_infos =
        [program, config, vault_registry, ncn, account_payer, system_program] @ map fst remaining_accounts in
      cpi_dispatch R instruction account_infos signers_seeds)"

definition InitializeVaultRegistryCpiBuilder_invoke_signed ::
  "cpi \<Rightarrow> borsh \<Rightarrow> account_info \<Rightarrow>
  account_info option \<Rightarrow> account_info option \<Rightarrow>
  account_info option \<Rightarrow> account_info option \<Rightarrow>
  account_info option \<Rightarrow> remaining \<Rightarrow> u8 list list list \<Rightarrow>
  cpi_result" where
  "InitializeVaultRegistryCpiBuilder_invoke_signed R B program config vault_registry ncn
  account_payer system_program remaining_accounts signers_seeds =
     and_then_on (expect config) (\<lambda>config.
     and_then_on (expect vault_registry) (\<lambda>vault_registry.
     and_then_on (expect ncn) (\<lambda>ncn.
     and_then_on (expect account_payer) (\<lambda>account_payer.
     and_then_on (expect system_program) (\<lambda>system_program.
     InitializeVaultRegistryCpi_invoke_signed_with_remaining_accounts R B program
       config vault_registry ncn account_payer system_program signers_seeds remaining_accounts)))))"

subsection \<open>\<open>ReallocVaultRegistryCpi\<close>\<close>

definition ReallocVaultRegistryCpi_invoke_signed_with_remaining_accounts ::
  "cpi \<Rightarrow> borsh \<Rightarrow> account_info \<Rightarrow> account_info \<Rightarrow>
  account_info \<Rightarrow> account_info \<Rightarrow> account_info \<Rightarrow>
  account_info \<Rightarrow> u8 list list list \<Rightarrow> remaining \<Rightarrow> cpi_result"
  where
  "ReallocVaultRegistryCpi_invoke_signed_with_remaining_accounts R B program config
  vault_registry ncn account_payer system_program signers_seeds remaining_accounts =
     (let accounts =
        [AccountMeta_new_readonly (ai_key config) False,
         AccountMeta_new (ai_key vault_registry) False,
         AccountMeta_new_readonly (ai_key ncn) False,
         AccountMeta_new (ai_key account_payer) False,
         AccountMeta_new_readonly (ai_key system_program) False] @ map remaining_meta remaining_accounts;
      data = bs_u8 B ReallocVaultRegistryInstructionData_new;
      instruction = \<lparr>ix_program_id = NCN_PROGRAM_ID, ix_accounts = accounts, ix_data = data\<rparr>;
      account_infos =
        [program, config, vault_registry, ncn, account_payer, system_program] @ map fst remaining_accounts in
      cpi_dispatch R instruction account_infos signers_seeds)"

definition ReallocVaultRegistryCpiBuilder_invoke_signed ::
  "cpi \<Rightarrow> borsh \<Rightarrow> account_info \<Rightarrow>
  account_info option \<Rightarrow> account_info option \<Rightarrow>
  account_info option \<Rightarrow> account_info option \<Rightarrow>
  account_info option \<Rightarrow> remaining \<Rightarrow> u8 list list list \<Rightarrow>
  cpi_result" where
  "ReallocVaultRegistryCpiBuilder_invoke_signed R B program config vault_registry ncn
  account_payer system_program remaining_accounts signers_seeds =
     and_then_on (expect config) (\<lambda>config.
     and_then_on (expect vault_registry) (\<lambda>vault_registry.
     and_then_on (expect ncn) (\<lambda>ncn.
     and_then_on (expect account_payer) (\<lambda>account_payer.
     and_then_on (expect system_program) (\<lambda>system_program.
     ReallocVaultRegistryCpi_invoke_signed_with_remaining_accounts R B program
       config vault_registry ncn account_payer system_program signers_seeds remaining_accounts)))))"

subsection \<open>\<open>RegisterVaultCpi\<close>\<close>

definition RegisterVaultCpi_invoke_signed_with_remaining_accounts ::
  "cpi \<Rightarrow> borsh \<Rightarrow> account_info \<Rightarrow> account_info \<Rightarrow>
  account_info \<Rightarrow> account_info \<Rightarrow> account_info \<Rightarrow>
  account_info \<Rightarrow> u8 list list list \<Rightarrow> remaining \<Rightarrow> cpi_result"
  where
  "RegisterVaultCpi_invoke_signed_with_remaining_accounts R B program config vault_registry ncn
  vault ncn_vault_ticket signers_seeds remaining_accounts =
     (let accounts =
        [AccountMeta_new_readonly (ai_key config) False,
         AccountMeta_new (ai_key vault_registry) False,
         AccountMeta_new_readonly (ai_key ncn) False,
         AccountMeta_new_readonly (ai_key vault) False,
         AccountMeta_new_readonly (ai_key ncn_vault_ticket) False] @ map remaining_meta remaining_accounts;
      data = bs_u8 B RegisterVaultInstructionData_new;
      instruction = \<lparr>ix_program_id = NCN_PROGRAM_ID, ix_accounts = accounts, ix_data = data\<rparr>;
      account_infos =
        [program, config, vault_registry, ncn, vault, ncn_vault_ticket] @ map fst remaining_accounts in
      cpi_dispatch R instruction account_infos signers_seeds)"

definition RegisterVaultCpiBuilder_invoke_signed ::
  "cpi \<Rightarrow> borsh \<Rightarrow> account_info \<Rightarrow>
  account_info option \<Rightarrow> account_info option \<Rightarrow>
  account_info option \<Rightarrow> account_info option \<Rightarrow>
  account_info option \<Rightarrow> remaining \<Rightarrow> u8 list list list \<Rightarrow>
  cpi_result" where
  "RegisterVaultCpiBuilder_invoke_signed R B program config vault_registry ncn vault
  ncn_vault_ticket remaining_accounts signers_seeds =
     and_then_on (expect config) (\<lambda>config.
     and_then_on (expect vault_registry) (\<lambda>vault_registry.
     and_then_on (expect ncn) (\<lambda>ncn.
     and_then_on (expect vault) (\<lambda>vault.
     and_then_on (expect ncn_vault_ticket) (\<lambda>ncn_vault_ticket.
     RegisterVaultCpi_invoke_signed_with_remaining_accounts R B program
       config vault_registry ncn vault ncn_vault_ticket signers_seeds remaining_accounts)))))"

subsection \<open>\<open>InitializeEpochStateCpi\<close>\<close>

definition InitializeEpochStateCpi_invoke_signed_with_remaining_accounts ::
  "cpi \<Rightarrow> borsh \<Rightarrow> account_info \<Rightarrow> account_info \<Rightarrow>
  account_info \<Rightarrow> account_info \<Rightarrow> account_info \<Rightarrow>
  account_info \<Rightarrow> account_info \<Rightarrow> u64 \<Rightarrow>
  u8 list list list \<Rightarrow> remaining \<Rightarrow> cpi_result" where
  "InitializeEpochStateCpi_invoke_signed_with_remaining_accounts R B program epoch_marker
  epoch_state config ncn account_payer system_program epoch signers_seeds remaining_accounts =
     (let accounts =
        [AccountMeta_new_readonly (ai_key epoch_marker) False,
         AccountMeta_new (ai_key epoch_state) False,
         AccountMeta_new_readonly (ai_key config) False,
         AccountMeta_new_readonly (ai_key ncn) False,
         AccountMeta_new (ai_key account_payer) False,
         AccountMeta_new_readonly (ai_key system_program) False] @ map remaining_meta remaining_accounts;
      data = bs_u8 B InitializeEpochStateInstructionData_new @ bs_u64 B epoch;
      instruction = \<lparr>ix_program_id = NCN_PROGRAM_ID, ix_accounts = accounts, ix_data = data\<rparr>;
      account_infos =
        [program, epoch_marker, epoch_state, config, ncn, account_payer, system_program] @ map fst remaining_accounts in
      cpi_dispatch R instruction account_infos signers_seeds)"

definition InitializeEpochStateCpiBuilder_invoke_signed ::
  "cpi \<Rightarrow> borsh \<Rightarrow> account_info \<Rightarrow>
  account_info option \<Rightarrow> account_info option \<Rightarrow>
  account_info option \<Rightarrow> account_info option \<Rightarrow>
  account_info option \<Rightarrow> account_info option \<Rightarrow> u64 option \<Rightarrow>
  remaining \<Rightarrow> u8 list list list \<Rightarrow> cpi_result" where
  "InitializeEpochStateCpiBuilder_invoke_signed R B program epoch_marker epoch_state config ncn
  account_payer system_program epoch remaining_accounts signers_seeds =
     and_then_on (expect epoch) (\<lambda>epoch.
     and_then_on (expect epoch_marker) (\<lambda>epoch_marker.
     and_then_on (expect epoch_state) (\<lambda>epoch_state.
     and_then_on (expect config) (\<lambda>config.
     and_then_on (expect ncn) (\<lambda>ncn.
     and_then_on (expect account_payer) (\<lambda>account_payer.
     and_then_on (expect system_program) (\<lambda>system_program.
     InitializeEpochStateCpi_invoke_signed_with_remaining_accounts R B program
       epoch_marker epoch_state config ncn account_payer system_program epoch signers_seeds
       remaining_accounts)))))))"

subsection \<open>\<open>InitializeWeightTableCpi\<close>\<close>

definition InitializeWeightTableCpi_invoke_signed_with_remaining_accounts ::
  "cpi \<Rightarrow> borsh \<Rightarrow> account_info \<Rightarrow> account_info \<Rightarrow>
  account_info \<Rightarrow> account_info \<Rightarrow> account_info \<Rightarrow>
  account_info \<Rightarrow> account_info \<Rightarrow> account_info \<Rightarrow>
  u64 \<Rightarrow> u8 list list list \<Rightarrow> remaining \<Rightarrow> cpi_result" where
  "InitializeWeightTableCpi_invoke_signed_with_remaining_accounts R B program epoch_marker
  epoch_state vault_registry ncn weight_table account_payer system_program epoch signers_seeds
  remaining_accounts =
     (let accounts =
        [AccountMeta_new_readonly (ai_key epoch_marker) False,
         AccountMeta_new_readonly (ai_key epoch_state) False,
         AccountMeta_new_readonly (ai_key vault_registry) False,
         AccountMeta_new_readonly (ai_key ncn) False,
         AccountMeta_new (ai_key weight_table) False,
         AccountMeta_new (ai_key account_payer) False,
         AccountMeta_new_readonly (ai_key system_program) False] @ map remaining_meta remaining_accounts;
      data = bs_u8 B InitializeWeightTableInstructionData_new @ bs_u64 B epoch;
      instruction = \<lparr>ix_program_id = NCN_PROGRAM_ID, ix_accounts = accounts, ix_data = data\<rparr>;
      account_infos =
        [program, epoch_marker, epoch_state, vault_registry, ncn, weight_table, account_payer,
        system_program] @ map fst remaining_accounts in
      cpi_dispatch R instruction account_infos signers_seeds)"

definition InitializeWeightTableCpiBuilder_invoke_signed ::
  "cpi \<Rightarrow> borsh \<Rightarrow> account_info \<Rightarrow>
  account_info option \<Rightarrow> account_info option \<Rightarrow>
  account_info option \<Rightarrow> account_info option \<Rightarrow>
  account_info option \<Rightarrow> account_info option \<Rightarrow>
  account_info option \<Rightarrow> u64 option \<Rightarrow> remaining \<Rightarrow>
  u8 list list list \<Rightarrow> cpi_result" where
  "InitializeWeightTableCpiBuilder_invoke_signed R B program epoch_marker epoch_state
  vault_registry ncn weight_table account_payer system_program epoch remaining_accounts
  signers_seeds =
     and_then_on (expect epoch) (\<lambda>epoch.
     and_then_on (expect epoch_marker) (\<lambda>epoch_marker.
     and_then_on (expect epoch_state) (\<lambda>epoch_state.
     and_then_on (expect vault_registry) (\<lambda>vault_registry.
     and_then_on (expect ncn) (\<lambda>ncn.
     and_then_on (expect weight_table) (\<lambda>weight_table.
     and_then_on (expect account_payer) (\<lambda>account_payer.
     and_then_on (expect system_program) (\<lambda>system_program.
     InitializeWeightTableCpi_invoke_signed_with_remaining_accounts R B program
       epoch_marker epoch_state vault_registry ncn weight_table account_payer system_program
       epoch signers_seeds remaining_accounts))))))))"

subsection \<open>\<open>SetEpochWeightsCpi\<close>\<close>

definition SetEpochWeightsCpi_invoke_signed_with_remaining_accounts ::
  "cpi \<Rightarrow> borsh \<Rightarrow> account_info \<Rightarrow> account_info \<Rightarrow>
  account_info \<Rightarrow> account_info \<Rightarrow> account_info \<Rightarrow>
  u64 \<Rightarrow> u8 list list list \<Rightarrow> remaining \<Rightarrow> cpi_result" where
  "SetEpochWeightsCpi_invoke_signed_with_remaining_accounts R B program epoch_state ncn
  vault_registry weight_table epoch signers_seeds remaining_accounts =
     (let accounts =
        [AccountMeta_new (ai_key epoch_state) False,
         AccountMeta_new_readonly (ai_key ncn) False,
         AccountMeta_new_readonly (ai_key vault_registry) False,
         AccountMeta_new (ai_key weight_table) False] @ map remaining_meta remaining_accounts;
      data = bs_u8 B SetEpochWeightsInstructionData_new @ bs_u64 B epoch;
      instruction = \<lparr>ix_program_id = NCN_PROGRAM_ID, ix_accounts = accounts, ix_data = data\<rparr>;
      account_infos =
        [program, epoch_state, ncn, vault_registry, weight_table] @ map fst remaining_accounts in
      cpi_dispatch R instruction account_infos signers_seeds)"

definition SetEpochWeightsCpiBuilder_invoke_signed ::
  "cpi \<Rightarrow> borsh \<Rightarrow> account_info \<Rightarrow>
  account_info option \<Rightarrow> account_info option \<Rightarrow>
  account_info option \<Rightarrow> account_info option \<Rightarrow> u64 option \<Rightarrow>
  remaining \<Rightarrow> u8 list list list \<Rightarrow> cpi_result" where
  "SetEpochWeightsCpiBuilder_invoke_signed R B program epoch_state ncn vault_registry
  weight_table epoch remaining_accounts signers_seeds =
     and_then_on (expect epoch) (\<lambda>epoch.
     and_then_on (expect epoch_state) (\<lambda>epoch_state.
     and_then_on (expect ncn) (\<lambda>ncn.
     and_then_on (expect vault_registry) (\<lambda>vault_registry.
     and_then_on (expect weight_table) (\<lambda>weight_table.
     SetEpochWeightsCpi_invoke_signed_with_remaining_accounts R B program
       epoch_state ncn vault_registry weight_table epoch signers_seeds remaining_accounts)))))"

subsection \<open>\<open>ReallocWeightTableCpi\<close>\<close>

definition ReallocWeightTableCpi_invoke_signed_with_remaining_accounts ::
  "cpi \<Rightarrow> borsh \<Rightarrow> account_info \<Rightarrow> account_info \<Rightarrow>
  account_info \<Rightarrow> account_info \<Rightarrow> account_info \<Rightarrow>
  account_info \<Rightarrow> account_info \<Rightarrow> account_info \<Rightarrow>
  u64 \<Rightarrow> u8 list list list \<Rightarrow> remaining \<Rightarrow> cpi_result" where
  "ReallocWeightTableCpi_invoke_signed_with_remaining_accounts R B program epoch_state config
  weight_table ncn vault_registry account_payer system_program epoch signers_seeds
  remaining_accounts =
     (let accounts =
        [AccountMeta_new (ai_key epoch_state) False,
         AccountMeta_new_readonly (ai_key config) False,
         AccountMeta_new (ai_key weight_table) False,
         AccountMeta_new_readonly (ai_key ncn) False,
         AccountMeta_new_readonly (ai_key vault_registry) False,
         AccountMeta_new (ai_key account_payer) False,
         AccountMeta_new_readonly (ai_key system_program) False] @ map remaining_meta remaining_accounts;
      data = bs_u8 B ReallocWeightTableInstructionData_new @ bs_u64 B epoch;
      instruction = \<lparr>ix_program_id = NCN_PROGRAM_ID, ix_accounts = accounts, ix_data = data\<rparr>;
      account_infos =
        [program, epoch_state, config, weight_table, ncn, vault_registry, account_payer,
        system_program] @ map fst remaining_accounts in
      cpi_dispatch R instruction account_infos signers_seeds)"

definition ReallocWeightTableCpiBuilder_invoke_signed ::
  "cpi \<Rightarrow> borsh \<Rightarrow> account_info \<Rightarrow>
  account_info option \<Rightarrow> account_info option \<Rightarrow>
  account_info option \<Rightarrow> account_info option \<Rightarrow>
  account_info option \<Rightarrow> account_info option \<Rightarrow>
  account_info option \<Rightarrow> u64 option \<Rightarrow> remaining \<Rightarrow>
  u8 list list list \<Rightarrow> cpi_result" where
  "ReallocWeightTableCpiBuilder_invoke_signed R B program epoch_state config weight_table ncn
  vault_registry account_payer system_program epoch remaining_accounts signers_seeds =
     and_then_on (expect epoch) (\<lambda>epoch.
     and_then_on (expect epoch_state) (\<lambda>epoch_state.
     and_then_on (expect config) (\<lambda>config.
     and_then_on (expect weight_table) (\<lambda>weight_table.
     and_then_on (expect ncn) (\<lambda>ncn.
     and_then_on (expect vault_registry) (\<lambda>vault_registry.
     and_then_on (expect account_payer) (\<lambda>account_payer.
     and_then_on (expect system_program) (\<lambda>system_program.
     ReallocWeightTableCpi_invoke_signed_with_remaining_accounts R B program
       epoch_state config weight_table ncn vault_registry account_payer system_program epoch
       signers_seeds remaining_accounts))))))))"

subsection \<open>\<open>InitializeEpochSnapshotCpi\<close>\<close>

definition InitializeEpochSnapshotCpi_invoke_signed_with_remaining_accounts ::
  "cpi \<Rightarrow> borsh \<Rightarrow> account_info \<Rightarrow> account_info \<Rightarrow>
  account_info \<Rightarrow> account_info \<Rightarrow> account_info \<Rightarrow>
  account_info \<Rightarrow> account_info \<Rightarrow> account_info \<Rightarrow>
  account_info \<Rightarrow> u64 \<Rightarrow> u8 list list list \<Rightarrow>
  remaining \<Rightarrow> cpi_result" where
  "InitializeEpochSnapshotCpi_invoke_signed_with_remaining_accounts R B program epoch_marker
  epoch_state config ncn weight_table epoch_snapshot account_payer system_program epoch
  signers_seeds remaining_accounts =
     (let accounts =
        [AccountMeta_new_readonly (ai_key epoch_marker) False,
         AccountMeta_new (ai_key epoch_state) False,
         AccountMeta_new_readonly (ai_key config) False,
         AccountMeta_new_readonly (ai_key ncn) False,
         AccountMeta_new_readonly (ai_key weight_table) False,
         AccountMeta_new (ai_key epoch_snapshot) False,
         AccountMeta_new (ai_key account_payer) False,
         AccountMeta_new_readonly (ai_key system_program) False] @ map remaining_meta remaining_accounts;
      data = bs_u8 B InitializeEpochSnapshotInstructionData_new @ bs_u64 B epoch;
      instruction = \<lparr>ix_program_id = NCN_PROGRAM_ID, ix_accounts = accounts, ix_data = data\<rparr>;
      account_infos =
        [program, epoch_marker, epoch_state, config, ncn, weight_table, epoch_snapshot,
        account_payer, system_program] @ map fst remaining_accounts in
      cpi_dispatch R instruction account_infos signers_seeds)"

definition InitializeEpochSnapshotCpiBuilder_invoke_signed ::
  "cpi \<Rightarrow> borsh \<Rightarrow> account_info \<Rightarrow>
  account_info option \<Rightarrow> account_info option \<Rightarrow>
  account_info option \<Rightarrow> account_info option \<Rightarrow>
  account_info option \<Rightarrow> account_info option \<Rightarrow>
  account_info option \<Rightarrow> account_info option \<Rightarrow> u64 option \<Rightarrow>
  remaining \<Rightarrow> u8 list list list \<Rightarrow> cpi_result" where
  "InitializeEpochSnapshotCpiBuilder_invoke_signed R B program epoch_marker epoch_state config
  ncn weight_table epoch_snapshot account_payer system_program epoch remaining_accounts
  signers_seeds =
     and_then_on (expect epoch) (\<lambda>epoch.
     and_then_on (expect epoch_marker) (\<lambda>epoch_marker.
     and_then_on (expect epoch_state) (\<lambda>epoch_state.
     and_then_on (expect config) (\<lambda>config.
     and_then_on (expect ncn) (\<lambda>ncn.
     and_then_on (expect weight_table) (\<lambda>weight_table.
     and_then_on (expect epoch_snapshot) (\<lambda>epoch_snapshot.
     and_then_on (expect account_payer) (\<lambda>account_payer.
     and_then_on (expect system_program) (\<lambda>system_program.
     InitializeEpochSnapshotCpi_invoke_signed_with_remaining_accounts R B program
       epoch_marker epoch_state config ncn weight_table epoch_snapshot account_payer
       system_program epoch signers_seeds remaining_accounts)))))))))"

subsection \<open>\<open>InitializeOperatorSnapshotCpi\<close>\<close>

definition InitializeOperatorSnapshotCpi_invoke_signed_with_remaining_accounts ::
  "cpi \<Rightarrow> borsh \<Rightarrow> account_info \<Rightarrow> account_info \<Rightarrow>
  account_info \<Rightarrow> account_info \<Rightarrow> account_info \<Rightarrow>
  account_info \<Rightarrow> account_info \<Rightarrow> account_info \<Rightarrow>
  account_info \<Rightarrow> account_info \<Rightarrow> account_info \<Rightarrow>
  account_info \<Rightarrow> u64 \<Rightarrow> u8 list list list \<Rightarrow>
  remaining \<Rightarrow> cpi_result" where
  "InitializeOperatorSnapshotCpi_invoke_signed_with_remaining_accounts R B program epoch_marker
  epoch_state config restaking_config ncn operator ncn_operator_state epoch_snapshot
  operator_snapshot account_payer system_program epoch signers_seeds remaining_accounts =
     (let accounts =
        [AccountMeta_new_readonly (ai_key epoch_marker) False,
         AccountMeta_new (ai_key epoch_state) False,
         AccountMeta_new_readonly (ai_key config) False,
         AccountMeta_new_readonly (ai_key restaking_config) False,
         AccountMeta_new_readonly (ai_key ncn) False,
         AccountMeta_new_readonly (ai_key operator) False,
         AccountMeta_new_readonly (ai_key ncn_operator_state) False,
         AccountMeta_new (ai_key epoch_snapshot) False,
         AccountMeta_new (ai_key operator_snapshot) False,
         AccountMeta_new (ai_key account_payer) False,
         AccountMeta_new_readonly (ai_key system_program) False] @ map remaining_meta remaining_accounts;
      data = bs_u8 B InitializeOperatorSnapshotInstructionData_new @ bs_u64 B epoch;
      instruction = \<lparr>ix_program_id = NCN_PROGRAM_ID, ix_accounts = accounts, ix_data = data\<rparr>;
      account_infos =
        [program, epoch_marker, epoch_state, config, restaking_config, ncn, operator,
        ncn_operator_state, epoch_snapshot, operator_snapshot, account_payer, system_program] @ map fst remaining_accounts in
      cpi_dispatch R instruction account_infos signers_seeds)"

definition InitializeOperatorSnapshotCpiBuilder_invoke_signed ::
  "cpi \<Rightarrow> borsh \<Rightarrow> account_info \<Rightarrow>
  account_info option \<Rightarrow> account_info option \<Rightarrow>
  account_info option \<Rightarrow> account_info option \<Rightarrow>
  account_info option \<Rightarrow> account_info option \<Rightarrow>
  account_info option \<Rightarrow> account_info option \<Rightarrow>
  account_info option \<Rightarrow> account_info option \<Rightarrow>
  account_info option \<Rightarrow> u64 option \<Rightarrow> remaining \<Rightarrow>
  u8 list list list \<Rightarrow> cpi_result" where
  "InitializeOperatorSnapshotCpiBuilder_invoke_signed R B program epoch_marker epoch_state
  config restaking_config ncn operator ncn_operator_state epoch_snapshot operator_snapshot
  account_payer system_program epoch remaining_accounts signers_seeds =
     and_then_on (expect epoch) (\<lambda>epoch.
     and_then_on (expect epoch_marker) (\<lambda>epoch_marker.
     and_then_on (expect epoch_state) (\<lambda>epoch_state.
     and_then_on (expect config) (\<lambda>config.
     and_then_on (expect restaking_config) (\<lambda>restaking_config.
     and_then_on (expect ncn) (\<lambda>ncn.
     and_then_on (expect operator) (\<lambda>operator.
     and_then_on (expect ncn_operator_state) (\<lambda>ncn_operator_state.
     and_then_on (expect epoch_snapshot) (\<lambda>epoch_snapshot.
     and_then_on (expect operator_snapshot) (\<lambda>operator_snapshot.
     and_then_on (expect account_payer) (\<lambda>account_payer.
     and_then_on (expect system_program) (\<lambda>system_program.
     InitializeOperatorSnapshotCpi_invoke_signed_with_remaining_accounts R B program
       epoch_marker epoch_state config restaking_config ncn operator ncn_operator_state
       epoch_snapshot operator_snapshot account_payer system_program epoch signers_seeds
       remaining_accounts))))))))))))"

subsection \<open>\<open>SnapshotVaultOperatorDelegationCpi\<close>\<close>

definition SnapshotVaultOperatorDelegationCpi_invoke_signed_with_remaining_accounts ::
  "cpi \<Rightarrow> borsh \<Rightarrow> account_info \<Rightarrow> account_info \<Rightarrow>
  account_info \<Rightarrow> account_info \<Rightarrow> account_info \<Rightarrow>
  account_info \<Rightarrow> account_info \<Rightarrow> account_info \<Rightarrow>
  account_info \<Rightarrow> account_info \<Rightarrow> account_info \<Rightarrow>
  account_info \<Rightarrow> account_info \<Rightarrow> u64 \<Rightarrow>
  u8 list list list \<Rightarrow> remaining \<Rightarrow> cpi_result" where
  "SnapshotVaultOperatorDelegationCpi_invoke_signed_with_remaining_accounts R B program
  epoch_state config restaking_config ncn operator vault vault_ncn_ticket ncn_vault_ticket
  vault_operator_delegation weight_table epoch_snapshot operator_snapshot epoch signers_seeds
  remaining_accounts =
     (let accounts =
        [AccountMeta_new (ai_key epoch_state) False,
         AccountMeta_new_readonly (ai_key config) False,
         AccountMeta_new_readonly (ai_key restaking_config) False,
         AccountMeta_new_readonly (ai_key ncn) False,
         AccountMeta_new_readonly (ai_key operator) False,
         AccountMeta_new_readonly (ai_key vault) False,
         AccountMeta_new_readonly (ai_key vault_ncn_ticket) False,
         AccountMeta_new_readonly (ai_key ncn_vault_ticket) False,
         AccountMeta_new_readonly (ai_key vault_operator_delegation) False,
         AccountMeta_new_readonly (ai_key weight_table) False,
         AccountMeta_new (ai_key epoch_snapshot) False,
         AccountMeta_new (ai_key operator_snapshot) False] @ map remaining_meta remaining_accounts;
      data = bs_u8 B SnapshotVaultOperatorDelegationInstructionData_new @ bs_u64 B epoch;
      instruction = \<lparr>ix_program_id = NCN_PROGRAM_ID, ix_accounts = accounts, ix_data = data\<rparr>;
      account_infos =
        [program, epoch_state, config, restaking_config, ncn, operator, vault,
        vault_ncn_ticket, ncn_vault_ticket, vault_operator_delegation, weight_table,
        epoch_snapshot, operator_snapshot] @ map fst remaining_accounts in
      cpi_dispatch R instruction account_infos signers_seeds)"

definition SnapshotVaultOperatorDelegationCpiBuilder_invoke_signed ::
  "cpi \<Rightarrow> borsh \<Rightarrow> account_info \<Rightarrow>
  account_info option \<Rightarrow> account_info option \<Rightarrow>
  account_info option \<Rightarrow> account_info option \<Rightarrow>
  account_info option \<Rightarrow> account_info option \<Rightarrow>
  account_info option \<Rightarrow> account_info option \<Rightarrow>
  account_info option \<Rightarrow> account_info option \<Rightarrow>
  account_info option \<Rightarrow> account_info option \<Rightarrow> u64 option \<Rightarrow>
  remaining \<Rightarrow> u8 list list list \<Rightarrow> cpi_result" where
  "SnapshotVaultOperatorDelegationCpiBuilder_invoke_signed R B program epoch_state config
  restaking_config ncn operator vault vault_ncn_ticket ncn_vault_ticket
  vault_operator_delegation weight_table epoch_snapshot operator_snapshot epoch
  remaining_accounts signers_seeds =
     and_then_on (expect epoch) (\<lambda>epoch.
     and_then_on (expect epoch_state) (\<lambda>epoch_state.
     and_then_on (expect config) (\<lambda>config.
     and_then_on (expect restaking_config) (\<lambda>restaking_config.
     and_then_on (expect ncn) (\<lambda>ncn.
     and_then_on (expect operator) (\<lambda>operator.
     and_then_on (expect vault) (\<lambda>vault.
     and_then_on (expect vault_ncn_ticket) (\<lambda>vault_ncn_ticket.
     and_then_on (expect ncn_vault_ticket) (\<lambda>ncn_vault_ticket.
     and_then_on (expect vault_operator_delegation) (\<lambda>vault_operator_delegation.
     and_then_on (expect weight_table) (\<lambda>weight_table.
     and_then_on (expect epoch_snapshot) (\<lambda>epoch_snapshot.
     and_then_on (expect operator_snapshot) (\<lambda>operator_snapshot.
     SnapshotVaultOperatorDelegationCpi_invoke_signed_with_remaining_accounts R B program
       epoch_state config restaking_config ncn operator vault vault_ncn_ticket ncn_vault_ticket
       vault_operator_delegation weight_table epoch_snapshot operator_snapshot epoch
       signers_seeds remaining_accounts)))))))))))))"

subsection \<open>\<open>InitializeBallotBoxCpi\<close>\<close>

definition InitializeBallotBoxCpi_invoke_signed_with_remaining_accounts ::
  "cpi \<Rightarrow> borsh \<Rightarrow> account_info \<Rightarrow> account_info \<Rightarrow>
  account_info \<Rightarrow> account_info \<Rightarrow> account_info \<Rightarrow>
  account_info \<Rightarrow> account_info \<Rightarrow> account_info \<Rightarrow>
  account_info \<Rightarrow> u64 \<Rightarrow> u8 list list list \<Rightarrow>
  remaining \<Rightarrow> cpi_result" where
  "InitializeBallotBoxCpi_invoke_signed_with_remaining_accounts R B program epoch_marker
  epoch_state config ballot_box ncn account_payer system_program consensus_result epoch
  signers_seeds remaining_accounts =
     (let accounts =
        [AccountMeta_new_readonly (ai_key epoch_marker) False,
         AccountMeta_new_readonly (ai_key epoch_state) False,
         AccountMeta_new_readonly (ai_key config) False,
         AccountMeta_new (ai_key ballot_box) False,
         AccountMeta_new_readonly (ai_key ncn) False,
         AccountMeta_new (ai_key account_payer) False,
         AccountMeta_new_readonly (ai_key system_program) False,
         AccountMeta_new (ai_key consensus_result) False] @ map remaining_meta remaining_accounts;
      data = bs_u8 B InitializeBallotBoxInstructionData_new @ bs_u64 B epoch;
      instruction = \<lparr>ix_program_id = NCN_PROGRAM_ID, ix_accounts = accounts, ix_data = data\<rparr>;
      account_infos =
        [program, epoch_marker, epoch_state, config, ballot_box, ncn, account_payer,
        system_program, consensus_result] @ map fst remaining_accounts in
      cpi_dispatch R instruction account_infos signers_seeds)"

definition InitializeBallotBoxCpiBuilder_invoke_signed ::
  "cpi \<Rightarrow> borsh \<Rightarrow> account_info \<Rightarrow>
  account_info option \<Rightarrow> account_info option \<Rightarrow>
  account_info option \<Rightarrow> account_info option \<Rightarrow>
  account_info option \<Rightarrow> account_info option \<Rightarrow>
  account_info option \<Rightarrow> account_info option \<Rightarrow> u64 option \<Rightarrow>
  remaining \<Rightarrow> u8 list list list \<Rightarrow> cpi_result" where
  "InitializeBallotBoxCpiBuilder_invoke_signed R B program epoch_marker epoch_state config
  ballot_box ncn account_payer system_program consensus_result epoch remaining_accounts
  signers_seeds =
     and_then_on (expect epoch) (\<lambda>epoch.
     and_then_on (expect epoch_marker) (\<lambda>epoch_marker.
     and_then_on (expect epoch_state) (\<lambda>epoch_state.
     and_then_on (expect config) (\<lambda>config.
     and_then_on (expect ballot_box) (\<lambda>ballot_box.
     and_then_on (expect ncn) (\<lambda>ncn.
     and_then_on (expect account_payer) (\<lambda>account_payer.
     and_then_on (expect system_program) (\<lambda>system_program.
     and_then_on (expect consensus_result) (\<lambda>consensus_result.
     InitializeBallotBoxCpi_invoke_signed_with_remaining_accounts R B program
       epoch_marker epoch_state config ballot_box ncn account_payer system_program
       consensus_result epoch signers_seeds remaining_accounts)))))))))"

subsection \<open>\<open>ReallocBallotBoxCpi\<close>\<close>

definition ReallocBallotBoxCpi_invoke_signed_with_remaining_accounts ::
  "cpi \<Rightarrow> borsh \<Rightarrow> account_info \<Rightarrow> account_info \<Rightarrow>
  account_info \<Rightarrow> account_info \<Rightarrow> account_info \<Rightarrow>
  account_info \<Rightarrow> account_info \<Rightarrow> u64 \<Rightarrow>
  u8 list list list \<Rightarrow> remaining \<Rightarrow> cpi_result" where
  "ReallocBallotBoxCpi_invoke_signed_with_remaining_accounts R B program epoch_state config
  ballot_box ncn account_payer system_program epoch signers_seeds remaining_accounts =
     (let accounts =
        [AccountMeta_new (ai_key epoch_state) False,
         AccountMeta_new_readonly (ai_key config) False,
         AccountMeta_new (ai_key ballot_box) False,
         AccountMeta_new_readonly (ai_key ncn) False,
         AccountMeta_new (ai_key account_payer) False,
         AccountMeta_new_readonly (ai_key system_program) False] @ map remaining_meta remaining_accounts;
      data = bs_u8 B ReallocBallotBoxInstructionData_new @ bs_u64 B epoch;
      instruction = \<lparr>ix_program_id = NCN_PROGRAM_ID, ix_accounts = accounts, ix_data = data\<rparr>;
      account_infos =
        [program, epoch_state, config, ballot_box, ncn, account_payer, system_program] @ map fst remaining_accounts in
      cpi_dispatch R instruction account_infos signers_seeds)"

definition ReallocBallotBoxCpiBuilder_invoke_signed ::
  "cpi \<Rightarrow> borsh \<Rightarrow> account_info \<Rightarrow>
  account_info option \<Rightarrow> account_info option \<Rightarrow>
  account_info option \<Rightarrow> account_info option \<Rightarrow>
  account_info option \<Rightarrow> account_info option \<Rightarrow> u64 option \<Rightarrow>
  remaining \<Rightarrow> u8 list list list \<Rightarrow> cpi_result" where
  "ReallocBallotBoxCpiBuilder_invoke_signed R B program epoch_state config ballot_box ncn
  account_payer system_program epoch remaining_accounts signers_seeds =
     and_then_on (expect epoch) (\<lambda>epoch.
     and_then_on (expect epoch_state) (\<lambda>epoch_state.
     and_then_on (expect config) (\<lambda>config.
     and_then_on (expect ballot_box) (\<lambda>ballot_box.
     and_then_on (expect ncn) (\<lambda>ncn.
     and_then_on (expect account_payer) (\<lambda>account_payer.
     and_then_on (expect system_program) (\<lambda>system_program.
     ReallocBallotBoxCpi_invoke_signed_with_remaining_accounts R B program
       epoch_state config ballot_box ncn account_payer system_program epoch signers_seeds
       remaining_accounts)))))))"

subsection \<open>\<open>CastVoteCpi\<close>\<close>

definition CastVoteCpi_invoke_signed_with_remaining_accounts ::
  "cpi \<Rightarrow> borsh \<Rightarrow> account_info \<Rightarrow> account_info \<Rightarrow>
  account_info \<Rightarrow> account_info \<Rightarrow> account_info \<Rightarrow>
  account_info \<Rightarrow> account_info \<Rightarrow> account_info \<Rightarrow>
  account_info \<Rightarrow> account_info \<Rightarrow> u8 \<Rightarrow> u64 \<Rightarrow>
  u8 list list list \<Rightarrow> remaining \<Rightarrow> cpi_result" where
  "CastVoteCpi_invoke_signed_with_remaining_accounts R B program epoch_state config ballot_box
  ncn epoch_snapshot operator_snapshot operator operator_voter consensus_result weather_status'
  epoch signers_seeds remaining_accounts =
     (let accounts =
        [AccountMeta_new (ai_key epoch_state) False,
         AccountMeta_new_readonly (ai_key config) False,
         AccountMeta_new (ai_key ballot_box) False,
         AccountMeta_new_readonly (ai_key ncn) False,
         AccountMeta_new_readonly (ai_key epoch_snapshot) False,
         AccountMeta_new_readonly (ai_key operator_snapshot) False,
         AccountMeta_new_readonly (ai_key operator) False,
         AccountMeta_new_readonly (ai_key operator_voter) True,
         AccountMeta_new (ai_key consensus_result) False] @ map remaining_meta remaining_accounts;
      data = bs_u8 B CastVoteInstructionData_new @ bs_u8 B weather_status' @ bs_u64 B epoch;
      instruction = \<lparr>ix_program_id = NCN_PROGRAM_ID, ix_accounts = accounts, ix_data = data\<rparr>;
      account_infos =
        [program, epoch_state, config, ballot_box, ncn, epoch_snapshot, operator_snapshot,
        operator, operator_voter, consensus_result] @ map fst remaining_accounts in
      cpi_dispatch R instruction account_infos signers_seeds)"

definition CastVoteCpiBuilder_invoke_signed ::
  "cpi \<Rightarrow> borsh \<Rightarrow> account_info \<Rightarrow>
  account_info option \<Rightarrow> account_info option \<Rightarrow>
  account_info option \<Rightarrow> account_info option \<Rightarrow>
  account_info option \<Rightarrow> account_info option \<Rightarrow>
  account_info option \<Rightarrow> account_info option \<Rightarrow>
  account_info option \<Rightarrow> u8 option \<Rightarrow> u64 option \<Rightarrow>
  remaining \<Rightarrow> u8 list list list \<Rightarrow> cpi_result" where
  "CastVoteCpiBuilder_invoke_signed R B program epoch_state config ballot_box ncn
  epoch_snapshot operator_snapshot operator operator_voter consensus_result weather_status'
  epoch remaining_accounts signers_seeds =
     and_then_on (expect weather_status') (\<lambda>weather_status'.
     and_then_on (expect epoch) (\<lambda>epoch.
     and_then_on (expect epoch_state) (\<lambda>epoch_state.
     and_then_on (expect config) (\<lambda>config.
     and_then_on (expect ballot_box) (\<lambda>ballot_box.
     and_then_on (expect ncn) (\<lambda>ncn.
     and_then_on (expect epoch_snapshot) (\<lambda>epoch_snapshot.
     and_then_on (expect operator_snapshot) (\<lambda>operator_snapshot.
     and_then_on (expect operator) (\<lambda>operator.
     and_then_on (expect operator_voter) (\<lambda>operator_voter.
     and_then_on (expect consensus_result) (\<lambda>consensus_result.
     CastVoteCpi_invoke_signed_with_remaining_accounts R B program
       epoch_state config ballot_box ncn epoch_snapshot operator_snapshot operator
       operator_voter consensus_result weather_status' epoch signers_seeds remaining_accounts)))))))))))"

subsection \<open>\<open>InitializeNCNRewardRouterCpi\<close>\<close>

definition InitializeNCNRewardRouterCpi_invoke_signed_with_remaining_accounts ::
  "cpi \<Rightarrow> borsh \<Rightarrow> account_info \<Rightarrow> account_info \<Rightarrow>
  account_info \<Rightarrow> account_info \<Rightarrow> account_info \<Rightarrow>
  account_info \<Rightarrow> account_info \<Rightarrow> account_info \<Rightarrow>
  u64 \<Rightarrow> u8 list list list \<Rightarrow> remaining \<Rightarrow> cpi_result" where
  "InitializeNCNRewardRouterCpi_invoke_signed_with_remaining_accounts R B program epoch_marker
  epoch_state ncn ncn_reward_router ncn_reward_receiver account_payer system_program epoch
  signers_seeds remaining_accounts =
     (let accounts =
        [AccountMeta_new_readonly (ai_key epoch_marker) False,
         AccountMeta_new_readonly (ai_key epoch_state) False,
         AccountMeta_new_readonly (ai_key ncn) False,
         AccountMeta_new (ai_key ncn_reward_router) False,
         AccountMeta_new (ai_key ncn_reward_receiver) False,
         AccountMeta_new (ai_key account_payer) False,
         AccountMeta_new_readonly (ai_key system_program) False] @ map remaining_meta remaining_accounts;
      data = bs_u8 B InitializeNCNRewardRouterInstructionData_new @ bs_u64 B epoch;
      instruction = \<lparr>ix_program_id = NCN_PROGRAM_ID, ix_accounts = accounts, ix_data = data\<rparr>;
      account_infos =
        [program, epoch_marker, epoch_state, ncn, ncn_reward_router, ncn_reward_receiver,
        account_payer, system_program] @ map fst remaining_accounts in
      cpi_dispatch R instruction account_infos signers_seeds)"

definition InitializeNCNRewardRouterCpiBuilder_invoke_signed ::
  "cpi \<Rightarrow> borsh \<Rightarrow> account_info \<Rightarrow>
  account_info option \<Rightarrow> account_info option \<Rightarrow>
  account_info option \<Rightarrow> account_info option \<Rightarrow>
  account_info option \<Rightarrow> account_info option \<Rightarrow>
  account_info option \<Rightarrow> u64 option \<Rightarrow> remaining \<Rightarrow>
  u8 list list list \<Rightarrow> cpi_result" where
  "InitializeNCNRewardRouterCpiBuilder_invoke_signed R B program epoch_marker epoch_state ncn
  ncn_reward_router ncn_reward_receiver account_payer system_program epoch remaining_accounts
  signers_seeds =
     and_then_on (expect epoch) (\<lambda>epoch.
     and_then_on (expect epoch_marker) (\<lambda>epoch_marker.
     and_then_on (expect epoch_state) (\<lambda>epoch_state.
     and_then_on (expect ncn) (\<lambda>ncn.
     and_then_on (expect ncn_reward_router) (\<lambda>ncn_reward_router.
     and_then_on (expect ncn_reward_receiver) (\<lambda>ncn_reward_receiver.
     and_then_on (expect account_payer) (\<lambda>account_payer.
     and_then_on (expect system_program) (\<lambda>system_program.
     InitializeNCNRewardRouterCpi_invoke_signed_with_remaining_accounts R B program
       epoch_marker epoch_state ncn ncn_reward_router ncn_reward_receiver account_payer
       system_program epoch signers_seeds remaining_accounts))))))))"

subsection \<open>\<open>ReallocNCNRewardRouterCpi\<close>\<close>

definition ReallocNCNRewardRouterCpi_invoke_signed_with_remaining_accounts ::
  "cpi \<Rightarrow> borsh \<Rightarrow> account_info \<Rightarrow> account_info \<Rightarrow>
  account_info \<Rightarrow> account_info \<Rightarrow> account_info \<Rightarrow>
  account_info \<Rightarrow> account_info \<Rightarrow> u64 \<Rightarrow>
  u8 list list list \<Rightarrow> remaining \<Rightarrow> cpi_result" where
  "ReallocNCNRewardRouterCpi_invoke_signed_with_remaining_accounts R B program epoch_state
  config ncn_reward_router ncn account_payer system_program epoch signers_seeds
  remaining_accounts =
     (let accounts =
        [AccountMeta_new (ai_key epoch_state) False,
         AccountMeta_new_readonly (ai_key config) False,
         AccountMeta_new (ai_key ncn_reward_router) False,
         AccountMeta_new_readonly (ai_key ncn) False,
         AccountMeta_new (ai_key account_payer) False,
         AccountMeta_new_readonly (ai_key system_program) False] @ map remaining_meta remaining_accounts;
      data = bs_u8 B ReallocNCNRewardRouterInstructionData_new @ bs_u64 B epoch;
      instruction = \<lparr>ix_program_id = NCN_PROGRAM_ID, ix_accounts = accounts, ix_data = data\<rparr>;
      account_infos =
        [program, epoch_state, config, ncn_reward_router, ncn, account_payer, system_program] @ map fst remaining_accounts in
      cpi_dispatch R instruction account_infos signers_seeds)"

definition ReallocNCNRewardRouterCpiBuilder_invoke_signed ::
  "cpi \<Rightarrow> borsh \<Rightarrow> account_info \<Rightarrow>
  account_info option \<Rightarrow> account_info option \<Rightarrow>
  account_info option \<Rightarrow> account_info option \<Rightarrow>
  account_info option \<Rightarrow> account_info option \<Rightarrow> u64 option \<Rightarrow>
  remaining \<Rightarrow> u8 list list list \<Rightarrow> cpi_result" where
  "ReallocNCNRewardRouterCpiBuilder_invoke_signed R B program epoch_state config
  ncn_reward_router ncn account_payer system_program epoch remaining_accounts signers_seeds =
     and_then_on (expect epoch) (\<lambda>epoch.
     and_then_on (expect epoch_state) (\<lambda>epoch_state.
     and_then_on (expect config) (\<lambda>config.
     and_then_on (expect ncn_reward_router) (\<lambda>ncn_reward_router.
     and_then_on (expect ncn) (\<lambda>ncn.
     and_then_on (expect account_payer) (\<lambda>account_payer.
     and_then_on (expect system_program) (\<lambda>system_program.
     ReallocNCNRewardRouterCpi_invoke_signed_with_remaining_accounts R B program
       epoch_state config ncn_reward_router ncn account_payer system_program epoch
       signers_seeds remaining_accounts)))))))"

subsection \<open>\<open>RouteNCNRewardsCpi\<close>\<close>

definition RouteNCNRewardsCpi_invoke_signed_with_remaining_accounts ::
  "cpi \<Rightarrow> borsh \<Rightarrow> account_info \<Rightarrow> account_info \<Rightarrow>
  account_info \<Rightarrow> account_info \<Rightarrow> account_info \<Rightarrow>
  account_info \<Rightarrow> account_info \<Rightarrow> account_info \<Rightarrow>
  u16 \<Rightarrow> u64 \<Rightarrow> u8 list list list \<Rightarrow> remaining \<Rightarrow>
  cpi_result" where
  "RouteNCNRewardsCpi_invoke_signed_with_remaining_accounts R B program epoch_state config ncn
  epoch_snapshot ballot_box ncn_reward_router ncn_reward_receiver max_iterations epoch
  signers_seeds remaining_accounts =
     (let accounts =
        [AccountMeta_new (ai_key epoch_state) False,
         AccountMeta_new_readonly (ai_key config) False,
         AccountMeta_new_readonly (ai_key ncn) False,
         AccountMeta_new_readonly (ai_key epoch_snapshot) False,
         AccountMeta_new_readonly (ai_key ballot_box) False,
         AccountMeta_new (ai_key ncn_reward_router) False,
         AccountMeta_new (ai_key ncn_reward_receiver) False] @ map remaining_meta remaining_accounts;
      data = bs_u8 B RouteNCNRewardsInstructionData_new @ bs_u16 B max_iterations @ bs_u64 B
      epoch;
      instruction = \<lparr>ix_program_id = NCN_PROGRAM_ID, ix_accounts = accounts, ix_data = data\<rparr>;
      account_infos =
        [program, epoch_state, config, ncn, epoch_snapshot, ballot_box, ncn_reward_router,
        ncn_reward_receiver] @ map fst remaining_accounts in
      cpi_dispatch R instruction account_infos signers_seeds)"

definition RouteNCNRewardsCpiBuilder_invoke_signed ::
  "cpi \<Rightarrow> borsh \<Rightarrow> account_info \<Rightarrow>
  account_info option \<Rightarrow> account_info option \<Rightarrow>
  account_info option \<Rightarrow> account_info option \<Rightarrow>
  account_info option \<Rightarrow> account_info option \<Rightarrow>
  account_info option \<Rightarrow> u16 option \<Rightarrow> u64 option \<Rightarrow>
  remaining \<Rightarrow> u8 list list list \<Rightarrow> cpi_result" where
  "RouteNCNRewardsCpiBuilder_invoke_signed R B program epoch_state config ncn epoch_snapshot
  ballot_box ncn_reward_router ncn_reward_receiver max_iterations epoch remaining_accounts
  signers_seeds =
     and_then_on (expect max_iterations) (\<lambda>max_iterations.
     and_then_on (expect epoch) (\<lambda>epoch.
     and_then_on (expect epoch_state) (\<lambda>epoch_state.
     and_then_on (expect config) (\<lambda>config.
     and_then_on (expect ncn) (\<lambda>ncn.
     and_then_on (expect epoch_snapshot) (\<lambda>epoch_snapshot.
     and_then_on (expect ballot_box) (\<lambda>ballot_box.
     and_then_on (expect ncn_reward_router) (\<lambda>ncn_reward_router.
     and_then_on (expect ncn_reward_receiver) (\<lambda>ncn_reward_receiver.
     RouteNCNRewardsCpi_invoke_signed_with_remaining_accounts R B program
       epoch_state config ncn epoch_snapshot ballot_box ncn_reward_router ncn_reward_receiver
       max_iterations epoch signers_seeds remaining_accounts)))))))))"

subsection \<open>\<open>DistributeProtocolRewardsCpi\<close>\<close>

definition DistributeProtocolRewardsCpi_invoke_signed_with_remaining_accounts ::
  "cpi \<Rightarrow> borsh \<Rightarrow> account_info \<Rightarrow> account_info \<Rightarrow>
  account_info \<Rightarrow> account_info \<Rightarrow> account_info \<Rightarrow>
  account_info \<Rightarrow> account_info \<Rightarrow> account_info \<Rightarrow>
  u64 \<Rightarrow> u8 list list list \<Rightarrow> remaining \<Rightarrow> cpi_result" where
  "DistributeProtocolRewardsCpi_invoke_signed_with_remaining_accounts R B program epoch_state
  config ncn ncn_reward_router ncn_reward_receiver protocol_fee_wallet' system_program epoch
  signers_seeds remaining_accounts =
     (let accounts =
        [AccountMeta_new (ai_key epoch_state) False,
         AccountMeta_new_readonly (ai_key config) False,
         AccountMeta_new_readonly (ai_key ncn) False,
         AccountMeta_new (ai_key ncn_reward_router) False,
         AccountMeta_new (ai_key ncn_reward_receiver) False,
         AccountMeta_new (ai_key protocol_fee_wallet') False,
         AccountMeta_new_readonly (ai_key system_program) False] @ map remaining_meta remaining_accounts;
      data = bs_u8 B DistributeProtocolRewardsInstructionData_new @ bs_u64 B epoch;
      instruction = \<lparr>ix_program_id = NCN_PROGRAM_ID, ix_accounts = accounts, ix_data = data\<rparr>;
      account_infos =
        [program, epoch_state, config, ncn, ncn_reward_router, ncn_reward_receiver,
        protocol_fee_wallet', system_program] @ map fst remaining_accounts in
      cpi_dispatch R instruction account_infos signers_seeds)"

definition DistributeProtocolRewardsCpiBuilder_invoke_signed ::
  "cpi \<Rightarrow> borsh \<Rightarrow> account_info \<Rightarrow>
  account_info option \<Rightarrow> account_info option \<Rightarrow>
  account_info option \<Rightarrow> account_info option \<Rightarrow>
  account_info option \<Rightarrow> account_info option \<Rightarrow>
  account_info option \<Rightarrow> u64 option \<Rightarrow> remaining \<Rightarrow>
  u8 list list list \<Rightarrow> cpi_result" where
  "DistributeProtocolRewardsCpiBuilder_invoke_signed R B program epoch_state config ncn
  ncn_reward_router ncn_reward_receiver protocol_fee_wallet' system_program epoch
  remaining_accounts signers_seeds =
     and_then_on (expect epoch) (\<lambda>epoch.
     and_then_on (expect epoch_state) (\<lambda>epoch_state.
     and_then_on (expect config) (\<lambda>config.
     and_then_on (expect ncn) (\<lambda>ncn.
     and_then_on (expect ncn_reward_router) (\<lambda>ncn_reward_router.
     and_then_on (expect ncn_reward_receiver) (\<lambda>ncn_reward_receiver.
     and_then_on (expect protocol_fee_wallet') (\<lambda>protocol_fee_wallet'.
     and_then_on (expect system_program) (\<lambda>system_program.
     DistributeProtocolRewardsCpi_invoke_signed_with_remaining_accounts R B program
       epoch_state config ncn ncn_reward_router ncn_reward_receiver protocol_fee_wallet'
       system_program epoch signers_seeds remaining_accounts))))))))"

subsection \<open>\<open>DistributeNCNRewardsCpi\<close>\<close>

definition DistributeNCNRewardsCpi_invoke_signed_with_remaining_accounts ::
  "cpi \<Rightarrow> borsh \<Rightarrow> account_info \<Rightarrow> account_info \<Rightarrow>
  account_info \<Rightarrow> account_info \<Rightarrow> account_info \<Rightarrow>
  account_info \<Rightarrow> account_info \<Rightarrow> account_info \<Rightarrow>
  u64 \<Rightarrow> u8 list list list \<Rightarrow> remaining \<Rightarrow> cpi_result" where
  "DistributeNCNRewardsCpi_invoke_signed_with_remaining_accounts R B program epoch_state config
  ncn ncn_reward_router ncn_reward_receiver ncn_fee_wallet system_program epoch signers_seeds
  remaining_accounts =
     (let accounts =
        [AccountMeta_new (ai_key epoch_state) False,
         AccountMeta_new_readonly (ai_key config) False,
         AccountMeta_new_readonly (ai_key ncn) False,
         AccountMeta_new (ai_key ncn_reward_router) False,
         AccountMeta_new (ai_key ncn_reward_receiver) False,
         AccountMeta_new (ai_key ncn_fee_wallet) False,
         AccountMeta_new_readonly (ai_key system_program) False] @ map remaining_meta remaining_accounts;
      data = bs_u8 B DistributeNCNRewardsInstructionData_new @ bs_u64 B epoch;
      instruction = \<lparr>ix_program_id = NCN_PROGRAM_ID, ix_accounts = accounts, ix_data = data\<rparr>;
      account_infos =
        [program, epoch_state, config, ncn, ncn_reward_router, ncn_reward_receiver,
        ncn_fee_wallet, system_program] @ map fst remaining_accounts in
      cpi_dispatch R instruction account_infos signers_seeds)"

definition DistributeNCNRewardsCpiBuilder_invoke_signed ::
  "cpi \<Rightarrow> borsh \<Rightarrow> account_info \<Rightarrow>
  account_info option \<Rightarrow> account_info option \<Rightarrow>
  account_info option \<Rightarrow> account_info option \<Rightarrow>
  account_info option \<Rightarrow> account_info option \<Rightarrow>
  account_info option \<Rightarrow> u64 option \<Rightarrow> remaining \<Rightarrow>
  u8 list list list \<Rightarrow> cpi_result" where
  "DistributeNCNRewardsCpiBuilder_invoke_signed R B program epoch_state config ncn
  ncn_reward_router ncn_reward_receiver ncn_fee_wallet system_program epoch remaining_accounts
  signers_seeds =
     and_then_on (expect epoch) (\<lambda>epoch.
     and_then_on (expect epoch_state) (\<lambda>epoch_state.
     and_then_on (expect config) (\<lambda>config.
     and_then_on (expect ncn) (\<lambda>ncn.
     and_then_on (expect ncn_reward_router) (\<lambda>ncn_reward_router.
     and_then_on (expect ncn_reward_receiver) (\<lambda>ncn_reward_receiver.
     and_then_on (expect ncn_fee_wallet) (\<lambda>ncn_fee_wallet.
     and_then_on (expect system_program) (\<lambda>system_program.
     DistributeNCNRewardsCpi_invoke_signed_with_remaining_accounts R B program
       epoch_state config ncn ncn_reward_router ncn_reward_receiver ncn_fee_wallet
       system_program epoch signers_seeds remaining_accounts))))))))"

subsection \<open>\<open>InitializeOperatorVaultRewardRouterCpi\<close>\<close>

definition InitializeOperatorVaultRewardRouterCpi_invoke_signed_with_remaining_accounts ::
  "cpi \<Rightarrow> borsh \<Rightarrow> account_info \<Rightarrow> account_info \<Rightarrow>
  account_info \<Rightarrow> account_info \<Rightarrow> account_info \<Rightarrow>
  account_info \<Rightarrow> account_info \<Rightarrow> account_info \<Rightarrow>
  account_info \<Rightarrow> account_info \<Rightarrow> u64 \<Rightarrow>
  u8 list list list \<Rightarrow> remaining \<Rightarrow> cpi_result" where
  "InitializeOperatorVaultRewardRouterCpi_invoke_signed_with_remaining_accounts R B program
  epoch_marker epoch_state ncn operator operator_snapshot operator_vault_reward_router
  operator_vault_reward_receiver account_payer system_program epoch signers_seeds
  remaining_accounts =
     (let accounts =
        [AccountMeta_new_readonly (ai_key epoch_marker) False,
         AccountMeta_new (ai_key epoch_state) False,
         AccountMeta_new_readonly (ai_key ncn) False,
         AccountMeta_new_readonly (ai_key operator) False,
         AccountMeta_new_readonly (ai_key operator_snapshot) False,
         AccountMeta_new (ai_key operator_vault_reward_router) False,
         AccountMeta_new (ai_key operator_vault_reward_receiver) False,
         AccountMeta_new (ai_key account_payer) False,
         AccountMeta_new_readonly (ai_key system_program) False] @ map remaining_meta remaining_accounts;
      data = bs_u8 B InitializeOperatorVaultRewardRouterInstructionData_new @ bs_u64 B epoch;
      instruction = \<lparr>ix_program_id = NCN_PROGRAM_ID, ix_accounts = accounts, ix_data = data\<rparr>;
      account_infos =
        [program, epoch_marker, epoch_state, ncn, operator, operator_snapshot,
        operator_vault_reward_router, operator_vault_reward_receiver, account_payer,
        system_program] @ map fst remaining_accounts in
      cpi_dispatch R instruction account_infos signers_seeds)"

definition InitializeOperatorVaultRewardRouterCpiBuilder_invoke_signed ::
  "cpi \<Rightarrow> borsh \<Rightarrow> account_info \<Rightarrow>
  account_info option \<Rightarrow> account_info option \<Rightarrow>
  account_info option \<Rightarrow> account_info option \<Rightarrow>
  account_info option \<Rightarrow> account_info option \<Rightarrow>
  account_info option \<Rightarrow> account_info option \<Rightarrow>
  account_info option \<Rightarrow> u64 option \<Rightarrow> remaining \<Rightarrow>
  u8 list list list \<Rightarrow> cpi_result" where
  "InitializeOperatorVaultRewardRouterCpiBuilder_invoke_signed R B program epoch_marker
  epoch_state ncn operator operator_snapshot operator_vault_reward_router
  operator_vault_reward_receiver account_payer system_program epoch remaining_accounts
  signers_seeds =
     and_then_on (expect epoch) (\<lambda>epoch.
     and_then_on (expect epoch_marker) (\<lambda>epoch_marker.
     and_then_on (expect epoch_state) (\<lambda>epoch_state.
     and_then_on (expect ncn) (\<lambda>ncn.
     and_then_on (expect operator) (\<lambda>operator.
     and_then_on (expect operator_snapshot) (\<lambda>operator_snapshot.
     and_then_on (expect operator_vault_reward_router) (\<lambda>operator_vault_reward_router.
     and_then_on (expect operator_vault_reward_receiver) (\<lambda>operator_vault_reward_receiver.
     and_then_on (expect account_payer) (\<lambda>account_payer.
     and_then_on (expect system_program) (\<lambda>system_program.
     InitializeOperatorVaultRewardRouterCpi_invoke_signed_with_remaining_accounts R B program
       epoch_marker epoch_state ncn operator operator_snapshot operator_vault_reward_router
       operator_vault_reward_receiver account_payer system_program epoch signers_seeds
       remaining_accounts))))))))))"

subsection \<open>\<open>DistributeOperatorVaultRewardRouteCpi\<close>\<close>

definition DistributeOperatorVaultRewardRouteCpi_invoke_signed_with_remaining_accounts ::
  "cpi \<Rightarrow> borsh \<Rightarrow> account_info \<Rightarrow> account_info \<Rightarrow>
  account_info \<Rightarrow> account_info \<Rightarrow> account_info \<Rightarrow>
  account_info \<Rightarrow> account_info \<Rightarrow> account_info \<Rightarrow>
  account_info \<Rightarrow> account_info \<Rightarrow> u64 \<Rightarrow>
  u8 list list list \<Rightarrow> remaining \<Rightarrow> cpi_result" where
  "DistributeOperatorVaultRewardRouteCpi_invoke_signed_with_remaining_accounts R B program
  epoch_state config ncn operator ncn_reward_router ncn_reward_receiver
  operator_vault_reward_router operator_vault_reward_receiver system_program epoch
  signers_seeds remaining_accounts =
     (let accounts =
        [AccountMeta_new (ai_key epoch_state) False,
         AccountMeta_new_readonly (ai_key config) False,
         AccountMeta_new_readonly (ai_key ncn) False,
         AccountMeta_new_readonly (ai_key operator) False,
         AccountMeta_new (ai_key ncn_reward_router) False,
         AccountMeta_new (ai_key ncn_reward_receiver) False,
         AccountMeta_new_readonly (ai_key operator_vault_reward_router) False,
         AccountMeta_new (ai_key operator_vault_reward_receiver) False,
         AccountMeta_new_readonly (ai_key system_program) False] @ map remaining_meta remaining_accounts;
      data = bs_u8 B DistributeOperatorVaultRewardRouteInstructionData_new @ bs_u64 B epoch;
      instruction = \<lparr>ix_program_id = NCN_PROGRAM_ID, ix_accounts = accounts, ix_data = data\<rparr>;
      account_infos =
        [program, epoch_state, config, ncn, operator, ncn_reward_router, ncn_reward_receiver,
        operator_vault_reward_router, operator_vault_reward_receiver, system_program] @ map fst remaining_accounts in
      cpi_dispatch R instruction account_infos signers_seeds)"

definition DistributeOperatorVaultRewardRouteCpiBuilder_invoke_signed ::
  "cpi \<Rightarrow> borsh \<Rightarrow> account_info \<Rightarrow>
  account_info option \<Rightarrow> account_info option \<Rightarrow>
  account_info option \<Rightarrow> account_info option \<Rightarrow>
  account_info option \<Rightarrow> account_info option \<Rightarrow>
  account_info option \<Rightarrow> account_info option \<Rightarrow>
  account_info option \<Rightarrow> u64 option \<Rightarrow> remaining \<Rightarrow>
  u8 list list list \<Rightarrow> cpi_result" where
  "DistributeOperatorVaultRewardRouteCpiBuilder_invoke_signed R B program epoch_state config
  ncn operator ncn_reward_router ncn_reward_receiver operator_vault_reward_router
  operator_vault_reward_receiver system_program epoch remaining_accounts signers_seeds =
     and_then_on (expect epoch) (\<lambda>epoch.
     and_then_on (expect epoch_state) (\<lambda>epoch_state.
     and_then_on (expect config) (\<lambda>config.
     and_then_on (expect ncn) (\<lambda>ncn.
     and_then_on (expect operator) (\<lambda>operator.
     and_then_on (expect ncn_reward_router) (\<lambda>ncn_reward_router.
     and_then_on (expect ncn_reward_receiver) (\<lambda>ncn_reward_receiver.
     and_then_on (expect operator_vault_reward_router) (\<lambda>operator_vault_reward_router.
     and_then_on (expect operator_vault_reward_receiver) (\<lambda>operator_vault_reward_receiver.
     and_then_on (expect system_program) (\<lambda>system_program.
     DistributeOperatorVaultRewardRouteCpi_invoke_signed_with_remaining_accounts R B program
       epoch_state config ncn operator ncn_reward_router ncn_reward_receiver
       operator_vault_reward_router operator_vault_reward_receiver system_program epoch
       signers_seeds remaining_accounts))))))))))"

subsection \<open>\<open>RouteOperatorVaultRewardsCpi\<close>\<close>

definition RouteOperatorVaultRewardsCpi_invoke_signed_with_remaining_accounts ::
  "cpi \<Rightarrow> borsh \<Rightarrow> account_info \<Rightarrow> account_info \<Rightarrow>
  account_info \<Rightarrow> account_info \<Rightarrow> account_info \<Rightarrow>
  account_info \<Rightarrow> account_info \<Rightarrow> u16 \<Rightarrow> u64 \<Rightarrow>
  u8 list list list \<Rightarrow> remaining \<Rightarrow> cpi_result" where
  "RouteOperatorVaultRewardsCpi_invoke_signed_with_remaining_accounts R B program epoch_state
  ncn operator operator_snapshot operator_vault_reward_router operator_vault_reward_receiver
  max_iterations epoch signers_seeds remaining_accounts =
     (let accounts =
        [AccountMeta_new (ai_key epoch_state) False,
         AccountMeta_new_readonly (ai_key ncn) False,
         AccountMeta_new_readonly (ai_key operator) False,
         AccountMeta_new_readonly (ai_key operator_snapshot) False,
         AccountMeta_new (ai_key operator_vault_reward_router) False,
         AccountMeta_new (ai_key operator_vault_reward_receiver) False] @ map remaining_meta remaining_accounts;
      data = bs_u8 B RouteOperatorVaultRewardsInstructionData_new @ bs_u16 B max_iterations @
      bs_u64 B epoch;
      instruction = \<lparr>ix_program_id = NCN_PROGRAM_ID, ix_accounts = accounts, ix_data = data\<rparr>;
      account_infos =
        [program, epoch_state, ncn, operator, operator_snapshot, operator_vault_reward_router,
        operator_vault_reward_receiver] @ map fst remaining_accounts in
      cpi_dispatch R instruction account_infos signers_seeds)"

definition RouteOperatorVaultRewardsCpiBuilder_invoke_signed ::
  "cpi \<Rightarrow> borsh \<Rightarrow> account_info \<Rightarrow>
  account_info option \<Rightarrow> account_info option \<Rightarrow>
  account_info option \<Rightarrow> account_info option \<Rightarrow>
  account_info option \<Rightarrow> account_info option \<Rightarrow> u16 option \<Rightarrow>
  u64 option \<Rightarrow> remaining \<Rightarrow> u8 list list list \<Rightarrow> cpi_result"
  where
  "RouteOperatorVaultRewardsCpiBuilder_invoke_signed R B program epoch_state ncn operator
  operator_snapshot operator_vault_reward_router operator_vault_reward_receiver max_iterations
  epoch remaining_accounts signers_seeds =
     and_then_on (expect max_iterations) (\<lambda>max_iterations.
     and_then_on (expect epoch) (\<lambda>epoch.
     and_then_on (expect epoch_state) (\<lambda>epoch_state.
     and_then_on (expect ncn) (\<lambda>ncn.
     and_then_on (expect operator) (\<lambda>operator.
     and_then_on (expect operator_snapshot) (\<lambda>operator_snapshot.
     and_then_on (expect operator_vault_reward_router) (\<lambda>operator_vault_reward_router.
     and_then_on (expect operator_vault_reward_receiver) (\<lambda>operator_vault_reward_receiver.
     RouteOperatorVaultRewardsCpi_invoke_signed_with_remaining_accounts R B program
       epoch_state ncn operator operator_snapshot operator_vault_reward_router
       operator_vault_reward_receiver max_iterations epoch signers_seeds remaining_accounts))))))))"

subsection \<open>\<open>CloseEpochAccountCpi\<close>\<close>

definition CloseEpochAccountCpi_invoke_signed_with_remaining_accounts ::
  "cpi \<Rightarrow> borsh \<Rightarrow> account_info \<Rightarrow> account_info \<Rightarrow>
  account_info \<Rightarrow> account_info \<Rightarrow> account_info \<Rightarrow>
  account_info \<Rightarrow> account_info \<Rightarrow> account_info \<Rightarrow>
  account_info option \<Rightarrow> account_info option \<Rightarrow> u64 \<Rightarrow>
  u8 list list list \<Rightarrow> remaining \<Rightarrow> cpi_result" where
  "CloseEpochAccountCpi_invoke_signed_with_remaining_accounts R B program epoch_marker
  epoch_state config ncn account_to_close account_payer system_program ncn_fee_wallet
  receiver_to_close epoch signers_seeds remaining_accounts =
     (let accounts =
        [AccountMeta_new (ai_key epoch_marker) False,
         AccountMeta_new (ai_key epoch_state) False,
         AccountMeta_new_readonly (ai_key config) False,
         AccountMeta_new_readonly (ai_key ncn) False,
         AccountMeta_new (ai_key account_to_close) False,
         AccountMeta_new (ai_key account_payer) False,
         AccountMeta_new_readonly (ai_key system_program) False,
         (case ncn_fee_wallet of Some ncn_fee_wallet \<Rightarrow> AccountMeta_new (ai_key ncn_fee_wallet) False
          | None \<Rightarrow> AccountMeta_new_readonly NCN_PROGRAM_ID False),
         (case receiver_to_close of Some receiver_to_close \<Rightarrow> AccountMeta_new (ai_key receiver_to_close) False
          | None \<Rightarrow> AccountMeta_new_readonly NCN_PROGRAM_ID False)] @ map remaining_meta remaining_accounts;
      data = bs_u8 B CloseEpochAccountInstructionData_new @ bs_u64 B epoch;
      instruction = \<lparr>ix_program_id = NCN_PROGRAM_ID, ix_accounts = accounts, ix_data = data\<rparr>;
      account_infos =
        [program, epoch_marker, epoch_state, config, ncn, account_to_close, account_payer,
        system_program] @
         (case ncn_fee_wallet of Some ncn_fee_wallet \<Rightarrow> [ncn_fee_wallet] | None \<Rightarrow> []) @
         (case receiver_to_close of Some receiver_to_close \<Rightarrow> [receiver_to_close] | None \<Rightarrow> []) @ map fst remaining_accounts in
      cpi_dispatch R instruction account_infos signers_seeds)"

definition CloseEpochAccountCpiBuilder_invoke_signed ::
  "cpi \<Rightarrow> borsh \<Rightarrow> account_info \<Rightarrow>
  account_info option \<Rightarrow> account_info option \<Rightarrow>
  account_info option \<Rightarrow> account_info option \<Rightarrow>
  account_info option \<Rightarrow> account_info option \<Rightarrow>
  account_info option \<Rightarrow> account_info option \<Rightarrow>
  account_info option \<Rightarrow> u64 option \<Rightarrow> remaining \<Rightarrow>
  u8 list list list \<Rightarrow> cpi_result" where
  "CloseEpochAccountCpiBuilder_invoke_signed R B program epoch_marker epoch_state config ncn
  account_to_close account_payer system_program ncn_fee_wallet receiver_to_close epoch
  remaining_accounts signers_seeds =
     and_then_on (expect epoch) (\<lambda>epoch.
     and_then_on (expect epoch_marker) (\<lambda>epoch_marker.
     and_then_on (expect epoch_state) (\<lambda>epoch_state.
     and_then_on (expect config) (\<lambda>config.
     and_then_on (expect ncn) (\<lambda>ncn.
     and_then_on (expect account_to_close) (\<lambda>account_to_close.
     and_then_on (expect account_payer) (\<lambda>account_payer.
     and_then_on (expect system_program) (\<lambda>system_program.
     CloseEpochAccountCpi_invoke_signed_with_remaining_accounts R B program
       epoch_marker epoch_state config ncn account_to_close account_payer system_program
       ncn_fee_wallet receiver_to_close epoch signers_seeds remaining_accounts))))))))"

subsection \<open>\<open>DistributeOperatorRewardsCpi\<close>\<close>

definition DistributeOperatorRewardsCpi_invoke_signed_with_remaining_accounts ::
  "cpi \<Rightarrow> borsh \<Rightarrow> account_info \<Rightarrow> account_info \<Rightarrow>
  account_info \<Rightarrow> account_info \<Rightarrow> account_info \<Rightarrow>
  account_info \<Rightarrow> account_info \<Rightarrow> account_info \<Rightarrow>
  account_info \<Rightarrow> u64 \<Rightarrow> u8 list list list \<Rightarrow>
  remaining \<Rightarrow> cpi_result" where
  "DistributeOperatorRewardsCpi_invoke_signed_with_remaining_accounts R B program epoch_state
  config ncn operator operator_snapshot operator_vault_reward_router
  operator_vault_reward_receiver system_program epoch signers_seeds remaining_accounts =
     (let accounts =
        [AccountMeta_new (ai_key epoch_state) False,
         AccountMeta_new_readonly (ai_key config) False,
         AccountMeta_new_readonly (ai_key ncn) False,
         AccountMeta_new (ai_key operator) False,
         AccountMeta_new (ai_key operator_snapshot) False,
         AccountMeta_new (ai_key operator_vault_reward_router) False,
         AccountMeta_new (ai_key operator_vault_reward_receiver) False,
         AccountMeta_new_readonly (ai_key system_program) False] @ map remaining_meta remaining_accounts;
      data = bs_u8 B DistributeOperatorRewardsInstructionData_new @ bs_u64 B epoch;
      instruction = \<lparr>ix_program_id = NCN_PROGRAM_ID, ix_accounts = accounts, ix_data = data\<rparr>;
      account_infos =
        [program, epoch_state, config, ncn, operator, operator_snapshot,
        operator_vault_reward_router, operator_vault_reward_receiver, system_program] @ map fst remaining_accounts in
      cpi_dispatch R instruction account_infos signers_seeds)"

definition DistributeOperatorRewardsCpiBuilder_invoke_signed ::
  "cpi \<Rightarrow> borsh \<Rightarrow> account_info \<Rightarrow>
  account_info option \<Rightarrow> account_info option \<Rightarrow>
  account_info option \<Rightarrow> account_info option \<Rightarrow>
  account_info option \<Rightarrow> account_info option \<Rightarrow>
  account_info option \<Rightarrow> account_info option \<Rightarrow> u64 option \<Rightarrow>
  remaining \<Rightarrow> u8 list list list \<Rightarrow> cpi_result" where
  "DistributeOperatorRewardsCpiBuilder_invoke_signed R B program epoch_state config ncn
  operator operator_snapshot operator_vault_reward_router operator_vault_reward_receiver
  system_program epoch remaining_accounts signers_seeds =
     and_then_on (expect epoch) (\<lambda>epoch.
     and_then_on (expect epoch_state) (\<lambda>epoch_state.
     and_then_on (expect config) (\<lambda>config.
     and_then_on (expect ncn) (\<lambda>ncn.
     and_then_on (expect operator) (\<lambda>operator.
     and_then_on (expect operator_snapshot) (\<lambda>operator_snapshot.
     and_then_on (expect operator_vault_reward_router) (\<lambda>operator_vault_reward_router.
     and_then_on (expect operator_vault_reward_receiver) (\<lambda>operator_vault_reward_receiver.
     and_then_on (expect system_program) (\<lambda>system_program.
     DistributeOperatorRewardsCpi_invoke_signed_with_remaining_accounts R B program
       epoch_state config ncn operator operator_snapshot operator_vault_reward_router
       operator_vault_reward_receiver system_program epoch signers_seeds remaining_accounts)))))))))"

subsection \<open>\<open>DistributeVaultRewardsCpi\<close>\<close>

definition DistributeVaultRewardsCpi_invoke_signed_with_remaining_accounts ::
  "cpi \<Rightarrow> borsh \<Rightarrow> account_info \<Rightarrow> account_info \<Rightarrow>
  account_info \<Rightarrow> account_info \<Rightarrow> account_info \<Rightarrow>
  account_info \<Rightarrow> account_info \<Rightarrow> account_info \<Rightarrow>
  account_info \<Rightarrow> account_info \<Rightarrow> u64 \<Rightarrow>
  u8 list list list \<Rightarrow> remaining \<Rightarrow> cpi_result" where
  "DistributeVaultRewardsCpi_invoke_signed_with_remaining_accounts R B program epoch_state
  config ncn operator vault operator_snapshot operator_vault_reward_router
  operator_vault_reward_receiver system_program epoch signers_seeds remaining_accounts =
     (let accounts =
        [AccountMeta_new (ai_key epoch_state) False,
         AccountMeta_new_readonly (ai_key config) False,
         AccountMeta_new_readonly (ai_key ncn) False,
         AccountMeta_new_readonly (ai_key operator) False,
         AccountMeta_new (ai_key vault) False,
         AccountMeta_new (ai_key operator_snapshot) False,
         AccountMeta_new (ai_key operator_vault_reward_router) False,
         AccountMeta_new (ai_key operator_vault_reward_receiver) False,
         AccountMeta_new_readonly (ai_key system_program) False] @ map remaining_meta remaining_accounts;
      data = bs_u8 B DistributeVaultRewardsInstructionData_new @ bs_u64 B epoch;
      instruction = \<lparr>ix_program_id = NCN_PROGRAM_ID, ix_accounts = accounts, ix_data = data\<rparr>;
      account_infos =
        [program, epoch_state, config, ncn, operator, vault, operator_snapshot,
        operator_vault_reward_router, operator_vault_reward_receiver, system_program] @ map fst remaining_accounts in
      cpi_dispatch R instruction account_infos signers_seeds)"

definition DistributeVaultRewardsCpiBuilder_invoke_signed ::
  "cpi \<Rightarrow> borsh \<Rightarrow> account_info \<Rightarrow>
  account_info option \<Rightarrow> account_info option \<Rightarrow>
  account_info option \<Rightarrow> account_info option \<Rightarrow>
  account_info option \<Rightarrow> account_info option \<Rightarrow>
  account_info option \<Rightarrow> account_info option \<Rightarrow>
  account_info option \<Rightarrow> u64 option \<Rightarrow> remaining \<Rightarrow>
  u8 list list list \<Rightarrow> cpi_result" where
  "DistributeVaultRewardsCpiBuilder_invoke_signed R B program epoch_state config ncn operator
  vault operator_snapshot operator_vault_reward_router operator_vault_reward_receiver
  system_program epoch remaining_accounts signers_seeds =
     and_then_on (expect epoch) (\<lambda>epoch.
     and_then_on (expect epoch_state) (\<lambda>epoch_state.
     and_then_on (expect config) (\<lambda>config.
     and_then_on (expect ncn) (\<lambda>ncn.
     and_then_on (expect operator) (\<lambda>operator.
     and_then_on (expect vault) (\<lambda>vault.
     and_then_on (expect operator_snapshot) (\<lambda>operator_snapshot.
     and_then_on (expect operator_vault_reward_router) (\<lambda>operator_vault_reward_router.
     and_then_on (expect operator_vault_reward_receiver) (\<lambda>operator_vault_reward_receiver.
     and_then_on (expect system_program) (\<lambda>system_program.
     DistributeVaultRewardsCpi_invoke_signed_with_remaining_accounts R B program
       epoch_state config ncn operator vault operator_snapshot operator_vault_reward_router
       operator_vault_reward_receiver system_program epoch signers_seeds remaining_accounts))))))))))"

subsection \<open>\<open>AdminSetParametersCpi\<close>\<close>

definition AdminSetParametersCpi_invoke_signed_with_remaining_accounts ::
  "cpi \<Rightarrow> borsh \<Rightarrow> account_info \<Rightarrow> account_info \<Rightarrow>
  account_info \<Rightarrow> account_info \<Rightarrow> u64 option \<Rightarrow>
  u64 option \<Rightarrow> u64 option \<Rightarrow> u64 option \<Rightarrow>
  u8 list list list \<Rightarrow> remaining \<Rightarrow> cpi_result" where
  "AdminSetParametersCpi_invoke_signed_with_remaining_accounts R B program config ncn
  ncn_admin' starting_valid_epoch' epochs_before_stall' epochs_after_consensus_before_close'
  valid_slots_after_consensus' signers_seeds remaining_accounts =
     (let accounts =
        [AccountMeta_new (ai_key config) False,
         AccountMeta_new_readonly (ai_key ncn) False,
         AccountMeta_new_readonly (ai_key ncn_admin') True] @ map remaining_meta remaining_accounts;
      data = bs_u8 B AdminSetParametersInstructionData_new @ bs_option B (bs_u64 B)
      starting_valid_epoch' @ bs_option B (bs_u64 B) epochs_before_stall' @ bs_option B (bs_u64
      B) epochs_after_consensus_before_close' @ bs_option B (bs_u64 B)
      valid_slots_after_consensus';
      instruction = \<lparr>ix_program_id = NCN_PROGRAM_ID, ix_accounts = accounts, ix_data = data\<rparr>;
      account_infos =
        [program, config, ncn, ncn_admin'] @ map fst remaining_accounts in
      cpi_dispatch R instruction account_infos signers_seeds)"

definition AdminSetParametersCpiBuilder_invoke_signed ::
  "cpi \<Rightarrow> borsh \<Rightarrow> account_info \<Rightarrow>
  account_info option \<Rightarrow> account_info option \<Rightarrow>
  account_info option \<Rightarrow> u64 option \<Rightarrow> u64 option \<Rightarrow>
  u64 option \<Rightarrow> u64 option \<Rightarrow> remaining \<Rightarrow>
  u8 list list list \<Rightarrow> cpi_result" where
  "AdminSetParametersCpiBuilder_invoke_signed R B program config ncn ncn_admin'
  starting_valid_epoch' epochs_before_stall' epochs_after_consensus_before_close'
  valid_slots_after_consensus' remaining_accounts signers_seeds =
     and_then_on (expect config) (\<lambda>config.
     and_then_on (expect ncn) (\<lambda>ncn.
     and_then_on (expect ncn_admin') (\<lambda>ncn_admin'.
     AdminSetParametersCpi_invoke_signed_with_remaining_accounts R B program
       config ncn ncn_admin' starting_valid_epoch' epochs_before_stall'
       epochs_after_consensus_before_close' valid_slots_after_consensus' signers_seeds
       remaining_accounts)))"

subsection \<open>\<open>AdminSetNewAdminCpi\<close>\<close>

definition AdminSetNewAdminCpi_invoke_signed_with_remaining_accounts ::
  "cpi \<Rightarrow> borsh \<Rightarrow> account_info \<Rightarrow> account_info \<Rightarrow>
  account_info \<Rightarrow> account_info \<Rightarrow> account_info \<Rightarrow>
  ConfigAdminRole \<Rightarrow> u8 list list list \<Rightarrow> remaining \<Rightarrow>
  cpi_result" where
  "AdminSetNewAdminCpi_invoke_signed_with_remaining_accounts R B program config ncn ncn_admin'
  new_admin role signers_seeds remaining_accounts =
     (let accounts =
        [AccountMeta_new (ai_key config) False,
         AccountMeta_new_readonly (ai_key ncn) False,
         AccountMeta_new_readonly (ai_key ncn_admin') True,
         AccountMeta_new_readonly (ai_key new_admin) False] @ map remaining_meta remaining_accounts;
      data = bs_u8 B AdminSetNewAdminInstructionData_new @ bs_role B role;
      instruction = \<lparr>ix_program_id = NCN_PROGRAM_ID, ix_accounts = accounts, ix_data = data\<rparr>;
      account_infos =
        [program, config, ncn, ncn_admin', new_admin] @ map fst remaining_accounts in
      cpi_dispatch R instruction account_infos signers_seeds)"

definition AdminSetNewAdminCpiBuilder_invoke_signed ::
  "cpi \<Rightarrow> borsh \<Rightarrow> account_info \<Rightarrow>
  account_info option \<Rightarrow> account_info option \<Rightarrow>
  account_info option \<Rightarrow> account_info option \<Rightarrow>
  ConfigAdminRole option \<Rightarrow> remaining \<Rightarrow> u8 list list list \<Rightarrow>
  cpi_result" where
  "AdminSetNewAdminCpiBuilder_invoke_signed R B program config ncn ncn_admin' new_admin role
  remaining_accounts signers_seeds =
     and_then_on (expect role) (\<lambda>role.
     and_then_on (expect config) (\<lambda>config.
     and_then_on (expect ncn) (\<lambda>ncn.
     and_then_on (expect ncn_admin') (\<lambda>ncn_admin'.
     and_then_on (expect new_admin) (\<lambda>new_admin.
     AdminSetNewAdminCpi_invoke_signed_with_remaining_accounts R B program
       config ncn ncn_admin' new_admin role signers_seeds remaining_accounts)))))"

subsection \<open>\<open>AdminSetTieBreakerCpi\<close>\<close>

definition AdminSetTieBreakerCpi_invoke_signed_with_remaining_accounts ::
  "cpi \<Rightarrow> borsh \<Rightarrow> account_info \<Rightarrow> account_info \<Rightarrow>
  account_info \<Rightarrow> account_info \<Rightarrow> account_info \<Rightarrow>
  account_info \<Rightarrow> u8 \<Rightarrow> u64 \<Rightarrow> u8 list list list \<Rightarrow>
  remaining \<Rightarrow> cpi_result" where
  "AdminSetTieBreakerCpi_invoke_signed_with_remaining_accounts R B program epoch_state config
  ballot_box ncn tie_breaker_admin' weather_status' epoch signers_seeds remaining_accounts =
     (let accounts =
        [AccountMeta_new (ai_key epoch_state) False,
         AccountMeta_new_readonly (ai_key config) False,
         AccountMeta_new (ai_key ballot_box) False,
         AccountMeta_new_readonly (ai_key ncn) False,
         AccountMeta_new_readonly (ai_key tie_breaker_admin') True] @ map remaining_meta remaining_accounts;
      data = bs_u8 B AdminSetTieBreakerInstructionData_new @ bs_u8 B weather_status' @ bs_u64 B
      epoch;
      instruction = \<lparr>ix_program_id = NCN_PROGRAM_ID, ix_accounts = accounts, ix_data = data\<rparr>;
      account_infos =
        [program, epoch_state, config, ballot_box, ncn, tie_breaker_admin'] @ map fst remaining_accounts in
      cpi_dispatch R instruction account_infos signers_seeds)"

definition AdminSetTieBreakerCpiBuilder_invoke_signed ::
  "cpi \<Rightarrow> borsh \<Rightarrow> account_info \<Rightarrow>
  account_info option \<Rightarrow> account_info option \<Rightarrow>
  account_info option \<Rightarrow> account_info option \<Rightarrow>
  account_info option \<Rightarrow> u8 option \<Rightarrow> u64 option \<Rightarrow>
  remaining \<Rightarrow> u8 list list list \<Rightarrow> cpi_result" where
  "AdminSetTieBreakerCpiBuilder_invoke_signed R B program epoch_state config ballot_box ncn
  tie_breaker_admin' weather_status' epoch remaining_accounts signers_seeds =
     and_then_on (expect weather_status') (\<lambda>weather_status'.
     and_then_on (expect epoch) (\<lambda>epoch.
     and_then_on (expect epoch_state) (\<lambda>epoch_state.
     and_then_on (expect config) (\<lambda>config.
     and_then_on (expect ballot_box) (\<lambda>ballot_box.
     and_then_on (expect ncn) (\<lambda>ncn.
     and_then_on (expect tie_breaker_admin') (\<lambda>tie_breaker_admin'.
     AdminSetTieBreakerCpi_invoke_signed_with_remaining_accounts R B program
       epoch_state config ballot_box ncn tie_breaker_admin' weather_status' epoch signers_seeds
       remaining_accounts)))))))"

subsection \<open>\<open>AdminSetWeightCpi\<close>\<close>

definition AdminSetWeightCpi_invoke_signed_with_remaining_accounts ::
  "cpi \<Rightarrow> borsh \<Rightarrow> account_info \<Rightarrow> account_info \<Rightarrow>
  account_info \<Rightarrow> account_info \<Rightarrow> account_info \<Rightarrow>
  pubkey \<Rightarrow> u128 \<Rightarrow> u64 \<Rightarrow> u8 list list list \<Rightarrow>
  remaining \<Rightarrow> cpi_result" where
  "AdminSetWeightCpi_invoke_signed_with_remaining_accounts R B program epoch_state ncn
  weight_table weight_table_admin st_mint weight epoch signers_seeds remaining_accounts =
     (let accounts =
        [AccountMeta_new (ai_key epoch_state) False,
         AccountMeta_new_readonly (ai_key ncn) False,
         AccountMeta_new (ai_key weight_table) False,
         AccountMeta_new_readonly (ai_key weight_table_admin) True] @ map remaining_meta remaining_accounts;
      data = bs_u8 B AdminSetWeightInstructionData_new @ bs_pubkey B st_mint @ bs_u128 B weight
      @ bs_u64 B epoch;
      instruction = \<lparr>ix_program_id = NCN_PROGRAM_ID, ix_accounts = accounts, ix_data = data\<rparr>;
      account_infos =
        [program, epoch_state, ncn, weight_table, weight_table_admin] @ map fst remaining_accounts in
      cpi_dispatch R instruction account_infos signers_seeds)"

definition AdminSetWeightCpiBuilder_invoke_signed ::
  "cpi \<Rightarrow> borsh \<Rightarrow> account_info \<Rightarrow>
  account_info option \<Rightarrow> account_info option \<Rightarrow>
  account_info option \<Rightarrow> account_info option \<Rightarrow> pubkey option \<Rightarrow>
  u128 option \<Rightarrow> u64 option \<Rightarrow> remaining \<Rightarrow>
  u8 list list list \<Rightarrow> cpi_result" where
  "AdminSetWeightCpiBuilder_invoke_signed R B program epoch_state ncn weight_table
  weight_table_admin st_mint weight epoch remaining_accounts signers_seeds =
     and_then_on (expect st_mint) (\<lambda>st_mint.
     and_then_on (expect weight) (\<lambda>weight.
     and_then_on (expect epoch) (\<lambda>epoch.
     and_then_on (expect epoch_state) (\<lambda>epoch_state.
     and_then_on (expect ncn) (\<lambda>ncn.
     and_then_on (expect weight_table) (\<lambda>weight_table.
     and_then_on (expect weight_table_admin) (\<lambda>weight_table_admin.
     AdminSetWeightCpi_invoke_signed_with_remaining_accounts R B program
       epoch_state ncn weight_table weight_table_admin st_mint weight epoch signers_seeds
       remaining_accounts)))))))"

subsection \<open>\<open>AdminRegisterStMintCpi\<close>\<close>

definition AdminRegisterStMintCpi_invoke_signed_with_remaining_accounts ::
  "cpi \<Rightarrow> borsh \<Rightarrow> account_info \<Rightarrow> account_info \<Rightarrow>
  account_info \<Rightarrow> account_info \<Rightarrow> account_info \<Rightarrow>
  account_info \<Rightarrow> u128 option \<Rightarrow> u8 list list list \<Rightarrow>
  remaining \<Rightarrow> cpi_result" where
  "AdminRegisterStMintCpi_invoke_signed_with_remaining_accounts R B program config ncn st_mint
  vault_registry admin weight signers_seeds remaining_accounts =
     (let accounts =
        [AccountMeta_new_readonly (ai_key config) False,
         AccountMeta_new_readonly (ai_key ncn) False,
         AccountMeta_new_readonly (ai_key st_mint) False,
         AccountMeta_new (ai_key vault_registry) False,
         AccountMeta_new (ai_key admin) True] @ map remaining_meta remaining_accounts;
      data = bs_u8 B AdminRegisterStMintInstructionData_new @ bs_option B (bs_u128 B) weight;
      instruction = \<lparr>ix_program_id = NCN_PROGRAM_ID, ix_accounts = accounts, ix_data = data\<rparr>;
      account_infos =
        [program, config, ncn, st_mint, vault_registry, admin] @ map fst remaining_accounts in
      cpi_dispatch R instruction account_infos signers_seeds)"

definition AdminRegisterStMintCpiBuilder_invoke_signed ::
  "cpi \<Rightarrow> borsh \<Rightarrow> account_info \<Rightarrow>
  account_info option \<Rightarrow> account_info option \<Rightarrow>
  account_info option \<Rightarrow> account_info option \<Rightarrow>
  account_info option \<Rightarrow> u128 option \<Rightarrow> remaining \<Rightarrow>
  u8 list list list \<Rightarrow> cpi_result" where
  "AdminRegisterStMintCpiBuilder_invoke_signed R B program config ncn st_mint vault_registry
  admin weight remaining_accounts signers_seeds =
     and_then_on (expect config) (\<lambda>config.
     and_then_on (expect ncn) (\<lambda>ncn.
     and_then_on (expect st_mint) (\<lambda>st_mint.
     and_then_on (expect vault_registry) (\<lambda>vault_registry.
     and_then_on (expect admin) (\<lambda>admin.
     AdminRegisterStMintCpi_invoke_signed_with_remaining_accounts R B program
       config ncn st_mint vault_registry admin weight signers_seeds remaining_accounts)))))"

subsection \<open>\<open>AdminSetStMintCpi\<close>\<close>

definition AdminSetStMintCpi_invoke_signed_with_remaining_accounts ::
  "cpi \<Rightarrow> borsh \<Rightarrow> account_info \<Rightarrow> account_info \<Rightarrow>
  account_info \<Rightarrow> account_info \<Rightarrow> account_info \<Rightarrow>
  pubkey \<Rightarrow> u128 option \<Rightarrow> u8 list list list \<Rightarrow>
  remaining \<Rightarrow> cpi_result" where
  "AdminSetStMintCpi_invoke_signed_with_remaining_accounts R B program config ncn
  vault_registry admin st_mint weight signers_seeds remaining_accounts =
     (let accounts =
        [AccountMeta_new_readonly (ai_key config) False,
         AccountMeta_new_readonly (ai_key ncn) False,
         AccountMeta_new (ai_key vault_registry) False,
         AccountMeta_new (ai_key admin) True] @ map remaining_meta remaining_accounts;
      data = bs_u8 B AdminSetStMintInstructionData_new @ bs_pubkey B st_mint @ bs_option B
      (bs_u128 B) weight;
      instruction = \<lparr>ix_program_id = NCN_PROGRAM_ID, ix_accounts = accounts, ix_data = data\<rparr>;
      account_infos =
        [program, config, ncn, vault_registry, admin] @ map fst remaining_accounts in
      cpi_dispatch R instruction account_infos signers_seeds)"

definition AdminSetStMintCpiBuilder_invoke_signed ::
  "cpi \<Rightarrow> borsh \<Rightarrow> account_info \<Rightarrow>
  account_info option \<Rightarrow> account_info option \<Rightarrow>
  account_info option \<Rightarrow> account_info option \<Rightarrow> pubkey option \<Rightarrow>
  u128 option \<Rightarrow> remaining \<Rightarrow> u8 list list list \<Rightarrow> cpi_result"
  where
  "AdminSetStMintCpiBuilder_invoke_signed R B program config ncn vault_registry admin st_mint
  weight remaining_accounts signers_seeds =
     and_then_on (expect st_mint) (\<lambda>st_mint.
     and_then_on (expect config) (\<lambda>config.
     and_then_on (expect ncn) (\<lambda>ncn.
     and_then_on (expect vault_registry) (\<lambda>vault_registry.
     and_then_on (expect admin) (\<lambda>admin.
     AdminSetStMintCpi_invoke_signed_with_remaining_accounts R B program
       config ncn vault_registry admin st_mint weight signers_seeds remaining_accounts)))))"

section \<open>What is called\<close>

text \<open>
  A builder with all its fields set, beside the instruction the ordinary client builds for the
  keys of the same accounts.
\<close>

inductive cpi_call :: "cpi \<Rightarrow> borsh \<Rightarrow> account_info \<Rightarrow> remaining \<Rightarrow> u8 list list list \<Rightarrow>
  instruction \<Rightarrow> cpi_result \<Rightarrow> bool" for R B program remaining_accounts signers_seeds where
  cpi_InitializeConfig:
    "cpi_call R B program remaining_accounts signers_seeds
       (InitializeConfig_instruction_with_remaining_accounts B (ai_key k0) (ai_key k1)
       (ai_key k2) (ai_key k3) (ai_key k4) (ai_key k5) (ai_key k6) x0 x1 x2 x3 (map
       remaining_meta remaining_accounts))
       (InitializeConfigCpiBuilder_invoke_signed R B program (Some k0) (Some k1) (Some k2)
       (Some k3) (Some k4) (Some k5) (Some k6) (Some x0) (Some x1) (Some x2) (Some x3)
       remaining_accounts signers_seeds)"
| cpi_InitializeVaultRegistry:
    "cpi_call R B program remaining_accounts signers_seeds
       (InitializeVaultRegistry_instruction_with_remaining_accounts B (ai_key k0) (ai_key k1)
       (ai_key k2) (ai_key k3) (ai_key k4) (map remaining_meta remaining_accounts))
       (InitializeVaultRegistryCpiBuilder_invoke_signed R B program (Some k0) (Some k1)
       (Some k2) (Some k3) (Some k4) remaining_accounts signers_seeds)"
| cpi_ReallocVaultRegistry:
    "cpi_call R B program remaining_accounts signers_seeds
       (ReallocVaultRegistry_instruction_with_remaining_accounts B (ai_key k0) (ai_key k1)
       (ai_key k2) (ai_key k3) (ai_key k4) (map remaining_meta remaining_accounts))
       (ReallocVaultRegistryCpiBuilder_invoke_signed R B program (Some k0) (Some k1) (Some k2)
       (Some k3) (Some k4) remaining_accounts signers_seeds)"
| cpi_RegisterVault:
    "cpi_call R B program remaining_accounts signers_seeds
       (RegisterVault_instruction_with_remaining_accounts B (ai_key k0) (ai_key k1) (ai_key k2)
       (ai_key k3) (ai_key k4) (map remaining_meta remaining_accounts))
       (RegisterVaultCpiBuilder_invoke_signed R B program (Some k0) (Some k1) (Some k2)
       (Some k3) (Some k4) remaining_accounts signers_seeds)"
| cpi_InitializeEpochState:
    "cpi_call R B program remaining_accounts signers_seeds
       (InitializeEpochState_instruction_with_remaining_accounts B (ai_key k0) (ai_key k1)
       (ai_key k2) (ai_key k3) (ai_key k4) (ai_key k5) x0 (map remaining_meta
       remaining_accounts))
       (InitializeEpochStateCpiBuilder_invoke_signed R B program (Some k0) (Some k1) (Some k2)
       (Some k3) (Some k4) (Some k5) (Some x0) remaining_accounts signers_seeds)"
| cpi_InitializeWeightTable:
    "cpi_call R B program remaining_accounts signers_seeds
       (InitializeWeightTable_instruction_with_remaining_accounts B (ai_key k0) (ai_key k1)
       (ai_key k2) (ai_key k3) (ai_key k4) (ai_key k5) (ai_key k6) x0 (map remaining_meta
       remaining_accounts))
       (InitializeWeightTableCpiBuilder_invoke_signed R B program (Some k0) (Some k1) (Some k2)
       (Some k3) (Some k4) (Some k5) (Some k6) (Some x0) remaining_accounts signers_seeds)"
| cpi_SetEpochWeights:
    "cpi_call R B program remaining_accounts signers_seeds
       (SetEpochWeights_instruction_with_remaining_accounts B (ai_key k0) (ai_key k1)
       (ai_key k2) (ai_key k3) x0 (map remaining_meta remaining_accounts))
       (SetEpochWeightsCpiBuilder_invoke_signed R B program (Some k0) (Some k1) (Some k2)
       (Some k3) (Some x0) remaining_accounts signers_seeds)"
| cpi_ReallocWeightTable:
    "cpi_call R B program remaining_accounts signers_seeds
       (ReallocWeightTable_instruction_with_remaining_accounts B (ai_key k0) (ai_key k1)
       (ai_key k2) (ai_key k3) (ai_key k4) (ai_key k5) (ai_key k6) x0 (map remaining_meta
       remaining_accounts))
       (ReallocWeightTableCpiBuilder_invoke_signed R B program (Some k0) (Some k1) (Some k2)
       (Some k3) (Some k4) (Some k5) (Some k6) (Some x0) remaining_accounts signers_seeds)"
| cpi_InitializeEpochSnapshot:
    "cpi_call R B program remaining_accounts signers_seeds
       (InitializeEpochSnapshot_instruction_with_remaining_accounts B (ai_key k0) (ai_key k1)
       (ai_key k2) (ai_key k3) (ai_key k4) (ai_key k5) (ai_key k6) (ai_key k7) x0 (map
       remaining_meta remaining_accounts))
       (InitializeEpochSnapshotCpiBuilder_invoke_signed R B program (Some k0) (Some k1)
       (Some k2) (Some k3) (Some k4) (Some k5) (Some k6) (Some k7) (Some x0) remaining_accounts
       signers_seeds)"
| cpi_InitializeOperatorSnapshot:
    "cpi_call R B program remaining_accounts signers_seeds
       (InitializeOperatorSnapshot_instruction_with_remaining_accounts B (ai_key k0)
       (ai_key k1) (ai_key k2) (ai_key k3) (ai_key k4) (ai_key k5) (ai_key k6) (ai_key k7)
       (ai_key k8) (ai_key k9) (ai_key k10) x0 (map remaining_meta remaining_accounts))
       (InitializeOperatorSnapshotCpiBuilder_invoke_signed R B program (Some k0) (Some k1)
       (Some k2) (Some k3) (Some k4) (Some k5) (Some k6) (Some k7) (Some k8) (Some k9)
       (Some k10) (Some x0) remaining_accounts signers_seeds)"
| cpi_SnapshotVaultOperatorDelegation:
    "cpi_call R B program remaining_accounts signers_seeds
       (SnapshotVaultOperatorDelegation_instruction_with_remaining_accounts B (ai_key k0)
       (ai_key k1) (ai_key k2) (ai_key k3) (ai_key k4) (ai_key k5) (ai_key k6) (ai_key k7)
       (ai_key k8) (ai_key k9) (ai_key k10) (ai_key k11) x0 (map remaining_meta
       remaining_accounts))
       (SnapshotVaultOperatorDelegationCpiBuilder_invoke_signed R B program (Some k0) (Some k1)
       (Some k2) (Some k3) (Some k4) (Some k5) (Some k6) (Some k7) (Some k8) (Some k9)
       (Some k10) (Some k11) (Some x0) remaining_accounts signers_seeds)"
| cpi_InitializeBallotBox:
    "cpi_call R B program remaining_accounts signers_seeds
       (InitializeBallotBox_instruction_with_remaining_accounts B (ai_key k0) (ai_key k1)
       (ai_key k2) (ai_key k3) (ai_key k4) (ai_key k5) (ai_key k6) (ai_key k7) x0 (map
       remaining_meta remaining_accounts))
       (InitializeBallotBoxCpiBuilder_invoke_signed R B program (Some k0) (Some k1) (Some k2)
       (Some k3) (Some k4) (Some k5) (Some k6) (Some k7) (Some x0) remaining_accounts
       signers_seeds)"
| cpi_ReallocBallotBox:
    "cpi_call R B program remaining_accounts signers_seeds
       (ReallocBallotBox_instruction_with_remaining_accounts B (ai_key k0) (ai_key k1)
       (ai_key k2) (ai_key k3) (ai_key k4) (ai_key k5) x0 (map remaining_meta
       remaining_accounts))
       (ReallocBallotBoxCpiBuilder_invoke_signed R B program (Some k0) (Some k1) (Some k2)
       (Some k3) (Some k4) (Some k5) (Some x0) remaining_accounts signers_seeds)"
| cpi_CastVote:
    "cpi_call R B program remaining_accounts signers_seeds
       (CastVote_instruction_with_remaining_accounts B (ai_key k0) (ai_key k1) (ai_key k2)
       (ai_key k3) (ai_key k4) (ai_key k5) (ai_key k6) (ai_key k7) (ai_key k8) x0 x1 (map
       remaining_meta remaining_accounts))
       (CastVoteCpiBuilder_invoke_signed R B program (Some k0) (Some k1) (Some k2) (Some k3)
       (Some k4) (Some k5) (Some k6) (Some k7) (Some k8) (Some x0) (Some x1) remaining_accounts
       signers_seeds)"
| cpi_InitializeNCNRewardRouter:
    "cpi_call R B program remaining_accounts signers_seeds
       (InitializeNCNRewardRouter_instruction_with_remaining_accounts B (ai_key k0) (ai_key k1)
       (ai_key k2) (ai_key k3) (ai_key k4) (ai_key k5) (ai_key k6) x0 (map remaining_meta
       remaining_accounts))
       (InitializeNCNRewardRouterCpiBuilder_invoke_signed R B program (Some k0) (Some k1)
       (Some k2) (Some k3) (Some k4) (Some k5) (Some k6) (Some x0) remaining_accounts
       signers_seeds)"
| cpi_ReallocNCNRewardRouter:
    "cpi_call R B program remaining_accounts signers_seeds
       (ReallocNCNRewardRouter_instruction_with_remaining_accounts B (ai_key k0) (ai_key k1)
       (ai_key k2) (ai_key k3) (ai_key k4) (ai_key k5) x0 (map remaining_meta
       remaining_accounts))
       (ReallocNCNRewardRouterCpiBuilder_invoke_signed R B program (Some k0) (Some k1)
       (Some k2) (Some k3) (Some k4) (Some k5) (Some x0) remaining_accounts signers_seeds)"
| cpi_RouteNCNRewards:
    "cpi_call R B program remaining_accounts signers_seeds
       (RouteNCNRewards_instruction_with_remaining_accounts B (ai_key k0) (ai_key k1)
       (ai_key k2) (ai_key k3) (ai_key k4) (ai_key k5) (ai_key k6) x0 x1 (map remaining_meta
       remaining_accounts))
       (RouteNCNRewardsCpiBuilder_invoke_signed R B program (Some k0) (Some k1) (Some k2)
       (Some k3) (Some k4) (Some k5) (Some k6) (Some x0) (Some x1) remaining_accounts
       signers_seeds)"
| cpi_DistributeProtocolRewards:
    "cpi_call R B program remaining_accounts signers_seeds
       (DistributeProtocolRewards_instruction_with_remaining_accounts B (ai_key k0) (ai_key k1)
       (ai_key k2) (ai_key k3) (ai_key k4) (ai_key k5) (ai_key k6) x0 (map remaining_meta
       remaining_accounts))
       (DistributeProtocolRewardsCpiBuilder_invoke_signed R B program (Some k0) (Some k1)
       (Some k2) (Some k3) (Some k4) (Some k5) (Some k6) (Some x0) remaining_accounts
       signers_seeds)"
| cpi_DistributeNCNRewards:
    "cpi_call R B program remaining_accounts signers_seeds
       (DistributeNCNRewards_instruction_with_remaining_accounts B (ai_key k0) (ai_key k1)
       (ai_key k2) (ai_key k3) (ai_key k4) (ai_key k5) (ai_key k6) x0 (map remaining_meta
       remaining_accounts))
       (DistributeNCNRewardsCpiBuilder_invoke_signed R B program (Some k0) (Some k1) (Some k2)
       (Some k3) (Some k4) (Some k5) (Some k6) (Some x0) remaining_accounts signers_seeds)"
| cpi_InitializeOperatorVaultRewardRouter:
    "cpi_call R B program remaining_accounts signers_seeds
       (InitializeOperatorVaultRewardRouter_instruction_with_remaining_accounts B (ai_key k0)
       (ai_key k1) (ai_key k2) (ai_key k3) (ai_key k4) (ai_key k5) (ai_key k6) (ai_key k7)
       (ai_key k8) x0 (map remaining_meta remaining_accounts))
       (InitializeOperatorVaultRewardRouterCpiBuilder_invoke_signed R B program (Some k0)
       (Some k1) (Some k2) (Some k3) (Some k4) (Some k5) (Some k6) (Some k7) (Some k8)
       (Some x0) remaining_accounts signers_seeds)"
| cpi_DistributeOperatorVaultRewardRoute:
    "cpi_call R B program remaining_accounts signers_seeds
       (DistributeOperatorVaultRewardRoute_instruction_with_remaining_accounts B (ai_key k0)
       (ai_key k1) (ai_key k2) (ai_key k3) (ai_key k4) (ai_key k5) (ai_key k6) (ai_key k7)
       (ai_key k8) x0 (map remaining_meta remaining_accounts))
       (DistributeOperatorVaultRewardRouteCpiBuilder_invoke_signed R B program (Some k0)
       (Some k1) (Some k2) (Some k3) (Some k4) (Some k5) (Some k6) (Some k7) (Some k8)
       (Some x0) remaining_accounts signers_seeds)"
| cpi_RouteOperatorVaultRewards:
    "cpi_call R B program remaining_accounts signers_seeds
       (RouteOperatorVaultRewards_instruction_with_remaining_accounts B (ai_key k0) (ai_key k1)
       (ai_key k2) (ai_key k3) (ai_key k4) (ai_key k5) x0 x1 (map remaining_meta
       remaining_accounts))
       (RouteOperatorVaultRewardsCpiBuilder_invoke_signed R B program (Some k0) (Some k1)
       (Some k2) (Some k3) (Some k4) (Some k5) (Some x0) (Some x1) remaining_accounts
       signers_seeds)"
| cpi_CloseEpochAccount:
    "cpi_call R B program remaining_accounts signers_seeds
       (CloseEpochAccount_instruction_with_remaining_accounts B (ai_key k0) (ai_key k1)
       (ai_key k2) (ai_key k3) (ai_key k4) (ai_key k5) (ai_key k6) (map_option ai_key k7)
       (map_option ai_key k8) x0 (map remaining_meta remaining_accounts))
       (CloseEpochAccountCpiBuilder_invoke_signed R B program (Some k0) (Some k1) (Some k2)
       (Some k3) (Some k4) (Some k5) (Some k6) k7 k8 (Some x0) remaining_accounts
       signers_seeds)"
| cpi_DistributeOperatorRewards:
    "cpi_call R B program remaining_accounts signers_seeds
       (DistributeOperatorRewards_instruction_with_remaining_accounts B (ai_key k0) (ai_key k1)
       (ai_key k2) (ai_key k3) (ai_key k4) (ai_key k5) (ai_key k6) (ai_key k7) x0 (map
       remaining_meta remaining_accounts))
       (DistributeOperatorRewardsCpiBuilder_invoke_signed R B program (Some k0) (Some k1)
       (Some k2) (Some k3) (Some k4) (Some k5) (Some k6) (Some k7) (Some x0) remaining_accounts
       signers_seeds)"
| cpi_DistributeVaultRewards:
    "cpi_call R B program remaining_accounts signers_seeds
       (DistributeVaultRewards_instruction_with_remaining_accounts B (ai_key k0) (ai_key k1)
       (ai_key k2) (ai_key k3) (ai_key k4) (ai_key k5) (ai_key k6) (ai_key k7) (ai_key k8) x0
       (map remaining_meta remaining_accounts))
       (DistributeVaultRewardsCpiBuilder_invoke_signed R B program (Some k0) (Some k1)
       (Some k2) (Some k3) (Some k4) (Some k5) (Some k6) (Some k7) (Some k8) (Some x0)
       remaining_accounts signers_seeds)"
| cpi_AdminSetParameters:
    "cpi_call R B program remaining_accounts signers_seeds
       (AdminSetParameters_instruction_with_remaining_accounts B (ai_key k0) (ai_key k1)
       (ai_key k2) x0 x1 x2 x3 (map remaining_meta remaining_accounts))
       (AdminSetParametersCpiBuilder_invoke_signed R B program (Some k0) (Some k1) (Some k2) x0
       x1 x2 x3 remaining_accounts signers_seeds)"
| cpi_AdminSetNewAdmin:
    "cpi_call R B program remaining_accounts signers_seeds
       (AdminSetNewAdmin_instruction_with_remaining_accounts B (ai_key k0) (ai_key k1)
       (ai_key k2) (ai_key k3) x0 (map remaining_meta remaining_accounts))
       (AdminSetNewAdminCpiBuilder_invoke_signed R B program (Some k0) (Some k1) (Some k2)
       (Some k3) (Some x0) remaining_accounts signers_seeds)"
| cpi_AdminSetTieBreaker:
    "cpi_call R B program remaining_accounts signers_seeds
       (AdminSetTieBreaker_instruction_with_remaining_accounts B (ai_key k0) (ai_key k1)
       (ai_key k2) (ai_key k3) (ai_key k4) x0 x1 (map remaining_meta remaining_accounts))
       (AdminSetTieBreakerCpiBuilder_invoke_signed R B program (Some k0) (Some k1) (Some k2)
       (Some k3) (Some k4) (Some x0) (Some x1) remaining_accounts signers_seeds)"
| cpi_AdminSetWeight:
    "cpi_call R B program remaining_accounts signers_seeds
       (AdminSetWeight_instruction_with_remaining_accounts B (ai_key k0) (ai_key k1)
       (ai_key k2) (ai_key k3) x0 x1 x2 (map remaining_meta remaining_accounts))
       (AdminSetWeightCpiBuilder_invoke_signed R B program (Some k0) (Some k1) (Some k2)
       (Some k3) (Some x0) (Some x1) (Some x2) remaining_accounts signers_seeds)"
| cpi_AdminRegisterStMint:
    "cpi_call R B program remaining_accounts signers_seeds
       (AdminRegisterStMint_instruction_with_remaining_accounts B (ai_key k0) (ai_key k1)
       (ai_key k2) (ai_key k3) (ai_key k4) x0 (map remaining_meta remaining_accounts))
       (AdminRegisterStMintCpiBuilder_invoke_signed R B program (Some k0) (Some k1) (Some k2)
       (Some k3) (Some k4) x0 remaining_accounts signers_seeds)"
| cpi_AdminSetStMint:
    "cpi_call R B program remaining_accounts signers_seeds
       (AdminSetStMint_instruction_with_remaining_accounts B (ai_key k0) (ai_key k1)
       (ai_key k2) (ai_key k3) x0 x1 (map remaining_meta remaining_accounts))
       (AdminSetStMintCpiBuilder_invoke_signed R B program (Some k0) (Some k1) (Some k2)
       (Some k3) (Some x0) x1 remaining_accounts signers_seeds)"

lemmas cpi_defs =
  InitializeConfigCpiBuilder_invoke_signed_def InitializeConfigCpi_invoke_signed_with_remaining_accounts_def
  InitializeVaultRegistryCpiBuilder_invoke_signed_def InitializeVaultRegistryCpi_invoke_signed_with_remaining_accounts_def
  ReallocVaultRegistryCpiBuilder_invoke_signed_def ReallocVaultRegistryCpi_invoke_signed_with_remaining_accounts_def
  RegisterVaultCpiBuilder_invoke_signed_def RegisterVaultCpi_invoke_signed_with_remaining_accounts_def
  InitializeEpochStateCpiBuilder_invoke_signed_def InitializeEpochStateCpi_invoke_signed_with_remaining_accounts_def
  InitializeWeightTableCpiBuilder_invoke_signed_def InitializeWeightTableCpi_invoke_signed_with_remaining_accounts_def
  SetEpochWeightsCpiBuilder_invoke_signed_def SetEpochWeightsCpi_invoke_signed_with_remaining_accounts_def
  ReallocWeightTableCpiBuilder_invoke_signed_def ReallocWeightTableCpi_invoke_signed_with_remaining_accounts_def
  InitializeEpochSnapshotCpiBuilder_invoke_signed_def InitializeEpochSnapshotCpi_invoke_signed_with_remaining_accounts_def
  InitializeOperatorSnapshotCpiBuilder_invoke_signed_def InitializeOperatorSnapshotCpi_invoke_signed_with_remaining_accounts_def
  SnapshotVaultOperatorDelegationCpiBuilder_invoke_signed_def SnapshotVaultOperatorDelegationCpi_invoke_signed_with_remaining_accounts_def
  InitializeBallotBoxCpiBuilder_invoke_signed_def InitializeBallotBoxCpi_invoke_signed_with_remaining_accounts_def
  ReallocBallotBoxCpiBuilder_invoke_signed_def ReallocBallotBoxCpi_invoke_signed_with_remaining_accounts_def
  CastVoteCpiBuilder_invoke_signed_def CastVoteCpi_invoke_signed_with_remaining_accounts_def
  InitializeNCNRewardRouterCpiBuilder_invoke_signed_def InitializeNCNRewardRouterCpi_invoke_signed_with_remaining_accounts_def
  ReallocNCNRewardRouterCpiBuilder_invoke_signed_def ReallocNCNRewardRouterCpi_invoke_signed_with_remaining_accounts_def
  RouteNCNRewardsCpiBuilder_invoke_signed_def RouteNCNRewardsCpi_invoke_signed_with_remaining_accounts_def
  DistributeProtocolRewardsCpiBuilder_invoke_signed_def DistributeProtocolRewardsCpi_invoke_signed_with_remaining_accounts_def
  DistributeNCNRewardsCpiBuilder_invoke_signed_def DistributeNCNRewardsCpi_invoke_signed_with_remaining_accounts_def
  InitializeOperatorVaultRewardRouterCpiBuilder_invoke_signed_def InitializeOperatorVaultRewardRouterCpi_invoke_signed_with_remaining_accounts_def
  DistributeOperatorVaultRewardRouteCpiBuilder_invoke_signed_def DistributeOperatorVaultRewardRouteCpi_invoke_signed_with_remaining_accounts_def
  RouteOperatorVaultRewardsCpiBuilder_invoke_signed_def RouteOperatorVaultRewardsCpi_invoke_signed_with_remaining_accounts_def
  CloseEpochAccountCpiBuilder_invoke_signed_def CloseEpochAccountCpi_invoke_signed_with_remaining_accounts_def
  DistributeOperatorRewardsCpiBuilder_invoke_signed_def DistributeOperatorRewardsCpi_invoke_signed_with_remaining_accounts_def
  DistributeVaultRewardsCpiBuilder_invoke_signed_def DistributeVaultRewardsCpi_invoke_signed_with_remaining_accounts_def
  AdminSetParametersCpiBuilder_invoke_signed_def AdminSetParametersCpi_invoke_signed_with_remaining_accounts_def
  AdminSetNewAdminCpiBuilder_invoke_signed_def AdminSetNewAdminCpi_invoke_signed_with_remaining_accounts_def
  AdminSetTieBreakerCpiBuilder_invoke_signed_def AdminSetTieBreakerCpi_invoke_signed_with_remaining_accounts_def
  AdminSetWeightCpiBuilder_invoke_signed_def AdminSetWeightCpi_invoke_signed_with_remaining_accounts_def
  AdminRegisterStMintCpiBuilder_invoke_signed_def AdminRegisterStMintCpi_invoke_signed_with_remaining_accounts_def
  AdminSetStMintCpiBuilder_invoke_signed_def AdminSetStMintCpi_invoke_signed_with_remaining_accounts_def

lemma cpi_dispatches:
  assumes "cpi_call R B program remaining_accounts signers_seeds ix call"
  shows "\<exists>infos. call = cpi_dispatch R ix infos signers_seeds \<and> program \<in> set infos \<and>
    (\<forall>m \<in> set (ix_accounts ix). am_pubkey m \<in> insert NCN_PROGRAM_ID (ai_key ` set infos))"
  using assms
  by (cases rule: cpi_call.cases)
    (simp_all only: cpi_defs client_metas expect_simps and_then_on_Ok Let_def case_map_option o_def,
     (rule exI, rule conjI, rule refl,
      force simp: AccountMeta_new_def AccountMeta_new_readonly_def remaining_meta_def split: option.splits)+)

lemma cpi_remaining:
  assumes "cpi_call R B program remaining_accounts signers_seeds ix call"
  shows "\<exists>metas. ix_accounts ix = metas @ map remaining_meta remaining_accounts"
  using assms by (cases rule: cpi_call.cases) (simp_all only: client_metas instruction.simps, blast+)

section \<open>Properties\<close>

text \<open>
  C39: a call through a builder of the generated client invokes exactly the instruction the
  ordinary builder makes of the keys of the same accounts, and hands the runtime the program and
  the info of every account the instruction names.
\<close>

theorem cpi_invokes_client_instruction:
  assumes "cpi_call R B program remaining_accounts signers_seeds ix call" and "ai_key program = NCN_PROGRAM_ID"
  shows "\<exists>infos. call = cpi_dispatch R ix infos signers_seeds \<and> program \<in> set infos \<and>
    am_pubkey ` set (ix_accounts ix) \<subseteq> ai_key ` set infos"
proof -
  from cpi_dispatches [OF assms(1)] obtain infos where
    i: "call = cpi_dispatch R ix infos signers_seeds" "program \<in> set infos"
      "\<forall>m \<in> set (ix_accounts ix). am_pubkey m \<in> insert NCN_PROGRAM_ID (ai_key ` set infos)"
    by blast
  moreover have "NCN_PROGRAM_ID \<in> ai_key ` set infos" using i(2) assms(2) by force
  ultimately show ?thesis by (intro exI [of _ infos]) auto
qed

text \<open>A runtime that checks the infos and, with error 1, the signers it is given, and an example call.\<close>

definition guarded_cpi :: cpi where
  "guarded_cpi =
     \<lparr>cpi_invoke = (\<lambda>ix infos L.
        if \<not> list_all (\<lambda>m. am_pubkey m \<in> ai_key ` set infos) (ix_accounts ix) then Err NotEnoughAccountKeys
        else if \<not> list_all (\<lambda>m. am_is_signer m \<longrightarrow>
            list_ex (\<lambda>a. ai_key a = am_pubkey m \<and> ai_is_signer a) infos) (ix_accounts ix)
        then Err (ExternalError 1) else Ok L),
      cpi_invoke_signed = (\<lambda>_ _ _ L. Ok L)\<rparr>"

definition info0 :: "pubkey \<Rightarrow> account_info" where
  "info0 k = \<lparr>ai_key = k, ai_is_signer = False, ai_is_writable = True\<rparr>"

definition no_ledger :: ledger where
  "no_ledger k = \<lparr>lamports = 0, acc_owner = 0, acc_data = Zeroed 0\<rparr>"

definition realloc_call :: "remaining \<Rightarrow> cpi_result" where
  "realloc_call rem = ReallocVaultRegistryCpiBuilder_invoke_signed guarded_cpi le_borsh (info0 NCN_PROGRAM_ID)
     (Some (info0 1)) (Some (info0 2)) (Some (info0 3)) (Some (info0 4)) (Some (info0 0)) rem []"

definition realloc_ix :: "remaining \<Rightarrow> instruction" where
  "realloc_ix rem = ReallocVaultRegistry_instruction_with_remaining_accounts le_borsh 1 2 3 4 0
     (map remaining_meta rem)"

lemma realloc_cpi_call:
  "cpi_call guarded_cpi le_borsh (info0 NCN_PROGRAM_ID) rem [] (realloc_ix rem) (realloc_call rem)"
  using cpi_ReallocVaultRegistry [of guarded_cpi le_borsh "info0 NCN_PROGRAM_ID" rem "[]"
      "info0 1" "info0 2" "info0 3" "info0 4" "info0 0"]
  by (simp add: realloc_call_def realloc_ix_def info0_def)

theorem cpi_invokes_client_instruction_witness:
  "realloc_call [] no_ledger = Ok no_ledger"
proof -
  obtain infos where "realloc_call [] = cpi_dispatch guarded_cpi (realloc_ix []) infos []"
    "am_pubkey ` set (ix_accounts (realloc_ix [])) \<subseteq> ai_key ` set infos"
    using cpi_invokes_client_instruction [OF realloc_cpi_call] by (force simp: info0_def)
  moreover have "list_all (\<lambda>m. \<not> am_is_signer m) (ix_accounts (realloc_ix []))"
    by (simp add: realloc_ix_def client_metas AccountMeta_new_def AccountMeta_new_readonly_def)
  ultimately show ?thesis by (auto simp: cpi_dispatch_def guarded_cpi_def list_all_iff)
qed

text \<open>
  C40: the builders for calls by other programs swap the flags of additional accounts:
  \<open>add_remaining_account\<close> stores \<open>is_writable\<close> first, as its documentation says, but the first
  flag becomes \<open>is_signer\<close> of the meta.
\<close>

theorem cpi_swaps_remaining_flags:
  assumes "cpi_call R B program (add_remaining_account remaining_accounts a is_writable is_signer) signers_seeds ix call"
  shows "(\<exists>infos. call = cpi_dispatch R ix infos signers_seeds) \<and>
    last (ix_accounts ix) = \<lparr>am_pubkey = ai_key a, am_is_signer = is_writable, am_is_writable = is_signer\<rparr>"
  using cpi_dispatches [OF assms] cpi_remaining [OF assms]
  by (auto simp: add_remaining_account_def remaining_meta_def)

theorem cpi_swaps_remaining_flags_witness:
  "last (ix_accounts (realloc_ix (add_remaining_account [] (info0 7) True False))) =
     \<lparr>am_pubkey = 7, am_is_signer = True, am_is_writable = False\<rparr> \<and>
   realloc_call (add_remaining_account [] (info0 7) True False) no_ledger = Err (ExternalError 1)"
proof
  show "last (ix_accounts (realloc_ix (add_remaining_account [] (info0 7) True False))) =
      \<lparr>am_pubkey = 7, am_is_signer = True, am_is_writable = False\<rparr>"
    using cpi_swaps_remaining_flags [OF realloc_cpi_call] by (simp add: info0_def)
  show "realloc_call (add_remaining_account [] (info0 7) True False) no_ledger = Err (ExternalError 1)"
    by (simp add: realloc_call_def cpi_defs cpi_dispatch_def guarded_cpi_def info0_def add_remaining_account_def
      remaining_meta_def AccountMeta_new_def AccountMeta_new_readonly_def)
qed

end
