(* ===== verification/Client_Errors.thy ===== *)
theory Client_Errors
  imports Ncn_Errors
begin

text \<open>
  The errors of the generated client, \<open>clients/rust/ncn_program/src/generated/errors/ncn_program.rs\<close>:
  an enum of its own with its own codes.  Its variants are the ones of the program's enum; the
  codes and the decoding a client does with them are stated from the client.
\<close>

primrec client_error_code :: "ncn_error \<Rightarrow> u32" where
  "client_error_code NoValidBallots = 0x0"
| "client_error_code DenominatorIsZero = 0x2100"
| "client_error_code ArithmeticOverflow = 0x2101"
| "client_error_code ArithmeticUnderflowError = 0x2102"
| "client_error_code ArithmeticFloorError = 0x2103"
| "client_error_code ModuloOverflow = 0x2104"
| "client_error_code NewPreciseNumberError = 0x2105"
| "client_error_code CastToImpreciseNumberError = 0x2106"
| "client_error_code CastToU64Error = 0x2107"
| "client_error_code CastToU128Error = 0x2108"
| "client_error_code IncorrectWeightTableAdmin = 0x2200"
| "client_error_code DuplicateMintsInTable = 0x2201"
| "client_error_code NoMintsInTable = 0x2202"
| "client_error_code TableNotInitialized = 0x2203"
| "client_error_code RegistryNotInitialized = 0x2204"
| "client_error_code NoVaultsInRegistry = 0x2205"
| "client_error_code VaultNotInRegistry = 0x2206"
| "client_error_code MintInTable = 0x2207"
| "client_error_code TooManyMintsForTable = 0x2208"
| "client_error_code TooManyVaultsForRegistry = 0x2209"
| "client_error_code WeightTableAlreadyInitialized = 0x220A"
| "client_error_code CannotCreateFutureWeightTables = 0x220B"
| "client_error_code WeightMintsDoNotMatchLength = 0x220C"
| "client_error_code WeightMintsDoNotMatchMintHash = 0x220D"
| "client_error_code InvalidMintForWeightTable = 0x220E"
| "client_error_code ConfigMintsNotUpdated = 0x220F"
| "client_error_code ConfigMintListFull = 0x2210"
| "client_error_code VaultRegistryListFull = 0x2211"
| "client_error_code VaultRegistryVaultLocked = 0x2212"
| "client_error_code VaultIndexAlreadyInUse = 0x2213"
| "client_error_code MintEntryNotFound = 0x2214"
| "client_error_code FeeCapExceeded = 0x2215"
| "client_error_code TotalFeesCannotBeZero = 0x2216"
| "client_error_code DefaultProtocolWallet = 0x2217"
| "client_error_code DefaultNcnWallet = 0x2218"
| "client_error_code IncorrectNcnAdmin = 0x2219"
| "client_error_code IncorrectNcn = 0x221A"
| "client_error_code IncorrectFeeAdmin = 0x221B"
| "client_error_code WeightTableNotFinalized = 0x221C"
| "client_error_code WeightNotFound = 0x221D"
| "client_error_code NoOperators = 0x221E"
| "client_error_code VaultOperatorDelegationFinalized = 0x221F"
| "client_error_code OperatorFinalized = 0x2220"
| "client_error_code TooManyVaultOperatorDelegations = 0x2221"
| "client_error_code DuplicateVaultOperatorDelegation = 0x2222"
| "client_error_code DuplicateVoteCast = 0x2223"
| "client_error_code CannotVoteWithZeroStake = 0x2224"
| "client_error_code OperatorAlreadyVoted = 0x2225"
| "client_error_code OperatorVotesFull = 0x2226"
| "client_error_code BallotTallyFull = 0x2227"
| "client_error_code BallotTallyNotFoundFull = 0x2228"
| "client_error_code BallotTallyNotEmpty = 0x2229"
| "client_error_code ConsensusAlreadyReached = 0x222A"
| "client_error_code ConsensusNotReached = 0x222B"
| "client_error_code EpochSnapshotNotFinalized = 0x222C"
| "client_error_code VotingNotValid = 0x222D"
| "client_error_code TieBreakerAdminInvalid = 0x222E"
| "client_error_code VotingNotFinalized = 0x222F"
| "client_error_code TieBreakerNotInPriorVotes = 0x2230"
| "client_error_code InvalidMerkleProof = 0x2231"
| "client_error_code InvalidOperatorVoter = 0x2232"
| "client_error_code InvalidNcnFeeGroup = 0x2233"
| "client_error_code InvalidBaseFeeGroup = 0x2234"
| "client_error_code OperatorRewardListFull = 0x2235"
| "client_error_code OperatorRewardNotFound = 0x2236"
| "client_error_code VaultRewardNotFound = 0x2237"
| "client_error_code DestinationMismatch = 0x2238"
| "client_error_code NcnRewardRouteNotFound = 0x2239"
| "client_error_code FeeNotActive = 0x223A"
| "client_error_code NoRewards = 0x223B"
| "client_error_code WeightNotSet = 0x223C"
| "client_error_code RouterStillRouting = 0x223D"
| "client_error_code InvalidEpochsBeforeStall = 0x223E"
| "client_error_code InvalidEpochsBeforeClose = 0x223F"
| "client_error_code InvalidSlotsAfterConsensus = 0x2240"
| "client_error_code VaultNeedsUpdate = 0x2241"
| "client_error_code InvalidAccountStatus = 0x2242"
| "client_error_code AccountAlreadyInitialized = 0x2243"
| "client_error_code BadBallot = 0x2244"
| "client_error_code VotingIsNotOver = 0x2245"
| "client_error_code OperatorIsNotInSnapshot = 0x2246"
| "client_error_code InvalidAccountToCloseDiscriminator = 0x2247"
| "client_error_code CannotCloseAccount = 0x2248"
| "client_error_code CannotCloseAccountAlreadyClosed = 0x2249"
| "client_error_code CannotCloseAccountNotEnoughEpochs = 0x224A"
| "client_error_code CannotCloseAccountNoReceiverProvided = 0x224B"
| "client_error_code CannotCloseAccountNoEnoughAccounts = 0x224C"
| "client_error_code CannotCloseEpochStateAccount = 0x224D"
| "client_error_code InvalidNCNFeeWallet = 0x224E"
| "client_error_code EpochIsClosingDown = 0x224F"
| "client_error_code MarkerExists = 0x2250"

definition client_errors :: "ncn_error list" where
  "client_errors =
     [NoValidBallots, DenominatorIsZero, ArithmeticOverflow, ArithmeticUnderflowError,
      ArithmeticFloorError, ModuloOverflow, NewPreciseNumberError, CastToImpreciseNumberError,
      CastToU64Error, CastToU128Error, IncorrectWeightTableAdmin, DuplicateMintsInTable,
      NoMintsInTable, TableNotInitialized, RegistryNotInitialized, NoVaultsInRegistry,
      VaultNotInRegistry, MintInTable, TooManyMintsForTable, TooManyVaultsForRegistry,
      WeightTableAlreadyInitialized, CannotCreateFutureWeightTables, WeightMintsDoNotMatchLength,
      WeightMintsDoNotMatchMintHash, InvalidMintForWeightTable, ConfigMintsNotUpdated,
      ConfigMintListFull, VaultRegistryListFull, VaultRegistryVaultLocked,
      VaultIndexAlreadyInUse, MintEntryNotFound, FeeCapExceeded, TotalFeesCannotBeZero,
      DefaultProtocolWallet, DefaultNcnWallet, IncorrectNcnAdmin, IncorrectNcn,
      IncorrectFeeAdmin, WeightTableNotFinalized, WeightNotFound, NoOperators,
      VaultOperatorDelegationFinalized, OperatorFinalized, TooManyVaultOperatorDelegations,
      DuplicateVaultOperatorDelegation, DuplicateVoteCast, CannotVoteWithZeroStake,
      OperatorAlreadyVoted, OperatorVotesFull, BallotTallyFull, BallotTallyNotFoundFull,
      BallotTallyNotEmpty, ConsensusAlreadyReached, ConsensusNotReached,
      EpochSnapshotNotFinalized, VotingNotValid, TieBreakerAdminInvalid, VotingNotFinalized,
      TieBreakerNotInPriorVotes, InvalidMerkleProof, InvalidOperatorVoter, InvalidNcnFeeGroup,
      InvalidBaseFeeGroup, OperatorRewardListFull, OperatorRewardNotFound, VaultRewardNotFound,
      DestinationMismatch, NcnRewardRouteNotFound, FeeNotActive, NoRewards, WeightNotSet,
      RouterStillRouting, InvalidEpochsBeforeStall, InvalidEpochsBeforeClose,
      InvalidSlotsAfterConsensus, VaultNeedsUpdate, InvalidAccountStatus,
      AccountAlreadyInitialized, BadBallot, VotingIsNotOver, OperatorIsNotInSnapshot,
      InvalidAccountToCloseDiscriminator, CannotCloseAccount, CannotCloseAccountAlreadyClosed,
      CannotCloseAccountNotEnoughEpochs, CannotCloseAccountNoReceiverProvided,
      CannotCloseAccountNoEnoughAccounts, CannotCloseEpochStateAccount, InvalidNCNFeeWallet,
      EpochIsClosingDown, MarkerExists]"

text \<open>\<open>FromPrimitive\<close>: the variant with a given code.\<close>

definition client_error_from_u32 :: "u32 \<Rightarrow> ncn_error option" where
  "client_error_from_u32 code = find (\<lambda>e. client_error_code e = code) client_errors"

lemma find_by_key: "distinct (map f xs) \<Longrightarrow> x \<in> set xs \<Longrightarrow> find (\<lambda>y. f y = f x) xs = Some x"
  by (induction xs) auto

lemma client_codes: "client_error_code e = ncn_error_code e"
  by (cases e) simp_all

lemma client_errors_all: "e \<in> set client_errors"
  by (cases e) (simp_all add: client_errors_def)

lemma client_codes_distinct: "distinct (map client_error_code client_errors)"
proof -
  have "successively (<) (map client_error_code client_errors)"
    by (simp add: client_errors_def word_less_nat_alt)
  then show ?thesis using successively_conv_sorted_wrt [of "(<)" "map client_error_code client_errors"]
    by (simp only: transp_on_less strict_sorted_iff)
qed

text \<open>
  The client names every error the program returns: it decodes the code of each of the
  program's errors to the variant of the same name.
\<close>

lemma client_decodes_errors: "client_error_from_u32 (ncn_error_code e) = Some e"
  unfolding client_error_from_u32_def client_codes [symmetric]
  by (rule find_by_key [OF client_codes_distinct client_errors_all])

text \<open>So no two errors of the program share a code.\<close>

lemma error_codes_distinct: "ncn_error_code e = ncn_error_code e' \<Longrightarrow> e = e'"
  by (metis client_decodes_errors option.inject)

end
