(* ===== verification/Spec2Isabelle.thy ===== *)
theory Spec2Isabelle
  imports Account_Lifecycle Voting_Liveness Snapshot_Phase Protected_Data Client_Properties Account_Layout Client_Cpi Client_Errors
begin

text \<open>
  \<^bold>\<open>Verification of the NCN program template.\<close>

  The repository holds a Solana program for a node consensus network (NCN).  In every epoch
  the program copies the weights of the registered stake, snapshots the stake that vaults have
  delegated to operators, lets the operators vote on a weather status, declares consensus when
  two thirds of the stake agree, routes the rewards of the epoch to protocol, NCN, operators
  and vaults, and finally closes the accounts of the epoch.  The program consists of the
  account types of \<open>core/src\<close> with their operations and the instruction processors of
  \<open>program/src\<close> that load accounts, check them, and call the operations.  The client of
  \<open>cli/src\<close> drives it: single commands, a keeper that takes every epoch through its phases, and
  a loop with which an operator votes.  It builds its instructions with the Rust client that is
  generated from the program, \<open>clients/rust\<close>.

  \<^bold>\<open>Components.\<close>  Each account type is a record with the fields of its struct and one
  definition per method, under the method's name (prefixed by the type where two types share
  it).  Fixed arrays are lists, integers are words of their width, fallible methods return
  \<open>result\<close>, whose third value \<open>Panic\<close> is an aborted execution (index out of range, failed
  \<open>unwrap\<close>).

    \<^item> \<open>Ncn_Prelude\<close>, \<open>Ncn_Errors\<close>: integers, results, checked arithmetic; \<open>core/src/error.rs\<close>.
    \<^item> \<open>Precise_Number\<close>: \<open>core/src/constants.rs\<close> and the interface to \<open>spl_math\<close>'s
      \<open>PreciseNumber\<close>, which is not in the repository: a record of operations that is an
      argument of every definition that computes with it, and the locale \<open>precise_number\<close> of
      its documented fixed-point behaviour, interpreted on that arithmetic.
    \<^item> \<open>Slot_Table\<close>, \<open>Route_Table\<close>, \<open>Routing_Loop\<close>: locales for what the account types share,
      arrays filled from the front, tables of reward routes, and the interruptible loop over
      them; interpreted on the tables and loops of the code.
    \<^item> \<open>Stake_Weight\<close>, \<open>Fees\<close> (\<open>fees.rs\<close>, \<open>config.rs\<close>), \<open>Vault_Registry\<close>, \<open>Weight_Table\<close>
      (\<open>weight_entry.rs\<close>, \<open>weight_table.rs\<close>), \<open>Epoch_Snapshot\<close>, \<open>Ballot_Box\<close>, \<open>Epoch_State\<close>
      (\<open>epoch_state.rs\<close>, \<open>consensus_result.rs\<close>), \<open>Ncn_Reward_Router\<close> and
      \<open>Operator_Vault_Reward_Router\<close>: the account types of \<open>core/src\<close>.
    \<^item> \<open>Accounts\<close>, \<open>Solana_Runtime\<close>, \<open>Loaders\<close>, \<open>Account_Payer\<close>: typed account data with
      discriminators and sizes, the ledger, derived addresses, \<open>loaders.rs\<close> and the \<open>load\<close>
      functions of the account types, and creation, growth and closing of accounts
      (\<open>account_payer.rs\<close>, the receivers of the two reward routers).
    \<^item> \<open>Handlers_Config\<close>, \<open>Handlers_Snapshot\<close>, \<open>Handlers_Vote\<close>, \<open>Handlers_Reward\<close>,
      \<open>Handlers_Close\<close>: the 31 instruction processors of \<open>program/src\<close>, the instruction type
      of \<open>core/src/instruction.rs\<close> and the dispatch \<open>process_instruction\<close> of \<open>lib.rs\<close>.  A
      processor maps the accounts it is passed and a ledger to a new ledger or an error; an
      account passed twice is one account of the ledger.
    \<^item> \<open>Client_Instructions\<close>: the 31 builders of \<open>clients/rust\<close>, one definition for the metas and
      data of an instruction and one for \<open>instruction\<close> of its builder, whose fields are \<open>option\<close>
      arguments.  \<open>Client_Encoding\<close> and \<open>Client_Flags\<close> state what the program sees of them.
      \<open>borsh\<close> is not in the repository: its serializers are a record, its format the locale
      \<open>borsh_format\<close>, interpreted on the little-endian encoding with an executable decoder.
      The locale \<open>flag_laws\<close> has the flags of accounts the loaders depend on.  \<open>Client_Cpi\<close>: the
      second half of the same files, calls of the program by other programs, with the runtime's
      \<open>invoke\<close> as the record \<open>cpi\<close>.
    \<^item> \<open>Account_Layout\<close>: the bytes of the account types of \<open>core/src\<close>, and the account types of
      the generated client that read them.  Integers of \<open>jito_bytemuck\<close> and readers of \<open>borsh\<close>
      are the record \<open>wire\<close> with the locale \<open>wire_format\<close>; every struct is an instance of the
      locale \<open>layout\<close>, by \<open>sublocale\<close> from its fields.  \<open>Client_Errors\<close>: the error codes of the
      generated client, which agree with those of \<open>error.rs\<close>.
    \<^item> \<open>Client_Rpc\<close>: computations with errors on a \<open>world\<close> (ledger, number of RPC calls,
      transactions sent), against a \<open>network\<close>, the record of everything the client does not
      control: what others do between two calls, the clock, which calls fail and which
      transactions get lost, the packages and programs it calls.  Transactions run
      \<open>process_instruction\<close> on the decoded instructions of the program.  \<open>Client_Calls\<close>,
      \<open>Client_Cranks\<close>, \<open>Client_Reports\<close> and \<open>Client_Handler\<close>: \<open>getters.rs\<close>, \<open>instructions.rs\<close> and
      \<open>handler.rs\<close>.  \<open>Client_Main\<close>: the arguments after parsing, the handler made of them, the
      choice between loops and commands, and \<open>main\<close>; reading a key file and parsing a
      commitment level are the record \<open>environment\<close>.
    \<^item> \<open>Client_Metrics\<close>, \<open>Keeper_Loop\<close>, \<open>Operator_Loop\<close>: \<open>cli/src/keeper\<close> and
      \<open>cli/src/operator\<close>.  The states of the loops are threaded with the world, so that what
      a method wrote before it failed stays written.

  \<^bold>\<open>What is proved.\<close>

    \<^item> \<open>Ballot_Box_Correct\<close>, \<open>Voting_Properties\<close>: the invariant of a ballot box; exactly when a
      vote is accepted; when consensus is declared, with the exact meaning of the threshold,
      which is two thirds truncated to twelve decimals, and how far it is from two thirds; a
      decision is final; the ballot box refines an abstract election, call by call with the same
      arguments.
    \<^item> \<open>Config_Properties\<close>: fee updates take effect in the next epoch and stay within the cap;
      weight tables copied from registries; snapshots hold exact sums of the stake.
    \<^item> \<open>Epoch_Properties\<close>: phases of an epoch, statuses, and when accounts may be closed.
    \<^item> \<open>Ncn_Reward_Correct\<close>, \<open>Operator_Reward_Correct\<close>, \<open>Reward_Properties\<close>: rewards are
      conserved at every step, shares are the floors of the rational shares, an interrupted
      routing resumes without changing the result and completes, and the receiver account
      always covers what the router owes.
    \<^item> \<open>Account_Machine\<close>: an abstract machine on ledgers whose actions are the operations of
      the components, transfers, creation, growth and closing; its invariants.
      \<open>Handlers_Refine\<close>: a calculus that shows every processor to be a sequence of such
      actions, in the locale \<open>ncn_program\<close> that joins the laws of the runtime and of
      \<open>PreciseNumber\<close>.  \<open>Program_Runs\<close> lifts both to runs of transactions.
    \<^item> \<open>Program_Properties\<close>, \<open>Instruction_Properties\<close>, \<open>Account_Lifecycle\<close>: what every run
      keeps (well-formed data, lamports, permanent accounts, closed epochs), who must have
      signed the eight instructions that ask for an authority, what single instructions do,
      growth of accounts in steps, the addresses, and that the epoch state is the last account
      of an epoch to be closed.
    \<^item> \<open>Protected_Data\<close>: a calculus for processors that leave a field of a permanent account
      alone, in the locale \<open>kept_field\<close>, and that configurations and the mints of a registry
      change in a run only by a signed instruction.
    \<^item> \<open>Snapshot_Phase\<close>: what the two instructions of the snapshot phase do to the snapshots, and
      that in every run the epoch snapshot holds the sum of the complete operator snapshots.
    \<^item> \<open>Voting_Liveness\<close>: the checks of \<open>CastVote\<close> as a predicate, votes that pass them succeed
      unless the ballot box refuses them, and in every interleaving of votes with transactions
      on other accounts operators with two thirds of the stake decide the epoch.
    \<^item> \<open>Client_Sends\<close>, \<open>Client_Runs\<close>: one rule per combinator and one lemma per function of the
      client, in the collections \<open>sends_intros\<close> (the transactions a computation sends),
      \<open>keeps_intros\<close> (what it leaves alone) and \<open>no_err_intros\<close> (it returns no error).
      \<open>Client_Properties\<close> rests on them: what the client builds decodes to the instruction it
      means and carries the flags the processor asks for, except for the admin of three
      instructions; all that any command sends can be decoded by the program; the operator loop sends votes only; retries are bounded; the
      reallocations it sends suffice for each account type; the keeper stays within the epochs
      up to the one of the chain, works on all of them in turn and is ended by no error; and
      three situations in which it does not do what it is meant to.
    \<^item> \<open>Account_Layout\<close>: whatever was run, the generated client reads every account of the ledger
      back from its bytes.  \<open>Client_Cpi\<close>: calls by other programs invoke the instruction of the
      ordinary builder; the flags of additional accounts are swapped.

  \<^bold>\<open>Assumptions.\<close>  They are hypotheses of the theorems that need them, each discharged on a
  concrete instance in the witness of the theorem.  \<open>precise_number\<close>: the arithmetic of
  \<open>PreciseNumber\<close>.  \<open>runtime_laws\<close>: the effects of the system program's \<open>transfer\<close>,
  \<open>allocate\<close> and \<open>assign\<close>, of \<open>AccountInfo::realloc\<close>, and of the generic loaders.
  \<open>kinds_apart\<close>: derived addresses of accounts of different types differ (the seeds do, which
  is proved).  \<open>names_mint\<close>: \<open>AdminSetWeight\<close> and \<open>AdminSetStMint\<close> do not name the
  all-zero address; the program accepts it, which can break weight table and registry.  \<open>lawful\<close> collects them for the transactions of a run,
  together with a clock below \<open>u64::MAX\<close>.

  \<^bold>\<open>Bounds.\<close>  In the program every loop runs over an array or counts down, and is a structural
  recursion.  In the client two loops, in \<open>crank_distribute\<close> and the route commands, repeat an
  instruction until a router says it is done: they take fuel, and running out of it is \<open>Panic\<close>,
  which no caller catches, so no theorem takes a run without fuel for a success.  The two
  endless loops of the client are given by the number of iterations.  Stakes are assumed below
  \<open>2^112\<close> where rewards are shared, so that the products of \<open>PreciseNumber\<close> fit its 256 bits;
  the arrays have 256 operators and 64 mints and vaults, as in the code.

  \<^bold>\<open>Not modelled.\<close>  Of the program: messages and \<open>Display\<close>; the borrow flags of \<open>RefCell\<close>; the
  runtime's own checks after an instruction, such as that read-only accounts are unchanged;
  failure of the sysvars.  The runtime discards the effects of an instruction that fails, so
  the model of a failed instruction carries none.  Of the client: parsing of the
  command line, which \<open>clap\<close> generates; logging, progress bars and the upload of data points
  (their fields are evaluated); signing, which cannot fail as the only signer is the handler's
  key.  Of the generated client: the setters of the builders, each of which stores one field, the code behind
  the optional features for Anchor and serde, and error texts.  The TypeScript client, the IDL
  and the tests.
\<close>

end
